(* ===== verification/Prelude.thy ===== *)
theory Prelude
  imports Main "HOL-Library.Word"
begin

text \<open>
  What every component of the model shares: the Go types the services use (identifiers,
  instants, durations, 64-bit integers, JSON values), the shape of an HTTP answer, and the
  generic lemmas on lists and maps the component proofs rest on.

  \<^item> \<open>uuid\<close> is google/uuid's \<open>[16]byte\<close>, read as a 128-bit word; \<open>uuid_Nil\<close> is \<open>uuid.Nil\<close>.
    Fresh identifiers (\<open>uuid.New()\<close>) are arguments of the operation that draws them.
  \<^item> \<open>gotime\<close> is an instant in nanoseconds since the Unix epoch; \<open>time.Now()\<close> is an argument
    \<open>now\<close> of every operation that reads the clock. \<open>zero_time\<close> is Go's zero \<open>time.Time\<close>
    (the year 1), what \<open>IsZero\<close> tests.
  \<^item> \<open>duration\<close> is \<open>time.Duration\<close>: nanoseconds in 64 bits. \<open>time_Sub\<close> saturates, as
    \<open>Time.Sub\<close> does.
  \<^item> \<open>wrap64\<close> is the two's complement reading of Go's \<open>int\<close> (64 bits): \<open>+\<close>, \<open>*\<close> and \<open>/\<close> on
    \<open>int\<close> values that can leave the range are written with it.
  \<^item> A pointer field that only marks absence is an \<open>option\<close>, an error return is the left
    side of a sum. Go strings are byte strings, which is what \<open>string\<close> is.
\<close>

section \<open>Go types\<close>

type_synonym uuid = "128 word"

type_synonym gotime = int

type_synonym duration = int

definition uuid_Nil :: uuid where
  "uuid_Nil = 0"

definition zero_time :: gotime where
  "zero_time = - 62135596800 * 1000000000"

definition min_int64 :: int where
  "min_int64 = - (2 ^ 63)"

definition max_int64 :: int where
  "max_int64 = 2 ^ 63 - 1"

definition wrap64 :: "int \<Rightarrow> int" where
  "wrap64 x = (x + 2 ^ 63) mod 2 ^ 64 - 2 ^ 63"

definition sat64 :: "int \<Rightarrow> int" where
  "sat64 x = (if x < min_int64 then min_int64 else if max_int64 < x then max_int64 else x)"

definition time_Sub :: "gotime \<Rightarrow> gotime \<Rightarrow> duration" where
  "time_Sub t u = sat64 (t - u)"

definition go_div :: "int \<Rightarrow> int \<Rightarrow> int" where
  "go_div a b = wrap64 (sgn a * sgn b * (\<bar>a\<bar> div \<bar>b\<bar>))"

definition second :: duration where
  "second = 1000000000"

datatype json =
    JNull
  | JBool bool
  | JNum string
  | JStr string
  | JArr "json list"
  | JObj "(string \<times> json) list"

text \<open>A Go \<open>map[string]interface{}\<close>: \<open>None\<close> is the nil map.\<close>

type_synonym gomap = "(string \<times> json) list option"

text \<open>What \<open>json.NewDecoder(r.Body).Decode(&req)\<close> yields: an error text or the request.\<close>

type_synonym 'r decoded = "string + 'r"

section \<open>HTTP answers\<close>

text \<open>
  The JSON answers of the services: \<open>jsonError\<close> (a status, a code and a message) and
  \<open>jsonResponse\<close> (a status and a body).
\<close>

datatype 'b response =
    JsonError (resp_status: nat) string string
  | JsonResponse (resp_status: nat) 'b

section \<open>Shared lemmas\<close>

lemma wrap64_id: "min_int64 \<le> x \<Longrightarrow> x \<le> max_int64 \<Longrightarrow> wrap64 x = x"
  by (simp add: wrap64_def min_int64_def max_int64_def)

lemma wrap64_range: "min_int64 \<le> wrap64 x \<and> wrap64 x \<le> max_int64"
proof -
  have "0 \<le> (x + 2 ^ 63) mod 2 ^ 64" and "(x + 2 ^ 63) mod 2 ^ 64 < 2 ^ 64"
    by simp_all
  then show ?thesis
    by (simp add: wrap64_def min_int64_def max_int64_def)
qed

text \<open>\<open>LIMIT\<close> and \<open>OFFSET\<close> of a query.\<close>

definition page :: "int \<Rightarrow> int \<Rightarrow> 'a list \<Rightarrow> 'a list" where
  "page limit offset xs = take (nat limit) (drop (nat offset) xs)"

lemma page_set: "set (page limit offset xs) \<subseteq> set xs"
  by (auto simp: page_def dest: in_set_takeD in_set_dropD)

lemma page_length: "0 \<le> limit \<Longrightarrow> int (length (page limit offset xs)) \<le> limit"
  by (simp add: page_def)

text \<open>
  What every component proof about ordered queries needs: in a list sorted by a key, an element
  of the first \<open>n\<close> has fewer than \<open>n\<close> elements with a smaller key.
\<close>

lemma sorted_take_few_smaller:
  assumes "x \<in> set (take n (sort_key k xs))"
  shows "length (filter (\<lambda>y. k y < k x) xs) < n"
proof -
  obtain i where i: "i < n" "i < length xs" "sort_key k xs ! i = x"
    using assms by (auto simp: in_set_conv_nth)
  let ?ys = "sort_key k xs"
  have "length (filter (\<lambda>y. k y < k x) xs) = length (filter (\<lambda>y. k y < k x) ?ys)"
    by (simp add: filter_sort)
  also have "filter (\<lambda>y. k y < k x) ?ys = filter (\<lambda>y. k y < k x) (take i ?ys)"
  proof -
    have "\<forall>y \<in> set (drop i ?ys). \<not> k y < k x"
    proof
      fix y assume "y \<in> set (drop i ?ys)"
      then obtain j where "j < length (drop i ?ys)" "drop i ?ys ! j = y"
        by (meson in_set_conv_nth)
      then have j: "i + j < length ?ys" "?ys ! (i + j) = y" by simp_all
      then have "map k ?ys ! i \<le> map k ?ys ! (i + j)"
        by (intro sorted_nth_mono) simp_all
      with i j show "\<not> k y < k x" by simp
    qed
    then have "filter (\<lambda>y. k y < k x) (drop i ?ys) = []" by (simp add: filter_empty_conv)
    then show ?thesis
      by (metis append_Nil2 append_take_drop_id filter_append)
  qed
  also have "length \<dots> \<le> i" by (rule order.trans [OF length_filter_le]) simp
  finally show ?thesis using i by simp
qed

lemma length_filter_imp: "(\<And>x. P x \<Longrightarrow> Q x) \<Longrightarrow> length (filter P xs) \<le> length (filter Q xs)"
  by (induction xs) auto

text \<open>Looking a row up in a table, also after a row was updated.\<close>

lemma find_some: "find P xs = Some x \<Longrightarrow> x \<in> set xs \<and> P x"
  by (auto simp: find_Some_iff)

lemma find_filter: "find P (filter Q xs) = find (\<lambda>x. P x \<and> Q x) xs"
  by (induction xs) auto

lemma find_map_same:
  "(\<And>r. P (f r) = P r) \<Longrightarrow> find P (map f xs) = map_option f (find P xs)"
  by (induction xs) auto

lemma find_append: "find P (xs @ ys) = (case find P xs of None \<Rightarrow> find P ys | Some x \<Rightarrow> Some x)"
  by (induction xs) auto

lemma find_key:
  assumes "distinct (map k xs)" and "x \<in> set xs"
  shows "find (\<lambda>y. k y = k x) xs = Some x"
  using assms by (induction xs) (auto simp: rev_image_eqI)

lemma same_key: "distinct (map k xs) \<Longrightarrow> x \<in> set xs \<Longrightarrow> y \<in> set xs \<Longrightarrow> k x = k y \<Longrightarrow> x = y"
  by (metis find_key option.inject)

section \<open>Walking a Go map\<close>

text \<open>The list in the order the choices give; every list of choices gives a permutation.\<close>

fun shuffle :: "nat list \<Rightarrow> 'a list \<Rightarrow> 'a list" where
  "shuffle (n # ns) (x # xs) =
     (let i = n mod Suc (length xs)
      in (x # xs) ! i # shuffle ns (take i (x # xs) @ drop (Suc i) (x # xs)))"
| "shuffle ns xs = xs"

lemma shuffle_set: "set (shuffle ns xs) = set xs"
proof (induction ns xs rule: shuffle.induct)
  case (1 n ns x xs)
  let ?i = "n mod Suc (length xs)"
  have "?i < length (x # xs)" by simp
  then have "set (x # xs) = insert ((x # xs) ! ?i) (set (take ?i (x # xs) @ drop (Suc ?i) (x # xs)))"
    using id_take_nth_drop [of ?i "x # xs"] by (metis Un_insert_right list.simps(15) set_append)
  with 1 show ?case by (simp add: Let_def)
qed auto

end
