(* ===== verification/ApprovalDomain.thy ===== *)
theory ApprovalDomain
  imports Prelude
begin

text \<open>
  The approval workflow state machine (services/approval/internal/domain/workflow.go): the
  workflow aggregate with its history, the approver table, the constructor and the five
  transitions. \<open>WorkflowType\<close>, \<open>WorkflowStatus\<close> and \<open>ApprovalRole\<close> are Go string types, so
  any byte string can arrive in a request; their constants are abbreviations below.

  The lemmas give the exact guard and effect of every transition, the invariant of all
  reachable workflows (the history is a chain from draft to the current status) and what an
  approved or locked workflow must have in its history.
\<close>

section \<open>Data\<close>

type_synonym WorkflowType = string
type_synonym WorkflowStatus = string
type_synonym ApprovalRole = string

abbreviation WorkflowTypeAuditPlan :: WorkflowType where
  "WorkflowTypeAuditPlan \<equiv> ''audit_plan''"
abbreviation WorkflowTypeFindingSignoff :: WorkflowType where
  "WorkflowTypeFindingSignoff \<equiv> ''finding_signoff''"
abbreviation WorkflowTypeReportRelease :: WorkflowType where
  "WorkflowTypeReportRelease \<equiv> ''report_release''"

abbreviation StatusDraft :: WorkflowStatus where "StatusDraft \<equiv> ''draft''"
abbreviation StatusPendingApproval :: WorkflowStatus where
  "StatusPendingApproval \<equiv> ''pending_approval''"
abbreviation StatusApproved :: WorkflowStatus where "StatusApproved \<equiv> ''approved''"
abbreviation StatusLocked :: WorkflowStatus where "StatusLocked \<equiv> ''locked''"
abbreviation StatusRejected :: WorkflowStatus where "StatusRejected \<equiv> ''rejected''"

abbreviation RoleEngagementLead :: ApprovalRole where
  "RoleEngagementLead \<equiv> ''engagement_lead''"
abbreviation RoleChiefAuditExecutive :: ApprovalRole where
  "RoleChiefAuditExecutive \<equiv> ''chief_audit_executive''"
abbreviation RoleReviewer :: ApprovalRole where "RoleReviewer \<equiv> ''reviewer''"

datatype wf_error =
    ErrWorkflowNotFound
  | ErrInvalidTransition
  | ErrUnauthorizedRole
  | ErrWorkflowLocked
  | ErrPasswordRequired
  | ErrInvalidPassword
  | ErrRejectionReasonRequired

definition allowedApprovers :: "WorkflowType \<Rightarrow> ApprovalRole list" where
  "allowedApprovers wt =
     (if wt = WorkflowTypeAuditPlan then [RoleChiefAuditExecutive]
      else if wt = WorkflowTypeFindingSignoff then [RoleEngagementLead, RoleChiefAuditExecutive]
      else if wt = WorkflowTypeReportRelease then [RoleEngagementLead, RoleChiefAuditExecutive]
      else [])"

fun role_in :: "ApprovalRole list \<Rightarrow> ApprovalRole \<Rightarrow> bool" where
  "role_in [] role = False"
| "role_in (r # rs) role = (if r = role then True else role_in rs role)"

definition CanApprove :: "WorkflowType \<Rightarrow> ApprovalRole \<Rightarrow> bool" where
  "CanApprove wt role = role_in (allowedApprovers wt) role"

record HistoryEntry =
  he_ID :: int
  he_WorkflowID :: uuid
  he_OrgID :: uuid
  he_ActorID :: "uuid option"
  he_ActorEmail :: string
  he_ActorRole :: ApprovalRole
  he_Action :: string
  he_FromStatus :: WorkflowStatus
  he_ToStatus :: WorkflowStatus
  he_Comment :: string
  he_OccurredAt :: gotime

record Workflow =
  wf_ID :: uuid
  wf_OrgID :: uuid
  wf_WorkflowType :: WorkflowType
  wf_Status :: WorkflowStatus
  wf_ResourceType :: string
  wf_ResourceID :: uuid
  wf_EngagementID :: "uuid option"
  wf_SubmittedByID :: "uuid option"
  wf_SubmittedByEmail :: string
  wf_SubmittedAt :: "gotime option"
  wf_DecidedByID :: "uuid option"
  wf_DecidedByEmail :: string
  wf_DecidedAt :: "gotime option"
  wf_LatestComment :: string
  wf_RejectionReason :: string
  wf_History :: "HistoryEntry list"
  wf_Metadata :: gomap
  wf_CreatedAt :: gotime
  wf_UpdatedAt :: gotime

record CreateWorkflowRequest =
  cw_OrgID :: uuid
  cw_WorkflowType :: WorkflowType
  cw_ResourceType :: string
  cw_ResourceID :: uuid
  cw_EngagementID :: "uuid option"
  cw_Metadata :: gomap

record SubmitRequest =
  sr_ActorID :: uuid
  sr_ActorEmail :: string
  sr_ActorRole :: ApprovalRole
  sr_Comment :: string

record ApproveRequest =
  ar_ActorID :: uuid
  ar_ActorEmail :: string
  ar_ActorRole :: ApprovalRole
  ar_Comment :: string
  ar_PasswordConfirm :: string

record RejectRequest =
  rr_ActorID :: uuid
  rr_ActorEmail :: string
  rr_ActorRole :: ApprovalRole
  rr_RejectionReason :: string

record LockRequest =
  lr_ActorID :: uuid
  lr_ActorEmail :: string
  lr_ActorRole :: ApprovalRole
  lr_PasswordConfirm :: string
  lr_Comment :: string

section \<open>Operations\<close>

definition NewWorkflow :: "uuid \<Rightarrow> gotime \<Rightarrow> CreateWorkflowRequest \<Rightarrow> Workflow" where
  "NewWorkflow newID now req =
     \<lparr> wf_ID = newID, wf_OrgID = cw_OrgID req, wf_WorkflowType = cw_WorkflowType req,
       wf_Status = StatusDraft, wf_ResourceType = cw_ResourceType req,
       wf_ResourceID = cw_ResourceID req, wf_EngagementID = cw_EngagementID req,
       wf_SubmittedByID = None, wf_SubmittedByEmail = [], wf_SubmittedAt = None,
       wf_DecidedByID = None, wf_DecidedByEmail = [], wf_DecidedAt = None,
       wf_LatestComment = [], wf_RejectionReason = [], wf_History = [],
       wf_Metadata = cw_Metadata req, wf_CreatedAt = now, wf_UpdatedAt = now \<rparr>"

text \<open>
  \<open>applyTransition\<close>: the entry, the common fields, then the \<open>switch\<close> on the target status.
\<close>

definition transition_entry ::
  "gotime \<Rightarrow> Workflow \<Rightarrow> string \<Rightarrow> WorkflowStatus \<Rightarrow> WorkflowStatus \<Rightarrow> uuid \<Rightarrow> string \<Rightarrow>
   ApprovalRole \<Rightarrow> string \<Rightarrow> HistoryEntry" where
  "transition_entry now w action from to actorID actorEmail actorRole comment =
     \<lparr> he_ID = 0, he_WorkflowID = wf_ID w, he_OrgID = wf_OrgID w, he_ActorID = Some actorID,
       he_ActorEmail = actorEmail, he_ActorRole = actorRole, he_Action = action,
       he_FromStatus = from, he_ToStatus = to, he_Comment = comment, he_OccurredAt = now \<rparr>"

definition transition_fields ::
  "gotime \<Rightarrow> WorkflowStatus \<Rightarrow> uuid \<Rightarrow> string \<Rightarrow> string \<Rightarrow> Workflow \<Rightarrow> Workflow" where
  "transition_fields now to actorID actorEmail rejectionReason w =
     (if to = StatusPendingApproval then
        w\<lparr> wf_SubmittedByID := Some actorID, wf_SubmittedByEmail := actorEmail,
           wf_SubmittedAt := Some now \<rparr>
      else if to = StatusApproved \<or> to = StatusLocked then
        w\<lparr> wf_DecidedByID := Some actorID, wf_DecidedByEmail := actorEmail,
           wf_DecidedAt := Some now \<rparr>
      else if to = StatusRejected then
        w\<lparr> wf_RejectionReason := rejectionReason, wf_DecidedByID := Some actorID,
           wf_DecidedByEmail := actorEmail, wf_DecidedAt := Some now \<rparr>
      else if to = StatusDraft then w\<lparr> wf_RejectionReason := [] \<rparr>
      else w)"

definition applyTransition ::
  "gotime \<Rightarrow> Workflow \<Rightarrow> string \<Rightarrow> WorkflowStatus \<Rightarrow> WorkflowStatus \<Rightarrow> uuid \<Rightarrow> string \<Rightarrow>
   ApprovalRole \<Rightarrow> string \<Rightarrow> string \<Rightarrow> Workflow \<times> HistoryEntry" where
  "applyTransition now w action from to actorID actorEmail actorRole comment rejectionReason =
     (let entry = transition_entry now w action from to actorID actorEmail actorRole comment;
          w1 = w\<lparr> wf_Status := to, wf_LatestComment := comment, wf_UpdatedAt := now \<rparr>;
          w2 = transition_fields now to actorID actorEmail rejectionReason w1
      in (w2\<lparr> wf_History := wf_History w2 @ [entry] \<rparr>, entry))"

definition wf_Submit ::
  "gotime \<Rightarrow> Workflow \<Rightarrow> SubmitRequest \<Rightarrow> wf_error + (Workflow \<times> HistoryEntry)" where
  "wf_Submit now w req =
     (if wf_Status w = StatusLocked then Inl ErrWorkflowLocked
      else if wf_Status w \<noteq> StatusDraft \<and> wf_Status w \<noteq> StatusRejected
      then Inl ErrInvalidTransition
      else if sr_ActorRole req \<noteq> RoleEngagementLead then Inl ErrUnauthorizedRole
      else Inr (applyTransition now w ''submitted'' (wf_Status w) StatusPendingApproval
             (sr_ActorID req) (sr_ActorEmail req) (sr_ActorRole req) (sr_Comment req) []))"

definition wf_Approve ::
  "gotime \<Rightarrow> Workflow \<Rightarrow> ApproveRequest \<Rightarrow> wf_error + (Workflow \<times> HistoryEntry)" where
  "wf_Approve now w req =
     (if wf_Status w = StatusLocked then Inl ErrWorkflowLocked
      else if wf_Status w \<noteq> StatusPendingApproval then Inl ErrInvalidTransition
      else if \<not> CanApprove (wf_WorkflowType w) (ar_ActorRole req) then Inl ErrUnauthorizedRole
      else Inr (applyTransition now w ''approved'' (wf_Status w) StatusApproved
             (ar_ActorID req) (ar_ActorEmail req) (ar_ActorRole req) (ar_Comment req) []))"

definition wf_Lock ::
  "gotime \<Rightarrow> Workflow \<Rightarrow> LockRequest \<Rightarrow> wf_error + (Workflow \<times> HistoryEntry)" where
  "wf_Lock now w req =
     (if wf_Status w = StatusLocked then Inl ErrWorkflowLocked
      else if wf_Status w \<noteq> StatusApproved then Inl ErrInvalidTransition
      else if \<not> CanApprove (wf_WorkflowType w) (lr_ActorRole req) then Inl ErrUnauthorizedRole
      else if wf_WorkflowType w = WorkflowTypeReportRelease \<and> lr_PasswordConfirm req = []
      then Inl ErrPasswordRequired
      else Inr (applyTransition now w ''locked'' (wf_Status w) StatusLocked
             (lr_ActorID req) (lr_ActorEmail req) (lr_ActorRole req) (lr_Comment req) []))"

definition wf_Reject ::
  "gotime \<Rightarrow> Workflow \<Rightarrow> RejectRequest \<Rightarrow> wf_error + (Workflow \<times> HistoryEntry)" where
  "wf_Reject now w req =
     (if wf_Status w = StatusLocked then Inl ErrWorkflowLocked
      else if wf_Status w \<noteq> StatusPendingApproval then Inl ErrInvalidTransition
      else if \<not> CanApprove (wf_WorkflowType w) (rr_ActorRole req) then Inl ErrUnauthorizedRole
      else if rr_RejectionReason req = [] then Inl ErrRejectionReasonRequired
      else Inr (applyTransition now w ''rejected'' (wf_Status w) StatusRejected
             (rr_ActorID req) (rr_ActorEmail req) (rr_ActorRole req) [] (rr_RejectionReason req)))"

definition wf_ReturnToDraft ::
  "gotime \<Rightarrow> Workflow \<Rightarrow> SubmitRequest \<Rightarrow> wf_error + (Workflow \<times> HistoryEntry)" where
  "wf_ReturnToDraft now w req =
     (if wf_Status w \<noteq> StatusRejected then Inl ErrInvalidTransition
      else if sr_ActorRole req \<noteq> RoleEngagementLead then Inl ErrUnauthorizedRole
      else Inr (applyTransition now w ''returned_to_draft'' (wf_Status w) StatusDraft
             (sr_ActorID req) (sr_ActorEmail req) (sr_ActorRole req) (sr_Comment req) []))"

section \<open>One transition\<close>

text \<open>The five calls of the service as one alphabet, so that runs can be stated once.\<close>

datatype wf_op =
    OpSubmit gotime SubmitRequest
  | OpApprove gotime ApproveRequest
  | OpReject gotime RejectRequest
  | OpLock gotime LockRequest
  | OpReturnToDraft gotime SubmitRequest

fun wf_apply :: "Workflow \<Rightarrow> wf_op \<Rightarrow> wf_error + (Workflow \<times> HistoryEntry)" where
  "wf_apply w (OpSubmit now req) = wf_Submit now w req"
| "wf_apply w (OpApprove now req) = wf_Approve now w req"
| "wf_apply w (OpReject now req) = wf_Reject now w req"
| "wf_apply w (OpLock now req) = wf_Lock now w req"
| "wf_apply w (OpReturnToDraft now req) = wf_ReturnToDraft now w req"

text \<open>
  The abstract machine: which role may take which action from which status. The documented
  diagram is draft, pending, approved, locked, with rejection back to draft; resubmitting
  straight from rejected is a transition of the code too.
\<close>

inductive wf_edge ::
  "WorkflowType \<Rightarrow> WorkflowStatus \<Rightarrow> string \<Rightarrow> ApprovalRole \<Rightarrow> WorkflowStatus \<Rightarrow> bool" where
  submit: "wf_edge wt StatusDraft ''submitted'' RoleEngagementLead StatusPendingApproval"
| resubmit: "wf_edge wt StatusRejected ''submitted'' RoleEngagementLead StatusPendingApproval"
| approve: "CanApprove wt r \<Longrightarrow> wf_edge wt StatusPendingApproval ''approved'' r StatusApproved"
| reject: "CanApprove wt r \<Longrightarrow> wf_edge wt StatusPendingApproval ''rejected'' r StatusRejected"
| lock: "CanApprove wt r \<Longrightarrow> wf_edge wt StatusApproved ''locked'' r StatusLocked"
| return: "wf_edge wt StatusRejected ''returned_to_draft'' RoleEngagementLead StatusDraft"

inductive_cases edge_to_pending: "wf_edge wt s a r StatusPendingApproval"
inductive_cases edge_to_approved: "wf_edge wt s a r StatusApproved"
inductive_cases edge_to_locked: "wf_edge wt s a r StatusLocked"
inductive_cases edge_from_locked: "wf_edge wt StatusLocked a r t"

lemmas wf_ops = wf_Submit_def wf_Approve_def wf_Reject_def wf_Lock_def wf_ReturnToDraft_def

lemma transition_fields_sel [simp]:
  "wf_ID (transition_fields now to aid email reason w) = wf_ID w"
  "wf_OrgID (transition_fields now to aid email reason w) = wf_OrgID w"
  "wf_WorkflowType (transition_fields now to aid email reason w) = wf_WorkflowType w"
  "wf_Status (transition_fields now to aid email reason w) = wf_Status w"
  "wf_History (transition_fields now to aid email reason w) = wf_History w"
  "wf_UpdatedAt (transition_fields now to aid email reason w) = wf_UpdatedAt w"
  by (simp_all add: transition_fields_def)

lemma applyTransition_entry:
  "applyTransition now w action from to aid email role comment reason = (w', e) \<Longrightarrow>
   e = transition_entry now w action from to aid email role comment"
  by (simp add: applyTransition_def Let_def)

lemma applyTransition_result:
  "applyTransition now w action from to aid email role comment reason = (w', e) \<Longrightarrow>
   w' = (transition_fields now to aid email reason
           (w\<lparr> wf_Status := to, wf_LatestComment := comment, wf_UpdatedAt := now \<rparr>))
         \<lparr> wf_History := wf_History w @ [e] \<rparr>"
  by (auto simp: applyTransition_def Let_def)

lemma applyTransition_frame:
  assumes "applyTransition now w action from to aid email role comment reason = (w', e)"
  shows "wf_ID w' = wf_ID w" and "wf_OrgID w' = wf_OrgID w"
    and "wf_WorkflowType w' = wf_WorkflowType w"
    and "wf_Status w' = to" and "wf_UpdatedAt w' = now"
    and "wf_History w' = wf_History w @ [e]"
  by (simp_all add: applyTransition_result [OF assms])

lemma transition_entry_sel [simp]:
  "he_FromStatus (transition_entry now w action from to aid email role comment) = from"
  "he_ToStatus (transition_entry now w action from to aid email role comment) = to"
  "he_Action (transition_entry now w action from to aid email role comment) = action"
  "he_ActorRole (transition_entry now w action from to aid email role comment) = role"
  "he_ActorID (transition_entry now w action from to aid email role comment) = Some aid"
  "he_WorkflowID (transition_entry now w action from to aid email role comment) = wf_ID w"
  "he_OrgID (transition_entry now w action from to aid email role comment) = wf_OrgID w"
  "he_OccurredAt (transition_entry now w action from to aid email role comment) = now"
  by (simp_all add: transition_entry_def)

text \<open>Every successful call is one \<open>applyTransition\<close> along an edge of the machine.\<close>

lemma wf_apply_cases:
  assumes "wf_apply w op = Inr (w', e)"
  obtains now action to aid email role comment reason where
    "applyTransition now w action (wf_Status w) to aid email role comment reason = (w', e)"
    "wf_edge (wf_WorkflowType w) (wf_Status w) action role to"
proof (cases op)
  case (OpSubmit now req)
  with assms show ?thesis
    by (auto simp: wf_Submit_def intro!: that intro: wf_edge.submit wf_edge.resubmit split: if_splits)
next
  case (OpApprove now req)
  with assms show ?thesis
    by (auto simp: wf_Approve_def intro!: that intro: wf_edge.approve split: if_splits)
next
  case (OpReject now req)
  with assms show ?thesis
    by (auto simp: wf_Reject_def intro!: that intro: wf_edge.reject split: if_splits)
next
  case (OpLock now req)
  with assms show ?thesis
    by (auto simp: wf_Lock_def intro!: that intro: wf_edge.lock split: if_splits)
next
  case (OpReturnToDraft now req)
  with assms show ?thesis
    by (auto simp: wf_ReturnToDraft_def intro!: that intro: wf_edge.return split: if_splits)
qed

lemma wf_apply_step:
  assumes "wf_apply w op = Inr (w', e)"
  shows "wf_edge (wf_WorkflowType w) (wf_Status w) (he_Action e) (he_ActorRole e) (wf_Status w')"
    and "he_FromStatus e = wf_Status w" and "he_ToStatus e = wf_Status w'"
    and "wf_History w' = wf_History w @ [e]"
    and "he_WorkflowID e = wf_ID w" and "he_OrgID e = wf_OrgID w"
    and "wf_ID w' = wf_ID w" and "wf_OrgID w' = wf_OrgID w"
    and "wf_WorkflowType w' = wf_WorkflowType w"
proof -
  obtain now action to aid email role comment reason where
    t: "applyTransition now w action (wf_Status w) to aid email role comment reason = (w', e)"
    and edge: "wf_edge (wf_WorkflowType w) (wf_Status w) action role to"
    using assms by (rule wf_apply_cases)
  note facts = applyTransition_frame [OF t] applyTransition_entry [OF t] edge
  show "wf_edge (wf_WorkflowType w) (wf_Status w) (he_Action e) (he_ActorRole e) (wf_Status w')"
    and "he_FromStatus e = wf_Status w" and "he_ToStatus e = wf_Status w'"
    and "wf_History w' = wf_History w @ [e]"
    and "he_WorkflowID e = wf_ID w" and "he_OrgID e = wf_OrgID w"
    and "wf_ID w' = wf_ID w" and "wf_OrgID w' = wf_OrgID w"
    and "wf_WorkflowType w' = wf_WorkflowType w"
    using facts by simp_all
qed

section \<open>Runs\<close>

text \<open>
  A history is a run of the abstract machine when each entry is an edge out of the status the
  previous one led to, starting in draft.
\<close>

inductive wf_run :: "WorkflowType \<Rightarrow> HistoryEntry list \<Rightarrow> WorkflowStatus \<Rightarrow> bool" where
  start: "wf_run wt [] StatusDraft"
| extend: "wf_run wt h s \<Longrightarrow> he_FromStatus e = s \<Longrightarrow> he_ToStatus e = t \<Longrightarrow>
     wf_edge wt s (he_Action e) (he_ActorRole e) t \<Longrightarrow> wf_run wt (h @ [e]) t"

inductive wf_reachable :: "Workflow \<Rightarrow> bool" where
  new: "wf_reachable (NewWorkflow newID now req)"
| step: "wf_reachable w \<Longrightarrow> wf_apply w op = Inr (w', e) \<Longrightarrow> wf_reachable w'"

inductive_cases run_pending: "wf_run wt h StatusPendingApproval"
inductive_cases run_approved: "wf_run wt h StatusApproved"
inductive_cases run_locked: "wf_run wt h StatusLocked"

lemma reachable_run: "wf_reachable w \<Longrightarrow> wf_run (wf_WorkflowType w) (wf_History w) (wf_Status w)"
proof (induction rule: wf_reachable.induct)
  case (new newID now req)
  show ?case by (simp add: NewWorkflow_def wf_run.start)
next
  case (step w op w' e)
  show ?case
    using wf_run.extend [OF step.IH, of e "wf_Status w'"] wf_apply_step [OF step.hyps(2)] by simp
qed

definition history_owned :: "Workflow \<Rightarrow> bool" where
  "history_owned w \<longleftrightarrow>
     list_all (\<lambda>e. he_WorkflowID e = wf_ID w \<and> he_OrgID e = wf_OrgID w) (wf_History w)"

lemma reachable_history_owned: "wf_reachable w \<Longrightarrow> history_owned w"
proof (induction rule: wf_reachable.induct)
  case (new newID now req)
  show ?case by (simp add: NewWorkflow_def history_owned_def)
next
  case (step w op w' e)
  then show ?case using wf_apply_step [OF step.hyps(2)] by (simp add: history_owned_def)
qed

lemma run_approved_suffix:
  assumes "wf_run wt h StatusApproved"
  shows "\<exists>pre s a. h = pre @ [s, a] \<and>
     he_Action s = ''submitted'' \<and> he_ActorRole s = RoleEngagementLead \<and>
     he_Action a = ''approved'' \<and> CanApprove wt (he_ActorRole a)"
proof -
  from assms obtain h1 a s1 where h: "h = h1 @ [a]" and r1: "wf_run wt h1 s1"
    and e1: "wf_edge wt s1 (he_Action a) (he_ActorRole a) StatusApproved"
    by (auto elim: run_approved)
  from e1 have a: "s1 = StatusPendingApproval" "he_Action a = ''approved''"
      "CanApprove wt (he_ActorRole a)"
    by (auto elim: edge_to_approved)
  with r1 obtain h2 s s2 where h1: "h1 = h2 @ [s]"
    and e2: "wf_edge wt s2 (he_Action s) (he_ActorRole s) StatusPendingApproval"
    by (auto elim: run_pending)
  from e2 have "he_Action s = ''submitted''" "he_ActorRole s = RoleEngagementLead"
    by (auto elim: edge_to_pending)
  with a h h1 show ?thesis by auto
qed

lemma run_locked_suffix:
  assumes "wf_run wt h StatusLocked"
  shows "\<exists>pre l. h = pre @ [l] \<and> wf_run wt pre StatusApproved \<and>
     he_Action l = ''locked'' \<and> CanApprove wt (he_ActorRole l)"
proof -
  from assms obtain pre l s1 where h: "h = pre @ [l]" and r: "wf_run wt pre s1"
    and e: "wf_edge wt s1 (he_Action l) (he_ActorRole l) StatusLocked"
    by (auto elim: run_locked)
  from e have "s1 = StatusApproved" "he_Action l = ''locked''" "CanApprove wt (he_ActorRole l)"
    by (auto elim: edge_to_locked)
  with h r show ?thesis by auto
qed

section \<open>Guards, fields and decisions\<close>

text \<open>What a call asks of the abstract machine.\<close>

fun op_action :: "wf_op \<Rightarrow> string" where
  "op_action (OpSubmit _ _) = ''submitted''"
| "op_action (OpApprove _ _) = ''approved''"
| "op_action (OpReject _ _) = ''rejected''"
| "op_action (OpLock _ _) = ''locked''"
| "op_action (OpReturnToDraft _ _) = ''returned_to_draft''"

fun op_role :: "wf_op \<Rightarrow> ApprovalRole" where
  "op_role (OpSubmit _ req) = sr_ActorRole req"
| "op_role (OpApprove _ req) = ar_ActorRole req"
| "op_role (OpReject _ req) = rr_ActorRole req"
| "op_role (OpLock _ req) = lr_ActorRole req"
| "op_role (OpReturnToDraft _ req) = sr_ActorRole req"

fun op_target :: "wf_op \<Rightarrow> WorkflowStatus" where
  "op_target (OpSubmit _ _) = StatusPendingApproval"
| "op_target (OpApprove _ _) = StatusApproved"
| "op_target (OpReject _ _) = StatusRejected"
| "op_target (OpLock _ _) = StatusLocked"
| "op_target (OpReturnToDraft _ _) = StatusDraft"

text \<open>The two requirements beyond status and role: a rejection needs a reason, and locking a
  report release needs a non-empty password confirmation.\<close>

fun op_confirmed :: "Workflow \<Rightarrow> wf_op \<Rightarrow> bool" where
  "op_confirmed w (OpReject _ req) = (rr_RejectionReason req \<noteq> [])"
| "op_confirmed w (OpLock _ req) =
     (wf_WorkflowType w \<noteq> WorkflowTypeReportRelease \<or> lr_PasswordConfirm req \<noteq> [])"
| "op_confirmed w _ = True"

inductive_simps edge_submitted: "wf_edge wt s ''submitted'' r t"
inductive_simps edge_approved: "wf_edge wt s ''approved'' r t"
inductive_simps edge_rejected: "wf_edge wt s ''rejected'' r t"
inductive_simps edge_locked: "wf_edge wt s ''locked'' r t"
inductive_simps edge_returned: "wf_edge wt s ''returned_to_draft'' r t"

lemmas edge_simps = edge_submitted edge_approved edge_rejected edge_locked edge_returned

lemma wf_apply_guard:
  "(\<exists>r. wf_apply w op = Inr r) \<longleftrightarrow>
     wf_edge (wf_WorkflowType w) (wf_Status w) (op_action op) (op_role op) (op_target op) \<and>
     op_confirmed w op"
  by (cases op) (auto simp: wf_ops edge_simps)

definition decision_fields :: "Workflow \<Rightarrow> bool" where
  "decision_fields w \<longleftrightarrow>
     (wf_Status w = StatusPendingApproval \<longrightarrow>
        wf_SubmittedByID w = he_ActorID (last (wf_History w)) \<and>
        wf_SubmittedByEmail w = he_ActorEmail (last (wf_History w)) \<and>
        wf_SubmittedAt w = Some (he_OccurredAt (last (wf_History w)))) \<and>
     (wf_Status w \<in> {StatusApproved, StatusLocked, StatusRejected} \<longrightarrow>
        wf_DecidedByID w = he_ActorID (last (wf_History w)) \<and>
        wf_DecidedByEmail w = he_ActorEmail (last (wf_History w)) \<and>
        wf_DecidedAt w = Some (he_OccurredAt (last (wf_History w))))"

lemma applyTransition_decision:
  assumes "applyTransition now w action from to aid email role comment reason = (w', e)"
  shows "decision_fields w'"
  by (simp add: decision_fields_def applyTransition_result [OF assms] transition_fields_def
      applyTransition_entry [OF assms] transition_entry_def)

lemma reachable_decision_fields: "wf_reachable w \<Longrightarrow> decision_fields w"
proof (induction rule: wf_reachable.induct)
  case (new newID now req)
  show ?case by (simp add: NewWorkflow_def decision_fields_def)
next
  case (step w op w' e)
  from step.hyps(2) show ?case
    by (rule wf_apply_cases) (rule applyTransition_decision)
qed

lemma wf_apply_rejected_reason:
  assumes "wf_apply w op = Inr (w', e)" and "wf_Status w' = StatusRejected"
  shows "wf_RejectionReason w' \<noteq> []"
  using assms
  by (cases op)
    (auto simp: wf_ops applyTransition_def transition_fields_def Let_def split: if_splits)

lemma reachable_rejected_reason:
  "wf_reachable w \<Longrightarrow> wf_Status w = StatusRejected \<Longrightarrow> wf_RejectionReason w \<noteq> []"
  by (erule wf_reachable.cases) (auto simp: NewWorkflow_def dest: wf_apply_rejected_reason)

lemma submit_keeps_reason:
  "wf_Submit now w req = Inr (w', e) \<Longrightarrow> wf_RejectionReason w' = wf_RejectionReason w"
  by (auto simp: wf_Submit_def applyTransition_def transition_fields_def Let_def split: if_splits)

lemma approve_keeps_reason:
  "wf_Approve now w req = Inr (w', e) \<Longrightarrow> wf_RejectionReason w' = wf_RejectionReason w"
  by (auto simp: wf_Approve_def applyTransition_def transition_fields_def Let_def split: if_splits)

section \<open>Properties\<close>

text \<open>
  C3. The transitions implement the abstract machine exactly: a call succeeds if and only if
  its action, by its role, is an edge from the current status and its own confirmation is
  given; a successful call moves along that edge and appends exactly one history entry.
\<close>

theorem approval_refines_machine:
  "((\<exists>r. wf_apply w op = Inr r) \<longleftrightarrow>
      wf_edge (wf_WorkflowType w) (wf_Status w) (op_action op) (op_role op) (op_target op) \<and>
      op_confirmed w op) \<and>
   (case wf_apply w op of Inl _ \<Rightarrow> True
    | Inr (w', e) \<Rightarrow> wf_Status w' = op_target op \<and> wf_History w' = wf_History w @ [e] \<and>
        he_Action e = op_action op \<and> he_ActorRole e = op_role op \<and>
        he_FromStatus e = wf_Status w \<and> he_ToStatus e = op_target op \<and>
        wf_ID w' = wf_ID w \<and> wf_OrgID w' = wf_OrgID w)"
proof (intro conjI)
  show "(\<exists>r. wf_apply w op = Inr r) \<longleftrightarrow>
      wf_edge (wf_WorkflowType w) (wf_Status w) (op_action op) (op_role op) (op_target op) \<and>
      op_confirmed w op"
    by (rule wf_apply_guard)
  show "case wf_apply w op of Inl _ \<Rightarrow> True
    | Inr (w', e) \<Rightarrow> wf_Status w' = op_target op \<and> wf_History w' = wf_History w @ [e] \<and>
        he_Action e = op_action op \<and> he_ActorRole e = op_role op \<and>
        he_FromStatus e = wf_Status w \<and> he_ToStatus e = op_target op \<and>
        wf_ID w' = wf_ID w \<and> wf_OrgID w' = wf_OrgID w"
    by (cases op) (simp_all add: wf_ops applyTransition_def Let_def)
qed

text \<open>
  In every workflow the service can produce, the history is a chain of permitted
  transitions from draft to the current status, every entry names this workflow and this
  organisation, and the submission or decision fields are those of the last entry.
\<close>

theorem approval_history_sound:
  "wf_reachable w \<Longrightarrow>
     wf_run (wf_WorkflowType w) (wf_History w) (wf_Status w) \<and> history_owned w \<and>
     decision_fields w"
  by (simp add: reachable_run reachable_history_owned reachable_decision_fields)

text \<open>
  C2. A workflow is approved only through a submission by the engagement lead immediately
  followed by an approval by a role allowed for its type; when it is locked, one more entry,
  the lock by an allowed role, follows.
\<close>

theorem approval_needs_submission_and_approver:
  assumes "wf_reachable w"
    and "wf_Status w \<in> {StatusApproved, StatusLocked}"
  shows "\<exists>pre s a post. wf_History w = pre @ [s, a] @ post \<and>
     he_Action s = ''submitted'' \<and> he_ActorRole s = RoleEngagementLead \<and>
     he_Action a = ''approved'' \<and> CanApprove (wf_WorkflowType w) (he_ActorRole a) \<and>
     (if wf_Status w = StatusApproved then post = []
      else (\<exists>l. post = [l] \<and> he_Action l = ''locked'' \<and>
              CanApprove (wf_WorkflowType w) (he_ActorRole l)))"
proof -
  have run: "wf_run (wf_WorkflowType w) (wf_History w) (wf_Status w)"
    using assms(1) by (rule reachable_run)
  from assms(2) consider (approved) "wf_Status w = StatusApproved"
    | (locked) "wf_Status w = StatusLocked" by auto
  then show ?thesis
  proof cases
    case approved
    with run run_approved_suffix [of "wf_WorkflowType w" "wf_History w"] show ?thesis by auto
  next
    case locked
    with run obtain h l where h: "wf_History w = h @ [l]"
        and r: "wf_run (wf_WorkflowType w) h StatusApproved"
        and l: "he_Action l = ''locked''" "CanApprove (wf_WorkflowType w) (he_ActorRole l)"
      using run_locked_suffix by fastforce
    from run_approved_suffix [OF r] obtain pre s a where suffix: "h = pre @ [s, a]"
        "he_Action s = ''submitted''" "he_ActorRole s = RoleEngagementLead"
        "he_Action a = ''approved''" "CanApprove (wf_WorkflowType w) (he_ActorRole a)"
      by auto
    with h l locked show ?thesis
      by (intro exI [of _ pre] exI [of _ s] exI [of _ a] exI [of _ "[l]"]) simp
  qed
qed

text \<open>
  A locked workflow is final: every transition is refused, with the locked error except
  for the return to draft, which reports an invalid transition.
\<close>

theorem approval_locked_final:
  "wf_Status w = StatusLocked \<Longrightarrow>
   wf_apply w op = Inl (case op of OpReturnToDraft _ _ \<Rightarrow> ErrInvalidTransition
                                 | _ \<Rightarrow> ErrWorkflowLocked)"
  by (cases op) (simp_all add: wf_ops)

text \<open>
  A rejected workflow may be submitted again without returning to draft, and when it is
  then approved the old rejection reason is still on it: only the return to draft clears it.
\<close>

theorem approval_keeps_stale_reason:
  assumes "wf_reachable w" and "wf_Status w = StatusRejected"
    and "wf_Submit t1 w sub = Inr (w1, e1)" and "wf_Approve t2 w1 app = Inr (w2, e2)"
  shows "wf_Status w2 = StatusApproved \<and> wf_RejectionReason w2 = wf_RejectionReason w \<and>
     wf_RejectionReason w2 \<noteq> []"
proof -
  have "wf_Status w2 = StatusApproved"
    using assms(4) by (auto simp: wf_Approve_def applyTransition_def Let_def split: if_splits)
  moreover have "wf_RejectionReason w2 = wf_RejectionReason w"
    using submit_keeps_reason [OF assms(3)] approve_keeps_reason [OF assms(4)] by simp
  ultimately show ?thesis
    using reachable_rejected_reason [OF assms(1,2)] by simp
qed

section \<open>Witnesses\<close>

definition ex_create :: CreateWorkflowRequest where
  "ex_create = \<lparr> cw_OrgID = 7, cw_WorkflowType = WorkflowTypeAuditPlan,
     cw_ResourceType = ''engagement'', cw_ResourceID = 9, cw_EngagementID = None,
     cw_Metadata = None \<rparr>"

definition ex_submit :: SubmitRequest where
  "ex_submit = \<lparr> sr_ActorID = 1, sr_ActorEmail = ''lead@x'', sr_ActorRole = RoleEngagementLead,
     sr_Comment = [] \<rparr>"

definition ex_approve :: ApproveRequest where
  "ex_approve = \<lparr> ar_ActorID = 2, ar_ActorEmail = ''cae@x'',
     ar_ActorRole = RoleChiefAuditExecutive, ar_Comment = ''ok'', ar_PasswordConfirm = [] \<rparr>"

definition ex_reject :: RejectRequest where
  "ex_reject = \<lparr> rr_ActorID = 2, rr_ActorEmail = ''cae@x'',
     rr_ActorRole = RoleChiefAuditExecutive, rr_RejectionReason = ''scope'' \<rparr>"

definition ex_lock :: LockRequest where
  "ex_lock = \<lparr> lr_ActorID = 2, lr_ActorEmail = ''cae@x'',
     lr_ActorRole = RoleChiefAuditExecutive, lr_PasswordConfirm = [], lr_Comment = [] \<rparr>"

fun wf_play :: "Workflow \<Rightarrow> wf_op list \<Rightarrow> Workflow" where
  "wf_play w [] = w"
| "wf_play w (op # ops) = (case wf_apply w op of Inl _ \<Rightarrow> wf_play w ops
                           | Inr (w', e) \<Rightarrow> wf_play w' ops)"

lemma wf_play_reachable: "wf_reachable w \<Longrightarrow> wf_reachable (wf_play w ops)"
  by (induction ops arbitrary: w) (auto intro: wf_reachable.step split: sum.split)

definition ex_draft :: Workflow where
  "ex_draft = NewWorkflow 5 0 ex_create"

definition ex_locked :: Workflow where
  "ex_locked = wf_play ex_draft [OpSubmit 1 ex_submit, OpApprove 2 ex_approve, OpLock 3 ex_lock]"

definition ex_rejected :: Workflow where
  "ex_rejected = wf_play ex_draft [OpSubmit 1 ex_submit, OpReject 2 ex_reject]"

lemmas ex_data = ex_create_def ex_submit_def ex_approve_def ex_reject_def ex_lock_def

lemmas wf_eval = ex_data wf_ops applyTransition_def transition_fields_def transition_entry_def
  CanApprove_def allowedApprovers_def NewWorkflow_def Let_def

lemma ex_reachable: "wf_reachable ex_locked" "wf_reachable ex_rejected"
  unfolding ex_locked_def ex_rejected_def ex_draft_def
  by (rule wf_play_reachable, rule wf_reachable.new)+

lemma ex_status: "wf_Status ex_locked = StatusLocked" "wf_Status ex_rejected = StatusRejected"
  by (simp_all add: ex_locked_def ex_rejected_def ex_draft_def wf_eval)

theorem approval_history_sound_witness:
  "wf_run (wf_WorkflowType ex_locked) (wf_History ex_locked) StatusLocked \<and>
   length (wf_History ex_locked) = 3"
  using approval_history_sound [OF ex_reachable(1)] ex_status(1)
  by (simp add: ex_locked_def ex_draft_def wf_eval)

theorem approval_needs_submission_and_approver_witness:
  "\<exists>pre s a l. wf_History ex_locked = pre @ [s, a, l] \<and> he_Action a = ''approved'' \<and>
     CanApprove (wf_WorkflowType ex_locked) (he_ActorRole a)"
  using approval_needs_submission_and_approver [OF ex_reachable(1)] ex_status(1) by fastforce

theorem approval_locked_final_witness:
  "wf_apply ex_locked (OpReject 4 ex_reject) = Inl ErrWorkflowLocked"
  using approval_locked_final [OF ex_status(1), of "OpReject 4 ex_reject"] by simp

theorem approval_keeps_stale_reason_witness:
  "\<exists>w2 :: Workflow. wf_Status w2 = StatusApproved \<and> wf_RejectionReason w2 = ''scope''"
proof -
  obtain w1 e1 where 1: "wf_Submit 3 ex_rejected ex_submit = Inr (w1, e1)"
      and s: "wf_Status w1 = StatusPendingApproval" "wf_WorkflowType w1 = WorkflowTypeAuditPlan"
    by (simp add: ex_rejected_def ex_draft_def wf_eval)
  obtain w2 e2 where 2: "wf_Approve 4 w1 ex_approve = Inr (w2, e2)"
    using s by (simp add: wf_eval)
  have "wf_RejectionReason ex_rejected = ''scope''"
    by (simp add: ex_rejected_def ex_draft_def wf_eval)
  with approval_keeps_stale_reason [OF ex_reachable(2) ex_status(2) 1 2] show ?thesis
    by (intro exI [of _ w2]) simp
qed

end
