(* ===== verification/OrgStore.thy ===== *)
theory OrgStore
  imports Prelude
begin

text \<open>
  The interface every in-memory repository of the services offers to its HTTP handlers: an
  entity is found by its identifier within one organisation, updated in place when it
  exists, and created under its own identifier. \<open>lookup\<close> is the abstraction the laws are
  stated with (what is stored under an identifier, whatever the organisation).

  The handlers are all clients of the same kind: load an entity for the caller's
  organisation, change it, save it. What such a client may rely on is proved here once:
  the change is seen by the next load, nothing else moves, and no other organisation's view
  of the store changes. The approval, engagement and planning services interpret the locale
  on their own stores.
\<close>

locale org_store =
  fixes lookup :: "'s \<Rightarrow> 'i \<Rightarrow> 'a option"
    and id_of :: "'a \<Rightarrow> 'i"
    and org_of :: "'a \<Rightarrow> 'o"
    and get :: "'s \<Rightarrow> 'o \<Rightarrow> 'i \<Rightarrow> 'e + 'a"
    and update :: "'s \<Rightarrow> 'a \<Rightarrow> 'e + 's"
  assumes get_found: "lookup s i = Some x \<Longrightarrow> org_of x = ow \<Longrightarrow> get s ow i = Inr x"
    and get_only: "get s ow i = Inr x \<Longrightarrow> lookup s i = Some x \<and> org_of x = ow"
    and update_found: "lookup s (id_of x) \<noteq> None \<Longrightarrow> \<exists>s'. update s x = Inr s'"
    and update_lookup: "update s x = Inr s' \<Longrightarrow> lookup s' = (lookup s)(id_of x \<mapsto> x)"
begin

definition keyed :: "'s \<Rightarrow> bool" where
  "keyed s \<longleftrightarrow> (\<forall>i x. lookup s i = Some x \<longrightarrow> id_of x = i)"

definition view :: "'s \<Rightarrow> 'o \<Rightarrow> 'i \<Rightarrow> 'a option" where
  "view s ow i = (case lookup s i of None \<Rightarrow> None | Some x \<Rightarrow> if org_of x = ow then Some x else None)"

lemma get_iff: "get s ow i = Inr x \<longleftrightarrow> lookup s i = Some x \<and> org_of x = ow"
  using get_found get_only by blast

lemma get_iff_view: "get s ow i = Inr x \<longleftrightarrow> view s ow i = Some x"
  by (auto simp: get_iff view_def split: option.splits if_splits)

lemma save_lookup:
  assumes "keyed s" and "get s ow i = Inr x" and "id_of x' = id_of x"
    and "update s x' = Inr s'"
  shows "lookup s' = (lookup s)(i \<mapsto> x')"
  using assms update_lookup by (force simp: get_iff keyed_def)

lemma save_keyed:
  assumes "keyed s" and "get s ow i = Inr x" and "id_of x' = id_of x"
    and "update s x' = Inr s'"
  shows "keyed s'"
  using assms(1,2,3) save_lookup [OF assms] by (auto simp: keyed_def get_iff split: if_splits)

lemma save_succeeds:
  assumes "keyed s" and "get s ow i = Inr x" and "id_of x' = id_of x"
  shows "\<exists>s'. update s x' = Inr s'"
  using assms by (intro update_found) (auto simp: get_iff keyed_def)

lemma save_get:
  assumes "keyed s" and "get s ow i = Inr x" and "id_of x' = id_of x" and "org_of x' = org_of x"
    and "update s x' = Inr s'"
  shows "get s' ow i = Inr x'"
  using assms(2,4) save_lookup [OF assms(1,2,3,5)] by (auto simp: get_iff)

lemma save_other:
  assumes "keyed s" and "get s ow i = Inr x" and "id_of x' = id_of x"
    and "update s x' = Inr s'" and "j \<noteq> i"
  shows "lookup s' j = lookup s j"
  using save_lookup [OF assms(1,2,3,4)] assms(5) by simp

lemma save_isolated:
  assumes "keyed s" and "get s ow i = Inr x" and "id_of x' = id_of x" and "org_of x' = org_of x"
    and "update s x' = Inr s'" and "ow' \<noteq> ow"
  shows "view s' ow' = view s ow'"
proof
  fix j
  show "view s' ow' j = view s ow' j"
    using assms(2,4,6) save_lookup [OF assms(1,2,3,5)]
    by (cases "j = i") (auto simp: view_def get_iff)
qed

lemma save_all:
  assumes "keyed s" and "get s ow i = Inr x" and "id_of x' = id_of x"
    and "update s x' = Inr s'"
    and "\<And>j y. lookup s j = Some y \<Longrightarrow> P y" and "P x'"
  shows "lookup s' j = Some y \<Longrightarrow> P y"
  using assms(5,6) save_lookup [OF assms(1,2,3,4)] by (auto split: if_splits)

end

text \<open>
  A repository that also creates entities under their own identifier. Creation may refuse
  (the annual plan store does), and then changes nothing.
\<close>

locale org_store_create = org_store lookup id_of org_of get update
  for lookup :: "'s \<Rightarrow> 'i \<Rightarrow> 'a option"
    and id_of :: "'a \<Rightarrow> 'i"
    and org_of :: "'a \<Rightarrow> 'o"
    and get :: "'s \<Rightarrow> 'o \<Rightarrow> 'i \<Rightarrow> 'e + 'a"
    and update :: "'s \<Rightarrow> 'a \<Rightarrow> 'e + 's" +
  fixes create :: "'s \<Rightarrow> 'a \<Rightarrow> 'e + 's"
  assumes create_lookup: "create s x = Inr s' \<Longrightarrow> lookup s' = (lookup s)(id_of x \<mapsto> x)"
begin

lemma create_keyed: "keyed s \<Longrightarrow> create s x = Inr s' \<Longrightarrow> keyed s'"
  by (drule create_lookup) (auto simp: keyed_def)

lemma create_get: "create s x = Inr s' \<Longrightarrow> get s' (org_of x) (id_of x) = Inr x"
  by (drule create_lookup) (auto simp: get_iff)

lemma create_isolated:
  assumes "create s x = Inr s'" and "lookup s (id_of x) = None" and "ow' \<noteq> org_of x"
  shows "view s' ow' = view s ow'"
  using create_lookup [OF assms(1)] assms(2,3) by (auto simp: view_def fun_eq_iff)

lemma create_all:
  assumes "create s x = Inr s'" and "\<And>j y. lookup s j = Some y \<Longrightarrow> P y" and "P x"
  shows "lookup s' j = Some y \<Longrightarrow> P y"
  using create_lookup [OF assms(1)] assms(2,3) by (auto split: if_splits)

text \<open>
  What one request of a client does: nothing, one saved step of an entity it loaded for the
  organisation \<open>ow\<close>, or one creation in it. \<open>step\<close> and \<open>new\<close> are what the client's operations
  can do to an entity and create.
\<close>

definition changes :: "('a \<Rightarrow> 'a \<Rightarrow> bool) \<Rightarrow> ('a \<Rightarrow> bool) \<Rightarrow> 'o \<Rightarrow> 's \<Rightarrow> 's \<Rightarrow> bool" where
  "changes step new ow s s' \<longleftrightarrow> s' = s \<or>
     (\<exists>i x x'. get s ow i = Inr x \<and> step x x' \<and> update s x' = Inr s') \<or>
     (\<exists>x. new x \<and> org_of x = ow \<and> lookup s (id_of x) = None \<and> create s x = Inr s')"

definition keeps_key :: "('a \<Rightarrow> 'a \<Rightarrow> bool) \<Rightarrow> bool" where
  "keeps_key step \<longleftrightarrow> (\<forall>x x'. step x x' \<longrightarrow> id_of x' = id_of x \<and> org_of x' = org_of x)"

lemma changes_cases:
  assumes "changes step new ow s s'" and "keyed s" and "keeps_key step"
  obtains (same) "s' = s"
    | (stepped) i x x' where "lookup s i = Some x" "org_of x = ow" "step x x'" "org_of x' = ow"
        "lookup s' = (lookup s)(i \<mapsto> x')" "get s ow i = Inr x" "id_of x' = id_of x"
        "update s x' = Inr s'"
    | (created) x where "new x" "org_of x = ow" "lookup s (id_of x) = None" "create s x = Inr s'"
        "lookup s' = (lookup s)(id_of x \<mapsto> x)"
  using assms(1) unfolding changes_def
proof (elim disjE exE conjE)
  fix i x x'
  assume h: "get s ow i = Inr x" "step x x'" "update s x' = Inr s'"
  then have k: "id_of x' = id_of x" "org_of x' = org_of x" using assms(3) by (auto simp: keeps_key_def)
  with h show ?thesis
    using save_lookup [OF assms(2) h(1) k(1) h(3)] get_only [OF h(1)] by (intro stepped) auto
next
  fix x
  assume h: "new x" "org_of x = ow" "lookup s (id_of x) = None" "create s x = Inr s'"
  then show ?thesis using create_lookup by (intro created) auto
qed (rule same)

lemma changes_keyed:
  assumes "changes step new ow s s'" and "keyed s" and "keeps_key step"
  shows "keyed s'"
  using assms(2)
  by (cases rule: changes_cases [OF assms]) (auto simp: keyed_def)

lemma changes_isolated:
  assumes "changes step new ow s s'" and "keyed s" and "keeps_key step" and "ow' \<noteq> ow"
  shows "view s' ow' = view s ow'"
  using assms(4)
  by (cases rule: changes_cases [OF assms(1-3)]) (auto simp: view_def fun_eq_iff)

lemma changes_all:
  assumes "changes step new ow s s'" and "keyed s" and "keeps_key step"
    and "\<And>x x'. P x \<Longrightarrow> step x x' \<Longrightarrow> P x'" and "\<And>x. new x \<Longrightarrow> P x"
    and "\<And>i x. lookup s i = Some x \<Longrightarrow> P x"
  shows "lookup s' i = Some x \<Longrightarrow> P x"
proof (cases rule: changes_cases [OF assms(1-3), case_names same stepped created])
  case (stepped j y y')
  then show "lookup s' i = Some x \<Longrightarrow> P x"
    using assms(4) [of y y'] assms(6) by (auto split: if_splits)
qed (use assms(5,6) in \<open>auto split: if_splits\<close>)

lemma changes_evolve:
  assumes "changes step new ow s s'" and "keyed s" and "keeps_key step" and "lookup s i = Some x"
  shows "\<exists>x'. lookup s' i = Some x' \<and> (x' = x \<or> step x x')"
  using assms(4)
  by (cases rule: changes_cases [OF assms(1-3)]) auto

end

end
