(* ===== verification/ApprovalService.thy ===== *)
theory ApprovalService
  imports ApprovalDomain OrgStore
begin

text \<open>
  The approval service: its in-memory repository (services/approval/internal/store/store.go)
  and its HTTP handlers (services/approval/internal/handler/handler.go). A handler is a
  function of the store, the query and path parameters and the decoded body; it returns the
  new store and the JSON answer. \<open>uuid.Parse\<close> is a parameter \<open>parse\<close>. The Go map has no
  iteration order, so \<open>List\<close> takes the order of the keys it visits.

  The store interprets \<open>org_store_create\<close>; from it come the invariant of every served store,
  tenant isolation, the stability of locked workflows under sequential requests, and, with
  the load and the save of a request as separate steps, what interleaved requests still keep
  and what they lose.
\<close>

section \<open>The repository\<close>

type_synonym approval_store = "uuid \<rightharpoonup> Workflow"

definition copyWorkflow :: "Workflow \<Rightarrow> Workflow" where
  "copyWorkflow w = w\<lparr> wf_History := wf_History w \<rparr>"

definition as_New :: approval_store where
  "as_New = Map.empty"

definition as_Create :: "approval_store \<Rightarrow> Workflow \<Rightarrow> wf_error + approval_store" where
  "as_Create s w = Inr (s(wf_ID w \<mapsto> copyWorkflow w))"

definition as_Get :: "approval_store \<Rightarrow> uuid \<Rightarrow> uuid \<Rightarrow> wf_error + Workflow" where
  "as_Get s orgID wid =
     (case s wid of
        None \<Rightarrow> Inl ErrWorkflowNotFound
      | Some w \<Rightarrow> if wf_OrgID w \<noteq> orgID then Inl ErrWorkflowNotFound else Inr (copyWorkflow w))"

fun as_List ::
  "approval_store \<Rightarrow> uuid list \<Rightarrow> uuid \<Rightarrow> string \<Rightarrow> uuid option \<Rightarrow> Workflow list" where
  "as_List s [] orgID resourceType resourceID = []"
| "as_List s (k # ks) orgID resourceType resourceID =
     (case s k of
        None \<Rightarrow> as_List s ks orgID resourceType resourceID
      | Some w \<Rightarrow>
          if wf_OrgID w \<noteq> orgID then as_List s ks orgID resourceType resourceID
          else if resourceType \<noteq> [] \<and> wf_ResourceType w \<noteq> resourceType
          then as_List s ks orgID resourceType resourceID
          else if (case resourceID of None \<Rightarrow> False | Some r \<Rightarrow> wf_ResourceID w \<noteq> r)
          then as_List s ks orgID resourceType resourceID
          else copyWorkflow w # as_List s ks orgID resourceType resourceID)"

definition as_Update :: "approval_store \<Rightarrow> Workflow \<Rightarrow> wf_error + approval_store" where
  "as_Update s w =
     (case s (wf_ID w) of
        None \<Rightarrow> Inl ErrWorkflowNotFound
      | Some _ \<Rightarrow> Inr (s(wf_ID w \<mapsto> copyWorkflow w)))"

lemma copyWorkflow_id [simp]: "copyWorkflow w = w"
  by (simp add: copyWorkflow_def)

lemma NewWorkflow_keys [simp]:
  "wf_ID (NewWorkflow newID now req) = newID"
  "wf_OrgID (NewWorkflow newID now req) = cw_OrgID req"
  by (simp_all add: NewWorkflow_def)

interpretation approvals: org_store_create
  "\<lambda>s i. s i" wf_ID wf_OrgID as_Get as_Update as_Create
  by unfold_locales
    (auto simp: as_Get_def as_Update_def as_Create_def split: option.splits if_splits)

section \<open>The handlers\<close>

datatype approval_body =
    BodyWorkflow Workflow
  | BodyWorkflows "Workflow list" nat
  | BodyTransition Workflow HistoryEntry
  | BodyHistory "HistoryEntry list" nat

type_synonym approval_response = "approval_body response"

fun wf_error_text :: "wf_error \<Rightarrow> string" where
  "wf_error_text ErrWorkflowNotFound = ''approval workflow not found''"
| "wf_error_text ErrInvalidTransition = ''invalid workflow state transition''"
| "wf_error_text ErrUnauthorizedRole = ''actor role is not authorised for this action''"
| "wf_error_text ErrWorkflowLocked = ''workflow is locked and cannot be modified''"
| "wf_error_text ErrPasswordRequired = ''password re-entry required for report release''"
| "wf_error_text ErrInvalidPassword = ''password confirmation does not match''"
| "wf_error_text ErrRejectionReasonRequired = ''rejection_reason is required''"

definition requireOrgID :: "(string \<Rightarrow> uuid option) \<Rightarrow> string \<Rightarrow> approval_response + uuid" where
  "requireOrgID parse s =
     (if s = [] then Inl (JsonError 400 ''INVALID_REQUEST'' ''org_id query param required'')
      else case parse s of
        None \<Rightarrow> Inl (JsonError 400 ''INVALID_REQUEST'' ''invalid org_id'')
      | Some wid \<Rightarrow> Inr wid)"

definition requireOrgAndID ::
  "(string \<Rightarrow> uuid option) \<Rightarrow> string \<Rightarrow> string \<Rightarrow> approval_response + (uuid \<times> uuid)" where
  "requireOrgAndID parse org rawID =
     (case requireOrgID parse org of
        Inl r \<Rightarrow> Inl r
      | Inr orgID \<Rightarrow>
          (case parse rawID of
             None \<Rightarrow> Inl (JsonError 400 ''INVALID_REQUEST'' ''invalid workflow id'')
           | Some wid \<Rightarrow> Inr (orgID, wid)))"

definition loadWorkflow ::
  "(string \<Rightarrow> uuid option) \<Rightarrow> approval_store \<Rightarrow> string \<Rightarrow> string \<Rightarrow> approval_response + Workflow"
where
  "loadWorkflow parse s org rawID =
     (case requireOrgAndID parse org rawID of
        Inl r \<Rightarrow> Inl r
      | Inr (orgID, wid) \<Rightarrow>
          (case as_Get s orgID wid of
             Inl err \<Rightarrow>
               (if err = ErrWorkflowNotFound
                then Inl (JsonError 404 ''NOT_FOUND'' ''workflow not found'')
                else Inl (JsonError 500 ''INTERNAL_ERROR'' (wf_error_text err)))
           | Inr w \<Rightarrow> Inr w))"

definition saveAndRespond ::
  "approval_store \<Rightarrow> Workflow \<Rightarrow> HistoryEntry \<Rightarrow> approval_store \<times> approval_response" where
  "saveAndRespond s w entry =
     (case as_Update s w of
        Inl err \<Rightarrow> (s, JsonError 500 ''INTERNAL_ERROR'' (wf_error_text err))
      | Inr s' \<Rightarrow> (s', JsonResponse 200 (BodyTransition w entry)))"

definition handleTransitionError :: "wf_error \<Rightarrow> approval_response" where
  "handleTransitionError err =
     (if err = ErrInvalidTransition then JsonError 422 ''INVALID_TRANSITION'' (wf_error_text err)
      else if err = ErrUnauthorizedRole then JsonError 403 ''FORBIDDEN'' (wf_error_text err)
      else if err = ErrWorkflowLocked then JsonError 409 ''WORKFLOW_LOCKED'' (wf_error_text err)
      else if err = ErrPasswordRequired
      then JsonError 422 ''PASSWORD_REQUIRED'' (wf_error_text err)
      else JsonError 400 ''INVALID_REQUEST'' (wf_error_text err))"

text \<open>The body of a transition handler once the workflow is loaded: decode, apply, save.\<close>

definition decode_apply_save ::
  "approval_store \<Rightarrow> Workflow \<Rightarrow> 'r decoded \<Rightarrow>
   (Workflow \<Rightarrow> 'r \<Rightarrow> wf_error + (Workflow \<times> HistoryEntry)) \<Rightarrow>
   approval_store \<times> approval_response" where
  "decode_apply_save s w body op =
     (case body of
        Inl msg \<Rightarrow> (s, JsonError 400 ''INVALID_REQUEST'' msg)
      | Inr req \<Rightarrow>
          (case op w req of
             Inl err \<Rightarrow> (s, handleTransitionError err)
           | Inr (w', entry) \<Rightarrow> saveAndRespond s w' entry))"

definition transition_handler ::
  "(string \<Rightarrow> uuid option) \<Rightarrow> approval_store \<Rightarrow> string \<Rightarrow> string \<Rightarrow> 'r decoded \<Rightarrow>
   (Workflow \<Rightarrow> 'r \<Rightarrow> wf_error + (Workflow \<times> HistoryEntry)) \<Rightarrow>
   approval_store \<times> approval_response" where
  "transition_handler parse s org rawID body op =
     (case loadWorkflow parse s org rawID of
        Inl r \<Rightarrow> (s, r)
      | Inr w \<Rightarrow> decode_apply_save s w body op)"

definition ah_Create ::
  "uuid \<Rightarrow> gotime \<Rightarrow> approval_store \<Rightarrow> CreateWorkflowRequest decoded \<Rightarrow>
   approval_store \<times> approval_response" where
  "ah_Create newID now s body =
     (case body of
        Inl msg \<Rightarrow> (s, JsonError 400 ''INVALID_REQUEST'' msg)
      | Inr req \<Rightarrow>
          if cw_OrgID req = uuid_Nil
          then (s, JsonError 400 ''INVALID_REQUEST'' ''org_id is required'')
          else if cw_WorkflowType req = []
          then (s, JsonError 400 ''INVALID_REQUEST'' ''workflow_type is required'')
          else if cw_ResourceType req = [] \<or> cw_ResourceID req = uuid_Nil
          then (s, JsonError 400 ''INVALID_REQUEST''
                     ''resource_type and resource_id are required'')
          else let w = NewWorkflow newID now req in
            (case as_Create s w of
               Inl err \<Rightarrow> (s, JsonError 500 ''INTERNAL_ERROR'' (wf_error_text err))
             | Inr s' \<Rightarrow> (s', JsonResponse 201 (BodyWorkflow w))))"

definition ah_List ::
  "(string \<Rightarrow> uuid option) \<Rightarrow> uuid list \<Rightarrow> approval_store \<Rightarrow> string \<Rightarrow> string \<Rightarrow> string \<Rightarrow>
   approval_response" where
  "ah_List parse order s org resourceType resourceIDParam =
     (case requireOrgID parse org of
        Inl r \<Rightarrow> r
      | Inr orgID \<Rightarrow>
          if resourceIDParam \<noteq> [] \<and> parse resourceIDParam = None
          then JsonError 400 ''INVALID_REQUEST'' ''invalid resource_id''
          else let resID = (if resourceIDParam \<noteq> [] then parse resourceIDParam else None);
                   ws = as_List s order orgID resourceType resID
               in JsonResponse 200 (BodyWorkflows ws (length ws)))"

definition ah_Get ::
  "(string \<Rightarrow> uuid option) \<Rightarrow> approval_store \<Rightarrow> string \<Rightarrow> string \<Rightarrow> approval_response" where
  "ah_Get parse s org rawID =
     (case loadWorkflow parse s org rawID of Inl r \<Rightarrow> r | Inr w \<Rightarrow> JsonResponse 200 (BodyWorkflow w))"

definition ah_Submit where
  "ah_Submit parse now s org rawID body = transition_handler parse s org rawID body (wf_Submit now)"

definition ah_Approve where
  "ah_Approve parse now s org rawID body = transition_handler parse s org rawID body (wf_Approve now)"

definition ah_Reject where
  "ah_Reject parse now s org rawID body = transition_handler parse s org rawID body (wf_Reject now)"

definition ah_Lock where
  "ah_Lock parse now s org rawID body = transition_handler parse s org rawID body (wf_Lock now)"

definition ah_ReturnToDraft where
  "ah_ReturnToDraft parse now s org rawID body =
     transition_handler parse s org rawID body (wf_ReturnToDraft now)"

definition ah_History ::
  "(string \<Rightarrow> uuid option) \<Rightarrow> approval_store \<Rightarrow> string \<Rightarrow> string \<Rightarrow> approval_response" where
  "ah_History parse s org rawID =
     (case loadWorkflow parse s org rawID of
        Inl r \<Rightarrow> r
      | Inr w \<Rightarrow> JsonResponse 200 (BodyHistory (wf_History w) (length (wf_History w))))"

section \<open>What one request does to the store\<close>

text \<open>
  The state-changing requests as one type, with the outcome of decoding the body. The three
  GET handlers return no store: they cannot change it.
\<close>

datatype approval_request =
    ReqCreate uuid gotime "CreateWorkflowRequest decoded"
  | ReqSubmit gotime string string "SubmitRequest decoded"
  | ReqApprove gotime string string "ApproveRequest decoded"
  | ReqReject gotime string string "RejectRequest decoded"
  | ReqLock gotime string string "LockRequest decoded"
  | ReqReturnToDraft gotime string string "SubmitRequest decoded"

fun serve ::
  "(string \<Rightarrow> uuid option) \<Rightarrow> approval_store \<Rightarrow> approval_request \<Rightarrow>
   approval_store \<times> approval_response" where
  "serve parse s (ReqCreate newID now body) = ah_Create newID now s body"
| "serve parse s (ReqSubmit now org i body) = ah_Submit parse now s org i body"
| "serve parse s (ReqApprove now org i body) = ah_Approve parse now s org i body"
| "serve parse s (ReqReject now org i body) = ah_Reject parse now s org i body"
| "serve parse s (ReqLock now org i body) = ah_Lock parse now s org i body"
| "serve parse s (ReqReturnToDraft now org i body) = ah_ReturnToDraft parse now s org i body"

text \<open>The transition a request asks for on a loaded workflow, when its body decodes.\<close>

fun request_op :: "approval_request \<Rightarrow> wf_op option" where
  "request_op (ReqCreate _ _ _) = None"
| "request_op (ReqSubmit now _ _ body) =
     (case body of Inl _ \<Rightarrow> None | Inr req \<Rightarrow> Some (OpSubmit now req))"
| "request_op (ReqApprove now _ _ body) =
     (case body of Inl _ \<Rightarrow> None | Inr req \<Rightarrow> Some (OpApprove now req))"
| "request_op (ReqReject now _ _ body) =
     (case body of Inl _ \<Rightarrow> None | Inr req \<Rightarrow> Some (OpReject now req))"
| "request_op (ReqLock now _ _ body) =
     (case body of Inl _ \<Rightarrow> None | Inr req \<Rightarrow> Some (OpLock now req))"
| "request_op (ReqReturnToDraft now _ _ body) =
     (case body of Inl _ \<Rightarrow> None | Inr req \<Rightarrow> Some (OpReturnToDraft now req))"

fun request_key :: "(string \<Rightarrow> uuid option) \<Rightarrow> approval_request \<Rightarrow> (uuid \<times> uuid) option" where
  "request_key parse (ReqCreate newID now body) = None"
| "request_key parse (ReqSubmit _ org i _) =
     (case requireOrgAndID parse org i of Inl _ \<Rightarrow> None | Inr k \<Rightarrow> Some k)"
| "request_key parse (ReqApprove _ org i _) =
     (case requireOrgAndID parse org i of Inl _ \<Rightarrow> None | Inr k \<Rightarrow> Some k)"
| "request_key parse (ReqReject _ org i _) =
     (case requireOrgAndID parse org i of Inl _ \<Rightarrow> None | Inr k \<Rightarrow> Some k)"
| "request_key parse (ReqLock _ org i _) =
     (case requireOrgAndID parse org i of Inl _ \<Rightarrow> None | Inr k \<Rightarrow> Some k)"
| "request_key parse (ReqReturnToDraft _ org i _) =
     (case requireOrgAndID parse org i of Inl _ \<Rightarrow> None | Inr k \<Rightarrow> Some k)"

lemmas ah_transitions = ah_Submit_def ah_Approve_def ah_Reject_def ah_Lock_def ah_ReturnToDraft_def

lemma loadWorkflow_ok:
  "loadWorkflow parse s org i = Inr w \<Longrightarrow>
   \<exists>orgID wid. requireOrgAndID parse org i = Inr (orgID, wid) \<and> as_Get s orgID wid = Inr w"
  by (auto simp: loadWorkflow_def split: sum.splits if_splits)

lemma ah_Create_cases:
  "fst (ah_Create newID now s body) = s \<or>
   (\<exists>req. body = Inr req \<and>
      as_Create s (NewWorkflow newID now req) = Inr (fst (ah_Create newID now s body)))"
  by (cases body) (auto simp: ah_Create_def as_Create_def Let_def)

lemma serve_transition:
  "request_key parse r = Some k \<Longrightarrow> request_op r = Some op \<Longrightarrow>
   serve parse s r =
     (case as_Get s (fst k) (snd k) of
        Inl err \<Rightarrow> (s, if err = ErrWorkflowNotFound
                      then JsonError 404 ''NOT_FOUND'' ''workflow not found''
                      else JsonError 500 ''INTERNAL_ERROR'' (wf_error_text err))
      | Inr w \<Rightarrow> (case wf_apply w op of
                     Inl err \<Rightarrow> (s, handleTransitionError err)
                   | Inr (w', e) \<Rightarrow> saveAndRespond s w' e))"
  by (cases r; cases k)
    (auto simp: ah_transitions transition_handler_def loadWorkflow_def decode_apply_save_def
      split: sum.splits)

lemma serve_no_op:
  "request_op r = None \<or> request_key parse r = None \<Longrightarrow> (\<forall>n t b. r \<noteq> ReqCreate n t b) \<Longrightarrow>
   fst (serve parse s r) = s"
  by (cases r)
    (auto simp: ah_transitions transition_handler_def loadWorkflow_def decode_apply_save_def
      split: sum.splits)

text \<open>
  A request either leaves the store alone, or creates a workflow, or applies one transition
  to the workflow its parameters name and saves the result.
\<close>

lemma serve_cases:
  assumes "approvals.keyed s"
  obtains (unchanged) "fst (serve parse s r) = s"
  | (created) newID now req where "r = ReqCreate newID now (Inr req)"
      "as_Create s (NewWorkflow newID now req) = Inr (fst (serve parse s r))"
  | (changed) orgID wid w op w' e where
      "request_key parse r = Some (orgID, wid)" "as_Get s orgID wid = Inr w"
      "request_op r = Some op" "wf_apply w op = Inr (w', e)"
      "as_Update s w' = Inr (fst (serve parse s r))"
proof (cases "request_key parse r = None \<or> request_op r = None")
  case True
  show ?thesis
  proof (cases r)
    case (ReqCreate newID now body)
    then show ?thesis
      using ah_Create_cases [of newID now s body] unchanged created by auto
  qed (use True serve_no_op [of r parse s] in \<open>auto intro: unchanged\<close>)
next
  case False
  then obtain k op where k: "request_key parse r = Some k" and op: "request_op r = Some op"
    by auto
  note sv = serve_transition [OF k op, of s]
  show ?thesis
  proof (cases "as_Get s (fst k) (snd k)")
    case (Inl err)
    with sv show ?thesis by (intro unchanged) simp
  next
    case (Inr w)
    show ?thesis
    proof (cases "wf_apply w op")
      case (Inl err)
      with sv Inr show ?thesis by (intro unchanged) simp
    next
      case app: (Inr p)
      obtain w' e where p: "p = (w', e)" by (cases p)
      then have "wf_ID w' = wf_ID w" using app wf_apply_step(7) by simp
      then obtain s' where "as_Update s w' = Inr s'"
        using approvals.save_succeeds [OF assms Inr] by blast
      with sv Inr app p show ?thesis
        using k op by (intro changed [of "fst k" "snd k" w op w' e]) (simp_all add: saveAndRespond_def)
    qed
  qed
qed

section \<open>Sequential service\<close>

text \<open>
  The stores a service reaches by answering requests one at a time. Identifiers drawn by
  \<open>uuid.New\<close> are fresh.
\<close>

fun fresh_for :: "approval_store \<Rightarrow> approval_request \<Rightarrow> bool" where
  "fresh_for s (ReqCreate newID _ _) = (s newID = None)"
| "fresh_for s _ = True"

inductive served :: "(string \<Rightarrow> uuid option) \<Rightarrow> approval_store \<Rightarrow> bool" for parse where
  empty: "served parse as_New"
| request: "served parse s \<Longrightarrow> fresh_for s r \<Longrightarrow> served parse (fst (serve parse s r))"

definition store_ok :: "approval_store \<Rightarrow> bool" where
  "store_ok s \<longleftrightarrow> (\<forall>wid w. s wid = Some w \<longrightarrow> wf_ID w = wid \<and> wf_reachable w)"

lemma store_ok_keyed: "store_ok s \<Longrightarrow> approvals.keyed s"
  by (simp add: store_ok_def approvals.keyed_def)

lemma as_Create_ok:
  "store_ok s \<Longrightarrow> wf_reachable w \<Longrightarrow> as_Create s w = Inr s' \<Longrightarrow> store_ok s'"
  by (auto simp: store_ok_def as_Create_def split: if_splits)

lemma as_Update_ok:
  "store_ok s \<Longrightarrow> wf_reachable w \<Longrightarrow> as_Update s w = Inr s' \<Longrightarrow> store_ok s'"
  by (auto simp: store_ok_def as_Update_def split: option.splits if_splits)

lemma as_Get_reachable: "store_ok s \<Longrightarrow> as_Get s ow wid = Inr w \<Longrightarrow> wf_reachable w \<and> wf_ID w = wid"
  using approvals.get_only by (simp add: store_ok_def)

lemma serve_store_ok:
  assumes "store_ok s"
  shows "store_ok (fst (serve parse s r))"
  using store_ok_keyed [OF assms]
proof (cases rule: serve_cases [of s parse r])
  case unchanged
  with assms show ?thesis by simp
next
  case (created newID now req)
  then show ?thesis using as_Create_ok [OF assms wf_reachable.new] by blast
next
  case (changed orgID wid w op w' e)
  then show ?thesis
    using as_Update_ok [OF assms] wf_reachable.step as_Get_reachable [OF assms] by blast
qed

lemma served_ok: "served parse s \<Longrightarrow> store_ok s"
proof (induction rule: served.induct)
  case empty
  show ?case by (simp add: as_New_def store_ok_def)
next
  case (request s r)
  from request.IH show ?case by (rule serve_store_ok)
qed

text \<open>The organisation a request acts for.\<close>

fun request_org :: "(string \<Rightarrow> uuid option) \<Rightarrow> approval_request \<Rightarrow> uuid option" where
  "request_org parse (ReqCreate _ _ body) =
     (case body of Inl _ \<Rightarrow> None | Inr req \<Rightarrow> Some (cw_OrgID req))"
| "request_org parse r = map_option fst (request_key parse r)"

lemma request_org_key:
  "request_op r = Some op \<Longrightarrow> request_key parse r = Some k \<Longrightarrow> request_org parse r = Some (fst k)"
  by (cases r) auto

lemma serve_isolated:
  assumes ok: "approvals.keyed s" and fresh: "fresh_for s r"
    and other: "request_org parse r \<noteq> Some ow"
  shows "approvals.view (fst (serve parse s r)) ow = approvals.view s ow"
  using ok
proof (cases rule: serve_cases [of s parse r])
  case unchanged
  then show ?thesis by simp
next
  case (created newID now req)
  have "approvals.view (fst (serve parse s r)) ow = approvals.view s ow"
    using created(2)
  proof (rule approvals.create_isolated)
    show "s (wf_ID (NewWorkflow newID now req)) = None" and "ow \<noteq> wf_OrgID (NewWorkflow newID now req)"
      using created(1) fresh other by auto
  qed
  then show ?thesis .
next
  case (changed orgID wid w op w' e)
  have "ow \<noteq> orgID" using other request_org_key [OF changed(3,1)] by auto
  with approvals.save_isolated [OF ok changed(2) _ _ changed(5)] wf_apply_step(7,8) [OF changed(4)]
  show ?thesis by simp
qed

lemma serve_locked:
  assumes ok: "approvals.keyed s" and fresh: "fresh_for s r"
    and w: "s wid = Some w" "wf_Status w = StatusLocked"
  shows "fst (serve parse s r) wid = Some w"
  using ok
proof (cases rule: serve_cases [of s parse r])
  case unchanged
  with w show ?thesis by simp
next
  case (created newID now req)
  have "fst (serve parse s r) = s(newID \<mapsto> NewWorkflow newID now req)"
    using approvals.create_lookup [OF created(2)] by simp
  then show ?thesis using created(1) w fresh by auto
next
  case (changed orgID i u op u' e)
  have "i \<noteq> wid"
  proof
    assume "i = wid"
    with changed(2) w(1) have "u = w" using approvals.get_only by force
    with changed(4) w(2) show False by (cases op) (simp_all add: wf_ops)
  qed
  with approvals.save_other [OF ok changed(2) _ changed(5)] wf_apply_step(7) [OF changed(4)] w
  show ?thesis by simp
qed

section \<open>Interleaved requests\<close>

text \<open>
  The repository locks its map for one call at a time; nothing is held between a handler's
  \<open>Get\<close> and its \<open>Update\<close>. Requests served concurrently are therefore interleavings of
  loads and saves: \<open>cs_loaded\<close> holds the copy each running request works on.
\<close>

record conc =
  cs_store :: approval_store
  cs_loaded :: "nat \<rightharpoonup> Workflow"

inductive conc_step :: "conc \<Rightarrow> conc \<Rightarrow> bool" where
  create: "cs_store c newID = None \<Longrightarrow>
     as_Create (cs_store c) (NewWorkflow newID now req) = Inr s' \<Longrightarrow>
     conc_step c (c\<lparr> cs_store := s' \<rparr>)"
| load: "cs_loaded c t = None \<Longrightarrow> as_Get (cs_store c) ow wid = Inr w \<Longrightarrow>
     conc_step c (c\<lparr> cs_loaded := (cs_loaded c)(t \<mapsto> w) \<rparr>)"
| save: "cs_loaded c t = Some w \<Longrightarrow> wf_apply w op = Inr (w', e) \<Longrightarrow>
     conc_step c \<lparr> cs_store = fst (saveAndRespond (cs_store c) w' e),
                   cs_loaded = (cs_loaded c)(t := None) \<rparr>"
| refuse: "cs_loaded c t = Some w \<Longrightarrow>
     conc_step c (c\<lparr> cs_loaded := (cs_loaded c)(t := None) \<rparr>)"

inductive conc_reachable :: "conc \<Rightarrow> bool" where
  init: "conc_reachable \<lparr> cs_store = as_New, cs_loaded = Map.empty \<rparr>"
| step: "conc_reachable c \<Longrightarrow> conc_step c c' \<Longrightarrow> conc_reachable c'"

definition conc_ok :: "conc \<Rightarrow> bool" where
  "conc_ok c \<longleftrightarrow> store_ok (cs_store c) \<and> (\<forall>t w. cs_loaded c t = Some w \<longrightarrow> wf_reachable w)"

lemma saveAndRespond_ok:
  "store_ok s \<Longrightarrow> wf_reachable w \<Longrightarrow> store_ok (fst (saveAndRespond s w e))"
  by (auto simp: saveAndRespond_def as_Update_ok split: sum.split)

lemma conc_step_ok: "conc_step c c' \<Longrightarrow> conc_ok c \<Longrightarrow> conc_ok c'"
proof (induction rule: conc_step.induct)
  case (create c newID now req s')
  then show ?case using as_Create_ok wf_reachable.new by (fastforce simp: conc_ok_def)
next
  case (load c t ow wid w)
  then show ?case using as_Get_reachable by (auto simp: conc_ok_def)
next
  case (save c t w op w' e)
  then have "wf_reachable w'" by (auto simp: conc_ok_def intro: wf_reachable.step)
  with save show ?case by (auto simp: conc_ok_def intro: saveAndRespond_ok)
next
  case (refuse c t w)
  then show ?case by (auto simp: conc_ok_def)
qed

lemma conc_reachable_ok: "conc_reachable c \<Longrightarrow> conc_ok c"
proof (induction rule: conc_reachable.induct)
  case init
  show ?case by (simp add: conc_ok_def store_ok_def as_New_def)
next
  case (step c c')
  then show ?case using conc_step_ok by blast
qed

text \<open>A request that runs its load and its save without interruption.\<close>

lemma conc_uninterrupted:
  assumes "conc_reachable c" and "cs_loaded c t = None" and "cs_store c wid = Some w"
    and "wf_ID w = wid" and "wf_apply w op = Inr (w', e)"
  shows "conc_reachable (c\<lparr> cs_store := (cs_store c)(wid \<mapsto> w') \<rparr>)"
proof -
  have got: "as_Get (cs_store c) (wf_OrgID w) wid = Inr w"
    using assms(3) by (simp add: as_Get_def)
  have l: "conc_reachable (c\<lparr> cs_loaded := (cs_loaded c)(t \<mapsto> w) \<rparr>)"
    using assms(1) conc_step.load [OF assms(2) got] by (rule conc_reachable.step)
  have saved: "fst (saveAndRespond (cs_store c) w' e) = (cs_store c)(wid \<mapsto> w')"
    using assms(3,4) wf_apply_step(7) [OF assms(5)]
    by (simp add: saveAndRespond_def as_Update_def)
  have "conc_reachable \<lparr> cs_store = (cs_store c)(wid \<mapsto> w'),
      cs_loaded = ((cs_loaded c)(t \<mapsto> w))(t := None) \<rparr>"
    using conc_reachable.step [OF l conc_step.save [OF _ assms(5), of _ t]] saved by simp
  moreover have "((cs_loaded c)(t \<mapsto> w))(t := None) = cs_loaded c"
    using assms(2) by auto
  ultimately show ?thesis by (cases c) simp
qed

lemma ex_transitions:
  obtains p a l r e1 e2 e3 e4 where
    "wf_apply ex_draft (OpSubmit 1 ex_submit) = Inr (p, e1)"
    "wf_apply p (OpApprove 2 ex_approve) = Inr (a, e2)"
    "wf_apply a (OpLock 3 ex_lock) = Inr (l, e3)"
    "wf_apply p (OpReject 4 ex_reject) = Inr (r, e4)"
    "wf_ID p = 5" "wf_ID a = 5" "wf_ID l = 5" "wf_ID r = 5"
    "wf_Status l = StatusLocked" "wf_Status r = StatusRejected"
  by (simp add: ex_draft_def wf_eval)

section \<open>Properties\<close>

text \<open>
  C1. In every store a sequential service can reach, each workflow is stored under its own
  identifier and has a sound history, whatever requests were answered before.
\<close>

theorem served_workflows_sound:
  "served parse s \<Longrightarrow> s wid = Some w \<Longrightarrow>
     wf_ID w = wid \<and> wf_run (wf_WorkflowType w) (wf_History w) (wf_Status w) \<and> history_owned w"
  using served_ok [of parse s] reachable_run reachable_history_owned by (simp add: store_ok_def)

text \<open>
  C4. Tenant isolation: a request leaves what every other organisation sees of the store
  unchanged, and a read under another organisation's identifier answers not found.
\<close>

theorem approval_tenant_isolation:
  assumes "served parse s" and "fresh_for s r" and "request_org parse r \<noteq> Some ow"
  shows "approvals.view (fst (serve parse s r)) ow = approvals.view s ow \<and>
     (case as_Get s ow wid of Inl err \<Rightarrow> err = ErrWorkflowNotFound | Inr w \<Rightarrow> wf_OrgID w = ow)"
  using serve_isolated [OF store_ok_keyed [OF served_ok [OF assms(1)]] assms(2,3)]
  by (auto simp: as_Get_def split: option.split)

text \<open>
  Under sequential requests a locked workflow never changes again.
\<close>

theorem served_locked_stable:
  "served parse s \<Longrightarrow> fresh_for s r \<Longrightarrow> s wid = Some w \<Longrightarrow> wf_Status w = StatusLocked \<Longrightarrow>
     fst (serve parse s r) wid = Some w"
  by (rule serve_locked [OF store_ok_keyed [OF served_ok]])

text \<open>
  Interleaved requests still leave only workflows with a sound history in the store.
\<close>

theorem interleaved_workflows_sound:
  "conc_reachable c \<Longrightarrow> cs_store c wid = Some w \<Longrightarrow>
     wf_ID w = wid \<and> wf_run (wf_WorkflowType w) (wf_History w) (wf_Status w) \<and> history_owned w"
  using conc_reachable_ok [of c] reachable_run reachable_history_owned
  by (simp add: conc_ok_def store_ok_def)

text \<open>
  Interleaved requests can lose an update: some interleaving takes a locked workflow
  back to rejected, because a request that loaded it while it was pending saves its stale
  copy over the lock.
\<close>

theorem interleaved_lock_lost:
  "\<exists>c c' wid w w'. conc_reachable c \<and> conc_step c c' \<and>
     cs_store c wid = Some w \<and> wf_Status w = StatusLocked \<and>
     cs_store c' wid = Some w' \<and> wf_Status w' = StatusRejected"
proof -
  let ?d = "ex_draft"
  obtain p a l r e1 e2 e3 e4 where p: "wf_apply ?d (OpSubmit 1 ex_submit) = Inr (p, e1)"
      and a: "wf_apply p (OpApprove 2 ex_approve) = Inr (a, e2)"
      and l: "wf_apply a (OpLock 3 ex_lock) = Inr (l, e3)"
      and r: "wf_apply p (OpReject 4 ex_reject) = Inr (r, e4)"
      and st: "wf_ID p = 5" "wf_ID a = 5" "wf_ID l = 5" "wf_ID r = 5"
        "wf_Status l = StatusLocked" "wf_Status r = StatusRejected"
    by (rule ex_transitions)
  have d: "conc_reachable \<lparr> cs_store = [5 \<mapsto> ?d], cs_loaded = Map.empty \<rparr>"
    using conc_reachable.step [OF conc_reachable.init conc_step.create, of 5 0 ex_create]
    by (simp add: as_New_def as_Create_def ex_draft_def)
  have "conc_reachable \<lparr> cs_store = [5 \<mapsto> p], cs_loaded = Map.empty \<rparr>"
    using conc_uninterrupted [OF d _ _ _ p, of 0 5] by (simp add: ex_draft_def)
  then have loaded: "conc_reachable \<lparr> cs_store = [5 \<mapsto> p], cs_loaded = [1 \<mapsto> p] \<rparr>"
    by (drule_tac conc_reachable.step [OF _ conc_step.load [of _ 1 "wf_OrgID p" 5 p]])
      (simp_all add: as_Get_def)
  have approved: "conc_reachable \<lparr> cs_store = [5 \<mapsto> a], cs_loaded = [1 \<mapsto> p] \<rparr>"
    using conc_uninterrupted [OF loaded _ _ _ a, of 0 5] st by simp
  have locked: "conc_reachable \<lparr> cs_store = [5 \<mapsto> l], cs_loaded = [1 \<mapsto> p] \<rparr>"
    using conc_uninterrupted [OF approved _ _ _ l, of 0 5] st by simp
  have "conc_step \<lparr> cs_store = [5 \<mapsto> l], cs_loaded = [1 \<mapsto> p] \<rparr>
      \<lparr> cs_store = [5 \<mapsto> r], cs_loaded = Map.empty \<rparr>"
    using conc_step.save [of "\<lparr> cs_store = [5 \<mapsto> l], cs_loaded = [1 \<mapsto> p] \<rparr>" 1 p _ r e4, OF _ r] st
    by (simp add: saveAndRespond_def as_Update_def)
  with locked st show ?thesis
    by (intro exI [of _ "\<lparr> cs_store = [5 \<mapsto> l], cs_loaded = [1 \<mapsto> p] \<rparr>"]
        exI [of _ "\<lparr> cs_store = [5 \<mapsto> r], cs_loaded = Map.empty \<rparr>"] exI [of _ 5]
        exI [of _ l] exI [of _ r]) simp
qed

section \<open>Witnesses\<close>

definition ex_parse :: "string \<Rightarrow> uuid option" where
  "ex_parse s = (if s = ''o7'' then Some 7 else if s = ''w5'' then Some 5 else None)"

definition ex_requests :: "approval_request list" where
  "ex_requests = [ReqCreate 5 0 (Inr ex_create), ReqSubmit 1 ''o7'' ''w5'' (Inr ex_submit),
     ReqApprove 2 ''o7'' ''w5'' (Inr ex_approve), ReqLock 3 ''o7'' ''w5'' (Inr ex_lock)]"

fun serve_all :: "(string \<Rightarrow> uuid option) \<Rightarrow> approval_store \<Rightarrow> approval_request list \<Rightarrow> approval_store"
where
  "serve_all parse s [] = s"
| "serve_all parse s (r # rs) =
     (if fresh_for s r then serve_all parse (fst (serve parse s r)) rs else s)"

lemma serve_all_served: "served parse s \<Longrightarrow> served parse (serve_all parse s rs)"
  by (induction rs arbitrary: s) (auto intro: served.request)

definition ex_served :: approval_store where
  "ex_served = serve_all ex_parse as_New ex_requests"

lemma ex_served_ok: "served ex_parse ex_served"
  unfolding ex_served_def by (rule serve_all_served, rule served.empty)

lemmas serve_eval = ah_transitions transition_handler_def loadWorkflow_def decode_apply_save_def
  requireOrgAndID_def requireOrgID_def as_Get_def as_Update_def as_Create_def as_New_def
  saveAndRespond_def ah_Create_def ex_parse_def uuid_Nil_def

lemma ex_served_locked:
  "\<exists>w. ex_served 5 = Some w \<and> wf_Status w = StatusLocked \<and> wf_OrgID w = 7"
  by (simp add: ex_served_def ex_requests_def serve_eval wf_eval)

theorem served_workflows_sound_witness:
  "\<exists>w. ex_served 5 = Some w \<and> wf_ID w = 5 \<and>
     wf_run (wf_WorkflowType w) (wf_History w) StatusLocked"
  using ex_served_locked served_workflows_sound [OF ex_served_ok, of 5] by force

theorem approval_tenant_isolation_witness:
  "approvals.view (fst (serve ex_parse ex_served (ReqReject 9 ''o7'' ''w5'' (Inr ex_reject)))) 8 =
     approvals.view ex_served 8 \<and>
   (case as_Get ex_served 8 5 of Inl err \<Rightarrow> err = ErrWorkflowNotFound | Inr w \<Rightarrow> wf_OrgID w = 8)"
  using approval_tenant_isolation
    [OF ex_served_ok, of "ReqReject 9 ''o7'' ''w5'' (Inr ex_reject)" 8 5]
  by (auto simp: requireOrgAndID_def requireOrgID_def ex_parse_def)

theorem served_locked_stable_witness:
  "fst (serve ex_parse ex_served (ReqReject 9 ''o7'' ''w5'' (Inr ex_reject))) 5 = ex_served 5 \<and>
   ex_served 5 \<noteq> None"
proof -
  obtain w where w: "ex_served 5 = Some w" "wf_Status w = StatusLocked"
    using ex_served_locked by blast
  then show ?thesis
    using served_locked_stable
      [OF ex_served_ok _ w, of "ReqReject 9 ''o7'' ''w5'' (Inr ex_reject)"] by simp
qed

theorem interleaved_workflows_sound_witness:
  "\<exists>c. conc_reachable c \<and> cs_store c 5 = Some ex_draft \<and>
     wf_run (wf_WorkflowType ex_draft) (wf_History ex_draft) (wf_Status ex_draft)"
proof -
  have c: "conc_reachable \<lparr> cs_store = [5 \<mapsto> ex_draft], cs_loaded = Map.empty \<rparr>"
    using conc_reachable.step [OF conc_reachable.init conc_step.create, of 5 0 ex_create]
    by (simp add: as_New_def as_Create_def ex_draft_def)
  from c interleaved_workflows_sound [OF c, of 5 ex_draft] show ?thesis
    by (intro exI [of _ "\<lparr> cs_store = [5 \<mapsto> ex_draft], cs_loaded = Map.empty \<rparr>"]) simp
qed

end
