(* ===== verification/EngagementDomain.thy ===== *)
theory EngagementDomain
  imports Prelude
begin

text \<open>
  The engagement lifecycle (services/engagement/internal/domain/engagement.go). A \<open>Phase\<close> is a
  Go string; \<open>PhaseOther\<close> stands for every string that is none of the named phases. The
  lemmas give the invariant of every engagement the operations produce: its history is a walk
  from planning to the current phase along \<open>validTransitions\<close>, and the actual dates mark
  the phases that set them.
\<close>

section \<open>Data\<close>

datatype Phase =
    PhasePlanning | PhaseFieldwork | PhaseReporting | PhaseMonitoring | PhaseCompleted
  | PhaseCancelled | PhaseOther string

fun validTransitions :: "Phase \<Rightarrow> Phase list option" where
  "validTransitions PhasePlanning = Some [PhaseFieldwork, PhaseCancelled]"
| "validTransitions PhaseFieldwork = Some [PhaseReporting, PhaseCancelled]"
| "validTransitions PhaseReporting = Some [PhaseMonitoring, PhaseCancelled]"
| "validTransitions PhaseMonitoring = Some [PhaseCompleted, PhaseCancelled]"
| "validTransitions PhaseCompleted = Some []"
| "validTransitions PhaseCancelled = Some []"
| "validTransitions (PhaseOther _) = None"

datatype eng_error = ErrInvalidTransition | ErrEngagementNotFound | ErrEngagementTerminal

record PhaseEvent =
  pe_ID :: uuid
  pe_EngagementID :: uuid
  pe_FromPhase :: Phase
  pe_ToPhase :: Phase
  pe_TransitionedBy :: uuid
  pe_Notes :: string
  pe_TransitionedAt :: gotime

record Engagement =
  en_ID :: uuid
  en_OrgID :: uuid
  en_FrameworkID :: uuid
  en_Name :: string
  en_Description :: string
  en_Phase :: Phase
  en_Scope :: gomap
  en_LeadAuditorID :: "uuid option"
  en_TargetStartDate :: "gotime option"
  en_TargetEndDate :: "gotime option"
  en_ActualStartDate :: "gotime option"
  en_ActualEndDate :: "gotime option"
  en_PhaseHistory :: "PhaseEvent list"
  en_Metadata :: gomap
  en_CreatedAt :: gotime
  en_UpdatedAt :: gotime

record CreateEngagementRequest =
  ce_OrgID :: uuid
  ce_FrameworkID :: uuid
  ce_Name :: string
  ce_Description :: string
  ce_Scope :: gomap
  ce_LeadAuditorID :: "uuid option"
  ce_TargetStartDate :: "gotime option"
  ce_TargetEndDate :: "gotime option"

record UpdateEngagementRequest =
  ue_Name :: "string option"
  ue_Description :: "string option"
  ue_Scope :: gomap
  ue_LeadAuditorID :: "uuid option"
  ue_TargetStartDate :: "gotime option"
  ue_TargetEndDate :: "gotime option"

record TransitionRequest =
  tr_ToPhase :: Phase
  tr_TransitionedBy :: uuid
  tr_Notes :: string

section \<open>Operations\<close>

definition CanTransition :: "Engagement \<Rightarrow> Phase \<Rightarrow> bool" where
  "CanTransition e to =
     (case validTransitions (en_Phase e) of None \<Rightarrow> False | Some allowed \<Rightarrow> list_ex (\<lambda>p. p = to) allowed)"

definition IsTerminal :: "Engagement \<Rightarrow> bool" where
  "IsTerminal e \<longleftrightarrow> en_Phase e = PhaseCompleted \<or> en_Phase e = PhaseCancelled"

definition Transition ::
  "uuid \<Rightarrow> gotime \<Rightarrow> Engagement \<Rightarrow> TransitionRequest \<Rightarrow> eng_error + (Engagement \<times> PhaseEvent)" where
  "Transition evID now e req =
     (if IsTerminal e then Inl ErrEngagementTerminal
      else if \<not> CanTransition e (tr_ToPhase req) then Inl ErrInvalidTransition
      else
        let event = \<lparr> pe_ID = evID, pe_EngagementID = en_ID e, pe_FromPhase = en_Phase e,
              pe_ToPhase = tr_ToPhase req, pe_TransitionedBy = tr_TransitionedBy req,
              pe_Notes = tr_Notes req, pe_TransitionedAt = now \<rparr>;
            e1 = e\<lparr> en_Phase := tr_ToPhase req, en_UpdatedAt := now \<rparr>;
            e2 = (if tr_ToPhase req = PhaseFieldwork \<and> en_ActualStartDate e1 = None
                  then e1\<lparr> en_ActualStartDate := Some now \<rparr> else e1);
            e3 = (if (tr_ToPhase req = PhaseCompleted \<or> tr_ToPhase req = PhaseCancelled) \<and>
                     en_ActualEndDate e2 = None
                  then e2\<lparr> en_ActualEndDate := Some now \<rparr> else e2)
        in Inr (e3\<lparr> en_PhaseHistory := en_PhaseHistory e3 @ [event] \<rparr>, event))"

definition NewEngagement :: "uuid \<Rightarrow> gotime \<Rightarrow> CreateEngagementRequest \<Rightarrow> Engagement" where
  "NewEngagement newID now req =
     (let e = \<lparr> en_ID = newID, en_OrgID = ce_OrgID req, en_FrameworkID = ce_FrameworkID req,
        en_Name = ce_Name req, en_Description = ce_Description req, en_Phase = PhasePlanning,
        en_Scope = ce_Scope req, en_LeadAuditorID = ce_LeadAuditorID req,
        en_TargetStartDate = ce_TargetStartDate req, en_TargetEndDate = ce_TargetEndDate req,
        en_ActualStartDate = None, en_ActualEndDate = None, en_PhaseHistory = [],
        en_Metadata = Some [], en_CreatedAt = now, en_UpdatedAt = now \<rparr>
      in if en_Scope e = None then e\<lparr> en_Scope := Some [] \<rparr> else e)"

definition AllowedNextPhases :: "Engagement \<Rightarrow> Phase list" where
  "AllowedNextPhases e = (case validTransitions (en_Phase e) of None \<Rightarrow> [] | Some ps \<Rightarrow> ps)"

text \<open>What PATCH writes (services/engagement/internal/handler/handler.go, \<open>Update\<close>).\<close>

definition apply_update :: "UpdateEngagementRequest \<Rightarrow> Engagement \<Rightarrow> Engagement" where
  "apply_update req e =
     (let e1 = (case ue_Name req of Some n \<Rightarrow> e\<lparr> en_Name := n \<rparr> | None \<Rightarrow> e);
          e2 = (case ue_Description req of Some d \<Rightarrow> e1\<lparr> en_Description := d \<rparr> | None \<Rightarrow> e1);
          e3 = (if ue_Scope req \<noteq> None then e2\<lparr> en_Scope := ue_Scope req \<rparr> else e2);
          e4 = (if ue_LeadAuditorID req \<noteq> None
                then e3\<lparr> en_LeadAuditorID := ue_LeadAuditorID req \<rparr> else e3);
          e5 = (if ue_TargetStartDate req \<noteq> None
                then e4\<lparr> en_TargetStartDate := ue_TargetStartDate req \<rparr> else e4)
      in if ue_TargetEndDate req \<noteq> None
         then e5\<lparr> en_TargetEndDate := ue_TargetEndDate req \<rparr> else e5)"

section \<open>The invariant\<close>

fun walk :: "Phase \<Rightarrow> PhaseEvent list \<Rightarrow> Phase \<Rightarrow> bool" where
  "walk p [] q = (p = q)"
| "walk p (ev # evs) q =
     (pe_FromPhase ev = p \<and>
      (case validTransitions p of None \<Rightarrow> False | Some ps \<Rightarrow> pe_ToPhase ev \<in> set ps) \<and>
      walk (pe_ToPhase ev) evs q)"

text \<open>How many transitions a phase is from the start, and at most from the end.\<close>

fun rank :: "Phase \<Rightarrow> nat" where
  "rank PhasePlanning = 4"
| "rank PhaseFieldwork = 3"
| "rank PhaseReporting = 2"
| "rank PhaseMonitoring = 1"
| "rank _ = 0"

definition eng_inv :: "Engagement \<Rightarrow> bool" where
  "eng_inv e \<longleftrightarrow>
     walk PhasePlanning (en_PhaseHistory e) (en_Phase e) \<and>
     list_all (\<lambda>ev. pe_EngagementID ev = en_ID e) (en_PhaseHistory e) \<and>
     (en_ActualStartDate e \<noteq> None \<longleftrightarrow>
        (\<exists>ev \<in> set (en_PhaseHistory e). pe_ToPhase ev = PhaseFieldwork)) \<and>
     (en_ActualEndDate e \<noteq> None \<longleftrightarrow> IsTerminal e) \<and>
     en_Scope e \<noteq> None"

lemma CanTransition_iff:
  "CanTransition e to \<longleftrightarrow>
     (case validTransitions (en_Phase e) of None \<Rightarrow> False | Some ps \<Rightarrow> to \<in> set ps)"
  by (auto simp: CanTransition_def list_ex_iff split: option.split)

lemma walk_snoc:
  "walk p (evs @ [ev]) q \<longleftrightarrow>
     walk p evs (pe_FromPhase ev) \<and> pe_ToPhase ev = q \<and>
     (case validTransitions (pe_FromPhase ev) of None \<Rightarrow> False | Some ps \<Rightarrow> pe_ToPhase ev \<in> set ps)"
  by (induction p evs "pe_FromPhase ev" rule: walk.induct) (auto split: option.splits)

lemma valid_rank:
  "validTransitions p = Some ps \<Longrightarrow> q \<in> set ps \<Longrightarrow> rank q < rank p"
  by (cases p) auto

lemma walk_rank: "walk p evs q \<Longrightarrow> rank q + length evs \<le> rank p"
  by (induction p evs q rule: walk.induct) (fastforce split: option.splits dest: valid_rank)+

lemma walk_named: "walk p evs q \<Longrightarrow> validTransitions p \<noteq> None \<Longrightarrow> validTransitions q \<noteq> None"
proof (induction p evs q rule: walk.induct)
  case (2 p ev evs q)
  then obtain ps where "validTransitions p = Some ps" "pe_ToPhase ev \<in> set ps" by auto
  then have "validTransitions (pe_ToPhase ev) \<noteq> None" by (cases p) auto
  with 2 show ?case by auto
qed simp

lemma Transition_Inr:
  assumes "Transition evID now e req = Inr (e', ev)"
  shows "\<not> IsTerminal e" and "CanTransition e (tr_ToPhase req)"
    and "ev = \<lparr> pe_ID = evID, pe_EngagementID = en_ID e, pe_FromPhase = en_Phase e,
              pe_ToPhase = tr_ToPhase req, pe_TransitionedBy = tr_TransitionedBy req,
              pe_Notes = tr_Notes req, pe_TransitionedAt = now \<rparr>"
    and "en_ID e' = en_ID e" and "en_OrgID e' = en_OrgID e" and "en_Phase e' = tr_ToPhase req"
    and "en_PhaseHistory e' = en_PhaseHistory e @ [ev]" and "en_Scope e' = en_Scope e"
    and "en_ActualStartDate e' = (if tr_ToPhase req = PhaseFieldwork \<and> en_ActualStartDate e = None
           then Some now else en_ActualStartDate e)"
    and "en_ActualEndDate e' = (if (tr_ToPhase req = PhaseCompleted \<or> tr_ToPhase req = PhaseCancelled) \<and>
           en_ActualEndDate e = None then Some now else en_ActualEndDate e)"
  using assms by (auto simp: Transition_def Let_def split: if_splits)

lemma Transition_inv:
  assumes "eng_inv e" and "Transition evID now e req = Inr (e', ev)"
  shows "eng_inv e'"
proof -
  note tr = Transition_Inr [OF assms(2)]
  have "walk PhasePlanning (en_PhaseHistory e') (en_Phase e')"
    using assms(1) tr(2,3,6,7) by (simp add: walk_snoc eng_inv_def CanTransition_iff split: option.splits)
  moreover have "list_all (\<lambda>ev. pe_EngagementID ev = en_ID e') (en_PhaseHistory e')"
    using assms(1) tr(3,4,7) by (simp add: eng_inv_def)
  moreover have "en_ActualStartDate e' \<noteq> None \<longleftrightarrow>
      (\<exists>ev \<in> set (en_PhaseHistory e'). pe_ToPhase ev = PhaseFieldwork)"
    using assms(1) tr(3,7,9) by (auto simp: eng_inv_def)
  moreover have "en_ActualEndDate e' \<noteq> None \<longleftrightarrow> IsTerminal e'"
    using assms(1) tr(1,6,10) by (auto simp: eng_inv_def IsTerminal_def)
  moreover have "en_Scope e' \<noteq> None" using assms(1) tr(8) by (simp add: eng_inv_def)
  ultimately show ?thesis unfolding eng_inv_def by blast
qed

lemma NewEngagement_sel [simp]:
  "en_ID (NewEngagement newID now req) = newID"
  "en_OrgID (NewEngagement newID now req) = ce_OrgID req"
  "en_Phase (NewEngagement newID now req) = PhasePlanning"
  "en_PhaseHistory (NewEngagement newID now req) = []"
  by (simp_all add: NewEngagement_def Let_def)

lemma NewEngagement_inv: "eng_inv (NewEngagement newID now req)"
  by (simp add: eng_inv_def NewEngagement_def Let_def IsTerminal_def)

lemma apply_update_sel [simp]:
  "en_ID (apply_update req e) = en_ID e"
  "en_OrgID (apply_update req e) = en_OrgID e"
  "en_Phase (apply_update req e) = en_Phase e"
  "en_PhaseHistory (apply_update req e) = en_PhaseHistory e"
  "en_ActualStartDate (apply_update req e) = en_ActualStartDate e"
  "en_ActualEndDate (apply_update req e) = en_ActualEndDate e"
  by (simp_all add: apply_update_def Let_def split: option.split)

lemma apply_update_scope: "en_Scope e \<noteq> None \<Longrightarrow> en_Scope (apply_update req e) \<noteq> None"
  by (auto simp: apply_update_def Let_def split: option.split)

lemma apply_update_inv: "eng_inv e \<Longrightarrow> eng_inv (apply_update req e)"
  using apply_update_scope [of e req] by (simp add: eng_inv_def IsTerminal_def)

end
