(* ===== verification/EngagementService.thy ===== *)
theory EngagementService
  imports EngagementDomain OrgStore
begin

text \<open>
  The engagement service: its repository (services/engagement/internal/store/store.go) and its
  HTTP handlers (services/engagement/internal/handler/handler.go). \<open>uuid.Parse\<close> is the
  parameter \<open>parse\<close>, fresh identifiers and clock readings are arguments, a decoded body is a
  sum. \<open>List\<close> takes the order in which the Go map is visited.

  The repository interprets \<open>org_store_create\<close>; the properties follow from its facts and the
  invariant of EngagementDomain.
\<close>

section \<open>The repository\<close>

type_synonym engagement_store = "uuid \<rightharpoonup> Engagement"

definition NewEngagementStore :: engagement_store where
  "NewEngagementStore = Map.empty"

definition es_Create :: "engagement_store \<Rightarrow> Engagement \<Rightarrow> eng_error + engagement_store" where
  "es_Create s e = Inr (s(en_ID e \<mapsto> e))"

definition es_Get :: "engagement_store \<Rightarrow> uuid \<Rightarrow> uuid \<Rightarrow> eng_error + Engagement" where
  "es_Get s orgID eid =
     (case s eid of
        None \<Rightarrow> Inl ErrEngagementNotFound
      | Some e \<Rightarrow> if en_OrgID e \<noteq> orgID then Inl ErrEngagementNotFound else Inr e)"

fun es_List :: "engagement_store \<Rightarrow> uuid list \<Rightarrow> uuid \<Rightarrow> Engagement list" where
  "es_List s [] orgID = []"
| "es_List s (k # ks) orgID =
     (case s k of
        None \<Rightarrow> es_List s ks orgID
      | Some e \<Rightarrow> if en_OrgID e = orgID then e # es_List s ks orgID else es_List s ks orgID)"

definition es_Update :: "engagement_store \<Rightarrow> Engagement \<Rightarrow> eng_error + engagement_store" where
  "es_Update s e =
     (case s (en_ID e) of
        None \<Rightarrow> Inl ErrEngagementNotFound
      | Some _ \<Rightarrow> Inr (s(en_ID e \<mapsto> e)))"

interpretation engagements: org_store_create
  "\<lambda>s i. s i" en_ID en_OrgID es_Get es_Update es_Create
  by unfold_locales
    (auto simp: es_Get_def es_Update_def es_Create_def split: option.splits if_splits)

section \<open>The handlers\<close>

datatype engagement_body =
    BodyEngagement Engagement
  | BodyEngagements "Engagement list" nat
  | BodyEvent Engagement PhaseEvent

text \<open>The refusal of an invalid transition carries the current and the allowed phases.\<close>

datatype engagement_answer =
    Ans "engagement_body response"
  | AnsInvalidTransition nat string string Phase "Phase list"

abbreviation bad_request :: "string \<Rightarrow> engagement_answer" where
  "bad_request msg \<equiv> Ans (JsonError 400 ''INVALID_REQUEST'' msg)"

fun eng_error_text :: "eng_error \<Rightarrow> string" where
  "eng_error_text ErrInvalidTransition = ''invalid lifecycle transition''"
| "eng_error_text ErrEngagementNotFound = ''engagement not found''"
| "eng_error_text ErrEngagementTerminal = ''engagement is in a terminal state''"

definition parseOrgAndID ::
  "(string \<Rightarrow> uuid option) \<Rightarrow> string \<Rightarrow> string \<Rightarrow> engagement_answer + (uuid \<times> uuid)" where
  "parseOrgAndID parse orgIDStr rawID =
     (if orgIDStr = [] then Inl (bad_request ''org_id query param required'')
      else case parse orgIDStr of
        None \<Rightarrow> Inl (bad_request ''invalid org_id'')
      | Some orgID \<Rightarrow>
          (case parse rawID of
             None \<Rightarrow> Inl (bad_request ''invalid id'')
           | Some eid \<Rightarrow> Inr (orgID, eid)))"

definition load_error :: "eng_error \<Rightarrow> engagement_answer" where
  "load_error err =
     (if err = ErrEngagementNotFound then Ans (JsonError 404 ''NOT_FOUND'' ''engagement not found'')
      else Ans (JsonError 500 ''INTERNAL_ERROR'' (eng_error_text err)))"

definition eh_Create ::
  "uuid \<Rightarrow> gotime \<Rightarrow> engagement_store \<Rightarrow> CreateEngagementRequest decoded \<Rightarrow>
   engagement_store \<times> engagement_answer" where
  "eh_Create newID now s body =
     (case body of
        Inl msg \<Rightarrow> (s, bad_request msg)
      | Inr req \<Rightarrow>
          if ce_Name req = [] then (s, bad_request ''name is required'')
          else if ce_OrgID req = uuid_Nil then (s, bad_request ''org_id is required'')
          else if ce_FrameworkID req = uuid_Nil then (s, bad_request ''framework_id is required'')
          else let eng = NewEngagement newID now req
               in case es_Create s eng of
                    Inl err \<Rightarrow> (s, Ans (JsonError 500 ''INTERNAL_ERROR'' (eng_error_text err)))
                  | Inr s' \<Rightarrow> (s', Ans (JsonResponse 201 (BodyEngagement eng))))"

definition eh_List ::
  "(string \<Rightarrow> uuid option) \<Rightarrow> uuid list \<Rightarrow> engagement_store \<Rightarrow> string \<Rightarrow> engagement_answer" where
  "eh_List parse order s orgIDStr =
     (if orgIDStr = [] then bad_request ''org_id query param required''
      else case parse orgIDStr of
        None \<Rightarrow> bad_request ''invalid org_id''
      | Some orgID \<Rightarrow>
          let es = es_List s order orgID in Ans (JsonResponse 200 (BodyEngagements es (length es))))"

definition eh_Get ::
  "(string \<Rightarrow> uuid option) \<Rightarrow> engagement_store \<Rightarrow> string \<Rightarrow> string \<Rightarrow> engagement_answer" where
  "eh_Get parse s org rawID =
     (case parseOrgAndID parse org rawID of
        Inl r \<Rightarrow> r
      | Inr (orgID, eid) \<Rightarrow>
          (case es_Get s orgID eid of
             Inl err \<Rightarrow> load_error err
           | Inr e \<Rightarrow> Ans (JsonResponse 200 (BodyEngagement e))))"

definition eh_Update ::
  "(string \<Rightarrow> uuid option) \<Rightarrow> engagement_store \<Rightarrow> string \<Rightarrow> string \<Rightarrow>
   UpdateEngagementRequest decoded \<Rightarrow> engagement_store \<times> engagement_answer" where
  "eh_Update parse s org rawID body =
     (case parseOrgAndID parse org rawID of
        Inl r \<Rightarrow> (s, r)
      | Inr (orgID, eid) \<Rightarrow>
          (case es_Get s orgID eid of
             Inl err \<Rightarrow> (s, load_error err)
           | Inr eng \<Rightarrow>
               (case body of
                  Inl msg \<Rightarrow> (s, bad_request msg)
                | Inr req \<Rightarrow>
                    let eng1 = apply_update req eng
                    in case es_Update s eng1 of
                         Inl err \<Rightarrow> (s, Ans (JsonError 500 ''INTERNAL_ERROR'' (eng_error_text err)))
                       | Inr s' \<Rightarrow> (s', Ans (JsonResponse 200 (BodyEngagement eng1))))))"

definition eh_Transition ::
  "(string \<Rightarrow> uuid option) \<Rightarrow> uuid \<Rightarrow> gotime \<Rightarrow> engagement_store \<Rightarrow> string \<Rightarrow> string \<Rightarrow>
   TransitionRequest decoded \<Rightarrow> engagement_store \<times> engagement_answer" where
  "eh_Transition parse evID now s org rawID body =
     (case parseOrgAndID parse org rawID of
        Inl r \<Rightarrow> (s, r)
      | Inr (orgID, eid) \<Rightarrow>
          (case es_Get s orgID eid of
             Inl err \<Rightarrow> (s, load_error err)
           | Inr eng \<Rightarrow>
               (case body of
                  Inl msg \<Rightarrow> (s, bad_request msg)
                | Inr req \<Rightarrow>
                    (case Transition evID now eng req of
                       Inl err \<Rightarrow>
                         (s, if err = ErrInvalidTransition
                             then AnsInvalidTransition 422 ''INVALID_TRANSITION'' (eng_error_text err)
                                    (en_Phase eng) (AllowedNextPhases eng)
                             else if err = ErrEngagementTerminal
                             then Ans (JsonError 422 ''TERMINAL_STATE'' (eng_error_text err))
                             else Ans (JsonError 500 ''INTERNAL_ERROR'' (eng_error_text err)))
                     | Inr (eng1, event) \<Rightarrow>
                         (case es_Update s eng1 of
                            Inl err \<Rightarrow>
                              (s, Ans (JsonError 500 ''INTERNAL_ERROR'' (eng_error_text err)))
                          | Inr s' \<Rightarrow> (s', Ans (JsonResponse 200 (BodyEvent eng1 event))))))))"

section \<open>Requests\<close>

datatype eng_request =
    EReqCreate uuid gotime "CreateEngagementRequest decoded"
  | EReqUpdate string string "UpdateEngagementRequest decoded"
  | EReqTransition uuid gotime string string "TransitionRequest decoded"

fun eng_serve ::
  "(string \<Rightarrow> uuid option) \<Rightarrow> engagement_store \<Rightarrow> eng_request \<Rightarrow> engagement_store \<times> engagement_answer"
where
  "eng_serve parse s (EReqCreate newID now body) = eh_Create newID now s body"
| "eng_serve parse s (EReqUpdate org i body) = eh_Update parse s org i body"
| "eng_serve parse s (EReqTransition evID now org i body) = eh_Transition parse evID now s org i body"

text \<open>What one request does: nothing, or one save within the organisation it names.\<close>

inductive eng_changes :: "uuid \<Rightarrow> engagement_store \<Rightarrow> engagement_store \<Rightarrow> bool" where
  same: "eng_changes ow s s"
| updated: "es_Get s ow eid = Inr e \<Longrightarrow> es_Update s (apply_update req e) = Inr s' \<Longrightarrow>
     eng_changes ow s s'"
| transitioned: "es_Get s ow eid = Inr e \<Longrightarrow> Transition evID now e req = Inr (e', ev) \<Longrightarrow>
     es_Update s e' = Inr s' \<Longrightarrow> eng_changes ow s s'"
| created: "s newID = None \<Longrightarrow> ce_OrgID req = ow \<Longrightarrow>
     es_Create s (NewEngagement newID now req) = Inr s' \<Longrightarrow> eng_changes ow s s'"

definition named_org :: "(string \<Rightarrow> uuid option) \<Rightarrow> string \<Rightarrow> uuid" where
  "named_org parse org = (case parse org of Some ow \<Rightarrow> ow | None \<Rightarrow> uuid_Nil)"

fun request_org :: "(string \<Rightarrow> uuid option) \<Rightarrow> eng_request \<Rightarrow> uuid" where
  "request_org parse (EReqCreate newID now body) =
     (case body of Inl _ \<Rightarrow> uuid_Nil | Inr req \<Rightarrow> ce_OrgID req)"
| "request_org parse (EReqUpdate org i body) = named_org parse org"
| "request_org parse (EReqTransition evID now org i body) = named_org parse org"

lemma parseOrgAndID_Inr:
  "parseOrgAndID parse org i = Inr (orgID, eid) \<Longrightarrow> orgID = named_org parse org"
  by (auto simp: parseOrgAndID_def named_org_def split: if_splits option.splits)

lemma eh_Create_changes:
  "s newID = None \<Longrightarrow>
   eng_changes (request_org parse (EReqCreate newID now body)) s (fst (eh_Create newID now s body))"
  by (cases body)
    (auto simp: eh_Create_def Let_def intro: eng_changes.intros split: sum.split)

lemma eh_Update_changes: "eng_changes (named_org parse org) s (fst (eh_Update parse s org i body))"
proof (cases "parseOrgAndID parse org i")
  case (Inr p)
  obtain ow eid where p: "p = (ow, eid)" by fastforce
  with Inr have "ow = named_org parse org" by (auto dest: parseOrgAndID_Inr)
  with Inr p show ?thesis
    by (auto simp: eh_Update_def Let_def intro: eng_changes.intros split: sum.split)
qed (simp add: eh_Update_def eng_changes.same)

lemma eh_Transition_changes:
  "eng_changes (named_org parse org) s (fst (eh_Transition parse evID now s org i body))"
proof (cases "parseOrgAndID parse org i")
  case (Inr p)
  obtain ow eid where p: "p = (ow, eid)" by fastforce
  with Inr have "ow = named_org parse org" by (auto dest: parseOrgAndID_Inr)
  with Inr p show ?thesis
    by (auto simp: eh_Transition_def intro: eng_changes.intros split: sum.split prod.split)
qed (simp add: eh_Transition_def eng_changes.same)

definition fresh_request :: "engagement_store \<Rightarrow> eng_request \<Rightarrow> bool" where
  "fresh_request s req \<longleftrightarrow> (case req of EReqCreate newID _ _ \<Rightarrow> s newID = None | _ \<Rightarrow> True)"

lemma eng_serve_changes:
  "fresh_request s req \<Longrightarrow> eng_changes (request_org parse req) s (fst (eng_serve parse s req))"
  by (cases req)
    (use eh_Create_changes in \<open>auto simp: fresh_request_def eh_Update_changes eh_Transition_changes\<close>)

definition eng_store_ok :: "engagement_store \<Rightarrow> bool" where
  "eng_store_ok s \<longleftrightarrow> engagements.keyed s \<and> (\<forall>i e. s i = Some e \<longrightarrow> eng_inv e)"

lemma eng_store_ok_save:
  assumes ok: "eng_store_ok s" and get: "es_Get s ow eid = Inr e" and inv: "eng_inv e'"
    and eid: "en_ID e' = en_ID e" and upd: "es_Update s e' = Inr s'"
  shows "eng_store_ok s'"
proof -
  have keyed: "engagements.keyed s" using ok by (simp add: eng_store_ok_def)
  then show ?thesis
    using ok inv engagements.save_keyed [OF keyed get eid upd]
      engagements.save_lookup [OF keyed get eid upd]
    by (simp add: eng_store_ok_def)
qed

lemma eng_store_ok_get: "eng_store_ok s \<Longrightarrow> es_Get s ow eid = Inr e \<Longrightarrow> eng_inv e"
  using engagements.get_only by (fastforce simp: eng_store_ok_def)

lemma eng_changes_ok:
  assumes "eng_changes ow s s'" and "eng_store_ok s"
  shows "eng_store_ok s'"
  using assms
proof (induction rule: eng_changes.induct)
  case (updated s ow eid e req s')
  then show ?case using eng_store_ok_get [OF updated(3,1)]
    by (intro eng_store_ok_save [OF updated(3,1) _ _ updated(2)]) (simp_all add: apply_update_inv)
next
  case (transitioned s ow eid e evID now req e' ev s')
  then show ?case using eng_store_ok_get [OF transitioned(4,1)]
    by (intro eng_store_ok_save [OF transitioned(4,1) _ _ transitioned(3)])
      (auto dest: Transition_Inr(4) intro: Transition_inv)
next
  case (created s newID req ow now s')
  then have "engagements.keyed s'"
    using engagements.create_keyed [OF _ created(3)] by (simp add: eng_store_ok_def)
  moreover have "s' = s(newID \<mapsto> NewEngagement newID now req)"
    using engagements.create_lookup [OF created(3)] by simp
  then have "\<forall>i e. s' i = Some e \<longrightarrow> eng_inv e"
    using created(4) by (simp add: eng_store_ok_def NewEngagement_inv)
  ultimately show ?case by (simp add: eng_store_ok_def)
qed

lemma eng_changes_isolated:
  assumes "eng_changes ow s s'" and "eng_store_ok s" and "ow' \<noteq> ow"
  shows "engagements.view s' ow' = engagements.view s ow'"
  using assms
proof (induction rule: eng_changes.induct)
  case (updated s ow eid e req s')
  then show ?case
    by (intro engagements.save_isolated [OF _ updated(1) _ _ updated(2)])
      (simp_all add: eng_store_ok_def)
next
  case (transitioned s ow eid e evID now req e' ev s')
  then show ?case
    by (intro engagements.save_isolated [OF _ transitioned(1) _ _ transitioned(3)])
      (auto simp: eng_store_ok_def dest: Transition_Inr(4,5))
next
  case (created s newID req ow now s')
  then show ?case by (intro engagements.create_isolated [OF created(3)]) simp_all
qed simp

lemma eng_changes_terminal:
  assumes "eng_changes ow s s'" and "eng_store_ok s" and "s i = Some e" and "IsTerminal e"
  shows "\<exists>e'. s' i = Some e' \<and> en_Phase e' = en_Phase e \<and> en_PhaseHistory e' = en_PhaseHistory e \<and>
     en_ActualStartDate e' = en_ActualStartDate e \<and> en_ActualEndDate e' = en_ActualEndDate e"
  using assms
proof (induction rule: eng_changes.induct)
  case (updated s ow eid e1 req s')
  have "engagements.keyed s" using updated by (simp add: eng_store_ok_def)
  from engagements.save_lookup [OF this updated(1) _ updated(2)] updated engagements.get_only [OF updated(1)]
  show ?case by (cases "i = eid") auto
next
  case (transitioned s ow eid e1 evID now req e' ev s')
  have "engagements.keyed s" using transitioned by (simp add: eng_store_ok_def)
  from engagements.save_lookup [OF this transitioned(1) _ transitioned(3)] transitioned
    Transition_Inr(1,4) [OF transitioned(2)] engagements.get_only [OF transitioned(1)]
  show ?case by (cases "i = eid") auto
next
  case (created s newID req ow now s')
  from engagements.create_lookup [OF created(3)] created show ?case by auto
qed simp

text \<open>Every store the service can hold: \<open>uuid.New()\<close> draws unused identifiers.\<close>

inductive eng_served :: "(string \<Rightarrow> uuid option) \<Rightarrow> engagement_store \<Rightarrow> bool"
  for parse :: "string \<Rightarrow> uuid option" where
  start: "eng_served parse NewEngagementStore"
| request: "eng_served parse s \<Longrightarrow> fresh_request s req \<Longrightarrow>
     eng_served parse (fst (eng_serve parse s req))"

lemma eng_served_ok: "eng_served parse s \<Longrightarrow> eng_store_ok s"
proof (induction rule: eng_served.induct)
  case start
  show ?case by (simp add: eng_store_ok_def NewEngagementStore_def engagements.keyed_def)
next
  case (request s req)
  then show ?case by (blast intro: eng_changes_ok eng_serve_changes)
qed

inductive eng_later :: "(string \<Rightarrow> uuid option) \<Rightarrow> engagement_store \<Rightarrow> engagement_store \<Rightarrow> bool"
  for parse :: "string \<Rightarrow> uuid option" where
  now: "eng_later parse s s"
| more: "eng_later parse s s1 \<Longrightarrow> fresh_request s1 req \<Longrightarrow>
     eng_later parse s (fst (eng_serve parse s1 req))"

lemma eng_later_ok: "eng_later parse s s' \<Longrightarrow> eng_store_ok s \<Longrightarrow> eng_store_ok s'"
  by (induction rule: eng_later.induct) (blast intro: eng_changes_ok eng_serve_changes)+

section \<open>Properties\<close>


text \<open>
  A completed or cancelled engagement stays so: whatever requests follow, in whatever
  organisation's name, its phase, its history and its actual dates are those it ended with.
\<close>

theorem engagement_terminal_final:
  assumes "eng_served parse s" and "eng_later parse s s'" and "s i = Some e" and "IsTerminal e"
  shows "\<exists>e'. s' i = Some e' \<and> en_Phase e' = en_Phase e \<and>
     en_PhaseHistory e' = en_PhaseHistory e \<and> en_ActualStartDate e' = en_ActualStartDate e \<and>
     en_ActualEndDate e' = en_ActualEndDate e"
  using assms(2,1,3,4)
proof (induction rule: eng_later.induct)
  case (more s s1 req)
  then obtain e1 where e1: "s1 i = Some e1" "en_Phase e1 = en_Phase e"
    "en_PhaseHistory e1 = en_PhaseHistory e" "en_ActualStartDate e1 = en_ActualStartDate e"
    "en_ActualEndDate e1 = en_ActualEndDate e"
    by blast
  have "eng_store_ok s1" using eng_later_ok [OF more(1)] eng_served_ok [OF more(4)] by simp
  from eng_changes_terminal [OF eng_serve_changes [OF more(2)] this e1(1), of parse] e1 more(6)
  show ?case by (simp add: IsTerminal_def)
qed blast

text \<open>
  A request that names one organisation changes nothing another organisation can see.
\<close>

theorem engagement_tenant_isolation:
  assumes "eng_served parse s" and "fresh_request s req" and "ow \<noteq> request_org parse req"
  shows "es_Get (fst (eng_serve parse s req)) ow i = es_Get s ow i"
proof -
  have "engagements.view (fst (eng_serve parse s req)) ow i = engagements.view s ow i"
    using eng_changes_isolated [OF eng_serve_changes [OF assms(2)] eng_served_ok [OF assms(1)]]
      assms(3) by metis
  then show ?thesis
    unfolding engagements.view_def es_Get_def
    by (cases "s i"; cases "fst (eng_serve parse s req) i") (auto split: if_splits)
qed

text \<open>
  A transition is accepted exactly for the phases \<open>AllowedNextPhases\<close> reports; a terminal
  engagement allows none and refuses with its own error, and every other served engagement
  allows its cancellation.
\<close>

theorem engagement_transition_exact:
  "(case Transition evID now e req of
      Inr (e', ev) \<Rightarrow> tr_ToPhase req \<in> set (AllowedNextPhases e) \<and>
        en_Phase e' = tr_ToPhase req \<and> en_PhaseHistory e' = en_PhaseHistory e @ [ev] \<and>
        pe_FromPhase ev = en_Phase e \<and> pe_ToPhase ev = en_Phase e'
    | Inl err \<Rightarrow> tr_ToPhase req \<notin> set (AllowedNextPhases e) \<and>
        err = (if IsTerminal e then ErrEngagementTerminal else ErrInvalidTransition)) \<and>
   (IsTerminal e = (AllowedNextPhases e = [] \<and> validTransitions (en_Phase e) \<noteq> None)) \<and>
   (PhaseCancelled \<in> set (AllowedNextPhases e)) =
      (\<not> IsTerminal e \<and> validTransitions (en_Phase e) \<noteq> None)"
  by (cases "en_Phase e")
    (auto simp: Transition_def Let_def IsTerminal_def CanTransition_iff AllowedNextPhases_def)

text \<open>
  The terminal guard covers transitions only: PATCH on a completed or cancelled engagement
  answers 200 and rewrites its name, description, scope, lead auditor and target dates. The
  comment on \<open>ErrEngagementTerminal\<close> says it is returned for modifying a terminal engagement.
\<close>

theorem engagement_patch_modifies_terminal:
  assumes "eng_served parse s" and "s eid = Some e" and "IsTerminal e"
    and "org \<noteq> ''''" and "parse org = Some (en_OrgID e)" and "parse i = Some eid"
    and "ue_Name req = Some n"
  shows "\<exists>s' e'. eh_Update parse s org i (Inr req) = (s', Ans (JsonResponse 200 (BodyEngagement e'))) \<and>
     s' eid = Some e' \<and> IsTerminal e' \<and> en_Name e' = n"
proof -
  have "en_ID e = eid"
    using eng_served_ok [OF assms(1)] assms(2) by (simp add: eng_store_ok_def engagements.keyed_def)
  with assms(2-6) have "eh_Update parse s org i (Inr req) =
      (s(eid \<mapsto> apply_update req e), Ans (JsonResponse 200 (BodyEngagement (apply_update req e))))"
    by (simp add: eh_Update_def parseOrgAndID_def es_Get_def es_Update_def Let_def)
  moreover have "en_Name (apply_update req e) = n"
    using assms(7) by (simp add: apply_update_def Let_def split: option.split)
  ultimately show ?thesis using assms(3) by (simp add: IsTerminal_def)
qed

section \<open>Witnesses\<close>

definition ex_parse :: "string \<Rightarrow> uuid option" where
  "ex_parse s = (if s = ''o'' then Some 1 else if s = ''p'' then Some 2
                 else if s = ''e'' then Some 7 else None)"

definition ex_create :: CreateEngagementRequest where
  "ex_create = \<lparr> ce_OrgID = 1, ce_FrameworkID = 3, ce_Name = ''ISO'', ce_Description = '''',
     ce_Scope = None, ce_LeadAuditorID = None, ce_TargetStartDate = None,
     ce_TargetEndDate = None \<rparr>"

definition ex_cancel :: TransitionRequest where
  "ex_cancel = \<lparr> tr_ToPhase = PhaseCancelled, tr_TransitionedBy = 9, tr_Notes = '''' \<rparr>"

definition ex_patch :: UpdateEngagementRequest where
  "ex_patch = \<lparr> ue_Name = Some ''renamed'', ue_Description = None, ue_Scope = None,
     ue_LeadAuditorID = None, ue_TargetStartDate = None, ue_TargetEndDate = None \<rparr>"

definition ex_s1 :: engagement_store where
  "ex_s1 = fst (eng_serve ex_parse NewEngagementStore (EReqCreate 7 10 (Inr ex_create)))"

definition ex_s2 :: engagement_store where
  "ex_s2 = fst (eng_serve ex_parse ex_s1 (EReqTransition 8 20 ''o'' ''e'' (Inr ex_cancel)))"

definition ex_cancelled :: Engagement where
  "ex_cancelled = the (ex_s2 7)"

lemma ex_s1_eval: "ex_s1 = [7 \<mapsto> NewEngagement 7 10 ex_create]"
  by (simp add: ex_s1_def eh_Create_def ex_create_def uuid_Nil_def es_Create_def Let_def
      NewEngagementStore_def)

lemma ex_s2_eval:
  "ex_s2 7 = Some ex_cancelled" "IsTerminal ex_cancelled" "en_OrgID ex_cancelled = 1"
proof -
  obtain e' ev where tr: "Transition 8 20 (NewEngagement 7 10 ex_create) ex_cancel = Inr (e', ev)"
    by (simp add: Transition_def IsTerminal_def CanTransition_def ex_cancel_def Let_def)
  have "ex_s2 = ex_s1(7 \<mapsto> e')"
    using tr Transition_Inr(4) [OF tr]
    by (simp add: ex_s2_def eh_Transition_def parseOrgAndID_def ex_parse_def es_Get_def ex_s1_eval
        ex_create_def es_Update_def)
  then have "ex_s2 7 = Some e'" by (metis fun_upd_same)
  with Transition_Inr(5,6) [OF tr]
  show "ex_s2 7 = Some ex_cancelled" "IsTerminal ex_cancelled" "en_OrgID ex_cancelled = 1"
    by (simp_all add: ex_cancelled_def IsTerminal_def ex_cancel_def ex_create_def)
qed

lemma ex_served: "eng_served ex_parse ex_s1" "eng_served ex_parse ex_s2"
proof -
  show 1: "eng_served ex_parse ex_s1"
    unfolding ex_s1_def
    by (intro eng_served.intros) (simp add: fresh_request_def NewEngagementStore_def)
  show "eng_served ex_parse ex_s2"
    unfolding ex_s2_def by (intro eng_served.request 1) (simp add: fresh_request_def)
qed


theorem engagement_terminal_final_witness:
  "\<exists>e'. fst (eng_serve ex_parse ex_s2 (EReqUpdate ''o'' ''e'' (Inr ex_patch))) 7 = Some e' \<and>
     en_Phase e' = en_Phase ex_cancelled \<and> en_PhaseHistory e' = en_PhaseHistory ex_cancelled"
proof -
  have "eng_later ex_parse ex_s2 (fst (eng_serve ex_parse ex_s2 (EReqUpdate ''o'' ''e'' (Inr ex_patch))))"
    by (intro eng_later.intros) (simp add: fresh_request_def)
  from engagement_terminal_final [OF ex_served(2) this ex_s2_eval(1,2)] show ?thesis by blast
qed

theorem engagement_tenant_isolation_witness:
  "es_Get (fst (eng_serve ex_parse ex_s1 (EReqTransition 8 20 ''o'' ''e'' (Inr ex_cancel)))) 2 7 =
   es_Get ex_s1 2 7"
  by (rule engagement_tenant_isolation [OF ex_served(1)])
    (simp_all add: fresh_request_def named_org_def ex_parse_def)

theorem engagement_patch_modifies_terminal_witness:
  "\<exists>s' e'. eh_Update ex_parse ex_s2 ''o'' ''e'' (Inr ex_patch) =
       (s', Ans (JsonResponse 200 (BodyEngagement e'))) \<and>
     s' 7 = Some e' \<and> IsTerminal e' \<and> en_Name e' = ''renamed''"
  by (rule engagement_patch_modifies_terminal [OF ex_served(2) ex_s2_eval(1,2)])
    (simp_all add: ex_parse_def ex_s2_eval(3) ex_patch_def)

end
