(* ===== verification/PlanningDomain.thy ===== *)
theory PlanningDomain
  imports Prelude
begin

text \<open>
  The audit planning domain (services/planning/internal/domain/plan.go): strategic and annual
  plans with their lifecycle, assurance maps, resource calendars.

  Draws of \<open>uuid.New()\<close> inside a loop are a function \<open>fresh\<close> of the loop index. The statuses of
  a plan are set by the code only and are an enumeration; risk ratings, coverage levels and
  engagement statuses come from clients and are strings. A validation error is its text.
\<close>

section \<open>Strategic plans\<close>

datatype PlanStatus = PlanStatusDraft | PlanStatusApproved | PlanStatusActive | PlanStatusArchived

datatype plan_error =
    ErrNotFound | ErrInvalidRequest | ErrInvalidTransition | ErrDuplicateYear

record AuditableEntity =
  ae_ID :: uuid
  ae_Name :: string
  ae_BusinessUnit :: string
  ae_RiskRating :: string
  ae_Priority :: int
  ae_PlannedYear :: int
  ae_ControlDomains :: "string list"
  ae_Notes :: string

record StrategicPlan =
  sp_ID :: uuid
  sp_OrgID :: uuid
  sp_Name :: string
  sp_Description :: string
  sp_StartYear :: int
  sp_EndYear :: int
  sp_Status :: PlanStatus
  sp_Version :: int
  sp_Entities :: "AuditableEntity list"
  sp_ApprovalID :: "uuid option"
  sp_ApprovedAt :: "gotime option"
  sp_ApprovedBy :: string
  sp_Metadata :: gomap
  sp_CreatedAt :: gotime
  sp_UpdatedAt :: gotime

record CreateStrategicPlanRequest =
  csp_OrgID :: uuid
  csp_Name :: string
  csp_Description :: string
  csp_StartYear :: int
  csp_EndYear :: int
  csp_Entities :: "AuditableEntity list"
  csp_Metadata :: gomap

record UpdateStrategicPlanRequest =
  usp_Name :: "string option"
  usp_Description :: "string option"
  usp_Entities :: "AuditableEntity list option"
  usp_Metadata :: gomap

definition orEmptyMap :: "gomap \<Rightarrow> gomap" where
  "orEmptyMap m = (if m = None then Some [] else m)"

definition fill_entity :: "(nat \<Rightarrow> uuid) \<Rightarrow> nat \<Rightarrow> AuditableEntity \<Rightarrow> AuditableEntity" where
  "fill_entity fresh i e = (if ae_ID e = uuid_Nil then e\<lparr> ae_ID := fresh i \<rparr> else e)"

definition NewStrategicPlan ::
  "(nat \<Rightarrow> uuid) \<Rightarrow> uuid \<Rightarrow> gotime \<Rightarrow> CreateStrategicPlanRequest \<Rightarrow> string + StrategicPlan" where
  "NewStrategicPlan fresh newID now req =
     (if csp_Name req = '''' then Inl ''name is required''
      else if csp_OrgID req = uuid_Nil then Inl ''org_id is required''
      else if csp_StartYear req = 0 \<or> csp_EndYear req = 0 \<or> csp_EndYear req < csp_StartYear req
      then Inl ''valid start_year and end_year are required''
      else Inr \<lparr> sp_ID = newID, sp_OrgID = csp_OrgID req, sp_Name = csp_Name req,
        sp_Description = csp_Description req, sp_StartYear = csp_StartYear req,
        sp_EndYear = csp_EndYear req, sp_Status = PlanStatusDraft, sp_Version = 1,
        sp_Entities = map (\<lambda>(i, e). fill_entity fresh i e) (enumerate 0 (csp_Entities req)),
        sp_ApprovalID = None, sp_ApprovedAt = None, sp_ApprovedBy = '''',
        sp_Metadata = orEmptyMap (csp_Metadata req), sp_CreatedAt = now, sp_UpdatedAt = now \<rparr>)"

definition sp_Approve ::
  "gotime \<Rightarrow> string \<Rightarrow> uuid option \<Rightarrow> StrategicPlan \<Rightarrow> plan_error + StrategicPlan" where
  "sp_Approve now byEmail approvalID p =
     (if sp_Status p \<noteq> PlanStatusDraft then Inl ErrInvalidTransition
      else Inr (p\<lparr> sp_Status := PlanStatusApproved, sp_ApprovedAt := Some now,
                   sp_ApprovedBy := byEmail, sp_ApprovalID := approvalID, sp_UpdatedAt := now \<rparr>))"

definition sp_Activate :: "gotime \<Rightarrow> StrategicPlan \<Rightarrow> plan_error + StrategicPlan" where
  "sp_Activate now p =
     (if sp_Status p \<noteq> PlanStatusApproved then Inl ErrInvalidTransition
      else Inr (p\<lparr> sp_Status := PlanStatusActive, sp_UpdatedAt := now \<rparr>))"

definition sp_Archive :: "gotime \<Rightarrow> StrategicPlan \<Rightarrow> plan_error + StrategicPlan" where
  "sp_Archive now p =
     (if sp_Status p = PlanStatusArchived then Inl ErrInvalidTransition
      else Inr (p\<lparr> sp_Status := PlanStatusArchived, sp_UpdatedAt := now \<rparr>))"

definition sp_Apply ::
  "(nat \<Rightarrow> uuid) \<Rightarrow> gotime \<Rightarrow> UpdateStrategicPlanRequest \<Rightarrow> StrategicPlan \<Rightarrow> StrategicPlan" where
  "sp_Apply fresh now req p =
     (let p1 = (case usp_Name req of Some n \<Rightarrow> p\<lparr> sp_Name := n \<rparr> | None \<Rightarrow> p);
          p2 = (case usp_Description req of Some d \<Rightarrow> p1\<lparr> sp_Description := d \<rparr> | None \<Rightarrow> p1);
          p3 = (case usp_Entities req of
                  Some es \<Rightarrow> p2\<lparr> sp_Entities := map (\<lambda>(i, e). fill_entity fresh i e) (enumerate 0 es) \<rparr>
                | None \<Rightarrow> p2)
      in p3\<lparr> sp_Version := wrap64 (sp_Version p3 + 1), sp_UpdatedAt := now \<rparr>)"

section \<open>Annual plans\<close>

definition EngPlanPlanned :: string where "EngPlanPlanned = ''planned''"

record PlannedEngagement =
  ple_ID :: uuid
  ple_Name :: string
  ple_AuditableEntity :: string
  ple_AssignedTeam :: "string list"
  ple_LeadAuditorID :: string
  ple_Quarter :: int
  ple_StartDate :: string
  ple_EndDate :: string
  ple_BudgetDays :: int
  ple_Status :: string
  ple_EngagementID :: "uuid option"

record AnnualPlan =
  ap_ID :: uuid
  ap_OrgID :: uuid
  ap_StrategicPlanID :: "uuid option"
  ap_Year :: int
  ap_Name :: string
  ap_Status :: PlanStatus
  ap_Version :: int
  ap_Engagements :: "PlannedEngagement list"
  ap_ApprovalID :: "uuid option"
  ap_Metadata :: gomap
  ap_CreatedAt :: gotime
  ap_UpdatedAt :: gotime

record CreateAnnualPlanRequest =
  cap_OrgID :: uuid
  cap_StrategicPlanID :: "uuid option"
  cap_Year :: int
  cap_Name :: string
  cap_Engagements :: "PlannedEngagement list"
  cap_Metadata :: gomap

record UpdateAnnualPlanRequest =
  uap_Name :: "string option"
  uap_Engagements :: "PlannedEngagement list option"
  uap_Metadata :: gomap

definition fill_engagement :: "(nat \<Rightarrow> uuid) \<Rightarrow> nat \<Rightarrow> PlannedEngagement \<Rightarrow> PlannedEngagement" where
  "fill_engagement fresh i e =
     (let e1 = (if ple_ID e = uuid_Nil then e\<lparr> ple_ID := fresh i \<rparr> else e)
      in if ple_Status e1 = '''' then e1\<lparr> ple_Status := EngPlanPlanned \<rparr> else e1)"

definition NewAnnualPlan ::
  "(nat \<Rightarrow> uuid) \<Rightarrow> uuid \<Rightarrow> gotime \<Rightarrow> CreateAnnualPlanRequest \<Rightarrow> string + AnnualPlan" where
  "NewAnnualPlan fresh newID now req =
     (if cap_Name req = '''' then Inl ''name is required''
      else if cap_OrgID req = uuid_Nil then Inl ''org_id is required''
      else if cap_Year req < 2000 \<or> cap_Year req > 2100 then Inl ''valid year is required''
      else Inr \<lparr> ap_ID = newID, ap_OrgID = cap_OrgID req,
        ap_StrategicPlanID = cap_StrategicPlanID req, ap_Year = cap_Year req,
        ap_Name = cap_Name req, ap_Status = PlanStatusDraft, ap_Version = 1,
        ap_Engagements = map (\<lambda>(i, e). fill_engagement fresh i e) (enumerate 0 (cap_Engagements req)),
        ap_ApprovalID = None, ap_Metadata = orEmptyMap (cap_Metadata req),
        ap_CreatedAt = now, ap_UpdatedAt = now \<rparr>)"

definition ap_Approve :: "gotime \<Rightarrow> uuid option \<Rightarrow> AnnualPlan \<Rightarrow> plan_error + AnnualPlan" where
  "ap_Approve now approvalID p =
     (if ap_Status p \<noteq> PlanStatusDraft then Inl ErrInvalidTransition
      else Inr (p\<lparr> ap_Status := PlanStatusApproved, ap_ApprovalID := approvalID,
                   ap_UpdatedAt := now \<rparr>))"

definition ap_Activate :: "gotime \<Rightarrow> AnnualPlan \<Rightarrow> plan_error + AnnualPlan" where
  "ap_Activate now p =
     (if ap_Status p \<noteq> PlanStatusApproved then Inl ErrInvalidTransition
      else Inr (p\<lparr> ap_Status := PlanStatusActive, ap_UpdatedAt := now \<rparr>))"

definition ap_Archive :: "gotime \<Rightarrow> AnnualPlan \<Rightarrow> plan_error + AnnualPlan" where
  "ap_Archive now p =
     (if ap_Status p = PlanStatusArchived then Inl ErrInvalidTransition
      else Inr (p\<lparr> ap_Status := PlanStatusArchived, ap_UpdatedAt := now \<rparr>))"

definition ap_Apply ::
  "(nat \<Rightarrow> uuid) \<Rightarrow> gotime \<Rightarrow> UpdateAnnualPlanRequest \<Rightarrow> AnnualPlan \<Rightarrow> AnnualPlan" where
  "ap_Apply fresh now req p =
     (let p1 = (case uap_Name req of Some n \<Rightarrow> p\<lparr> ap_Name := n \<rparr> | None \<Rightarrow> p);
          p2 = (case uap_Engagements req of
                  Some es \<Rightarrow>
                    p1\<lparr> ap_Engagements := map (\<lambda>(i, e). fill_engagement fresh i e) (enumerate 0 es) \<rparr>
                | None \<Rightarrow> p1)
      in p2\<lparr> ap_Version := wrap64 (ap_Version p2 + 1), ap_UpdatedAt := now \<rparr>)"

section \<open>Assurance maps\<close>

definition CoverageNone :: string where "CoverageNone = ''none''"

record AssuranceCell =
  cell_BusinessUnit :: string
  cell_ControlDomain :: string
  cell_Coverage :: string
  cell_EngagementIDs :: "uuid list"
  cell_Notes :: string

record AssuranceMap =
  am_ID :: uuid
  am_OrgID :: uuid
  am_AnnualPlanID :: "uuid option"
  am_Year :: int
  am_Name :: string
  am_BusinessUnits :: "string list"
  am_ControlDomains :: "string list"
  am_Matrix :: "AssuranceCell list"
  am_Metadata :: gomap
  am_CreatedAt :: gotime
  am_UpdatedAt :: gotime

text \<open>\<open>cam_Matrix = None\<close> is the nil slice: the matrix is absent from the request.\<close>

record CreateAssuranceMapRequest =
  cam_OrgID :: uuid
  cam_AnnualPlanID :: "uuid option"
  cam_Year :: int
  cam_Name :: string
  cam_BusinessUnits :: "string list"
  cam_ControlDomains :: "string list"
  cam_Matrix :: "AssuranceCell list option"
  cam_Metadata :: gomap

record UpdateAssuranceMapRequest =
  uam_Name :: "string option"
  uam_Matrix :: "AssuranceCell list option"

definition empty_cell :: "string \<Rightarrow> string \<Rightarrow> AssuranceCell" where
  "empty_cell bu cd = \<lparr> cell_BusinessUnit = bu, cell_ControlDomain = cd,
     cell_Coverage = CoverageNone, cell_EngagementIDs = [], cell_Notes = '''' \<rparr>"

fun matrix_row :: "string \<Rightarrow> string list \<Rightarrow> AssuranceCell list" where
  "matrix_row bu [] = []"
| "matrix_row bu (cd # cds) = empty_cell bu cd # matrix_row bu cds"

fun init_matrix :: "string list \<Rightarrow> string list \<Rightarrow> AssuranceCell list" where
  "init_matrix [] cds = []"
| "init_matrix (bu # bus) cds = matrix_row bu cds @ init_matrix bus cds"

definition NewAssuranceMap ::
  "uuid \<Rightarrow> gotime \<Rightarrow> CreateAssuranceMapRequest \<Rightarrow> string + AssuranceMap" where
  "NewAssuranceMap newID now req =
     (if cam_Name req = '''' then Inl ''name is required''
      else if cam_OrgID req = uuid_Nil then Inl ''org_id is required''
      else Inr \<lparr> am_ID = newID, am_OrgID = cam_OrgID req, am_AnnualPlanID = cam_AnnualPlanID req,
        am_Year = cam_Year req, am_Name = cam_Name req,
        am_BusinessUnits = cam_BusinessUnits req, am_ControlDomains = cam_ControlDomains req,
        am_Matrix = (case cam_Matrix req of
            None \<Rightarrow> init_matrix (cam_BusinessUnits req) (cam_ControlDomains req)
          | Some m \<Rightarrow> m),
        am_Metadata = orEmptyMap (cam_Metadata req), am_CreatedAt = now, am_UpdatedAt = now \<rparr>)"

definition am_Apply :: "gotime \<Rightarrow> UpdateAssuranceMapRequest \<Rightarrow> AssuranceMap \<Rightarrow> AssuranceMap" where
  "am_Apply now req m =
     (let m1 = (case uam_Name req of Some n \<Rightarrow> m\<lparr> am_Name := n \<rparr> | None \<Rightarrow> m);
          m2 = (case uam_Matrix req of Some x \<Rightarrow> m1\<lparr> am_Matrix := x \<rparr> | None \<Rightarrow> m1)
      in m2\<lparr> am_UpdatedAt := now \<rparr>)"

section \<open>Resource calendars\<close>

record Assignment =
  asg_ID :: uuid
  asg_EngagementName :: string
  asg_StartDate :: string
  asg_EndDate :: string
  asg_AllocatedDays :: int
  asg_Quarter :: int

record AuditorAllocation =
  aud_AuditorID :: uuid
  aud_AuditorName :: string
  aud_AuditorEmail :: string
  aud_Role :: string
  aud_AvailableDays :: int
  aud_Assignments :: "Assignment list"

definition AllocatedDays :: "AuditorAllocation \<Rightarrow> int" where
  "AllocatedDays a = foldl (\<lambda>n asgn. wrap64 (n + asg_AllocatedDays asgn)) 0 (aud_Assignments a)"

definition UtilisationPct :: "AuditorAllocation \<Rightarrow> int" where
  "UtilisationPct a =
     (if aud_AvailableDays a = 0 then 0
      else let pct = go_div (wrap64 (AllocatedDays a * 100)) (aud_AvailableDays a)
           in if 100 < pct then 100 else pct)"

record ResourceCalendar =
  rc_ID :: uuid
  rc_OrgID :: uuid
  rc_AnnualPlanID :: "uuid option"
  rc_Year :: int
  rc_Name :: string
  rc_Auditors :: "AuditorAllocation list"
  rc_Metadata :: gomap
  rc_CreatedAt :: gotime
  rc_UpdatedAt :: gotime

record CreateResourceCalendarRequest =
  crc_OrgID :: uuid
  crc_AnnualPlanID :: "uuid option"
  crc_Year :: int
  crc_Name :: string
  crc_Auditors :: "AuditorAllocation list"
  crc_Metadata :: gomap

record UpdateResourceCalendarRequest =
  urc_Name :: "string option"
  urc_Auditors :: "AuditorAllocation list option"

definition fill_assignment :: "(nat \<Rightarrow> uuid) \<Rightarrow> nat \<Rightarrow> Assignment \<Rightarrow> Assignment" where
  "fill_assignment fresh j x = (if asg_ID x = uuid_Nil then x\<lparr> asg_ID := fresh j \<rparr> else x)"

definition fill_auditor ::
  "(nat \<Rightarrow> uuid) \<Rightarrow> (nat \<Rightarrow> nat \<Rightarrow> uuid) \<Rightarrow> nat \<Rightarrow> AuditorAllocation \<Rightarrow> AuditorAllocation" where
  "fill_auditor fresh fresh2 i a =
     (let a1 = (if aud_AuditorID a = uuid_Nil then a\<lparr> aud_AuditorID := fresh i \<rparr> else a)
      in a1\<lparr> aud_Assignments :=
           map (\<lambda>(j, x). fill_assignment (fresh2 i) j x) (enumerate 0 (aud_Assignments a1)) \<rparr>)"

definition NewResourceCalendar ::
  "(nat \<Rightarrow> uuid) \<Rightarrow> (nat \<Rightarrow> nat \<Rightarrow> uuid) \<Rightarrow> uuid \<Rightarrow> gotime \<Rightarrow> CreateResourceCalendarRequest \<Rightarrow>
   string + ResourceCalendar" where
  "NewResourceCalendar fresh fresh2 newID now req =
     (if crc_Name req = '''' then Inl ''name is required''
      else if crc_OrgID req = uuid_Nil then Inl ''org_id is required''
      else if crc_Year req < 2000 \<or> crc_Year req > 2100 then Inl ''valid year is required''
      else Inr \<lparr> rc_ID = newID, rc_OrgID = crc_OrgID req, rc_AnnualPlanID = crc_AnnualPlanID req,
        rc_Year = crc_Year req, rc_Name = crc_Name req,
        rc_Auditors = map (\<lambda>(i, a). fill_auditor fresh fresh2 i a) (enumerate 0 (crc_Auditors req)),
        rc_Metadata = orEmptyMap (crc_Metadata req), rc_CreatedAt = now, rc_UpdatedAt = now \<rparr>)"

definition rc_Apply ::
  "gotime \<Rightarrow> UpdateResourceCalendarRequest \<Rightarrow> ResourceCalendar \<Rightarrow> ResourceCalendar" where
  "rc_Apply now req c =
     (let c1 = (case urc_Name req of Some n \<Rightarrow> c\<lparr> rc_Name := n \<rparr> | None \<Rightarrow> c);
          c2 = (case urc_Auditors req of Some a \<Rightarrow> c1\<lparr> rc_Auditors := a \<rparr> | None \<Rightarrow> c1)
      in c2\<lparr> rc_UpdatedAt := now \<rparr>)"

section \<open>Lemmas\<close>

fun plan_edge :: "PlanStatus \<Rightarrow> PlanStatus \<Rightarrow> bool" where
  "plan_edge PlanStatusDraft s \<longleftrightarrow> s = PlanStatusApproved \<or> s = PlanStatusArchived"
| "plan_edge PlanStatusApproved s \<longleftrightarrow> s = PlanStatusActive \<or> s = PlanStatusArchived"
| "plan_edge PlanStatusActive s \<longleftrightarrow> s = PlanStatusArchived"
| "plan_edge PlanStatusArchived s \<longleftrightarrow> False"

definition sp_inv :: "StrategicPlan \<Rightarrow> bool" where
  "sp_inv p \<longleftrightarrow> sp_OrgID p \<noteq> uuid_Nil \<and> sp_StartYear p \<le> sp_EndYear p \<and>
     sp_Metadata p \<noteq> None \<and>
     (case sp_Status p of
        PlanStatusDraft \<Rightarrow> sp_ApprovedAt p = None
      | PlanStatusArchived \<Rightarrow> True
      | _ \<Rightarrow> sp_ApprovedAt p \<noteq> None)"

text \<open>Everything the operations of the service can do to a stored strategic plan.\<close>

definition sp_step :: "StrategicPlan \<Rightarrow> StrategicPlan \<Rightarrow> bool" where
  "sp_step p p' \<longleftrightarrow>
     (\<exists>now by aid. sp_Approve now by aid p = Inr p') \<or> (\<exists>now. sp_Activate now p = Inr p') \<or>
     (\<exists>now. sp_Archive now p = Inr p') \<or> (\<exists>fresh now req. p' = sp_Apply fresh now req p)"

definition sp_new :: "StrategicPlan \<Rightarrow> bool" where
  "sp_new p \<longleftrightarrow> (\<exists>fresh newID now req. NewStrategicPlan fresh newID now req = Inr p)"

lemma sp_Apply_sel [simp]:
  "sp_ID (sp_Apply fresh now req p) = sp_ID p"
  "sp_OrgID (sp_Apply fresh now req p) = sp_OrgID p"
  "sp_Status (sp_Apply fresh now req p) = sp_Status p"
  "sp_StartYear (sp_Apply fresh now req p) = sp_StartYear p"
  "sp_EndYear (sp_Apply fresh now req p) = sp_EndYear p"
  "sp_ApprovedAt (sp_Apply fresh now req p) = sp_ApprovedAt p"
  "sp_ApprovedBy (sp_Apply fresh now req p) = sp_ApprovedBy p"
  "sp_Metadata (sp_Apply fresh now req p) = sp_Metadata p"
  "sp_Version (sp_Apply fresh now req p) = wrap64 (sp_Version p + 1)"
  by (simp_all add: sp_Apply_def Let_def split: option.split)

lemma sp_step_status:
  "sp_step p p' \<Longrightarrow> sp_Status p' = sp_Status p \<or> plan_edge (sp_Status p) (sp_Status p')"
  by (cases "sp_Status p")
    (auto simp: sp_step_def sp_Approve_def sp_Activate_def sp_Archive_def split: if_splits)

lemma sp_step_key: "sp_step p p' \<Longrightarrow> sp_ID p' = sp_ID p \<and> sp_OrgID p' = sp_OrgID p"
  by (auto simp: sp_step_def sp_Approve_def sp_Activate_def sp_Archive_def split: if_splits)

lemma sp_step_inv: "sp_inv p \<Longrightarrow> sp_step p p' \<Longrightarrow> sp_inv p'"
  by (auto simp: sp_inv_def sp_step_def sp_Approve_def sp_Activate_def sp_Archive_def
      split: if_splits PlanStatus.splits)

lemma sp_new_inv: "sp_new p \<Longrightarrow> sp_inv p"
  by (auto simp: sp_new_def sp_inv_def NewStrategicPlan_def orEmptyMap_def split: if_splits)

definition ap_step :: "AnnualPlan \<Rightarrow> AnnualPlan \<Rightarrow> bool" where
  "ap_step p p' \<longleftrightarrow>
     (\<exists>now aid. ap_Approve now aid p = Inr p') \<or> (\<exists>now. ap_Activate now p = Inr p') \<or>
     (\<exists>now. ap_Archive now p = Inr p') \<or> (\<exists>fresh now req. p' = ap_Apply fresh now req p)"

definition ap_new :: "AnnualPlan \<Rightarrow> bool" where
  "ap_new p \<longleftrightarrow> (\<exists>fresh newID now req. NewAnnualPlan fresh newID now req = Inr p)"

lemma ap_Apply_sel [simp]:
  "ap_ID (ap_Apply fresh now req p) = ap_ID p"
  "ap_OrgID (ap_Apply fresh now req p) = ap_OrgID p"
  "ap_Year (ap_Apply fresh now req p) = ap_Year p"
  "ap_Status (ap_Apply fresh now req p) = ap_Status p"
  "ap_Metadata (ap_Apply fresh now req p) = ap_Metadata p"
  by (simp_all add: ap_Apply_def Let_def split: option.split)

lemma ap_step_status:
  "ap_step p p' \<Longrightarrow> ap_Status p' = ap_Status p \<or> plan_edge (ap_Status p) (ap_Status p')"
  by (cases "ap_Status p")
    (auto simp: ap_step_def ap_Approve_def ap_Activate_def ap_Archive_def split: if_splits)

lemma ap_step_key:
  "ap_step p p' \<Longrightarrow> ap_ID p' = ap_ID p \<and> ap_OrgID p' = ap_OrgID p \<and> ap_Year p' = ap_Year p"
  by (auto simp: ap_step_def ap_Approve_def ap_Activate_def ap_Archive_def split: if_splits)

lemma ap_new_draft: "ap_new p \<Longrightarrow> ap_Status p = PlanStatusDraft \<and> 2000 \<le> ap_Year p \<and> ap_Year p \<le> 2100"
  by (auto simp: ap_new_def NewAnnualPlan_def split: if_splits)

lemma matrix_row_map: "matrix_row bu cds = map (empty_cell bu) cds"
  by (induction cds) simp_all

lemma init_matrix_product:
  "init_matrix bus cds = map (\<lambda>(bu, cd). empty_cell bu cd) (List.product bus cds)"
  by (induction bus) (simp_all add: matrix_row_map)

lemma AllocatedDays_sum:
  assumes "list_all (\<lambda>x. 0 \<le> asg_AllocatedDays x) xs"
    and "0 \<le> n" and "n + sum_list (map asg_AllocatedDays xs) \<le> max_int64"
  shows "foldl (\<lambda>n x. wrap64 (n + asg_AllocatedDays x)) n xs = n + sum_list (map asg_AllocatedDays xs)"
  using assms
proof (induction xs arbitrary: n)
  case (Cons x xs)
  have "0 \<le> sum_list (map asg_AllocatedDays xs)"
    using Cons.prems(1) by (intro sum_list_nonneg) (auto simp: list_all_iff)
  then have "wrap64 (n + asg_AllocatedDays x) = n + asg_AllocatedDays x"
    using Cons.prems by (intro wrap64_id) (simp_all add: min_int64_def)
  with Cons show ?case by (simp add: algebra_simps)
qed simp

section \<open>Properties\<close>

text \<open>
  A new assurance map without a matrix covers every business unit against every control
  domain exactly once per listing, in the order of the request, and every cell starts
  uncovered.
\<close>

theorem assurance_matrix_complete:
  assumes "NewAssuranceMap newID now req = Inr m" and "cam_Matrix req = None"
  shows "map (\<lambda>c. (cell_BusinessUnit c, cell_ControlDomain c)) (am_Matrix m) =
       List.product (am_BusinessUnits m) (am_ControlDomains m) \<and>
     length (am_Matrix m) = length (cam_BusinessUnits req) * length (cam_ControlDomains req) \<and>
     list_all (\<lambda>c. cell_Coverage c = ''none'' \<and> cell_EngagementIDs c = []) (am_Matrix m)"
  using assms
  by (auto simp: NewAssuranceMap_def init_matrix_product empty_cell_def CoverageNone_def list_all_iff
      o_def case_prod_beta split: if_splits)

text \<open>
  Utilisation: for non-negative allocations within range and a positive availability it is
  the percentage rounded down and capped at 100; a negative availability, which nothing
  rejects, makes it negative, though its comment promises 0 to 100.
\<close>

theorem utilisation_exact:
  assumes "list_all (\<lambda>x. 0 \<le> asg_AllocatedDays x) (aud_Assignments a)"
    and "100 * sum_list (map asg_AllocatedDays (aud_Assignments a)) \<le> max_int64"
    and "0 < aud_AvailableDays a"
  shows "UtilisationPct a =
       min 100 (100 * sum_list (map asg_AllocatedDays (aud_Assignments a)) div aud_AvailableDays a) \<and>
     0 \<le> UtilisationPct a \<and>
     UtilisationPct \<lparr> aud_AuditorID = 1, aud_AuditorName = '''', aud_AuditorEmail = '''',
       aud_Role = ''auditor'', aud_AvailableDays = -10,
       aud_Assignments = [\<lparr> asg_ID = 1, asg_EngagementName = '''', asg_StartDate = '''',
          asg_EndDate = '''', asg_AllocatedDays = 5, asg_Quarter = 1 \<rparr>] \<rparr> = -50"
proof -
  let ?s = "sum_list (map asg_AllocatedDays (aud_Assignments a))" and ?d = "aud_AvailableDays a"
  have nonneg: "0 \<le> ?s" using assms(1) by (intro sum_list_nonneg) (auto simp: list_all_iff)
  have "AllocatedDays a = ?s"
    using AllocatedDays_sum [OF assms(1), of 0] assms(2) nonneg by (simp add: AllocatedDays_def)
  moreover have "wrap64 (?s * 100) = ?s * 100"
    using assms(2) nonneg by (intro wrap64_id) (simp_all add: min_int64_def)
  moreover have "go_div (?s * 100) ?d = ?s * 100 div ?d"
  proof -
    have q: "0 \<le> ?s * 100 div ?d" "?s * 100 div ?d \<le> ?s * 100"
      using nonneg assms(3) zdiv_mono2 [of "?s * 100" 1 ?d]
      by (simp_all add: pos_imp_zdiv_nonneg_iff)
    then have "wrap64 (?s * 100 div ?d) = ?s * 100 div ?d"
      using assms(2) by (intro wrap64_id) (simp_all add: min_int64_def)
    then show ?thesis using nonneg assms(3)
      by (cases "?s = 0") (simp_all add: go_div_def wrap64_def)
  qed
  ultimately have "UtilisationPct a = min 100 (100 * ?s div ?d)"
    using assms(3) by (simp add: UtilisationPct_def Let_def mult.commute min_def)
  moreover have "0 \<le> 100 * ?s div ?d" using nonneg assms(3) by (simp add: pos_imp_zdiv_nonneg_iff)
  ultimately show ?thesis
    by (simp add: UtilisationPct_def AllocatedDays_def Let_def go_div_def wrap64_def)
qed

text \<open>
  PATCH of a plan never changes its metadata, though both update requests carry it among
  the mutable fields; it always bumps the version and never the status, so an approved plan's
  content can be replaced under its old approval.
\<close>

theorem plan_patch_ignores_metadata:
  "sp_Metadata (sp_Apply fresh now req p) = sp_Metadata p \<and>
   sp_Status (sp_Apply fresh now req p) = sp_Status p \<and>
   sp_ApprovedAt (sp_Apply fresh now req p) = sp_ApprovedAt p \<and>
   sp_Version (sp_Apply fresh now req p) = wrap64 (sp_Version p + 1) \<and>
   ap_Metadata (ap_Apply fresh now areq a) = ap_Metadata a \<and>
   ap_Status (ap_Apply fresh now areq a) = ap_Status a \<and>
   length (sp_Entities (sp_Apply fresh now req p)) =
     (case usp_Entities req of None \<Rightarrow> length (sp_Entities p) | Some es \<Rightarrow> length es)"
  by (simp add: sp_Apply_def Let_def split: option.split)

theorem assurance_matrix_complete_witness:
  "case NewAssuranceMap 1 0 \<lparr> cam_OrgID = 5, cam_AnnualPlanID = None, cam_Year = 2025,
     cam_Name = ''m'', cam_BusinessUnits = [''it'', ''hr''], cam_ControlDomains = [''a''],
     cam_Matrix = None, cam_Metadata = None \<rparr> of
     Inr m \<Rightarrow> length (am_Matrix m) = 2 | Inl _ \<Rightarrow> False"
proof -
  let ?req = "\<lparr> cam_OrgID = 5, cam_AnnualPlanID = None, cam_Year = 2025,
     cam_Name = ''m'', cam_BusinessUnits = [''it'', ''hr''], cam_ControlDomains = [''a''],
     cam_Matrix = None, cam_Metadata = None \<rparr>"
  obtain m where m: "NewAssuranceMap 1 0 ?req = Inr m"
    by (simp add: NewAssuranceMap_def uuid_Nil_def)
  with assurance_matrix_complete [OF m] show ?thesis by simp
qed

theorem utilisation_exact_witness:
  "UtilisationPct \<lparr> aud_AuditorID = 1, aud_AuditorName = '''', aud_AuditorEmail = '''',
     aud_Role = '''', aud_AvailableDays = 40,
     aud_Assignments = [\<lparr> asg_ID = 1, asg_EngagementName = '''', asg_StartDate = '''',
        asg_EndDate = '''', asg_AllocatedDays = 15, asg_Quarter = 1 \<rparr>] \<rparr> = 37"
  by (subst utilisation_exact [THEN conjunct1]) (simp_all add: max_int64_def)

end
