(* ===== verification/GoText.thy ===== *)
theory GoText
  imports Prelude
begin

text \<open>
  The parts of Go's standard library on strings that the gateway uses: \<open>strconv.Atoi\<close>,
  \<open>base64.RawURLEncoding\<close>, \<open>strings.SplitN(s, sep, 2)\<close>, \<open>strings.EqualFold\<close> on ASCII,
  \<open>strings.TrimPrefix\<close>, and \<open>strings.Split\<close> and \<open>fmt.Sscanf\<close> for the password hashes. They are written from the documentation of the library; the lemmas
  are the round trips and shapes the components rest on.

  The base64 decoder is the lenient one of the package: it skips carriage returns and
  newlines and ignores the unused trailing bits of the last group.
\<close>

section \<open>Decimal integers\<close>

definition is_digit :: "char \<Rightarrow> bool" where
  "is_digit c \<longleftrightarrow> 48 \<le> (of_char c :: nat) \<and> (of_char c :: nat) \<le> 57"

definition digit_val :: "char \<Rightarrow> int" where
  "digit_val c = int (of_char c) - 48"

definition decimal :: "string \<Rightarrow> int" where
  "decimal ds = foldl (\<lambda>n c. n * 10 + digit_val c) 0 ds"

fun split_sign :: "string \<Rightarrow> bool \<times> string" where
  "split_sign [] = (False, [])"
| "split_sign (c # cs) =
     (if c = CHR ''-'' then (True, cs) else if c = CHR ''+'' then (False, cs) else (False, c # cs))"

text \<open>\<open>Atoi\<close>: None is the error (syntax or range).\<close>

definition Atoi :: "string \<Rightarrow> int option" where
  "Atoi s =
     (case split_sign s of (neg, ds) \<Rightarrow>
        if ds = [] \<or> \<not> list_all is_digit ds then None
        else let n = (if neg then - decimal ds else decimal ds)
             in if min_int64 \<le> n \<and> n \<le> max_int64 then Some n else None)"

lemma decimal_snoc: "decimal (ds @ [c]) = decimal ds * 10 + digit_val c"
  by (simp add: decimal_def)

fun dec_digits :: "nat \<Rightarrow> string" where
  "dec_digits n = (if n < 10 then [char_of (48 + n)] else dec_digits (n div 10) @ [char_of (48 + n mod 10)])"

declare dec_digits.simps [simp del]

lemma digit_char [simp]:
  "n < 10 \<Longrightarrow> is_digit (char_of (48 + n))"
  "n < 10 \<Longrightarrow> digit_val (char_of (48 + n)) = int n"
  by (simp_all add: is_digit_def digit_val_def)

lemma dec_digits_props:
  "dec_digits n \<noteq> [] \<and> list_all is_digit (dec_digits n) \<and> decimal (dec_digits n) = int n"
proof (induction n rule: dec_digits.induct)
  case (1 n)
  show ?case
  proof (cases "n < 10")
    case True
    then show ?thesis
      by (subst (1 2 3) dec_digits.simps) (simp add: decimal_def)
  next
    case False
    then show ?thesis
      using 1 by (subst (1 2 3) dec_digits.simps) (simp add: decimal_snoc, presburger)
  qed
qed

lemma split_sign_digits:
  assumes "ds \<noteq> []" and "list_all is_digit ds"
  shows "split_sign ds = (False, ds)"
  using assms by (cases ds) (auto simp: is_digit_def)

lemma dec_digits_inj: "dec_digits m = dec_digits n \<Longrightarrow> m = n"
  by (metis dec_digits_props of_nat_eq_iff)

lemma Atoi_dec_digits: "int n \<le> max_int64 \<Longrightarrow> Atoi (dec_digits n) = Some (int n)"
  using dec_digits_props [of n] split_sign_digits [of "dec_digits n"]
  by (simp add: Atoi_def Let_def min_int64_def)

text \<open>\<open>fmt\<close>'s \<open>%d\<close>.\<close>

definition int_text :: "int \<Rightarrow> string" where
  "int_text n = (if n < 0 then CHR ''-'' # dec_digits (nat (- n)) else dec_digits (nat n))"

section \<open>Base64, URL alphabet, no padding\<close>

definition b64_alphabet :: string where
  "b64_alphabet = ''ABCDEFGHIJKLMNOPQRSTUVWXYZabcdefghijklmnopqrstuvwxyz0123456789-_''"

definition b64_char :: "nat \<Rightarrow> char" where
  "b64_char n = b64_alphabet ! n"

definition b64_val :: "char \<Rightarrow> nat option" where
  "b64_val c =
     (let n = (of_char c :: nat)
      in if 65 \<le> n \<and> n \<le> 90 then Some (n - 65)
         else if 97 \<le> n \<and> n \<le> 122 then Some (n - 71)
         else if 48 \<le> n \<and> n \<le> 57 then Some (n + 4)
         else if n = 45 then Some 62 else if n = 95 then Some 63 else None)"

fun b64_encode :: "nat list \<Rightarrow> string" where
  "b64_encode [] = []"
| "b64_encode [a] = [b64_char (a div 4), b64_char (a mod 4 * 16)]"
| "b64_encode [a, b] =
     [b64_char (a div 4), b64_char (a mod 4 * 16 + b div 16), b64_char (b mod 16 * 4)]"
| "b64_encode (a # b # c # xs) =
     b64_char (a div 4) # b64_char (a mod 4 * 16 + b div 16) #
     b64_char (b mod 16 * 4 + c div 64) # b64_char (c mod 64) # b64_encode xs"

fun b64_groups :: "nat list \<Rightarrow> nat list option" where
  "b64_groups [] = Some []"
| "b64_groups [_] = None"
| "b64_groups [a, b] = Some [a * 4 + b div 16]"
| "b64_groups [a, b, c] = Some [a * 4 + b div 16, b mod 16 * 16 + c div 4]"
| "b64_groups (a # b # c # d # xs) =
     map_option (\<lambda>ys. (a * 4 + b div 16) # (b mod 16 * 16 + c div 4) # (c mod 4 * 64 + d) # ys)
       (b64_groups xs)"

fun all_some :: "'a option list \<Rightarrow> 'a list option" where
  "all_some [] = Some []"
| "all_some (x # xs) =
     (case x of None \<Rightarrow> None | Some y \<Rightarrow> map_option (\<lambda>ys. y # ys) (all_some xs))"

definition b64_skip :: "char \<Rightarrow> bool" where
  "b64_skip c \<longleftrightarrow> c = CHR 0x0A \<or> c = CHR 0x0D"

definition b64_decode :: "string \<Rightarrow> nat list option" where
  "b64_decode s = Option.bind (all_some (map b64_val (filter (\<lambda>c. \<not> b64_skip c) s))) b64_groups"

definition bytes :: "string \<Rightarrow> nat list" where
  "bytes s = map of_char s"

definition from_bytes :: "nat list \<Rightarrow> string" where
  "from_bytes bs = map char_of bs"

lemma from_bytes_bytes [simp]: "from_bytes (bytes s) = s"
  by (induction s) (simp_all add: from_bytes_def bytes_def)

lemma bytes_lt: "list_all (\<lambda>b. b < 256) (bytes s)"
  by (auto simp: bytes_def list_all_iff)

lemma b64_char_val: "n < 64 \<Longrightarrow> b64_val (b64_char n) = Some n \<and> \<not> b64_skip (b64_char n)"
proof -
  have "list_all (\<lambda>n. b64_val (b64_char n) = Some n \<and> \<not> b64_skip (b64_char n)) [0..<64]"
    by (simp add: b64_char_def b64_alphabet_def b64_val_def b64_skip_def upt_rec)
  then show "n < 64 \<Longrightarrow> ?thesis" by (simp add: list_all_iff)
qed

text \<open>The bit arithmetic of one group of three bytes.\<close>

lemma b64_bits:
  fixes a b c :: nat
  assumes "a < 256" and "b < 256" and "c < 256"
  shows "a div 4 < 64" "a mod 4 * 16 < 64" "a mod 4 * 16 + b div 16 < 64"
    "b mod 16 * 4 < 64" "b mod 16 * 4 + c div 64 < 64" "c mod 64 < 64"
    "a div 4 * 4 + (a mod 4 * 16) div 16 = a"
    "a div 4 * 4 + (a mod 4 * 16 + b div 16) div 16 = a"
    "(a mod 4 * 16 + b div 16) mod 16 * 16 + (b mod 16 * 4) div 4 = b"
    "(a mod 4 * 16 + b div 16) mod 16 * 16 + (b mod 16 * 4 + c div 64) div 4 = b"
    "(b mod 16 * 4 + c div 64) mod 4 * 64 + c mod 64 = c"
proof -
  have q: "b div 16 < 16" "c div 64 < 4" using assms by simp_all
  have d: "(x * 16 + b div 16) div 16 = x" "(x * 16 + b div 16) mod 16 = b div 16"
    "(x * 4 + c div 64) div 4 = x" "(x * 4 + c div 64) mod 4 = c div 64" for x :: nat
    using q by simp_all
  have r: "a div 4 * 4 + a mod 4 = a" "b div 16 * 16 + b mod 16 = b" "c div 64 * 64 + c mod 64 = c"
    by (rule div_mult_mod_eq)+
  have m: "a mod 4 < 4" "b mod 16 < 16" "c mod 64 < 64" by simp_all
  show "a div 4 * 4 + (a mod 4 * 16) div 16 = a"
    "a div 4 * 4 + (a mod 4 * 16 + b div 16) div 16 = a"
    "(a mod 4 * 16 + b div 16) mod 16 * 16 + (b mod 16 * 4) div 4 = b"
    "(a mod 4 * 16 + b div 16) mod 16 * 16 + (b mod 16 * 4 + c div 64) div 4 = b"
    "(b mod 16 * 4 + c div 64) mod 4 * 64 + c mod 64 = c"
    using r d by simp_all
  show "a div 4 < 64" "a mod 4 * 16 < 64" "a mod 4 * 16 + b div 16 < 64"
    "b mod 16 * 4 < 64" "b mod 16 * 4 + c div 64 < 64" "c mod 64 < 64"
    using assms q m by linarith+
qed

lemma b64_encode_chars:
  "list_all (\<lambda>b. b < 256) bs \<Longrightarrow>
   list_all (\<lambda>c. \<not> b64_skip c) (b64_encode bs)"
proof (induction bs rule: b64_encode.induct)
  case (2 a)
  then show ?case using b64_bits [of a 0 0] by (simp add: b64_char_val del: div_mult_self3)
next
  case (3 a b)
  then show ?case using b64_bits [of a b 0] by (simp add: b64_char_val)
next
  case (4 a b c xs)
  then show ?case using b64_bits [of a b c] by (simp add: b64_char_val)
qed simp

lemma b64_roundtrip_groups:
  "list_all (\<lambda>b. b < 256) bs \<Longrightarrow>
   Option.bind (all_some (map b64_val (b64_encode bs))) b64_groups = Some bs"
proof (induction bs rule: b64_encode.induct)
  case (2 a)
  then show ?case using b64_bits [of a 0 0] by (simp add: b64_char_val)
next
  case (3 a b)
  then show ?case using b64_bits [of a b 0] by (simp only: b64_char_val b64_encode.simps list.pred_inject
        list.map all_some.simps option.case option.map bind.simps b64_groups.simps)
next
  case (4 a b c xs)
  then obtain vs where vs: "all_some (map b64_val (b64_encode xs)) = Some vs"
      "b64_groups vs = Some xs"
    by (auto simp: bind_eq_Some_conv)
  have "a < 256" "b < 256" "c < 256" using 4 by simp_all
  note bits = b64_bits [OF this]
  show ?case
    using bits(1-6) by (simp only: b64_char_val b64_encode.simps vs bits(7-)
        list.map all_some.simps option.case option.map bind.simps b64_groups.simps)
qed simp

lemma filter_id: "list_all P xs \<Longrightarrow> filter P xs = xs"
  by (induction xs) simp_all

lemma b64_roundtrip: "b64_decode (b64_encode (bytes s)) = Some (bytes s)"
proof -
  have "filter (\<lambda>c. \<not> b64_skip c) (b64_encode (bytes s)) = b64_encode (bytes s)"
    using b64_encode_chars [OF bytes_lt] by (intro filter_id) (auto simp: list_all_iff)
  then show ?thesis
    using b64_roundtrip_groups [OF bytes_lt, of s] by (simp add: b64_decode_def)
qed

lemma b64_encode_length: "length (b64_encode bs) = (4 * length bs + 2) div 3"
  by (induction bs rule: b64_encode.induct) simp_all

section \<open>Splitting and comparing\<close>

fun cut :: "char \<Rightarrow> string \<Rightarrow> string \<times> string option" where
  "cut sep [] = ([], None)"
| "cut sep (c # cs) =
     (if c = sep then ([], Some cs) else (case cut sep cs of (l, r) \<Rightarrow> (c # l, r)))"

definition SplitN2 :: "char \<Rightarrow> string \<Rightarrow> string list" where
  "SplitN2 sep s = (case cut sep s of (l, None) \<Rightarrow> [l] | (l, Some r) \<Rightarrow> [l, r])"

definition lower :: "char \<Rightarrow> char" where
  "lower c = (let n = (of_char c :: nat) in if 65 \<le> n \<and> n \<le> 90 then char_of (n + 32) else c)"

definition EqualFold :: "string \<Rightarrow> string \<Rightarrow> bool" where
  "EqualFold s t \<longleftrightarrow> map lower s = map lower t"

definition HasPrefix :: "string \<Rightarrow> string \<Rightarrow> bool" where
  "HasPrefix s p \<longleftrightarrow> take (length p) s = p"

text \<open>\<open>strings.Contains\<close>.\<close>

fun Contains :: "string \<Rightarrow> string \<Rightarrow> bool" where
  "Contains [] k \<longleftrightarrow> k = []"
| "Contains (c # s) k \<longleftrightarrow> HasPrefix (c # s) k \<or> Contains s k"

definition TrimPrefix :: "string \<Rightarrow> string \<Rightarrow> string" where
  "TrimPrefix s p = (if HasPrefix s p then drop (length p) s else s)"

lemma TrimPrefix_append [simp]: "TrimPrefix (p @ s) p = s"
  by (simp add: TrimPrefix_def HasPrefix_def)

lemma cut_append: "sep \<notin> set l \<Longrightarrow> cut sep (l @ sep # r) = (l, Some r)"
  by (induction l) auto

lemma SplitN2_append: "sep \<notin> set l \<Longrightarrow> SplitN2 sep (l @ sep # r) = [l, r]"
  by (simp add: SplitN2_def cut_append)

lemma cut_None: "cut sep s = (l, None) \<Longrightarrow> l = s \<and> sep \<notin> set s"
  by (induction s arbitrary: l) (auto split: if_splits prod.splits)

lemma cut_Some: "cut sep s = (l, Some r) \<Longrightarrow> s = l @ sep # r \<and> sep \<notin> set l"
  by (induction s arbitrary: l) (auto split: if_splits prod.splits)

text \<open>\<open>strings.Split\<close> by a separator of one byte.\<close>

fun Split :: "char \<Rightarrow> string \<Rightarrow> string list" where
  "Split sep [] = [[]]"
| "Split sep (c # cs) =
     (if c = sep then [] # Split sep cs
      else (case Split sep cs of [] \<Rightarrow> [[c]] | part # parts \<Rightarrow> (c # part) # parts))"

lemma Split_append: "sep \<notin> set l \<Longrightarrow> Split sep (l @ sep # r) = l # Split sep r"
  by (induction l) auto

lemma Split_single: "sep \<notin> set l \<Longrightarrow> Split sep l = [l]"
  by (induction l) auto

section \<open>Scanning integers\<close>

text \<open>
  \<open>fmt.Sscanf\<close> with literal characters and \<open>%d\<close>: white space before a number is skipped, a newline
  is an error, and what follows the last verb is ignored. \<open>None\<close> is the error. White space outside
  ASCII is left out.
\<close>

definition is_blank :: "char \<Rightarrow> bool" where
  "is_blank c \<longleftrightarrow> c = CHR 0x09 \<or> c = CHR 0x0B \<or> c = CHR 0x0C \<or> c = CHR 0x0D \<or> c = CHR '' ''"

definition scan_lit :: "string \<Rightarrow> string \<Rightarrow> string option" where
  "scan_lit l s = (if HasPrefix s l then Some (drop (length l) s) else None)"

definition scan_digits :: "string \<Rightarrow> (int \<times> string) option" where
  "scan_digits s =
     (let ds = takeWhile is_digit s
      in if ds = [] then None else Some (decimal ds, dropWhile is_digit s))"

definition scan_uint :: "nat \<Rightarrow> string \<Rightarrow> (int \<times> string) option" where
  "scan_uint bits s =
     (case scan_digits (dropWhile is_blank s) of
        None \<Rightarrow> None
      | Some (n, rest) \<Rightarrow> if n < 2 ^ bits then Some (n, rest) else None)"

definition scan_int :: "string \<Rightarrow> (int \<times> string) option" where
  "scan_int s =
     (case split_sign (dropWhile is_blank s) of (neg, t) \<Rightarrow>
        (case scan_digits t of
           None \<Rightarrow> None
         | Some (m, rest) \<Rightarrow>
             let n = (if neg then - m else m)
             in if min_int64 \<le> n \<and> n \<le> max_int64 then Some (n, rest) else None))"

lemma scan_lit_append [simp]: "scan_lit l (l @ s) = Some s"
  by (simp add: scan_lit_def HasPrefix_def)

lemma dec_digits_all: "c \<in> set (dec_digits n) \<Longrightarrow> is_digit c"
  using dec_digits_props [of n] by (auto simp: list_all_iff)

lemma dec_digits_not_blank: "dropWhile is_blank (dec_digits n @ s) = dec_digits n @ s"
proof -
  obtain c cs where d: "dec_digits n = c # cs" using dec_digits_props [of n] by (cases "dec_digits n") auto
  then have "is_digit c" using dec_digits_all [of c n] by simp
  then show ?thesis by (auto simp: d is_blank_def is_digit_def)
qed

lemma dec_digits_sign: "split_sign (dec_digits n @ s) = (False, dec_digits n @ s)"
proof -
  obtain c cs where d: "dec_digits n = c # cs" using dec_digits_props [of n] by (cases "dec_digits n") auto
  then have "is_digit c" using dec_digits_all [of c n] by simp
  then show ?thesis by (auto simp: d is_digit_def)
qed

lemma scan_digits_dec:
  assumes "s = [] \<or> \<not> is_digit (hd s)"
  shows "scan_digits (dec_digits n @ s) = Some (int n, s)"
proof -
  have t: "takeWhile is_digit (dec_digits n @ s) = dec_digits n @ takeWhile is_digit s"
    and d: "dropWhile is_digit (dec_digits n @ s) = dropWhile is_digit s"
    using dec_digits_all [of _ n] by (simp_all add: takeWhile_append2 dropWhile_append2)
  have "takeWhile is_digit s = [] \<and> dropWhile is_digit s = s" using assms by (cases s) auto
  then show ?thesis using dec_digits_props [of n] by (simp add: scan_digits_def t d)
qed

lemma scan_uint_dec:
  assumes "n < 2 ^ bits" and "s = [] \<or> \<not> is_digit (hd s)"
  shows "scan_uint bits (dec_digits n @ s) = Some (int n, s)"
proof -
  have "int n < 2 ^ bits" using assms(1) by (metis of_nat_less_iff of_nat_numeral of_nat_power)
  then show ?thesis using assms(2) by (simp add: scan_uint_def dec_digits_not_blank scan_digits_dec)
qed

lemma scan_int_dec:
  assumes "int n \<le> max_int64" and "s = [] \<or> \<not> is_digit (hd s)"
  shows "scan_int (dec_digits n @ s) = Some (int n, s)"
  using assms by (simp add: scan_int_def dec_digits_not_blank dec_digits_sign scan_digits_dec min_int64_def)

end
