(* ===== verification/PlanningService.thy ===== *)
theory PlanningService
  imports PlanningDomain OrgStore GoText
begin

text \<open>
  The planning service: its four repositories (services/planning/internal/store/store.go) and
  its HTTP handlers (services/planning/internal/handler/handler.go). The four groups of
  handlers repeat the same code over different entities; the repeated parts (\<open>requireOrgID\<close>,
  load-or-404, save-and-answer) are the combinators \<open>pl_load\<close> and \<open>pl_modify\<close> here, and each
  handler is their composition with its own operation.

  Each repository interprets \<open>org_store_create\<close>. \<open>AnnualPlanStore.Create\<close> is the one that can
  refuse; it visits the map in an order that does not matter for its answer, which \<open>order\<close>
  lists.
\<close>

section \<open>The repositories\<close>

type_synonym sp_store = "uuid \<rightharpoonup> StrategicPlan"
type_synonym ap_store = "uuid \<rightharpoonup> AnnualPlan"
type_synonym am_store = "uuid \<rightharpoonup> AssuranceMap"
type_synonym rc_store = "uuid \<rightharpoonup> ResourceCalendar"

definition sps_Create :: "sp_store \<Rightarrow> StrategicPlan \<Rightarrow> plan_error + sp_store" where
  "sps_Create s p = Inr (s(sp_ID p \<mapsto> p))"

definition sps_Get :: "sp_store \<Rightarrow> uuid \<Rightarrow> uuid \<Rightarrow> plan_error + StrategicPlan" where
  "sps_Get s orgID pid =
     (case s pid of None \<Rightarrow> Inl ErrNotFound
      | Some p \<Rightarrow> if sp_OrgID p \<noteq> orgID then Inl ErrNotFound else Inr p)"

definition sps_List :: "sp_store \<Rightarrow> uuid list \<Rightarrow> uuid \<Rightarrow> StrategicPlan list" where
  "sps_List s order orgID = filter (\<lambda>p. sp_OrgID p = orgID) (List.map_filter s order)"

definition sps_Update :: "sp_store \<Rightarrow> StrategicPlan \<Rightarrow> plan_error + sp_store" where
  "sps_Update s p =
     (case s (sp_ID p) of None \<Rightarrow> Inl ErrNotFound | Some _ \<Rightarrow> Inr (s(sp_ID p \<mapsto> p)))"

text \<open>One non-archived plan per year and organisation.\<close>

definition live_in :: "uuid \<Rightarrow> int \<Rightarrow> AnnualPlan \<Rightarrow> bool" where
  "live_in orgID year p \<longleftrightarrow> ap_OrgID p = orgID \<and> ap_Year p = year \<and> ap_Status p \<noteq> PlanStatusArchived"

definition aps_Create ::
  "uuid list \<Rightarrow> ap_store \<Rightarrow> AnnualPlan \<Rightarrow> plan_error + ap_store" where
  "aps_Create order s p =
     (if list_ex (live_in (ap_OrgID p) (ap_Year p)) (List.map_filter s order)
      then Inl ErrDuplicateYear else Inr (s(ap_ID p \<mapsto> p)))"

definition aps_Get :: "ap_store \<Rightarrow> uuid \<Rightarrow> uuid \<Rightarrow> plan_error + AnnualPlan" where
  "aps_Get s orgID pid =
     (case s pid of None \<Rightarrow> Inl ErrNotFound
      | Some p \<Rightarrow> if ap_OrgID p \<noteq> orgID then Inl ErrNotFound else Inr p)"

definition aps_List :: "ap_store \<Rightarrow> uuid list \<Rightarrow> uuid \<Rightarrow> int \<Rightarrow> AnnualPlan list" where
  "aps_List s order orgID year =
     filter (\<lambda>p. \<not> ap_OrgID p \<noteq> orgID \<and> \<not> (year \<noteq> 0 \<and> ap_Year p \<noteq> year)) (List.map_filter s order)"

definition aps_Update :: "ap_store \<Rightarrow> AnnualPlan \<Rightarrow> plan_error + ap_store" where
  "aps_Update s p =
     (case s (ap_ID p) of None \<Rightarrow> Inl ErrNotFound | Some _ \<Rightarrow> Inr (s(ap_ID p \<mapsto> p)))"

definition ams_Create :: "am_store \<Rightarrow> AssuranceMap \<Rightarrow> plan_error + am_store" where
  "ams_Create s m = Inr (s(am_ID m \<mapsto> m))"

definition ams_Get :: "am_store \<Rightarrow> uuid \<Rightarrow> uuid \<Rightarrow> plan_error + AssuranceMap" where
  "ams_Get s orgID mid =
     (case s mid of None \<Rightarrow> Inl ErrNotFound
      | Some m \<Rightarrow> if am_OrgID m \<noteq> orgID then Inl ErrNotFound else Inr m)"

definition ams_List :: "am_store \<Rightarrow> uuid list \<Rightarrow> uuid \<Rightarrow> AssuranceMap list" where
  "ams_List s order orgID = filter (\<lambda>m. am_OrgID m = orgID) (List.map_filter s order)"

definition ams_Update :: "am_store \<Rightarrow> AssuranceMap \<Rightarrow> plan_error + am_store" where
  "ams_Update s m =
     (case s (am_ID m) of None \<Rightarrow> Inl ErrNotFound | Some _ \<Rightarrow> Inr (s(am_ID m \<mapsto> m)))"

definition rcs_Create :: "rc_store \<Rightarrow> ResourceCalendar \<Rightarrow> plan_error + rc_store" where
  "rcs_Create s c = Inr (s(rc_ID c \<mapsto> c))"

definition rcs_Get :: "rc_store \<Rightarrow> uuid \<Rightarrow> uuid \<Rightarrow> plan_error + ResourceCalendar" where
  "rcs_Get s orgID cid =
     (case s cid of None \<Rightarrow> Inl ErrNotFound
      | Some c \<Rightarrow> if rc_OrgID c \<noteq> orgID then Inl ErrNotFound else Inr c)"

definition rcs_List :: "rc_store \<Rightarrow> uuid list \<Rightarrow> uuid \<Rightarrow> ResourceCalendar list" where
  "rcs_List s order orgID = filter (\<lambda>c. rc_OrgID c = orgID) (List.map_filter s order)"

definition rcs_Update :: "rc_store \<Rightarrow> ResourceCalendar \<Rightarrow> plan_error + rc_store" where
  "rcs_Update s c =
     (case s (rc_ID c) of None \<Rightarrow> Inl ErrNotFound | Some _ \<Rightarrow> Inr (s(rc_ID c \<mapsto> c)))"

record Stores =
  st_StrategicPlans :: sp_store
  st_AnnualPlans :: ap_store
  st_AssuranceMaps :: am_store
  st_ResourceCalendars :: rc_store

definition NewStores :: Stores where
  "NewStores = \<lparr> st_StrategicPlans = Map.empty, st_AnnualPlans = Map.empty,
     st_AssuranceMaps = Map.empty, st_ResourceCalendars = Map.empty \<rparr>"

interpretation sps: org_store_create "\<lambda>s i. s i" sp_ID sp_OrgID sps_Get sps_Update sps_Create
  by unfold_locales (auto simp: sps_Get_def sps_Update_def sps_Create_def split: option.splits if_splits)

interpretation aps: org_store_create "\<lambda>s i. s i" ap_ID ap_OrgID aps_Get aps_Update "aps_Create order"
  for order
  by unfold_locales (auto simp: aps_Get_def aps_Update_def aps_Create_def split: option.splits if_splits)

interpretation ams: org_store_create "\<lambda>s i. s i" am_ID am_OrgID ams_Get ams_Update ams_Create
  by unfold_locales (auto simp: ams_Get_def ams_Update_def ams_Create_def split: option.splits if_splits)

interpretation rcs: org_store_create "\<lambda>s i. s i" rc_ID rc_OrgID rcs_Get rcs_Update rcs_Create
  by unfold_locales (auto simp: rcs_Get_def rcs_Update_def rcs_Create_def split: option.splits if_splits)

section \<open>Shared parts of the handlers\<close>

datatype planning_body =
    BodySP StrategicPlan | BodySPs "StrategicPlan list"
  | BodyAP AnnualPlan | BodyAPs "AnnualPlan list"
  | BodyAM AssuranceMap | BodyAMs "AssuranceMap list"
  | BodyRC ResourceCalendar | BodyRCs "ResourceCalendar list"

type_synonym planning_response = "planning_body response"

text \<open>What a request carries beside its body: the org header and query, the path id.\<close>

record pl_ctx =
  cx_orgHeader :: string
  cx_orgQuery :: string
  cx_pathID :: string

fun plan_error_text :: "plan_error \<Rightarrow> string" where
  "plan_error_text ErrNotFound = ''record not found''"
| "plan_error_text ErrInvalidRequest = ''invalid request''"
| "plan_error_text ErrInvalidTransition = ''invalid plan status transition''"
| "plan_error_text ErrDuplicateYear = ''an annual plan for this year already exists''"

definition invalid_request :: "string \<Rightarrow> planning_response" where
  "invalid_request msg = JsonError 400 ''INVALID_REQUEST'' msg"

definition internal_error :: "plan_error \<Rightarrow> planning_response" where
  "internal_error err = JsonError 500 ''INTERNAL_ERROR'' (plan_error_text err)"

definition pl_requireOrgID ::
  "(string \<Rightarrow> uuid option) \<Rightarrow> pl_ctx \<Rightarrow> planning_response + uuid" where
  "pl_requireOrgID parse cx =
     (let s = (if cx_orgHeader cx = '''' then cx_orgQuery cx else cx_orgHeader cx)
      in if s = '''' then Inl (invalid_request ''X-Org-ID header or org_id query param required'')
         else case parse s of
           None \<Rightarrow> Inl (invalid_request ''invalid org_id'')
         | Some u \<Rightarrow> Inr u)"

definition pl_parseID :: "(string \<Rightarrow> uuid option) \<Rightarrow> pl_ctx \<Rightarrow> planning_response + uuid" where
  "pl_parseID parse cx =
     (case parse (cx_pathID cx) of None \<Rightarrow> Inl (invalid_request ''invalid id'') | Some u \<Rightarrow> Inr u)"

definition pl_load ::
  "(string \<Rightarrow> uuid option) \<Rightarrow> ('s \<Rightarrow> uuid \<Rightarrow> uuid \<Rightarrow> plan_error + 'a) \<Rightarrow> string \<Rightarrow> pl_ctx \<Rightarrow> 's \<Rightarrow>
   planning_response + 'a" where
  "pl_load parse get what cx s =
     (case pl_requireOrgID parse cx of
        Inl r \<Rightarrow> Inl r
      | Inr orgID \<Rightarrow>
          (case pl_parseID parse cx of
             Inl r \<Rightarrow> Inl r
           | Inr i \<Rightarrow>
               (case get s orgID i of
                  Inl err \<Rightarrow>
                    Inl (if err = ErrNotFound then JsonError 404 ''NOT_FOUND'' (what @ '' not found'')
                         else internal_error err)
                | Inr x \<Rightarrow> Inr x)))"

definition pl_get ::
  "(string \<Rightarrow> uuid option) \<Rightarrow> ('s \<Rightarrow> uuid \<Rightarrow> uuid \<Rightarrow> plan_error + 'a) \<Rightarrow> string \<Rightarrow>
   ('a \<Rightarrow> planning_body) \<Rightarrow> pl_ctx \<Rightarrow> 's \<Rightarrow> planning_response" where
  "pl_get parse get what mk cx s =
     (case pl_load parse get what cx s of Inl r \<Rightarrow> r | Inr x \<Rightarrow> JsonResponse 200 (mk x))"

text \<open>Load, apply \<open>op\<close> (which may answer the request itself), save, answer.\<close>

definition pl_modify ::
  "(string \<Rightarrow> uuid option) \<Rightarrow> ('s \<Rightarrow> uuid \<Rightarrow> uuid \<Rightarrow> plan_error + 'a) \<Rightarrow>
   ('s \<Rightarrow> 'a \<Rightarrow> plan_error + 's) \<Rightarrow> string \<Rightarrow> ('a \<Rightarrow> planning_body) \<Rightarrow> pl_ctx \<Rightarrow>
   ('a \<Rightarrow> planning_response + 'a) \<Rightarrow> 's \<Rightarrow> 's \<times> planning_response" where
  "pl_modify parse get update what mk cx op s =
     (case pl_load parse get what cx s of
        Inl r \<Rightarrow> (s, r)
      | Inr x \<Rightarrow>
          (case op x of
             Inl r \<Rightarrow> (s, r)
           | Inr x1 \<Rightarrow>
               (case update s x1 of
                  Inl err \<Rightarrow> (s, internal_error err)
                | Inr s1 \<Rightarrow> (s1, JsonResponse 200 (mk x1)))))"

definition decoded_op :: "'r decoded \<Rightarrow> ('r \<Rightarrow> 'a \<Rightarrow> planning_response + 'a) \<Rightarrow> 'a \<Rightarrow> planning_response + 'a" where
  "decoded_op body f x = (case body of Inl msg \<Rightarrow> Inl (invalid_request msg) | Inr req \<Rightarrow> f req x)"

definition transition_op :: "('a \<Rightarrow> plan_error + 'a) \<Rightarrow> 'a \<Rightarrow> planning_response + 'a" where
  "transition_op f x =
     (case f x of
        Inl err \<Rightarrow>
          Inl (if err = ErrInvalidTransition
               then JsonError 409 ''INVALID_TRANSITION'' (plan_error_text err)
               else internal_error err)
      | Inr x1 \<Rightarrow> Inr x1)"

definition pl_create ::
  "('s \<Rightarrow> 'a \<Rightarrow> plan_error + 's) \<Rightarrow> ('r \<Rightarrow> string + 'a) \<Rightarrow> (plan_error \<Rightarrow> planning_response) \<Rightarrow>
   ('a \<Rightarrow> planning_body) \<Rightarrow> 'r decoded \<Rightarrow> 's \<Rightarrow> 's \<times> planning_response" where
  "pl_create create mkNew fail mk body s =
     (case body of
        Inl msg \<Rightarrow> (s, invalid_request msg)
      | Inr req \<Rightarrow>
          (case mkNew req of
             Inl msg \<Rightarrow> (s, invalid_request msg)
           | Inr x \<Rightarrow>
               (case create s x of
                  Inl err \<Rightarrow> (s, fail err)
                | Inr s1 \<Rightarrow> (s1, JsonResponse 201 (mk x)))))"

section \<open>The handlers\<close>

subsection \<open>Strategic plans\<close>

record ApproveBody =
  ab_ApprovedBy :: string
  ab_ApprovalID :: "uuid option"

definition CreateStrategicPlan where
  "CreateStrategicPlan fresh newID now body s =
     pl_create sps_Create (NewStrategicPlan fresh newID now) internal_error BodySP body s"

definition ListStrategicPlans :: "(string \<Rightarrow> uuid option) \<Rightarrow> uuid list \<Rightarrow> pl_ctx \<Rightarrow> sp_store \<Rightarrow> planning_response" where
  "ListStrategicPlans parse order cx s =
     (case pl_requireOrgID parse cx of Inl r \<Rightarrow> r
      | Inr orgID \<Rightarrow> JsonResponse 200 (BodySPs (sps_List s order orgID)))"

definition GetStrategicPlan where
  "GetStrategicPlan parse cx s = pl_get parse sps_Get ''strategic plan'' BodySP cx s"

definition sp_modify where
  "sp_modify parse cx op s = pl_modify parse sps_Get sps_Update ''strategic plan'' BodySP cx op s"

definition UpdateStrategicPlan where
  "UpdateStrategicPlan parse fresh now cx body s =
     sp_modify parse cx (decoded_op body (\<lambda>req p. Inr (sp_Apply fresh now req p))) s"

definition ApproveStrategicPlan where
  "ApproveStrategicPlan parse now cx body s =
     sp_modify parse cx
       (decoded_op body (\<lambda>b p.
          if ab_ApprovedBy b = '''' then Inl (invalid_request ''approved_by is required'')
          else transition_op (sp_Approve now (ab_ApprovedBy b) (ab_ApprovalID b)) p)) s"

definition ActivateStrategicPlan where
  "ActivateStrategicPlan parse now cx s = sp_modify parse cx (transition_op (sp_Activate now)) s"

definition ArchiveStrategicPlan where
  "ArchiveStrategicPlan parse now cx s = sp_modify parse cx (transition_op (sp_Archive now)) s"

subsection \<open>Annual plans\<close>

definition annual_create_error :: "plan_error \<Rightarrow> planning_response" where
  "annual_create_error err =
     (if err = ErrDuplicateYear then JsonError 409 ''DUPLICATE_YEAR'' (plan_error_text err)
      else internal_error err)"

definition CreateAnnualPlan where
  "CreateAnnualPlan order fresh newID now body s =
     pl_create (aps_Create order) (NewAnnualPlan fresh newID now) annual_create_error BodyAP body s"

definition ListAnnualPlans ::
  "(string \<Rightarrow> uuid option) \<Rightarrow> uuid list \<Rightarrow> pl_ctx \<Rightarrow> string \<Rightarrow> ap_store \<Rightarrow> planning_response" where
  "ListAnnualPlans parse order cx y s =
     (case pl_requireOrgID parse cx of Inl r \<Rightarrow> r
      | Inr orgID \<Rightarrow>
          (case (if y \<noteq> '''' then Atoi y else Some 0) of
             None \<Rightarrow> invalid_request ''year must be an integer''
           | Some year \<Rightarrow> JsonResponse 200 (BodyAPs (aps_List s order orgID year))))"

definition GetAnnualPlan where
  "GetAnnualPlan parse cx s = pl_get parse aps_Get ''annual plan'' BodyAP cx s"

definition ap_modify where
  "ap_modify parse cx op s = pl_modify parse aps_Get aps_Update ''annual plan'' BodyAP cx op s"

definition UpdateAnnualPlan where
  "UpdateAnnualPlan parse fresh now cx body s =
     ap_modify parse cx (decoded_op body (\<lambda>req p. Inr (ap_Apply fresh now req p))) s"

text \<open>A body that does not decode is ignored: \<open>approvalID\<close> is what decoding left in it.\<close>

definition ApproveAnnualPlan where
  "ApproveAnnualPlan parse now cx approvalID s =
     ap_modify parse cx (transition_op (ap_Approve now approvalID)) s"

definition ActivateAnnualPlan where
  "ActivateAnnualPlan parse now cx s = ap_modify parse cx (transition_op (ap_Activate now)) s"

definition ArchiveAnnualPlan where
  "ArchiveAnnualPlan parse now cx s = ap_modify parse cx (transition_op (ap_Archive now)) s"

subsection \<open>Assurance maps and resource calendars\<close>

definition CreateAssuranceMap where
  "CreateAssuranceMap newID now body s =
     pl_create ams_Create (NewAssuranceMap newID now) internal_error BodyAM body s"

definition ListAssuranceMaps :: "(string \<Rightarrow> uuid option) \<Rightarrow> uuid list \<Rightarrow> pl_ctx \<Rightarrow> am_store \<Rightarrow> planning_response" where
  "ListAssuranceMaps parse order cx s =
     (case pl_requireOrgID parse cx of Inl r \<Rightarrow> r
      | Inr orgID \<Rightarrow> JsonResponse 200 (BodyAMs (ams_List s order orgID)))"

definition GetAssuranceMap where
  "GetAssuranceMap parse cx s = pl_get parse ams_Get ''assurance map'' BodyAM cx s"

definition UpdateAssuranceMap where
  "UpdateAssuranceMap parse now cx body s =
     pl_modify parse ams_Get ams_Update ''assurance map'' BodyAM cx
       (decoded_op body (\<lambda>req m. Inr (am_Apply now req m))) s"

definition CreateResourceCalendar where
  "CreateResourceCalendar fresh fresh2 newID now body s =
     pl_create rcs_Create (NewResourceCalendar fresh fresh2 newID now) internal_error BodyRC body s"

definition ListResourceCalendars :: "(string \<Rightarrow> uuid option) \<Rightarrow> uuid list \<Rightarrow> pl_ctx \<Rightarrow> rc_store \<Rightarrow> planning_response" where
  "ListResourceCalendars parse order cx s =
     (case pl_requireOrgID parse cx of Inl r \<Rightarrow> r
      | Inr orgID \<Rightarrow> JsonResponse 200 (BodyRCs (rcs_List s order orgID)))"

definition GetResourceCalendar where
  "GetResourceCalendar parse cx s = pl_get parse rcs_Get ''resource calendar'' BodyRC cx s"

definition UpdateResourceCalendar where
  "UpdateResourceCalendar parse now cx body s =
     pl_modify parse rcs_Get rcs_Update ''resource calendar'' BodyRC cx
       (decoded_op body (\<lambda>req c. Inr (rc_Apply now req c))) s"

section \<open>Requests\<close>

datatype planning_request =
    CreateSP "nat \<Rightarrow> uuid" uuid gotime "CreateStrategicPlanRequest decoded"
  | UpdateSP "nat \<Rightarrow> uuid" gotime pl_ctx "UpdateStrategicPlanRequest decoded"
  | ApproveSP gotime pl_ctx "ApproveBody decoded"
  | ActivateSP gotime pl_ctx
  | ArchiveSP gotime pl_ctx
  | CreateAP "uuid list" "nat \<Rightarrow> uuid" uuid gotime "CreateAnnualPlanRequest decoded"
  | UpdateAP "nat \<Rightarrow> uuid" gotime pl_ctx "UpdateAnnualPlanRequest decoded"
  | ApproveAP gotime pl_ctx "uuid option"
  | ActivateAP gotime pl_ctx
  | ArchiveAP gotime pl_ctx
  | CreateAM uuid gotime "CreateAssuranceMapRequest decoded"
  | UpdateAM gotime pl_ctx "UpdateAssuranceMapRequest decoded"
  | CreateRC "nat \<Rightarrow> uuid" "nat \<Rightarrow> nat \<Rightarrow> uuid" uuid gotime "CreateResourceCalendarRequest decoded"
  | UpdateRC gotime pl_ctx "UpdateResourceCalendarRequest decoded"

definition on_sp where
  "on_sp h st = (case h (st_StrategicPlans st) of (s, r) \<Rightarrow> (st\<lparr> st_StrategicPlans := s \<rparr>, r :: planning_response))"

definition on_ap where
  "on_ap h st = (case h (st_AnnualPlans st) of (s, r) \<Rightarrow> (st\<lparr> st_AnnualPlans := s \<rparr>, r :: planning_response))"

definition on_am where
  "on_am h st = (case h (st_AssuranceMaps st) of (s, r) \<Rightarrow> (st\<lparr> st_AssuranceMaps := s \<rparr>, r :: planning_response))"

definition on_rc where
  "on_rc h st = (case h (st_ResourceCalendars st) of (s, r) \<Rightarrow> (st\<lparr> st_ResourceCalendars := s \<rparr>, r :: planning_response))"

fun pl_serve ::
  "(string \<Rightarrow> uuid option) \<Rightarrow> Stores \<Rightarrow> planning_request \<Rightarrow> Stores \<times> planning_response" where
  "pl_serve parse st (CreateSP fresh newID now body) = on_sp (CreateStrategicPlan fresh newID now body) st"
| "pl_serve parse st (UpdateSP fresh now cx body) = on_sp (UpdateStrategicPlan parse fresh now cx body) st"
| "pl_serve parse st (ApproveSP now cx body) = on_sp (ApproveStrategicPlan parse now cx body) st"
| "pl_serve parse st (ActivateSP now cx) = on_sp (ActivateStrategicPlan parse now cx) st"
| "pl_serve parse st (ArchiveSP now cx) = on_sp (ArchiveStrategicPlan parse now cx) st"
| "pl_serve parse st (CreateAP order fresh newID now body) = on_ap (CreateAnnualPlan order fresh newID now body) st"
| "pl_serve parse st (UpdateAP fresh now cx body) = on_ap (UpdateAnnualPlan parse fresh now cx body) st"
| "pl_serve parse st (ApproveAP now cx aid) = on_ap (ApproveAnnualPlan parse now cx aid) st"
| "pl_serve parse st (ActivateAP now cx) = on_ap (ActivateAnnualPlan parse now cx) st"
| "pl_serve parse st (ArchiveAP now cx) = on_ap (ArchiveAnnualPlan parse now cx) st"
| "pl_serve parse st (CreateAM newID now body) = on_am (CreateAssuranceMap newID now body) st"
| "pl_serve parse st (UpdateAM now cx body) = on_am (UpdateAssuranceMap parse now cx body) st"
| "pl_serve parse st (CreateRC fresh fresh2 newID now body) =
     on_rc (CreateResourceCalendar fresh fresh2 newID now body) st"
| "pl_serve parse st (UpdateRC now cx body) = on_rc (UpdateResourceCalendar parse now cx body) st"

text \<open>The organisation a request names.\<close>

definition cx_org :: "(string \<Rightarrow> uuid option) \<Rightarrow> pl_ctx \<Rightarrow> uuid" where
  "cx_org parse cx = (case pl_requireOrgID parse cx of Inl _ \<Rightarrow> uuid_Nil | Inr o' \<Rightarrow> o')"

definition body_org :: "('r \<Rightarrow> uuid) \<Rightarrow> 'r decoded \<Rightarrow> uuid" where
  "body_org f body = (case body of Inl _ \<Rightarrow> uuid_Nil | Inr req \<Rightarrow> f req)"

fun planning_org :: "(string \<Rightarrow> uuid option) \<Rightarrow> planning_request \<Rightarrow> uuid" where
  "planning_org parse (CreateSP fresh newID now body) = body_org csp_OrgID body"
| "planning_org parse (UpdateSP fresh now cx body) = cx_org parse cx"
| "planning_org parse (ApproveSP now cx body) = cx_org parse cx"
| "planning_org parse (ActivateSP now cx) = cx_org parse cx"
| "planning_org parse (ArchiveSP now cx) = cx_org parse cx"
| "planning_org parse (CreateAP order fresh newID now body) = body_org cap_OrgID body"
| "planning_org parse (UpdateAP fresh now cx body) = cx_org parse cx"
| "planning_org parse (ApproveAP now cx aid) = cx_org parse cx"
| "planning_org parse (ActivateAP now cx) = cx_org parse cx"
| "planning_org parse (ArchiveAP now cx) = cx_org parse cx"
| "planning_org parse (CreateAM newID now body) = body_org cam_OrgID body"
| "planning_org parse (UpdateAM now cx body) = cx_org parse cx"
| "planning_org parse (CreateRC fresh fresh2 newID now body) = body_org crc_OrgID body"
| "planning_org parse (UpdateRC now cx body) = cx_org parse cx"

text \<open>Fresh identifiers are unused; the order in which the map is visited covers its keys.\<close>

fun planning_fresh :: "Stores \<Rightarrow> planning_request \<Rightarrow> bool" where
  "planning_fresh st (CreateSP fresh newID now body) \<longleftrightarrow> st_StrategicPlans st newID = None"
| "planning_fresh st (CreateAP order fresh newID now body) \<longleftrightarrow>
     st_AnnualPlans st newID = None \<and> dom (st_AnnualPlans st) \<subseteq> set order"
| "planning_fresh st (CreateAM newID now body) \<longleftrightarrow> st_AssuranceMaps st newID = None"
| "planning_fresh st (CreateRC fresh fresh2 newID now body) \<longleftrightarrow> st_ResourceCalendars st newID = None"
| "planning_fresh st _ \<longleftrightarrow> True"

definition am_step :: "AssuranceMap \<Rightarrow> AssuranceMap \<Rightarrow> bool" where
  "am_step m m' \<longleftrightarrow> (\<exists>now req. m' = am_Apply now req m)"

definition am_new :: "AssuranceMap \<Rightarrow> bool" where
  "am_new m \<longleftrightarrow> (\<exists>newID now req. NewAssuranceMap newID now req = Inr m)"

definition rc_step :: "ResourceCalendar \<Rightarrow> ResourceCalendar \<Rightarrow> bool" where
  "rc_step c c' \<longleftrightarrow> (\<exists>now req. c' = rc_Apply now req c)"

definition rc_new :: "ResourceCalendar \<Rightarrow> bool" where
  "rc_new c \<longleftrightarrow> (\<exists>fresh fresh2 newID now req. NewResourceCalendar fresh fresh2 newID now req = Inr c)"

section \<open>What a request changes\<close>

lemma pl_modify_cases:
  "fst (pl_modify parse get update what mk cx op s) = s \<or>
     (\<exists>i x x'. get s (cx_org parse cx) i = Inr x \<and> op x = Inr x' \<and>
        update s x' = Inr (fst (pl_modify parse get update what mk cx op s)))"
proof (cases "pl_load parse get what cx s")
  case (Inr x)
  then obtain i where get: "get s (cx_org parse cx) i = Inr x"
    by (auto simp: pl_load_def cx_org_def split: sum.splits)
  with Inr show ?thesis
    by (cases "op x"; cases "update s (projr (op x))") (auto simp: pl_modify_def)
qed (simp add: pl_modify_def)

lemma pl_create_cases:
  "fst (pl_create create mkNew fail mk body s) = s \<or>
     (\<exists>req x. body = Inr req \<and> mkNew req = Inr x \<and>
        create s x = Inr (fst (pl_create create mkNew fail mk body s)))"
  by (cases body; cases "mkNew (projr body)"; cases "create s (projr (mkNew (projr body)))")
    (auto simp: pl_create_def)

lemma decoded_op_Inr: "decoded_op body f x = Inr x' \<longleftrightarrow> (\<exists>req. body = Inr req \<and> f req x = Inr x')"
  by (cases body) (auto simp: decoded_op_def)

lemma transition_op_Inr: "transition_op f x = Inr x' \<longleftrightarrow> f x = Inr x'"
  by (cases "f x") (auto simp: transition_op_def)

lemma sp_modify_changes:
  assumes "\<And>p p'. op p = Inr p' \<Longrightarrow> sp_step p p'"
  shows "sps.changes sp_step sp_new (cx_org parse cx) s (fst (sp_modify parse cx op s))"
  using pl_modify_cases [of parse sps_Get sps_Update "''strategic plan''" BodySP cx op s] assms
  unfolding sp_modify_def sps.changes_def by blast

lemma ap_modify_changes:
  assumes "\<And>p p'. op p = Inr p' \<Longrightarrow> ap_step p p'"
  shows "aps.changes order ap_step new (cx_org parse cx) s (fst (ap_modify parse cx op s))"
  using pl_modify_cases [of parse aps_Get aps_Update "''annual plan''" BodyAP cx op s] assms
  unfolding ap_modify_def aps.changes_def by blast

lemma on_sel [simp]:
  "st_StrategicPlans (fst (on_sp h st)) = fst (h (st_StrategicPlans st))"
  "st_AnnualPlans (fst (on_sp h st)) = st_AnnualPlans st"
  "st_AssuranceMaps (fst (on_sp h st)) = st_AssuranceMaps st"
  "st_ResourceCalendars (fst (on_sp h st)) = st_ResourceCalendars st"
  "st_StrategicPlans (fst (on_ap k st)) = st_StrategicPlans st"
  "st_AnnualPlans (fst (on_ap k st)) = fst (k (st_AnnualPlans st))"
  "st_AssuranceMaps (fst (on_ap k st)) = st_AssuranceMaps st"
  "st_ResourceCalendars (fst (on_ap k st)) = st_ResourceCalendars st"
  "st_StrategicPlans (fst (on_am l st)) = st_StrategicPlans st"
  "st_AnnualPlans (fst (on_am l st)) = st_AnnualPlans st"
  "st_AssuranceMaps (fst (on_am l st)) = fst (l (st_AssuranceMaps st))"
  "st_ResourceCalendars (fst (on_am l st)) = st_ResourceCalendars st"
  "st_StrategicPlans (fst (on_rc m st)) = st_StrategicPlans st"
  "st_AnnualPlans (fst (on_rc m st)) = st_AnnualPlans st"
  "st_AssuranceMaps (fst (on_rc m st)) = st_AssuranceMaps st"
  "st_ResourceCalendars (fst (on_rc m st)) = fst (m (st_ResourceCalendars st))"
  by (simp_all add: on_sp_def on_ap_def on_am_def on_rc_def split: prod.split)

lemma sp_stepI:
  "sp_step p (sp_Apply fresh now req p)"
  "sp_Approve now by aid p = Inr p' \<Longrightarrow> sp_step p p'"
  "sp_Activate now p = Inr p' \<Longrightarrow> sp_step p p'"
  "sp_Archive now p = Inr p' \<Longrightarrow> sp_step p p'"
  unfolding sp_step_def by blast+

lemma ap_stepI:
  "ap_step p (ap_Apply fresh now req p)"
  "ap_Approve now aid p = Inr p' \<Longrightarrow> ap_step p p'"
  "ap_Activate now p = Inr p' \<Longrightarrow> ap_step p p'"
  "ap_Archive now p = Inr p' \<Longrightarrow> ap_step p p'"
  unfolding ap_step_def by blast+

lemma sp_ops:
  "decoded_op body (\<lambda>req p. Inr (sp_Apply fresh now req p)) p = Inr p' \<Longrightarrow> sp_step p p'"
  "decoded_op abody (\<lambda>b p. if ab_ApprovedBy b = '''' then Inl (invalid_request ''approved_by is required'')
      else transition_op (sp_Approve now (ab_ApprovedBy b) (ab_ApprovalID b)) p) p = Inr p' \<Longrightarrow> sp_step p p'"
  "transition_op (sp_Activate now) p = Inr p' \<Longrightarrow> sp_step p p'"
  "transition_op (sp_Archive now) p = Inr p' \<Longrightarrow> sp_step p p'"
  by (auto simp: decoded_op_Inr transition_op_Inr intro: sp_stepI split: if_splits)

lemma ap_ops:
  "decoded_op body (\<lambda>req p. Inr (ap_Apply fresh now req p)) p = Inr p' \<Longrightarrow> ap_step p p'"
  "transition_op (ap_Approve now aid) p = Inr p' \<Longrightarrow> ap_step p p'"
  "transition_op (ap_Activate now) p = Inr p' \<Longrightarrow> ap_step p p'"
  "transition_op (ap_Archive now) p = Inr p' \<Longrightarrow> ap_step p p'"
  by (auto simp: decoded_op_Inr transition_op_Inr intro: ap_stepI)

lemma new_keys:
  "NewStrategicPlan fresh newID now sreq = Inr p \<Longrightarrow> sp_ID p = newID \<and> sp_OrgID p = csp_OrgID sreq"
  "NewAnnualPlan fresh newID now areq = Inr a \<Longrightarrow> ap_ID a = newID \<and> ap_OrgID a = cap_OrgID areq"
  "NewAssuranceMap newID now mreq = Inr m \<Longrightarrow> am_ID m = newID \<and> am_OrgID m = cam_OrgID mreq"
  "NewResourceCalendar fresh fresh2 newID now rreq = Inr c \<Longrightarrow> rc_ID c = newID \<and> rc_OrgID c = crc_OrgID rreq"
  by (auto simp: NewStrategicPlan_def NewAnnualPlan_def NewAssuranceMap_def NewResourceCalendar_def
      split: if_splits)

lemma serve_sp:
  assumes "planning_fresh st req"
  shows "sps.changes sp_step sp_new (planning_org parse req) (st_StrategicPlans st)
     (st_StrategicPlans (fst (pl_serve parse st req)))"
proof (cases req)
  case (CreateSP fresh newID now body)
  show ?thesis
    using assms pl_create_cases [of sps_Create "NewStrategicPlan fresh newID now" internal_error
        BodySP body "st_StrategicPlans st"] new_keys(1)
    unfolding sps.changes_def CreateSP CreateStrategicPlan_def sp_new_def
    by (fastforce simp: CreateStrategicPlan_def body_org_def)
qed (auto simp: UpdateStrategicPlan_def ApproveStrategicPlan_def ActivateStrategicPlan_def
    ArchiveStrategicPlan_def sps.changes_def [of _ _ _ s s for s]
    intro: sp_modify_changes sp_ops)

text \<open>A new annual plan that fits: no live plan of its organisation and year is stored.\<close>

definition ap_fits :: "ap_store \<Rightarrow> AnnualPlan \<Rightarrow> bool" where
  "ap_fits s p \<longleftrightarrow> ap_new p \<and> (\<forall>i q. s i = Some q \<longrightarrow> \<not> live_in (ap_OrgID p) (ap_Year p) q)"

lemma aps_Create_fits:
  assumes "aps_Create order s p = Inr s'" and "dom s \<subseteq> set order" and "ap_new p"
  shows "ap_fits s p"
proof -
  have "\<not> live_in (ap_OrgID p) (ap_Year p) q" if "s i = Some q" for i q
  proof -
    have "q \<in> set (List.map_filter s order)"
      using that assms(2) by (force simp: List.map_filter_def)
    with assms(1) show ?thesis by (auto simp: aps_Create_def list_ex_iff split: if_splits)
  qed
  with assms(3) show ?thesis by (simp add: ap_fits_def)
qed

lemma serve_ap:
  assumes "planning_fresh st req"
  shows "\<exists>order. aps.changes order ap_step (ap_fits (st_AnnualPlans st)) (planning_org parse req)
     (st_AnnualPlans st) (st_AnnualPlans (fst (pl_serve parse st req)))"
proof (cases req)
  case (CreateAP order fresh newID now body)
  let ?s' = "st_AnnualPlans (fst (pl_serve parse st req))"
  have "?s' = st_AnnualPlans st \<or> (\<exists>r x. body = Inr r \<and> NewAnnualPlan fresh newID now r = Inr x \<and>
      aps_Create order (st_AnnualPlans st) x = Inr ?s')"
    using pl_create_cases [of "aps_Create order" "NewAnnualPlan fresh newID now" annual_create_error
        BodyAP body "st_AnnualPlans st"]
    by (simp add: CreateAP CreateAnnualPlan_def)
  then show ?thesis
  proof (elim disjE exE conjE)
    fix r x
    assume x: "body = Inr r" "NewAnnualPlan fresh newID now r = Inr x"
      "aps_Create order (st_AnnualPlans st) x = Inr ?s'"
    have "ap_new x" using x(2) unfolding ap_new_def by blast
    then have "ap_fits (st_AnnualPlans st) x"
      using aps_Create_fits [OF x(3)] assms CreateAP by simp
    moreover have "ap_OrgID x = planning_org parse req" "st_AnnualPlans st (ap_ID x) = None"
      using new_keys(2) [OF x(2)] x(1) assms CreateAP by (simp_all add: body_org_def)
    ultimately show ?thesis using x(3) unfolding aps.changes_def by blast
  qed (auto simp: aps.changes_def)
qed (auto simp: UpdateAnnualPlan_def ApproveAnnualPlan_def ActivateAnnualPlan_def
    ArchiveAnnualPlan_def aps.changes_def [of _ _ _ _ s s for s]
    intro!: exI [of _ "[]"] intro: ap_modify_changes ap_ops)

lemma serve_am:
  assumes "planning_fresh st req"
  shows "ams.changes am_step am_new (planning_org parse req) (st_AssuranceMaps st)
     (st_AssuranceMaps (fst (pl_serve parse st req)))"
proof (cases req)
  case (CreateAM newID now body)
  show ?thesis
    using assms pl_create_cases [of ams_Create "NewAssuranceMap newID now" internal_error
        BodyAM body "st_AssuranceMaps st"] new_keys(3)
    unfolding ams.changes_def CreateAM am_new_def
    by (fastforce simp: CreateAssuranceMap_def body_org_def)
next
  case (UpdateAM now cx body)
  show ?thesis
    using pl_modify_cases [of parse ams_Get ams_Update "''assurance map''" BodyAM cx
        "decoded_op body (\<lambda>req m. Inr (am_Apply now req m))" "st_AssuranceMaps st"]
    unfolding ams.changes_def UpdateAM am_step_def
    by (fastforce simp: UpdateAssuranceMap_def decoded_op_Inr)
qed (auto simp: ams.changes_def)

lemma serve_rc:
  assumes "planning_fresh st req"
  shows "rcs.changes rc_step rc_new (planning_org parse req) (st_ResourceCalendars st)
     (st_ResourceCalendars (fst (pl_serve parse st req)))"
proof (cases req)
  case (CreateRC fresh fresh2 newID now body)
  show ?thesis
    using assms pl_create_cases [of rcs_Create "NewResourceCalendar fresh fresh2 newID now" internal_error
        BodyRC body "st_ResourceCalendars st"] new_keys(4)
    unfolding rcs.changes_def CreateRC rc_new_def
    by (fastforce simp: CreateResourceCalendar_def body_org_def)
next
  case (UpdateRC now cx body)
  show ?thesis
    using pl_modify_cases [of parse rcs_Get rcs_Update "''resource calendar''" BodyRC cx
        "decoded_op body (\<lambda>req m. Inr (rc_Apply now req m))" "st_ResourceCalendars st"]
    unfolding rcs.changes_def UpdateRC rc_step_def
    by (fastforce simp: UpdateResourceCalendar_def decoded_op_Inr)
qed (auto simp: rcs.changes_def)

lemma steps_keep_key:
  "sps.keeps_key sp_step" "aps.keeps_key ap_step" "ams.keeps_key am_step"
  "rcs.keeps_key rc_step"
  unfolding sps.keeps_key_def aps.keeps_key_def ams.keeps_key_def rcs.keeps_key_def
  by (auto dest: sp_step_key ap_step_key)
    (auto simp: am_step_def rc_step_def am_Apply_def rc_Apply_def Let_def split: option.split)

section \<open>Every store the service can hold\<close>

definition one_live :: "ap_store \<Rightarrow> bool" where
  "one_live s \<longleftrightarrow> (\<forall>i j p q ow year. s i = Some p \<longrightarrow> s j = Some q \<longrightarrow> live_in ow year p \<longrightarrow>
     live_in ow year q \<longrightarrow> i = j)"

definition planning_ok :: "Stores \<Rightarrow> bool" where
  "planning_ok st \<longleftrightarrow> sps.keyed (st_StrategicPlans st) \<and> aps.keyed (st_AnnualPlans st) \<and>
     ams.keyed (st_AssuranceMaps st) \<and> rcs.keyed (st_ResourceCalendars st) \<and>
     (\<forall>i p. st_StrategicPlans st i = Some p \<longrightarrow> sp_inv p) \<and> one_live (st_AnnualPlans st)"

inductive planning_served :: "(string \<Rightarrow> uuid option) \<Rightarrow> Stores \<Rightarrow> bool"
  for parse :: "string \<Rightarrow> uuid option" where
  start: "planning_served parse NewStores"
| request: "planning_served parse st \<Longrightarrow> planning_fresh st req \<Longrightarrow>
     planning_served parse (fst (pl_serve parse st req))"

inductive planning_later :: "(string \<Rightarrow> uuid option) \<Rightarrow> Stores \<Rightarrow> Stores \<Rightarrow> bool"
  for parse :: "string \<Rightarrow> uuid option" where
  now: "planning_later parse st st"
| more: "planning_later parse st st1 \<Longrightarrow> planning_fresh st1 req \<Longrightarrow>
     planning_later parse st (fst (pl_serve parse st1 req))"

lemma live_step: "ap_step p p' \<Longrightarrow> live_in ow year p' \<Longrightarrow> live_in ow year p"
  using ap_step_status [of p p'] ap_step_key [of p p'] by (auto simp: live_in_def)

lemma one_live_changes:
  assumes "aps.changes order ap_step (ap_fits s) ow s s'" and "aps.keyed s" and "one_live s"
  shows "one_live s'"
  using assms(3)
proof (cases rule: aps.changes_cases [OF assms(1,2) steps_keep_key(2), case_names same stepped created])
  case same
  with assms(3) show ?thesis by simp
next
  case (stepped i x x')
  then show ?thesis
    using assms(3) live_step [OF stepped(3)] unfolding one_live_def
    by (auto split: if_splits)
next
  case (created x)
  then show ?thesis
    using assms(3) unfolding one_live_def ap_fits_def
    by (auto simp: live_in_def split: if_splits)
qed

lemma planning_ok_serve:
  assumes "planning_ok st" and "planning_fresh st req"
  shows "planning_ok (fst (pl_serve parse st req))"
proof -
  have ok: "sps.keyed (st_StrategicPlans st)" "aps.keyed (st_AnnualPlans st)"
    "ams.keyed (st_AssuranceMaps st)" "rcs.keyed (st_ResourceCalendars st)"
    "one_live (st_AnnualPlans st)" "\<And>i p. st_StrategicPlans st i = Some p \<Longrightarrow> sp_inv p"
    using assms(1) by (auto simp: planning_ok_def)
  obtain order where ap: "aps.changes order ap_step (ap_fits (st_AnnualPlans st)) (planning_org parse req)
     (st_AnnualPlans st) (st_AnnualPlans (fst (pl_serve parse st req)))"
    using serve_ap [OF assms(2)] by blast
  note sp = serve_sp [OF assms(2), of parse]
  show ?thesis
    unfolding planning_ok_def
  proof (intro conjI allI impI)
    show "sps.keyed (st_StrategicPlans (fst (pl_serve parse st req)))"
      by (rule sps.changes_keyed [OF sp ok(1) steps_keep_key(1)])
    show "aps.keyed (st_AnnualPlans (fst (pl_serve parse st req)))"
      by (rule aps.changes_keyed [OF ap ok(2) steps_keep_key(2)])
    show "ams.keyed (st_AssuranceMaps (fst (pl_serve parse st req)))"
      by (rule ams.changes_keyed [OF serve_am [OF assms(2)] ok(3) steps_keep_key(3)])
    show "rcs.keyed (st_ResourceCalendars (fst (pl_serve parse st req)))"
      by (rule rcs.changes_keyed [OF serve_rc [OF assms(2)] ok(4) steps_keep_key(4)])
    show "one_live (st_AnnualPlans (fst (pl_serve parse st req)))"
      by (rule one_live_changes [OF ap ok(2,5)])
    fix i p
    assume "st_StrategicPlans (fst (pl_serve parse st req)) i = Some p"
    then show "sp_inv p"
      by (rule sps.changes_all [where P = sp_inv, OF sp ok(1) steps_keep_key(1), rotated -1])
        (auto intro: sp_step_inv sp_new_inv ok(6))
  qed
qed

lemma planning_served_ok: "planning_served parse st \<Longrightarrow> planning_ok st"
proof (induction rule: planning_served.induct)
  case start
  show ?case
    by (simp add: planning_ok_def NewStores_def sps.keyed_def aps.keyed_def ams.keyed_def
        rcs.keyed_def one_live_def)
qed (rule planning_ok_serve)

lemma planning_later_ok: "planning_later parse st st' \<Longrightarrow> planning_ok st \<Longrightarrow> planning_ok st'"
  by (induction rule: planning_later.induct) (auto intro: planning_ok_serve)

text \<open>Statuses only move forward.\<close>

lemma edges_forward: "sp_step p p' \<Longrightarrow> plan_edge\<^sup>*\<^sup>* (sp_Status p) (sp_Status p')"
  using sp_step_status [of p p'] by auto

lemma sp_evolves:
  assumes "planning_later parse st st'" and "planning_ok st" and "st_StrategicPlans st i = Some p"
  shows "\<exists>p'. st_StrategicPlans st' i = Some p' \<and> plan_edge\<^sup>*\<^sup>* (sp_Status p) (sp_Status p')"
  using assms
proof (induction rule: planning_later.induct)
  case (more st st1 req)
  then obtain p1 where p1: "st_StrategicPlans st1 i = Some p1" "plan_edge\<^sup>*\<^sup>* (sp_Status p) (sp_Status p1)"
    by blast
  have "sps.keyed (st_StrategicPlans st1)"
    using planning_later_ok [OF more(1,4)] by (simp add: planning_ok_def)
  from sps.changes_evolve [OF serve_sp [OF more(2)] this steps_keep_key(1) p1(1)]
  show ?case using p1(2) edges_forward by (metis rtranclp_trans)
qed auto

lemma archived_final: "plan_edge\<^sup>*\<^sup>* PlanStatusArchived s \<Longrightarrow> s = PlanStatusArchived"
  by (induction rule: rtranclp_induct) auto

section \<open>Interleaved requests\<close>

text \<open>
  A handler loads an annual plan under one lock and saves it under another. \<open>ap_pending\<close> is a
  request between the two: it holds the copy it will save.
\<close>

record ap_conc =
  ac_store :: ap_store
  ac_pending :: "AnnualPlan list"

inductive ap_interleaved :: "ap_conc \<Rightarrow> bool" where
  init: "ap_interleaved \<lparr> ac_store = Map.empty, ac_pending = [] \<rparr>"
| creates: "ap_interleaved c \<Longrightarrow> ap_new p \<Longrightarrow> ac_store c (ap_ID p) = None \<Longrightarrow>
     dom (ac_store c) \<subseteq> set order \<Longrightarrow> aps_Create order (ac_store c) p = Inr s' \<Longrightarrow>
     ap_interleaved (c\<lparr> ac_store := s' \<rparr>)"
| loads: "ap_interleaved c \<Longrightarrow> aps_Get (ac_store c) ow i = Inr p \<Longrightarrow> ap_step p p' \<Longrightarrow>
     ap_interleaved (c\<lparr> ac_pending := p' # ac_pending c \<rparr>)"
| saves: "ap_interleaved c \<Longrightarrow> p \<in> set (ac_pending c) \<Longrightarrow> aps_Update (ac_store c) p = Inr s' \<Longrightarrow>
     ap_interleaved (c\<lparr> ac_store := s', ac_pending := remove1 p (ac_pending c) \<rparr>)"

section \<open>Properties\<close>

lemma gets_by_view:
  "sps_Get s1 ow i = (case sps.view s1 ow i of None \<Rightarrow> Inl ErrNotFound | Some p \<Rightarrow> Inr p)"
  "aps_Get s2 ow i = (case aps.view s2 ow i of None \<Rightarrow> Inl ErrNotFound | Some q \<Rightarrow> Inr q)"
  "ams_Get s3 ow i = (case ams.view s3 ow i of None \<Rightarrow> Inl ErrNotFound | Some m \<Rightarrow> Inr m)"
  "rcs_Get s4 ow i = (case rcs.view s4 ow i of None \<Rightarrow> Inl ErrNotFound | Some c \<Rightarrow> Inr c)"
  by (simp_all add: sps.view_def aps.view_def ams.view_def rcs.view_def sps_Get_def aps_Get_def
      ams_Get_def rcs_Get_def split: option.split)

text \<open>
  C36. Sequential requests keep at most one live (non-archived) annual plan per organisation
  and year, and every stored plan under its own identifier.
\<close>

theorem annual_plan_unique_per_year:
  assumes "planning_served parse st" and "st_AnnualPlans st i = Some p"
    and "st_AnnualPlans st j = Some q" and "ap_OrgID p = ap_OrgID q" and "ap_Year p = ap_Year q"
    and "ap_Status p \<noteq> PlanStatusArchived" and "ap_Status q \<noteq> PlanStatusArchived"
  shows "i = j \<and> ap_ID p = i"
  using planning_served_ok [OF assms(1)] assms(2-)
  by (auto simp: planning_ok_def one_live_def live_in_def aps.keyed_def)

text \<open>
  Lifecycle of strategic plans: under any later requests a plan's status only moves along
  draft, approved, active, archived (or straight to archived), an archived plan stays
  archived, and outside draft and archive it carries the time of its approval.
\<close>

theorem strategic_plan_lifecycle:
  assumes "planning_served parse st" and "planning_later parse st st'"
    and "st_StrategicPlans st i = Some p"
  shows "\<exists>p'. st_StrategicPlans st' i = Some p' \<and>
     plan_edge\<^sup>*\<^sup>* (sp_Status p) (sp_Status p') \<and>
     (if sp_Status p = PlanStatusArchived then sp_Status p' = PlanStatusArchived else True) \<and>
     (sp_Status p' \<in> {PlanStatusDraft, PlanStatusArchived} \<or> sp_ApprovedAt p' \<noteq> None)"
proof -
  note ok = planning_served_ok [OF assms(1)]
  obtain p' where p': "st_StrategicPlans st' i = Some p'" "plan_edge\<^sup>*\<^sup>* (sp_Status p) (sp_Status p')"
    using sp_evolves [OF assms(2) ok assms(3)] by blast
  moreover have "sp_inv p'"
    using planning_later_ok [OF assms(2) ok] p'(1) by (simp add: planning_ok_def)
  ultimately show ?thesis
    using archived_final [of "sp_Status p'"] by (cases "sp_Status p'") (auto simp: sp_inv_def)
qed

text \<open>
  Tenant isolation: a request that names one organisation changes no plan, map or calendar
  another organisation can read.
\<close>

theorem planning_tenant_isolation:
  assumes "planning_served parse st" and "planning_fresh st req" and "ow \<noteq> planning_org parse req"
  shows "sps_Get (st_StrategicPlans (fst (pl_serve parse st req))) ow i = sps_Get (st_StrategicPlans st) ow i \<and>
     aps_Get (st_AnnualPlans (fst (pl_serve parse st req))) ow i = aps_Get (st_AnnualPlans st) ow i \<and>
     ams_Get (st_AssuranceMaps (fst (pl_serve parse st req))) ow i = ams_Get (st_AssuranceMaps st) ow i \<and>
     rcs_Get (st_ResourceCalendars (fst (pl_serve parse st req))) ow i =
       rcs_Get (st_ResourceCalendars st) ow i"
proof -
  have ok: "sps.keyed (st_StrategicPlans st)" "aps.keyed (st_AnnualPlans st)"
    "ams.keyed (st_AssuranceMaps st)" "rcs.keyed (st_ResourceCalendars st)"
    using planning_served_ok [OF assms(1)] by (auto simp: planning_ok_def)
  obtain order where ap: "aps.changes order ap_step (ap_fits (st_AnnualPlans st)) (planning_org parse req)
     (st_AnnualPlans st) (st_AnnualPlans (fst (pl_serve parse st req)))"
    using serve_ap [OF assms(2)] by blast
  note views = sps.changes_isolated [OF serve_sp [OF assms(2)] ok(1) steps_keep_key(1) assms(3)]
    aps.changes_isolated [OF ap ok(2) steps_keep_key(2) assms(3)]
    ams.changes_isolated [OF serve_am [OF assms(2)] ok(3) steps_keep_key(3) assms(3)]
    rcs.changes_isolated [OF serve_rc [OF assms(2)] ok(4) steps_keep_key(4) assms(3)]
  show ?thesis by (simp only: gets_by_view views)
qed

definition ex_plan :: "uuid \<Rightarrow> AnnualPlan" where
  "ex_plan i = \<lparr> ap_ID = i, ap_OrgID = 1, ap_StrategicPlanID = None, ap_Year = 2025, ap_Name = ''p'',
     ap_Status = PlanStatusDraft, ap_Version = 1, ap_Engagements = [], ap_ApprovalID = None,
     ap_Metadata = Some [], ap_CreatedAt = 0, ap_UpdatedAt = 0 \<rparr>"

lemma ex_plan_new: "ap_new (ex_plan i)"
  unfolding ap_new_def
  by (intro exI [of _ "\<lambda>_. 1"] exI [of _ i] exI [of _ 0] exI [of _ "\<lparr> cap_OrgID = 1,
        cap_StrategicPlanID = None, cap_Year = 2025, cap_Name = ''p'', cap_Engagements = [],
        cap_Metadata = None \<rparr>"])
    (simp add: NewAnnualPlan_def ex_plan_def uuid_Nil_def orEmptyMap_def)

text \<open>
  Interleaved requests break that uniqueness: a PATCH that loaded a draft plan, saved after
  the plan was archived and its successor for the year created, brings the archived plan back
  to draft beside the successor.
\<close>

theorem interleaved_duplicate_annual_plan:
  "\<exists>c p q. ap_interleaved c \<and> ac_store c 10 = Some p \<and> ac_store c 11 = Some q \<and>
     ap_OrgID p = ap_OrgID q \<and> ap_Year p = ap_Year q \<and>
     ap_Status p = PlanStatusDraft \<and> ap_Status q = PlanStatusDraft"
proof -
  let ?patch = "ap_Apply (\<lambda>_. 1) 5 \<lparr> uap_Name = Some ''x'', uap_Engagements = None, uap_Metadata = None \<rparr>
     (ex_plan 10)"
  let ?arch = "(ex_plan 10)\<lparr> ap_Status := PlanStatusArchived, ap_UpdatedAt := 6 \<rparr>"
  let ?s1 = "[10 \<mapsto> ex_plan 10] :: ap_store"
  let ?s2 = "?s1(10 \<mapsto> ?arch)"
  let ?s3 = "?s2(11 \<mapsto> ex_plan 11)"
  have sel: "ap_ID (ex_plan i) = i" "ap_OrgID (ex_plan i) = 1" "ap_Year (ex_plan i) = 2025"
    "ap_Status (ex_plan i) = PlanStatusDraft" for i
    by (simp_all add: ex_plan_def)
  have 1: "ap_interleaved \<lparr> ac_store = ?s1, ac_pending = [] \<rparr>"
    using ap_interleaved.creates [OF ap_interleaved.init, of "ex_plan 10" "[]" ?s1] ex_plan_new
    by (simp add: aps_Create_def List.map_filter_def sel)
  have get: "aps_Get ?s1 1 10 = Inr (ex_plan 10)" by (simp add: aps_Get_def sel)
  have 2: "ap_interleaved \<lparr> ac_store = ?s1, ac_pending = [?patch] \<rparr>"
    using ap_interleaved.loads [OF 1, of 1 10 "ex_plan 10" ?patch] get ap_stepI(1) by simp
  have "ap_Archive 6 (ex_plan 10) = Inr ?arch" by (simp add: ap_Archive_def sel)
  then have 3: "ap_interleaved \<lparr> ac_store = ?s1, ac_pending = [?arch, ?patch] \<rparr>"
    using ap_interleaved.loads [OF 2, of 1 10 "ex_plan 10" ?arch] get ap_stepI(4) by simp
  have 4: "ap_interleaved \<lparr> ac_store = ?s2, ac_pending = [?patch] \<rparr>"
    using ap_interleaved.saves [OF 3, of ?arch ?s2] by (simp add: aps_Update_def sel)
  have 5: "ap_interleaved \<lparr> ac_store = ?s3, ac_pending = [?patch] \<rparr>"
    using ap_interleaved.creates [OF 4, of "ex_plan 11" "[10]" ?s3] ex_plan_new
    by (simp add: aps_Create_def List.map_filter_def sel live_in_def)
  have "ap_interleaved \<lparr> ac_store = ?s3(10 \<mapsto> ?patch), ac_pending = [] \<rparr>"
    using ap_interleaved.saves [OF 5, of ?patch "?s3(10 \<mapsto> ?patch)"] by (simp add: aps_Update_def sel)
  then show ?thesis
    by (intro exI [of _ "\<lparr> ac_store = ?s3(10 \<mapsto> ?patch), ac_pending = [] \<rparr>"]) (simp add: sel)
qed

section \<open>Witnesses\<close>

definition ex_uuid :: "string \<Rightarrow> uuid option" where
  "ex_uuid s = (if s = ''1'' then Some 1 else if s = ''7'' then Some 7 else None)"

definition ex_create_ap :: "uuid list \<Rightarrow> uuid \<Rightarrow> planning_request" where
  "ex_create_ap order i = CreateAP order (\<lambda>_. 1) i 0 (Inr \<lparr> cap_OrgID = 1, cap_StrategicPlanID = None,
     cap_Year = 2025, cap_Name = ''p'', cap_Engagements = [], cap_Metadata = None \<rparr>)"

definition ex_create_sp :: planning_request where
  "ex_create_sp = CreateSP (\<lambda>_. 1) 7 0 (Inr \<lparr> csp_OrgID = 1, csp_Name = ''s'', csp_Description = '''',
     csp_StartYear = 2025, csp_EndYear = 2027, csp_Entities = [], csp_Metadata = None \<rparr>)"

definition ex_st1 :: Stores where
  "ex_st1 = fst (pl_serve ex_uuid NewStores (ex_create_ap [] 7))"

definition ex_st2 :: Stores where
  "ex_st2 = fst (pl_serve ex_uuid NewStores ex_create_sp)"

lemma ex_st1_eval: "st_AnnualPlans ex_st1 = [7 \<mapsto> ex_plan 7]" "planning_served ex_uuid ex_st1"
proof -
  show "st_AnnualPlans ex_st1 = [7 \<mapsto> ex_plan 7]"
    by (simp add: ex_st1_def ex_create_ap_def CreateAnnualPlan_def pl_create_def NewAnnualPlan_def
        uuid_Nil_def aps_Create_def List.map_filter_def NewStores_def ex_plan_def orEmptyMap_def)
  show "planning_served ex_uuid ex_st1"
    unfolding ex_st1_def
    by (rule planning_served.request [OF planning_served.start])
      (simp add: ex_create_ap_def NewStores_def)
qed

lemma ex_st2_eval:
  "\<exists>p. st_StrategicPlans ex_st2 7 = Some p \<and> sp_Status p = PlanStatusDraft"
  "planning_served ex_uuid ex_st2"
proof -
  show "\<exists>p. st_StrategicPlans ex_st2 7 = Some p \<and> sp_Status p = PlanStatusDraft"
    by (simp add: ex_st2_def ex_create_sp_def CreateStrategicPlan_def pl_create_def
        NewStrategicPlan_def uuid_Nil_def sps_Create_def NewStores_def)
  show "planning_served ex_uuid ex_st2"
    unfolding ex_st2_def
    by (rule planning_served.request [OF planning_served.start])
      (simp add: ex_create_sp_def NewStores_def)
qed

text \<open>
  A plan is created for a year, archived, and followed by another for the same year; a third request
  for the year is refused.
\<close>

definition ex_archive_ap :: planning_request where
  "ex_archive_ap = ArchiveAP 9 \<lparr> cx_orgHeader = ''1'', cx_orgQuery = '''', cx_pathID = ''7'' \<rparr>"

definition ex_st3 :: Stores where
  "ex_st3 = fst (pl_serve ex_uuid ex_st1 ex_archive_ap)"

definition ex_st4 :: Stores where
  "ex_st4 = fst (pl_serve ex_uuid ex_st3 (ex_create_ap [7] 8))"

lemma ex_create_ap_eval:
  "st_AnnualPlans (fst (pl_serve ex_uuid st (ex_create_ap order i))) =
    (if list_ex (live_in 1 2025) (List.map_filter (st_AnnualPlans st) order) then st_AnnualPlans st
     else (st_AnnualPlans st)(i \<mapsto> ex_plan i))"
  by (simp add: ex_create_ap_def CreateAnnualPlan_def pl_create_def NewAnnualPlan_def uuid_Nil_def
      aps_Create_def ex_plan_def orEmptyMap_def)

lemma ex_st3_eval:
  "st_AnnualPlans ex_st3 = [7 \<mapsto> (ex_plan 7)\<lparr> ap_Status := PlanStatusArchived, ap_UpdatedAt := 9 \<rparr>]"
  by (simp add: ex_st3_def ex_archive_ap_def ArchiveAnnualPlan_def ap_modify_def pl_modify_def pl_load_def pl_parseID_def ex_st1_eval(1)
      ex_uuid_def pl_requireOrgID_def aps_Get_def aps_Update_def transition_op_def ap_Archive_def ex_plan_def)

lemma ex_st4_eval:
  "st_AnnualPlans ex_st4 = [7 \<mapsto> (ex_plan 7)\<lparr> ap_Status := PlanStatusArchived, ap_UpdatedAt := 9 \<rparr>, 8 \<mapsto> ex_plan 8]"
  unfolding ex_st4_def ex_create_ap_eval ex_st3_eval by (simp add: List.map_filter_def live_in_def)

lemma ex_st4_served: "planning_served ex_uuid ex_st4"
proof -
  have "planning_served ex_uuid ex_st3"
    unfolding ex_st3_def by (rule planning_served.request [OF ex_st1_eval(2)]) (simp add: ex_archive_ap_def)
  then show ?thesis
    unfolding ex_st4_def by (rule planning_served.request) (simp add: ex_create_ap_def ex_st3_eval)
qed

theorem annual_plan_unique_per_year_witness:
  "planning_served ex_uuid ex_st4 \<and> dom (st_AnnualPlans ex_st4) = {7, 8} \<and>
   {i. \<exists>p. st_AnnualPlans ex_st4 i = Some p \<and> ap_OrgID p = 1 \<and> ap_Year p = 2025 \<and>
      ap_Status p \<noteq> PlanStatusArchived} = {8} \<and>
   st_AnnualPlans (fst (pl_serve ex_uuid ex_st4 (ex_create_ap [8, 7] 9))) = st_AnnualPlans ex_st4"
proof -
  have two: "st_AnnualPlans ex_st4 8 = Some (ex_plan 8)" "dom (st_AnnualPlans ex_st4) = {7, 8}"
    by (auto simp: ex_st4_eval)
  have plan: "ap_OrgID (ex_plan 8) = 1" "ap_Year (ex_plan 8) = 2025" "ap_Status (ex_plan 8) \<noteq> PlanStatusArchived"
    by (simp_all add: ex_plan_def)
  have "i = 8" if "st_AnnualPlans ex_st4 i = Some p" "ap_OrgID p = 1" "ap_Year p = 2025"
      "ap_Status p \<noteq> PlanStatusArchived" for i p
    using annual_plan_unique_per_year [OF ex_st4_served that(1) two(1)] that(2-4) plan by simp
  moreover have "st_AnnualPlans (fst (pl_serve ex_uuid ex_st4 (ex_create_ap [8, 7] 9))) = st_AnnualPlans ex_st4"
    by (simp add: ex_create_ap_eval List.map_filter_def two(1) live_in_def plan)
  ultimately show ?thesis using ex_st4_served two plan by blast
qed

theorem strategic_plan_lifecycle_witness:
  "\<exists>p'. st_StrategicPlans (fst (pl_serve ex_uuid ex_st2 (ArchiveSP 9
       \<lparr> cx_orgHeader = ''1'', cx_orgQuery = '''', cx_pathID = ''7'' \<rparr>))) 7 = Some p' \<and>
     plan_edge\<^sup>*\<^sup>* PlanStatusDraft (sp_Status p')"
proof -
  obtain p where p: "st_StrategicPlans ex_st2 7 = Some p" "sp_Status p = PlanStatusDraft"
    using ex_st2_eval(1) by blast
  have "planning_later ex_uuid ex_st2 (fst (pl_serve ex_uuid ex_st2 (ArchiveSP 9
       \<lparr> cx_orgHeader = ''1'', cx_orgQuery = '''', cx_pathID = ''7'' \<rparr>)))"
    by (rule planning_later.more [OF planning_later.now]) simp
  from strategic_plan_lifecycle [OF ex_st2_eval(2) this p(1)] p(2) show ?thesis by auto
qed

theorem planning_tenant_isolation_witness:
  "aps_Get (st_AnnualPlans (fst (pl_serve ex_uuid ex_st1 (ArchiveAP 9
     \<lparr> cx_orgHeader = ''1'', cx_orgQuery = '''', cx_pathID = ''7'' \<rparr>)))) 2 7 =
   aps_Get (st_AnnualPlans ex_st1) 2 7"
  by (rule planning_tenant_isolation [OF ex_st1_eval(2), THEN conjunct2, THEN conjunct1])
    (simp_all add: cx_org_def pl_requireOrgID_def ex_uuid_def)

end
