(* ===== verification/HashChain.thy ===== *)
theory HashChain
  imports Prelude
begin

text \<open>
  The audit trail's data model (services/audit-trail/internal/model/model.go) and its hash chain
  (services/audit-trail/internal/hashchain/hashchain.go).

  SHA-256 with its hexadecimal text, the JSON text of a string and of the map of changes, and the
  texts of identifiers and instants are the parameters collected in \<open>codec\<close>; the JSON object of
  the canonical fields is written out over them. \<open>plain_strings\<close>: encoding/json writes a string of
  letters and underscores as it is, in quotes. \<open>digest_ok\<close>: a digest is not empty and holds no
  brace, as hexadecimal digits do not. Nothing is assumed of SHA-256's collisions: where the
  chain's strength depends on them, the theorems name the two texts, inputs of the hashing of the
  chains at hand, that would collide.
\<close>

section \<open>Events\<close>

definition EventTypeUserAction :: string where "EventTypeUserAction = ''user_action''"
definition EventTypeSystemAction :: string where "EventTypeSystemAction = ''system_action''"
definition EventTypeEvidenceChange :: string where "EventTypeEvidenceChange = ''evidence_change''"
definition EventTypeFindingChange :: string where "EventTypeFindingChange = ''finding_change''"
definition EventTypeEngagementChange :: string where "EventTypeEngagementChange = ''engagement_change''"
definition EventTypeAuthEvent :: string where "EventTypeAuthEvent = ''auth_event''"

record AuditEvent =
  ev_ID :: int
  ev_OrgID :: uuid
  ev_EventID :: uuid
  ev_ActorID :: "uuid option"
  ev_ActorEmail :: string
  ev_Action :: string
  ev_EventType :: string
  ev_ResourceType :: string
  ev_ResourceID :: "uuid option"
  ev_EngagementID :: "uuid option"
  ev_Changes :: gomap
  ev_Context :: gomap
  ev_IPAddress :: string
  ev_UserAgent :: string
  ev_PreviousHash :: string
  ev_EventHash :: string
  ev_OccurredAt :: gotime

record AppendRequest =
  rq_OrgID :: uuid
  rq_ActorID :: "uuid option"
  rq_ActorEmail :: string
  rq_Action :: string
  rq_EventType :: string
  rq_ResourceType :: string
  rq_ResourceID :: "uuid option"
  rq_EngagementID :: "uuid option"
  rq_Changes :: gomap
  rq_Context :: gomap
  rq_IPAddress :: string
  rq_UserAgent :: string

record VerifyResult =
  vr_Valid :: bool
  vr_TotalEvents :: int
  vr_TamperedAt :: "int option"
  vr_Message :: string

record MetaAuditEntry =
  me_EventID :: uuid
  me_OccurredAt :: gotime
  me_ActorEmail :: string
  me_Action :: string
  me_EventType :: string
  me_ResourceType :: string
  me_ResourceID :: "uuid option"
  me_EventHash :: string

section \<open>The chain rule\<close>

definition GenesisHash :: string where
  "GenesisHash = ''''"

record canonicalFields =
  cf_OrgID :: string
  cf_ActorEmail :: string
  cf_Action :: string
  cf_EventType :: string
  cf_ResourceType :: string
  cf_ResourceID :: string
  cf_EngagementID :: string
  cf_Changes :: gomap
  cf_OccurredAt :: string

record codec =
  co_string :: "string \<Rightarrow> string"
  co_changes :: "gomap \<Rightarrow> string option"
  co_sha256hex :: "string \<Rightarrow> string"
  co_uuid :: "uuid \<Rightarrow> string"
  co_time :: "gotime \<Rightarrow> string"

text \<open>\<open>json.Marshal\<close> on the struct: its members in order; it fails when the map does.\<close>

definition json_member :: "string \<Rightarrow> string \<Rightarrow> string" where
  "json_member name v = CHR 0x22 # name @ [CHR 0x22, CHR '':''] @ v"

definition co_marshal :: "codec \<Rightarrow> canonicalFields \<Rightarrow> string option" where
  "co_marshal co f =
     (case co_changes co (cf_Changes f) of
        None \<Rightarrow> None
      | Some changes \<Rightarrow> Some (CHR 0x7B #
          json_member ''org_id'' (co_string co (cf_OrgID f)) @ '','' @
          json_member ''actor_email'' (co_string co (cf_ActorEmail f)) @ '','' @
          json_member ''action'' (co_string co (cf_Action f)) @ '','' @
          json_member ''event_type'' (co_string co (cf_EventType f)) @ '','' @
          json_member ''resource_type'' (co_string co (cf_ResourceType f)) @ '','' @
          json_member ''resource_id'' (co_string co (cf_ResourceID f)) @ '','' @
          json_member ''engagement_id'' (co_string co (cf_EngagementID f)) @ '','' @
          json_member ''changes'' changes @ '','' @
          json_member ''occurred_at'' (co_string co (cf_OccurredAt f)) @ [CHR 0x7D]))"

definition uuid_text :: "codec \<Rightarrow> uuid option \<Rightarrow> string" where
  "uuid_text co u = (case u of Some x \<Rightarrow> co_uuid co x | None \<Rightarrow> '''')"

definition request_fields :: "codec \<Rightarrow> AppendRequest \<Rightarrow> gotime \<Rightarrow> canonicalFields" where
  "request_fields co req occurredAt =
     \<lparr> cf_OrgID = co_uuid co (rq_OrgID req), cf_ActorEmail = rq_ActorEmail req,
       cf_Action = rq_Action req, cf_EventType = rq_EventType req,
       cf_ResourceType = rq_ResourceType req, cf_ResourceID = uuid_text co (rq_ResourceID req),
       cf_EngagementID = uuid_text co (rq_EngagementID req), cf_Changes = rq_Changes req,
       cf_OccurredAt = co_time co occurredAt \<rparr>"

text \<open>\<open>None\<close> is the error of \<open>json.Marshal\<close>.\<close>

definition Compute :: "codec \<Rightarrow> string \<Rightarrow> AppendRequest \<Rightarrow> gotime \<Rightarrow> string option" where
  "Compute co previousHash req occurredAt =
     (case co_marshal co (request_fields co req occurredAt) of
        None \<Rightarrow> None
      | Some payload \<Rightarrow> Some (co_sha256hex co (previousHash @ payload)))"

definition event_fields :: "codec \<Rightarrow> AuditEvent \<Rightarrow> canonicalFields" where
  "event_fields co ev =
     \<lparr> cf_OrgID = co_uuid co (ev_OrgID ev), cf_ActorEmail = ev_ActorEmail ev,
       cf_Action = ev_Action ev, cf_EventType = ev_EventType ev,
       cf_ResourceType = ev_ResourceType ev, cf_ResourceID = uuid_text co (ev_ResourceID ev),
       cf_EngagementID = uuid_text co (ev_EngagementID ev), cf_Changes = ev_Changes ev,
       cf_OccurredAt = co_time co (ev_OccurredAt ev) \<rparr>"

definition Verify :: "codec \<Rightarrow> AuditEvent \<Rightarrow> string \<Rightarrow> bool" where
  "Verify co event expectedPrevious =
     (if ev_PreviousHash event \<noteq> expectedPrevious then False
      else case co_marshal co (event_fields co event) of
        None \<Rightarrow> False
      | Some payload \<Rightarrow> co_sha256hex co (expectedPrevious @ payload) = ev_EventHash event)"

section \<open>Verified chains\<close>

fun verified_from :: "codec \<Rightarrow> string \<Rightarrow> AuditEvent list \<Rightarrow> bool" where
  "verified_from co prev [] = True"
| "verified_from co prev (ev # evs) = (Verify co ev prev \<and> verified_from co (ev_EventHash ev) evs)"

fun head_hash :: "string \<Rightarrow> AuditEvent list \<Rightarrow> string" where
  "head_hash prev [] = prev"
| "head_hash prev (ev # evs) = head_hash (ev_EventHash ev) evs"

definition plain_char :: "char \<Rightarrow> bool" where
  "plain_char c \<longleftrightarrow> (let n = (of_char c :: nat) in 65 \<le> n \<and> n \<le> 90 \<or> 97 \<le> n \<and> n \<le> 122 \<or> n = 95)"

definition plain_strings :: "codec \<Rightarrow> bool" where
  "plain_strings co \<longleftrightarrow>
     (\<forall>s. list_all plain_char s \<longrightarrow> co_string co s = CHR 0x22 # s @ [CHR 0x22])"

definition digest_ok :: "codec \<Rightarrow> bool" where
  "digest_ok co \<longleftrightarrow> (\<forall>x. co_sha256hex co x \<noteq> '''' \<and> CHR 0x7B \<notin> set (co_sha256hex co x))"

text \<open>The text that is hashed for an event, and the first difference between those of two chains,
  looked for from their ends.\<close>

definition canonical_text :: "codec \<Rightarrow> AuditEvent \<Rightarrow> string option" where
  "canonical_text co ev = co_marshal co (event_fields co ev)"

definition hash_input :: "codec \<Rightarrow> AuditEvent \<Rightarrow> string" where
  "hash_input co ev =
     ev_PreviousHash ev @ (case canonical_text co ev of None \<Rightarrow> '''' | Some p \<Rightarrow> p)"

definition find_collision ::
  "codec \<Rightarrow> AuditEvent list \<Rightarrow> AuditEvent list \<Rightarrow> (string \<times> string) option" where
  "find_collision co xs ys = find (\<lambda>(a, b). a \<noteq> b)
     (zip (rev (map (hash_input co) xs)) (rev (map (hash_input co) ys)))"

lemma verified_from_append:
  "verified_from co prev (xs @ ys) \<longleftrightarrow>
     verified_from co prev xs \<and> verified_from co (head_hash prev xs) ys"
  by (induction xs arbitrary: prev) auto

lemma head_hash_append: "head_hash prev (xs @ ys) = head_hash (head_hash prev xs) ys"
  by (induction xs arbitrary: prev) auto

lemma Verify_iff:
  "Verify co ev prev \<longleftrightarrow> ev_PreviousHash ev = prev \<and>
     (\<exists>p. co_marshal co (event_fields co ev) = Some p \<and> ev_EventHash ev = co_sha256hex co (prev @ p))"
  by (auto simp: Verify_def split: option.splits)

lemma split_at_brace:
  assumes "CHR 0x7B \<notin> set h" and "CHR 0x7B \<notin> set h'"
    and "h @ CHR 0x7B # q = h' @ CHR 0x7B # q'"
  shows "h = h' \<and> q = q'"
  using assms by (induction h arbitrary: h') (auto simp: append_eq_Cons_conv Cons_eq_append_conv)

lemma marshal_brace: "co_marshal co f = Some p \<Longrightarrow> \<exists>q. p = CHR 0x7B # q"
  by (auto simp: co_marshal_def split: option.splits)

lemma Verify_hash: "Verify co ev prev \<Longrightarrow> ev_EventHash ev = co_sha256hex co (hash_input co ev)"
  by (auto simp: Verify_iff hash_input_def canonical_text_def)

text \<open>Two links with the same input have the same predecessor's hash and the same canonical text.\<close>

lemma link_binds:
  assumes "Verify co ev prev" and "Verify co ev' prev'" and "hash_input co ev = hash_input co ev'"
    and "CHR 0x7B \<notin> set prev" and "CHR 0x7B \<notin> set prev'"
  shows "prev = prev' \<and> canonical_text co ev = canonical_text co ev'"
proof -
  obtain p where p: "co_marshal co (event_fields co ev) = Some p" "ev_PreviousHash ev = prev"
    using assms(1) by (auto simp: Verify_iff)
  obtain p' where p': "co_marshal co (event_fields co ev') = Some p'" "ev_PreviousHash ev' = prev'"
    using assms(2) by (auto simp: Verify_iff)
  obtain q q' where q: "p = CHR 0x7B # q" "p' = CHR 0x7B # q'"
    using marshal_brace p(1) p'(1) by metis
  have "prev @ p = prev' @ p'" using assms(3) p p' by (simp add: hash_input_def canonical_text_def)
  then have "prev = prev' \<and> p = p'" using split_at_brace [OF assms(4,5)] q by blast
  with p p' show ?thesis by (simp add: canonical_text_def)
qed

lemma verified_hash:
  assumes "digest_ok co" and "verified_from co prev evs" and "CHR 0x7B \<notin> set prev"
  shows "CHR 0x7B \<notin> set (head_hash prev evs) \<and> (evs \<noteq> [] \<longrightarrow> head_hash prev evs \<noteq> '''')"
  using assms
proof (induction evs arbitrary: prev)
  case Nil
  then show ?case by simp
next
  case (Cons ev evs)
  obtain p where "ev_EventHash ev = co_sha256hex co (prev @ p)"
    using Cons.prems(2) by (auto simp: Verify_iff)
  then have "ev_EventHash ev \<noteq> ''''" "CHR 0x7B \<notin> set (ev_EventHash ev)"
    using assms(1) by (simp_all add: digest_ok_def)
  moreover have "verified_from co (ev_EventHash ev) evs" using Cons.prems(2) by simp
  ultimately show ?case using Cons.IH [OF assms(1)] by (cases evs) auto
qed

lemma chain_binds:
  assumes "digest_ok co"
    and "verified_from co GenesisHash xs" and "verified_from co GenesisHash ys"
    and "head_hash GenesisHash xs = head_hash GenesisHash ys"
  shows "case find_collision co xs ys of
       None \<Rightarrow> map (canonical_text co) xs = map (canonical_text co) ys \<and>
         map ev_PreviousHash xs = map ev_PreviousHash ys \<and> map ev_EventHash xs = map ev_EventHash ys
     | Some (a, b) \<Rightarrow> a \<in> hash_input co ` set xs \<and> b \<in> hash_input co ` set ys \<and> a \<noteq> b \<and>
         co_sha256hex co a = co_sha256hex co b"
  using assms
proof (induction xs arbitrary: ys rule: rev_induct)
  case Nil
  then have "ys = []" using verified_hash [OF assms(1) Nil(3)] by (auto simp: GenesisHash_def)
  then show ?case by (simp add: find_collision_def)
next
  case (snoc x xs)
  have "head_hash GenesisHash (xs @ [x]) \<noteq> ''''"
    using verified_hash [OF assms(1) snoc.prems(2)] by (auto simp: GenesisHash_def)
  with snoc.prems(4) have "ys \<noteq> []" by (auto simp: GenesisHash_def)
  then obtain ys' y where ys: "ys = ys' @ [y]" by (metis rev_exhaust)
  let ?h = "head_hash GenesisHash xs" and ?h' = "head_hash GenesisHash ys'"
  have x: "verified_from co GenesisHash xs" "Verify co x ?h"
    and y: "verified_from co GenesisHash ys'" "Verify co y ?h'"
    and eq: "ev_EventHash x = ev_EventHash y"
    using snoc.prems(2,3,4) ys by (auto simp: verified_from_append head_hash_append)
  have clean: "CHR 0x7B \<notin> set ?h" "CHR 0x7B \<notin> set ?h'"
    using verified_hash [OF assms(1) x(1)] verified_hash [OF assms(1) y(1)]
    by (auto simp: GenesisHash_def)
  have digests: "co_sha256hex co (hash_input co x) = co_sha256hex co (hash_input co y)"
    using Verify_hash [OF x(2)] Verify_hash [OF y(2)] eq by simp
  show ?case
  proof (cases "hash_input co x = hash_input co y")
    case True
    from link_binds [OF x(2) y(2) True clean]
    have same: "?h = ?h'" "canonical_text co x = canonical_text co y" by auto
    have "ev_PreviousHash x = ev_PreviousHash y" using x(2) y(2) same(1) by (auto simp: Verify_iff)
    moreover have "find_collision co (xs @ [x]) ys = find_collision co xs ys'"
      using True by (simp add: find_collision_def ys)
    ultimately show ?thesis
      using snoc.IH [OF assms(1) x(1) y(1) same(1)] same(2) eq
      by (auto simp: ys split: option.splits)
  next
    case False
    then have "find_collision co (xs @ [x]) ys = Some (hash_input co x, hash_input co y)"
      by (simp add: find_collision_def ys)
    with False digests show ?thesis by (simp add: ys)
  qed
qed

text \<open>Appending with the hash of \<open>Compute\<close> keeps a chain verified.\<close>

lemma Compute_Verify:
  assumes "Compute co prev req t = Some h" and "event_fields co ev = request_fields co req t"
    and "ev_PreviousHash ev = prev" and "ev_EventHash ev = h"
  shows "Verify co ev prev"
  using assms by (auto simp: Compute_def Verify_iff split: option.splits)

section \<open>Properties\<close>

text \<open>
  C7. The hash chain is tamper-evident: two chains that both verify from the genesis hash and
  end in the same hash hold, event by event, the same canonical JSON text and the same hashes.
  Otherwise \<open>find_collision\<close> computes from the two chains a text hashed for an event of each, the
  two texts different and their SHA-256 the same.
\<close>

theorem chain_head_binds_history:
  assumes "digest_ok co"
    and "verified_from co GenesisHash xs" and "verified_from co GenesisHash ys"
    and "head_hash GenesisHash xs = head_hash GenesisHash ys"
  shows "case find_collision co xs ys of
       None \<Rightarrow> map (canonical_text co) xs = map (canonical_text co) ys \<and>
         map ev_PreviousHash xs = map ev_PreviousHash ys \<and> map ev_EventHash xs = map ev_EventHash ys
     | Some (a, b) \<Rightarrow> a \<in> hash_input co ` set xs \<and> b \<in> hash_input co ` set ys \<and> a \<noteq> b \<and>
         co_sha256hex co a = co_sha256hex co b"
  by (rule chain_binds [OF assms])

text \<open>A codec that satisfies the hypotheses; its digest, the bits of its input, has no collision.\<close>

definition ex_digit :: "bool \<Rightarrow> char" where
  "ex_digit b = (if b then CHR ''1'' else CHR ''0'')"

definition ex_bits :: "char \<Rightarrow> string" where
  "ex_bits c = map ex_digit [digit0 c, digit1 c, digit2 c, digit3 c, digit4 c, digit5 c, digit6 c,
     digit7 c]"

definition ex_codec :: codec where
  "ex_codec = \<lparr> co_string = (\<lambda>s. CHR 0x22 # s @ [CHR 0x22]),
     co_changes = (\<lambda>m. if m = None then Some ''null'' else None),
     co_sha256hex = (\<lambda>x. CHR ''h'' # concat (map ex_bits x)),
     co_uuid = (\<lambda>u. ''u''), co_time = (\<lambda>t. ''t'') \<rparr>"

lemma ex_bits_inj: "ex_bits c @ s = ex_bits d @ t \<longleftrightarrow> c = d \<and> s = t"
  by (cases c; cases d) (auto simp: ex_bits_def ex_digit_def split: if_splits)

lemma ex_concat_inj: "concat (map ex_bits s) = concat (map ex_bits t) \<longleftrightarrow> s = t"
proof (induction s arbitrary: t)
  case Nil
  show ?case by (cases t) (auto simp: ex_bits_def)
next
  case (Cons c s)
  then show ?case by (cases t) (auto simp: ex_bits_inj, simp add: ex_bits_def)
qed

lemma ex_codec_ok: "plain_strings ex_codec" "digest_ok ex_codec"
  by (auto simp: plain_strings_def digest_ok_def ex_codec_def ex_bits_def ex_digit_def split: if_splits)

definition ex_event :: AuditEvent where
  "ex_event = (let e = \<lparr> ev_ID = 1, ev_OrgID = 1, ev_EventID = 2, ev_ActorID = None,
       ev_ActorEmail = '''', ev_Action = ''a'', ev_EventType = EventTypeAuthEvent,
       ev_ResourceType = ''r'', ev_ResourceID = None, ev_EngagementID = None, ev_Changes = None,
       ev_Context = None, ev_IPAddress = '''', ev_UserAgent = '''', ev_PreviousHash = '''',
       ev_EventHash = '''', ev_OccurredAt = 5 \<rparr>
     in e\<lparr> ev_EventHash := co_sha256hex ex_codec (hash_input ex_codec e) \<rparr>)"

lemma ex_event_verified: "verified_from ex_codec GenesisHash [ex_event]"
  by (simp add: Verify_iff GenesisHash_def ex_event_def event_fields_def uuid_text_def ex_codec_def
      hash_input_def canonical_text_def co_marshal_def Let_def)

text \<open>An event whose address was changed: nothing collides, and the canonical texts agree.\<close>

theorem chain_head_binds_history_witness:
  "find_collision ex_codec [ex_event] [ex_event\<lparr> ev_IPAddress := ''9'' \<rparr>] = None \<and>
   map (canonical_text ex_codec) [ex_event] =
   map (canonical_text ex_codec) [ex_event\<lparr> ev_IPAddress := ''9'' \<rparr>]"
proof -
  have "verified_from ex_codec GenesisHash [ex_event\<lparr> ev_IPAddress := ''9'' \<rparr>]"
    using ex_event_verified by (simp add: Verify_iff event_fields_def)
  moreover have "find_collision ex_codec [ex_event] [ex_event\<lparr> ev_IPAddress := ''9'' \<rparr>] = None"
    by (simp add: find_collision_def hash_input_def canonical_text_def event_fields_def)
  ultimately show ?thesis
    using chain_head_binds_history [OF ex_codec_ok(2) ex_event_verified] by fastforce
qed

end
