(* ===== verification/AuditTrail.thy ===== *)
theory AuditTrail
  imports HashChain GoText
begin

text \<open>
  The audit-trail service: its table (services/audit-trail/internal/store/store.go) and its
  handlers (services/audit-trail/internal/handler/handler.go).

  \<open>audit_row\<close> has the columns the INSERT of \<open>Append\<close> names and the SELECTs read back; the table
  is the list of rows in the order of their serial ids. What PostgreSQL keeps of an instant, a
  JSONB and an INET value is the parameter \<open>pg\<close>; a database failure is an argument of the
  operation that meets it. \<open>AppendEvent\<close> reads the last hash and inserts in two separate
  statements, so the concurrent model has one step for each.
\<close>

section \<open>The table\<close>

record audit_row =
  ro_id :: int
  ro_event_id :: uuid
  ro_org_id :: uuid
  ro_actor_id :: "uuid option"
  ro_actor_email :: string
  ro_action :: string
  ro_resource_type :: string
  ro_resource_id :: "uuid option"
  ro_engagement_id :: "uuid option"
  ro_changes :: gomap
  ro_context :: gomap
  ro_ip_address :: "string option"
  ro_user_agent :: "string option"
  ro_previous_hash :: string
  ro_event_hash :: string
  ro_occurred_at :: gotime

type_synonym audit_table = "audit_row list"

record pg =
  pg_timestamptz :: "gotime \<Rightarrow> gotime"
  pg_jsonb :: "gomap \<Rightarrow> gomap"
  pg_inet :: "string \<Rightarrow> string"

definition nilIfEmpty :: "string \<Rightarrow> string option" where
  "nilIfEmpty s = (if s = '''' then None else Some s)"

definition row_of ::
  "pg \<Rightarrow> int \<Rightarrow> uuid \<Rightarrow> AppendRequest \<Rightarrow> string \<Rightarrow> string \<Rightarrow> gotime \<Rightarrow> audit_row" where
  "row_of db rowid eventID req hash previousHash occurredAt =
     \<lparr> ro_id = rowid, ro_event_id = eventID, ro_org_id = rq_OrgID req,
       ro_actor_id = rq_ActorID req, ro_actor_email = rq_ActorEmail req,
       ro_action = rq_Action req, ro_resource_type = rq_ResourceType req,
       ro_resource_id = rq_ResourceID req, ro_engagement_id = rq_EngagementID req,
       ro_changes = pg_jsonb db (rq_Changes req), ro_context = pg_jsonb db (rq_Context req),
       ro_ip_address = map_option (pg_inet db) (nilIfEmpty (rq_IPAddress req)),
       ro_user_agent = nilIfEmpty (rq_UserAgent req),
       ro_previous_hash = previousHash, ro_event_hash = hash,
       ro_occurred_at = pg_timestamptz db occurredAt \<rparr>"

text \<open>The event \<open>Append\<close> returns: the request's fields and the columns the INSERT returns.\<close>

definition Append ::
  "pg \<Rightarrow> int \<Rightarrow> uuid \<Rightarrow> audit_table \<Rightarrow> AppendRequest \<Rightarrow> string \<Rightarrow> string \<Rightarrow> gotime \<Rightarrow>
   audit_table \<times> AuditEvent" where
  "Append db rowid eventID t req hash previousHash occurredAt =
     (let row = row_of db rowid eventID req hash previousHash occurredAt
      in (t @ [row],
          \<lparr> ev_ID = ro_id row, ev_OrgID = rq_OrgID req, ev_EventID = ro_event_id row,
            ev_ActorID = rq_ActorID req, ev_ActorEmail = rq_ActorEmail req,
            ev_Action = rq_Action req, ev_EventType = rq_EventType req,
            ev_ResourceType = rq_ResourceType req, ev_ResourceID = rq_ResourceID req,
            ev_EngagementID = rq_EngagementID req, ev_Changes = rq_Changes req,
            ev_Context = rq_Context req, ev_IPAddress = rq_IPAddress req,
            ev_UserAgent = rq_UserAgent req, ev_PreviousHash = previousHash,
            ev_EventHash = hash, ev_OccurredAt = ro_occurred_at row \<rparr>))"

definition of_org :: "audit_table \<Rightarrow> uuid \<Rightarrow> audit_row list" where
  "of_org t orgID = filter (\<lambda>r. ro_org_id r = orgID) t"

definition GetLastHash :: "audit_table \<Rightarrow> uuid \<Rightarrow> string" where
  "GetLastHash t orgID =
     (let rs = of_org t orgID in if rs = [] then '''' else ro_event_hash (last rs))"

text \<open>\<open>ScanEvent\<close> fills a new event; there is no column for its type.\<close>

definition ScanEvent :: "audit_row \<Rightarrow> AuditEvent" where
  "ScanEvent r =
     \<lparr> ev_ID = ro_id r, ev_OrgID = ro_org_id r, ev_EventID = ro_event_id r,
       ev_ActorID = ro_actor_id r, ev_ActorEmail = ro_actor_email r, ev_Action = ro_action r,
       ev_EventType = '''', ev_ResourceType = ro_resource_type r,
       ev_ResourceID = ro_resource_id r, ev_EngagementID = ro_engagement_id r,
       ev_Changes = ro_changes r, ev_Context = ro_context r,
       ev_IPAddress = (case ro_ip_address r of Some s \<Rightarrow> s | None \<Rightarrow> ''''),
       ev_UserAgent = (case ro_user_agent r of Some s \<Rightarrow> s | None \<Rightarrow> ''''),
       ev_PreviousHash = ro_previous_hash r, ev_EventHash = ro_event_hash r,
       ev_OccurredAt = ro_occurred_at r \<rparr>"

definition QueryByEntity ::
  "audit_table \<Rightarrow> uuid \<Rightarrow> string \<Rightarrow> uuid \<Rightarrow> int \<Rightarrow> int \<Rightarrow> AuditEvent list" where
  "QueryByEntity t orgID entityType entityID limit offset =
     map ScanEvent (page limit offset
       (filter (\<lambda>r. ro_resource_type r = entityType \<and> ro_resource_id r = Some entityID)
         (of_org t orgID)))"

definition QueryByUser ::
  "audit_table \<Rightarrow> uuid \<Rightarrow> uuid \<Rightarrow> gotime \<Rightarrow> gotime \<Rightarrow> int \<Rightarrow> int \<Rightarrow> AuditEvent list" where
  "QueryByUser t orgID actorID start stop limit offset =
     map ScanEvent (page limit offset
       (filter (\<lambda>r. ro_actor_id r = Some actorID \<and> start \<le> ro_occurred_at r \<and>
                    ro_occurred_at r \<le> stop) (of_org t orgID)))"

definition store_MetaAudit :: "audit_table \<Rightarrow> uuid \<Rightarrow> uuid \<Rightarrow> int \<Rightarrow> int \<Rightarrow> AuditEvent list" where
  "store_MetaAudit t orgID engagementID limit offset =
     map ScanEvent (page limit offset
       (filter (\<lambda>r. ro_engagement_id r = Some engagementID) (of_org t orgID)))"

definition AllEventsForOrg :: "audit_table \<Rightarrow> uuid \<Rightarrow> AuditEvent list" where
  "AllEventsForOrg t orgID = map ScanEvent (of_org t orgID)"

section \<open>The handlers\<close>

datatype audit_body =
    BodyAuditEvent AuditEvent
  | BodyAuditEvents "AuditEvent list" nat
  | BodyVerify VerifyResult
  | BodyMeta uuid "MetaAuditEntry list" nat

definition defaultLimit :: int where
  "defaultLimit = 100"

definition maxLimit :: int where
  "maxLimit = 1000"

definition validEventType :: "string \<Rightarrow> bool" where
  "validEventType et \<longleftrightarrow> et \<in> {EventTypeUserAction, EventTypeSystemAction, EventTypeEvidenceChange,
     EventTypeFindingChange, EventTypeEngagementChange, EventTypeAuthEvent}"

definition audit_pagination :: "string \<Rightarrow> string \<Rightarrow> int \<times> int" where
  "audit_pagination limitStr offsetStr =
     ((case Atoi limitStr of
         Some v \<Rightarrow> if 0 < v then (if maxLimit < v then maxLimit else v) else defaultLimit
       | None \<Rightarrow> defaultLimit),
      (case Atoi offsetStr of Some v \<Rightarrow> if 0 \<le> v then v else 0 | None \<Rightarrow> 0))"

text \<open>\<open>parse_time\<close> is \<open>time.Parse(time.RFC3339, _)\<close>; an error names the bound that failed.\<close>

definition parseTimeRange ::
  "(string \<Rightarrow> string + gotime) \<Rightarrow> gotime \<Rightarrow> string \<Rightarrow> string \<Rightarrow> string + (gotime \<times> gotime)" where
  "parseTimeRange parse_time now startStr endStr =
     (case (if startStr = '''' then Inr zero_time else parse_time startStr) of
        Inl err \<Rightarrow> Inl (''start must be RFC3339: '' @ err)
      | Inr start \<Rightarrow>
          (case (if endStr = '''' then Inr now else parse_time endStr) of
             Inl err \<Rightarrow> Inl (''end must be RFC3339: '' @ err)
           | Inr stop \<Rightarrow> Inr (start, stop)))"

text \<open>What the request is checked for before the chain is touched.\<close>

definition validate_append :: "AppendRequest decoded \<Rightarrow> audit_body response + AppendRequest" where
  "validate_append body =
     (case body of
        Inl msg \<Rightarrow> Inl (JsonError 400 ''INVALID_JSON'' msg)
      | Inr req \<Rightarrow>
          if rq_OrgID req = uuid_Nil
          then Inl (JsonError 400 ''MISSING_FIELD'' ''org_id is required'')
          else if rq_Action req = ''''
          then Inl (JsonError 400 ''MISSING_FIELD'' ''action is required'')
          else if rq_ResourceType req = ''''
          then Inl (JsonError 400 ''MISSING_FIELD'' ''resource_type is required'')
          else if \<not> validEventType (rq_EventType req)
          then Inl (JsonError 400 ''INVALID_EVENT_TYPE'' (''event_type must be one of: user_action, '' @
                 ''system_action, evidence_change, finding_change, engagement_change, auth_event''))
          else Inr req)"

text \<open>
  The first half, up to the hash of the new event. \<open>readable\<close> is false when the query for the
  last hash fails.
\<close>

definition append_prepare ::
  "codec \<Rightarrow> gotime \<Rightarrow> bool \<Rightarrow> audit_table \<Rightarrow> AppendRequest decoded \<Rightarrow>
   audit_body response + (AppendRequest \<times> string \<times> string)" where
  "append_prepare co occurredAt readable t body =
     (case validate_append body of
        Inl r \<Rightarrow> Inl r
      | Inr req \<Rightarrow>
          if \<not> readable then Inl (JsonError 500 ''INTERNAL_ERROR'' ''failed to retrieve chain head'')
          else let prevHash = GetLastHash t (rq_OrgID req)
               in case Compute co prevHash req occurredAt of
                    None \<Rightarrow> Inl (JsonError 500 ''INTERNAL_ERROR'' ''failed to compute event hash'')
                  | Some eventHash \<Rightarrow> Inr (req, prevHash, eventHash))"

definition append_finish ::
  "pg \<Rightarrow> int \<Rightarrow> uuid \<Rightarrow> gotime \<Rightarrow> bool \<Rightarrow> audit_table \<Rightarrow> AppendRequest \<Rightarrow> string \<Rightarrow> string \<Rightarrow>
   audit_table \<times> audit_body response" where
  "append_finish db rowid eventID occurredAt writable t req prevHash eventHash =
     (if \<not> writable then (t, JsonError 500 ''INTERNAL_ERROR'' ''failed to persist event'')
      else case Append db rowid eventID t req eventHash prevHash occurredAt of
             (t', event) \<Rightarrow> (t', JsonResponse 201 (BodyAuditEvent event)))"

definition AppendEvent ::
  "codec \<Rightarrow> pg \<Rightarrow> int \<Rightarrow> uuid \<Rightarrow> gotime \<Rightarrow> bool \<Rightarrow> bool \<Rightarrow> audit_table \<Rightarrow> AppendRequest decoded \<Rightarrow>
   audit_table \<times> audit_body response" where
  "AppendEvent co db rowid eventID occurredAt readable writable t body =
     (case append_prepare co occurredAt readable t body of
        Inl r \<Rightarrow> (t, r)
      | Inr (req, prevHash, eventHash) \<Rightarrow>
          append_finish db rowid eventID occurredAt writable t req prevHash eventHash)"

text \<open>The loop of \<open>VerifyChain\<close>: running hash, count, first broken id.\<close>

definition verify_step ::
  "codec \<Rightarrow> string \<times> int \<times> int option \<Rightarrow> AuditEvent \<Rightarrow> string \<times> int \<times> int option" where
  "verify_step co st ev =
     (case st of (prevHash, n, tamperedAt) \<Rightarrow>
        (ev_EventHash ev, wrap64 (n + 1),
         if tamperedAt = None \<and> \<not> Verify co ev prevHash then Some (ev_ID ev) else tamperedAt))"

definition verify_events :: "codec \<Rightarrow> AuditEvent list \<Rightarrow> VerifyResult" where
  "verify_events co evs =
     (case foldl (verify_step co) (GenesisHash, 0, None) evs of
        (_, n, tamperedAt) \<Rightarrow>
          \<lparr> vr_Valid = (tamperedAt = None), vr_TotalEvents = n, vr_TamperedAt = tamperedAt,
            vr_Message = (if tamperedAt = None then ''chain integrity verified''
                          else ''chain integrity violation detected'') \<rparr>)"

text \<open>What the stream of rows does: it may not start, a row may not scan, or it may end in an error.\<close>

datatype stream = Streams | NoStream | ScanFails | RowsFail

definition VerifyChain ::
  "codec \<Rightarrow> (string \<Rightarrow> uuid option) \<Rightarrow> stream \<Rightarrow> audit_table \<Rightarrow> string \<Rightarrow> audit_body response" where
  "VerifyChain co parse rows t orgIDStr =
     (case parse orgIDStr of
        None \<Rightarrow> JsonError 400 ''MISSING_ORG'' ''X-Org-ID header must be a valid UUID''
      | Some orgID \<Rightarrow>
          (case rows of
             NoStream \<Rightarrow> JsonError 500 ''INTERNAL_ERROR'' ''failed to stream events''
           | ScanFails \<Rightarrow> JsonError 500 ''INTERNAL_ERROR'' ''scan error during verification''
           | RowsFail \<Rightarrow> JsonError 500 ''INTERNAL_ERROR'' ''rows error during verification''
           | Streams \<Rightarrow>
               let result = verify_events co (AllEventsForOrg t orgID)
               in JsonResponse (if vr_Valid result then 200 else 409) (BodyVerify result)))"

definition meta_entry :: "AuditEvent \<Rightarrow> MetaAuditEntry" where
  "meta_entry ev =
     \<lparr> me_EventID = ev_EventID ev, me_OccurredAt = ev_OccurredAt ev,
       me_ActorEmail = ev_ActorEmail ev, me_Action = ev_Action ev, me_EventType = ev_EventType ev,
       me_ResourceType = ev_ResourceType ev, me_ResourceID = ev_ResourceID ev,
       me_EventHash = ev_EventHash ev \<rparr>"

definition MetaAudit ::
  "(string \<Rightarrow> uuid option) \<Rightarrow> bool \<Rightarrow> audit_table \<Rightarrow> string \<Rightarrow> string \<Rightarrow> string \<Rightarrow> string \<Rightarrow>
   audit_body response" where
  "MetaAudit parse readable t engagementIDStr orgIDStr limitStr offsetStr =
     (case parse engagementIDStr of
        None \<Rightarrow> JsonError 400 ''INVALID_PARAM'' ''engagementId must be a valid UUID''
      | Some engagementID \<Rightarrow>
          (case parse orgIDStr of
             None \<Rightarrow> JsonError 400 ''MISSING_ORG'' ''X-Org-ID header must be a valid UUID''
           | Some orgID \<Rightarrow>
               (case audit_pagination limitStr offsetStr of (limit, offset) \<Rightarrow>
                  if \<not> readable
                  then JsonError 500 ''INTERNAL_ERROR'' ''meta audit query failed''
                  else let entries = map meta_entry (store_MetaAudit t orgID engagementID limit offset)
                       in JsonResponse 200 (BodyMeta engagementID entries (length entries)))))"

record query_params =
  qp_entity_id :: string
  qp_entity_type :: string
  qp_user_id :: string
  qp_start :: string
  qp_end :: string
  qp_limit :: string
  qp_offset :: string

definition QueryEvents ::
  "(string \<Rightarrow> uuid option) \<Rightarrow> (string \<Rightarrow> string + gotime) \<Rightarrow> gotime \<Rightarrow> bool \<Rightarrow> audit_table \<Rightarrow>
   string \<Rightarrow> query_params \<Rightarrow> audit_body response" where
  "QueryEvents parse parse_time now readable t orgIDStr q =
     (case parse orgIDStr of
        None \<Rightarrow> JsonError 400 ''MISSING_ORG'' ''X-Org-ID header must be a valid UUID''
      | Some orgID \<Rightarrow>
          (case audit_pagination (qp_limit q) (qp_offset q) of (limit, offset) \<Rightarrow>
             if qp_entity_id q \<noteq> '''' then
               (case parse (qp_entity_id q) of
                  None \<Rightarrow> JsonError 400 ''INVALID_PARAM'' ''entity_id must be a valid UUID''
                | Some eid \<Rightarrow>
                    if qp_entity_type q = ''''
                    then JsonError 400 ''MISSING_PARAM''
                           ''entity_type is required when entity_id is set''
                    else if \<not> readable then JsonError 500 ''INTERNAL_ERROR'' ''query failed''
                    else let es = QueryByEntity t orgID (qp_entity_type q) eid limit offset
                         in JsonResponse 200 (BodyAuditEvents es (length es)))
             else if qp_user_id q \<noteq> '''' then
               (case parse (qp_user_id q) of
                  None \<Rightarrow> JsonError 400 ''INVALID_PARAM'' ''user_id must be a valid UUID''
                | Some actorID \<Rightarrow>
                    (case parseTimeRange parse_time now (qp_start q) (qp_end q) of
                       Inl msg \<Rightarrow> JsonError 400 ''INVALID_PARAM'' msg
                     | Inr (start, stop) \<Rightarrow>
                         if \<not> readable then JsonError 500 ''INTERNAL_ERROR'' ''query failed''
                         else let es = QueryByUser t orgID actorID start stop limit offset
                              in JsonResponse 200 (BodyAuditEvents es (length es))))
             else JsonError 400 ''MISSING_PARAM''
                    ''provide entity_id+entity_type or user_id+start+end''))"

section \<open>Lemmas\<close>

fun first_break :: "codec \<Rightarrow> string \<Rightarrow> AuditEvent list \<Rightarrow> int option" where
  "first_break co prev [] = None"
| "first_break co prev (ev # evs) =
     (if Verify co ev prev then first_break co (ev_EventHash ev) evs else Some (ev_ID ev))"

lemma first_break_None: "first_break co prev evs = None \<longleftrightarrow> verified_from co prev evs"
  by (induction co prev evs rule: first_break.induct) auto

lemma first_break_Some:
  "first_break co prev evs = Some i \<Longrightarrow>
   \<exists>xs ev ys. evs = xs @ ev # ys \<and> ev_ID ev = i \<and> verified_from co prev xs \<and>
     \<not> Verify co ev (head_hash prev xs)"
proof (induction co prev evs rule: first_break.induct)
  case (2 co prev ev evs)
  show ?case
  proof (cases "Verify co ev prev")
    case True
    with 2 obtain xs e ys where "evs = xs @ e # ys" "ev_ID e = i"
      "verified_from co (ev_EventHash ev) xs" "\<not> Verify co e (head_hash (ev_EventHash ev) xs)"
      by auto
    with True show ?thesis by (intro exI [of _ "ev # xs"] exI [of _ e] exI [of _ ys]) simp
  next
    case False
    with 2(2) show ?thesis by (intro exI [of _ "[]"] exI [of _ ev] exI [of _ evs]) simp
  qed
qed simp

lemma verify_loop:
  assumes "0 \<le> n" and "n + int (length evs) \<le> max_int64"
  shows "foldl (verify_step co) (prev, n, tam) evs =
     (head_hash prev evs, n + int (length evs),
      case tam of Some i \<Rightarrow> Some i | None \<Rightarrow> first_break co prev evs)"
  using assms
proof (induction evs arbitrary: prev n tam)
  case Nil
  then show ?case by (cases tam) auto
next
  case (Cons ev evs)
  have "wrap64 (n + 1) = n + 1"
    using Cons.prems by (intro wrap64_id) (simp_all add: min_int64_def)
  with Cons show ?case
    by (cases tam) (auto simp: verify_step_def)
qed

lemma verify_events_eq:
  assumes "int (length evs) \<le> max_int64"
  shows "verify_events co evs =
     \<lparr> vr_Valid = verified_from co GenesisHash evs, vr_TotalEvents = int (length evs),
       vr_TamperedAt = first_break co GenesisHash evs,
       vr_Message = (if verified_from co GenesisHash evs then ''chain integrity verified''
                     else ''chain integrity violation detected'') \<rparr>"
  using verify_loop [of 0 evs co GenesisHash None] assms
  by (simp add: verify_events_def first_break_None)

lemma AllEvents_length [simp]: "length (AllEventsForOrg t orgID) = length (of_org t orgID)"
  by (simp add: AllEventsForOrg_def)

lemma VerifyChain_status:
  assumes "parse orgIDStr = Some orgID" and "int (length (of_org t orgID)) \<le> max_int64"
  shows "resp_status (VerifyChain co parse Streams t orgIDStr) =
     (if verified_from co GenesisHash (AllEventsForOrg t orgID) then 200 else 409)"
  using assms verify_events_eq [of "AllEventsForOrg t orgID" co] by (simp add: VerifyChain_def Let_def)

lemma of_org_append [simp]: "of_org (t @ u) orgID = of_org t orgID @ of_org u orgID"
  by (simp add: of_org_def)

lemma AppendEvent_cases:
  assumes "AppendEvent co db rowid eventID now rd wr t body = (t', resp)"
  shows "(t' = t \<and> 400 \<le> resp_status resp) \<or>
     (\<exists>req h. body = Inr req \<and> validEventType (rq_EventType req) \<and>
        Compute co (GetLastHash t (rq_OrgID req)) req now = Some h \<and>
        t' = t @ [row_of db rowid eventID req h (GetLastHash t (rq_OrgID req)) now] \<and>
        resp = JsonResponse 201 (BodyAuditEvent
          (snd (Append db rowid eventID t req h (GetLastHash t (rq_OrgID req)) now))))"
proof (cases "append_prepare co now rd t body")
  case (Inl r)
  with assms show ?thesis
    by (auto simp: AppendEvent_def append_prepare_def validate_append_def Let_def
        split: sum.splits if_splits option.splits)
next
  case (Inr p)
  then obtain req h where p: "p = (req, GetLastHash t (rq_OrgID req), h)" and "body = Inr req"
    "validEventType (rq_EventType req)" "Compute co (GetLastHash t (rq_OrgID req)) req now = Some h"
    by (auto simp: append_prepare_def validate_append_def Let_def
        split: sum.splits if_splits option.splits)
  with Inr assms show ?thesis
    by (cases wr) (auto simp: AppendEvent_def append_finish_def Append_def Let_def)
qed

text \<open>
  A row never verifies: its type is not stored, and a valid type is not empty, so the text hashed
  for the request and the text hashed again for the row differ after the action.
\<close>

lemma validEventType_plain: "validEventType et \<Longrightarrow> \<exists>c s. et = c # s \<and> list_all plain_char et"
  by (auto simp: validEventType_def EventTypeUserAction_def EventTypeSystemAction_def
      EventTypeEvidenceChange_def EventTypeFindingChange_def EventTypeEngagementChange_def
      EventTypeAuthEvent_def plain_char_def)

definition appended_input :: "codec \<Rightarrow> string \<Rightarrow> AppendRequest \<Rightarrow> gotime \<Rightarrow> string" where
  "appended_input co prev req t =
     prev @ (case co_marshal co (request_fields co req t) of None \<Rightarrow> '''' | Some p \<Rightarrow> p)"

lemma row_not_verified:
  assumes "plain_strings co" and "validEventType (rq_EventType req)"
    and "Compute co prev req now = Some h"
    and "Verify co (ScanEvent (row_of db rowid eventID req h prev now)) prev'"
  shows "appended_input co prev req now \<noteq> hash_input co (ScanEvent (row_of db rowid eventID req h prev now)) \<and>
     co_sha256hex co (appended_input co prev req now) =
     co_sha256hex co (hash_input co (ScanEvent (row_of db rowid eventID req h prev now)))"
proof -
  let ?ev = "ScanEvent (row_of db rowid eventID req h prev now)"
  have ev: "ev_PreviousHash ?ev = prev" "ev_EventHash ?ev = h"
    by (simp_all add: ScanEvent_def row_of_def)
  then obtain p where p: "co_marshal co (event_fields co ?ev) = Some p"
    using assms(4) by (auto simp: Verify_iff)
  obtain q where q: "co_marshal co (request_fields co req now) = Some q" "h = co_sha256hex co (prev @ q)"
    using assms(3) by (auto simp: Compute_def split: option.splits)
  obtain c s where et: "rq_EventType req = c # s" "list_all plain_char (c # s)"
    using validEventType_plain [OF assms(2)] by auto
  then have "c \<noteq> CHR 0x22" by (auto simp: plain_char_def)
  moreover have "co_string co '''' = CHR 0x22 # '''' @ [CHR 0x22]"
    using assms(1) unfolding plain_strings_def by (metis list.pred_inject(1))
  moreover have "co_string co (c # s) = CHR 0x22 # (c # s) @ [CHR 0x22]"
    using assms(1) et(2) unfolding plain_strings_def by blast
  ultimately have "p \<noteq> q"
    using p q(1) et(1)
    by (auto simp: co_marshal_def event_fields_def request_fields_def ScanEvent_def row_of_def
        json_member_def split: option.splits)
  then show ?thesis
    using p q Verify_hash [OF assms(4)] ev
    by (simp add: appended_input_def hash_input_def canonical_text_def)
qed

lemma audit_pagination_range:
  "audit_pagination l o' = (limit, offset) \<Longrightarrow> 1 \<le> limit \<and> limit \<le> maxLimit \<and> 0 \<le> offset"
  by (auto simp: audit_pagination_def maxLimit_def defaultLimit_def split: option.splits if_splits)

section \<open>Properties\<close>

text \<open>
  C8. \<open>VerifyChain\<close> is exact: it answers 200 if every event of the organisation links to its
  predecessor from the genesis hash on, and otherwise 409 with the id of the first event that
  does not, the events before it forming a verified chain; it counts every event.
\<close>

theorem verify_chain_exact:
  assumes "parse orgIDStr = Some orgID" and "int (length (of_org t orgID)) \<le> max_int64"
  shows "\<exists>r. VerifyChain co parse Streams t orgIDStr =
       JsonResponse (if verified_from co GenesisHash (AllEventsForOrg t orgID) then 200 else 409)
         (BodyVerify r) \<and>
     vr_TotalEvents r = int (length (of_org t orgID)) \<and>
     vr_Valid r = verified_from co GenesisHash (AllEventsForOrg t orgID) \<and>
     (case vr_TamperedAt r of None \<Rightarrow> vr_Valid r
      | Some i \<Rightarrow> (\<exists>xs ev ys. AllEventsForOrg t orgID = xs @ ev # ys \<and> ev_ID ev = i \<and>
          verified_from co GenesisHash xs \<and> \<not> Verify co ev (head_hash GenesisHash xs)))"
proof -
  let ?evs = "AllEventsForOrg t orgID"
  from assms(2) have eq: "verify_events co ?evs = \<lparr> vr_Valid = verified_from co GenesisHash ?evs,
       vr_TotalEvents = int (length (of_org t orgID)),
       vr_TamperedAt = first_break co GenesisHash ?evs,
       vr_Message = (if verified_from co GenesisHash ?evs then ''chain integrity verified''
                     else ''chain integrity violation detected'') \<rparr>"
    using verify_events_eq [of ?evs co] by simp
  show ?thesis
    using assms(1) eq first_break_None [of co GenesisHash ?evs]
      first_break_Some [of co GenesisHash ?evs]
    by (simp add: VerifyChain_def Let_def split: option.split)
qed

text \<open>
  C10. The table is append-only: an append request adds at most one row, at the end and only
  with answer 201; every other answer is an error and leaves the table as it was. Other
  organisations' chains do not move.
\<close>

theorem audit_append_only:
  assumes "AppendEvent co db rowid eventID now rd wr t body = (t', resp)"
  shows "(t' = t \<and> 400 \<le> resp_status resp) \<or>
     (\<exists>req row. body = Inr req \<and> t' = t @ [row] \<and> resp_status resp = 201 \<and>
        ro_org_id row = rq_OrgID req \<and> ro_previous_hash row = GetLastHash t (rq_OrgID req) \<and>
        GetLastHash t' (rq_OrgID req) = ro_event_hash row \<and>
        (\<forall>ow. ow = rq_OrgID req \<or> AllEventsForOrg t' ow = AllEventsForOrg t ow))"
  using AppendEvent_cases [OF assms]
proof (elim disjE)
  assume "\<exists>req h. body = Inr req \<and> validEventType (rq_EventType req) \<and>
        Compute co (GetLastHash t (rq_OrgID req)) req now = Some h \<and>
        t' = t @ [row_of db rowid eventID req h (GetLastHash t (rq_OrgID req)) now] \<and>
        resp = JsonResponse 201 (BodyAuditEvent
          (snd (Append db rowid eventID t req h (GetLastHash t (rq_OrgID req)) now)))"
  then obtain req h where "body = Inr req"
    "t' = t @ [row_of db rowid eventID req h (GetLastHash t (rq_OrgID req)) now]"
    "resp_status resp = 201"
    by auto
  then show ?thesis
    by (intro disjI2 exI [of _ req]
        exI [of _ "row_of db rowid eventID req h (GetLastHash t (rq_OrgID req)) now"])
      (auto simp: row_of_def GetLastHash_def AllEventsForOrg_def of_org_def)
qed simp

text \<open>
  What the append answers is a correct link: the returned event verifies against the hash
  the chain ended in, when the database keeps the instant to the nanosecond.
\<close>

theorem audit_append_links:
  assumes "AppendEvent co db rowid eventID now rd wr t (Inr req) = (t', JsonResponse 201 (BodyAuditEvent ev))"
    and "pg_timestamptz db now = now"
  shows "Verify co ev (GetLastHash t (rq_OrgID req)) \<and>
     GetLastHash t' (rq_OrgID req) = ev_EventHash ev"
proof -
  obtain h where h: "Compute co (GetLastHash t (rq_OrgID req)) req now = Some h"
    and t': "t' = t @ [row_of db rowid eventID req h (GetLastHash t (rq_OrgID req)) now]"
    and ev': "ev = snd (Append db rowid eventID t req h (GetLastHash t (rq_OrgID req)) now)"
    using AppendEvent_cases [OF assms(1)] by auto
  have ev: "ev_PreviousHash ev = GetLastHash t (rq_OrgID req)" "ev_EventHash ev = h"
    "event_fields co ev = request_fields co req now"
    by (simp_all add: ev' Append_def event_fields_def request_fields_def row_of_def assms(2) Let_def)
  have "Verify co ev (GetLastHash t (rq_OrgID req))"
    by (rule Compute_Verify [OF h ev(3,1,2)])
  with t' ev show ?thesis by (simp add: GetLastHash_def of_org_def row_of_def)
qed

text \<open>
  C9. No chain with an event appended through the service verifies: the event's type is hashed
  but not stored, so after a successful append \<open>VerifyChain\<close> answers 409 for the organisation.
  The one escape is that two given texts collide: the one hashed for the request, which has its
  type, and the one hashed again for the row, which has none.
\<close>

theorem appended_event_breaks_verification:
  assumes "plain_strings co" and "AppendEvent co db rowid eventID now rd wr t (Inr req) = (t', resp)"
    and "resp_status resp = 201" and "parse orgIDStr = Some (rq_OrgID req)"
    and "int (length (of_org t' (rq_OrgID req))) \<le> max_int64"
  shows "resp_status (VerifyChain co parse Streams t' orgIDStr) = 409 \<or>
     (\<exists>a b. a = appended_input co (GetLastHash t (rq_OrgID req)) req now \<and>
        b = hash_input co (last (AllEventsForOrg t' (rq_OrgID req))) \<and>
        a \<noteq> b \<and> co_sha256hex co a = co_sha256hex co b)"
proof -
  let ?prev = "GetLastHash t (rq_OrgID req)"
  obtain h where valid: "validEventType (rq_EventType req)" and h: "Compute co ?prev req now = Some h"
    and t': "t' = t @ [row_of db rowid eventID req h ?prev now]"
    using AppendEvent_cases [OF assms(2)] assms(3) by auto
  have all: "AllEventsForOrg t' (rq_OrgID req) =
      AllEventsForOrg t (rq_OrgID req) @ [ScanEvent (row_of db rowid eventID req h ?prev now)]"
    by (simp add: t' AllEventsForOrg_def of_org_def row_of_def)
  show ?thesis
  proof (cases "verified_from co GenesisHash (AllEventsForOrg t' (rq_OrgID req))")
    case True
    with all have "Verify co (ScanEvent (row_of db rowid eventID req h ?prev now))
        (head_hash GenesisHash (AllEventsForOrg t (rq_OrgID req)))"
      by (simp add: verified_from_append)
    from row_not_verified [OF assms(1) valid h this] all show ?thesis by simp
  next
    case False
    with VerifyChain_status [of parse orgIDStr "rq_OrgID req" t' co, OF assms(4,5)] show ?thesis
      by simp
  qed
qed

text \<open>
  Queries stay within the caller's organisation and the page limit: whatever the
  parameters, a 200 answer of \<open>QueryEvents\<close> holds at most 1000 events, all of the organisation
  in the header, and its count is their number.
\<close>

theorem audit_queries_scoped:
  assumes "QueryEvents parse parse_time now rd t orgIDStr q = JsonResponse 200 (BodyAuditEvents es n)"
  shows "n = length es \<and> n \<le> 1000 \<and> list_all (\<lambda>ev. parse orgIDStr = Some (ev_OrgID ev)) es"
proof -
  obtain orgID limit offset P where org: "parse orgIDStr = Some orgID"
    and pag: "audit_pagination (qp_limit q) (qp_offset q) = (limit, offset)"
    and es: "es = map ScanEvent (page limit offset (filter P (of_org t orgID)))" "n = length es"
    using assms
    by (auto simp: QueryEvents_def QueryByEntity_def QueryByUser_def Let_def
        split: option.splits prod.splits if_splits sum.splits)
  have "set (page limit offset (filter P (of_org t orgID))) \<subseteq> set (of_org t orgID)"
    using page_set [of limit offset "filter P (of_org t orgID)"] by auto
  then have "list_all (\<lambda>ev. ev_OrgID ev = orgID) es"
    by (auto simp: es list_all_iff ScanEvent_def of_org_def)
  moreover have "int n \<le> 1000"
    using page_length [of limit offset "filter P (of_org t orgID)"] audit_pagination_range [OF pag] es
    by (simp add: maxLimit_def)
  ultimately show ?thesis using org es by (auto simp: list_all_iff)
qed

text \<open>
  C11. Two first appends of an organisation that interleave fork its chain: both read the
  genesis hash before either inserts, both are answered 201, and both rows name the same
  predecessor, so the chain does not link whatever is stored of the types. The comment on
  \<open>Append\<close> says concurrent appends do not create forks.
\<close>

theorem concurrent_appends_fork:
  assumes "digest_ok co" and "of_org t (rq_OrgID req1) = []" and "rq_OrgID req2 = rq_OrgID req1"
    and "append_prepare co now1 True t (Inr req1) = Inr (req1, p1, h1)"
    and "append_prepare co now2 True t (Inr req2) = Inr (req2, p2, h2)"
    and "append_finish db id1 e1 now1 True t req1 p1 h1 = (t1, a1)"
    and "append_finish db id2 e2 now2 True t1 req2 p2 h2 = (t2, a2)"
  shows "resp_status a1 = 201 \<and> resp_status a2 = 201 \<and>
     (\<exists>r1 r2. of_org t2 (rq_OrgID req1) = [r1, r2] \<and> ro_previous_hash r1 = GenesisHash \<and>
        ro_previous_hash r2 = GenesisHash \<and> ro_event_hash r1 \<noteq> ro_previous_hash r2)"
proof -
  have p: "p1 = GenesisHash" "p2 = GenesisHash"
    using assms(2-5) by (auto simp: append_prepare_def validate_append_def Let_def GetLastHash_def
        GenesisHash_def split: if_splits option.splits)
  have "Compute co p1 req1 now1 = Some h1"
    using assms(4) by (auto simp: append_prepare_def validate_append_def Let_def
        split: if_splits option.splits)
  then have "h1 \<noteq> GenesisHash"
    using assms(1) by (auto simp: Compute_def digest_ok_def GenesisHash_def split: option.splits)
  then show ?thesis
    using assms(2,3,6,7) p by (auto simp: append_finish_def Append_def Let_def of_org_def row_of_def)
qed

section \<open>Witnesses\<close>

definition ex_pg :: pg where
  "ex_pg = \<lparr> pg_timestamptz = (\<lambda>t. t div 1000 * 1000), pg_jsonb = (\<lambda>m. m), pg_inet = (\<lambda>s. s) \<rparr>"

definition ex_append :: AppendRequest where
  "ex_append = \<lparr> rq_OrgID = 1, rq_ActorID = None, rq_ActorEmail = '''', rq_Action = ''a'',
     rq_EventType = EventTypeAuthEvent, rq_ResourceType = ''r'', rq_ResourceID = None,
     rq_EngagementID = None, rq_Changes = None, rq_Context = None, rq_IPAddress = '''',
     rq_UserAgent = '''' \<rparr>"

definition ex_org :: "string \<Rightarrow> uuid option" where
  "ex_org s = (if s = ''1'' then Some 1 else None)"

definition ex_after :: "audit_table \<times> audit_body response" where
  "ex_after = AppendEvent ex_codec ex_pg 1 2 5000 True True [] (Inr ex_append)"

lemma ex_after_eval:
  "\<exists>h. Compute ex_codec '''' ex_append 5000 = Some h \<and>
     ex_after = ([row_of ex_pg 1 2 ex_append h '''' 5000],
       JsonResponse 201 (BodyAuditEvent (snd (Append ex_pg 1 2 [] ex_append h '''' 5000))))"
  by (simp add: ex_after_def AppendEvent_def append_prepare_def validate_append_def ex_append_def
      uuid_Nil_def validEventType_def Let_def GetLastHash_def of_org_def Compute_def ex_codec_def
      co_marshal_def request_fields_def append_finish_def Append_def)

theorem verify_chain_exact_witness:
  "\<exists>r. VerifyChain ex_codec ex_org Streams [] ''1'' =
     JsonResponse (if verified_from ex_codec GenesisHash (AllEventsForOrg [] 1) then 200 else 409)
       (BodyVerify r)"
  using verify_chain_exact [of ex_org "''1''" 1 "[]" ex_codec]
  by (auto simp: ex_org_def of_org_def max_int64_def)

lemma ex_append_org [simp]: "rq_OrgID ex_append = 1"
  by (simp add: ex_append_def)

lemma ex_after_split:
  "\<exists>r e. ex_after = ([r], JsonResponse 201 (BodyAuditEvent e)) \<and>
     AppendEvent ex_codec ex_pg 1 2 5000 True True [] (Inr ex_append) =
       ([r], JsonResponse 201 (BodyAuditEvent e)) \<and> ro_org_id r = 1"
  using ex_after_eval ex_append_org by (auto simp: ex_after_def row_of_def)

theorem audit_append_only_witness:
  "\<exists>row e. ex_after = ([row], JsonResponse 201 (BodyAuditEvent e)) \<and>
     GetLastHash [row] 1 = ro_event_hash row"
proof -
  obtain r e where ex: "ex_after = ([r], JsonResponse 201 (BodyAuditEvent e))" and
    run: "AppendEvent ex_codec ex_pg 1 2 5000 True True [] (Inr ex_append) =
       ([r], JsonResponse 201 (BodyAuditEvent e))"
    using ex_after_split by blast
  have "GetLastHash [r] 1 = ro_event_hash r" using audit_append_only [OF run] by auto
  with ex show ?thesis by blast
qed

theorem audit_append_links_witness:
  "\<exists>t' ev. ex_after = (t', JsonResponse 201 (BodyAuditEvent ev)) \<and>
     Verify ex_codec ev (GetLastHash [] 1) \<and> GetLastHash t' 1 = ev_EventHash ev"
proof -
  obtain r e where ex: "ex_after = ([r], JsonResponse 201 (BodyAuditEvent e))" and
    run: "AppendEvent ex_codec ex_pg 1 2 5000 True True [] (Inr ex_append) =
       ([r], JsonResponse 201 (BodyAuditEvent e))"
    using ex_after_split by blast
  have "pg_timestamptz ex_pg 5000 = 5000" by (simp add: ex_pg_def)
  from audit_append_links [OF run this] ex show ?thesis by auto
qed

lemma ex_after_input:
  "\<exists>r e. ex_after = ([r], JsonResponse 201 (BodyAuditEvent e)) \<and>
     AllEventsForOrg [r] 1 = [ScanEvent r] \<and>
     co_sha256hex ex_codec (appended_input ex_codec '''' ex_append 5000) \<noteq>
     co_sha256hex ex_codec (hash_input ex_codec (ScanEvent r))"
proof -
  obtain h e where h: "ex_after = ([row_of ex_pg 1 2 ex_append h '''' 5000], JsonResponse 201 (BodyAuditEvent e))"
    using ex_after_eval by blast
  have "appended_input ex_codec '''' ex_append 5000 \<noteq>
      hash_input ex_codec (ScanEvent (row_of ex_pg 1 2 ex_append h '''' 5000))"
    by (simp add: row_of_def ScanEvent_def appended_input_def hash_input_def canonical_text_def
        event_fields_def request_fields_def uuid_text_def co_marshal_def ex_codec_def ex_append_def
        ex_pg_def EventTypeAuthEvent_def json_member_def)
  then have "co_sha256hex ex_codec (appended_input ex_codec '''' ex_append 5000) \<noteq>
      co_sha256hex ex_codec (hash_input ex_codec (ScanEvent (row_of ex_pg 1 2 ex_append h '''' 5000)))"
    by (simp add: ex_codec_def ex_concat_inj)
  moreover have "AllEventsForOrg [row_of ex_pg 1 2 ex_append h '''' 5000] 1 =
      [ScanEvent (row_of ex_pg 1 2 ex_append h '''' 5000)]"
    by (simp add: AllEventsForOrg_def of_org_def row_of_def)
  ultimately show ?thesis using h by blast
qed

text \<open>With the example's digest nothing collides, and the chain of one event answers 409.\<close>

theorem appended_event_breaks_verification_witness:
  "resp_status (VerifyChain ex_codec ex_org Streams (fst ex_after) ''1'') = 409"
proof -
  obtain r e where ex: "ex_after = ([r], JsonResponse 201 (BodyAuditEvent e))"
    and row: "AllEventsForOrg [r] 1 = [ScanEvent r]"
    and digests: "co_sha256hex ex_codec (appended_input ex_codec '''' ex_append 5000) \<noteq>
      co_sha256hex ex_codec (hash_input ex_codec (ScanEvent r))"
    using ex_after_input by blast
  have run: "AppendEvent ex_codec ex_pg 1 2 5000 True True [] (Inr ex_append) =
      ([r], JsonResponse 201 (BodyAuditEvent e))" using ex by (simp add: ex_after_def)
  have "length (of_org [r] (rq_OrgID ex_append)) = 1"
    using arg_cong [OF row, of length] by simp
  then have len: "int (length (of_org [r] (rq_OrgID ex_append))) \<le> max_int64"
    by (simp add: max_int64_def)
  have "ex_org ''1'' = Some (rq_OrgID ex_append)" by (simp add: ex_org_def)
  from appended_event_breaks_verification [of ex_codec ex_pg 1 2 5000 True True "[]" ex_append "[r]" _ ex_org "''1''",
      OF ex_codec_ok(1) run response.sel(2) this len] row digests
  show ?thesis by (simp add: ex GetLastHash_def of_org_def)
qed

definition ex_query :: query_params where
  "ex_query = \<lparr> qp_entity_id = ''1'', qp_entity_type = ''r'', qp_user_id = '''', qp_start = '''',
     qp_end = '''', qp_limit = '''', qp_offset = '''' \<rparr>"

definition ex_row :: audit_row where
  "ex_row = row_of ex_pg 7 2 (ex_append\<lparr> rq_ResourceID := Some 1 \<rparr>) ''h'' '''' 5000"

theorem audit_queries_scoped_witness:
  "QueryEvents ex_org (\<lambda>_. Inl ''bad'') 0 True [ex_row] ''1'' ex_query =
     JsonResponse 200 (BodyAuditEvents [ScanEvent ex_row] 1) \<and>
   ev_OrgID (ScanEvent ex_row) = 1"
proof -
  have "QueryEvents ex_org (\<lambda>_. Inl ''bad'') 0 True [ex_row] ''1'' ex_query =
      JsonResponse 200 (BodyAuditEvents [ScanEvent ex_row] 1)"
    by (simp add: QueryEvents_def ex_org_def ex_query_def QueryByEntity_def page_def of_org_def
        audit_pagination_def Atoi_def ex_row_def row_of_def ex_append_def defaultLimit_def)
  with audit_queries_scoped [OF this] show ?thesis by (simp add: ex_org_def)
qed

theorem concurrent_appends_fork_witness:
  "\<exists>h t1 a1 t2 a2. append_finish ex_pg 1 2 5000 True [] ex_append GenesisHash h = (t1, a1) \<and>
     append_finish ex_pg 2 3 6000 True t1 ex_append GenesisHash h = (t2, a2) \<and>
     (\<exists>r1 r2. of_org t2 (rq_OrgID ex_append) = [r1, r2] \<and>
        ro_event_hash r1 \<noteq> ro_previous_hash r2)"
proof -
  obtain h where prep: "append_prepare ex_codec 5000 True [] (Inr ex_append) = Inr (ex_append, GenesisHash, h)"
    "append_prepare ex_codec 6000 True [] (Inr ex_append) = Inr (ex_append, GenesisHash, h)"
    by (simp add: append_prepare_def validate_append_def ex_append_def uuid_Nil_def
        validEventType_def Let_def GetLastHash_def of_org_def Compute_def ex_codec_def
        co_marshal_def request_fields_def GenesisHash_def)
  obtain t1 a1 where 1: "append_finish ex_pg 1 2 5000 True [] ex_append GenesisHash h = (t1, a1)"
    by fastforce
  obtain t2 a2 where 2: "append_finish ex_pg 2 3 6000 True t1 ex_append GenesisHash h = (t2, a2)"
    by fastforce
  have "of_org [] (rq_OrgID ex_append) = []" by (simp add: of_org_def)
  from concurrent_appends_fork [OF ex_codec_ok(2) this refl prep 1 2] 1 2 show ?thesis by blast
qed

end
