(* ===== verification/Rbac.thy ===== *)
theory Rbac
  imports Prelude
begin

text \<open>
  The role-based access matrix, twice: the identity service's
  (services/identity/pkg/rbac/rbac.go, over the personas of
  services/identity/internal/models) and the gateway's copy
  (services/gateway/internal/middleware/auth.go). Personas, resources and actions are Go
  strings in both, so the functions are defined on every string, known or not.
\<close>

section \<open>The identity service's matrix\<close>

definition PersonaInternalAuditor :: string where "PersonaInternalAuditor = ''internal_auditor''"
definition PersonaCAE :: string where "PersonaCAE = ''cae''"
definition PersonaAuditCommittee :: string where "PersonaAuditCommittee = ''audit_committee''"
definition PersonaAuditeeCISO :: string where "PersonaAuditeeCISO = ''auditee_ciso''"
definition PersonaCosourcedProvider :: string where "PersonaCosourcedProvider = ''cosourced_provider''"
definition PersonaPTWGMember :: string where "PersonaPTWGMember = ''ptwg_member''"
definition PersonaBetaTester :: string where "PersonaBetaTester = ''beta_tester''"

definition AllPersonas :: "string list" where
  "AllPersonas = [PersonaInternalAuditor, PersonaCAE, PersonaAuditCommittee, PersonaAuditeeCISO,
     PersonaCosourcedProvider, PersonaPTWGMember, PersonaBetaTester]"

definition ValidPersona :: "string \<Rightarrow> bool" where
  "ValidPersona p = list_ex (\<lambda>v. v = p) AllPersonas"

definition ActionRead :: string where "ActionRead = ''read''"
definition ActionWrite :: string where "ActionWrite = ''write''"
definition ActionDelete :: string where "ActionDelete = ''delete''"
definition ActionManage :: string where "ActionManage = ''manage''"

definition ResourceEngagement :: string where "ResourceEngagement = ''engagement''"
definition ResourceFinding :: string where "ResourceFinding = ''finding''"
definition ResourceControl :: string where "ResourceControl = ''control''"
definition ResourceEvidence :: string where "ResourceEvidence = ''evidence''"
definition ResourceReport :: string where "ResourceReport = ''report''"
definition ResourceUser :: string where "ResourceUser = ''user''"
definition ResourceOrg :: string where "ResourceOrg = ''org''"
definition ResourceAuditTrail :: string where "ResourceAuditTrail = ''audit_trail''"
definition ResourceWorkPaper :: string where "ResourceWorkPaper = ''work_paper''"
definition ResourceDashboard :: string where "ResourceDashboard = ''dashboard''"

record Permission =
  pm_Resource :: string
  pm_Action :: string

definition perm :: "string \<Rightarrow> string \<Rightarrow> Permission" where
  "perm r a = \<lparr> pm_Resource = r, pm_Action = a \<rparr>"

definition personaPermissions :: "(string \<times> Permission list) list" where
  "personaPermissions =
    [(PersonaInternalAuditor,
       [perm ResourceEngagement ActionRead, perm ResourceEngagement ActionWrite,
        perm ResourceFinding ActionRead, perm ResourceFinding ActionWrite,
        perm ResourceControl ActionRead,
        perm ResourceEvidence ActionRead, perm ResourceEvidence ActionWrite,
        perm ResourceWorkPaper ActionRead, perm ResourceWorkPaper ActionWrite,
        perm ResourceReport ActionRead,
        perm ResourceDashboard ActionRead,
        perm ResourceAuditTrail ActionRead]),
     (PersonaCAE,
       [perm ResourceEngagement ActionManage, perm ResourceFinding ActionManage,
        perm ResourceControl ActionManage, perm ResourceEvidence ActionManage,
        perm ResourceWorkPaper ActionManage, perm ResourceReport ActionManage,
        perm ResourceDashboard ActionManage, perm ResourceAuditTrail ActionRead,
        perm ResourceUser ActionManage,
        perm ResourceOrg ActionRead, perm ResourceOrg ActionWrite]),
     (PersonaAuditCommittee,
       [perm ResourceReport ActionRead, perm ResourceDashboard ActionRead,
        perm ResourceFinding ActionRead, perm ResourceEngagement ActionRead]),
     (PersonaAuditeeCISO,
       [perm ResourceFinding ActionRead, perm ResourceFinding ActionWrite,
        perm ResourceEngagement ActionRead, perm ResourceControl ActionRead,
        perm ResourceEvidence ActionRead, perm ResourceEvidence ActionWrite,
        perm ResourceDashboard ActionRead]),
     (PersonaCosourcedProvider,
       [perm ResourceEngagement ActionRead,
        perm ResourceFinding ActionRead, perm ResourceFinding ActionWrite,
        perm ResourceEvidence ActionRead, perm ResourceEvidence ActionWrite,
        perm ResourceWorkPaper ActionRead, perm ResourceWorkPaper ActionWrite]),
     (PersonaPTWGMember,
       [perm ResourceWorkPaper ActionRead, perm ResourceWorkPaper ActionWrite,
        perm ResourceControl ActionRead, perm ResourceFinding ActionRead,
        perm ResourceReport ActionRead]),
     (PersonaBetaTester,
       [perm ResourceEngagement ActionRead, perm ResourceFinding ActionRead,
        perm ResourceControl ActionRead, perm ResourceEvidence ActionRead,
        perm ResourceReport ActionRead, perm ResourceDashboard ActionRead,
        perm ResourceWorkPaper ActionRead])]"

definition Can :: "string \<Rightarrow> string \<Rightarrow> string \<Rightarrow> bool" where
  "Can persona resource action =
     (case map_of personaPermissions persona of
        None \<Rightarrow> False
      | Some perms \<Rightarrow>
          list_ex (\<lambda>p. pm_Resource p = resource \<and>
                       (pm_Action p = action \<or> pm_Action p = ActionManage)) perms)"

definition Permissions :: "string \<Rightarrow> Permission list" where
  "Permissions persona = (case map_of personaPermissions persona of None \<Rightarrow> [] | Some ps \<Rightarrow> ps)"

section \<open>The gateway's copy\<close>

definition gw_personaPermissions :: "(string \<times> (string \<times> string) list) list" where
  "gw_personaPermissions =
    [(''internal_auditor'',
       [(''engagement'', ''read''), (''engagement'', ''write''),
        (''finding'', ''read''), (''finding'', ''write''),
        (''control'', ''read''),
        (''evidence'', ''read''), (''evidence'', ''write''),
        (''work_paper'', ''read''), (''work_paper'', ''write''),
        (''report'', ''read''),
        (''dashboard'', ''read''),
        (''audit_trail'', ''read'')]),
     (''cae'',
       [(''engagement'', ''manage''), (''finding'', ''manage''),
        (''control'', ''manage''), (''evidence'', ''manage''),
        (''work_paper'', ''manage''), (''report'', ''manage''),
        (''dashboard'', ''manage''), (''audit_trail'', ''read''),
        (''user'', ''manage''), (''org'', ''read''), (''org'', ''write'')]),
     (''audit_committee'',
       [(''report'', ''read''), (''dashboard'', ''read''),
        (''finding'', ''read''), (''engagement'', ''read'')]),
     (''auditee_ciso'',
       [(''finding'', ''read''), (''finding'', ''write''),
        (''engagement'', ''read''), (''control'', ''read''),
        (''evidence'', ''read''), (''evidence'', ''write''),
        (''dashboard'', ''read'')]),
     (''cosourced_provider'',
       [(''engagement'', ''read''),
        (''finding'', ''read''), (''finding'', ''write''),
        (''evidence'', ''read''), (''evidence'', ''write''),
        (''work_paper'', ''read''), (''work_paper'', ''write'')]),
     (''ptwg_member'',
       [(''work_paper'', ''read''), (''work_paper'', ''write''),
        (''control'', ''read''), (''finding'', ''read''), (''report'', ''read'')]),
     (''beta_tester'',
       [(''engagement'', ''read''), (''finding'', ''read''), (''control'', ''read''),
        (''evidence'', ''read''), (''report'', ''read''),
        (''dashboard'', ''read''), (''work_paper'', ''read'')])]"

definition gw_Can :: "string \<Rightarrow> string \<Rightarrow> string \<Rightarrow> bool" where
  "gw_Can persona resource action =
     (case map_of gw_personaPermissions persona of
        None \<Rightarrow> False
      | Some perms \<Rightarrow>
          list_ex (\<lambda>(r, a). r = resource \<and> (a = action \<or> a = ''manage'')) perms)"

section \<open>Lemmas\<close>

lemmas rbac_names =
  PersonaInternalAuditor_def PersonaCAE_def PersonaAuditCommittee_def PersonaAuditeeCISO_def
  PersonaCosourcedProvider_def PersonaPTWGMember_def PersonaBetaTester_def
  ActionRead_def ActionWrite_def ActionDelete_def ActionManage_def
  ResourceEngagement_def ResourceFinding_def ResourceControl_def ResourceEvidence_def
  ResourceReport_def ResourceUser_def ResourceOrg_def ResourceAuditTrail_def
  ResourceWorkPaper_def ResourceDashboard_def

lemma gw_matrix_is_identity_matrix:
  "gw_personaPermissions =
     map (\<lambda>(p, ps). (p, map (\<lambda>q. (pm_Resource q, pm_Action q)) ps)) personaPermissions"
  by (simp add: gw_personaPermissions_def personaPermissions_def rbac_names perm_def)

lemma gw_Can_iff_Can: "gw_Can persona resource action = Can persona resource action"
proof -
  have "map_of gw_personaPermissions persona =
     map_option (map (\<lambda>q. (pm_Resource q, pm_Action q))) (map_of personaPermissions persona)"
    by (simp add: gw_matrix_is_identity_matrix map_of_map)
  then show ?thesis
    by (simp add: gw_Can_def Can_def list_ex_iff ActionManage_def split: option.split)
qed

lemma matrix_personas: "map fst personaPermissions = AllPersonas"
  by (simp add: personaPermissions_def AllPersonas_def)

lemma Can_iff:
  "Can persona resource action \<longleftrightarrow>
     (\<exists>p \<in> set (Permissions persona). pm_Resource p = resource \<and>
        (pm_Action p = action \<or> pm_Action p = ActionManage))"
  by (auto simp: Can_def Permissions_def list_ex_iff split: option.split)

lemma ValidPersona_iff: "ValidPersona p \<longleftrightarrow> map_of personaPermissions p \<noteq> None"
proof -
  have "ValidPersona p \<longleftrightarrow> p \<in> set (map fst personaPermissions)"
    unfolding matrix_personas by (auto simp: ValidPersona_def list_ex_iff)
  then show ?thesis by (simp add: map_of_eq_None_iff)
qed

lemma Can_perms:
  "map_of personaPermissions p = Some ps \<Longrightarrow>
   Can p r a = list_ex (\<lambda>q. pm_Resource q = r \<and> (pm_Action q = a \<or> pm_Action q = ActionManage)) ps"
  by (simp add: Can_def)

lemma Can_unknown: "p \<notin> set AllPersonas \<Longrightarrow> \<not> Can p r a"
  using ValidPersona_iff [of p] by (auto simp: Can_def ValidPersona_def list_ex_iff split: option.splits)

lemma Can_CAE:
  "Can PersonaCAE r a \<longleftrightarrow>
     r \<in> {''engagement'', ''finding'', ''control'', ''evidence'', ''work_paper'', ''report'',
          ''dashboard'', ''user''} \<or>
     (r = ''audit_trail'' \<and> a = ''read'') \<or> (r = ''org'' \<and> a \<in> {''read'', ''write''})"
  by (auto simp: Can_def personaPermissions_def rbac_names perm_def)

lemma Can_internal_auditor:
  "Can PersonaInternalAuditor r a \<longleftrightarrow>
     (a = ''read'' \<and> r \<in> {''engagement'', ''finding'', ''control'', ''evidence'', ''work_paper'',
                           ''report'', ''dashboard'', ''audit_trail''}) \<or>
     (a = ''write'' \<and> r \<in> {''engagement'', ''finding'', ''evidence'', ''work_paper''})"
  by (auto simp: Can_def personaPermissions_def rbac_names perm_def)

lemma Can_audit_committee:
  "Can PersonaAuditCommittee r a \<longleftrightarrow>
     a = ''read'' \<and> r \<in> {''report'', ''dashboard'', ''finding'', ''engagement''}"
  by (auto simp: Can_def personaPermissions_def rbac_names perm_def)

lemma Can_auditee_ciso:
  "Can PersonaAuditeeCISO r a \<longleftrightarrow>
     (a = ''read'' \<and> r \<in> {''finding'', ''engagement'', ''control'', ''evidence'', ''dashboard''}) \<or>
     (a = ''write'' \<and> r \<in> {''finding'', ''evidence''})"
  by (auto simp: Can_def personaPermissions_def rbac_names perm_def)

lemma Can_cosourced:
  "Can PersonaCosourcedProvider r a \<longleftrightarrow>
     (a = ''read'' \<and> r \<in> {''engagement'', ''finding'', ''evidence'', ''work_paper''}) \<or>
     (a = ''write'' \<and> r \<in> {''finding'', ''evidence'', ''work_paper''})"
  by (auto simp: Can_def personaPermissions_def rbac_names perm_def)

lemma Can_ptwg:
  "Can PersonaPTWGMember r a \<longleftrightarrow>
     (a = ''read'' \<and> r \<in> {''work_paper'', ''control'', ''finding'', ''report''}) \<or>
     (a = ''write'' \<and> r = ''work_paper'')"
  by (auto simp: Can_def personaPermissions_def rbac_names perm_def)

lemma Can_beta_tester:
  "Can PersonaBetaTester r a \<longleftrightarrow>
     a = ''read'' \<and> r \<in> {''engagement'', ''finding'', ''control'', ''evidence'', ''report'',
                          ''dashboard'', ''work_paper''}"
  by (auto simp: Can_def personaPermissions_def rbac_names perm_def)

lemmas Can_personas = Can_CAE Can_internal_auditor Can_audit_committee Can_auditee_ciso
  Can_cosourced Can_ptwg Can_beta_tester

lemma Can_persona_cases:
  assumes "Can p r a"
  shows "p = PersonaInternalAuditor \<or> p = PersonaCAE \<or> p = PersonaAuditCommittee \<or>
    p = PersonaAuditeeCISO \<or> p = PersonaCosourcedProvider \<or> p = PersonaPTWGMember \<or>
    p = PersonaBetaTester"
  using assms Can_unknown [of p r a] unfolding AllPersonas_def by auto

lemma Can_delete: "Can p r ''delete'' \<Longrightarrow> p = PersonaCAE"
  by (frule Can_persona_cases, elim disjE) (simp_all add: Can_personas)

lemma Can_user: "Can p ''user'' a \<Longrightarrow> p = PersonaCAE"
  by (frule Can_persona_cases, elim disjE) (simp_all add: Can_personas)

lemma Can_write_read: "Can p r ''write'' \<Longrightarrow> Can p r ''read''"
  by (frule Can_persona_cases, elim disjE) (auto simp: Can_personas)

lemma Can_manage_all: "Can p r ''manage'' \<Longrightarrow> Can p r a"
  by (auto simp: Can_iff ActionManage_def)

section \<open>Properties\<close>

text \<open>
  The gateway enforces exactly the identity service's matrix, on every persona, resource
  and action string; a persona outside the seven may do nothing in either.
\<close>

theorem rbac_matrices_agree:
  "gw_Can persona resource action = Can persona resource action \<and>
   (gw_Can persona resource action = (ValidPersona persona \<and> gw_Can persona resource action))"
  using gw_Can_iff_Can [of persona resource action] Can_unknown [of persona resource action]
  by (auto simp: ValidPersona_def list_ex_iff)

text \<open>
  Separation of duties in the matrix: only the chief audit executive may delete anything or
  touch users; whoever may write a resource may read it; managing a resource is every action on
  it; the audit committee and beta testers write nothing; and the executive may do whatever an
  internal auditor may.
\<close>

theorem rbac_separation_of_duties:
  "Can p r ActionDelete = (p = PersonaCAE \<and> Can PersonaCAE r ActionDelete) \<and>
   Can p ResourceUser a = (p = PersonaCAE) \<and>
   Can p r ActionWrite = (Can p r ActionRead \<and> Can p r ActionWrite) \<and>
   Can p r ActionManage = (Can p r a \<and> Can p r ActionManage) \<and>
   \<not> Can PersonaAuditCommittee r ActionWrite \<and> \<not> Can PersonaBetaTester r ActionWrite \<and>
   Can PersonaInternalAuditor r a = (Can PersonaInternalAuditor r a \<and> Can PersonaCAE r a)"
proof (intro conjI)
  show "Can p r ActionDelete = (p = PersonaCAE \<and> Can PersonaCAE r ActionDelete)"
    using Can_delete [of p r] by (auto simp: ActionDelete_def)
  show "Can p ResourceUser a = (p = PersonaCAE)"
    using Can_user [of p a] Can_CAE [of "''user''" a] by (auto simp: ResourceUser_def)
  show "Can p r ActionWrite = (Can p r ActionRead \<and> Can p r ActionWrite)"
    using Can_write_read [of p r] by (auto simp: ActionWrite_def ActionRead_def)
  show "Can p r ActionManage = (Can p r a \<and> Can p r ActionManage)"
    using Can_manage_all [of p r a] by (auto simp: ActionManage_def)
  show "\<not> Can PersonaAuditCommittee r ActionWrite" "\<not> Can PersonaBetaTester r ActionWrite"
    by (simp_all add: Can_personas ActionWrite_def)
  show "Can PersonaInternalAuditor r a = (Can PersonaInternalAuditor r a \<and> Can PersonaCAE r a)"
    by (auto simp: Can_personas)
qed

end
