(* ===== verification/GatewayAuth.thy ===== *)
theory GatewayAuth
  imports GoText Rbac
begin

text \<open>
  Authentication and authorisation at the API gateway
  (services/gateway/internal/middleware/auth.go): the JWKS key cache, the two token
  verifiers, the \<open>Authenticate\<close> and \<open>RequirePermission\<close> middlewares.

  The JWT library is a parameter: \<open>jwt_header\<close> reads a token's header without verifying it,
  \<open>jwt_verify\<close> checks the token with a key and returns its claims and the \<open>Valid\<close> flag;
  \<open>ParseWithClaims\<close> calls the code's key function between the two. The JWKS endpoint's answer
  and the clock readings are the environment \<open>verify_env\<close> of a call. A middleware answers the
  request itself (\<open>Inl\<close>) or passes it on (\<open>Inr\<close>).
\<close>

section \<open>Requests and claims\<close>

record GatewayClaims =
  gc_OrgID :: string
  gc_Email :: string
  gc_DisplayName :: string
  gc_Persona :: string
  gc_OrgTier :: string

record http_request =
  rq_Method :: string
  rq_Path :: string
  rq_Authorization :: string
  rq_XForwardedFor :: string
  rq_XRealIP :: string
  rq_RemoteAddr :: string
  rq_claims :: "GatewayClaims option"

definition ClaimsFromContext :: "http_request \<Rightarrow> GatewayClaims option" where
  "ClaimsFromContext r = rq_claims r"

section \<open>Keys\<close>

record rsa_key =
  rk_N :: int
  rk_E :: int

record jwkKey =
  jk_Kty :: string
  jk_Kid :: string
  jk_Use :: string
  jk_N :: string
  jk_E :: string

definition big_endian :: "nat list \<Rightarrow> int" where
  "big_endian bs = foldl (\<lambda>n b. n * 256 + int b) 0 bs"

text \<open>The exponent is folded into a 64-bit \<open>int\<close>: the shift drops what leaves it.\<close>

definition exponent_of :: "nat list \<Rightarrow> int" where
  "exponent_of bs = foldl (\<lambda>n b. wrap64 (n * 256) + int b) 0 bs"

definition rsaFromJWK :: "string \<Rightarrow> string \<Rightarrow> rsa_key option" where
  "rsaFromJWK n e =
     (case b64_decode n of None \<Rightarrow> None
      | Some nBytes \<Rightarrow>
          (case b64_decode e of None \<Rightarrow> None
           | Some eBytes \<Rightarrow> Some \<lparr> rk_N = big_endian nBytes, rk_E = exponent_of eBytes \<rparr>))"

record JWKSVerifier =
  jv_cacheTTL :: duration
  jv_keys :: "(string \<times> rsa_key) list"
  jv_fetchedAt :: gotime

definition NewJWKSVerifier :: "duration \<Rightarrow> JWKSVerifier" where
  "NewJWKSVerifier ttl = \<lparr> jv_cacheTTL = ttl, jv_keys = [], jv_fetchedAt = zero_time \<rparr>"

record verify_env =
  ve_now :: gotime
  ve_fetched :: gotime
  ve_jwks :: "jwkKey list option"

datatype auth_error =
    ErrFetchJWKS
  | ErrKeyNotFound string
  | ErrKeyNotFoundAfterRefresh string
  | ErrSigningMethod
  | ErrToken
  | ErrInvalidClaims

text \<open>\<open>newKeys[k.Kid] = pub\<close>: a later key with the same id wins.\<close>

definition add_jwk :: "(string \<times> rsa_key) list \<Rightarrow> jwkKey \<Rightarrow> (string \<times> rsa_key) list" where
  "add_jwk ks k =
     (if jk_Kty k \<noteq> ''RSA'' then ks
      else case rsaFromJWK (jk_N k) (jk_E k) of
             None \<Rightarrow> ks | Some pub \<Rightarrow> (jk_Kid k, pub) # ks)"

text \<open>\<open>ve_jwks = None\<close>: the request, the read or the JSON parse of the endpoint failed.\<close>

definition fetchKeys :: "verify_env \<Rightarrow> JWKSVerifier \<Rightarrow> auth_error option \<times> JWKSVerifier" where
  "fetchKeys env j =
     (case ve_jwks env of
        None \<Rightarrow> (Some ErrFetchJWKS, j)
      | Some jwks \<Rightarrow>
          (None, j\<lparr> jv_keys := foldl add_jwk [] jwks, jv_fetchedAt := ve_fetched env \<rparr>))"

definition getKey :: "verify_env \<Rightarrow> string \<Rightarrow> JWKSVerifier \<Rightarrow> (auth_error + rsa_key) \<times> JWKSVerifier" where
  "getKey env kid j =
     (if time_Sub (ve_now env) (jv_fetchedAt j) < jv_cacheTTL j
      then (case map_of (jv_keys j) kid of
              Some k \<Rightarrow> Inr k | None \<Rightarrow> Inl (ErrKeyNotFound kid), j)
      else case fetchKeys env j of
        (Some e, j1) \<Rightarrow> (Inl e, j1)
      | (None, j1) \<Rightarrow>
          (case map_of (jv_keys j1) kid of
             Some k \<Rightarrow> Inr k
           | None \<Rightarrow> (case map_of (jv_keys j1) '''' of
                       Some k \<Rightarrow> Inr k | None \<Rightarrow> Inl (ErrKeyNotFoundAfterRefresh kid)), j1))"

section \<open>Token verifiers\<close>

record jwt_header =
  jh_rsa :: bool
  jh_kid :: string

type_synonym jwt_headers = "string \<Rightarrow> jwt_header option"

type_synonym jwt_checker = "string \<Rightarrow> rsa_key \<Rightarrow> (GatewayClaims \<times> bool) option"

definition finish_token :: "(GatewayClaims \<times> bool) option \<Rightarrow> auth_error + GatewayClaims" where
  "finish_token r =
     (case r of None \<Rightarrow> Inl ErrToken
      | Some (claims, valid) \<Rightarrow> if valid then Inr claims else Inl ErrInvalidClaims)"

definition jwks_VerifyToken ::
  "jwt_headers \<Rightarrow> jwt_checker \<Rightarrow> verify_env \<Rightarrow> string \<Rightarrow> JWKSVerifier \<Rightarrow>
   (auth_error + GatewayClaims) \<times> JWKSVerifier" where
  "jwks_VerifyToken hdr ver env tok j =
     (case hdr tok of
        None \<Rightarrow> (Inl ErrToken, j)
      | Some h \<Rightarrow>
          if \<not> jh_rsa h then (Inl ErrSigningMethod, j)
          else case getKey env (jh_kid h) j of
            (Inl e, j1) \<Rightarrow> (Inl e, j1)
          | (Inr pub, j1) \<Rightarrow> (finish_token (ver tok pub), j1))"

definition static_VerifyToken ::
  "jwt_headers \<Rightarrow> jwt_checker \<Rightarrow> verify_env \<Rightarrow> string \<Rightarrow> rsa_key \<Rightarrow>
   (auth_error + GatewayClaims) \<times> rsa_key" where
  "static_VerifyToken hdr ver env tok key =
     (case hdr tok of
        None \<Rightarrow> (Inl ErrToken, key)
      | Some h \<Rightarrow> if \<not> jh_rsa h then (Inl ErrSigningMethod, key)
                  else (finish_token (ver tok key), key))"

section \<open>Middlewares\<close>

definition writeUnauthorized :: "string \<Rightarrow> unit response" where
  "writeUnauthorized msg = JsonError 401 ''UNAUTHORIZED'' msg"

definition writeForbidden :: "string \<Rightarrow> unit response" where
  "writeForbidden msg = JsonError 403 ''FORBIDDEN'' msg"

definition Authenticate ::
  "(verify_env \<Rightarrow> string \<Rightarrow> 'v \<Rightarrow> (auth_error + GatewayClaims) \<times> 'v) \<Rightarrow>
   verify_env \<Rightarrow> http_request \<Rightarrow> 'v \<Rightarrow> (unit response + http_request) \<times> 'v" where
  "Authenticate verify env r v =
     (let authHeader = rq_Authorization r
      in if authHeader = ''''
         then (Inl (writeUnauthorized ''missing authorization header''), v)
         else let parts = SplitN2 (CHR 0x20) authHeader
              in if length parts \<noteq> 2 \<or> \<not> EqualFold (hd parts) ''bearer''
                 then (Inl (writeUnauthorized ''invalid authorization header format''), v)
                 else case verify env (parts ! 1) v of
                   (Inl _, v1) \<Rightarrow> (Inl (writeUnauthorized ''invalid or expired token''), v1)
                 | (Inr claims, v1) \<Rightarrow> (Inr (r\<lparr> rq_claims := Some claims \<rparr>), v1))"

definition RequirePermission ::
  "string \<Rightarrow> string \<Rightarrow> http_request \<Rightarrow> unit response + http_request" where
  "RequirePermission resource action r =
     (case ClaimsFromContext r of
        None \<Rightarrow> Inl (writeUnauthorized ''authentication required'')
      | Some claims \<Rightarrow>
          if \<not> gw_Can (gc_Persona claims) resource action
          then Inl (writeForbidden ''insufficient permissions'')
          else Inr r)"

section \<open>What a verifier promises\<close>

text \<open>
  The \<open>Verifier\<close> interface of the code with its contract: a token is accepted only when the
  library verified it, marked valid, under a key the verifier trusts. Everything the gateway
  guarantees about authentication follows from it.
\<close>

locale token_verifier =
  fixes verify :: "verify_env \<Rightarrow> string \<Rightarrow> 'v \<Rightarrow> (auth_error + GatewayClaims) \<times> 'v"
    and trusted :: "'v \<Rightarrow> rsa_key \<Rightarrow> bool"
    and checker :: jwt_checker
  assumes verify_sound:
    "verify env tok v = (Inr claims, v') \<Longrightarrow> \<exists>k. trusted v' k \<and> checker tok k = Some (claims, True)"
begin

lemma Authenticate_sound:
  assumes "Authenticate verify env r v = (Inr r', v')"
  shows "\<exists>scheme tok claims k.
     rq_Authorization r = scheme @ CHR 0x20 # tok \<and> EqualFold scheme ''bearer'' \<and>
     r' = r\<lparr> rq_claims := Some claims \<rparr> \<and> trusted v' k \<and> checker tok k = Some (claims, True)"
proof -
  obtain scheme rest where cut: "cut (CHR 0x20) (rq_Authorization r) = (scheme, rest)"
    by fastforce
  with assms obtain tok claims where rest: "rest = Some tok" and fold: "EqualFold scheme ''bearer''"
    and ver: "verify env tok v = (Inr claims, v')" and r': "r' = r\<lparr> rq_claims := Some claims \<rparr>"
    by (auto simp: Authenticate_def SplitN2_def Let_def split: if_splits option.splits prod.splits
        sum.splits)
  with verify_sound [OF ver] cut_Some [of "CHR 0x20" "rq_Authorization r" scheme tok] cut
  show ?thesis by blast
qed

end

lemma finish_token_Inr: "finish_token r = Inr claims \<longleftrightarrow> r = Some (claims, True)"
  by (auto simp: finish_token_def split: option.splits prod.splits if_splits)

lemma getKey_ran: "getKey env kid j = (Inr k, j') \<Longrightarrow> k \<in> snd ` set (jv_keys j')"
  by (auto simp: getKey_def split: if_splits option.splits prod.splits
      dest!: map_of_SomeD intro: rev_image_eqI)

interpretation jwks: token_verifier "jwks_VerifyToken hdr ver"
  "\<lambda>j k. k \<in> snd ` set (jv_keys j)" ver
  by unfold_locales
    (auto simp: jwks_VerifyToken_def finish_token_Inr
      split: option.splits if_splits prod.splits sum.splits dest!: getKey_ran)

interpretation static: token_verifier "static_VerifyToken hdr ver" "\<lambda>key k. k = key" ver
  by unfold_locales
    (auto simp: static_VerifyToken_def finish_token_Inr split: option.splits if_splits)

section \<open>Properties\<close>

text \<open>
  The fallback to the default key (the one without an id) depends on the age of the cache:
  a token whose key id the identity service does not publish is checked with the default key
  when the cache is stale, and the same token is refused for a whole cache lifetime after
  that refresh, though the keys are the same.
\<close>

theorem jwks_default_key_only_on_refresh:
  assumes "jv_cacheTTL j \<le> time_Sub (ve_now env) (jv_fetchedAt j)"
    and "ve_jwks env = Some jwks"
    and "map_of (foldl add_jwk [] jwks) kid = None"
    and "map_of (foldl add_jwk [] jwks) '''' = Some k"
    and "time_Sub (ve_now env2) (ve_fetched env) < jv_cacheTTL j"
  shows "\<exists>j'. getKey env kid j = (Inr k, j') \<and> getKey env2 kid j' = (Inl (ErrKeyNotFound kid), j')"
  using assms by (simp add: getKey_def fetchKeys_def)

definition ex_jwk :: jwkKey where
  "ex_jwk = \<lparr> jk_Kty = ''RSA'', jk_Kid = '''', jk_Use = ''sig'', jk_N = ''_w'', jk_E = ''AQAB'' \<rparr>"

lemma ex_jwk_pub: "add_jwk [] ex_jwk = [('''', \<lparr> rk_N = 255, rk_E = 65537 \<rparr>)]"
  by (simp add: add_jwk_def ex_jwk_def rsaFromJWK_def b64_decode_def b64_skip_def b64_val_def
      big_endian_def exponent_of_def wrap64_def)

theorem jwks_default_key_only_on_refresh_witness:
  "case (\<lparr> ve_now = 100, ve_fetched = 101, ve_jwks = Some [ex_jwk] \<rparr>,
         \<lparr> ve_now = 102, ve_fetched = 102, ve_jwks = None \<rparr>) of (env, env2) \<Rightarrow>
     \<exists>j'. getKey env ''k1'' (NewJWKSVerifier (5 * second)) =
            (Inr \<lparr> rk_N = 255, rk_E = 65537 \<rparr>, j') \<and>
          getKey env2 ''k1'' j' = (Inl (ErrKeyNotFound ''k1''), j')"
  unfolding prod.case
  by (rule jwks_default_key_only_on_refresh [where jwks = "[ex_jwk]"])
    (simp_all add: ex_jwk_pub NewJWKSVerifier_def time_Sub_def sat64_def min_int64_def max_int64_def
      zero_time_def second_def)

end
