(* ===== verification/RateLimit.thy ===== *)
theory RateLimit
  imports GatewayAuth "HOL-Library.Finite_Map"
begin

text \<open>
  The gateway's sliding-window rate limiter
  (services/gateway/internal/middleware/ratelimit.go): the Lua script \<open>limiterScript\<close>, the
  tier limits, the choice of the key and the \<open>RateLimit\<close> middleware.

  Redis is a parameter: \<open>zset_ops\<close> are the sorted-set commands the script calls on one key, and
  \<open>zset_ok ops mem due\<close> their documented behaviour, where \<open>mem z\<close> maps a member to its score and
  \<open>due z\<close> is the time at which the key expires, if it does: \<open>zo_at t\<close> is the key as Redis shows it at
  time \<open>t\<close>, empty once it has expired, and \<open>PEXPIRE\<close> sets the time. Redis's clock is taken to be the
  one the requests carry. \<open>zo_oldest\<close> is the score of \<open>ZRANGE key 0 0 WITHSCORES\<close>. The script runs
  atomically, at one instant. The middleware takes the script's answer as a function of the key, the
  time and the limit.

  A member is the request's millisecond and a random number. Nothing keeps two requests from having
  the same one, and \<open>ZADD\<close> of a member that is there only sets its score: such requests count once.
\<close>

section \<open>The script\<close>

record 'z zset_ops =
  zo_empty :: 'z
  zo_remrangebyscore :: "int \<Rightarrow> 'z \<Rightarrow> 'z"
  zo_card :: "'z \<Rightarrow> nat"
  zo_add :: "int \<Rightarrow> string \<Rightarrow> 'z \<Rightarrow> 'z"
  zo_at :: "int \<Rightarrow> 'z \<Rightarrow> 'z"
  zo_pexpire :: "int \<Rightarrow> int \<Rightarrow> 'z \<Rightarrow> 'z"
  zo_oldest :: "'z \<Rightarrow> int option"

text \<open>The member of a request: its time and a random number, \<open>now .. '-' .. math.random(...)\<close>.\<close>

definition rl_member :: "nat \<Rightarrow> nat \<Rightarrow> string" where
  "rl_member now rnd = dec_digits now @ CHR ''-'' # dec_digits rnd"

record rl_result =
  rr_allowed :: int
  rr_remaining :: int
  rr_resetMs :: int

definition limiterScript ::
  "'z zset_ops \<Rightarrow> nat \<Rightarrow> nat \<Rightarrow> int \<Rightarrow> int \<Rightarrow> 'z \<Rightarrow> rl_result \<times> 'z" where
  "limiterScript ops now rnd windowMs limit z =
     (let clearBefore = int now - windowMs;
          z1 = zo_remrangebyscore ops clearBefore (zo_at ops (int now) z);
          count = int (zo_card ops z1)
      in if count < limit
         then (\<lparr> rr_allowed = 1, rr_remaining = limit - count - 1, rr_resetMs = int now + windowMs \<rparr>,
               zo_pexpire ops (int now) windowMs (zo_add ops (int now) (rl_member now rnd) z1))
         else (\<lparr> rr_allowed = 0, rr_remaining = 0,
                 rr_resetMs = (case zo_oldest ops z1 of
                     Some score \<Rightarrow> score + windowMs | None \<Rightarrow> int now + windowMs) \<rparr>, z1))"

definition zset_ok :: "'z zset_ops \<Rightarrow> ('z \<Rightarrow> string \<rightharpoonup> int) \<Rightarrow> ('z \<Rightarrow> int option) \<Rightarrow> bool" where
  "zset_ok ops mem due \<longleftrightarrow>
     mem (zo_empty ops) = Map.empty \<and> due (zo_empty ops) = None \<and>
     (\<forall>z. finite (dom (mem z)) \<and> zo_card ops z = card (dom (mem z))) \<and>
     (\<forall>c z m. mem (zo_remrangebyscore ops c z) m =
        (case mem z m of Some s \<Rightarrow> if s \<le> c then None else Some s | None \<Rightarrow> None)) \<and>
     (\<forall>c z. due (zo_remrangebyscore ops c z) \<in> {due z, None}) \<and>
     (\<forall>s m z. mem (zo_add ops s m z) = (mem z)(m \<mapsto> s) \<and> due (zo_add ops s m z) = due z) \<and>
     (\<forall>t w z. mem (zo_pexpire ops t w z) = mem z \<and> due (zo_pexpire ops t w z) = Some (t + w)) \<and>
     (\<forall>t z. case due z of
        Some d \<Rightarrow> if d \<le> t then mem (zo_at ops t z) = Map.empty \<and> due (zo_at ops t z) = None
          else mem (zo_at ops t z) = mem z \<and> due (zo_at ops t z) = due z
      | None \<Rightarrow> mem (zo_at ops t z) = mem z \<and> due (zo_at ops t z) = None) \<and>
     (\<forall>z. zo_oldest ops z =
        (if mem z = Map.empty then None else Some (Min (ran (mem z)))))"

section \<open>The middleware\<close>

record RateLimiter =
  rl_standard :: int
  rl_enterprise :: int
  rl_integration :: int

definition rl_window :: int where
  "rl_window = 60000"

definition TierStandard :: string where "TierStandard = ''standard''"
definition TierEnterprise :: string where "TierEnterprise = ''enterprise''"
definition TierIntegration :: string where "TierIntegration = ''integration''"

definition limitFor :: "RateLimiter \<Rightarrow> string \<Rightarrow> int" where
  "limitFor rl tier =
     (if tier = TierEnterprise then rl_enterprise rl
      else if tier = TierIntegration then rl_integration rl else rl_standard rl)"

definition remoteIP :: "http_request \<Rightarrow> string" where
  "remoteIP r =
     (if rq_XForwardedFor r \<noteq> '''' then fst (cut (CHR '','') (rq_XForwardedFor r))
      else if rq_XRealIP r \<noteq> '''' then rq_XRealIP r
      else let addr = rq_RemoteAddr r
           in case cut (CHR '':'') (rev addr) of
                (_, Some host) \<Rightarrow> rev host | (_, None) \<Rightarrow> addr)"

definition rl_key_tier :: "http_request \<Rightarrow> string \<times> string" where
  "rl_key_tier r =
     (case ClaimsFromContext r of
        Some claims \<Rightarrow>
          (''ratelimit:org:'' @ gc_OrgID claims,
           if gc_OrgTier claims = '''' then TierStandard else gc_OrgTier claims)
      | None \<Rightarrow> (''ratelimit:ip:'' @ remoteIP r, TierStandard))"

record rl_headers =
  rh_Limit :: int
  rh_Remaining :: int
  rh_Reset :: int

text \<open>
  \<open>run key limit\<close> is the script's answer for the key, \<open>None\<close> when Redis fails. The result is the
  rate-limit headers set, with the refusal or the request passed on.
\<close>

definition RateLimit ::
  "RateLimiter \<Rightarrow> (string \<Rightarrow> int \<Rightarrow> 's \<Rightarrow> rl_result option \<times> 's) \<Rightarrow> http_request \<Rightarrow> 's \<Rightarrow>
   (rl_headers option \<times> (unit response + http_request)) \<times> 's" where
  "RateLimit rl run r s =
     (case rl_key_tier r of (key, tier) \<Rightarrow>
        let limit = limitFor rl tier
        in case run key limit s of
             (None, s1) \<Rightarrow> ((None, Inr r), s1)
           | (Some res, s1) \<Rightarrow>
               let h = \<lparr> rh_Limit = limit, rh_Remaining = rr_remaining res,
                         rh_Reset = go_div (rr_resetMs res) 1000 \<rparr>
               in ((Some h,
                    if rr_allowed res \<noteq> 1
                    then Inl (JsonError 429 ''RATE_LIMITED'' ''too many requests'') else Inr r), s1))"

text \<open>The script on the set stored under each key.\<close>

definition redis_run ::
  "'z zset_ops \<Rightarrow> nat \<Rightarrow> nat \<Rightarrow> string \<Rightarrow> int \<Rightarrow> (string \<Rightarrow> 'z) \<Rightarrow> rl_result option \<times> (string \<Rightarrow> 'z)" where
  "redis_run ops now rnd key limit st =
     (case limiterScript ops now rnd rl_window limit (st key) of
        (res, z) \<Rightarrow> (Some res, st(key := z)))"

section \<open>Runs of requests on one key\<close>

fun rl_runs :: "'z zset_ops \<Rightarrow> int \<Rightarrow> int \<Rightarrow> 'z \<Rightarrow> (nat \<times> nat) list \<Rightarrow> (nat \<times> nat) list" where
  "rl_runs ops w limit z [] = []"
| "rl_runs ops w limit z ((now, rnd) # rs) =
     (case limiterScript ops now rnd w limit z of
        (res, z1) \<Rightarrow> (if rr_allowed res = 1 then [(now, rnd)] else []) @ rl_runs ops w limit z1 rs)"

lemma rl_member_cut: "cut (CHR ''-'') (rl_member n m) = (dec_digits n, Some (dec_digits m))"
  using dec_digits_props [of n] unfolding rl_member_def
  by (intro cut_append) (auto simp: list_all_iff is_digit_def)

lemma rl_member_inj: "rl_member a b = rl_member c d \<Longrightarrow> a = c \<and> b = d"
  using rl_member_cut [of a b] rl_member_cut [of c d]
  by (auto dest: dec_digits_inj)

text \<open>
  What the script computes: admit while fewer than \<open>limit\<close> different members are in the window.
\<close>

definition in_window :: "int \<Rightarrow> (nat \<times> nat) list \<Rightarrow> (nat \<times> nat) list" where
  "in_window c h = filter (\<lambda>(n, _). c < int n) h"

fun rl_spec :: "int \<Rightarrow> int \<Rightarrow> (nat \<times> nat) list \<Rightarrow> (nat \<times> nat) list \<Rightarrow> (nat \<times> nat) list" where
  "rl_spec w limit h [] = h"
| "rl_spec w limit h ((now, rnd) # rs) =
     rl_spec w limit
       (if int (card (set (in_window (int now - w) h))) < limit then h @ [(now, rnd)] else h) rs"

text \<open>
  \<open>holds_window\<close>: beyond \<open>c\<close> the set holds the members of the requests admitted so far;
  \<open>expires_late\<close>: when the key expires, all its members are out of the window.
\<close>

definition holds_window :: "('z \<Rightarrow> string \<rightharpoonup> int) \<Rightarrow> int \<Rightarrow> (nat \<times> nat) list \<Rightarrow> 'z \<Rightarrow> bool" where
  "holds_window mem c h z \<longleftrightarrow>
     (\<forall>m s. c < s \<longrightarrow>
        (mem z m = Some s \<longleftrightarrow> (\<exists>n r. (n, r) \<in> set h \<and> m = rl_member n r \<and> s = int n)))"

definition expires_late :: "('z \<Rightarrow> string \<rightharpoonup> int) \<Rightarrow> ('z \<Rightarrow> int option) \<Rightarrow> int \<Rightarrow> 'z \<Rightarrow> bool" where
  "expires_late mem due w z \<longleftrightarrow> (\<forall>d m s. due z = Some d \<longrightarrow> mem z m = Some s \<longrightarrow> s + w \<le> d)"

lemma holds_window_mono: "holds_window mem c h z \<Longrightarrow> c \<le> c' \<Longrightarrow> holds_window mem c' h z"
  by (auto simp: holds_window_def)

lemma remrange_mem:
  assumes "zset_ok ops mem due"
  shows "mem (zo_remrangebyscore ops c z) m = Some s \<longleftrightarrow> mem z m = Some s \<and> c < s"
  using assms by (auto simp: zset_ok_def split: option.splits)

lemma holds_window_card:
  assumes ok: "zset_ok ops mem due" and h: "holds_window mem c h z"
  shows "zo_card ops (zo_remrangebyscore ops c z) = card (set (in_window c h))"
proof -
  have "dom (mem (zo_remrangebyscore ops c z)) = (\<lambda>(n, r). rl_member n r) ` set (in_window c h)"
    using h by (fastforce simp: dom_def remrange_mem [OF ok] holds_window_def in_window_def)
  moreover have "inj_on (\<lambda>(n, r). rl_member n r) (set (in_window c h))"
    by (auto intro!: inj_onI dest: rl_member_inj)
  moreover have "zo_card ops z' = card (dom (mem z'))" for z'
    using ok by (simp add: zset_ok_def)
  ultimately show ?thesis by (simp add: card_image)
qed

lemma zset_at:
  assumes "zset_ok ops mem due"
  shows "case due z of
        Some d \<Rightarrow> if d \<le> t then mem (zo_at ops t z) = Map.empty \<and> due (zo_at ops t z) = None
          else mem (zo_at ops t z) = mem z \<and> due (zo_at ops t z) = due z
      | None \<Rightarrow> mem (zo_at ops t z) = mem z \<and> due (zo_at ops t z) = None"
  using assms unfolding zset_ok_def by blast

text \<open>Expiry takes nothing out of the window.\<close>

lemma at_window:
  assumes ok: "zset_ok ops mem due" and h: "holds_window mem (t - w) h z" and e: "expires_late mem due w z"
  shows "holds_window mem (t - w) h (zo_at ops t z)" "expires_late mem due w (zo_at ops t z)"
proof -
  note at = zset_at [OF ok, of t z]
  have gone: "\<not> t - w < s" if "due z = Some d" "d \<le> t" "mem z m = Some s" for d m s
    using e that unfolding expires_late_def by fastforce
  show "holds_window mem (t - w) h (zo_at ops t z)"
    using at h gone unfolding holds_window_def
    by (fastforce split: option.splits if_splits)
  show "expires_late mem due w (zo_at ops t z)"
    using at e unfolding expires_late_def by (auto split: option.splits if_splits)
qed

lemma remrange_window:
  assumes "zset_ok ops mem due" and "holds_window mem c h z" and "expires_late mem due w z"
  shows "holds_window mem c h (zo_remrangebyscore ops c z)"
    "expires_late mem due w (zo_remrangebyscore ops c z)"
proof -
  show "holds_window mem c h (zo_remrangebyscore ops c z)"
    using assms(2) by (simp add: holds_window_def remrange_mem [OF assms(1)])
  have "due (zo_remrangebyscore ops c z) \<in> {due z, None}" using assms(1) by (simp add: zset_ok_def)
  then show "expires_late mem due w (zo_remrangebyscore ops c z)"
    using assms(3) by (auto simp: expires_late_def remrange_mem [OF assms(1)])
qed

lemma add_window:
  assumes "zset_ok ops mem due" and "holds_window mem c h z"
    and "\<And>m s. mem z m = Some s \<Longrightarrow> s \<le> int now"
  shows "holds_window mem c (h @ [(now, rnd)])
           (zo_pexpire ops (int now) w (zo_add ops (int now) (rl_member now rnd) z))"
    "expires_late mem due w (zo_pexpire ops (int now) w (zo_add ops (int now) (rl_member now rnd) z))"
proof -
  have z: "mem (zo_pexpire ops (int now) w (zo_add ops (int now) (rl_member now rnd) z)) =
      (mem z)(rl_member now rnd \<mapsto> int now)"
    "due (zo_pexpire ops (int now) w (zo_add ops (int now) (rl_member now rnd) z)) = Some (int now + w)"
    using assms(1) by (simp_all add: zset_ok_def)
  then show "holds_window mem c (h @ [(now, rnd)])
           (zo_pexpire ops (int now) w (zo_add ops (int now) (rl_member now rnd) z))"
    using assms(2) by (auto simp: holds_window_def dest: rl_member_inj)
  show "expires_late mem due w (zo_pexpire ops (int now) w (zo_add ops (int now) (rl_member now rnd) z))"
    using assms(3) by (auto simp: expires_late_def z split: if_splits)
qed

text \<open>No member is of a later time than the requests that follow.\<close>

definition until :: "('z \<Rightarrow> string \<rightharpoonup> int) \<Rightarrow> int \<Rightarrow> 'z \<Rightarrow> bool" where
  "until mem t z \<longleftrightarrow> (\<forall>m s. mem z m = Some s \<longrightarrow> s \<le> t)"

lemma at_until: "zset_ok ops mem due \<Longrightarrow> until mem t z \<Longrightarrow> until mem t (zo_at ops t' z)"
proof -
  assume ok: "zset_ok ops mem due" and u: "until mem t z"
  have "mem (zo_at ops t' z) = Map.empty \<or> mem (zo_at ops t' z) = mem z"
    using zset_at [OF ok, of t' z] by (auto split: option.splits if_splits)
  with u show ?thesis unfolding until_def by auto
qed

lemma rl_runs_spec:
  assumes "zset_ok ops mem due" and "sorted (map fst rs)" and "expires_late mem due w z"
    and "\<And>now rnd. (now, rnd) \<in> set rs \<Longrightarrow> holds_window mem (int now - w) h z \<and> until mem (int now) z"
  shows "h @ rl_runs ops w limit z rs = rl_spec w limit h rs"
  using assms
proof (induction rs arbitrary: h z)
  case Nil
  then show ?case by simp
next
  case (Cons r rs)
  obtain now rnd where r: "r = (now, rnd)" by fastforce
  let ?c = "int now - w"
  let ?z0 = "zo_at ops (int now) z"
  let ?z1 = "zo_remrangebyscore ops ?c ?z0"
  let ?z2 = "zo_pexpire ops (int now) w (zo_add ops (int now) (rl_member now rnd) ?z1)"
  have hold: "holds_window mem ?c h z" "until mem (int now) z" using Cons.prems(4) [of now rnd] by (simp_all add: r)
  note at = at_window [OF Cons.prems(1) hold(1) Cons.prems(3)]
  note hold1 = remrange_window [OF Cons.prems(1) at]
  have card: "zo_card ops ?z1 = card (set (in_window ?c h))"
    by (rule holds_window_card [OF Cons.prems(1) at(1)])
  have until1: "until mem (int now) ?z1"
    using at_until [OF Cons.prems(1) hold(2)] by (auto simp: until_def remrange_mem [OF Cons.prems(1)])
  note hold2 = add_window [OF Cons.prems(1) hold1(1), where now = now and rnd = rnd and w = w]
  have until2: "until mem (int now) ?z2"
    using until1 Cons.prems(1) by (auto simp: until_def zset_ok_def split: if_splits)
  have later: "?c \<le> int n - w" "int now \<le> int n" if "(n, r') \<in> set rs" for n r'
    using that Cons.prems(2) r by force+
  have sorted: "sorted (map fst rs)" using Cons.prems(2) by simp
  show ?case
  proof (cases "int (card (set (in_window ?c h))) < limit")
    case True
    have "(h @ [(now, rnd)]) @ rl_runs ops w limit ?z2 rs = rl_spec w limit (h @ [(now, rnd)]) rs"
    proof (rule Cons.IH [OF Cons.prems(1) sorted])
      show "expires_late mem due w ?z2" using hold2(2) until1 by (simp add: until_def)
      show "holds_window mem (int n - w) (h @ [(now, rnd)]) ?z2 \<and> until mem (int n) ?z2"
        if "(n, r') \<in> set rs" for n r'
        using holds_window_mono [OF hold2(1) later(1) [OF that]] until1 until2 later(2) [OF that]
        by (fastforce simp: until_def)
    qed
    with True card show ?thesis by (simp add: r limiterScript_def Let_def)
  next
    case False
    have "h @ rl_runs ops w limit ?z1 rs = rl_spec w limit h rs"
    proof (rule Cons.IH [OF Cons.prems(1) sorted hold1(2)])
      show "holds_window mem (int n - w) h ?z1 \<and> until mem (int n) ?z1" if "(n, r') \<in> set rs" for n r'
        using holds_window_mono [OF hold1(1) later(1) [OF that]] until1 later(2) [OF that]
        by (fastforce simp: until_def)
    qed
    with False card show ?thesis by (simp add: r limiterScript_def Let_def)
  qed
qed

definition windows_ok :: "int \<Rightarrow> int \<Rightarrow> (nat \<times> nat) list \<Rightarrow> bool" where
  "windows_ok w limit h \<longleftrightarrow>
     (\<forall>t. int (card (set (filter (\<lambda>(n, _). t - w < int n \<and> int n \<le> t) h))) \<le> limit)"

lemma windows_ok_snoc:
  assumes win: "windows_ok w limit h" and lt: "int (card (set (in_window (int now - w) h))) < limit"
  shows "windows_ok w limit (h @ [(now, rnd)])"
  unfolding windows_ok_def
proof
  fix t
  let ?f = "filter (\<lambda>(n, _). t - w < int n \<and> int n \<le> t)"
  show "int (card (set (?f (h @ [(now, rnd)])))) \<le> limit"
  proof (cases "t - w < int now \<and> int now \<le> t")
    case True
    then have "set (?f h) \<subseteq> set (in_window (int now - w) h)" by (auto simp: in_window_def)
    then have "card (set (?f h)) \<le> card (set (in_window (int now - w) h))" by (intro card_mono) simp_all
    moreover have "set (?f (h @ [(now, rnd)])) = insert (now, rnd) (set (?f h))" using True by auto
    ultimately show ?thesis using lt card_insert_le_m1 [of "Suc (card (set (?f h)))" "set (?f h)" "(now, rnd)"]
      by simp
  next
    case False
    with win show ?thesis by (auto simp: windows_ok_def)
  qed
qed

lemma rl_spec_windows: "windows_ok w limit h \<Longrightarrow> windows_ok w limit (rl_spec w limit h rs)"
  by (induction w limit h rs rule: rl_spec.induct) (simp_all add: windows_ok_snoc)

text \<open>
  Without repeated members the specification is the sliding window over requests; repeated
  without end, one member is admitted without end.
\<close>

fun sliding_window :: "int \<Rightarrow> int \<Rightarrow> (nat \<times> nat) list \<Rightarrow> (nat \<times> nat) list \<Rightarrow> (nat \<times> nat) list" where
  "sliding_window w limit h [] = h"
| "sliding_window w limit h ((now, rnd) # rs) =
     sliding_window w limit
       (if int (length (in_window (int now - w) h)) < limit then h @ [(now, rnd)] else h) rs"

lemma rl_spec_sliding: "distinct (h @ rs) \<Longrightarrow> rl_spec w limit h rs = sliding_window w limit h rs"
proof (induction w limit h rs rule: rl_spec.induct)
  case (2 w limit h now rnd rs)
  have "distinct (in_window (int now - w) h)" using 2(2) by (simp add: in_window_def)
  then have "card (set (in_window (int now - w) h)) = length (in_window (int now - w) h)"
    by (rule distinct_card)
  with 2 show ?case by simp
qed simp

lemma rl_spec_repeats:
  "2 \<le> limit \<Longrightarrow> set h \<subseteq> {(now, rnd)} \<Longrightarrow>
   rl_spec w limit h (replicate k (now, rnd)) = h @ replicate k (now, rnd)"
proof (induction k arbitrary: h)
  case (Suc k)
  have "card (set (in_window (int now - w) h)) \<le> card {(now, rnd)}"
    using Suc.prems(2) by (intro card_mono) (auto simp: in_window_def)
  then have "int (card (set (in_window (int now - w) h))) < limit" using Suc.prems(1) by simp
  with Suc.IH [of "h @ [(now, rnd)]"] Suc.prems show ?case by simp
qed simp

section \<open>Properties\<close>

text \<open>
  C30. The limiter script, run on one key from empty by requests whose clock does not go back,
  admits a request exactly when fewer than the limit of different members (time and random number)
  were admitted in the minute before it, so at most the limit of different members in every interval
  of one minute; the expiry of the key changes nothing. If no two requests have the same member this
  is the sliding window over requests, with at most the limit of them in a minute. But requests that
  share a member count once: any number of them is admitted.
\<close>

theorem rate_limit_sliding_window:
  assumes "zset_ok ops mem due" and "sorted (map fst rs)" and "0 \<le> limit"
  shows "rl_runs ops rl_window limit (zo_empty ops) rs = rl_spec rl_window limit [] rs \<and>
     int (card (set (filter (\<lambda>(n, _). t - rl_window < int n \<and> int n \<le> t)
            (rl_runs ops rl_window limit (zo_empty ops) rs)))) \<le> limit \<and>
     (distinct rs \<longrightarrow>
       rl_runs ops rl_window limit (zo_empty ops) rs = sliding_window rl_window limit [] rs \<and>
       int (length (filter (\<lambda>(n, _). t - rl_window < int n \<and> int n \<le> t)
            (rl_runs ops rl_window limit (zo_empty ops) rs))) \<le> limit) \<and>
     (\<forall>k req. 2 \<le> limit \<longrightarrow> rs = replicate k req \<longrightarrow>
       rl_runs ops rl_window limit (zo_empty ops) rs = rs)"
proof -
  have none: "mem (zo_empty ops) = Map.empty" "due (zo_empty ops) = None"
    using assms(1) by (simp_all add: zset_ok_def)
  have spec: "rl_runs ops rl_window limit (zo_empty ops) rs = rl_spec rl_window limit [] rs"
    using rl_runs_spec [OF assms(1,2), of rl_window "zo_empty ops" "[]"]
    by (simp add: none expires_late_def holds_window_def until_def)
  have win: "windows_ok rl_window limit (rl_spec rl_window limit [] rs)"
    using assms(3) by (intro rl_spec_windows) (simp add: windows_ok_def)
  have few: "int (length (filter (\<lambda>(n, _). t - rl_window < int n \<and> int n \<le> t)
      (rl_spec rl_window limit [] rs))) \<le> limit" if "distinct rs"
  proof -
    have "distinct (rl_spec w limit h rs)" if "distinct (h @ rs)" for w h and rs :: "(nat \<times> nat) list"
      using that by (induction w limit h rs rule: rl_spec.induct) auto
    then have "distinct (rl_spec rl_window limit [] rs)" using \<open>distinct rs\<close> by simp
    then have "card (set (filter (\<lambda>(n, _). t - rl_window < int n \<and> int n \<le> t) (rl_spec rl_window limit [] rs))) =
        length (filter (\<lambda>(n, _). t - rl_window < int n \<and> int n \<le> t) (rl_spec rl_window limit [] rs))"
      by (intro distinct_card distinct_filter)
    moreover have "int (card (set (filter (\<lambda>(n, _). t - rl_window < int n \<and> int n \<le> t)
        (rl_spec rl_window limit [] rs)))) \<le> limit"
      using win unfolding windows_ok_def by blast
    ultimately show ?thesis by (rule subst [where P = "\<lambda>n. int n \<le> limit"])
  qed
  have rep: "rl_spec rl_window limit [] (replicate k req) = replicate k req" if "2 \<le> limit" for k req
    using rl_spec_repeats [OF that, of "[]" "fst req" "snd req" rl_window k] by simp
  have slide: "rl_spec rl_window limit [] rs = sliding_window rl_window limit [] rs" if "distinct rs"
    using rl_spec_sliding [of "[]" rs rl_window limit] that by simp
  show ?thesis unfolding spec
  proof (intro conjI allI impI)
    show "rl_spec rl_window limit [] rs = rs" if "2 \<le> limit" "rs = replicate k req" for k req
      using rep [OF that(1), of k req] unfolding that(2) .
    show "int (card (set (filter (\<lambda>(n, _). t - rl_window < int n \<and> int n \<le> t)
        (rl_spec rl_window limit [] rs)))) \<le> limit"
      using win unfolding windows_ok_def by blast
    show "rl_spec rl_window limit [] rs = sliding_window rl_window limit [] rs" if "distinct rs"
      using slide [OF that] .
    show "int (length (filter (\<lambda>(n, _). t - rl_window < int n \<and> int n \<le> t)
        (rl_spec rl_window limit [] rs))) \<le> limit" if "distinct rs"
      using few [OF that] .
  qed (rule refl)
qed

text \<open>Finite maps with an expiry time are sorted sets in the sense of \<open>zset_ok\<close>.\<close>

type_synonym fm_key = "(string, int) fmap \<times> int option"

definition fm_ops :: "fm_key zset_ops" where
  "fm_ops = \<lparr> zo_empty = (fmempty, None),
     zo_remrangebyscore = (\<lambda>c (z, d).
       (fmfilter (\<lambda>m. case fmlookup z m of Some s \<Rightarrow> c < s | None \<Rightarrow> False) z, d)),
     zo_card = (\<lambda>(z, d). fcard (fmdom z)), zo_add = (\<lambda>s m (z, d). (fmupd m s z, d)),
     zo_at = (\<lambda>t (z, d). case d of Some e \<Rightarrow> if e \<le> t then (fmempty, None) else (z, d) | None \<Rightarrow> (z, d)),
     zo_pexpire = (\<lambda>t w (z, d). (z, Some (t + w))),
     zo_oldest = (\<lambda>(z, d). if z = fmempty then None else Some (Min (fset (fmran z)))) \<rparr>"

lemma fm_ops_ok: "zset_ok fm_ops (fmlookup \<circ> fst) snd"
  by (auto simp: zset_ok_def fm_ops_def fcard.rep_eq fmdom.rep_eq fmran.rep_eq
      fmlookup_inject [symmetric] split: option.splits)

theorem rate_limit_sliding_window_witness:
  "rl_runs fm_ops rl_window 1 (zo_empty fm_ops) [(0, 7), (5, 8), (60000, 9)] = [(0, 7), (60000, 9)] \<and>
   int (length (filter (\<lambda>(n, _). 50 - rl_window < int n \<and> int n \<le> 50)
     (rl_runs fm_ops rl_window 1 (zo_empty fm_ops) [(0, 7), (5, 8), (60000, 9)]))) \<le> 1 \<and>
   rl_runs fm_ops rl_window 2 (zo_empty fm_ops) (replicate 5 (3, 7)) = replicate 5 (3, 7)"
proof -
  define rs :: "(nat \<times> nat) list" where "rs = [(0, 7), (5, 8), (60000, 9)]"
  have "sorted (map fst rs)" and "distinct rs" by (simp_all add: rs_def)
  then have one: "rl_runs fm_ops rl_window 1 (zo_empty fm_ops) rs = sliding_window rl_window 1 [] rs"
    "int (length (filter (\<lambda>(n, _). 50 - rl_window < int n \<and> int n \<le> 50)
     (rl_runs fm_ops rl_window 1 (zo_empty fm_ops) rs))) \<le> 1"
    using rate_limit_sliding_window [OF fm_ops_ok, of rs 1 50] by (metis of_nat_0_le_iff of_nat_1)+
  have "sliding_window rl_window 1 [] rs = [(0, 7), (60000, 9)]"
    by (simp add: rs_def in_window_def rl_window_def)
  moreover have "rl_runs fm_ops rl_window 2 (zo_empty fm_ops) (replicate 5 (3, 7)) = replicate 5 (3, 7)"
    by (rule rate_limit_sliding_window [OF fm_ops_ok, of "replicate 5 (3, 7)" 2, THEN conjunct2, THEN conjunct2,
          THEN conjunct2, rule_format, OF _ _ _ refl]) simp_all
  ultimately show ?thesis using one unfolding rs_def by metis
qed

end
