(* ===== verification/Pagination.thy ===== *)
theory Pagination
  imports GoText
begin

text \<open>
  Cursor pagination of the API gateway (services/gateway/internal/pagination/cursor.go) and
  the endpoint that demonstrates it (\<open>paginateHandler\<close> of
  services/gateway/internal/proxy/router.go). Cursors are base64url text; limits are decimal
  integers between 1 and 100.
\<close>

definition MaxPageSize :: int where
  "MaxPageSize = 100"

definition DefaultPageSize :: int where
  "DefaultPageSize = 20"

datatype page_error = ErrInvalidCursor | ErrPageSizeTooLarge | ErrPageSizeInvalid

definition EncodeCursor :: "string \<Rightarrow> string" where
  "EncodeCursor token = b64_encode (bytes token)"

definition DecodeCursor :: "string \<Rightarrow> page_error + string" where
  "DecodeCursor cursor =
     (case b64_decode cursor of
        None \<Rightarrow> Inl ErrInvalidCursor
      | Some b \<Rightarrow> if length b = 0 then Inl ErrInvalidCursor else Inr (from_bytes b))"

definition ParseLimit :: "string \<Rightarrow> int \<Rightarrow> page_error + int" where
  "ParseLimit s d =
     (if s = '''' then Inr d
      else case Atoi s of
        None \<Rightarrow> Inl ErrPageSizeInvalid
      | Some n \<Rightarrow> if n \<le> 0 then Inl ErrPageSizeInvalid
                  else if MaxPageSize < n then Inl ErrPageSizeTooLarge
                  else Inr n)"

text \<open>The answer of the demonstration endpoint: a 400 with a message, or the echoed values.\<close>

record page_echo =
  pe_cursor_decoded :: string
  pe_limit :: int
  pe_next_cursor :: string

definition paginateHandler :: "string \<Rightarrow> string \<Rightarrow> page_echo response" where
  "paginateHandler cursor limitStr =
     (case ParseLimit limitStr 20 of
        Inl _ \<Rightarrow> JsonError 400 '''' ''invalid limit''
      | Inr limit \<Rightarrow>
          (case (if cursor \<noteq> '''' then DecodeCursor cursor else Inr '''') of
             Inl _ \<Rightarrow> JsonError 400 '''' ''invalid cursor''
           | Inr decoded \<Rightarrow>
               JsonResponse 200 \<lparr> pe_cursor_decoded = decoded, pe_limit = limit,
                 pe_next_cursor = EncodeCursor ''next-page-token'' \<rparr>))"

lemma EncodeCursor_nonempty: "EncodeCursor t = [] \<longleftrightarrow> t = []"
proof -
  have "length (EncodeCursor t) = (4 * length t + 2) div 3"
    by (simp add: EncodeCursor_def b64_encode_length bytes_def)
  then show ?thesis by (cases t) (auto simp: EncodeCursor_def bytes_def)
qed

lemma DecodeCursor_Encode: "t \<noteq> [] \<Longrightarrow> DecodeCursor (EncodeCursor t) = Inr t"
  using b64_roundtrip [of t] by (simp add: DecodeCursor_def EncodeCursor_def) (simp add: bytes_def)

lemma ParseLimit_range:
  assumes "ParseLimit s d = Inr n" and "s \<noteq> []"
  shows "1 \<le> n \<and> n \<le> MaxPageSize \<and> Atoi s = Some n"
  using assms by (auto simp: ParseLimit_def split: option.splits if_splits)

lemma ParseLimit_dec:
  assumes "int n \<le> max_int64"
  shows "ParseLimit (dec_digits n) d =
     (if n = 0 then Inl ErrPageSizeInvalid
      else if 100 < n then Inl ErrPageSizeTooLarge else Inr (int n))"
  using dec_digits_props [of n] Atoi_dec_digits [OF assms]
  by (auto simp: ParseLimit_def MaxPageSize_def)

section \<open>Properties\<close>

text \<open>
  Cursors round-trip: every non-empty token is recovered from its cursor, the empty token
  is the one that is not; a cursor has the unpadded base64 length.
\<close>

theorem cursor_roundtrip:
  "DecodeCursor (EncodeCursor t) = (if t = '''' then Inl ErrInvalidCursor else Inr t) \<and>
   length (EncodeCursor t) = (4 * length t + 2) div 3"
  by (auto simp: DecodeCursor_Encode)
    (simp_all add: EncodeCursor_def DecodeCursor_def b64_decode_def b64_encode_length bytes_def)

text \<open>
  The demonstration endpoint answers 200 exactly for the limits 1 to 100 and the absent
  limit (20), with the token of the cursor it was handed; other decimal limits get a 400, and
  no request leaves it without an answer.
\<close>

theorem paginate_contract:
  assumes "int n \<le> max_int64"
  shows "paginateHandler (EncodeCursor t) (dec_digits n) =
       (if 1 \<le> n \<and> n \<le> 100
        then JsonResponse 200 \<lparr> pe_cursor_decoded = t, pe_limit = int n,
               pe_next_cursor = EncodeCursor ''next-page-token'' \<rparr>
        else JsonError 400 '''' ''invalid limit'') \<and>
     paginateHandler (EncodeCursor t) '''' =
       JsonResponse 200 \<lparr> pe_cursor_decoded = t, pe_limit = DefaultPageSize,
         pe_next_cursor = EncodeCursor ''next-page-token'' \<rparr>"
proof (cases "t = []")
  case True
  with ParseLimit_dec [OF assms] EncodeCursor_nonempty [of t] show ?thesis
    by (auto simp: paginateHandler_def ParseLimit_def [of "[]"] DefaultPageSize_def)
next
  case False
  with ParseLimit_dec [OF assms] EncodeCursor_nonempty [of t] DecodeCursor_Encode [of t]
  show ?thesis
    by (auto simp: paginateHandler_def ParseLimit_def [of "[]"] DefaultPageSize_def)
qed

theorem paginate_contract_witness:
  "paginateHandler (EncodeCursor ''row-7'') (dec_digits 42) =
     JsonResponse 200 \<lparr> pe_cursor_decoded = ''row-7'', pe_limit = 42,
       pe_next_cursor = EncodeCursor ''next-page-token'' \<rparr>"
  using paginate_contract [of 42 "''row-7''"] by (simp add: max_int64_def)

end
