(* ===== verification/Gateway.thy ===== *)
theory Gateway
  imports RateLimit Pagination
begin

text \<open>
  The gateway's router (services/gateway/internal/proxy/router.go): the chain of middlewares
  in the order \<open>Build\<close> installs them, the mounted services with their permissions, the path
  rewriting of the reverse proxy, the CORS middleware.

  The chi library is a parameter: \<open>chi_pre\<close> stands for its RequestID, RealIP, Logger and
  Recoverer middlewares, \<open>top\<close> and \<open>sub\<close> for its route matching on the outer router and on
  the \<open>/api/v1\<close> router, whose middlewares run before its routes are matched.
\<close>

section \<open>Mounts\<close>

record upstream =
  up_host :: string
  up_path :: string

record ServiceConfig =
  sv_Identity :: upstream
  sv_Controls :: upstream
  sv_Evidence :: upstream
  sv_Engagement :: upstream
  sv_Integration :: upstream
  sv_AuditTrail :: upstream
  sv_Reporting :: upstream
  sv_Webhooks :: upstream

record gw_mount =
  mt_pattern :: string
  mt_permission :: "(string \<times> string) option"
  mt_upstream :: upstream

definition mount :: "string \<Rightarrow> (string \<times> string) option \<Rightarrow> upstream \<Rightarrow> gw_mount" where
  "mount p need u = \<lparr> mt_pattern = p, mt_permission = need, mt_upstream = u \<rparr>"

definition mounts :: "ServiceConfig \<Rightarrow> gw_mount list" where
  "mounts cfg =
    [mount ''/identity'' None (sv_Identity cfg),
     mount ''/controls'' (Some (''control'', ''read'')) (sv_Controls cfg),
     mount ''/evidence'' (Some (''evidence'', ''read'')) (sv_Evidence cfg),
     mount ''/engagements'' (Some (''engagement'', ''read'')) (sv_Engagement cfg),
     mount ''/integrations'' (Some (''engagement'', ''read'')) (sv_Integration cfg),
     mount ''/audit-trail'' (Some (''audit_trail'', ''read'')) (sv_AuditTrail cfg),
     mount ''/reports'' (Some (''report'', ''read'')) (sv_Reporting cfg),
     mount ''/webhooks'' None (sv_Webhooks cfg)]"

section \<open>Reverse proxy\<close>

text \<open>\<open>singleJoiningSlash\<close> is the standard library's, called by the director \<open>proxyTo\<close> wraps.\<close>

definition HasSuffix :: "string \<Rightarrow> string \<Rightarrow> bool" where
  "HasSuffix s p \<longleftrightarrow> HasPrefix (rev s) (rev p)"

definition singleJoiningSlash :: "string \<Rightarrow> string \<Rightarrow> string" where
  "singleJoiningSlash a b =
     (if HasSuffix a ''/'' \<and> HasPrefix b ''/'' then a @ tl b
      else if \<not> HasSuffix a ''/'' \<and> \<not> HasPrefix b ''/'' then a @ ''/'' @ b else a @ b)"

definition proxyTo :: "upstream \<Rightarrow> string \<Rightarrow> http_request \<Rightarrow> string \<times> http_request" where
  "proxyTo up stripPrefix r =
     (let path = TrimPrefix (singleJoiningSlash (up_path up) (rq_Path r)) stripPrefix
      in (up_host up, r\<lparr> rq_Path := if path = '''' then ''/'' else path \<rparr>))"

definition withPermission ::
  "string \<Rightarrow> string \<Rightarrow> (http_request \<Rightarrow> 'o) \<Rightarrow> (unit response \<Rightarrow> 'o) \<Rightarrow> http_request \<Rightarrow> 'o" where
  "withPermission resource action next refuse r =
     (case RequirePermission resource action r of Inl resp \<Rightarrow> refuse resp | Inr r1 \<Rightarrow> next r1)"

section \<open>The whole chain\<close>

datatype outcome =
    Answered "unit response"
  | Healthy
  | Paginate http_request
  | Forwarded string http_request
  | NotFound

datatype top_route = TopHealth | TopApi | TopNone

datatype sub_route = SubMount string | SubPaginate | SubNone

definition corsMiddleware :: "http_request \<Rightarrow> unit response + http_request" where
  "corsMiddleware r = (if rq_Method r = ''OPTIONS'' then Inl (JsonResponse 204 ()) else Inr r)"

definition serveMount :: "ServiceConfig \<Rightarrow> string \<Rightarrow> http_request \<Rightarrow> outcome" where
  "serveMount cfg pattern r =
     (case find (\<lambda>m. mt_pattern m = pattern) (mounts cfg) of
        None \<Rightarrow> NotFound
      | Some m \<Rightarrow>
          let forward = (\<lambda>r1. case proxyTo (mt_upstream m) (''/api/v1'' @ mt_pattern m) r1 of
                                (host, r2) \<Rightarrow> Forwarded host r2)
          in case mt_permission m of
               None \<Rightarrow> forward r
             | Some (resource, action) \<Rightarrow> withPermission resource action forward Answered r)"

record ('v, 's) chi =
  chi_pre :: "http_request \<Rightarrow> http_request"
  chi_top :: "string \<Rightarrow> string \<Rightarrow> top_route"
  chi_sub :: "string list \<Rightarrow> string \<Rightarrow> string \<Rightarrow> sub_route"

definition api_v1 ::
  "('v, 's) chi \<Rightarrow> ServiceConfig \<Rightarrow>
   (verify_env \<Rightarrow> string \<Rightarrow> 'v \<Rightarrow> (auth_error + GatewayClaims) \<times> 'v) \<Rightarrow>
   verify_env \<Rightarrow> http_request \<Rightarrow> 'v \<Rightarrow> outcome \<times> 'v" where
  "api_v1 chi cfg verify env r v =
     (case Authenticate verify env r v of
        (Inl resp, v1) \<Rightarrow> (Answered resp, v1)
      | (Inr r1, v1) \<Rightarrow>
          (case chi_sub chi (map mt_pattern (mounts cfg)) (rq_Method r1) (rq_Path r1) of
             SubMount p \<Rightarrow> serveMount cfg p r1
           | SubPaginate \<Rightarrow> Paginate r1
           | SubNone \<Rightarrow> NotFound, v1))"

definition Build ::
  "('v, 's) chi \<Rightarrow> ServiceConfig \<Rightarrow>
   (verify_env \<Rightarrow> string \<Rightarrow> 'v \<Rightarrow> (auth_error + GatewayClaims) \<times> 'v) \<Rightarrow> RateLimiter \<Rightarrow>
   (string \<Rightarrow> int \<Rightarrow> 's \<Rightarrow> rl_result option \<times> 's) \<Rightarrow>
   verify_env \<Rightarrow> http_request \<Rightarrow> 'v \<Rightarrow> 's \<Rightarrow> outcome \<times> 'v \<times> 's" where
  "Build chi cfg verify rl run env r v s =
     (case corsMiddleware (chi_pre chi r) of
        Inl resp \<Rightarrow> (Answered resp, v, s)
      | Inr r1 \<Rightarrow>
          (case RateLimit rl run r1 s of
             ((_, Inl resp), s1) \<Rightarrow> (Answered resp, v, s1)
           | ((_, Inr r2), s1) \<Rightarrow>
               (case chi_top chi (rq_Method r2) (rq_Path r2) of
                  TopHealth \<Rightarrow> (Healthy, v, s1)
                | TopNone \<Rightarrow> (NotFound, v, s1)
                | TopApi \<Rightarrow> (case api_v1 chi cfg verify env r2 v of (out, v1) \<Rightarrow> (out, v1, s1)))))"

section \<open>Lemmas\<close>

lemma RateLimit_pass: "RateLimit rl run r s = ((h, Inr r'), s') \<Longrightarrow> r' = r"
  by (auto simp: RateLimit_def Let_def split: prod.splits option.splits if_splits)

lemma RequirePermission_pass:
  "RequirePermission resource action r = Inr r' \<longleftrightarrow>
     r' = r \<and> (\<exists>claims. rq_claims r = Some claims \<and> gw_Can (gc_Persona claims) resource action)"
  by (auto simp: RequirePermission_def ClaimsFromContext_def split: option.splits)

lemma proxyTo_claims: "proxyTo up p r = (host, r') \<Longrightarrow> host = up_host up \<and> rq_claims r' = rq_claims r"
  by (auto simp: proxyTo_def Let_def)

lemma serveMount_forward:
  assumes "serveMount cfg p r = Forwarded host r'"
  shows "\<exists>m \<in> set (mounts cfg). host = up_host (mt_upstream m) \<and> rq_claims r' = rq_claims r \<and>
     (case mt_permission m of None \<Rightarrow> True
      | Some (resource, action) \<Rightarrow>
          (\<exists>claims. rq_claims r = Some claims \<and> gw_Can (gc_Persona claims) resource action))"
proof -
  obtain m where m: "find (\<lambda>m. mt_pattern m = p) (mounts cfg) = Some m"
    using assms by (auto simp: serveMount_def split: option.splits)
  then have "m \<in> set (mounts cfg)" by (auto simp: find_Some_iff)
  moreover have "host = up_host (mt_upstream m) \<and> rq_claims r' = rq_claims r"
    using assms m by (auto simp: serveMount_def withPermission_def Let_def RequirePermission_pass
        split: option.splits prod.splits sum.splits dest!: proxyTo_claims)
  moreover have "case mt_permission m of None \<Rightarrow> True
      | Some (resource, action) \<Rightarrow>
          (\<exists>claims. rq_claims r = Some claims \<and> gw_Can (gc_Persona claims) resource action)"
    using assms m by (auto simp: serveMount_def withPermission_def Let_def RequirePermission_pass
        split: option.splits prod.splits sum.splits)
  ultimately show ?thesis by blast
qed

lemma api_v1_forward:
  assumes "api_v1 chi cfg verify env r v = (Forwarded host r', v')"
  obtains r1 p where "Authenticate verify env r v = (Inr r1, v')"
    "serveMount cfg p r1 = Forwarded host r'"
  using assms by (auto simp: api_v1_def split: prod.splits sum.splits sub_route.splits)

lemma Build_forward:
  assumes "Build chi cfg verify rl run env r v s = (Forwarded host r', v', s')"
  shows "api_v1 chi cfg verify env (chi_pre chi r) v = (Forwarded host r', v')"
  using assms
  by (auto simp: Build_def corsMiddleware_def split: sum.splits prod.splits top_route.splits if_splits
      dest!: RateLimit_pass)

lemma rl_key_tier_anonymous:
  "rq_claims r = None \<Longrightarrow> rl_key_tier r = (''ratelimit:ip:'' @ remoteIP r, TierStandard)"
  by (simp add: rl_key_tier_def ClaimsFromContext_def)

lemma limitFor_standard: "limitFor rl TierStandard = rl_standard rl"
  by (simp add: limitFor_def TierStandard_def TierEnterprise_def TierIntegration_def)

lemma RateLimit_anonymous:
  assumes "rq_claims r = None" and "rl_standard rl = rl_standard rl'"
    and "run (''ratelimit:ip:'' @ remoteIP r) (rl_standard rl) s =
         run' (''ratelimit:ip:'' @ remoteIP r) (rl_standard rl) s"
  shows "RateLimit rl run r s = RateLimit rl' run' r s"
  using assms by (simp add: RateLimit_def rl_key_tier_anonymous limitFor_standard)

section \<open>Properties\<close>

text \<open>
  C29. Everything the gateway forwards is authenticated and authorised: the request carries a
  Bearer token the library verified under a key of the JWKS cache, its claims are the ones the
  upstream request is tagged with, and where the mount names a permission the identity
  service's matrix grants it to the token's persona.
\<close>

theorem gateway_forwards_only_authorised:
  assumes "Build chi cfg (jwks_VerifyToken hdr ver) rl run env r v s = (Forwarded host r', v', s')"
    and "rq_Authorization (chi_pre chi r) = rq_Authorization r"
  shows "\<exists>scheme tok claims k m. rq_Authorization r = scheme @ CHR 0x20 # tok \<and>
     EqualFold scheme ''bearer'' \<and> k \<in> snd ` set (jv_keys v') \<and> ver tok k = Some (claims, True) \<and>
     rq_claims r' = Some claims \<and> m \<in> set (mounts cfg) \<and> host = up_host (mt_upstream m) \<and>
     (case mt_permission m of None \<Rightarrow> True
      | Some (resource, action) \<Rightarrow> Can (gc_Persona claims) resource action)"
proof -
  obtain r1 p where auth: "Authenticate (jwks_VerifyToken hdr ver) env (chi_pre chi r) v = (Inr r1, v')"
    and serve: "serveMount cfg p r1 = Forwarded host r'"
    using api_v1_forward [OF Build_forward [OF assms(1)]] by blast
  obtain scheme tok claims k where tok: "rq_Authorization r = scheme @ CHR 0x20 # tok"
    "EqualFold scheme ''bearer''" and r1: "r1 = (chi_pre chi r)\<lparr> rq_claims := Some claims \<rparr>"
    and key: "k \<in> snd ` set (jv_keys v')" "ver tok k = Some (claims, True)"
    using jwks.Authenticate_sound [OF auth] assms(2) by metis
  obtain m where m: "m \<in> set (mounts cfg)" "host = up_host (mt_upstream m)"
    "rq_claims r' = Some claims" and need: "case mt_permission m of None \<Rightarrow> True
      | Some (resource, action) \<Rightarrow>
          (\<exists>c. rq_claims r1 = Some c \<and> gw_Can (gc_Persona c) resource action)"
    using serveMount_forward [OF serve] r1 by auto
  have "case mt_permission m of None \<Rightarrow> True
      | Some (resource, action) \<Rightarrow> Can (gc_Persona claims) resource action"
    using need r1 by (simp add: gw_Can_iff_Can split: option.splits prod.splits)
  with tok key m show ?thesis by blast
qed

text \<open>
  The per-organisation rate limits are never applied. \<open>RateLimit\<close> is installed before
  \<open>Authenticate\<close>, so it never sees claims: whatever the token, the gateway's answer does not
  depend on the enterprise and integration limits, nor on what the limiter would say for any
  key but the caller's address with the standard limit.
\<close>

theorem gateway_never_limits_by_org:
  assumes "rq_claims (chi_pre chi r) = None" and "rl_standard rl = rl_standard rl'"
    and "run (''ratelimit:ip:'' @ remoteIP (chi_pre chi r)) (rl_standard rl) s =
         run' (''ratelimit:ip:'' @ remoteIP (chi_pre chi r)) (rl_standard rl) s"
  shows "Build chi cfg verify rl run env r v s = Build chi cfg verify rl' run' env r v s"
proof -
  have "RateLimit rl run (chi_pre chi r) s = RateLimit rl' run' (chi_pre chi r) s"
    using assms by (rule RateLimit_anonymous)
  then show ?thesis by (auto simp: Build_def corsMiddleware_def)
qed

text \<open>
  The gateway checks the read permission for every method: a beta tester's write to the
  engagement service (any method but OPTIONS) is forwarded, though the matrix grants beta
  testers no write.
\<close>

theorem gateway_forwards_unauthorised_write:
  assumes "chi_top chi (rq_Method r) (rq_Path r) = TopApi" and "chi_pre chi r = r"
    and "chi_sub chi (map mt_pattern (mounts cfg)) (rq_Method r) (rq_Path r) =
           SubMount ''/engagements''"
    and "rq_Method r \<noteq> ''OPTIONS''" and "run (fst (rl_key_tier r)) (limitFor rl (snd (rl_key_tier r))) s = (None, s1)"
    and "rq_Authorization r = ''Bearer '' @ tok"
    and "verify env tok v = (Inr claims, v1)" and "gc_Persona claims = PersonaBetaTester"
  shows "(\<exists>r'. Build chi cfg verify rl run env r v s =
            (Forwarded (up_host (sv_Engagement cfg)) r', v1, s1)) \<and>
     \<not> Can (gc_Persona claims) ResourceEngagement ActionWrite"
proof -
  have "SplitN2 (CHR 0x20) (rq_Authorization r) = [''Bearer'', tok]"
    using SplitN2_append [of "CHR 0x20" "''Bearer''" tok] assms(6) by simp
  moreover have "EqualFold ''Bearer'' ''bearer''" by code_simp
  ultimately have auth: "Authenticate verify env r v = (Inr (r\<lparr> rq_claims := Some claims \<rparr>), v1)"
    using assms(6,7) by (simp add: Authenticate_def Let_def)
  have "gw_Can (gc_Persona claims) ''engagement'' ''read''"
    using Can_beta_tester [of "''engagement''" "''read''"] assms(8) by (simp add: gw_Can_iff_Can)
  then have "\<exists>r'. serveMount cfg ''/engagements'' (r\<lparr> rq_claims := Some claims \<rparr>) =
      Forwarded (up_host (sv_Engagement cfg)) r'"
    by (simp add: serveMount_def mounts_def mount_def withPermission_def RequirePermission_def
        ClaimsFromContext_def proxyTo_def Let_def)
  with auth assms(1-5) have "\<exists>r'. Build chi cfg verify rl run env r v s =
            (Forwarded (up_host (sv_Engagement cfg)) r', v1, s1)"
    by (auto simp: Build_def corsMiddleware_def RateLimit_def api_v1_def Let_def split: prod.splits)
  then show ?thesis using assms(8) by (simp add: Can_beta_tester ResourceEngagement_def ActionWrite_def)
qed

text \<open>Anonymous requests served one after the other, each with its own clock reading.\<close>

fun serve_limited ::
  "'z zset_ops \<Rightarrow> RateLimiter \<Rightarrow> (nat \<times> nat \<times> http_request) list \<Rightarrow> (string \<Rightarrow> 'z) \<Rightarrow> bool list" where
  "serve_limited ops rl [] st = []"
| "serve_limited ops rl ((now, rnd, r) # rs) st =
     (case RateLimit rl (redis_run ops now rnd) r st of
        ((_, d), st1) \<Rightarrow> (case d of Inr _ \<Rightarrow> True | Inl _ \<Rightarrow> False) # serve_limited ops rl rs st1)"

lemma redis_run_fresh:
  assumes "zset_ok ops mem due" and "st key = zo_empty ops" and "0 < limit"
  shows "\<exists>res. redis_run ops now rnd key limit st = (Some res, st(key := snd (limiterScript ops now rnd rl_window limit (st key)))) \<and> rr_allowed res = 1"
proof -
  have empty: "mem (zo_empty ops) = Map.empty" "due (zo_empty ops) = None"
    using assms(1) by (simp_all add: zset_ok_def)
  have "mem (zo_at ops t (zo_empty ops)) = Map.empty" for t
    using zset_at [OF assms(1), of t "zo_empty ops"] by (simp add: empty)
  then have "mem (zo_remrangebyscore ops c (zo_at ops t (zo_empty ops))) m = None" for c t m
    using remrange_mem [OF assms(1), of c "zo_at ops t (zo_empty ops)" m]
    by (cases "mem (zo_remrangebyscore ops c (zo_at ops t (zo_empty ops))) m") auto
  then have "mem (zo_remrangebyscore ops c (zo_at ops t (zo_empty ops))) = Map.empty" for c t by blast
  then have "zo_card ops (zo_remrangebyscore ops c (zo_at ops t (zo_empty ops))) = 0" for c t
    using assms(1) unfolding zset_ok_def by (metis card.empty dom_empty)
  with assms(2,3) show ?thesis
    by (auto simp: redis_run_def limiterScript_def Let_def)
qed

lemma serve_limited_fresh:
  assumes "zset_ok ops mem due" and "0 < rl_standard rl"
    and "list_all (\<lambda>(_, _, r). rq_claims r = None) rs"
    and "distinct (map (\<lambda>(_, _, r). remoteIP r) rs)"
    and "\<forall>(_, _, r) \<in> set rs. st (''ratelimit:ip:'' @ remoteIP r) = zo_empty ops"
  shows "serve_limited ops rl rs st = replicate (length rs) True"
  using assms
proof (induction rs arbitrary: st)
  case Nil
  then show ?case by simp
next
  case (Cons q rs)
  obtain now rnd r where q: "q = (now, rnd, r)" by (cases q) auto
  let ?key = "''ratelimit:ip:'' @ remoteIP r"
  obtain res z where run: "redis_run ops now rnd ?key (rl_standard rl) st = (Some res, st(?key := z))"
    and "rr_allowed res = 1"
    using redis_run_fresh [OF Cons.prems(1) _ Cons.prems(2), of st ?key now rnd] Cons.prems(5) q by auto
  moreover have "serve_limited ops rl rs (st(?key := z)) = replicate (length rs) True"
    using Cons.prems q by (intro Cons.IH) (auto simp: image_iff split: prod.splits)
  ultimately show ?case
    using Cons.prems(3) q
    by (simp add: RateLimit_def rl_key_tier_anonymous limitFor_standard Let_def)
qed

text \<open>
  The limiter can be bypassed by whoever sets the request headers: its key for an
  anonymous request is the first X-Forwarded-For entry, so a client that sends a new value
  with every request is always admitted, however many it sends.
\<close>

theorem rate_limit_spoofed_address:
  assumes "zset_ok ops mem due" and "0 < rl_standard rl"
    and "distinct xs" and "list_all (\<lambda>x. x \<noteq> '''' \<and> CHR '','' \<notin> set x) xs"
    and "rq_claims r = None"
  shows "serve_limited ops rl (map (\<lambda>x. (now, rnd, r\<lparr> rq_XForwardedFor := x \<rparr>)) xs)
       (\<lambda>_. zo_empty ops) = replicate (length xs) True"
proof -
  have ip: "remoteIP (r\<lparr> rq_XForwardedFor := x \<rparr>) = x" if "x \<in> set xs" for x
  proof -
    have "x \<noteq> []" "CHR '','' \<notin> set x" using that assms(4) by (auto simp: list_all_iff)
    then show ?thesis
      by (cases "cut (CHR '','') x", cases "snd (cut (CHR '','') x)")
        (auto simp: remoteIP_def dest: cut_None cut_Some)
  qed
  have "map (\<lambda>(_, _, r). remoteIP r) (map (\<lambda>x. (now, rnd, r\<lparr> rq_XForwardedFor := x \<rparr>)) xs) = xs"
    using ip by (induction xs) simp_all
  then show ?thesis
    using serve_limited_fresh [OF assms(1,2), of "map (\<lambda>x. (now, rnd, r\<lparr> rq_XForwardedFor := x \<rparr>)) xs" "\<lambda>_. zo_empty ops"]
      assms(3,5) by (auto simp: list_all_iff)
qed

section \<open>Witnesses\<close>

definition ex_up :: "string \<Rightarrow> upstream" where
  "ex_up h = \<lparr> up_host = h, up_path = '''' \<rparr>"

definition ex_services :: ServiceConfig where
  "ex_services = \<lparr> sv_Identity = ex_up ''identity'', sv_Controls = ex_up ''controls'',
     sv_Evidence = ex_up ''evidence'', sv_Engagement = ex_up ''engagement'',
     sv_Integration = ex_up ''integration'', sv_AuditTrail = ex_up ''audit'',
     sv_Reporting = ex_up ''reporting'', sv_Webhooks = ex_up ''webhooks'' \<rparr>"

text \<open>A matcher for the paths of the witnesses: the first pattern that is a prefix.\<close>

definition ex_chi :: "('v, 's) chi" where
  "ex_chi = \<lparr> chi_pre = (\<lambda>r. r),
     chi_top = (\<lambda>_ p. if HasPrefix p ''/api/v1'' then TopApi else TopNone),
     chi_sub = (\<lambda>ps _ p. case find (\<lambda>q. HasPrefix p (''/api/v1'' @ q)) ps of
                  Some q \<Rightarrow> SubMount q | None \<Rightarrow> SubNone) \<rparr>"

definition ex_claims :: GatewayClaims where
  "ex_claims = \<lparr> gc_OrgID = ''org-1'', gc_Email = '''', gc_DisplayName = '''',
     gc_Persona = PersonaBetaTester, gc_OrgTier = ''enterprise'' \<rparr>"

definition ex_req :: http_request where
  "ex_req = \<lparr> rq_Method = ''POST'', rq_Path = ''/api/v1/engagements/e1'',
     rq_Authorization = ''Bearer t'', rq_XForwardedFor = '''', rq_XRealIP = '''',
     rq_RemoteAddr = ''10.0.0.1:99'', rq_claims = None \<rparr>"

definition ex_env :: verify_env where
  "ex_env = \<lparr> ve_now = 5, ve_fetched = 5, ve_jwks = None \<rparr>"

definition ex_jwks :: JWKSVerifier where
  "ex_jwks = \<lparr> jv_cacheTTL = 60 * second, jv_keys = [(''k'', \<lparr> rk_N = 15, rk_E = 3 \<rparr>)],
     jv_fetchedAt = 0 \<rparr>"

definition ex_hdr :: jwt_headers where
  "ex_hdr tok = Some \<lparr> jh_rsa = True, jh_kid = ''k'' \<rparr>"

definition ex_ver :: jwt_checker where
  "ex_ver tok k = (if tok = ''t'' then Some (ex_claims, True) else None)"

definition ex_limits :: RateLimiter where
  "ex_limits = \<lparr> rl_standard = 200, rl_enterprise = 1000, rl_integration = 5000 \<rparr>"

definition ex_run :: "string \<Rightarrow> int \<Rightarrow> unit \<Rightarrow> rl_result option \<times> unit" where
  "ex_run key limit s = (None, ())"

lemma ex_verify:
  "jwks_VerifyToken ex_hdr ex_ver ex_env ''t'' ex_jwks = (Inr ex_claims, ex_jwks)"
  by (simp add: jwks_VerifyToken_def ex_hdr_def getKey_def ex_env_def ex_jwks_def ex_ver_def
      finish_token_def time_Sub_def sat64_def second_def min_int64_def max_int64_def)

lemma ex_sub:
  "chi_sub ex_chi (map mt_pattern (mounts cfg)) m (rq_Path ex_req) = SubMount ''/engagements''"
  by (simp add: ex_chi_def mounts_def mount_def ex_req_def HasPrefix_def)

theorem gateway_forwards_unauthorised_write_witness:
  "\<exists>r'. Build ex_chi ex_services (jwks_VerifyToken ex_hdr ex_ver) ex_limits ex_run ex_env ex_req
       ex_jwks () = (Forwarded ''engagement'' r', ex_jwks, ())"
  using gateway_forwards_unauthorised_write
    [of ex_chi ex_req ex_services ex_run ex_limits "()" "()" "''t''"
        "jwks_VerifyToken ex_hdr ex_ver" ex_env ex_jwks ex_claims ex_jwks]
  by (simp add: ex_sub ex_verify ex_run_def ex_claims_def ex_services_def ex_up_def)
    (simp add: ex_chi_def ex_req_def HasPrefix_def)

lemma ex_forwarded:
  "\<exists>r'. Build ex_chi ex_services (jwks_VerifyToken ex_hdr ex_ver) ex_limits ex_run ex_env ex_req
       ex_jwks () = (Forwarded ''engagement'' r', ex_jwks, ())"
proof -
  have "SplitN2 (CHR 0x20) (rq_Authorization ex_req) = [''Bearer'', ''t'']"
    by (simp add: SplitN2_def ex_req_def)
  moreover have "EqualFold ''Bearer'' ''bearer''" by code_simp
  ultimately have auth: "Authenticate (jwks_VerifyToken ex_hdr ex_ver) ex_env ex_req ex_jwks =
      (Inr (ex_req\<lparr> rq_claims := Some ex_claims \<rparr>), ex_jwks)"
    using ex_verify by (simp add: Authenticate_def Let_def) (simp add: ex_req_def)
  have "gw_Can (gc_Persona ex_claims) ''engagement'' ''read''"
    by (simp add: gw_Can_iff_Can Can_beta_tester ex_claims_def)
  then have "\<exists>r'. serveMount ex_services ''/engagements'' (ex_req\<lparr> rq_claims := Some ex_claims \<rparr>) =
      Forwarded ''engagement'' r'"
    by (simp add: serveMount_def mounts_def mount_def withPermission_def RequirePermission_def
        ClaimsFromContext_def proxyTo_def Let_def ex_services_def ex_up_def)
  moreover have "chi_pre ex_chi ex_req = ex_req" "rq_Method ex_req \<noteq> ''OPTIONS''"
    "chi_top ex_chi (rq_Method ex_req) (rq_Path ex_req) = TopApi"
    by (simp_all add: ex_chi_def ex_req_def HasPrefix_def)
  ultimately show ?thesis
    using auth ex_sub
    by (auto simp: Build_def corsMiddleware_def RateLimit_def api_v1_def Let_def ex_run_def
        split: prod.splits)
qed

theorem gateway_forwards_only_authorised_witness:
  "\<exists>scheme tok claims k m. rq_Authorization ex_req = scheme @ CHR 0x20 # tok \<and>
     EqualFold scheme ''bearer'' \<and> k \<in> snd ` set (jv_keys ex_jwks) \<and>
     ex_ver tok k = Some (claims, True) \<and> m \<in> set (mounts ex_services) \<and>
     ''engagement'' = up_host (mt_upstream m)"
proof -
  obtain r' where run: "Build ex_chi ex_services (jwks_VerifyToken ex_hdr ex_ver) ex_limits ex_run
      ex_env ex_req ex_jwks () = (Forwarded ''engagement'' r', ex_jwks, ())"
    using ex_forwarded by blast
  have "rq_Authorization (chi_pre ex_chi ex_req) = rq_Authorization ex_req"
    by (simp add: ex_chi_def)
  from gateway_forwards_only_authorised [OF run this] show ?thesis
    by (elim exE conjE) (intro exI conjI, assumption+)
qed

theorem gateway_never_limits_by_org_witness:
  "Build ex_chi ex_services (jwks_VerifyToken ex_hdr ex_ver) ex_limits ex_run ex_env ex_req ex_jwks () =
   Build ex_chi ex_services (jwks_VerifyToken ex_hdr ex_ver)
     (ex_limits\<lparr> rl_enterprise := 0, rl_integration := 0 \<rparr>) ex_run ex_env ex_req ex_jwks ()"
  by (rule gateway_never_limits_by_org) (simp_all add: ex_chi_def ex_req_def)

theorem rate_limit_spoofed_address_witness:
  "serve_limited fm_ops (ex_limits\<lparr> rl_standard := 1 \<rparr>)
     (map (\<lambda>x. (0, 7, ex_req\<lparr> rq_XForwardedFor := x \<rparr>)) [''a'', ''b'', ''c'']) (\<lambda>_. zo_empty fm_ops) =
   replicate (length [''a'', ''b'', ''c'']) True"
  by (rule rate_limit_spoofed_address [OF fm_ops_ok]) (simp_all add: ex_limits_def ex_req_def)

end
