(* ===== verification/Breaker.thy ===== *)
theory Breaker
  imports Prelude
begin

text \<open>
  What the three circuit breakers of the repository have in common: the state enumeration,
  the abstract breaker that a sequential client sees (a call is admitted or rejected, and the
  outcome of an admitted call moves the breaker), and the interface \<open>breaker\<close> every
  implementation interprets. A call begins at \<open>t1\<close>, and its outcome is recorded at \<open>t2\<close>.

  The lemmas about runs of calls (trips after exactly \<open>threshold\<close> consecutive failures, fails
  fast while open, recovers on a successful probe) are proved once, on the abstract breaker,
  and carried to the implementations by \<open>run_refines\<close>.
\<close>

section \<open>States\<close>

datatype State = StateClosed | StateOpen | StateHalfOpen

fun State_String :: "State \<Rightarrow> string" where
  "State_String StateClosed = ''closed''"
| "State_String StateOpen = ''open''"
| "State_String StateHalfOpen = ''half-open''"

instantiation State :: linorder
begin

fun State_iota :: "State \<Rightarrow> int" where
  "State_iota StateClosed = 0"
| "State_iota StateOpen = 1"
| "State_iota StateHalfOpen = 2"

definition less_eq_State :: "State \<Rightarrow> State \<Rightarrow> bool" where
  "less_eq_State a b \<longleftrightarrow> State_iota a \<le> State_iota b"

definition less_State :: "State \<Rightarrow> State \<Rightarrow> bool" where
  "less_State a b \<longleftrightarrow> State_iota a < State_iota b"

lemma State_iota_inj: "State_iota a = State_iota b \<Longrightarrow> a = b"
  by (cases a; cases b) auto

instance
  by intro_classes (auto simp: less_eq_State_def less_State_def intro: State_iota_inj)

end

section \<open>The abstract breaker\<close>

record abs_breaker =
  ab_state :: State
  ab_fails :: int
  ab_openedAt :: gotime

record abs_config =
  ac_threshold :: int
  ac_timeout :: duration

record call =
  ca_begin :: gotime
  ca_end :: gotime
  ca_ok :: bool

definition abs_recovering :: "abs_config \<Rightarrow> abs_breaker \<Rightarrow> gotime \<Rightarrow> bool" where
  "abs_recovering c b t \<longleftrightarrow>
     ab_state b = StateOpen \<and> ac_timeout c \<le> time_Sub t (ab_openedAt b)"

definition abs_call :: "abs_config \<Rightarrow> abs_breaker \<Rightarrow> call \<Rightarrow> bool \<times> abs_breaker" where
  "abs_call c b k =
     (let st = (if abs_recovering c b (ca_begin k) then StateHalfOpen else ab_state b)
      in if st = StateOpen then (False, b)
         else if ca_ok k then (True, b\<lparr> ab_state := StateClosed, ab_fails := 0 \<rparr>)
         else if st = StateHalfOpen \<or> ac_threshold c \<le> ab_fails b + 1
         then (True, b\<lparr> ab_state := StateOpen, ab_fails := ab_fails b + 1,
                        ab_openedAt := ca_end k \<rparr>)
         else (True, b\<lparr> ab_fails := ab_fails b + 1 \<rparr>))"

fun abs_run :: "abs_config \<Rightarrow> abs_breaker \<Rightarrow> call list \<Rightarrow> bool list \<times> abs_breaker" where
  "abs_run c b [] = ([], b)"
| "abs_run c b (k # ks) =
     (let (a, b1) = abs_call c b k; (as, b2) = abs_run c b1 ks in (a # as, b2))"

definition abs_fresh :: abs_breaker where
  "abs_fresh = \<lparr> ab_state = StateClosed, ab_fails = 0, ab_openedAt = zero_time \<rparr>"

lemma abs_closed_failures:
  assumes "ab_state b = StateClosed" and "list_all (\<lambda>k. \<not> ca_ok k) ks"
    and "ab_fails b + int (length ks) < ac_threshold c"
  shows "abs_run c b ks =
     (replicate (length ks) True, b\<lparr> ab_fails := ab_fails b + int (length ks) \<rparr>)"
  using assms
proof (induction ks arbitrary: b)
  case Nil
  then show ?case by simp
next
  case (Cons k ks)
  have "abs_call c b k = (True, b\<lparr> ab_fails := ab_fails b + 1 \<rparr>)"
    using Cons.prems by (auto simp: abs_call_def abs_recovering_def Let_def)
  moreover have "abs_run c (b\<lparr> ab_fails := ab_fails b + 1 \<rparr>) ks =
     (replicate (length ks) True, b\<lparr> ab_fails := ab_fails b + 1 + int (length ks) \<rparr>)"
    using Cons.prems Cons.IH [of "b\<lparr> ab_fails := ab_fails b + 1 \<rparr>"] by simp
  ultimately show ?case by (simp add: algebra_simps)
qed

lemma abs_run_append:
  "abs_run c b (xs @ ys) =
     (let (as, b1) = abs_run c b xs; (as', b2) = abs_run c b1 ys in (as @ as', b2))"
  by (induction xs arbitrary: b) (auto simp: Let_def split: prod.split)

lemma abs_trip:
  assumes "ab_state b = StateClosed" and "ab_fails b = 0" and "list_all (\<lambda>k. \<not> ca_ok k) ks"
    and "int (length ks) + 1 = ac_threshold c" and "\<not> ca_ok k"
  shows "abs_run c b (ks @ [k]) =
     (replicate (length ks + 1) True,
      b\<lparr> ab_state := StateOpen, ab_fails := ac_threshold c, ab_openedAt := ca_end k \<rparr>)"
  using abs_closed_failures [OF assms(1,3), of c] assms
  by (auto simp: abs_run_append abs_call_def abs_recovering_def Let_def replicate_append_same
      algebra_simps)

lemma abs_open_rejects:
  assumes "ab_state b = StateOpen"
    and "list_all (\<lambda>k. time_Sub (ca_begin k) (ab_openedAt b) < ac_timeout c) ks"
  shows "abs_run c b ks = (replicate (length ks) False, b)"
  using assms(2)
  by (induction ks) (use assms(1) in \<open>auto simp: abs_call_def abs_recovering_def Let_def\<close>)

lemma abs_trip_rejects:
  assumes "ab_state b = StateClosed" and "ab_fails b = 0"
    and "list_all (\<lambda>k. \<not> ca_ok k) (ks @ [k])" and "int (length ks) + 1 = ac_threshold c"
    and "list_all (\<lambda>j. time_Sub (ca_begin j) (ca_end k) < ac_timeout c) late"
  shows "abs_run c b (ks @ [k] @ late) =
     (replicate (length ks + 1) True @ replicate (length late) False,
      b\<lparr> ab_state := StateOpen, ab_fails := ac_threshold c, ab_openedAt := ca_end k \<rparr>)"
proof -
  let ?b' = "b\<lparr> ab_state := StateOpen, ab_fails := ac_threshold c, ab_openedAt := ca_end k \<rparr>"
  have 1: "abs_run c b (ks @ [k]) = (replicate (length ks + 1) True, ?b')"
    using assms by (intro abs_trip) simp_all
  have 2: "abs_run c ?b' late = (replicate (length late) False, ?b')"
    using assms(5) by (intro abs_open_rejects) simp_all
  show ?thesis
    using abs_run_append [of c b "ks @ [k]" late, unfolded 1 2 Let_def prod.case] by simp
qed

lemma abs_probe:
  assumes "ab_state b = StateOpen" and "ac_timeout c \<le> time_Sub (ca_begin k) (ab_openedAt b)"
  shows "abs_call c b k =
     (True, if ca_ok k then b\<lparr> ab_state := StateClosed, ab_fails := 0 \<rparr>
            else b\<lparr> ab_state := StateOpen, ab_fails := ab_fails b + 1,
                    ab_openedAt := ca_end k \<rparr>)"
  using assms by (auto simp: abs_call_def abs_recovering_def Let_def)

lemma abs_fails_bound: "ab_fails (snd (abs_call c b k)) \<le> max 0 (ab_fails b + 1)"
  by (auto simp: abs_call_def Let_def)

section \<open>The interface\<close>

text \<open>
  \<open>call\<close> is one sequential call of the implementation, \<open>view\<close> what it shows of the abstract
  breaker and \<open>inv\<close> its invariant. The failure counter is a 64-bit integer, so the
  correspondence is promised while it is below its maximum.
\<close>

locale breaker =
  fixes call :: "'b \<Rightarrow> call \<Rightarrow> bool \<times> 'b"
    and view :: "'b \<Rightarrow> abs_breaker"
    and config :: "'b \<Rightarrow> abs_config"
    and inv :: "'b \<Rightarrow> bool"
  assumes call_refines: "inv b \<Longrightarrow> ab_fails (view b) < max_int64 \<Longrightarrow>
       call b k = (a, b') \<Longrightarrow> abs_call (config b) (view b) k = (a, view b')"
    and call_inv: "inv b \<Longrightarrow> ab_fails (view b) < max_int64 \<Longrightarrow> call b k = (a, b') \<Longrightarrow> inv b'"
    and call_config: "call b k = (a, b') \<Longrightarrow> config b' = config b"
begin

fun run :: "'b \<Rightarrow> call list \<Rightarrow> bool list \<times> 'b" where
  "run b [] = ([], b)"
| "run b (k # ks) = (let (a, b1) = call b k; (as, b2) = run b1 ks in (a # as, b2))"

lemma run_refines:
  assumes "inv b" and "max 0 (ab_fails (view b)) + int (length ks) < max_int64"
    and "run b ks = (as, b')"
  shows "abs_run (config b) (view b) ks = (as, view b') \<and> inv b' \<and> config b' = config b"
  using assms
proof (induction ks arbitrary: b as b')
  case Nil
  then show ?case by simp
next
  case (Cons k ks)
  obtain a b1 where k: "call b k = (a, b1)" by fastforce
  obtain as1 b2 where ks: "run b1 ks = (as1, b2)" by fastforce
  have lt: "ab_fails (view b) < max_int64" using Cons.prems(2) by simp
  note abs = call_refines [OF Cons.prems(1) lt k]
  have "max 0 (ab_fails (view b1)) + int (length ks) < max_int64"
    using abs_fails_bound [of "config b" "view b" k] abs Cons.prems(2) by simp
  with Cons.IH [OF call_inv [OF Cons.prems(1) lt k] _ ks] abs call_config [OF k] Cons.prems(3) k ks
  show ?case by simp
qed

lemma run_trips:
  assumes "inv b" and "ab_state (view b) = StateClosed" and "ab_fails (view b) = 0"
    and "list_all (\<lambda>k. \<not> ca_ok k) (ks @ [k])"
    and "int (length ks) + 1 = ac_threshold (config b)"
    and "list_all (\<lambda>j. time_Sub (ca_begin j) (ca_end k) < ac_timeout (config b)) late"
    and "ac_threshold (config b) < max_int64 - int (length late)"
  shows "\<exists>b'. run b (ks @ [k] @ late) =
       (replicate (length ks + 1) True @ replicate (length late) False, b') \<and>
     view b' = (view b)\<lparr> ab_state := StateOpen, ab_fails := ac_threshold (config b),
                         ab_openedAt := ca_end k \<rparr>"
proof -
  obtain as b' where run: "run b (ks @ [k] @ late) = (as, b')" by fastforce
  have "abs_run (config b) (view b) (ks @ [k] @ late) = (as, view b')"
    using run_refines [OF assms(1) _ run] assms(3,5,7) by simp
  with abs_trip_rejects [OF assms(2,3,4,5,6)] run show ?thesis by (metis prod.inject)
qed

lemma run_cons_probe:
  assumes "inv b" and "0 \<le> ab_fails (view b)" and "ab_fails (view b) + 1 < max_int64"
    and "ab_state (view b) = StateOpen"
    and "ac_timeout (config b) \<le> time_Sub (ca_begin k) (ab_openedAt (view b))"
  shows "\<exists>b'. run b [k] = ([True], b') \<and>
     ab_state (view b') = (if ca_ok k then StateClosed else StateOpen) \<and>
     ab_fails (view b') = (if ca_ok k then 0 else ab_fails (view b) + 1)"
proof -
  obtain as b' where run: "run b [k] = (as, b')" by fastforce
  have "abs_run (config b) (view b) [k] = (as, view b')"
    using run_refines [OF assms(1) _ run] assms(2,3) by simp
  moreover note abs_probe [OF assms(4,5)]
  ultimately have "as = [True]" and "view b' =
     (if ca_ok k then (view b)\<lparr> ab_state := StateClosed, ab_fails := 0 \<rparr>
      else (view b)\<lparr> ab_state := StateOpen, ab_fails := ab_fails (view b) + 1,
                      ab_openedAt := ca_end k \<rparr>)"
    by (auto split: prod.splits)
  with run show ?thesis by auto
qed

end

end
