(* ===== verification/SdkBreaker.thy ===== *)
theory SdkBreaker
  imports Breaker
begin

text \<open>
  The Connector SDK's circuit breaker (sdk/connector/circuit/breaker.go). \<open>Allow\<close> and \<open>Record\<close>
  are separate operations, so a client can interleave them: the event system \<open>br_step\<close> has
  one event for each. \<open>br_notified\<close> lists the \<open>OnStateChange\<close> callbacks fired (each in its own
  goroutine in the code), \<open>bc_OnStateChange\<close> says whether the callback is set. The clock is an
  argument. The mutex makes every operation one step.
\<close>

section \<open>Data and operations\<close>

record Config =
  bc_FailureThreshold :: int
  bc_RecoveryTimeout :: duration
  bc_OnStateChange :: bool

definition DefaultConfig :: Config where
  "DefaultConfig = \<lparr> bc_FailureThreshold = 5, bc_RecoveryTimeout = 30 * second,
     bc_OnStateChange = False \<rparr>"

record Breaker =
  br_cfg :: Config
  br_state :: State
  br_consecutiveFails :: int
  br_openedAt :: gotime
  br_halfOpenInFlight :: bool
  br_notified :: "(State \<times> State) list"

datatype allow_error = ErrOpen | ErrOpenFor duration

definition br_New :: "Config \<Rightarrow> Breaker" where
  "br_New cfg =
     (let cfg1 = (if bc_FailureThreshold cfg \<le> 0 then cfg\<lparr> bc_FailureThreshold := 5 \<rparr> else cfg);
          cfg2 = (if bc_RecoveryTimeout cfg1 \<le> 0
                  then cfg1\<lparr> bc_RecoveryTimeout := 30 * second \<rparr> else cfg1)
      in \<lparr> br_cfg = cfg2, br_state = StateClosed, br_consecutiveFails = 0,
           br_openedAt = zero_time, br_halfOpenInFlight = False, br_notified = [] \<rparr>)"

definition br_transition :: "State \<Rightarrow> Breaker \<Rightarrow> Breaker" where
  "br_transition nxt b =
     (let prev = br_state b; b1 = b\<lparr> br_state := nxt \<rparr>
      in if bc_OnStateChange (br_cfg b) \<and> prev \<noteq> nxt
         then b1\<lparr> br_notified := br_notified b1 @ [(prev, nxt)] \<rparr> else b1)"

definition br_maybeTransitionToHalfOpen :: "gotime \<Rightarrow> Breaker \<Rightarrow> Breaker" where
  "br_maybeTransitionToHalfOpen now b =
     (if br_state b = StateOpen \<and>
         bc_RecoveryTimeout (br_cfg b) \<le> time_Sub now (br_openedAt b)
      then br_transition StateHalfOpen b else b)"

definition br_Allow :: "gotime \<Rightarrow> Breaker \<Rightarrow> allow_error option \<times> Breaker" where
  "br_Allow now b =
     (let b1 = br_maybeTransitionToHalfOpen now b
      in case br_state b1 of
           StateOpen \<Rightarrow>
             (Some (ErrOpenFor (wrap64 (bc_RecoveryTimeout (br_cfg b1)
                                        - time_Sub now (br_openedAt b1)))), b1)
         | StateHalfOpen \<Rightarrow>
             if br_halfOpenInFlight b1 then (Some ErrOpen, b1)
             else (None, b1\<lparr> br_halfOpenInFlight := True \<rparr>)
         | StateClosed \<Rightarrow> (None, b1))"

definition br_Record :: "gotime \<Rightarrow> bool \<Rightarrow> Breaker \<Rightarrow> Breaker" where
  "br_Record now ok b =
     (if ok then
        let b1 = (if br_state b \<noteq> StateClosed then br_transition StateClosed b else b)
        in b1\<lparr> br_consecutiveFails := 0, br_halfOpenInFlight := False \<rparr>
      else
        let b1 = b\<lparr> br_halfOpenInFlight := False,
                    br_consecutiveFails := wrap64 (br_consecutiveFails b + 1) \<rparr>
        in if br_state b1 = StateHalfOpen \<or>
              (br_state b1 = StateClosed \<and>
               bc_FailureThreshold (br_cfg b1) \<le> br_consecutiveFails b1)
           then (br_transition StateOpen b1)\<lparr> br_openedAt := now \<rparr>
           else b1)"

text \<open>
  \<open>Do\<close>: the function runs between \<open>t1\<close> and \<open>t2\<close> and returns \<open>err\<close> (None for success). The
  result is the error \<open>Do\<close> returns.
\<close>

definition br_Do ::
  "gotime \<Rightarrow> gotime \<Rightarrow> 'e option \<Rightarrow> Breaker \<Rightarrow> (allow_error + 'e) option \<times> Breaker" where
  "br_Do t1 t2 err b =
     (case br_Allow t1 b of
        (Some e, b1) \<Rightarrow> (Some (Inl e), b1)
      | (None, b1) \<Rightarrow> (map_option Inr err, br_Record t2 (err = None) b1))"

definition br_State :: "gotime \<Rightarrow> Breaker \<Rightarrow> State \<times> Breaker" where
  "br_State now b = (let b1 = br_maybeTransitionToHalfOpen now b in (br_state b1, b1))"

definition br_ConsecutiveFailures :: "Breaker \<Rightarrow> int" where
  "br_ConsecutiveFailures b = br_consecutiveFails b"

section \<open>Events and the invariant\<close>

datatype br_event = EvAllow gotime | EvRecord gotime bool | EvState gotime

fun br_step :: "Breaker \<Rightarrow> br_event \<Rightarrow> Breaker" where
  "br_step b (EvAllow now) = snd (br_Allow now b)"
| "br_step b (EvRecord now ok) = br_Record now ok b"
| "br_step b (EvState now) = snd (br_State now b)"

inductive br_reachable :: "Breaker \<Rightarrow> bool" where
  new: "bc_FailureThreshold cfg \<le> max_int64 \<Longrightarrow> br_reachable (br_New cfg)"
| step: "br_reachable b \<Longrightarrow> br_reachable (br_step b ev)"

definition br_inv :: "Breaker \<Rightarrow> bool" where
  "br_inv b \<longleftrightarrow>
     0 < bc_FailureThreshold (br_cfg b) \<and> bc_FailureThreshold (br_cfg b) \<le> max_int64 \<and>
     0 < bc_RecoveryTimeout (br_cfg b) \<and>
     (br_state b = StateClosed \<longrightarrow>
        0 \<le> br_consecutiveFails b \<and> br_consecutiveFails b < bc_FailureThreshold (br_cfg b)) \<and>
     (br_halfOpenInFlight b \<longrightarrow> br_state b = StateHalfOpen)"

lemma br_transition_sel [simp]:
  "br_state (br_transition nxt b) = nxt"
  "br_cfg (br_transition nxt b) = br_cfg b"
  "br_consecutiveFails (br_transition nxt b) = br_consecutiveFails b"
  "br_openedAt (br_transition nxt b) = br_openedAt b"
  "br_halfOpenInFlight (br_transition nxt b) = br_halfOpenInFlight b"
  by (simp_all add: br_transition_def Let_def)

lemma br_maybe_sel [simp]:
  "br_cfg (br_maybeTransitionToHalfOpen now b) = br_cfg b"
  "br_consecutiveFails (br_maybeTransitionToHalfOpen now b) = br_consecutiveFails b"
  "br_openedAt (br_maybeTransitionToHalfOpen now b) = br_openedAt b"
  "br_halfOpenInFlight (br_maybeTransitionToHalfOpen now b) = br_halfOpenInFlight b"
  by (simp_all add: br_maybeTransitionToHalfOpen_def)

lemma br_New_inv: "bc_FailureThreshold cfg \<le> max_int64 \<Longrightarrow> br_inv (br_New cfg)"
  by (simp add: br_New_def br_inv_def Let_def second_def max_int64_def)

lemma br_maybe_inv: "br_inv b \<Longrightarrow> br_inv (br_maybeTransitionToHalfOpen now b)"
  by (auto simp: br_inv_def br_maybeTransitionToHalfOpen_def)

lemma br_Allow_inv: "br_inv b \<Longrightarrow> br_inv (snd (br_Allow now b))"
  using br_maybe_inv [of b now]
  by (auto simp: br_Allow_def Let_def br_inv_def split: State.split)

lemma br_Record_inv: "br_inv b \<Longrightarrow> br_inv (br_Record now ok b)"
  by (cases "br_state b")
    (auto simp: br_inv_def br_Record_def Let_def wrap64_id min_int64_def max_int64_def)

lemma br_step_inv: "br_inv b \<Longrightarrow> br_inv (br_step b ev)"
  by (cases ev) (auto simp: br_Allow_inv br_Record_inv br_State_def Let_def br_maybe_inv)

lemma br_reachable_inv: "br_reachable b \<Longrightarrow> br_inv b"
  by (induction rule: br_reachable.induct) (auto simp: br_New_inv br_step_inv)

section \<open>Sequential calls implement the abstract breaker\<close>

definition sdk_call :: "Breaker \<Rightarrow> call \<Rightarrow> bool \<times> Breaker" where
  "sdk_call b k =
     (case br_Do (ca_begin k) (ca_end k) (if ca_ok k then None else Some ()) b of
        (r, b') \<Rightarrow> (case r of Some (Inl _) \<Rightarrow> False | _ \<Rightarrow> True, b'))"

definition sdk_view :: "Breaker \<Rightarrow> abs_breaker" where
  "sdk_view b = \<lparr> ab_state = br_state b, ab_fails = br_consecutiveFails b,
                  ab_openedAt = br_openedAt b \<rparr>"

definition sdk_config :: "Breaker \<Rightarrow> abs_config" where
  "sdk_config b = \<lparr> ac_threshold = bc_FailureThreshold (br_cfg b),
                    ac_timeout = bc_RecoveryTimeout (br_cfg b) \<rparr>"

definition sdk_inv :: "Breaker \<Rightarrow> bool" where
  "sdk_inv b \<longleftrightarrow> br_inv b \<and> \<not> br_halfOpenInFlight b \<and> min_int64 \<le> br_consecutiveFails b"

lemma br_Record_sel [simp]:
  "br_cfg (br_Record now ok b) = br_cfg b"
  "br_halfOpenInFlight (br_Record now ok b) = False"
  by (simp_all add: br_Record_def Let_def)

lemma br_Allow_cfg [simp]: "br_cfg (snd (br_Allow now b)) = br_cfg b"
  by (simp add: br_Allow_def Let_def split: State.split)

lemma br_Record_fails: "min_int64 \<le> br_consecutiveFails b \<Longrightarrow> min_int64 \<le> br_consecutiveFails (br_Record now ok b)"
  using wrap64_range by (simp add: br_Record_def Let_def min_int64_def)

lemma br_Allow_sel [simp]:
  "br_consecutiveFails (snd (br_Allow now b)) = br_consecutiveFails b"
  "br_openedAt (snd (br_Allow now b)) = br_openedAt b"
  by (simp_all add: br_Allow_def Let_def split: State.split)

lemma sdk_call_split:
  "sdk_call b k =
     (case br_Allow (ca_begin k) b of
        (Some e, b1) \<Rightarrow> (False, b1)
      | (None, b1) \<Rightarrow> (True, br_Record (ca_end k) (ca_ok k) b1))"
  by (auto simp: sdk_call_def br_Do_def split: option.split prod.split)

lemma br_Allow_rejects:
  "br_state b = StateOpen \<Longrightarrow> time_Sub now (br_openedAt b) < bc_RecoveryTimeout (br_cfg b) \<Longrightarrow>
   br_Allow now b =
     (Some (ErrOpenFor (wrap64 (bc_RecoveryTimeout (br_cfg b) - time_Sub now (br_openedAt b)))), b)"
  by (simp add: br_Allow_def br_maybeTransitionToHalfOpen_def Let_def)

lemma br_Allow_closed: "br_state b = StateClosed \<Longrightarrow> br_Allow now b = (None, b)"
  by (simp add: br_Allow_def br_maybeTransitionToHalfOpen_def Let_def)

lemma br_Allow_half:
  "br_state b = StateHalfOpen \<Longrightarrow>
   br_Allow now b = (if br_halfOpenInFlight b then (Some ErrOpen, b)
                     else (None, b\<lparr> br_halfOpenInFlight := True \<rparr>))"
  by (simp add: br_Allow_def br_maybeTransitionToHalfOpen_def Let_def)

lemma br_Allow_recovers:
  "br_state b = StateOpen \<Longrightarrow> bc_RecoveryTimeout (br_cfg b) \<le> time_Sub now (br_openedAt b) \<Longrightarrow>
   \<not> br_halfOpenInFlight b \<Longrightarrow>
   br_Allow now b = (None, (br_transition StateHalfOpen b)\<lparr> br_halfOpenInFlight := True \<rparr>)"
  by (simp add: br_Allow_def br_maybeTransitionToHalfOpen_def Let_def)

lemmas br_Allow_cases = br_Allow_rejects br_Allow_closed br_Allow_half br_Allow_recovers

lemma sdk_refines:
  assumes "sdk_inv b" and "br_consecutiveFails b < max_int64" and "sdk_call b k = (a, b')"
  shows "abs_call (sdk_config b) (sdk_view b) k = (a, sdk_view b')"
proof -
  have nowrap: "wrap64 (br_consecutiveFails b + 1) = br_consecutiveFails b + 1"
    using assms(1,2) by (intro wrap64_id) (auto simp: sdk_inv_def)
  have idle: "\<not> br_halfOpenInFlight b" using assms(1) by (simp add: sdk_inv_def)
  show ?thesis
  proof (cases "br_state b")
    case StateClosed
    with assms(3) nowrap show ?thesis
      by (auto simp: sdk_call_split br_Allow_cases abs_call_def abs_recovering_def sdk_view_def
          sdk_config_def br_Record_def Let_def)
  next
    case StateHalfOpen
    with assms(3) nowrap idle show ?thesis
      by (auto simp: sdk_call_split br_Allow_cases abs_call_def abs_recovering_def sdk_view_def
          sdk_config_def br_Record_def Let_def)
  next
    case StateOpen
    then show ?thesis
    proof (cases "bc_RecoveryTimeout (br_cfg b) \<le> time_Sub (ca_begin k) (br_openedAt b)")
      case True
      with StateOpen assms(3) nowrap idle show ?thesis
        by (auto simp: sdk_call_split br_Allow_cases abs_call_def abs_recovering_def sdk_view_def
            sdk_config_def br_Record_def Let_def)
    next
      case False
      with StateOpen assms(3) show ?thesis
        by (auto simp: sdk_call_split br_Allow_cases abs_call_def abs_recovering_def sdk_view_def
            sdk_config_def)
    qed
  qed
qed

lemma sdk_call_inv:
  assumes "sdk_inv b" and "sdk_call b k = (a, b')"
  shows "sdk_inv b'"
proof (cases "br_Allow (ca_begin k) b")
  case (Pair e b1)
  have b1: "br_inv b1" "br_consecutiveFails b1 = br_consecutiveFails b"
    using br_Allow_inv [of b "ca_begin k"] br_Allow_sel(1) [of "ca_begin k" b] assms(1) Pair
    by (auto simp: sdk_inv_def)
  show ?thesis
  proof (cases e)
    case None
    with assms(2) Pair have "b' = br_Record (ca_end k) (ca_ok k) b1" by (simp add: sdk_call_split)
    with b1 assms(1) show ?thesis
      by (simp add: sdk_inv_def br_Record_inv br_Record_fails)
  next
    case (Some err)
    with assms(2) Pair have "b' = b1" by (simp add: sdk_call_split)
    moreover have "\<not> br_halfOpenInFlight b1"
      using Pair Some assms(1)
      by (auto simp: br_Allow_def Let_def sdk_inv_def split: State.splits if_splits)
    ultimately show ?thesis using b1 assms(1) by (simp add: sdk_inv_def)
  qed
qed

lemma sdk_call_config:
  assumes "sdk_call b k = (a, b')"
  shows "sdk_config b' = sdk_config b"
proof (cases "br_Allow (ca_begin k) b")
  case (Pair e b1)
  then have "br_cfg b1 = br_cfg b" using br_Allow_cfg by (metis snd_conv)
  with assms Pair show ?thesis
    by (cases e) (auto simp: sdk_call_split sdk_config_def)
qed

interpretation sdk: breaker sdk_call sdk_view sdk_config sdk_inv
proof unfold_locales
  fix b k a b'
  show "sdk_inv b \<Longrightarrow> ab_fails (sdk_view b) < max_int64 \<Longrightarrow> sdk_call b k = (a, b') \<Longrightarrow>
      abs_call (sdk_config b) (sdk_view b) k = (a, sdk_view b')"
    by (rule sdk_refines) (simp_all add: sdk_view_def)
  show "sdk_inv b \<Longrightarrow> sdk_call b k = (a, b') \<Longrightarrow> sdk_inv b'"
    by (rule sdk_call_inv)
  show "sdk_call b k = (a, b') \<Longrightarrow> sdk_config b' = sdk_config b"
    by (rule sdk_call_config)
qed

section \<open>Properties\<close>

text \<open>
  In every breaker a client can reach, by any interleaving of \<open>Allow\<close>, \<open>Record\<close> and
  \<open>State\<close>, the failure count of a closed circuit is below the threshold and the probe flag
  is set only in the half-open state.
\<close>

theorem sdk_breaker_invariant:
  "br_reachable b \<Longrightarrow>
     (br_state b \<noteq> StateClosed \<or>
        (0 \<le> br_consecutiveFails b \<and>
         br_consecutiveFails b < bc_FailureThreshold (br_cfg b))) \<and>
     (if br_halfOpenInFlight b then br_state b = StateHalfOpen else True)"
  using br_reachable_inv [of b] by (auto simp: br_inv_def)

text \<open>
  A new breaker trips after exactly \<open>FailureThreshold\<close> consecutive failing calls: all of
  them are admitted, the last one opens the circuit, and every call that begins before the
  recovery timeout has elapsed is rejected without changing the breaker.
\<close>

theorem sdk_breaker_trips:
  assumes "bc_FailureThreshold (br_cfg (br_New cfg)) < max_int64 - int (length late)"
    and "int (length ks) + 1 = bc_FailureThreshold (br_cfg (br_New cfg))"
    and "list_all (\<lambda>c. \<not> ca_ok c) (ks @ [k])"
    and "list_all (\<lambda>c. time_Sub (ca_begin c) (ca_end k) < bc_RecoveryTimeout (br_cfg (br_New cfg))) late"
  shows "\<exists>b. sdk.run (br_New cfg) (ks @ [k] @ late) =
       (replicate (length ks + 1) True @ replicate (length late) False, b) \<and>
     br_state b = StateOpen \<and> br_openedAt b = ca_end k \<and>
     br_consecutiveFails b = bc_FailureThreshold (br_cfg (br_New cfg))"
proof -
  have "sdk_inv (br_New cfg)"
    using assms(1) br_New_inv [of cfg]
    by (auto simp: sdk_inv_def br_New_def Let_def max_int64_def min_int64_def split: if_splits)
  moreover have "ab_state (sdk_view (br_New cfg)) = StateClosed" "ab_fails (sdk_view (br_New cfg)) = 0"
    by (simp_all add: sdk_view_def br_New_def Let_def)
  ultimately obtain b where run: "sdk.run (br_New cfg) (ks @ [k] @ late) =
       (replicate (length ks + 1) True @ replicate (length late) False, b)"
    and view: "sdk_view b = (sdk_view (br_New cfg))\<lparr> ab_state := StateOpen,
       ab_fails := bc_FailureThreshold (br_cfg (br_New cfg)), ab_openedAt := ca_end k \<rparr>"
    using sdk.run_trips [of "br_New cfg" ks k late] assms by (auto simp: sdk_config_def)
  moreover have "br_state b = ab_state (sdk_view b)" "br_openedAt b = ab_openedAt (sdk_view b)"
    "br_consecutiveFails b = ab_fails (sdk_view b)"
    by (simp_all add: sdk_view_def)
  ultimately show ?thesis by (intro exI [of _ b]) simp
qed

text \<open>
  One probe at a time: once a half-open breaker has admitted a request, every further
  \<open>Allow\<close> is refused and changes nothing until some outcome is recorded.
\<close>

theorem sdk_breaker_single_probe:
  assumes "br_Allow t b = (None, b1)" and "br_state b1 = StateHalfOpen"
  shows "foldl br_step b1 (map EvAllow ts) = b1 \<and> br_Allow t' b1 = (Some ErrOpen, b1)"
proof -
  have "br_halfOpenInFlight b1"
    using assms by (auto simp: br_Allow_def Let_def split: State.splits if_splits)
  then have stuck: "br_Allow u b1 = (Some ErrOpen, b1)" for u
    using assms(2) by (simp add: br_Allow_half)
  then have "foldl br_step b1 (map EvAllow ts) = b1" by (induction ts) simp_all
  with stuck show ?thesis by simp
qed

text \<open>
  Recovery: in every reachable open breaker, the first request after the recovery timeout
  is admitted as the probe; its success closes the circuit with a zero count, its failure
  opens it again from that moment.
\<close>

theorem sdk_breaker_recovers:
  assumes "br_reachable b" and "br_state b = StateOpen"
    and "bc_RecoveryTimeout (br_cfg b) \<le> time_Sub t (br_openedAt b)"
  shows "\<exists>b1. br_Allow t b = (None, b1) \<and> br_state b1 = StateHalfOpen \<and>
     br_state (br_Record t2 True b1) = StateClosed \<and>
     br_consecutiveFails (br_Record t2 True b1) = 0 \<and>
     br_state (br_Record t2 False b1) = StateOpen \<and>
     br_openedAt (br_Record t2 False b1) = t2"
proof -
  have "\<not> br_halfOpenInFlight b"
    using br_reachable_inv [OF assms(1)] assms(2) by (auto simp: br_inv_def)
  with assms(2,3) show ?thesis
    by (simp add: br_Allow_recovers br_Record_def Let_def)
qed

text \<open>
  A success recorded while the circuit is open closes it at once, before the recovery
  timeout and without a probe: such a request was admitted before the circuit opened. The
  package comment lists no transition from open to closed.
\<close>

theorem sdk_breaker_open_to_closed:
  "\<exists>b. br_reachable b \<and> br_state b = StateOpen \<and>
     time_Sub 2 (br_openedAt b) < bc_RecoveryTimeout (br_cfg b) \<and>
     br_state (br_Record 2 True b) = StateClosed"
proof -
  let ?cfg = "\<lparr> bc_FailureThreshold = 1, bc_RecoveryTimeout = 30 * second,
                bc_OnStateChange = False \<rparr>"
  let ?b = "br_step (br_step (br_step (br_New ?cfg) (EvAllow 0)) (EvAllow 0)) (EvRecord 1 False)"
  have "br_reachable (br_New ?cfg)" by (rule br_reachable.new) (simp add: max_int64_def)
  then have "br_reachable ?b" by (intro br_reachable.step)
  moreover have "br_state ?b = StateOpen" "br_openedAt ?b = 1"
      "bc_RecoveryTimeout (br_cfg ?b) = 30 * second"
      "br_state (br_Record 2 True ?b) = StateClosed"
    by (simp_all add: br_New_def br_Allow_closed br_Record_def Let_def wrap64_def second_def)
  ultimately show ?thesis
    by (intro exI [of _ ?b])
      (simp add: time_Sub_def sat64_def second_def min_int64_def max_int64_def)
qed

section \<open>Witnesses\<close>

definition ex_failed_once :: Breaker where
  "ex_failed_once = br_step (br_step (br_New DefaultConfig) (EvAllow 0)) (EvRecord 1 False)"

lemma ex_failed_once_reachable: "br_reachable ex_failed_once"
  unfolding ex_failed_once_def
  by (intro br_reachable.intros) (simp_all add: DefaultConfig_def max_int64_def br_New_def
      br_Allow_closed wrap64_def)

lemma ex_failed_once_state: "br_state ex_failed_once = StateClosed"
  by (simp add: ex_failed_once_def DefaultConfig_def br_New_def br_Allow_closed br_Record_def Let_def
      wrap64_def)

theorem sdk_breaker_invariant_witness:
  "br_consecutiveFails ex_failed_once \<in>
     {0 ..< bc_FailureThreshold (br_cfg ex_failed_once)} \<and> \<not> br_halfOpenInFlight ex_failed_once"
  using sdk_breaker_invariant [OF ex_failed_once_reachable] ex_failed_once_state
  by (auto split: if_splits)

definition ex_cfg :: Config where
  "ex_cfg = \<lparr> bc_FailureThreshold = 1, bc_RecoveryTimeout = 10, bc_OnStateChange = True \<rparr>"

definition ex_open :: Breaker where
  "ex_open = br_step (br_step (br_New ex_cfg) (EvAllow 0)) (EvRecord 1 False)"

definition ex_fail :: call where
  "ex_fail = \<lparr> ca_begin = 0, ca_end = 1, ca_ok = False \<rparr>"

lemma ex_open_eval:
  "br_state ex_open = StateOpen" "br_openedAt ex_open = 1" "br_cfg ex_open = ex_cfg"
  "br_halfOpenInFlight ex_open = False"
  by (simp_all add: ex_open_def ex_cfg_def br_New_def br_Allow_closed br_Record_def Let_def
      wrap64_def)

lemma ex_open_reachable: "br_reachable ex_open"
  unfolding ex_open_def
  by (intro br_reachable.step br_reachable.new) (simp add: ex_cfg_def max_int64_def)

theorem sdk_breaker_trips_witness:
  "\<exists>b. sdk.run (br_New ex_cfg) ([] @ [ex_fail] @ [ex_fail]) =
       (replicate (length ([] :: call list) + 1) True @ replicate (length [ex_fail]) False, b) \<and>
     br_state b = StateOpen \<and> br_openedAt b = ca_end ex_fail \<and>
     br_consecutiveFails b = bc_FailureThreshold (br_cfg (br_New ex_cfg))"
  by (rule sdk_breaker_trips)
    (simp_all add: br_New_def ex_cfg_def ex_fail_def Let_def max_int64_def min_int64_def
      time_Sub_def sat64_def)

theorem sdk_breaker_single_probe_witness:
  "case snd (br_Allow 11 ex_open) of b1 \<Rightarrow>
     foldl br_step b1 (map EvAllow [12, 13]) = b1 \<and> br_Allow 14 b1 = (Some ErrOpen, b1)"
  using sdk_breaker_single_probe [of 11 ex_open "snd (br_Allow 11 ex_open)" "[12, 13]" 14]
  by (simp add: br_Allow_recovers ex_open_eval ex_cfg_def time_Sub_def sat64_def min_int64_def
      max_int64_def)

theorem sdk_breaker_recovers_witness:
  "\<exists>b1. br_Allow 11 ex_open = (None, b1) \<and> br_state b1 = StateHalfOpen \<and>
     br_state (br_Record 12 True b1) = StateClosed \<and>
     br_consecutiveFails (br_Record 12 True b1) = 0 \<and>
     br_state (br_Record 12 False b1) = StateOpen \<and>
     br_openedAt (br_Record 12 False b1) = 12"
  by (rule sdk_breaker_recovers)
    (simp_all add: ex_open_reachable ex_open_eval ex_cfg_def time_Sub_def sat64_def min_int64_def
      max_int64_def)

end
