(* ===== verification/IntegrationBreaker.thy ===== *)
theory IntegrationBreaker
  imports SdkBreaker
begin

text \<open>
  The circuit breakers of the integration service: \<open>CircuitBreaker\<close> around a SIEM connector
  (services/integration/internal/connector/circuit_breaker.go) and \<open>IAMCircuitBreaker\<close> around
  an IAM connector (services/integration/internal/iam/circuit_breaker.go). The wrapped
  connector's answers are arguments of \<open>cb_FetchLogs\<close>, \<open>icb_Sync\<close> and the \<open>Health\<close> functions.
  The mutex is released while the connector runs, so admission and \<open>record\<close> are separate
  steps and calls interleave: \<open>cb_step\<close> has one event for each.

  Both breakers interpret \<open>breaker\<close>, the IAM one is the SIEM one under a renaming of fields,
  and for sequential clients the SIEM one and the Connector SDK's admit the same calls.
\<close>

section \<open>The SIEM connector's breaker\<close>

record CircuitBreakerConfig =
  cbc_FailureThreshold :: int
  cbc_RecoveryTimeout :: duration

definition cb_DefaultConfig :: CircuitBreakerConfig where
  "cb_DefaultConfig = \<lparr> cbc_FailureThreshold = 5, cbc_RecoveryTimeout = 30 * second \<rparr>"

record CircuitBreaker =
  cb_config :: CircuitBreakerConfig
  cb_state :: State
  cb_consecutiveFails :: int
  cb_openedAt :: gotime

record HealthStatus =
  hs_Healthy :: bool
  hs_Connector :: string
  hs_LastChecked :: gotime
  hs_Message :: string

datatype 'e call_error = ErrCircuitOpen | InnerError 'e

definition NewCircuitBreaker :: "CircuitBreakerConfig \<Rightarrow> CircuitBreaker" where
  "NewCircuitBreaker cfg = \<lparr> cb_config = cfg, cb_state = StateClosed,
     cb_consecutiveFails = 0, cb_openedAt = zero_time \<rparr>"

definition cb_maybeHalfOpen :: "gotime \<Rightarrow> CircuitBreaker \<Rightarrow> CircuitBreaker" where
  "cb_maybeHalfOpen now cb =
     (if cb_state cb = StateOpen \<and>
         cbc_RecoveryTimeout (cb_config cb) \<le> time_Sub now (cb_openedAt cb)
      then cb\<lparr> cb_state := StateHalfOpen \<rparr> else cb)"

definition CircuitState :: "gotime \<Rightarrow> CircuitBreaker \<Rightarrow> State \<times> CircuitBreaker" where
  "CircuitState now cb = (let cb1 = cb_maybeHalfOpen now cb in (cb_state cb1, cb1))"

definition cb_ConsecutiveFailures :: "CircuitBreaker \<Rightarrow> int" where
  "cb_ConsecutiveFailures cb = cb_consecutiveFails cb"

definition cb_record :: "gotime \<Rightarrow> bool \<Rightarrow> CircuitBreaker \<Rightarrow> CircuitBreaker" where
  "cb_record now ok cb =
     (if ok then cb\<lparr> cb_consecutiveFails := 0, cb_state := StateClosed \<rparr>
      else let cb1 = cb\<lparr> cb_consecutiveFails := wrap64 (cb_consecutiveFails cb + 1) \<rparr>
           in if cbc_FailureThreshold (cb_config cb1) \<le> cb_consecutiveFails cb1 \<and>
                 cb_state cb1 \<noteq> StateOpen
              then cb1\<lparr> cb_state := StateOpen, cb_openedAt := now \<rparr> else cb1)"

text \<open>
  \<open>FetchLogs\<close>: the connector runs between \<open>t1\<close> and \<open>t2\<close> and returns \<open>entries\<close> and \<open>err\<close>. The
  first component of the answer is what the caller gets, \<open>[]\<close> standing for nil.
\<close>

definition cb_admit :: "gotime \<Rightarrow> CircuitBreaker \<Rightarrow> bool \<times> CircuitBreaker" where
  "cb_admit now cb = (let cb1 = cb_maybeHalfOpen now cb in (cb_state cb1 \<noteq> StateOpen, cb1))"

definition cb_FetchLogs ::
  "gotime \<Rightarrow> gotime \<Rightarrow> 'l list \<times> 'e option \<Rightarrow> CircuitBreaker \<Rightarrow>
   ('l list \<times> 'e call_error option) \<times> CircuitBreaker" where
  "cb_FetchLogs t1 t2 inner cb =
     (case cb_admit t1 cb of
        (False, cb1) \<Rightarrow> (([], Some ErrCircuitOpen), cb1)
      | (True, cb1) \<Rightarrow>
          (case inner of (entries, err) \<Rightarrow>
             ((entries, map_option InnerError err), cb_record t2 (err = None) cb1)))"

definition cb_Health :: "gotime \<Rightarrow> HealthStatus \<Rightarrow> CircuitBreaker \<Rightarrow> HealthStatus \<times> CircuitBreaker" where
  "cb_Health now status cb =
     (let cb1 = cb_maybeHalfOpen now cb; st = cb_state cb1
      in (if st \<noteq> StateClosed
          then status\<lparr> hs_Message := ''circuit '' @ State_String st @ ''; '' @ hs_Message status \<rparr>
          else status, cb1))"

section \<open>The IAM connector's breaker\<close>

record IAMCircuitBreaker =
  icb_config :: CircuitBreakerConfig
  icb_state :: State
  icb_consecutiveFails :: int
  icb_openedAt :: gotime

definition NewIAMCircuitBreaker :: "CircuitBreakerConfig \<Rightarrow> IAMCircuitBreaker" where
  "NewIAMCircuitBreaker cfg = \<lparr> icb_config = cfg, icb_state = StateClosed,
     icb_consecutiveFails = 0, icb_openedAt = zero_time \<rparr>"

definition icb_maybeHalfOpen :: "gotime \<Rightarrow> IAMCircuitBreaker \<Rightarrow> IAMCircuitBreaker" where
  "icb_maybeHalfOpen now cb =
     (if icb_state cb = StateOpen \<and>
         cbc_RecoveryTimeout (icb_config cb) \<le> time_Sub now (icb_openedAt cb)
      then cb\<lparr> icb_state := StateHalfOpen \<rparr> else cb)"

definition icb_CircuitState :: "gotime \<Rightarrow> IAMCircuitBreaker \<Rightarrow> State \<times> IAMCircuitBreaker" where
  "icb_CircuitState now cb = (let cb1 = icb_maybeHalfOpen now cb in (icb_state cb1, cb1))"

definition icb_ConsecutiveFailures :: "IAMCircuitBreaker \<Rightarrow> int" where
  "icb_ConsecutiveFailures cb = icb_consecutiveFails cb"

definition icb_record :: "gotime \<Rightarrow> bool \<Rightarrow> IAMCircuitBreaker \<Rightarrow> IAMCircuitBreaker" where
  "icb_record now ok cb =
     (if ok then cb\<lparr> icb_consecutiveFails := 0, icb_state := StateClosed \<rparr>
      else let cb1 = cb\<lparr> icb_consecutiveFails := wrap64 (icb_consecutiveFails cb + 1) \<rparr>
           in if cbc_FailureThreshold (icb_config cb1) \<le> icb_consecutiveFails cb1 \<and>
                 icb_state cb1 \<noteq> StateOpen
              then cb1\<lparr> icb_state := StateOpen, icb_openedAt := now \<rparr> else cb1)"

text \<open>\<open>Sync\<close> returns a pointer to a snapshot: \<open>None\<close> is nil.\<close>

definition icb_Sync ::
  "gotime \<Rightarrow> gotime \<Rightarrow> 's option \<times> 'e option \<Rightarrow> IAMCircuitBreaker \<Rightarrow>
   ('s option \<times> 'e call_error option) \<times> IAMCircuitBreaker" where
  "icb_Sync t1 t2 inner cb =
     (let cb1 = icb_maybeHalfOpen t1 cb
      in if icb_state cb1 = StateOpen then ((None, Some ErrCircuitOpen), cb1)
         else case inner of (snap, err) \<Rightarrow>
                ((snap, map_option InnerError err), icb_record t2 (err = None) cb1))"

definition icb_Health ::
  "gotime \<Rightarrow> HealthStatus \<Rightarrow> IAMCircuitBreaker \<Rightarrow> HealthStatus \<times> IAMCircuitBreaker" where
  "icb_Health now status cb =
     (let cb1 = icb_maybeHalfOpen now cb; st = icb_state cb1
      in (if st \<noteq> StateClosed
          then status\<lparr> hs_Message := ''circuit '' @ State_String st @ ''; '' @ hs_Message status \<rparr>
          else status, cb1))"

section \<open>Interleaved events and the invariant\<close>

datatype cb_event = CbAdmit gotime | CbRecord gotime bool | CbState gotime

fun cb_step :: "CircuitBreaker \<Rightarrow> cb_event \<Rightarrow> CircuitBreaker" where
  "cb_step cb (CbAdmit now) = snd (cb_admit now cb)"
| "cb_step cb (CbRecord now ok) = cb_record now ok cb"
| "cb_step cb (CbState now) = snd (CircuitState now cb)"

definition cb_inv :: "CircuitBreaker \<Rightarrow> bool" where
  "cb_inv cb \<longleftrightarrow> 0 \<le> cb_consecutiveFails cb \<and>
     (cb_state cb \<noteq> StateClosed \<longrightarrow>
        cbc_FailureThreshold (cb_config cb) \<le> cb_consecutiveFails cb) \<and>
     (cb_state cb = StateClosed \<longrightarrow>
        cb_consecutiveFails cb < cbc_FailureThreshold (cb_config cb) \<or> cb_consecutiveFails cb = 0)"

lemma cb_maybe_sel [simp]:
  "cb_config (cb_maybeHalfOpen now cb) = cb_config cb"
  "cb_consecutiveFails (cb_maybeHalfOpen now cb) = cb_consecutiveFails cb"
  "cb_openedAt (cb_maybeHalfOpen now cb) = cb_openedAt cb"
  by (simp_all add: cb_maybeHalfOpen_def)

lemma cb_maybe_state:
  "cb_state (cb_maybeHalfOpen now cb) =
     (if cb_state cb = StateOpen \<and>
         cbc_RecoveryTimeout (cb_config cb) \<le> time_Sub now (cb_openedAt cb)
      then StateHalfOpen else cb_state cb)"
  by (simp add: cb_maybeHalfOpen_def)

lemma cb_maybe_inv [simp]: "cb_inv (cb_maybeHalfOpen now cb) = cb_inv cb"
  by (auto simp: cb_inv_def cb_maybe_state)

lemma cb_record_inv:
  assumes "cb_inv cb" and "cb_consecutiveFails cb < max_int64"
  shows "cb_inv (cb_record now ok cb)"
  using assms by (auto simp: cb_inv_def cb_record_def Let_def wrap64_id min_int64_def)

lemma cb_record_fails:
  assumes "cb_inv cb" and "cb_consecutiveFails cb < max_int64"
  shows "cb_consecutiveFails (cb_record now ok cb) \<le> cb_consecutiveFails cb + 1"
  using assms by (auto simp: cb_inv_def cb_record_def Let_def wrap64_id min_int64_def)

lemma cb_step_inv:
  assumes "cb_inv cb" and "cb_consecutiveFails cb < max_int64"
  shows "cb_inv (cb_step cb ev) \<and>
     cb_consecutiveFails (cb_step cb ev) \<le> cb_consecutiveFails cb + 1 \<and>
     cb_config (cb_step cb ev) = cb_config cb"
  using assms cb_record_inv [OF assms] cb_record_fails [OF assms]
  by (cases ev) (simp_all add: cb_admit_def CircuitState_def Let_def cb_record_def)

lemma cb_run_inv:
  assumes "cb_inv cb" and "cb_consecutiveFails cb + int (length evs) \<le> max_int64"
  shows "cb_inv (foldl cb_step cb evs) \<and> cb_config (foldl cb_step cb evs) = cb_config cb"
  using assms
proof (induction evs arbitrary: cb)
  case Nil
  then show ?case by simp
next
  case (Cons ev evs)
  then show ?case
    using cb_step_inv [of cb ev] by simp
qed

lemma cb_New_inv: "cb_inv (NewCircuitBreaker cfg)"
  by (simp add: cb_inv_def NewCircuitBreaker_def)

section \<open>Both implement the abstract breaker\<close>

definition cb_call :: "CircuitBreaker \<Rightarrow> call \<Rightarrow> bool \<times> CircuitBreaker" where
  "cb_call cb k =
     (case cb_FetchLogs (ca_begin k) (ca_end k) ([]::unit list, if ca_ok k then None else Some ()) cb
      of ((_, e), cb') \<Rightarrow> (e \<noteq> Some ErrCircuitOpen, cb'))"

definition cb_view :: "CircuitBreaker \<Rightarrow> abs_breaker" where
  "cb_view cb = \<lparr> ab_state = cb_state cb, ab_fails = cb_consecutiveFails cb,
                  ab_openedAt = cb_openedAt cb \<rparr>"

definition cb_cfg :: "CircuitBreaker \<Rightarrow> abs_config" where
  "cb_cfg cb = \<lparr> ac_threshold = cbc_FailureThreshold (cb_config cb),
                 ac_timeout = cbc_RecoveryTimeout (cb_config cb) \<rparr>"

lemma cb_call_eq:
  "cb_call cb k =
     (let cb1 = cb_maybeHalfOpen (ca_begin k) cb
      in if cb_state cb1 = StateOpen then (False, cb1)
         else (True, cb_record (ca_end k) (ca_ok k) cb1))"
  by (auto simp: cb_call_def cb_FetchLogs_def cb_admit_def Let_def)

lemma cb_record_sel [simp]: "cb_config (cb_record now ok cb) = cb_config cb"
  by (simp add: cb_record_def Let_def)

interpretation siem: breaker cb_call cb_view cb_cfg cb_inv
proof unfold_locales
  fix cb k a cb'
  assume call: "cb_call cb k = (a, cb')"
  then show "cb_cfg cb' = cb_cfg cb"
    by (auto simp: cb_call_eq Let_def cb_cfg_def split: if_splits)
  assume inv: "cb_inv cb" and "ab_fails (cb_view cb) < max_int64"
  then have lt: "cb_consecutiveFails cb < max_int64" by (simp add: cb_view_def)
  with call inv show "cb_inv cb'"
    by (auto simp: cb_call_eq Let_def cb_record_inv split: if_splits)
  have "wrap64 (cb_consecutiveFails cb + 1) = cb_consecutiveFails cb + 1"
    using inv lt by (intro wrap64_id) (auto simp: cb_inv_def min_int64_def)
  with call inv show "abs_call (cb_cfg cb) (cb_view cb) k = (a, cb_view cb')"
    by (cases "cb_state cb")
      (auto simp: cb_call_eq abs_call_def abs_recovering_def cb_cfg_def cb_view_def
        cb_maybeHalfOpen_def cb_record_def Let_def cb_inv_def split: if_splits)
qed

definition icb_as_cb :: "IAMCircuitBreaker \<Rightarrow> CircuitBreaker" where
  "icb_as_cb cb = \<lparr> cb_config = icb_config cb, cb_state = icb_state cb,
     cb_consecutiveFails = icb_consecutiveFails cb, cb_openedAt = icb_openedAt cb \<rparr>"

lemma icb_as_cb_sel [simp]:
  "cb_config (icb_as_cb cb) = icb_config cb"
  "cb_state (icb_as_cb cb) = icb_state cb"
  "cb_consecutiveFails (icb_as_cb cb) = icb_consecutiveFails cb"
  "cb_openedAt (icb_as_cb cb) = icb_openedAt cb"
  by (simp_all add: icb_as_cb_def)

lemma icb_as_cb_maybe:
  "icb_as_cb (icb_maybeHalfOpen now cb) = cb_maybeHalfOpen now (icb_as_cb cb)"
  by (simp add: icb_maybeHalfOpen_def cb_maybeHalfOpen_def icb_as_cb_def)

lemma icb_as_cb_record:
  "icb_as_cb (icb_record now ok cb) = cb_record now ok (icb_as_cb cb)"
  by (simp add: icb_record_def cb_record_def Let_def icb_as_cb_def)

definition icb_call :: "IAMCircuitBreaker \<Rightarrow> call \<Rightarrow> bool \<times> IAMCircuitBreaker" where
  "icb_call cb k =
     (case icb_Sync (ca_begin k) (ca_end k) (None :: unit option, if ca_ok k then None else Some ()) cb
      of ((_, e), cb') \<Rightarrow> (e \<noteq> Some ErrCircuitOpen, cb'))"

lemma icb_maybe_state: "icb_state (icb_maybeHalfOpen now cb) = cb_state (cb_maybeHalfOpen now (icb_as_cb cb))"
  using icb_as_cb_maybe [of now cb] by (metis icb_as_cb_sel(2))

lemma icb_call_as_cb:
  "cb_call (icb_as_cb cb) k = (case icb_call cb k of (a, cb') \<Rightarrow> (a, icb_as_cb cb'))"
  by (auto simp: cb_call_eq icb_call_def icb_Sync_def Let_def icb_as_cb_maybe icb_as_cb_record
      icb_maybe_state)

interpretation iam: breaker icb_call "\<lambda>cb. cb_view (icb_as_cb cb)" "\<lambda>cb. cb_cfg (icb_as_cb cb)"
  "\<lambda>cb. cb_inv (icb_as_cb cb)"
proof unfold_locales
  fix cb k a cb'
  assume "icb_call cb k = (a, cb')"
  then have call: "cb_call (icb_as_cb cb) k = (a, icb_as_cb cb')" by (simp add: icb_call_as_cb)
  then show "cb_cfg (icb_as_cb cb') = cb_cfg (icb_as_cb cb)" by (rule siem.call_config)
  assume inv: "cb_inv (icb_as_cb cb)" and lt: "ab_fails (cb_view (icb_as_cb cb)) < max_int64"
  show "cb_inv (icb_as_cb cb')" by (rule siem.call_inv [OF inv lt call])
  show "abs_call (cb_cfg (icb_as_cb cb)) (cb_view (icb_as_cb cb)) k = (a, cb_view (icb_as_cb cb'))"
    by (rule siem.call_refines [OF inv lt call])
qed

section \<open>Properties\<close>

text \<open>
  Interleaved callers of the SIEM breaker: however admissions, outcomes and state queries
  interleave (fewer than 2^63 of them), the circuit is open or half-open only with at least
  \<open>FailureThreshold\<close> consecutive failures, and closed only below the threshold or with none.
\<close>

theorem siem_breaker_invariant:
  assumes "int (length evs) \<le> max_int64"
  shows "case foldl cb_step (NewCircuitBreaker cfg) evs of cb \<Rightarrow>
     cb_config cb = cfg \<and> 0 \<le> cb_consecutiveFails cb \<and>
     (if cb_state cb = StateClosed
      then cb_consecutiveFails cb < cbc_FailureThreshold cfg \<or> cb_consecutiveFails cb = 0
      else cbc_FailureThreshold cfg \<le> cb_consecutiveFails cb)"
  using cb_run_inv [OF cb_New_inv, of cfg evs] assms
  by (auto simp: cb_inv_def NewCircuitBreaker_def)

text \<open>
  The half-open state of the integration breakers admits every caller, not one probe:
  any number of \<open>FetchLogs\<close> calls that arrive before an outcome is recorded get through to the
  connector. The comment on \<open>StateHalfOpen\<close> says one request is allowed.
\<close>

theorem siem_half_open_admits_all:
  assumes "cb_state cb = StateHalfOpen"
  shows "foldl cb_step cb (map CbAdmit ts) = cb \<and> cb_admit t cb = (True, cb)"
proof -
  have admit: "cb_admit u cb = (True, cb)" for u
    using assms by (simp add: cb_admit_def cb_maybeHalfOpen_def Let_def)
  then have "foldl cb_step cb (map CbAdmit ts) = cb" by (induction ts) simp_all
  with admit show ?thesis by simp
qed

lemma icb_run_as_cb:
  "siem.run (icb_as_cb cb) ks = (case iam.run cb ks of (as, cb') \<Rightarrow> (as, icb_as_cb cb'))"
  by (induction ks arbitrary: cb) (auto simp: icb_call_as_cb Let_def split: prod.splits)

text \<open>
  The IAM breaker is the SIEM breaker: every sequential run of \<open>Sync\<close> calls admits the
  same calls as the run of \<open>FetchLogs\<close> calls with the same clock and outcomes, and ends in the
  same state.
\<close>

theorem iam_breaker_is_siem_breaker:
  "siem.run (NewCircuitBreaker cfg) ks =
     (case iam.run (NewIAMCircuitBreaker cfg) ks of (as, cb) \<Rightarrow> (as, icb_as_cb cb))"
proof -
  have "icb_as_cb (NewIAMCircuitBreaker cfg) = NewCircuitBreaker cfg"
    by (simp add: icb_as_cb_def NewIAMCircuitBreaker_def NewCircuitBreaker_def)
  with icb_run_as_cb [of "NewIAMCircuitBreaker cfg" ks] show ?thesis by simp
qed

text \<open>
  Sequential clients cannot tell the integration service's breaker from the Connector
  SDK's: with the same positive threshold and timeout, both admit the same calls of every
  run and end in the same circuit state with the same failure count.
\<close>

theorem siem_breaker_agrees_with_sdk:
  assumes "0 < bc_FailureThreshold cfg" and "0 < bc_RecoveryTimeout cfg"
    and "bc_FailureThreshold cfg \<le> max_int64" and "int (length ks) < max_int64"
  shows "case (siem.run (NewCircuitBreaker \<lparr> cbc_FailureThreshold = bc_FailureThreshold cfg,
                            cbc_RecoveryTimeout = bc_RecoveryTimeout cfg \<rparr>) ks,
               sdk.run (br_New cfg) ks) of
           ((as, cb), (as', b)) \<Rightarrow>
             as = as' \<and> cb_state cb = br_state b \<and> cb_openedAt cb = br_openedAt b \<and>
             cb_ConsecutiveFailures cb = br_ConsecutiveFailures b"
proof -
  let ?cb = "NewCircuitBreaker \<lparr> cbc_FailureThreshold = bc_FailureThreshold cfg,
                                cbc_RecoveryTimeout = bc_RecoveryTimeout cfg \<rparr>"
  obtain as cb where cb: "siem.run ?cb ks = (as, cb)" by fastforce
  obtain as' b where b: "sdk.run (br_New cfg) ks = (as', b)" by fastforce
  have "cb_cfg ?cb = sdk_config (br_New cfg)" "cb_view ?cb = sdk_view (br_New cfg)"
    using assms by (simp_all add: cb_cfg_def sdk_config_def cb_view_def sdk_view_def br_New_def
        NewCircuitBreaker_def Let_def)
  moreover have "sdk_inv (br_New cfg)"
    using br_New_inv [OF assms(3)] by (simp add: sdk_inv_def br_New_def Let_def min_int64_def)
  moreover have "ab_fails (cb_view ?cb) = 0" by (simp add: cb_view_def NewCircuitBreaker_def)
  ultimately have "(as, cb_view cb) = (as', sdk_view b)"
    using siem.run_refines [OF cb_New_inv _ cb] sdk.run_refines [OF _ _ b] assms(4) by simp
  then show ?thesis
    by (simp add: cb b cb_view_def sdk_view_def cb_ConsecutiveFailures_def
        br_ConsecutiveFailures_def)
qed

section \<open>Witnesses\<close>

theorem siem_breaker_invariant_witness:
  "case foldl cb_step (NewCircuitBreaker cb_DefaultConfig) [CbAdmit 0, CbRecord 1 False] of cb \<Rightarrow>
     cb_config cb = cb_DefaultConfig \<and> 0 \<le> cb_consecutiveFails cb \<and>
     (if cb_state cb = StateClosed
      then cb_consecutiveFails cb < cbc_FailureThreshold cb_DefaultConfig \<or>
           cb_consecutiveFails cb = 0
      else cbc_FailureThreshold cb_DefaultConfig \<le> cb_consecutiveFails cb)"
  by (rule siem_breaker_invariant) (simp add: max_int64_def)

theorem siem_half_open_admits_all_witness:
  "case (NewCircuitBreaker cb_DefaultConfig)\<lparr> cb_state := StateHalfOpen \<rparr> of cb \<Rightarrow>
     foldl cb_step cb (map CbAdmit [1, 2]) = cb \<and> cb_admit 3 cb = (True, cb)"
  using siem_half_open_admits_all
    [of "(NewCircuitBreaker cb_DefaultConfig)\<lparr> cb_state := StateHalfOpen \<rparr>" "[1, 2]" 3]
  by simp

theorem siem_breaker_agrees_with_sdk_witness:
  "case (siem.run (NewCircuitBreaker cb_DefaultConfig) [\<lparr> ca_begin = 0, ca_end = 1, ca_ok = False \<rparr>],
         sdk.run (br_New DefaultConfig) [\<lparr> ca_begin = 0, ca_end = 1, ca_ok = False \<rparr>]) of
     ((as, cb), (as', b)) \<Rightarrow>
       as = as' \<and> cb_state cb = br_state b \<and> cb_openedAt cb = br_openedAt b \<and>
       cb_ConsecutiveFailures cb = br_ConsecutiveFailures b"
  using siem_breaker_agrees_with_sdk
    [of DefaultConfig "[\<lparr> ca_begin = 0, ca_end = 1, ca_ok = False \<rparr>]"]
  by (simp add: DefaultConfig_def cb_DefaultConfig_def max_int64_def second_def)

end
