(* ===== verification/WebhooksStore.thy ===== *)
theory WebhooksStore
  imports GoText
begin

text \<open>
  The webhooks service's data and persistence: \<open>services/webhooks/internal/model/model.go\<close>,
  \<open>internal/signer/signer.go\<close> and \<open>internal/store/store.go\<close>. The two tables of
  \<open>db/migrations/005_webhooks.sql\<close> are lists of rows in insertion order, a SQL statement an
  operation on them. \<open>ORDER BY\<close> is a stable sort (PostgreSQL leaves the order of equal keys
  open), and instants are kept exactly (PostgreSQL rounds to microseconds).

  Parameters: \<open>wh_codec\<close> holds \<open>json.Marshal\<close>, HMAC-SHA256 and SHA-256 in hexadecimal, the texts of
  UUIDs and instants, and \<open>fmt\<close>'s \<open>%q\<close>; \<open>pgx\<close> holds what the database driver does when it scans a NULL
  into a Go \<open>string\<close> (\<open>None\<close> is an error, which is what pgx documents) and what decoding the
  stored payload yields.
\<close>

section \<open>Types\<close>

definition AllEventTypes :: "string list" where
  "AllEventTypes = [''evidence.intake.complete'', ''reasoning.conclusion'', ''finding.status.changed'']"

abbreviation DeliveryStatusPending :: string where "DeliveryStatusPending \<equiv> ''pending''"
abbreviation DeliveryStatusDelivered :: string where "DeliveryStatusDelivered \<equiv> ''delivered''"
abbreviation DeliveryStatusFailed :: string where "DeliveryStatusFailed \<equiv> ''failed''"

definition RetrySchedule :: "duration list" where
  "RetrySchedule = [30 * second, 300 * second, 1800 * second]"

definition wh_MaxAttempts :: int where
  "wh_MaxAttempts = 3"

record WebhookSubscription =
  ws_ID :: uuid
  ws_OrgID :: uuid
  ws_URL :: string
  ws_EventTypes :: "string list"
  ws_Description :: string
  ws_IsActive :: bool
  ws_CreatedBy :: uuid
  ws_CreatedAt :: gotime
  ws_UpdatedAt :: gotime

record WebhookDelivery =
  wd_ID :: uuid
  wd_SubscriptionID :: uuid
  wd_OrgID :: uuid
  wd_EventType :: string
  wd_Payload :: gomap
  wd_Status :: string
  wd_AttemptCount :: int
  wd_LastAttemptAt :: "gotime option"
  wd_NextRetryAt :: "gotime option"
  wd_ResponseStatus :: "int option"
  wd_ErrorMessage :: string
  wd_DeliveredAt :: "gotime option"
  wd_CreatedAt :: gotime

record WebhookEvent =
  we_ID :: string
  we_Type :: string
  we_OrgID :: string
  we_Timestamp :: gotime
  we_Data :: gomap

record CreateSubscriptionRequest =
  cs_URL :: string
  cs_Secret :: string
  cs_EventTypes :: "string list"
  cs_Description :: string

record UpdateSubscriptionRequest =
  us_URL :: "string option"
  us_EventTypes :: "string list"
  us_Description :: "string option"
  us_IsActive :: "bool option"

record wh_DispatchRequest =
  wq_OrgID :: uuid
  wq_EventType :: string
  wq_Data :: gomap

record wh_codec =
  wc_marshal :: "gomap \<Rightarrow> string + string"
  wc_hmac :: "string \<Rightarrow> string \<Rightarrow> string"
  wc_sha256 :: "string \<Rightarrow> string"
  wc_uuid :: "uuid \<Rightarrow> string"
  wc_time :: "gotime \<Rightarrow> string"
  wc_quote :: "string \<Rightarrow> string"

record pgx =
  px_null :: "string option"
  px_payload :: "string \<Rightarrow> gomap option"

section \<open>Signatures\<close>

definition signaturePrefix :: string where
  "signaturePrefix = ''sha256=''"

definition wh_Sign :: "wh_codec \<Rightarrow> string \<Rightarrow> string \<Rightarrow> string" where
  "wh_Sign co secret payload = signaturePrefix @ wc_hmac co secret payload"

definition wh_Verify :: "wh_codec \<Rightarrow> string \<Rightarrow> string \<Rightarrow> string \<Rightarrow> bool" where
  "wh_Verify co secret payload signature =
     (let expected = wh_Sign co secret payload
      in if length signature < length signaturePrefix then False else expected = signature)"

definition HashSecret :: "wh_codec \<Rightarrow> string \<Rightarrow> string" where
  "HashSecret co secret = wc_sha256 co secret"

lemma wh_Verify_iff: "wh_Verify co secret payload s \<longleftrightarrow> s = wh_Sign co secret payload"
  by (auto simp: wh_Verify_def wh_Sign_def Let_def)

section \<open>Tables\<close>

record sub_row =
  sr_id :: uuid
  sr_org_id :: uuid
  sr_url :: string
  sr_secret_hash :: string
  sr_secret_value :: string
  sr_event_types :: "string list"
  sr_description :: "string option"
  sr_is_active :: bool
  sr_created_by :: "uuid option"
  sr_created_at :: gotime
  sr_updated_at :: gotime

record del_row =
  dr_id :: uuid
  dr_subscription_id :: uuid
  dr_org_id :: uuid
  dr_event_type :: string
  dr_payload :: string
  dr_status :: string
  dr_attempt_count :: int
  dr_last_attempt_at :: "gotime option"
  dr_next_retry_at :: "gotime option"
  dr_response_status :: "int option"
  dr_error_message :: "string option"
  dr_delivered_at :: "gotime option"
  dr_created_at :: gotime

record wh_db =
  db_subs :: "sub_row list"
  db_dels :: "del_row list"

definition scan_text :: "pgx \<Rightarrow> string option \<Rightarrow> string option" where
  "scan_text px t = (case t of Some s \<Rightarrow> Some s | None \<Rightarrow> px_null px)"

definition scan_sub :: "pgx \<Rightarrow> sub_row \<Rightarrow> WebhookSubscription option" where
  "scan_sub px r =
     (case scan_text px (sr_description r) of
        None \<Rightarrow> None
      | Some d \<Rightarrow> Some \<lparr> ws_ID = sr_id r, ws_OrgID = sr_org_id r, ws_URL = sr_url r,
          ws_EventTypes = sr_event_types r, ws_Description = d, ws_IsActive = sr_is_active r,
          ws_CreatedBy = (case sr_created_by r of Some u \<Rightarrow> u | None \<Rightarrow> uuid_Nil),
          ws_CreatedAt = sr_created_at r, ws_UpdatedAt = sr_updated_at r \<rparr>)"

definition scanDelivery :: "pgx \<Rightarrow> del_row \<Rightarrow> WebhookDelivery option" where
  "scanDelivery px r =
     (case scan_text px (dr_error_message r) of
        None \<Rightarrow> None
      | Some msg \<Rightarrow>
          (case (if dr_payload r = '''' then Some None else px_payload px (dr_payload r)) of
             None \<Rightarrow> None
           | Some payload \<Rightarrow> Some \<lparr> wd_ID = dr_id r, wd_SubscriptionID = dr_subscription_id r,
               wd_OrgID = dr_org_id r, wd_EventType = dr_event_type r, wd_Payload = payload,
               wd_Status = dr_status r, wd_AttemptCount = dr_attempt_count r,
               wd_LastAttemptAt = dr_last_attempt_at r, wd_NextRetryAt = dr_next_retry_at r,
               wd_ResponseStatus = dr_response_status r, wd_ErrorMessage = msg,
               wd_DeliveredAt = dr_delivered_at r, wd_CreatedAt = dr_created_at r \<rparr>))"

section \<open>Subscriptions\<close>

text \<open>What a query for one row yields: an error, no row (Go's nil), or the row.\<close>

datatype 'a one_row = RowError | NoRow | Row 'a

fun scanned :: "'a option \<Rightarrow> 'a one_row" where
  "scanned None = RowError"
| "scanned (Some x) = Row x"

definition store_CreateSubscription ::
  "pgx \<Rightarrow> uuid \<Rightarrow> gotime \<Rightarrow> wh_db \<Rightarrow> uuid \<Rightarrow> string \<Rightarrow> string \<Rightarrow> string \<Rightarrow> string list \<Rightarrow> string \<Rightarrow>
   uuid option \<Rightarrow> wh_db \<times> WebhookSubscription one_row" where
  "store_CreateSubscription px newID now db orgID url secretValue secretHash eventTypes description
       createdBy =
     (let r = \<lparr> sr_id = newID, sr_org_id = orgID, sr_url = url, sr_secret_hash = secretHash,
                sr_secret_value = secretValue, sr_event_types = eventTypes,
                sr_description = Some description, sr_is_active = True, sr_created_by = createdBy,
                sr_created_at = now, sr_updated_at = now \<rparr>
      in (db\<lparr> db_subs := db_subs db @ [r] \<rparr>, scanned (scan_sub px r)))"

definition sub_where :: "(sub_row \<Rightarrow> bool) \<Rightarrow> wh_db \<Rightarrow> sub_row option" where
  "sub_where P db = find P (db_subs db)"

definition store_GetSubscription ::
  "pgx \<Rightarrow> wh_db \<Rightarrow> uuid \<Rightarrow> uuid \<Rightarrow> WebhookSubscription one_row" where
  "store_GetSubscription px db orgID i =
     (case sub_where (\<lambda>r. sr_id r = i \<and> sr_org_id r = orgID) db of
        None \<Rightarrow> NoRow | Some r \<Rightarrow> scanned (scan_sub px r))"

definition GetSubscriptionWithSecret ::
  "pgx \<Rightarrow> wh_db \<Rightarrow> uuid \<Rightarrow> (WebhookSubscription \<times> string) one_row" where
  "GetSubscriptionWithSecret px db i =
     (case sub_where (\<lambda>r. sr_id r = i \<and> sr_is_active r) db of
        None \<Rightarrow> NoRow
      | Some r \<Rightarrow> scanned (map_option (\<lambda>sub. (sub, sr_secret_value r)) (scan_sub px r)))"

definition store_ListSubscriptions :: "pgx \<Rightarrow> wh_db \<Rightarrow> uuid \<Rightarrow> WebhookSubscription list option" where
  "store_ListSubscriptions px db orgID =
     those (map (scan_sub px)
       (rev (sort_key sr_created_at (filter (\<lambda>r. sr_org_id r = orgID) (db_subs db)))))"

text \<open>The \<open>SET\<close> clause built from the request, and the table's \<open>updated_at\<close> trigger.\<close>

definition set_clause :: "gotime \<Rightarrow> UpdateSubscriptionRequest \<Rightarrow> sub_row \<Rightarrow> sub_row" where
  "set_clause now req r =
     (let r1 = (case us_URL req of None \<Rightarrow> r | Some u \<Rightarrow> r\<lparr> sr_url := u \<rparr>);
          r2 = (case us_Description req of None \<Rightarrow> r1 | Some d \<Rightarrow> r1\<lparr> sr_description := Some d \<rparr>);
          r3 = (case us_IsActive req of None \<Rightarrow> r2 | Some b \<Rightarrow> r2\<lparr> sr_is_active := b \<rparr>);
          r4 = (if us_EventTypes req \<noteq> [] then r3\<lparr> sr_event_types := us_EventTypes req \<rparr> else r3)
      in r4\<lparr> sr_updated_at := now \<rparr>)"

definition update_subs :: "(sub_row \<Rightarrow> bool) \<Rightarrow> (sub_row \<Rightarrow> sub_row) \<Rightarrow> wh_db \<Rightarrow> wh_db" where
  "update_subs P f db = db\<lparr> db_subs := map (\<lambda>r. if P r then f r else r) (db_subs db) \<rparr>"

definition store_UpdateSubscription ::
  "pgx \<Rightarrow> gotime \<Rightarrow> wh_db \<Rightarrow> uuid \<Rightarrow> uuid \<Rightarrow> UpdateSubscriptionRequest \<Rightarrow>
   wh_db \<times> WebhookSubscription one_row" where
  "store_UpdateSubscription px now db orgID i req =
     (if us_URL req = None \<and> us_Description req = None \<and> us_IsActive req = None \<and>
         us_EventTypes req = []
      then (db, store_GetSubscription px db orgID i)
      else let db' = update_subs (\<lambda>r. sr_org_id r = orgID \<and> sr_id r = i) (set_clause now req) db
           in (db', store_GetSubscription px db' orgID i))"

definition store_DeleteSubscription :: "gotime \<Rightarrow> wh_db \<Rightarrow> uuid \<Rightarrow> uuid \<Rightarrow> wh_db" where
  "store_DeleteSubscription now db orgID i =
     update_subs (\<lambda>r. sr_org_id r = orgID \<and> sr_id r = i)
       (\<lambda>r. r\<lparr> sr_is_active := False, sr_updated_at := now \<rparr>) db"

record ActiveSub =
  as_ID :: uuid
  as_URL :: string
  as_Secret :: string

definition opted_in :: "string \<Rightarrow> sub_row \<Rightarrow> bool" where
  "opted_in eventType r \<longleftrightarrow> eventType \<in> set (sr_event_types r) \<or> ''wildcard'' \<in> set (sr_event_types r)"

definition ActiveSubscriptionsForEvent :: "wh_db \<Rightarrow> uuid \<Rightarrow> string \<Rightarrow> ActiveSub list" where
  "ActiveSubscriptionsForEvent db orgID eventType =
     map (\<lambda>r. \<lparr> as_ID = sr_id r, as_URL = sr_url r, as_Secret = sr_secret_value r \<rparr>)
       (filter (\<lambda>r. sr_org_id r = orgID \<and> sr_is_active r \<and> opted_in eventType r) (db_subs db))"

section \<open>Deliveries\<close>

definition CreateDelivery ::
  "wh_codec \<Rightarrow> pgx \<Rightarrow> uuid \<Rightarrow> gotime \<Rightarrow> wh_db \<Rightarrow> uuid \<Rightarrow> uuid \<Rightarrow> string \<Rightarrow> gomap \<Rightarrow>
   wh_db \<times> WebhookDelivery option" where
  "CreateDelivery co px newID now db subID orgID eventType payload =
     (case wc_marshal co payload of
        Inl _ \<Rightarrow> (db, None)
      | Inr raw \<Rightarrow>
          let r = \<lparr> dr_id = newID, dr_subscription_id = subID, dr_org_id = orgID,
                    dr_event_type = eventType, dr_payload = raw,
                    dr_status = DeliveryStatusPending, dr_attempt_count = 0,
                    dr_last_attempt_at = None, dr_next_retry_at = None, dr_response_status = None,
                    dr_error_message = None, dr_delivered_at = None, dr_created_at = now \<rparr>
          in (db\<lparr> db_dels := db_dels db @ [r] \<rparr>, scanDelivery px r))"

definition update_dels :: "uuid \<Rightarrow> (del_row \<Rightarrow> del_row) \<Rightarrow> wh_db \<Rightarrow> wh_db" where
  "update_dels i f db = db\<lparr> db_dels := map (\<lambda>r. if dr_id r = i then f r else r) (db_dels db) \<rparr>"

definition wh_MarkDelivered :: "gotime \<Rightarrow> wh_db \<Rightarrow> uuid \<Rightarrow> int \<Rightarrow> wh_db" where
  "wh_MarkDelivered now db i responseStatus =
     update_dels i (\<lambda>r. r\<lparr> dr_status := DeliveryStatusDelivered,
       dr_response_status := Some responseStatus, dr_delivered_at := Some now,
       dr_last_attempt_at := Some now \<rparr>) db"

text \<open>\<open>None\<close> is the panic of an index out of range.\<close>

definition schedule_at :: "int \<Rightarrow> duration option" where
  "schedule_at i =
     (if 0 \<le> i \<and> i < int (length RetrySchedule) then Some (RetrySchedule ! nat i) else None)"

definition failure_row :: "gotime \<Rightarrow> int \<Rightarrow> gotime option \<Rightarrow> int option \<Rightarrow> string \<Rightarrow> string \<Rightarrow> del_row \<Rightarrow> del_row" where
  "failure_row now attemptCount nextRetry responseStatus errMsg newStatus r =
     r\<lparr> dr_attempt_count := attemptCount, dr_last_attempt_at := Some now,
        dr_next_retry_at := nextRetry, dr_response_status := responseStatus,
        dr_error_message := Some errMsg, dr_status := newStatus \<rparr>"

definition RecordAttemptFailure ::
  "gotime \<Rightarrow> wh_db \<Rightarrow> uuid \<Rightarrow> int \<Rightarrow> int option \<Rightarrow> string \<Rightarrow> wh_db option" where
  "RecordAttemptFailure now db i attemptCount responseStatus errMsg =
     (if attemptCount < wh_MaxAttempts then
        (case schedule_at attemptCount of
           None \<Rightarrow> None
         | Some d \<Rightarrow> Some (update_dels i (failure_row now attemptCount (Some (now + d)) responseStatus
             errMsg DeliveryStatusPending) db))
      else Some (update_dels i (failure_row now attemptCount None responseStatus errMsg
             DeliveryStatusFailed) db))"

definition due :: "gotime \<Rightarrow> del_row \<Rightarrow> bool" where
  "due now r \<longleftrightarrow> dr_status r = DeliveryStatusPending \<and>
     (case dr_next_retry_at r of None \<Rightarrow> True | Some t \<Rightarrow> t \<le> now)"

definition PendingDeliveries :: "pgx \<Rightarrow> gotime \<Rightarrow> wh_db \<Rightarrow> int \<Rightarrow> WebhookDelivery list option" where
  "PendingDeliveries px now db limit =
     those (map (scanDelivery px)
       (take (nat limit) (sort_key dr_created_at (filter (due now) (db_dels db)))))"

definition ListDeliveriesForSubscription ::
  "pgx \<Rightarrow> wh_db \<Rightarrow> uuid \<Rightarrow> int \<Rightarrow> int \<Rightarrow> WebhookDelivery list option" where
  "ListDeliveriesForSubscription px db subID limit offset =
     those (map (scanDelivery px) (page limit offset
       (rev (sort_key dr_created_at (filter (\<lambda>r. dr_subscription_id r = subID) (db_dels db))))))"

record wh_stats =
  hs_pending :: nat
  hs_delivered :: nat
  hs_failed :: nat
  hs_active_subscriptions :: nat

definition store_HealthStats :: "wh_db \<Rightarrow> uuid \<Rightarrow> wh_stats" where
  "store_HealthStats db orgID =
     (let subs = filter (\<lambda>s. sr_org_id s = orgID \<and> sr_is_active s) (db_subs db);
          joined = [d. s \<leftarrow> subs, d \<leftarrow> db_dels db, dr_subscription_id d = sr_id s];
          count = (\<lambda>st. length (filter (\<lambda>d. dr_status d = st) joined))
      in \<lparr> hs_pending = count DeliveryStatusPending, hs_delivered = count DeliveryStatusDelivered,
           hs_failed = count DeliveryStatusFailed,
           hs_active_subscriptions = card (set (map sr_id subs)) \<rparr>)"

section \<open>Lemmas\<close>

lemma set_clause_sel [simp]:
  "sr_id (set_clause now req r) = sr_id r"
  "sr_org_id (set_clause now req r) = sr_org_id r"
  "sr_secret_value (set_clause now req r) = sr_secret_value r"
  "sr_created_at (set_clause now req r) = sr_created_at r"
  "sr_is_active (set_clause now req r) =
     (case us_IsActive req of None \<Rightarrow> sr_is_active r | Some b \<Rightarrow> b)"
  "sr_event_types (set_clause now req r) =
     (if us_EventTypes req = [] then sr_event_types r else us_EventTypes req)"
  by (auto simp: set_clause_def Let_def split: option.splits)

lemma update_subs_sel [simp]:
  "db_subs (update_subs P f db) = map (\<lambda>r. if P r then f r else r) (db_subs db)"
  "db_dels (update_subs P f db) = db_dels db"
  by (simp_all add: update_subs_def)

lemma update_dels_sel [simp]:
  "db_dels (update_dels i g db) = map (\<lambda>r. if dr_id r = i then g r else r) (db_dels db)"
  "db_subs (update_dels i g db) = db_subs db"
  by (simp_all add: update_dels_def)

lemma scanDelivery_Some:
  "scanDelivery px r = Some d \<Longrightarrow> wd_ID d = dr_id r \<and> wd_SubscriptionID d = dr_subscription_id r \<and>
     wd_OrgID d = dr_org_id r \<and> wd_EventType d = dr_event_type r \<and>
     wd_AttemptCount d = dr_attempt_count r \<and> wd_Status d = dr_status r"
  by (auto simp: scanDelivery_def split: option.splits if_splits)

lemma scan_sub_Some:
  "scan_sub px r = Some s \<Longrightarrow> ws_ID s = sr_id r \<and> ws_OrgID s = sr_org_id r \<and> ws_URL s = sr_url r \<and>
     ws_EventTypes s = sr_event_types r \<and> ws_IsActive s = sr_is_active r"
  by (auto simp: scan_sub_def split: option.splits)

lemma those_Some_set: "those (map f xs) = Some ys \<Longrightarrow> y \<in> set ys \<Longrightarrow> \<exists>x \<in> set xs. f x = Some y"
  by (induction xs arbitrary: ys) (auto split: option.splits)

lemma those_Some_map: "those (map f xs) = Some ys \<Longrightarrow> map f xs = map Some ys"
  by (induction xs arbitrary: ys) (auto split: option.splits)

lemma sub_where_Some: "sub_where P db = Some r \<Longrightarrow> r \<in> set (db_subs db) \<and> P r"
  by (auto simp: sub_where_def find_Some_iff)

lemma sub_where_None: "sub_where P db = None \<longleftrightarrow> (\<forall>r \<in> set (db_subs db). \<not> P r)"
  by (auto simp: sub_where_def find_None_iff)

end
