(* ===== verification/WebhooksDelivery.thy ===== *)
theory WebhooksDelivery
  imports WebhooksStore
begin

text \<open>
  The delivery worker of the webhooks service, \<open>services/webhooks/internal/delivery/delivery.go\<close>:
  the fan-out of an event, one attempt, the retry batch.

  An attempt runs in a goroutine of its own with a snapshot of its delivery, so it is a value
  here, \<open>attempt_job\<close>; \<open>wh_attempt\<close> is what it does once the HTTP call has come out as
  \<open>post_outcome\<close>: the request it sent, if any, and the database afterwards. There, \<open>None\<close> is a
  panic (the retry schedule indexed out of range). \<open>up\<close> is false when the database refuses the
  statement, which the worker only logs.
\<close>

definition retryBatchSize :: int where
  "retryBatchSize = 50"

record attempt_job =
  aj_del :: WebhookDelivery
  aj_url :: string
  aj_secret :: string

record http_post =
  hp_url :: string
  hp_body :: string
  hp_signature :: string
  hp_event :: string
  hp_delivery :: string

datatype post_outcome = BuildFails string | HttpFails string | HttpStatus int

section \<open>One attempt\<close>

definition recordFailure ::
  "gotime \<Rightarrow> bool \<Rightarrow> wh_db \<Rightarrow> WebhookDelivery \<Rightarrow> int option \<Rightarrow> string \<Rightarrow> wh_db option" where
  "recordFailure now up db del respStatus errMsg =
     (let newAttemptCount = wrap64 (wd_AttemptCount del + 1)
      in map_option (\<lambda>db'. if up then db' else db)
           (RecordAttemptFailure now db (wd_ID del) newAttemptCount respStatus errMsg))"

definition wh_attempt ::
  "wh_codec \<Rightarrow> gotime \<Rightarrow> bool \<Rightarrow> post_outcome \<Rightarrow> wh_db \<Rightarrow> attempt_job \<Rightarrow> http_post option \<times> wh_db option" where
  "wh_attempt co now up out db job =
     (let del = aj_del job
      in case wc_marshal co (wd_Payload del) of
           Inl e \<Rightarrow> (None, recordFailure now up db del None (''marshal payload: '' @ e))
         | Inr payloadBytes \<Rightarrow>
             let post = \<lparr> hp_url = aj_url job, hp_body = payloadBytes,
                          hp_signature = wh_Sign co (aj_secret job) payloadBytes,
                          hp_event = wd_EventType del, hp_delivery = wc_uuid co (wd_ID del) \<rparr>
             in case out of
                  BuildFails e \<Rightarrow> (None, recordFailure now up db del None (''build request: '' @ e))
                | HttpFails e \<Rightarrow> (Some post, recordFailure now up db del None (''http error: '' @ e))
                | HttpStatus c \<Rightarrow>
                    (Some post,
                     if 200 \<le> c \<and> c < 300
                     then Some (if up then wh_MarkDelivered now db (wd_ID del) c else db)
                     else recordFailure now up db del (Some c) (''non-2xx response: '' @ int_text c)))"

section \<open>Fan-out\<close>

definition event_payload :: "wh_codec \<Rightarrow> WebhookEvent \<Rightarrow> gomap" where
  "event_payload co e =
     Some [(''id'', JStr (we_ID e)), (''type'', JStr (we_Type e)), (''org_id'', JStr (we_OrgID e)),
           (''timestamp'', JStr (wc_time co (we_Timestamp e))),
           (''data'', case we_Data e of None \<Rightarrow> JNull | Some kvs \<Rightarrow> JObj kvs)]"

text \<open>
  The loop over the subscriptions. \<open>draw n\<close> is what the \<open>n\<close>-th insertion meets: the id and the
  instant the database assigns, and whether it accepts the statement.
\<close>

fun create_deliveries ::
  "wh_codec \<Rightarrow> pgx \<Rightarrow> uuid \<Rightarrow> string \<Rightarrow> gomap \<Rightarrow> (nat \<Rightarrow> uuid \<times> gotime \<times> bool) \<Rightarrow> nat \<Rightarrow> ActiveSub list \<Rightarrow>
   wh_db \<Rightarrow> wh_db \<times> attempt_job list" where
  "create_deliveries co px orgID eventType payload draw n [] db = (db, [])"
| "create_deliveries co px orgID eventType payload draw n (sub # subs) db =
     (case draw n of (newID, now, up) \<Rightarrow>
        (case (if up then CreateDelivery co px newID now db (as_ID sub) orgID eventType payload
               else (db, None)) of
           (db1, None) \<Rightarrow> create_deliveries co px orgID eventType payload draw (Suc n) subs db1
         | (db1, Some del) \<Rightarrow>
             (case create_deliveries co px orgID eventType payload draw (Suc n) subs db1 of
                (db2, jobs) \<Rightarrow>
                  (db2, \<lparr> aj_del = del, aj_url = as_URL sub, aj_secret = as_Secret sub \<rparr> # jobs))))"

definition worker_Dispatch ::
  "wh_codec \<Rightarrow> pgx \<Rightarrow> uuid \<Rightarrow> gotime \<Rightarrow> bool \<Rightarrow> (nat \<Rightarrow> uuid \<times> gotime \<times> bool) \<Rightarrow> wh_db \<Rightarrow> uuid \<Rightarrow>
   string \<Rightarrow> gomap \<Rightarrow> (wh_db \<times> attempt_job list) option" where
  "worker_Dispatch co px eventID now up draw db orgID eventType data =
     (if \<not> up then None
      else let subs = ActiveSubscriptionsForEvent db orgID eventType;
               event = \<lparr> we_ID = wc_uuid co eventID, we_Type = eventType,
                         we_OrgID = wc_uuid co orgID, we_Timestamp = now, we_Data = data \<rparr>
           in Some (create_deliveries co px orgID eventType (event_payload co event) draw 0 subs db))"

section \<open>Retries\<close>

text \<open>\<open>lost i\<close>: looking up the subscription of delivery \<open>i\<close> fails in the database.\<close>

definition retry_job :: "pgx \<Rightarrow> (uuid \<Rightarrow> bool) \<Rightarrow> wh_db \<Rightarrow> WebhookDelivery \<Rightarrow> attempt_job option" where
  "retry_job px lost db del =
     (if lost (wd_ID del) then None
      else case GetSubscriptionWithSecret px db (wd_SubscriptionID del) of
             RowError \<Rightarrow> None
           | NoRow \<Rightarrow> None
           | Row (sub, secret) \<Rightarrow>
               if secret = '''' then None
               else Some \<lparr> aj_del = del, aj_url = ws_URL sub, aj_secret = secret \<rparr>)"

definition runRetryBatch ::
  "pgx \<Rightarrow> gotime \<Rightarrow> bool \<Rightarrow> (uuid \<Rightarrow> bool) \<Rightarrow> wh_db \<Rightarrow> attempt_job list" where
  "runRetryBatch px now up lost db =
     (if \<not> up then []
      else case PendingDeliveries px now db retryBatchSize of
             None \<Rightarrow> []
           | Some deliveries \<Rightarrow> List.map_filter (retry_job px lost db) deliveries)"

section \<open>What a delivery row may look like\<close>

text \<open>
  The lifecycle the worker means: a pending delivery has used fewer than three attempts, and
  after a failure it waits for its slot of the schedule; a dead-lettered one has used all three.
\<close>

definition row_ok :: "del_row \<Rightarrow> bool" where
  "row_ok r \<longleftrightarrow>
     (dr_status r = DeliveryStatusPending \<and>
        (dr_attempt_count r = 0 \<and> dr_next_retry_at r = None \<or>
         (\<exists>t. dr_last_attempt_at r = Some t \<and>
            (dr_attempt_count r = 1 \<and> dr_next_retry_at r = Some (t + 300 * second) \<or>
             dr_attempt_count r = 2 \<and> dr_next_retry_at r = Some (t + 1800 * second))))) \<or>
     dr_status r = DeliveryStatusFailed \<and> dr_attempt_count r = 3 \<and> dr_next_retry_at r = None \<or>
     dr_status r = DeliveryStatusDelivered \<and> 0 \<le> dr_attempt_count r \<and> dr_attempt_count r \<le> 3"

definition job_ok :: "attempt_job \<Rightarrow> bool" where
  "job_ok j \<longleftrightarrow> wd_AttemptCount (aj_del j) \<in> {0, 1, 2}"

lemma row_ok_count: "row_ok r \<Longrightarrow> 0 \<le> dr_attempt_count r \<and> dr_attempt_count r \<le> 3"
  by (auto simp: row_ok_def)

lemma row_ok_pending: "row_ok r \<Longrightarrow> dr_status r = DeliveryStatusPending \<Longrightarrow> dr_attempt_count r \<in> {0, 1, 2}"
  by (auto simp: row_ok_def)

definition set_failed :: "gotime \<Rightarrow> int \<Rightarrow> int option \<Rightarrow> string \<Rightarrow> del_row \<Rightarrow> del_row" where
  "set_failed now k respStatus errMsg =
     (if k = 3 then failure_row now 3 None respStatus errMsg DeliveryStatusFailed
      else failure_row now k (Some (now + (if k = 1 then 300 else 1800) * second)) respStatus errMsg
             DeliveryStatusPending)"

lemma set_failed_ok: "k \<in> {1, 2, 3} \<Longrightarrow> row_ok (set_failed now k rs msg r)"
  by (auto simp: set_failed_def failure_row_def row_ok_def)

definition set_delivered :: "gotime \<Rightarrow> int \<Rightarrow> del_row \<Rightarrow> del_row" where
  "set_delivered now c r = r\<lparr> dr_status := DeliveryStatusDelivered, dr_response_status := Some c,
     dr_delivered_at := Some now, dr_last_attempt_at := Some now \<rparr>"

lemma wh_MarkDelivered_eq: "wh_MarkDelivered now db i c = update_dels i (set_delivered now c) db"
  by (simp add: wh_MarkDelivered_def set_delivered_def [abs_def])

lemma set_delivered_ok: "row_ok r \<Longrightarrow> row_ok (set_delivered now c r)"
  by (drule row_ok_count) (simp add: set_delivered_def row_ok_def)

lemma set_delivered_sel [simp]:
  "dr_id (set_delivered now c r) = dr_id r"
  "dr_subscription_id (set_delivered now c r) = dr_subscription_id r"
  "dr_org_id (set_delivered now c r) = dr_org_id r"
  "dr_payload (set_delivered now c r) = dr_payload r"
  by (simp_all add: set_delivered_def)

lemma set_failed_sel [simp]:
  "dr_id (set_failed now k rs msg r) = dr_id r"
  "dr_subscription_id (set_failed now k rs msg r) = dr_subscription_id r"
  "dr_org_id (set_failed now k rs msg r) = dr_org_id r"
  "dr_payload (set_failed now k rs msg r) = dr_payload r"
  by (simp_all add: set_failed_def failure_row_def)

text \<open>Within the lifecycle the schedule is never indexed out of range.\<close>

lemma recordFailure_eq:
  assumes "wd_AttemptCount del \<in> {0, 1, 2}"
  shows "recordFailure now up db del rs msg =
     Some (if up then update_dels (wd_ID del) (set_failed now (wd_AttemptCount del + 1) rs msg) db else db)"
  using assms
  by (auto simp: recordFailure_def RecordAttemptFailure_def Let_def wh_MaxAttempts_def schedule_at_def
      RetrySchedule_def set_failed_def wrap64_def)

text \<open>So an attempt changes only its delivery's row, to delivered or to a failure.\<close>

definition failed_db :: "gotime \<Rightarrow> wh_db \<Rightarrow> WebhookDelivery \<Rightarrow> int option \<Rightarrow> string \<Rightarrow> wh_db" where
  "failed_db now db del rs msg =
     update_dels (wd_ID del) (set_failed now (wd_AttemptCount del + 1) rs msg) db"

lemma wh_attempt_snd:
  assumes "job_ok job"
  shows "snd (wh_attempt co now up out db job) \<in> (if up then {} else {Some db}) \<union>
     range (\<lambda>c. Some (wh_MarkDelivered now db (wd_ID (aj_del job)) c)) \<union>
     range (\<lambda>(rs, msg). Some (failed_db now db (aj_del job) rs msg))"
    (is "_ \<in> ?outcomes")
proof -
  let ?del = "aj_del job"
  have rec: "recordFailure now up db ?del rs msg \<in> ?outcomes" for rs msg
  proof -
    have "recordFailure now up db ?del rs msg = Some (if up then failed_db now db ?del rs msg else db)"
      using recordFailure_eq [OF assms [unfolded job_ok_def], of now up db rs msg]
      by (simp add: failed_db_def)
    then show ?thesis by (cases up) auto
  qed
  have del: "Some (if up then wh_MarkDelivered now db (wd_ID ?del) c else db) \<in> ?outcomes" for c
    by (cases up) auto
  show ?thesis
  proof (cases "wc_marshal co (wd_Payload ?del)")
    case (Inl e)
    then have "snd (wh_attempt co now up out db job) =
        recordFailure now up db ?del None (''marshal payload: '' @ e)"
      by (simp add: wh_attempt_def)
    then show ?thesis by (simp only: rec)
  next
    case (Inr raw)
    then have "snd (wh_attempt co now up out db job) =
        (case out of BuildFails e \<Rightarrow> recordFailure now up db ?del None (''build request: '' @ e)
         | HttpFails e \<Rightarrow> recordFailure now up db ?del None (''http error: '' @ e)
         | HttpStatus c \<Rightarrow> if 200 \<le> c \<and> c < 300
             then Some (if up then wh_MarkDelivered now db (wd_ID ?del) c else db)
             else recordFailure now up db ?del (Some c) (''non-2xx response: '' @ int_text c))"
      by (simp add: wh_attempt_def Let_def split: post_outcome.split)
    then show ?thesis by (cases out) (simp_all only: post_outcome.case rec del split: if_split, simp)
  qed
qed

lemma wh_attempt_cases:
  assumes "job_ok job"
  obtains (same) "snd (wh_attempt co now up out db job) = Some db"
  | (delivered) c where
      "snd (wh_attempt co now up out db job) = Some (wh_MarkDelivered now db (wd_ID (aj_del job)) c)"
  | (failed) k rs msg where "k \<in> {1, 2, 3}"
      "snd (wh_attempt co now up out db job) =
         Some (update_dels (wd_ID (aj_del job)) (set_failed now k rs msg) db)"
proof -
  have k: "wd_AttemptCount (aj_del job) + 1 \<in> {1, 2, 3}"
    using assms by (auto simp: job_ok_def)
  have "snd (wh_attempt co now up out db job) = Some db \<or>
      (\<exists>c. snd (wh_attempt co now up out db job) = Some (wh_MarkDelivered now db (wd_ID (aj_del job)) c)) \<or>
      (\<exists>rs msg. snd (wh_attempt co now up out db job) = Some (failed_db now db (aj_del job) rs msg))"
    using wh_attempt_snd [OF assms, of co now up out db] by (auto split: if_splits)
  then consider "snd (wh_attempt co now up out db job) = Some db"
    | c where "snd (wh_attempt co now up out db job) = Some (wh_MarkDelivered now db (wd_ID (aj_del job)) c)"
    | rs msg where "snd (wh_attempt co now up out db job) = Some (failed_db now db (aj_del job) rs msg)"
    by blast
  then show thesis
  proof cases
    case 3
    then show thesis by (intro that(3) [OF k]) (simp only: failed_db_def)
  qed (fact that)+
qed

lemma wh_attempt_post:
  "fst (wh_attempt co now up out db job) = Some post \<Longrightarrow>
     hp_url post = aj_url job \<and> hp_delivery post = wc_uuid co (wd_ID (aj_del job)) \<and>
     wc_marshal co (wd_Payload (aj_del job)) = Inr (hp_body post) \<and>
     hp_signature post = wh_Sign co (aj_secret job) (hp_body post)"
  by (auto simp: wh_attempt_def Let_def split: sum.splits post_outcome.splits)

lemma GetSubscriptionWithSecret_Row:
  assumes "GetSubscriptionWithSecret px db i = Row (sub, secret)"
  shows "\<exists>r \<in> set (db_subs db). sr_id r = i \<and> sr_is_active r \<and> sr_secret_value r = secret \<and>
     sr_url r = ws_URL sub"
proof -
  from assms obtain r where r: "sub_where (\<lambda>r. sr_id r = i \<and> sr_is_active r) db = Some r"
    "scanned (map_option (\<lambda>sub. (sub, sr_secret_value r)) (scan_sub px r)) = Row (sub, secret)"
    by (auto simp: GetSubscriptionWithSecret_def split: option.splits)
  then have "scan_sub px r = Some sub" "sr_secret_value r = secret"
    by (cases "scan_sub px r"; simp)+
  with sub_where_Some [OF r(1)] scan_sub_Some [of px r sub] show ?thesis by auto
qed

lemma retry_job_Some:
  "retry_job px lost db del = Some job \<Longrightarrow> aj_del job = del \<and>
     (\<exists>r \<in> set (db_subs db). sr_id r = wd_SubscriptionID del \<and> sr_is_active r \<and>
        sr_secret_value r = aj_secret job \<and> sr_url r = aj_url job)"
  by (auto simp: retry_job_def split: if_splits one_row.splits prod.splits
      dest!: GetSubscriptionWithSecret_Row)

lemma map_filter_set: "y \<in> set (List.map_filter f xs) \<longleftrightarrow> (\<exists>x \<in> set xs. f x = Some y)"
  by (induction xs) (auto simp: map_filter_simps split: option.splits)

text \<open>A job of the batch stems from a due row among the first fifty and from an active subscription.\<close>

lemma runRetryBatch_job:
  assumes "job \<in> set (runRetryBatch px now up lost db)"
  shows "\<exists>r s. r \<in> set (take 50 (sort_key dr_created_at (filter (due now) (db_dels db)))) \<and>
     scanDelivery px r = Some (aj_del job) \<and> s \<in> set (db_subs db) \<and>
     sr_id s = dr_subscription_id r \<and> sr_is_active s \<and> sr_secret_value s = aj_secret job \<and>
     sr_url s = aj_url job"
proof -
  from assms obtain dels del where
    p: "PendingDeliveries px now db retryBatchSize = Some dels" "del \<in> set dels"
    and j: "retry_job px lost db del = Some job"
    by (cases "PendingDeliveries px now db retryBatchSize")
      (auto simp: runRetryBatch_def map_filter_set split: if_splits)
  from p obtain r where r: "r \<in> set (take 50 (sort_key dr_created_at (filter (due now) (db_dels db))))"
    "scanDelivery px r = Some del"
    by (auto simp: PendingDeliveries_def retryBatchSize_def dest!: those_Some_set)
  from retry_job_Some [OF j] r scanDelivery_Some [OF r(2)] show ?thesis by auto
qed

lemma batch_row_due:
  "r \<in> set (take n (sort_key k (filter (due now) xs))) \<Longrightarrow> r \<in> set xs \<and> due now r"
  by (auto dest!: in_set_takeD)

text \<open>The fan-out appends one pending row per subscription that the database accepted.\<close>

definition new_row :: "uuid \<Rightarrow> string \<Rightarrow> ActiveSub list \<Rightarrow> del_row \<Rightarrow> bool" where
  "new_row orgID eventType subs r \<longleftrightarrow> dr_org_id r = orgID \<and> dr_event_type r = eventType \<and>
     dr_subscription_id r \<in> as_ID ` set subs \<and> dr_status r = DeliveryStatusPending \<and>
     dr_attempt_count r = 0 \<and> dr_next_retry_at r = None \<and> dr_error_message r = None"

lemma CreateDelivery_cases:
  assumes "CreateDelivery co px newID now db subID orgID eventType payload = (db1, d)"
  shows "db1 = db \<and> d = None \<or>
     (\<exists>r. db1 = db\<lparr> db_dels := db_dels db @ [r] \<rparr> \<and> d = scanDelivery px r \<and> dr_id r = newID \<and>
        dr_created_at r = now \<and> dr_subscription_id r = subID \<and>
        new_row orgID eventType [\<lparr> as_ID = subID, as_URL = u, as_Secret = s \<rparr>] r)"
  using assms by (auto simp: CreateDelivery_def new_row_def Let_def split: sum.splits)

definition started_by :: "pgx \<Rightarrow> ActiveSub list \<Rightarrow> del_row list \<Rightarrow> attempt_job \<Rightarrow> bool" where
  "started_by px subs rows j \<longleftrightarrow> (\<exists>r \<in> set rows. \<exists>s \<in> set subs. scanDelivery px r = Some (aj_del j) \<and>
     dr_subscription_id r = as_ID s \<and> aj_url j = as_URL s \<and> aj_secret j = as_Secret s)"

lemma list_all_mono': "list_all P xs \<Longrightarrow> (\<And>x. P x \<Longrightarrow> Q x) \<Longrightarrow> list_all Q xs"
  by (auto simp: list_all_iff)

lemma new_row_mono: "new_row orgID et subs r \<Longrightarrow> set subs \<subseteq> set subs' \<Longrightarrow> new_row orgID et subs' r"
  by (auto simp: new_row_def)

lemma started_by_mono:
  "started_by px subs rows j \<Longrightarrow> set subs \<subseteq> set subs' \<Longrightarrow> set rows \<subseteq> set rows' \<Longrightarrow>
     started_by px subs' rows' j"
  unfolding started_by_def by blast

lemma create_deliveries_rows:
  assumes "create_deliveries co px orgID eventType payload draw n subs db = (db', jobs)"
  shows "\<exists>new. db' = db\<lparr> db_dels := db_dels db @ new \<rparr> \<and>
     list_all (new_row orgID eventType subs) new \<and> list_all (started_by px subs new) jobs"
  using assms
proof (induction co px orgID eventType payload draw n subs db arbitrary: db' jobs
    rule: create_deliveries.induct)
  case (1 co px orgID eventType payload draw n db)
  then show ?case by (intro exI [of _ "[]"]) auto
next
  case (2 co px orgID eventType payload draw n sub subs db)
  obtain newID now up where d: "draw n = (newID, now, up)" by (cases "draw n")
  obtain db1 del where c: "(if up then CreateDelivery co px newID now db (as_ID sub) orgID eventType payload
      else (db, None)) = (db1, del)" by fastforce
  obtain db2 jobs2 where rest:
    "create_deliveries co px orgID eventType payload draw (Suc n) subs db1 = (db2, jobs2)" by fastforce
  have eq: "db' = db2" "jobs = (case del of None \<Rightarrow> jobs2
      | Some x \<Rightarrow> \<lparr> aj_del = x, aj_url = as_URL sub, aj_secret = as_Secret sub \<rparr> # jobs2)"
    using 2(3) d c rest by (auto split: option.splits)
  obtain new where new: "db2 = db1\<lparr> db_dels := db_dels db1 @ new \<rparr>"
    "list_all (new_row orgID eventType subs) new" "list_all (started_by px subs new) jobs2"
    by (cases del) (use 2(1,2) d c rest in fastforce)+
  have fresh: "db1 = db \<and> del = None \<or> (\<exists>r. db1 = db\<lparr> db_dels := db_dels db @ [r] \<rparr> \<and>
      del = scanDelivery px r \<and> dr_subscription_id r = as_ID sub \<and>
      new_row orgID eventType (sub # subs) r)"
  proof (cases up)
    case True
    with c have "CreateDelivery co px newID now db (as_ID sub) orgID eventType payload = (db1, del)"
      by simp
    from CreateDelivery_cases [OF this] show ?thesis by (auto simp: new_row_def)
  qed (use c in auto)
  have rows: "list_all (new_row orgID eventType (sub # subs)) new"
    using new(2) by (rule list_all_mono') (erule new_row_mono, auto)
  have jobs2: "set new \<subseteq> set rs \<Longrightarrow> list_all (started_by px (sub # subs) rs) jobs2" for rs
    using new(3) by (rule list_all_mono') (erule started_by_mono, auto)
  from fresh show ?case
  proof
    assume "db1 = db \<and> del = None"
    with eq new(1) rows jobs2 [of new] show ?thesis by (intro exI [of _ new]) simp
  next
    assume "\<exists>r. db1 = db\<lparr> db_dels := db_dels db @ [r] \<rparr> \<and> del = scanDelivery px r \<and>
      dr_subscription_id r = as_ID sub \<and> new_row orgID eventType (sub # subs) r"
    then obtain r where r: "db1 = db\<lparr> db_dels := db_dels db @ [r] \<rparr>" "del = scanDelivery px r"
      "dr_subscription_id r = as_ID sub" "new_row orgID eventType (sub # subs) r" by auto
    have "del = Some x \<Longrightarrow> started_by px (sub # subs) (r # new)
        \<lparr> aj_del = x, aj_url = as_URL sub, aj_secret = as_Secret sub \<rparr>" for x
      using r(2,3) by (simp add: started_by_def)
    with r eq new(1) rows jobs2 [of "r # new"] show ?thesis
      by (intro exI [of _ "r # new"]) (auto split: option.splits)
  qed
qed

end
