(* ===== verification/WebhooksHandler.thy ===== *)
theory WebhooksHandler
  imports WebhooksDelivery
begin

text \<open>
  The HTTP handlers of the webhooks service, \<open>services/webhooks/internal/handler/handler.go\<close>,
  and what each may do to the subscriptions.

  \<open>parse\<close> is \<open>uuid.Parse\<close> and \<open>up\<close> is false when the database fails; the response body is one of
  \<open>webhook_body\<close>.
\<close>

datatype webhook_body =
    BodySubscription WebhookSubscription
  | BodySubscriptions "WebhookSubscription list" nat
  | BodyDeliveries "WebhookDelivery list" nat
  | BodyDispatched uuid string
  | BodyHealth uuid wh_stats
  | BodyNone

type_synonym webhook_response = "webhook_body response"

section \<open>Helpers\<close>

definition wh_parseOrgID :: "(string \<Rightarrow> uuid option) \<Rightarrow> string \<Rightarrow> webhook_response + uuid" where
  "wh_parseOrgID parse orgIDStr =
     (case parse orgIDStr of
        None \<Rightarrow> Inl (JsonError 400 ''INVALID_PARAM'' ''orgId must be a valid UUID'')
      | Some orgID \<Rightarrow> Inr orgID)"

definition parseWebhookID :: "(string \<Rightarrow> uuid option) \<Rightarrow> string \<Rightarrow> webhook_response + uuid" where
  "parseWebhookID parse webhookIDStr =
     (case parse webhookIDStr of
        None \<Rightarrow> Inl (JsonError 400 ''INVALID_PARAM'' ''webhookId must be a valid UUID'')
      | Some webhookID \<Rightarrow> Inr webhookID)"

definition parseBoth ::
  "(string \<Rightarrow> uuid option) \<Rightarrow> string \<Rightarrow> string \<Rightarrow> webhook_response + (uuid \<times> uuid)" where
  "parseBoth parse org hook =
     (case wh_parseOrgID parse org of
        Inl r \<Rightarrow> Inl r
      | Inr orgID \<Rightarrow>
          (case parseWebhookID parse hook of Inl r \<Rightarrow> Inl r | Inr i \<Rightarrow> Inr (orgID, i)))"

text \<open>\<open>None\<close> is nil.\<close>

definition validateEventTypes :: "wh_codec \<Rightarrow> string list \<Rightarrow> string option" where
  "validateEventTypes co eventTypes =
     map_option (\<lambda>et. ''unknown event type '' @ wc_quote co et @
         ''; valid: evidence.intake.complete, reasoning.conclusion, finding.status.changed'')
       (find (\<lambda>et. et \<notin> set AllEventTypes) eventTypes)"

definition paginationParams :: "string \<Rightarrow> string \<Rightarrow> int \<times> int" where
  "paginationParams limitStr offsetStr =
     ((case Atoi limitStr of
         Some v \<Rightarrow> if 0 < v then (if 500 < v then 500 else v) else 50
       | None \<Rightarrow> 50),
      (case Atoi offsetStr of Some v \<Rightarrow> if 0 \<le> v then v else 0 | None \<Rightarrow> 0))"

section \<open>Subscription handlers\<close>

text \<open>The answer to a query for one subscription.\<close>

definition one_sub :: "string \<Rightarrow> WebhookSubscription one_row \<Rightarrow> webhook_response" where
  "one_sub failure res =
     (case res of
        RowError \<Rightarrow> JsonError 500 ''INTERNAL_ERROR'' failure
      | NoRow \<Rightarrow> JsonError 404 ''NOT_FOUND'' ''webhook subscription not found''
      | Row sub \<Rightarrow> JsonResponse 200 (BodySubscription sub))"

definition wh_CreateSubscription ::
  "wh_codec \<Rightarrow> pgx \<Rightarrow> (string \<Rightarrow> uuid option) \<Rightarrow> uuid \<Rightarrow> gotime \<Rightarrow> bool \<Rightarrow> wh_db \<Rightarrow> string \<Rightarrow>
   CreateSubscriptionRequest decoded \<Rightarrow> wh_db \<times> webhook_response" where
  "wh_CreateSubscription co px parse newID now up db orgIDStr body =
     (case wh_parseOrgID parse orgIDStr of
        Inl r \<Rightarrow> (db, r)
      | Inr orgID \<Rightarrow>
          (case body of
             Inl msg \<Rightarrow> (db, JsonError 400 ''INVALID_JSON'' msg)
           | Inr req \<Rightarrow>
               if cs_URL req = '''' then (db, JsonError 400 ''MISSING_FIELD'' ''url is required'')
               else if cs_Secret req = ''''
               then (db, JsonError 400 ''MISSING_FIELD'' ''secret is required'')
               else if cs_EventTypes req = []
               then (db, JsonError 400 ''MISSING_FIELD'' ''event_types must not be empty'')
               else (case validateEventTypes co (cs_EventTypes req) of
                   Some e \<Rightarrow> (db, JsonError 400 ''INVALID_EVENT_TYPE'' e)
                 | None \<Rightarrow>
                     if \<not> up
                     then (db, JsonError 500 ''INTERNAL_ERROR'' ''failed to create subscription'')
                     else (case store_CreateSubscription px newID now db orgID (cs_URL req)
                             (cs_Secret req) (HashSecret co (cs_Secret req)) (cs_EventTypes req)
                             (cs_Description req) None of
                         (db', Row sub) \<Rightarrow> (db', JsonResponse 201 (BodySubscription sub))
                       | (db', _) \<Rightarrow> (db', JsonError 500 ''INTERNAL_ERROR''
                             ''failed to create subscription'')))))"

definition wh_ListSubscriptions ::
  "pgx \<Rightarrow> (string \<Rightarrow> uuid option) \<Rightarrow> bool \<Rightarrow> wh_db \<Rightarrow> string \<Rightarrow> webhook_response" where
  "wh_ListSubscriptions px parse up db orgIDStr =
     (case wh_parseOrgID parse orgIDStr of
        Inl r \<Rightarrow> r
      | Inr orgID \<Rightarrow>
          (case (if up then store_ListSubscriptions px db orgID else None) of
             None \<Rightarrow> JsonError 500 ''INTERNAL_ERROR'' ''failed to list subscriptions''
           | Some subs \<Rightarrow> JsonResponse 200 (BodySubscriptions subs (length subs))))"

definition wh_GetSubscription ::
  "pgx \<Rightarrow> (string \<Rightarrow> uuid option) \<Rightarrow> bool \<Rightarrow> wh_db \<Rightarrow> string \<Rightarrow> string \<Rightarrow> webhook_response" where
  "wh_GetSubscription px parse up db orgIDStr webhookIDStr =
     (case parseBoth parse orgIDStr webhookIDStr of
        Inl r \<Rightarrow> r
      | Inr (orgID, i) \<Rightarrow> one_sub ''failed to get subscription''
          (if up then store_GetSubscription px db orgID i else RowError))"

definition wh_UpdateSubscription ::
  "wh_codec \<Rightarrow> pgx \<Rightarrow> (string \<Rightarrow> uuid option) \<Rightarrow> gotime \<Rightarrow> bool \<Rightarrow> wh_db \<Rightarrow> string \<Rightarrow> string \<Rightarrow>
   UpdateSubscriptionRequest decoded \<Rightarrow> wh_db \<times> webhook_response" where
  "wh_UpdateSubscription co px parse now up db orgIDStr webhookIDStr body =
     (case parseBoth parse orgIDStr webhookIDStr of
        Inl r \<Rightarrow> (db, r)
      | Inr (orgID, i) \<Rightarrow>
          (case body of
             Inl msg \<Rightarrow> (db, JsonError 400 ''INVALID_JSON'' msg)
           | Inr req \<Rightarrow>
               (case (if us_EventTypes req \<noteq> [] then validateEventTypes co (us_EventTypes req) else None) of
                  Some e \<Rightarrow> (db, JsonError 400 ''INVALID_EVENT_TYPE'' e)
                | None \<Rightarrow>
                    (case (if up then store_UpdateSubscription px now db orgID i req else (db, RowError)) of
                       (db', res) \<Rightarrow> (db', one_sub ''failed to update subscription'' res)))))"

definition wh_DeleteSubscription ::
  "(string \<Rightarrow> uuid option) \<Rightarrow> gotime \<Rightarrow> bool \<Rightarrow> wh_db \<Rightarrow> string \<Rightarrow> string \<Rightarrow> wh_db \<times> webhook_response" where
  "wh_DeleteSubscription parse now up db orgIDStr webhookIDStr =
     (case parseBoth parse orgIDStr webhookIDStr of
        Inl r \<Rightarrow> (db, r)
      | Inr (orgID, i) \<Rightarrow>
          if up then (store_DeleteSubscription now db orgID i, JsonResponse 204 BodyNone)
          else (db, JsonError 500 ''INTERNAL_ERROR'' ''failed to delete subscription''))"

text \<open>The organisation is parsed and then discarded, as in the code.\<close>

definition wh_ListDeliveries ::
  "pgx \<Rightarrow> (string \<Rightarrow> uuid option) \<Rightarrow> bool \<Rightarrow> wh_db \<Rightarrow> string \<Rightarrow> string \<Rightarrow> string \<Rightarrow> string \<Rightarrow>
   webhook_response" where
  "wh_ListDeliveries px parse up db orgIDStr webhookIDStr limitStr offsetStr =
     (case parseBoth parse orgIDStr webhookIDStr of
        Inl r \<Rightarrow> r
      | Inr (_, webhookID) \<Rightarrow>
          (case paginationParams limitStr offsetStr of (limit, offset) \<Rightarrow>
             (case (if up then ListDeliveriesForSubscription px db webhookID limit offset else None) of
                None \<Rightarrow> JsonError 500 ''INTERNAL_ERROR'' ''failed to list deliveries''
              | Some ds \<Rightarrow> JsonResponse 200 (BodyDeliveries ds (length ds)))))"

section \<open>Dispatch and health\<close>

definition wh_Dispatch ::
  "wh_codec \<Rightarrow> pgx \<Rightarrow> uuid \<Rightarrow> gotime \<Rightarrow> bool \<Rightarrow> (nat \<Rightarrow> uuid \<times> gotime \<times> bool) \<Rightarrow> wh_db \<Rightarrow>
   wh_DispatchRequest decoded \<Rightarrow> wh_db \<times> attempt_job list \<times> webhook_response" where
  "wh_Dispatch co px eventID now up draw db body =
     (case body of
        Inl msg \<Rightarrow> (db, [], JsonError 400 ''INVALID_JSON'' msg)
      | Inr req \<Rightarrow>
          if wq_OrgID req = uuid_Nil
          then (db, [], JsonError 400 ''MISSING_FIELD'' ''org_id is required'')
          else if wq_EventType req = ''''
          then (db, [], JsonError 400 ''MISSING_FIELD'' ''event_type is required'')
          else (case validateEventTypes co [wq_EventType req] of
              Some e \<Rightarrow> (db, [], JsonError 400 ''INVALID_EVENT_TYPE'' e)
            | None \<Rightarrow>
                (case worker_Dispatch co px eventID now up draw db (wq_OrgID req) (wq_EventType req)
                        (wq_Data req) of
                   None \<Rightarrow> (db, [], JsonError 500 ''INTERNAL_ERROR'' ''dispatch failed'')
                 | Some (db', jobs) \<Rightarrow> (db', jobs,
                     JsonResponse 202 (BodyDispatched (wq_OrgID req) (wq_EventType req))))))"

definition AdminHealth ::
  "(string \<Rightarrow> uuid option) \<Rightarrow> bool \<Rightarrow> wh_db \<Rightarrow> string \<Rightarrow> webhook_response" where
  "AdminHealth parse up db orgIDStr =
     (case parse orgIDStr of
        None \<Rightarrow> JsonError 400 ''INVALID_PARAM'' ''org_id query param must be a valid UUID''
      | Some orgID \<Rightarrow>
          if \<not> up then JsonError 500 ''INTERNAL_ERROR'' ''failed to retrieve health stats''
          else JsonResponse 200 (BodyHealth orgID (store_HealthStats db orgID)))"

section \<open>What the handlers do to the subscriptions\<close>

definition sub_ok :: "sub_row \<Rightarrow> bool" where
  "sub_ok r \<longleftrightarrow> sr_event_types r \<noteq> [] \<and> set (sr_event_types r) \<subseteq> set AllEventTypes \<and>
     sr_secret_value r \<noteq> '''' \<and> sr_description r \<noteq> None"

definition same_sub :: "sub_row \<Rightarrow> sub_row \<Rightarrow> bool" where
  "same_sub r r' \<longleftrightarrow> sr_id r' = sr_id r \<and> sr_org_id r' = sr_org_id r \<and>
     sr_secret_value r' = sr_secret_value r"

text \<open>
  One request: the deliveries stay, the rows of other organisations stay, rows of the
  organisation keep id and secret, and at most one valid row is added.
\<close>

definition subs_change :: "uuid option \<Rightarrow> wh_db \<Rightarrow> wh_db \<Rightarrow> bool" where
  "subs_change org db db' \<longleftrightarrow> db_dels db' = db_dels db \<and>
     (\<exists>f new. db_subs db' = map f (db_subs db) @ new \<and>
        (\<forall>r. same_sub r (f r) \<and> (sub_ok r \<longrightarrow> sub_ok (f r)) \<and> (Some (sr_org_id r) = org \<or> f r = r)) \<and>
        (new = [] \<or> (\<exists>r. new = [r] \<and> sub_ok r \<and> Some (sr_org_id r) = org)))"

lemma same_sub_refl [simp]: "same_sub r r"
  by (simp add: same_sub_def)

lemma subs_change_refl [simp]: "subs_change org db db"
  unfolding subs_change_def by (intro conjI exI [of _ id] exI [of _ "[]"]) auto

lemma subs_change_map:
  assumes "\<And>r. same_sub r (f r)" and "\<And>r. sub_ok r \<Longrightarrow> sub_ok (f r)" and "\<And>r. P r \<Longrightarrow> Some (sr_org_id r) = org"
  shows "subs_change org db (update_subs P f db)"
  unfolding subs_change_def
  by (intro conjI exI [of _ "\<lambda>r. if P r then f r else r"] exI [of _ "[]"]) (auto simp: assms)

lemma validateEventTypes_None:
  "validateEventTypes co ets = None \<longleftrightarrow> set ets \<subseteq> set AllEventTypes"
  by (auto simp: validateEventTypes_def find_None_iff)

lemma wh_parseOrgID_Inr [simp]: "wh_parseOrgID parse org = Inr ow \<longleftrightarrow> parse org = Some ow"
  by (auto simp: wh_parseOrgID_def split: option.splits)

lemma parseBoth_Inr [simp]:
  "parseBoth parse org hook = Inr (ow, i) \<longleftrightarrow> parse org = Some ow \<and> parse hook = Some i"
  by (auto simp: parseBoth_def wh_parseOrgID_def parseWebhookID_def split: option.splits)

lemma store_UpdateSubscription_change:
  assumes "us_EventTypes req \<noteq> [] \<Longrightarrow> set (us_EventTypes req) \<subseteq> set AllEventTypes"
  shows "subs_change (Some ow) db (fst (store_UpdateSubscription px now db ow i req))"
proof -
  have "subs_change (Some ow) db
      (update_subs (\<lambda>r. sr_org_id r = ow \<and> sr_id r = i) (set_clause now req) db)"
  proof (rule subs_change_map)
    show "sub_ok r \<Longrightarrow> sub_ok (set_clause now req r)" for r
      using assms by (auto simp: sub_ok_def set_clause_def Let_def split: option.splits)
  qed (simp_all add: same_sub_def)
  then show ?thesis by (simp add: store_UpdateSubscription_def Let_def)
qed

lemma wh_CreateSubscription_change:
  assumes "wh_CreateSubscription co px parse newID now up db org body = (db', resp)"
  shows "subs_change (parse org) db db' \<and>
     (db' = db \<or> (\<exists>r. sr_id r = newID \<and> db_subs db' = db_subs db @ [r]))"
proof (cases "db' = db")
  case False
  then obtain ow where org: "parse org = Some ow"
    using assms by (cases "wh_parseOrgID parse org") (auto simp: wh_CreateSubscription_def)
  from False org assms obtain req where body: "body = Inr req" and req: "cs_EventTypes req \<noteq> []"
    "cs_Secret req \<noteq> ''''" "validateEventTypes co (cs_EventTypes req) = None" and up
    by (cases body) (auto simp: wh_CreateSubscription_def wh_parseOrgID_def split: if_splits option.splits)
  obtain db1 res where st: "store_CreateSubscription px newID now db ow (cs_URL req) (cs_Secret req)
       (HashSecret co (cs_Secret req)) (cs_EventTypes req) (cs_Description req) None = (db1, res)"
    by fastforce
  with False org assms body req \<open>up\<close> have db': "db' = db1"
    by (auto simp: wh_CreateSubscription_def wh_parseOrgID_def split: if_splits one_row.splits)
  from db' st obtain r where r: "db' = db\<lparr> db_subs := db_subs db @ [r] \<rparr>" "sr_id r = newID"
    "sub_ok r" "sr_org_id r = ow"
    using req by (auto simp: store_CreateSubscription_def Let_def sub_ok_def validateEventTypes_None)
  have "subs_change (Some ow) db db'"
    unfolding subs_change_def
    by (intro conjI exI [of _ id] exI [of _ "[r]"]) (use r in auto)
  with r org show ?thesis by auto
qed simp

lemma wh_UpdateSubscription_change:
  assumes "wh_UpdateSubscription co px parse now up db org hook body = (db', resp)"
  shows "subs_change (parse org) db db' \<and> map sr_id (db_subs db') = map sr_id (db_subs db)"
proof (cases "db' = db")
  case False
  with assms obtain ow i where org: "parse org = Some ow" and i: "parse hook = Some i"
    by (cases "parseBoth parse org hook") (auto simp: wh_UpdateSubscription_def)
  from False assms org i obtain req where body: "body = Inr req"
    by (cases body) (auto simp: wh_UpdateSubscription_def split: sum.splits)
  from False assms org i body have "us_EventTypes req = [] \<or> validateEventTypes co (us_EventTypes req) = None"
    and db': "db' = fst (store_UpdateSubscription px now db ow i req)"
    by (auto simp: wh_UpdateSubscription_def split: sum.splits if_splits option.splits prod.splits)
  then have "subs_change (Some ow) db db'"
    using store_UpdateSubscription_change [of req] by (auto simp: validateEventTypes_None)
  moreover have "map sr_id (db_subs db') = map sr_id (db_subs db)"
    by (auto simp: db' store_UpdateSubscription_def Let_def)
  ultimately show ?thesis using org by simp
qed simp

lemma wh_DeleteSubscription_change:
  assumes "wh_DeleteSubscription parse now up db org hook = (db', resp)"
  shows "subs_change (parse org) db db' \<and> map sr_id (db_subs db') = map sr_id (db_subs db)"
proof (cases "db' = db")
  case False
  then obtain ow i where org: "parse org = Some ow"
    and db': "db' = store_DeleteSubscription now db ow i"
    using assms by (cases "parseBoth parse org hook")
      (auto simp: wh_DeleteSubscription_def split: sum.splits if_splits)
  have "subs_change (Some ow) db db'"
    unfolding db' store_DeleteSubscription_def
    by (rule subs_change_map) (auto simp: same_sub_def sub_ok_def)
  moreover have "map sr_id (db_subs db') = map sr_id (db_subs db)"
    by (auto simp: db' store_DeleteSubscription_def)
  ultimately show ?thesis using org by simp
qed simp

text \<open>Dispatching starts attempts and appends rows; it does not touch the subscriptions.\<close>

lemma wh_Dispatch_rows:
  assumes "wh_Dispatch co px eventID now up draw db body = (db', jobs, resp)"
  shows "\<exists>new ow et. db' = db\<lparr> db_dels := db_dels db @ new \<rparr> \<and>
     list_all (new_row ow et (ActiveSubscriptionsForEvent db ow et)) new \<and>
     list_all (started_by px (ActiveSubscriptionsForEvent db ow et) new) jobs"
proof (cases "db' = db \<and> jobs = []")
  case True
  then show ?thesis by (intro exI [of _ "[]"]) simp
next
  case False
  with assms obtain req where "body = Inr req"
    by (cases body) (auto simp: wh_Dispatch_def)
  with False assms have "worker_Dispatch co px eventID now up draw db (wq_OrgID req) (wq_EventType req)
      (wq_Data req) = Some (db', jobs)"
    by (auto simp: wh_Dispatch_def split: if_splits option.splits)
  then obtain payload where "create_deliveries co px (wq_OrgID req) (wq_EventType req) payload draw 0
      (ActiveSubscriptionsForEvent db (wq_OrgID req) (wq_EventType req)) db = (db', jobs)"
    by (auto simp: worker_Dispatch_def Let_def split: if_splits)
  from create_deliveries_rows [OF this] show ?thesis by blast
qed

lemma ActiveSubscriptionsForEvent_set:
  "a \<in> set (ActiveSubscriptionsForEvent db ow et) \<Longrightarrow>
     \<exists>r \<in> set (db_subs db). sr_org_id r = ow \<and> sr_is_active r \<and> opted_in et r \<and> sr_id r = as_ID a \<and>
       sr_url r = as_URL a \<and> sr_secret_value r = as_Secret a"
  by (auto simp: ActiveSubscriptionsForEvent_def)

end
