(* ===== verification/WebhooksSystem.thy ===== *)
theory WebhooksSystem
  imports WebhooksHandler
begin

text \<open>
  The webhooks service as one system (\<open>wh_step\<close>): its state-changing handlers, the retry poller
  and the attempts in flight, in any interleaving. Then what every reachable state satisfies,
  and how the lifecycle of a delivery comes out.
\<close>

section \<open>The system\<close>

text \<open>
  The database, the attempts running, and every POST sent so far with its outcome. Insertions
  draw fresh ids. An attempt that panics would take the process down, so such a step leads
  nowhere; that none does is a theorem.
\<close>

record wh_sys =
  sy_db :: wh_db
  sy_inflight :: "attempt_job list"
  sy_posts :: "(http_post \<times> post_outcome) list"

definition wh_start :: wh_sys where
  "wh_start = \<lparr> sy_db = \<lparr> db_subs = [], db_dels = [] \<rparr>, sy_inflight = [], sy_posts = [] \<rparr>"

definition fresh_draw :: "wh_db \<Rightarrow> (nat \<Rightarrow> uuid \<times> gotime \<times> bool) \<Rightarrow> nat \<Rightarrow> bool" where
  "fresh_draw db draw n \<longleftrightarrow>
     (\<forall>i < n. fst (draw i) \<notin> dr_id ` set (db_dels db) \<and> (\<forall>j < i. fst (draw i) \<noteq> fst (draw j)))"

inductive wh_step :: "wh_codec \<Rightarrow> pgx \<Rightarrow> (string \<Rightarrow> uuid option) \<Rightarrow> wh_sys \<Rightarrow> wh_sys \<Rightarrow> bool"
  for co px parse where
  create: "wh_CreateSubscription co px parse newID now up (sy_db s) org body = (db', resp) \<Longrightarrow>
     newID \<notin> sr_id ` set (db_subs (sy_db s)) \<Longrightarrow> wh_step co px parse s (s\<lparr> sy_db := db' \<rparr>)"
| update: "wh_UpdateSubscription co px parse now up (sy_db s) org hook body = (db', resp) \<Longrightarrow>
     wh_step co px parse s (s\<lparr> sy_db := db' \<rparr>)"
| delete: "wh_DeleteSubscription parse now up (sy_db s) org hook = (db', resp) \<Longrightarrow>
     wh_step co px parse s (s\<lparr> sy_db := db' \<rparr>)"
| dispatch: "wh_Dispatch co px eventID now up draw (sy_db s) body = (db', jobs, resp) \<Longrightarrow>
     fresh_draw (sy_db s) draw (length (db_subs (sy_db s))) \<Longrightarrow>
     wh_step co px parse s (s\<lparr> sy_db := db', sy_inflight := sy_inflight s @ jobs \<rparr>)"
| poll: "wh_step co px parse s
     (s\<lparr> sy_inflight := sy_inflight s @ runRetryBatch px now up lost (sy_db s) \<rparr>)"
| attempt: "sy_inflight s = xs @ job # ys \<Longrightarrow> wh_attempt co now up out (sy_db s) job = (post, Some db') \<Longrightarrow>
     wh_step co px parse s (s\<lparr> sy_db := db', sy_inflight := xs @ ys,
       sy_posts := (case post of None \<Rightarrow> sy_posts s | Some p \<Rightarrow> sy_posts s @ [(p, out)]) \<rparr>)"

inductive wh_reachable :: "wh_codec \<Rightarrow> pgx \<Rightarrow> (string \<Rightarrow> uuid option) \<Rightarrow> wh_sys \<Rightarrow> bool"
  for co px parse where
  start: "wh_reachable co px parse wh_start"
| step: "wh_reachable co px parse s \<Longrightarrow> wh_step co px parse s s' \<Longrightarrow> wh_reachable co px parse s'"

section \<open>The invariant\<close>

text \<open>A delivery belongs to a subscription of its organisation; so does what is sent of it.\<close>

definition linked :: "sub_row list \<Rightarrow> uuid \<Rightarrow> uuid \<Rightarrow> bool" where
  "linked subs subID orgID \<longleftrightarrow> (\<exists>s \<in> set subs. sr_id s = subID \<and> sr_org_id s = orgID)"

definition signed_for :: "wh_codec \<Rightarrow> wh_db \<Rightarrow> http_post \<Rightarrow> bool" where
  "signed_for co db p \<longleftrightarrow> (\<exists>d \<in> set (db_dels db). \<exists>s \<in> set (db_subs db).
     hp_delivery p = wc_uuid co (dr_id d) \<and> sr_id s = dr_subscription_id d \<and>
     sr_org_id s = dr_org_id d \<and> hp_signature p = wh_Sign co (sr_secret_value s) (hp_body p))"

definition job_linked :: "wh_db \<Rightarrow> attempt_job \<Rightarrow> bool" where
  "job_linked db j \<longleftrightarrow> (\<exists>d \<in> set (db_dels db). \<exists>s \<in> set (db_subs db).
     dr_id d = wd_ID (aj_del j) \<and> dr_subscription_id d = wd_SubscriptionID (aj_del j) \<and>
     sr_id s = dr_subscription_id d \<and> sr_org_id s = dr_org_id d \<and> sr_secret_value s = aj_secret j)"

definition db_ok :: "wh_db \<Rightarrow> bool" where
  "db_ok db \<longleftrightarrow> distinct (map sr_id (db_subs db)) \<and> list_all sub_ok (db_subs db) \<and>
     list_all row_ok (db_dels db) \<and>
     list_all (\<lambda>d. linked (db_subs db) (dr_subscription_id d) (dr_org_id d)) (db_dels db)"

definition wh_inv :: "wh_codec \<Rightarrow> wh_sys \<Rightarrow> bool" where
  "wh_inv co s \<longleftrightarrow> db_ok (sy_db s) \<and>
     list_all (\<lambda>j. job_ok j \<and> job_linked (sy_db s) j) (sy_inflight s) \<and>
     list_all (\<lambda>(p, _). signed_for co (sy_db s) p) (sy_posts s)"

text \<open>
  What keeps the three parts: a change of the database that keeps ids, owners and secrets of
  the rows it has (\<open>rows_kept\<close>).
\<close>

definition rows_kept :: "wh_db \<Rightarrow> wh_db \<Rightarrow> bool" where
  "rows_kept db db' \<longleftrightarrow>
     (\<forall>s \<in> set (db_subs db). \<exists>s' \<in> set (db_subs db'). same_sub s s') \<and>
     (\<forall>d \<in> set (db_dels db). \<exists>d' \<in> set (db_dels db'). dr_id d' = dr_id d \<and>
        dr_subscription_id d' = dr_subscription_id d \<and> dr_org_id d' = dr_org_id d)"

lemma signed_for_kept: "rows_kept db db' \<Longrightarrow> signed_for co db p \<Longrightarrow> signed_for co db' p"
  unfolding rows_kept_def signed_for_def same_sub_def by metis

lemma job_linked_kept: "rows_kept db db' \<Longrightarrow> job_linked db j \<Longrightarrow> job_linked db' j"
  unfolding rows_kept_def job_linked_def same_sub_def by metis

lemma wh_inv_kept:
  assumes "wh_inv co s" and "rows_kept (sy_db s) db'"
  shows "list_all (\<lambda>j. job_ok j \<and> job_linked db' j) (sy_inflight s)"
    and "list_all (\<lambda>(p, _). signed_for co db' p) (sy_posts s)"
proof -
  show "list_all (\<lambda>j. job_ok j \<and> job_linked db' j) (sy_inflight s)"
    using assms(1) unfolding wh_inv_def
    by (elim conjE list_all_mono') (blast intro: job_linked_kept [OF assms(2)])
  show "list_all (\<lambda>(p, _). signed_for co db' p) (sy_posts s)"
    using assms(1) unfolding wh_inv_def
    by (elim conjE) (erule list_all_mono' [of _ "sy_posts s"], auto intro: signed_for_kept [OF assms(2)])
qed

lemma subs_change_kept:
  assumes "subs_change org db db'"
  shows "rows_kept db db'"
proof -
  obtain f new where "db_dels db' = db_dels db" "db_subs db' = map f (db_subs db) @ new"
    "\<And>r. same_sub r (f r)" using assms by (auto simp: subs_change_def)
  then show ?thesis unfolding rows_kept_def by auto
qed

lemma subs_change_ok:
  assumes "subs_change org db db'" and "db_ok db" and "distinct (map sr_id (db_subs db'))"
  shows "db_ok db'"
proof -
  obtain f new where f: "db_subs db' = map f (db_subs db) @ new"
    "\<And>r. same_sub r (f r)" "\<And>r. sub_ok r \<Longrightarrow> sub_ok (f r)" "new = [] \<or> (\<exists>r. new = [r] \<and> sub_ok r)"
    using assms(1) by (auto simp: subs_change_def)
  have "list_all sub_ok (db_subs db')"
    using f assms(2) by (auto simp: db_ok_def list_all_iff)
  moreover have "linked (db_subs db) i ow \<Longrightarrow> linked (db_subs db') i ow" for i ow
    using f(1,2) by (auto simp: linked_def same_sub_def)
  ultimately show ?thesis
    using assms by (auto simp: db_ok_def list_all_iff subs_change_def)
qed

text \<open>The steps that write only subscriptions.\<close>

lemma subs_step_inv:
  assumes "wh_inv co s" and "subs_change org (sy_db s) db'" and "distinct (map sr_id (db_subs db'))"
  shows "wh_inv co (s\<lparr> sy_db := db' \<rparr>)"
  using subs_change_ok [OF assms(2) _ assms(3)] wh_inv_kept [OF assms(1) subs_change_kept [OF assms(2)]]
    assms(1) by (simp add: wh_inv_def)

lemma dels_map_kept:
  assumes "\<And>r. dr_id (g r) = dr_id r \<and> dr_subscription_id (g r) = dr_subscription_id r \<and>
     dr_org_id (g r) = dr_org_id r"
  shows "rows_kept db (update_dels i g db)"
  unfolding rows_kept_def
proof (intro conjI ballI)
  show "\<exists>s' \<in> set (db_subs (update_dels i g db)). same_sub s s'" if "s \<in> set (db_subs db)" for s
    using that by (intro bexI [of _ s]) simp_all
  show "\<exists>d' \<in> set (db_dels (update_dels i g db)). dr_id d' = dr_id d \<and>
      dr_subscription_id d' = dr_subscription_id d \<and> dr_org_id d' = dr_org_id d"
    if "d \<in> set (db_dels db)" for d
    using that assms [of d] by (intro bexI [of _ "if dr_id d = i then g d else d"]) auto
qed

lemma dels_map_ok:
  assumes "db_ok db" and "\<And>r. row_ok r \<Longrightarrow> row_ok (g r)"
    and "\<And>r. dr_subscription_id (g r) = dr_subscription_id r \<and> dr_org_id (g r) = dr_org_id r"
  shows "db_ok (update_dels i g db)"
  using assms by (auto simp: db_ok_def list_all_iff)

lemma attempt_ok:
  assumes "db_ok db" and "job_ok job"
  obtains db' where "snd (wh_attempt co now up out db job) = Some db'" "db_ok db'" "rows_kept db db'"
    "db_subs db' = db_subs db"
  using assms(2)
proof (cases rule: wh_attempt_cases [of job co now up out db])
  case same
  show thesis by (rule that [OF same assms(1)]) (auto simp: rows_kept_def intro: same_sub_refl)
next
  case (delivered c)
  show thesis
    by (rule that [OF delivered])
      (simp_all add: wh_MarkDelivered_eq dels_map_ok [OF assms(1) set_delivered_ok] dels_map_kept)
next
  case (failed k rs msg)
  show thesis
    by (rule that [OF failed(2)])
      (simp_all add: dels_map_ok [OF assms(1) set_failed_ok [OF failed(1)]] dels_map_kept)
qed

lemma attempt_step_inv:
  assumes "wh_inv co s" and "sy_inflight s = xs @ job # ys"
    and "wh_attempt co now up out (sy_db s) job = (post, Some db')"
  shows "wh_inv co (s\<lparr> sy_db := db', sy_inflight := xs @ ys,
       sy_posts := (case post of None \<Rightarrow> sy_posts s | Some p \<Rightarrow> sy_posts s @ [(p, out)]) \<rparr>)"
proof -
  have job: "job_ok job" "job_linked (sy_db s) job"
    using assms(1,2) by (simp_all add: wh_inv_def)
  have db': "db_ok db'" "rows_kept (sy_db s) db'"
    using attempt_ok [of "sy_db s" job co now up out] assms(1,3) job(1) by (auto simp: wh_inv_def)
  have "post = Some p \<Longrightarrow> signed_for co db' p" for p
  proof -
    assume "post = Some p"
    then have "fst (wh_attempt co now up out (sy_db s) job) = Some p" using assms(3) by simp
    note p = wh_attempt_post [OF this]
    from job(2) have "signed_for co (sy_db s) p"
      unfolding job_linked_def signed_for_def by (metis p)
    then show "signed_for co db' p" by (rule signed_for_kept [OF db'(2)])
  qed
  with wh_inv_kept [OF assms(1) db'(2)] db'(1) assms(2) show ?thesis
    by (auto simp: wh_inv_def split: option.splits)
qed

lemma new_rows_ok:
  assumes "db_ok db" and "list_all (new_row ow et (ActiveSubscriptionsForEvent db ow et)) new"
  shows "db_ok (db\<lparr> db_dels := db_dels db @ new \<rparr>)" and "rows_kept db (db\<lparr> db_dels := db_dels db @ new \<rparr>)"
proof -
  have "new_row ow et (ActiveSubscriptionsForEvent db ow et) r \<Longrightarrow>
      row_ok r \<and> linked (db_subs db) (dr_subscription_id r) (dr_org_id r)" for r
    by (auto simp: new_row_def row_ok_def linked_def dest!: ActiveSubscriptionsForEvent_set)
  with assms show "db_ok (db\<lparr> db_dels := db_dels db @ new \<rparr>)"
    by (auto simp: db_ok_def list_all_iff)
  show "rows_kept db (db\<lparr> db_dels := db_dels db @ new \<rparr>)"
    by (auto simp: rows_kept_def intro: same_sub_refl)
qed

lemma started_job_ok:
  assumes "started_by px (ActiveSubscriptionsForEvent db ow et) new j"
    and "list_all (new_row ow et (ActiveSubscriptionsForEvent db ow et)) new"
  shows "job_ok j \<and> job_linked (db\<lparr> db_dels := db_dels db @ new \<rparr>) j"
proof -
  from assms(1) obtain r a where r: "r \<in> set new" and a: "a \<in> set (ActiveSubscriptionsForEvent db ow et)"
    and j: "scanDelivery px r = Some (aj_del j)" "dr_subscription_id r = as_ID a" "aj_secret j = as_Secret a"
    unfolding started_by_def by blast
  have n: "dr_attempt_count r = 0" "dr_org_id r = ow"
    using assms(2) r by (auto simp: list_all_iff new_row_def)
  from ActiveSubscriptionsForEvent_set [OF a] scanDelivery_Some [OF j(1)] n r j(2,3) show ?thesis
    unfolding job_ok_def job_linked_def by fastforce
qed

lemma retry_batch_ok:
  assumes "db_ok db" and "j \<in> set (runRetryBatch px now up lost db)"
  shows "job_ok j \<and> job_linked db j"
proof -
  from runRetryBatch_job [OF assms(2)] obtain r s where
    rs: "r \<in> set (db_dels db)" "due now r" "scanDelivery px r = Some (aj_del j)" "s \<in> set (db_subs db)"
    "sr_id s = dr_subscription_id r" "sr_secret_value s = aj_secret j"
    using batch_row_due by blast
  from assms(1) rs(1) have ok: "row_ok r" "linked (db_subs db) (dr_subscription_id r) (dr_org_id r)"
    by (auto simp: db_ok_def list_all_iff)
  from ok(2) obtain s' where s': "s' \<in> set (db_subs db)" "sr_id s' = dr_subscription_id r"
    "sr_org_id s' = dr_org_id r" by (auto simp: linked_def)
  have "s' = s"
    using assms(1) rs(4,5) s'(1,2) by (auto simp: db_ok_def distinct_map inj_on_def)
  moreover have "dr_attempt_count r \<in> {0, 1, 2}"
    using ok(1) rs(2) row_ok_pending by (simp add: due_def)
  ultimately show ?thesis
    using rs s' scanDelivery_Some [OF rs(3)] unfolding job_ok_def job_linked_def by fastforce
qed

lemma wh_start_inv: "wh_inv co wh_start"
  by (simp add: wh_inv_def wh_start_def db_ok_def)

lemma wh_step_inv:
  assumes "wh_step co px parse s s'" and "wh_inv co s"
  shows "wh_inv co s'"
  using assms
proof (cases rule: wh_step.cases)
  case (create newID now up org body db' resp)
  note c = wh_CreateSubscription_change [OF create(2)]
  have "distinct (map sr_id (db_subs db'))"
    using c create(3) assms(2) by (auto simp: wh_inv_def db_ok_def)
  with subs_step_inv [OF assms(2)] c create(1) show ?thesis by blast
next
  case (update now up org hook body db' resp)
  note c = wh_UpdateSubscription_change [OF update(2)]
  then have "distinct (map sr_id (db_subs db'))"
    using assms(2) by (simp add: wh_inv_def db_ok_def)
  with subs_step_inv [OF assms(2)] c update(1) show ?thesis by blast
next
  case (delete now up org hook db' resp)
  note c = wh_DeleteSubscription_change [OF delete(2)]
  then have "distinct (map sr_id (db_subs db'))"
    using assms(2) by (simp add: wh_inv_def db_ok_def)
  with subs_step_inv [OF assms(2)] c delete(1) show ?thesis by blast
next
  case (dispatch eventID now up draw body db' jobs resp)
  from wh_Dispatch_rows [OF dispatch(2)] obtain new ow et where
    db': "db' = (sy_db s)\<lparr> db_dels := db_dels (sy_db s) @ new \<rparr>"
    and new: "list_all (new_row ow et (ActiveSubscriptionsForEvent (sy_db s) ow et)) new"
    and jobs: "list_all (started_by px (ActiveSubscriptionsForEvent (sy_db s) ow et) new) jobs"
    by blast
  have ok: "db_ok (sy_db s)" using assms(2) by (simp add: wh_inv_def)
  from wh_inv_kept [OF assms(2) new_rows_ok(2) [OF ok new]] new_rows_ok(1) [OF ok new]
    started_job_ok [OF _ new] jobs
  show ?thesis by (auto simp: dispatch(1) db' wh_inv_def list_all_iff)
next
  case (poll now up lost)
  with assms(2) retry_batch_ok [of "sy_db s"] show ?thesis
    by (auto simp: wh_inv_def list_all_iff)
next
  case (attempt xs job ys now up out post db')
  with attempt_step_inv [OF assms(2)] show ?thesis by blast
qed

lemma wh_reachable_inv: "wh_reachable co px parse s \<Longrightarrow> wh_inv co s"
  by (induction rule: wh_reachable.induct) (auto intro: wh_start_inv wh_step_inv)

section \<open>Lemmas for the properties\<close>

text \<open>With a database that accepts and codecs that work, the fan-out starts one attempt each.\<close>

lemma scan_fresh:
  assumes "px_null px = Some m" and "\<And>b. px_payload px b \<noteq> None"
  shows "\<exists>d. scanDelivery px r = Some d"
proof -
  obtain msg where "scan_text px (dr_error_message r) = Some msg"
    using assms(1) by (cases "dr_error_message r") (auto simp: scan_text_def)
  moreover obtain pl where "px_payload px (dr_payload r) = Some pl" using assms(2) by blast
  ultimately show ?thesis by (auto simp: scanDelivery_def)
qed

lemma CreateDelivery_ok:
  assumes "px_null px = Some m" and "\<And>b. px_payload px b \<noteq> None" and "\<And>v. \<exists>b. wc_marshal co v = Inr b"
  shows "\<exists>r d. CreateDelivery co px newID now db subID ow et payload =
     (db\<lparr> db_dels := db_dels db @ [r] \<rparr>, Some d) \<and> wd_SubscriptionID d = subID"
proof -
  obtain raw where "wc_marshal co payload = Inr raw" using assms(3) by blast
  then have "\<exists>r. dr_subscription_id r = subID \<and> CreateDelivery co px newID now db subID ow et payload =
      (db\<lparr> db_dels := db_dels db @ [r] \<rparr>, scanDelivery px r)"
    unfolding CreateDelivery_def Let_def
    by (simp only: sum.case) (intro exI conjI, rule_tac [2] refl, simp)
  then obtain r where r: "dr_subscription_id r = subID" "CreateDelivery co px newID now db subID ow et payload =
      (db\<lparr> db_dels := db_dels db @ [r] \<rparr>, scanDelivery px r)"
    by blast
  with scan_fresh [OF assms(1,2), of r] scanDelivery_Some show ?thesis by fastforce
qed

definition job_key :: "attempt_job \<Rightarrow> uuid \<times> string \<times> string" where
  "job_key j = (wd_SubscriptionID (aj_del j), aj_url j, aj_secret j)"

lemma create_deliveries_all:
  assumes "px_null px = Some m" and "\<And>b. px_payload px b \<noteq> None" and "\<And>v. \<exists>b. wc_marshal co v = Inr b"
    and "\<And>n. snd (snd (draw n))"
  shows "\<exists>db' jobs. create_deliveries co px ow et payload draw n subs db = (db', jobs) \<and>
     map job_key jobs = map (\<lambda>s. (as_ID s, as_URL s, as_Secret s)) subs \<and>
     length (db_dels db') = length (db_dels db) + length subs"
proof (induction subs arbitrary: n db)
  case (Cons sub subs)
  obtain newID now where d: "draw n = (newID, now, True)"
    using assms(4) [of n] by (cases "draw n") auto
  from CreateDelivery_ok [OF assms(1-3)] obtain r del where
    c: "CreateDelivery co px newID now db (as_ID sub) ow et payload =
      (db\<lparr> db_dels := db_dels db @ [r] \<rparr>, Some del)" "wd_SubscriptionID del = as_ID sub"
    by metis
  from Cons [of "Suc n" "db\<lparr> db_dels := db_dels db @ [r] \<rparr>"] d c show ?case
    by (auto simp: job_key_def)
qed simp

lemma opted_in_ok: "sub_ok r \<Longrightarrow> opted_in et r \<longleftrightarrow> et \<in> set (sr_event_types r)"
  by (auto simp: opted_in_def sub_ok_def AllEventTypes_def)

lemma ids_unique: "distinct (map dr_id xs) \<Longrightarrow> x \<in> set xs \<Longrightarrow> y \<in> set xs \<Longrightarrow> dr_id x = i \<Longrightarrow> dr_id y = i \<Longrightarrow> x = y"
  by (auto simp: distinct_map inj_on_def)

text \<open>While pgx refuses NULL, no row ever scans, so nothing is ever attempted.\<close>

definition silent :: "wh_sys \<Rightarrow> bool" where
  "silent s \<longleftrightarrow> sy_inflight s = [] \<and> sy_posts s = [] \<and>
     list_all (\<lambda>r. dr_error_message r = None) (db_dels (sy_db s))"

lemma null_never_scans: "px_null px = None \<Longrightarrow> dr_error_message r = None \<Longrightarrow> scanDelivery px r = None"
  by (simp add: scanDelivery_def scan_text_def)

lemma no_jobs: "list_all (\<lambda>_. False) xs \<longleftrightarrow> xs = []"
  by (cases xs) simp_all

lemma silent_batch:
  assumes "px_null px = None" and "list_all (\<lambda>r. dr_error_message r = None) (db_dels db)"
  shows "runRetryBatch px now up lost db = []"
proof -
  have "\<not> j \<in> set (runRetryBatch px now up lost db)" for j
  proof
    assume "j \<in> set (runRetryBatch px now up lost db)"
    from runRetryBatch_job [OF this] obtain r where "r \<in> set (db_dels db)" "scanDelivery px r = Some (aj_del j)"
      using batch_row_due by blast
    with assms null_never_scans show False by (fastforce simp: list_all_iff)
  qed
  then show ?thesis by (metis last_in_set)
qed

lemma silent_step:
  assumes "px_null px = None" and "wh_step co px parse s s'" and "silent s"
  shows "silent s'"
  using assms(2)
proof (cases rule: wh_step.cases)
  case (create newID now up org body db' resp)
  with wh_CreateSubscription_change [OF create(2)] assms(3) show ?thesis
    by (simp add: silent_def subs_change_def)
next
  case (update now up org hook body db' resp)
  with wh_UpdateSubscription_change [OF update(2)] assms(3) show ?thesis
    by (simp add: silent_def subs_change_def)
next
  case (delete now up org hook db' resp)
  with wh_DeleteSubscription_change [OF delete(2)] assms(3) show ?thesis
    by (simp add: silent_def subs_change_def)
next
  case (dispatch eventID now up draw body db' jobs resp)
  from wh_Dispatch_rows [OF dispatch(2)] obtain new ow et where
    new: "db' = (sy_db s)\<lparr> db_dels := db_dels (sy_db s) @ new \<rparr>"
    "list_all (new_row ow et (ActiveSubscriptionsForEvent (sy_db s) ow et)) new"
    "list_all (started_by px (ActiveSubscriptionsForEvent (sy_db s) ow et) new) jobs" by blast
  have null: "list_all (\<lambda>r. dr_error_message r = None) new"
    using new(2) by (rule list_all_mono') (simp add: new_row_def)
  then have "\<not> started_by px subs new j" for subs j
    using null_never_scans [OF assms(1)] by (fastforce simp: started_by_def list_all_iff)
  then have "jobs = []" using new(3) by (cases jobs) auto
  with null new(1) dispatch(1) assms(3) show ?thesis by (simp add: silent_def)
next
  case (poll now up lost)
  with assms(3) silent_batch [OF assms(1)] show ?thesis by (simp add: silent_def)
next
  case (attempt xs job ys now up out post db')
  with assms(3) show ?thesis by (simp add: silent_def)
qed

section \<open>Properties\<close>

text \<open>
  C12. However requests, polls and attempts interleave, every delivery is in one of the states
  the retry rules mean: pending with fewer than three attempts, waiting 5 or 30 minutes after
  the last one (or not yet tried), dead-lettered after exactly three, or delivered. So no
  running attempt indexes the retry schedule out of range, and its first interval, 30 s, is
  never used.
\<close>

theorem webhook_queue_invariant:
  assumes "wh_reachable co px parse s"
  shows "list_all row_ok (db_dels (sy_db s)) \<and> distinct (map sr_id (db_subs (sy_db s))) \<and>
     list_all (\<lambda>j. snd (wh_attempt co now up out (sy_db s) j) \<noteq> None) (sy_inflight s)"
proof -
  have inv: "wh_inv co s" by (rule wh_reachable_inv [OF assms])
  have "job_ok j \<Longrightarrow> snd (wh_attempt co now up out (sy_db s) j) \<noteq> None" for j
    by (cases rule: wh_attempt_cases [of j co now up out "sy_db s"]) auto
  with inv show ?thesis by (auto simp: wh_inv_def db_ok_def list_all_iff)
qed

text \<open>
  C13. Whatever is sent is signed for its receiver: every POST ever made belongs to a stored
  delivery, whose subscription is one of the same organisation, and its signature verifies
  under that subscription's secret.
\<close>

theorem webhook_posts_signed:
  assumes "wh_reachable co px parse s" and "(p, out) \<in> set (sy_posts s)"
  shows "\<exists>d \<in> set (db_dels (sy_db s)). \<exists>u \<in> set (db_subs (sy_db s)).
     hp_delivery p = wc_uuid co (dr_id d) \<and> sr_id u = dr_subscription_id d \<and>
     sr_org_id u = dr_org_id d \<and> wh_Verify co (sr_secret_value u) (hp_body p) (hp_signature p)"
proof -
  have "signed_for co (sy_db s) p"
    using wh_reachable_inv [OF assms(1)] assms(2) by (auto simp: wh_inv_def list_all_iff)
  then show ?thesis by (simp add: signed_for_def wh_Verify_iff)
qed

text \<open>
  The fan-out is exact: a valid dispatch that the database accepts is answered 202, stores
  one delivery and starts one attempt for each active subscription of the organisation that
  lists the event type, with its URL and secret, and for nobody else. A subscription to
  \<open>wildcard\<close>, which the query allows for, can never be made.
\<close>

theorem webhook_dispatch_fanout:
  assumes "wh_reachable co px parse s" and "wq_OrgID req \<noteq> uuid_Nil"
    and "wq_EventType req \<in> set AllEventTypes" and "\<And>n. snd (snd (draw n))"
    and "px_null px = Some m" and "\<And>b. px_payload px b \<noteq> None" and "\<And>v. \<exists>b. wc_marshal co v = Inr b"
  shows "\<exists>db' jobs. wh_Dispatch co px eventID now True draw (sy_db s) (Inr req) =
       (db', jobs, JsonResponse 202 (BodyDispatched (wq_OrgID req) (wq_EventType req))) \<and>
     map job_key jobs = map (\<lambda>r. (sr_id r, sr_url r, sr_secret_value r))
       (filter (\<lambda>r. sr_org_id r = wq_OrgID req \<and> sr_is_active r \<and>
          wq_EventType req \<in> set (sr_event_types r)) (db_subs (sy_db s))) \<and>
     length (db_dels db') = length (db_dels (sy_db s)) + length jobs"
proof -
  let ?subs = "ActiveSubscriptionsForEvent (sy_db s) (wq_OrgID req) (wq_EventType req)"
  obtain payload db' jobs where
    w: "worker_Dispatch co px eventID now True draw (sy_db s) (wq_OrgID req) (wq_EventType req)
      (wq_Data req) = Some (db', jobs)"
    and c: "create_deliveries co px (wq_OrgID req) (wq_EventType req) payload draw 0 ?subs (sy_db s) =
      (db', jobs)"
    by (simp add: worker_Dispatch_def Let_def) (metis prod.collapse)
  have k: "map job_key jobs = map (\<lambda>s. (as_ID s, as_URL s, as_Secret s)) ?subs"
    "length (db_dels db') = length (db_dels (sy_db s)) + length ?subs"
    using create_deliveries_all [of px m co draw "wq_OrgID req" "wq_EventType req" payload 0 ?subs "sy_db s",
        OF assms(5,6,7,4)] c
    by auto
  have "list_all sub_ok (db_subs (sy_db s))"
    using wh_reachable_inv [OF assms(1)] by (simp add: wh_inv_def db_ok_def)
  then have "filter (\<lambda>r. sr_org_id r = wq_OrgID req \<and> sr_is_active r \<and> opted_in (wq_EventType req) r)
        (db_subs (sy_db s)) =
      filter (\<lambda>r. sr_org_id r = wq_OrgID req \<and> sr_is_active r \<and>
        wq_EventType req \<in> set (sr_event_types r)) (db_subs (sy_db s))"
    by (intro filter_cong) (auto simp: list_all_iff opted_in_ok)
  moreover have "length jobs = length ?subs" using arg_cong [OF k(1), of length] by simp
  moreover have "validateEventTypes co [wq_EventType req] = None" "wq_EventType req \<noteq> ''''"
    using assms(3) by (auto simp: validateEventTypes_None AllEventTypes_def)
  ultimately show ?thesis
    using w k assms(2) by (simp add: wh_Dispatch_def ActiveSubscriptionsForEvent_def o_def)
qed

text \<open>
  Two attempts of one delivery can overlap, as when the poller finds it due before the first
  attempt has returned. If the first succeeds and the second fails, the delivered delivery goes
  back to pending and falls due again: the subscriber is sent the event a third time.
\<close>

theorem webhook_overlap_redelivers:
  assumes "sy_inflight s = [j1, j2]" and "aj_del j2 = aj_del j1" and "wd_AttemptCount (aj_del j1) = 0"
    and "wc_marshal co (wd_Payload (aj_del j1)) = Inr raw"
    and "r \<in> set (db_dels (sy_db s))" and "dr_id r = wd_ID (aj_del j1)"
  shows "\<exists>s1 s2 r1 r2 p1 p2. wh_step co px parse s s1 \<and> wh_step co px parse s1 s2 \<and>
     sy_posts s2 = sy_posts s @ [(p1, HttpStatus 200), (p2, HttpFails e)] \<and>
     hp_delivery p2 = hp_delivery p1 \<and> hp_body p2 = hp_body p1 \<and>
     r1 \<in> set (db_dels (sy_db s1)) \<and> dr_id r1 = dr_id r \<and> dr_status r1 = DeliveryStatusDelivered \<and>
     r2 \<in> set (db_dels (sy_db s2)) \<and> dr_id r2 = dr_id r \<and> due (t + 300 * second) r2"
proof -
  let ?i = "dr_id r"
  let ?db1 = "update_dels ?i (set_delivered now 200) (sy_db s)"
  let ?g = "set_failed t 1 None (''http error: '' @ e)"
  let ?db2 = "update_dels ?i ?g ?db1"
  obtain p1 where a1: "wh_attempt co now True (HttpStatus 200) (sy_db s) j1 = (Some p1, Some ?db1)"
    "hp_delivery p1 = wc_uuid co ?i" "hp_body p1 = raw"
    using assms(4,6) by (auto simp: wh_attempt_def Let_def wh_MarkDelivered_eq)
  have "recordFailure t True ?db1 (aj_del j1) None (''http error: '' @ e) = Some ?db2"
    using recordFailure_eq [of "aj_del j1"] assms(3,6) by simp
  then obtain p2 where a2: "wh_attempt co t True (HttpFails e) ?db1 j2 = (Some p2, Some ?db2)"
    "hp_delivery p2 = wc_uuid co ?i" "hp_body p2 = raw"
    using assms(2,4,6) by (auto simp: wh_attempt_def Let_def)
  define s1 where "s1 = s\<lparr> sy_db := ?db1, sy_inflight := [j2], sy_posts := sy_posts s @ [(p1, HttpStatus 200)] \<rparr>"
  define s2 where "s2 = s1\<lparr> sy_db := ?db2, sy_inflight := [], sy_posts := sy_posts s1 @ [(p2, HttpFails e)] \<rparr>"
  have "wh_step co px parse s s1"
    using wh_step.attempt [of s "[]" j1 "[j2]" co now True "HttpStatus 200" "Some p1" ?db1 px parse]
      assms(1) a1(1) by (simp add: s1_def)
  moreover have "wh_step co px parse s1 s2"
    using wh_step.attempt [of s1 "[]" j2 "[]" co t True "HttpFails e" "Some p2" ?db2 px parse] a2(1)
    by (simp add: s1_def s2_def)
  moreover have "set_delivered now 200 r \<in> set (db_dels (sy_db s1))"
    using assms(5) by (auto simp: s1_def)
  moreover have "?g (set_delivered now 200 r) \<in> set (db_dels (sy_db s2))"
    using assms(5) by (force simp: s1_def s2_def)
  moreover have "due (t + 300 * second) (?g (set_delivered now 200 r))"
    "dr_status (set_delivered now 200 r) = DeliveryStatusDelivered"
    by (simp_all add: due_def set_failed_def failure_row_def set_delivered_def)
  moreover have "sy_posts s2 = sy_posts s @ [(p1, HttpStatus 200), (p2, HttpFails e)]"
    by (simp add: s1_def s2_def)
  moreover have "dr_id (?g (set_delivered now 200 r)) = ?i" "dr_id (set_delivered now 200 r) = ?i"
    by simp_all
  ultimately show ?thesis using a1(2,3) a2(2,3) by metis
qed

text \<open>
  With a driver that refuses to scan NULL into a Go string, as pgx does, the service never
  sends anything: a new row has no error message, so creating it fails after the insertion and
  every poll that meets it fails too.
\<close>

theorem webhook_null_blocks_delivery:
  assumes "px_null px = None" and "wh_reachable co px parse s"
  shows "sy_posts s = [] \<and> sy_inflight s = [] \<and> runRetryBatch px now up lost (sy_db s) = []"
proof -
  from assms(2) have "silent s"
  proof induction
    case start
    then show ?case by (simp add: silent_def wh_start_def)
  next
    case (step s s')
    then show ?case using silent_step [OF assms(1)] by blast
  qed
  with silent_batch [OF assms(1)] show ?thesis by (simp add: silent_def)
qed

text \<open>
  The retry queue can be blocked for good: fifty due deliveries of deactivated
  subscriptions, which a poll skips without touching them, keep every younger delivery out of
  the batch, at this and at every later poll.
\<close>

theorem webhook_stuck_queue_starves:
  assumes "50 \<le> length (filter (\<lambda>q. due now q \<and> dr_created_at q < dr_created_at r \<and>
       \<not> (\<exists>u \<in> set (db_subs db). sr_id u = dr_subscription_id q \<and> sr_is_active u)) (db_dels db))"
    and "now \<le> later" and "distinct (map dr_id (db_dels db))" and "r \<in> set (db_dels db)"
  shows "dr_id r \<notin> wd_ID ` aj_del ` set (runRetryBatch px later up lost db)"
proof
  assume "dr_id r \<in> wd_ID ` aj_del ` set (runRetryBatch px later up lost db)"
  then obtain j where j: "j \<in> set (runRetryBatch px later up lost db)" "wd_ID (aj_del j) = dr_id r" by auto
  from runRetryBatch_job [OF j(1)] obtain q where
    q: "q \<in> set (take 50 (sort_key dr_created_at (filter (due later) (db_dels db))))"
      "scanDelivery px q = Some (aj_del j)" by blast
  have "q \<in> set (db_dels db)" using batch_row_due [OF q(1)] by blast
  with scanDelivery_Some [OF q(2)] j(2) assms(3,4) have "q = r" using ids_unique by metis
  with sorted_take_few_smaller [OF q(1)]
  have "length (filter (\<lambda>q. dr_created_at q < dr_created_at r) (filter (due later) (db_dels db))) < 50"
    by simp
  moreover have "due later q" if "due now q" for q
    using that assms(2) by (auto simp: due_def split: option.splits)
  then have "length (filter (\<lambda>q. due now q \<and> dr_created_at q < dr_created_at r \<and>
       \<not> (\<exists>u \<in> set (db_subs db). sr_id u = dr_subscription_id q \<and> sr_is_active u)) (db_dels db)) \<le>
      length (filter (\<lambda>q. dr_created_at q < dr_created_at r \<and> due later q) (db_dels db))"
    by (intro length_filter_imp) auto
  ultimately show False using assms(1) by (simp add: conj_commute)
qed

lemma those_total: "(\<And>x. \<exists>y. f x = Some y) \<Longrightarrow> \<exists>ys. those (map f xs) = Some ys"
proof (induction xs)
  case (Cons x xs)
  then obtain y ys where "f x = Some y" "those (map f xs) = Some ys" by blast
  then show ?case by simp
qed simp

lemma those_scan_ids:
  "those (map (scanDelivery px) xs) = Some ds \<Longrightarrow>
     map wd_ID ds = map dr_id xs \<and> map wd_OrgID ds = map dr_org_id xs"
  by (induction xs arbitrary: ds) (auto split: option.splits dest!: scanDelivery_Some)

text \<open>
  Delivery histories are not confined to the organisation: whoever names the subscription,
  with any organisation id that parses, is answered with all of its deliveries, the owner's
  payloads included.
\<close>

theorem webhook_deliveries_cross_tenant:
  assumes "wh_reachable co px parse s" and "parse org = Some ow" and "parse hook = Some (sr_id u)"
    and "u \<in> set (db_subs (sy_db s))" and "px_null px = Some m" and "\<And>b. px_payload px b \<noteq> None"
    and "length (filter (\<lambda>d. dr_subscription_id d = sr_id u) (db_dels (sy_db s))) \<le> 50"
  shows "\<exists>ds. wh_ListDeliveries px parse True (sy_db s) org hook '''' '''' =
       JsonResponse 200 (BodyDeliveries ds (length ds)) \<and>
     list_all (\<lambda>d. wd_OrgID d = sr_org_id u) ds \<and>
     set (map wd_ID ds) = dr_id ` {d \<in> set (db_dels (sy_db s)). dr_subscription_id d = sr_id u}"
proof -
  let ?mine = "filter (\<lambda>d. dr_subscription_id d = sr_id u) (db_dels (sy_db s))"
  let ?rows = "rev (sort_key dr_created_at ?mine)"
  have len: "page 50 0 ?rows = ?rows" using assms(7) by (simp add: page_def)
  obtain ds where ds: "those (map (scanDelivery px) ?rows) = Some ds"
    using those_total [of "scanDelivery px" ?rows] scan_fresh [OF assms(5,6)] by blast
  have pag: "paginationParams '''' '''' = (50, 0)" by (simp add: paginationParams_def Atoi_def)
  have res: "wh_ListDeliveries px parse True (sy_db s) org hook '''' '''' =
      JsonResponse 200 (BodyDeliveries ds (length ds))"
    using assms(2,3) ds len
    by (simp add: wh_ListDeliveries_def parseBoth_def wh_parseOrgID_def parseWebhookID_def pag
        ListDeliveriesForSubscription_def)
  have ids: "map wd_ID ds = map dr_id ?rows" "map wd_OrgID ds = map dr_org_id ?rows"
    using those_scan_ids [OF ds] by blast+
  have "dr_org_id d = sr_org_id u" if "d \<in> set ?mine" for d
  proof -
    from wh_reachable_inv [OF assms(1)] that obtain v where
      "v \<in> set (db_subs (sy_db s))" "sr_id v = sr_id u" "sr_org_id v = dr_org_id d"
      by (auto simp: wh_inv_def db_ok_def list_all_iff linked_def)
    moreover have "distinct (map sr_id (db_subs (sy_db s)))"
      using wh_reachable_inv [OF assms(1)] by (simp add: wh_inv_def db_ok_def)
    ultimately show ?thesis using assms(4) by (metis distinct_map inj_onD)
  qed
  then have "\<forall>x \<in> set (map wd_OrgID ds). x = sr_org_id u"
    unfolding ids(2) by auto
  moreover have "set (map wd_ID ds) = dr_id ` {d \<in> set (db_dels (sy_db s)). dr_subscription_id d = sr_id u}"
    unfolding ids(1) by auto
  ultimately show ?thesis using res by (auto simp: list_all_iff)
qed

lemma subs_change_view:
  assumes "subs_change org db db'" and "org \<noteq> Some ow"
  shows "filter (\<lambda>r. sr_org_id r = ow \<and> P r) (db_subs db') = filter (\<lambda>r. sr_org_id r = ow \<and> P r) (db_subs db)"
proof -
  obtain f new where f: "db_subs db' = map f (db_subs db) @ new"
    "\<And>r. same_sub r (f r)" "\<And>r. Some (sr_org_id r) = org \<or> f r = r"
    "new = [] \<or> (\<exists>r. new = [r] \<and> Some (sr_org_id r) = org)"
    using assms(1) by (auto simp: subs_change_def)
  have "filter (\<lambda>r. sr_org_id r = ow \<and> P r) (map f xs) = filter (\<lambda>r. sr_org_id r = ow \<and> P r) xs" for xs
  proof (induction xs)
    case (Cons x xs)
    with f(2) [of x] f(3) [of x] assms(2) show ?case by (auto simp: same_sub_def)
  qed simp
  moreover have "filter (\<lambda>r. sr_org_id r = ow \<and> P r) new = []"
    using f(4) assms(2) by (auto split: if_splits)
  ultimately show ?thesis by (simp add: f(1))
qed

text \<open>
  Subscriptions are confined to their organisation: a create, update or delete request
  leaves what every other organisation can list, look up or be sent as it was.
\<close>

theorem webhook_subscription_isolation:
  assumes "db' \<in> {fst (wh_CreateSubscription co px parse newID now up db org cbody),
       fst (wh_UpdateSubscription co px parse now up db org hook ubody),
       fst (wh_DeleteSubscription parse now up db org hook)}" and "parse org \<noteq> Some ow"
  shows "store_ListSubscriptions px db' ow = store_ListSubscriptions px db ow \<and>
     store_GetSubscription px db' ow i = store_GetSubscription px db ow i \<and>
     ActiveSubscriptionsForEvent db' ow et = ActiveSubscriptionsForEvent db ow et"
proof -
  have "subs_change (parse org) db db'"
    using assms(1)
    by (auto simp: wh_CreateSubscription_change [OF prod.collapse [symmetric], THEN conjunct1]
        wh_UpdateSubscription_change [OF prod.collapse [symmetric], THEN conjunct1]
        wh_DeleteSubscription_change [OF prod.collapse [symmetric], THEN conjunct1])
  note view = subs_change_view [OF this assms(2)]
  have find_filter: "find (\<lambda>r. P r \<and> Q r) xs = find P (filter (\<lambda>r. Q r \<and> P r) xs)"
    for P Q :: "sub_row \<Rightarrow> bool" and xs
    by (induction xs) auto
  show ?thesis
    using view [of "\<lambda>_. True"] view [of "\<lambda>r. sr_id r = i"] view [of "\<lambda>r. sr_is_active r \<and> opted_in et r"]
    by (simp add: store_ListSubscriptions_def store_GetSubscription_def sub_where_def
        ActiveSubscriptionsForEvent_def find_filter)
qed

section \<open>Witnesses\<close>

definition ex_wco :: wh_codec where
  "ex_wco = \<lparr> wc_marshal = (\<lambda>_. Inr ''p''), wc_hmac = (\<lambda>s p. s @ p), wc_sha256 = (\<lambda>s. s),
     wc_uuid = (\<lambda>i. dec_digits (unat i)), wc_time = (\<lambda>_. ''t''), wc_quote = (\<lambda>s. s) \<rparr>"

definition ex_px :: pgx where
  "ex_px = \<lparr> px_null = Some '''', px_payload = (\<lambda>_. Some None) \<rparr>"

definition ex_wid :: "string \<Rightarrow> uuid option" where
  "ex_wid s = (if s = ''o'' then Some 1 else if s = ''p'' then Some 2 else if s = ''w'' then Some 5 else None)"

definition ex_csub :: CreateSubscriptionRequest where
  "ex_csub = \<lparr> cs_URL = ''u'', cs_Secret = ''s'', cs_EventTypes = [''reasoning.conclusion''],
     cs_Description = '''' \<rparr>"

definition ex_sub :: sub_row where
  "ex_sub = \<lparr> sr_id = 5, sr_org_id = 1, sr_url = ''u'', sr_secret_hash = ''s'', sr_secret_value = ''s'',
     sr_event_types = [''reasoning.conclusion''], sr_description = Some '''', sr_is_active = True,
     sr_created_by = None, sr_created_at = 0, sr_updated_at = 0 \<rparr>"

definition ex_event :: wh_DispatchRequest where
  "ex_event = \<lparr> wq_OrgID = 1, wq_EventType = ''reasoning.conclusion'', wq_Data = None \<rparr>"

definition ex_draw :: "nat \<Rightarrow> uuid \<times> gotime \<times> bool" where
  "ex_draw n = (9, 10, True)"

definition ex_del :: del_row where
  "ex_del = \<lparr> dr_id = 9, dr_subscription_id = 5, dr_org_id = 1, dr_event_type = ''reasoning.conclusion'',
     dr_payload = ''p'', dr_status = DeliveryStatusPending, dr_attempt_count = 0,
     dr_last_attempt_at = None, dr_next_retry_at = None, dr_response_status = None,
     dr_error_message = None, dr_delivered_at = None, dr_created_at = 10 \<rparr>"

definition ex_job :: attempt_job where
  "ex_job = \<lparr> aj_del = the (scanDelivery ex_px ex_del), aj_url = ''u'', aj_secret = ''s'' \<rparr>"

lemma ex_nine: "dec_digits 9 = ''9''"
  by code_simp

lemma ex_uuid_inj: "inj (wc_uuid ex_wco)"
  by (rule injI) (simp add: ex_wco_def, drule dec_digits_inj, simp add: word_unat_eq_iff)

lemma ex_scan: "scanDelivery ex_px ex_del = Some (aj_del ex_job)"
  by (simp add: ex_job_def scanDelivery_def scan_text_def ex_px_def ex_del_def)

definition ex_subbed :: wh_sys where
  "ex_subbed = wh_start\<lparr> sy_db := \<lparr> db_subs = [ex_sub], db_dels = [] \<rparr> \<rparr>"

definition ex_sent :: wh_sys where
  "ex_sent = ex_subbed\<lparr> sy_db := \<lparr> db_subs = [ex_sub], db_dels = [ex_del] \<rparr>, sy_inflight := [ex_job] \<rparr>"

definition ex_twice :: wh_sys where
  "ex_twice = ex_sent\<lparr> sy_inflight := [ex_job, ex_job] \<rparr>"

lemma ex_subbed_step: "wh_step ex_wco ex_px ex_wid wh_start ex_subbed"
proof -
  have "wh_CreateSubscription ex_wco ex_px ex_wid 5 0 True (sy_db wh_start) ''o'' (Inr ex_csub) =
      (\<lparr> db_subs = [ex_sub], db_dels = [] \<rparr>,
       JsonResponse 201 (BodySubscription (the (scan_sub ex_px ex_sub))))"
    by (simp add: wh_CreateSubscription_def wh_parseOrgID_def ex_wid_def ex_csub_def
        validateEventTypes_def AllEventTypes_def store_CreateSubscription_def HashSecret_def ex_wco_def
        scan_sub_def scan_text_def wh_start_def ex_sub_def Let_def)
  from wh_step.create [OF this] show ?thesis by (simp add: ex_subbed_def wh_start_def)
qed

lemmas ex_subbed_reachable = wh_reachable.step [OF wh_reachable.start ex_subbed_step]

lemma ex_sent_step: "wh_step ex_wco ex_px ex_wid ex_subbed ex_sent"
proof -
  have subs: "ActiveSubscriptionsForEvent (sy_db ex_subbed) 1 ''reasoning.conclusion'' =
      [\<lparr> as_ID = 5, as_URL = ''u'', as_Secret = ''s'' \<rparr>]"
    by (simp add: ActiveSubscriptionsForEvent_def ex_subbed_def ex_sub_def opted_in_def)
  have del: "CreateDelivery ex_wco ex_px 9 10 (sy_db ex_subbed) 5 1 ''reasoning.conclusion'' pl =
      (sy_db ex_sent, Some (aj_del ex_job))" for pl
    by (simp add: CreateDelivery_def ex_wco_def ex_subbed_def ex_sent_def ex_scan [symmetric] ex_del_def Let_def)
  have "wh_Dispatch ex_wco ex_px 8 10 True ex_draw (sy_db ex_subbed) (Inr ex_event) =
      (sy_db ex_sent, [ex_job], JsonResponse 202 (BodyDispatched 1 ''reasoning.conclusion''))"
    by (simp add: wh_Dispatch_def ex_event_def uuid_Nil_def validateEventTypes_def AllEventTypes_def
        worker_Dispatch_def subs ex_draw_def del Let_def) (simp add: ex_job_def)
  from wh_step.dispatch [OF this] show ?thesis
    by (simp add: fresh_draw_def ex_sent_def ex_subbed_def wh_start_def)
qed

lemmas ex_sent_reachable = wh_reachable.step [OF ex_subbed_reachable ex_sent_step]

lemma ex_twice_reachable: "wh_reachable ex_wco ex_px ex_wid ex_twice"
proof -
  have "runRetryBatch ex_px 20 True (\<lambda>_. False) (sy_db ex_sent) = [ex_job]"
  proof -
    have "due 20 ex_del" by (simp add: due_def ex_del_def)
    then have "PendingDeliveries ex_px 20 (sy_db ex_sent) retryBatchSize = Some [aj_del ex_job]"
      by (simp add: PendingDeliveries_def retryBatchSize_def ex_sent_def ex_scan)
    moreover have "retry_job ex_px (\<lambda>_. False) (sy_db ex_sent) (aj_del ex_job) = Some ex_job"
      using scanDelivery_Some [OF ex_scan]
      by (simp add: retry_job_def GetSubscriptionWithSecret_def sub_where_def ex_sent_def ex_sub_def
          ex_del_def scan_sub_def scan_text_def) (simp add: ex_job_def)
    ultimately show ?thesis by (simp add: runRetryBatch_def map_filter_simps)
  qed
  with wh_reachable.step [OF ex_sent_reachable wh_step.poll [of ex_wco ex_px ex_wid ex_sent 20 True "\<lambda>_. False"]]
  show ?thesis by (simp add: ex_twice_def ex_sent_def)
qed

theorem webhook_queue_invariant_witness:
  "row_ok ex_del \<and> snd (wh_attempt ex_wco 30 True (HttpStatus 500) (sy_db ex_twice) ex_job) \<noteq> None"
  using webhook_queue_invariant [OF ex_twice_reachable, of 30 True "HttpStatus 500"]
  by (simp add: ex_twice_def ex_sent_def)

definition ex_post :: http_post where
  "ex_post = \<lparr> hp_url = ''u'', hp_body = ''p'', hp_signature = ''sha256=sp'',
     hp_event = ''reasoning.conclusion'', hp_delivery = ''9'' \<rparr>"

lemma ex_attempt:
  "wh_attempt ex_wco 30 True (HttpStatus 200) (sy_db ex_twice) ex_job =
     (Some ex_post, Some (wh_MarkDelivered 30 (sy_db ex_twice) 9 200))"
  using scanDelivery_Some [OF ex_scan]
  by (simp add: wh_attempt_def Let_def ex_post_def ex_wco_def wh_Sign_def signaturePrefix_def ex_del_def ex_nine)
    (simp add: ex_job_def)

theorem webhook_posts_signed_witness:
  "\<exists>s :: wh_sys. (ex_post, HttpStatus 200) \<in> set (sy_posts s) \<and>
     (\<exists>d \<in> set (db_dels (sy_db s)). \<exists>u \<in> set (db_subs (sy_db s)). sr_id u = dr_subscription_id d \<and>
        wh_Verify ex_wco (sr_secret_value u) (hp_body ex_post) (hp_signature ex_post))"
proof -
  obtain s where s: "wh_reachable ex_wco ex_px ex_wid s" "(ex_post, HttpStatus 200) \<in> set (sy_posts s)"
    using wh_reachable.step [OF ex_twice_reachable
        wh_step.attempt [of ex_twice "[]" ex_job "[ex_job]", OF _ ex_attempt]]
    by (fastforce simp: ex_twice_def)
  from webhook_posts_signed [OF s] obtain d u where "d \<in> set (db_dels (sy_db s))"
    "u \<in> set (db_subs (sy_db s))" "sr_id u = dr_subscription_id d"
    "wh_Verify ex_wco (sr_secret_value u) (hp_body ex_post) (hp_signature ex_post)" by auto
  with s(2) show ?thesis by (intro exI [of _ s] conjI bexI [of _ d] bexI [of _ u])
qed

theorem webhook_dispatch_fanout_witness:
  "\<exists>db' jobs resp. wh_Dispatch ex_wco ex_px 8 10 True ex_draw (sy_db ex_subbed) (Inr ex_event) =
     (db', jobs, resp) \<and> map job_key jobs = [(5, ''u'', ''s'')]"
proof -
  have "filter (\<lambda>r. sr_org_id r = wq_OrgID ex_event \<and> sr_is_active r \<and>
      wq_EventType ex_event \<in> set (sr_event_types r)) (db_subs (sy_db ex_subbed)) = [ex_sub]"
    by (simp add: ex_event_def ex_subbed_def ex_sub_def)
  then show ?thesis
    using webhook_dispatch_fanout [OF ex_subbed_reachable, of ex_event ex_draw "''''" 8 10]
    by (simp add: ex_event_def uuid_Nil_def AllEventTypes_def ex_draw_def ex_px_def ex_wco_def) (auto simp: ex_sub_def)
qed

theorem webhook_overlap_redelivers_witness:
  "\<exists>s1 s2. wh_step ex_wco ex_px ex_wid ex_twice s1 \<and> wh_step ex_wco ex_px ex_wid s1 s2 \<and>
     length (sy_posts s2) = 2 \<and> (\<exists>r \<in> set (db_dels (sy_db s2)). due (50 + 300 * second) r)"
proof -
  have "wd_AttemptCount (aj_del ex_job) = 0" "dr_id ex_del = wd_ID (aj_del ex_job)"
    using scanDelivery_Some [OF ex_scan] by (simp_all add: ex_del_def)
  from webhook_overlap_redelivers [of ex_twice ex_job ex_job ex_wco "''p''" ex_del ex_px ex_wid "''e''" 50,
      OF _ refl this(1) _ _ this(2)]
  show ?thesis by (fastforce simp: ex_twice_def ex_sent_def ex_wco_def ex_subbed_def wh_start_def)
qed

theorem webhook_null_blocks_delivery_witness:
  "sy_posts wh_start = [] \<and> sy_inflight wh_start = []"
  using webhook_null_blocks_delivery [OF _ wh_reachable.start, of "ex_px\<lparr> px_null := None \<rparr>"] by simp

definition ex_stuck :: "nat \<Rightarrow> del_row" where
  "ex_stuck n = ex_del\<lparr> dr_id := of_nat n, dr_subscription_id := 6, dr_created_at := 0 \<rparr>"

definition ex_younger :: del_row where
  "ex_younger = ex_del\<lparr> dr_id := 99 \<rparr>"

definition ex_blocked :: wh_db where
  "ex_blocked = \<lparr> db_subs = [ex_sub], db_dels = map ex_stuck [0..<50] @ [ex_younger] \<rparr>"

theorem webhook_stuck_queue_starves_witness:
  "99 \<notin> wd_ID ` aj_del ` set (runRetryBatch ex_px 1000 True (\<lambda>_. False) ex_blocked)"
proof -
  have ids: "map dr_id (db_dels ex_blocked) = map of_nat [0..<50] @ [99]"
    by (simp add: ex_blocked_def ex_stuck_def ex_younger_def o_def del: upt_rec_numeral)
  have "inj_on (of_nat :: nat \<Rightarrow> uuid) (set ([0..<50] @ [99]))"
  proof (rule inj_onI)
    fix m n assume "m \<in> set ([0..<50] @ [99])" "n \<in> set ([0..<50] @ [99])"
      and e: "(of_nat m :: uuid) = of_nat n"
    then have "m < 100" "n < 100" by auto
    with arg_cong [OF e, of unat] show "m = n" by (simp add: unat_of_nat)
  qed
  then have "distinct (map (of_nat :: nat \<Rightarrow> uuid) ([0..<50] @ [99]))"
    by (subst distinct_map) simp
  then have "distinct (map dr_id (db_dels ex_blocked))"
    by (simp only: ids) (simp del: upt_rec_numeral)
  moreover have "ex_younger \<in> set (db_dels ex_blocked)" by (simp add: ex_blocked_def)
  moreover have "filter (\<lambda>q. due 20 q \<and> dr_created_at q < dr_created_at ex_younger \<and>
      \<not> (\<exists>u \<in> set (db_subs ex_blocked). sr_id u = dr_subscription_id q \<and> sr_is_active u))
      (map ex_stuck [0..<50]) = map ex_stuck [0..<50]"
    by (subst filter_id_conv)
      (auto simp: ex_stuck_def ex_younger_def ex_del_def due_def ex_blocked_def ex_sub_def)
  then have "50 \<le> length (filter (\<lambda>q. due 20 q \<and> dr_created_at q < dr_created_at ex_younger \<and>
      \<not> (\<exists>u \<in> set (db_subs ex_blocked). sr_id u = dr_subscription_id q \<and> sr_is_active u))
      (db_dels ex_blocked))"
    by (subst (2) ex_blocked_def) simp
  ultimately show ?thesis
    using webhook_stuck_queue_starves [of 20 ex_younger ex_blocked 1000 ex_px True "\<lambda>_. False"]
    by (simp add: ex_younger_def)
qed

theorem webhook_deliveries_cross_tenant_witness:
  "\<exists>ds. wh_ListDeliveries ex_px ex_wid True (sy_db ex_sent) ''p'' ''w'' '''' '''' =
       JsonResponse 200 (BodyDeliveries ds (length ds)) \<and> map wd_ID ds \<noteq> [] \<and>
     list_all (\<lambda>d. wd_OrgID d = 1) ds \<and> ex_wid ''p'' = Some 2"
  using webhook_deliveries_cross_tenant [OF ex_sent_reachable, of "''p''" 2 "''w''" ex_sub "''''"]
  by (fastforce simp: ex_wid_def ex_sub_def ex_sent_def ex_px_def ex_del_def)

theorem webhook_subscription_isolation_witness:
  "store_GetSubscription ex_px (fst (wh_DeleteSubscription ex_wid 9 True (sy_db ex_sent) ''p'' ''w'')) 1 5 =
   store_GetSubscription ex_px (sy_db ex_sent) 1 5"
  using webhook_subscription_isolation [where parse = ex_wid and org = "''p''" and hook = "''w''"
      and now = 9 and up = True and db = "sy_db ex_sent" and ow = 1 and px = ex_px and i = 5
      and db' = "fst (wh_DeleteSubscription ex_wid 9 True (sy_db ex_sent) ''p'' ''w'')"]
  by (simp add: ex_wid_def)

end
