(* ===== verification/WebhooksRetry.thy ===== *)
theory WebhooksRetry
  imports WebhooksSystem
begin

text \<open>
  How often a delivery of the webhooks service is sent. An orderly run of the service is one of
  \<open>wh_step\<close>, its handlers, polls and attempts in any interleaving, in which no two attempts of one
  delivery are in flight together and the database records what was sent. Outside such runs the bound
  fails: \<open>webhook_overlap_redelivers\<close> has a third request after a success.
\<close>

section \<open>Orderly runs\<close>

definition job_id :: "attempt_job \<Rightarrow> uuid" where
  "job_id j = wd_ID (aj_del j)"

definition orderly_step :: "wh_codec \<Rightarrow> pgx \<Rightarrow> (string \<Rightarrow> uuid option) \<Rightarrow> wh_sys \<Rightarrow> wh_sys \<Rightarrow> bool" where
  "orderly_step co px parse s s' \<longleftrightarrow> wh_step co px parse s s' \<and> distinct (map job_id (sy_inflight s')) \<and>
     (sy_posts s' = sy_posts s \<or> sy_db s' \<noteq> sy_db s)"

abbreviation orderly_run :: "wh_codec \<Rightarrow> pgx \<Rightarrow> (string \<Rightarrow> uuid option) \<Rightarrow> wh_sys \<Rightarrow> wh_sys \<Rightarrow> bool" where
  "orderly_run co px parse \<equiv> (orderly_step co px parse)\<^sup>*\<^sup>*"

text \<open>The requests sent for delivery \<open>i\<close> so far.\<close>

definition sent :: "wh_codec \<Rightarrow> uuid \<Rightarrow> wh_sys \<Rightarrow> nat" where
  "sent co i s = length (filter (\<lambda>(p, _). hp_delivery p = wc_uuid co i) (sy_posts s))"

section \<open>The invariant\<close>

text \<open>
  An attempt in flight is the next one of a pending row, and what was sent is covered by the
  attempts the row counts and, once it is delivered, the one that was answered.
\<close>

definition job_next :: "wh_db \<Rightarrow> attempt_job \<Rightarrow> bool" where
  "job_next db j \<longleftrightarrow> (\<exists>r \<in> set (db_dels db). dr_id r = job_id j \<and> dr_status r = DeliveryStatusPending \<and>
     dr_attempt_count r = wd_AttemptCount (aj_del j))"

definition tallied :: "nat \<Rightarrow> del_row \<Rightarrow> bool" where
  "tallied n r \<longleftrightarrow> (if dr_status r = DeliveryStatusDelivered
     then int n \<le> dr_attempt_count r + 1 \<and> dr_attempt_count r \<le> 2 else int n \<le> dr_attempt_count r)"

definition orderly_inv :: "wh_codec \<Rightarrow> wh_sys \<Rightarrow> bool" where
  "orderly_inv co s \<longleftrightarrow> wh_inv co s \<and> distinct (map dr_id (db_dels (sy_db s))) \<and>
     distinct (map job_id (sy_inflight s)) \<and> list_all (job_next (sy_db s)) (sy_inflight s) \<and>
     list_all (\<lambda>r. tallied (sent co (dr_id r) s) r) (db_dels (sy_db s))"

lemma orderly_start: "orderly_inv co wh_start"
  using wh_start_inv [of co] by (simp add: orderly_inv_def wh_start_def)

lemma job_next_grows: "job_next db j \<Longrightarrow> set (db_dels db) \<subseteq> set (db_dels db') \<Longrightarrow> job_next db' j"
  unfolding job_next_def by blast

text \<open>The steps that send nothing.\<close>

lemma quiet_step_inv:
  assumes "orderly_inv co s" and "wh_inv co (s\<lparr> sy_db := db', sy_inflight := js \<rparr>)"
    and "distinct (map job_id js)" and "list_all (job_next db') js" and "distinct (map dr_id (db_dels db'))"
    and "list_all (\<lambda>r. tallied (sent co (dr_id r) s) r) (db_dels db')"
  shows "orderly_inv co (s\<lparr> sy_db := db', sy_inflight := js \<rparr>)"
  using assms by (simp add: orderly_inv_def sent_def)

lemma subs_step_orderly:
  assumes "orderly_inv co s" and "wh_inv co (s\<lparr> sy_db := db' \<rparr>)" and "subs_change org (sy_db s) db'"
  shows "orderly_inv co (s\<lparr> sy_db := db' \<rparr>)"
proof -
  have "db_dels db' = db_dels (sy_db s)" using assms(3) by (auto simp: subs_change_def)
  moreover from this have "job_next db' = job_next (sy_db s)" by (simp add: fun_eq_iff job_next_def)
  ultimately show ?thesis using assms(1,2) by (simp add: orderly_inv_def sent_def)
qed

text \<open>The rows of a fan-out carry the identifiers drawn for it.\<close>

lemma create_deliveries_ids:
  "create_deliveries co px org et payload draw n subs db = (db', jobs) \<Longrightarrow>
   \<exists>new. db' = db\<lparr> db_dels := db_dels db @ new \<rparr> \<and>
     (\<exists>ns. map dr_id new = map (fst \<circ> draw) ns \<and> sorted_wrt (<) ns \<and> set ns \<subseteq> {n..<n + length subs})"
proof (induction co px org et payload draw n subs db arbitrary: db' jobs rule: create_deliveries.induct)
  case (1 co px orgID eventType payload draw n db)
  then show ?case by (intro exI [of _ "[]"] conjI exI [of _ "[]"]) auto
next
  case (2 co px orgID eventType payload draw n sub subs db)
  obtain newID now up where d: "draw n = (newID, now, up)" by (cases "draw n")
  obtain db1 del where c: "(if up then CreateDelivery co px newID now db (as_ID sub) orgID eventType payload
      else (db, None)) = (db1, del)" by fastforce
  obtain db2 jobs2 where rest:
    "create_deliveries co px orgID eventType payload draw (Suc n) subs db1 = (db2, jobs2)" by fastforce
  have "db' = db2" using 2(3) d c rest by (auto split: option.splits)
  moreover obtain new ns where new: "db2 = db1\<lparr> db_dels := db_dels db1 @ new \<rparr>"
    "map dr_id new = map (fst \<circ> draw) ns" "sorted_wrt (<) ns" "set ns \<subseteq> {Suc n..<Suc n + length subs}"
    by (cases del) (use 2(1,2) d c rest in fastforce)+
  moreover have "db1 = db \<or> (\<exists>r. db1 = db\<lparr> db_dels := db_dels db @ [r] \<rparr> \<and> dr_id r = newID)"
  proof (cases up)
    case True
    with c have "CreateDelivery co px newID now db (as_ID sub) orgID eventType payload = (db1, del)" by simp
    from CreateDelivery_cases [OF this, of "[]" "[]"] show ?thesis by blast
  qed (use c in auto)
  ultimately show ?case
  proof (elim disjE exE conjE)
    assume "db1 = db"
    with new \<open>db' = db2\<close> show ?thesis by (intro exI [of _ new] conjI exI [of _ "ns"]) auto
  next
    fix r assume r: "db1 = db\<lparr> db_dels := db_dels db @ [r] \<rparr>" "dr_id r = newID"
    with new \<open>db' = db2\<close> d show ?thesis
      by (intro exI [of _ "r # new"] conjI exI [of _ "n # ns"]) auto
  qed
qed

lemma dispatch_ids:
  assumes "wh_Dispatch co px eventID now up draw db body = (db', jobs, resp)"
  shows "\<exists>new ns. db' = db\<lparr> db_dels := db_dels db @ new \<rparr> \<and> map dr_id new = map (fst \<circ> draw) ns \<and>
    sorted_wrt (<) ns \<and> set ns \<subseteq> {0..<length (db_subs db)}"
proof -
  have few: "length (ActiveSubscriptionsForEvent db ow et) \<le> length (db_subs db)" for ow et
    by (simp add: ActiveSubscriptionsForEvent_def)
  have none: "\<exists>new ns. db = db\<lparr> db_dels := db_dels db @ new \<rparr> \<and> map dr_id new = map (fst \<circ> draw) ns \<and>
    sorted_wrt (<) ns \<and> set ns \<subseteq> {0..<length (db_subs db)}"
    by (intro exI [of _ "[]"]) simp
  show ?thesis
  proof (cases "db' = db")
    case False
    then obtain ow et data where "worker_Dispatch co px eventID now up draw db ow et data = Some (db', jobs)"
      using assms by (auto simp: wh_Dispatch_def split: sum.splits if_splits option.splits)
    then obtain payload where
      "create_deliveries co px ow et payload draw 0 (ActiveSubscriptionsForEvent db ow et) db = (db', jobs)"
      by (auto simp: worker_Dispatch_def Let_def split: if_splits)
    from create_deliveries_ids [OF this] few [of ow et] show ?thesis by fastforce
  qed (use none in simp)
qed

lemma fresh_rows:
  assumes "fresh_draw db draw n" and "map dr_id new = map (fst \<circ> draw) ns" and "sorted_wrt (<) ns"
    and "set ns \<subseteq> {0..<n}" and "distinct (map dr_id (db_dels db))"
  shows "distinct (map dr_id (db_dels db @ new))" and "dr_id ` set new \<inter> dr_id ` set (db_dels db) = {}"
proof -
  have "inj_on (fst \<circ> draw) (set ns)"
  proof (rule inj_onI)
    show "i = j" if "i \<in> set ns" "j \<in> set ns" "(fst \<circ> draw) i = (fst \<circ> draw) j" for i j
      using that assms(1,4) by (cases i j rule: linorder_cases) (fastforce simp: fresh_draw_def subset_iff)+
  qed
  then have "distinct (map (fst \<circ> draw) ns)" using assms(3) by (simp add: distinct_map strict_sorted_iff)
  moreover have ids: "dr_id ` set new = fst ` draw ` set ns"
    using arg_cong [OF assms(2), of set] by (simp add: image_image)
  then show "dr_id ` set new \<inter> dr_id ` set (db_dels db) = {}"
    using assms(1,4) by (auto simp: fresh_draw_def subset_iff)
  ultimately show "distinct (map dr_id (db_dels db @ new))"
    using assms(2,5) ids by (simp only: map_append distinct_append set_map) (simp add: image_image Int_commute)
qed

lemma sent_unknown:
  assumes "wh_inv co s" and "inj (wc_uuid co)" and "i \<notin> dr_id ` set (db_dels (sy_db s))"
  shows "sent co i s = 0"
proof -
  have "\<not> (case q of (p, _) \<Rightarrow> hp_delivery p = wc_uuid co i)" if "q \<in> set (sy_posts s)" for q
  proof -
    have "case q of (p, _) \<Rightarrow> signed_for co (sy_db s) p"
      using assms(1) that by (auto simp: wh_inv_def list_all_iff)
    then show ?thesis
      using assms(3) injD [OF assms(2)] by (force simp: signed_for_def split: prod.splits)
  qed
  then show ?thesis unfolding sent_def by (simp add: filter_empty_conv)
qed

section \<open>What an orderly step keeps\<close>

lemma dispatch_orderly:
  assumes inv: "orderly_inv co s" and uuid: "inj (wc_uuid co)"
    and d: "wh_Dispatch co px eventID now up draw (sy_db s) body = (db', jobs, resp)"
    and fresh: "fresh_draw (sy_db s) draw (length (db_subs (sy_db s)))"
    and lone: "distinct (map job_id (sy_inflight s @ jobs))"
    and wh: "wh_inv co (s\<lparr> sy_db := db', sy_inflight := sy_inflight s @ jobs \<rparr>)"
  shows "orderly_inv co (s\<lparr> sy_db := db', sy_inflight := sy_inflight s @ jobs \<rparr>)"
proof -
  note I = inv [unfolded orderly_inv_def]
  obtain new ow et where db': "db' = (sy_db s)\<lparr> db_dels := db_dels (sy_db s) @ new \<rparr>"
    and new: "list_all (new_row ow et (ActiveSubscriptionsForEvent (sy_db s) ow et)) new"
    and jobs: "list_all (started_by px (ActiveSubscriptionsForEvent (sy_db s) ow et) new) jobs"
    using wh_Dispatch_rows [OF d] by blast
  obtain new' ns where "db' = (sy_db s)\<lparr> db_dels := db_dels (sy_db s) @ new' \<rparr>"
      and "map dr_id new' = map (fst \<circ> draw) ns" and ns2: "sorted_wrt (<) ns"
      "set ns \<subseteq> {0..<length (db_subs (sy_db s))}"
    using dispatch_ids [OF d] by blast
  moreover from this have "new' = new" using arg_cong [OF db', of db_dels] by simp
  ultimately have ns: "map dr_id new = map (fst \<circ> draw) ns" "sorted_wrt (<) ns"
      "set ns \<subseteq> {0..<length (db_subs (sy_db s))}" by simp_all
  note rows = fresh_rows [OF fresh ns conjunct1 [OF conjunct2 [OF I]]]
  have "job_next db' j" if j: "j \<in> set jobs" for j
  proof -
    obtain r where r: "r \<in> set new" "scanDelivery px r = Some (aj_del j)"
      using jobs j by (auto simp: list_all_iff started_by_def)
    then show ?thesis
      using new scanDelivery_Some [OF r(2)] by (auto simp: job_next_def job_id_def list_all_iff new_row_def db')
  qed
  moreover have "job_next db' j" if "j \<in> set (sy_inflight s)" for j
    using that I by (auto simp: db' list_all_iff intro: job_next_grows [of "sy_db s"])
  moreover have "tallied (sent co (dr_id r) s) r" if "r \<in> set new" for r
  proof -
    have "dr_id r \<notin> dr_id ` set (db_dels (sy_db s))" using rows(2) that by blast
    then have "sent co (dr_id r) s = 0" using sent_unknown [OF _ uuid] I by blast
    then show ?thesis using new that by (auto simp: list_all_iff new_row_def tallied_def)
  qed
  ultimately show ?thesis
    using I lone wh rows(1) by (intro quiet_step_inv [OF inv]) (auto simp: db' list_all_iff simp del: map_append)
qed

lemma poll_orderly:
  assumes inv: "orderly_inv co s" and js: "js = sy_inflight s @ runRetryBatch px now up lost (sy_db s)"
    and "distinct (map job_id js)" and wh: "wh_inv co (s\<lparr> sy_inflight := js \<rparr>)"
  shows "orderly_inv co (s\<lparr> sy_inflight := js \<rparr>)"
proof -
  have "job_next (sy_db s) j" if j: "j \<in> set (runRetryBatch px now up lost (sy_db s))" for j
  proof -
    obtain r where r: "r \<in> set (db_dels (sy_db s))" "due now r" "scanDelivery px r = Some (aj_del j)"
      using runRetryBatch_job [OF j] batch_row_due by blast
    then show ?thesis using scanDelivery_Some [OF r(3)] by (auto simp: job_next_def job_id_def due_def)
  qed
  then show ?thesis using assms by (auto simp: orderly_inv_def sent_def list_all_iff)
qed

text \<open>
  An attempt changes at most its own row, and if it sent a request and the database changed, the row
  counts one attempt more or is delivered.
\<close>

lemma attempt_row:
  assumes "job_ok job" and "wh_attempt co now up out db job = (post, Some db')" and "db' \<noteq> db"
  shows "\<exists>g. db' = update_dels (job_id job) g db \<and> (\<forall>r. dr_id (g r) = dr_id r) \<and>
    (\<forall>r. dr_attempt_count r = wd_AttemptCount (aj_del job) \<longrightarrow> dr_status r = DeliveryStatusPending \<longrightarrow>
      (\<forall>n. tallied n r \<longrightarrow> tallied (Suc n) (g r) \<and> tallied n (g r)))"
proof -
  have k: "wd_AttemptCount (aj_del job) \<in> {0, 1, 2}" using assms(1) by (simp add: job_ok_def)
  have "(\<exists>c. db' = update_dels (job_id job) (set_delivered now c) db) \<or>
      (\<exists>rs msg. db' = update_dels (job_id job) (set_failed now (wd_AttemptCount (aj_del job) + 1) rs msg) db)"
    using wh_attempt_snd [OF assms(1), of co now up out db] assms(2,3)
    by (auto simp: failed_db_def wh_MarkDelivered_eq job_id_def split: if_splits)
  then show ?thesis
  proof (elim disjE exE)
    fix c assume "db' = update_dels (job_id job) (set_delivered now c) db"
    then show ?thesis using k
      by (intro exI [of _ "set_delivered now c"]) (auto simp: tallied_def set_delivered_def)
  next
    fix rs msg
    assume "db' = update_dels (job_id job) (set_failed now (wd_AttemptCount (aj_del job) + 1) rs msg) db"
    then show ?thesis
      by (intro exI [of _ "set_failed now (wd_AttemptCount (aj_del job) + 1) rs msg"])
        (auto simp: tallied_def set_failed_def failure_row_def)
  qed
qed

lemma attempt_orderly:
  assumes inv: "orderly_inv co s" and uuid: "inj (wc_uuid co)" and split: "sy_inflight s = xs @ job # ys"
    and a: "wh_attempt co now up out (sy_db s) job = (post, Some db')"
    and s': "s' = s\<lparr> sy_db := db', sy_inflight := xs @ ys,
       sy_posts := (case post of None \<Rightarrow> sy_posts s | Some p \<Rightarrow> sy_posts s @ [(p, out)]) \<rparr>"
    and recorded: "sy_posts s' = sy_posts s \<or> sy_db s' \<noteq> sy_db s" and wh: "wh_inv co s'"
  shows "orderly_inv co s'"
proof -
  note I = inv [unfolded orderly_inv_def]
  have job: "job_ok job" "job_next (sy_db s) job" using I split by (simp_all add: wh_inv_def)
  have others: "job_id j \<noteq> job_id job" if "j \<in> set (xs @ ys)" for j
    using I that split by (auto simp: image_iff)
  show ?thesis
  proof (cases "db' = sy_db s")
    case True
    then have "sy_posts s' = sy_posts s" using recorded by (simp add: s')
    then show ?thesis using I wh True split by (simp add: orderly_inv_def sent_def s')
  next
    case False
    obtain g where g: "db' = update_dels (job_id job) g (sy_db s)" "\<And>r. dr_id (g r) = dr_id r"
      and tally: "\<And>r n. dr_attempt_count r = wd_AttemptCount (aj_del job) \<Longrightarrow> dr_status r = DeliveryStatusPending \<Longrightarrow>
        tallied n r \<Longrightarrow> tallied (Suc n) (g r) \<and> tallied n (g r)"
      using attempt_row [OF job(1) a False] by blast
    have posts: "sent co i s' \<in> {sent co i s} \<union> (if i = job_id job then {Suc (sent co i s)} else {})" for i
      using wh_attempt_post [of co now up out "sy_db s" job] a injD [OF uuid]
      by (auto simp: sent_def s' job_id_def split: option.split)
    have ids: "map dr_id (db_dels db') = map dr_id (db_dels (sy_db s))" using g by simp
    have nexts: "job_next db' j" if j: "j \<in> set (xs @ ys)" for j
    proof -
      have "job_next (sy_db s) j" using I j split by (auto simp: list_all_iff)
      then obtain r where r: "r \<in> set (db_dels (sy_db s))" "dr_id r = job_id j" "dr_status r = DeliveryStatusPending"
          "dr_attempt_count r = wd_AttemptCount (aj_del j)"
        by (auto simp: job_next_def)
      then have "r \<in> set (db_dels db')" using others [OF j] g(1) by force
      with r show ?thesis by (auto simp: job_next_def)
    qed
    obtain q where q: "q \<in> set (db_dels (sy_db s))" "dr_id q = job_id job" "dr_status q = DeliveryStatusPending"
        "dr_attempt_count q = wd_AttemptCount (aj_del job)"
      using job(2) by (auto simp: job_next_def)
    have "tallied (sent co (dr_id r) s') r" if r: "r \<in> set (db_dels db')" for r
    proof -
      obtain r0 where r0: "r0 \<in> set (db_dels (sy_db s))" "r = (if dr_id r0 = job_id job then g r0 else r0)"
        using r g(1) by auto
      have t: "tallied (sent co (dr_id r0) s) r0" using I r0(1) by (auto simp: list_all_iff)
      show ?thesis
      proof (cases "dr_id r0 = job_id job")
        case True
        then have "r0 = q" using I q r0(1) ids_unique by metis
        then show ?thesis using tally [OF q(4,3)] t posts [of "job_id job"] r0(2) True g(2) q(2) by auto
      next
        case False
        then show ?thesis using t posts [of "dr_id r0"] r0(2) by simp
      qed
    qed
    then show ?thesis using I wh nexts ids split by (simp add: orderly_inv_def s' list_all_iff)
  qed
qed

lemma orderly_step_inv:
  assumes step: "orderly_step co px parse s s'" and inv: "orderly_inv co s" and uuid: "inj (wc_uuid co)"
  shows "orderly_inv co s'"
proof -
  have w: "wh_step co px parse s s'" and lone: "distinct (map job_id (sy_inflight s'))"
    and recorded: "sy_posts s' = sy_posts s \<or> sy_db s' \<noteq> sy_db s"
    using step by (auto simp: orderly_step_def)
  have wh: "wh_inv co s'" using wh_step_inv [OF w] inv by (simp add: orderly_inv_def)
  from w show ?thesis
  proof (cases rule: wh_step.cases)
    case (create newID now up org body db' resp)
    then show ?thesis using subs_step_orderly [OF inv] wh wh_CreateSubscription_change by blast
  next
    case (update now up org hook body db' resp)
    then show ?thesis using subs_step_orderly [OF inv] wh wh_UpdateSubscription_change by blast
  next
    case (delete now up org hook db' resp)
    then show ?thesis using subs_step_orderly [OF inv] wh wh_DeleteSubscription_change by blast
  next
    case (dispatch eventID now up draw body db' jobs resp)
    then show ?thesis using dispatch_orderly [OF inv uuid dispatch(2,3)] wh lone by simp
  next
    case (poll now up lost)
    then show ?thesis using poll_orderly [OF inv refl] wh lone by simp
  next
    case (attempt xs job ys now up out post db')
    show ?thesis by (rule attempt_orderly [OF inv uuid attempt(2,3,1) recorded wh])
  qed
qed

lemma orderly_run_inv: "orderly_run co px parse s s' \<Longrightarrow> orderly_inv co s \<Longrightarrow> inj (wc_uuid co) \<Longrightarrow> orderly_inv co s'"
  by (induction rule: rtranclp_induct) (auto intro: orderly_step_inv)

text \<open>A row that is settled stays as it is, and nothing more is sent for it.\<close>

lemma settled_step:
  assumes step: "orderly_step co px parse s s'" and inv: "orderly_inv co s" and uuid: "inj (wc_uuid co)"
    and r: "r \<in> set (db_dels (sy_db s))" "dr_status r \<noteq> DeliveryStatusPending"
  shows "r \<in> set (db_dels (sy_db s')) \<and> sent co (dr_id r) s' = sent co (dr_id r) s"
proof -
  have "wh_step co px parse s s'" using step by (simp add: orderly_step_def)
  then show ?thesis
  proof (cases rule: wh_step.cases)
    case (create newID now up org body db' resp)
    then show ?thesis using r wh_CreateSubscription_change [OF create(2)] by (auto simp: subs_change_def sent_def)
  next
    case (update now up org hook body db' resp)
    then show ?thesis using r wh_UpdateSubscription_change [OF update(2)] by (auto simp: subs_change_def sent_def)
  next
    case (delete now up org hook db' resp)
    then show ?thesis using r wh_DeleteSubscription_change [OF delete(2)] by (auto simp: subs_change_def sent_def)
  next
    case (dispatch eventID now up draw body db' jobs resp)
    then show ?thesis using r dispatch_ids [OF dispatch(2)] by (auto simp: sent_def)
  next
    case (poll now up lost)
    then show ?thesis using r by (simp add: sent_def)
  next
    case (attempt xs job ys now up out post db')
    have I: "distinct (map dr_id (db_dels (sy_db s)))" "job_next (sy_db s) job" "job_ok job"
      using inv attempt(2) by (simp_all add: orderly_inv_def wh_inv_def)
    have other: "dr_id r \<noteq> job_id job"
    proof
      assume e: "dr_id r = job_id job"
      obtain q where "q \<in> set (db_dels (sy_db s))" "dr_id q = job_id job" "dr_status q = DeliveryStatusPending"
        using I(2) by (auto simp: job_next_def)
      then show False using ids_unique [OF I(1) r(1)] e r(2) by metis
    qed
    have "r \<in> set (db_dels db')"
    proof (cases "db' = sy_db s")
      case False
      then show ?thesis using attempt_row [OF I(3) attempt(3)] r(1) other by force
    qed (use r in simp)
    moreover have "hp_delivery p \<noteq> wc_uuid co (dr_id r)" if "post = Some p" for p
      using wh_attempt_post [of co now up out "sy_db s" job p] attempt(3) that other injD [OF uuid]
      by (auto simp: job_id_def)
    ultimately show ?thesis by (auto simp: attempt(1) sent_def split: option.split)
  qed
qed

lemma settled_run:
  assumes "orderly_run co px parse s s'" and "orderly_inv co s" and "inj (wc_uuid co)"
    and "r \<in> set (db_dels (sy_db s))" "dr_status r \<noteq> DeliveryStatusPending"
  shows "r \<in> set (db_dels (sy_db s')) \<and> sent co (dr_id r) s' = sent co (dr_id r) s"
  using assms
proof (induction rule: rtranclp_induct)
  case (step s1 s2)
  then show ?case using settled_step [OF step(2) orderly_run_inv [OF step(1)]] by simp
qed simp

section \<open>Properties\<close>

text \<open>
  C14. In an orderly run, one in which the attempts of a delivery do not overlap and the database
  records what was sent, at most three requests are sent for each delivery: no more than the attempts
  it counts while it is pending, and once it is delivered or dead-lettered not one more, however the
  run goes on. Deliveries are told apart by the text of their identifiers.
\<close>

theorem webhook_attempts_bounded:
  assumes "orderly_run co px parse wh_start s" and "inj (wc_uuid co)" and "r \<in> set (db_dels (sy_db s))"
  shows "sent co (dr_id r) s \<le> 3 \<and>
     (dr_status r = DeliveryStatusPending \<longrightarrow> int (sent co (dr_id r) s) \<le> dr_attempt_count r) \<and>
     (\<forall>s'. dr_status r \<noteq> DeliveryStatusPending \<longrightarrow> orderly_run co px parse s s' \<longrightarrow>
        r \<in> set (db_dels (sy_db s')) \<and> sent co (dr_id r) s' = sent co (dr_id r) s)"
proof -
  have inv: "orderly_inv co s" by (rule orderly_run_inv [OF assms(1) orderly_start assms(2)])
  then have "tallied (sent co (dr_id r) s) r" "row_ok r"
    using assms(3) by (auto simp: orderly_inv_def wh_inv_def db_ok_def list_all_iff)
  then have "sent co (dr_id r) s \<le> 3"
    "dr_status r = DeliveryStatusPending \<longrightarrow> int (sent co (dr_id r) s) \<le> dr_attempt_count r"
    using row_ok_count [of r] by (auto simp: tallied_def split: if_splits)
  then show ?thesis using settled_run [OF _ inv assms(2,3)] by blast
qed

section \<open>Witnesses\<close>

text \<open>One delivery: sent and refused, five minutes later sent again and accepted.\<close>

definition ex_refused :: del_row where
  "ex_refused = set_failed 30 1 (Some 500) (''non-2xx response: '' @ int_text 500) ex_del"

definition ex_job2 :: attempt_job where
  "ex_job2 = \<lparr> aj_del = the (scanDelivery ex_px ex_refused), aj_url = ''u'', aj_secret = ''s'' \<rparr>"

definition ex_waiting :: wh_sys where
  "ex_waiting = \<lparr> sy_db = \<lparr> db_subs = [ex_sub], db_dels = [ex_refused] \<rparr>, sy_inflight = [],
     sy_posts = [(ex_post, HttpStatus 500)] \<rparr>"

definition ex_again :: wh_sys where
  "ex_again = ex_waiting\<lparr> sy_inflight := [ex_job2] \<rparr>"

definition ex_finished :: wh_sys where
  "ex_finished = \<lparr> sy_db = \<lparr> db_subs = [ex_sub], db_dels = [set_delivered (30 + 300 * second) 200 ex_refused] \<rparr>, sy_inflight = [],
     sy_posts = [(ex_post, HttpStatus 500), (ex_post, HttpStatus 200)] \<rparr>"

lemma ex_scan2: "scanDelivery ex_px ex_refused = Some (aj_del ex_job2)"
  by (simp add: ex_job2_def scanDelivery_def scan_text_def ex_px_def ex_refused_def set_failed_def failure_row_def)

lemma ex_refused_sel [simp]:
  "dr_id ex_refused = 9" "dr_subscription_id ex_refused = 5" "dr_event_type ex_refused = ''reasoning.conclusion''"
  "dr_attempt_count ex_refused = 1" "dr_status ex_refused = DeliveryStatusPending" "dr_payload ex_refused = ''p''"
  by (simp_all add: ex_refused_def set_failed_def failure_row_def ex_del_def)

lemma ex_delivery_ids: "dr_id ex_del = 9" "dr_id ex_refused = 9" "wd_ID (aj_del ex_job) = 9" "wd_ID (aj_del ex_job2) = 9"
  using scanDelivery_Some [OF ex_scan] scanDelivery_Some [OF ex_scan2] by (simp_all add: ex_del_def)

lemma ex_steps:
  "wh_step ex_wco ex_px ex_wid ex_sent ex_waiting"
  "wh_step ex_wco ex_px ex_wid ex_waiting ex_again"
  "wh_step ex_wco ex_px ex_wid ex_again ex_finished"
proof -
  have "wh_attempt ex_wco 30 True (HttpStatus 500) (sy_db ex_sent) ex_job = (Some ex_post, Some (sy_db ex_waiting))"
    using scanDelivery_Some [OF ex_scan] recordFailure_eq [of "aj_del ex_job" 30 True]
    by (simp add: wh_attempt_def Let_def ex_post_def ex_wco_def wh_Sign_def signaturePrefix_def ex_del_def ex_nine
        ex_sent_def ex_waiting_def ex_refused_def update_dels_def) (simp add: ex_job_def)
  from wh_step.attempt [of ex_sent "[]" ex_job "[]", OF _ this] show "wh_step ex_wco ex_px ex_wid ex_sent ex_waiting"
    by (simp add: ex_sent_def ex_waiting_def ex_subbed_def wh_start_def)
next
  have "due (30 + 300 * second) ex_refused" by (simp add: due_def ex_refused_def set_failed_def failure_row_def)
  then have "PendingDeliveries ex_px (30 + 300 * second) (sy_db ex_waiting) retryBatchSize = Some [aj_del ex_job2]"
    by (simp add: PendingDeliveries_def retryBatchSize_def ex_waiting_def ex_scan2)
  moreover have "retry_job ex_px (\<lambda>_. False) (sy_db ex_waiting) (aj_del ex_job2) = Some ex_job2"
    using scanDelivery_Some [OF ex_scan2]
    by (simp add: retry_job_def GetSubscriptionWithSecret_def sub_where_def ex_waiting_def ex_sub_def scan_sub_def scan_text_def) (simp add: ex_job2_def)
  ultimately have "runRetryBatch ex_px (30 + 300 * second) True (\<lambda>_. False) (sy_db ex_waiting) = [ex_job2]"
    by (simp add: runRetryBatch_def map_filter_simps)
  with wh_step.poll [of ex_wco ex_px ex_wid ex_waiting "30 + 300 * second" True "\<lambda>_. False"]
  show "wh_step ex_wco ex_px ex_wid ex_waiting ex_again" by (simp add: ex_again_def ex_waiting_def)
next
  have "wh_attempt ex_wco (30 + 300 * second) True (HttpStatus 200) (sy_db ex_again) ex_job2 = (Some ex_post, Some (sy_db ex_finished))"
    using scanDelivery_Some [OF ex_scan2]
    by (simp add: wh_attempt_def Let_def ex_post_def ex_wco_def wh_Sign_def signaturePrefix_def
        ex_nine ex_again_def ex_waiting_def ex_finished_def wh_MarkDelivered_eq update_dels_def) (simp add: ex_job2_def)
  from wh_step.attempt [of ex_again "[]" ex_job2 "[]", OF _ this] show "wh_step ex_wco ex_px ex_wid ex_again ex_finished"
    by (simp add: ex_again_def ex_waiting_def ex_finished_def)
qed

lemma ex_changes: "ex_refused \<noteq> ex_del" "set_delivered t c ex_refused \<noteq> ex_refused"
proof -
  have "dr_attempt_count ex_refused \<noteq> dr_attempt_count ex_del" by (simp add: ex_del_def)
  then show "ex_refused \<noteq> ex_del" by metis
  have "dr_status (set_delivered t c ex_refused) \<noteq> dr_status ex_refused" by (simp add: set_delivered_def)
  then show "set_delivered t c ex_refused \<noteq> ex_refused" by metis
qed

lemma ex_orderly: "orderly_run ex_wco ex_px ex_wid wh_start ex_finished"
proof -
  have "orderly_run ex_wco ex_px ex_wid wh_start ex_subbed"
    using ex_subbed_step by (intro r_into_rtranclp) (simp add: orderly_step_def ex_subbed_def wh_start_def)
  also have "orderly_run ex_wco ex_px ex_wid ex_subbed ex_sent"
    using ex_sent_step by (intro r_into_rtranclp) (simp add: orderly_step_def ex_sent_def ex_subbed_def wh_start_def)
  also have "orderly_run ex_wco ex_px ex_wid ex_sent ex_waiting"
    using ex_steps(1) by (intro r_into_rtranclp)
      (simp add: orderly_step_def ex_waiting_def ex_sent_def ex_changes)
  also have "orderly_run ex_wco ex_px ex_wid ex_waiting ex_again"
    using ex_steps(2) by (intro r_into_rtranclp) (simp add: orderly_step_def ex_again_def)
  also have "orderly_run ex_wco ex_px ex_wid ex_again ex_finished"
    using ex_steps(3) by (intro r_into_rtranclp)
      (simp add: orderly_step_def ex_again_def ex_waiting_def ex_finished_def ex_changes)
  finally show ?thesis .
qed

theorem webhook_attempts_bounded_witness:
  "orderly_run ex_wco ex_px ex_wid wh_start ex_finished \<and> sent ex_wco 9 ex_finished = 2 \<and>
   sent ex_wco 9 ex_finished \<le> 3"
proof -
  have "set_delivered (30 + 300 * second) 200 ex_refused \<in> set (db_dels (sy_db ex_finished))" by (simp add: ex_finished_def)
  from webhook_attempts_bounded [OF ex_orderly ex_uuid_inj this] have "sent ex_wco 9 ex_finished \<le> 3"
    by (simp add: ex_delivery_ids)
  moreover have "sent ex_wco 9 ex_finished = 2"
    by (simp add: sent_def ex_finished_def ex_post_def ex_wco_def ex_nine)
  ultimately show ?thesis using ex_orderly by blast
qed

end
