(* ===== verification/WebhookQueue.thy ===== *)
theory WebhookQueue
  imports GoText
begin

text \<open>
  The older webhook service's data and persistence: \<open>services/webhook/internal/domain/types.go\<close>,
  \<open>internal/signer/signer.go\<close>, \<open>internal/store/store.go\<close>. As in the webhooks service, a table is
  the list of its rows and \<open>ORDER BY\<close> a stable sort. Identifiers are strings here, as in the Go
  code. No migration of the repository creates these tables, so the defaults of the columns an
  insertion leaves out are a parameter, \<open>q_defaults\<close>. HMAC-SHA256 in hexadecimal is the
  parameter \<open>hmac\<close>.
\<close>

section \<open>Types\<close>

abbreviation StatusPending :: string where "StatusPending \<equiv> ''pending''"
abbreviation StatusDelivered :: string where "StatusDelivered \<equiv> ''delivered''"
abbreviation StatusFailed :: string where "StatusFailed \<equiv> ''failed''"
abbreviation StatusDeadLettered :: string where "StatusDeadLettered \<equiv> ''dead_lettered''"

definition MaxAttempts :: int where
  "MaxAttempts = 3"

definition RetryDelays :: "duration list" where
  "RetryDelays = [second, 5 * second, 25 * second]"

record Endpoint =
  ep_ID :: string
  ep_OrgID :: string
  ep_URL :: string
  ep_Secret :: string
  ep_EventTypes :: "string list"
  ep_Description :: string
  ep_Enabled :: bool
  ep_CreatedAt :: gotime
  ep_UpdatedAt :: gotime

record Delivery =
  de_ID :: string
  de_EndpointID :: string
  de_EventType :: string
  de_Payload :: string
  de_Status :: string
  de_Attempts :: int
  de_MaxAttempts :: int
  de_NextRetryAt :: gotime
  de_DeliveredAt :: "gotime option"
  de_DeadLetteredAt :: "gotime option"
  de_LastResponseCode :: "int option"
  de_LastResponseBody :: "string option"
  de_CreatedAt :: gotime
  de_UpdatedAt :: gotime

record DispatchRequest =
  dq_OrgID :: string
  dq_EventType :: string
  dq_Payload :: json

section \<open>Signatures\<close>

definition Unix :: "gotime \<Rightarrow> int" where
  "Unix t = t div second"

definition signed_text :: "string \<Rightarrow> gotime \<Rightarrow> string" where
  "signed_text body ts = int_text (Unix ts) @ ''.'' @ body"

definition Sign :: "(string \<Rightarrow> string \<Rightarrow> string) \<Rightarrow> string \<Rightarrow> string \<Rightarrow> gotime \<Rightarrow> string" where
  "Sign hmac secret body ts = hmac secret (signed_text body ts)"

definition VerifySignature ::
  "(string \<Rightarrow> string \<Rightarrow> string) \<Rightarrow> string \<Rightarrow> string \<Rightarrow> gotime \<Rightarrow> string \<Rightarrow> bool" where
  "VerifySignature hmac secret body ts sig = (Sign hmac secret body ts = sig)"

section \<open>The store\<close>

record qdb =
  qd_eps :: "Endpoint list"
  qd_dels :: "Delivery list"

definition q_CreateEndpoint :: "string \<Rightarrow> gotime \<Rightarrow> qdb \<Rightarrow> Endpoint \<Rightarrow> qdb \<times> Endpoint" where
  "q_CreateEndpoint newID now db ep =
     (let r = ep\<lparr> ep_ID := newID, ep_CreatedAt := now, ep_UpdatedAt := now \<rparr>
      in (db\<lparr> qd_eps := qd_eps db @ [r] \<rparr>, r))"

definition q_ListEndpoints :: "qdb \<Rightarrow> string \<Rightarrow> Endpoint list" where
  "q_ListEndpoints db orgID =
     rev (sort_key ep_CreatedAt (filter (\<lambda>e. ep_OrgID e = orgID) (qd_eps db)))"

definition q_GetEndpoint :: "qdb \<Rightarrow> string \<Rightarrow> string \<Rightarrow> Endpoint option" where
  "q_GetEndpoint db i orgID = find (\<lambda>e. ep_ID e = i \<and> ep_OrgID e = orgID) (qd_eps db)"

definition q_DeleteEndpoint :: "qdb \<Rightarrow> string \<Rightarrow> string \<Rightarrow> qdb" where
  "q_DeleteEndpoint db i orgID =
     db\<lparr> qd_eps := filter (\<lambda>e. \<not> (ep_ID e = i \<and> ep_OrgID e = orgID)) (qd_eps db) \<rparr>"

definition EnabledEndpointsForEvent :: "qdb \<Rightarrow> string \<Rightarrow> string \<Rightarrow> Endpoint list" where
  "EnabledEndpointsForEvent db orgID eventType =
     filter (\<lambda>e. ep_OrgID e = orgID \<and> ep_Enabled e \<and>
       (''*'' \<in> set (ep_EventTypes e) \<or> eventType \<in> set (ep_EventTypes e))) (qd_eps db)"

text \<open>The columns an insertion leaves out take the table's defaults.\<close>

record q_defaults =
  qf_attempts :: int
  qf_max_attempts :: int

definition EnqueueDelivery ::
  "q_defaults \<Rightarrow> string \<Rightarrow> gotime \<Rightarrow> qdb \<Rightarrow> string \<Rightarrow> string \<Rightarrow> string \<Rightarrow> qdb \<times> Delivery" where
  "EnqueueDelivery df newID now db endpointID eventType payload =
     (let d = \<lparr> de_ID = newID, de_EndpointID = endpointID, de_EventType = eventType,
                de_Payload = payload, de_Status = StatusPending, de_Attempts = qf_attempts df,
                de_MaxAttempts = qf_max_attempts df, de_NextRetryAt = now, de_DeliveredAt = None,
                de_DeadLetteredAt = None, de_LastResponseCode = None, de_LastResponseBody = None,
                de_CreatedAt = now, de_UpdatedAt = now \<rparr>
      in (db\<lparr> qd_dels := qd_dels db @ [d] \<rparr>, d))"

definition is_due :: "gotime \<Rightarrow> Delivery \<Rightarrow> bool" where
  "is_due now d \<longleftrightarrow> de_Status d \<in> {StatusPending, StatusFailed} \<and> de_NextRetryAt d \<le> now"

definition DuePendingDeliveries :: "gotime \<Rightarrow> qdb \<Rightarrow> int \<Rightarrow> Delivery list" where
  "DuePendingDeliveries now db limit =
     take (nat limit) (sort_key de_NextRetryAt (filter (is_due now) (qd_dels db)))"

definition truncate_to :: "string \<Rightarrow> nat \<Rightarrow> string" where
  "truncate_to s n = (if length s \<le> n then s else take n s)"

definition min_int :: "int \<Rightarrow> int \<Rightarrow> int" where
  "min_int a b = (if a < b then a else b)"

definition update_delivery :: "string \<Rightarrow> (Delivery \<Rightarrow> Delivery) \<Rightarrow> qdb \<Rightarrow> qdb" where
  "update_delivery i f db = db\<lparr> qd_dels := map (\<lambda>d. if de_ID d = i then f d else d) (qd_dels db) \<rparr>"

definition q_MarkDelivered :: "gotime \<Rightarrow> qdb \<Rightarrow> string \<Rightarrow> int \<Rightarrow> string \<Rightarrow> qdb" where
  "q_MarkDelivered now db i code body =
     update_delivery i (\<lambda>d. d\<lparr> de_Status := StatusDelivered, de_DeliveredAt := Some now,
       de_LastResponseCode := Some code, de_LastResponseBody := Some (truncate_to body 2000),
       de_Attempts := de_Attempts d + 1 \<rparr>) db"

text \<open>The index into \<open>RetryDelays\<close>: \<open>None\<close> is the panic on a negative one.\<close>

definition retry_delay :: "int \<Rightarrow> duration option" where
  "retry_delay attempts =
     (let i = min_int attempts (int (length RetryDelays) - 1)
      in if 0 \<le> i then Some (RetryDelays ! nat i) else None)"

definition q_MarkFailed :: "gotime \<Rightarrow> qdb \<Rightarrow> string \<Rightarrow> int \<Rightarrow> string \<Rightarrow> int \<Rightarrow> qdb option" where
  "q_MarkFailed now db i code body attempts =
     (if MaxAttempts \<le> attempts
      then Some (update_delivery i (\<lambda>d. d\<lparr> de_Status := StatusDeadLettered,
             de_DeadLetteredAt := Some now, de_LastResponseCode := Some code,
             de_LastResponseBody := Some (truncate_to body 2000),
             de_Attempts := de_Attempts d + 1 \<rparr>) db)
      else case retry_delay attempts of
          None \<Rightarrow> None
        | Some delay \<Rightarrow> Some (update_delivery i (\<lambda>d. d\<lparr> de_Status := StatusFailed,
             de_NextRetryAt := now + delay, de_LastResponseCode := Some code,
             de_LastResponseBody := Some (truncate_to body 2000),
             de_Attempts := de_Attempts d + 1 \<rparr>) db))"

definition q_ListDeliveries :: "qdb \<Rightarrow> string \<Rightarrow> int \<Rightarrow> int \<Rightarrow> Delivery list" where
  "q_ListDeliveries db endpointID limit offset =
     page limit offset (rev (sort_key de_CreatedAt (filter (\<lambda>d. de_EndpointID d = endpointID) (qd_dels db))))"

section \<open>Lemmas\<close>

lemma update_delivery_sel [simp]:
  "qd_dels (update_delivery i f db) = map (\<lambda>d. if de_ID d = i then f d else d) (qd_dels db)"
  "qd_eps (update_delivery i f db) = qd_eps db"
  by (simp_all add: update_delivery_def)

lemma retry_delay_ok: "0 \<le> attempts \<Longrightarrow> \<exists>d. retry_delay attempts = Some d"
  by (simp add: retry_delay_def min_int_def RetryDelays_def Let_def)

text \<open>The signed text reads back: no digit is a dot, so the first dot ends the timestamp.\<close>

lemma digit_not_dot: "is_digit c \<Longrightarrow> c \<noteq> CHR ''.''"
  by (auto simp: is_digit_def)

lemma int_text_no_dot: "CHR ''.'' \<notin> set (int_text n)"
  using dec_digits_props [of "nat n"] dec_digits_props [of "nat (- n)"] digit_not_dot
  by (auto simp: int_text_def list_all_iff)

lemma minus_not_digit: "hd (dec_digits n) \<noteq> CHR ''-''"
proof -
  have "is_digit (hd (dec_digits n))"
    by (metis dec_digits_props hd_in_set list_all_iff)
  then show ?thesis by (auto simp: is_digit_def)
qed

lemma int_text_inj: "int_text m = int_text n \<Longrightarrow> m = n"
proof -
  assume e: "int_text m = int_text n"
  have "m < 0 \<longleftrightarrow> n < 0"
    using e minus_not_digit [of "nat m"] minus_not_digit [of "nat n"]
    by (auto simp: int_text_def split: if_splits) (metis list.sel(1))+
  with e show "m = n"
    by (auto simp: int_text_def split: if_splits dest!: dec_digits_inj)
qed

lemma append_dot_inj:
  assumes "a @ c # x = b @ c # y" and "c \<notin> set a" and "c \<notin> set b"
  shows "a = b \<and> x = y"
  using assms
proof (induction a arbitrary: b)
  case Nil
  then show ?case by (cases b) auto
next
  case (Cons z a)
  then show ?case by (cases b) auto
qed

lemma signed_text_inj:
  "signed_text b1 t1 = signed_text b2 t2 \<Longrightarrow> b1 = b2 \<and> Unix t1 = Unix t2"
  using append_dot_inj [of "int_text (Unix t1)" "CHR ''.''" b1 "int_text (Unix t2)" b2]
    int_text_no_dot int_text_inj
  by (auto simp: signed_text_def)

end
