(* ===== verification/WebhookWorker.thy ===== *)
theory WebhookWorker
  imports WebhookQueue
begin

text \<open>
  The delivery worker of the older webhook service, \<open>services/webhook/internal/worker/worker.go\<close>.
  Its \<open>Queue\<close> interface is the record \<open>queue\<close> of the operations it calls (\<open>qu_by_id\<close> is the
  method it probes for with a type assertion); what a queue promises of a delivery's row is the
  locale \<open>delivery_queue\<close>, interpreted on the PostgreSQL store \<open>pgQueue\<close>.

  The client is the parameter \<open>client\<close>: what comes back for a request, at most 2048 bytes of the
  body. \<open>bad_url\<close> is the error \<open>http.NewRequest\<close> has for a URL. Of a delivery, \<open>None\<close> is a panic.
\<close>

section \<open>The interface and the Postgres queue\<close>

record 'q queue =
  qu_due :: "gotime \<Rightarrow> 'q \<Rightarrow> int \<Rightarrow> string + Delivery list"
  qu_get :: "'q \<Rightarrow> string \<Rightarrow> string \<Rightarrow> string + Endpoint option"
  qu_by_id :: "('q \<Rightarrow> string \<Rightarrow> string + Endpoint option) option"
  qu_delivered :: "gotime \<Rightarrow> 'q \<Rightarrow> string \<Rightarrow> int \<Rightarrow> string \<Rightarrow> 'q"
  qu_failed :: "gotime \<Rightarrow> 'q \<Rightarrow> string \<Rightarrow> int \<Rightarrow> string \<Rightarrow> int \<Rightarrow> 'q option"

definition pgQueue :: "qdb queue" where
  "pgQueue = \<lparr> qu_due = (\<lambda>now db limit. Inr (DuePendingDeliveries now db limit)),
               qu_get = (\<lambda>db i orgID. Inr (q_GetEndpoint db i orgID)), qu_by_id = None,
               qu_delivered = q_MarkDelivered, qu_failed = q_MarkFailed \<rparr>"

section \<open>The worker\<close>

definition batchSize :: int where
  "batchSize = 50"

record worker_post =
  wp_url :: string
  wp_body :: string
  wp_signature :: string
  wp_timestamp :: string
  wp_event :: string
  wp_delivery :: string

definition fetchEndpoint :: "'q queue \<Rightarrow> 'q \<Rightarrow> string \<Rightarrow> string + Endpoint option" where
  "fetchEndpoint Q q endpointID =
     (case qu_by_id Q of
        Some by_id \<Rightarrow> by_id q endpointID
      | None \<Rightarrow> qu_get Q q endpointID '''')"

definition deliver ::
  "(string \<Rightarrow> string \<Rightarrow> string) \<Rightarrow> (string \<Rightarrow> string option) \<Rightarrow> (worker_post \<Rightarrow> string + int \<times> string) \<Rightarrow>
   'q queue \<Rightarrow> gotime \<Rightarrow> gotime \<Rightarrow> 'q \<Rightarrow> Delivery \<Rightarrow> worker_post option \<times> 'q option" where
  "deliver hmac bad_url client Q now later q d =
     (case fetchEndpoint Q q (de_EndpointID d) of
        Inr (Some ep) \<Rightarrow>
          (case bad_url (ep_URL ep) of
             Some e \<Rightarrow> (None, qu_failed Q later q (de_ID d) 0 e (de_Attempts d))
           | None \<Rightarrow>
               let post = \<lparr> wp_url = ep_URL ep, wp_body = de_Payload d,
                            wp_signature = Sign hmac (ep_Secret ep) (de_Payload d) now,
                            wp_timestamp = int_text (Unix now), wp_event = de_EventType d,
                            wp_delivery = de_ID d \<rparr>
               in (Some post,
                   case client post of
                     Inl e \<Rightarrow> qu_failed Q later q (de_ID d) 0 e (de_Attempts d)
                   | Inr (code, body) \<Rightarrow>
                       if 200 \<le> code \<and> code < 300
                       then Some (qu_delivered Q later q (de_ID d) code body)
                       else qu_failed Q later q (de_ID d) code body (de_Attempts d)))
      | _ \<Rightarrow> (None, qu_failed Q later q (de_ID d) 0 ''endpoint not found'' (de_Attempts d)))"

text \<open>
  A batch works through the snapshot the query returned; \<open>at d\<close> are the instants at which \<open>d\<close> is
  signed and marked.
\<close>

fun deliver_all ::
  "(string \<Rightarrow> string \<Rightarrow> string) \<Rightarrow> (string \<Rightarrow> string option) \<Rightarrow> (worker_post \<Rightarrow> string + int \<times> string) \<Rightarrow>
   'q queue \<Rightarrow> (Delivery \<Rightarrow> gotime \<times> gotime) \<Rightarrow> 'q \<Rightarrow> Delivery list \<Rightarrow> worker_post list \<times> 'q option" where
  "deliver_all hmac bad_url client Q at q [] = ([], Some q)"
| "deliver_all hmac bad_url client Q at q (d # ds) =
     (case deliver hmac bad_url client Q (fst (at d)) (snd (at d)) q d of
        (post, None) \<Rightarrow> (case_option [] (\<lambda>p. [p]) post, None)
      | (post, Some q') \<Rightarrow>
          (case deliver_all hmac bad_url client Q at q' ds of
             (posts, res) \<Rightarrow> (case_option [] (\<lambda>p. [p]) post @ posts, res)))"

definition processBatch ::
  "(string \<Rightarrow> string \<Rightarrow> string) \<Rightarrow> (string \<Rightarrow> string option) \<Rightarrow> (worker_post \<Rightarrow> string + int \<times> string) \<Rightarrow>
   'q queue \<Rightarrow> gotime \<Rightarrow> (Delivery \<Rightarrow> gotime \<times> gotime) \<Rightarrow> 'q \<Rightarrow> worker_post list \<times> 'q option" where
  "processBatch hmac bad_url client Q now at q =
     (case qu_due Q now q batchSize of
        Inl _ \<Rightarrow> ([], Some q)
      | Inr ds \<Rightarrow> deliver_all hmac bad_url client Q at q ds)"

section \<open>What a queue promises\<close>

text \<open>How a row comes out of a successful and of a failed attempt.\<close>

definition after_success :: "gotime \<Rightarrow> int \<Rightarrow> string \<Rightarrow> Delivery \<Rightarrow> Delivery" where
  "after_success t code body d = d\<lparr> de_Status := StatusDelivered, de_DeliveredAt := Some t,
     de_LastResponseCode := Some code, de_LastResponseBody := Some (truncate_to body 2000),
     de_Attempts := de_Attempts d + 1 \<rparr>"

definition after_failure :: "gotime \<Rightarrow> int \<Rightarrow> string \<Rightarrow> int \<Rightarrow> Delivery \<Rightarrow> Delivery" where
  "after_failure t code body n d =
     (if MaxAttempts \<le> n
      then d\<lparr> de_Status := StatusDeadLettered, de_DeadLetteredAt := Some t,
              de_LastResponseCode := Some code, de_LastResponseBody := Some (truncate_to body 2000),
              de_Attempts := de_Attempts d + 1 \<rparr>
      else d\<lparr> de_Status := StatusFailed,
              de_NextRetryAt := t + (if n = 0 then second else if n = 1 then 5 * second else 25 * second),
              de_LastResponseCode := Some code, de_LastResponseBody := Some (truncate_to body 2000),
              de_Attempts := de_Attempts d + 1 \<rparr>)"

locale delivery_queue =
  fixes Q :: "'q queue" and rows :: "'q \<Rightarrow> Delivery list" and eps :: "'q \<Rightarrow> Endpoint list"
  assumes delivered_rows: "rows (qu_delivered Q t q i code body) =
      map (\<lambda>d. if de_ID d = i then after_success t code body d else d) (rows q)"
    and delivered_eps: "eps (qu_delivered Q t q i code body) = eps q"
    and failed_some: "0 \<le> n \<Longrightarrow> \<exists>q'. qu_failed Q t q i code body n = Some q'"
    and failed_rows: "qu_failed Q t q i code body n = Some q' \<Longrightarrow> 0 \<le> n \<Longrightarrow>
      rows q' = map (\<lambda>d. if de_ID d = i then after_failure t code body n d else d) (rows q)"
    and failed_eps: "qu_failed Q t q i code body n = Some q' \<Longrightarrow> eps q' = eps q"
    and due_sound: "qu_due Q t q n = Inr ds \<Longrightarrow> set ds \<subseteq> set (rows q)"
    and get_sound: "fetchEndpoint Q q i = Inr (Some ep) \<Longrightarrow> ep \<in> set (eps q) \<and> ep_ID ep = i"
begin

text \<open>One attempt: what was posted, and what became of the rows.\<close>

definition signed_post :: "(string \<Rightarrow> string \<Rightarrow> string) \<Rightarrow> gotime \<Rightarrow> Endpoint \<Rightarrow> Delivery \<Rightarrow> worker_post" where
  "signed_post hmac now ep d = \<lparr> wp_url = ep_URL ep, wp_body = de_Payload d,
     wp_signature = Sign hmac (ep_Secret ep) (de_Payload d) now,
     wp_timestamp = int_text (Unix now), wp_event = de_EventType d, wp_delivery = de_ID d \<rparr>"

definition attempted ::
  "(worker_post \<Rightarrow> string + int \<times> string) \<Rightarrow> gotime \<Rightarrow> 'q \<Rightarrow> Delivery \<Rightarrow> worker_post option \<Rightarrow> 'q \<Rightarrow> bool" where
  "attempted client later q d post q' \<longleftrightarrow> eps q' = eps q \<and>
     (\<exists>f. rows q' = map (\<lambda>r. if de_ID r = de_ID d then f r else r) (rows q) \<and>
       ((\<exists>code body. f = after_failure later code body (de_Attempts d)) \<or>
        (\<exists>p code body. post = Some p \<and> client p = Inr (code, body) \<and> 200 \<le> code \<and> code < 300 \<and>
           f = after_success later code body)))"

lemma failure_attempted:
  assumes "0 \<le> de_Attempts d"
  shows "\<exists>q'. qu_failed Q later q (de_ID d) code body (de_Attempts d) = Some q' \<and>
    attempted client later q d post q'"
proof -
  obtain q' where q: "qu_failed Q later q (de_ID d) code body (de_Attempts d) = Some q'"
    using failed_some [OF assms] by blast
  then show ?thesis
    using failed_rows [OF q assms] failed_eps [OF q] unfolding attempted_def by blast
qed

lemma deliver_attempted:
  assumes "0 \<le> de_Attempts d"
  shows "\<exists>post q'. deliver hmac bad_url client Q now later q d = (post, Some q') \<and>
    attempted client later q d post q' \<and>
    (\<forall>p. post = Some p \<longrightarrow> (\<exists>ep \<in> set (eps q). ep_ID ep = de_EndpointID d \<and> p = signed_post hmac now ep d))"
proof -
  note fail = failure_attempted [OF assms]
  consider (no) "\<not> (\<exists>ep. fetchEndpoint Q q (de_EndpointID d) = Inr (Some ep))"
    | (ep) ep where "fetchEndpoint Q q (de_EndpointID d) = Inr (Some ep)" by blast
  then show ?thesis
  proof cases
    case no
    then have "deliver hmac bad_url client Q now later q d =
        (None, qu_failed Q later q (de_ID d) 0 ''endpoint not found'' (de_Attempts d))"
      by (auto simp: deliver_def split: sum.splits option.splits)
    with fail [of later q 0 "''endpoint not found''" client None] show ?thesis by auto
  next
    case (ep e)
    note found = get_sound [OF ep]
    show ?thesis
    proof (cases "bad_url (ep_URL e)")
      case (Some err)
      with ep have "deliver hmac bad_url client Q now later q d =
          (None, qu_failed Q later q (de_ID d) 0 err (de_Attempts d))"
        by (simp add: deliver_def)
      with fail [of later q 0 err client None] show ?thesis by auto
    next
      case None
      let ?p = "signed_post hmac now e d"
      have d: "deliver hmac bad_url client Q now later q d = (Some ?p,
          case client ?p of
            Inl err \<Rightarrow> qu_failed Q later q (de_ID d) 0 err (de_Attempts d)
          | Inr (code, body) \<Rightarrow>
              if 200 \<le> code \<and> code < 300 then Some (qu_delivered Q later q (de_ID d) code body)
              else qu_failed Q later q (de_ID d) code body (de_Attempts d))"
        using ep None by (simp add: deliver_def signed_post_def Let_def)
      consider (err) err where "client ?p = Inl err"
        | (ok) code body where "client ?p = Inr (code, body)" "200 \<le> code" "code < 300"
        | (bad) code body where "client ?p = Inr (code, body)" "\<not> (200 \<le> code \<and> code < 300)"
        by (cases "client ?p") auto
      then show ?thesis
      proof cases
        case err
        with d fail [of later q 0 err client "Some ?p"] found show ?thesis by auto
      next
        case ok
        then have "attempted client later q d (Some ?p) (qu_delivered Q later q (de_ID d) code body)"
          unfolding attempted_def using delivered_rows delivered_eps by blast
        with d ok found show ?thesis by auto
      next
        case bad
        with d fail [of later q code body client "Some ?p"] found show ?thesis by auto
      qed
    qed
  qed
qed

end

section \<open>The Postgres store\<close>

lemma failed_delay: "0 \<le> n \<Longrightarrow> \<not> MaxAttempts \<le> n \<Longrightarrow>
    retry_delay n = Some (if n = 0 then second else if n = 1 then 5 * second else 25 * second)"
proof -
  assume "0 \<le> n" "\<not> MaxAttempts \<le> n"
  then have "n = 0 \<or> n = 1 \<or> n = 2" by (auto simp: MaxAttempts_def)
  then show ?thesis by (auto simp: retry_delay_def min_int_def RetryDelays_def)
qed

lemma MarkFailed_rows:
  assumes "q_MarkFailed t db i code body n = Some db'" and "0 \<le> n"
  shows "qd_dels db' = map (\<lambda>d. if de_ID d = i then after_failure t code body n d else d) (qd_dels db)"
  using assms failed_delay [of n]
  by (auto simp: q_MarkFailed_def after_failure_def split: if_splits)

interpretation pg: delivery_queue pgQueue qd_dels qd_eps
proof unfold_locales
  show "qd_dels (qu_delivered pgQueue t q i code body) =
      map (\<lambda>d. if de_ID d = i then after_success t code body d else d) (qd_dels q)" for t q i code body
    by (simp add: pgQueue_def q_MarkDelivered_def after_success_def)
  show "qd_eps (qu_delivered pgQueue t q i code body) = qd_eps q" for t q i code body
    by (simp add: pgQueue_def q_MarkDelivered_def)
  show "\<exists>q'. qu_failed pgQueue t q i code body n = Some q'" if "0 \<le> n" for t q i code body n
    using retry_delay_ok [OF that] by (auto simp: pgQueue_def q_MarkFailed_def)
  show "qd_dels q' = map (\<lambda>d. if de_ID d = i then after_failure t code body n d else d) (qd_dels q)"
    if "qu_failed pgQueue t q i code body n = Some q'" "0 \<le> n" for t q i code body n q'
    using that MarkFailed_rows by (simp add: pgQueue_def)
  show "qd_eps q' = qd_eps q" if "qu_failed pgQueue t q i code body n = Some q'" for t q i code body n q'
    using that by (auto simp: pgQueue_def q_MarkFailed_def split: if_splits option.splits)
  show "set ds \<subseteq> set (qd_dels q)" if "qu_due pgQueue t q n = Inr ds" for t q n ds
    using that by (auto simp: pgQueue_def DuePendingDeliveries_def dest: in_set_takeD)
  show "ep \<in> set (qd_eps q) \<and> ep_ID ep = i" if "fetchEndpoint pgQueue q i = Inr (Some ep)" for q i ep
    using that by (auto simp: pgQueue_def fetchEndpoint_def q_GetEndpoint_def dest: find_some)
qed

text \<open>The lookup asks for the empty organisation.\<close>

lemma fetch_only_ownerless:
  "\<forall>e \<in> set (qd_eps db). ep_OrgID e \<noteq> '''' \<Longrightarrow> fetchEndpoint pgQueue db i = Inr None"
  by (auto simp: pgQueue_def fetchEndpoint_def q_GetEndpoint_def find_None_iff)

lemma deliver_ownerless:
  assumes "\<forall>e \<in> set (qd_eps db). ep_OrgID e \<noteq> ''''"
  shows "deliver hmac bad_url client pgQueue now later db d =
    (None, q_MarkFailed later db (de_ID d) 0 ''endpoint not found'' (de_Attempts d))"
  using fetch_only_ownerless [OF assms] by (simp add: deliver_def) (simp add: pgQueue_def)

end
