(* ===== verification/WebhookApi.thy ===== *)
theory WebhookApi
  imports WebhookWorker
begin

text \<open>
  The HTTP handlers of the older webhook service, \<open>services/webhook/internal/handler/handler.go\<close>.
  \<open>orgID\<close> is the \<open>X-Org-ID\<close> header, empty when absent; \<open>up\<close> is false when the database fails;
  \<open>rand\<close> is what the system's random source gives (32 bytes) or its error.
\<close>

datatype queue_body =
    BodyEndpoint Endpoint
  | BodyEndpoints "Endpoint list" nat
  | BodyQueued "Delivery list" nat
  | BodyEnqueued string nat nat
  | BodyEmpty

type_synonym queue_response = "queue_body response"

record EndpointRequest =
  er_URL :: string
  er_EventTypes :: "string list"
  er_Description :: string
  er_Enabled :: "bool option"

section \<open>Helpers\<close>

definition hex_char :: "nat \<Rightarrow> char" where
  "hex_char n = ''0123456789abcdef'' ! n"

definition hex_text :: "string \<Rightarrow> string" where
  "hex_text s = concat (map (\<lambda>c. [hex_char (of_char c div 16), hex_char (of_char c mod 16)]) s)"

definition generateSecret :: "string + string \<Rightarrow> string + string" where
  "generateSecret rand = map_sum id hex_text rand"

definition maskSecret :: "string \<Rightarrow> string" where
  "maskSecret s = (if length s < 4 then ''****'' else ''****'' @ drop (length s - 4) s)"

definition mask_endpoint :: "Endpoint \<Rightarrow> Endpoint" where
  "mask_endpoint ep = ep\<lparr> ep_Secret := maskSecret (ep_Secret ep) \<rparr>"

definition query_int :: "(int \<Rightarrow> bool) \<Rightarrow> int \<Rightarrow> string \<Rightarrow> int" where
  "query_int ok dflt s =
     (if s \<noteq> '''' then (case Atoi s of Some n \<Rightarrow> if ok n then n else dflt | None \<Rightarrow> dflt) else dflt)"

section \<open>Endpoints\<close>

abbreviation missing_org :: queue_response where
  "missing_org \<equiv> JsonError 400 ''MISSING_ORG'' ''X-Org-ID header is required''"

definition ep_CreateEndpoint ::
  "string + string \<Rightarrow> string \<Rightarrow> gotime \<Rightarrow> bool \<Rightarrow> qdb \<Rightarrow> string \<Rightarrow> EndpointRequest decoded \<Rightarrow>
   qdb \<times> queue_response" where
  "ep_CreateEndpoint rand newID now up db orgID body =
     (if orgID = '''' then (db, missing_org)
      else case body of
          Inl e \<Rightarrow> (db, JsonError 400 ''INVALID_JSON'' e)
        | Inr req \<Rightarrow>
            if er_URL req = '''' then (db, JsonError 400 ''MISSING_FIELD'' ''url is required'')
            else if \<not> HasPrefix (er_URL req) ''http://'' \<and> \<not> HasPrefix (er_URL req) ''https://''
            then (db, JsonError 400 ''INVALID_URL'' ''url must start with http:// or https://'')
            else (case generateSecret rand of
                Inl _ \<Rightarrow> (db, JsonError 500 ''SERVER_ERROR'' ''failed to generate secret'')
              | Inr secret \<Rightarrow>
                  if \<not> up then (db, JsonError 500 ''SERVER_ERROR'' ''failed to create endpoint'')
                  else (case q_CreateEndpoint newID now db
                          \<lparr> ep_ID = '''', ep_OrgID = orgID, ep_URL = er_URL req, ep_Secret = secret,
                            ep_EventTypes = (if er_EventTypes req = [] then [''*''] else er_EventTypes req),
                            ep_Description = er_Description req,
                            ep_Enabled = (case er_Enabled req of None \<Rightarrow> True | Some b \<Rightarrow> b),
                            ep_CreatedAt = zero_time, ep_UpdatedAt = zero_time \<rparr> of
                      (db', ep) \<Rightarrow> (db', JsonResponse 201 (BodyEndpoint ep)))))"

definition ep_ListEndpoints :: "bool \<Rightarrow> qdb \<Rightarrow> string \<Rightarrow> queue_response" where
  "ep_ListEndpoints up db orgID =
     (if orgID = '''' then missing_org
      else if \<not> up then JsonError 500 ''SERVER_ERROR'' ''failed to list endpoints''
      else let eps = q_ListEndpoints db orgID
           in JsonResponse 200 (BodyEndpoints (map mask_endpoint eps) (length eps)))"

definition ep_GetEndpoint :: "bool \<Rightarrow> qdb \<Rightarrow> string \<Rightarrow> string \<Rightarrow> queue_response" where
  "ep_GetEndpoint up db orgID i =
     (if orgID = '''' then missing_org
      else if \<not> up then JsonError 500 ''SERVER_ERROR'' ''failed to get endpoint''
      else case q_GetEndpoint db i orgID of
          None \<Rightarrow> JsonError 404 ''NOT_FOUND'' ''endpoint not found''
        | Some ep \<Rightarrow> JsonResponse 200 (BodyEndpoint (mask_endpoint ep)))"

definition ep_DeleteEndpoint :: "bool \<Rightarrow> qdb \<Rightarrow> string \<Rightarrow> string \<Rightarrow> qdb \<times> queue_response" where
  "ep_DeleteEndpoint up db orgID i =
     (if orgID = '''' then (db, missing_org)
      else if \<not> up then (db, JsonError 500 ''SERVER_ERROR'' ''failed to delete endpoint'')
      else (q_DeleteEndpoint db i orgID, JsonResponse 204 BodyEmpty))"

text \<open>\<open>up\<close> and \<open>up'\<close> are the two queries.\<close>

definition ep_ListDeliveries ::
  "bool \<Rightarrow> bool \<Rightarrow> qdb \<Rightarrow> string \<Rightarrow> string \<Rightarrow> string \<Rightarrow> string \<Rightarrow> queue_response" where
  "ep_ListDeliveries up up' db orgID i limitStr offsetStr =
     (if orgID = '''' then missing_org
      else let limit = query_int (\<lambda>n. 0 < n \<and> n \<le> 200) 50 limitStr;
               offset = query_int (\<lambda>n. 0 \<le> n) 0 offsetStr
           in if \<not> up \<or> q_GetEndpoint db i orgID = None
              then JsonError 404 ''NOT_FOUND'' ''endpoint not found''
              else if \<not> up' then JsonError 500 ''SERVER_ERROR'' ''failed to list deliveries''
              else let ds = q_ListDeliveries db i limit offset
                   in JsonResponse 200 (BodyQueued ds (length ds)))"

section \<open>Dispatch\<close>

text \<open>\<open>draw n\<close>: the id and instant the \<open>n\<close>-th insertion gets, and whether it is accepted.\<close>

fun enqueue_all ::
  "q_defaults \<Rightarrow> (nat \<Rightarrow> string \<times> gotime \<times> bool) \<Rightarrow> nat \<Rightarrow> string \<Rightarrow> string \<Rightarrow> qdb \<Rightarrow> Endpoint list \<Rightarrow>
   qdb \<times> nat" where
  "enqueue_all df draw n eventType payload db [] = (db, 0)"
| "enqueue_all df draw n eventType payload db (ep # eps) =
     (case draw n of (newID, now, up) \<Rightarrow>
        if \<not> up then enqueue_all df draw (Suc n) eventType payload db eps
        else (case enqueue_all df draw (Suc n) eventType payload
                     (fst (EnqueueDelivery df newID now db (ep_ID ep) eventType payload)) eps of
                (db', enqueued) \<Rightarrow> (db', Suc enqueued)))"

definition DispatchEvent ::
  "(json \<Rightarrow> string + string) \<Rightarrow> q_defaults \<Rightarrow> (nat \<Rightarrow> string \<times> gotime \<times> bool) \<Rightarrow> bool \<Rightarrow> qdb \<Rightarrow>
   DispatchRequest decoded \<Rightarrow> qdb \<times> queue_response" where
  "DispatchEvent marshal df draw up db body =
     (case body of
        Inl e \<Rightarrow> (db, JsonError 400 ''INVALID_JSON'' e)
      | Inr req \<Rightarrow>
          if dq_OrgID req = '''' \<or> dq_EventType req = '''' \<or> dq_Payload req = JNull
          then (db, JsonError 400 ''MISSING_FIELD'' ''org_id, event_type, and payload are required'')
          else (case marshal (dq_Payload req) of
              Inl _ \<Rightarrow> (db, JsonError 500 ''SERVER_ERROR'' ''failed to marshal payload'')
            | Inr payload \<Rightarrow>
                if \<not> up then (db, JsonError 500 ''SERVER_ERROR'' ''failed to query endpoints'')
                else let eps = EnabledEndpointsForEvent db (dq_OrgID req) (dq_EventType req)
                     in case enqueue_all df draw 0 (dq_EventType req) payload db eps of
                          (db', enqueued) \<Rightarrow>
                            (db', JsonResponse 202 (BodyEnqueued (dq_EventType req) (length eps) enqueued))))"

section \<open>The service\<close>

text \<open>
  The database, the rest of the batch the worker is going through, and the requests it has sent.
  There is one worker; handlers run between its steps. New deliveries get fresh ids.
\<close>

record q_sys =
  qs_db :: qdb
  qs_batch :: "Delivery list"
  qs_posts :: "worker_post list"

definition q_start :: q_sys where
  "q_start = \<lparr> qs_db = \<lparr> qd_eps = [], qd_dels = [] \<rparr>, qs_batch = [], qs_posts = [] \<rparr>"

definition fresh_ids :: "qdb \<Rightarrow> (nat \<Rightarrow> string \<times> gotime \<times> bool) \<Rightarrow> bool" where
  "fresh_ids db draw \<longleftrightarrow> inj (\<lambda>m. fst (draw m)) \<and> (\<forall>n. fst (draw n) \<notin> de_ID ` set (qd_dels db))"

inductive q_step ::
  "(json \<Rightarrow> string + string) \<Rightarrow> q_defaults \<Rightarrow> (string \<Rightarrow> string \<Rightarrow> string) \<Rightarrow> (string \<Rightarrow> string option) \<Rightarrow>
   q_sys \<Rightarrow> q_sys \<Rightarrow> bool"
  for marshal df hmac bad_url where
  create: "ep_CreateEndpoint rand newID now up (qs_db s) orgID body = (db', resp) \<Longrightarrow>
     q_step marshal df hmac bad_url s (s\<lparr> qs_db := db' \<rparr>)"
| delete: "ep_DeleteEndpoint up (qs_db s) orgID i = (db', resp) \<Longrightarrow>
     q_step marshal df hmac bad_url s (s\<lparr> qs_db := db' \<rparr>)"
| dispatch: "DispatchEvent marshal df draw up (qs_db s) body = (db', resp) \<Longrightarrow> fresh_ids (qs_db s) draw \<Longrightarrow>
     q_step marshal df hmac bad_url s (s\<lparr> qs_db := db' \<rparr>)"
| poll: "qs_batch s = [] \<Longrightarrow> qu_due pgQueue now (qs_db s) batchSize = Inr ds \<Longrightarrow>
     q_step marshal df hmac bad_url s (s\<lparr> qs_batch := ds \<rparr>)"
| work: "qs_batch s = d # ds \<Longrightarrow>
     deliver hmac bad_url client pgQueue now later (qs_db s) d = (post, Some db') \<Longrightarrow>
     q_step marshal df hmac bad_url s
       (s\<lparr> qs_db := db', qs_batch := ds, qs_posts := qs_posts s @ (case post of None \<Rightarrow> [] | Some p \<Rightarrow> [p]) \<rparr>)"

inductive q_reachable ::
  "(json \<Rightarrow> string + string) \<Rightarrow> q_defaults \<Rightarrow> (string \<Rightarrow> string \<Rightarrow> string) \<Rightarrow> (string \<Rightarrow> string option) \<Rightarrow>
   q_sys \<Rightarrow> bool"
  for marshal df hmac bad_url where
  start: "q_reachable marshal df hmac bad_url q_start"
| step: "q_reachable marshal df hmac bad_url s \<Longrightarrow> q_step marshal df hmac bad_url s s' \<Longrightarrow>
     q_reachable marshal df hmac bad_url s'"


section \<open>Lemmas\<close>

text \<open>Where an endpoint may come from, and what the state-changing handlers keep.\<close>

lemma CreateEndpoint_cases:
  assumes "ep_CreateEndpoint rand newID now up db orgID body = (db', resp)"
  shows "db' = db \<or> (\<exists>e. db' = db\<lparr> qd_eps := qd_eps db @ [e] \<rparr> \<and> ep_ID e = newID \<and>
    ep_OrgID e = orgID \<and> orgID \<noteq> '''')"
  using assms
  by (auto simp: ep_CreateEndpoint_def q_CreateEndpoint_def Let_def split: if_splits sum.splits)

lemma DeleteEndpoint_cases:
  assumes "ep_DeleteEndpoint up db orgID i = (db', resp)"
  shows "db' = db \<or> db' = q_DeleteEndpoint db i orgID"
  using assms by (auto simp: ep_DeleteEndpoint_def split: if_splits)

text \<open>What an enqueued row looks like, and where its id comes from.\<close>

definition new_delivery :: "q_defaults \<Rightarrow> Delivery \<Rightarrow> bool" where
  "new_delivery df d \<longleftrightarrow> de_Status d = StatusPending \<and> de_Attempts d = qf_attempts df"

lemma enqueue_all_rows:
  "\<exists>new. qd_dels (fst (enqueue_all df draw n ty pl db eps)) = qd_dels db @ new \<and>
     qd_eps (fst (enqueue_all df draw n ty pl db eps)) = qd_eps db \<and>
     snd (enqueue_all df draw n ty pl db eps) = length new \<and>
     list_all (new_delivery df) new \<and> (\<forall>d \<in> set new. \<exists>m \<ge> n. de_ID d = fst (draw m)) \<and>
     (inj (\<lambda>m. fst (draw m)) \<longrightarrow> distinct (map de_ID new))"
proof (induction eps arbitrary: n db)
  case Nil
  then show ?case by simp
next
  case (Cons ep eps)
  obtain newID now up where dr: "draw n = (newID, now, up)" by (cases "draw n") auto
  show ?case
  proof (cases up)
    case False
    obtain new where new: "qd_dels (fst (enqueue_all df draw (Suc n) ty pl db eps)) = qd_dels db @ new"
      "qd_eps (fst (enqueue_all df draw (Suc n) ty pl db eps)) = qd_eps db"
      "snd (enqueue_all df draw (Suc n) ty pl db eps) = length new" "list_all (new_delivery df) new"
      "\<forall>d \<in> set new. \<exists>m \<ge> Suc n. de_ID d = fst (draw m)" "inj (\<lambda>m. fst (draw m)) \<longrightarrow> distinct (map de_ID new)"
      using Cons.IH [of "Suc n" db] by blast
    have "\<forall>d \<in> set new. \<exists>m \<ge> n. de_ID d = fst (draw m)" using new(5) Suc_leD by blast
    with new False dr show ?thesis by auto
  next
    case True
    let ?d = "snd (EnqueueDelivery df newID now db (ep_ID ep) ty pl)"
    let ?db1 = "fst (EnqueueDelivery df newID now db (ep_ID ep) ty pl)"
    obtain new where new: "qd_dels (fst (enqueue_all df draw (Suc n) ty pl ?db1 eps)) = qd_dels ?db1 @ new"
      "qd_eps (fst (enqueue_all df draw (Suc n) ty pl ?db1 eps)) = qd_eps ?db1"
      "snd (enqueue_all df draw (Suc n) ty pl ?db1 eps) = length new" "list_all (new_delivery df) new"
      "\<forall>d \<in> set new. \<exists>m \<ge> Suc n. de_ID d = fst (draw m)" "inj (\<lambda>m. fst (draw m)) \<longrightarrow> distinct (map de_ID new)"
      using Cons.IH [of "Suc n" ?db1] by blast
    have db1: "qd_dels ?db1 = qd_dels db @ [?d]" "qd_eps ?db1 = qd_eps db"
      and d: "new_delivery df ?d" "de_ID ?d = newID"
      by (simp_all add: EnqueueDelivery_def Let_def new_delivery_def)
    have ids: "\<forall>x \<in> set (?d # new). \<exists>m \<ge> n. de_ID x = fst (draw m)"
    proof
      fix x assume "x \<in> set (?d # new)"
      then consider "x = ?d" | "x \<in> set new" by auto
      then show "\<exists>m \<ge> n. de_ID x = fst (draw m)"
      proof cases
        case 1
        with d(2) dr show ?thesis by (intro exI [of _ n]) simp
      next
        case 2
        with new(5) show ?thesis using Suc_leD by blast
      qed
    qed
    have "inj (\<lambda>m. fst (draw m)) \<Longrightarrow> newID \<notin> de_ID ` set new"
    proof
      assume inj: "inj (\<lambda>m. fst (draw m))" and "newID \<in> de_ID ` set new"
      then obtain m where "Suc n \<le> m" "fst (draw n) = fst (draw m)" using new(5) dr by auto
      then show False using injD [OF inj, of n m] by simp
    qed
    then have "inj (\<lambda>m. fst (draw m)) \<longrightarrow> distinct (map de_ID (?d # new))" using new(6) d(2) by simp
    moreover have e: "enqueue_all df draw n ty pl db (ep # eps) =
        (fst (enqueue_all df draw (Suc n) ty pl ?db1 eps), Suc (snd (enqueue_all df draw (Suc n) ty pl ?db1 eps)))"
      using True dr by (simp add: case_prod_beta)
    ultimately show ?thesis using new db1 d ids by (intro exI [of _ "?d # new"]) (simp add: e)
  qed
qed

lemma DispatchEvent_rows:
  assumes "DispatchEvent marshal df draw up db body = (db', resp)" and "fresh_ids db draw"
  shows "qd_eps db' = qd_eps db \<and> (\<exists>new. qd_dels db' = qd_dels db @ new \<and>
    list_all (new_delivery df) new \<and> distinct (map de_ID new) \<and>
    de_ID ` set new \<inter> de_ID ` set (qd_dels db) = {})"
proof -
  consider "db' = db" | ty pl eps where "db' = fst (enqueue_all df draw 0 ty pl db eps)"
    using assms(1) by (auto simp: DispatchEvent_def Let_def split: sum.splits if_splits prod.splits)
      (metis fst_conv)
  then show ?thesis
  proof cases
    case 2
    then show ?thesis
      using enqueue_all_rows [of df draw 0 ty pl db eps] assms(2)
      by (auto simp: fresh_ids_def) (metis IntE emptyE image_eqI)+
  qed auto
qed


section \<open>The invariant of the service\<close>

text \<open>The life of a delivery in this service: every attempt ends before a request is sent.\<close>

definition q_life :: "Delivery \<Rightarrow> bool" where
  "q_life d \<longleftrightarrow> de_Status d = StatusPending \<and> de_Attempts d = 0 \<or>
     de_LastResponseBody d = Some ''endpoint not found'' \<and>
       (de_Status d = StatusFailed \<and> de_Attempts d \<in> {1, 2, 3} \<or>
        de_Status d = StatusDeadLettered \<and> de_Attempts d = 4)"

definition rows_inv :: "Delivery list \<Rightarrow> Delivery list \<Rightarrow> bool" where
  "rows_inv dels batch \<longleftrightarrow> distinct (map de_ID dels) \<and> list_all q_life dels \<and>
     distinct (map de_ID batch) \<and> set batch \<subseteq> set dels \<and>
     (\<forall>d \<in> set batch. de_Status d = StatusPending \<or> de_Status d = StatusFailed)"

definition q_inv :: "q_sys \<Rightarrow> bool" where
  "q_inv s \<longleftrightarrow> (\<forall>e \<in> set (qd_eps (qs_db s)). ep_OrgID e \<noteq> '''') \<and> qs_posts s = [] \<and>
     rows_inv (qd_dels (qs_db s)) (qs_batch s)"

lemma DuePending_props:
  assumes "distinct (map de_ID (qd_dels db))"
  shows "set (DuePendingDeliveries now db n) \<subseteq> set (qd_dels db)"
    and "distinct (map de_ID (DuePendingDeliveries now db n))"
    and "\<forall>d \<in> set (DuePendingDeliveries now db n). is_due now d"
proof -
  let ?ds = "filter (is_due now) (qd_dels db)"
  have s: "set (DuePendingDeliveries now db n) \<subseteq> set ?ds"
    using set_take_subset [of "nat n" "sort_key de_NextRetryAt ?ds"]
    by (simp add: DuePendingDeliveries_def)
  then show "set (DuePendingDeliveries now db n) \<subseteq> set (qd_dels db)" by auto
  show "\<forall>d \<in> set (DuePendingDeliveries now db n). is_due now d" using s by auto
  have "distinct (map de_ID (sort_key de_NextRetryAt ?ds))"
    using distinct_map_filter [OF assms, of "is_due now"] by (simp add: distinct_map)
  then show "distinct (map de_ID (DuePendingDeliveries now db n))"
    unfolding DuePendingDeliveries_def take_map [symmetric] by (rule distinct_take)
qed

lemma failed_life:
  assumes "q_life d" and "de_Status d = StatusPending \<or> de_Status d = StatusFailed"
  shows "q_life (after_failure t 0 ''endpoint not found'' (de_Attempts d) d) \<and> 0 \<le> de_Attempts d"
  using assms by (auto simp: q_life_def after_failure_def MaxAttempts_def truncate_to_def)

lemma rows_inv_work:
  assumes "rows_inv dels (d # batch)"
    and "dels' = map (\<lambda>r. if de_ID r = de_ID d
           then after_failure t 0 ''endpoint not found'' (de_Attempts d) r else r) dels"
  shows "rows_inv dels' batch"
proof -
  have dis: "distinct (map de_ID dels)" "list_all q_life dels" "d \<in> set dels"
    "de_Status d = StatusPending \<or> de_Status d = StatusFailed" "q_life d"
    using assms(1) by (auto simp: rows_inv_def list_all_iff)
  have same: "de_ID (after_failure t 0 ''endpoint not found'' (de_Attempts d) r) = de_ID r" for r
    by (simp add: after_failure_def)
  have ids: "map de_ID dels' = map de_ID dels" unfolding assms(2) by (simp add: same)
  have "q_life (if de_ID r = de_ID d then after_failure t 0 ''endpoint not found'' (de_Attempts d) r
      else r)" if r: "r \<in> set dels" for r
  proof (cases "de_ID r = de_ID d")
    case True
    then have "r = d" by (rule same_key [OF dis(1) r dis(3)])
    with failed_life [OF dis(5,4)] show ?thesis by simp
  next
    case False
    with r dis(2) show ?thesis by (simp add: list_all_iff)
  qed
  then have "list_all q_life dels'"
    unfolding assms(2) list_all_iff set_map by blast
  moreover have "set batch \<subseteq> set dels'"
  proof
    fix x assume "x \<in> set batch"
    then have "x \<in> set dels" "de_ID x \<noteq> de_ID d"
      using assms(1) by (auto simp: rows_inv_def) (metis image_eqI)+
    then show "x \<in> set dels'" unfolding assms(2) set_map by (intro image_eqI [of _ _ x]) simp_all
  qed
  ultimately show ?thesis
    using assms(1) ids by (simp add: rows_inv_def)
qed

lemma q_step_inv:
  assumes "q_step marshal df hmac bad_url s s'" and "q_inv s" and "qf_attempts df = 0"
  shows "q_inv s'"
  using assms(1)
proof cases
  case (create rand newID now up orgID body db' resp)
  with CreateEndpoint_cases [OF create(2)] assms(2) show ?thesis by (auto simp: q_inv_def)
next
  case (delete up orgID i db' resp)
  with DeleteEndpoint_cases [OF delete(2)] assms(2) show ?thesis
    by (auto simp: q_inv_def q_DeleteEndpoint_def)
next
  case (dispatch draw up body db' resp)
  obtain new where new: "qd_eps db' = qd_eps (qs_db s)" "qd_dels db' = qd_dels (qs_db s) @ new"
    "list_all (new_delivery df) new" "distinct (map de_ID new)"
    "de_ID ` set new \<inter> de_ID ` set (qd_dels (qs_db s)) = {}"
    using DispatchEvent_rows [OF dispatch(2,3)] by blast
  have "list_all q_life new"
    using new(3) assms(3) by (auto simp: list_all_iff new_delivery_def q_life_def)
  with new assms(2) dispatch(1) show ?thesis
    by (auto simp: q_inv_def rows_inv_def)
next
  case (poll now ds)
  then have ds: "ds = DuePendingDeliveries now (qs_db s) batchSize" by (simp add: pgQueue_def)
  have "distinct (map de_ID (qd_dels (qs_db s)))" using assms(2) by (simp add: q_inv_def rows_inv_def)
  from DuePending_props [OF this, of now batchSize] show ?thesis
    using assms(2) poll(1) ds by (auto simp: q_inv_def rows_inv_def is_due_def)
next
  case (work d ds client now later post db')
  have e: "\<forall>e \<in> set (qd_eps (qs_db s)). ep_OrgID e \<noteq> ''''" and r: "rows_inv (qd_dels (qs_db s)) (d # ds)"
    using assms(2) work(2) by (auto simp: q_inv_def)
  have d: "q_life d" "de_Status d = StatusPending \<or> de_Status d = StatusFailed"
    using r by (auto simp: rows_inv_def list_all_iff)
  have m: "post = None" "q_MarkFailed later (qs_db s) (de_ID d) 0 ''endpoint not found'' (de_Attempts d) = Some db'"
    using work(3) deliver_ownerless [OF e] by simp_all
  have "qd_eps db' = qd_eps (qs_db s)"
    using m(2) by (auto simp: q_MarkFailed_def split: if_splits option.splits)
  with m rows_inv_work [OF r MarkFailed_rows [OF m(2)]] failed_life [OF d] e assms(2) work(1)
  show ?thesis by (auto simp: q_inv_def)
qed

lemma q_reachable_inv:
  "q_reachable marshal df hmac bad_url s \<Longrightarrow> qf_attempts df = 0 \<Longrightarrow> q_inv s"
proof (induction rule: q_reachable.induct)
  case start
  then show ?case by (simp add: q_inv_def q_start_def rows_inv_def)
next
  case (step s s')
  then show ?case using q_step_inv by blast
qed


section \<open>Endpoints as the answers show them\<close>

lemma mask_endpoint_sel [simp]:
  "ep_ID (mask_endpoint e) = ep_ID e" "ep_OrgID (mask_endpoint e) = ep_OrgID e"
  "ep_CreatedAt (mask_endpoint e) = ep_CreatedAt e" "ep_Enabled (mask_endpoint e) = ep_Enabled e"
  "ep_EventTypes (mask_endpoint e) = ep_EventTypes e"
  by (simp_all add: mask_endpoint_def)

lemma sort_key_map: "(\<And>x. k (f x) = k x) \<Longrightarrow> sort_key k (map f xs) = map f (sort_key k xs)"
proof (induction xs)
  case (Cons x xs)
  have "insort_key k (f x) (map f ys) = map f (insort_key k x ys)" for ys
    by (induction ys) (simp_all add: Cons.prems)
  with Cons show ?case by simp
qed simp

lemma ListEndpoints_mask:
  "map mask_endpoint (q_ListEndpoints db orgID) =
     rev (sort_key ep_CreatedAt (filter (\<lambda>e. ep_OrgID e = orgID) (map mask_endpoint (qd_eps db))))"
  by (simp add: q_ListEndpoints_def rev_map filter_map o_def sort_key_map)

lemma GetEndpoint_mask:
  "map_option mask_endpoint (q_GetEndpoint db i orgID) =
     find (\<lambda>e. ep_ID e = i \<and> ep_OrgID e = orgID) (map mask_endpoint (qd_eps db))"
  unfolding q_GetEndpoint_def by (rule find_map_same [symmetric]) simp

lemma Enabled_length_mask:
  "length (EnabledEndpointsForEvent db orgID ty) =
     length (filter (\<lambda>e. ep_OrgID e = orgID \<and> ep_Enabled e \<and>
       (''*'' \<in> set (ep_EventTypes e) \<or> ty \<in> set (ep_EventTypes e))) (map mask_endpoint (qd_eps db)))"
  by (simp add: EnabledEndpointsForEvent_def filter_map o_def)

lemma masked_views:
  assumes "map mask_endpoint (qd_eps db) = map mask_endpoint (qd_eps db')"
  shows "map mask_endpoint (q_ListEndpoints db orgID) = map mask_endpoint (q_ListEndpoints db' orgID)"
    and "length (q_ListEndpoints db orgID) = length (q_ListEndpoints db' orgID)"
    and "map_option mask_endpoint (q_GetEndpoint db i orgID) = map_option mask_endpoint (q_GetEndpoint db' i orgID)"
    and "q_GetEndpoint db i orgID = None \<longleftrightarrow> q_GetEndpoint db' i orgID = None"
proof -
  show l: "map mask_endpoint (q_ListEndpoints db orgID) = map mask_endpoint (q_ListEndpoints db' orgID)"
    by (simp only: ListEndpoints_mask assms)
  then show "length (q_ListEndpoints db orgID) = length (q_ListEndpoints db' orgID)"
    by (rule map_eq_imp_length_eq)
  show g: "map_option mask_endpoint (q_GetEndpoint db i orgID) =
      map_option mask_endpoint (q_GetEndpoint db' i orgID)"
    by (simp only: GetEndpoint_mask assms)
  then show "q_GetEndpoint db i orgID = None \<longleftrightarrow> q_GetEndpoint db' i orgID = None"
    by (metis map_option_is_None)
qed

lemma ListDeliveries_own:
  assumes "ep_ListDeliveries up1 up2 db B j lim off = JsonResponse 200 (BodyQueued ds n)"
  shows "(\<exists>e \<in> set (qd_eps db). ep_ID e = j \<and> ep_OrgID e = B) \<and> (\<forall>d \<in> set ds. de_EndpointID d = j)"
proof -
  have g: "q_GetEndpoint db j B \<noteq> None" and ds: "\<exists>l f. ds = q_ListDeliveries db j l f"
    using assms by (auto simp: ep_ListDeliveries_def Let_def split: if_splits)
  from g have "\<exists>e \<in> set (qd_eps db). ep_ID e = j \<and> ep_OrgID e = B"
    by (auto simp: q_GetEndpoint_def dest: find_some)
  moreover have "\<forall>d \<in> set ds. de_EndpointID d = j"
    using ds page_set by (force simp: q_ListDeliveries_def)
  ultimately show ?thesis by blast
qed

section \<open>Properties\<close>

text \<open>
  C15. The worker never sends a webhook. Its endpoint lookup passes an empty organisation to a
  query that filters by organisation, and no endpoint has an empty one, so every attempt of
  every reachable state ends as "endpoint not found": no request is ever sent, no delivery is
  ever \<open>delivered\<close>, and each is dead-lettered, after four attempts although \<open>MaxAttempts\<close> is 3.
\<close>

theorem webhook_worker_never_posts:
  assumes "q_reachable marshal df hmac bad_url s" and "qf_attempts df = 0"
  shows "qs_posts s = [] \<and> (\<forall>d \<in> set (qd_dels (qs_db s)).
    de_Status d \<noteq> StatusDelivered \<and> de_Attempts d \<le> MaxAttempts + 1 \<and>
    (0 < de_Attempts d \<longrightarrow> de_LastResponseBody d = Some ''endpoint not found'') \<and>
    (de_Status d = StatusDeadLettered \<longleftrightarrow> de_Attempts d = 4))"
  using q_reachable_inv [OF assms]
  by (auto simp: q_inv_def rows_inv_def list_all_iff q_life_def MaxAttempts_def)

definition ex_endpoint_req :: EndpointRequest where
  "ex_endpoint_req = \<lparr> er_URL = ''https://x'', er_EventTypes = [], er_Description = '''', er_Enabled = None \<rparr>"

definition ex_endpoint_sys :: q_sys where
  "ex_endpoint_sys = q_start\<lparr> qs_db :=
     fst (ep_CreateEndpoint (Inr ''k'') ''e1'' 0 True (qs_db q_start) ''org'' (Inr ex_endpoint_req)) \<rparr>"

lemma ex_endpoint_reachable: "q_reachable marshal df hmac bad_url ex_endpoint_sys"
  unfolding ex_endpoint_sys_def
  by (rule q_reachable.step [OF q_reachable.start]) (rule q_step.create, rule prod.collapse [symmetric])

theorem webhook_worker_never_posts_witness:
  "qd_eps (qs_db ex_endpoint_sys) \<noteq> [] \<and> qs_posts ex_endpoint_sys = []"
  using webhook_worker_never_posts [OF ex_endpoint_reachable
      [of "\<lambda>_. Inr ''{}''" "\<lparr> qf_attempts = 0, qf_max_attempts = 3 \<rparr>" "\<lambda>k m. k @ m" "\<lambda>_. None"]]
  by (simp add: ex_endpoint_sys_def q_start_def ex_endpoint_req_def ep_CreateEndpoint_def
      HasPrefix_def generateSecret_def q_CreateEndpoint_def Let_def)

text \<open>
  A signature binds the body and the second it was made: one that verifies for another body
  or another Unix second under the same secret is an HMAC collision.
\<close>

theorem webhook_signature_binds_time:
  assumes "VerifySignature hmac secret body ts (Sign hmac secret body' ts')"
    and "body \<noteq> body' \<or> Unix ts \<noteq> Unix ts'"
  shows "\<exists>x y. x \<noteq> y \<and> hmac secret x = hmac secret y"
  using assms signed_text_inj [of body ts body' ts']
  by (auto simp: VerifySignature_def Sign_def)

theorem webhook_signature_binds_time_witness:
  "\<exists>x y. x \<noteq> y \<and> take 2 x = take 2 (y :: string)"
  using webhook_signature_binds_time [of "\<lambda>_ m. take 2 m" "''k''" "''ab''" 0 "''ac''" 0]
  by (simp add: VerifySignature_def Sign_def signed_text_def int_text_def Unix_def second_def
      dec_digits.simps [of 0])

text \<open>
  Secrets do not leak through the read side: the answers to the list, get and deliveries
  requests depend on the endpoints only through \<open>mask_endpoint\<close>, so two databases that differ
  only in what the mask hides give the same answers.
\<close>

theorem webhook_secrets_masked:
  assumes "map mask_endpoint (qd_eps db) = map mask_endpoint (qd_eps db')" and "qd_dels db = qd_dels db'"
  shows "ep_ListEndpoints up db orgID = ep_ListEndpoints up db' orgID \<and>
    ep_GetEndpoint up db orgID i = ep_GetEndpoint up db' orgID i \<and>
    ep_ListDeliveries up up' db orgID i lim off = ep_ListDeliveries up up' db' orgID i lim off"
proof (intro conjI)
  note v = masked_views [OF assms(1)]
  show "ep_ListEndpoints up db orgID = ep_ListEndpoints up db' orgID"
    unfolding ep_ListEndpoints_def Let_def v(1) v(2) by (rule refl)
  show "ep_GetEndpoint up db orgID i = ep_GetEndpoint up db' orgID i"
    using v(3) [of i orgID] by (auto simp: ep_GetEndpoint_def split: option.splits)
  show "ep_ListDeliveries up up' db orgID i lim off = ep_ListDeliveries up up' db' orgID i lim off"
    unfolding ep_ListDeliveries_def v(4) q_ListDeliveries_def assms(2) by (rule refl)
qed

definition ex_endpoint :: "string \<Rightarrow> string \<Rightarrow> Endpoint" where
  "ex_endpoint ow sec = \<lparr> ep_ID = ''e1'', ep_OrgID = ow, ep_URL = ''https://x'', ep_Secret = sec,
     ep_EventTypes = [''*''], ep_Description = '''', ep_Enabled = True, ep_CreatedAt = 0, ep_UpdatedAt = 0 \<rparr>"

theorem webhook_secrets_masked_witness:
  "ep_ListEndpoints True \<lparr> qd_eps = [ex_endpoint ''o'' ''aa1234''], qd_dels = [] \<rparr> ''o'' =
   ep_ListEndpoints True \<lparr> qd_eps = [ex_endpoint ''o'' ''bb1234''], qd_dels = [] \<rparr> ''o''"
  using webhook_secrets_masked [of "\<lparr> qd_eps = [ex_endpoint ''o'' ''aa1234''], qd_dels = [] \<rparr>"
      "\<lparr> qd_eps = [ex_endpoint ''o'' ''bb1234''], qd_dels = [] \<rparr>" True "''o''"]
  by (simp add: ex_endpoint_def mask_endpoint_def maskSecret_def)

text \<open>
  Organisations do not see each other's endpoints: a create or delete request of one leaves
  every other's list, lookups and fan-out as they were, and delivery history is only given for
  an endpoint of the asking organisation.
\<close>

theorem webhook_endpoint_isolation:
  assumes "A \<noteq> B"
    and "db' = fst (ep_CreateEndpoint rand newID now up db A body) \<or> db' = fst (ep_DeleteEndpoint up db A i)"
  shows "q_ListEndpoints db' B = q_ListEndpoints db B \<and> q_GetEndpoint db' j B = q_GetEndpoint db j B \<and>
    EnabledEndpointsForEvent db' B ty = EnabledEndpointsForEvent db B ty \<and>
    (ep_ListDeliveries up1 up2 db B j lim off = JsonResponse 200 (BodyQueued ds n) \<longrightarrow>
       (\<exists>e \<in> set (qd_eps db). ep_ID e = j \<and> ep_OrgID e = B) \<and> (\<forall>d \<in> set ds. de_EndpointID d = j))"
proof -
  have same: "filter (\<lambda>e. ep_OrgID e = B) (qd_eps db') = filter (\<lambda>e. ep_OrgID e = B) (qd_eps db)"
  proof -
    consider "db' = db" | e where "qd_eps db' = qd_eps db @ [e]" "ep_OrgID e = A"
      | "db' = q_DeleteEndpoint db i A"
    proof (cases "db' = fst (ep_CreateEndpoint rand newID now up db A body)")
      case True
      then have "ep_CreateEndpoint rand newID now up db A body =
          (db', snd (ep_CreateEndpoint rand newID now up db A body))" by simp
      from CreateEndpoint_cases [OF this] show ?thesis using that by auto
    next
      case False
      with assms(2) have "ep_DeleteEndpoint up db A i = (db', snd (ep_DeleteEndpoint up db A i))" by simp
      from DeleteEndpoint_cases [OF this] show ?thesis using that by auto
    qed
    then show ?thesis
      using assms(1) by cases (auto simp: q_DeleteEndpoint_def intro: filter_cong)
  qed
  have get: "q_GetEndpoint x j B = find (\<lambda>e. ep_ID e = j) (filter (\<lambda>e. ep_OrgID e = B) (qd_eps x))" for x
    by (simp add: q_GetEndpoint_def find_filter)
  have "filter (\<lambda>e. ep_Enabled e \<and> (''*'' \<in> set (ep_EventTypes e) \<or> ty \<in> set (ep_EventTypes e)))
      (filter (\<lambda>e. ep_OrgID e = B) (qd_eps x)) = EnabledEndpointsForEvent x B ty" for x
    unfolding EnabledEndpointsForEvent_def filter_filter by (rule filter_cong) auto
  then have en: "EnabledEndpointsForEvent db' B ty = EnabledEndpointsForEvent db B ty"
    using same by (metis (no_types))
  have "ep_ListDeliveries up1 up2 db B j lim off = JsonResponse 200 (BodyQueued ds n) \<Longrightarrow>
      (\<exists>e \<in> set (qd_eps db). ep_ID e = j \<and> ep_OrgID e = B) \<and> (\<forall>d \<in> set ds. de_EndpointID d = j)"
    by (rule ListDeliveries_own)
  then show ?thesis using same en get by (simp add: q_ListEndpoints_def)
qed

theorem webhook_endpoint_isolation_witness:
  "q_GetEndpoint (fst (ep_DeleteEndpoint True \<lparr> qd_eps = [ex_endpoint ''o'' ''s''], qd_dels = [] \<rparr> ''p'' ''e1''))
     ''e1'' ''o'' = Some (ex_endpoint ''o'' ''s'')"
  using webhook_endpoint_isolation [where A = "''p''" and B = "''o''" and up = True and i = "''e1''" and j = "''e1''"
      and db = "\<lparr> qd_eps = [ex_endpoint ''o'' ''s''], qd_dels = [] \<rparr>"]
  by (simp add: ex_endpoint_def q_GetEndpoint_def)

end
