(* ===== verification/ControlDomain.thy ===== *)
theory ControlDomain
  imports GoText Complex_Main
begin

text \<open>
  The control framework's types, \<open>services/control-framework/internal/domain/types.go\<close>: the
  assessment statuses with their permitted transitions, the NIS 2 article table, the entities and
  the requests.

  A status is a string, because a request may carry any. A slice that may be nil is an option,
  \<open>None\<close> for nil. A \<open>float64\<close> comes from a JSON number, so it is finite: a rational.
\<close>

section \<open>Assessment statuses\<close>

abbreviation AssessmentStatusNotStarted :: string where "AssessmentStatusNotStarted \<equiv> ''not_started''"
abbreviation AssessmentStatusInProgress :: string where "AssessmentStatusInProgress \<equiv> ''in_progress''"
abbreviation AssessmentStatusAssessed :: string where "AssessmentStatusAssessed \<equiv> ''assessed''"
abbreviation AssessmentStatusRemediation :: string where "AssessmentStatusRemediation \<equiv> ''remediation''"

definition ValidAssessmentTransitions :: "(string \<times> string list) list" where
  "ValidAssessmentTransitions =
     [(AssessmentStatusNotStarted, [AssessmentStatusInProgress]),
      (AssessmentStatusInProgress, [AssessmentStatusAssessed, AssessmentStatusRemediation]),
      (AssessmentStatusAssessed, [AssessmentStatusRemediation, AssessmentStatusInProgress]),
      (AssessmentStatusRemediation, [AssessmentStatusInProgress, AssessmentStatusAssessed])]"

definition CanTransitionTo :: "string \<Rightarrow> string \<Rightarrow> bool" where
  "CanTransitionTo s nxt =
     (case map_of ValidAssessmentTransitions s of
        None \<Rightarrow> False
      | Some allowed \<Rightarrow> nxt \<in> set allowed)"

section \<open>The NIS 2 articles\<close>

definition ArticleRefNames :: "(string \<times> string) list" where
  "ArticleRefNames =
     [(''Art. 21(2)(a)'', ''Risk analysis and information system security policies''),
      (''Art. 21(2)(b)'', ''Incident handling''),
      (''Art. 21(2)(c)'', ''Business continuity and crisis management''),
      (''Art. 21(2)(d)'', ''Supply chain security''),
      (''Art. 21(2)(e)'', ''Security in network and information systems acquisition, development and maintenance''),
      (''Art. 21(2)(f)'', ''Policies and procedures to assess the effectiveness of cybersecurity risk management measures''),
      (''Art. 21(2)(g)'', ''Basic cyber hygiene practices and cybersecurity training''),
      (''Art. 21(2)(h)'', ''Policies and procedures regarding the use of cryptography and, where appropriate, encryption''),
      (''Art. 21(2)(i)'', ''Human resources security, access control policies and asset management''),
      (''Art. 21(2)(j)'', ''Use of multi-factor authentication or continuous authentication solutions, secured communications'')]"

definition NIS2Domains :: "string list" where
  "NIS2Domains =
     [''Art. 21(2)(a)'', ''Art. 21(2)(b)'', ''Art. 21(2)(c)'', ''Art. 21(2)(d)'', ''Art. 21(2)(e)'',
      ''Art. 21(2)(f)'', ''Art. 21(2)(g)'', ''Art. 21(2)(h)'', ''Art. 21(2)(i)'', ''Art. 21(2)(j)'']"

section \<open>Entities\<close>

record Framework =
  fw_ID :: uuid
  fw_OrgID :: uuid
  fw_Name :: string
  fw_Version :: string
  fw_Authority :: string
  fw_Description :: string
  fw_IsPublished :: bool
  fw_Metadata :: gomap
  fw_CreatedAt :: gotime
  fw_UpdatedAt :: gotime

record EvidenceRequirement =
  er_Type :: string
  er_Description :: string
  er_Required :: bool

record TestProcedure =
  tp_ID :: string
  tp_Description :: string
  tp_ExpectedEvidence :: string

record Control =
  ct_ID :: uuid
  ct_FrameworkID :: uuid
  ct_OrgID :: uuid
  ct_ParentID :: "uuid option"
  ct_ControlID :: string
  ct_Title :: string
  ct_Description :: string
  ct_Objective :: string
  ct_Category :: string
  ct_Domain :: string
  ct_ArticleRef :: string
  ct_ImplementationNotes :: string
  ct_TestProcedures :: "TestProcedure list"
  ct_EvidenceRequirements :: "EvidenceRequirement list"
  ct_RiskWeight :: rat
  ct_Tags :: "string list"
  ct_IsActive :: bool
  ct_CreatedAt :: gotime
  ct_UpdatedAt :: gotime

record FrameworkMapping =
  fm_ID :: uuid
  fm_SourceFrameworkID :: uuid
  fm_TargetFrameworkID :: uuid
  fm_SourceControlID :: uuid
  fm_TargetControlID :: uuid
  fm_MappingType :: string
  fm_Confidence :: rat
  fm_Notes :: string
  fm_CreatedAt :: gotime
  fm_TargetControlRef :: string
  fm_TargetControlTitle :: string
  fm_TargetFrameworkName :: string

record ControlAssessment =
  ca_ID :: uuid
  ca_EngagementID :: uuid
  ca_ControlID :: uuid
  ca_OrgID :: uuid
  ca_Status :: string
  ca_AssessedByID :: "uuid option"
  ca_Score :: "rat option"
  ca_Notes :: string
  ca_EvidenceIDs :: "uuid list"
  ca_TransitionedAt :: gotime
  ca_CreatedAt :: gotime
  ca_UpdatedAt :: gotime

record AuditObjective =
  ao_ControlID :: uuid
  ao_ControlRef :: string
  ao_ArticleRef :: string
  ao_Title :: string
  ao_Objective :: string
  ao_TestApproaches :: "string list"
  ao_RiskFocus :: string

section \<open>Requests\<close>

record CreateFrameworkRequest =
  cfr_Name :: string
  cfr_Version :: string
  cfr_Authority :: string
  cfr_Description :: string
  cfr_IsPublished :: bool
  cfr_Metadata :: gomap

record CreateControlRequest =
  ccr_FrameworkID :: uuid
  ccr_ParentID :: "uuid option"
  ccr_ControlID :: string
  ccr_Title :: string
  ccr_Description :: string
  ccr_Objective :: string
  ccr_Category :: string
  ccr_Domain :: string
  ccr_ArticleRef :: string
  ccr_ImplementationNotes :: string
  ccr_TestProcedures :: "TestProcedure list option"
  ccr_EvidenceRequirements :: "EvidenceRequirement list option"
  ccr_RiskWeight :: rat
  ccr_Tags :: "string list option"

record UpdateControlRequest =
  ucr_Title :: "string option"
  ucr_Description :: "string option"
  ucr_Objective :: "string option"
  ucr_Category :: "string option"
  ucr_ImplementationNotes :: "string option"
  ucr_TestProcedures :: "TestProcedure list option"
  ucr_EvidenceRequirements :: "EvidenceRequirement list option"
  ucr_RiskWeight :: "rat option"
  ucr_Tags :: "string list option"
  ucr_IsActive :: "bool option"

record AssessControlRequest =
  acr_EngagementID :: uuid
  acr_Status :: string
  acr_Score :: "rat option"
  acr_Notes :: string
  acr_EvidenceIDs :: "uuid list option"

record ListControlsFilter =
  lf_FrameworkID :: "uuid option"
  lf_Domain :: "string option"
  lf_ArticleRef :: "string option"
  lf_ParentID :: "uuid option"
  lf_IsActive :: "bool option"
  lf_Search :: "string option"
  lf_Limit :: int
  lf_Offset :: int

record PaginatedControls =
  pc_Controls :: "Control list"
  pc_Total :: int
  pc_Limit :: int
  pc_Offset :: int

section \<open>The state machine\<close>

text \<open>One move of an assessment: an edge of the table, or an update in place.\<close>

definition status_move :: "string \<Rightarrow> string \<Rightarrow> bool" where
  "status_move s s' \<longleftrightarrow> s' = s \<or> CanTransitionTo s s'"

lemma CanTransitionTo_iff:
  "CanTransitionTo s s' \<longleftrightarrow>
     s = AssessmentStatusNotStarted \<and> s' = AssessmentStatusInProgress \<or>
     s \<in> {AssessmentStatusInProgress, AssessmentStatusAssessed, AssessmentStatusRemediation} \<and>
     s' \<in> {AssessmentStatusInProgress, AssessmentStatusAssessed, AssessmentStatusRemediation} \<and> s \<noteq> s'"
  by (auto simp: CanTransitionTo_def ValidAssessmentTransitions_def)

lemma no_return: "CanTransitionTo s s' \<Longrightarrow> s' \<noteq> AssessmentStatusNotStarted"
  by (auto simp: CanTransitionTo_iff)

lemma article_names_complete: "map fst ArticleRefNames = NIS2Domains \<and> distinct NIS2Domains"
  by (simp add: ArticleRefNames_def NIS2Domains_def)

end
