(* ===== verification/ControlRepo.thy ===== *)
theory ControlRepo
  imports ControlDomain "HOL-Library.AList"
begin

text \<open>
  The control framework's repositories: the interface \<open>internal/repository/repository.go\<close> as the
  record \<open>cf_repo\<close> over a type of states, and its two implementations of
  \<open>internal/repository/postgres.go\<close>, \<open>memRepo\<close> and \<open>pgRepo\<close>. The service starts with the first
  when no database is configured.

  \<^item> In memory, a Go map is an association list without repeated keys. It is walked in any order:
    \<open>shuffle\<close> of the choices in the parameter \<open>mem_order\<close>. A map keyed by the text of two UUIDs is one
    keyed by the pair.
  \<^item> In PostgreSQL, a table is the list of its rows (migrations 001 and 003). The descriptive
    columns are read through \<open>COALESCE\<close>, so a NULL is the empty string here; only the search tells
    them apart, hence \<open>ct_desc_null\<close>. A \<open>transitioned_at\<close> that is NULL reads as \<open>created_at\<close>. JSON
    columns hold what was marshalled. The record \<open>cf_pg\<close> is what the driver and the database add:
    whether a nil slice is sent as NULL, error texts, what a weight or a score reads back as
    (\<open>None\<close> when the column refuses it), \<open>ILIKE\<close>, and the three sort orders.

  An operation reads the clock once, and draws one fresh id.
\<close>

record 's cf_repo =
  rp_ListFrameworks :: "'s \<Rightarrow> uuid \<Rightarrow> string + Framework list"
  rp_GetFramework :: "'s \<Rightarrow> uuid \<Rightarrow> string + Framework option"
  rp_CreateFramework :: "uuid \<Rightarrow> gotime \<Rightarrow> 's \<Rightarrow> uuid \<Rightarrow> CreateFrameworkRequest \<Rightarrow> 's \<times> (string + Framework)"
  rp_ListControls :: "'s \<Rightarrow> uuid \<Rightarrow> ListControlsFilter \<Rightarrow> string + PaginatedControls"
  rp_GetControl :: "'s \<Rightarrow> uuid \<Rightarrow> string + Control option"
  rp_CreateControl :: "uuid \<Rightarrow> gotime \<Rightarrow> 's \<Rightarrow> uuid \<Rightarrow> CreateControlRequest \<Rightarrow> 's \<times> (string + Control)"
  rp_UpdateControl :: "gotime \<Rightarrow> 's \<Rightarrow> uuid \<Rightarrow> UpdateControlRequest \<Rightarrow> 's \<times> (string + Control option)"
  rp_GetControlMappings :: "'s \<Rightarrow> uuid \<Rightarrow> string + FrameworkMapping list"
  rp_GetOrCreateAssessment ::
    "uuid \<Rightarrow> gotime \<Rightarrow> 's \<Rightarrow> uuid \<Rightarrow> uuid \<Rightarrow> uuid \<Rightarrow> 's \<times> (string + ControlAssessment)"
  rp_UpdateAssessmentStatus ::
    "gotime \<Rightarrow> 's \<Rightarrow> uuid \<Rightarrow> AssessControlRequest \<Rightarrow> 's \<times> (string + ControlAssessment option)"
  rp_GetAssessment :: "'s \<Rightarrow> uuid \<Rightarrow> uuid \<Rightarrow> string + ControlAssessment option"

section \<open>In memory\<close>

record cf_mem =
  mm_frameworks :: "(uuid \<times> Framework) list"
  mm_controls :: "(uuid \<times> Control) list"
  mm_mappings :: "(uuid \<times> FrameworkMapping list) list"
  mm_assessments :: "((uuid \<times> uuid) \<times> ControlAssessment) list"

record mem_order =
  mo_frameworks :: "cf_mem \<Rightarrow> nat list"
  mo_controls :: "cf_mem \<Rightarrow> nat list"
  mo_assessments :: "cf_mem \<Rightarrow> nat list"

definition NewMemoryRepository :: cf_mem where
  "NewMemoryRepository = \<lparr> mm_frameworks = [], mm_controls = [], mm_mappings = [],
     mm_assessments = [] \<rparr>"

definition mem_ListFrameworks :: "mem_order \<Rightarrow> cf_mem \<Rightarrow> uuid \<Rightarrow> Framework list" where
  "mem_ListFrameworks ord m orgID =
     filter (\<lambda>f. fw_OrgID f = orgID) (map snd (shuffle (mo_frameworks ord m) (mm_frameworks m)))"

definition new_framework :: "uuid \<Rightarrow> gotime \<Rightarrow> uuid \<Rightarrow> CreateFrameworkRequest \<Rightarrow> Framework" where
  "new_framework newID now orgID req =
     \<lparr> fw_ID = newID, fw_OrgID = orgID, fw_Name = cfr_Name req, fw_Version = cfr_Version req,
       fw_Authority = cfr_Authority req, fw_Description = cfr_Description req,
       fw_IsPublished = cfr_IsPublished req, fw_Metadata = cfr_Metadata req,
       fw_CreatedAt = now, fw_UpdatedAt = now \<rparr>"

definition mem_CreateFramework ::
  "uuid \<Rightarrow> gotime \<Rightarrow> cf_mem \<Rightarrow> uuid \<Rightarrow> CreateFrameworkRequest \<Rightarrow> cf_mem \<times> Framework" where
  "mem_CreateFramework newID now m orgID req =
     (let f = new_framework newID now orgID req
      in (m\<lparr> mm_frameworks := AList.update newID f (mm_frameworks m) \<rparr>, f))"

definition asked :: "'a option \<Rightarrow> 'a \<Rightarrow> bool" where
  "asked q v \<longleftrightarrow> (case q of None \<Rightarrow> True | Some x \<Rightarrow> v = x)"

definition mem_ListControls :: "mem_order \<Rightarrow> cf_mem \<Rightarrow> uuid \<Rightarrow> ListControlsFilter \<Rightarrow> PaginatedControls" where
  "mem_ListControls ord m orgID flt =
     (let result = filter (\<lambda>c. ct_OrgID c = orgID \<and> asked (lf_FrameworkID flt) (ct_FrameworkID c) \<and>
            asked (lf_Domain flt) (ct_Domain c) \<and> asked (lf_ArticleRef flt) (ct_ArticleRef c) \<and>
            asked (lf_IsActive flt) (ct_IsActive c))
          (map snd (shuffle (mo_controls ord m) (mm_controls m)));
          total = int (length result);
          limit = (if lf_Limit flt \<le> 0 then 50 else lf_Limit flt);
          offset = lf_Offset flt;
          shown = (if offset < total
                   then let last = (if total < offset + limit then total else offset + limit)
                        in take (nat (last - offset)) (drop (nat offset) result)
                   else [])
      in \<lparr> pc_Controls = shown, pc_Total = total, pc_Limit = limit, pc_Offset = offset \<rparr>)"

definition or_empty :: "'a list option \<Rightarrow> 'a list" where
  "or_empty xs = (case xs of None \<Rightarrow> [] | Some ys \<Rightarrow> ys)"

definition new_control :: "uuid \<Rightarrow> gotime \<Rightarrow> uuid \<Rightarrow> CreateControlRequest \<Rightarrow> Control" where
  "new_control newID now orgID req =
     \<lparr> ct_ID = newID, ct_FrameworkID = ccr_FrameworkID req, ct_OrgID = orgID,
       ct_ParentID = ccr_ParentID req, ct_ControlID = ccr_ControlID req, ct_Title = ccr_Title req,
       ct_Description = ccr_Description req, ct_Objective = ccr_Objective req,
       ct_Category = ccr_Category req, ct_Domain = ccr_Domain req, ct_ArticleRef = ccr_ArticleRef req,
       ct_ImplementationNotes = ccr_ImplementationNotes req,
       ct_TestProcedures = or_empty (ccr_TestProcedures req),
       ct_EvidenceRequirements = or_empty (ccr_EvidenceRequirements req),
       ct_RiskWeight = ccr_RiskWeight req, ct_Tags = or_empty (ccr_Tags req), ct_IsActive = True,
       ct_CreatedAt = now, ct_UpdatedAt = now \<rparr>"

definition mem_CreateControl ::
  "uuid \<Rightarrow> gotime \<Rightarrow> cf_mem \<Rightarrow> uuid \<Rightarrow> CreateControlRequest \<Rightarrow> cf_mem \<times> Control" where
  "mem_CreateControl newID now m orgID req =
     (let c = new_control newID now orgID req
      in (m\<lparr> mm_controls := AList.update newID c (mm_controls m) \<rparr>, c))"

definition set_if :: "'a option \<Rightarrow> 'a \<Rightarrow> 'a" where
  "set_if q old = (case q of None \<Rightarrow> old | Some v \<Rightarrow> v)"

definition mem_UpdateControl ::
  "gotime \<Rightarrow> cf_mem \<Rightarrow> uuid \<Rightarrow> UpdateControlRequest \<Rightarrow> cf_mem \<times> Control option" where
  "mem_UpdateControl now m i req =
     (case map_of (mm_controls m) i of
        None \<Rightarrow> (m, None)
      | Some c \<Rightarrow>
          let c' = c\<lparr> ct_Title := set_if (ucr_Title req) (ct_Title c),
                      ct_Description := set_if (ucr_Description req) (ct_Description c),
                      ct_Objective := set_if (ucr_Objective req) (ct_Objective c),
                      ct_IsActive := set_if (ucr_IsActive req) (ct_IsActive c),
                      ct_RiskWeight := set_if (ucr_RiskWeight req) (ct_RiskWeight c),
                      ct_Tags := set_if (ucr_Tags req) (ct_Tags c), ct_UpdatedAt := now \<rparr>
          in (m\<lparr> mm_controls := AList.update i c' (mm_controls m) \<rparr>, Some c'))"

definition mem_GetControlMappings :: "cf_mem \<Rightarrow> uuid \<Rightarrow> FrameworkMapping list" where
  "mem_GetControlMappings m controlID = or_empty (map_of (mm_mappings m) controlID)"

definition AddMapping :: "cf_mem \<Rightarrow> uuid \<Rightarrow> FrameworkMapping \<Rightarrow> cf_mem" where
  "AddMapping m sourceControlID mapping =
     m\<lparr> mm_mappings := AList.update sourceControlID (or_empty (map_of (mm_mappings m) sourceControlID) @ [mapping]) (mm_mappings m) \<rparr>"

definition new_assessment :: "uuid \<Rightarrow> gotime \<Rightarrow> uuid \<Rightarrow> uuid \<Rightarrow> uuid \<Rightarrow> ControlAssessment" where
  "new_assessment newID now engagementID controlID orgID =
     \<lparr> ca_ID = newID, ca_EngagementID = engagementID, ca_ControlID = controlID, ca_OrgID = orgID,
       ca_Status = AssessmentStatusNotStarted, ca_AssessedByID = None, ca_Score = None,
       ca_Notes = '''', ca_EvidenceIDs = [], ca_TransitionedAt = now, ca_CreatedAt = now,
       ca_UpdatedAt = now \<rparr>"

definition mem_GetOrCreateAssessment ::
  "uuid \<Rightarrow> gotime \<Rightarrow> cf_mem \<Rightarrow> uuid \<Rightarrow> uuid \<Rightarrow> uuid \<Rightarrow> cf_mem \<times> ControlAssessment" where
  "mem_GetOrCreateAssessment newID now m engagementID controlID orgID =
     (case map_of (mm_assessments m) (engagementID, controlID) of
        Some a \<Rightarrow> (m, a)
      | None \<Rightarrow>
          let a = new_assessment newID now engagementID controlID orgID
          in (m\<lparr> mm_assessments := AList.update (engagementID, controlID) a (mm_assessments m) \<rparr>, a))"

definition mem_UpdateAssessmentStatus ::
  "mem_order \<Rightarrow> gotime \<Rightarrow> cf_mem \<Rightarrow> uuid \<Rightarrow> AssessControlRequest \<Rightarrow> cf_mem \<times> ControlAssessment option" where
  "mem_UpdateAssessmentStatus ord now m assessmentID req =
     (let key = (case find (\<lambda>(_, a). ca_ID a = assessmentID)
                        (shuffle (mo_assessments ord m) (mm_assessments m)) of
                   Some (k, _) \<Rightarrow> k
                 | None \<Rightarrow> (acr_EngagementID req, acr_EngagementID req))
      in case map_of (mm_assessments m) key of
           None \<Rightarrow> (m, None)
         | Some a \<Rightarrow>
             let a' = a\<lparr> ca_Status := acr_Status req, ca_Score := acr_Score req,
                         ca_Notes := acr_Notes req, ca_TransitionedAt := now, ca_UpdatedAt := now \<rparr>
             in (m\<lparr> mm_assessments := AList.update key a' (mm_assessments m) \<rparr>, Some a'))"

definition memRepo :: "mem_order \<Rightarrow> cf_mem cf_repo" where
  "memRepo ord =
     \<lparr> rp_ListFrameworks = (\<lambda>m orgID. Inr (mem_ListFrameworks ord m orgID)),
       rp_GetFramework = (\<lambda>m i. Inr (map_of (mm_frameworks m) i)),
       rp_CreateFramework = (\<lambda>n t m orgID req. apsnd Inr (mem_CreateFramework n t m orgID req)),
       rp_ListControls = (\<lambda>m orgID flt. Inr (mem_ListControls ord m orgID flt)),
       rp_GetControl = (\<lambda>m i. Inr (map_of (mm_controls m) i)),
       rp_CreateControl = (\<lambda>n t m orgID req. apsnd Inr (mem_CreateControl n t m orgID req)),
       rp_UpdateControl = (\<lambda>t m i req. apsnd Inr (mem_UpdateControl t m i req)),
       rp_GetControlMappings = (\<lambda>m i. Inr (mem_GetControlMappings m i)),
       rp_GetOrCreateAssessment = (\<lambda>n t m e c ow. apsnd Inr (mem_GetOrCreateAssessment n t m e c ow)),
       rp_UpdateAssessmentStatus = (\<lambda>t m i req. apsnd Inr (mem_UpdateAssessmentStatus ord t m i req)),
       rp_GetAssessment = (\<lambda>m e c. Inr (map_of (mm_assessments m) (e, c))) \<rparr>"

end
