(* ===== verification/ControlPostgres.thy ===== *)
theory ControlPostgres
  imports ControlRepo
begin

text \<open>
  The control framework's PostgreSQL repository, \<open>internal/repository/postgres.go\<close> (first half),
  on the tables of migrations 001 and 003; see \<open>ControlRepo\<close> for what the rows leave out.
\<close>

datatype pg_error = DbDown | NotNull | CheckViolation | UniqueViolation | ForeignKey

record control_row = Control +
  ct_desc_null :: bool

record cf_db =
  cd_up :: bool
  cd_orgs :: "uuid list"
  cd_engagements :: "uuid list"
  cd_frameworks :: "Framework list"
  cd_controls :: "control_row list"
  cd_mappings :: "FrameworkMapping list"
  cd_assessments :: "ControlAssessment list"

record cf_pg =
  cp_nil_null :: bool
  cp_error :: "pg_error \<Rightarrow> string"
  cp_weight :: "rat \<Rightarrow> rat option"
  cp_score :: "rat \<Rightarrow> rat option"
  cp_ilike :: "string \<Rightarrow> string \<Rightarrow> bool"
  cp_by_name :: "Framework list \<Rightarrow> Framework list"
  cp_by_control :: "control_row list \<Rightarrow> control_row list"
  cp_by_target :: "FrameworkMapping list \<Rightarrow> FrameworkMapping list"

section \<open>Frameworks\<close>

definition pg_ListFrameworks :: "cf_pg \<Rightarrow> cf_db \<Rightarrow> uuid \<Rightarrow> string + Framework list" where
  "pg_ListFrameworks pg db orgID =
     (if \<not> cd_up db then Inl (''list frameworks: '' @ cp_error pg DbDown)
      else Inr (cp_by_name pg (filter (\<lambda>f. fw_OrgID f = orgID) (cd_frameworks db))))"

definition pg_GetFramework :: "cf_pg \<Rightarrow> cf_db \<Rightarrow> uuid \<Rightarrow> string + Framework option" where
  "pg_GetFramework pg db i =
     (if \<not> cd_up db then Inl (''get framework: '' @ cp_error pg DbDown)
      else Inr (find (\<lambda>f. fw_ID f = i) (cd_frameworks db)))"

definition framework_error :: "cf_db \<Rightarrow> Framework \<Rightarrow> pg_error option" where
  "framework_error db f =
     (if \<not> cd_up db then Some DbDown
      else if list_ex (\<lambda>g. fw_OrgID g = fw_OrgID f \<and> fw_Name g = fw_Name f \<and> fw_Version g = fw_Version f)
                (cd_frameworks db) then Some UniqueViolation
      else if fw_OrgID f \<notin> set (cd_orgs db) then Some ForeignKey
      else None)"

definition pg_CreateFramework ::
  "cf_pg \<Rightarrow> uuid \<Rightarrow> gotime \<Rightarrow> cf_db \<Rightarrow> uuid \<Rightarrow> CreateFrameworkRequest \<Rightarrow> cf_db \<times> (string + Framework)" where
  "pg_CreateFramework pg newID now db orgID req =
     (let f = new_framework newID now orgID req
      in case framework_error db f of
           Some e \<Rightarrow> (db, Inl (''create framework: '' @ cp_error pg e))
         | None \<Rightarrow> (db\<lparr> cd_frameworks := cd_frameworks db @ [f] \<rparr>, Inr f))"

section \<open>Controls\<close>

definition searched :: "cf_pg \<Rightarrow> string option \<Rightarrow> control_row \<Rightarrow> bool" where
  "searched pg q r \<longleftrightarrow>
     (case q of
        None \<Rightarrow> True
      | Some s \<Rightarrow> s = '''' \<or> cp_ilike pg (ct_Title r) (''%'' @ s @ ''%'') \<or>
          \<not> ct_desc_null r \<and> cp_ilike pg (ct_Description r) (''%'' @ s @ ''%''))"

definition matches_filter :: "cf_pg \<Rightarrow> uuid \<Rightarrow> ListControlsFilter \<Rightarrow> control_row \<Rightarrow> bool" where
  "matches_filter pg orgID flt r \<longleftrightarrow> ct_OrgID r = orgID \<and>
     asked (lf_FrameworkID flt) (ct_FrameworkID r) \<and> asked (lf_Domain flt) (ct_Domain r) \<and>
     asked (lf_ArticleRef flt) (ct_ArticleRef r) \<and>
     (case lf_ParentID flt of None \<Rightarrow> True | Some p \<Rightarrow> ct_ParentID r = Some p) \<and>
     asked (lf_IsActive flt) (ct_IsActive r) \<and> searched pg (lf_Search flt) r"

definition pg_ListControls ::
  "cf_pg \<Rightarrow> cf_db \<Rightarrow> uuid \<Rightarrow> ListControlsFilter \<Rightarrow> string + PaginatedControls" where
  "pg_ListControls pg db orgID flt =
     (if \<not> cd_up db then Inl (''count controls: '' @ cp_error pg DbDown)
      else let found = filter (matches_filter pg orgID flt) (cd_controls db);
               limit = (if lf_Limit flt \<le> 0 then 50 else lf_Limit flt)
           in Inr \<lparr> pc_Controls = map Control.truncate (page limit (lf_Offset flt) (cp_by_control pg found)),
                    pc_Total = int (length found), pc_Limit = limit, pc_Offset = lf_Offset flt \<rparr>)"

definition pg_GetControl :: "cf_pg \<Rightarrow> cf_db \<Rightarrow> uuid \<Rightarrow> string + Control option" where
  "pg_GetControl pg db i =
     (if \<not> cd_up db then Inl (''get control: '' @ cp_error pg DbDown)
      else Inr (map_option Control.truncate (find (\<lambda>r. ct_ID r = i) (cd_controls db))))"

text \<open>The columns \<open>implementation_notes\<close> and \<open>is_active\<close> are not in the statement.\<close>

definition control_to_row :: "Control \<Rightarrow> bool \<Rightarrow> control_row" where
  "control_to_row c n = Control.extend c \<lparr> ct_desc_null = n \<rparr>"

definition control_error :: "cf_pg \<Rightarrow> cf_db \<Rightarrow> uuid \<Rightarrow> CreateControlRequest \<Rightarrow> pg_error option" where
  "control_error pg db orgID req =
     (if \<not> cd_up db then Some DbDown
      else if ccr_Tags req = None \<and> cp_nil_null pg then Some NotNull
      else if cp_weight pg (ccr_RiskWeight req) = None then Some CheckViolation
      else if list_ex (\<lambda>r. ct_FrameworkID r = ccr_FrameworkID req \<and> ct_ControlID r = ccr_ControlID req)
                (cd_controls db) then Some UniqueViolation
      else if ccr_FrameworkID req \<notin> fw_ID ` set (cd_frameworks db) \<or> orgID \<notin> set (cd_orgs db) \<or>
              (case ccr_ParentID req of None \<Rightarrow> False | Some p \<Rightarrow> p \<notin> ct_ID ` set (cd_controls db))
      then Some ForeignKey
      else None)"

definition pg_CreateControl ::
  "cf_pg \<Rightarrow> uuid \<Rightarrow> gotime \<Rightarrow> cf_db \<Rightarrow> uuid \<Rightarrow> CreateControlRequest \<Rightarrow> cf_db \<times> (string + Control)" where
  "pg_CreateControl pg newID now db orgID req =
     (case control_error pg db orgID req of
        Some e \<Rightarrow> (db, Inl (''create control: '' @ cp_error pg e))
      | None \<Rightarrow>
          let c = (new_control newID now orgID req)
                \<lparr> ct_ImplementationNotes := '''',
                  ct_RiskWeight := set_if (cp_weight pg (ccr_RiskWeight req)) (ccr_RiskWeight req) \<rparr>
          in (db\<lparr> cd_controls := cd_controls db @ [control_to_row c False] \<rparr>, Inr c))"

definition control_sets :: "cf_pg \<Rightarrow> gotime \<Rightarrow> UpdateControlRequest \<Rightarrow> control_row \<Rightarrow> control_row" where
  "control_sets pg now req r = r\<lparr>
     ct_Title := set_if (ucr_Title req) (ct_Title r),
     ct_Description := set_if (ucr_Description req) (ct_Description r),
     ct_desc_null := (ct_desc_null r \<and> ucr_Description req = None),
     ct_Objective := set_if (ucr_Objective req) (ct_Objective r),
     ct_Category := set_if (ucr_Category req) (ct_Category r),
     ct_ImplementationNotes := set_if (ucr_ImplementationNotes req) (ct_ImplementationNotes r),
     ct_TestProcedures := set_if (ucr_TestProcedures req) (ct_TestProcedures r),
     ct_EvidenceRequirements := set_if (ucr_EvidenceRequirements req) (ct_EvidenceRequirements r),
     ct_RiskWeight := set_if (Option.bind (ucr_RiskWeight req) (cp_weight pg)) (ct_RiskWeight r),
     ct_Tags := set_if (ucr_Tags req) (ct_Tags r),
     ct_IsActive := set_if (ucr_IsActive req) (ct_IsActive r), ct_UpdatedAt := now \<rparr>"

definition pg_UpdateControl ::
  "cf_pg \<Rightarrow> gotime \<Rightarrow> cf_db \<Rightarrow> uuid \<Rightarrow> UpdateControlRequest \<Rightarrow> cf_db \<times> (string + Control option)" where
  "pg_UpdateControl pg now db i req =
     (if \<not> cd_up db then (db, Inl (''update control: '' @ cp_error pg DbDown))
      else case find (\<lambda>r. ct_ID r = i) (cd_controls db) of
          None \<Rightarrow> (db, Inr None)
        | Some r \<Rightarrow>
            if ucr_RiskWeight req \<noteq> None \<and> Option.bind (ucr_RiskWeight req) (cp_weight pg) = None
            then (db, Inl (''update control: '' @ cp_error pg CheckViolation))
            else (db\<lparr> cd_controls := map (\<lambda>r. if ct_ID r = i then control_sets pg now req r else r)
                        (cd_controls db) \<rparr>,
                  Inr (Some (Control.truncate (control_sets pg now req r)))))"

section \<open>Mappings\<close>

definition joined :: "cf_db \<Rightarrow> FrameworkMapping \<Rightarrow> FrameworkMapping option" where
  "joined db m =
     (case (find (\<lambda>r. ct_ID r = fm_TargetControlID m) (cd_controls db),
            find (\<lambda>f. fw_ID f = fm_TargetFrameworkID m) (cd_frameworks db)) of
        (Some tc, Some tf) \<Rightarrow> Some (m\<lparr> fm_TargetControlRef := ct_ControlID tc,
            fm_TargetControlTitle := ct_Title tc, fm_TargetFrameworkName := fw_Name tf \<rparr>)
      | _ \<Rightarrow> None)"

definition pg_GetControlMappings :: "cf_pg \<Rightarrow> cf_db \<Rightarrow> uuid \<Rightarrow> string + FrameworkMapping list" where
  "pg_GetControlMappings pg db controlID =
     (if \<not> cd_up db then Inl (''get mappings: '' @ cp_error pg DbDown)
      else Inr (cp_by_target pg (List.map_filter (joined db)
             (filter (\<lambda>m. fm_SourceControlID m = controlID) (cd_mappings db)))))"

section \<open>Assessments\<close>

definition at_key :: "uuid \<Rightarrow> uuid \<Rightarrow> ControlAssessment \<Rightarrow> bool" where
  "at_key e c a \<longleftrightarrow> ca_EngagementID a = e \<and> ca_ControlID a = c"

text \<open>On a conflict the row is updated to itself, and its trigger sets \<open>updated_at\<close>.\<close>

definition pg_GetOrCreateAssessment ::
  "cf_pg \<Rightarrow> uuid \<Rightarrow> gotime \<Rightarrow> cf_db \<Rightarrow> uuid \<Rightarrow> uuid \<Rightarrow> uuid \<Rightarrow> cf_db \<times> (string + ControlAssessment)" where
  "pg_GetOrCreateAssessment pg newID now db engagementID controlID orgID =
     (if \<not> cd_up db then (db, Inl (''get or create assessment: '' @ cp_error pg DbDown))
      else case find (at_key engagementID controlID) (cd_assessments db) of
          Some a \<Rightarrow>
            (db\<lparr> cd_assessments := map (\<lambda>a. if at_key engagementID controlID a
                   then a\<lparr> ca_UpdatedAt := now \<rparr> else a) (cd_assessments db) \<rparr>,
             Inr (a\<lparr> ca_UpdatedAt := now \<rparr>))
        | None \<Rightarrow>
            if engagementID \<notin> set (cd_engagements db) \<or> controlID \<notin> ct_ID ` set (cd_controls db) \<or>
               orgID \<notin> set (cd_orgs db)
            then (db, Inl (''get or create assessment: '' @ cp_error pg ForeignKey))
            else let a = new_assessment newID now engagementID controlID orgID
                 in (db\<lparr> cd_assessments := cd_assessments db @ [a] \<rparr>, Inr a))"

definition assessment_error :: "cf_pg \<Rightarrow> AssessControlRequest \<Rightarrow> pg_error option" where
  "assessment_error pg req =
     (if acr_EvidenceIDs req = None \<and> cp_nil_null pg then Some NotNull
      else if acr_Status req \<notin> {AssessmentStatusNotStarted, AssessmentStatusInProgress,
                AssessmentStatusAssessed, AssessmentStatusRemediation} \<or>
              (acr_Score req \<noteq> None \<and> Option.bind (acr_Score req) (cp_score pg) = None)
      then Some CheckViolation
      else None)"

definition assessed :: "cf_pg \<Rightarrow> gotime \<Rightarrow> AssessControlRequest \<Rightarrow> ControlAssessment \<Rightarrow> ControlAssessment" where
  "assessed pg now req a = a\<lparr> ca_Status := acr_Status req,
     ca_Score := Option.bind (acr_Score req) (cp_score pg), ca_Notes := acr_Notes req,
     ca_EvidenceIDs := or_empty (acr_EvidenceIDs req), ca_TransitionedAt := now, ca_UpdatedAt := now \<rparr>"

definition pg_UpdateAssessmentStatus ::
  "cf_pg \<Rightarrow> gotime \<Rightarrow> cf_db \<Rightarrow> uuid \<Rightarrow> AssessControlRequest \<Rightarrow> cf_db \<times> (string + ControlAssessment option)" where
  "pg_UpdateAssessmentStatus pg now db i req =
     (if \<not> cd_up db then (db, Inl (''update assessment: '' @ cp_error pg DbDown))
      else case find (\<lambda>a. ca_ID a = i) (cd_assessments db) of
          None \<Rightarrow> (db, Inr None)
        | Some a \<Rightarrow>
            (case assessment_error pg req of
               Some e \<Rightarrow> (db, Inl (''update assessment: '' @ cp_error pg e))
             | None \<Rightarrow> (db\<lparr> cd_assessments := map (\<lambda>a. if ca_ID a = i then assessed pg now req a else a)
                                (cd_assessments db) \<rparr>,
                        Inr (Some (assessed pg now req a)))))"

definition pg_GetAssessment ::
  "cf_pg \<Rightarrow> cf_db \<Rightarrow> uuid \<Rightarrow> uuid \<Rightarrow> string + ControlAssessment option" where
  "pg_GetAssessment pg db engagementID controlID =
     (if \<not> cd_up db then Inl (''get assessment: '' @ cp_error pg DbDown)
      else Inr (find (at_key engagementID controlID) (cd_assessments db)))"

definition pgRepo :: "cf_pg \<Rightarrow> cf_db cf_repo" where
  "pgRepo pg =
     \<lparr> rp_ListFrameworks = pg_ListFrameworks pg, rp_GetFramework = pg_GetFramework pg,
       rp_CreateFramework = pg_CreateFramework pg, rp_ListControls = pg_ListControls pg,
       rp_GetControl = pg_GetControl pg, rp_CreateControl = pg_CreateControl pg,
       rp_UpdateControl = pg_UpdateControl pg, rp_GetControlMappings = pg_GetControlMappings pg,
       rp_GetOrCreateAssessment = pg_GetOrCreateAssessment pg,
       rp_UpdateAssessmentStatus = pg_UpdateAssessmentStatus pg,
       rp_GetAssessment = pg_GetAssessment pg \<rparr>"

end
