(* ===== verification/ControlService.thy ===== *)
theory ControlService
  imports ControlPostgres
begin

text \<open>
  The control framework's business logic \<open>internal/service/service.go\<close>, over any repository, its
  handlers \<open>internal/handlers\<close>, the authentication middleware \<open>internal/middleware/auth.go\<close> and
  the routes of \<open>cmd/api/main.go\<close>.

  \<open>quote\<close> is \<open>fmt\<close>'s \<open>%q\<close>, \<open>one_place\<close> its \<open>%.1f\<close>, \<open>parse\<close> is \<open>uuid.Parse\<close>. \<open>AssessControl\<close> is two calls of the
  repository, so it is split where another request may come in between. A request context is the
  list of what was put into it; a key there is a Go value with its type, and the two packages each
  define a type \<open>contextKey\<close> of their own.
\<close>

section \<open>The service\<close>

definition svc_CreateFramework ::
  "'s cf_repo \<Rightarrow> uuid \<Rightarrow> gotime \<Rightarrow> 's \<Rightarrow> uuid \<Rightarrow> CreateFrameworkRequest \<Rightarrow> 's \<times> (string + Framework)" where
  "svc_CreateFramework R newID now s orgID req =
     (if cfr_Name req = '''' then (s, Inl ''name is required'')
      else if cfr_Version req = '''' then (s, Inl ''version is required'')
      else if cfr_Authority req = '''' then (s, Inl ''authority is required'')
      else rp_CreateFramework R newID now s orgID req)"

definition svc_ListControls ::
  "'s cf_repo \<Rightarrow> 's \<Rightarrow> uuid \<Rightarrow> ListControlsFilter \<Rightarrow> string + PaginatedControls" where
  "svc_ListControls R s orgID flt =
     (let flt1 = (if lf_Limit flt \<le> 0 then flt\<lparr> lf_Limit := 50 \<rparr> else flt);
          flt2 = (if 200 < lf_Limit flt1 then flt1\<lparr> lf_Limit := 200 \<rparr> else flt1)
      in rp_ListControls R s orgID flt2)"

definition svc_CreateControl ::
  "'s cf_repo \<Rightarrow> uuid \<Rightarrow> gotime \<Rightarrow> 's \<Rightarrow> uuid \<Rightarrow> CreateControlRequest \<Rightarrow> 's \<times> (string + Control)" where
  "svc_CreateControl R newID now s orgID req =
     (if ccr_ControlID req = '''' then (s, Inl ''control_id is required'')
      else if ccr_Title req = '''' then (s, Inl ''title is required'')
      else if ccr_FrameworkID req = uuid_Nil then (s, Inl ''framework_id is required'')
      else if ccr_RiskWeight req < 0 \<or> 5 < ccr_RiskWeight req
      then (s, Inl ''risk_weight must be between 0 and 5'')
      else rp_CreateControl R newID now s orgID req)"

definition svc_UpdateControl ::
  "'s cf_repo \<Rightarrow> gotime \<Rightarrow> 's \<Rightarrow> uuid \<Rightarrow> UpdateControlRequest \<Rightarrow> 's \<times> (string + Control)" where
  "svc_UpdateControl R now s i req =
     (if (case ucr_RiskWeight req of None \<Rightarrow> False | Some w \<Rightarrow> w < 0 \<or> 5 < w)
      then (s, Inl ''risk_weight must be between 0 and 5'')
      else case rp_UpdateControl R now s i req of
          (s', Inl e) \<Rightarrow> (s', Inl e)
        | (s', Inr None) \<Rightarrow> (s', Inl ''control not found'')
        | (s', Inr (Some c)) \<Rightarrow> (s', Inr c))"

definition svc_GetEvidenceRequirements ::
  "'s cf_repo \<Rightarrow> 's \<Rightarrow> uuid \<Rightarrow> string + EvidenceRequirement list" where
  "svc_GetEvidenceRequirements R s i =
     (case rp_GetControl R s i of
        Inl e \<Rightarrow> Inl e
      | Inr None \<Rightarrow> Inl ''control not found''
      | Inr (Some c) \<Rightarrow> Inr (ct_EvidenceRequirements c))"

definition assess_begin ::
  "(string \<Rightarrow> string) \<Rightarrow> 's cf_repo \<Rightarrow> uuid \<Rightarrow> gotime \<Rightarrow> 's \<Rightarrow> uuid \<Rightarrow> uuid \<Rightarrow> AssessControlRequest \<Rightarrow>
   's \<times> (string + ControlAssessment)" where
  "assess_begin quote R newID now s controlID orgID req =
     (if acr_EngagementID req = uuid_Nil then (s, Inl ''engagement_id is required'')
      else if acr_Status req \<notin> {AssessmentStatusNotStarted, AssessmentStatusInProgress,
                AssessmentStatusAssessed, AssessmentStatusRemediation}
      then (s, Inl (''invalid status '' @ quote (acr_Status req) @
             '': must be one of not_started, in_progress, assessed, remediation''))
      else case rp_GetOrCreateAssessment R newID now s (acr_EngagementID req) controlID orgID of
          (s', Inl e) \<Rightarrow> (s', Inl (''get assessment: '' @ e))
        | (s', Inr current) \<Rightarrow>
            if ca_Status current \<noteq> acr_Status req \<and> \<not> CanTransitionTo (ca_Status current) (acr_Status req)
            then (s', Inl (''invalid transition: cannot move from '' @ quote (ca_Status current) @
                   '' to '' @ quote (acr_Status req)))
            else (s', Inr current))"

definition assess_finish ::
  "'s cf_repo \<Rightarrow> gotime \<Rightarrow> 's \<Rightarrow> ControlAssessment \<Rightarrow> AssessControlRequest \<Rightarrow>
   's \<times> (string + ControlAssessment option)" where
  "assess_finish R now s current req =
     (case rp_UpdateAssessmentStatus R now s (ca_ID current) req of
        (s', Inl e) \<Rightarrow> (s', Inl (''update assessment: '' @ e))
      | (s', Inr a) \<Rightarrow> (s', Inr a))"

definition svc_AssessControl ::
  "(string \<Rightarrow> string) \<Rightarrow> 's cf_repo \<Rightarrow> uuid \<Rightarrow> gotime \<Rightarrow> gotime \<Rightarrow> 's \<Rightarrow> uuid \<Rightarrow> uuid \<Rightarrow>
   AssessControlRequest \<Rightarrow> 's \<times> (string + ControlAssessment option)" where
  "svc_AssessControl quote R newID now later s controlID orgID req =
     (case assess_begin quote R newID now s controlID orgID req of
        (s', Inl e) \<Rightarrow> (s', Inl e)
      | (s', Inr current) \<Rightarrow> assess_finish R later s' current req)"

definition svc_GetAssessment :: "'s cf_repo \<Rightarrow> 's \<Rightarrow> uuid \<Rightarrow> uuid \<Rightarrow> string + ControlAssessment" where
  "svc_GetAssessment R s engagementID controlID =
     (case rp_GetAssessment R s engagementID controlID of
        Inl e \<Rightarrow> Inl e
      | Inr None \<Rightarrow> Inr \<lparr> ca_ID = uuid_Nil, ca_EngagementID = engagementID, ca_ControlID = controlID,
          ca_OrgID = uuid_Nil, ca_Status = AssessmentStatusNotStarted, ca_AssessedByID = None,
          ca_Score = None, ca_Notes = '''', ca_EvidenceIDs = [], ca_TransitionedAt = zero_time,
          ca_CreatedAt = zero_time, ca_UpdatedAt = zero_time \<rparr>
      | Inr (Some a) \<Rightarrow> Inr a)"

definition GenerateAuditObjective ::
  "(rat \<Rightarrow> string) \<Rightarrow> 's cf_repo \<Rightarrow> 's \<Rightarrow> uuid \<Rightarrow> string + AuditObjective" where
  "GenerateAuditObjective one_place R s controlID =
     (case rp_GetControl R s controlID of
        Inl e \<Rightarrow> Inl e
      | Inr None \<Rightarrow> Inl ''control not found''
      | Inr (Some c) \<Rightarrow>
          let approaches = map tp_Description (ct_TestProcedures c)
          in Inr \<lparr> ao_ControlID = ct_ID c, ao_ControlRef = ct_ControlID c, ao_ArticleRef = ct_ArticleRef c,
               ao_Title = ''Audit Objective: '' @ ct_Title c, ao_Objective = ct_Objective c,
               ao_TestApproaches = (if approaches = [] then [''Review documentation'',
                 ''Interview responsible personnel'', ''Inspect configuration''] else approaches),
               ao_RiskFocus = ''Assess whether the organization has implemented effective controls for '' @
                 ct_Title c @ '' (risk weight: '' @ one_place (ct_RiskWeight c) @ ''/5.0)'' \<rparr>)"

definition GetNIS2Domains :: "(string \<times> string) list" where
  "GetNIS2Domains = ArticleRefNames"

section \<open>Handlers\<close>

datatype cf_body =
    CfError string
  | CfText string
  | CfFrameworks "Framework list"
  | CfFramework Framework
  | CfControls PaginatedControls
  | CfControl Control
  | CfMappings "FrameworkMapping list"
  | CfRequirements "EvidenceRequirement list"
  | CfAssessment "ControlAssessment option"
  | CfDomains "(string \<times> string) list"

type_synonym cf_response = "cf_body response"

definition writeError :: "nat \<Rightarrow> string \<Rightarrow> cf_response" where
  "writeError status msg = JsonResponse status (CfError msg)"

datatype ctx_key = HandlersKey string | MiddlewareKey string

type_synonym cf_context = "(ctx_key \<times> uuid) list"

definition orgIDFromContext :: "cf_context \<Rightarrow> uuid option" where
  "orgIDFromContext ctx = map_of ctx (HandlersKey ''org_id'')"

text \<open>\<open>strconv.Atoi\<close> with its error ignored: 0 on a syntax error, the nearest bound out of range.\<close>

definition Atoi_value :: "string \<Rightarrow> int" where
  "Atoi_value s =
     (case split_sign s of (neg, ds) \<Rightarrow>
        if ds = [] \<or> \<not> list_all is_digit ds then 0
        else sat64 (if neg then - decimal ds else decimal ds))"

definition nonempty :: "string \<Rightarrow> string option" where
  "nonempty v = (if v = '''' then None else Some v)"

definition controls_filter ::
  "(string \<Rightarrow> uuid option) \<Rightarrow> (string \<Rightarrow> string) \<Rightarrow> ListControlsFilter option" where
  "controls_filter parse q =
     (if q ''framework_id'' \<noteq> '''' \<and> parse (q ''framework_id'') = None then None
      else Some \<lparr> lf_FrameworkID = Option.bind (nonempty (q ''framework_id'')) parse,
        lf_Domain = nonempty (q ''domain''), lf_ArticleRef = nonempty (q ''article_ref''),
        lf_ParentID = None,
        lf_IsActive = map_option (\<lambda>v. v = ''true'') (nonempty (q ''is_active'')),
        lf_Search = nonempty (q ''search''),
        lf_Limit = (if q ''limit'' \<noteq> '''' \<and> 0 < Atoi_value (q ''limit'') then Atoi_value (q ''limit'') else 50),
        lf_Offset = (if q ''offset'' \<noteq> '''' \<and> 0 \<le> Atoi_value (q ''offset'') then Atoi_value (q ''offset'') else 0) \<rparr>)"

definition ch_ListControls ::
  "(string \<Rightarrow> uuid option) \<Rightarrow> 's cf_repo \<Rightarrow> 's \<Rightarrow> cf_context \<Rightarrow> (string \<Rightarrow> string) \<Rightarrow> cf_response" where
  "ch_ListControls parse R s ctx q =
     (case orgIDFromContext ctx of
        None \<Rightarrow> writeError 401 ''missing org context''
      | Some orgID \<Rightarrow>
          (case controls_filter parse q of
             None \<Rightarrow> writeError 400 ''invalid framework_id''
           | Some flt \<Rightarrow>
               (case svc_ListControls R s orgID flt of
                  Inl e \<Rightarrow> writeError 500 e
                | Inr result \<Rightarrow> JsonResponse 200 (CfControls result))))"

definition ch_GetControl :: "(string \<Rightarrow> uuid option) \<Rightarrow> 's cf_repo \<Rightarrow> 's \<Rightarrow> string \<Rightarrow> cf_response" where
  "ch_GetControl parse R s idStr =
     (case parse idStr of
        None \<Rightarrow> writeError 400 ''invalid control ID''
      | Some i \<Rightarrow>
          (case rp_GetControl R s i of
             Inl e \<Rightarrow> writeError 500 e
           | Inr None \<Rightarrow> writeError 404 ''control not found''
           | Inr (Some c) \<Rightarrow> JsonResponse 200 (CfControl c)))"

definition ch_CreateControl ::
  "'s cf_repo \<Rightarrow> uuid \<Rightarrow> gotime \<Rightarrow> 's \<Rightarrow> cf_context \<Rightarrow> CreateControlRequest decoded \<Rightarrow> 's \<times> cf_response" where
  "ch_CreateControl R newID now s ctx body =
     (case orgIDFromContext ctx of
        None \<Rightarrow> (s, writeError 401 ''missing org context'')
      | Some orgID \<Rightarrow>
          (case body of
             Inl _ \<Rightarrow> (s, writeError 400 ''invalid request body'')
           | Inr req \<Rightarrow>
               (case svc_CreateControl R newID now s orgID req of
                  (s', Inl e) \<Rightarrow> (s', writeError 400 e)
                | (s', Inr c) \<Rightarrow> (s', JsonResponse 201 (CfControl c)))))"

definition ch_UpdateControl ::
  "(string \<Rightarrow> uuid option) \<Rightarrow> 's cf_repo \<Rightarrow> gotime \<Rightarrow> 's \<Rightarrow> string \<Rightarrow> UpdateControlRequest decoded \<Rightarrow>
   's \<times> cf_response" where
  "ch_UpdateControl parse R now s idStr body =
     (case parse idStr of
        None \<Rightarrow> (s, writeError 400 ''invalid control ID'')
      | Some i \<Rightarrow>
          (case body of
             Inl _ \<Rightarrow> (s, writeError 400 ''invalid request body'')
           | Inr req \<Rightarrow>
               (case svc_UpdateControl R now s i req of
                  (s', Inl e) \<Rightarrow> (s', writeError (if e = ''control not found'' then 404 else 400) e)
                | (s', Inr c) \<Rightarrow> (s', JsonResponse 200 (CfControl c)))))"

definition ch_GetControlMappings ::
  "(string \<Rightarrow> uuid option) \<Rightarrow> 's cf_repo \<Rightarrow> 's \<Rightarrow> string \<Rightarrow> cf_response" where
  "ch_GetControlMappings parse R s idStr =
     (case parse idStr of
        None \<Rightarrow> writeError 400 ''invalid control ID''
      | Some i \<Rightarrow>
          (case rp_GetControlMappings R s i of
             Inl e \<Rightarrow> writeError 500 e
           | Inr ms \<Rightarrow> JsonResponse 200 (CfMappings ms)))"

definition ch_GetEvidenceRequirements ::
  "(string \<Rightarrow> uuid option) \<Rightarrow> 's cf_repo \<Rightarrow> 's \<Rightarrow> string \<Rightarrow> cf_response" where
  "ch_GetEvidenceRequirements parse R s idStr =
     (case parse idStr of
        None \<Rightarrow> writeError 400 ''invalid control ID''
      | Some i \<Rightarrow>
          (case svc_GetEvidenceRequirements R s i of
             Inl e \<Rightarrow> writeError (if e = ''control not found'' then 404 else 500) e
           | Inr reqs \<Rightarrow> JsonResponse 200 (CfRequirements reqs)))"

definition ch_AssessControl ::
  "(string \<Rightarrow> uuid option) \<Rightarrow> (string \<Rightarrow> string) \<Rightarrow> 's cf_repo \<Rightarrow> uuid \<Rightarrow> gotime \<Rightarrow> gotime \<Rightarrow> 's \<Rightarrow>
   cf_context \<Rightarrow> string \<Rightarrow> AssessControlRequest decoded \<Rightarrow> 's \<times> cf_response" where
  "ch_AssessControl parse quote R newID now later s ctx idStr body =
     (case orgIDFromContext ctx of
        None \<Rightarrow> (s, writeError 401 ''missing org context'')
      | Some orgID \<Rightarrow>
          (case parse idStr of
             None \<Rightarrow> (s, writeError 400 ''invalid control ID'')
           | Some i \<Rightarrow>
               (case body of
                  Inl _ \<Rightarrow> (s, writeError 400 ''invalid request body'')
                | Inr req \<Rightarrow>
                    (case svc_AssessControl quote R newID now later s i orgID req of
                       (s', Inl e) \<Rightarrow> (s', writeError 400 e)
                     | (s', Inr a) \<Rightarrow> (s', JsonResponse 200 (CfAssessment a))))))"

definition fh_ListFrameworks :: "'s cf_repo \<Rightarrow> 's \<Rightarrow> cf_context \<Rightarrow> cf_response" where
  "fh_ListFrameworks R s ctx =
     (case orgIDFromContext ctx of
        None \<Rightarrow> writeError 401 ''missing org context''
      | Some orgID \<Rightarrow>
          (case rp_ListFrameworks R s orgID of
             Inl e \<Rightarrow> writeError 500 e
           | Inr fs \<Rightarrow> JsonResponse 200 (CfFrameworks fs)))"

definition fh_GetFramework :: "(string \<Rightarrow> uuid option) \<Rightarrow> 's cf_repo \<Rightarrow> 's \<Rightarrow> string \<Rightarrow> cf_response" where
  "fh_GetFramework parse R s idStr =
     (case parse idStr of
        None \<Rightarrow> writeError 400 ''invalid framework ID''
      | Some i \<Rightarrow>
          (case rp_GetFramework R s i of
             Inl e \<Rightarrow> writeError 500 e
           | Inr None \<Rightarrow> writeError 404 ''framework not found''
           | Inr (Some f) \<Rightarrow> JsonResponse 200 (CfFramework f)))"

definition fh_CreateFramework ::
  "'s cf_repo \<Rightarrow> uuid \<Rightarrow> gotime \<Rightarrow> 's \<Rightarrow> cf_context \<Rightarrow> CreateFrameworkRequest decoded \<Rightarrow> 's \<times> cf_response" where
  "fh_CreateFramework R newID now s ctx body =
     (case orgIDFromContext ctx of
        None \<Rightarrow> (s, writeError 401 ''missing org context'')
      | Some orgID \<Rightarrow>
          (case body of
             Inl _ \<Rightarrow> (s, writeError 400 ''invalid request body'')
           | Inr req \<Rightarrow>
               (case svc_CreateFramework R newID now s orgID req of
                  (s', Inl e) \<Rightarrow> (s', writeError 400 e)
                | (s', Inr f) \<Rightarrow> (s', JsonResponse 201 (CfFramework f)))))"

section \<open>Authentication and routes\<close>

text \<open>Either the answer of the middleware, or the context the handler sees.\<close>

definition DevAuth :: "(string \<Rightarrow> uuid option) \<Rightarrow> string \<Rightarrow> string \<Rightarrow> cf_context \<Rightarrow> cf_response + cf_context" where
  "DevAuth parse orgHeader bearer ctx =
     (let orgIDStr = (if orgHeader = '''' \<and> HasPrefix bearer ''Bearer ''
                      then TrimPrefix bearer ''Bearer '' else orgHeader)
      in if orgIDStr = '''' then Inl (JsonResponse 401 (CfText ''{\"error\":\"missing X-Org-Id header\"}''))
         else case parse orgIDStr of
             None \<Rightarrow> Inl (JsonResponse 400 (CfText ''{\"error\":\"invalid org_id format\"}''))
           | Some orgID \<Rightarrow> Inr ((MiddlewareKey ''org_id'', orgID) # ctx))"

definition mw_OrgIDFromContext :: "cf_context \<Rightarrow> uuid option" where
  "mw_OrgIDFromContext ctx = map_of ctx (MiddlewareKey ''org_id'')"

datatype cf_route =
    NIS2DomainsRoute
  | ListFrameworksRoute
  | CreateFrameworkRoute "CreateFrameworkRequest decoded"
  | GetFrameworkRoute string
  | ListControlsRoute "string \<Rightarrow> string"
  | CreateControlRoute "CreateControlRequest decoded"
  | GetControlRoute string
  | UpdateControlRoute string "UpdateControlRequest decoded"
  | MappingsRoute string
  | RequirementsRoute string
  | AssessRoute string "AssessControlRequest decoded"

definition cf_handle ::
  "(string \<Rightarrow> uuid option) \<Rightarrow> (string \<Rightarrow> string) \<Rightarrow> 's cf_repo \<Rightarrow> uuid \<Rightarrow> gotime \<Rightarrow> gotime \<Rightarrow> 's \<Rightarrow>
   cf_context \<Rightarrow> cf_route \<Rightarrow> 's \<times> cf_response" where
  "cf_handle parse quote R newID now later s ctx rt =
     (case rt of
        NIS2DomainsRoute \<Rightarrow> (s, JsonResponse 200 (CfDomains GetNIS2Domains))
      | ListFrameworksRoute \<Rightarrow> (s, fh_ListFrameworks R s ctx)
      | CreateFrameworkRoute body \<Rightarrow> fh_CreateFramework R newID now s ctx body
      | GetFrameworkRoute i \<Rightarrow> (s, fh_GetFramework parse R s i)
      | ListControlsRoute q \<Rightarrow> (s, ch_ListControls parse R s ctx q)
      | CreateControlRoute body \<Rightarrow> ch_CreateControl R newID now s ctx body
      | GetControlRoute i \<Rightarrow> (s, ch_GetControl parse R s i)
      | UpdateControlRoute i body \<Rightarrow> ch_UpdateControl parse R now s i body
      | MappingsRoute i \<Rightarrow> (s, ch_GetControlMappings parse R s i)
      | RequirementsRoute i \<Rightarrow> (s, ch_GetEvidenceRequirements parse R s i)
      | AssessRoute i body \<Rightarrow> ch_AssessControl parse quote R newID now later s ctx i body)"

definition cf_serve ::
  "(string \<Rightarrow> uuid option) \<Rightarrow> (string \<Rightarrow> string) \<Rightarrow> 's cf_repo \<Rightarrow> uuid \<Rightarrow> gotime \<Rightarrow> gotime \<Rightarrow> 's \<Rightarrow>
   string \<Rightarrow> string \<Rightarrow> cf_route \<Rightarrow> 's \<times> cf_response" where
  "cf_serve parse quote R newID now later s orgHeader bearer rt =
     (case rt of
        NIS2DomainsRoute \<Rightarrow> cf_handle parse quote R newID now later s [] rt
      | _ \<Rightarrow>
          (case DevAuth parse orgHeader bearer [] of
             Inl r \<Rightarrow> (s, r)
           | Inr ctx \<Rightarrow> cf_handle parse quote R newID now later s ctx rt))"

end
