(* ===== verification/ControlAssessments.thy ===== *)
theory ControlAssessments
  imports ControlService
begin

text \<open>
  What the control framework guarantees. The contract of a repository for assessments is the
  locale \<open>assessment_repo\<close>, whose view of a state is, for each engagement and control, the
  identifier, status and owner of the assessment; both repositories are instances. The service is
  its client: whatever it does to an assessment is a move of the status machine.
\<close>

section \<open>The contract\<close>

definition info :: "ControlAssessment \<Rightarrow> uuid \<times> string \<times> uuid" where
  "info a = (ca_ID a, ca_Status a, ca_OrgID a)"

type_synonym assess_view = "uuid \<times> uuid \<rightharpoonup> uuid \<times> string \<times> uuid"

text \<open>One permitted change of one assessment: it is made, or moves along the machine.\<close>

definition entry_move :: "(uuid \<times> string \<times> uuid) option \<Rightarrow> (uuid \<times> string \<times> uuid) option \<Rightarrow> bool" where
  "entry_move x y \<longleftrightarrow> y = x \<or>
     (case (x, y) of
        (None, Some (i, st, ow)) \<Rightarrow> status_move AssessmentStatusNotStarted st
      | (Some (i, st, ow), Some (i', st', ow')) \<Rightarrow> i' = i \<and> ow' = ow \<and> status_move st st'
      | _ \<Rightarrow> False)"

definition fresh_in :: "assess_view \<Rightarrow> uuid \<Rightarrow> bool" where
  "fresh_in v n \<longleftrightarrow> (\<forall>k. map_option fst (v k) \<noteq> Some n)"

locale assessment_repo =
  fixes R :: "'s cf_repo" and ok :: "'s \<Rightarrow> bool" and view :: "'s \<Rightarrow> assess_view"
  assumes make_ok: "ok s \<Longrightarrow> fresh_in (view s) n \<Longrightarrow>
      rp_GetOrCreateAssessment R n t s e c ow = (s', Inr a) \<Longrightarrow>
      ok s' \<and> view s' = (view s)((e, c) \<mapsto> info a) \<and>
      info a = (case view s (e, c) of None \<Rightarrow> (n, AssessmentStatusNotStarted, ow) | Some x \<Rightarrow> x)"
    and make_err: "rp_GetOrCreateAssessment R n t s e c ow = (s', Inl msg) \<Longrightarrow> s' = s"
    and set_ok: "ok s \<Longrightarrow> view s (e, c) = Some (i, st, ow) \<Longrightarrow>
      rp_UpdateAssessmentStatus R t s i req = (s', Inr r) \<Longrightarrow>
      ok s' \<and> view s' = (view s)((e, c) \<mapsto> (i, acr_Status req, ow)) \<and>
      map_option info r = Some (i, acr_Status req, ow)"
    and set_err: "rp_UpdateAssessmentStatus R t s i req = (s', Inl msg) \<Longrightarrow> s' = s"
    and read: "ok s \<Longrightarrow> rp_GetAssessment R s e c = Inr r \<Longrightarrow> map_option info r = view s (e, c)"
begin

text \<open>The first half of a request makes the assessment if it must, and changes nothing else.\<close>

lemma begin_moves:
  assumes "ok s" and "fresh_in (view s) n" and "assess_begin q R n t s c ow req = (s', res)"
  shows "(ok s' \<and> (view s' = view s \<or>
            view s (acr_EngagementID req, c) = None \<and>
            view s' = (view s)((acr_EngagementID req, c) \<mapsto> (n, AssessmentStatusNotStarted, ow)))) \<and>
    (\<forall>cur. res = Inr cur \<longrightarrow> view s' (acr_EngagementID req, c) = Some (info cur) \<and>
       status_move (ca_Status cur) (acr_Status req))"
proof -
  consider (same) msg where "s' = s" "res = Inl msg"
    | (made) a where "rp_GetOrCreateAssessment R n t s (acr_EngagementID req) c ow = (s', Inr a)"
      "\<forall>cur. res = Inr cur \<longrightarrow> cur = a \<and> status_move (ca_Status a) (acr_Status req)"
    using assms(3) make_err
    by (auto simp: assess_begin_def status_move_def split: if_splits prod.splits sum.splits)
  then show ?thesis
  proof cases
    case same
    with assms(1) show ?thesis by simp
  next
    case made
    note m = make_ok [OF assms(1,2) made(1)]
    have "view s' = view s \<or> view s (acr_EngagementID req, c) = None \<and>
        view s' = (view s)((acr_EngagementID req, c) \<mapsto> (n, AssessmentStatusNotStarted, ow))"
    proof (cases "view s (acr_EngagementID req, c)")
      case None
      with m show ?thesis by simp
    next
      case (Some x)
      with m have "view s' = (view s)((acr_EngagementID req, c) \<mapsto> x)" by simp
      with Some show ?thesis by (simp add: fun_upd_idem)
    qed
    with m made(2) show ?thesis by auto
  qed
qed

text \<open>The second half writes the requested status under the identifier the first half read.\<close>

lemma finish_moves:
  assumes "ok s" and "view s k = Some (ca_ID cur, st, ow)" and "assess_finish R t s cur req = (s', res)"
  shows "ok s' \<and> (case res of Inl _ \<Rightarrow> s' = s
    | Inr r \<Rightarrow> view s' = (view s)(k \<mapsto> (ca_ID cur, acr_Status req, ow)) \<and>
        map_option info r = Some (ca_ID cur, acr_Status req, ow))"
proof (cases res)
  case (Inl e)
  then obtain msg where "rp_UpdateAssessmentStatus R t s (ca_ID cur) req = (s', Inl msg)"
    using assms(3) by (auto simp: assess_finish_def split: prod.splits sum.splits)
  with set_err [OF this] assms(1) Inl show ?thesis by simp
next
  case (Inr r)
  then have "rp_UpdateAssessmentStatus R t s (ca_ID cur) req = (s', Inr r)"
    using assms(3) by (auto simp: assess_finish_def split: prod.splits sum.splits)
  with set_ok [OF assms(1), of "fst k" "snd k"] assms(2) Inr show ?thesis by simp
qed

text \<open>A whole request: the one assessment it names makes at most one move; on success it moved to
  the requested status.\<close>

lemma assess_moves:
  assumes "ok s" and "fresh_in (view s) n" and "svc_AssessControl q R n t t' s c ow req = (s', res)"
  shows "ok s' \<and> (\<forall>k. k \<noteq> (acr_EngagementID req, c) \<longrightarrow> view s' k = view s k) \<and>
    entry_move (view s (acr_EngagementID req, c)) (view s' (acr_EngagementID req, c)) \<and>
    (\<forall>r. res = Inr r \<longrightarrow> (\<exists>i ow'. view s' (acr_EngagementID req, c) = Some (i, acr_Status req, ow') \<and>
       map_option info r = view s' (acr_EngagementID req, c)))"
proof -
  let ?k = "(acr_EngagementID req, c)"
  obtain s1 r1 where b: "assess_begin q R n t s c ow req = (s1, r1)" by fastforce
  note bm = begin_moves [OF assms(1,2) b]
  have made: "entry_move (view s ?k) (view s1 ?k)" "\<forall>k. k \<noteq> ?k \<longrightarrow> view s1 k = view s k"
    using bm by (auto simp: entry_move_def status_move_def)
  show ?thesis
  proof (cases r1)
    case (Inl e)
    with b assms(3) bm made show ?thesis by (auto simp: svc_AssessControl_def)
  next
    case (Inr cur)
    then have v1: "view s1 ?k = Some (ca_ID cur, ca_Status cur, ca_OrgID cur)"
      and mv: "status_move (ca_Status cur) (acr_Status req)" and ok1: "ok s1"
      using bm by (auto simp: info_def)
    have f: "assess_finish R t' s1 cur req = (s', res)"
      using b assms(3) Inr by (simp add: svc_AssessControl_def)
    note fm = finish_moves [OF ok1 v1 f]
    have "entry_move (view s ?k) (Some (ca_ID cur, acr_Status req, ca_OrgID cur))"
      using bm v1 mv by (auto simp: entry_move_def)
    then show ?thesis
      using fm made v1 by (cases res) auto
  qed
qed

end


section \<open>In memory\<close>

definition mem_view :: "cf_mem \<Rightarrow> assess_view" where
  "mem_view m k = map_option info (map_of (mm_assessments m) k)"

definition mem_ok :: "cf_mem \<Rightarrow> bool" where
  "mem_ok m \<longleftrightarrow> distinct (map fst (mm_assessments m)) \<and> distinct (map (ca_ID \<circ> snd) (mm_assessments m))"

lemma mem_update_ids:
  assumes "distinct (map (ca_ID \<circ> snd) xs)" and "map_of xs k = Some a" and "ca_ID a' = ca_ID a"
    and "distinct (map fst xs)"
  shows "map (ca_ID \<circ> snd) (AList.update k a' xs) = map (ca_ID \<circ> snd) xs"
  using assms by (induction xs) (auto split: if_splits)

lemma mem_update_view:
  "mem_view (m\<lparr> mm_assessments := AList.update k a (mm_assessments m) \<rparr>) = (mem_view m)(k \<mapsto> info a)"
  by (rule ext) (simp add: mem_view_def update_conv')

lemma mem_add_ids:
  "map_of xs k = None \<Longrightarrow> map (ca_ID \<circ> snd) (AList.update k a xs) = map (ca_ID \<circ> snd) xs @ [ca_ID a]"
  by (induction xs) (auto split: if_splits)

lemma mem_find_id:
  assumes "mem_ok m" and "map_of (mm_assessments m) k = Some a" and "ca_ID a = i"
  shows "find (\<lambda>(_, a). ca_ID a = i) (shuffle ns (mm_assessments m)) = Some (k, a)"
proof -
  have mem: "(k, a) \<in> set (mm_assessments m)" using assms(2) by (rule map_of_SomeD)
  with assms(3) have "\<exists>x \<in> set (shuffle ns (mm_assessments m)). (\<lambda>(_, a). ca_ID a = i) x"
    by (auto simp: shuffle_set)
  then obtain x where x: "find (\<lambda>(_, a). ca_ID a = i) (shuffle ns (mm_assessments m)) = Some x"
    by (cases "find (\<lambda>(_, a). ca_ID a = i) (shuffle ns (mm_assessments m))") (auto simp: find_None_iff)
  from find_some [OF this] have "x \<in> set (mm_assessments m)" "(ca_ID \<circ> snd) x = (ca_ID \<circ> snd) (k, a)"
    using assms(3) by (auto simp: shuffle_set)
  with assms(1) mem have "x = (k, a)" by (auto simp: mem_ok_def dest: same_key)
  with x show ?thesis by simp
qed

lemma mem_set:
  assumes "mem_ok m" and "mem_view m k = Some (i, st, ow)"
    and "mem_UpdateAssessmentStatus ord t m i req = (m', r)"
  shows "mem_ok m' \<and> mem_view m' = (mem_view m)(k \<mapsto> (i, acr_Status req, ow)) \<and>
    map_option info r = Some (i, acr_Status req, ow)"
proof -
  obtain a where a: "map_of (mm_assessments m) k = Some a" "info a = (i, st, ow)"
    using assms(2) by (auto simp: mem_view_def)
  then have i: "ca_ID a = i" by (simp add: info_def)
  let ?a = "a\<lparr> ca_Status := acr_Status req, ca_Score := acr_Score req, ca_Notes := acr_Notes req,
      ca_TransitionedAt := t, ca_UpdatedAt := t \<rparr>"
  have m': "m' = m\<lparr> mm_assessments := AList.update k ?a (mm_assessments m) \<rparr>" "r = Some ?a"
    using assms(3) a(1) mem_find_id [OF assms(1) a(1) i]
    by (auto simp: mem_UpdateAssessmentStatus_def Let_def)
  have inf: "info ?a = (i, acr_Status req, ow)" using a(2) by (simp add: info_def)
  have "mem_ok m'"
    using assms(1) a(1) mem_update_ids [of "mm_assessments m" k a ?a]
    by (simp add: m'(1) mem_ok_def distinct_update)
  with inf show ?thesis unfolding m' by (simp add: mem_update_view)
qed

lemma mem_make:
  assumes "mem_ok m" and "fresh_in (mem_view m) n"
    and "mem_GetOrCreateAssessment n t m e c ow = (m', a)"
  shows "mem_ok m' \<and> mem_view m' = (mem_view m)((e, c) \<mapsto> info a) \<and>
    info a = (case mem_view m (e, c) of None \<Rightarrow> (n, AssessmentStatusNotStarted, ow) | Some x \<Rightarrow> x)"
proof (cases "map_of (mm_assessments m) (e, c)")
  case (Some b)
  with assms(1,3) show ?thesis
    by (auto simp: mem_GetOrCreateAssessment_def mem_view_def)
next
  case None
  let ?a = "new_assessment n t e c ow"
  have m': "m' = m\<lparr> mm_assessments := AList.update (e, c) ?a (mm_assessments m) \<rparr>" "a = ?a"
    using assms(3) None by (auto simp: mem_GetOrCreateAssessment_def Let_def)
  have "n \<notin> (ca_ID \<circ> snd) ` set (mm_assessments m)"
  proof
    assume "n \<in> (ca_ID \<circ> snd) ` set (mm_assessments m)"
    then obtain k b where "(k, b) \<in> set (mm_assessments m)" "ca_ID b = n" by auto
    with assms(1) have "map_of (mm_assessments m) k = Some b" by (simp add: mem_ok_def)
    with \<open>ca_ID b = n\<close> have "map_option fst (mem_view m k) = Some n" by (simp add: mem_view_def info_def)
    with assms(2) show False unfolding fresh_in_def by blast
  qed
  then have "mem_ok m'"
    using assms(1) None by (simp add: m'(1) mem_ok_def distinct_update mem_add_ids new_assessment_def)
  moreover have "info ?a = (n, AssessmentStatusNotStarted, ow)" by (simp add: info_def new_assessment_def)
  ultimately show ?thesis using None unfolding m' by (simp add: mem_update_view mem_view_def)
qed

interpretation mem: assessment_repo "memRepo ord" mem_ok mem_view for ord
proof unfold_locales
  show "mem_ok s' \<and> mem_view s' = (mem_view s)((e, c) \<mapsto> info a) \<and>
      info a = (case mem_view s (e, c) of None \<Rightarrow> (n, AssessmentStatusNotStarted, ow) | Some x \<Rightarrow> x)"
    if "mem_ok s" "fresh_in (mem_view s) n"
      "rp_GetOrCreateAssessment (memRepo ord) n t s e c ow = (s', Inr a)" for s n t e c ow s' a
    using that mem_make [of s n t e c ow s' a] by (auto simp: memRepo_def apsnd_def map_prod_def split: prod.splits)
  show "s' = s" if "rp_GetOrCreateAssessment (memRepo ord) n t s e c ow = (s', Inl msg)" for s n t e c ow s' msg
    using that by (auto simp: memRepo_def apsnd_def map_prod_def split: prod.splits)
  show "mem_ok s' \<and> mem_view s' = (mem_view s)((e, c) \<mapsto> (i, acr_Status req, ow)) \<and>
      map_option info r = Some (i, acr_Status req, ow)"
    if "mem_ok s" "mem_view s (e, c) = Some (i, st, ow)"
      "rp_UpdateAssessmentStatus (memRepo ord) t s i req = (s', Inr r)" for s e c i st ow t req s' r
    using that mem_set [of s "(e, c)" i st ow ord t req s' r]
    by (auto simp: memRepo_def apsnd_def map_prod_def split: prod.splits)
  show "s' = s" if "rp_UpdateAssessmentStatus (memRepo ord) t s i req = (s', Inl msg)" for s t i req s' msg
    using that by (auto simp: memRepo_def apsnd_def map_prod_def split: prod.splits)
  show "map_option info r = mem_view s (e, c)"
    if "mem_ok s" "rp_GetAssessment (memRepo ord) s e c = Inr r" for s e c r
    using that by (simp add: memRepo_def mem_view_def)
qed


section \<open>In PostgreSQL\<close>

definition pg_view :: "cf_db \<Rightarrow> assess_view" where
  "pg_view db k = map_option info (find (at_key (fst k) (snd k)) (cd_assessments db))"

definition row_key :: "ControlAssessment \<Rightarrow> uuid \<times> uuid" where
  "row_key a = (ca_EngagementID a, ca_ControlID a)"

definition pg_ok :: "cf_db \<Rightarrow> bool" where
  "pg_ok db \<longleftrightarrow> distinct (map row_key (cd_assessments db)) \<and> distinct (map ca_ID (cd_assessments db))"

lemma at_key_iff: "at_key e c a \<longleftrightarrow> row_key a = (e, c)"
  by (simp add: at_key_def row_key_def)

lemma at_key_fun: "at_key e c = (\<lambda>a. row_key a = (e, c))"
  by (rule ext) (rule at_key_iff)

text \<open>An update of rows that keeps their identifiers and keys.\<close>

lemma rows_update:
  assumes "\<And>a. row_key (f a) = row_key a" and "\<And>a. ca_ID (f a) = ca_ID a" and "pg_ok db"
  shows "pg_ok (db\<lparr> cd_assessments := map f (cd_assessments db) \<rparr>) \<and>
    pg_view (db\<lparr> cd_assessments := map f (cd_assessments db) \<rparr>) k =
      map_option (info \<circ> f) (find (at_key (fst k) (snd k)) (cd_assessments db))"
proof -
  have "find (at_key (fst k) (snd k)) (map f (cd_assessments db)) =
      map_option f (find (at_key (fst k) (snd k)) (cd_assessments db))"
    by (rule find_map_same) (simp add: at_key_iff assms(1))
  moreover have "map row_key (map f xs) = map row_key xs" "map ca_ID (map f xs) = map ca_ID xs" for xs
    using assms(1,2) by simp_all
  ultimately show ?thesis
    using assms(3) by (simp add: pg_ok_def pg_view_def option.map_comp del: map_map)
qed

lemma pg_set:
  assumes "pg_ok db" and "pg_view db k = Some (i, st, ow)"
    and "pg_UpdateAssessmentStatus pg t db i req = (db', Inr r)"
  shows "pg_ok db' \<and> pg_view db' = (pg_view db)(k \<mapsto> (i, acr_Status req, ow)) \<and>
    map_option info r = Some (i, acr_Status req, ow)"
proof -
  let ?rows = "cd_assessments db"
  obtain a where f: "find (at_key (fst k) (snd k)) ?rows = Some a" and inf: "info a = (i, st, ow)"
    using assms(2) by (auto simp: pg_view_def)
  from find_some [OF f] have a: "a \<in> set ?rows" "row_key a = k" by (auto simp: at_key_iff)
  from inf have i: "ca_ID a = i" "ca_OrgID a = ow" by (simp_all add: info_def)
  have fa: "find (\<lambda>a. ca_ID a = i) ?rows = Some a"
    using find_key [of ca_ID ?rows a] assms(1) a(1) i(1) by (simp add: pg_ok_def)
  let ?f = "\<lambda>a. if ca_ID a = i then assessed pg t req a else a"
  have db': "db' = db\<lparr> cd_assessments := map ?f ?rows \<rparr>" "r = Some (assessed pg t req a)"
    using assms(3) fa by (auto simp: pg_UpdateAssessmentStatus_def split: if_splits option.splits)
  have keep: "row_key (?f b) = row_key b" "ca_ID (?f b) = ca_ID b" for b
    by (simp_all add: row_key_def assessed_def)
  note u = rows_update [of ?f, OF keep assms(1)]
  have inf': "info (assessed pg t req a) = (i, acr_Status req, ow)" using i by (simp add: info_def assessed_def)
  have "pg_view db' k' = ((pg_view db)(k \<mapsto> (i, acr_Status req, ow))) k'" for k'
  proof (cases "k' = k")
    case True
    with u [of k'] f i(1) inf' show ?thesis unfolding db' by simp
  next
    case False
    show ?thesis
    proof (cases "find (at_key (fst k') (snd k')) ?rows")
      case None
      with u [of k'] False show ?thesis unfolding db' by (simp add: pg_view_def)
    next
      case (Some b)
      from find_some [OF Some] have b: "b \<in> set ?rows" "row_key b = k'" by (auto simp: at_key_iff)
      have "ca_ID b \<noteq> i"
        using same_key [of ca_ID ?rows b a] assms(1) a b False i(1) by (auto simp: pg_ok_def)
      with u [of k'] Some False show ?thesis unfolding db' by (simp add: pg_view_def)
    qed
  qed
  with u inf' show ?thesis unfolding db' by auto
qed

lemma pg_make:
  assumes "pg_ok db" and "fresh_in (pg_view db) n"
    and "pg_GetOrCreateAssessment pg n t db e c ow = (db', Inr a)"
  shows "pg_ok db' \<and> pg_view db' = (pg_view db)((e, c) \<mapsto> info a) \<and>
    info a = (case pg_view db (e, c) of None \<Rightarrow> (n, AssessmentStatusNotStarted, ow) | Some x \<Rightarrow> x)"
proof (cases "find (at_key e c) (cd_assessments db)")
  case (Some b)
  let ?f = "\<lambda>a. if at_key e c a then a\<lparr> ca_UpdatedAt := t \<rparr> else a"
  have db': "db' = db\<lparr> cd_assessments := map ?f (cd_assessments db) \<rparr>" "a = b\<lparr> ca_UpdatedAt := t \<rparr>"
    using assms(3) Some by (auto simp: pg_GetOrCreateAssessment_def split: if_splits)
  have keep: "row_key (?f x) = row_key x" "ca_ID (?f x) = ca_ID x" "info (?f x) = info x" for x
    by (simp_all add: row_key_def info_def)
  have "info a = info b" by (simp add: db' info_def)
  moreover have "pg_ok db' \<and> pg_view db' k = pg_view db k" for k
    using rows_update [of ?f, OF keep(1,2) assms(1), of k] unfolding db'
    by (simp add: pg_view_def comp_def keep(3) cong: option.map_cong)
  ultimately show ?thesis using Some by (auto simp: pg_view_def)
next
  case None
  let ?a = "new_assessment n t e c ow"
  have db': "db' = db\<lparr> cd_assessments := cd_assessments db @ [?a] \<rparr>" "a = ?a"
    using assms(3) None by (auto simp: pg_GetOrCreateAssessment_def Let_def split: if_splits)
  have "ca_ID b \<noteq> n" if b: "b \<in> set (cd_assessments db)" for b
  proof
    assume "ca_ID b = n"
    have "find (at_key (fst (row_key b)) (snd (row_key b))) (cd_assessments db) = Some b"
      using find_key [of row_key "cd_assessments db" b] assms(1) b by (simp add: at_key_fun pg_ok_def)
    with \<open>ca_ID b = n\<close> have "map_option fst (pg_view db (row_key b)) = Some n"
      by (simp add: pg_view_def info_def)
    with assms(2) show False unfolding fresh_in_def by blast
  qed
  moreover have "row_key b \<noteq> (e, c)" if b: "b \<in> set (cd_assessments db)" for b
    using None b by (auto simp: find_None_iff at_key_iff)
  ultimately have "pg_ok db'"
    using assms(1) by (auto simp: db' pg_ok_def new_assessment_def row_key_def)
  moreover have "pg_view db' k = ((pg_view db)((e, c) \<mapsto> info ?a)) k" for k
    using None by (cases k) (auto simp: db' pg_view_def find_append at_key_def new_assessment_def
        split: option.splits)
  ultimately show ?thesis using None by (auto simp: db'(2) pg_view_def info_def new_assessment_def)
qed

interpretation pg: assessment_repo "pgRepo pg" pg_ok pg_view for pg
proof unfold_locales
  show "pg_ok s' \<and> pg_view s' = (pg_view s)((e, c) \<mapsto> info a) \<and>
      info a = (case pg_view s (e, c) of None \<Rightarrow> (n, AssessmentStatusNotStarted, ow) | Some x \<Rightarrow> x)"
    if "pg_ok s" "fresh_in (pg_view s) n"
      "rp_GetOrCreateAssessment (pgRepo pg) n t s e c ow = (s', Inr a)" for s n t e c ow s' a
    by (rule pg_make [OF that(1,2)]) (use that(3) in \<open>simp add: pgRepo_def\<close>)
  show "s' = s" if "rp_GetOrCreateAssessment (pgRepo pg) n t s e c ow = (s', Inl msg)" for s n t e c ow s' msg
    using that by (auto simp: pgRepo_def pg_GetOrCreateAssessment_def Let_def split: if_splits option.splits)
  show "pg_ok s' \<and> pg_view s' = (pg_view s)((e, c) \<mapsto> (i, acr_Status req, ow)) \<and>
      map_option info r = Some (i, acr_Status req, ow)"
    if "pg_ok s" "pg_view s (e, c) = Some (i, st, ow)"
      "rp_UpdateAssessmentStatus (pgRepo pg) t s i req = (s', Inr r)" for s e c i st ow t req s' r
    by (rule pg_set [OF that(1,2)]) (use that(3) in \<open>simp add: pgRepo_def\<close>)
  show "s' = s" if "rp_UpdateAssessmentStatus (pgRepo pg) t s i req = (s', Inl msg)" for s t i req s' msg
    using that by (auto simp: pgRepo_def pg_UpdateAssessmentStatus_def split: if_splits option.splits)
  show "map_option info r = pg_view s (e, c)"
    if "pg_ok s" "rp_GetAssessment (pgRepo pg) s e c = Inr r" for s e c r
    using that by (auto simp: pgRepo_def pg_GetAssessment_def pg_view_def split: if_splits)
qed

end
