(* ===== verification/ControlSystem.thy ===== *)
theory ControlSystem
  imports ControlAssessments "HOL-Library.Multiset"
begin

text \<open>
  The properties of the control framework service: the assessment machine through both
  repositories, what interleaved requests can do to it, what the wired routes answer, and where
  the repositories and the tenants are not kept apart.
\<close>

section \<open>Runs of assessments\<close>

inductive assess_reach ::
  "(string \<Rightarrow> string) \<Rightarrow> 's cf_repo \<Rightarrow> ('s \<Rightarrow> assess_view) \<Rightarrow> 's \<Rightarrow> 's \<Rightarrow> bool"
  for q R view s where
  start: "assess_reach q R view s s"
| request: "assess_reach q R view s s1 \<Longrightarrow> fresh_in (view s1) n \<Longrightarrow>
     svc_AssessControl q R n t t' s1 c ow req = (s2, res) \<Longrightarrow> assess_reach q R view s s2"

definition later_entry :: "(uuid \<times> string \<times> uuid) option \<Rightarrow> (uuid \<times> string \<times> uuid) option \<Rightarrow> bool" where
  "later_entry x y \<longleftrightarrow> (case x of None \<Rightarrow> True | Some (i, st, ow) \<Rightarrow>
     (\<exists>st'. y = Some (i, st', ow) \<and>
       (st \<noteq> AssessmentStatusNotStarted \<longrightarrow> st' \<noteq> AssessmentStatusNotStarted)))"

lemma later_entry_move: "later_entry x y \<Longrightarrow> entry_move y z \<Longrightarrow> later_entry x z"
  by (auto simp: later_entry_def entry_move_def status_move_def dest: no_return split: option.splits)

context assessment_repo
begin

lemma reach_later:
  assumes "assess_reach q R view s s'" and "ok s"
  shows "ok s' \<and> (\<forall>k. later_entry (view s k) (view s' k))"
  using assms(1)
proof induction
  case start
  show ?case using assms(2) by (auto simp: later_entry_def split: option.splits)
next
  case (request s1 n t t' c ow req s2 res)
  note m = assess_moves [OF conjunct1 [OF request.IH] request.hyps(2,3)]
  have "later_entry (view s k) (view s2 k)" for k
  proof (cases "k = (acr_EngagementID req, c)")
    case True
    with m request.IH show ?thesis by (blast intro: later_entry_move)
  next
    case False
    with m have "view s2 k = view s1 k" by blast
    with conjunct2 [OF request.IH] show ?thesis by (metis (no_types))
  qed
  with m show ?case by blast
qed

text \<open>The second half does not look at the status again.\<close>

lemma finish_overwrites:
  assumes "ok s" and "view s k = Some (ca_ID cur, st, ow)" and "assess_finish R t s cur req = (s', Inr r)"
  shows "view s' k = Some (ca_ID cur, acr_Status req, ow)"
  using finish_moves [OF assms] by simp

end

section \<open>Lemmas on the routes\<close>

text \<open>The middleware never puts anything under the key the handlers look for.\<close>

lemma DevAuth_no_org: "DevAuth parse org bearer [] = Inr ctx \<Longrightarrow> orgIDFromContext ctx = None"
  by (auto simp: DevAuth_def orgIDFromContext_def Let_def split: if_splits option.splits)

definition needs_org :: "cf_route \<Rightarrow> bool" where
  "needs_org rt = (case rt of ListFrameworksRoute \<Rightarrow> True | CreateFrameworkRoute _ \<Rightarrow> True
     | ListControlsRoute _ \<Rightarrow> True | CreateControlRoute _ \<Rightarrow> True | AssessRoute _ _ \<Rightarrow> True | _ \<Rightarrow> False)"

lemma DevAuth_refuses: "DevAuth parse org bearer [] = Inl r \<Longrightarrow> resp_status r \<in> {400, 401}"
  by (auto simp: DevAuth_def Let_def split: if_splits option.splits)

lemma needs_org_refused:
  assumes "needs_org rt" and "orgIDFromContext ctx = None"
  shows "cf_handle parse quote R n t t' s ctx rt = (s, writeError 401 ''missing org context'')"
  using assms by (cases rt) (simp_all add: needs_org_def cf_handle_def fh_ListFrameworks_def
      fh_CreateFramework_def ch_ListControls_def ch_CreateControl_def ch_AssessControl_def)

lemma cf_serve_split:
  "rt \<noteq> NIS2DomainsRoute \<Longrightarrow> cf_serve parse quote R n t t' s org bearer rt =
     (case DevAuth parse org bearer [] of
        Inl r \<Rightarrow> (s, r)
      | Inr ctx \<Rightarrow> cf_handle parse quote R n t t' s ctx rt)"
  by (cases rt; simp add: cf_serve_def split: sum.split)

lemma mem_empty_update: "mem_UpdateControl t NewMemoryRepository i req = (NewMemoryRepository, None)"
  by (simp add: mem_UpdateControl_def NewMemoryRepository_def)

lemma mem_empty_put:
  "fst (ch_UpdateControl parse (memRepo ord) t NewMemoryRepository i body) = NewMemoryRepository"
  by (auto simp: ch_UpdateControl_def svc_UpdateControl_def memRepo_def mem_empty_update
      split: option.splits sum.splits)

lemma org_route_refused:
  assumes "needs_org rt"
  shows "\<exists>r. cf_serve parse quote R n t t' s org bearer rt = (s, r) \<and> resp_status r \<in> {400, 401}"
proof -
  have rt: "rt \<noteq> NIS2DomainsRoute" using assms by (auto simp: needs_org_def)
  show ?thesis
  proof (cases "DevAuth parse org bearer []")
    case (Inl r)
    with DevAuth_refuses [OF Inl] show ?thesis by (simp add: cf_serve_split [OF rt])
  next
    case (Inr ctx)
    then show ?thesis
      by (simp add: cf_serve_split [OF rt] needs_org_refused [OF assms DevAuth_no_org [OF Inr]] writeError_def)
  qed
qed

lemma empty_stays_empty:
  "fst (cf_serve parse quote (memRepo ord) n t t' NewMemoryRepository org bearer rt) = NewMemoryRepository"
proof (cases "needs_org rt")
  case True
  then show ?thesis
    using org_route_refused [of rt parse quote "memRepo ord" n t t' NewMemoryRepository org bearer] by auto
next
  case False
  then have "fst (cf_handle parse quote (memRepo ord) n t t' NewMemoryRepository ctx rt) = NewMemoryRepository" for ctx
    by (cases rt) (simp_all add: needs_org_def cf_handle_def mem_empty_put)
  then show ?thesis
    by (cases rt; simp add: cf_serve_def split: sum.split)
qed

text \<open>Consecutive pages put together.\<close>

lemma concat_pages: "concat (map (\<lambda>i. take l (drop (i * l) xs)) [0..<n]) = take (n * l) xs"
proof (induction n)
  case (Suc n)
  have "take (Suc n * l) xs = take (n * l) xs @ take l (drop (n * l) xs)"
    using take_add [of "n * l" l xs] by (simp add: add.commute)
  with Suc show ?case by simp
qed simp

section \<open>Properties\<close>

text \<open>
  C5. The service refines the assessment machine on PostgreSQL: whatever a request does and
  however it ends, it touches at most the assessment of the engagement and control it names, which
  keeps its id and owner and makes at most one permitted move; when the request succeeds, the
  assessment is in the requested status and is what is returned.
\<close>

theorem control_assessment_refines_machine:
  assumes "pg_ok db" and "fresh_in (pg_view db) n"
    and "svc_AssessControl q (pgRepo pg) n t t' db c ow req = (db', res)"
  shows "pg_ok db' \<and> (\<forall>k. k \<noteq> (acr_EngagementID req, c) \<longrightarrow> pg_view db' k = pg_view db k) \<and>
    entry_move (pg_view db (acr_EngagementID req, c)) (pg_view db' (acr_EngagementID req, c)) \<and>
    (\<forall>r. res = Inr r \<longrightarrow> (\<exists>i ow'. pg_view db' (acr_EngagementID req, c) = Some (i, acr_Status req, ow') \<and>
       map_option info r = pg_view db' (acr_EngagementID req, c)))"
  by (rule pg.assess_moves [OF assms])

text \<open>
  C6. In a service handling one request at a time, with either repository, assessments are never
  lost and never start over: each keeps its id and owner, and once it has left \<open>not_started\<close> it
  does not return there.
\<close>

theorem control_assessment_never_restarts:
  assumes "assess_reach q (memRepo ord) mem_view m m'" and "mem_ok m"
    and "assess_reach q (pgRepo pg) pg_view db db'" and "pg_ok db"
  shows "later_entry (mem_view m k) (mem_view m' k) \<and> later_entry (pg_view db k) (pg_view db' k)"
  using mem.reach_later [OF assms(1,2)] pg.reach_later [OF assms(3,4)] by blast

text \<open>
  Interleaved, they do: a request for \<open>not_started\<close> that read the assessment before another
  moved it to \<open>in_progress\<close> writes it back, a move the machine forbids. Both requests succeed.
\<close>

theorem control_interleaved_restart:
  assumes "acr_EngagementID req1 = e" and "acr_EngagementID req2 = e" and "e \<noteq> uuid_Nil"
    and "acr_Status req1 = AssessmentStatusNotStarted" and "acr_Status req2 = AssessmentStatusInProgress"
  shows "\<exists>m1 cur m2 r2 m3 r3. assess_begin q (memRepo ord) n t NewMemoryRepository c ow req1 = (m1, Inr cur) \<and>
    svc_AssessControl q (memRepo ord) n' t' t'' m1 c ow' req2 = (m2, Inr r2) \<and>
    mem_view m2 (e, c) = Some (n, AssessmentStatusInProgress, ow) \<and>
    assess_finish (memRepo ord) t3 m2 cur req1 = (m3, Inr r3) \<and>
    mem_view m3 (e, c) = Some (n, AssessmentStatusNotStarted, ow) \<and>
    \<not> CanTransitionTo AssessmentStatusInProgress AssessmentStatusNotStarted"
proof -
  let ?a = "new_assessment n t e c ow"
  let ?m1 = "NewMemoryRepository\<lparr> mm_assessments := [((e, c), ?a)] \<rparr>"
  let ?set = "\<lambda>t req a. a\<lparr> ca_Status := acr_Status req, ca_Score := acr_Score req, ca_Notes := acr_Notes req,
      ca_TransitionedAt := t, ca_UpdatedAt := t \<rparr>"
  have one: "shuffle ns [x] = [x]" for ns and x :: "(uuid \<times> uuid) \<times> ControlAssessment"
    by (cases ns) (simp_all add: Let_def)
  have upd: "mem_UpdateAssessmentStatus ord u (NewMemoryRepository\<lparr> mm_assessments := [((e, c), a)] \<rparr>) n req =
      (NewMemoryRepository\<lparr> mm_assessments := [((e, c), ?set u req a)] \<rparr>, Some (?set u req a))"
    if "ca_ID a = n" for u req a
    using that by (simp add: mem_UpdateAssessmentStatus_def one Let_def)
  have b: "assess_begin q (memRepo ord) n t NewMemoryRepository c ow req1 = (?m1, Inr ?a)"
    using assms by (simp add: assess_begin_def memRepo_def mem_GetOrCreateAssessment_def
        NewMemoryRepository_def new_assessment_def Let_def)
  have s: "svc_AssessControl q (memRepo ord) n' t' t'' ?m1 c ow' req2 =
      (NewMemoryRepository\<lparr> mm_assessments := [((e, c), ?set t'' req2 ?a)] \<rparr>, Inr (Some (?set t'' req2 ?a)))"
    using assms upd [of ?a t'' req2]
    by (simp add: svc_AssessControl_def assess_begin_def assess_finish_def memRepo_def
        mem_GetOrCreateAssessment_def CanTransitionTo_iff new_assessment_def)
  have f: "assess_finish (memRepo ord) t3 (NewMemoryRepository\<lparr> mm_assessments := [((e, c), ?set t'' req2 ?a)] \<rparr>) ?a req1 =
      (NewMemoryRepository\<lparr> mm_assessments := [((e, c), ?set t3 req1 (?set t'' req2 ?a))] \<rparr>,
       Inr (Some (?set t3 req1 (?set t'' req2 ?a))))"
    using upd [of "?set t'' req2 ?a" t3 req1]
    by (simp add: assess_finish_def memRepo_def new_assessment_def)
  show ?thesis
    using assms(4,5) by (intro exI conjI) (rule b, rule s, simp add: mem_view_def info_def new_assessment_def, rule f,
        simp_all add: mem_view_def info_def new_assessment_def CanTransitionTo_iff)
qed

text \<open>
  No route that needs the caller's organisation can succeed. The middleware stores it under
  its own package's key type and the handlers look it up under theirs, so listing and creating
  frameworks and controls and assessing a control answer 401 (or 400) to everyone and change
  nothing; and a service started without a database stays empty whatever it is sent.
\<close>

theorem control_org_routes_always_refused:
  assumes "needs_org rt"
  shows "(\<exists>r. cf_serve parse quote R n t t' s org bearer rt = (s, r) \<and> resp_status r \<in> {400, 401}) \<and>
    fst (cf_serve parse quote (memRepo ord) n t t' NewMemoryRepository org bearer rt') = NewMemoryRepository"
  by (intro conjI org_route_refused [OF assms] empty_stays_empty)


text \<open>
  Controls are not kept apart by organisation: whoever is authenticated, for any organisation,
  and names a control's id reads it and updates it, whoever owns it.
\<close>

theorem control_update_cross_tenant:
  assumes "parse org = Some caller" and "r \<in> set (cd_controls db)" and "parse idStr = Some (ct_ID r)"
    and "cd_up db" and "distinct (map ct_ID (cd_controls db))" and "org \<noteq> ''''"
    and "ucr_RiskWeight req = None" and "ucr_Title req = Some title"
  shows "\<exists>c db' c' r'. cf_serve parse quote (pgRepo pg) n t t' db org bearer (GetControlRoute idStr) =
      (db, JsonResponse 200 (CfControl c)) \<and> c = Control.truncate r \<and>
    cf_serve parse quote (pgRepo pg) n t t' db org bearer (UpdateControlRoute idStr (Inr req)) =
      (db', JsonResponse 200 (CfControl c')) \<and>
    r' \<in> set (cd_controls db') \<and> ct_ID r' = ct_ID r \<and> ct_OrgID r' = ct_OrgID r \<and> ct_Title r' = title"
proof -
  have f: "find (\<lambda>q. ct_ID q = ct_ID r) (cd_controls db) = Some r"
    by (rule find_key [OF assms(5,2)])
  let ?r = "control_sets pg t req r"
  let ?db = "db\<lparr> cd_controls := map (\<lambda>q. if ct_ID q = ct_ID r then control_sets pg t req q else q) (cd_controls db) \<rparr>"
  have auth: "\<exists>ctx. DevAuth parse org bearer [] = Inr ctx"
    using assms(1,6) by (simp add: DevAuth_def)
  have g: "cf_serve parse quote (pgRepo pg) n t t' db org bearer (GetControlRoute idStr) =
      (db, JsonResponse 200 (CfControl (Control.truncate r)))"
    using auth assms(3,4) f
    by (auto simp: cf_serve_def cf_handle_def ch_GetControl_def pgRepo_def pg_GetControl_def)
  have u: "cf_serve parse quote (pgRepo pg) n t t' db org bearer (UpdateControlRoute idStr (Inr req)) =
      (?db, JsonResponse 200 (CfControl (Control.truncate ?r)))"
    using auth assms(3,4,7) f
    by (auto simp: cf_serve_def cf_handle_def ch_UpdateControl_def svc_UpdateControl_def pgRepo_def
        pg_UpdateControl_def)
  have "?r \<in> set (cd_controls ?db)" using assms(2) by (auto intro!: rev_image_eqI)
  moreover have "ct_ID ?r = ct_ID r" "ct_OrgID ?r = ct_OrgID r" "ct_Title ?r = title"
    using assms(8) by (simp_all add: control_sets_def set_if_def)
  ultimately show ?thesis using g u by blast
qed

text \<open>
  With a driver that sends a nil slice as NULL, as pgx does, no assessment can be recorded
  without evidence on PostgreSQL: a request that leaves \<open>evidence_ids\<close> out, which the API allows,
  is always refused, although it may leave a new \<open>not_started\<close> row behind. No existing assessment
  moves.
\<close>

theorem control_assessment_needs_evidence:
  assumes "pg_ok db" and "fresh_in (pg_view db) n" and "cp_nil_null pg" and "acr_EvidenceIDs req = None"
    and "svc_AssessControl q (pgRepo pg) n t t' db c ow req = (db', res)"
  shows "(\<exists>msg. res = Inl msg) \<and>
    (\<forall>k. pg_view db k \<noteq> None \<longrightarrow> pg_view db' k = pg_view db k)"
proof -
  let ?k = "(acr_EngagementID req, c)"
  obtain s1 r1 where b: "assess_begin q (pgRepo pg) n t db c ow req = (s1, r1)" by fastforce
  note bm = pg.begin_moves [OF assms(1,2) b]
  have kept: "pg_view db k \<noteq> None \<Longrightarrow> pg_view s1 k = pg_view db k" for k using bm by auto
  show ?thesis
  proof (cases r1)
    case (Inl e)
    with b assms(5) kept show ?thesis by (auto simp: svc_AssessControl_def)
  next
    case (Inr cur)
    then have v: "pg_view s1 ?k = Some (info cur)" and ok1: "pg_ok s1" using bm by auto
    have fin: "assess_finish (pgRepo pg) t' s1 cur req = (db', res)"
      using b assms(5) Inr by (simp add: svc_AssessControl_def)
    have "\<exists>msg. res = Inl msg"
    proof (rule ccontr)
      assume "\<not> (\<exists>msg. res = Inl msg)"
      then obtain r where r: "pg_UpdateAssessmentStatus pg t' s1 (ca_ID cur) req = (db', Inr r)"
        using fin by (cases res) (auto simp: assess_finish_def pgRepo_def split: prod.splits sum.splits)
      from pg_set [OF ok1 v [unfolded info_def] this] have "r \<noteq> None" by auto
      with r show False
        using assms(3,4) by (auto simp: pg_UpdateAssessmentStatus_def assessment_error_def split: if_splits option.splits)
    qed
    moreover have "db' = s1"
      using fin calculation pg.finish_moves [OF ok1 v [unfolded info_def] fin] by auto
    ultimately show ?thesis using kept by auto
  qed
qed

text \<open>
  The list of controls is exact. The answer counts all controls of the organisation that match
  the filter; a page shows at most the limit, which is at most 200; and the pages put together are
  all of them, in the database's order, provided that it breaks ties in \<open>control_id\<close> the same way
  for every page.
\<close>

theorem control_list_exact:
  assumes "cd_up db" and "0 < lf_Limit flt" and "lf_Limit flt \<le> 200"
    and "\<And>xs. mset (cp_by_control pg xs) = mset xs"
    and "int (length (filter (matches_filter pg orgID flt) (cd_controls db))) \<le> int n * lf_Limit flt"
  shows "\<exists>pages. (\<forall>i. svc_ListControls (pgRepo pg) db orgID (flt\<lparr> lf_Offset := int i * lf_Limit flt \<rparr>) =
        Inr (pages i) \<and>
      pc_Total (pages i) = int (length (filter (matches_filter pg orgID flt) (cd_controls db))) \<and>
      int (length (pc_Controls (pages i))) \<le> 200) \<and>
    mset (concat (map (\<lambda>i. pc_Controls (pages i)) [0..<n])) =
      image_mset Control.truncate (mset (filter (matches_filter pg orgID flt) (cd_controls db)))"
proof -
  let ?found = "filter (matches_filter pg orgID flt) (cd_controls db)"
  let ?rows = "cp_by_control pg ?found"
  let ?l = "nat (lf_Limit flt)"
  define pages where "pages i = \<lparr> pc_Controls = map Control.truncate (take ?l (drop (i * ?l) ?rows)),
    pc_Total = int (length ?found), pc_Limit = lf_Limit flt, pc_Offset = int i * lf_Limit flt \<rparr>" for i
  have l: "int ?l = lf_Limit flt" using assms(2) by simp
  have off: "nat (int i * lf_Limit flt) = i * ?l" for i
    using l by (metis nat_int of_nat_mult)
  have same: "matches_filter pg orgID (flt\<lparr> lf_Offset := x \<rparr>) = matches_filter pg orgID flt" for x
    by (rule ext) (simp add: matches_filter_def)
  have page: "svc_ListControls (pgRepo pg) db orgID (flt\<lparr> lf_Offset := int i * lf_Limit flt \<rparr>) = Inr (pages i)" for i
    using assms(1-3) by (simp add: svc_ListControls_def Let_def pgRepo_def pg_ListControls_def page_def off same pages_def)
  have "length ?rows = length ?found" using assms(4) by (metis size_mset)
  then have "length ?rows \<le> n * ?l" using assms(5) l by (metis of_nat_le_iff of_nat_mult)
  moreover have "concat (map (\<lambda>i. pc_Controls (pages i)) [0..<n]) =
      map Control.truncate (concat (map (\<lambda>i. take ?l (drop (i * ?l) ?rows)) [0..<n]))"
    by (simp add: pages_def map_concat comp_def)
  ultimately have "concat (map (\<lambda>i. pc_Controls (pages i)) [0..<n]) = map Control.truncate ?rows"
    by (simp add: concat_pages)
  then have "mset (concat (map (\<lambda>i. pc_Controls (pages i)) [0..<n])) =
      image_mset Control.truncate (mset ?found)" by (simp add: assms(4))
  moreover have "int (length (pc_Controls (pages i))) \<le> 200" for i
    using assms(2,3) by (simp add: pages_def)
  ultimately show ?thesis using page by (intro exI [of _ pages]) (simp add: pages_def)
qed

text \<open>
  The in-memory repository, which the service falls back to without a database, does not update
  what PostgreSQL does: on the same control and request both succeed, but in memory the category,
  the implementation notes, the test procedures and the evidence requirements stay as they were.
\<close>

theorem control_repositories_differ:
  assumes "map_of (mm_controls m) i = Some c" and "find (\<lambda>r. ct_ID r = i) (cd_controls db) = Some r"
    and "Control.truncate r = c" and "cd_up db"
    and "\<And>w. ucr_RiskWeight req = Some w \<Longrightarrow> cp_weight pg w = Some w"
  shows "\<exists>m' c1 db' c2. rp_UpdateControl (memRepo ord) t m i req = (m', Inr (Some c1)) \<and>
    rp_UpdateControl (pgRepo pg) t db i req = (db', Inr (Some c2)) \<and>
    c1 = c2\<lparr> ct_Category := ct_Category c, ct_ImplementationNotes := ct_ImplementationNotes c,
             ct_TestProcedures := ct_TestProcedures c,
             ct_EvidenceRequirements := ct_EvidenceRequirements c \<rparr> \<and>
    ct_Category c2 = set_if (ucr_Category req) (ct_Category c)"
proof -
  have "Option.bind (ucr_RiskWeight req) (cp_weight pg) = ucr_RiskWeight req"
    using assms(5) by (cases "ucr_RiskWeight req") simp_all
  with assms(1-4) show ?thesis
    by (auto simp: memRepo_def mem_UpdateControl_def pgRepo_def pg_UpdateControl_def Let_def
        control_sets_def Control.defs)
qed


section \<open>Witnesses\<close>

definition ex_cpg :: cf_pg where
  "ex_cpg = \<lparr> cp_nil_null = True, cp_error = (\<lambda>_. ''e''), cp_weight = Some, cp_score = Some,
     cp_ilike = (\<lambda>_ _. True), cp_by_name = id, cp_by_control = id, cp_by_target = id \<rparr>"

definition ex_control :: Control where
  "ex_control = \<lparr> ct_ID = 2, ct_FrameworkID = 3, ct_OrgID = 7, ct_ParentID = None, ct_ControlID = ''A1'',
     ct_Title = ''t'', ct_Description = '''', ct_Objective = '''', ct_Category = '''', ct_Domain = '''',
     ct_ArticleRef = '''', ct_ImplementationNotes = '''', ct_TestProcedures = [],
     ct_EvidenceRequirements = [], ct_RiskWeight = 1, ct_Tags = [], ct_IsActive = True,
     ct_CreatedAt = 0, ct_UpdatedAt = 0 \<rparr>"

definition ex_cdb :: cf_db where
  "ex_cdb = \<lparr> cd_up = True, cd_orgs = [7], cd_engagements = [1], cd_frameworks = [],
     cd_controls = [control_to_row ex_control False], cd_mappings = [], cd_assessments = [] \<rparr>"

definition ex_areq :: "string \<Rightarrow> uuid list option \<Rightarrow> AssessControlRequest" where
  "ex_areq st ev = \<lparr> acr_EngagementID = 1, acr_Status = st, acr_Score = None, acr_Notes = '''', acr_EvidenceIDs = ev \<rparr>"

definition ex_assess :: "cf_db \<Rightarrow> string \<Rightarrow> cf_db \<times> (string + ControlAssessment option)" where
  "ex_assess db st = svc_AssessControl id (pgRepo ex_cpg) 5 0 0 db 2 7 (ex_areq st (Some []))"

definition ex_upd :: UpdateControlRequest where
  "ex_upd = \<lparr> ucr_Title = Some ''new'', ucr_Description = None, ucr_Objective = None,
     ucr_Category = Some ''c'', ucr_ImplementationNotes = None, ucr_TestProcedures = None,
     ucr_EvidenceRequirements = None, ucr_RiskWeight = None, ucr_Tags = None, ucr_IsActive = None \<rparr>"

definition ex_flt :: ListControlsFilter where
  "ex_flt = \<lparr> lf_FrameworkID = None, lf_Domain = None, lf_ArticleRef = None, lf_ParentID = None,
     lf_IsActive = None, lf_Search = None, lf_Limit = 1, lf_Offset = 0 \<rparr>"

definition ex_order :: mem_order where
  "ex_order = \<lparr> mo_frameworks = \<lambda>_. [], mo_controls = \<lambda>_. [], mo_assessments = \<lambda>_. [] \<rparr>"

definition ex_cmem :: cf_mem where
  "ex_cmem = NewMemoryRepository\<lparr> mm_controls := [(2, ex_control)] \<rparr>"

lemmas ex_control_defs = ex_cdb_def control_to_row_def ex_control_def Control.defs

lemma ex_cdb_ok: "pg_ok ex_cdb" "fresh_in (pg_view ex_cdb) n" "pg_view ex_cdb k = None"
  by (simp_all add: pg_ok_def ex_cdb_def fresh_in_def pg_view_def)

lemma ex_assess_eval:
  "snd (ex_assess ex_cdb AssessmentStatusInProgress) =
     Inr (Some (new_assessment 5 0 1 2 7 \<lparr> ca_Status := AssessmentStatusInProgress \<rparr>))"
  by (simp add: ex_assess_def svc_AssessControl_def assess_begin_def assess_finish_def pgRepo_def ex_areq_def
      pg_GetOrCreateAssessment_def pg_UpdateAssessmentStatus_def ex_control_defs uuid_Nil_def Let_def
      new_assessment_def CanTransitionTo_iff assessment_error_def assessed_def or_empty_def at_key_def)

lemma ex_assess_run:
  "assess_reach id (pgRepo ex_cpg) pg_view ex_cdb (fst (ex_assess ex_cdb AssessmentStatusInProgress))"
proof -
  have "assess_reach id (pgRepo ex_cpg) pg_view ex_cdb ex_cdb" by (rule assess_reach.start)
  from assess_reach.request [OF this ex_cdb_ok(2) prod.collapse [symmetric]]
  show ?thesis unfolding ex_assess_def .
qed

theorem control_assessment_refines_machine_witness:
  "pg_view (fst (ex_assess ex_cdb AssessmentStatusInProgress)) (1, 2) =
     Some (5, AssessmentStatusInProgress, 7)"
proof -
  have e: "svc_AssessControl id (pgRepo ex_cpg) 5 0 0 ex_cdb 2 7 (ex_areq AssessmentStatusInProgress (Some [])) =
      (fst (ex_assess ex_cdb AssessmentStatusInProgress),
       Inr (Some (new_assessment 5 0 1 2 7 \<lparr> ca_Status := AssessmentStatusInProgress \<rparr>)))"
    using ex_assess_eval by (metis ex_assess_def prod.collapse)
  from control_assessment_refines_machine [OF ex_cdb_ok(1) ex_cdb_ok(2) e]
  show ?thesis by (auto simp: ex_areq_def info_def new_assessment_def)
qed

theorem control_assessment_never_restarts_witness:
  "later_entry (mem_view NewMemoryRepository (1, 2)) (mem_view NewMemoryRepository (1, 2)) \<and>
   later_entry (pg_view ex_cdb (1, 2)) (pg_view (fst (ex_assess ex_cdb AssessmentStatusInProgress)) (1, 2))"
  using control_assessment_never_restarts [OF assess_reach.start [of id "memRepo ex_order" mem_view NewMemoryRepository] _
        ex_assess_run ex_cdb_ok(1), of "(1, 2)"]
  by (simp add: mem_ok_def NewMemoryRepository_def)

theorem control_interleaved_restart_witness:
  "\<exists>m3. mem_view m3 (1, 2) = Some (5, AssessmentStatusNotStarted, 7)"
  using control_interleaved_restart [of "ex_areq AssessmentStatusNotStarted None" 1
      "ex_areq AssessmentStatusInProgress None" id ex_order 5 0 2 7 6 0 0 8 0]
  by (auto simp: ex_areq_def uuid_Nil_def)

theorem control_org_routes_always_refused_witness:
  "\<exists>r. cf_serve (\<lambda>_. Some 7) id (pgRepo ex_cpg) 5 0 0 ex_cdb ''org'' ''''
      (AssessRoute ''2'' (Inr (ex_areq AssessmentStatusInProgress (Some [])))) = (ex_cdb, r) \<and>
    resp_status r \<in> {400, 401}"
  using control_org_routes_always_refused [of "AssessRoute ''2'' (Inr (ex_areq AssessmentStatusInProgress (Some [])))"
      "\<lambda>_. Some 7" id "pgRepo ex_cpg" 5 0 0 ex_cdb "''org''" "''''"]
  by (simp add: needs_org_def)

theorem control_update_cross_tenant_witness:
  "\<exists>c db' c' r'. cf_serve (\<lambda>s. if s = ''org'' then Some 9 else Some 2) id (pgRepo ex_cpg) 5 0 0 ex_cdb ''org'' ''''
      (GetControlRoute ''2'') = (ex_cdb, JsonResponse 200 (CfControl c)) \<and>
    cf_serve (\<lambda>s. if s = ''org'' then Some 9 else Some 2) id (pgRepo ex_cpg) 5 0 0 ex_cdb ''org'' ''''
      (UpdateControlRoute ''2'' (Inr ex_upd)) = (db', JsonResponse 200 (CfControl c')) \<and>
    r' \<in> set (cd_controls db') \<and> ct_OrgID r' = 7 \<and> ct_Title r' = ''new''"
  using control_update_cross_tenant [of "\<lambda>s. if s = ''org'' then Some 9 else Some 2" "''org''" 9
      "control_to_row ex_control False" ex_cdb "''2''" ex_upd "''new''" id ex_cpg 5 0 0 "''''"]
  by (auto simp: ex_control_defs ex_upd_def)

theorem control_assessment_needs_evidence_witness:
  "\<exists>msg. snd (svc_AssessControl id (pgRepo ex_cpg) 5 0 0 ex_cdb 2 7
     (ex_areq AssessmentStatusInProgress None)) = Inl msg"
  using control_assessment_needs_evidence [OF ex_cdb_ok(1) ex_cdb_ok(2), of ex_cpg
      "ex_areq AssessmentStatusInProgress None" id 5 0 0 2 7, OF _ _ prod.collapse [symmetric]]
  by (simp add: ex_cpg_def ex_areq_def)

lemma ex_cdb_found: "filter (matches_filter ex_cpg 7 ex_flt) (cd_controls ex_cdb) = [control_to_row ex_control False]"
  by (simp add: ex_control_defs ex_flt_def matches_filter_def asked_def searched_def)

theorem control_list_exact_witness:
  "\<exists>pages. svc_ListControls (pgRepo ex_cpg) ex_cdb 7 ex_flt = Inr (pages 0) \<and> pc_Total (pages 0) = 1 \<and>
     mset (concat (map (\<lambda>i. pc_Controls (pages i)) [0..<1])) = {#ex_control#}"
proof -
  obtain pages where p: "\<forall>i. svc_ListControls (pgRepo ex_cpg) ex_cdb 7 (ex_flt\<lparr> lf_Offset := int i * lf_Limit ex_flt \<rparr>) =
        Inr (pages i) \<and> pc_Total (pages i) = int (length [control_to_row ex_control False]) \<and>
      int (length (pc_Controls (pages i))) \<le> 200"
    "mset (concat (map (\<lambda>i. pc_Controls (pages i)) [0..<1])) =
      image_mset Control.truncate (mset [control_to_row ex_control False])"
    using control_list_exact [of ex_cdb ex_flt ex_cpg 7 1] unfolding ex_cdb_found
    by (simp add: ex_cdb_def ex_flt_def ex_cpg_def) blast
  have "ex_flt\<lparr> lf_Offset := int 0 * lf_Limit ex_flt \<rparr> = ex_flt" by (simp add: ex_flt_def)
  with p(1) [rule_format, of 0] p(2) show ?thesis
    by (intro exI [of _ pages]) (simp add: ex_control_defs)
qed

theorem control_repositories_differ_witness:
  "\<exists>m' c1 db' c2. rp_UpdateControl (memRepo ex_order) 0 ex_cmem 2 ex_upd = (m', Inr (Some c1)) \<and>
    rp_UpdateControl (pgRepo ex_cpg) 0 ex_cdb 2 ex_upd = (db', Inr (Some c2)) \<and>
    ct_Category c1 = '''' \<and> ct_Category c2 = ''c''"
proof -
  have "map_of (mm_controls ex_cmem) 2 = Some ex_control" by (simp add: ex_cmem_def)
  moreover have "find (\<lambda>r. ct_ID r = 2) (cd_controls ex_cdb) = Some (control_to_row ex_control False)"
    "Control.truncate (control_to_row ex_control False) = ex_control" "cd_up ex_cdb"
    by (simp_all add: ex_control_defs)
  moreover have "ucr_RiskWeight ex_upd = Some w \<Longrightarrow> cp_weight ex_cpg w = Some w" for w
    by (simp add: ex_upd_def)
  ultimately obtain m' c1 db' c2 where
    "rp_UpdateControl (memRepo ex_order) 0 ex_cmem 2 ex_upd = (m', Inr (Some c1))"
    "rp_UpdateControl (pgRepo ex_cpg) 0 ex_cdb 2 ex_upd = (db', Inr (Some c2))"
    "c1 = c2\<lparr> ct_Category := ct_Category ex_control, ct_ImplementationNotes := ct_ImplementationNotes ex_control,
       ct_TestProcedures := ct_TestProcedures ex_control,
       ct_EvidenceRequirements := ct_EvidenceRequirements ex_control \<rparr>"
    "ct_Category c2 = set_if (ucr_Category ex_upd) (ct_Category ex_control)"
    using control_repositories_differ [of ex_cmem 2 ex_control ex_cdb "control_to_row ex_control False" ex_upd
        ex_cpg ex_order 0] by blast
  moreover from this have "ct_Category c1 = ''''" "ct_Category c2 = ''c''"
    by (simp_all add: ex_control_def ex_upd_def set_if_def)
  ultimately show ?thesis by blast
qed

end
