(* ===== verification/Float64.thy ===== *)
theory Float64
  imports Complex_Main Prelude "HOL-Library.Log_Nat"
begin

text \<open>
  Go's \<open>float64\<close> arithmetic, as the scorers of the evidence service use it: a value is the rational
  it stands for, and an operation is the exact one followed by \<open>rnd\<close>, IEEE 754's rounding to 53
  significant bits, ties to even. The exponent is unbounded here: no value of these programs comes
  near the range where a double overflows or loses bits, and none is a NaN.

  The proofs bracket a computed value between two numbers that are exact in binary, by
  monotonicity of rounding (\<open>rnd_mono\<close>, \<open>rnd_exact\<close>).
\<close>

type_synonym float64 = rat

section \<open>Rounding\<close>

text \<open>The number of binary digits of a positive number, and the power of two just below one.\<close>

function bit_length :: "int \<Rightarrow> int" where
  "bit_length n = (if 0 < n then bit_length (n div 2) + 1 else 0)"
  by auto
termination
  by (relation "measure nat") auto

declare bit_length.simps [simp del]

definition pow2 :: "int \<Rightarrow> rat" where
  "pow2 k = (if 0 \<le> k then of_int (2 ^ nat k) else 1 / of_int (2 ^ nat (- k)))"

definition binade :: "rat \<Rightarrow> int" where
  "binade x = (case quotient_of x of (n, d) \<Rightarrow>
     let k = bit_length n - bit_length d in if pow2 k \<le> x then k else k - 1)"

definition round_even :: "rat \<Rightarrow> int" where
  "round_even x = (let f = \<lfloor>x\<rfloor>; r = x - of_int f
     in if r < 1/2 \<or> r = 1/2 \<and> even f then f else f + 1)"

definition rnd_pos :: "rat \<Rightarrow> float64" where
  "rnd_pos x = (let u = pow2 (binade x - 52) in of_int (round_even (x / u)) * u)"

definition rnd :: "rat \<Rightarrow> float64" where
  "rnd x = (if x = 0 then 0 else if x < 0 then - rnd_pos (- x) else rnd_pos x)"

definition fl_add :: "float64 \<Rightarrow> float64 \<Rightarrow> float64" where
  "fl_add x y = rnd (x + y)"

definition fl_sub :: "float64 \<Rightarrow> float64 \<Rightarrow> float64" where
  "fl_sub x y = rnd (x - y)"

definition fl_mul :: "float64 \<Rightarrow> float64 \<Rightarrow> float64" where
  "fl_mul x y = rnd (x * y)"

definition fl_div :: "float64 \<Rightarrow> float64 \<Rightarrow> float64" where
  "fl_div x y = rnd (x / y)"

text \<open>Go's \<open>int(x)\<close>, toward zero.\<close>

definition trunc_int :: "float64 \<Rightarrow> int" where
  "trunc_int x = (if x < 0 then - \<lfloor>- x\<rfloor> else \<lfloor>x\<rfloor>)"

text \<open>Go's conversion to a 64-bit integer; on amd64 a value that does not fit becomes the smallest one.\<close>

definition to_int64 :: "float64 \<Rightarrow> int" where
  "to_int64 v =
     (let k = trunc_int v in if min_int64 \<le> k \<and> k \<le> max_int64 then k else min_int64)"

section \<open>Laws\<close>

lemma pow2_powi: "pow2 k = 2 powi k"
  by (simp add: pow2_def power_int_def inverse_eq_divide power_one_over)

lemma bit_length_floorlog: "bit_length n = int (floorlog 2 (nat n))"
proof (induction n rule: bit_length.induct)
  case (1 n)
  then show ?case
    by (subst bit_length.simps, subst compute_floorlog) (auto simp: nat_div_distrib)
qed

lemma binade_bounds:
  assumes "0 < x"
  shows "2 powi (binade x) \<le> x \<and> x < 2 powi (binade x + 1)"
proof -
  obtain n d where q: "quotient_of x = (n, d)" by (cases "quotient_of x")
  then have d: "0 < d" and x: "x = of_int n / of_int d"
    using quotient_of_denom_pos quotient_of_div by auto
  with assms have n: "0 < n" by (simp add: zero_less_divide_iff)
  let ?a = "floorlog 2 (nat n)" and ?b = "floorlog 2 (nat d)"
  let ?k = "int ?a - int ?b"
  have na: "2 ^ (?a - 1) \<le> nat n" "nat n < 2 ^ ?a" and db: "2 ^ (?b - 1) \<le> nat d" "nat d < 2 ^ ?b"
    using floorlog_bounds [of "nat n" 2] floorlog_bounds [of "nat d" 2] n d by auto
  have a1: "1 \<le> ?a" "1 \<le> ?b" using n d by (simp_all add: floorlog_def)
  have rn: "2 powi (int ?a - 1) \<le> (of_int n :: rat)" "(of_int n :: rat) < 2 powi int ?a"
  proof -
    have "(2 :: rat) ^ (?a - 1) \<le> of_nat (nat n)" using na(1) by (metis of_nat_le_iff of_nat_numeral of_nat_power)
    then show "2 powi (int ?a - 1) \<le> (of_int n :: rat)"
      using a1(1) n by (simp add: power_int_def nat_diff_distrib)
    have "of_nat (nat n) < (2 :: rat) ^ ?a" using na(2) by (metis of_nat_less_iff of_nat_numeral of_nat_power)
    then show "(of_int n :: rat) < 2 powi int ?a" using n by simp
  qed
  have rd: "2 powi (int ?b - 1) \<le> (of_int d :: rat)" "(of_int d :: rat) < 2 powi int ?b"
  proof -
    have "(2 :: rat) ^ (?b - 1) \<le> of_nat (nat d)" using db(1) by (metis of_nat_le_iff of_nat_numeral of_nat_power)
    then show "2 powi (int ?b - 1) \<le> (of_int d :: rat)"
      using a1(2) d by (simp add: power_int_def nat_diff_distrib)
    have "of_nat (nat d) < (2 :: rat) ^ ?b" using db(2) by (metis of_nat_less_iff of_nat_numeral of_nat_power)
    then show "(of_int d :: rat) < 2 powi int ?b" using d by simp
  qed
  have dp: "(0 :: rat) < of_int d" using d by simp
  have lo: "2 powi (?k - 1) \<le> x"
  proof -
    have "2 powi (?k - 1) * of_int d \<le> 2 powi (?k - 1) * (2 powi int ?b :: rat)"
      using rd(2) by (intro mult_left_mono) auto
    also have "\<dots> = 2 powi (int ?a - 1)"
      by (subst power_int_add [symmetric]) simp_all
    also have "\<dots> \<le> of_int n" by (rule rn(1))
    finally show ?thesis using dp by (simp add: x pos_le_divide_eq)
  qed
  have hi: "x < 2 powi (?k + 1)"
  proof -
    have "(of_int n :: rat) < 2 powi int ?a" by (rule rn(2))
    also have "\<dots> = 2 powi (?k + 1) * (2 powi (int ?b - 1) :: rat)"
      by (subst power_int_add [symmetric]) simp_all
    also have "\<dots> \<le> 2 powi (?k + 1) * of_int d" using rd(1) by (intro mult_left_mono) auto
    finally show ?thesis using dp by (simp add: x pos_divide_less_eq)
  qed
  show ?thesis using lo hi q by (auto simp: binade_def pow2_powi Let_def bit_length_floorlog)
qed

lemma binade_unique:
  assumes "0 < x" and "2 powi k \<le> x" and "x < 2 powi (k + 1)"
  shows "binade x = k"
proof -
  note b = binade_bounds [OF assms(1)]
  have "(2 :: rat) powi k < 2 powi (binade x + 1)" "(2 :: rat) powi (binade x) < 2 powi (k + 1)"
    using assms b by auto
  then have "k < binade x + 1" "binade x < k + 1"
    using power_int_le_imp_less_exp [of "2 :: rat"] power_int_increasing [of _ _ "2 :: rat"]
    by (metis linorder_not_le numeral_le_one_iff one_le_numeral semiring_norm(69))+
  then show ?thesis by simp
qed

lemma binade_mono: "0 < x \<Longrightarrow> x \<le> y \<Longrightarrow> binade x \<le> binade y"
proof -
  assume xy: "0 < x" "x \<le> y"
  then have "(2 :: rat) powi (binade x) < 2 powi (binade y + 1)"
    using binade_bounds [of x] binade_bounds [of y] by simp
  then have "binade x < binade y + 1"
    using power_int_increasing [of "binade y + 1" "binade x" "2 :: rat"] by (metis linorder_not_le one_le_numeral)
  then show ?thesis by simp
qed

lemma round_even_mono: "x \<le> y \<Longrightarrow> round_even x \<le> round_even y"
proof -
  assume xy: "x \<le> y"
  show ?thesis
  proof (cases "\<lfloor>x\<rfloor> = \<lfloor>y\<rfloor>")
    case True
    with xy show ?thesis by (auto simp: round_even_def Let_def)
  next
    case False
    with xy floor_mono [OF xy] have "\<lfloor>x\<rfloor> + 1 \<le> \<lfloor>y\<rfloor>" by linarith
    then show ?thesis by (auto simp: round_even_def Let_def)
  qed
qed

lemma round_even_int [simp]: "round_even (of_int n) = n"
  by (simp add: round_even_def)

lemma rnd_pos_exact:
  assumes "0 < m" and "m \<le> 2 ^ 53" and "x = of_int m * 2 powi k"
  shows "rnd_pos x = x"
proof -
  have x: "0 < x" using assms by simp
  note b = binade_bounds [OF x]
  let ?e = "binade x"
  let ?u = "(2 :: rat) powi (?e - 52)"
  have u: "0 < ?u" by simp
  have "\<exists>n. x = of_int n * ?u"
  proof (cases "?e - 52 \<le> k")
    case True
    have "2 powi k = (2 :: rat) powi (k - (?e - 52)) * ?u"
      by (simp add: power_int_add [symmetric])
    also have "(2 :: rat) powi (k - (?e - 52)) = of_int (2 ^ nat (k - (?e - 52)))"
      using True by (simp add: power_int_def)
    finally have "x = of_int (m * 2 ^ nat (k - (?e - 52))) * ?u"
      using assms(3) by simp
    then show ?thesis by blast
  next
    case False
    then have "k + 53 \<le> ?e" by simp
    have "of_int m \<le> (2 :: rat) ^ 53" using assms(2) by (metis of_int_le_iff of_int_numeral of_int_power)
    then have "x \<le> (2 :: rat) powi (k + 53)"
      using assms(3) by (simp add: power_int_add)
    also have "\<dots> \<le> 2 powi ?e" using \<open>k + 53 \<le> ?e\<close> by (intro power_int_increasing) auto
    finally have "x = 2 powi ?e" using b by simp
    also have "\<dots> = of_int (2 ^ 52) * ?u" by (simp add: power_int_diff)
    finally show ?thesis by blast
  qed
  then obtain n where n: "x = of_int n * ?u" by blast
  then have "x / ?u = of_int n" using u by (simp add: field_simps)
  then show ?thesis using n by (simp add: rnd_pos_def pow2_powi Let_def)
qed

lemma rnd_exact:
  assumes "\<bar>m\<bar> \<le> 2 ^ 53"
  shows "rnd (of_int m * 2 powi k) = of_int m * 2 powi k"
proof -
  have u: "(0 :: rat) < 2 powi k" by simp
  consider "m = 0" | "0 < m" | "m < 0" by linarith
  then show ?thesis
  proof cases
    case 2
    then have "(0 :: rat) < of_int m * 2 powi k" by (intro mult_pos_pos) simp_all
    then have "\<not> of_int m * 2 powi k < (0 :: rat)" by simp
    then show ?thesis using 2 assms rnd_pos_exact [of m _ k] by (simp add: rnd_def del: mult_less_0_iff)
  next
    case 3
    then have "(of_int m * 2 powi k :: rat) < 0" by (intro mult_neg_pos) simp_all
    then show ?thesis using 3 assms rnd_pos_exact [of "- m" _ k] by (simp add: rnd_def del: mult_less_0_iff)
  qed (simp add: rnd_def)
qed

lemma rnd_pos_mono:
  assumes "0 < x" and "x \<le> y"
  shows "rnd_pos x \<le> rnd_pos y"
proof (cases "binade x = binade y")
  case True
  have "x / 2 powi (binade y - 52) \<le> y / 2 powi (binade y - 52)"
    using assms(2) by (intro divide_right_mono) simp_all
  then have "round_even (x / 2 powi (binade y - 52)) \<le> round_even (y / 2 powi (binade y - 52))"
    by (rule round_even_mono)
  then show ?thesis unfolding rnd_pos_def pow2_powi Let_def True by (intro mult_right_mono) simp_all
next
  case False
  with binade_mono [OF assms] have e: "binade x + 1 \<le> binade y" by simp
  have y: "0 < y" using assms by simp
  have shift: "2 powi (e + j) / (2 :: rat) powi e = 2 powi j" for e j by (simp add: power_int_add)
  have "x / 2 powi (binade x - 52) \<le> 2 powi (binade x + 1) / 2 powi (binade x - 52)"
    using binade_bounds [OF assms(1)] by (intro divide_right_mono) simp_all
  also have "\<dots> = of_int (2 ^ 53)"
    using shift [of "binade x - 52" 53] by (simp add: add.commute)
  finally have "round_even (x / 2 powi (binade x - 52)) \<le> 2 ^ 53"
    using round_even_mono round_even_int by metis
  then have "(of_int (round_even (x / 2 powi (binade x - 52))) :: rat) \<le> of_int (2 ^ 53)"
    by (simp only: of_int_le_iff)
  then have "rnd_pos x \<le> of_int (2 ^ 53) * 2 powi (binade x - 52)"
    unfolding rnd_pos_def pow2_powi Let_def by (intro mult_right_mono) simp_all
  also have "\<dots> = 2 powi (binade x + 1)"
    using power_int_add [of "2 :: rat" "binade x - 52" 53] by (simp add: add.commute mult.commute)
  also have "\<dots> \<le> 2 powi (binade y)" using e by (intro power_int_increasing) auto
  also have "\<dots> = of_int (2 ^ 52) * 2 powi (binade y - 52)"
    using power_int_add [of "2 :: rat" "binade y - 52" 52] by (simp add: add.commute mult.commute)
  also have "\<dots> \<le> rnd_pos y"
  proof -
    have "of_int (2 ^ 52) = (2 :: rat) powi (binade y) / 2 powi (binade y - 52)"
      using shift [of "binade y - 52" 52] by (simp add: add.commute)
    also have "\<dots> \<le> y / 2 powi (binade y - 52)"
      using binade_bounds [OF y] by (intro divide_right_mono) simp_all
    finally have "2 ^ 52 \<le> round_even (y / 2 powi (binade y - 52))"
      using round_even_mono round_even_int by metis
    then have "(of_int (2 ^ 52) :: rat) \<le> of_int (round_even (y / 2 powi (binade y - 52)))"
      by (simp only: of_int_le_iff)
    then show ?thesis unfolding rnd_pos_def pow2_powi Let_def by (intro mult_right_mono) simp_all
  qed
  finally show ?thesis .
qed

lemma rnd_pos_nonneg: "0 < x \<Longrightarrow> 0 \<le> rnd_pos x"
proof -
  assume "0 < x"
  then have "of_int 0 \<le> x / 2 powi (binade x - 52)" by simp
  then have "0 \<le> round_even (x / 2 powi (binade x - 52))"
    using round_even_mono round_even_int by metis
  then show ?thesis by (simp add: rnd_pos_def pow2_powi Let_def)
qed

lemma rnd_mono: "x \<le> y \<Longrightarrow> rnd x \<le> rnd y"
proof -
  assume xy: "x \<le> y"
  consider "0 < x" | "x \<le> 0" "0 \<le> y" | "y < 0" by linarith
  then show ?thesis
  proof cases
    case 1
    with xy rnd_pos_mono show ?thesis by (simp add: rnd_def)
  next
    case 2
    with rnd_pos_nonneg [of y] rnd_pos_nonneg [of "- x"] show ?thesis by (auto simp: rnd_def)
  next
    case 3
    with xy rnd_pos_mono [of "- y" "- x"] show ?thesis by (simp add: rnd_def)
  qed
qed

text \<open>The rounding error is at most half a unit in the last place.\<close>

lemma round_even_error: "\<bar>of_int (round_even y) - y\<bar> \<le> 1/2"
proof -
  have "of_int \<lfloor>y\<rfloor> \<le> y" "y < of_int \<lfloor>y\<rfloor> + 1" by linarith+
  then show ?thesis by (auto simp: round_even_def Let_def abs_le_iff)
qed

lemma rnd_pos_error:
  assumes "0 < x"
  shows "\<bar>rnd_pos x - x\<bar> \<le> x / 2 ^ 53"
proof -
  let ?u = "(2 :: rat) powi (binade x - 52)"
  have u: "0 < ?u" by simp
  have "rnd_pos x - x = (of_int (round_even (x / ?u)) - x / ?u) * ?u"
    using u by (simp add: rnd_pos_def pow2_powi Let_def left_diff_distrib)
  then have "\<bar>rnd_pos x - x\<bar> = \<bar>of_int (round_even (x / ?u)) - x / ?u\<bar> * ?u"
    by (simp add: abs_mult)
  also have "\<dots> \<le> 1/2 * ?u" using round_even_error u by (intro mult_right_mono) auto
  also have "\<dots> = 2 powi (binade x) / 2 ^ 53" by (simp add: power_int_diff)
  also have "\<dots> \<le> x / 2 ^ 53"
    using binade_bounds [OF assms] by (intro divide_right_mono) simp_all
  finally show ?thesis .
qed

lemma rnd_error: "0 \<le> x \<Longrightarrow> \<bar>rnd x - x\<bar> \<le> x / 2 ^ 53"
  using rnd_pos_error [of x] by (auto simp: rnd_def)

lemma rnd_int: "\<bar>m\<bar> \<le> 2 ^ 53 \<Longrightarrow> rnd (of_int m) = of_int m"
  using rnd_exact [of m 0] by simp

lemma rnd_dyadic: "\<bar>m\<bar> \<le> 2 ^ 53 \<Longrightarrow> rnd (of_int m / 2 ^ k) = of_int m / 2 ^ k"
  using rnd_exact [of m "- int k"] by (simp add: power_int_minus field_simps)

lemma rnd_0_1 [simp]: "rnd 0 = 0" "rnd 1 = 1"
  using rnd_int [of 1] by (simp_all add: rnd_def)

lemma rnd_le:
  assumes "x \<le> of_int m / 2 ^ k" and "\<bar>m\<bar> \<le> 2 ^ 53"
  shows "rnd x \<le> of_int m / 2 ^ k"
  using rnd_mono [OF assms(1)] rnd_dyadic [OF assms(2)] by simp

lemma rnd_ge:
  assumes "of_int m / 2 ^ k \<le> x" and "\<bar>m\<bar> \<le> 2 ^ 53"
  shows "of_int m / 2 ^ k \<le> rnd x"
  using rnd_mono [OF assms(1)] rnd_dyadic [OF assms(2)] by simp

lemma rnd_nonneg: "0 \<le> x \<Longrightarrow> 0 \<le> rnd x"
  using rnd_mono [of 0 x] by simp

lemma rnd_le_1: "x \<le> 1 \<Longrightarrow> rnd x \<le> 1"
  using rnd_mono [of x 1] by simp

lemma rnd_up: "0 \<le> x \<Longrightarrow> rnd x \<le> x * (1 + 1 / 2 ^ 53)"
proof -
  assume "0 \<le> x"
  then have "rnd x - x \<le> x / 2 ^ 53" using rnd_error [of x] by (simp only: abs_le_iff)
  then show ?thesis by (simp add: distrib_left)
qed

lemma rnd_down: "0 \<le> x \<Longrightarrow> x * (1 - 1 / 2 ^ 53) \<le> rnd x"
proof -
  assume "0 \<le> x"
  then have "- (rnd x - x) \<le> x / 2 ^ 53" using rnd_error [of x] by (simp only: abs_le_iff)
  then show ?thesis by (simp add: right_diff_distrib)
qed

lemma trunc_int_of_int [simp]: "trunc_int (of_int n) = n"
  by (simp add: trunc_int_def)

lemma to_int64_big: "of_int (max_int64 + 1) \<le> v \<Longrightarrow> to_int64 v = min_int64"
proof -
  assume v: "of_int (max_int64 + 1) \<le> v"
  then have "max_int64 + 1 \<le> \<lfloor>v\<rfloor>" by (simp only: le_floor_iff)
  moreover have "\<not> v < 0" using v by (simp add: max_int64_def)
  ultimately show ?thesis by (simp add: to_int64_def trunc_int_def Let_def)
qed

end
