(* ===== verification/EvidenceModel.thy ===== *)
theory EvidenceModel
  imports Float64 GoText
begin

text \<open>
  The evidence service's data (\<open>services/evidence/internal/models/evidence.go\<close>) and its classifier
  (\<open>internal/classifier/classifier.go\<close>). Source types, formats and risk ratings are Go strings
  and stay strings: nothing in the types keeps other values out. \<open>strings.ToLower\<close> and
  \<open>strings.TrimSpace\<close> work on Unicode text and are the parameters of \<open>ev_lib\<close>, with
  \<open>uuid.Parse\<close> and the JSON and CSV readers.
\<close>

section \<open>Types\<close>

type_synonym EvidenceTier = int

definition TierL1Policy :: EvidenceTier where "TierL1Policy = 1"

definition TierL2Standard :: EvidenceTier where "TierL2Standard = 2"

definition TierL3Guideline :: EvidenceTier where "TierL3Guideline = 3"

definition TierL4Procedure :: EvidenceTier where "TierL4Procedure = 4"

definition TierL5Record :: EvidenceTier where "TierL5Record = 5"

definition TierL6Telemetry :: EvidenceTier where "TierL6Telemetry = 6"

definition tier_String :: "EvidenceTier \<Rightarrow> string" where
  "tier_String t =
     (if t = TierL1Policy then ''L1-Policy''
      else if t = TierL2Standard then ''L2-Standard''
      else if t = TierL3Guideline then ''L3-Guideline''
      else if t = TierL4Procedure then ''L4-Procedure''
      else if t = TierL5Record then ''L5-Record''
      else if t = TierL6Telemetry then ''L6-Telemetry''
      else ''Unknown'')"

definition SourceManualUpload :: string where "SourceManualUpload = ''manual_upload''"

definition SourceAPIIntegration :: string where "SourceAPIIntegration = ''api_integration''"

definition SourceAutomatedScan :: string where "SourceAutomatedScan = ''automated_scan''"

definition SourceScreenshot :: string where "SourceScreenshot = ''screenshot''"

definition SourceLogExport :: string where "SourceLogExport = ''log_export''"

definition SourceConfigurationExport :: string where
  "SourceConfigurationExport = ''configuration_export''"

definition FormatJSON :: string where "FormatJSON = ''json''"

definition FormatCSV :: string where "FormatCSV = ''csv''"

definition FormatLog :: string where "FormatLog = ''log''"

definition FormatText :: string where "FormatText = ''text''"

definition ev_RiskCritical :: string where "ev_RiskCritical = ''critical''"

definition ev_RiskHigh :: string where "ev_RiskHigh = ''high''"

definition ev_RiskMedium :: string where "ev_RiskMedium = ''medium''"

definition ev_RiskLow :: string where "ev_RiskLow = ''low''"

definition ev_RiskInformational :: string where "ev_RiskInformational = ''informational''"

lemmas ev_tiers = TierL1Policy_def TierL2Standard_def TierL3Guideline_def TierL4Procedure_def
  TierL5Record_def TierL6Telemetry_def

lemmas ev_strings = SourceManualUpload_def SourceAPIIntegration_def SourceAutomatedScan_def
  SourceScreenshot_def SourceLogExport_def SourceConfigurationExport_def FormatJSON_def
  FormatCSV_def FormatLog_def FormatText_def ev_RiskCritical_def ev_RiskHigh_def ev_RiskMedium_def
  ev_RiskLow_def ev_RiskInformational_def

record ProvenanceEntry =
  pv_Timestamp :: gotime
  pv_ActorID :: "uuid option"
  pv_Action :: string
  pv_Description :: string
  pv_Hash :: string

record Evidence =
  ev_ID :: uuid
  ev_OrgID :: uuid
  ev_EngagementID :: uuid
  ev_ControlID :: uuid
  ev_UploadedByID :: "uuid option"
  ev_Title :: string
  ev_Description :: string
  ev_SourceType :: string
  ev_SourceRef :: string
  ev_ContentFormat :: string
  ev_Content :: string
  ev_FilePath :: string
  ev_FileHash :: string
  ev_CollectedAt :: gotime
  ev_Tags :: "string list"
  ev_Metadata :: gomap
  ev_ProvenanceChain :: "ProvenanceEntry list"
  ev_CreatedAt :: gotime
  ev_UpdatedAt :: gotime

record Classification =
  cl_ID :: uuid
  cl_EvidenceID :: uuid
  cl_OrgID :: uuid
  cl_Tier :: EvidenceTier
  cl_TierLabel :: string
  cl_Confidence :: float64
  cl_Reasoning :: string
  cl_ClassifiedAt :: gotime

record QualityScore =
  qs_ID :: uuid
  qs_EvidenceID :: uuid
  qs_OrgID :: uuid
  qs_CompletenessScore :: float64
  qs_CurrencyScore :: float64
  qs_SourceReliability :: float64
  qs_CorroborationScore :: float64
  qs_RelevanceScore :: float64
  qs_AggregateScore :: float64
  qs_Deficiencies :: "string list"
  qs_ScoredAt :: gotime

record SufficiencyResult =
  sr_ControlID :: uuid
  sr_RiskRating :: string
  sr_EvidenceCount :: int
  sr_MinRequired :: int
  sr_AggregateScore :: float64
  sr_MinScoreRequired :: float64
  sr_IsSufficient :: bool
  sr_Gaps :: "string list"
  sr_EvidenceIDs :: "uuid list"

record IngestRequest =
  ir_OrgID :: string
  ir_EngagementID :: string
  ir_ControlID :: string
  ir_Title :: string
  ir_Description :: string
  ir_SourceType :: string
  ir_SourceRef :: string
  ir_ContentFormat :: string
  ir_Content :: string
  ir_Tags :: "string list"
  ir_Metadata :: gomap
  ir_CollectedAt :: "gotime option"

text \<open>
  The library routines the service calls on text: the \<open>%q\<close> verb, Unicode case and white space, UUIDs,
  \<open>json.Unmarshal\<close> followed by \<open>json.Marshal\<close>, and the CSV reader's records.
\<close>

record ev_lib =
  Quote :: "string \<Rightarrow> string"
  ToLower :: "string \<Rightarrow> string"
  TrimSpace :: "string \<Rightarrow> string"
  uuid_Parse :: "string \<Rightarrow> string + uuid"
  json_Unmarshal :: "string \<Rightarrow> string + json"
  json_Marshal :: "json \<Rightarrow> string + string"
  csv_ReadAll :: "string \<Rightarrow> string + string list list"

section \<open>The classifier\<close>

record tierRule =
  tr_tier :: EvidenceTier
  tr_keywords :: "string list"
  tr_sources :: "string list"
  tr_formats :: "string list"

definition tier_rules :: "tierRule list" where
  "tier_rules = [
     \<lparr> tr_tier = TierL1Policy,
       tr_keywords = [
         ''policy'', ''governance'', ''mandate'', ''regulation'', ''directive'', ''gdpr'', ''nis2'', ''nis 2'',
         ''iso 27001'', ''soc 2'', ''hipaa'', ''pci dss'', ''executive order'', ''board resolution'',
         ''information security policy'', ''acceptable use policy'', ''aup''],
       tr_sources = [SourceManualUpload, SourceConfigurationExport],
       tr_formats = [] \<rparr>,
     \<lparr> tr_tier = TierL2Standard,
       tr_keywords = [
         ''standard'', ''framework'', ''benchmark'', ''cis benchmark'', ''nist'', ''iso standard'',
         ''baseline'', ''specification'', ''profile'', ''control catalog'', ''technical standard'',
         ''security baseline'', ''hardening standard'', ''configuration standard''],
       tr_sources = [SourceManualUpload, SourceConfigurationExport],
       tr_formats = [] \<rparr>,
     \<lparr> tr_tier = TierL3Guideline,
       tr_keywords = [
         ''guideline'', ''best practice'', ''recommendation'', ''advisory'', ''guidance'',
         ''handbook'', ''reference guide'', ''design principle'', ''architecture guideline'',
         ''security guideline'', ''operational guidance''],
       tr_sources = [SourceManualUpload],
       tr_formats = [] \<rparr>,
     \<lparr> tr_tier = TierL4Procedure,
       tr_keywords = [
         ''procedure'', ''sop'', ''runbook'', ''playbook'', ''work instruction'', ''process document'',
         ''incident response procedure'', ''change management procedure'', ''access request procedure'',
         ''backup procedure'', ''recovery procedure'', ''step-by-step''],
       tr_sources = [SourceManualUpload],
       tr_formats = [] \<rparr>,
     \<lparr> tr_tier = TierL5Record,
       tr_keywords = [
         ''log'', ''screenshot'', ''audit log'', ''access log'', ''event log'', ''change log'',
         ''scan result'', ''vulnerability report'', ''penetration test'', ''pentest'',
         ''configuration export'', ''firewall rule'', ''user list'', ''access review'',
         ''training record'', ''certificate'', ''approval record'', ''incident report'',
         ''evidence screenshot'', ''system output''],
       tr_sources = [SourceScreenshot, SourceLogExport, SourceConfigurationExport, SourceAutomatedScan],
       tr_formats = [] \<rparr>,
     \<lparr> tr_tier = TierL6Telemetry,
       tr_keywords = [
         ''telemetry'', ''metric'', ''monitoring'', ''alert'', ''siem'', ''splunk'', ''datadog'',
         ''cloudwatch'', ''prometheus'', ''grafana'', ''webhook'', ''api feed'', ''real-time'',
         ''continuous monitoring'', ''automated feed'', ''sensor data'', ''uptime'', ''heartbeat'',
         ''anomaly detection'', ''intrusion detection''],
       tr_sources = [SourceAPIIntegration, SourceAutomatedScan],
       tr_formats = [FormatLog, FormatJSON] \<rparr>]"

definition ev_clamp :: "float64 \<Rightarrow> float64" where
  "ev_clamp v = (if v < 0 then 0 else if 1 < v then 1 else v)"

definition keywordHits :: "tierRule \<Rightarrow> string \<Rightarrow> nat" where
  "keywordHits rule txt = length (filter (Contains txt) (tr_keywords rule))"

definition scoreRule :: "tierRule \<Rightarrow> string \<Rightarrow> string \<Rightarrow> string \<Rightarrow> float64" where
  "scoreRule rule txt source format =
     (if keywordHits rule txt = 0 then 0
      else
        (let score = fl_add (rnd (1/2)) (fl_mul (of_nat (keywordHits rule txt)) (rnd (5/100)));
             score = (if rnd (80/100) < score then rnd (80/100) else score);
             score = (if source \<in> set (tr_sources rule) then fl_add score (rnd (10/100)) else score)
         in if format \<in> set (tr_formats rule) then fl_add score (rnd (5/100)) else score))"

fun strings_Join :: "string list \<Rightarrow> string \<Rightarrow> string" where
  "strings_Join [] sep = []"
| "strings_Join [x] sep = x"
| "strings_Join (x # y # xs) sep = x @ sep @ strings_Join (y # xs) sep"

definition buildReasoning :: "tierRule \<Rightarrow> string \<Rightarrow> string" where
  "buildReasoning rule txt =
     ''matched '' @ tier_String (tr_tier rule) @ '' keywords: '' @
     strings_Join (take 3 (filter (Contains txt) (tr_keywords rule))) '', ''"

text \<open>One turn of the loop over \<open>rules\<close>: the best tier, confidence and reasoning so far.\<close>

definition better_rule ::
  "string \<Rightarrow> string \<Rightarrow> string \<Rightarrow> tierRule \<Rightarrow> EvidenceTier \<times> float64 \<times> string \<Rightarrow> EvidenceTier \<times> float64 \<times> string" where
  "better_rule txt source format rule best =
     (let score = scoreRule rule txt source format
      in if fst (snd best) < score then (tr_tier rule, score, buildReasoning rule txt) else best)"

definition Classify :: "ev_lib \<Rightarrow> uuid \<Rightarrow> gotime \<Rightarrow> Evidence \<Rightarrow> Classification" where
  "Classify L fresh now ev =
     (let txt = ToLower L (ev_Title ev @ '' '' @ ev_Description ev);
          best = fold (better_rule txt (ev_SourceType ev) (ev_ContentFormat ev)) tier_rules
            (TierL5Record, rnd (40/100), ''defaulted to L5-Record; no stronger keyword match found'')
      in \<lparr> cl_ID = fresh, cl_EvidenceID = ev_ID ev, cl_OrgID = ev_OrgID ev, cl_Tier = fst best,
           cl_TierLabel = tier_String (fst best), cl_Confidence = ev_clamp (fst (snd best)),
           cl_Reasoning = snd (snd best), cl_ClassifiedAt = now \<rparr>)"

end
