(* ===== verification/EvidenceScorer.thy ===== *)
theory EvidenceScorer
  imports EvidenceModel
begin

text \<open>
  The quality scorer (\<open>services/evidence/internal/scorer/scorer.go\<close>) and the sufficiency calculator
  (\<open>internal/sufficiency/sufficiency.go\<close>), in \<open>float64\<close>: a decimal literal is the double nearest to
  it, a product and a sum are rounded each (as the compiler does on amd64, where it does not fuse
  them). The two \<open>clamp\<close>s and the two \<open>roundScore\<close>s of the service are the same functions.
\<close>

section \<open>The scorer\<close>

definition weightCompleteness :: float64 where "weightCompleteness = rnd (25/100)"

definition weightCurrency :: float64 where "weightCurrency = rnd (20/100)"

definition weightReliability :: float64 where "weightReliability = rnd (25/100)"

definition weightCorroboration :: float64 where "weightCorroboration = rnd (15/100)"

definition weightRelevance :: float64 where "weightRelevance = rnd (15/100)"

definition sourceReliabilityBase :: "string \<Rightarrow> float64 option" where
  "sourceReliabilityBase = map_of
     [(SourceAPIIntegration, rnd (90/100)), (SourceAutomatedScan, rnd (85/100)),
      (SourceConfigurationExport, rnd (85/100)), (SourceLogExport, rnd (80/100)),
      (SourceScreenshot, rnd (60/100)), (SourceManualUpload, rnd (50/100))]"

definition roundScore :: "float64 \<Rightarrow> float64" where
  "roundScore v = fl_div (rnd (of_int (trunc_int (fl_mul v 10000)))) 10000"

definition penalty :: "bool \<Rightarrow> float64 \<Rightarrow> string \<Rightarrow> float64 \<times> string list \<Rightarrow> float64 \<times> string list" where
  "penalty missing amount what sd =
     (if missing then (fl_sub (fst sd) amount, snd sd @ [what]) else sd)"

definition scoreCompleteness :: "ev_lib \<Rightarrow> Evidence \<Rightarrow> float64 \<times> string list" where
  "scoreCompleteness L ev =
     (let sd = (1, []);
          sd = penalty (TrimSpace L (ev_Title ev) = []) (rnd (25/100)) ''missing title'' sd;
          sd = penalty (TrimSpace L (ev_Description ev) = []) (rnd (15/100)) ''missing description'' sd;
          sd = penalty (TrimSpace L (ev_Content ev) = [] \<and> TrimSpace L (ev_FilePath ev) = [])
                 (rnd (40/100)) ''no content or file attached'' sd;
          sd = penalty (ev_CollectedAt ev = zero_time) (rnd (15/100)) ''missing collection timestamp'' sd;
          sd = penalty (ev_Tags ev = []) (rnd (5/100)) ''no tags provided'' sd
      in (ev_clamp (fst sd), snd sd))"

text \<open>\<open>Duration.Hours\<close>: whole hours plus the fraction of one.\<close>

definition hour :: duration where
  "hour = 3600 * second"

definition duration_Hours :: "duration \<Rightarrow> float64" where
  "duration_Hours d =
     (let h = go_div d hour; nsec = d - h * hour
      in fl_add (rnd (of_int h)) (fl_div (rnd (of_int nsec)) (rnd (of_int hour))))"

definition scoreCurrency :: "gotime \<Rightarrow> Evidence \<Rightarrow> float64 \<times> string list" where
  "scoreCurrency now ev =
     (if ev_CollectedAt ev = zero_time
      then (rnd (20/100), [''collection date unknown '' @ [CHR 0xE2, CHR 0x80, CHR 0x94] @
                           '' currency cannot be verified''])
      else
        (let days = fl_div (duration_Hours (time_Sub now (ev_CollectedAt ev))) 24
         in if days \<le> 30 then (1, [])
            else if days \<le> 90 then (rnd (90/100), [])
            else if days \<le> 180 then (rnd (75/100), [])
            else if days \<le> 365 then
              (rnd (55/100), [''evidence older than 6 months; consider refreshing''])
            else if days \<le> 730 then (rnd (30/100), [''evidence older than 1 year; currency risk''])
            else (rnd (10/100), [''evidence older than 2 years; likely stale''])))"

definition scoreReliability :: "ev_lib \<Rightarrow> Evidence \<Rightarrow> float64 \<times> string list" where
  "scoreReliability L ev =
     (case sourceReliabilityBase (ev_SourceType ev) of
        None \<Rightarrow> (rnd (50/100), [''unknown source type; defaulting to 0.50 reliability''])
      | Some base \<Rightarrow>
          (let bonus = fl_mul (rnd (of_nat (length (ev_ProvenanceChain ev)))) (rnd (2/100));
               bonus = (if rnd (8/100) < bonus then rnd (8/100) else bonus);
               hashBonus = (if TrimSpace L (ev_FileHash ev) \<noteq> [] then rnd (5/100) else 0)
           in (ev_clamp (fl_add (fl_add base bonus) hashBonus), [])))"

definition scoreCorroboration :: "Evidence \<Rightarrow> Evidence list \<Rightarrow> float64 \<times> string list" where
  "scoreCorroboration ev peers =
     (let peerCount = length (filter (\<lambda>p. ev_ID p \<noteq> ev_ID ev) peers)
      in if peerCount = 0 then
           (rnd (20/100), [''sole evidence for this control; no corroboration''])
         else if peerCount = 1 then (rnd (50/100), [])
         else if peerCount = 2 then (rnd (70/100), [])
         else if peerCount = 3 then (rnd (85/100), [])
         else (1, []))"

definition relevantTerms :: "string list" where
  "relevantTerms = [''control'', ''audit'', ''compliance'', ''security'', ''risk'', ''policy'',
     ''access'', ''authentication'', ''encryption'', ''monitoring'', ''vulnerability'',
     ''incident'', ''patch'', ''firewall'', ''backup'', ''continuity'']"

definition scoreRelevance :: "ev_lib \<Rightarrow> Evidence \<Rightarrow> float64 \<times> string list" where
  "scoreRelevance L ev =
     (let tagScore = (if ev_Tags ev \<noteq> [] then rnd (20/100) else 0);
          content = ToLower L (ev_Title ev @ '' '' @ ev_Description ev @ '' '' @ ev_Content ev);
          hits = length (filter (Contains content) relevantTerms);
          contentScore = (if 5 \<le> hits then rnd (80/100) else if 3 \<le> hits then rnd (65/100)
            else if 1 \<le> hits then rnd (50/100) else rnd (40/100));
          score = ev_clamp (fl_add contentScore tagScore)
      in (score, if score < rnd (50/100)
                 then [''low relevance score; review if evidence maps to the correct control''] else []))"

definition ev_Score :: "ev_lib \<Rightarrow> uuid \<Rightarrow> gotime \<Rightarrow> gotime \<Rightarrow> Evidence \<Rightarrow> Evidence list \<Rightarrow> QualityScore" where
  "ev_Score L fresh since now ev peers =
     (let completeness = scoreCompleteness L ev;
          currency = scoreCurrency since ev;
          reliability = scoreReliability L ev;
          corroboration = scoreCorroboration ev peers;
          relevance = scoreRelevance L ev;
          aggregate = fl_add (fl_add (fl_add (fl_add
              (fl_mul weightCompleteness (fst completeness))
              (fl_mul weightCurrency (fst currency)))
              (fl_mul weightReliability (fst reliability)))
              (fl_mul weightCorroboration (fst corroboration)))
              (fl_mul weightRelevance (fst relevance))
      in \<lparr> qs_ID = fresh, qs_EvidenceID = ev_ID ev, qs_OrgID = ev_OrgID ev,
           qs_CompletenessScore = roundScore (fst completeness),
           qs_CurrencyScore = roundScore (fst currency),
           qs_SourceReliability = roundScore (fst reliability),
           qs_CorroborationScore = roundScore (fst corroboration),
           qs_RelevanceScore = roundScore (fst relevance),
           qs_AggregateScore = roundScore aggregate,
           qs_Deficiencies = snd completeness @ snd currency @ snd reliability @
             snd corroboration @ snd relevance,
           qs_ScoredAt = now \<rparr>)"

section \<open>Sufficiency\<close>

record thresholdConfig =
  minCount :: int
  minScore :: float64

definition thresholds :: "string \<Rightarrow> thresholdConfig option" where
  "thresholds = map_of
     [(ev_RiskCritical, \<lparr> minCount = 5, minScore = rnd (80/100) \<rparr>),
      (ev_RiskHigh, \<lparr> minCount = 4, minScore = rnd (70/100) \<rparr>),
      (ev_RiskMedium, \<lparr> minCount = 3, minScore = rnd (60/100) \<rparr>),
      (ev_RiskLow, \<lparr> minCount = 2, minScore = rnd (50/100) \<rparr>),
      (ev_RiskInformational, \<lparr> minCount = 1, minScore = rnd (40/100) \<rparr>)]"

definition defaultThreshold :: thresholdConfig where
  "defaultThreshold = \<lparr> minCount = 3, minScore = rnd (60/100) \<rparr>"

text \<open>\<open>itoa\<close> prepends a digit per turn of its loop; a negative number has no turn and no text.\<close>

function itoa_loop :: "int \<Rightarrow> string \<Rightarrow> string" where
  "itoa_loop n buf =
     (if 0 < n then itoa_loop (n div 10) (char_of (48 + nat (n mod 10)) # buf) else buf)"
  by auto
termination
  by (relation "measure (\<lambda>(n, _). nat n)") auto

declare itoa_loop.simps [simp del]

definition itoa :: "int \<Rightarrow> string" where
  "itoa n = (if n = 0 then ''0'' else itoa_loop n [])"

definition ftoa :: "float64 \<Rightarrow> string" where
  "ftoa f =
     (let intPart = trunc_int f;
          frac = trunc_int (fl_add (fl_mul (fl_sub f (rnd (of_int intPart))) 100) (1/2))
      in itoa intPart @ ''.'' @ (if frac < 10 then ''0'' else []) @ itoa frac)"

definition buildCountGap :: "string \<Rightarrow> int \<Rightarrow> int \<Rightarrow> string" where
  "buildCountGap rr have_n need =
     rr @ '' risk requires '' @ itoa need @ '' evidence items; only '' @ itoa have_n @ '' provided''"

definition buildScoreGap :: "string \<Rightarrow> float64 \<Rightarrow> float64 \<Rightarrow> string" where
  "buildScoreGap rr have_s need =
     rr @ '' risk requires aggregate quality >= '' @ ftoa need @ ''; current = '' @ ftoa have_s"

text \<open>The diversity check returns nothing whatever it is given.\<close>

definition checkTierDiversity :: "Evidence list \<Rightarrow> string list" where
  "checkTierDiversity evidenceItems = []"

definition threshold_for :: "string \<Rightarrow> thresholdConfig" where
  "threshold_for riskRating =
     (case thresholds riskRating of Some cfg \<Rightarrow> cfg | None \<Rightarrow> defaultThreshold)"

definition avgScore :: "QualityScore list \<Rightarrow> float64" where
  "avgScore scores =
     (if scores \<noteq> []
      then fl_div (foldl (\<lambda>total qs. fl_add total (qs_AggregateScore qs)) 0 scores)
             (rnd (of_nat (length scores)))
      else 0)"

definition Evaluate :: "Evidence list \<Rightarrow> QualityScore list \<Rightarrow> string \<Rightarrow> SufficiencyResult" where
  "Evaluate evidenceItems scores riskRating =
     (let cfg = threshold_for riskRating;
          n = int (length evidenceItems);
          avg = avgScore scores;
          gaps = (if n < minCount cfg then [buildCountGap riskRating n (minCount cfg)] else []) @
            (if avg < minScore cfg then [buildScoreGap riskRating avg (minScore cfg)] else []) @
            checkTierDiversity evidenceItems
      in \<lparr> sr_ControlID = uuid_Nil, sr_RiskRating = riskRating, sr_EvidenceCount = n,
           sr_MinRequired = minCount cfg, sr_AggregateScore = roundScore avg,
           sr_MinScoreRequired = minScore cfg, sr_IsSufficient = (gaps = []), sr_Gaps = gaps,
           sr_EvidenceIDs = [] \<rparr>)"

section \<open>Scores stay between 0 and 1\<close>

definition unit_score :: "float64 \<Rightarrow> bool" where
  "unit_score v \<longleftrightarrow> 0 \<le> v \<and> v \<le> 1"

lemma unit_clamp [simp]: "unit_score (ev_clamp v)"
  by (simp add: unit_score_def ev_clamp_def)

lemma unit_rnd: "0 \<le> x \<Longrightarrow> x \<le> 1 \<Longrightarrow> unit_score (rnd x)"
  by (simp add: unit_score_def rnd_nonneg rnd_le_1)

lemma unit_parts:
  "unit_score (fst (scoreCompleteness L ev))"
  "unit_score (fst (scoreCurrency t ev))"
  "unit_score (fst (scoreReliability L ev))"
  "unit_score (fst (scoreCorroboration ev peers))"
  "unit_score (fst (scoreRelevance L ev))"
proof -
  have one: "unit_score 1" by (simp add: unit_score_def)
  show "unit_score (fst (scoreCompleteness L ev))" by (simp add: scoreCompleteness_def Let_def)
  show "unit_score (fst (scoreCurrency t ev))"
    by (simp add: scoreCurrency_def Let_def unit_rnd one)
  show "unit_score (fst (scoreReliability L ev))"
    by (simp add: scoreReliability_def Let_def unit_rnd split: option.split)
  show "unit_score (fst (scoreCorroboration ev peers))"
    by (simp add: scoreCorroboration_def Let_def unit_rnd one)
  show "unit_score (fst (scoreRelevance L ev))" by (simp add: scoreRelevance_def Let_def)
qed

lemma unit_roundScore:
  assumes "unit_score v"
  shows "unit_score (roundScore v)"
proof -
  have v: "0 \<le> v * 10000" "v * 10000 \<le> of_int 10000" using assms by (auto simp: unit_score_def)
  have m: "0 \<le> fl_mul v 10000" "fl_mul v 10000 \<le> of_int 10000"
    using rnd_nonneg [OF v(1)] rnd_mono [OF v(2)] rnd_int [of 10000] by (simp_all add: fl_mul_def)
  then have t: "0 \<le> trunc_int (fl_mul v 10000)" "trunc_int (fl_mul v 10000) \<le> 10000"
    using floor_mono [OF m(2)] by (simp_all add: trunc_int_def)
  then have r: "rnd (of_int (trunc_int (fl_mul v 10000))) = of_int (trunc_int (fl_mul v 10000))"
    by (intro rnd_int) simp
  have q: "(of_int (trunc_int (fl_mul v 10000)) :: rat) \<le> of_int 10000" using t(2) by (simp only: of_int_le_iff)
  show ?thesis unfolding roundScore_def fl_div_def r using t q by (intro unit_rnd) simp_all
qed

end
