(* ===== verification/EvidenceService.thy ===== *)
theory EvidenceService
  imports EvidenceScorer "HOL-Library.AList"
begin

text \<open>
  The evidence service's ingester (\<open>services/evidence/internal/ingester/ingester.go\<close>), its in-memory
  repository, the only one there is (\<open>internal/repository/repository.go\<close>), and its HTTP handlers and
  routes (\<open>internal/handler/handler.go\<close>).

  A Go map is an association list without repeated keys, walked in the order \<open>shuffle\<close> gives for a
  list of choices. The record \<open>ev_fresh\<close> holds what one ingested item draws: three random UUIDs and
  the clock at each of its readings.
\<close>

section \<open>The ingester\<close>

record ev_fresh =
  fr_id :: uuid
  fr_class_id :: uuid
  fr_score_id :: uuid
  fr_collected :: gotime
  fr_ingested :: gotime
  fr_created :: gotime
  fr_updated :: gotime
  fr_classified :: gotime
  fr_since :: gotime
  fr_scored :: gotime

definition ev_validate :: "ev_lib \<Rightarrow> IngestRequest \<Rightarrow> string option" where
  "ev_validate L req =
     (if TrimSpace L (ir_OrgID req) = [] then Some ''org_id is required''
      else if TrimSpace L (ir_EngagementID req) = [] then Some ''engagement_id is required''
      else if TrimSpace L (ir_ControlID req) = [] then Some ''control_id is required''
      else if TrimSpace L (ir_Title req) = [] then Some ''title is required''
      else if ir_SourceType req \<notin> {SourceManualUpload, SourceAPIIntegration, SourceAutomatedScan,
          SourceScreenshot, SourceLogExport, SourceConfigurationExport}
        then Some (''invalid source_type: '' @ Quote L (ir_SourceType req))
      else if ir_ContentFormat req \<notin> {FormatJSON, FormatCSV, FormatLog, FormatText}
        then Some (''invalid content_format: '' @ Quote L (ir_ContentFormat req))
      else None)"

definition parseJSON :: "ev_lib \<Rightarrow> string \<Rightarrow> string + string" where
  "parseJSON L content =
     (if TrimSpace L content = [] then Inr []
      else case json_Unmarshal L content of
        Inl e \<Rightarrow> Inl (''invalid JSON: '' @ e)
      | Inr v \<Rightarrow> (case json_Marshal L v of Inl e \<Rightarrow> Inl (''re-marshal: '' @ e) | Inr b \<Rightarrow> Inr b))"

definition parseCSV :: "ev_lib \<Rightarrow> string \<Rightarrow> string + string" where
  "parseCSV L content =
     (if TrimSpace L content = [] then Inr []
      else case csv_ReadAll L content of
        Inl e \<Rightarrow> Inl (''invalid CSV: '' @ e)
      | Inr records \<Rightarrow> if records = [] then Inl ''CSV has no records'' else Inr content)"

text \<open>\<open>strings.Split(content, "\n")\<close>.\<close>

fun split_lines :: "string \<Rightarrow> string list" where
  "split_lines [] = [[]]"
| "split_lines (c # s) =
     (if c = CHR 0x0A then [] # split_lines s
      else case split_lines s of [] \<Rightarrow> [[c]] | l # ls \<Rightarrow> (c # l) # ls)"

definition parseLog :: "ev_lib \<Rightarrow> string \<Rightarrow> string + string" where
  "parseLog L content =
     (if TrimSpace L content = [] then Inr []
      else if split_lines content = [] then Inl ''log content has no lines''
      else Inr content)"

definition parseContent :: "ev_lib \<Rightarrow> string \<Rightarrow> string \<Rightarrow> string + string" where
  "parseContent L content format =
     (if format = FormatJSON then parseJSON L content
      else if format = FormatCSV then parseCSV L content
      else if format = FormatLog then parseLog L content
      else Inr content)"

text \<open>The keys of the map \<open>seen\<close> are the tags already in the result.\<close>

definition add_tag :: "ev_lib \<Rightarrow> string list \<Rightarrow> string \<Rightarrow> string list" where
  "add_tag L result t =
     (let t = ToLower L (TrimSpace L t)
      in if t = [] then result else if t \<in> set result then result else result @ [t])"

definition normaliseTags :: "ev_lib \<Rightarrow> string list \<Rightarrow> string list" where
  "normaliseTags L tags = foldl (add_tag L) [] tags"

definition Ingest :: "ev_lib \<Rightarrow> ev_fresh \<Rightarrow> IngestRequest \<Rightarrow> string + Evidence" where
  "Ingest L fr req =
     (case ev_validate L req of
        Some e \<Rightarrow> Inl (''validation: '' @ e)
      | None \<Rightarrow>
     (case uuid_Parse L (ir_OrgID req) of
        Inl e \<Rightarrow> Inl (''invalid org_id: '' @ e)
      | Inr orgID \<Rightarrow>
     (case uuid_Parse L (ir_EngagementID req) of
        Inl e \<Rightarrow> Inl (''invalid engagement_id: '' @ e)
      | Inr engagementID \<Rightarrow>
     (case uuid_Parse L (ir_ControlID req) of
        Inl e \<Rightarrow> Inl (''invalid control_id: '' @ e)
      | Inr controlID \<Rightarrow>
     (case parseContent L (ir_Content req) (ir_ContentFormat req) of
        Inl e \<Rightarrow> Inl (''content parse ('' @ ir_ContentFormat req @ ''): '' @ e)
      | Inr normContent \<Rightarrow>
          Inr \<lparr> ev_ID = fr_id fr, ev_OrgID = orgID, ev_EngagementID = engagementID,
            ev_ControlID = controlID, ev_UploadedByID = None,
            ev_Title = TrimSpace L (ir_Title req), ev_Description = TrimSpace L (ir_Description req),
            ev_SourceType = ir_SourceType req, ev_SourceRef = ir_SourceRef req,
            ev_ContentFormat = ir_ContentFormat req, ev_Content = normContent,
            ev_FilePath = [], ev_FileHash = [],
            ev_CollectedAt = (case ir_CollectedAt req of Some t \<Rightarrow> t | None \<Rightarrow> fr_collected fr),
            ev_Tags = normaliseTags L (ir_Tags req), ev_Metadata = ir_Metadata req,
            ev_ProvenanceChain = [\<lparr> pv_Timestamp = fr_ingested fr, pv_ActorID = None,
              pv_Action = ''ingested'',
              pv_Description = ''evidence ingested via API; format='' @ ir_ContentFormat req @
                '' source='' @ ir_SourceType req, pv_Hash = [] \<rparr>],
            ev_CreatedAt = fr_created fr, ev_UpdatedAt = fr_updated fr \<rparr>)))))"

section \<open>The repository\<close>

record MemoryRepository =
  mr_evidence :: "(uuid \<times> Evidence) list"
  mr_classifications :: "(uuid \<times> Classification) list"
  mr_qualityScores :: "(uuid \<times> QualityScore) list"

definition NewMemory :: MemoryRepository where
  "NewMemory = \<lparr> mr_evidence = [], mr_classifications = [], mr_qualityScores = [] \<rparr>"

definition evr_Save :: "MemoryRepository \<Rightarrow> Evidence \<Rightarrow> MemoryRepository" where
  "evr_Save s ev = s\<lparr> mr_evidence := AList.update (ev_ID ev) ev (mr_evidence s) \<rparr>"

definition evr_FindByID :: "MemoryRepository \<Rightarrow> uuid \<Rightarrow> Evidence option" where
  "evr_FindByID s i = map_of (mr_evidence s) i"

definition evr_FindByControlID :: "nat list \<Rightarrow> MemoryRepository \<Rightarrow> uuid \<Rightarrow> Evidence list" where
  "evr_FindByControlID ch s controlID =
     filter (\<lambda>ev. ev_ControlID ev = controlID) (map snd (shuffle ch (mr_evidence s)))"

definition evr_SaveClassification :: "MemoryRepository \<Rightarrow> Classification \<Rightarrow> MemoryRepository" where
  "evr_SaveClassification s c =
     s\<lparr> mr_classifications := AList.update (cl_EvidenceID c) c (mr_classifications s) \<rparr>"

definition evr_FindClassificationByEvidenceID :: "MemoryRepository \<Rightarrow> uuid \<Rightarrow> Classification option" where
  "evr_FindClassificationByEvidenceID s i = map_of (mr_classifications s) i"

definition evr_SaveQualityScore :: "MemoryRepository \<Rightarrow> QualityScore \<Rightarrow> MemoryRepository" where
  "evr_SaveQualityScore s qs =
     s\<lparr> mr_qualityScores := AList.update (qs_EvidenceID qs) qs (mr_qualityScores s) \<rparr>"

definition evr_FindQualityScoreByEvidenceID :: "MemoryRepository \<Rightarrow> uuid \<Rightarrow> QualityScore option" where
  "evr_FindQualityScoreByEvidenceID s i = map_of (mr_qualityScores s) i"

definition evr_FindQualityScoresByControlID ::
  "nat list \<Rightarrow> MemoryRepository \<Rightarrow> uuid \<Rightarrow> QualityScore list" where
  "evr_FindQualityScoresByControlID ch s controlID =
     List.map_filter (\<lambda>ev. map_of (mr_qualityScores s) (ev_ID ev)) (evr_FindByControlID ch s controlID)"

section \<open>The handlers\<close>

datatype ev_body =
    EvError string
  | EvHealthy "(string \<times> string) list"
  | EvReady bool
  | EvIngested Evidence Classification QualityScore
  | EvResults "(string + Evidence \<times> Classification \<times> QualityScore) list"
  | EvEvidence Evidence
  | EvList "Evidence list" int
  | EvClassified Classification
  | EvQuality QualityScore
  | EvSufficiency SufficiencyResult

type_synonym ev_response = "ev_body response"

definition ev_writeError :: "nat \<Rightarrow> string \<Rightarrow> ev_response" where
  "ev_writeError status msg = JsonResponse status (EvError msg)"

text \<open>
  The request body: \<open>Inl\<close> when it is not JSON; otherwise what the three \<open>json.Unmarshal\<close> calls give,
  of which the first yields the raw text of the member \<open>items\<close> (empty when there is none).
\<close>

record ev_raw =
  raw_probe :: "string decoded"
  raw_batch :: "IngestRequest list decoded"
  raw_single :: "IngestRequest decoded"

text \<open>
  What is done with an ingested item, alone or in a batch: store, classify, score against the
  evidence of its control, itself included.
\<close>

definition store_ingested ::
  "ev_lib \<Rightarrow> nat list \<Rightarrow> ev_fresh \<Rightarrow> MemoryRepository \<Rightarrow> Evidence \<Rightarrow>
   MemoryRepository \<times> Classification \<times> QualityScore" where
  "store_ingested L ch fr s ev =
     (let s = evr_Save s ev;
          classification = Classify L (fr_class_id fr) (fr_classified fr) ev;
          s = evr_SaveClassification s classification;
          peers = evr_FindByControlID ch s (ev_ControlID ev);
          qs = ev_Score L (fr_score_id fr) (fr_since fr) (fr_scored fr) ev peers
      in (evr_SaveQualityScore s qs, classification, qs))"

definition handleSingleIngest ::
  "ev_lib \<Rightarrow> nat list \<Rightarrow> ev_fresh \<Rightarrow> MemoryRepository \<Rightarrow> IngestRequest \<Rightarrow> MemoryRepository \<times> ev_response" where
  "handleSingleIngest L ch fr s req =
     (case Ingest L fr req of
        Inl e \<Rightarrow> (s, ev_writeError 400 e)
      | Inr ev \<Rightarrow>
          (case store_ingested L ch fr s ev of
             (s', c, qs) \<Rightarrow> (s', JsonResponse 201 (EvIngested ev c qs))))"

fun batch_loop ::
  "ev_lib \<Rightarrow> nat list \<Rightarrow> ev_fresh list \<Rightarrow> MemoryRepository \<Rightarrow> IngestRequest list \<Rightarrow>
   MemoryRepository \<times> (string + Evidence \<times> Classification \<times> QualityScore) list" where
  "batch_loop L ch (fr # frs) s (req # reqs) =
     (case Ingest L fr req of
        Inl e \<Rightarrow> (case batch_loop L ch frs s reqs of (s'', rs) \<Rightarrow> (s'', Inl e # rs))
      | Inr ev \<Rightarrow>
          (case store_ingested L ch fr s ev of
             (s', c, qs) \<Rightarrow>
               (case batch_loop L ch frs s' reqs of (s'', rs) \<Rightarrow> (s'', Inr (ev, c, qs) # rs))))"
| "batch_loop L ch frs s reqs = (s, [])"

text \<open>Item \<open>n\<close> of the batch draws from \<open>fresh n\<close>.\<close>

definition handleBatchIngest ::
  "ev_lib \<Rightarrow> nat list \<Rightarrow> (nat \<Rightarrow> ev_fresh) \<Rightarrow> MemoryRepository \<Rightarrow> IngestRequest list \<Rightarrow>
   MemoryRepository \<times> ev_response" where
  "handleBatchIngest L ch fresh s items =
     (case batch_loop L ch (map fresh [0..<length items]) s items of
        (s', results) \<Rightarrow> (s', JsonResponse 201 (EvResults results)))"

definition ingestEvidence ::
  "ev_lib \<Rightarrow> nat list \<Rightarrow> (nat \<Rightarrow> ev_fresh) \<Rightarrow> MemoryRepository \<Rightarrow> ev_raw decoded \<Rightarrow>
   MemoryRepository \<times> ev_response" where
  "ingestEvidence L ch fresh s body =
     (case body of
        Inl _ \<Rightarrow> (s, ev_writeError 400 ''invalid JSON body'')
      | Inr raw \<Rightarrow>
          (let isBatch = (case raw_probe raw of
               Inl _ \<Rightarrow> False
             | Inr items \<Rightarrow> items \<noteq> [] \<and> HasPrefix (TrimSpace L items) ''['')
           in if isBatch then
                (case raw_batch raw of
                   Inl e \<Rightarrow> (s, ev_writeError 400 (''invalid batch payload: '' @ e))
                 | Inr items \<Rightarrow> handleBatchIngest L ch fresh s items)
              else
                (case raw_single raw of
                   Inl e \<Rightarrow> (s, ev_writeError 400 (''invalid evidence payload: '' @ e))
                 | Inr req \<Rightarrow> handleSingleIngest L ch (fresh 0) s req)))"

definition getEvidence :: "ev_lib \<Rightarrow> MemoryRepository \<Rightarrow> string \<Rightarrow> ev_response" where
  "getEvidence L s i =
     (case uuid_Parse L i of
        Inl _ \<Rightarrow> ev_writeError 400 ''invalid evidence id''
      | Inr i \<Rightarrow> (case evr_FindByID s i of
          None \<Rightarrow> ev_writeError 404 ''evidence not found''
        | Some ev \<Rightarrow> JsonResponse 200 (EvEvidence ev)))"

definition listEvidenceByControl :: "ev_lib \<Rightarrow> nat list \<Rightarrow> MemoryRepository \<Rightarrow> string \<Rightarrow> ev_response" where
  "listEvidenceByControl L ch s controlIDStr =
     (if controlIDStr = [] then ev_writeError 400 ''control_id query parameter is required''
      else case uuid_Parse L controlIDStr of
        Inl _ \<Rightarrow> ev_writeError 400 ''invalid control_id''
      | Inr controlID \<Rightarrow>
          (let evs = evr_FindByControlID ch s controlID
           in JsonResponse 200 (EvList evs (int (length evs)))))"

definition classifyEvidence ::
  "ev_lib \<Rightarrow> ev_fresh \<Rightarrow> MemoryRepository \<Rightarrow> string \<Rightarrow> MemoryRepository \<times> ev_response" where
  "classifyEvidence L fr s i =
     (case uuid_Parse L i of
        Inl _ \<Rightarrow> (s, ev_writeError 400 ''invalid evidence id'')
      | Inr i \<Rightarrow> (case evr_FindByID s i of
          None \<Rightarrow> (s, ev_writeError 404 ''evidence not found'')
        | Some ev \<Rightarrow>
            (let c = Classify L (fr_class_id fr) (fr_classified fr) ev
             in (evr_SaveClassification s c, JsonResponse 200 (EvClassified c)))))"

definition getQualityScore :: "ev_lib \<Rightarrow> MemoryRepository \<Rightarrow> string \<Rightarrow> ev_response" where
  "getQualityScore L s i =
     (case uuid_Parse L i of
        Inl _ \<Rightarrow> ev_writeError 400 ''invalid evidence id''
      | Inr i \<Rightarrow> (case evr_FindQualityScoreByEvidenceID s i of
          None \<Rightarrow> ev_writeError 404 ''quality score not found''
        | Some qs \<Rightarrow> JsonResponse 200 (EvQuality qs)))"

text \<open>The two maps are walked separately, each in an order of its own.\<close>

definition getControlSufficiency ::
  "ev_lib \<Rightarrow> nat list \<Rightarrow> nat list \<Rightarrow> MemoryRepository \<Rightarrow> string \<Rightarrow> string \<Rightarrow> ev_response" where
  "getControlSufficiency L ch ch' s controlIDStr riskRatingStr =
     (case uuid_Parse L controlIDStr of
        Inl _ \<Rightarrow> ev_writeError 400 ''invalid control_id''
      | Inr controlID \<Rightarrow>
          (let riskRating = (if riskRatingStr = [] then ev_RiskMedium else riskRatingStr);
               evs = evr_FindByControlID ch s controlID;
               scores = evr_FindQualityScoresByControlID ch' s controlID;
               result = Evaluate evs scores riskRating
           in JsonResponse 200 (EvSufficiency (result\<lparr> sr_ControlID := controlID \<rparr>))))"

datatype ev_request =
    EvGetHealth
  | EvGetReady
  | EvPost "ev_raw decoded"
  | EvGet string
  | EvGetList string
  | EvPostClassify string
  | EvGetQuality string
  | EvGetSufficiency string string

definition ev_Router ::
  "ev_lib \<Rightarrow> nat list \<Rightarrow> nat list \<Rightarrow> (nat \<Rightarrow> ev_fresh) \<Rightarrow> MemoryRepository \<Rightarrow> ev_request \<Rightarrow>
   MemoryRepository \<times> ev_response" where
  "ev_Router L ch ch' fresh s r =
     (case r of
        EvGetHealth \<Rightarrow> (s, JsonResponse 200 (EvHealthy [(''service'', ''evidence''),
          (''status'', ''healthy''), (''version'', ''0.1.0'')]))
      | EvGetReady \<Rightarrow> (s, JsonResponse 200 (EvReady True))
      | EvPost body \<Rightarrow> ingestEvidence L ch fresh s body
      | EvGet i \<Rightarrow> (s, getEvidence L s i)
      | EvGetList c \<Rightarrow> (s, listEvidenceByControl L ch s c)
      | EvPostClassify i \<Rightarrow> classifyEvidence L (fresh 0) s i
      | EvGetQuality i \<Rightarrow> (s, getQualityScore L s i)
      | EvGetSufficiency c rr \<Rightarrow> (s, getControlSufficiency L ch ch' s c rr))"

end
