(* ===== verification/MapWalk.thy ===== *)
theory MapWalk
  imports Prelude "HOL-Library.Multiset"
begin

text \<open>
  The order in which Go walks a map is an argument of the models (\<open>shuffle\<close>): whatever it is, the
  walk meets every entry once.
\<close>

lemma shuffle_mset: "mset (shuffle ns xs) = mset xs"
proof (induction ns xs rule: shuffle.induct)
  case (1 n ns x xs)
  let ?i = "n mod Suc (length xs)" and ?l = "x # xs"
  have i: "?i < length ?l" by simp
  have "mset (shuffle (n # ns) ?l) = add_mset (?l ! ?i) (mset (take ?i ?l @ drop (Suc ?i) ?l))"
    using 1 by (simp add: Let_def)
  also have "\<dots> = mset (take ?i ?l @ ?l ! ?i # drop (Suc ?i) ?l)" by simp
  also have "\<dots> = mset ?l" using id_take_nth_drop [OF i] by simp
  finally show ?case .
qed simp_all

lemma shuffle_nil [simp]: "shuffle [] xs = xs"
  by (cases xs) simp_all

lemma shuffle_distinct_map: "distinct (map f (shuffle ns xs)) = distinct (map f xs)"
  by (metis mset_eq_imp_distinct_iff mset_map shuffle_mset)

end
