(* ===== verification/EvidenceRecords.thy ===== *)
theory EvidenceRecords
  imports EvidenceService MapWalk
begin

text \<open>
  What every request of the evidence service leaves in its repository, and what its three
  calculations compute: the best rule of the classifier, the bounds of a score, and how far the
  floating average of the scores is from the exact one.
\<close>

section \<open>The three maps\<close>

locale record_map =
  fixes key :: "'v \<Rightarrow> uuid" and put :: "'s \<Rightarrow> 'v \<Rightarrow> 's" and get :: "'s \<Rightarrow> uuid \<Rightarrow> 'v option"
  assumes get_put: "get (put s v) k = (if k = key v then Some v else get s k)"
begin

lemma reads_back: "get (put s v) (key v) = Some v"
  by (simp add: get_put)

lemma keeps: "get s k \<noteq> None \<Longrightarrow> get s (key v) = None \<Longrightarrow> get (put s v) k = get s k"
  by (auto simp: get_put)

lemma stored: "get (put s v) k = Some w \<Longrightarrow> w = v \<and> k = key v \<or> get s k = Some w"
  by (auto simp: get_put split: if_splits)

end

interpretation evs: record_map ev_ID evr_Save evr_FindByID
  by unfold_locales (simp add: evr_Save_def evr_FindByID_def update_conv')

interpretation cls: record_map cl_EvidenceID evr_SaveClassification evr_FindClassificationByEvidenceID
  by unfold_locales
    (simp add: evr_SaveClassification_def evr_FindClassificationByEvidenceID_def update_conv')

interpretation scs: record_map qs_EvidenceID evr_SaveQualityScore evr_FindQualityScoreByEvidenceID
  by unfold_locales
    (simp add: evr_SaveQualityScore_def evr_FindQualityScoreByEvidenceID_def update_conv')

lemma other_maps [simp]:
  "evr_FindByID (evr_SaveClassification s c) = evr_FindByID s"
  "evr_FindByID (evr_SaveQualityScore s q) = evr_FindByID s"
  "evr_FindClassificationByEvidenceID (evr_Save s ev) = evr_FindClassificationByEvidenceID s"
  "evr_FindClassificationByEvidenceID (evr_SaveQualityScore s q) = evr_FindClassificationByEvidenceID s"
  "evr_FindQualityScoreByEvidenceID (evr_Save s ev) = evr_FindQualityScoreByEvidenceID s"
  "evr_FindQualityScoreByEvidenceID (evr_SaveClassification s c) = evr_FindQualityScoreByEvidenceID s"
  by (simp_all add: fun_eq_iff evr_FindByID_def evr_SaveClassification_def evr_SaveQualityScore_def
      evr_Save_def evr_FindClassificationByEvidenceID_def evr_FindQualityScoreByEvidenceID_def)

section \<open>The classifier\<close>

lemma better_rule_eq: "better_rule txt src fmt r (t, c, x) =
    (if c < scoreRule r txt src fmt
     then (tr_tier r, scoreRule r txt src fmt, buildReasoning r txt) else (t, c, x))"
  by (simp add: better_rule_def Let_def)

lemma fold_better:
  "(\<forall>r\<in>set rs. scoreRule r txt src fmt \<le> c) \<and> fold (better_rule txt src fmt) rs (t, c, x) = (t, c, x) \<or>
   (\<exists>i<length rs. fold (better_rule txt src fmt) rs (t, c, x) =
        (tr_tier (rs ! i), scoreRule (rs ! i) txt src fmt, buildReasoning (rs ! i) txt) \<and>
      c < scoreRule (rs ! i) txt src fmt \<and>
      (\<forall>j<length rs. scoreRule (rs ! j) txt src fmt \<le> scoreRule (rs ! i) txt src fmt) \<and>
      (\<forall>j<i. scoreRule (rs ! j) txt src fmt < scoreRule (rs ! i) txt src fmt))"
proof (induction rs rule: rev_induct)
  case (snoc r rs)
  let ?sc = "\<lambda>r. scoreRule r txt src fmt"
  from snoc consider
    (none) "\<forall>r\<in>set rs. ?sc r \<le> c" "fold (better_rule txt src fmt) rs (t, c, x) = (t, c, x)"
  | (some) i where "i < length rs"
      "fold (better_rule txt src fmt) rs (t, c, x) = (tr_tier (rs ! i), ?sc (rs ! i), buildReasoning (rs ! i) txt)"
      "c < ?sc (rs ! i)" "\<forall>j<length rs. ?sc (rs ! j) \<le> ?sc (rs ! i)" "\<forall>j<i. ?sc (rs ! j) < ?sc (rs ! i)"
    by blast
  then show ?case
  proof cases
    case none
    show ?thesis
    proof (cases "c < ?sc r")
      case True
      then have "\<forall>j<length rs. ?sc (rs ! j) < ?sc r" using none(1) by (meson nth_mem le_less_trans)
      with True none(2) show ?thesis
        by (intro disjI2 exI [of _ "length rs"]) (auto simp: better_rule_eq nth_append less_Suc_eq)
    qed (use none in \<open>auto simp: better_rule_eq\<close>)
  next
    case some
    show ?thesis
    proof (cases "?sc (rs ! i) < ?sc r")
      case True
      then have "\<forall>j<length rs. ?sc (rs ! j) < ?sc r" using some(4) by (meson le_less_trans)
      with True some(2,3) show ?thesis
        by (intro disjI2 exI [of _ "length rs"]) (auto simp: better_rule_eq nth_append less_Suc_eq)
    next
      case False
      with some show ?thesis
        by (intro disjI2 exI [of _ i]) (auto simp: better_rule_eq nth_append less_Suc_eq)
    qed
  qed
qed simp

lemma rnd_half [simp]: "rnd (1/2) = 1/2"
  using rnd_dyadic [of 1 1] by simp

lemma rnd_tenths: "rnd (40/100) < 1/2" "0 \<le> rnd (5/100)" "rnd (5/100) \<le> 1/16" "0 \<le> rnd (10/100)"
  "rnd (10/100) \<le> 1/8" "1/2 \<le> rnd (80/100)" "rnd (80/100) \<le> 13/16"
  using rnd_le [of "40/100" 7 4] rnd_le [of "5/100" 1 4] rnd_le [of "10/100" 1 3]
    rnd_ge [of 1 1 "80/100"] rnd_le [of "80/100" 13 4]
  by (simp_all add: rnd_nonneg)

lemma scoreRule_bounds:
  assumes "keywordHits r txt \<noteq> 0"
  shows "1/2 \<le> scoreRule r txt src fmt \<and> scoreRule r txt src fmt \<le> 1"
proof -
  let ?m = "fl_mul (of_nat (keywordHits r txt)) (rnd (5/100))"
  have m: "0 \<le> ?m" using rnd_tenths by (simp add: fl_mul_def rnd_nonneg)
  have up: "1/2 \<le> fl_add v w" if "1/2 \<le> v" "0 \<le> w" for v w
    using that rnd_ge [of 1 1 "v + w"] by (simp add: fl_add_def)
  have a: "1/2 \<le> fl_add (rnd (1/2)) ?m" using m rnd_tenths by (intro up) simp_all
  obtain s1 where s1_def: "s1 = (if rnd (80/100) < fl_add (rnd (1/2)) ?m then rnd (80/100) else fl_add (rnd (1/2)) ?m)"
    by blast
  have s1: "1/2 \<le> s1" "s1 \<le> 13/16" using a rnd_tenths by (auto simp: s1_def)
  obtain s2 where s2_def: "s2 = (if src \<in> set (tr_sources r) then fl_add s1 (rnd (10/100)) else s1)"
    by blast
  have s2: "1/2 \<le> s2" "s2 \<le> 15/16"
    using s1 rnd_tenths up [of s1 "rnd (10/100)"] rnd_le [of "s1 + rnd (10/100)" 15 4]
    by (auto simp: s2_def fl_add_def)
  have "scoreRule r txt src fmt = (if fmt \<in> set (tr_formats r) then fl_add s2 (rnd (5/100)) else s2)"
    using assms by (simp add: scoreRule_def s1_def s2_def Let_def)
  then show ?thesis
    using s2 rnd_tenths up [of s2 "rnd (5/100)"] rnd_le_1 [of "s2 + rnd (5/100)"] by (auto simp: fl_add_def)
qed

lemma scoreRule_hit: "rnd (40/100) < scoreRule r txt src fmt \<longleftrightarrow> keywordHits r txt \<noteq> 0"
proof (cases "keywordHits r txt = 0")
  case True
  then show ?thesis using rnd_nonneg [of "40/100"] by (simp add: scoreRule_def)
qed (use scoreRule_bounds [of r "txt" src fmt] rnd_tenths in auto)

lemma tier_rules_nth: "i < length tier_rules \<Longrightarrow> tr_tier (tier_rules ! i) = int i + 1"
  by (auto simp: tier_rules_def ev_tiers less_Suc_eq numeral_eq_Suc)

lemma tier_rules_length: "length tier_rules = 6"
  by (simp add: tier_rules_def)

section \<open>The floating average\<close>

abbreviation exact_sum :: "QualityScore list \<Rightarrow> rat" where
  "exact_sum scores \<equiv> sum_list (map qs_AggregateScore scores)"

lemma rnd_of_nat: "n \<le> 2 ^ 53 \<Longrightarrow> rnd (of_nat n) = of_nat n"
  using rnd_int [of "int n"] by simp

lemma float_sum:
  assumes "\<forall>q\<in>set scores. unit_score (qs_AggregateScore q)" and "length scores \<le> 2 ^ 53"
  shows "0 \<le> foldl (\<lambda>total q. fl_add total (qs_AggregateScore q)) 0 scores \<and>
    foldl (\<lambda>total q. fl_add total (qs_AggregateScore q)) 0 scores \<le> of_nat (length scores) \<and>
    \<bar>foldl (\<lambda>total q. fl_add total (qs_AggregateScore q)) 0 scores - exact_sum scores\<bar>
      \<le> of_nat (length scores * length scores) / 2 ^ 53"
  using assms
proof (induction scores rule: rev_induct)
  case (snoc q scores)
  let ?s = "foldl (\<lambda>total q. fl_add total (qs_AggregateScore q)) 0 scores"
  let ?n = "length scores" and ?a = "qs_AggregateScore q"
  have IH: "0 \<le> ?s" "?s \<le> of_nat ?n" "\<bar>?s - exact_sum scores\<bar> \<le> of_nat (?n * ?n) / 2 ^ 53"
    using snoc by auto
  have a: "0 \<le> ?a" "?a \<le> 1" using snoc.prems by (auto simp: unit_score_def)
  have t: "0 \<le> ?s + ?a" "?s + ?a \<le> of_nat (Suc ?n)" using IH(1,2) a by auto
  have r: "0 \<le> fl_add ?s ?a" "fl_add ?s ?a \<le> of_nat (Suc ?n)"
    using rnd_nonneg [OF t(1)] rnd_mono [OF t(2)] rnd_of_nat [of "Suc ?n"] snoc.prems
    by (simp_all add: fl_add_def)
  have "\<bar>fl_add ?s ?a - (?s + ?a)\<bar> \<le> (?s + ?a) / 2 ^ 53"
    using rnd_error [OF t(1)] by (simp only: fl_add_def [of ?s ?a])
  also have "\<dots> \<le> of_nat (Suc ?n) / 2 ^ 53" using t(2) by (intro divide_right_mono) simp_all
  finally have "\<bar>fl_add ?s ?a - (exact_sum scores + ?a)\<bar>
      \<le> of_nat (?n * ?n) / 2 ^ 53 + of_nat (Suc ?n) / 2 ^ 53"
    using IH(3) by linarith
  also have "\<dots> \<le> of_nat (Suc ?n * Suc ?n) / (2 ^ 53 :: rat)"
    unfolding add_divide_distrib [symmetric] by (intro divide_right_mono) simp_all
  finally show ?case using r by simp
qed simp

lemma avg_error:
  assumes "\<forall>q\<in>set scores. unit_score (qs_AggregateScore q)" and "length scores \<le> 2 ^ 53"
    and "scores \<noteq> []"
  shows "\<bar>avgScore scores - exact_sum scores / of_nat (length scores)\<bar>
    \<le> of_nat (Suc (length scores)) / 2 ^ 53"
proof -
  let ?s = "foldl (\<lambda>total q. fl_add total (qs_AggregateScore q)) 0 scores"
  let ?n = "of_nat (length scores) :: rat"
  note f = float_sum [OF assms(1,2)]
  have n: "0 < ?n" using assms(3) by simp
  have q: "0 \<le> ?s / ?n" "?s / ?n \<le> 1" using f n by (simp_all add: divide_le_eq)
  have "\<bar>rnd (?s / ?n) - ?s / ?n\<bar> \<le> (?s / ?n) / 2 ^ 53" by (rule rnd_error [OF q(1)])
  also have "\<dots> \<le> 1 / 2 ^ 53" using q(2) by (intro divide_right_mono) simp_all
  finally have e1: "\<bar>rnd (?s / ?n) - ?s / ?n\<bar> \<le> 1 / 2 ^ 53" .
  have "\<bar>?s / ?n - exact_sum scores / ?n\<bar> = \<bar>?s - exact_sum scores\<bar> / ?n"
    using n by (simp add: diff_divide_distrib [symmetric])
  also have "\<dots> \<le> (?n * ?n / 2 ^ 53) / ?n" using f n by (intro divide_right_mono) simp_all
  also have "\<dots> = ?n / 2 ^ 53" using n by simp
  finally have e2: "\<bar>?s / ?n - exact_sum scores / ?n\<bar> \<le> ?n / 2 ^ 53" .
  have "avgScore scores = rnd (?s / ?n)"
    using assms(2,3) by (simp add: avgScore_def fl_div_def rnd_of_nat)
  moreover have "of_nat (Suc (length scores)) / 2 ^ 53 = 1 / 2 ^ 53 + ?n / (2 ^ 53 :: rat)"
    by (simp add: add_divide_distrib)
  ultimately show ?thesis using e1 e2 by linarith
qed

lemma Evaluate_verdict:
  "sr_IsSufficient (Evaluate evs scores rr) \<longleftrightarrow>
     minCount (threshold_for rr) \<le> int (length evs) \<and> minScore (threshold_for rr) \<le> avgScore scores"
  by (auto simp: Evaluate_def Let_def checkTierDiversity_def)

section \<open>What is stored\<close>

definition wf_evidence :: "Evidence \<Rightarrow> bool" where
  "wf_evidence ev \<longleftrightarrow> ev_Title ev \<noteq> [] \<and>
     ev_SourceType ev \<in> {SourceManualUpload, SourceAPIIntegration, SourceAutomatedScan,
       SourceScreenshot, SourceLogExport, SourceConfigurationExport} \<and>
     ev_ContentFormat ev \<in> {FormatJSON, FormatCSV, FormatLog, FormatText} \<and>
     distinct (ev_Tags ev) \<and> [] \<notin> set (ev_Tags ev) \<and>
     map pv_Action (ev_ProvenanceChain ev) = [''ingested''] \<and>
     ev_FileHash ev = [] \<and> ev_FilePath ev = [] \<and> ev_UploadedByID ev = None"

definition wf_score :: "Evidence \<Rightarrow> QualityScore \<Rightarrow> bool" where
  "wf_score ev q \<longleftrightarrow> qs_OrgID q = ev_OrgID ev \<and>
     list_all unit_score [qs_CompletenessScore q, qs_CurrencyScore q, qs_SourceReliability q,
       qs_CorroborationScore q, qs_RelevanceScore q, qs_AggregateScore q]"

definition repo_ok :: "ev_lib \<Rightarrow> MemoryRepository \<Rightarrow> bool" where
  "repo_ok L s \<longleftrightarrow> distinct (map fst (mr_evidence s)) \<and>
     (\<forall>i ev. evr_FindByID s i = Some ev \<longrightarrow> ev_ID ev = i \<and> wf_evidence ev) \<and>
     (\<forall>i c. evr_FindClassificationByEvidenceID s i = Some c \<longrightarrow>
        (\<exists>ev. evr_FindByID s i = Some ev \<and> c = Classify L (cl_ID c) (cl_ClassifiedAt c) ev)) \<and>
     (\<forall>i q. evr_FindQualityScoreByEvidenceID s i = Some q \<longrightarrow>
        (\<exists>ev. evr_FindByID s i = Some ev \<and> wf_score ev q))"

text \<open>
  The steps the repository's lock makes atomic, of any number of requests in flight: an item is
  stored under a fresh id, a stored item is classified, a stored item is scored against the peers
  that some earlier walk of the map found.
\<close>

inductive ev_step :: "ev_lib \<Rightarrow> MemoryRepository \<Rightarrow> MemoryRepository \<Rightarrow> bool" for L where
  save: "Ingest L fr req = Inr ev \<Longrightarrow> evr_FindByID s (fr_id fr) = None \<Longrightarrow> ev_step L s (evr_Save s ev)"
| classify: "evr_FindByID s i = Some ev \<Longrightarrow>
    ev_step L s (evr_SaveClassification s (Classify L n t ev))"
| score: "evr_FindByID s i = Some ev \<Longrightarrow>
    ev_step L s (evr_SaveQualityScore s (ev_Score L n t t' ev peers))"

lemma normaliseTags_distinct: "distinct (normaliseTags L ts) \<and> [] \<notin> set (normaliseTags L ts)"
proof -
  have "distinct r \<and> [] \<notin> set r \<Longrightarrow>
      distinct (foldl (add_tag L) r ts) \<and> [] \<notin> set (foldl (add_tag L) r ts)" for r
    by (induction ts arbitrary: r) (simp_all add: add_tag_def Let_def)
  from this [of "[]"] show ?thesis by (simp add: normaliseTags_def)
qed

lemma validate_ok: "ev_validate L req = None \<Longrightarrow> TrimSpace L (ir_Title req) \<noteq> [] \<and>
    ir_SourceType req \<in> {SourceManualUpload, SourceAPIIntegration, SourceAutomatedScan,
      SourceScreenshot, SourceLogExport, SourceConfigurationExport} \<and>
    ir_ContentFormat req \<in> {FormatJSON, FormatCSV, FormatLog, FormatText}"
  unfolding ev_validate_def by (simp only: option.distinct if_False split: if_split_asm) simp_all

lemma Ingest_ok:
  assumes "Ingest L fr req = Inr ev"
  shows "ev_ID ev = fr_id fr \<and> wf_evidence ev"
proof -
  have "ev_validate L req = None" using assms by (simp add: Ingest_def split: option.splits)
  note v = validate_ok [OF this]
  have "ev_ID ev = fr_id fr \<and> ev_Title ev = TrimSpace L (ir_Title req) \<and>
      ev_SourceType ev = ir_SourceType req \<and> ev_ContentFormat ev = ir_ContentFormat req \<and>
      ev_Tags ev = normaliseTags L (ir_Tags req) \<and> map pv_Action (ev_ProvenanceChain ev) = [''ingested''] \<and>
      ev_FileHash ev = [] \<and> ev_FilePath ev = [] \<and> ev_UploadedByID ev = None"
    using assms by (auto simp: Ingest_def split: option.splits sum.splits)
  then show ?thesis using v normaliseTags_distinct [of L "ir_Tags req"] by (simp only: wf_evidence_def simp_thms)
qed

lemma aggregate_le_1: "fl_add (fl_add (fl_add (fl_add
    (fl_mul weightCompleteness 1) (fl_mul weightCurrency 1)) (fl_mul weightReliability 1))
    (fl_mul weightCorroboration 1)) (fl_mul weightRelevance 1) = 1"
  by code_simp

lemma fl_add_mono: "x \<le> x' \<Longrightarrow> y \<le> y' \<Longrightarrow> fl_add x y \<le> fl_add x' y'"
  by (simp add: fl_add_def rnd_mono add_mono)

lemma fl_mul_mono: "0 \<le> w \<Longrightarrow> x \<le> y \<Longrightarrow> fl_mul w x \<le> fl_mul w y"
  by (simp add: fl_mul_def rnd_mono mult_left_mono)

lemma fl_nonneg: "0 \<le> x \<Longrightarrow> 0 \<le> y \<Longrightarrow> 0 \<le> fl_add x y" "0 \<le> x \<Longrightarrow> 0 \<le> y \<Longrightarrow> 0 \<le> fl_mul x y"
  by (simp_all add: fl_add_def fl_mul_def rnd_nonneg)

lemma weights_nonneg: "0 \<le> weightCompleteness" "0 \<le> weightCurrency" "0 \<le> weightReliability"
  "0 \<le> weightCorroboration" "0 \<le> weightRelevance"
  by (simp_all add: weightCompleteness_def weightCurrency_def weightReliability_def
      weightCorroboration_def weightRelevance_def rnd_nonneg)

lemma aggregate_unit:
  assumes "unit_score a" "unit_score b" "unit_score c" "unit_score d" "unit_score e"
  shows "unit_score (fl_add (fl_add (fl_add (fl_add
    (fl_mul weightCompleteness a) (fl_mul weightCurrency b)) (fl_mul weightReliability c))
    (fl_mul weightCorroboration d)) (fl_mul weightRelevance e))"
proof -
  have u: "0 \<le> v" "v \<le> 1" if "unit_score v" for v using that by (simp_all add: unit_score_def)
  have "fl_add (fl_add (fl_add (fl_add
      (fl_mul weightCompleteness a) (fl_mul weightCurrency b)) (fl_mul weightReliability c))
      (fl_mul weightCorroboration d)) (fl_mul weightRelevance e)
    \<le> fl_add (fl_add (fl_add (fl_add
      (fl_mul weightCompleteness 1) (fl_mul weightCurrency 1)) (fl_mul weightReliability 1))
      (fl_mul weightCorroboration 1)) (fl_mul weightRelevance 1)"
    by (intro fl_add_mono fl_mul_mono weights_nonneg u assms)
  moreover have "0 \<le> fl_add (fl_add (fl_add (fl_add
      (fl_mul weightCompleteness a) (fl_mul weightCurrency b)) (fl_mul weightReliability c))
      (fl_mul weightCorroboration d)) (fl_mul weightRelevance e)"
    by (intro fl_nonneg weights_nonneg u assms)
  ultimately show ?thesis unfolding unit_score_def aggregate_le_1 by blast
qed

lemma Score_ok: "wf_score ev (ev_Score L n t t' ev peers) \<and> qs_EvidenceID (ev_Score L n t t' ev peers) = ev_ID ev"
  by (simp add: wf_score_def ev_Score_def Let_def unit_roundScore unit_parts aggregate_unit)

lemma Classify_ids [simp]: "cl_EvidenceID (Classify L n t ev) = ev_ID ev"
  "cl_ID (Classify L n t ev) = n" "cl_ClassifiedAt (Classify L n t ev) = t"
  by (simp_all add: Classify_def Let_def)

lemma ev_step_ok:
  assumes "ev_step L s s'" and "repo_ok L s"
  shows "repo_ok L s'"
  using assms
proof cases
  case (save fr req ev)
  note i = Ingest_ok [OF save(2)]
  have d: "distinct (map fst (mr_evidence s'))"
    using assms(2) save(1) by (simp add: repo_ok_def evr_Save_def distinct_update)
  have k: "evr_FindByID s' j = (if j = ev_ID ev then Some ev else evr_FindByID s j)" for j
    using save(1) by (simp add: evs.get_put)
  have new: "evr_FindByID s (ev_ID ev) = None" using save(3) i by simp
  have rest: "evr_FindClassificationByEvidenceID s (ev_ID ev) = None"
    "evr_FindQualityScoreByEvidenceID s (ev_ID ev) = None"
    using assms(2) new unfolding repo_ok_def by (metis not_Some_eq)+
  with d i k new save(1) assms(2) show ?thesis
    by (auto simp: repo_ok_def split: if_splits)
next
  case (classify i ev n t)
  have "distinct (map fst (mr_evidence s'))"
    using assms(2) classify(1) by (simp add: repo_ok_def evr_SaveClassification_def)
  with classify assms(2) show ?thesis
    by (auto simp: repo_ok_def cls.get_put split: if_splits)
next
  case (score i ev n t t' peers)
  have "distinct (map fst (mr_evidence s'))"
    using assms(2) score(1) by (simp add: repo_ok_def evr_SaveQualityScore_def)
  moreover have "ev_ID ev = i" using score(2) assms(2) by (simp add: repo_ok_def)
  ultimately show ?thesis
    using score assms(2) Score_ok [of ev L n t t' peers]
    by (auto simp: repo_ok_def scs.get_put split: if_splits)
qed

lemma repo_ok_new: "repo_ok L NewMemory"
  by (simp add: repo_ok_def NewMemory_def evr_FindByID_def evr_FindClassificationByEvidenceID_def
      evr_FindQualityScoreByEvidenceID_def)

lemma ev_steps_ok: "(ev_step L)\<^sup>*\<^sup>* s s' \<Longrightarrow> repo_ok L s \<Longrightarrow> repo_ok L s'"
  by (induction rule: rtranclp_induct) (auto intro: ev_step_ok)

section \<open>Whole requests\<close>

definition complete :: "MemoryRepository \<Rightarrow> bool" where
  "complete s \<longleftrightarrow> (\<forall>i. (evr_FindByID s i = None \<longleftrightarrow> evr_FindClassificationByEvidenceID s i = None) \<and>
     (evr_FindByID s i = None \<longleftrightarrow> evr_FindQualityScoreByEvidenceID s i = None))"

text \<open>What a request that is served alone does to the repository.\<close>

definition good_move :: "ev_lib \<Rightarrow> MemoryRepository \<Rightarrow> MemoryRepository \<Rightarrow> bool" where
  "good_move L s s' \<longleftrightarrow> (ev_step L)\<^sup>*\<^sup>* s s' \<and> complete s' \<and>
     (\<forall>i ev. evr_FindByID s i = Some ev \<longrightarrow> evr_FindByID s' i = Some ev) \<and>
     (\<forall>i q. evr_FindQualityScoreByEvidenceID s i = Some q \<longrightarrow>
        evr_FindQualityScoreByEvidenceID s' i = Some q)"

text \<open>A request draws at most one id per item of its body; they are new and distinct.\<close>

definition draws :: "ev_request \<Rightarrow> nat" where
  "draws r = (case r of EvPost (Inr raw) \<Rightarrow>
     (case raw_batch raw of Inr items \<Rightarrow> max 1 (length items) | Inl _ \<Rightarrow> 1) | _ \<Rightarrow> 1)"

definition fresh_ids :: "MemoryRepository \<Rightarrow> (nat \<Rightarrow> ev_fresh) \<Rightarrow> nat \<Rightarrow> bool" where
  "fresh_ids s fresh k \<longleftrightarrow> distinct (map (\<lambda>n. fr_id (fresh n)) [0..<k]) \<and>
     (\<forall>n<k. evr_FindByID s (fr_id (fresh n)) = None)"

inductive ev_served :: "ev_lib \<Rightarrow> MemoryRepository \<Rightarrow> MemoryRepository \<Rightarrow> bool" for L s where
  start: "ev_served L s s"
| request: "ev_served L s s1 \<Longrightarrow> fresh_ids s1 fresh (draws r) \<Longrightarrow> ev_Router L ch ch' fresh s1 r = (s2, a) \<Longrightarrow>
    ev_served L s s2"

lemma good_move_refl [simp]: "good_move L s s \<longleftrightarrow> complete s"
  by (simp add: good_move_def)

lemma good_move_trans: "good_move L s s1 \<Longrightarrow> good_move L s1 s2 \<Longrightarrow> good_move L s s2"
  by (auto simp: good_move_def intro: rtranclp_trans)

lemma store_ingested_maps:
  assumes "store_ingested L ch fr s ev = (s', c, q)"
  shows "evr_FindByID s' = (evr_FindByID s)(ev_ID ev \<mapsto> ev)"
    and "evr_FindClassificationByEvidenceID s' = (evr_FindClassificationByEvidenceID s)(ev_ID ev \<mapsto> c)"
    and "evr_FindQualityScoreByEvidenceID s' = (evr_FindQualityScoreByEvidenceID s)(ev_ID ev \<mapsto> q)"
  using assms Score_ok
  by (auto simp: store_ingested_def Let_def fun_eq_iff evs.get_put cls.get_put scs.get_put)

lemma store_ingested_good:
  assumes "Ingest L fr req = Inr ev" and "evr_FindByID s (fr_id fr) = None" and "complete s"
    and "store_ingested L ch fr s ev = (s', c, q)"
  shows "good_move L s s'"
proof -
  have id: "ev_ID ev = fr_id fr" using Ingest_ok [OF assms(1)] by simp
  note m = store_ingested_maps [OF assms(4)]
  let ?s1 = "evr_Save s ev"
  let ?s2 = "evr_SaveClassification ?s1 (Classify L (fr_class_id fr) (fr_classified fr) ev)"
  have e: "evr_FindByID ?s1 (ev_ID ev) = Some ev" by (rule evs.reads_back)
  have "ev_step L s ?s1" using assms(1,2) by (rule ev_step.save)
  moreover have "ev_step L ?s1 ?s2" using e by (rule ev_step.classify)
  moreover have "ev_step L ?s2 s'"
    using assms(4) e ev_step.score [of ?s2 "ev_ID ev" ev L "fr_score_id fr" "fr_since fr" "fr_scored fr"]
    by (auto simp: store_ingested_def Let_def)
  ultimately have "(ev_step L)\<^sup>*\<^sup>* s s'"
    by (blast intro: rtranclp.rtrancl_into_rtrancl r_into_rtranclp)
  moreover have "evr_FindQualityScoreByEvidenceID s (fr_id fr) = None"
    using assms(2,3) by (metis complete_def)
  moreover from this have "\<forall>i q. evr_FindQualityScoreByEvidenceID s i = Some q \<longrightarrow>
      evr_FindQualityScoreByEvidenceID s' i = Some q"
    using id m(3) by auto
  moreover have "\<forall>i ev. evr_FindByID s i = Some ev \<longrightarrow> evr_FindByID s' i = Some ev"
    using assms(2) id m(1) by auto
  moreover have "complete s'" using assms(3) m by (auto simp: complete_def)
  ultimately show ?thesis by (simp add: good_move_def)
qed

lemma batch_good:
  assumes "batch_loop L ch frs s reqs = (s', rs)" and "complete s" and "distinct (map fr_id frs)"
    and "\<forall>fr\<in>set frs. evr_FindByID s (fr_id fr) = None"
  shows "good_move L s s'"
  using assms
proof (induction L ch frs s reqs arbitrary: s' rs rule: batch_loop.induct)
  case (1 L ch fr frs s req reqs)
  show ?case
  proof (cases "Ingest L fr req")
    case (Inl e)
    with 1 show ?thesis by (auto split: prod.splits)
  next
    case (Inr ev)
    obtain s1 c q where s1: "store_ingested L ch fr s ev = (s1, c, q)" by (cases "store_ingested L ch fr s ev")
    obtain s2 rs' where b: "batch_loop L ch frs s1 reqs = (s2, rs')" by (cases "batch_loop L ch frs s1 reqs")
    have g: "good_move L s s1" using store_ingested_good [OF Inr _ _ s1] "1.prems" by simp
    have "\<forall>fr'\<in>set frs. evr_FindByID s1 (fr_id fr') = None"
      using store_ingested_maps(1) [OF s1] Ingest_ok [OF Inr] "1.prems"(3,4) by (auto simp: rev_image_eqI)
    moreover have "complete s1" using g by (simp add: good_move_def)
    ultimately have "good_move L s1 s2"
      using "1.IH"(2) [OF Inr s1 [symmetric] refl b] "1.prems"(3) by simp
    with g have "good_move L s s2" by (rule good_move_trans)
    with "1.prems"(1) Inr s1 b show ?thesis by simp
  qed
qed auto

lemma request_good:
  assumes "ev_Router L ch ch' fresh s r = (s', a)" and "fresh_ids s fresh (draws r)" and "repo_ok L s"
    and "complete s"
  shows "good_move L s s'"
proof (cases r)
  case (EvPost body)
  show ?thesis
  proof (cases body)
    case (Inr raw)
    have one: "evr_FindByID s (fr_id (fresh 0)) = None"
      using assms(2) EvPost Inr by (auto simp: fresh_ids_def draws_def split: sum.splits)
    have single: "good_move L s (fst (handleSingleIngest L ch (fresh 0) s req))" for req
      using store_ingested_good [of L "fresh 0" req _ s ch] one assms(4)
      by (auto simp: handleSingleIngest_def split: sum.split prod.split)
    have batch: "good_move L s (fst (handleBatchIngest L ch fresh s items))" if "raw_batch raw = Inr items" for items
    proof -
      have d: "fresh_ids s fresh (max 1 (length items))"
        using assms(2) EvPost Inr that by (simp add: draws_def)
      then have "distinct (map fr_id (map fresh [0..<length items]))"
        by (auto simp: fresh_ids_def distinct_map inj_on_def)
      moreover have "\<forall>fr\<in>set (map fresh [0..<length items]). evr_FindByID s (fr_id fr) = None"
        using d by (simp add: fresh_ids_def)
      ultimately show ?thesis
        using batch_good [of L ch "map fresh [0..<length items]" s items] assms(4)
        by (auto simp: handleBatchIngest_def split: prod.split)
    qed
    have "fst (ingestEvidence L ch fresh s (Inr raw)) = s \<or>
        (\<exists>req. fst (ingestEvidence L ch fresh s (Inr raw)) = fst (handleSingleIngest L ch (fresh 0) s req)) \<or>
        (\<exists>items. raw_batch raw = Inr items \<and>
          fst (ingestEvidence L ch fresh s (Inr raw)) = fst (handleBatchIngest L ch fresh s items))"
      by (auto simp: ingestEvidence_def Let_def split: sum.split)
    moreover have "s' = fst (ingestEvidence L ch fresh s (Inr raw))"
      using assms(1) EvPost Inr by (simp add: ev_Router_def)
    ultimately show ?thesis using single batch assms(4) by auto
  qed (use assms EvPost in \<open>auto simp: ev_Router_def ingestEvidence_def\<close>)
next
  case (EvPostClassify i)
  show ?thesis
  proof (cases "s' = s")
    case False
    with assms(1) EvPostClassify obtain j ev where ev: "evr_FindByID s j = Some ev"
      and s': "s' = evr_SaveClassification s (Classify L (fr_class_id (fresh 0)) (fr_classified (fresh 0)) ev)"
      by (auto simp: ev_Router_def classifyEvidence_def Let_def split: sum.splits option.splits)
    have "ev_step L s s'" unfolding s' using ev by (rule ev_step.classify)
    moreover have "ev_ID ev = j" using assms(3) ev by (simp add: repo_ok_def)
    moreover have "evr_FindClassificationByEvidenceID s j \<noteq> None"
      using assms(4) ev by (metis complete_def option.distinct(1))
    ultimately show ?thesis using assms(4) ev
      by (auto simp: s' good_move_def complete_def cls.get_put)
  qed (use assms(4) in simp)
qed (use assms in \<open>auto simp: ev_Router_def\<close>)

lemma served_good: "ev_served L s s' \<Longrightarrow> repo_ok L s \<Longrightarrow> complete s \<Longrightarrow> good_move L s s'"
proof (induction rule: ev_served.induct)
  case (request s1 fresh ch ch' r s2 a)
  then have g: "good_move L s s1" by simp
  then have "good_move L s1 s2"
    using request_good [OF request.hyps(3,2)] ev_steps_ok [of L s s1] request.prems
    by (simp add: good_move_def)
  with g show ?case by (rule good_move_trans)
qed simp

lemma complete_new: "complete NewMemory"
  by (simp add: complete_def NewMemory_def evr_FindByID_def evr_FindClassificationByEvidenceID_def
      evr_FindQualityScoreByEvidenceID_def)

section \<open>The maps' order\<close>

lemma by_control_mset: "mset (evr_FindByControlID ch s c) = mset (evr_FindByControlID [] s c)"
  by (simp add: evr_FindByControlID_def shuffle_mset)

lemma scores_mset:
  "mset (evr_FindQualityScoresByControlID ch s c) = mset (evr_FindQualityScoresByControlID [] s c)"
  by (simp add: evr_FindQualityScoresByControlID_def List.map_filter_def by_control_mset [of ch])

lemma by_control_found:
  assumes "repo_ok L s" and "ev \<in> set (evr_FindByControlID ch s c)"
  shows "evr_FindByID s (ev_ID ev) = Some ev"
proof -
  obtain i where "(i, ev) \<in> set (mr_evidence s)"
    using assms(2) by (auto simp: evr_FindByControlID_def shuffle_set)
  then have "evr_FindByID s i = Some ev" using assms(1) by (simp add: repo_ok_def evr_FindByID_def)
  moreover from this assms(1) have "ev_ID ev = i" by (simp add: repo_ok_def)
  ultimately show ?thesis by simp
qed

lemma scores_all:
  assumes "repo_ok L s" and "complete s"
  shows "length (evr_FindQualityScoresByControlID ch s c) = length (evr_FindByControlID ch s c) \<and>
    (\<forall>q\<in>set (evr_FindQualityScoresByControlID ch s c). unit_score (qs_AggregateScore q))"
proof -
  have q: "\<exists>q. map_of (mr_qualityScores s) (ev_ID ev) = Some q \<and> unit_score (qs_AggregateScore q)"
    if "ev \<in> set (evr_FindByControlID ch s c)" for ev
  proof -
    have f: "evr_FindByID s (ev_ID ev) = Some ev" using assms(1) that by (rule by_control_found)
    then obtain q where "evr_FindQualityScoreByEvidenceID s (ev_ID ev) = Some q"
      using assms(2) by (metis complete_def option.distinct(1) not_Some_eq)
    moreover from this assms(1) have "unit_score (qs_AggregateScore q)"
      by (fastforce simp: repo_ok_def wf_score_def)
    ultimately show ?thesis by (simp add: evr_FindQualityScoreByEvidenceID_def)
  qed
  then have "filter (\<lambda>ev. map_of (mr_qualityScores s) (ev_ID ev) \<noteq> None) (evr_FindByControlID ch s c) =
      evr_FindByControlID ch s c"
    by (intro filter_True) auto
  then have e: "evr_FindQualityScoresByControlID ch s c =
      map (\<lambda>ev. the (map_of (mr_qualityScores s) (ev_ID ev))) (evr_FindByControlID ch s c)"
    by (simp add: evr_FindQualityScoresByControlID_def List.map_filter_def comp_def)
  show ?thesis unfolding e using q by fastforce
qed

end
