(* ===== verification/EvidenceSystem.thy ===== *)
theory EvidenceSystem
  imports EvidenceRecords
begin

text \<open>
  The properties of the evidence service: what every stored record satisfies, which tier the
  classifier picks, how far the verdict of sufficiency can be from the exact one and that it can
  depend on a map's order, and that a batch is the sequence of its items.
\<close>

section \<open>Properties\<close>

text \<open>
  C16. Every record in the repository is well formed, whatever requests are in flight and however
  their critical sections interleave: the stored evidence has a title, a known source type and
  format, distinct non-empty tags and a chain of custody of exactly the entry of its ingestion, with
  no file, hash or uploader; every stored classification is the classifier's answer for the stored
  evidence of that id; every stored score belongs to stored evidence of the same organisation and
  each of its six values lies between 0 and 1.
\<close>

theorem evidence_records_well_formed:
  assumes "(ev_step L)\<^sup>*\<^sup>* NewMemory s"
  shows "repo_ok L s"
  using assms repo_ok_new by (rule ev_steps_ok)

text \<open>
  Requests served one after the other leave no evidence without its classification and its
  score, and never change a score once it is stored: the corroboration counted when an item is
  ingested is not counted again when more evidence arrives, so the first item of a control is
  scored as sole evidence for ever.
\<close>

theorem evidence_scores_never_refreshed:
  assumes "ev_served L NewMemory s" and "ev_served L s s'"
    and "evr_FindByID s i = Some ev"
  shows "\<exists>q. evr_FindQualityScoreByEvidenceID s i = Some q \<and>
    evr_FindQualityScoreByEvidenceID s' i = Some q \<and> evr_FindByID s' i = Some ev \<and>
    evr_FindClassificationByEvidenceID s' i \<noteq> None"
proof -
  have g: "good_move L NewMemory s" using assms(1) repo_ok_new complete_new by (rule served_good)
  then have ok: "repo_ok L s" "complete s"
    using ev_steps_ok [of L NewMemory s] repo_ok_new by (simp_all add: good_move_def)
  then obtain q where q: "evr_FindQualityScoreByEvidenceID s i = Some q"
    using assms(3) by (metis complete_def option.distinct(1) not_Some_eq)
  have g': "good_move L s s'" using assms(2) ok by (rule served_good)
  then have e: "evr_FindByID s' i = Some ev" "evr_FindQualityScoreByEvidenceID s' i = Some q"
    using assms(3) q by (simp_all add: good_move_def)
  have "complete s'" using g' by (simp add: good_move_def)
  then have "evr_FindClassificationByEvidenceID s' i \<noteq> None"
    using e by (metis complete_def option.distinct(1))
  with q e show ?thesis by blast
qed

text \<open>
  C17. The verdict of \<open>GET /controls/{id}/sufficiency\<close> against exact arithmetic: it counts the stored
  evidence of the control, of every organisation; with too few items it is negative; with
  enough it is right whenever the exact average of the stored scores is farther from the threshold
  than \<open>(n + 1) / 2 ^ 53\<close> for \<open>n\<close> items.
\<close>

theorem evidence_verdict_error:
  assumes "ev_served L NewMemory s" and "uuid_Parse L cs = Inr c" and "rr \<noteq> []"
    and "n = length (evr_FindByControlID [] s c)" and "0 < n" and "n \<le> 2 ^ 53"
    and "A = exact_sum (evr_FindQualityScoresByControlID [] s c) / of_nat n"
    and "d = of_nat (Suc n) / 2 ^ 53"
  shows "\<exists>r. getControlSufficiency L ch ch' s cs rr = JsonResponse 200 (EvSufficiency r) \<and>
    sr_EvidenceCount r = int n \<and>
    (sr_IsSufficient r \<longrightarrow> minCount (threshold_for rr) \<le> int n \<and> minScore (threshold_for rr) - d \<le> A) \<and>
    (minCount (threshold_for rr) \<le> int n \<and> minScore (threshold_for rr) + d \<le> A \<longrightarrow> sr_IsSufficient r)"
proof -
  have "good_move L NewMemory s" using assms(1) repo_ok_new complete_new by (rule served_good)
  then have ok: "repo_ok L s" "complete s"
    using ev_steps_ok [of L NewMemory s] repo_ok_new by (simp_all add: good_move_def)
  let ?evs = "evr_FindByControlID ch s c" and ?qs = "evr_FindQualityScoresByControlID ch' s c"
  have n: "length ?evs = n" using by_control_mset [of ch s c] assms(4) by (metis size_mset)
  have q: "length ?qs = n" using scores_all [OF ok, of ch' c] by_control_mset [of ch' s c] assms(4)
    by (metis size_mset)
  have sum: "exact_sum ?qs = exact_sum (evr_FindQualityScoresByControlID [] s c)"
    using scores_mset [of ch' s c] by (metis mset_map sum_mset_sum_list)
  have "\<bar>avgScore ?qs - exact_sum ?qs / of_nat (length ?qs)\<bar> \<le> of_nat (Suc (length ?qs)) / 2 ^ 53"
    using scores_all [OF ok, of ch' c] q assms(5,6) by (intro avg_error) auto
  then have "\<bar>avgScore ?qs - A\<bar> \<le> d" unfolding q sum assms(7,8) .
  then have e: "avgScore ?qs \<le> A + d" "A - d \<le> avgScore ?qs" by linarith+
  let ?r = "(Evaluate ?evs ?qs rr)\<lparr> sr_ControlID := c \<rparr>"
  have r: "getControlSufficiency L ch ch' s cs rr = JsonResponse 200 (EvSufficiency ?r)"
    using assms(2,3) by (simp add: getControlSufficiency_def Let_def)
  have v: "sr_IsSufficient ?r \<longleftrightarrow> minCount (threshold_for rr) \<le> int n \<and> minScore (threshold_for rr) \<le> avgScore ?qs"
    using Evaluate_verdict [of ?evs ?qs rr] n by simp
  have "sr_EvidenceCount ?r = int n" using n by (simp add: Evaluate_def Let_def)
  then show ?thesis using r v e by (intro exI [of _ ?r]) auto
qed

text \<open>
  The classifier takes the best score, not the first match. When no keyword of any rule occurs
  in the lower-cased title and description, the answer is L5 with confidence 0.40; otherwise it is
  the tier of the first rule of maximal score, with that score as its confidence, at least 1/2.
\<close>

theorem evidence_classified_by_best_rule:
  assumes "txt = ToLower L (ev_Title ev @ '' '' @ ev_Description ev)"
    and "sc = (\<lambda>i. scoreRule (tier_rules ! i) txt (ev_SourceType ev) (ev_ContentFormat ev))"
  shows "if \<exists>r\<in>set tier_rules. keywordHits r txt \<noteq> 0
    then \<exists>i<6. cl_Tier (Classify L n now ev) = int i + 1 \<and> cl_Confidence (Classify L n now ev) = sc i \<and>
      1/2 \<le> sc i \<and> (\<forall>j<6. sc j \<le> sc i) \<and> (\<forall>j<i. sc j < sc i)
    else cl_Tier (Classify L n now ev) = TierL5Record \<and> cl_Confidence (Classify L n now ev) = rnd (40/100)"
proof -
  let ?src = "ev_SourceType ev" and ?fmt = "ev_ContentFormat ev"
  let ?best = "fold (better_rule txt ?src ?fmt) tier_rules
    (TierL5Record, rnd (40/100), ''defaulted to L5-Record; no stronger keyword match found'')"
  have c: "cl_Tier (Classify L n now ev) = fst ?best"
      "cl_Confidence (Classify L n now ev) = ev_clamp (fst (snd ?best))"
    using assms(1) by (simp_all add: Classify_def Let_def)
  have hit: "rnd (40/100) < sc i \<longleftrightarrow> keywordHits (tier_rules ! i) txt \<noteq> 0" for i
    by (simp only: assms(2) scoreRule_hit)
  have low: "0 \<le> rnd (40/100)" "rnd (40/100) \<le> 1" by (simp_all add: rnd_nonneg rnd_le_1)
  from fold_better [of tier_rules "txt" ?src ?fmt "rnd (40/100)" TierL5Record
      "''defaulted to L5-Record; no stronger keyword match found''"]
  show ?thesis
  proof (elim disjE conjE exE)
    assume none: "\<forall>r\<in>set tier_rules. scoreRule r txt ?src ?fmt \<le> rnd (40/100)" and
      b: "?best = (TierL5Record, rnd (40/100), ''defaulted to L5-Record; no stronger keyword match found'')"
    have "\<not> (\<exists>r\<in>set tier_rules. keywordHits r txt \<noteq> 0)"
      using none scoreRule_hit [of _ "txt" ?src ?fmt] by (meson not_le)
    then show ?thesis using c b low by (simp add: ev_clamp_def)
  next
    fix i assume i: "i < length tier_rules" and
      b: "?best = (tr_tier (tier_rules ! i), scoreRule (tier_rules ! i) txt ?src ?fmt,
        buildReasoning (tier_rules ! i) txt)" and
      gt: "rnd (40/100) < scoreRule (tier_rules ! i) txt ?src ?fmt" and
      mx: "\<forall>j<length tier_rules. scoreRule (tier_rules ! j) txt ?src ?fmt \<le> scoreRule (tier_rules ! i) txt ?src ?fmt"
        "\<forall>j<i. scoreRule (tier_rules ! j) txt ?src ?fmt < scoreRule (tier_rules ! i) txt ?src ?fmt"
    have k: "keywordHits (tier_rules ! i) txt \<noteq> 0" using gt by (simp only: scoreRule_hit not_False_eq_True)
    then have ex: "\<exists>r\<in>set tier_rules. keywordHits r txt \<noteq> 0" using i nth_mem by blast
    have bd: "1/2 \<le> sc i" "sc i \<le> 1" using scoreRule_bounds [OF k] assms(2) by simp_all
    then have "cl_Confidence (Classify L n now ev) = sc i" using c b assms(2) by (simp add: ev_clamp_def)
    moreover have "cl_Tier (Classify L n now ev) = int i + 1" using c b tier_rules_nth [OF i] by simp
    ultimately show ?thesis unfolding if_P [OF ex]
      using i mx bd assms(2) tier_rules_length by (intro exI [of _ i]) simp
  qed
qed

text \<open>The answers of the items of a batch, had each been posted alone.\<close>

fun post_each ::
  "ev_lib \<Rightarrow> nat list \<Rightarrow> ev_fresh list \<Rightarrow> MemoryRepository \<Rightarrow> IngestRequest list \<Rightarrow>
   MemoryRepository \<times> ev_response list" where
  "post_each L ch (fr # frs) s (req # reqs) =
     (case handleSingleIngest L ch fr s req of (s', a) \<Rightarrow>
        (case post_each L ch frs s' reqs of (s'', as) \<Rightarrow> (s'', a # as)))"
| "post_each L ch frs s reqs = (s, [])"

definition as_response :: "string + Evidence \<times> Classification \<times> QualityScore \<Rightarrow> ev_response" where
  "as_response r = (case r of Inl e \<Rightarrow> ev_writeError 400 e
     | Inr (ev, c, q) \<Rightarrow> JsonResponse 201 (EvIngested ev c q))"

lemma batch_post_each:
  "batch_loop L ch frs s reqs = (s', rs) \<Longrightarrow> post_each L ch frs s reqs = (s', map as_response rs)"
proof (induction L ch frs s reqs arbitrary: s' rs rule: batch_loop.induct)
  case (1 L ch fr frs s req reqs)
  show ?case
  proof (cases "Ingest L fr req")
    case (Inl e)
    obtain s2 rs' where b: "batch_loop L ch frs s reqs = (s2, rs')" by (cases "batch_loop L ch frs s reqs")
    with 1 Inl show ?thesis by (auto simp: handleSingleIngest_def as_response_def)
  next
    case (Inr ev)
    obtain s1 c q where s1: "store_ingested L ch fr s ev = (s1, c, q)" by (cases "store_ingested L ch fr s ev")
    obtain s2 rs' where b: "batch_loop L ch frs s1 reqs = (s2, rs')" by (cases "batch_loop L ch frs s1 reqs")
    show ?thesis using "1.prems" "1.IH"(2) [OF Inr s1 [symmetric] refl b] Inr s1 b
      by (auto simp: handleSingleIngest_def as_response_def)
  qed
qed auto

text \<open>
  A batch is its items posted one after the other: it leaves the repository they would leave,
  and its results are their answers, errors included; but its own status is 201 even when every
  item was refused.
\<close>

theorem evidence_batch_is_its_items:
  "\<exists>s' rs. handleBatchIngest L ch fresh s items = (s', JsonResponse 201 (EvResults rs)) \<and>
     post_each L ch (map fresh [0..<length items]) s items = (s', map as_response rs)"
proof -
  obtain s' rs where b: "batch_loop L ch (map fresh [0..<length items]) s items = (s', rs)"
    by (cases "batch_loop L ch (map fresh [0..<length items]) s items")
  show ?thesis using b batch_post_each [OF b] by (simp add: handleBatchIngest_def)
qed

section \<open>A concrete control\<close>

definition ascii_trim :: "string \<Rightarrow> string" where
  "ascii_trim s = rev (dropWhile (\<lambda>c. c = CHR '' '') (rev (dropWhile (\<lambda>c. c = CHR '' '') s)))"

definition ex_lib :: ev_lib where
  "ex_lib = \<lparr> Quote = (\<lambda>s. s), ToLower = map lower, TrimSpace = ascii_trim,
     uuid_Parse = (\<lambda>s. if s = [] then Inl ''invalid UUID length: 0'' else Inr (of_nat (length s))),
     json_Unmarshal = (\<lambda>_. Inr JNull), json_Marshal = (\<lambda>_. Inr ''null''),
     csv_ReadAll = (\<lambda>s. Inr [[s]]) \<rparr>"

definition ex_now :: gotime where "ex_now = 1750000000 * second"

definition ex_old :: gotime where "ex_old = ex_now - 300 * 24 * hour"

definition ex_fresh :: "nat \<Rightarrow> ev_fresh" where
  "ex_fresh n = \<lparr> fr_id = of_nat n, fr_class_id = 9, fr_score_id = 9, fr_collected = ex_now,
     fr_ingested = ex_now, fr_created = ex_now, fr_updated = ex_now, fr_classified = ex_now,
     fr_since = ex_now, fr_scored = ex_now \<rparr>"

definition ex_item :: "gotime \<Rightarrow> IngestRequest" where
  "ex_item t = \<lparr> ir_OrgID = ''o'', ir_EngagementID = ''e'', ir_ControlID = ''c'', ir_Title = ''x'',
     ir_Description = [], ir_SourceType = SourceManualUpload, ir_SourceRef = [],
     ir_ContentFormat = FormatText, ir_Content = [], ir_Tags = [], ir_Metadata = None,
     ir_CollectedAt = Some t \<rparr>"

definition ex_ev :: "nat \<Rightarrow> gotime \<Rightarrow> Evidence" where
  "ex_ev n t = \<lparr> ev_ID = of_nat n, ev_OrgID = 1, ev_EngagementID = 1, ev_ControlID = 1,
     ev_UploadedByID = None, ev_Title = ''x'', ev_Description = [],
     ev_SourceType = SourceManualUpload, ev_SourceRef = [], ev_ContentFormat = FormatText,
     ev_Content = [], ev_FilePath = [], ev_FileHash = [], ev_CollectedAt = t, ev_Tags = [],
     ev_Metadata = None,
     ev_ProvenanceChain = [\<lparr> pv_Timestamp = ex_now, pv_ActorID = None, pv_Action = ''ingested'',
       pv_Description = ''evidence ingested via API; format='' @ FormatText @ '' source='' @
         SourceManualUpload, pv_Hash = [] \<rparr>],
     ev_CreatedAt = ex_now, ev_UpdatedAt = ex_now \<rparr>"

lemma ex_ingest: "Ingest ex_lib (ex_fresh n) (ex_item t) = Inr (ex_ev n t)"
  by (simp add: Ingest_def ex_fresh_def ex_item_def ex_ev_def ex_lib_def ev_validate_def
      ascii_trim_def ev_strings parseContent_def normaliseTags_def)

abbreviation ex_peers :: "nat \<Rightarrow> Evidence list" where
  "ex_peers n \<equiv> take (Suc n) [ex_ev 0 ex_old, ex_ev 1 ex_old, ex_ev 2 ex_now]"

definition ex_q :: "nat \<Rightarrow> QualityScore" where
  "ex_q n = ev_Score ex_lib 9 ex_now ex_now (ex_peers n ! n) (ex_peers n)"

definition ex_body :: "ev_raw decoded" where
  "ex_body = Inr \<lparr> raw_probe = Inr ''[{'', raw_batch = Inr [ex_item ex_old, ex_item ex_old, ex_item ex_now],
     raw_single = Inl [] \<rparr>"

definition ex_store :: MemoryRepository where
  "ex_store = fst (ev_Router ex_lib [] [] ex_fresh NewMemory (EvPost ex_body))"

lemma ex_ids: "ev_ID (ex_ev n t) = of_nat n" "ev_ControlID (ex_ev n t) = 1"
  by (simp_all add: ex_ev_def)

lemma ex_store_maps: "mr_evidence ex_store = [(0, ex_ev 0 ex_old), (1, ex_ev 1 ex_old), (2, ex_ev 2 ex_now)]"
  "mr_qualityScores ex_store = [(0, ex_q 0), (1, ex_q 1), (2, ex_q 2)]"
proof -
  have f: "ev_Score ex_lib (fr_score_id (ex_fresh n)) (fr_since (ex_fresh n)) (fr_scored (ex_fresh n)) ev ps =
      ev_Score ex_lib 9 ex_now ex_now ev ps" for n ev ps
    by (simp add: ex_fresh_def)
  have u: "[0..<length [ex_item ex_old, ex_item ex_old, ex_item ex_now]] = [0, 1, 2]"
    by (simp add: upt_rec)
  have t: "TrimSpace ex_lib ''[{'' = ''[{''" by (simp add: ex_lib_def ascii_trim_def)
  have r: "ex_store = fst (batch_loop ex_lib [] (map ex_fresh [0, 1, 2]) NewMemory
      [ex_item ex_old, ex_item ex_old, ex_item ex_now])"
    unfolding ex_store_def ex_body_def
    by (simp only: ev_Router_def ingestEvidence_def ev_request.case sum.case ev_raw.simps Let_def t
        handleBatchIngest_def u) (simp add: HasPrefix_def del: batch_loop.simps split: prod.split)
  note e = ex_ids Score_ok NewMemory_def evr_Save_def evr_SaveClassification_def
    evr_SaveQualityScore_def evr_FindByControlID_def ex_ingest store_ingested_def Let_def f ex_q_def
  show "mr_evidence ex_store = [(0, ex_ev 0 ex_old), (1, ex_ev 1 ex_old), (2, ex_ev 2 ex_now)]"
    unfolding r by (simp add: e)
  show "mr_qualityScores ex_store = [(0, ex_q 0), (1, ex_q 1), (2, ex_q 2)]"
    unfolding r by (simp add: e numeral_2_eq_2)
qed

lemma ex_ev_served: "ev_served ex_lib NewMemory ex_store"
proof -
  have "fresh_ids NewMemory ex_fresh (draws (EvPost ex_body))"
    by (auto simp: fresh_ids_def draws_def ex_body_def ex_fresh_def NewMemory_def evr_FindByID_def
        upt_rec)
  then have "ev_served ex_lib NewMemory (fst (ev_Router ex_lib [] [] ex_fresh NewMemory (EvPost ex_body)))"
    using ev_served.request [OF ev_served.start, of NewMemory ex_fresh "EvPost ex_body" ex_lib "[]" "[]"]
    by (metis prod.collapse)
  then show ?thesis by (simp add: ex_store_def)
qed

lemma ex_parts:
  "fst (scoreCompleteness ex_lib (ex_ev n ex_old)) = 7205759403792793/18014398509481984"
  "fst (scoreCompleteness ex_lib (ex_ev n ex_now)) = 7205759403792793/18014398509481984"
  "fst (scoreCurrency ex_now (ex_ev n ex_old)) = rnd (55/100)"
  "fst (scoreCurrency ex_now (ex_ev n ex_now)) = 1"
  "fst (scoreReliability ex_lib (ex_ev n t)) = rnd (52/100)"
  "fst (scoreRelevance ex_lib (ex_ev n t)) = rnd (40/100)"
  by code_simp+

lemma ex_corr: "fst (scoreCorroboration (ex_ev 0 ex_old) (ex_peers 0)) = rnd (20/100)"
 "fst (scoreCorroboration (ex_ev 1 ex_old) (ex_peers 1)) = rnd (50/100)"
 "fst (scoreCorroboration (ex_ev 2 ex_now) (ex_peers 2)) = rnd (70/100)"
  by code_simp+

lemma ex_agg:
  "qs_AggregateScore (ex_q 0) = rnd (430/1000)"
  "qs_AggregateScore (ex_q 1) = rnd (475/1000)"
  "qs_AggregateScore (ex_q 2) = rnd (595/1000)"
proof -
  note q = ex_q_def ev_Score_def Let_def ex_corr ex_parts
  have n: "ex_peers 0 ! 0 = ex_ev 0 ex_old" "ex_peers 1 ! 1 = ex_ev 1 ex_old" "ex_peers 2 ! 2 = ex_ev 2 ex_now"
    by (simp_all add: numeral_2_eq_2)
  show "qs_AggregateScore (ex_q 0) = rnd (430/1000)"
    unfolding q n QualityScore.simps by code_simp
  show "qs_AggregateScore (ex_q 1) = rnd (475/1000)"
    unfolding q n QualityScore.simps by code_simp
  show "qs_AggregateScore (ex_q 2) = rnd (595/1000)"
    unfolding q n QualityScore.simps by code_simp
qed

lemma ex_walk:
  "evr_FindByControlID [] ex_store 1 = [ex_ev 0 ex_old, ex_ev 1 ex_old, ex_ev 2 ex_now]"
  "evr_FindQualityScoresByControlID [] ex_store 1 = [ex_q 0, ex_q 1, ex_q 2]"
  "evr_FindQualityScoresByControlID [1, 1] ex_store 1 = [ex_q 1, ex_q 2, ex_q 0]"
  by (simp_all add: evr_FindByControlID_def evr_FindQualityScoresByControlID_def ex_store_maps
      ex_ids List.map_filter_def Let_def)

lemma ex_average: "rnd (1/2) \<le> avgScore [ex_q 0, ex_q 1, ex_q 2]"
  "\<not> rnd (1/2) \<le> avgScore [ex_q 1, ex_q 2, ex_q 0]"
proof -
  have "(rnd (1/2) \<le> fl_div (fl_add (fl_add (fl_add 0 (rnd (430/1000))) (rnd (475/1000))) (rnd (595/1000)))
      (rnd (of_nat 3))) = True"
    by code_simp
  then show "rnd (1/2) \<le> avgScore [ex_q 0, ex_q 1, ex_q 2]" by (simp add: avgScore_def ex_agg ex_agg(2) [simplified])
  have "(rnd (1/2) \<le> fl_div (fl_add (fl_add (fl_add 0 (rnd (475/1000))) (rnd (595/1000))) (rnd (430/1000)))
      (rnd (of_nat 3))) = False"
    by code_simp
  then show "\<not> rnd (1/2) \<le> avgScore [ex_q 1, ex_q 2, ex_q 0]" by (simp add: avgScore_def ex_agg ex_agg(2) [simplified])
qed

text \<open>
  The verdict can depend on the order in which Go walks the repository's map: after one batch of
  three plain items, two of them 300 days old, the same request on the same repository finds the
  control sufficient for low risk in one order of the scores and insufficient in another, since the
  average is exactly the threshold and floating addition is not associative.
\<close>

theorem evidence_verdict_depends_on_map_order:
  "\<exists>L s cs r r' ch ch'. ev_served L NewMemory s \<and>
     getControlSufficiency L [] ch s cs ev_RiskLow = JsonResponse 200 (EvSufficiency r) \<and>
     getControlSufficiency L [] ch' s cs ev_RiskLow = JsonResponse 200 (EvSufficiency r') \<and>
     sr_IsSufficient r \<and> \<not> sr_IsSufficient r'"
proof -
  let ?evs = "[ex_ev 0 ex_old, ex_ev 1 ex_old, ex_ev 2 ex_now]"
  let ?r = "\<lambda>qs. (Evaluate ?evs qs ev_RiskLow)\<lparr> sr_ControlID := 1 \<rparr>"
  have c: "uuid_Parse ex_lib ''c'' = Inr 1" by (simp add: ex_lib_def)
  have g: "getControlSufficiency ex_lib [] ch ex_store ''c'' ev_RiskLow =
      JsonResponse 200 (EvSufficiency (?r (evr_FindQualityScoresByControlID ch ex_store 1)))" for ch
    by (simp add: getControlSufficiency_def c ex_walk(1) Let_def ev_RiskLow_def)
  have v: "sr_IsSufficient (?r qs) \<longleftrightarrow> rnd (1/2) \<le> avgScore qs" for qs
    by (simp add: Evaluate_verdict threshold_for_def thresholds_def ev_strings)
  have "sr_IsSufficient (?r (evr_FindQualityScoresByControlID [] ex_store 1))"
    "\<not> sr_IsSufficient (?r (evr_FindQualityScoresByControlID [1, 1] ex_store 1))"
    using v ex_average by (simp_all only: ex_walk simp_thms)
  then show ?thesis using ex_ev_served g by blast
qed

section \<open>Witnesses\<close>

lemma ex_ev_step: "ev_step ex_lib NewMemory (evr_Save NewMemory (ex_ev 0 ex_old))"
  by (rule ev_step.save [OF ex_ingest]) (simp add: NewMemory_def evr_FindByID_def)

theorem evidence_records_well_formed_witness:
  "repo_ok ex_lib (evr_Save NewMemory (ex_ev 0 ex_old))"
  using evidence_records_well_formed [OF r_into_rtranclp [of "ev_step ex_lib", OF ex_ev_step]] .

theorem evidence_scores_never_refreshed_witness:
  "evr_FindQualityScoreByEvidenceID ex_store 0 = Some (ex_q 0)"
proof -
  have "evr_FindByID ex_store 0 = Some (ex_ev 0 ex_old)" by (simp add: evr_FindByID_def ex_store_maps)
  from evidence_scores_never_refreshed [OF ex_ev_served ev_served.start this]
  show ?thesis by (simp add: evr_FindQualityScoreByEvidenceID_def ex_store_maps)
qed

theorem evidence_verdict_error_witness:
  "\<exists>r. getControlSufficiency ex_lib [1] [2] ex_store ''c'' ''high'' = JsonResponse 200 (EvSufficiency r) \<and>
     sr_EvidenceCount r = 3 \<and> \<not> sr_IsSufficient r"
proof -
  have c: "uuid_Parse ex_lib ''c'' = Inr 1" by (simp add: ex_lib_def)
  show ?thesis
    using evidence_verdict_error [where rr = "''high''" and ch = "[1]" and ch' = "[2]",
        OF ex_ev_served c _ refl _ _ refl refl]
    by (fastforce simp: ex_walk threshold_for_def thresholds_def ev_strings)
qed

definition ex_policy :: Evidence where
  "ex_policy = (ex_ev 0 ex_old)\<lparr> ev_Title := ''AUP policy'' \<rparr>"

theorem evidence_classified_by_best_rule_witness:
  "1/2 \<le> cl_Confidence (Classify ex_lib 9 ex_now ex_policy)"
proof -
  let ?t = "ToLower ex_lib (ev_Title ex_policy @ '' '' @ ev_Description ex_policy)"
  have "(keywordHits (hd tier_rules) ?t = 0) = False" by code_simp
  moreover have "hd tier_rules \<in> set tier_rules" by (simp add: tier_rules_def)
  ultimately have "\<exists>r\<in>set tier_rules. keywordHits r ?t \<noteq> 0" by blast
  then show ?thesis
    using evidence_classified_by_best_rule [where L = ex_lib and ev = ex_policy and n = 9 and now = ex_now,
        OF refl refl] by auto
qed

end
