(* ===== verification/SdkRetry.thy ===== *)
theory SdkRetry
  imports Float64 GoText
begin

text \<open>
  The Connector SDK's retry loop (\<open>sdk/connector/retry/retry.go\<close>). The function retried is a state
  transformer, so that its calls can be counted. What the loop meets is a record \<open>retry_env\<close>: the
  answer of \<open>ctx.Err()\<close> before an attempt, whether the context ends the wait after one, the random
  numbers of the jitter, \<open>math.Pow\<close>.
\<close>

section \<open>Errors\<close>

datatype go_error = ErrText string | ErrPermanent go_error | ErrWrap string go_error

primrec err_Error :: "go_error \<Rightarrow> string" where
  "err_Error (ErrText s) = s"
| "err_Error (ErrPermanent e) = ''permanent: '' @ err_Error e"
| "err_Error (ErrWrap s e) = s @ err_Error e"

text \<open>\<open>errors.As\<close> follows the chain of wrapped errors.\<close>

primrec IsPermanent :: "go_error \<Rightarrow> bool" where
  "IsPermanent (ErrText s) = False"
| "IsPermanent (ErrPermanent e) = True"
| "IsPermanent (ErrWrap s e) = IsPermanent e"

section \<open>Backoff\<close>

record retry_config =
  rt_MaxAttempts :: int
  rt_BaseDelay :: duration
  rt_MaxDelay :: duration
  rt_Multiplier :: float64
  rt_Jitter :: float64

definition millisecond :: duration where
  "millisecond = 1000000"

definition retry_DefaultConfig :: retry_config where
  "retry_DefaultConfig = \<lparr> rt_MaxAttempts = 3, rt_BaseDelay = 500 * millisecond,
     rt_MaxDelay = 30 * second, rt_Multiplier = 2, rt_Jitter = rnd (1/10) \<rparr>"

definition applyDefaults :: "retry_config \<Rightarrow> retry_config" where
  "applyDefaults cfg = cfg\<lparr>
     rt_MaxAttempts := (if rt_MaxAttempts cfg \<le> 0 then 3 else rt_MaxAttempts cfg),
     rt_BaseDelay := (if rt_BaseDelay cfg \<le> 0 then 500 * millisecond else rt_BaseDelay cfg),
     rt_MaxDelay := (if rt_MaxDelay cfg \<le> 0 then 30 * second else rt_MaxDelay cfg),
     rt_Multiplier := (if rt_Multiplier cfg \<le> 0 then 2 else rt_Multiplier cfg) \<rparr>"

record retry_env =
  re_ctx_err :: "int \<Rightarrow> go_error option"
  re_wait_err :: "int \<Rightarrow> go_error option"
  re_rand :: "int \<Rightarrow> float64"
  re_pow :: "float64 \<Rightarrow> float64 \<Rightarrow> float64"

definition delayForAttempt :: "retry_env \<Rightarrow> retry_config \<Rightarrow> int \<Rightarrow> duration" where
  "delayForAttempt env cfg attempt =
     (let delay = fl_mul (rnd (of_int (rt_BaseDelay cfg)))
            (re_pow env (rt_Multiplier cfg) (rnd (of_int (attempt - 1))));
          delay = (if 0 < rt_Jitter cfg
            then fl_add delay (fl_mul (fl_mul delay (rt_Jitter cfg)) (re_rand env attempt)) else delay);
          d = to_int64 delay
      in if rt_MaxDelay cfg < d then rt_MaxDelay cfg else d)"

section \<open>The loops\<close>

definition wrap_err :: "string \<Rightarrow> go_error \<Rightarrow> go_error" where
  "wrap_err s e = ErrWrap (''retry: '' @ s) e"

text \<open>
  Each turn of the loop: the context, the call, the wait. The results are the state the calls
  leave, the waits begun, and the error.
\<close>

function do_loop ::
  "retry_env \<Rightarrow> retry_config \<Rightarrow> ('s \<Rightarrow> 's \<times> go_error option) \<Rightarrow> int \<Rightarrow> go_error \<Rightarrow> 's \<Rightarrow>
   's \<times> duration list \<times> go_error option" where
  "do_loop env cfg fn attempt lastErr s =
     (if rt_MaxAttempts cfg < attempt then
        (s, [], Some (wrap_err (''exhausted '' @ int_text (rt_MaxAttempts cfg) @
           '' attempts, last error: '') lastErr))
      else case re_ctx_err env attempt of
        Some e \<Rightarrow> (s, [], Some (wrap_err (''context cancelled on attempt '' @ int_text attempt @ '': '') e))
      | None \<Rightarrow>
          (case fn s of
             (s', None) \<Rightarrow> (s', [], None)
           | (s', Some err) \<Rightarrow>
               if IsPermanent err then (s', [], Some err)
               else if attempt = rt_MaxAttempts cfg then
                 (s', [], Some (wrap_err (''exhausted '' @ int_text (rt_MaxAttempts cfg) @
                    '' attempts, last error: '') err))
               else
                 (let delay = delayForAttempt env cfg attempt
                  in case re_wait_err env attempt of
                       Some e \<Rightarrow> (s', [delay], Some (wrap_err (''context cancelled waiting for attempt '' @
                         int_text (attempt + 1) @ '': '') e))
                     | None \<Rightarrow>
                         (case do_loop env cfg fn (attempt + 1) err s' of
                            (s'', ds, res) \<Rightarrow> (s'', delay # ds, res)))))"
  by pat_completeness auto
termination
  by (relation "measure (\<lambda>(_, cfg, _, attempt, _, _). nat (rt_MaxAttempts cfg + 1 - attempt))") auto

declare do_loop.simps [simp del]

definition retry_Do ::
  "retry_env \<Rightarrow> retry_config \<Rightarrow> ('s \<Rightarrow> 's \<times> go_error option) \<Rightarrow> 's \<Rightarrow> 's \<times> duration list \<times> go_error option" where
  "retry_Do env cfg fn s = do_loop env (applyDefaults cfg) fn 1 (ErrText []) s"

record retry_Attempt =
  at_Number :: int
  at_Err :: "go_error option"
  at_Delay :: duration

function do_attempts_loop ::
  "retry_env \<Rightarrow> retry_config \<Rightarrow> ('s \<Rightarrow> 's \<times> go_error option) \<Rightarrow> int \<Rightarrow> go_error \<Rightarrow> retry_Attempt list \<Rightarrow> 's \<Rightarrow>
   's \<times> retry_Attempt list \<times> go_error option" where
  "do_attempts_loop env cfg fn attempt lastErr attempts s =
     (if rt_MaxAttempts cfg < attempt then
        (s, attempts, Some (wrap_err (''exhausted '' @ int_text (rt_MaxAttempts cfg) @
           '' attempts, last error: '') lastErr))
      else case re_ctx_err env attempt of
        Some e \<Rightarrow> (s, attempts, Some (wrap_err (''context cancelled on attempt '' @ int_text attempt @ '': '') e))
      | None \<Rightarrow>
          (case fn s of
             (s', None) \<Rightarrow>
               (s', attempts @ [\<lparr> at_Number = attempt, at_Err = None, at_Delay = 0 \<rparr>], None)
           | (s', Some err) \<Rightarrow>
               if IsPermanent err then
                 (s', attempts @ [\<lparr> at_Number = attempt, at_Err = Some err, at_Delay = 0 \<rparr>], Some err)
               else
                 (let delay = (if attempt < rt_MaxAttempts cfg then delayForAttempt env cfg attempt else 0);
                      attempts' = attempts @ [\<lparr> at_Number = attempt, at_Err = Some err, at_Delay = delay \<rparr>]
                  in if attempt = rt_MaxAttempts cfg then
                       (s', attempts', Some (wrap_err (''exhausted '' @ int_text (rt_MaxAttempts cfg) @
                          '' attempts, last error: '') err))
                     else case re_wait_err env attempt of
                       Some e \<Rightarrow> (s', attempts', Some (wrap_err (''context cancelled waiting for attempt '' @
                         int_text (attempt + 1) @ '': '') e))
                     | None \<Rightarrow> do_attempts_loop env cfg fn (attempt + 1) err attempts' s')))"
  by pat_completeness auto
termination
  by (relation "measure (\<lambda>(_, cfg, _, attempt, _, _, _). nat (rt_MaxAttempts cfg + 1 - attempt))") auto

declare do_attempts_loop.simps [simp del]

definition DoWithAttempts ::
  "retry_env \<Rightarrow> retry_config \<Rightarrow> ('s \<Rightarrow> 's \<times> go_error option) \<Rightarrow> 's \<Rightarrow>
   's \<times> retry_Attempt list \<times> go_error option" where
  "DoWithAttempts env cfg fn s = do_attempts_loop env (applyDefaults cfg) fn 1 (ErrText []) [] s"

section \<open>Laws\<close>

text \<open>The state and the error of the \<open>n\<close>-th call, all calls made.\<close>

primrec after_calls :: "('s \<Rightarrow> 's \<times> go_error option) \<Rightarrow> nat \<Rightarrow> 's \<Rightarrow> 's" where
  "after_calls fn 0 s = s"
| "after_calls fn (Suc n) s = after_calls fn n (fst (fn s))"

definition call_error :: "('s \<Rightarrow> 's \<times> go_error option) \<Rightarrow> 's \<Rightarrow> nat \<Rightarrow> go_error option" where
  "call_error fn s n = snd (fn (after_calls fn n s))"

definition retryable :: "go_error option \<Rightarrow> bool" where
  "retryable r \<longleftrightarrow> (case r of None \<Rightarrow> False | Some e \<Rightarrow> \<not> IsPermanent e)"

definition never_cancelled :: "retry_env \<Rightarrow> bool" where
  "never_cancelled env \<longleftrightarrow> (\<forall>n. re_ctx_err env n = None \<and> re_wait_err env n = None)"

text \<open>What a run of the loop from attempt \<open>a\<close> with \<open>k\<close> calls is.\<close>

definition retry_run ::
  "retry_env \<Rightarrow> retry_config \<Rightarrow> ('s \<Rightarrow> 's \<times> go_error option) \<Rightarrow> int \<Rightarrow> 's \<Rightarrow> nat \<Rightarrow>
   's \<times> duration list \<times> go_error option \<Rightarrow> bool" where
  "retry_run env cfg fn a s k out \<longleftrightarrow> (case out of (s', ds, res) \<Rightarrow>
     a + int k \<le> rt_MaxAttempts cfg + 1 \<and> s' = after_calls fn k s \<and>
     (\<forall>i. Suc i < k \<longrightarrow> retryable (call_error fn s i)) \<and>
     (res = None \<longleftrightarrow> 0 < k \<and> call_error fn s (k - 1) = None) \<and>
     (never_cancelled env \<and> res \<noteq> None \<longrightarrow> 0 < k \<and>
        (a + int k = rt_MaxAttempts cfg + 1 \<or> \<not> retryable (call_error fn s (k - 1)))) \<and>
     length ds \<le> k \<and> ds = map (\<lambda>i. delayForAttempt env cfg (a + int i)) [0..<length ds])"

lemma call_error_0: "call_error fn s 0 = snd (fn s)"
  by (simp add: call_error_def)

lemma call_error_Suc: "call_error fn s (Suc n) = call_error fn (fst (fn s)) n"
  by (simp add: call_error_def)

lemma retry_run_later:
  assumes "retry_run env cfg fn (a + 1) (fst (fn s)) k (s', ds, res)" and "retryable (snd (fn s))"
    and "0 < k \<or> \<not> never_cancelled env"
  shows "retry_run env cfg fn a s (Suc k) (s', delayForAttempt env cfg a # ds, res)"
proof -
  have "retryable (call_error fn s i)" if "Suc i < Suc k" for i
    using that assms(1,2) by (cases i) (auto simp: retry_run_def call_error_0 call_error_Suc)
  moreover have "call_error fn s (Suc k - 1) = (if k = 0 then snd (fn s) else call_error fn (fst (fn s)) (k - 1))"
    by (cases k) (simp_all add: call_error_0 call_error_Suc)
  moreover have "delayForAttempt env cfg a # ds =
      map (\<lambda>i. delayForAttempt env cfg (a + int i)) [0..<length (delayForAttempt env cfg a # ds)]"
  proof -
    have "ds = map (\<lambda>i. delayForAttempt env cfg (a + int (Suc i))) [0..<length ds]"
      using assms(1) by (simp add: retry_run_def add.assoc)
    then show ?thesis
      using map_upt_Suc [of "\<lambda>i. delayForAttempt env cfg (a + int i)" "length ds"]
      by (simp only: list.size add_0_right of_nat_0 int_ops(1) One_nat_def add_Suc_right)
  qed
  ultimately show ?thesis
    using assms by (auto simp: retry_run_def retryable_def split: option.splits)
qed

lemma do_loop_run:
  "a \<le> rt_MaxAttempts cfg \<Longrightarrow> \<exists>k. (0 < k \<or> \<not> never_cancelled env) \<and>
     retry_run env cfg fn a s k (do_loop env cfg fn a e s)"
proof (induction env cfg fn a e s rule: do_loop.induct)
  case (1 env cfg fn a e s)
  show ?case
  proof (cases "re_ctx_err env a")
    case (Some err)
    then have "\<not> never_cancelled env" by (metis never_cancelled_def option.distinct(1))
    with Some 1 show ?thesis
      by (intro exI [of _ 0]) (simp add: do_loop.simps [of env cfg fn a e s] retry_run_def)
  next
    case ctx: None
    obtain s1 r where f: "fn s = (s1, r)" by (cases "fn s")
    let ?one = "do_loop env cfg fn a e s"
    have last: "\<exists>k. (0 < k \<or> \<not> never_cancelled env) \<and> retry_run env cfg fn a s k ?one"
      if "?one = (s1, ds, res)" "res = None \<longleftrightarrow> r = None" "length ds \<le> 1"
        "ds = map (\<lambda>i. delayForAttempt env cfg (a + int i)) [0..<length ds]"
        "never_cancelled env \<longrightarrow> res \<noteq> None \<longrightarrow> a = rt_MaxAttempts cfg \<or> \<not> retryable r" for ds res
      using that 1(2) f by (intro exI [of _ 1]) (auto simp: retry_run_def call_error_0)
    show ?thesis
    proof (cases r)
      case None
      with f ctx 1(2) show ?thesis by (intro last [of "[]" None]) (simp_all add: do_loop.simps [of env cfg fn a e s])
    next
      case (Some err)
      show ?thesis
      proof (cases "IsPermanent err \<or> a = rt_MaxAttempts cfg")
        case True
        with f ctx Some 1(2) show ?thesis
          by (intro last [of "[]" "snd (snd ?one)"]) (auto simp: do_loop.simps [of env cfg fn a e s] retryable_def)
      next
        case False
        show ?thesis
        proof (cases "re_wait_err env a")
          case w: (Some we)
          then have "\<not> never_cancelled env" by (metis never_cancelled_def option.distinct(1))
          with f ctx Some False w 1(2) show ?thesis
            by (intro last [of "[delayForAttempt env cfg a]" "snd (snd ?one)"])
              (auto simp: do_loop.simps [of env cfg fn a e s] Let_def)
        next
          case w: None
          obtain s2 ds res where rec: "do_loop env cfg fn (a + 1) err s1 = (s2, ds, res)"
            by (cases "do_loop env cfg fn (a + 1) err s1")
          have "a + 1 \<le> rt_MaxAttempts cfg" using False 1(2) by simp
          then obtain k where k: "0 < k \<or> \<not> never_cancelled env"
              "retry_run env cfg fn (a + 1) s1 k (s2, ds, res)"
            using "1.IH" [of s1 "Some err" err "delayForAttempt env cfg a"] 1(2) ctx f Some False w rec
            by auto
          have "retry_run env cfg fn a s (Suc k) (s2, delayForAttempt env cfg a # ds, res)"
            using k f Some False by (intro retry_run_later) (simp_all add: retryable_def)
          moreover have "?one = (s2, delayForAttempt env cfg a # ds, res)"
            using 1(2) ctx f Some False w rec by (simp add: do_loop.simps [of env cfg fn a e s] Let_def)
          ultimately show ?thesis by auto
        qed
      qed
    qed
  qed
qed

lemma applyDefaults_pos: "1 \<le> rt_MaxAttempts (applyDefaults cfg) \<and> 1 \<le> rt_BaseDelay (applyDefaults cfg) \<and>
    1 \<le> rt_MaxDelay (applyDefaults cfg) \<and> 0 < rt_Multiplier (applyDefaults cfg)"
  by (simp add: applyDefaults_def millisecond_def second_def)

lemma attempts_loop_run:
  "a \<le> rt_MaxAttempts cfg \<Longrightarrow> do_loop env cfg fn a e s = (s', ds, res) \<Longrightarrow>
   \<exists>new. do_attempts_loop env cfg fn a e old s = (s', old @ new, res) \<and>
     map at_Number new = map (\<lambda>i. a + int i) [0..<length new] \<and>
     (map at_Delay new = ds \<or> map at_Delay new = ds @ [0])"
proof (induction env cfg fn a e s arbitrary: ds old rule: do_loop.induct)
  case (1 env cfg fn a e s)
  note one = do_loop.simps [of env cfg fn a e s] and two = do_attempts_loop.simps [of env cfg fn a e old s]
  show ?case
  proof (cases "re_ctx_err env a")
    case (Some err)
    with 1(2,3) show ?thesis by (auto simp: one do_attempts_loop.simps [of env cfg fn a e old s'])
  next
    case ctx: None
    obtain s1 r where f: "fn s = (s1, r)" by (cases "fn s")
    show ?thesis
    proof (cases "\<exists>err. r = Some err \<and> \<not> IsPermanent err \<and> a \<noteq> rt_MaxAttempts cfg \<and> re_wait_err env a = None")
      case False
      with f ctx 1(2,3) show ?thesis
        by (auto simp: one two Let_def split: option.splits if_splits)
    next
      case True
      then obtain err where r: "r = Some err" "\<not> IsPermanent err" "a \<noteq> rt_MaxAttempts cfg"
        "re_wait_err env a = None" by blast
      let ?d = "delayForAttempt env cfg a"
      let ?at = "\<lparr> at_Number = a, at_Err = Some err, at_Delay = ?d \<rparr>"
      obtain s2 ds' res' where rec: "do_loop env cfg fn (a + 1) err s1 = (s2, ds', res')"
        by (cases "do_loop env cfg fn (a + 1) err s1")
      then have eq: "s' = s2" "ds = ?d # ds'" "res = res'" using 1(2,3) f ctx r by (auto simp: one Let_def)
      have "a + 1 \<le> rt_MaxAttempts cfg" using r(3) 1(2) by simp
      then obtain new where n: "do_attempts_loop env cfg fn (a + 1) err (old @ [?at]) s1 = (s2, (old @ [?at]) @ new, res')"
          "map at_Number new = map (\<lambda>i. a + 1 + int i) [0..<length new]"
          "map at_Delay new = ds' \<or> map at_Delay new = ds' @ [0]"
        using "1.IH" [of s1 "Some err" err ?d ds' "old @ [?at]"] 1(2) ctx f r rec eq by auto
      have "map at_Number (?at # new) = map (\<lambda>i. a + int i) [0..<length (?at # new)]"
        using n(2) map_upt_Suc [of "\<lambda>i. a + int i" "length new"] by (simp add: add.assoc del: upt_Suc)
      then show ?thesis
        using n(1,3) 1(2) ctx f r eq
        by (intro exI [of _ "?at # new"]) (auto simp: two Let_def)
    qed
  qed
qed

section \<open>Properties\<close>

text \<open>
  C38. The retry loop ends after at most \<open>MaxAttempts\<close> calls (3 when the configuration has none),
  whatever the function, the context and the clock do. It calls the function again only after an
  error that is not permanent, answers success exactly when its last call succeeded, gives up
  early only when the context is cancelled or the error is permanent, and waits between two calls
  what \<open>delayForAttempt\<close> says.
\<close>

theorem retry_stops:
  "\<exists>k. retry_run env (applyDefaults cfg) fn 1 s k (retry_Do env cfg fn s) \<and>
     int k \<le> (if rt_MaxAttempts cfg \<le> 0 then 3 else rt_MaxAttempts cfg)"
proof -
  have "1 \<le> rt_MaxAttempts (applyDefaults cfg)" using applyDefaults_pos by blast
  from do_loop_run [OF this, of env fn s "ErrText []"]
  obtain k where k: "retry_run env (applyDefaults cfg) fn 1 s k (retry_Do env cfg fn s)"
    unfolding retry_Do_def by blast
  moreover have "int k \<le> rt_MaxAttempts (applyDefaults cfg)"
    using k by (auto simp: retry_run_def split: prod.splits)
  ultimately show ?thesis by (auto simp: applyDefaults_def)
qed

text \<open>
  \<open>DoWithAttempts\<close> is \<open>Do\<close> with a record: it makes the same calls, leaves the same state and
  returns the same error, and its records are numbered from 1 and carry the waits of \<open>Do\<close>.
\<close>

theorem retry_attempts_agree:
  "\<exists>s' ds res ats. retry_Do env cfg fn s = (s', ds, res) \<and> DoWithAttempts env cfg fn s = (s', ats, res) \<and>
     map at_Number ats = map (\<lambda>i. 1 + int i) [0..<length ats] \<and>
     (map at_Delay ats = ds \<or> map at_Delay ats = ds @ [0])"
proof -
  obtain s' ds res where d: "do_loop env (applyDefaults cfg) fn 1 (ErrText []) s = (s', ds, res)"
    by (cases "do_loop env (applyDefaults cfg) fn 1 (ErrText []) s")
  have "1 \<le> rt_MaxAttempts (applyDefaults cfg)" using applyDefaults_pos by blast
  from attempts_loop_run [OF this d, of "[]"] show ?thesis
    unfolding retry_Do_def DoWithAttempts_def d by auto
qed

text \<open>
  The backoff doubles from \<open>BaseDelay\<close> up to \<open>MaxDelay\<close>, as documented, while the doubled
  delay fits an \<open>int64\<close> of nanoseconds. From the attempt where it does not, it becomes the smallest
  \<open>Duration\<close>, which the cap does not catch: the loop then retries without waiting at all.
\<close>

theorem retry_backoff_schedule:
  assumes "rt_Multiplier cfg = 2" and "\<forall>n\<le>1023. re_pow env 2 (of_nat n) = 2 ^ n"
    and "1 \<le> rt_BaseDelay cfg" and "rt_BaseDelay cfg \<le> 2 ^ 53"
    and "1 \<le> rt_MaxDelay cfg" and "n \<le> 1023" and "0 \<le> re_rand env (1 + int n)"
  shows "(rt_Jitter cfg \<le> 0 \<and> rt_BaseDelay cfg * 2 ^ n \<le> max_int64 \<longrightarrow>
      delayForAttempt env cfg (1 + int n) = min (rt_BaseDelay cfg * 2 ^ n) (rt_MaxDelay cfg)) \<and>
    (max_int64 < rt_BaseDelay cfg * 2 ^ n \<longrightarrow> delayForAttempt env cfg (1 + int n) = min_int64)"
proof -
  let ?b = "rt_BaseDelay cfg" and ?j = "rt_Jitter cfg" and ?r = "re_rand env (1 + int n)"
  have "(of_nat n :: rat) = of_int (int n)" by simp
  moreover have "\<bar>int n\<bar> \<le> 2 ^ 53" using assms(6) by simp
  ultimately have n: "rnd (of_nat n) = (of_nat n :: rat)" using rnd_int by metis
  have b: "rnd (of_int ?b) = of_int ?b" using assms(3,4) by (intro rnd_int) simp
  have e: "rnd (of_int ?b * 2 ^ n) = of_int (?b * 2 ^ n)"
    using rnd_exact [of ?b "int n"] assms(3,4) by simp
  let ?d = "of_int (?b * 2 ^ n) :: rat"
  have base: "fl_mul (rnd (of_int ?b)) (re_pow env 2 (rnd (of_int (1 + int n - 1)))) = ?d"
    using n b e assms(2,6) by (simp add: fl_mul_def)
  have d0: "0 \<le> ?d" using assms(3) by simp
  have d: "delayForAttempt env cfg (1 + int n) =
      (let v = (if 0 < ?j then fl_add ?d (fl_mul (fl_mul ?d ?j) ?r) else ?d)
       in if rt_MaxDelay cfg < to_int64 v then rt_MaxDelay cfg else to_int64 v)"
    unfolding delayForAttempt_def assms(1) base Let_def ..
  have "to_int64 ?d = ?b * 2 ^ n" if "?b * 2 ^ n \<le> max_int64"
  proof -
    have "min_int64 \<le> ?b * 2 ^ n" using assms(3) by (simp add: min_int64_def order.trans [of _ 0])
    with that show ?thesis by (simp only: to_int64_def trunc_int_of_int Let_def simp_thms if_True)
  qed
  then have one: "?j \<le> 0 \<and> ?b * 2 ^ n \<le> max_int64 \<longrightarrow>
      delayForAttempt env cfg (1 + int n) = min (?b * 2 ^ n) (rt_MaxDelay cfg)"
    unfolding d by (auto simp: Let_def)
  have "delayForAttempt env cfg (1 + int n) = min_int64" if big: "max_int64 < ?b * 2 ^ n"
  proof -
    have nn: "0 \<le> x \<Longrightarrow> 0 \<le> y \<Longrightarrow> 0 \<le> fl_mul x y" for x y
      using rnd_mono [of 0 "x * y"] by (simp add: fl_mul_def)
    have "?d \<le> fl_add ?d (fl_mul (fl_mul ?d ?j) ?r)" if "0 < ?j"
    proof -
      have "0 \<le> fl_mul (fl_mul ?d ?j) ?r" using d0 that assms(7) by (intro nn) simp_all
      then have "rnd ?d \<le> fl_add ?d (fl_mul (fl_mul ?d ?j) ?r)"
        unfolding fl_add_def by (intro rnd_mono) simp
      then show ?thesis using e by simp
    qed
    moreover have "of_int (max_int64 + 1) \<le> ?d" using big by (simp only: of_int_le_iff)
    ultimately have "to_int64 (if 0 < ?j then fl_add ?d (fl_mul (fl_mul ?d ?j) ?r) else ?d) = min_int64"
      by (intro to_int64_big) (auto intro: order.trans)
    moreover have "\<not> rt_MaxDelay cfg < min_int64" using assms(5) by (simp add: min_int64_def)
    ultimately show ?thesis unfolding d by (simp add: Let_def)
  qed
  with one show ?thesis by blast
qed

section \<open>Witnesses\<close>

definition ex_retry_env :: retry_env where
  "ex_retry_env = \<lparr> re_ctx_err = (\<lambda>_. None), re_wait_err = (\<lambda>_. None), re_rand = (\<lambda>_. 1/2),
     re_pow = (\<lambda>x y. x ^ nat \<lfloor>y\<rfloor>) \<rparr>"

theorem retry_backoff_schedule_witness:
  "delayForAttempt ex_retry_env (retry_DefaultConfig\<lparr> rt_MaxAttempts := 100 \<rparr>) 37 = min_int64"
  using retry_backoff_schedule [of "retry_DefaultConfig\<lparr> rt_MaxAttempts := 100 \<rparr>" ex_retry_env 36]
  by (simp add: retry_DefaultConfig_def ex_retry_env_def millisecond_def second_def max_int64_def)

end
