(* ===== verification/SdkBucket.thy ===== *)
theory SdkBucket
  imports Float64 Prelude
begin

text \<open>
  The Connector SDK's token bucket (\<open>sdk/connector/ratelimit/token_bucket.go\<close>). Each method runs under
  the mutex and is one step at one reading of the clock, \<open>now\<close>, which for Go's \<open>time.Now\<close> is
  monotonic. \<open>Acquire\<close> is a loop of such steps: \<open>acquire_step\<close> is one turn, which takes a token or
  says how long to wait before the next.
\<close>

section \<open>The bucket\<close>

record bucket_config =
  bk_Rate :: float64
  bk_Burst :: float64

record TokenBucket =
  tb_cfg :: bucket_config
  tb_tokens :: float64
  tb_lastRefill :: gotime

definition bucket_DefaultConfig :: bucket_config where
  "bucket_DefaultConfig = \<lparr> bk_Rate = 10, bk_Burst = 20 \<rparr>"

datatype bucket_error = RateNotPositive float64 | BurstNotPositive float64

definition bucket_New :: "bucket_config \<Rightarrow> gotime \<Rightarrow> bucket_error + TokenBucket" where
  "bucket_New cfg now =
     (if bk_Rate cfg \<le> 0 then Inl (RateNotPositive (bk_Rate cfg))
      else if bk_Burst cfg \<le> 0 then Inl (BurstNotPositive (bk_Burst cfg))
      else Inr \<lparr> tb_cfg = cfg, tb_tokens = bk_Burst cfg, tb_lastRefill = now \<rparr>)"

text \<open>\<open>Duration.Seconds\<close>: whole seconds plus the fraction of one.\<close>

definition duration_Seconds :: "duration \<Rightarrow> float64" where
  "duration_Seconds d =
     (let sec = go_div d second; nsec = d - sec * second
      in fl_add (rnd (of_int sec)) (fl_div (rnd (of_int nsec)) 1000000000))"

definition refill :: "gotime \<Rightarrow> TokenBucket \<Rightarrow> TokenBucket" where
  "refill now tb =
     (let elapsed = duration_Seconds (time_Sub now (tb_lastRefill tb));
          tokens = fl_add (tb_tokens tb) (fl_mul elapsed (bk_Rate (tb_cfg tb)));
          tokens = (if bk_Burst (tb_cfg tb) < tokens then bk_Burst (tb_cfg tb) else tokens)
      in tb\<lparr> tb_tokens := tokens, tb_lastRefill := now \<rparr>)"

definition TryAcquire :: "gotime \<Rightarrow> TokenBucket \<Rightarrow> TokenBucket \<times> bool" where
  "TryAcquire now tb =
     (let tb = refill now tb
      in if 1 \<le> tb_tokens tb then (tb\<lparr> tb_tokens := fl_sub (tb_tokens tb) 1 \<rparr>, True) else (tb, False))"

definition Tokens :: "gotime \<Rightarrow> TokenBucket \<Rightarrow> TokenBucket \<times> float64" where
  "Tokens now tb = (let tb = refill now tb in (tb, tb_tokens tb))"

definition WaitTime :: "gotime \<Rightarrow> float64 \<Rightarrow> TokenBucket \<Rightarrow> TokenBucket \<times> duration" where
  "WaitTime now n tb =
     (let tb = refill now tb
      in if n \<le> tb_tokens tb then (tb, 0)
         else (tb, to_int64 (fl_mul (fl_div (fl_sub n (tb_tokens tb)) (bk_Rate (tb_cfg tb)))
                 (rnd (of_int second)))))"

text \<open>One turn of \<open>Acquire\<close>: \<open>None\<close> when it took a token, else the wait.\<close>

definition acquire_step :: "gotime \<Rightarrow> TokenBucket \<Rightarrow> TokenBucket \<times> duration option" where
  "acquire_step now tb =
     (let tb = refill now tb
      in if 1 \<le> tb_tokens tb then (tb\<lparr> tb_tokens := fl_sub (tb_tokens tb) 1 \<rparr>, None)
         else (tb, Some (wrap64 (to_int64 (fl_mul (fl_div (fl_sub 1 (tb_tokens tb)) (bk_Rate (tb_cfg tb)))
                 (rnd (of_int second))) + 1000000))))"

section \<open>Any number of callers\<close>

text \<open>The steps of any callers, each at the instant the clock then shows, and the tokens taken.\<close>

datatype bucket_op = OpTry | OpTokens | OpWait float64 | OpAcquire

definition bucket_step :: "gotime \<Rightarrow> bucket_op \<Rightarrow> TokenBucket \<Rightarrow> TokenBucket \<times> bool" where
  "bucket_step now op tb =
     (case op of
        OpTry \<Rightarrow> TryAcquire now tb
      | OpTokens \<Rightarrow> (fst (Tokens now tb), False)
      | OpWait n \<Rightarrow> (fst (WaitTime now n tb), False)
      | OpAcquire \<Rightarrow> (fst (acquire_step now tb), snd (acquire_step now tb) = None))"

inductive bucket_run :: "TokenBucket \<Rightarrow> TokenBucket \<Rightarrow> nat \<Rightarrow> nat \<Rightarrow> bool" for tb where
  start: "bucket_run tb tb 0 0"
| step: "bucket_run tb tb1 n taken \<Longrightarrow> tb_lastRefill tb1 \<le> now \<Longrightarrow> now - tb_lastRefill tb1 \<le> max_int64 \<Longrightarrow>
    bucket_step now op tb1 = (tb2, got) \<Longrightarrow> bucket_run tb tb2 (Suc n) (if got then Suc taken else taken)"

lemma bucket_step_refill:
  "bucket_step now op tb =
     (if (op = OpTry \<or> op = OpAcquire) \<and> 1 \<le> tb_tokens (refill now tb)
      then ((refill now tb)\<lparr> tb_tokens := fl_sub (tb_tokens (refill now tb)) 1 \<rparr>, True)
      else (refill now tb, False))"
  by (cases op) (auto simp: bucket_step_def TryAcquire_def Tokens_def WaitTime_def acquire_step_def Let_def)

section \<open>Rounding\<close>

abbreviation ulp1 :: rat where "ulp1 \<equiv> 1 + 1 / 2 ^ 53"

text \<open>The seconds of an elapsed time, within two roundings.\<close>

lemma seconds_parts:
  assumes "0 \<le> d" and "d \<le> max_int64"
  shows "\<exists>sec nsec. d = sec * second + nsec \<and> 0 \<le> sec \<and> sec \<le> 2 ^ 53 \<and> 0 \<le> nsec \<and> nsec < second \<and>
    duration_Seconds d = rnd (of_int sec + rnd (of_int nsec / 1000000000))"
proof -
  let ?s = "d div second" and ?n = "d mod second"
  have s: "0 \<le> ?s" "?s \<le> max_int64 div second" using assms by (simp_all add: second_def zdiv_mono1)
  then have s2: "?s \<le> 2 ^ 53" by (simp add: max_int64_def second_def)
  have g: "go_div d second = ?s"
  proof (cases "d = 0")
    case False
    then have "sgn d = 1" using assms(1) by simp
    then show ?thesis using assms s s2 wrap64_id [of ?s]
      by (simp add: go_div_def second_def min_int64_def max_int64_def)
  qed (simp add: go_div_def wrap64_def second_def)
  have n: "0 \<le> ?n" "?n < second" by (simp_all add: second_def)
  have "rnd (of_int ?s) = of_int ?s" using s s2 by (intro rnd_int) simp
  moreover have "rnd (of_int ?n) = of_int ?n" using n by (intro rnd_int) (simp add: second_def)
  moreover have "d - ?s * second = ?n" by (simp add: minus_div_mult_eq_mod)
  ultimately have "duration_Seconds d = rnd (of_int ?s + rnd (of_int ?n / 1000000000))"
    unfolding duration_Seconds_def g Let_def fl_add_def fl_div_def by simp
  then show ?thesis using s s2 n by (intro exI [of _ ?s] exI [of _ ?n]) simp
qed

lemma seconds_bounds:
  assumes "0 \<le> d" and "d \<le> max_int64"
  shows "of_int d / 10 ^ 9 * (1 - 1 / 2 ^ 53) ^ 2 \<le> duration_Seconds d \<and>
    duration_Seconds d \<le> of_int d / 10 ^ 9 * ulp1 ^ 2"
proof -
  obtain sec nsec where d: "d = sec * second + nsec" "0 \<le> sec" "0 \<le> nsec"
    and e: "duration_Seconds d = rnd (of_int sec + rnd (of_int nsec / 1000000000))"
    using seconds_parts [OF assms] by auto
  let ?S = "of_int sec :: rat" and ?y = "of_int nsec / 1000000000 :: rat"
  have D: "of_int d / 10 ^ 9 = ?S + ?y" using d(1) by (simp add: second_def add_divide_distrib)
  have S: "0 \<le> ?S" "0 \<le> ?y" using d by simp_all
  have up: "?S + rnd ?y \<le> (?S + ?y) * ulp1"
    using rnd_up [OF S(2)] S by (simp add: distrib_left distrib_right)
  have lo: "(?S + ?y) * (1 - 1 / 2 ^ 53) \<le> ?S + rnd ?y"
    using rnd_down [OF S(2)] S by (simp add: distrib_right right_diff_distrib)
  have nn: "0 \<le> ?S + rnd ?y" using S rnd_nonneg [OF S(2)] by simp
  have "rnd (?S + rnd ?y) \<le> (?S + rnd ?y) * ulp1" by (rule rnd_up [OF nn])
  also have "\<dots> \<le> (?S + ?y) * ulp1 * ulp1" using up by (intro mult_right_mono) simp_all
  finally have u: "rnd (?S + rnd ?y) \<le> (?S + ?y) * ulp1 ^ 2" by (simp only: power2_eq_square mult.assoc)
  have "(?S + ?y) * (1 - 1 / 2 ^ 53) * (1 - 1 / 2 ^ 53) \<le> (?S + rnd ?y) * (1 - 1 / 2 ^ 53)"
    using lo by (intro mult_right_mono) simp_all
  also have "\<dots> \<le> rnd (?S + rnd ?y)" by (rule rnd_down [OF nn])
  finally have l: "(?S + ?y) * (1 - 1 / 2 ^ 53) ^ 2 \<le> rnd (?S + rnd ?y)"
    by (simp only: power2_eq_square mult.assoc)
  show ?thesis unfolding D e using u l by blast
qed

section \<open>Laws\<close>

definition bucket_ok :: "TokenBucket \<Rightarrow> bool" where
  "bucket_ok tb \<longleftrightarrow> 0 \<le> tb_tokens tb \<and> tb_tokens tb \<le> bk_Burst (tb_cfg tb) \<and>
     0 < bk_Rate (tb_cfg tb) \<and> 0 < bk_Burst (tb_cfg tb) \<and> bk_Burst (tb_cfg tb) \<le> 2 ^ 53"

lemma refill_ok:
  assumes "bucket_ok tb" and "tb_lastRefill tb \<le> now" and "now - tb_lastRefill tb \<le> max_int64"
  shows "bucket_ok (refill now tb) \<and> tb_cfg (refill now tb) = tb_cfg tb \<and>
    tb_lastRefill (refill now tb) = now \<and>
    tb_tokens (refill now tb) \<le> tb_tokens tb + of_int (now - tb_lastRefill tb) / 10 ^ 9 *
      bk_Rate (tb_cfg tb) * ulp1 ^ 4 + bk_Burst (tb_cfg tb) / 2 ^ 53"
proof -
  let ?d = "now - tb_lastRefill tb" and ?r = "bk_Rate (tb_cfg tb)" and ?B = "bk_Burst (tb_cfg tb)"
  let ?el = "of_int ?d / 10 ^ 9 :: rat" and ?t = "tb_tokens tb"
  let ?secs = "duration_Seconds ?d"
  let ?m = "fl_mul ?secs ?r" and ?s = "fl_add ?t (fl_mul ?secs ?r)"
  have p4: "x ^ 3 * x = x ^ 4" for x :: rat by (simp add: power_numeral_reduce)
  have sub: "time_Sub now (tb_lastRefill tb) = ?d"
    using assms(2,3) by (simp add: time_Sub_def sat64_def min_int64_def)
  have pos: "0 < ?r" "0 < ?B" "0 \<le> ?t" "?t \<le> ?B" "?B \<le> 2 ^ 53" using assms(1) by (auto simp: bucket_ok_def)
  have el: "0 \<le> ?el" using assms(2) by simp
  have secs: "0 \<le> ?secs" "?secs \<le> ?el * ulp1 ^ 2"
    using seconds_bounds [of ?d] assms(2,3) el by (auto intro: order.trans [of 0 "?el * (1 - 1 / 2 ^ 53) ^ 2"])
  have m0: "0 \<le> ?m" using secs pos by (simp add: fl_mul_def rnd_nonneg)
  have "?m \<le> ?secs * ?r * ulp1" unfolding fl_mul_def using secs pos by (intro rnd_up) simp
  also have "\<dots> \<le> ?el * ulp1 ^ 2 * ?r * ulp1" using secs pos by (intro mult_right_mono) simp_all
  also have "\<dots> = ?el * ?r * ulp1 ^ 3" by (simp only: power3_eq_cube power2_eq_square ac_simps)
  finally have m: "?m \<le> ?el * ?r * ulp1 ^ 3" .
  have s0: "0 \<le> ?s" using m0 pos by (simp add: fl_add_def rnd_nonneg)
  have "?s \<le> (?t + ?m) * ulp1" unfolding fl_add_def [of ?t] using m0 pos by (intro rnd_up) simp
  also have "\<dots> = ?t + ?t / 2 ^ 53 + ?m * ulp1" by (simp add: distrib_left distrib_right)
  also have "\<dots> \<le> ?t + ?B / 2 ^ 53 + ?el * ?r * ulp1 ^ 3 * ulp1"
    using m pos by (intro add_mono mult_right_mono divide_right_mono) simp_all
  also have "\<dots> = ?t + ?el * ?r * ulp1 ^ 4 + ?B / 2 ^ 53" 
    by (simp only: mult.assoc p4 add_ac)
  finally have s: "?s \<le> ?t + ?el * ?r * ulp1 ^ 4 + ?B / 2 ^ 53" .
  have tok: "tb_tokens (refill now tb) = (if ?B < ?s then ?B else ?s)"
    by (simp add: refill_def sub Let_def)
  have rest: "tb_cfg (refill now tb) = tb_cfg tb" "tb_lastRefill (refill now tb) = now"
    by (simp_all add: refill_def Let_def)
  have "0 \<le> tb_tokens (refill now tb)" "tb_tokens (refill now tb) \<le> ?B"
    unfolding tok using s0 pos by auto
  moreover have "tb_tokens (refill now tb) \<le> ?s" unfolding tok by simp
  ultimately show ?thesis using rest s pos by (auto simp: bucket_ok_def)
qed

lemma take_one:
  assumes "1 \<le> t" and "t \<le> B" and "B \<le> 2 ^ 53"
  shows "0 \<le> fl_sub t 1 \<and> fl_sub t 1 \<le> B \<and> fl_sub t 1 + 1 \<le> t + B / 2 ^ 53"
proof -
  have p: "0 \<le> t - 1" using assms(1) by simp
  have "fl_sub t 1 \<le> (t - 1) * ulp1" unfolding fl_sub_def by (rule rnd_up [OF p])
  also have "\<dots> = t - 1 + (t - 1) / 2 ^ 53" by (simp only: distrib_left mult_1_right times_divide_eq_right)
  also have "\<dots> \<le> t - 1 + B / 2 ^ 53" using assms(2) by (intro add_mono divide_right_mono) simp_all
  finally have u: "fl_sub t 1 + 1 \<le> t + B / 2 ^ 53" by simp
  moreover have "B / 2 ^ 53 \<le> 1" using assms(3) by simp
  moreover have "0 \<le> fl_sub t 1" unfolding fl_sub_def by (rule rnd_nonneg [OF p])
  ultimately show ?thesis using assms(2) by linarith
qed

lemma bucket_step_ok:
  assumes "bucket_ok tb" and "tb_lastRefill tb \<le> now" and "now - tb_lastRefill tb \<le> max_int64"
    and "bucket_step now op tb = (tb', got)"
  shows "bucket_ok tb' \<and> tb_cfg tb' = tb_cfg tb \<and> tb_lastRefill tb' = now \<and>
    tb_tokens tb' + of_bool got \<le> tb_tokens tb + of_int (now - tb_lastRefill tb) / 10 ^ 9 *
      bk_Rate (tb_cfg tb) * ulp1 ^ 4 + 2 * bk_Burst (tb_cfg tb) / 2 ^ 53 \<and>
    (got \<longrightarrow> 1 \<le> bk_Burst (tb_cfg tb))"
proof -
  note r = refill_ok [OF assms(1-3)]
  let ?t = "tb_tokens (refill now tb)"
  have B: "0 \<le> bk_Burst (tb_cfg tb)" "?t \<le> bk_Burst (tb_cfg tb)" using r by (auto simp: bucket_ok_def)
  show ?thesis
  proof (cases "(op = OpTry \<or> op = OpAcquire) \<and> 1 \<le> ?t")
    case True
    then have tb': "tb' = (refill now tb)\<lparr> tb_tokens := fl_sub ?t 1 \<rparr>" "got"
      using assms(4) unfolding bucket_step_refill by simp_all
    show ?thesis using take_one [of ?t "bk_Burst (tb_cfg tb)"] True B r tb' by (auto simp: bucket_ok_def)
  next
    case False
    then have "tb' = refill now tb" "\<not> got" using assms(4) unfolding bucket_step_refill by auto
    with r B show ?thesis by simp
  qed
qed

lemma bucket_run_ok:
  assumes "bucket_run tb tb' n taken" and "bucket_ok tb"
  shows "bucket_ok tb' \<and> tb_cfg tb' = tb_cfg tb \<and> tb_lastRefill tb \<le> tb_lastRefill tb' \<and>
    tb_tokens tb' + of_nat taken \<le> tb_tokens tb +
      of_int (tb_lastRefill tb' - tb_lastRefill tb) / 10 ^ 9 * bk_Rate (tb_cfg tb) * ulp1 ^ 4 +
      of_nat n * (2 * bk_Burst (tb_cfg tb) / 2 ^ 53) \<and>
    (0 < taken \<longrightarrow> 1 \<le> bk_Burst (tb_cfg tb))"
  using assms(1)
proof induction
  case start
  show ?case using assms(2) by simp
next
  case (step tb1 n taken now op tb2 got)
  let ?g = "\<lambda>a b. of_int (a - b) / 10 ^ 9 * bk_Rate (tb_cfg tb) * ulp1 ^ 4"
  let ?E = "2 * bk_Burst (tb_cfg tb) / 2 ^ 53"
  have IH: "bucket_ok tb1" "tb_cfg tb1 = tb_cfg tb" "tb_lastRefill tb \<le> tb_lastRefill tb1"
    "tb_tokens tb1 + of_nat taken \<le> tb_tokens tb + ?g (tb_lastRefill tb1) (tb_lastRefill tb) + of_nat n * ?E"
    "0 < taken \<Longrightarrow> 1 \<le> bk_Burst (tb_cfg tb)"
    using step.IH by blast+
  note s = bucket_step_ok [OF IH(1) step.hyps(2,3,4), unfolded IH(2)]
  have "?g now (tb_lastRefill tb) = ?g (tb_lastRefill tb1) (tb_lastRefill tb) + ?g now (tb_lastRefill tb1)"
    by (simp only: distrib_right [symmetric] add_divide_distrib [symmetric] of_int_add [symmetric]) simp
  moreover have "of_nat (Suc n) * ?E = of_nat n * ?E + ?E" by (simp only: of_nat_Suc distrib_right mult_1_left add.commute)
  moreover have "of_nat (if got then Suc taken else taken) = of_nat taken + (of_bool got :: rat)" by simp
  moreover have "tb_tokens tb2 + of_bool got \<le> tb_tokens tb1 + ?g now (tb_lastRefill tb1) + ?E" using s by blast
  ultimately have "tb_tokens tb2 + of_nat (if got then Suc taken else taken) \<le>
      tb_tokens tb + ?g now (tb_lastRefill tb) + of_nat (Suc n) * ?E"
    using IH(4) by linarith
  moreover have "tb_lastRefill tb2 = now" "bucket_ok tb2" "tb_cfg tb2 = tb_cfg tb" using s by blast+
  moreover have "0 < (if got then Suc taken else taken) \<longrightarrow> 1 \<le> bk_Burst (tb_cfg tb)"
    using s IH(5) by auto
  ultimately show ?case using IH(3) step.hyps(2) by simp
qed

lemma bucket_New_ok:
  assumes "bucket_New cfg t = Inr tb" and "bk_Burst cfg \<le> 2 ^ 53"
  shows "bucket_ok tb \<and> tb_cfg tb = cfg \<and> tb_tokens tb = bk_Burst cfg \<and> tb_lastRefill tb = t"
  using assms by (auto simp: bucket_New_def bucket_ok_def split: if_splits)



section \<open>Properties\<close>

text \<open>
  C39. However many callers share a bucket and whatever operations they interleave, the tokens stay
  between 0 and \<open>Burst\<close>, and the requests admitted in a time never exceed the burst plus the rate
  times that time, up to the rounding of \<open>float64\<close>: a factor of \<open>1 + 2 ^ -50\<close> on the rate, and
  \<open>Burst / 2 ^ 52\<close> for each operation.
\<close>

theorem token_bucket_rate:
  assumes "bucket_New cfg t = Inr tb" and "bk_Burst cfg \<le> 2 ^ 53" and "bucket_run tb tb' n taken"
  shows "0 \<le> tb_tokens tb' \<and> tb_tokens tb' \<le> bk_Burst cfg \<and>
    of_nat taken \<le> bk_Burst cfg +
      of_int (tb_lastRefill tb' - t) / 10 ^ 9 * bk_Rate cfg * (1 + 1 / 2 ^ 50) +
      of_nat n * bk_Burst cfg / 2 ^ 52"
proof -
  note new = bucket_New_ok [OF assms(1,2)]
  have ok0: "bucket_ok tb" and e: "tb_cfg tb = cfg" "tb_tokens tb = bk_Burst cfg" "tb_lastRefill tb = t"
    using new by blast+
  note run = bucket_run_ok [OF assms(3) ok0, unfolded e]
  let ?x = "of_int (tb_lastRefill tb' - t) / 10 ^ 9 * bk_Rate cfg"
  have ok: "0 \<le> tb_tokens tb'" "tb_tokens tb' \<le> bk_Burst cfg" "0 < bk_Rate cfg"
    using run by (auto simp: bucket_ok_def)
  have "0 \<le> ?x" using run ok by simp
  moreover have "ulp1 ^ 4 \<le> 1 + 1 / 2 ^ 50" by (simp add: power_divide)
  ultimately have x: "?x * ulp1 ^ 4 \<le> ?x * (1 + 1 / 2 ^ 50)" by (intro mult_left_mono)
  have E: "of_nat n * (2 * bk_Burst cfg / 2 ^ 53) = of_nat n * bk_Burst cfg / 2 ^ 52" by simp
  have "tb_tokens tb' + of_nat taken \<le> bk_Burst cfg + ?x * ulp1 ^ 4 + of_nat n * (2 * bk_Burst cfg / 2 ^ 53)"
    using run by blast
  with x ok(1) have "of_nat taken \<le> bk_Burst cfg + ?x * (1 + 1 / 2 ^ 50) + of_nat n * bk_Burst cfg / 2 ^ 52"
    unfolding E by linarith
  with ok show ?thesis by blast
qed

text \<open>
  A configuration with a burst between 0 and 1 is accepted, but its bucket never admits a
  request: however long the callers wait, no token is ever taken.
\<close>

theorem token_bucket_small_burst_starves:
  assumes "0 < bk_Rate cfg" and "0 < bk_Burst cfg" and "bk_Burst cfg < 1"
  shows "\<exists>tb. bucket_New cfg t = Inr tb \<and> (\<forall>tb' n taken. bucket_run tb tb' n taken \<longrightarrow> taken = 0)"
proof -
  obtain tb where tb: "bucket_New cfg t = Inr tb" using assms by (simp add: bucket_New_def)
  have "bk_Burst cfg \<le> 2 ^ 53" using assms(3) by simp
  note new = bucket_New_ok [OF tb this]
  have "taken = 0" if "bucket_run tb tb' n taken" for tb' n taken
    using bucket_run_ok [OF that conjunct1 [OF new]] new assms(3) by auto
  with tb show ?thesis by blast
qed


section \<open>Witnesses\<close>

definition ex_bucket :: TokenBucket where
  "ex_bucket = \<lparr> tb_cfg = bucket_DefaultConfig, tb_tokens = 20, tb_lastRefill = 0 \<rparr>"

lemma ex_bucket_New: "bucket_New bucket_DefaultConfig 0 = Inr ex_bucket"
  by (simp add: bucket_New_def bucket_DefaultConfig_def ex_bucket_def)

theorem token_bucket_rate_witness:
  "\<exists>tb' taken. bucket_run ex_bucket tb' 1 taken \<and> of_nat taken \<le> (20 + 20 / 2 ^ 52 :: rat)"
proof -
  have "bucket_run ex_bucket (fst (bucket_step 0 OpTry ex_bucket)) (Suc 0)
      (if snd (bucket_step 0 OpTry ex_bucket) then Suc 0 else 0)"
    by (rule bucket_run.step [OF bucket_run.start]) (simp_all add: ex_bucket_def max_int64_def)
  moreover have "tb_lastRefill (fst (bucket_step 0 OpTry ex_bucket)) = 0"
    by (simp add: bucket_step_refill refill_def Let_def)
  ultimately show ?thesis
    using token_bucket_rate [OF ex_bucket_New, of _ "Suc 0"] by (fastforce simp: bucket_DefaultConfig_def)
qed

theorem token_bucket_small_burst_starves_witness:
  "\<exists>tb. bucket_New \<lparr> bk_Rate = 10, bk_Burst = 1/2 \<rparr> 0 = Inr tb"
  using token_bucket_small_burst_starves [of "\<lparr> bk_Rate = 10, bk_Burst = 1/2 \<rparr>" 0] by auto




end
