(* ===== verification/SdkAuth.thy ===== *)
theory SdkAuth
  imports GoText "HOL-Library.AList" "HOL-Library.List_Lexorder" "HOL-Library.Char_ord"
begin

text \<open>
  The Connector SDK's registry (\<open>sdk/connector/registry.go\<close>) and its authentication providers
  (\<open>sdk/connector/auth/auth.go\<close>): the API key and the OAuth 2.0 client credentials, whose token is
  cached under a mutex. The TLS certificate provider only hands values to \<open>crypto/tls\<close> and is left
  out. What \<open>net/http\<close>, \<open>net/url\<close> and \<open>encoding/json\<close> do is the parameter \<open>auth_lib\<close>; the answer of
  the token endpoint is an argument of the call that may ask for it.
\<close>

section \<open>The registry\<close>

type_synonym 'c Registry = "(string \<times> 'c) list"

definition NewRegistry :: "'c Registry" where
  "NewRegistry = []"

definition reg_Register :: "(string \<Rightarrow> string) \<Rightarrow> 'c Registry \<Rightarrow> string \<Rightarrow> 'c \<Rightarrow> string + 'c Registry" where
  "reg_Register quote r name c =
     (case map_of r name of
        Some _ \<Rightarrow> Inl (''connector registry: '' @ quote name @ '' already registered'')
      | None \<Rightarrow> Inr (AList.update name c r))"

text \<open>\<open>MustRegister\<close> panics with the error: \<open>None\<close>.\<close>

definition reg_MustRegister :: "(string \<Rightarrow> string) \<Rightarrow> 'c Registry \<Rightarrow> string \<Rightarrow> 'c \<Rightarrow> 'c Registry option" where
  "reg_MustRegister quote r name c = (case reg_Register quote r name c of Inl err \<Rightarrow> None | Inr r' \<Rightarrow> Some r')"

definition reg_Get :: "'c Registry \<Rightarrow> string \<Rightarrow> 'c option" where
  "reg_Get r name = map_of r name"

definition reg_List :: "'c Registry \<Rightarrow> string list" where
  "reg_List r = sort (map fst r)"

definition reg_Unregister :: "'c Registry \<Rightarrow> string \<Rightarrow> 'c Registry" where
  "reg_Unregister r name = AList.delete name r"

definition reg_Len :: "'c Registry \<Rightarrow> nat" where
  "reg_Len r = length r"

datatype 'c reg_op = RegRegister string 'c | RegUnregister string

definition reg_step :: "(string \<Rightarrow> string) \<Rightarrow> 'c reg_op \<Rightarrow> 'c Registry \<Rightarrow> 'c Registry" where
  "reg_step quote op r =
     (case op of
        RegRegister n c \<Rightarrow> (case reg_Register quote r n c of Inl _ \<Rightarrow> r | Inr r' \<Rightarrow> r')
      | RegUnregister n \<Rightarrow> reg_Unregister r n)"

text \<open>What the registry stands for: the first registration of a name holds until it is removed.\<close>

definition reg_spec :: "'c reg_op \<Rightarrow> (string \<rightharpoonup> 'c) \<Rightarrow> (string \<rightharpoonup> 'c)" where
  "reg_spec op m =
     (case op of
        RegRegister n c \<Rightarrow> (if m n = None then m(n \<mapsto> c) else m)
      | RegUnregister n \<Rightarrow> m(n := None))"

section \<open>API keys\<close>

definition APIKeyHeader :: string where "APIKeyHeader = ''header''"

definition APIKeyQuery :: string where "APIKeyQuery = ''query''"

record APIKeyConfig =
  ak_Key :: string
  ak_HeaderName :: string
  ak_Prefix :: string
  ak_Location :: string
  ak_QueryParam :: string

definition NewAPIKeyAuth :: "APIKeyConfig \<Rightarrow> APIKeyConfig" where
  "NewAPIKeyAuth cfg =
     (let cfg = (if ak_Location cfg = [] then cfg\<lparr> ak_Location := APIKeyHeader \<rparr> else cfg);
          cfg = (if ak_Location cfg = APIKeyHeader \<and> ak_HeaderName cfg = []
                 then cfg\<lparr> ak_HeaderName := ''Authorization'',
                           ak_Prefix := (if ak_Prefix cfg = [] then ''Bearer '' else ak_Prefix cfg) \<rparr>
                 else cfg)
      in if ak_Location cfg = APIKeyQuery \<and> ak_QueryParam cfg = []
         then cfg\<lparr> ak_QueryParam := ''api_key'' \<rparr> else cfg)"

text \<open>An outgoing request: its headers by canonical name, and the raw query of its URL.\<close>

record out_request =
  or_header :: "(string \<times> string list) list"
  or_query :: string

record auth_lib =
  al_canonical :: "string \<Rightarrow> string"
  al_parse_query :: "string \<Rightarrow> (string \<times> string list) list"
  al_encode_query :: "(string \<times> string list) list \<Rightarrow> string"
  al_decode_token :: "string \<Rightarrow> string + (string \<times> int)"

definition header_Set :: "auth_lib \<Rightarrow> string \<Rightarrow> string \<Rightarrow> out_request \<Rightarrow> out_request" where
  "header_Set L name v req =
     req\<lparr> or_header := AList.update (al_canonical L name) [v] (or_header req) \<rparr>"

definition apikey_AddAuth :: "auth_lib \<Rightarrow> APIKeyConfig \<Rightarrow> out_request \<Rightarrow> out_request" where
  "apikey_AddAuth L cfg req =
     (if ak_Location cfg = APIKeyQuery
      then req\<lparr> or_query := al_encode_query L (AList.update (ak_QueryParam cfg) [ak_Key cfg]
                  (al_parse_query L (or_query req))) \<rparr>
      else header_Set L (ak_HeaderName cfg) (ak_Prefix cfg @ ak_Key cfg) req)"

section \<open>OAuth 2.0 client credentials\<close>

record oauth2Token =
  ot_accessToken :: string
  ot_expiry :: gotime

definition ot_expired :: "oauth2Token \<Rightarrow> gotime \<Rightarrow> duration \<Rightarrow> bool" where
  "ot_expired t now delta \<longleftrightarrow> (if ot_accessToken t = [] then True else ot_expiry t < now + delta)"

text \<open>What asking the endpoint meets: no request, no answer, an unreadable body, or an answer.\<close>

datatype token_answer =
    BuildError string
  | RequestError string
  | ReadError string
  | Answer int string

definition fetchToken :: "auth_lib \<Rightarrow> gotime \<Rightarrow> token_answer \<Rightarrow> string + oauth2Token" where
  "fetchToken L now ans =
     (case ans of
        BuildError e \<Rightarrow> Inl (''build token request: '' @ e)
      | RequestError e \<Rightarrow> Inl (''token request: '' @ e)
      | ReadError e \<Rightarrow> Inl (''read token response: '' @ e)
      | Answer status body \<Rightarrow>
          if status \<noteq> 200
          then Inl (''token endpoint returned HTTP '' @ int_text status @ '': '' @ body)
          else case al_decode_token L body of
            Inl e \<Rightarrow> Inl (''parse token response: '' @ e)
          | Inr (accessToken, expiresIn) \<Rightarrow>
              if accessToken = [] then Inl ''token endpoint returned empty access_token''
              else Inr \<lparr> ot_accessToken = accessToken, ot_expiry = now + wrap64 (expiresIn * second) \<rparr>)"

record oauth_client =
  oc_ExpiryDelta :: duration
  oc_cached :: "oauth2Token option"

definition NewOAuth2ClientCredentials :: "duration \<Rightarrow> oauth_client" where
  "NewOAuth2ClientCredentials delta =
     \<lparr> oc_ExpiryDelta = (if delta = 0 then 30 * second else delta), oc_cached = None \<rparr>"

text \<open>The token, and whether the endpoint was asked. The clock is read at the check and after the answer.\<close>

definition oauth_token ::
  "auth_lib \<Rightarrow> gotime \<Rightarrow> gotime \<Rightarrow> token_answer \<Rightarrow> oauth_client \<Rightarrow> oauth_client \<times> bool \<times> (string + string)" where
  "oauth_token L now answered ans oc =
     (case oc_cached oc of
        Some t \<Rightarrow>
          if \<not> ot_expired t now (oc_ExpiryDelta oc) then (oc, False, Inr (ot_accessToken t))
          else (case fetchToken L answered ans of
                  Inl e \<Rightarrow> (oc, True, Inl e)
                | Inr fresh \<Rightarrow> (oc\<lparr> oc_cached := Some fresh \<rparr>, True, Inr (ot_accessToken fresh)))
      | None \<Rightarrow>
          (case fetchToken L answered ans of
             Inl e \<Rightarrow> (oc, True, Inl e)
           | Inr fresh \<Rightarrow> (oc\<lparr> oc_cached := Some fresh \<rparr>, True, Inr (ot_accessToken fresh))))"

definition oauth_AddAuth ::
  "auth_lib \<Rightarrow> gotime \<Rightarrow> gotime \<Rightarrow> token_answer \<Rightarrow> oauth_client \<Rightarrow> out_request \<Rightarrow>
   oauth_client \<times> bool \<times> (string + out_request)" where
  "oauth_AddAuth L now answered ans oc req =
     (case oauth_token L now answered ans oc of
        (oc', asked, Inl e) \<Rightarrow> (oc', asked, Inl (''oauth2: fetch token: '' @ e))
      | (oc', asked, Inr t) \<Rightarrow> (oc', asked, Inr (header_Set L ''Authorization'' (''Bearer '' @ t) req)))"

section \<open>Laws\<close>

lemma reg_Register_fold:
  "(case reg_Register q r n c of Inl _ \<Rightarrow> r | Inr r' \<Rightarrow> r') =
     (if map_of r n = None then AList.update n c r else r)"
  by (simp add: reg_Register_def split: option.split)

lemma reg_step_ok:
  assumes "distinct (map fst r)"
  shows "distinct (map fst (reg_step q op r)) \<and> map_of (reg_step q op r) = reg_spec op (map_of r)"
  using assms
  by (cases op)
    (auto simp: reg_step_def reg_spec_def reg_Unregister_def reg_Register_fold distinct_update update_conv'
      distinct_delete delete_conv')

lemma reg_run_ok:
  "distinct (map fst r) \<Longrightarrow> distinct (map fst (fold (reg_step q) ops r)) \<and>
     map_of (fold (reg_step q) ops r) = fold reg_spec ops (map_of r)"
  by (induction ops arbitrary: r) (simp_all add: reg_step_ok)

text \<open>Calls of the client, one after the other: their times, their answers, and the tokens sent.\<close>

inductive oauth_run :: "auth_lib \<Rightarrow> oauth_client \<Rightarrow> oauth_client \<Rightarrow> bool" for L oc where
  start: "oauth_run L oc oc"
| call: "oauth_run L oc oc1 \<Longrightarrow> oauth_token L now answered ans oc1 = (oc2, asked, res) \<Longrightarrow> oauth_run L oc oc2"

lemma oauth_run_nonempty:
  assumes "oauth_run L oc oc'" and "oc_cached oc = None"
  shows "oc_ExpiryDelta oc' = oc_ExpiryDelta oc \<and>
    (\<forall>t. oc_cached oc' = Some t \<longrightarrow> ot_accessToken t \<noteq> [])"
  using assms
proof induction
  case (call oc1 now answered ans oc2 asked res)
  have "ot_accessToken t \<noteq> []" if "fetchToken L answered ans = Inr t" for t
    using that by (auto simp: fetchToken_def split: token_answer.splits sum.splits if_splits)
  with call show ?case by (auto simp: oauth_token_def split: option.splits if_splits sum.splits)
qed simp

section \<open>Properties\<close>

text \<open>
  Through any sequence of registrations and removals the registry is the map of the first
  registrations not yet removed: \<open>Get\<close> reads it, \<open>List\<close> is its names in strictly increasing order,
  \<open>Len\<close> their number, and a second registration of a name is refused and changes nothing.
\<close>

theorem registry_is_map:
  "let r = fold (reg_step quote) ops NewRegistry; m = fold reg_spec ops Map.empty
   in reg_Get r n = m n \<and> set (reg_List r) = dom m \<and> sorted_wrt (<) (reg_List r) \<and>
      reg_Len r = card (dom m) \<and> ((\<exists>e. reg_Register quote r n c = Inl e) \<longleftrightarrow> m n \<noteq> None)"
proof -
  let ?r = "fold (reg_step quote) ops NewRegistry" and ?m = "fold reg_spec ops Map.empty"
  have d: "distinct (map fst ?r)" and e: "map_of ?r = ?m"
    using reg_run_ok [of NewRegistry quote ops] by (simp_all add: NewRegistry_def)
  have dom: "dom ?m = fst ` set ?r" unfolding e [symmetric] by (rule dom_map_of_conv_image_fst)
  have "distinct (reg_List ?r)" "sorted (reg_List ?r)" using d by (simp_all add: reg_List_def)
  then have "sorted_wrt (<) (reg_List ?r)" by (simp add: strict_sorted_iff)
  moreover have "reg_Len ?r = card (dom ?m)"
    using distinct_card [OF d] by (simp add: dom reg_Len_def)
  ultimately show ?thesis
    using e by (auto simp: reg_Get_def reg_List_def dom reg_Register_def Let_def split: option.split)
qed

text \<open>
  Whatever the endpoint answered before, a call of the OAuth client sends a token that is not
  empty, and without asking the endpoint only one that is good for at least \<open>ExpiryDelta\<close>; when it
  asks and gets no token, it fails and keeps what it had.
\<close>

theorem oauth_token_fresh:
  assumes "oauth_run L (NewOAuth2ClientCredentials delta) oc"
    and "oauth_token L now answered ans oc = (oc', asked, res)"
  shows "(\<forall>tok. res = Inr tok \<longrightarrow> tok \<noteq> [] \<and>
      (\<exists>t. oc_cached oc' = Some t \<and> ot_accessToken t = tok \<and>
        (\<not> asked \<longrightarrow> oc' = oc \<and> now + oc_ExpiryDelta oc \<le> ot_expiry t))) \<and>
    (\<forall>e. res = Inl e \<longrightarrow> asked \<and> oc' = oc)"
proof -
  have "oauth_run L (NewOAuth2ClientCredentials delta) oc'" using assms by (rule oauth_run.call)
  then have "ot_accessToken t \<noteq> []" if "oc_cached oc' = Some t" for t
    using that oauth_run_nonempty by (simp add: NewOAuth2ClientCredentials_def)
  then show ?thesis using assms(2)
    by (auto simp: oauth_token_def ot_expired_def split: option.splits if_splits sum.splits)
qed

text \<open>
  A token endpoint that gives no lifetime, as RFC 6749 allows, or one whose seconds overflow a
  \<open>Duration\<close>, defeats the cache: with a positive \<open>ExpiryDelta\<close> every later call asks again.
\<close>

theorem oauth_cache_defeated:
  assumes "0 < oc_ExpiryDelta oc" and "al_decode_token L body = Inr (tok, secs)" and "tok \<noteq> []"
    and "wrap64 (secs * second) \<le> 0" and "oc_cached oc = None"
    and "oauth_token L now answered (Answer 200 body) oc = (oc', asked, res)" and "answered \<le> later"
  shows "res = Inr tok \<and> fst (snd (oauth_token L later t ans oc'))"
  using assms
  by (auto simp: oauth_token_def fetchToken_def ot_expired_def split: sum.splits option.splits)

section \<open>Witnesses\<close>

definition ex_auth_lib :: auth_lib where
  "ex_auth_lib = \<lparr> al_canonical = (\<lambda>s. s), al_parse_query = (\<lambda>_. []), al_encode_query = (\<lambda>_. []),
     al_decode_token = (\<lambda>b. Inr (b, 0)) \<rparr>"

theorem oauth_token_fresh_witness:
  "\<exists>t. oc_cached (fst (oauth_token ex_auth_lib 5 6 (Answer 200 ''tok'') (NewOAuth2ClientCredentials 0))) = Some t"
proof -
  obtain oc' asked res where c: "oauth_token ex_auth_lib 5 6 (Answer 200 ''tok'') (NewOAuth2ClientCredentials 0) =
      (oc', asked, res)" by (cases "oauth_token ex_auth_lib 5 6 (Answer 200 ''tok'') (NewOAuth2ClientCredentials 0)")
  then have "res = Inr ''tok''"
    by (auto simp: oauth_token_def NewOAuth2ClientCredentials_def fetchToken_def ex_auth_lib_def)
  with oauth_token_fresh [OF oauth_run.start c] c show ?thesis by auto
qed

theorem oauth_cache_defeated_witness:
  "\<exists>oc'. fst (snd (oauth_token ex_auth_lib 6 6 (RequestError []) oc'))"
proof -
  obtain oc' asked res where c: "oauth_token ex_auth_lib 5 6 (Answer 200 ''tok'') (NewOAuth2ClientCredentials 0) =
      (oc', asked, res)" by (cases "oauth_token ex_auth_lib 5 6 (Answer 200 ''tok'') (NewOAuth2ClientCredentials 0)")
  show ?thesis
    using oauth_cache_defeated [OF _ _ _ _ _ c, of "''tok''" 0 6 6 "RequestError []"]
    by (auto simp: NewOAuth2ClientCredentials_def ex_auth_lib_def second_def wrap64_def)
qed

end
