(* ===== verification/PasswordHash.thy ===== *)
theory PasswordHash
  imports GoText
begin

text \<open>
  The identity service's password hashes (\<open>services/identity/pkg/crypto/argon2id.go\<close>). A byte slice is
  a \<open>string\<close>. \<open>argon2.IDKey\<close>, from golang.org/x/crypto, is the parameter \<open>idkey\<close>: \<open>None\<close> is its panic on
  zero rounds or zero threads. The random salt is an argument, \<open>None\<close> when reading it fails.
\<close>

section \<open>Base64, standard alphabet, no padding\<close>

definition std_of_url :: "char \<Rightarrow> char" where
  "std_of_url c = (if c = CHR ''-'' then CHR ''+'' else if c = CHR ''_'' then CHR ''/'' else c)"

definition url_of_std :: "char \<Rightarrow> char" where
  "url_of_std c = (if c = CHR ''+'' then CHR ''-'' else if c = CHR ''/'' then CHR ''_'' else c)"

text \<open>\<open>RawStdEncoding\<close> is \<open>RawURLEncoding\<close> with \<open>+\<close> and \<open>/\<close> for \<open>-\<close> and \<open>_\<close>.\<close>

definition std_encode :: "string \<Rightarrow> string" where
  "std_encode bs = map std_of_url (b64_encode (bytes bs))"

definition std_decode :: "string \<Rightarrow> string option" where
  "std_decode s =
     (if CHR ''-'' \<in> set s \<or> CHR ''_'' \<in> set s then None
      else map_option from_bytes (b64_decode (map url_of_std s)))"

section \<open>Hashing and verifying\<close>

record Params =
  Memory :: "32 word"
  Iterations :: "32 word"
  Parallelism :: "8 word"
  SaltLen :: "32 word"
  KeyLen :: "32 word"

definition DefaultParams :: Params where
  "DefaultParams = \<lparr> Memory = 65536, Iterations = 3, Parallelism = 2, SaltLen = 16, KeyLen = 32 \<rparr>"

type_synonym idkey = "string \<Rightarrow> string \<Rightarrow> 32 word \<Rightarrow> 32 word \<Rightarrow> 8 word \<Rightarrow> 32 word \<Rightarrow> string option"

definition argon2_Version :: nat where
  "argon2_Version = 19"

text \<open>\<open>HashPassword\<close>: \<open>Inl None\<close> is a panic of \<open>IDKey\<close>, \<open>Inl (Some msg)\<close> an error.\<close>

definition HashPassword :: "idkey \<Rightarrow> string \<Rightarrow> string option \<Rightarrow> string option + string" where
  "HashPassword idkey password random =
     (let p = DefaultParams
      in case random of
           None \<Rightarrow> Inl (Some ''crypto: generate salt'')
         | Some salt \<Rightarrow>
             (case idkey password salt (Iterations p) (Memory p) (Parallelism p) (KeyLen p) of
                None \<Rightarrow> Inl None
              | Some hash \<Rightarrow>
                  Inr (''$argon2id$v='' @ dec_digits argon2_Version @ ''$m='' @ dec_digits (unat (Memory p)) @
                    '',t='' @ dec_digits (unat (Iterations p)) @ '',p='' @ dec_digits (unat (Parallelism p)) @
                    ''$'' @ std_encode salt @ ''$'' @ std_encode hash)))"

definition scan_version :: "string \<Rightarrow> int option" where
  "scan_version s = Option.bind (scan_lit ''v='' s) (\<lambda>s. map_option fst (scan_int s))"

definition scan_params :: "string \<Rightarrow> (int \<times> int \<times> int) option" where
  "scan_params s =
     Option.bind (scan_lit ''m='' s) (\<lambda>s.
     Option.bind (scan_uint 32 s) (\<lambda>(m, s).
     Option.bind (scan_lit '',t='' s) (\<lambda>s.
     Option.bind (scan_uint 32 s) (\<lambda>(t, s).
     Option.bind (scan_lit '',p='' s) (\<lambda>s.
     map_option (\<lambda>(p, s). (m, t, p)) (scan_uint 8 s))))))"

definition decodeHash :: "string \<Rightarrow> (Params \<times> string \<times> string) option" where
  "decodeHash encoded =
     (let parts = Split (CHR ''$'') encoded
      in if length parts \<noteq> 6 then None
         else case scan_version (parts ! 2) of
           None \<Rightarrow> None
         | Some version \<Rightarrow>
             (case scan_params (parts ! 3) of
                None \<Rightarrow> None
              | Some (m, t, p) \<Rightarrow>
                  (case std_decode (parts ! 4) of
                     None \<Rightarrow> None
                   | Some salt \<Rightarrow>
                       (case std_decode (parts ! 5) of
                          None \<Rightarrow> None
                        | Some hash \<Rightarrow>
                            Some (\<lparr> Memory = word_of_int m, Iterations = word_of_int t,
                              Parallelism = word_of_int p, SaltLen = of_nat (length salt),
                              KeyLen = of_nat (length hash) \<rparr>, salt, hash)))))"

datatype password_check = PasswordOk | ErrPasswordMismatch | PasswordDecodeError | PasswordPanic

definition VerifyPassword :: "idkey \<Rightarrow> string \<Rightarrow> string \<Rightarrow> password_check" where
  "VerifyPassword idkey password encoded =
     (case decodeHash encoded of
        None \<Rightarrow> PasswordDecodeError
      | Some (p, salt, hash) \<Rightarrow>
          (case idkey password salt (Iterations p) (Memory p) (Parallelism p) (KeyLen p) of
             None \<Rightarrow> PasswordPanic
           | Some other \<Rightarrow> if hash \<noteq> other then ErrPasswordMismatch else PasswordOk))"

section \<open>Lemmas\<close>

text \<open>What golang.org/x/crypto documents of \<open>IDKey\<close>: a digest of the length asked for.\<close>

definition idkey_ok :: "idkey \<Rightarrow> bool" where
  "idkey_ok idkey \<longleftrightarrow>
     (\<forall>pw salt t m p n. t \<noteq> 0 \<longrightarrow> p \<noteq> 0 \<longrightarrow> (\<exists>h. idkey pw salt t m p n = Some h \<and> length h = unat n))"

lemma url_of_std_of_url: "c \<noteq> CHR ''+'' \<Longrightarrow> c \<noteq> CHR ''/'' \<Longrightarrow> url_of_std (std_of_url c) = c"
  by (simp add: std_of_url_def url_of_std_def)

lemma b64_encode_alphabet:
  "list_all (\<lambda>b. b < 256) bs \<Longrightarrow> c \<in> set (b64_encode bs) \<Longrightarrow> \<exists>n<64. c = b64_char n"
proof (induction bs rule: b64_encode.induct)
  case (2 a)
  then show ?case using b64_bits(1,2) [of a 0 0] by (auto intro: exI [of _ "a mod 4 * 16"])
next
  case (3 a b)
  then show ?case using b64_bits(1,3,4) [of a b 0] by (auto intro: exI [of _ "b mod 16 * 4"])
next
  case (4 a b d xs)
  then show ?case using b64_bits(1,3,5) [of a b d] by (auto intro: exI [of _ "d mod 64"])
qed simp

lemma b64_char_plain:
  "n < 64 \<Longrightarrow> b64_char n \<noteq> CHR ''+'' \<and> b64_char n \<noteq> CHR ''/'' \<and> b64_char n \<noteq> CHR ''$''"
proof -
  have "list_all (\<lambda>n. b64_char n \<noteq> CHR ''+'' \<and> b64_char n \<noteq> CHR ''/'' \<and> b64_char n \<noteq> CHR ''$'') [0..<64]"
    by (simp add: b64_char_def b64_alphabet_def upt_rec)
  then show "n < 64 \<Longrightarrow> ?thesis" by (simp add: list_all_iff)
qed

lemma encoded_plain:
  "c \<in> set (b64_encode (bytes s)) \<Longrightarrow> c \<noteq> CHR ''+'' \<and> c \<noteq> CHR ''/'' \<and> c \<noteq> CHR ''$''"
  by (drule b64_encode_alphabet [OF bytes_lt]) (auto dest: b64_char_plain)

lemma std_encode_dollar: "CHR ''$'' \<notin> set (std_encode s)"
  using encoded_plain [of _ s] by (auto simp: std_encode_def std_of_url_def split: if_splits)

lemma std_roundtrip [simp]: "std_decode (std_encode s) = Some s"
proof -
  have "map url_of_std (std_encode s) = b64_encode (bytes s)"
    using encoded_plain [of _ s] unfolding std_encode_def list.map_comp
    by (intro map_idI) (simp add: url_of_std_of_url)
  moreover have "CHR ''-'' \<notin> set (std_encode s)" "CHR ''_'' \<notin> set (std_encode s)"
    by (auto simp: std_encode_def std_of_url_def split: if_splits)
  ultimately show ?thesis by (simp add: std_decode_def b64_roundtrip)
qed

lemma dec_digits_dollar: "CHR ''$'' \<notin> set (dec_digits n)"
  using dec_digits_all [of "CHR ''$''" n] by (auto simp: is_digit_def)

lemma scan_version_digits: "int n \<le> max_int64 \<Longrightarrow> scan_version (''v='' @ dec_digits n) = Some (int n)"
  using scan_int_dec [of n "[]"] by (simp add: scan_version_def del: append_Cons append.simps)

lemma scan_params_digits:
  assumes "m < 2 ^ 32" and "t < 2 ^ 32" and "p < 2 ^ 8"
  shows "scan_params (''m='' @ dec_digits m @ '',t='' @ dec_digits t @ '',p='' @ dec_digits p) =
    Some (int m, int t, int p)"
proof -
  have c: "\<not> is_digit (CHR '','')" by (simp add: is_digit_def)
  have "scan_uint 8 (dec_digits p) = Some (int p, [])" using scan_uint_dec [OF assms(3), of "[]"] by simp
  moreover have "scan_uint 32 (dec_digits t @ '',p='' @ dec_digits p) = Some (int t, '',p='' @ dec_digits p)"
    by (rule scan_uint_dec [OF assms(2)]) (simp add: c)
  moreover have "scan_uint 32 (dec_digits m @ '',t='' @ dec_digits t @ '',p='' @ dec_digits p) =
      Some (int m, '',t='' @ dec_digits t @ '',p='' @ dec_digits p)"
    by (rule scan_uint_dec [OF assms(1)]) (simp add: c)
  ultimately show ?thesis
    unfolding scan_params_def
    by (simp only: scan_lit_append bind.simps option.map prod.case)
qed

lemma Split_first: "Split sep (sep # r) = [] # Split sep r"
  by simp

text \<open>A hash in the format \<open>HashPassword\<close> writes is read back part by part.\<close>

lemma decodeHash_format:
  assumes "m < 2 ^ 32" and "t < 2 ^ 32" and "p < 2 ^ 8" and "int v \<le> max_int64" and "CHR ''$'' \<notin> set algo"
  shows "decodeHash (''$'' @ algo @ ''$v='' @ dec_digits v @ ''$m='' @ dec_digits m @ '',t='' @ dec_digits t @
      '',p='' @ dec_digits p @ ''$'' @ std_encode salt @ ''$'' @ std_encode hash) =
    Some (\<lparr> Memory = of_nat m, Iterations = of_nat t, Parallelism = of_nat p,
      SaltLen = of_nat (length salt), KeyLen = of_nat (length hash) \<rparr>, salt, hash)"
proof -
  let ?v = "''v='' @ dec_digits v"
  let ?m = "''m='' @ dec_digits m @ '',t='' @ dec_digits t @ '',p='' @ dec_digits p"
  have n: "CHR ''$'' \<notin> set ?v" "CHR ''$'' \<notin> set ?m" by (simp_all add: dec_digits_dollar)
  have "Split (CHR ''$'') ([] @ CHR ''$'' # algo @ CHR ''$'' # ?v @ CHR ''$'' # ?m @ CHR ''$'' # std_encode salt @
      CHR ''$'' # std_encode hash) = [[], algo, ?v, ?m, std_encode salt, std_encode hash]"
    by (simp only: Split_append [OF n(1)] Split_append [OF n(2)] Split_append [OF assms(5)]
      Split_append [OF std_encode_dollar] Split_single [OF std_encode_dollar]
      Split_first append.simps(1))
  then have s: "Split (CHR ''$'') (''$'' @ algo @ ''$v='' @ dec_digits v @ ''$m='' @ dec_digits m @ '',t='' @
      dec_digits t @ '',p='' @ dec_digits p @ ''$'' @ std_encode salt @ ''$'' @ std_encode hash) =
      [[], algo, ?v, ?m, std_encode salt, std_encode hash]" by simp
  show ?thesis
    unfolding decodeHash_def Let_def s
    using scan_version_digits [OF assms(4)] scan_params_digits [OF assms(1-3)] by simp
qed

lemma hashed_verifies:
  assumes "idkey_ok idkey"
  shows "\<exists>encoded. HashPassword idkey password (Some salt) = Inr encoded \<and>
    (\<forall>other. VerifyPassword idkey other encoded =
      (if idkey other salt 3 65536 2 32 = idkey password salt 3 65536 2 32 then PasswordOk else ErrPasswordMismatch))"
proof -
  have dig: "\<exists>h. idkey pw salt 3 65536 2 32 = Some h \<and> length h = 32" for pw
    using assms [unfolded idkey_ok_def, rule_format, of 3 2 pw salt 65536 32] by simp
  obtain h where h: "idkey password salt 3 65536 2 32 = Some h" and l: "length h = 32" using dig by blast
  obtain encoded where e: "HashPassword idkey password (Some salt) = Inr encoded"
    and d: "decodeHash encoded = Some (\<lparr> Memory = 65536, Iterations = 3, Parallelism = 2,
      SaltLen = of_nat (length salt), KeyLen = 32 \<rparr>, salt, h)"
    using decodeHash_format [of 65536 3 2 19 "''argon2id''" salt h] h l
    by (simp add: HashPassword_def DefaultParams_def argon2_Version_def max_int64_def)
  have v: "VerifyPassword idkey pw encoded =
      (if idkey pw salt 3 65536 2 32 = Some h then PasswordOk else ErrPasswordMismatch)" for pw
    using dig [of pw] by (auto simp: VerifyPassword_def d)
  show ?thesis using e v h by auto
qed

section \<open>Properties\<close>

text \<open>
  C35. A password hashed by \<open>HashPassword\<close> verifies, and another password verifies against that hash
  exactly when \<open>argon2.IDKey\<close> gives it the same digest under the same salt and the default
  parameters: the encoded text loses nothing.
\<close>

theorem password_hash_roundtrip:
  assumes "idkey_ok idkey"
  shows "\<exists>encoded. HashPassword idkey password (Some salt) = Inr encoded \<and>
    VerifyPassword idkey password encoded = PasswordOk \<and>
    (\<forall>other. VerifyPassword idkey other encoded =
      (if idkey other salt 3 65536 2 32 = idkey password salt 3 65536 2 32 then PasswordOk else ErrPasswordMismatch))"
  using hashed_verifies [OF assms, of password salt] by auto

text \<open>
  The name of the algorithm and its version are read over: a hash of another Argon2 variant or
  version is verified as if it were the one this service writes.
\<close>

theorem password_algorithm_ignored:
  assumes "m < 2 ^ 32" and "t < 2 ^ 32" and "p < 2 ^ 8" and "int v \<le> max_int64" and "CHR ''$'' \<notin> set algo"
  shows "VerifyPassword idkey pw (''$'' @ algo @ ''$v='' @ dec_digits v @ ''$m='' @ dec_digits m @ '',t='' @ dec_digits t @
      '',p='' @ dec_digits p @ ''$'' @ std_encode salt @ ''$'' @ std_encode hash) =
    VerifyPassword idkey pw (''$argon2id$v=19$m='' @ dec_digits m @ '',t='' @ dec_digits t @
      '',p='' @ dec_digits p @ ''$'' @ std_encode salt @ ''$'' @ std_encode hash)"
proof -
  have "dec_digits 19 = ''19''" by code_simp
  then show ?thesis
    using decodeHash_format [OF assms(1-3) _ , of 19 "''argon2id''" salt hash] decodeHash_format [OF assms, of salt hash]
    by (simp add: VerifyPassword_def max_int64_def)
qed

definition ex_idkey :: idkey where
  "ex_idkey pw salt t m p n =
     (if t = 0 \<or> p = 0 then None else Some (take (unat n) (pw @ replicate (unat n) (CHR ''.''))))"

theorem password_hash_roundtrip_witness:
  "\<exists>encoded. HashPassword ex_idkey ''pw'' (Some ''salt'') = Inr encoded \<and>
    VerifyPassword ex_idkey ''pw'' encoded = PasswordOk \<and> VerifyPassword ex_idkey ''px'' encoded = ErrPasswordMismatch"
proof -
  have "idkey_ok ex_idkey" by (auto simp: idkey_ok_def ex_idkey_def min_def)
  moreover have "ex_idkey ''px'' ''salt'' 3 65536 2 32 \<noteq> ex_idkey ''pw'' ''salt'' 3 65536 2 32"
    by (simp add: ex_idkey_def)
  ultimately show ?thesis using password_hash_roundtrip [of ex_idkey "''pw''" "''salt''"] by metis
qed

end
