(* ===== verification/IdentityModel.thy ===== *)
theory IdentityModel
  imports PasswordHash Rbac
begin

text \<open>
  The identity service's types (\<open>services/identity/internal/models/models.go\<close>), its tokens
  (\<open>pkg/jwt/jwt.go\<close>) and the refresh tokens it keeps in Redis (\<open>internal/service/session.go\<close>).

  Outside the repository, and so parameters of the definitions: UUID texts, \<open>argon2.IDKey\<close>, the signing
  and verifying of golang-jwt under the manager's keys, and JSON (\<open>id_lib\<close>); Redis (\<open>redis_ops\<close>). What a request
  gets from its surroundings is \<open>id_env\<close>: the clock as each statement that reads it sees it, fresh
  UUIDs, the random salt, the calls that fail, and the order in which rows come back when the query
  gives none.
\<close>

section \<open>Records\<close>

record Organization =
  og_ID :: uuid
  og_Name :: string
  og_Slug :: string
  og_Tier :: string
  og_Industry :: "string option"
  og_CountryCode :: "string option"
  og_IsActive :: bool
  og_CreatedAt :: gotime
  og_UpdatedAt :: gotime

record User =
  us_ID :: uuid
  us_OrgID :: uuid
  us_Email :: string
  us_DisplayName :: string
  us_PasswordHash :: "string option"
  us_IsActive :: bool
  us_LastLoginAt :: "gotime option"
  us_CreatedAt :: gotime
  us_UpdatedAt :: gotime

record Role =
  ro_ID :: uuid
  ro_OrgID :: uuid
  ro_Name :: string
  ro_Slug :: string
  ro_Description :: "string option"
  ro_IsSystem :: bool
  ro_CreatedAt :: gotime

record UserRole =
  ur_ID :: uuid
  ur_UserID :: uuid
  ur_RoleID :: uuid
  ur_GrantedBy :: "uuid option"
  ur_GrantedAt :: gotime
  ur_ExpiresAt :: "gotime option"

record RefreshToken =
  rf_TokenID :: string
  rf_UserID :: string
  rf_OrgID :: string
  rf_ExpiresAt :: gotime

section \<open>Parameters\<close>

text \<open>
  The payload of a token, as its JSON holds it: a field that a claims type does not have is absent,
  and reading an absent field gives the empty string. Times are whole seconds.
\<close>

record jwt_payload =
  jp_org_id :: "string option"
  jp_email :: "string option"
  jp_name :: "string option"
  jp_persona :: "string option"
  jp_iss :: string
  jp_sub :: string
  jp_iat :: int
  jp_exp :: int
  jp_jti :: string

record id_lib =
  il_uuid_parse :: "string \<Rightarrow> uuid option"
  il_uuid_text :: "uuid \<Rightarrow> string"
  il_idkey :: idkey
  il_sign :: "jwt_payload \<Rightarrow> string"
  il_verify :: "gotime \<Rightarrow> string \<Rightarrow> jwt_payload option"
  il_to_json :: "RefreshToken \<Rightarrow> string"
  il_of_json :: "string \<Rightarrow> RefreshToken option"

record 'r redis_ops =
  rd_set :: "string \<Rightarrow> string \<Rightarrow> duration \<Rightarrow> gotime \<Rightarrow> 'r \<Rightarrow> 'r"
  rd_get :: "gotime \<Rightarrow> string \<Rightarrow> 'r \<Rightarrow> string option"
  rd_del :: "string \<Rightarrow> 'r \<Rightarrow> 'r"

record id_env =
  ie_now :: "string \<Rightarrow> gotime"
  ie_new :: "string \<Rightarrow> uuid"
  ie_salt :: "string option"
  ie_fails :: "string \<Rightarrow> bool"
  ie_order :: "nat list"

text \<open>
  What their documentation says: texts of UUIDs and JSON are read back; a token that was signed
  verifies until its expiry and gives its payload; a key of Redis keeps its value for the duration
  it was set with, counted in whole milliseconds, unless it is deleted or set again.
\<close>

definition id_lib_ok :: "id_lib \<Rightarrow> bool" where
  "id_lib_ok L \<longleftrightarrow>
     (\<forall>u. il_uuid_parse L (il_uuid_text L u) = Some u \<and> il_uuid_text L u \<noteq> []) \<and>
     (\<forall>p. il_sign L p \<noteq> []) \<and>
     (\<forall>p now. il_verify L now (il_sign L p) = (if now < jp_exp p * second then Some p else None)) \<and>
     (\<forall>t. il_of_json L (il_to_json L t) = Some t) \<and> idkey_ok (il_idkey L)"

definition redis_ok :: "'r redis_ops \<Rightarrow> bool" where
  "redis_ok R \<longleftrightarrow>
     (\<forall>k v d t0 r t. rd_get R t k (rd_set R k v d t0 r) \<in> {None, Some v}) \<and>
     (\<forall>k v d t0 r t. t0 \<le> t \<longrightarrow> t < t0 + d - 1000000 \<longrightarrow> rd_get R t k (rd_set R k v d t0 r) = Some v) \<and>
     (\<forall>k v d t0 r t. 1000000 \<le> d \<longrightarrow> t0 + d \<le> t \<longrightarrow> rd_get R t k (rd_set R k v d t0 r) = None) \<and>
     (\<forall>k k' v d t0 r t. k \<noteq> k' \<longrightarrow> rd_get R t k' (rd_set R k v d t0 r) = rd_get R t k' r) \<and>
     (\<forall>k r t. rd_get R t k (rd_del R k r) = None) \<and>
     (\<forall>k k' r t. k \<noteq> k' \<longrightarrow> rd_get R t k' (rd_del R k r) = rd_get R t k' r)"

section \<open>Tokens\<close>

record RegisteredClaims =
  rg_Issuer :: string
  rg_Subject :: string
  rg_IssuedAt :: int
  rg_ExpiresAt :: int
  rg_ID :: string

record AccessClaims = RegisteredClaims +
  ac_OrgID :: string
  ac_Email :: string
  ac_DisplayName :: string
  ac_Persona :: string

record RefreshClaims = RegisteredClaims +
  rc_OrgID :: string

record Manager =
  mg_issuer :: string
  mg_accessTTL :: duration
  mg_refreshTTL :: duration

text \<open>What \<open>encoding/json\<close> writes of each claims type, and reads into it.\<close>

definition access_payload :: "AccessClaims \<Rightarrow> jwt_payload" where
  "access_payload c = \<lparr> jp_org_id = Some (ac_OrgID c), jp_email = Some (ac_Email c),
     jp_name = Some (ac_DisplayName c), jp_persona = Some (ac_Persona c), jp_iss = rg_Issuer c,
     jp_sub = rg_Subject c, jp_iat = rg_IssuedAt c, jp_exp = rg_ExpiresAt c, jp_jti = rg_ID c \<rparr>"

definition refresh_payload :: "RefreshClaims \<Rightarrow> jwt_payload" where
  "refresh_payload c = \<lparr> jp_org_id = Some (rc_OrgID c), jp_email = None, jp_name = None,
     jp_persona = None, jp_iss = rg_Issuer c, jp_sub = rg_Subject c, jp_iat = rg_IssuedAt c,
     jp_exp = rg_ExpiresAt c, jp_jti = rg_ID c \<rparr>"

definition field_text :: "string option \<Rightarrow> string" where
  "field_text f = (case f of None \<Rightarrow> [] | Some s \<Rightarrow> s)"

definition access_claims :: "jwt_payload \<Rightarrow> AccessClaims" where
  "access_claims p = \<lparr> rg_Issuer = jp_iss p, rg_Subject = jp_sub p, rg_IssuedAt = jp_iat p,
     rg_ExpiresAt = jp_exp p, rg_ID = jp_jti p, ac_OrgID = field_text (jp_org_id p),
     ac_Email = field_text (jp_email p), ac_DisplayName = field_text (jp_name p),
     ac_Persona = field_text (jp_persona p) \<rparr>"

definition refresh_claims :: "jwt_payload \<Rightarrow> RefreshClaims" where
  "refresh_claims p = \<lparr> rg_Issuer = jp_iss p, rg_Subject = jp_sub p, rg_IssuedAt = jp_iat p,
     rg_ExpiresAt = jp_exp p, rg_ID = jp_jti p, rc_OrgID = field_text (jp_org_id p) \<rparr>"

text \<open>\<open>NewNumericDate\<close> truncates to seconds. \<open>None\<close>: signing failed.\<close>

definition IssueAccessToken ::
  "id_lib \<Rightarrow> id_env \<Rightarrow> Manager \<Rightarrow> string \<Rightarrow> string \<Rightarrow> string \<Rightarrow> string \<Rightarrow> string \<Rightarrow> string option" where
  "IssueAccessToken L env m userID orgID email displayName persona =
     (let now = ie_now env ''access'';
          claims = \<lparr> rg_Issuer = mg_issuer m, rg_Subject = userID, rg_IssuedAt = now div second,
            rg_ExpiresAt = (now + mg_accessTTL m) div second, rg_ID = il_uuid_text L (ie_new env ''access''),
            ac_OrgID = orgID, ac_Email = email, ac_DisplayName = displayName, ac_Persona = persona \<rparr>
      in if ie_fails env ''sign access'' then None else Some (il_sign L (access_payload claims)))"

definition IssueRefreshToken ::
  "id_lib \<Rightarrow> id_env \<Rightarrow> Manager \<Rightarrow> string \<Rightarrow> string \<Rightarrow> (string \<times> string) option" where
  "IssueRefreshToken L env m userID orgID =
     (let now = ie_now env ''refresh'';
          jti = il_uuid_text L (ie_new env ''refresh'');
          claims = \<lparr> rg_Issuer = mg_issuer m, rg_Subject = userID, rg_IssuedAt = now div second,
            rg_ExpiresAt = (now + mg_refreshTTL m) div second, rg_ID = jti, rc_OrgID = orgID \<rparr>
      in if ie_fails env ''sign refresh'' then None else Some (il_sign L (refresh_payload claims), jti))"

definition VerifyAccessToken :: "id_lib \<Rightarrow> id_env \<Rightarrow> string \<Rightarrow> AccessClaims option" where
  "VerifyAccessToken L env tokenStr = map_option access_claims (il_verify L (ie_now env ''verify'') tokenStr)"

definition VerifyRefreshToken :: "id_lib \<Rightarrow> id_env \<Rightarrow> string \<Rightarrow> RefreshClaims option" where
  "VerifyRefreshToken L env tokenStr =
     map_option refresh_claims (il_verify L (ie_now env ''verify refresh'') tokenStr)"

section \<open>Sessions\<close>

definition refreshKeyPrefix :: string where
  "refreshKeyPrefix = ''refresh:''"

text \<open>\<open>False\<close> is the error.\<close>

definition StoreRefreshToken :: "id_lib \<Rightarrow> 'r redis_ops \<Rightarrow> id_env \<Rightarrow> 'r \<Rightarrow> RefreshToken \<Rightarrow> 'r \<times> bool" where
  "StoreRefreshToken L R env r tok =
     (if ie_fails env ''session set'' then (r, False)
      else (rd_set R (refreshKeyPrefix @ rf_TokenID tok) (il_to_json L tok)
              (time_Sub (rf_ExpiresAt tok) (ie_now env ''until'')) (ie_now env ''session set'') r, True))"

text \<open>\<open>None\<close> is an error, \<open>Some None\<close> that the key is not there.\<close>

definition GetRefreshToken ::
  "id_lib \<Rightarrow> 'r redis_ops \<Rightarrow> id_env \<Rightarrow> 'r \<Rightarrow> string \<Rightarrow> RefreshToken option option" where
  "GetRefreshToken L R env r jti =
     (if ie_fails env ''session get'' then None
      else case rd_get R (ie_now env ''session get'') (refreshKeyPrefix @ jti) r of
          None \<Rightarrow> Some None
        | Some data \<Rightarrow> (case il_of_json L data of None \<Rightarrow> None | Some tok \<Rightarrow> Some (Some tok)))"

definition RevokeRefreshToken :: "'r redis_ops \<Rightarrow> id_env \<Rightarrow> 'r \<Rightarrow> string \<Rightarrow> 'r \<times> bool" where
  "RevokeRefreshToken R env r jti =
     (if ie_fails env ''session del'' then (r, False) else (rd_del R (refreshKeyPrefix @ jti) r, True))"

section \<open>Lemmas\<close>

lemma access_claims_payload [simp]: "access_claims (access_payload c) = c"
  by (simp add: access_claims_def access_payload_def field_text_def)

lemma refresh_claims_payload [simp]: "refresh_claims (refresh_payload c) = c"
  by (simp add: refresh_claims_def refresh_payload_def field_text_def)

text \<open>A refresh token reads as an access token without e-mail, name and persona.\<close>

lemma access_claims_refresh:
  "access_claims (refresh_payload c) = \<lparr> rg_Issuer = rg_Issuer c, rg_Subject = rg_Subject c,
     rg_IssuedAt = rg_IssuedAt c, rg_ExpiresAt = rg_ExpiresAt c, rg_ID = rg_ID c,
     ac_OrgID = rc_OrgID c, ac_Email = [], ac_DisplayName = [], ac_Persona = [] \<rparr>"
  by (simp add: access_claims_def refresh_payload_def field_text_def)

lemma id_lib_okD:
  assumes "id_lib_ok L"
  shows "il_uuid_parse L (il_uuid_text L u) = Some u" "il_uuid_text L u \<noteq> []" "il_sign L p \<noteq> []"
    "il_verify L now (il_sign L p) = (if now < jp_exp p * second then Some p else None)"
    "il_of_json L (il_to_json L t) = Some t" "idkey_ok (il_idkey L)"
  using assms by (simp_all add: id_lib_ok_def)

lemma redis_okD:
  assumes "redis_ok R"
  shows "rd_get R t k (rd_set R k v d t0 r) \<in> {None, Some v}"
    "t0 \<le> t \<Longrightarrow> t < t0 + d - 1000000 \<Longrightarrow> rd_get R t k (rd_set R k v d t0 r) = Some v"
    "k \<noteq> k' \<Longrightarrow> rd_get R t k' (rd_set R k v d t0 r) = rd_get R t k' r"
    "rd_get R t k (rd_del R k r) = None"
    "k \<noteq> k' \<Longrightarrow> rd_get R t k' (rd_del R k r) = rd_get R t k' r"
  using assms by (simp_all add: redis_ok_def)

end
