(* ===== verification/IdentityRepo.thy ===== *)
theory IdentityRepo
  imports IdentityModel
begin

text \<open>
  The identity service's repository (\<open>services/identity/internal/repository/repository.go\<close>): every
  query on the four tables of \<open>db/migrations/001_initial_schema.sql\<close>, with the constraints that
  migration declares. A table is the list of its rows in the order of insertion. The service connects
  with a role the row policies let through (\<open>service_bypass\<close>), so they are left out. A query fails
  when the environment says so (\<open>ie_fails\<close>) or a constraint refuses it; rows without \<open>ORDER BY\<close>, and
  rows equal under it, come back in any order (\<open>shuffle\<close>).
\<close>

section \<open>Tables\<close>

record id_db =
  db_orgs :: "Organization list"
  db_users :: "User list"
  db_roles :: "Role list"
  db_user_roles :: "UserRole list"

datatype repo_error = ErrNotFound | ErrOp string

definition by_created :: "id_env \<Rightarrow> ('a \<Rightarrow> gotime) \<Rightarrow> 'a list \<Rightarrow> 'a list" where
  "by_created env created rows = sort_key (\<lambda>r. - created r) (shuffle (ie_order env) rows)"

section \<open>Organisations\<close>

definition org_tiers :: "string list" where
  "org_tiers = [''standard'', ''professional'', ''enterprise'']"

definition CreateOrganization ::
  "id_env \<Rightarrow> id_db \<Rightarrow> string \<Rightarrow> string \<Rightarrow> string \<Rightarrow> id_db \<times> (repo_error + Organization)" where
  "CreateOrganization env db name slug tier =
     (let now = ie_now env ''CreateOrganization'';
          row = \<lparr> og_ID = ie_new env ''org'', og_Name = name, og_Slug = slug, og_Tier = tier,
            og_Industry = None, og_CountryCode = None, og_IsActive = True, og_CreatedAt = now, og_UpdatedAt = now \<rparr>
      in if ie_fails env ''CreateOrganization'' \<or> slug \<in> og_Slug ` set (db_orgs db) \<or>
            og_ID row \<in> og_ID ` set (db_orgs db) \<or> tier \<notin> set org_tiers
         then (db, Inl (ErrOp ''CreateOrganization''))
         else (db\<lparr> db_orgs := db_orgs db @ [row] \<rparr>, Inr row))"

definition GetOrganization :: "id_env \<Rightarrow> id_db \<Rightarrow> uuid \<Rightarrow> repo_error + Organization" where
  "GetOrganization env db i =
     (if ie_fails env ''GetOrganization'' then Inl (ErrOp ''GetOrganization'')
      else case find (\<lambda>o1. og_ID o1 = i) (db_orgs db) of None \<Rightarrow> Inl ErrNotFound | Some o1 \<Rightarrow> Inr o1)"

definition UpdateOrganization ::
  "id_env \<Rightarrow> id_db \<Rightarrow> uuid \<Rightarrow> string \<Rightarrow> string \<Rightarrow> id_db \<times> (repo_error + Organization)" where
  "UpdateOrganization env db i name tier =
     (let upd = (\<lambda>o1. if og_ID o1 = i
            then o1\<lparr> og_Name := name, og_Tier := tier, og_UpdatedAt := ie_now env ''UpdateOrganization'' \<rparr> else o1)
      in if ie_fails env ''UpdateOrganization'' then (db, Inl (ErrOp ''UpdateOrganization''))
         else case find (\<lambda>o1. og_ID o1 = i) (db_orgs db) of
             None \<Rightarrow> (db, Inl ErrNotFound)
           | Some o1 \<Rightarrow>
               if tier \<notin> set org_tiers then (db, Inl (ErrOp ''UpdateOrganization''))
               else (db\<lparr> db_orgs := map upd (db_orgs db) \<rparr>, Inr (upd o1)))"

definition ListOrganizations :: "id_env \<Rightarrow> id_db \<Rightarrow> repo_error + Organization list" where
  "ListOrganizations env db =
     (if ie_fails env ''ListOrganizations'' then Inl (ErrOp ''ListOrganizations'')
      else Inr (by_created env og_CreatedAt (filter og_IsActive (db_orgs db))))"

section \<open>Users\<close>

definition CreateUser ::
  "id_env \<Rightarrow> id_db \<Rightarrow> uuid \<Rightarrow> string \<Rightarrow> string \<Rightarrow> string \<Rightarrow> id_db \<times> (repo_error + User)" where
  "CreateUser env db orgID email displayName passwordHash =
     (let now = ie_now env ''CreateUser'';
          row = \<lparr> us_ID = ie_new env ''user'', us_OrgID = orgID, us_Email = email,
            us_DisplayName = displayName, us_PasswordHash = Some passwordHash, us_IsActive = True,
            us_LastLoginAt = None, us_CreatedAt = now, us_UpdatedAt = now \<rparr>
      in if ie_fails env ''CreateUser'' \<or> orgID \<notin> og_ID ` set (db_orgs db) \<or>
            (orgID, email) \<in> (\<lambda>u. (us_OrgID u, us_Email u)) ` set (db_users db) \<or>
            us_ID row \<in> us_ID ` set (db_users db)
         then (db, Inl (ErrOp ''CreateUser''))
         else (db\<lparr> db_users := db_users db @ [row] \<rparr>, Inr row))"

definition GetUserByEmail :: "id_env \<Rightarrow> id_db \<Rightarrow> uuid \<Rightarrow> string \<Rightarrow> repo_error + User" where
  "GetUserByEmail env db orgID email =
     (if ie_fails env ''GetUserByEmail'' then Inl (ErrOp ''GetUserByEmail'')
      else case find (\<lambda>u. us_OrgID u = orgID \<and> us_Email u = email) (db_users db) of
          None \<Rightarrow> Inl ErrNotFound | Some u \<Rightarrow> Inr u)"

definition GetUserByID :: "id_env \<Rightarrow> id_db \<Rightarrow> uuid \<Rightarrow> uuid \<Rightarrow> repo_error + User" where
  "GetUserByID env db orgID userID =
     (if ie_fails env ''GetUserByID'' then Inl (ErrOp ''GetUserByID'')
      else case find (\<lambda>u. us_ID u = userID \<and> us_OrgID u = orgID) (db_users db) of
          None \<Rightarrow> Inl ErrNotFound | Some u \<Rightarrow> Inr u)"

definition ListUsers :: "id_env \<Rightarrow> id_db \<Rightarrow> uuid \<Rightarrow> repo_error + User list" where
  "ListUsers env db orgID =
     (if ie_fails env ''ListUsers'' then Inl (ErrOp ''ListUsers'')
      else Inr (by_created env us_CreatedAt (filter (\<lambda>u. us_OrgID u = orgID \<and> us_IsActive u) (db_users db))))"

definition map_user :: "uuid \<Rightarrow> uuid \<Rightarrow> (User \<Rightarrow> User) \<Rightarrow> id_db \<Rightarrow> id_db" where
  "map_user orgID userID f db =
     db\<lparr> db_users := map (\<lambda>u. if us_ID u = userID \<and> us_OrgID u = orgID then f u else u) (db_users db) \<rparr>"

definition UpdateUser :: "id_env \<Rightarrow> id_db \<Rightarrow> uuid \<Rightarrow> uuid \<Rightarrow> string \<Rightarrow> id_db \<times> (repo_error + User)" where
  "UpdateUser env db orgID userID displayName =
     (let upd = (\<lambda>u. u\<lparr> us_DisplayName := displayName, us_UpdatedAt := ie_now env ''UpdateUser'' \<rparr>)
      in if ie_fails env ''UpdateUser'' then (db, Inl (ErrOp ''UpdateUser''))
         else case find (\<lambda>u. us_ID u = userID \<and> us_OrgID u = orgID) (db_users db) of
             None \<Rightarrow> (db, Inl ErrNotFound)
           | Some u \<Rightarrow> (map_user orgID userID upd db, Inr (upd u)))"

definition DeactivateUser :: "id_env \<Rightarrow> id_db \<Rightarrow> uuid \<Rightarrow> uuid \<Rightarrow> id_db \<times> repo_error option" where
  "DeactivateUser env db orgID userID =
     (if ie_fails env ''DeactivateUser'' then (db, Some (ErrOp ''DeactivateUser''))
      else if list_ex (\<lambda>u. us_ID u = userID \<and> us_OrgID u = orgID) (db_users db)
      then (map_user orgID userID (\<lambda>u. u\<lparr> us_IsActive := False, us_UpdatedAt := ie_now env ''DeactivateUser'' \<rparr>) db, None)
      else (db, Some ErrNotFound))"

definition UpdateLastLogin :: "id_env \<Rightarrow> id_db \<Rightarrow> uuid \<Rightarrow> id_db \<times> repo_error option" where
  "UpdateLastLogin env db userID =
     (if ie_fails env ''UpdateLastLogin'' then (db, Some (ErrOp ''UpdateLastLogin''))
      else (db\<lparr> db_users := map (\<lambda>u. if us_ID u = userID
          then u\<lparr> us_LastLoginAt := Some (ie_now env ''UpdateLastLogin''), us_UpdatedAt := ie_now env ''UpdateLastLogin'' \<rparr> else u)
          (db_users db) \<rparr>, None))"

section \<open>Roles\<close>

text \<open>The rows of a join: one for each pair.\<close>

definition granted :: "gotime \<Rightarrow> uuid \<Rightarrow> uuid \<Rightarrow> Role \<Rightarrow> UserRole \<Rightarrow> bool" where
  "granted now orgID userID r ur \<longleftrightarrow> ur_RoleID ur = ro_ID r \<and> ur_UserID ur = userID \<and> ro_OrgID r = orgID \<and>
     (case ur_ExpiresAt ur of None \<Rightarrow> True | Some t \<Rightarrow> now < t)"

definition GetRolesByUser :: "id_env \<Rightarrow> id_db \<Rightarrow> uuid \<Rightarrow> uuid \<Rightarrow> repo_error + Role list" where
  "GetRolesByUser env db orgID userID =
     (if ie_fails env ''GetRolesByUser'' then Inl (ErrOp ''GetRolesByUser'')
      else Inr (shuffle (ie_order env) (map fst (filter (\<lambda>(r, ur). granted (ie_now env ''GetRolesByUser'') orgID userID r ur)
          (List.product (db_roles db) (db_user_roles db))))))"

text \<open>\<open>ORDER BY name\<close>: the collation of the database is an argument.\<close>

definition GetSystemRoles :: "(Role list \<Rightarrow> Role list) \<Rightarrow> id_env \<Rightarrow> id_db \<Rightarrow> uuid \<Rightarrow> repo_error + Role list" where
  "GetSystemRoles by_name env db orgID =
     (if ie_fails env ''GetSystemRoles'' then Inl (ErrOp ''GetSystemRoles'')
      else Inr (by_name (filter (\<lambda>r. ro_OrgID r = orgID) (db_roles db))))"

definition GetRoleBySlug :: "id_env \<Rightarrow> id_db \<Rightarrow> uuid \<Rightarrow> string \<Rightarrow> repo_error + Role" where
  "GetRoleBySlug env db orgID slug =
     (if ie_fails env ''GetRoleBySlug'' then Inl (ErrOp ''GetRoleBySlug'')
      else case find (\<lambda>r. ro_OrgID r = orgID \<and> ro_Slug r = slug) (db_roles db) of
          None \<Rightarrow> Inl ErrNotFound | Some r \<Rightarrow> Inr r)"

definition AssignRole ::
  "id_env \<Rightarrow> id_db \<Rightarrow> uuid \<Rightarrow> uuid \<Rightarrow> uuid option \<Rightarrow> gotime option \<Rightarrow> id_db \<times> repo_error option" where
  "AssignRole env db userID roleID grantedBy expiresAt =
     (let now = ie_now env ''AssignRole'';
          row = \<lparr> ur_ID = ie_new env ''user role'', ur_UserID = userID, ur_RoleID = roleID,
            ur_GrantedBy = grantedBy, ur_GrantedAt = now, ur_ExpiresAt = expiresAt \<rparr>;
          same = (\<lambda>ur. ur_UserID ur = userID \<and> ur_RoleID ur = roleID)
      in if ie_fails env ''AssignRole'' \<or> userID \<notin> us_ID ` set (db_users db) \<or>
            roleID \<notin> ro_ID ` set (db_roles db) \<or>
            (case grantedBy of None \<Rightarrow> False | Some g \<Rightarrow> g \<notin> us_ID ` set (db_users db))
         then (db, Some (ErrOp ''AssignRole''))
         else if list_ex same (db_user_roles db)
         then (db\<lparr> db_user_roles := map (\<lambda>ur. if same ur
             then ur\<lparr> ur_GrantedBy := grantedBy, ur_ExpiresAt := expiresAt, ur_GrantedAt := now \<rparr> else ur)
             (db_user_roles db) \<rparr>, None)
         else if ur_ID row \<in> ur_ID ` set (db_user_roles db) then (db, Some (ErrOp ''AssignRole''))
         else (db\<lparr> db_user_roles := db_user_roles db @ [row] \<rparr>, None))"

definition system_personas :: "(string \<times> string) list" where
  "system_personas = [(''Internal Auditor'', ''internal_auditor''), (''Chief Audit Executive'', ''cae''),
     (''Audit Committee'', ''audit_committee''), (''Auditee CISO'', ''auditee_ciso''),
     (''Cosourced Provider'', ''cosourced_provider''), (''PTWG Member'', ''ptwg_member''),
     (''Beta Tester'', ''beta_tester'')]"

text \<open>One insertion of the loop: \<open>ON CONFLICT (org_id, slug) DO NOTHING\<close>.\<close>

definition ensure_role :: "id_env \<Rightarrow> uuid \<Rightarrow> string \<times> string \<Rightarrow> id_db \<Rightarrow> id_db \<times> repo_error option" where
  "ensure_role env orgID p db =
     (let (name, slug) = p;
          op = ''EnsureSystemRoles '' @ slug;
          row = \<lparr> ro_ID = ie_new env (''role '' @ slug), ro_OrgID = orgID, ro_Name = name, ro_Slug = slug,
            ro_Description = None, ro_IsSystem = True, ro_CreatedAt = ie_now env op \<rparr>
      in if ie_fails env op then (db, Some (ErrOp op))
         else if list_ex (\<lambda>r. ro_OrgID r = orgID \<and> ro_Slug r = slug) (db_roles db) then (db, None)
         else if orgID \<notin> og_ID ` set (db_orgs db) \<or> ro_ID row \<in> ro_ID ` set (db_roles db)
         then (db, Some (ErrOp op))
         else (db\<lparr> db_roles := db_roles db @ [row] \<rparr>, None))"

fun ensure_loop :: "id_env \<Rightarrow> uuid \<Rightarrow> (string \<times> string) list \<Rightarrow> id_db \<Rightarrow> id_db \<times> repo_error option" where
  "ensure_loop env orgID [] db = (db, None)"
| "ensure_loop env orgID (p # ps) db =
     (case ensure_role env orgID p db of
        (db1, Some e) \<Rightarrow> (db1, Some e)
      | (db1, None) \<Rightarrow> ensure_loop env orgID ps db1)"

definition EnsureSystemRoles :: "id_env \<Rightarrow> id_db \<Rightarrow> uuid \<Rightarrow> id_db \<times> repo_error option" where
  "EnsureSystemRoles env db orgID = ensure_loop env orgID system_personas db"

definition GetFirstPersonaForUser :: "id_env \<Rightarrow> id_db \<Rightarrow> uuid \<Rightarrow> uuid \<Rightarrow> repo_error + string" where
  "GetFirstPersonaForUser env db orgID userID =
     (case GetRolesByUser env db orgID userID of
        Inl e \<Rightarrow> Inl e
      | Inr roles \<Rightarrow> (case roles of [] \<Rightarrow> Inr ''beta_tester'' | r # rs \<Rightarrow> Inr (ro_Slug r)))"

end
