(* ===== verification/IdentityApi.thy ===== *)
theory IdentityApi
  imports IdentityRepo
begin

text \<open>
  The identity service's middleware (\<open>services/identity/internal/middleware/auth.go\<close>), its handlers
  (\<open>internal/handlers\<close>) and its routes (\<open>cmd/api/main.go\<close>). A call is a request as the router hands
  it over: the route it matched, its path parameter and its decoded body. \<open>Refresh\<close> is split where
  another request can come between its look at the session and its revocation.
\<close>

section \<open>Requests and answers\<close>

record RegisterRequest =
  rg_OrgID :: string
  rg_Email :: string
  rg_DisplayName :: string
  rg_Password :: string
  rg_Persona :: string

record LoginRequest =
  lg_OrgID :: string
  lg_Email :: string
  lg_Password :: string

record TokenResponse =
  tk_AccessToken :: string
  tk_RefreshToken :: string
  tk_TokenType :: string
  tk_ExpiresIn :: int

record CreateOrgRequest =
  co_Name :: string
  co_Slug :: string
  co_Tier :: string

record UpdateOrgRequest =
  uo_Name :: string
  uo_Tier :: string

record AddMemberRequest =
  am_Email :: string
  am_DisplayName :: string
  am_Password :: string
  am_Persona :: string

datatype id_body =
    IbRegistered uuid string string uuid gotime
  | IbMember uuid string string uuid
  | IbTokens TokenResponse
  | IbMessage string
  | IbUsers "User list"
  | IbUser User
  | IbOrgs "Organization list"
  | IbOrg Organization
  | IbRoles "Role list"
  | IbAssigned uuid Role
  | IbNothing

type_synonym id_response = "id_body response"

definition writeUnauthorized :: "string \<Rightarrow> id_response" where
  "writeUnauthorized msg = JsonError 401 ''UNAUTHORIZED'' msg"

definition writeForbidden :: "string \<Rightarrow> id_response" where
  "writeForbidden msg = JsonError 403 ''FORBIDDEN'' msg"

definition bad_request :: "string \<Rightarrow> id_response" where
  "bad_request msg = JsonError 400 ''BAD_REQUEST'' msg"

definition internal_error :: "string \<Rightarrow> id_response" where
  "internal_error msg = JsonError 500 ''INTERNAL_ERROR'' msg"

text \<open>The answers to the two kinds of repository errors.\<close>

definition repo_failure :: "string \<Rightarrow> string \<Rightarrow> repo_error \<Rightarrow> id_response" where
  "repo_failure missing failed e =
     (if e = ErrNotFound then JsonError 404 ''NOT_FOUND'' missing else internal_error failed)"

record 'r id_state =
  is_db :: id_db
  is_redis :: 'r

section \<open>Middleware\<close>

definition id_Authenticate :: "id_lib \<Rightarrow> id_env \<Rightarrow> string \<Rightarrow> id_response + AccessClaims" where
  "id_Authenticate L env authHeader =
     (if authHeader = [] then Inl (writeUnauthorized ''missing authorization header'')
      else let parts = SplitN2 (CHR '' '') authHeader
           in if length parts \<noteq> 2 \<or> \<not> EqualFold (parts ! 0) ''bearer''
              then Inl (writeUnauthorized ''invalid authorization header format'')
              else case VerifyAccessToken L env (parts ! 1) of
                  None \<Rightarrow> Inl (writeUnauthorized ''invalid or expired token'')
                | Some claims \<Rightarrow> Inr claims)"

definition id_RequirePermission :: "string \<Rightarrow> string \<Rightarrow> AccessClaims option \<Rightarrow> id_response option" where
  "id_RequirePermission resource action ctx =
     (case ctx of
        None \<Rightarrow> Some (writeUnauthorized ''authentication required'')
      | Some claims \<Rightarrow>
          if \<not> Can (ac_Persona claims) resource action
          then Some (writeForbidden ''insufficient permissions for this operation'') else None)"

section \<open>Registration, login, refresh, logout\<close>

text \<open>What \<open>Register\<close> and \<open>AddMember\<close> do with the new user's role: its failure is ignored.\<close>

definition assign_persona :: "id_env \<Rightarrow> id_db \<Rightarrow> uuid \<Rightarrow> uuid \<Rightarrow> string \<Rightarrow> id_db" where
  "assign_persona env db orgID userID persona =
     (case GetRoleBySlug env db orgID (if persona \<noteq> [] then persona else ''beta_tester'') of
        Inl e \<Rightarrow> db
      | Inr role \<Rightarrow> fst (AssignRole env db userID (ro_ID role) None None))"

definition auth_Register :: "id_lib \<Rightarrow> id_env \<Rightarrow> id_db \<Rightarrow> RegisterRequest decoded \<Rightarrow> id_db \<times> id_response" where
  "auth_Register L env db body =
     (case body of
        Inl err \<Rightarrow> (db, bad_request ''invalid request body'')
      | Inr req \<Rightarrow>
          if rg_Email req = [] \<or> rg_Password req = [] \<or> rg_OrgID req = [] \<or> rg_DisplayName req = []
          then (db, bad_request ''org_id, email, display_name, and password are required'')
          else case il_uuid_parse L (rg_OrgID req) of
              None \<Rightarrow> (db, bad_request ''invalid org_id'')
            | Some orgID \<Rightarrow>
                if rg_Persona req \<noteq> [] \<and> \<not> ValidPersona (rg_Persona req)
                then (db, bad_request ''invalid persona'')
                else case HashPassword (il_idkey L) (rg_Password req) (ie_salt env) of
                    Inl e \<Rightarrow> (db, internal_error ''failed to hash password'')
                  | Inr hash \<Rightarrow>
                      (case CreateUser env db orgID (rg_Email req) (rg_DisplayName req) hash of
                         (db1, Inl e) \<Rightarrow> (db1, JsonError 409 ''CONFLICT'' ''user already exists or org not found'')
                       | (db1, Inr user) \<Rightarrow>
                           (case EnsureSystemRoles env db1 orgID of
                              (db2, Some e) \<Rightarrow> (db2, internal_error ''failed to setup roles'')
                            | (db2, None) \<Rightarrow>
                                (assign_persona env db2 orgID (us_ID user) (rg_Persona req),
                                 JsonResponse 201 (IbRegistered (us_ID user) (us_Email user)
                                   (us_DisplayName user) (us_OrgID user) (us_CreatedAt user))))))"

text \<open>The end of \<open>Login\<close> and of \<open>Refresh\<close>: two tokens and a session.\<close>

definition issue_tokens ::
  "id_lib \<Rightarrow> 'r redis_ops \<Rightarrow> id_env \<Rightarrow> Manager \<Rightarrow> duration \<Rightarrow> 'r id_state \<Rightarrow> uuid \<Rightarrow> User \<Rightarrow>
   'r id_state \<times> (id_response + TokenResponse)" where
  "issue_tokens L R env mg refreshTTL st orgID user =
     (let persona = (case GetFirstPersonaForUser env (is_db st) orgID (us_ID user) of Inl e \<Rightarrow> [] | Inr p \<Rightarrow> p);
          uid = il_uuid_text L (us_ID user); oid = il_uuid_text L orgID
      in case IssueAccessToken L env mg uid oid (us_Email user) (us_DisplayName user) persona of
           None \<Rightarrow> (st, Inl (internal_error ''failed to issue access token''))
         | Some access \<Rightarrow>
             (case IssueRefreshToken L env mg uid oid of
                None \<Rightarrow> (st, Inl (internal_error ''failed to issue refresh token''))
              | Some (refresh, jti) \<Rightarrow>
                  (case StoreRefreshToken L R env (is_redis st)
                      \<lparr> rf_TokenID = jti, rf_UserID = uid, rf_OrgID = oid,
                        rf_ExpiresAt = ie_now env ''session'' + refreshTTL \<rparr> of
                     (r, False) \<Rightarrow> (st\<lparr> is_redis := r \<rparr>, Inl (internal_error ''failed to store session''))
                   | (r, True) \<Rightarrow> (st\<lparr> is_redis := r \<rparr>,
                       Inr \<lparr> tk_AccessToken = access, tk_RefreshToken = refresh, tk_TokenType = ''Bearer'',
                             tk_ExpiresIn = 900 \<rparr>))))"

definition auth_Login ::
  "id_lib \<Rightarrow> 'r redis_ops \<Rightarrow> id_env \<Rightarrow> Manager \<Rightarrow> duration \<Rightarrow> 'r id_state \<Rightarrow> LoginRequest decoded \<Rightarrow>
   'r id_state \<times> id_response" where
  "auth_Login L R env mg refreshTTL st body =
     (case body of
        Inl err \<Rightarrow> (st, bad_request ''invalid request body'')
      | Inr req \<Rightarrow>
          if lg_Email req = [] \<or> lg_Password req = [] \<or> lg_OrgID req = []
          then (st, bad_request ''org_id, email, and password are required'')
          else case il_uuid_parse L (lg_OrgID req) of
              None \<Rightarrow> (st, bad_request ''invalid org_id'')
            | Some orgID \<Rightarrow>
                (case GetUserByEmail env (is_db st) orgID (lg_Email req) of
                   Inl e \<Rightarrow> (st, writeUnauthorized ''invalid credentials'')
                 | Inr user \<Rightarrow>
                     if \<not> us_IsActive user then (st, writeUnauthorized ''account deactivated'')
                     else case us_PasswordHash user of
                         None \<Rightarrow> (st, writeUnauthorized ''invalid credentials'')
                       | Some hash \<Rightarrow>
                           (case VerifyPassword (il_idkey L) (lg_Password req) hash of
                              PasswordPanic \<Rightarrow> (st, JsonError 500 '''' '''')
                            | ErrPasswordMismatch \<Rightarrow> (st, writeUnauthorized ''invalid credentials'')
                            | PasswordDecodeError \<Rightarrow> (st, writeUnauthorized ''invalid credentials'')
                            | PasswordOk \<Rightarrow>
                                (case issue_tokens L R env mg refreshTTL st orgID user of
                                   (st1, Inl resp) \<Rightarrow> (st1, resp)
                                 | (st1, Inr toks) \<Rightarrow>
                                     (st1\<lparr> is_db := fst (UpdateLastLogin env (is_db st1) (us_ID user)) \<rparr>,
                                      JsonResponse 200 (IbTokens toks))))))"

definition refresh_begin ::
  "id_lib \<Rightarrow> 'r redis_ops \<Rightarrow> id_env \<Rightarrow> 'r \<Rightarrow> string decoded \<Rightarrow> id_response + RefreshClaims" where
  "refresh_begin L R env r body =
     (case body of
        Inl err \<Rightarrow> Inl (bad_request ''invalid request body'')
      | Inr token \<Rightarrow>
          if token = [] then Inl (bad_request ''refresh_token is required'')
          else case VerifyRefreshToken L env token of
              None \<Rightarrow> Inl (writeUnauthorized ''invalid or expired refresh token'')
            | Some claims \<Rightarrow>
                (case GetRefreshToken L R env r (rg_ID claims) of
                   None \<Rightarrow> Inl (writeUnauthorized ''refresh token revoked or not found'')
                 | Some None \<Rightarrow> Inl (writeUnauthorized ''refresh token revoked or not found'')
                 | Some (Some stored) \<Rightarrow> Inr claims))"

definition refresh_finish ::
  "id_lib \<Rightarrow> 'r redis_ops \<Rightarrow> id_env \<Rightarrow> Manager \<Rightarrow> duration \<Rightarrow> 'r id_state \<Rightarrow> RefreshClaims \<Rightarrow>
   'r id_state \<times> id_response" where
  "refresh_finish L R env mg refreshTTL st claims =
     (let st1 = st\<lparr> is_redis := fst (RevokeRefreshToken R env (is_redis st) (rg_ID claims)) \<rparr>
      in case il_uuid_parse L (rc_OrgID claims) of
           None \<Rightarrow> (st1, writeUnauthorized ''invalid token claims'')
         | Some orgID \<Rightarrow>
             (case il_uuid_parse L (rg_Subject claims) of
                None \<Rightarrow> (st1, writeUnauthorized ''invalid token claims'')
              | Some userID \<Rightarrow>
                  (case GetUserByID env (is_db st1) orgID userID of
                     Inl e \<Rightarrow> (st1, writeUnauthorized ''user not found or deactivated'')
                   | Inr user \<Rightarrow>
                       if \<not> us_IsActive user then (st1, writeUnauthorized ''user not found or deactivated'')
                       else (case issue_tokens L R env mg refreshTTL st1 orgID user of
                               (st2, Inl resp) \<Rightarrow> (st2, resp)
                             | (st2, Inr toks) \<Rightarrow> (st2, JsonResponse 200 (IbTokens toks))))))"

definition auth_Refresh ::
  "id_lib \<Rightarrow> 'r redis_ops \<Rightarrow> id_env \<Rightarrow> Manager \<Rightarrow> duration \<Rightarrow> 'r id_state \<Rightarrow> string decoded \<Rightarrow>
   'r id_state \<times> id_response" where
  "auth_Refresh L R env mg refreshTTL st body =
     (case refresh_begin L R env (is_redis st) body of
        Inl resp \<Rightarrow> (st, resp)
      | Inr claims \<Rightarrow> refresh_finish L R env mg refreshTTL st claims)"

text \<open>The body of \<open>Logout\<close> is the token the decoder leaves in the request, errors ignored.\<close>

definition auth_Logout ::
  "id_lib \<Rightarrow> 'r redis_ops \<Rightarrow> id_env \<Rightarrow> 'r id_state \<Rightarrow> AccessClaims option \<Rightarrow> string \<Rightarrow> 'r id_state \<times> id_response" where
  "auth_Logout L R env st ctx token =
     (case ctx of
        None \<Rightarrow> (st, writeUnauthorized ''authentication required'')
      | Some claims \<Rightarrow>
          (let r = (if token = [] then is_redis st
                    else case VerifyRefreshToken L env token of
                        None \<Rightarrow> is_redis st
                      | Some rc \<Rightarrow> fst (RevokeRefreshToken R env (is_redis st) (rg_ID rc)))
           in (st\<lparr> is_redis := r \<rparr>, JsonResponse 200 (IbMessage ''logged out''))))"

section \<open>Users and roles\<close>

text \<open>\<open>orgID, _ := uuid.Parse(...)\<close>: the nil UUID when the text is not one.\<close>

definition parse_or_nil :: "id_lib \<Rightarrow> string \<Rightarrow> uuid" where
  "parse_or_nil L s = (case il_uuid_parse L s of None \<Rightarrow> uuid_Nil | Some u \<Rightarrow> u)"

definition user_List :: "id_lib \<Rightarrow> id_env \<Rightarrow> id_db \<Rightarrow> AccessClaims \<Rightarrow> id_response" where
  "user_List L env db claims =
     (case il_uuid_parse L (ac_OrgID claims) of
        None \<Rightarrow> bad_request ''invalid org context''
      | Some orgID \<Rightarrow>
          (case ListUsers env db orgID of
             Inl e \<Rightarrow> internal_error ''failed to list users''
           | Inr users \<Rightarrow> JsonResponse 200 (IbUsers users)))"

definition user_Get :: "id_lib \<Rightarrow> id_env \<Rightarrow> id_db \<Rightarrow> AccessClaims \<Rightarrow> string \<Rightarrow> id_response" where
  "user_Get L env db claims param =
     (case il_uuid_parse L param of
        None \<Rightarrow> bad_request ''invalid user id''
      | Some userID \<Rightarrow>
          (case GetUserByID env db (parse_or_nil L (ac_OrgID claims)) userID of
             Inl e \<Rightarrow> repo_failure ''user not found'' ''failed to get user'' e
           | Inr user \<Rightarrow> JsonResponse 200 (IbUser user)))"

definition user_Update ::
  "id_lib \<Rightarrow> id_env \<Rightarrow> id_db \<Rightarrow> AccessClaims \<Rightarrow> string \<Rightarrow> string decoded \<Rightarrow> id_db \<times> id_response" where
  "user_Update L env db claims param body =
     (case il_uuid_parse L param of
        None \<Rightarrow> (db, bad_request ''invalid user id'')
      | Some userID \<Rightarrow>
          (case body of
             Inl err \<Rightarrow> (db, bad_request ''display_name is required'')
           | Inr name \<Rightarrow>
               if name = [] then (db, bad_request ''display_name is required'')
               else case UpdateUser env db (parse_or_nil L (ac_OrgID claims)) userID name of
                   (db1, Inl e) \<Rightarrow> (db1, repo_failure ''user not found'' ''failed to update user'' e)
                 | (db1, Inr user) \<Rightarrow> (db1, JsonResponse 200 (IbUser user))))"

definition user_Delete :: "id_lib \<Rightarrow> id_env \<Rightarrow> id_db \<Rightarrow> AccessClaims \<Rightarrow> string \<Rightarrow> id_db \<times> id_response" where
  "user_Delete L env db claims param =
     (case il_uuid_parse L param of
        None \<Rightarrow> (db, bad_request ''invalid user id'')
      | Some userID \<Rightarrow>
          (case DeactivateUser env db (parse_or_nil L (ac_OrgID claims)) userID of
             (db1, Some e) \<Rightarrow> (db1, repo_failure ''user not found'' ''failed to deactivate user'' e)
           | (db1, None) \<Rightarrow> (db1, JsonResponse 204 IbNothing)))"

definition role_List :: "id_lib \<Rightarrow> (Role list \<Rightarrow> Role list) \<Rightarrow> id_env \<Rightarrow> id_db \<Rightarrow> AccessClaims \<Rightarrow> id_response" where
  "role_List L by_name env db claims =
     (case GetSystemRoles by_name env db (parse_or_nil L (ac_OrgID claims)) of
        Inl e \<Rightarrow> internal_error ''failed to list roles''
      | Inr roles \<Rightarrow> JsonResponse 200 (IbRoles roles))"

definition role_AssignToUser ::
  "id_lib \<Rightarrow> id_env \<Rightarrow> id_db \<Rightarrow> AccessClaims \<Rightarrow> string \<Rightarrow> string decoded \<Rightarrow> id_db \<times> id_response" where
  "role_AssignToUser L env db claims param body =
     (let orgID = parse_or_nil L (ac_OrgID claims)
      in case il_uuid_parse L param of
           None \<Rightarrow> (db, bad_request ''invalid user id'')
         | Some userID \<Rightarrow>
             (case body of
                Inl err \<Rightarrow> (db, bad_request ''role_slug is required'')
              | Inr slug \<Rightarrow>
                  if slug = [] then (db, bad_request ''role_slug is required'')
                  else case GetUserByID env db orgID userID of
                      Inl e \<Rightarrow> (db, repo_failure ''user not found'' ''failed to get user'' e)
                    | Inr user \<Rightarrow>
                        (case GetRoleBySlug env db orgID slug of
                           Inl e \<Rightarrow> (db, repo_failure ''role not found'' ''failed to get role'' e)
                         | Inr role \<Rightarrow>
                             (case AssignRole env db userID (ro_ID role)
                                 (Some (parse_or_nil L (rg_Subject claims))) None of
                                (db1, Some e) \<Rightarrow> (db1, internal_error ''failed to assign role'')
                              | (db1, None) \<Rightarrow> (db1, JsonResponse 200 (IbAssigned userID role))))))"

section \<open>Organisations\<close>

definition org_Create :: "id_env \<Rightarrow> id_db \<Rightarrow> CreateOrgRequest decoded \<Rightarrow> id_db \<times> id_response" where
  "org_Create env db body =
     (case body of
        Inl err \<Rightarrow> (db, bad_request ''invalid request body'')
      | Inr req \<Rightarrow>
          if co_Name req = [] \<or> co_Slug req = [] then (db, bad_request ''name and slug are required'')
          else case CreateOrganization env db (co_Name req) (co_Slug req)
                 (if co_Tier req = [] then ''standard'' else co_Tier req) of
              (db1, Inl e) \<Rightarrow> (db1, JsonError 409 ''CONFLICT'' ''organization slug already exists'')
            | (db1, Inr org) \<Rightarrow>
                (fst (EnsureSystemRoles env db1 (og_ID org)), JsonResponse 201 (IbOrg org)))"

definition org_List :: "id_env \<Rightarrow> id_db \<Rightarrow> id_response" where
  "org_List env db =
     (case ListOrganizations env db of
        Inl e \<Rightarrow> internal_error ''failed to list organizations''
      | Inr orgs \<Rightarrow> JsonResponse 200 (IbOrgs orgs))"

text \<open>The checks \<open>Get\<close>, \<open>Update\<close> and \<open>AddMember\<close> begin with: the organisation, or an answer.\<close>

definition own_org :: "id_lib \<Rightarrow> AccessClaims \<Rightarrow> string \<Rightarrow> id_response + uuid" where
  "own_org L claims param =
     (let orgID = parse_or_nil L (ac_OrgID claims)
      in case il_uuid_parse L param of
           None \<Rightarrow> Inl (bad_request ''invalid organization id'')
         | Some paramID \<Rightarrow>
             if paramID \<noteq> orgID then Inl (writeForbidden ''access denied to this organization'') else Inr orgID)"

definition org_Get :: "id_lib \<Rightarrow> id_env \<Rightarrow> id_db \<Rightarrow> AccessClaims \<Rightarrow> string \<Rightarrow> id_response" where
  "org_Get L env db claims param =
     (case own_org L claims param of
        Inl resp \<Rightarrow> resp
      | Inr orgID \<Rightarrow>
          (case GetOrganization env db orgID of
             Inl e \<Rightarrow> repo_failure ''organization not found'' ''failed to get organization'' e
           | Inr org \<Rightarrow> JsonResponse 200 (IbOrg org)))"

definition org_Update ::
  "id_lib \<Rightarrow> id_env \<Rightarrow> id_db \<Rightarrow> AccessClaims \<Rightarrow> string \<Rightarrow> UpdateOrgRequest decoded \<Rightarrow> id_db \<times> id_response" where
  "org_Update L env db claims param body =
     (case own_org L claims param of
        Inl resp \<Rightarrow> (db, resp)
      | Inr orgID \<Rightarrow>
          (case body of
             Inl err \<Rightarrow> (db, bad_request ''name is required'')
           | Inr req \<Rightarrow>
               if uo_Name req = [] then (db, bad_request ''name is required'')
               else case UpdateOrganization env db orgID (uo_Name req)
                      (if uo_Tier req = [] then ''standard'' else uo_Tier req) of
                   (db1, Inl e) \<Rightarrow> (db1, internal_error ''failed to update organization'')
                 | (db1, Inr org) \<Rightarrow> (db1, JsonResponse 200 (IbOrg org))))"

definition org_AddMember ::
  "id_lib \<Rightarrow> id_env \<Rightarrow> id_db \<Rightarrow> AccessClaims \<Rightarrow> string \<Rightarrow> AddMemberRequest decoded \<Rightarrow> id_db \<times> id_response" where
  "org_AddMember L env db claims param body =
     (case own_org L claims param of
        Inl resp \<Rightarrow> (db, resp)
      | Inr orgID \<Rightarrow>
          (case body of
             Inl err \<Rightarrow> (db, bad_request ''invalid request body'')
           | Inr req \<Rightarrow>
               if am_Email req = [] \<or> am_Password req = [] \<or> am_DisplayName req = []
               then (db, bad_request ''email, display_name, and password are required'')
               else case HashPassword (il_idkey L) (am_Password req) (ie_salt env) of
                   Inl e \<Rightarrow> (db, internal_error ''failed to hash password'')
                 | Inr hash \<Rightarrow>
                     (case CreateUser env db orgID (am_Email req) (am_DisplayName req) hash of
                        (db1, Inl e) \<Rightarrow> (db1, JsonError 409 ''CONFLICT'' ''user already exists'')
                      | (db1, Inr user) \<Rightarrow>
                          (assign_persona env db1 orgID (us_ID user) (am_Persona req),
                           JsonResponse 201 (IbMember (us_ID user) (us_Email user) (us_DisplayName user)
                             (us_OrgID user))))))"

section \<open>Routes\<close>

datatype id_call =
    CallRegister "RegisterRequest decoded"
  | CallLogin "LoginRequest decoded"
  | CallRefresh "string decoded"
  | CallLogout string
  | CallListUsers
  | CallGetUser string
  | CallUpdateUser string "string decoded"
  | CallDeleteUser string
  | CallAssignRole string "string decoded"
  | CallCreateOrg "CreateOrgRequest decoded"
  | CallListOrgs
  | CallGetOrg string
  | CallUpdateOrg string "UpdateOrgRequest decoded"
  | CallAddMember string "AddMemberRequest decoded"
  | CallListRoles

fun id_public :: "id_call \<Rightarrow> bool" where
  "id_public (CallRegister b) = True"
| "id_public (CallLogin b) = True"
| "id_public (CallRefresh b) = True"
| "id_public c = False"

text \<open>The permission a route asks for, where it asks for one.\<close>

fun id_permission :: "id_call \<Rightarrow> (string \<times> string) option" where
  "id_permission CallListUsers = Some (ResourceUser, ActionRead)"
| "id_permission (CallGetUser i) = Some (ResourceUser, ActionRead)"
| "id_permission (CallUpdateUser i b) = Some (ResourceUser, ActionWrite)"
| "id_permission (CallDeleteUser i) = Some (ResourceUser, ActionManage)"
| "id_permission (CallAssignRole i b) = Some (ResourceUser, ActionManage)"
| "id_permission CallListOrgs = Some (ResourceOrg, ActionRead)"
| "id_permission (CallGetOrg i) = Some (ResourceOrg, ActionRead)"
| "id_permission (CallUpdateOrg i b) = Some (ResourceOrg, ActionWrite)"
| "id_permission (CallAddMember i b) = Some (ResourceUser, ActionManage)"
| "id_permission c = None"

record 'r id_service =
  sv_lib :: id_lib
  sv_redis :: "'r redis_ops"
  sv_jwt :: Manager
  sv_refreshTTL :: duration
  sv_by_name :: "Role list \<Rightarrow> Role list"

definition on_db :: "'r id_state \<Rightarrow> id_db \<times> id_response \<Rightarrow> 'r id_state \<times> id_response" where
  "on_db st res = (st\<lparr> is_db := fst res \<rparr>, snd res)"

fun public_handle :: "'r id_service \<Rightarrow> id_env \<Rightarrow> 'r id_state \<Rightarrow> id_call \<Rightarrow> 'r id_state \<times> id_response" where
  "public_handle S env st (CallRegister b) = on_db st (auth_Register (sv_lib S) env (is_db st) b)"
| "public_handle S env st (CallLogin b) =
     auth_Login (sv_lib S) (sv_redis S) env (sv_jwt S) (sv_refreshTTL S) st b"
| "public_handle S env st (CallRefresh b) =
     auth_Refresh (sv_lib S) (sv_redis S) env (sv_jwt S) (sv_refreshTTL S) st b"
| "public_handle S env st c = (st, JsonError 404 '''' '''')"

fun authed_handle ::
  "'r id_service \<Rightarrow> id_env \<Rightarrow> 'r id_state \<Rightarrow> AccessClaims \<Rightarrow> id_call \<Rightarrow> 'r id_state \<times> id_response" where
  "authed_handle S env st cl (CallLogout t) = auth_Logout (sv_lib S) (sv_redis S) env st (Some cl) t"
| "authed_handle S env st cl CallListUsers = (st, user_List (sv_lib S) env (is_db st) cl)"
| "authed_handle S env st cl (CallGetUser i) = (st, user_Get (sv_lib S) env (is_db st) cl i)"
| "authed_handle S env st cl (CallUpdateUser i b) = on_db st (user_Update (sv_lib S) env (is_db st) cl i b)"
| "authed_handle S env st cl (CallDeleteUser i) = on_db st (user_Delete (sv_lib S) env (is_db st) cl i)"
| "authed_handle S env st cl (CallAssignRole i b) = on_db st (role_AssignToUser (sv_lib S) env (is_db st) cl i b)"
| "authed_handle S env st cl (CallCreateOrg b) = on_db st (org_Create env (is_db st) b)"
| "authed_handle S env st cl CallListOrgs = (st, org_List env (is_db st))"
| "authed_handle S env st cl (CallGetOrg i) = (st, org_Get (sv_lib S) env (is_db st) cl i)"
| "authed_handle S env st cl (CallUpdateOrg i b) = on_db st (org_Update (sv_lib S) env (is_db st) cl i b)"
| "authed_handle S env st cl (CallAddMember i b) = on_db st (org_AddMember (sv_lib S) env (is_db st) cl i b)"
| "authed_handle S env st cl CallListRoles = (st, role_List (sv_lib S) (sv_by_name S) env (is_db st) cl)"
| "authed_handle S env st cl c = (st, JsonError 404 '''' '''')"

definition id_serve ::
  "'r id_service \<Rightarrow> id_env \<Rightarrow> 'r id_state \<Rightarrow> string \<Rightarrow> id_call \<Rightarrow> 'r id_state \<times> id_response" where
  "id_serve S env st authHeader c =
     (if id_public c then public_handle S env st c
      else case id_Authenticate (sv_lib S) env authHeader of
          Inl resp \<Rightarrow> (st, resp)
        | Inr claims \<Rightarrow>
            (case (case id_permission c of None \<Rightarrow> None | Some (r, a) \<Rightarrow> id_RequirePermission r a (Some claims)) of
               Some resp \<Rightarrow> (st, resp)
             | None \<Rightarrow> authed_handle S env st claims c))"

end
