(* ===== verification/IdentityTables.thy ===== *)
theory IdentityTables
  imports IdentityApi
begin

text \<open>
  What the identity service's tables hold: the constraints of the migration together with what only
  the code keeps (a role is granted within its own organisation, and role slugs are personas), and what
  every statement leaves of them. The invariant speaks of the key columns alone, so the statements
  that change no key need no argument.
\<close>

section \<open>The invariant\<close>

definition org_key :: "Organization \<Rightarrow> uuid \<times> string" where
  "org_key o1 = (og_ID o1, og_Slug o1)"

definition user_key :: "User \<Rightarrow> uuid \<times> uuid \<times> string" where
  "user_key u = (us_ID u, us_OrgID u, us_Email u)"

definition role_key :: "Role \<Rightarrow> uuid \<times> uuid \<times> string" where
  "role_key r = (ro_ID r, ro_OrgID r, ro_Slug r)"

definition grant_key :: "UserRole \<Rightarrow> uuid \<times> uuid \<times> uuid" where
  "grant_key ur = (ur_ID ur, ur_UserID ur, ur_RoleID ur)"

type_synonym id_keys =
  "(uuid \<times> string) list \<times> (uuid \<times> uuid \<times> string) list \<times> (uuid \<times> uuid \<times> string) list \<times> (uuid \<times> uuid \<times> uuid) list"

definition db_keys :: "id_db \<Rightarrow> id_keys" where
  "db_keys db = (map org_key (db_orgs db), map user_key (db_users db), map role_key (db_roles db),
     map grant_key (db_user_roles db))"

text \<open>A grant joins a user and a role of one organisation.\<close>

definition grant_in :: "(uuid \<times> uuid \<times> string) list \<Rightarrow> (uuid \<times> uuid \<times> string) list \<Rightarrow> uuid \<Rightarrow> uuid \<Rightarrow> bool" where
  "grant_in us rs u r \<longleftrightarrow> (\<exists>org e s. (u, org, e) \<in> set us \<and> (r, org, s) \<in> set rs)"

definition keys_ok :: "id_keys \<Rightarrow> bool" where
  "keys_ok = (\<lambda>(os, us, rs, gs).
     distinct (map fst os) \<and> distinct (map snd os) \<and>
     distinct (map fst us) \<and> distinct (map snd us) \<and> (\<forall>(u, org, e) \<in> set us. org \<in> fst ` set os) \<and>
     distinct (map fst rs) \<and> distinct (map snd rs) \<and>
     (\<forall>(r, org, s) \<in> set rs. org \<in> fst ` set os \<and> s \<in> set AllPersonas) \<and>
     distinct (map fst gs) \<and> distinct (map snd gs) \<and> (\<forall>(g, u, r) \<in> set gs. grant_in us rs u r))"

definition id_db_ok :: "id_db \<Rightarrow> bool" where
  "id_db_ok db \<longleftrightarrow> keys_ok (db_keys db)"

lemma keys_empty: "id_db_ok \<lparr> db_orgs = [], db_users = [], db_roles = [], db_user_roles = [] \<rparr>"
  by (simp add: id_db_ok_def db_keys_def keys_ok_def)

lemma grant_in_mono: "grant_in us rs u r \<Longrightarrow> set us \<subseteq> set us' \<Longrightarrow> set rs \<subseteq> set rs' \<Longrightarrow> grant_in us' rs' u r"
  unfolding grant_in_def by blast

lemma keys_add_org:
  assumes "keys_ok (os, us, rs, gs)" and "i \<notin> fst ` set os" and "s \<notin> snd ` set os"
  shows "keys_ok (os @ [(i, s)], us, rs, gs)"
  using assms by (fastforce simp: keys_ok_def)

lemma keys_okD:
  assumes "keys_ok (os, us, rs, gs)"
  shows "distinct (map fst os)" "distinct (map snd os)" "distinct (map fst us)" "distinct (map snd us)"
    "(u, org, e) \<in> set us \<Longrightarrow> org \<in> fst ` set os" "distinct (map fst rs)" "distinct (map snd rs)"
    "(r, org, s) \<in> set rs \<Longrightarrow> org \<in> fst ` set os" "(r, org, s) \<in> set rs \<Longrightarrow> s \<in> set AllPersonas"
    "distinct (map fst gs)" "distinct (map snd gs)" "(g, u, r) \<in> set gs \<Longrightarrow> grant_in us rs u r"
  using assms by (auto simp: keys_ok_def simp del: set_map)

lemma keys_add_user:
  assumes "keys_ok (os, us, rs, gs)" and "u \<notin> fst ` set us" and "(org, e) \<notin> snd ` set us" and "org \<in> fst ` set os"
  shows "keys_ok (os, us @ [(u, org, e)], rs, gs)"
proof -
  note K = keys_okD [OF assms(1)]
  have g: "grant_in (us @ [(u, org, e)]) rs u' r" if "(g, u', r) \<in> set gs" for g u' r
    by (rule grant_in_mono [OF K(12) [OF that]]) auto
  then have "\<forall>(g, u', r) \<in> set gs. grant_in (us @ [(u, org, e)]) rs u' r" by auto
  moreover have "\<forall>(u', org', e') \<in> set (us @ [(u, org, e)]). org' \<in> fst ` set os" using K(5) assms(4) by auto
  ultimately show ?thesis using K assms(2,3) by (auto simp: keys_ok_def)
qed

lemma keys_add_role:
  assumes "keys_ok (os, us, rs, gs)" and "r \<notin> fst ` set rs" and "(org, s) \<notin> snd ` set rs"
    and "org \<in> fst ` set os" and "s \<in> set AllPersonas"
  shows "keys_ok (os, us, rs @ [(r, org, s)], gs)"
proof -
  note K = keys_okD [OF assms(1)]
  have g: "grant_in us (rs @ [(r, org, s)]) u r'" if "(g, u, r') \<in> set gs" for g u r'
    by (rule grant_in_mono [OF K(12) [OF that]]) auto
  then have "\<forall>(g, u, r') \<in> set gs. grant_in us (rs @ [(r, org, s)]) u r'" by auto
  moreover have "\<forall>(r', org', s') \<in> set (rs @ [(r, org, s)]). org' \<in> fst ` set os \<and> s' \<in> set AllPersonas"
    using K(8,9) assms(4,5) by auto
  ultimately show ?thesis using K assms(2,3) by (auto simp: keys_ok_def)
qed

lemma keys_add_grant:
  assumes "keys_ok (os, us, rs, gs)" and "g \<notin> fst ` set gs" and "(u, r) \<notin> snd ` set gs" and "grant_in us rs u r"
  shows "keys_ok (os, us, rs, gs @ [(g, u, r)])"
  using keys_okD [OF assms(1)] assms(2-) by (auto simp: keys_ok_def)

section \<open>Growth\<close>

text \<open>
  No statement deletes a row of the four tables or changes a key, a password or a role, and none
  activates a user. (A grant made again keeps its row and takes a new grantor and expiry.)
\<close>

definition same_user :: "User \<Rightarrow> User \<Rightarrow> bool" where
  "same_user u v \<longleftrightarrow> user_key v = user_key u \<and> us_PasswordHash v = us_PasswordHash u \<and> (us_IsActive v \<longrightarrow> us_IsActive u)"

definition id_grows :: "id_db \<Rightarrow> id_db \<Rightarrow> bool" where
  "id_grows db db' \<longleftrightarrow>
     org_key ` set (db_orgs db) \<subseteq> org_key ` set (db_orgs db') \<and>
     (\<forall>u \<in> set (db_users db). \<exists>v \<in> set (db_users db'). same_user u v) \<and>
     set (db_roles db) \<subseteq> set (db_roles db') \<and>
     grant_key ` set (db_user_roles db) \<subseteq> grant_key ` set (db_user_roles db')"

lemma same_user_refl [simp]: "same_user u u"
  by (simp add: same_user_def)

lemma same_user_trans: "same_user u v \<Longrightarrow> same_user v w \<Longrightarrow> same_user u w"
  by (simp add: same_user_def)

lemma id_grows_refl [simp]: "id_grows db db"
  unfolding id_grows_def using same_user_refl by blast

text \<open>Rows that are changed in place or added at the end.\<close>

lemma id_growsI:
  assumes "db_orgs db' = map g (db_orgs db) @ os" and "\<And>o1. org_key (g o1) = org_key o1"
    and "db_users db' = map f (db_users db) @ us" and "\<And>u. same_user u (f u)"
    and "db_roles db' = db_roles db @ rs"
    and "map grant_key (db_user_roles db') = map grant_key (db_user_roles db) @ gs"
  shows "id_grows db db'"
proof -
  have "grant_key ` set (db_user_roles db) \<subseteq> grant_key ` set (db_user_roles db')"
    using arg_cong [OF assms(6), of set] by auto
  moreover have "\<exists>v \<in> set (db_users db'). same_user u v" if "u \<in> set (db_users db)" for u
    using assms(3,4) that by auto
  moreover have "set (db_roles db) \<subseteq> set (db_roles db')" using assms(5) by simp
  moreover have "org_key ` set (db_orgs db) \<subseteq> org_key ` set (db_orgs db')"
    using assms(1,2) by (auto simp: image_Un image_image)
  ultimately show ?thesis unfolding id_grows_def by blast
qed

lemma id_grows_added:
  assumes "take (length (db_orgs db)) (db_orgs db') = db_orgs db"
    and "take (length (db_users db)) (db_users db') = db_users db"
    and "take (length (db_roles db)) (db_roles db') = db_roles db"
    and "take (length (db_user_roles db)) (map grant_key (db_user_roles db')) = map grant_key (db_user_roles db)"
  shows "id_grows db db'"
proof (rule id_growsI [where f = "\<lambda>u. u" and g = "\<lambda>o1. o1"])
  show "db_orgs db' = map (\<lambda>o1. o1) (db_orgs db) @ drop (length (db_orgs db)) (db_orgs db')"
    "db_users db' = map (\<lambda>u. u) (db_users db) @ drop (length (db_users db)) (db_users db')"
    "db_roles db' = db_roles db @ drop (length (db_roles db)) (db_roles db')"
    "map grant_key (db_user_roles db') = map grant_key (db_user_roles db) @
       drop (length (db_user_roles db)) (map grant_key (db_user_roles db'))"
    using assms by (metis append_take_drop_id map_idI)+
qed simp_all

lemma id_grows_trans: "id_grows a b \<Longrightarrow> id_grows b c \<Longrightarrow> id_grows a c"
  unfolding id_grows_def using same_user_trans by (meson subset_trans)

text \<open>What a handler leaves of the tables.\<close>

definition id_good :: "id_db \<Rightarrow> id_db \<Rightarrow> bool" where
  "id_good db db' \<longleftrightarrow> id_grows db db' \<and> (id_db_ok db \<longrightarrow> id_db_ok db')"

lemma id_good_refl [simp]: "id_good db db"
  by (simp add: id_good_def)

lemma id_good_trans: "id_good a b \<Longrightarrow> id_good b c \<Longrightarrow> id_good a c"
  unfolding id_good_def using id_grows_trans by blast

lemma id_good_keys: "id_grows db db' \<Longrightarrow> db_keys db' = db_keys db \<Longrightarrow> id_good db db'"
  by (simp add: id_good_def id_db_ok_def)

section \<open>The statements\<close>

lemma CreateOrganization_good:
  assumes "CreateOrganization env db name slug tier = (db', res)"
  shows "id_good db db'"
proof (cases res)
  case (Inr row)
  then have "id_grows db db'" using assms
    by (intro id_grows_added) (auto simp: CreateOrganization_def Let_def split: if_splits)
  moreover have "id_db_ok db'" if "id_db_ok db"
    using assms Inr that by (auto simp: CreateOrganization_def Let_def id_db_ok_def db_keys_def org_key_def
        image_image intro!: keys_add_org split: if_splits)
  ultimately show ?thesis by (simp add: id_good_def)
qed (use assms in \<open>auto simp: CreateOrganization_def Let_def split: if_splits\<close>)

lemma UpdateOrganization_good:
  assumes "UpdateOrganization env db i name tier = (db', res)"
  shows "id_good db db'"
proof (cases res)
  case (Inr row)
  let ?g = "\<lambda>o1. if og_ID o1 = i
    then o1\<lparr> og_Name := name, og_Tier := tier, og_UpdatedAt := ie_now env ''UpdateOrganization'' \<rparr> else o1"
  have e: "db' = db\<lparr> db_orgs := map ?g (db_orgs db) \<rparr>"
    using assms Inr by (auto simp: UpdateOrganization_def Let_def split: if_splits option.splits)
  show ?thesis
    by (rule id_good_keys, rule id_growsI [where f = "\<lambda>u. u" and g = ?g]) (auto simp: e db_keys_def org_key_def)
qed (use assms in \<open>auto simp: UpdateOrganization_def Let_def split: if_splits option.splits\<close>)

lemma CreateUser_good:
  assumes "CreateUser env db orgID email name hash = (db', res)"
  shows "id_good db db'"
proof (cases res)
  case (Inr row)
  then have "id_grows db db'" using assms
    by (intro id_grows_added) (auto simp: CreateUser_def Let_def split: if_splits)
  moreover have "id_db_ok db'" if "id_db_ok db"
    using assms Inr that by (auto simp: CreateUser_def Let_def id_db_ok_def db_keys_def org_key_def user_key_def
        image_image intro!: keys_add_user split: if_splits)
  ultimately show ?thesis by (simp add: id_good_def)
qed (use assms in \<open>auto simp: CreateUser_def Let_def split: if_splits\<close>)

lemma users_mapped_good:
  assumes "\<And>u. same_user u (f u)"
  shows "id_good db (db\<lparr> db_users := map f (db_users db) \<rparr>)"
  using assms
  by (intro id_good_keys id_growsI [where f = f and g = "\<lambda>o1. o1"]) (auto simp: db_keys_def same_user_def)

lemma map_user_good: "(\<And>u. same_user u (f u)) \<Longrightarrow> id_good db (map_user orgID userID f db)"
  unfolding map_user_def by (rule users_mapped_good) simp

lemma UpdateUser_good: "UpdateUser env db orgID userID name = (db', res) \<Longrightarrow> id_good db db'"
  by (auto simp: UpdateUser_def Let_def same_user_def user_key_def intro!: map_user_good split: if_splits option.splits)

lemma DeactivateUser_good: "DeactivateUser env db orgID userID = (db', res) \<Longrightarrow> id_good db db'"
  by (auto simp: DeactivateUser_def same_user_def user_key_def intro!: map_user_good split: if_splits)

lemma UpdateLastLogin_good: "UpdateLastLogin env db userID = (db', res) \<Longrightarrow> id_good db db'"
  by (auto simp: UpdateLastLogin_def same_user_def user_key_def intro!: users_mapped_good split: if_splits)

lemma ensure_role_good:
  assumes "ensure_role env orgID p db = (db', res)" and "snd p \<in> set AllPersonas"
  shows "id_good db db'"
proof (cases "db' = db")
  case False
  then have "id_grows db db'" using assms(1)
    by (intro id_grows_added) (auto simp: ensure_role_def Let_def split: if_splits prod.splits)
  moreover have "id_db_ok db'" if "id_db_ok db"
    using assms that False by (fastforce simp: ensure_role_def Let_def id_db_ok_def db_keys_def org_key_def role_key_def
        list_ex_iff image_image intro!: keys_add_role split: if_splits prod.splits)
  ultimately show ?thesis by (simp add: id_good_def)
qed simp

lemma system_role_good: "ensure_role env orgID p db = (db', res) \<Longrightarrow> p \<in> set system_personas \<Longrightarrow> id_good db db'"
  by (erule ensure_role_good) (auto simp: system_personas_def AllPersonas_def rbac_names)

lemma AssignRole_good:
  assumes "AssignRole env db userID roleID g x = (db', res)"
    and "id_db_ok db \<Longrightarrow> grant_in (map user_key (db_users db)) (map role_key (db_roles db)) userID roleID"
  shows "id_good db db'"
proof -
  have "id_grows db db'" using assms(1)
    by (intro id_grows_added) (auto simp: AssignRole_def Let_def grant_key_def take_map split: if_splits)
  moreover have "id_db_ok db'" if "id_db_ok db"
  proof (cases "list_ex (\<lambda>ur. ur_UserID ur = userID \<and> ur_RoleID ur = roleID) (db_user_roles db)")
    case True
    then have "db_keys db' = db_keys db" using assms(1)
      by (auto simp: AssignRole_def Let_def db_keys_def grant_key_def split: if_splits)
    then show ?thesis using that by (simp add: id_db_ok_def)
  next
    case False
    then show ?thesis
      using assms that by (fastforce simp: AssignRole_def Let_def id_db_ok_def db_keys_def grant_key_def
          list_ex_iff image_image intro!: keys_add_grant split: if_splits)
  qed
  ultimately show ?thesis by (simp add: id_good_def)
qed

end
