(* ===== verification/IdentityExample.thy ===== *)
theory IdentityExample
  imports IdentityModel
begin

text \<open>
  Concrete functions for the parameters of the identity model: texts that can be read back, a token
  that spells out its payload, and Redis as a map from keys to values with their expiry. They show
  that \<open>id_lib_ok\<close> and \<open>redis_ok\<close> can hold, and the witnesses use them.
\<close>

section \<open>Texts that end where they say\<close>

definition enc_text :: "string \<Rightarrow> string" where
  "enc_text s = concat (map (\<lambda>c. [CHR ''+'', c]) s) @ ''.''"

fun dec_text :: "string \<Rightarrow> (string \<times> string) option" where
  "dec_text [] = None"
| "dec_text (t # r) =
     (if t = CHR ''.'' then Some ([], r)
      else case r of [] \<Rightarrow> None | c # q \<Rightarrow> map_option (\<lambda>(s, q). (c # s, q)) (dec_text q))"

lemma dec_enc_text [simp]: "dec_text (enc_text s @ r) = Some (s, r)"
  by (induction s) (simp_all add: enc_text_def)

primrec dec_texts :: "nat \<Rightarrow> string \<Rightarrow> string list option" where
  "dec_texts 0 s = Some []"
| "dec_texts (Suc n) s =
     (case dec_text s of None \<Rightarrow> None | Some (x, r) \<Rightarrow> map_option (\<lambda>xs. x # xs) (dec_texts n r))"

definition enc_texts :: "string list \<Rightarrow> string" where
  "enc_texts xs = concat (map enc_text xs)"

lemma dec_enc_texts: "length xs = n \<Longrightarrow> dec_texts n (enc_texts xs) = Some xs"
  by (induction xs arbitrary: n) (auto simp: enc_texts_def)

definition int_of_text :: "string \<Rightarrow> int" where
  "int_of_text s = (case split_sign s of (neg, ds) \<Rightarrow> if neg then - decimal ds else decimal ds)"

lemma int_of_int_text [simp]: "int_of_text (int_text n) = n"
proof (cases "n < 0")
  case True
  then show ?thesis using dec_digits_props [of "nat (- n)"] by (simp add: int_of_text_def int_text_def)
next
  case False
  then show ?thesis
    using dec_digits_props [of "nat n"] dec_digits_sign [of "nat n" "[]"] by (simp add: int_of_text_def int_text_def)
qed

definition opt_text :: "string option \<Rightarrow> string" where
  "opt_text x = (case x of None \<Rightarrow> [] | Some s \<Rightarrow> CHR ''s'' # s)"

definition text_opt :: "string \<Rightarrow> string option" where
  "text_opt s = (case s of [] \<Rightarrow> None | c # r \<Rightarrow> Some r)"

lemma text_opt_text [simp]: "text_opt (opt_text x) = x"
  by (cases x) (simp_all add: opt_text_def text_opt_def)

section \<open>The library and Redis\<close>

definition ex_sign :: "jwt_payload \<Rightarrow> string" where
  "ex_sign p = enc_texts [opt_text (jp_org_id p), opt_text (jp_email p), opt_text (jp_name p),
     opt_text (jp_persona p), jp_iss p, jp_sub p, int_text (jp_iat p), int_text (jp_exp p), jp_jti p]"

definition ex_payload :: "string list \<Rightarrow> jwt_payload" where
  "ex_payload xs = \<lparr> jp_org_id = text_opt (xs ! 0), jp_email = text_opt (xs ! 1), jp_name = text_opt (xs ! 2),
     jp_persona = text_opt (xs ! 3), jp_iss = xs ! 4, jp_sub = xs ! 5, jp_iat = int_of_text (xs ! 6),
     jp_exp = int_of_text (xs ! 7), jp_jti = xs ! 8 \<rparr>"

definition ex_verify :: "gotime \<Rightarrow> string \<Rightarrow> jwt_payload option" where
  "ex_verify now s =
     (case dec_texts 9 s of
        None \<Rightarrow> None
      | Some xs \<Rightarrow> if now < jp_exp (ex_payload xs) * second then Some (ex_payload xs) else None)"

definition ex_to_json :: "RefreshToken \<Rightarrow> string" where
  "ex_to_json t = enc_texts [rf_TokenID t, rf_UserID t, rf_OrgID t, int_text (rf_ExpiresAt t)]"

definition ex_of_json :: "string \<Rightarrow> RefreshToken option" where
  "ex_of_json s = map_option (\<lambda>xs. \<lparr> rf_TokenID = xs ! 0, rf_UserID = xs ! 1, rf_OrgID = xs ! 2,
     rf_ExpiresAt = int_of_text (xs ! 3) \<rparr>) (dec_texts 4 s)"

definition ex_uuid_parse :: "string \<Rightarrow> uuid option" where
  "ex_uuid_parse s = (if s \<noteq> [] \<and> list_all is_digit s then Some (word_of_int (decimal s)) else None)"

definition ex_id_lib :: id_lib where
  "ex_id_lib = \<lparr> il_uuid_parse = ex_uuid_parse, il_uuid_text = (\<lambda>u. dec_digits (unat u)), il_idkey = ex_idkey,
     il_sign = ex_sign, il_verify = ex_verify, il_to_json = ex_to_json, il_of_json = ex_of_json \<rparr>"

type_synonym ex_redis = "string \<rightharpoonup> string \<times> gotime"

definition ex_redis_ops :: "ex_redis redis_ops" where
  "ex_redis_ops = \<lparr> rd_set = (\<lambda>k v d t0 r. r(k \<mapsto> (v, t0 + d))),
     rd_get = (\<lambda>t k r. case r k of None \<Rightarrow> None | Some (v, e) \<Rightarrow> if t < e then Some v else None),
     rd_del = (\<lambda>k r. r(k := None)) \<rparr>"

lemma ex_idkey_ok: "idkey_ok ex_idkey"
  by (auto simp: idkey_ok_def ex_idkey_def min_def)

lemma ex_payload_sign: "ex_payload [opt_text (jp_org_id p), opt_text (jp_email p), opt_text (jp_name p),
    opt_text (jp_persona p), jp_iss p, jp_sub p, int_text (jp_iat p), int_text (jp_exp p), jp_jti p] = p"
  by (simp add: ex_payload_def numeral_nat)

lemma ex_id_lib_ok: "id_lib_ok ex_id_lib"
proof -
  have "ex_verify now (ex_sign p) = (if now < jp_exp p * second then Some p else None)" for now p
    unfolding ex_verify_def ex_sign_def by (subst dec_enc_texts) (simp_all add: ex_payload_sign)
  moreover have "ex_of_json (ex_to_json t) = Some t" for t
    unfolding ex_of_json_def ex_to_json_def by (subst dec_enc_texts) (simp_all add: numeral_nat)
  moreover have "ex_uuid_parse (dec_digits (unat u)) = Some u" for u
    using dec_digits_props [of "unat u"] by (simp add: ex_uuid_parse_def)
  moreover have "ex_sign p \<noteq> []" for p by (simp add: ex_sign_def enc_texts_def enc_text_def)
  ultimately show ?thesis using dec_digits_props by (simp add: id_lib_ok_def ex_id_lib_def ex_idkey_ok)
qed

lemma ex_redis_ok: "redis_ok ex_redis_ops"
  by (simp add: redis_ok_def ex_redis_ops_def)

end
