(* ===== verification/IdentitySystem.thy ===== *)
theory IdentitySystem
  imports IdentityTables IdentityExample
begin

text \<open>
  The identity service at work: what requests leave of the tables and the sessions, and the
  properties. \<open>id_run\<close> serves any requests, one after the other, with whatever headers, clocks, fresh
  identifiers and failures; requests that overlap are put together from the halves of \<open>Refresh\<close>.
\<close>

section \<open>Handlers and the tables\<close>

lemma GetRoleBySlug_in:
  "GetRoleBySlug env db orgID slug = Inr r \<Longrightarrow> r \<in> set (db_roles db) \<and> ro_OrgID r = orgID \<and> ro_Slug r = slug"
  by (auto simp: GetRoleBySlug_def dest: find_some split: if_splits option.splits)

lemma GetUserByID_in:
  "GetUserByID env db orgID userID = Inr u \<Longrightarrow> u \<in> set (db_users db) \<and> us_ID u = userID \<and> us_OrgID u = orgID"
  by (auto simp: GetUserByID_def dest: find_some split: if_splits option.splits)

lemma CreateUser_in:
  "CreateUser env db orgID email name hash = (db', Inr u) \<Longrightarrow>
   u \<in> set (db_users db') \<and> us_OrgID u = orgID \<and> us_Email u = email \<and> us_DisplayName u = name \<and>
   us_PasswordHash u = Some hash \<and> us_IsActive u"
  by (auto simp: CreateUser_def Let_def split: if_splits)

lemma grant_inI:
  assumes "u \<in> set (db_users db)" and "r \<in> set (db_roles db)" and "us_OrgID u = ro_OrgID r"
  shows "grant_in (map user_key (db_users db)) (map role_key (db_roles db)) (us_ID u) (ro_ID r)"
  using assms by (auto simp: grant_in_def user_key_def role_key_def image_iff)

text \<open>
  What requests do to the tables, statement by statement: statements of different requests follow each
  other in any order. A role is granted to a user who was created in, or read from, the tables at some
  earlier moment (\<open>id_grows\<close>), as was the role.
\<close>

inductive id_statement :: "id_db \<Rightarrow> id_db \<Rightarrow> bool" where
  StOrg: "CreateOrganization env db name slug tier = (db', res) \<Longrightarrow> id_statement db db'"
| StOrgUpdate: "UpdateOrganization env db i name tier = (db', res) \<Longrightarrow> id_statement db db'"
| StUser: "CreateUser env db orgID email name hash = (db', res) \<Longrightarrow> id_statement db db'"
| StUserUpdate: "UpdateUser env db orgID userID name = (db', res) \<Longrightarrow> id_statement db db'"
| StDeactivate: "DeactivateUser env db orgID userID = (db', err) \<Longrightarrow> id_statement db db'"
| StLogin: "UpdateLastLogin env db userID = (db', err) \<Longrightarrow> id_statement db db'"
| StRole: "ensure_role env orgID p db = (db', err) \<Longrightarrow> p \<in> set system_personas \<Longrightarrow> id_statement db db'"
| StGrant: "CreateUser env1 db0 orgID email name hash = (db1, Inr u) \<or> GetUserByID env1 db1 orgID (us_ID u) = Inr u \<Longrightarrow>
    id_grows db1 db \<Longrightarrow> GetRoleBySlug env2 db2 orgID slug = Inr r \<Longrightarrow> id_grows db2 db \<Longrightarrow>
    AssignRole env db (us_ID u) (ro_ID r) g x = (db', err) \<Longrightarrow> id_statement db db'"

abbreviation id_statements :: "id_db \<Rightarrow> id_db \<Rightarrow> bool" where
  "id_statements \<equiv> id_statement\<^sup>*\<^sup>*"

lemma id_grows_user:
  "id_grows a b \<Longrightarrow> u \<in> set (db_users a) \<Longrightarrow> \<exists>v \<in> set (db_users b). same_user u v"
  by (simp add: id_grows_def)

lemma statement_good: "id_statement db db' \<Longrightarrow> id_good db db'"
proof (induction rule: id_statement.induct)
  case (StGrant env1 db0 orgID email name hash db1 u db env2 db2 slug r env g x db' err)
  have "u \<in> set (db_users db1) \<and> us_OrgID u = orgID"
    using StGrant(1) by (auto dest: CreateUser_in GetUserByID_in)
  then obtain v where v: "v \<in> set (db_users db)" "same_user u v" "us_OrgID u = orgID"
    using id_grows_user [OF StGrant(2)] by blast
  have "r \<in> set (db_roles db)" "ro_OrgID r = orgID"
    using GetRoleBySlug_in [OF StGrant(3)] StGrant(4) by (auto simp: id_grows_def)
  then show ?case
    using grant_inI [of v db r] v by (intro AssignRole_good [OF StGrant(5)]) (simp add: same_user_def user_key_def)
qed (auto dest: CreateOrganization_good UpdateOrganization_good CreateUser_good UpdateUser_good
    DeactivateUser_good UpdateLastLogin_good system_role_good)

lemma statements_good: "id_statements db db' \<Longrightarrow> id_good db db'"
  by (induction rule: rtranclp_induct) (auto dest: statement_good intro: id_good_trans)

lemma statements_grow: "id_statements db db' \<Longrightarrow> id_grows db db'"
  using statements_good by (auto simp: id_good_def)

lemmas one_statement = id_statement.intros [THEN r_into_rtranclp [of id_statement]]

lemma ensure_loop_statements:
  "ensure_loop env orgID ps db = (db', res) \<Longrightarrow> set ps \<subseteq> set system_personas \<Longrightarrow> id_statements db db'"
  by (induction ps arbitrary: db)
    (auto split: prod.splits option.splits dest!: one_statement(7) intro: rtranclp_trans)

lemma EnsureSystemRoles_statements: "EnsureSystemRoles env db orgID = (db', res) \<Longrightarrow> id_statements db db'"
  unfolding EnsureSystemRoles_def by (erule ensure_loop_statements) simp

section \<open>Handlers as statements\<close>

lemma assign_persona_statements:
  assumes "CreateUser env1 db0 orgID email name hash = (db1, Inr u)" and "id_grows db1 db"
  shows "id_statements db (assign_persona env db orgID (us_ID u) persona)"
  using assms by (auto simp: assign_persona_def split: sum.splits
      intro!: one_statement(8) [OF disjI1 [OF assms(1)] assms(2) _ id_grows_refl prod.collapse [symmetric]])

lemma new_user_statements:
  assumes "CreateUser env db orgID email name hash = (db1, Inr u)" and "EnsureSystemRoles env db1 orgID = (db2, None)"
  shows "id_statements db (assign_persona env db2 orgID (us_ID u) persona)"
proof -
  have "id_statements db db1" by (rule one_statement(3) [OF assms(1)])
  also have e: "id_statements db1 db2" by (rule EnsureSystemRoles_statements [OF assms(2)])
  also have "id_statements db2 (assign_persona env db2 orgID (us_ID u) persona)"
    by (rule assign_persona_statements [OF assms(1) statements_grow [OF e]])
  finally show ?thesis .
qed

lemma Register_statements: "auth_Register L env db body = (db', resp) \<Longrightarrow> id_statements db db'"
  by (auto simp: auth_Register_def split: sum.splits if_splits option.splits prod.splits
      dest: one_statement(3) EnsureSystemRoles_statements intro: rtranclp_trans new_user_statements)

lemma AddMember_statements: "org_AddMember L env db claims param body = (db', resp) \<Longrightarrow> id_statements db db'"
  by (auto simp: org_AddMember_def split: sum.splits if_splits option.splits prod.splits
      dest: one_statement(3) intro: rtranclp_trans assign_persona_statements id_grows_refl)

lemma org_Create_statements: "org_Create env db body = (db', resp) \<Longrightarrow> id_statements db db'"
  by (auto simp: org_Create_def split: sum.splits if_splits prod.splits dest!: one_statement(1)
      intro: rtranclp_trans EnsureSystemRoles_statements [OF prod.collapse [symmetric]])

lemma org_Update_statements: "org_Update L env db claims param body = (db', resp) \<Longrightarrow> id_statements db db'"
  by (auto simp: org_Update_def split: sum.splits if_splits prod.splits dest: one_statement(2))

lemma user_Update_statements: "user_Update L env db claims param body = (db', resp) \<Longrightarrow> id_statements db db'"
  by (auto simp: user_Update_def split: sum.splits if_splits prod.splits option.splits dest: one_statement(4))

lemma user_Delete_statements: "user_Delete L env db claims param = (db', resp) \<Longrightarrow> id_statements db db'"
  by (auto simp: user_Delete_def split: prod.splits option.splits dest: one_statement(5))

lemma AssignToUser_statements: "role_AssignToUser L env db claims param body = (db', resp) \<Longrightarrow> id_statements db db'"
proof -
  have "id_statements db db'"
    if "GetUserByID env db orgID userID = Inr u" "GetRoleBySlug env db orgID slug = Inr r"
      "AssignRole env db userID (ro_ID r) g x = (db', e)" for orgID userID u slug r g x e
    using that GetUserByID_in [OF that(1)] by (intro one_statement(8) [of _ _ _ _ _ _ db u]) auto
  then show "role_AssignToUser L env db claims param body = (db', resp) \<Longrightarrow> id_statements db db'"
    by (auto simp: role_AssignToUser_def Let_def split: sum.splits if_splits option.splits prod.splits)
qed

lemma issue_tokens_db: "is_db (fst (issue_tokens L R env mg ttl st orgID user)) = is_db st"
  by (auto simp: issue_tokens_def Let_def split: option.splits prod.splits bool.splits)

lemma Login_statements:
  "id_statements (is_db st) (is_db (fst (auth_Login L R env mg ttl st body)))"
  using issue_tokens_db [of L R env mg ttl st]
  by (auto simp: auth_Login_def split: sum.splits if_splits option.splits prod.splits password_check.splits
      intro: one_statement(6) [OF prod.collapse [symmetric]])
    (metis fst_conv one_statement(6) prod.collapse rtranclp.rtrancl_refl)+

lemma Refresh_db: "is_db (fst (auth_Refresh L R env mg ttl st body)) = is_db st"
proof -
  have "is_db (fst (refresh_finish L R env mg ttl st claims)) = is_db st" for claims
    by (auto simp: refresh_finish_def Let_def split: sum.splits option.splits prod.splits)
      (metis fst_conv id_state.select_convs(1) id_state.surjective id_state.update_convs(2) issue_tokens_db)+
  then show ?thesis by (simp add: auth_Refresh_def split: sum.split)
qed

lemma Logout_db: "is_db (fst (auth_Logout L R env st ctx token)) = is_db st"
  by (simp add: auth_Logout_def Let_def split: option.split)

lemmas handler_statements = Register_statements AddMember_statements org_Create_statements org_Update_statements
  user_Update_statements user_Delete_statements AssignToUser_statements

lemma on_db_statements: "(\<And>db' resp. res = (db', resp) \<Longrightarrow> id_statements (is_db st) db') \<Longrightarrow>
    id_statements (is_db st) (is_db (fst (on_db st res)))"
  by (cases res) (simp add: on_db_def)

lemma serve_statements: "id_statements (is_db st) (is_db (fst (id_serve S env st h c)))"
proof -
  have "id_statements (is_db st) (is_db (fst (public_handle S env st c)))"
    by (cases c) (auto simp: Refresh_db intro!: on_db_statements Login_statements dest: handler_statements)
  moreover have "id_statements (is_db st) (is_db (fst (authed_handle S env st cl c)))" for cl
    by (cases c) (auto simp: Logout_db intro!: on_db_statements dest: handler_statements)
  ultimately show ?thesis by (simp add: id_serve_def split: sum.split option.split)
qed

section \<open>Runs\<close>

text \<open>Requests one after the other, each in an environment of \<open>E\<close>.\<close>

inductive id_run :: "'r id_service \<Rightarrow> (id_env \<Rightarrow> bool) \<Rightarrow> 'r id_state \<Rightarrow> 'r id_state \<Rightarrow> bool" for S E st0 where
  id_run_refl: "id_run S E st0 st0"
| id_run_step: "id_run S E st0 st \<Longrightarrow> E env \<Longrightarrow> id_run S E st0 (fst (id_serve S env st h c))"

lemma id_run_statements: "id_run S E st0 st \<Longrightarrow> id_statements (is_db st0) (is_db st)"
  by (induction rule: id_run.induct) (auto intro: rtranclp_trans serve_statements)

section \<open>Sessions\<close>

text \<open>The session of a token identifier is gone for good when no reading finds it.\<close>

definition session_dead :: "'r id_service \<Rightarrow> string \<Rightarrow> 'r \<Rightarrow> bool" where
  "session_dead S jti r \<longleftrightarrow> (\<forall>t. rd_get (sv_redis S) t (refreshKeyPrefix @ jti) r = None)"

definition draws :: "'r id_service \<Rightarrow> id_env \<Rightarrow> string" where
  "draws S env = il_uuid_text (sv_lib S) (ie_new env ''refresh'')"

lemma revoke_keeps_dead:
  assumes "redis_ok (sv_redis S)" and "session_dead S jti r"
  shows "session_dead S jti (fst (RevokeRefreshToken (sv_redis S) env r j))"
proof (cases "j = jti")
  case True
  then show ?thesis using assms redis_okD(4) [OF assms(1)] by (simp add: session_dead_def RevokeRefreshToken_def)
next
  case False
  then show ?thesis
    using assms redis_okD(5) [OF assms(1), of "refreshKeyPrefix @ j" "refreshKeyPrefix @ jti"]
    by (simp add: session_dead_def RevokeRefreshToken_def)
qed

lemma revoke_kills:
  "redis_ok (sv_redis S) \<Longrightarrow> \<not> ie_fails env ''session del'' \<Longrightarrow>
   session_dead S jti (fst (RevokeRefreshToken (sv_redis S) env r jti))"
  by (simp add: session_dead_def RevokeRefreshToken_def redis_okD(4))

text \<open>Issuing tokens leaves every other session as it was.\<close>

abbreviation session_at :: "'r id_service \<Rightarrow> int \<Rightarrow> string \<Rightarrow> 'r \<Rightarrow> string option" where
  "session_at S t jti r \<equiv> rd_get (sv_redis S) t (refreshKeyPrefix @ jti) r"

lemma store_other:
  assumes "redis_ok (sv_redis S)" and "rf_TokenID tok \<noteq> jti"
  shows "session_at S t jti (fst (StoreRefreshToken L (sv_redis S) env r tok)) = session_at S t jti r"
  using assms redis_okD(3) [OF assms(1), of "refreshKeyPrefix @ rf_TokenID tok" "refreshKeyPrefix @ jti"]
  by (simp add: StoreRefreshToken_def)

lemma issue_tokens_other:
  assumes "redis_ok (sv_redis S)" and "draws S env \<noteq> jti"
  shows "session_at S t jti (is_redis (fst (issue_tokens (sv_lib S) (sv_redis S) env mg ttl st orgID user))) =
    session_at S t jti (is_redis st)"
proof -
  have "IssueRefreshToken (sv_lib S) env mg u o1 = Some (tok, j) \<Longrightarrow> j \<noteq> jti" for u o1 tok j
    using assms(2) by (auto simp: IssueRefreshToken_def draws_def Let_def split: if_splits)
  then show ?thesis
    using store_other [OF assms(1), where jti = jti and t = t]
    by (auto simp: issue_tokens_def Let_def split: option.splits prod.splits bool.splits)
      (metis RefreshToken.select_convs(1) fst_conv)+
qed

lemma issue_tokens_keeps_dead:
  assumes "redis_ok (sv_redis S)" and "session_dead S jti (is_redis st)" and "draws S env \<noteq> jti"
  shows "session_dead S jti (is_redis (fst (issue_tokens (sv_lib S) (sv_redis S) env mg ttl st orgID user)))"
  using assms(2) issue_tokens_other [OF assms(1,3)] by (simp add: session_dead_def)

lemma refresh_finish_keeps_dead:
  assumes "redis_ok (sv_redis S)" and "draws S env \<noteq> jti"
    and "session_dead S jti (fst (RevokeRefreshToken (sv_redis S) env (is_redis st) (rg_ID claims)))"
  shows "session_dead S jti (is_redis (fst (refresh_finish (sv_lib S) (sv_redis S) env mg ttl st claims)))"
  using assms(3) issue_tokens_keeps_dead [OF assms(1) _ assms(2), of "st\<lparr> is_redis :=
      fst (RevokeRefreshToken (sv_redis S) env (is_redis st) (rg_ID claims)) \<rparr>"]
  by (auto simp: refresh_finish_def Let_def split: option.splits sum.splits prod.splits) (metis fst_conv)+

lemma serve_keeps_dead:
  assumes R: "redis_ok (sv_redis S)" and d: "session_dead S jti (is_redis st)" and n: "draws S env \<noteq> jti"
  shows "session_dead S jti (is_redis (fst (id_serve S env st h c)))"
proof -
  have "session_dead S jti (is_redis (fst (auth_Login (sv_lib S) (sv_redis S) env mg ttl st b)))" for mg ttl b
    using d issue_tokens_keeps_dead [OF R d n, of mg ttl]
    by (auto simp: auth_Login_def split: sum.splits option.splits prod.splits password_check.splits)
      (metis fst_conv)+
  moreover have "session_dead S jti (is_redis (fst (auth_Refresh (sv_lib S) (sv_redis S) env mg ttl st b)))" for mg ttl b
    using d refresh_finish_keeps_dead [OF R n revoke_keeps_dead [OF R d]]
    by (simp add: auth_Refresh_def split: sum.split)
  ultimately have "session_dead S jti (is_redis (fst (public_handle S env st c)))"
    using d by (cases c) (simp_all add: on_db_def)
  moreover have "session_dead S jti (is_redis (fst (authed_handle S env st cl c)))" for cl
    using d revoke_keeps_dead [OF R d]
    by (cases c) (simp_all add: on_db_def auth_Logout_def Let_def split: option.split)
  ultimately show ?thesis using d by (simp add: id_serve_def split: sum.split option.split)
qed

lemma id_run_keeps_dead:
  "id_run S (\<lambda>env. draws S env \<noteq> jti) st0 st \<Longrightarrow> redis_ok (sv_redis S) \<Longrightarrow> session_dead S jti (is_redis st0) \<Longrightarrow>
   session_dead S jti (is_redis st)"
  by (induction rule: id_run.induct) (auto intro: serve_keeps_dead)

lemma dead_refused:
  assumes "id_lib_ok (sv_lib S)" and "session_dead S (jp_jti p) (is_redis st)"
  shows "\<exists>msg. id_serve S env st h (CallRefresh (Inr (il_sign (sv_lib S) p))) = (st, writeUnauthorized msg)"
  using assms(2) id_lib_okD(3,4) [OF assms(1)]
  by (auto simp: id_serve_def auth_Refresh_def refresh_begin_def VerifyRefreshToken_def GetRefreshToken_def
      session_dead_def refresh_claims_def)

text \<open>An error of the deletion is ignored.\<close>

lemma failed_delete_keeps:
  assumes "redis_ok (sv_redis S)" and "draws S env \<noteq> jti" and "ie_fails env ''session del''"
    and "c = CallRefresh (Inr token) \<or> c = CallLogout token"
  shows "session_at S t jti (is_redis (fst (id_serve S env st h c))) = session_at S t jti (is_redis st)"
proof -
  have same: "RevokeRefreshToken (sv_redis S) env r j = (r, False)" for r j
    using assms(3) by (simp add: RevokeRefreshToken_def)
  have "session_at S t jti (is_redis (fst (refresh_finish (sv_lib S) (sv_redis S) env mg ttl st claims))) =
      session_at S t jti (is_redis st)" for mg ttl claims
    using issue_tokens_other [OF assms(1,2), of t mg ttl st]
    by (auto simp: refresh_finish_def same Let_def split: option.splits sum.splits prod.splits) (metis fst_conv)+
  then show ?thesis using assms(4)
    by (auto simp: id_serve_def auth_Refresh_def auth_Logout_def same Let_def split: sum.splits option.splits)
qed

lemma refresh_accepted:
  assumes "id_lib_ok (sv_lib S)" and "refresh_begin (sv_lib S) R env r (Inr (il_sign (sv_lib S) p)) = Inr claims"
  shows "claims = refresh_claims p"
  using assms id_lib_okD(3,4) [OF assms(1)]
  by (auto simp: refresh_begin_def VerifyRefreshToken_def split: if_splits option.splits)

definition bearer :: "string \<Rightarrow> string" where
  "bearer token = ''Bearer '' @ token"

lemma bearer_header:
  assumes "VerifyAccessToken L env token = Some claims"
  shows "id_Authenticate L env (bearer token) = Inr claims"
proof -
  have "SplitN2 (CHR '' '') (''Bearer '' @ token) = [''Bearer'', token]"
    using SplitN2_append [of "CHR '' ''" "''Bearer''" token] by simp
  moreover have "EqualFold ''Bearer'' ''bearer''" by code_simp
  ultimately show ?thesis using assms by (simp add: id_Authenticate_def bearer_def)
qed

section \<open>Properties\<close>

text \<open>
  C31. Whatever requests do and however their statements interleave, the tables stay sound: e-mails
  are unique in an organisation, slugs among the organisations and in each organisation's roles,
  roles are personas, users and roles belong to existing organisations, and a role is only ever granted
  inside its organisation. No row is deleted, no password, role or key changes, and no user is
  activated again. Every request is such a sequence of statements.
\<close>

theorem identity_tables_sound:
  assumes "id_db_ok db" and "id_statements db db'"
  shows "id_db_ok db' \<and> id_grows db db' \<and>
    (\<forall>S env h c r. id_statements db' (is_db (fst (id_serve S env \<lparr> is_db = db', is_redis = r \<rparr> h c))))"
proof (intro conjI allI)
  show "id_db_ok db'" "id_grows db db'" using assms statements_good by (auto simp: id_good_def)
next
  fix S env h c r
  show "id_statements db' (is_db (fst (id_serve S env \<lparr> is_db = db', is_redis = r \<rparr> h c)))"
    using serve_statements [of "\<lparr> is_db = db', is_redis = r \<rparr>"] by simp
qed

text \<open>
  C33. A refresh token was exchanged, or handed in at logout. If Redis carried out the deletion, then,
  requests coming one at a time, it is never exchanged again: every later use of it is answered 401 and
  changes nothing, as long as the service does not draw its identifier a second time. The service
  ignores an error of the deletion and answers 200 all the same: the token's session is then in Redis
  as it was before, and the token can be exchanged again.
\<close>

theorem identity_refresh_single_use:
  assumes lib: "id_lib_ok (sv_lib S)" and redis: "redis_ok (sv_redis S)"
    and tok: "token = il_sign (sv_lib S) p" and live: "ie_now env ''verify refresh'' < jp_exp p * second"
    and call: "c = CallRefresh (Inr token) \<or> c = CallLogout token"
    and served: "id_serve S env st h c = (st1, resp)" and ok: "resp_status resp = 200"
    and new: "draws S env \<noteq> jp_jti p"
    and run: "id_run S (\<lambda>env. draws S env \<noteq> jp_jti p) st1 st2"
  shows "if ie_fails env ''session del''
     then (\<forall>t. session_at S t (jp_jti p) (is_redis st1) = session_at S t (jp_jti p) (is_redis st))
     else \<exists>msg. id_serve S env2 st2 h2 (CallRefresh (Inr token)) = (st2, writeUnauthorized msg)"
proof (cases "ie_fails env ''session del''")
  case True
  then show ?thesis using failed_delete_keeps [OF redis new True, of c token _ st h] call served by auto
next
  case del: False
  have v: "VerifyRefreshToken (sv_lib S) env token = Some (refresh_claims p)"
    using id_lib_okD(4) [OF lib] live by (simp add: tok VerifyRefreshToken_def)
  have kill: "session_dead S (jp_jti p) (fst (RevokeRefreshToken (sv_redis S) env r (jp_jti p)))" for r
    by (rule revoke_kills [OF redis del])
  from call have "session_dead S (jp_jti p) (is_redis st1)"
  proof
    assume c: "c = CallRefresh (Inr token)"
    show ?thesis
    proof (cases "refresh_begin (sv_lib S) (sv_redis S) env (is_redis st) (Inr token)")
      case (Inl r)
      then have "resp_status r \<noteq> 200"
        by (auto simp: refresh_begin_def bad_request_def writeUnauthorized_def split: if_splits option.splits)
      then show ?thesis using served ok Inl by (simp add: c id_serve_def auth_Refresh_def)
    next
      case (Inr claims)
      then have "claims = refresh_claims p" using refresh_accepted [OF lib] by (simp add: tok)
      then have "session_dead S (jp_jti p)
          (is_redis (fst (refresh_finish (sv_lib S) (sv_redis S) env (sv_jwt S) (sv_refreshTTL S) st claims)))"
        using kill by (intro refresh_finish_keeps_dead [OF redis new]) (simp add: refresh_claims_def)
      then show ?thesis using served Inr by (simp add: c id_serve_def auth_Refresh_def)
    qed
  next
    assume c: "c = CallLogout token"
    have "token \<noteq> []" using id_lib_okD(3) [OF lib] by (simp add: tok)
    moreover have "rg_ID (refresh_claims p) = jp_jti p" by (simp add: refresh_claims_def)
    ultimately show ?thesis
      using served ok kill v
      by (auto simp: c id_serve_def auth_Logout_def Let_def id_Authenticate_def writeUnauthorized_def
          split: sum.splits if_splits option.splits)
  qed
  then show ?thesis using del dead_refused [OF lib] id_run_keeps_dead [OF run redis] by (auto simp: tok)
qed

text \<open>
  A refresh token is accepted as an access token, without a persona: with it, for days and after
  its own session is gone, the holder reaches every route that asks for no permission, creating
  organisations and listing the roles, and only those.
\<close>

theorem identity_refresh_token_authenticates:
  assumes lib: "id_lib_ok (sv_lib S)" and live: "ie_now env ''verify'' < rg_ExpiresAt rc * second"
    and "\<not> id_public c"
  shows "\<exists>claims. ac_OrgID claims = rc_OrgID rc \<and> rg_Subject claims = rg_Subject rc \<and> ac_Persona claims = [] \<and>
    id_serve S env st (bearer (il_sign (sv_lib S) (refresh_payload rc))) c =
      (if id_permission c = None then authed_handle S env st claims c
       else (st, writeForbidden ''insufficient permissions for this operation''))"
proof -
  let ?tok = "il_sign (sv_lib S) (refresh_payload rc)"
  let ?cl = "access_claims (refresh_payload rc)"
  have "VerifyAccessToken (sv_lib S) env ?tok = Some ?cl"
    using id_lib_okD(4) [OF lib] live by (simp add: VerifyAccessToken_def refresh_payload_def)
  then have a: "id_Authenticate (sv_lib S) env (bearer ?tok) = Inr ?cl" by (rule bearer_header)
  have "ac_Persona ?cl = []" by (simp add: access_claims_refresh)
  moreover have "\<not> Can [] r x" for r x by (rule Can_unknown) (simp add: AllPersonas_def rbac_names)
  ultimately have "id_RequirePermission r x (Some ?cl) = Some (writeForbidden ''insufficient permissions for this operation'')" for r x
    by (simp add: id_RequirePermission_def)
  then show ?thesis using assms(3)
    by (intro exI [of _ ?cl]) (auto simp: id_serve_def a access_claims_refresh split: option.split)
qed

end
