(* ===== verification/IdentityAccess.thy ===== *)
theory IdentityAccess
  imports IdentitySystem
begin

text \<open>
  Who gets in, for how long, and whose rows a request can touch: what registration, login, refresh and
  deactivation mean for the tokens in circulation, and the separation of organisations.
\<close>

section \<open>Undisturbed requests\<close>

text \<open>An environment in which no call fails, and one whose fresh identifiers are new to the tables.\<close>

definition quiet :: "id_env \<Rightarrow> bool" where
  "quiet env \<longleftrightarrow> (\<forall>op. \<not> ie_fails env op) \<and> ie_salt env \<noteq> None"

definition role_id :: "id_env \<Rightarrow> string \<times> string \<Rightarrow> uuid" where
  "role_id env p = ie_new env (''role '' @ snd p)"

definition fresh_for :: "id_env \<Rightarrow> id_db \<Rightarrow> bool" where
  "fresh_for env db \<longleftrightarrow> ie_new env ''user'' \<notin> us_ID ` set (db_users db) \<and>
     ie_new env ''user role'' \<notin> ur_ID ` set (db_user_roles db) \<and>
     distinct (map (role_id env) system_personas) \<and>
     (\<forall>p \<in> set system_personas. role_id env p \<notin> ro_ID ` set (db_roles db))"

text \<open>The claims and the session of the tokens issued.\<close>

definition new_access :: "'r id_service \<Rightarrow> id_env \<Rightarrow> uuid \<Rightarrow> User \<Rightarrow> string \<Rightarrow> AccessClaims" where
  "new_access S env org u persona = \<lparr> rg_Issuer = mg_issuer (sv_jwt S), rg_Subject = il_uuid_text (sv_lib S) (us_ID u),
     rg_IssuedAt = ie_now env ''access'' div second,
     rg_ExpiresAt = (ie_now env ''access'' + mg_accessTTL (sv_jwt S)) div second,
     rg_ID = il_uuid_text (sv_lib S) (ie_new env ''access''), ac_OrgID = il_uuid_text (sv_lib S) org,
     ac_Email = us_Email u, ac_DisplayName = us_DisplayName u, ac_Persona = persona \<rparr>"

definition new_refresh :: "'r id_service \<Rightarrow> id_env \<Rightarrow> uuid \<Rightarrow> User \<Rightarrow> RefreshClaims" where
  "new_refresh S env org u = \<lparr> rg_Issuer = mg_issuer (sv_jwt S), rg_Subject = il_uuid_text (sv_lib S) (us_ID u),
     rg_IssuedAt = ie_now env ''refresh'' div second,
     rg_ExpiresAt = (ie_now env ''refresh'' + mg_refreshTTL (sv_jwt S)) div second,
     rg_ID = draws S env, rc_OrgID = il_uuid_text (sv_lib S) org \<rparr>"

definition session_ttl :: "'r id_service \<Rightarrow> id_env \<Rightarrow> duration" where
  "session_ttl S env = time_Sub (ie_now env ''session'' + sv_refreshTTL S) (ie_now env ''until'')"

definition new_session :: "'r id_service \<Rightarrow> id_env \<Rightarrow> uuid \<Rightarrow> User \<Rightarrow> 'r \<Rightarrow> 'r" where
  "new_session S env org u r = rd_set (sv_redis S) (refreshKeyPrefix @ draws S env)
     (il_to_json (sv_lib S) \<lparr> rf_TokenID = draws S env, rf_UserID = il_uuid_text (sv_lib S) (us_ID u),
        rf_OrgID = il_uuid_text (sv_lib S) org, rf_ExpiresAt = ie_now env ''session'' + sv_refreshTTL S \<rparr>)
     (session_ttl S env) (ie_now env ''session set'') r"

definition first_persona :: "id_env \<Rightarrow> id_db \<Rightarrow> uuid \<Rightarrow> uuid \<Rightarrow> string" where
  "first_persona env db org u = (case GetFirstPersonaForUser env db org u of Inl e \<Rightarrow> [] | Inr p \<Rightarrow> p)"

lemma issue_tokens_quiet:
  assumes "quiet env"
  shows "issue_tokens (sv_lib S) (sv_redis S) env (sv_jwt S) (sv_refreshTTL S) st org u =
    (st\<lparr> is_redis := new_session S env org u (is_redis st) \<rparr>,
     Inr \<lparr> tk_AccessToken = il_sign (sv_lib S) (access_payload (new_access S env org u
             (first_persona env (is_db st) org (us_ID u)))),
           tk_RefreshToken = il_sign (sv_lib S) (refresh_payload (new_refresh S env org u)),
           tk_TokenType = ''Bearer'', tk_ExpiresIn = 900 \<rparr>)"
  using assms
  by (simp add: quiet_def issue_tokens_def Let_def IssueAccessToken_def IssueRefreshToken_def StoreRefreshToken_def
      new_access_def new_refresh_def new_session_def session_ttl_def first_persona_def draws_def)

lemma access_accepted:
  assumes "id_lib_ok (sv_lib S)" and "ie_now env ''verify'' < rg_ExpiresAt cl * second" and "\<not> id_public c"
    and "case id_permission c of None \<Rightarrow> True | Some (r, a) \<Rightarrow> Can (ac_Persona cl) r a"
  shows "id_serve S env st (bearer (il_sign (sv_lib S) (access_payload cl))) c = authed_handle S env st cl c"
proof -
  have "VerifyAccessToken (sv_lib S) env (il_sign (sv_lib S) (access_payload cl)) = Some cl"
    using id_lib_okD(4) [OF assms(1)] assms(2) by (simp add: VerifyAccessToken_def access_payload_def [of cl])
      (simp add: access_payload_def [symmetric])
  then show ?thesis
    using assms(3,4) by (auto simp: id_serve_def bearer_header id_RequirePermission_def split: option.splits)
qed

section \<open>Deactivation\<close>

lemma user_unique:
  assumes "id_db_ok db" and "u \<in> set (db_users db)" and "v \<in> set (db_users db)"
  shows "us_ID u = us_ID v \<Longrightarrow> u = v" "us_OrgID u = us_OrgID v \<Longrightarrow> us_Email u = us_Email v \<Longrightarrow> u = v"
proof -
  have "distinct (map us_ID (db_users db))" "distinct (map (\<lambda>u. (us_OrgID u, us_Email u)) (db_users db))"
    using assms(1) by (auto simp: id_db_ok_def db_keys_def keys_ok_def user_key_def comp_def)
  then show "us_ID u = us_ID v \<Longrightarrow> u = v" "us_OrgID u = us_OrgID v \<Longrightarrow> us_Email u = us_Email v \<Longrightarrow> u = v"
    using same_key assms(2,3) by fastforce+
qed

lemma login_active:
  assumes "auth_Login L R env mg ttl st (Inr req) = (st', resp)" and "resp_status resp = 200"
  obtains org u where "il_uuid_parse L (lg_OrgID req) = Some org"
    and "GetUserByEmail env (is_db st) org (lg_Email req) = Inr u" and "us_IsActive u"
  using assms by (auto simp: auth_Login_def bad_request_def writeUnauthorized_def split: if_splits option.splits sum.splits)

lemma refresh_active:
  assumes "refresh_finish L R env mg ttl st claims = (st', resp)" and "resp_status resp = 200"
  obtains org i u where "il_uuid_parse L (rg_Subject claims) = Some i" and "GetUserByID env (is_db st) org i = Inr u"
    and "us_IsActive u"
  using assms by (auto simp: refresh_finish_def Let_def writeUnauthorized_def split: if_splits option.splits sum.splits)

lemma GetUserByEmail_in:
  "GetUserByEmail env db org email = Inr u \<Longrightarrow> u \<in> set (db_users db) \<and> us_OrgID u = org \<and> us_Email u = email"
  by (auto simp: GetUserByEmail_def dest: find_some split: if_splits option.splits)

lemma deleted_inactive:
  assumes "id_db_ok db" and "u \<in> set (db_users db)" and "user_Delete L env db claims param = (db', resp)"
    and "resp_status resp = 204" and "il_uuid_parse L param = Some (us_ID u)"
  shows "\<exists>v \<in> set (db_users db'). user_key v = user_key u \<and> \<not> us_IsActive v"
proof -
  let ?org = "parse_or_nil L (ac_OrgID claims)"
  have d: "DeactivateUser env db ?org (us_ID u) = (db', None)"
    using assms(3-5) by (auto simp: user_Delete_def repo_failure_def internal_error_def split: prod.splits option.splits if_splits)
  then obtain w where "w \<in> set (db_users db)" and "us_ID w = us_ID u" and "us_OrgID w = ?org"
    by (auto simp: DeactivateUser_def list_ex_iff split: if_splits)
  then have "us_OrgID u = ?org" using user_unique(1) [OF assms(1)] assms(2) by blast
  then show ?thesis
    using d assms(2) by (intro bexI [of _ "u\<lparr> us_IsActive := False, us_UpdatedAt := ie_now env ''DeactivateUser'' \<rparr>"])
      (auto simp: DeactivateUser_def map_user_def user_key_def image_iff split: if_splits)
qed

lemma Authenticate_refuses: "id_Authenticate L env h = Inl resp \<Longrightarrow> resp_status resp = 401"
  by (auto simp: id_Authenticate_def writeUnauthorized_def Let_def split: if_splits option.splits)

lemma RequirePermission_refuses: "id_RequirePermission r a (Some cl) = Some resp \<Longrightarrow> resp_status resp = 403"
  by (auto simp: id_RequirePermission_def writeForbidden_def split: if_splits)

lemma served_delete:
  assumes "id_serve S env st h (CallDeleteUser param) = (st1, resp)" and "resp_status resp = 204"
  shows "\<exists>cl. user_Delete (sv_lib S) env (is_db st) cl param = (is_db st1, resp)"
  using assms by (auto simp: id_serve_def on_db_def split: sum.splits option.splits
      dest: Authenticate_refuses RequirePermission_refuses)

text \<open>A deactivated user is refused by the two ways to new tokens.\<close>

lemma inactive_login:
  assumes "id_db_ok (is_db st)" and "w \<in> set (db_users (is_db st))" and "\<not> us_IsActive w"
    and "il_uuid_parse (sv_lib S) (lg_OrgID req) = Some (us_OrgID w)" and "lg_Email req = us_Email w"
  shows "resp_status (snd (id_serve S env st h (CallLogin (Inr req)))) \<noteq> 200"
proof
  assume "resp_status (snd (id_serve S env st h (CallLogin (Inr req)))) = 200"
  then have "resp_status (snd (auth_Login (sv_lib S) (sv_redis S) env (sv_jwt S) (sv_refreshTTL S) st (Inr req))) = 200"
    by (simp add: id_serve_def)
  then obtain x where "GetUserByEmail env (is_db st) (us_OrgID w) (us_Email w) = Inr x" "us_IsActive x"
    using login_active [OF prod.collapse [symmetric]] assms(4,5) by (metis option.inject)
  then show False using user_unique(2) [OF assms(1,2)] assms(3) GetUserByEmail_in by fastforce
qed

lemma inactive_refresh:
  assumes lib: "id_lib_ok (sv_lib S)" and "id_db_ok (is_db st)" and "w \<in> set (db_users (is_db st))" and "\<not> us_IsActive w"
    and sub: "il_uuid_parse (sv_lib S) (jp_sub p) = Some (us_ID w)"
  shows "resp_status (snd (id_serve S env st h (CallRefresh (Inr (il_sign (sv_lib S) p))))) \<noteq> 200"
proof (cases "refresh_begin (sv_lib S) (sv_redis S) env (is_redis st) (Inr (il_sign (sv_lib S) p))")
  case (Inl r)
  then show ?thesis
    by (auto simp: id_serve_def auth_Refresh_def refresh_begin_def bad_request_def writeUnauthorized_def
        split: if_splits option.splits)
next
  case (Inr claims)
  have c: "claims = refresh_claims p" by (rule refresh_accepted [OF lib Inr])
  show ?thesis
  proof
    assume "resp_status (snd (id_serve S env st h (CallRefresh (Inr (il_sign (sv_lib S) p))))) = 200"
    then have "resp_status (snd (refresh_finish (sv_lib S) (sv_redis S) env (sv_jwt S) (sv_refreshTTL S) st claims)) = 200"
      by (simp add: id_serve_def auth_Refresh_def Inr)
    then obtain org x where "GetUserByID env (is_db st) org (us_ID w) = Inr x" "us_IsActive x"
      using refresh_active [OF prod.collapse [symmetric]] sub c
      by (metis RegisteredClaims.select_convs(2) option.inject refresh_claims_def)
    then show False using user_unique(1) [OF assms(2,3)] assms(4) GetUserByID_in by fastforce
  qed
qed

text \<open>
  A user deactivated by \<open>DELETE /users/{id}\<close> can from then on neither log in nor refresh, whatever
  requests follow; but the access tokens issued before go on being accepted, with the persona they
  name, until they expire.
\<close>

theorem identity_deactivation_lags:
  assumes lib: "id_lib_ok (sv_lib S)" and tables: "id_db_ok (is_db st)" and u: "u \<in> set (db_users (is_db st))"
    and del: "id_serve S env st h (CallDeleteUser param) = (st1, resp)" "resp_status resp = 204"
      "il_uuid_parse (sv_lib S) param = Some (us_ID u)"
    and run: "id_run S E st1 st2"
  shows "(\<forall>env h req. il_uuid_parse (sv_lib S) (lg_OrgID req) = Some (us_OrgID u) \<longrightarrow> lg_Email req = us_Email u \<longrightarrow>
      resp_status (snd (id_serve S env st2 h (CallLogin (Inr req)))) \<noteq> 200) \<and>
    (\<forall>env h p. il_uuid_parse (sv_lib S) (jp_sub p) = Some (us_ID u) \<longrightarrow>
      resp_status (snd (id_serve S env st2 h (CallRefresh (Inr (il_sign (sv_lib S) p))))) \<noteq> 200) \<and>
    (\<forall>env cl c. ie_now env ''verify'' < rg_ExpiresAt cl * second \<longrightarrow> \<not> id_public c \<longrightarrow>
      (case id_permission c of None \<Rightarrow> True | Some (r, a) \<Rightarrow> Can (ac_Persona cl) r a) \<longrightarrow>
      id_serve S env st2 (bearer (il_sign (sv_lib S) (access_payload cl))) c = authed_handle S env st2 cl c)"
proof -
  obtain v where v: "v \<in> set (db_users (is_db st1))" "user_key v = user_key u" "\<not> us_IsActive v"
    using served_delete [OF del(1,2)] deleted_inactive [OF tables u _ del(2,3)] by blast
  have g: "id_good (is_db st1) (is_db st2)" using statements_good id_run_statements [OF run] by blast
  have ok: "id_db_ok (is_db st2)"
    using g statements_good [OF serve_statements, of st S env h "CallDeleteUser param"] tables
    by (simp add: id_good_def del(1))
  obtain w where w: "w \<in> set (db_users (is_db st2))" "\<not> us_IsActive w" "us_ID w = us_ID u"
      "us_OrgID w = us_OrgID u" "us_Email w = us_Email u"
    using id_grows_user [of "is_db st1" "is_db st2" v] g v by (auto simp: id_good_def same_user_def user_key_def)
  show ?thesis
    using access_accepted [OF lib] inactive_login [OF ok w(1,2)] inactive_refresh [OF lib ok w(1,2)] w(3-5) by simp
qed

section \<open>Registration\<close>

lemma ensure_role_quiet:
  assumes "quiet env" and "org \<in> og_ID ` set (db_orgs db)" and "role_id env p \<notin> ro_ID ` set (db_roles db)"
  shows "\<exists>rs. ensure_role env org p db = (db\<lparr> db_roles := db_roles db @ rs \<rparr>, None) \<and> ro_ID ` set rs \<subseteq> {role_id env p} \<and>
    (\<exists>r \<in> set (db_roles db @ rs). ro_OrgID r = org \<and> ro_Slug r = snd p)"
proof (cases "list_ex (\<lambda>r. ro_OrgID r = org \<and> ro_Slug r = snd p) (db_roles db)")
  case True
  then show ?thesis using assms(1)
    by (intro exI [of _ "[]"]) (auto simp: ensure_role_def quiet_def list_ex_iff Let_def split: prod.split)
next
  case False
  let ?row = "\<lparr> ro_ID = role_id env p, ro_OrgID = org, ro_Name = fst p, ro_Slug = snd p, ro_Description = None,
    ro_IsSystem = True, ro_CreatedAt = ie_now env (''EnsureSystemRoles '' @ snd p) \<rparr>"
  show ?thesis using assms False
    by (intro exI [of _ "[?row]"]) (auto simp: ensure_role_def quiet_def role_id_def Let_def split: prod.split)
qed

lemma ensure_loop_quiet:
  "quiet env \<Longrightarrow> org \<in> og_ID ` set (db_orgs db) \<Longrightarrow> distinct (map (role_id env) ps) \<Longrightarrow>
   (\<forall>p \<in> set ps. role_id env p \<notin> ro_ID ` set (db_roles db)) \<Longrightarrow>
   \<exists>rs. ensure_loop env org ps db = (db\<lparr> db_roles := db_roles db @ rs \<rparr>, None) \<and>
     (\<forall>p \<in> set ps. \<exists>r \<in> set (db_roles db @ rs). ro_OrgID r = org \<and> ro_Slug r = snd p)"
proof (induction ps arbitrary: db)
  case Nil
  then show ?case by (intro exI [of _ "[]"]) simp
next
  case (Cons p ps)
  obtain rs where rs: "ensure_role env org p db = (db\<lparr> db_roles := db_roles db @ rs \<rparr>, None)"
    "ro_ID ` set rs \<subseteq> {role_id env p}" "\<exists>r \<in> set (db_roles db @ rs). ro_OrgID r = org \<and> ro_Slug r = snd p"
    using ensure_role_quiet [of env org db p] Cons.prems by auto
  let ?db = "db\<lparr> db_roles := db_roles db @ rs \<rparr>"
  have "\<forall>q \<in> set ps. role_id env q \<notin> ro_ID ` set (db_roles ?db)"
  proof
    fix q assume q: "q \<in> set ps"
    then have "role_id env q \<noteq> role_id env p" using Cons.prems(3) by (auto simp: image_iff)
    then show "role_id env q \<notin> ro_ID ` set (db_roles ?db)" using Cons.prems(4) rs(2) q by (auto simp: image_Un)
  qed
  then obtain rs' where "ensure_loop env org ps ?db = (?db\<lparr> db_roles := db_roles ?db @ rs' \<rparr>, None)"
    "\<forall>p \<in> set ps. \<exists>r \<in> set (db_roles ?db @ rs'). ro_OrgID r = org \<and> ro_Slug r = snd p"
    using Cons.IH [of ?db] Cons.prems by auto
  then show ?case using rs by (intro exI [of _ "rs @ rs'"]) auto
qed

lemma find_only:
  assumes "x \<in> set xs" and "P x" and "\<And>y. y \<in> set xs \<Longrightarrow> P y \<Longrightarrow> y = x"
  shows "find P xs = Some x"
proof (cases "find P xs")
  case None
  then show ?thesis using assms(1,2) by (simp add: find_None_iff)
next
  case (Some y)
  then show ?thesis using assms(3) find_some [OF Some] by simp
qed

lemma grant_user:
  assumes "id_db_ok db" and "g \<in> set (db_user_roles db)"
  shows "ur_UserID g \<in> us_ID ` set (db_users db)"
proof -
  have "(ur_ID g, ur_UserID g, ur_RoleID g) \<in> set (map grant_key (db_user_roles db))"
    using assms(2) by (force simp: grant_key_def)
  then have "grant_in (map user_key (db_users db)) (map role_key (db_roles db)) (ur_UserID g) (ur_RoleID g)"
    using keys_okD(12) assms(1) unfolding id_db_ok_def db_keys_def by blast
  then show ?thesis by (auto simp: grant_in_def user_key_def)
qed

lemma role_found:
  assumes "quiet env" and "r \<in> set (db_roles db)" and "ro_OrgID r = org" and "ro_Slug r = slug"
  shows "\<exists>r. GetRoleBySlug env db org slug = Inr r"
proof (cases "find (\<lambda>r. ro_OrgID r = org \<and> ro_Slug r = slug) (db_roles db)")
  case None
  then show ?thesis using assms by (auto simp: find_None_iff)
qed (use assms(1) in \<open>simp add: GetRoleBySlug_def quiet_def\<close>)

text \<open>A user with one grant logs in under its role.\<close>

lemma first_persona_single:
  assumes ok: "id_db_ok db" and env: "quiet env" and g: "g \<in> set (db_user_roles db)" and r: "r \<in> set (db_roles db)"
    and "ur_UserID g = i" and "ur_RoleID g = ro_ID r" and "ro_OrgID r = org" and "ur_ExpiresAt g = None"
    and only: "\<And>g'. g' \<in> set (db_user_roles db) \<Longrightarrow> ur_UserID g' = i \<Longrightarrow> g' = g"
  shows "first_persona env db org i = ro_Slug r"
proof -
  let ?rows = "map fst (filter (\<lambda>(r, ur). granted (ie_now env ''GetRolesByUser'') org i r ur)
    (List.product (db_roles db) (db_user_roles db)))"
  have d: "distinct (map ro_ID (db_roles db))"
    using ok by (auto simp: id_db_ok_def db_keys_def keys_ok_def role_key_def comp_def)
  have "x = r" if "x \<in> set ?rows" for x
  proof -
    note m = that
    obtain g' where x: "x \<in> set (db_roles db)" "g' \<in> set (db_user_roles db)" "ur_RoleID g' = ro_ID x" "ur_UserID g' = i"
      using m by (auto simp: granted_def)
    then have "ro_ID x = ro_ID r" using only assms(6) by metis
    then show ?thesis using same_key [OF d] x(1) r by blast
  qed
  moreover have "(r, g) \<in> set (filter (\<lambda>(r, ur). granted (ie_now env ''GetRolesByUser'') org i r ur)
      (List.product (db_roles db) (db_user_roles db)))"
    using assms(3-8) by (simp add: granted_def)
  then have "fst (r, g) \<in> set ?rows" unfolding set_map by (rule imageI)
  then have "r \<in> set ?rows" by simp
  ultimately have "set ?rows = {r}" by blast
  then have "set (shuffle (ie_order env) ?rows) = {r}" by (simp only: shuffle_set)
  then obtain rest where "shuffle (ie_order env) ?rows = r # rest"
    by (cases "shuffle (ie_order env) ?rows") auto
  then show ?thesis using env
    by (simp add: first_persona_def GetFirstPersonaForUser_def GetRolesByUser_def quiet_def)
qed

text \<open>What \<open>Register\<close> leaves when nothing fails: the user, with the one grant asked for.\<close>

lemma registered:
  assumes env: "quiet env" and fresh: "fresh_for env db" and ok: "id_db_ok db"
    and org: "org \<in> og_ID ` set (db_orgs db)" and mail: "(org, rg_Email req) \<notin> (\<lambda>u. (us_OrgID u, us_Email u)) ` set (db_users db)"
    and req: "il_uuid_parse L (rg_OrgID req) = Some org" "rg_Email req \<noteq> []" "rg_Password req \<noteq> []"
      "rg_OrgID req \<noteq> []" "rg_DisplayName req \<noteq> []" "ValidPersona (rg_Persona req)"
    and hash: "HashPassword (il_idkey L) (rg_Password req) (ie_salt env) = Inr hash"
  shows "\<exists>u db' body. auth_Register L env db (Inr req) = (db', JsonResponse 201 body) \<and> id_db_ok db' \<and>
    u \<in> set (db_users db') \<and> us_OrgID u = org \<and> us_Email u = rg_Email req \<and> us_PasswordHash u = Some hash \<and>
    us_IsActive u \<and> (\<forall>env2. quiet env2 \<longrightarrow> first_persona env2 db' org (us_ID u) = rg_Persona req)"
proof -
  obtain u where u: "CreateUser env db org (rg_Email req) (rg_DisplayName req) hash =
      (db\<lparr> db_users := db_users db @ [u] \<rparr>, Inr u)" "us_ID u = ie_new env ''user''"
      "us_OrgID u = org" "us_Email u = rg_Email req" "us_PasswordHash u = Some hash" "us_IsActive u"
    using env fresh org mail by (auto simp: CreateUser_def Let_def quiet_def fresh_for_def)
  let ?db1 = "db\<lparr> db_users := db_users db @ [u] \<rparr>"
  obtain rs where rs: "EnsureSystemRoles env ?db1 org = (?db1\<lparr> db_roles := db_roles db @ rs \<rparr>, None)"
      "\<forall>p \<in> set system_personas. \<exists>r \<in> set (db_roles db @ rs). ro_OrgID r = org \<and> ro_Slug r = snd p"
    using ensure_loop_quiet [OF env, of org ?db1 system_personas] fresh org
    by (auto simp: EnsureSystemRoles_def fresh_for_def)
  let ?db2 = "?db1\<lparr> db_roles := db_roles db @ rs \<rparr>"
  have "rg_Persona req \<in> snd ` set system_personas" and p: "rg_Persona req \<noteq> []"
    using req(6) by (auto simp: ValidPersona_def AllPersonas_def rbac_names system_personas_def)
  then obtain r where r: "GetRoleBySlug env ?db2 org (rg_Persona req) = Inr r"
    using rs(2) role_found [OF env, of _ ?db2 org "rg_Persona req"] by fastforce
  then have r2: "r \<in> set (db_roles ?db2)" "ro_OrgID r = org" "ro_Slug r = rg_Persona req"
    using GetRoleBySlug_in by blast+
  have old: "ur_UserID g \<noteq> us_ID u" if "g \<in> set (db_user_roles db)" for g
    using grant_user [OF ok that] fresh unfolding u(2) fresh_for_def by metis
  obtain g where g: "AssignRole env ?db2 (us_ID u) (ro_ID r) None None =
      (?db2\<lparr> db_user_roles := db_user_roles db @ [g] \<rparr>, None)" "ur_UserID g = us_ID u" "ur_RoleID g = ro_ID r"
      "ur_ExpiresAt g = None"
    using env fresh r2(1) old by (auto simp: AssignRole_def Let_def quiet_def fresh_for_def list_ex_iff)
  let ?db3 = "?db2\<lparr> db_user_roles := db_user_roles db @ [g] \<rparr>"
  have a: "auth_Register L env db (Inr req) = (?db3, JsonResponse 201
      (IbRegistered (us_ID u) (us_Email u) (us_DisplayName u) (us_OrgID u) (us_CreatedAt u)))"
    using req p hash r g(1) by (simp add: auth_Register_def u(1) rs(1) assign_persona_def)
  have ok3: "id_db_ok ?db3"
    using statements_good [OF Register_statements [OF a]] ok by (simp add: id_good_def)
  have "first_persona env2 ?db3 org (us_ID u) = rg_Persona req" if "quiet env2" for env2
    using first_persona_single [OF ok3 that, of g r "us_ID u" org] r2 g old by fastforce
  then show ?thesis using a ok3 u by (intro exI [of _ u] exI [of _ ?db3]) auto
qed

text \<open>
  C34. Registration is open to anyone who names an organisation, and the caller chooses the persona: a
  stranger registers and logs in, and the access token carries that persona, chief audit executive
  included, and is accepted by every route the persona is permitted.
\<close>

theorem identity_anyone_registers_any_persona:
  assumes lib: "id_lib_ok (sv_lib S)" and ok: "id_db_ok (is_db st)" and org: "org \<in> og_ID ` set (db_orgs (is_db st))"
    and envs: "quiet env1" "quiet env2" "fresh_for env1 (is_db st)"
    and mail: "(org, email) \<notin> (\<lambda>u. (us_OrgID u, us_Email u)) ` set (db_users (is_db st))"
    and given: "email \<noteq> []" "name \<noteq> []" "pw \<noteq> []" "ValidPersona persona"
  shows "\<exists>st1 body st2 toks cl.
    id_serve S env1 st h (CallRegister (Inr \<lparr> rg_OrgID = il_uuid_text (sv_lib S) org, rg_Email = email,
      rg_DisplayName = name, rg_Password = pw, rg_Persona = persona \<rparr>)) = (st1, JsonResponse 201 body) \<and>
    id_serve S env2 st1 h (CallLogin (Inr \<lparr> lg_OrgID = il_uuid_text (sv_lib S) org, lg_Email = email,
      lg_Password = pw \<rparr>)) = (st2, JsonResponse 200 (IbTokens toks)) \<and>
    ac_OrgID cl = il_uuid_text (sv_lib S) org \<and> ac_Persona cl = persona \<and>
    rg_ExpiresAt cl = (ie_now env2 ''access'' + mg_accessTTL (sv_jwt S)) div second \<and>
    (\<forall>env c. ie_now env ''verify'' < rg_ExpiresAt cl * second \<longrightarrow> \<not> id_public c \<longrightarrow>
      (case id_permission c of None \<Rightarrow> True | Some (r, a) \<Rightarrow> Can persona r a) \<longrightarrow>
      id_serve S env st2 (bearer (tk_AccessToken toks)) c = authed_handle S env st2 cl c)"
proof -
  note L = id_lib_okD [OF lib]
  let ?req = "\<lparr> rg_OrgID = il_uuid_text (sv_lib S) org, rg_Email = email, rg_DisplayName = name,
    rg_Password = pw, rg_Persona = persona \<rparr>"
  let ?lreq = "\<lparr> lg_OrgID = il_uuid_text (sv_lib S) org, lg_Email = email, lg_Password = pw \<rparr>"
  obtain salt where salt: "ie_salt env1 = Some salt" using envs(1) by (auto simp: quiet_def)
  obtain hash where hash: "HashPassword (il_idkey (sv_lib S)) pw (Some salt) = Inr hash"
      "VerifyPassword (il_idkey (sv_lib S)) pw hash = PasswordOk"
    using hashed_verifies [OF L(6), of pw salt] by auto
  obtain u db1 body where u: "auth_Register (sv_lib S) env1 (is_db st) (Inr ?req) = (db1, JsonResponse 201 body)"
      "id_db_ok db1" "u \<in> set (db_users db1)" "us_OrgID u = org" "us_Email u = email" "us_PasswordHash u = Some hash"
      "us_IsActive u" "first_persona env2 db1 org (us_ID u) = persona"
    using registered [OF envs(1,3) ok org, of ?req "sv_lib S" hash] mail given L(1,2) hash(1) salt envs(2) by auto
  let ?st1 = "st\<lparr> is_db := db1 \<rparr>"
  have "find (\<lambda>x. us_OrgID x = org \<and> us_Email x = email) (db_users db1) = Some u"
  proof (rule find_only [OF u(3)])
    show "us_OrgID u = org \<and> us_Email u = email" using u(4,5) by simp
    show "y = u" if "y \<in> set (db_users db1)" "us_OrgID y = org \<and> us_Email y = email" for y
      using user_unique(2) [OF u(2) that(1) u(3)] that(2) u(4,5) by simp
  qed
  then have "GetUserByEmail env2 db1 org email = Inr u" using envs(2) by (simp add: GetUserByEmail_def quiet_def)
  then have login: "\<exists>st2. id_serve S env2 ?st1 h (CallLogin (Inr ?lreq)) = (st2, JsonResponse 200 (IbTokens
      (projr (snd (issue_tokens (sv_lib S) (sv_redis S) env2 (sv_jwt S) (sv_refreshTTL S) ?st1 org u)))))"
    using L(1,2) given u(6,7) hash(2) by (simp add: id_serve_def auth_Login_def issue_tokens_quiet [OF envs(2)])
  let ?cl = "new_access S env2 org u persona"
  obtain st2 where st2: "id_serve S env2 ?st1 h (CallLogin (Inr ?lreq)) = (st2, JsonResponse 200 (IbTokens
      (projr (snd (issue_tokens (sv_lib S) (sv_redis S) env2 (sv_jwt S) (sv_refreshTTL S) ?st1 org u)))))"
    using login by blast
  have "id_serve S env1 st h (CallRegister (Inr ?req)) = (?st1, JsonResponse 201 body)"
    by (simp add: id_serve_def on_db_def u(1))
  moreover have "tk_AccessToken (projr (snd (issue_tokens (sv_lib S) (sv_redis S) env2 (sv_jwt S) (sv_refreshTTL S) ?st1 org u)))
      = il_sign (sv_lib S) (access_payload ?cl)"
    by (simp add: issue_tokens_quiet [OF envs(2)] u(8))
  moreover have "ac_OrgID ?cl = il_uuid_text (sv_lib S) org" "ac_Persona ?cl = persona"
    "rg_ExpiresAt ?cl = (ie_now env2 ''access'' + mg_accessTTL (sv_jwt S)) div second" by (simp_all add: new_access_def)
  ultimately show ?thesis using st2 access_accepted [OF lib] by metis
qed

section \<open>Overlapping refreshes\<close>

text \<open>When \<open>env3\<close> looks, the session made in \<open>env\<close> is kept by Redis and its token has not expired.\<close>

definition session_live :: "'r id_service \<Rightarrow> id_env \<Rightarrow> id_env \<Rightarrow> bool" where
  "session_live S env env3 \<longleftrightarrow> quiet env3 \<and> ie_now env ''session set'' \<le> ie_now env3 ''session get'' \<and>
     ie_now env3 ''session get'' < ie_now env ''session set'' + session_ttl S env - 1000000 \<and>
     ie_now env3 ''verify refresh'' < (ie_now env ''refresh'' + mg_refreshTTL (sv_jwt S)) div second * second"

lemma refresh_finish_quiet:
  assumes "quiet env" and "id_db_ok (is_db st)" and "u \<in> set (db_users (is_db st))" and "us_IsActive u"
    and "il_uuid_parse (sv_lib S) (rc_OrgID claims) = Some (us_OrgID u)"
    and "il_uuid_parse (sv_lib S) (rg_Subject claims) = Some (us_ID u)"
  shows "\<exists>toks. refresh_finish (sv_lib S) (sv_redis S) env (sv_jwt S) (sv_refreshTTL S) st claims =
      (st\<lparr> is_redis := new_session S env (us_OrgID u) u (rd_del (sv_redis S) (refreshKeyPrefix @ rg_ID claims) (is_redis st)) \<rparr>,
       JsonResponse 200 (IbTokens toks)) \<and>
    tk_RefreshToken toks = il_sign (sv_lib S) (refresh_payload (new_refresh S env (us_OrgID u) u))"
proof -
  have "find (\<lambda>x. us_ID x = us_ID u \<and> us_OrgID x = us_OrgID u) (db_users (is_db st)) = Some u"
    using user_unique(1) [OF assms(2) _ assms(3)] by (intro find_only [OF assms(3)]) simp_all
  then have "GetUserByID env (is_db st) (us_OrgID u) (us_ID u) = Inr u"
    using assms(1) by (simp add: GetUserByID_def quiet_def)
  moreover have "RevokeRefreshToken (sv_redis S) env r j = (rd_del (sv_redis S) (refreshKeyPrefix @ j) r, True)" for r j
    using assms(1) by (simp add: RevokeRefreshToken_def quiet_def)
  ultimately show ?thesis
    using assms(4-6) by (simp add: refresh_finish_def Let_def issue_tokens_quiet [OF assms(1)])
qed

text \<open>A session that Redis still holds is exchanged.\<close>

lemma live_accepted:
  assumes lib: "id_lib_ok (sv_lib S)" and live: "session_live S env env3"
    and get: "rd_get (sv_redis S) (ie_now env3 ''session get'') (refreshKeyPrefix @ draws S env) r =
      rd_get (sv_redis S) (ie_now env3 ''session get'') (refreshKeyPrefix @ draws S env) (new_session S env org u r')"
    and redis: "redis_ok (sv_redis S)"
  shows "refresh_begin (sv_lib S) (sv_redis S) env3 r (Inr (il_sign (sv_lib S) (refresh_payload (new_refresh S env org u)))) =
    Inr (new_refresh S env org u)"
proof -
  have "rd_get (sv_redis S) (ie_now env3 ''session get'') (refreshKeyPrefix @ draws S env) (new_session S env org u r')
      = Some (il_to_json (sv_lib S) \<lparr> rf_TokenID = draws S env, rf_UserID = il_uuid_text (sv_lib S) (us_ID u),
        rf_OrgID = il_uuid_text (sv_lib S) org, rf_ExpiresAt = ie_now env ''session'' + sv_refreshTTL S \<rparr>)"
    using live unfolding new_session_def session_live_def by (intro redis_okD(2) [OF redis]) simp_all
  moreover have "jp_exp (refresh_payload (new_refresh S env org u)) = (ie_now env ''refresh'' + mg_refreshTTL (sv_jwt S)) div second"
    "rg_ID (new_refresh S env org u) = draws S env"
    by (simp_all add: refresh_payload_def new_refresh_def)
  ultimately show ?thesis
    using live get id_lib_okD(3-5) [OF lib]
    by (simp add: refresh_begin_def VerifyRefreshToken_def GetRefreshToken_def session_live_def quiet_def)
qed

text \<open>
  Two refreshes that overlap exchange the same refresh token twice: when both look it up before
  either revokes it, both are answered with new tokens, and both new sessions stay alive. So a stolen
  token can be used beside its owner's without either noticing.
\<close>

theorem identity_refresh_race:
  assumes lib: "id_lib_ok (sv_lib S)" and redis: "redis_ok (sv_redis S)" and ok: "id_db_ok (is_db st)"
    and envs: "quiet env1" "quiet env2"
    and looks: "refresh_begin (sv_lib S) (sv_redis S) env1 (is_redis st) (Inr token) = Inr claims"
      "refresh_begin (sv_lib S) (sv_redis S) env2 (is_redis st) (Inr token) = Inr claims"
    and user: "u \<in> set (db_users (is_db st))" "us_IsActive u"
      "il_uuid_parse (sv_lib S) (rc_OrgID claims) = Some (us_OrgID u)"
      "il_uuid_parse (sv_lib S) (rg_Subject claims) = Some (us_ID u)"
    and new: "draws S env1 \<noteq> draws S env2" "draws S env1 \<noteq> rg_ID claims"
  shows "\<exists>st1 toks1 st2 toks2.
    refresh_finish (sv_lib S) (sv_redis S) env1 (sv_jwt S) (sv_refreshTTL S) st claims = (st1, JsonResponse 200 (IbTokens toks1)) \<and>
    refresh_finish (sv_lib S) (sv_redis S) env2 (sv_jwt S) (sv_refreshTTL S) st1 claims = (st2, JsonResponse 200 (IbTokens toks2)) \<and>
    (\<forall>env3. session_live S env1 env3 \<longrightarrow> (\<exists>c. refresh_begin (sv_lib S) (sv_redis S) env3 (is_redis st2)
      (Inr (tk_RefreshToken toks1)) = Inr c)) \<and>
    (\<forall>env3. session_live S env2 env3 \<longrightarrow> (\<exists>c. refresh_begin (sv_lib S) (sv_redis S) env3 (is_redis st2)
      (Inr (tk_RefreshToken toks2)) = Inr c))"
proof -
  let ?old = "refreshKeyPrefix @ rg_ID claims"
  let ?r1 = "new_session S env1 (us_OrgID u) u (rd_del (sv_redis S) ?old (is_redis st))"
  let ?r2 = "new_session S env2 (us_OrgID u) u (rd_del (sv_redis S) ?old ?r1)"
  obtain toks1 where t1: "refresh_finish (sv_lib S) (sv_redis S) env1 (sv_jwt S) (sv_refreshTTL S) st claims =
      (st\<lparr> is_redis := ?r1 \<rparr>, JsonResponse 200 (IbTokens toks1))"
    "tk_RefreshToken toks1 = il_sign (sv_lib S) (refresh_payload (new_refresh S env1 (us_OrgID u) u))"
    using refresh_finish_quiet [OF envs(1) ok user] by blast
  obtain toks2 where t2: "refresh_finish (sv_lib S) (sv_redis S) env2 (sv_jwt S) (sv_refreshTTL S) (st\<lparr> is_redis := ?r1 \<rparr>) claims =
      (st\<lparr> is_redis := ?r2 \<rparr>, JsonResponse 200 (IbTokens toks2))"
    "tk_RefreshToken toks2 = il_sign (sv_lib S) (refresh_payload (new_refresh S env2 (us_OrgID u) u))"
    using refresh_finish_quiet [OF envs(2), of "st\<lparr> is_redis := ?r1 \<rparr>" u S claims] ok user by auto
  have "rd_get (sv_redis S) t (refreshKeyPrefix @ draws S env1) ?r2 = rd_get (sv_redis S) t (refreshKeyPrefix @ draws S env1) ?r1" for t
    using redis_okD(3,5) [OF redis] new unfolding new_session_def [of S env2] by (metis same_append_eq)
  then have "session_live S env1 env3 \<Longrightarrow> \<exists>c. refresh_begin (sv_lib S) (sv_redis S) env3 ?r2 (Inr (tk_RefreshToken toks1)) = Inr c" for env3
    using live_accepted [OF lib _ _ redis] unfolding t1(2) by blast
  moreover have "session_live S env2 env3 \<Longrightarrow> \<exists>c. refresh_begin (sv_lib S) (sv_redis S) env3 ?r2 (Inr (tk_RefreshToken toks2)) = Inr c" for env3
    using live_accepted [OF lib _ refl redis] unfolding t2(2) by blast
  ultimately show ?thesis
    using t1(1) t2(1) by (intro exI [of _ "st\<lparr> is_redis := ?r1 \<rparr>"] exI [of _ toks1] exI [of _ "st\<lparr> is_redis := ?r2 \<rparr>"]
        exI [of _ toks2]) simp
qed

section \<open>Separation of organisations\<close>

text \<open>What the tables hold of an organisation.\<close>

definition org_view :: "uuid \<Rightarrow> id_db \<Rightarrow> Organization list \<times> User list \<times> Role list \<times> UserRole list" where
  "org_view org db = (filter (\<lambda>x. og_ID x = org) (db_orgs db), filter (\<lambda>u. us_OrgID u = org) (db_users db),
     filter (\<lambda>r. ro_OrgID r = org) (db_roles db),
     filter (\<lambda>g. \<exists>u \<in> set (db_users db). us_ID u = ur_UserID g \<and> us_OrgID u = org) (db_user_roles db))"

lemma filter_map_other:
  assumes "\<And>x. P (f x) = P x" and "\<And>x. P x \<Longrightarrow> f x = x"
  shows "filter P (map f xs) = filter P xs"
  using assms by (induction xs) auto

lemma map_user_view:
  assumes "own \<noteq> other" and "\<And>u. us_ID (f u) = us_ID u \<and> us_OrgID (f u) = us_OrgID u"
  shows "org_view other (map_user own i f db) = org_view other db"
proof -
  have "filter (\<lambda>u. us_OrgID u = other) (map (\<lambda>u. if us_ID u = i \<and> us_OrgID u = own then f u else u) (db_users db)) =
      filter (\<lambda>u. us_OrgID u = other) (db_users db)"
    using assms by (intro filter_map_other) auto
  moreover have "(\<exists>u \<in> set (db_users (map_user own i f db)). us_ID u = j \<and> us_OrgID u = other) \<longleftrightarrow>
      (\<exists>u \<in> set (db_users db). us_ID u = j \<and> us_OrgID u = other)" for j
    using assms by (auto simp: map_user_def)
  ultimately show ?thesis by (simp add: org_view_def map_user_def)
qed

lemma CreateUser_view:
  "CreateUser env db own email name hash = (db', res) \<Longrightarrow> own \<noteq> other \<Longrightarrow> org_view other db' = org_view other db"
  by (auto simp: CreateUser_def Let_def org_view_def split: if_splits)

lemma UpdateOrganization_view:
  assumes "UpdateOrganization env db own name tier = (db', res)" and "own \<noteq> other"
  shows "org_view other db' = org_view other db"
  using assms by (auto simp: UpdateOrganization_def Let_def org_view_def split: if_splits option.splits
      intro!: filter_map_other)

lemma AssignRole_view:
  assumes "AssignRole env db i r g x = (db', res)" and "id_db_ok db" and "u \<in> set (db_users db)"
    and "us_ID u = i" and "us_OrgID u \<noteq> other"
  shows "org_view other db' = org_view other db"
proof -
  let ?in = "\<lambda>g. \<exists>v \<in> set (db_users db). us_ID v = ur_UserID g \<and> us_OrgID v = other"
  let ?upd = "\<lambda>ur. if ur_UserID ur = i \<and> ur_RoleID ur = r
    then ur\<lparr> ur_GrantedBy := g, ur_ExpiresAt := x, ur_GrantedAt := ie_now env ''AssignRole'' \<rparr> else ur"
  have n: "\<not> ?in y" if "ur_UserID y = i" for y
    using user_unique(1) [OF assms(2,3)] assms(4,5) that by metis
  have "?in (?upd y) = ?in y" "?in y \<Longrightarrow> ?upd y = y" for y using n [of y] by auto
  then have m: "filter ?in (map ?upd (db_user_roles db)) = filter ?in (db_user_roles db)"
    by (rule filter_map_other)
  let ?row = "\<lparr> ur_ID = ie_new env ''user role'', ur_UserID = i, ur_RoleID = r, ur_GrantedBy = g,
    ur_GrantedAt = ie_now env ''AssignRole'', ur_ExpiresAt = x \<rparr>"
  have "db' = db \<or> db' = db\<lparr> db_user_roles := map ?upd (db_user_roles db) \<rparr> \<or>
      db' = db\<lparr> db_user_roles := db_user_roles db @ [?row] \<rparr>"
    using assms(1) by (simp add: AssignRole_def Let_def split: if_splits)
  then show ?thesis using m n [of ?row] by (elim disjE) (simp_all add: org_view_def)
qed

lemma CreateOrganization_view:
  "CreateOrganization env db name slug tier = (db', res) \<Longrightarrow> other \<in> og_ID ` set (db_orgs db) \<Longrightarrow>
   org_view other db' = org_view other db \<and> (\<forall>x. res = Inr x \<longrightarrow> og_ID x \<noteq> other)"
  by (auto simp: CreateOrganization_def Let_def org_view_def split: if_splits)

lemma ensure_role_view:
  "ensure_role env own p db = (db', res) \<Longrightarrow> own \<noteq> other \<Longrightarrow> org_view other db' = org_view other db"
  by (auto simp: ensure_role_def Let_def org_view_def split: if_splits prod.splits)

lemma ensure_loop_view:
  "ensure_loop env own ps db = (db', res) \<Longrightarrow> own \<noteq> other \<Longrightarrow> org_view other db' = org_view other db"
  by (induction ps arbitrary: db) (auto split: prod.splits option.splits dest: ensure_role_view)

lemma find_head_filter: "find P xs = (case filter P xs of [] \<Rightarrow> None | x # r \<Rightarrow> Some x)"
  by (induction xs) auto

lemma org_view_eq:
  assumes "org_view own a = org_view own b"
  shows "filter (\<lambda>x. og_ID x = own) (db_orgs a) = filter (\<lambda>x. og_ID x = own) (db_orgs b)"
    "filter (\<lambda>u. us_OrgID u = own) (db_users a) = filter (\<lambda>u. us_OrgID u = own) (db_users b)"
    "filter (\<lambda>r. ro_OrgID r = own) (db_roles a) = filter (\<lambda>r. ro_OrgID r = own) (db_roles b)"
  using assms by (simp_all add: org_view_def)

lemma own_org_own:
  "own_org L cl param = Inr org \<Longrightarrow> il_uuid_parse L (ac_OrgID cl) = Some own \<Longrightarrow> org = own"
  by (auto simp: own_org_def parse_or_nil_def Let_def split: option.splits if_splits)

lemma assign_persona_view:
  assumes "id_db_ok db" and "u \<in> set (db_users db)" and "us_OrgID u \<noteq> other"
  shows "org_view other (assign_persona env db own (us_ID u) persona) = org_view other db"
  using AssignRole_view [OF prod.collapse [symmetric] assms(1,2) refl assms(3)]
  by (simp add: assign_persona_def split: sum.split)

lemma AddMember_view:
  assumes "id_db_ok db" and "il_uuid_parse L (ac_OrgID cl) = Some own" and "own \<noteq> other"
  shows "org_view other (fst (org_AddMember L env db cl param body)) = org_view other db"
proof -
  have "org_view other (assign_persona env db1 own (us_ID u) persona) = org_view other db"
    if c: "CreateUser env db own email name hash = (db1, Inr u)" for email name hash db1 u persona
    using assign_persona_view [of db1 u other env own persona] CreateUser_in [OF c] CreateUser_good [OF c]
      CreateUser_view [OF c assms(3)] assms(1,3) by (simp add: id_good_def)
  then show ?thesis
    using own_org_own [OF _ assms(2)] CreateUser_view [OF _ assms(3)]
    by (fastforce simp: org_AddMember_def split: sum.splits prod.splits)
qed

lemma AssignToUser_view:
  assumes "id_db_ok db" and "il_uuid_parse L (ac_OrgID cl) = Some own" and "own \<noteq> other"
  shows "org_view other (fst (role_AssignToUser L env db cl param body)) = org_view other db"
  using AssignRole_view [OF _ assms(1)] assms(2,3) GetUserByID_in [of env db own]
  by (fastforce simp: role_AssignToUser_def parse_or_nil_def Let_def split: sum.splits option.splits prod.splits)

lemma org_Create_view:
  assumes "other \<in> og_ID ` set (db_orgs db)"
  shows "org_view other (fst (org_Create env db body)) = org_view other db"
  using CreateOrganization_view [OF _ assms] ensure_loop_view [OF prod.collapse [symmetric]]
  by (fastforce simp: org_Create_def EnsureSystemRoles_def split: sum.splits prod.splits)

lemma users_view:
  assumes "il_uuid_parse L (ac_OrgID cl) = Some own" and "own \<noteq> other"
  shows "org_view other (fst (user_Update L env db cl param nbody)) = org_view other db"
    "org_view other (fst (user_Delete L env db cl param)) = org_view other db"
    "org_view other (fst (org_Update L env db cl param obody)) = org_view other db"
  using assms UpdateOrganization_view [OF _ assms(2)] own_org_own [OF _ assms(1)]
  by (fastforce simp: user_Update_def UpdateUser_def user_Delete_def DeactivateUser_def org_Update_def parse_or_nil_def
      Let_def map_user_view split: sum.splits option.splits prod.splits)+

text \<open>The requests that read the caller's organisation.\<close>

fun id_reads_own :: "id_call \<Rightarrow> bool" where
  "id_reads_own CallListUsers = True"
| "id_reads_own (CallGetUser i) = True"
| "id_reads_own (CallGetOrg i) = True"
| "id_reads_own CallListRoles = True"
| "id_reads_own c = False"

lemma reads_own:
  assumes v: "org_view own (is_db st) = org_view own (is_db st')" and own: "il_uuid_parse (sv_lib S) (ac_OrgID cl) = Some own"
    and "id_reads_own c"
  shows "snd (authed_handle S env st cl c) = snd (authed_handle S env st' cl c)"
proof -
  note V = org_view_eq [OF v]
  have "filter (\<lambda>u. us_OrgID u = own \<and> us_IsActive u) (db_users (is_db st)) =
      filter (\<lambda>u. us_OrgID u = own \<and> us_IsActive u) (db_users (is_db st'))"
    using arg_cong [OF V(2), of "filter us_IsActive"] by (simp add: conj_commute)
  moreover have "find (\<lambda>u. us_ID u = i \<and> us_OrgID u = own) (db_users (is_db st)) =
      find (\<lambda>u. us_ID u = i \<and> us_OrgID u = own) (db_users (is_db st'))" for i
    using arg_cong [OF V(2), of "filter (\<lambda>u. us_ID u = i)"] by (simp add: find_head_filter conj_commute)
  moreover have "find (\<lambda>x. og_ID x = own) (db_orgs (is_db st)) = find (\<lambda>x. og_ID x = own) (db_orgs (is_db st'))"
    using V(1) by (simp add: find_head_filter)
  ultimately show ?thesis
    using assms(3) V(3) own own_org_own [OF _ own]
    by (cases c) (auto simp: user_List_def ListUsers_def user_Get_def GetUserByID_def org_Get_def GetOrganization_def
        role_List_def GetSystemRoles_def parse_or_nil_def split: option.split sum.split)
qed

text \<open>
  The session an authenticated request deletes: that of the refresh token handed in at logout, if the
  token verifies. The handler does not compare the token's user or organisation with the caller's.
\<close>

definition revoked_session :: "id_lib \<Rightarrow> id_env \<Rightarrow> id_call \<Rightarrow> string option" where
  "revoked_session L env c = (case c of
     CallLogout token \<Rightarrow> if token = [] then None else map_option rg_ID (VerifyRefreshToken L env token)
   | _ \<Rightarrow> None)"

lemma authed_redis:
  "is_redis (fst (authed_handle S env st cl c)) = (case revoked_session (sv_lib S) env c of
     None \<Rightarrow> is_redis st | Some jti \<Rightarrow> fst (RevokeRefreshToken (sv_redis S) env (is_redis st) jti))"
  by (cases c) (auto simp: revoked_session_def auth_Logout_def Let_def on_db_def split: option.split)

text \<open>
  C32. What an authenticated request reaches. In the tables it leaves every row of every other
  organisation as it was. Of the sessions in Redis it deletes at most one, at logout: that of the
  refresh token handed in, whichever organisation's user it was issued to. What the requests that read
  users, one user, one organisation or the roles answer depends on the rows of the caller's own
  organisation alone. Listing the organisations is not confined: it shows every caller all active ones.
\<close>

theorem identity_tenant_separation:
  assumes "id_db_ok (is_db st)" and "il_uuid_parse (sv_lib S) (ac_OrgID cl) = Some own"
    and "other \<noteq> own" and "other \<in> og_ID ` set (db_orgs (is_db st))"
  shows "org_view other (is_db (fst (authed_handle S env st cl c))) = org_view other (is_db st) \<and>
    is_redis (fst (authed_handle S env st cl c)) = (case revoked_session (sv_lib S) env c of
      None \<Rightarrow> is_redis st | Some jti \<Rightarrow> fst (RevokeRefreshToken (sv_redis S) env (is_redis st) jti)) \<and>
    (\<forall>st'. org_view own (is_db st') = org_view own (is_db st) \<longrightarrow> id_reads_own c \<longrightarrow>
      snd (authed_handle S env st' cl c) = snd (authed_handle S env st cl c)) \<and>
    snd (authed_handle S env st cl CallListOrgs) =
      (if ie_fails env ''ListOrganizations'' then internal_error ''failed to list organizations''
       else JsonResponse 200 (IbOrgs (by_created env og_CreatedAt (filter og_IsActive (db_orgs (is_db st))))))"
proof (intro conjI)
  show "org_view other (is_db (fst (authed_handle S env st cl c))) = org_view other (is_db st)"
    using assms AddMember_view [OF assms(1,2)] AssignToUser_view [OF assms(1,2)] org_Create_view [OF assms(4)]
      users_view [OF assms(2)] Logout_db [of "sv_lib S" "sv_redis S" env st "Some cl"]
    by (cases c) (simp_all add: on_db_def)
  show "\<forall>st'. org_view own (is_db st') = org_view own (is_db st) \<longrightarrow> id_reads_own c \<longrightarrow>
      snd (authed_handle S env st' cl c) = snd (authed_handle S env st cl c)"
    using reads_own [OF _ assms(2)] by blast
qed (simp_all add: authed_redis org_List_def ListOrganizations_def)

section \<open>Witnesses\<close>

definition ex_env :: id_env where
  "ex_env = \<lparr> ie_now = (\<lambda>s. 0), ie_new = (\<lambda>s. if s = ''role ptwg_member'' then 1000 else of_nat (length s)),
     ie_salt = Some ''salt'', ie_fails = (\<lambda>s. False), ie_order = [] \<rparr>"

definition ex_env2 :: id_env where
  "ex_env2 = ex_env\<lparr> ie_new := (\<lambda>s. 77) \<rparr>"

definition ex_service :: "ex_redis id_service" where
  "ex_service = \<lparr> sv_lib = ex_id_lib, sv_redis = ex_redis_ops,
     sv_jwt = \<lparr> mg_issuer = ''identity'', mg_accessTTL = 900 * second, mg_refreshTTL = 604800 * second \<rparr>,
     sv_refreshTTL = 604800 * second, sv_by_name = (\<lambda>rs. rs) \<rparr>"

definition ex_org :: "uuid \<Rightarrow> string \<Rightarrow> Organization" where
  "ex_org i slug = \<lparr> og_ID = i, og_Name = slug, og_Slug = slug, og_Tier = ''standard'', og_Industry = None,
     og_CountryCode = None, og_IsActive = True, og_CreatedAt = 0, og_UpdatedAt = 0 \<rparr>"

definition ex_user :: User where
  "ex_user = \<lparr> us_ID = 3, us_OrgID = 1, us_Email = ''u'', us_DisplayName = ''U'', us_PasswordHash = None,
     us_IsActive = True, us_LastLoginAt = None, us_CreatedAt = 0, us_UpdatedAt = 0 \<rparr>"

definition ex_refresh :: RefreshClaims where
  "ex_refresh = \<lparr> rg_Issuer = ''identity'', rg_Subject = dec_digits 3, rg_IssuedAt = 0, rg_ExpiresAt = 100,
     rg_ID = ''j'', rc_OrgID = dec_digits 1 \<rparr>"

definition ex_access :: AccessClaims where
  "ex_access = \<lparr> rg_Issuer = ''identity'', rg_Subject = dec_digits 3, rg_IssuedAt = 0, rg_ExpiresAt = 100,
     rg_ID = ''k'', ac_OrgID = dec_digits 1, ac_Email = ''u'', ac_DisplayName = ''U'', ac_Persona = ''cae'' \<rparr>"

definition ex_state :: "ex_redis id_state" where
  "ex_state = \<lparr> is_db = \<lparr> db_orgs = [ex_org 1 ''a'', ex_org 2 ''b''], db_users = [ex_user], db_roles = [], db_user_roles = [] \<rparr>,
     is_redis = [refreshKeyPrefix @ ''j'' \<mapsto> (ex_to_json \<lparr> rf_TokenID = ''j'', rf_UserID = dec_digits 3,
       rf_OrgID = dec_digits 1, rf_ExpiresAt = 100 * second \<rparr>, 100 * second)] \<rparr>"

lemma ex_service_ok:
  "id_lib_ok (sv_lib ex_service)" "redis_ok (sv_redis ex_service)" "quiet ex_env" "quiet ex_env2"
  by (simp_all add: ex_service_def ex_id_lib_ok ex_redis_ok quiet_def ex_env_def ex_env2_def)

lemma ex_state_ok: "id_db_ok (is_db ex_state)"
  by (simp add: ex_state_def id_db_ok_def db_keys_def keys_ok_def org_key_def user_key_def ex_org_def ex_user_def)

lemma ex_parse: "il_uuid_parse (sv_lib ex_service) (dec_digits 3) = Some 3" "il_uuid_parse (sv_lib ex_service) (dec_digits 1) = Some 1"
  using id_lib_okD(1) [OF ex_service_ok(1), of 3] id_lib_okD(1) [OF ex_service_ok(1), of 1]
  by (simp_all add: ex_service_def ex_id_lib_def)

lemma ex_can: "Can ''cae'' ResourceUser ActionManage" "Can ''cae'' ResourceUser ActionRead"
  by code_simp+

lemma ex_delete:
  "\<exists>st1. id_serve ex_service ex_env ex_state (bearer (ex_sign (access_payload ex_access))) (CallDeleteUser (dec_digits 3)) =
     (st1, JsonResponse 204 IbNothing)"
proof -
  have "id_serve ex_service ex_env ex_state (bearer (il_sign (sv_lib ex_service) (access_payload ex_access)))
      (CallDeleteUser (dec_digits 3)) = authed_handle ex_service ex_env ex_state ex_access (CallDeleteUser (dec_digits 3))"
    by (rule access_accepted [OF ex_service_ok(1)]) (simp_all add: ex_env_def ex_access_def second_def ex_can)
  then show ?thesis
    by (simp add: ex_service_def ex_id_lib_def on_db_def user_Delete_def parse_or_nil_def DeactivateUser_def
        ex_parse [unfolded ex_service_def ex_id_lib_def, simplified] ex_env_def ex_access_def ex_state_def ex_user_def)
qed

theorem identity_deactivation_lags_witness:
  "\<exists>st1. resp_status (snd (id_serve ex_service ex_env st1 [] (CallRefresh (Inr (ex_sign (refresh_payload ex_refresh)))))) \<noteq> 200 \<and>
    id_serve ex_service ex_env st1 (bearer (ex_sign (access_payload ex_access))) CallListUsers =
      authed_handle ex_service ex_env st1 ex_access CallListUsers"
proof -
  obtain st1 where d: "id_serve ex_service ex_env ex_state (bearer (ex_sign (access_payload ex_access)))
      (CallDeleteUser (dec_digits 3)) = (st1, JsonResponse 204 IbNothing)" using ex_delete by blast
  have u: "ex_user \<in> set (db_users (is_db ex_state))" by (simp add: ex_state_def)
  have p: "il_uuid_parse (sv_lib ex_service) (dec_digits 3) = Some (us_ID ex_user)" by (simp add: ex_parse ex_user_def)
  have r: "resp_status (JsonResponse 204 IbNothing) = 204" by simp
  note T = identity_deactivation_lags [OF ex_service_ok(1) ex_state_ok u d r p id_run_refl]
  have s: "il_sign (sv_lib ex_service) = ex_sign" by (simp add: ex_service_def ex_id_lib_def)
  have j: "jp_sub (refresh_payload ex_refresh) = dec_digits 3" by (simp add: refresh_payload_def ex_refresh_def)
  have "resp_status (snd (id_serve ex_service ex_env st1 [] (CallRefresh (Inr (ex_sign (refresh_payload ex_refresh)))))) \<noteq> 200"
    using T p unfolding s j [symmetric] by blast
  moreover have "id_serve ex_service ex_env st1 (bearer (ex_sign (access_payload ex_access))) CallListUsers =
      authed_handle ex_service ex_env st1 ex_access CallListUsers"
    using T ex_can unfolding s by (simp add: ex_env_def ex_access_def second_def)
  ultimately show ?thesis by blast
qed

theorem identity_anyone_registers_any_persona_witness:
  "\<exists>st1 body st2 toks. id_serve ex_service ex_env ex_state [] (CallRegister (Inr \<lparr> rg_OrgID = dec_digits 2,
      rg_Email = ''x'', rg_DisplayName = ''X'', rg_Password = ''pw'', rg_Persona = ''cae'' \<rparr>)) = (st1, JsonResponse 201 body) \<and>
    id_serve ex_service ex_env st1 [] (CallLogin (Inr \<lparr> lg_OrgID = dec_digits 2, lg_Email = ''x'', lg_Password = ''pw'' \<rparr>)) =
      (st2, JsonResponse 200 (IbTokens toks))"
proof -
  have t: "il_uuid_text (sv_lib ex_service) 2 = dec_digits 2" by (simp add: ex_service_def ex_id_lib_def)
  have f: "fresh_for ex_env (is_db ex_state)"
    by (simp add: fresh_for_def role_id_def system_personas_def ex_env_def ex_state_def ex_user_def)
  show ?thesis
    using identity_anyone_registers_any_persona [OF ex_service_ok(1) ex_state_ok _ ex_service_ok(3,3) f,
        where org = 2 and email = "''x''" and name = "''X''" and pw = "''pw''" and persona = "''cae''" and h = "[]"]
    unfolding t by (fastforce simp: ex_state_def ex_org_def ex_user_def ValidPersona_def AllPersonas_def rbac_names)
qed

lemma ex_looks:
  assumes "env = ex_env \<or> env = ex_env2"
  shows "refresh_begin (sv_lib ex_service) (sv_redis ex_service) env (is_redis ex_state)
    (Inr (il_sign (sv_lib ex_service) (refresh_payload ex_refresh))) = Inr ex_refresh"
proof -
  have "il_verify (sv_lib ex_service) 0 (il_sign (sv_lib ex_service) (refresh_payload ex_refresh)) = Some (refresh_payload ex_refresh)"
    using id_lib_okD(4) [OF ex_service_ok(1)] by (simp add: refresh_payload_def ex_refresh_def second_def)
  moreover have "il_of_json (sv_lib ex_service) (ex_to_json t) = Some t" for t
    using id_lib_okD(5) [OF ex_service_ok(1), of t] by (simp add: ex_service_def ex_id_lib_def)
  ultimately show ?thesis using assms id_lib_okD(3) [OF ex_service_ok(1)]
    by (auto simp: refresh_begin_def VerifyRefreshToken_def GetRefreshToken_def ex_env_def ex_env2_def ex_state_def
        ex_refresh_def ex_service_def ex_redis_ops_def second_def)
qed

theorem identity_refresh_race_witness:
  "\<exists>st1 toks1 st2 toks2.
    refresh_finish ex_id_lib ex_redis_ops ex_env (sv_jwt ex_service) (sv_refreshTTL ex_service) ex_state ex_refresh =
      (st1, JsonResponse 200 (IbTokens toks1)) \<and>
    refresh_finish ex_id_lib ex_redis_ops ex_env2 (sv_jwt ex_service) (sv_refreshTTL ex_service) st1 ex_refresh =
      (st2, JsonResponse 200 (IbTokens toks2)) \<and>
    (\<exists>c. refresh_begin ex_id_lib ex_redis_ops ex_env (is_redis st2) (Inr (tk_RefreshToken toks1)) = Inr c) \<and>
    (\<exists>c. refresh_begin ex_id_lib ex_redis_ops ex_env (is_redis st2) (Inr (tk_RefreshToken toks2)) = Inr c)"
proof -
  have s: "sv_lib ex_service = ex_id_lib" "sv_redis ex_service = ex_redis_ops" by (simp_all add: ex_service_def)
  have d: "draws ex_service ex_env = dec_digits 7" "draws ex_service ex_env2 = dec_digits 77"
    by (simp_all add: draws_def ex_service_def ex_id_lib_def ex_env_def ex_env2_def)
  have n: "dec_digits 7 \<noteq> dec_digits 77" "dec_digits 7 \<noteq> ''j''" by code_simp+
  have l: "session_live ex_service env ex_env" if "env = ex_env \<or> env = ex_env2" for env
    using that ex_service_ok(3)
    by (auto simp: session_live_def session_ttl_def ex_env_def ex_env2_def ex_service_def time_Sub_def sat64_def
        second_def min_int64_def max_int64_def)
  show ?thesis
    using identity_refresh_race [OF ex_service_ok(1,2) ex_state_ok ex_service_ok(3,4) ex_looks ex_looks, of ex_user]
      ex_parse d n l unfolding s by (fastforce simp: ex_state_def ex_user_def ex_refresh_def)
qed

theorem identity_tenant_separation_witness:
  "org_view 2 (is_db (fst (authed_handle ex_service ex_env ex_state ex_access (CallUpdateUser (dec_digits 3) (Inr ''N''))))) =
    org_view 2 (is_db ex_state) \<and>
   og_ID ` set (db_orgs (is_db ex_state)) = {1, 2} \<and>
   snd (authed_handle ex_service ex_env ex_state ex_access CallListOrgs) =
     JsonResponse 200 (IbOrgs (by_created ex_env og_CreatedAt (db_orgs (is_db ex_state))))"
proof -
  have orgs: "og_ID ` set (db_orgs (is_db ex_state)) = {1, 2}"
    "filter og_IsActive (db_orgs (is_db ex_state)) = db_orgs (is_db ex_state)"
    by (simp_all add: ex_state_def ex_org_def)
  have "org_view 2 (is_db (fst (authed_handle ex_service ex_env ex_state ex_access c))) = org_view 2 (is_db ex_state) \<and>
      snd (authed_handle ex_service ex_env ex_state ex_access CallListOrgs) =
      (if ie_fails ex_env ''ListOrganizations'' then internal_error ''failed to list organizations''
       else JsonResponse 200 (IbOrgs (by_created ex_env og_CreatedAt (filter og_IsActive (db_orgs (is_db ex_state))))))" for c
    using identity_tenant_separation [OF ex_state_ok, of ex_service ex_access 1 2 ex_env c] ex_parse(2) orgs(1)
    by (simp add: ex_access_def del: authed_handle.simps)
  moreover have "\<not> ie_fails ex_env ''ListOrganizations''" by (simp add: ex_env_def)
  ultimately show ?thesis using orgs by (simp del: authed_handle.simps)
qed

theorem identity_tables_sound_witness:
  "id_db_ok (fst (CreateOrganization ex_env (is_db ex_state) ''c'' ''c'' ''standard''))"
  using identity_tables_sound [OF ex_state_ok one_statement(1) [OF prod.collapse [symmetric]]] by blast

theorem identity_refresh_single_use_witness:
  "\<exists>st1 msg. id_serve ex_service ex_env ex_state (bearer (ex_sign (access_payload ex_access)))
      (CallLogout (ex_sign (refresh_payload ex_refresh))) = (st1, JsonResponse 200 (IbMessage ''logged out'')) \<and>
    id_serve ex_service ex_env st1 [] (CallRefresh (Inr (ex_sign (refresh_payload ex_refresh)))) = (st1, writeUnauthorized msg)"
proof -
  have s: "il_sign (sv_lib ex_service) = ex_sign" by (simp add: ex_service_def ex_id_lib_def)
  have "id_serve ex_service ex_env ex_state (bearer (il_sign (sv_lib ex_service) (access_payload ex_access))) c =
      authed_handle ex_service ex_env ex_state ex_access c" if "c = CallLogout t" for c t
    using that by (intro access_accepted [OF ex_service_ok(1)]) (auto simp: ex_env_def ex_access_def second_def)
  then obtain st1 where l: "id_serve ex_service ex_env ex_state (bearer (ex_sign (access_payload ex_access)))
      (CallLogout (ex_sign (refresh_payload ex_refresh))) = (st1, JsonResponse 200 (IbMessage ''logged out''))"
    unfolding s by (simp add: auth_Logout_def)
  have n: "draws ex_service ex_env \<noteq> jp_jti (refresh_payload ex_refresh)"
  proof -
    have "dec_digits 7 \<noteq> ''j''" by code_simp
    then show ?thesis by (simp add: draws_def ex_service_def ex_id_lib_def ex_env_def refresh_payload_def ex_refresh_def)
  qed
  have "\<exists>msg. id_serve ex_service ex_env st1 [] (CallRefresh (Inr (ex_sign (refresh_payload ex_refresh)))) = (st1, writeUnauthorized msg)"
    using identity_refresh_single_use [OF ex_service_ok(1,2) _ _ _ l _ n id_run_refl, of _ ex_env "[]"]
    by (simp add: s ex_env_def refresh_payload_def ex_refresh_def second_def)
  then show ?thesis using l by blast
qed

theorem identity_refresh_token_authenticates_witness:
  "\<exists>claims. ac_Persona claims = [] \<and>
    id_serve ex_service ex_env ex_state (bearer (il_sign (sv_lib ex_service) (refresh_payload ex_refresh))) CallListRoles =
      authed_handle ex_service ex_env ex_state claims CallListRoles"
  using identity_refresh_token_authenticates [OF ex_service_ok(1), of ex_env ex_refresh CallListRoles ex_state]
  by (auto simp: ex_env_def ex_refresh_def second_def)

end
