(* ===== verification/IamEvidence.thy ===== *)
theory IamEvidence
  imports GoText Float64 IntegrationBreaker
begin

text \<open>
  The identity-provider side of the integration service: the normalised records an IAM connector
  returns (services/integration/internal/iam/connector.go) and the evidence items derived from them
  (services/integration/internal/iam/evidence.go). Statuses, decisions and severities come from the
  providers and stay strings. A score is the \<open>float64\<close> nearest to its literal.
\<close>

section \<open>The normalised records\<close>

definition UserStatusActive :: string where "UserStatusActive = ''active''"

definition UserStatusInactive :: string where "UserStatusInactive = ''inactive''"

definition UserStatusSuspended :: string where "UserStatusSuspended = ''suspended''"

definition UserStatusDeprovisioned :: string where "UserStatusDeprovisioned = ''deprovisioned''"

record MFAFactor =
  mf_ID :: string
  mf_Type :: string
  mf_Status :: string
  mf_Provider :: string

record AppAssignment =
  aa_AppID :: string
  aa_AppName :: string
  aa_Status :: string

record IAMUser =
  iu_ID :: string
  iu_ExternalID :: string
  iu_Email :: string
  iu_DisplayName :: string
  iu_Status :: string
  iu_CreatedAt :: gotime
  iu_LastLoginAt :: "gotime option"
  iu_MFAEnrolled :: bool
  iu_MFAFactors :: "MFAFactor list"
  iu_Groups :: "string list"
  iu_AppAssignments :: "AppAssignment list"
  iu_Provider :: string

record AccessReview =
  ar_ID :: string
  ar_ReviewerID :: string
  ar_ResourceID :: string
  ar_Decision :: string
  ar_Justification :: string
  ar_CompletedAt :: gotime

record GroupMembership =
  gm_GroupID :: string
  gm_GroupName :: string
  gm_Description :: string
  gm_MemberIDs :: "string list"

record ConditionalAccessPolicy =
  ca_ID :: string
  ca_DisplayName :: string
  ca_State :: string
  ca_GrantControls :: "string list"
  ca_Metadata :: "string \<rightharpoonup> string"

record SystemLogEvent =
  sl_EventID :: string
  sl_PublishedAt :: gotime
  sl_EventType :: string
  sl_Severity :: string
  sl_ActorID :: string
  sl_ActorEmail :: string
  sl_TargetID :: string
  sl_TargetType :: string
  sl_Outcome :: string

record IAMSnapshot =
  sn_Provider :: string
  sn_CollectedAt :: gotime
  sn_Users :: "IAMUser list"
  sn_AccessReviews :: "AccessReview list"
  sn_GroupMemberships :: "GroupMembership list"
  sn_ConditionalPolicies :: "ConditionalAccessPolicy list"
  sn_SystemLogs :: "SystemLogEvent list"

section \<open>The evidence items\<close>

datatype IamEvidenceType = EvidenceTypeMFAEnrollment | EvidenceTypeUserProvisioning
  | EvidenceTypeAccessReview | EvidenceTypeGroupMembership | EvidenceTypeConditionalAccess
  | EvidenceTypeSystemLog

fun IamEvidenceType_text :: "IamEvidenceType \<Rightarrow> string" where
  "IamEvidenceType_text EvidenceTypeMFAEnrollment = ''mfa_enrollment''"
| "IamEvidenceType_text EvidenceTypeUserProvisioning = ''user_provisioning''"
| "IamEvidenceType_text EvidenceTypeAccessReview = ''access_review''"
| "IamEvidenceType_text EvidenceTypeGroupMembership = ''group_membership''"
| "IamEvidenceType_text EvidenceTypeConditionalAccess = ''conditional_access''"
| "IamEvidenceType_text EvidenceTypeSystemLog = ''system_log''"

record EvidenceItem =
  ei_ID :: string
  ei_Provider :: string
  ei_EvidenceType :: IamEvidenceType
  ei_SubjectID :: string
  ei_SubjectName :: string
  ei_CollectedAt :: gotime
  ei_Summary :: string
  ei_Severity :: string
  ei_QualityScore :: float64
  ei_Tags :: "string list"
  ei_RawRef :: string

definition severityFromScore :: "float64 \<Rightarrow> string" where
  "severityFromScore score =
     (if rnd (9/10) \<le> score then ''info''
      else if rnd (7/10) \<le> score then ''low''
      else if rnd (5/10) \<le> score then ''medium''
      else if rnd (3/10) \<le> score then ''high''
      else ''critical'')"

subsection \<open>Multi-factor enrolment\<close>

definition mfaFactorScore :: "string \<Rightarrow> float64" where
  "mfaFactorScore factorType =
     (if factorType \<in> {''fido2'', ''webauthn'', ''hardware_otp''} then 1
      else if factorType \<in> {''totp'', ''hotp''} then rnd (9/10)
      else if factorType = ''push'' then rnd (8/10)
      else if factorType = ''otp'' then rnd (7/10)
      else if factorType = ''email'' then rnd (6/10)
      else rnd (5/10))"

definition mfaEvidenceFromUser :: "gotime \<Rightarrow> IAMUser \<Rightarrow> EvidenceItem list" where
  "mfaEvidenceFromUser collectedAt u =
     (if \<not> iu_MFAEnrolled u \<or> iu_MFAFactors u = []
      then [\<lparr> ei_ID = iu_Provider u @ ''-mfa-'' @ iu_ExternalID u @ ''-none'',
              ei_Provider = iu_Provider u, ei_EvidenceType = EvidenceTypeMFAEnrollment,
              ei_SubjectID = iu_ExternalID u, ei_SubjectName = iu_Email u,
              ei_CollectedAt = collectedAt,
              ei_Summary = ''User '' @ iu_Email u @ '' has no MFA factors enrolled'',
              ei_Severity = severityFromScore 0, ei_QualityScore = 0,
              ei_Tags = [''mfa'', ''unenrolled''], ei_RawRef = iu_ID u \<rparr>]
      else map (\<lambda>f. let score = mfaFactorScore (mf_Type f) in
            \<lparr> ei_ID = iu_Provider u @ ''-mfa-'' @ iu_ExternalID u @ ''-'' @ mf_ID f,
              ei_Provider = iu_Provider u, ei_EvidenceType = EvidenceTypeMFAEnrollment,
              ei_SubjectID = iu_ExternalID u, ei_SubjectName = iu_Email u,
              ei_CollectedAt = collectedAt,
              ei_Summary = ''User '' @ iu_Email u @ '' enrolled '' @ mf_Type f @
                '' MFA factor (status: '' @ mf_Status f @ '')'',
              ei_Severity = severityFromScore score, ei_QualityScore = score,
              ei_Tags = [''mfa'', ''enrolled'', mf_Type f], ei_RawRef = mf_ID f \<rparr>)
            (iu_MFAFactors u))"

subsection \<open>Provisioning\<close>

definition days :: "int \<Rightarrow> duration" where
  "days n = n * 24 * 3600 * second"

definition buildProvisioningSummary :: "IAMUser \<Rightarrow> gotime \<Rightarrow> string" where
  "buildProvisioningSummary u now =
     (if iu_Status u = UserStatusActive then
        (case iu_LastLoginAt u of
           None \<Rightarrow> ''Active user '' @ iu_Email u @ '' has never logged in''
         | Some t \<Rightarrow>
             if days 90 < time_Sub now t
             then ''Active user '' @ iu_Email u @ '' last logged in >90 days ago''
             else ''Active user '' @ iu_Email u @ '' is provisioned and recently active'')
      else if iu_Status u = UserStatusInactive
      then ''Inactive user '' @ iu_Email u @ '' remains provisioned''
      else if iu_Status u = UserStatusSuspended
      then ''Suspended user '' @ iu_Email u @ '' is provisioned''
      else ''User '' @ iu_Email u @ '' has status: '' @ iu_Status u)"

definition userProvisioningScore :: "IAMUser \<Rightarrow> gotime \<Rightarrow> float64" where
  "userProvisioningScore u now =
     (if iu_Status u = UserStatusActive then
        (case iu_LastLoginAt u of
           None \<Rightarrow> rnd (4/10)
         | Some t \<Rightarrow>
             (let age = time_Sub now t
              in if age \<le> days 30 then 1 else if age \<le> days 90 then rnd (8/10) else rnd (5/10)))
      else if 0 < length (iu_AppAssignments u) then rnd (2/10) else rnd (3/10))"

definition provisioningEvidenceFromUser :: "gotime \<Rightarrow> IAMUser \<Rightarrow> EvidenceItem" where
  "provisioningEvidenceFromUser collectedAt u =
     (let score = userProvisioningScore u collectedAt
      in \<lparr> ei_ID = iu_Provider u @ ''-provisioning-'' @ iu_ExternalID u,
           ei_Provider = iu_Provider u, ei_EvidenceType = EvidenceTypeUserProvisioning,
           ei_SubjectID = iu_ExternalID u, ei_SubjectName = iu_Email u,
           ei_CollectedAt = collectedAt, ei_Summary = buildProvisioningSummary u collectedAt,
           ei_Severity = severityFromScore score, ei_QualityScore = score,
           ei_Tags = [''provisioning'', iu_Status u], ei_RawRef = iu_ID u \<rparr>)"

subsection \<open>Access reviews, groups and policies\<close>

text \<open>The bytes of a dash between spaces.\<close>

definition em_dash :: string where
  "em_dash = '' '' @ [CHR 0xE2, CHR 0x80, CHR 0x94] @ '' ''"

definition accessReviewScoreAndSummary :: "AccessReview \<Rightarrow> float64 \<times> string" where
  "accessReviewScoreAndSummary ar =
     (if ar_Decision ar = ''deny'' then
        (1, ''Access review DENIED for resource '' @ ar_ResourceID ar @ '' by reviewer '' @
            ar_ReviewerID ar @ em_dash @ ''over-provisioning detected'')
      else if ar_Decision ar = ''approve'' then
        (rnd (85/100), ''Access review approved for resource '' @ ar_ResourceID ar @
            '' by reviewer '' @ ar_ReviewerID ar)
      else
        (rnd (4/10), ''Access review decision '' @ [CHR 0x27] @ ar_Decision ar @ [CHR 0x27] @
            '' for resource '' @ ar_ResourceID ar @ '' (reviewer: '' @ ar_ReviewerID ar @ '')''))"

definition accessReviewEvidence :: "string \<Rightarrow> gotime \<Rightarrow> AccessReview \<Rightarrow> EvidenceItem" where
  "accessReviewEvidence provider collectedAt ar =
     (case accessReviewScoreAndSummary ar of (score, summary) \<Rightarrow>
        \<lparr> ei_ID = provider @ ''-review-'' @ ar_ID ar, ei_Provider = provider,
          ei_EvidenceType = EvidenceTypeAccessReview, ei_SubjectID = ar_ResourceID ar,
          ei_SubjectName = [], ei_CollectedAt = collectedAt, ei_Summary = summary,
          ei_Severity = severityFromScore score, ei_QualityScore = score,
          ei_Tags = [''access_review'', ar_Decision ar], ei_RawRef = ar_ID ar \<rparr>)"

definition groupMembershipEvidence :: "string \<Rightarrow> gotime \<Rightarrow> GroupMembership \<Rightarrow> EvidenceItem" where
  "groupMembershipEvidence provider collectedAt gm =
     \<lparr> ei_ID = provider @ ''-group-'' @ gm_GroupID gm, ei_Provider = provider,
       ei_EvidenceType = EvidenceTypeGroupMembership, ei_SubjectID = gm_GroupID gm,
       ei_SubjectName = gm_GroupName gm, ei_CollectedAt = collectedAt,
       ei_Summary = ''Group '' @ [CHR 0x27] @ gm_GroupName gm @ [CHR 0x27] @ '' has '' @
         int_text (int (length (gm_MemberIDs gm))) @ '' members'',
       ei_Severity = ''info'', ei_QualityScore = rnd (9/10),
       ei_Tags = [''group_membership''], ei_RawRef = gm_GroupID gm \<rparr>"

definition conditionalAccessScoreAndSeverity :: "string \<Rightarrow> float64 \<times> string" where
  "conditionalAccessScoreAndSeverity state =
     (if state = ''enabled'' then (rnd (9/10), ''info'')
      else if state = ''enabledForReportingButNotEnforced'' then (rnd (5/10), ''medium'')
      else if state = ''disabled'' then (rnd (1/10), ''high'')
      else (rnd (3/10), ''medium''))"

definition conditionalAccessEvidence ::
  "string \<Rightarrow> gotime \<Rightarrow> ConditionalAccessPolicy \<Rightarrow> EvidenceItem" where
  "conditionalAccessEvidence provider collectedAt cap =
     (case conditionalAccessScoreAndSeverity (ca_State cap) of (score, severity) \<Rightarrow>
        \<lparr> ei_ID = provider @ ''-cap-'' @ ca_ID cap, ei_Provider = provider,
          ei_EvidenceType = EvidenceTypeConditionalAccess, ei_SubjectID = ca_ID cap,
          ei_SubjectName = ca_DisplayName cap, ei_CollectedAt = collectedAt,
          ei_Summary = ''Conditional access policy '' @ [CHR 0x27] @ ca_DisplayName cap @
            [CHR 0x27] @ '' is '' @ ca_State cap,
          ei_Severity = severity, ei_QualityScore = score,
          ei_Tags = [''conditional_access'', ca_State cap] @ ca_GrantControls cap,
          ei_RawRef = ca_ID cap \<rparr>)"

subsection \<open>System logs\<close>

definition systemLogScore :: "SystemLogEvent \<Rightarrow> float64" where
  "systemLogScore sl =
     (if sl_Outcome sl = ''SUCCESS'' \<or> sl_Outcome sl = ''ALLOW'' then rnd (9/10)
      else if sl_Outcome sl = ''FAILURE'' \<or> sl_Outcome sl = ''DENY'' then
        (if sl_Severity sl = ''ERROR'' then rnd (2/10)
         else if sl_Severity sl = ''WARN'' then rnd (4/10)
         else rnd (6/10))
      else rnd (7/10))"

definition oktaSeverityToAIAuditor :: "string \<Rightarrow> string" where
  "oktaSeverityToAIAuditor s =
     (if s = ''ERROR'' then ''high'' else if s = ''WARN'' then ''medium''
      else if s = ''INFO'' then ''low'' else ''info'')"

definition systemLogEvidence :: "string \<Rightarrow> gotime \<Rightarrow> SystemLogEvent \<Rightarrow> EvidenceItem" where
  "systemLogEvidence provider collectedAt sl =
     \<lparr> ei_ID = provider @ ''-syslog-'' @ sl_EventID sl, ei_Provider = provider,
       ei_EvidenceType = EvidenceTypeSystemLog, ei_SubjectID = sl_ActorID sl,
       ei_SubjectName = sl_ActorEmail sl, ei_CollectedAt = collectedAt,
       ei_Summary = ''['' @ sl_Severity sl @ ''] '' @ sl_EventType sl @ em_dash @ ''outcome='' @
         sl_Outcome sl @ '' actor='' @ sl_ActorEmail sl,
       ei_Severity = oktaSeverityToAIAuditor (sl_Severity sl),
       ei_QualityScore = systemLogScore sl,
       ei_Tags = [''system_log'', sl_EventType sl, sl_Outcome sl], ei_RawRef = sl_EventID sl \<rparr>"

definition MapSnapshotToEvidence :: "IAMSnapshot \<Rightarrow> EvidenceItem list" where
  "MapSnapshotToEvidence snap =
     (let p = sn_Provider snap; t = sn_CollectedAt snap
      in concat (map (\<lambda>u. mfaEvidenceFromUser t u @ [provisioningEvidenceFromUser t u])
           (sn_Users snap)) @
         map (accessReviewEvidence p t) (sn_AccessReviews snap) @
         map (groupMembershipEvidence p t) (sn_GroupMemberships snap) @
         map (conditionalAccessEvidence p t) (sn_ConditionalPolicies snap) @
         map (systemLogEvidence p t) (sn_SystemLogs snap))"

section \<open>What the items say\<close>

lemma severity_of_scores:
  "severityFromScore 1 = ''info''" "severityFromScore (rnd (9/10)) = ''info''"
  "severityFromScore (rnd (6/10)) = ''medium''" "severityFromScore (rnd (1/10)) = ''critical''"
  "severityFromScore (rnd (3/10)) = ''high''" "severityFromScore 0 = ''critical''"
  by code_simp+

lemma unit_scores [simp]:
  "0 \<le> q \<Longrightarrow> 0 \<le> rnd q" "q \<le> 1 \<Longrightarrow> rnd q \<le> 1"
  by (simp_all add: rnd_nonneg rnd_le_1)

definition item_sound :: "EvidenceItem \<Rightarrow> bool" where
  "item_sound e \<longleftrightarrow> 0 \<le> ei_QualityScore e \<and> ei_QualityScore e \<le> 1 \<and>
     (ei_EvidenceType e = EvidenceTypeConditionalAccess \<or> ei_EvidenceType e = EvidenceTypeSystemLog \<or>
      ei_Severity e = severityFromScore (ei_QualityScore e))"

lemma mfa_sound: "list_all item_sound (mfaEvidenceFromUser t u)"
  by (auto simp: mfaEvidenceFromUser_def mfaFactorScore_def item_sound_def list_all_iff Let_def)

lemma provisioning_sound: "item_sound (provisioningEvidenceFromUser t u)"
  by (simp add: provisioningEvidenceFromUser_def userProvisioningScore_def item_sound_def Let_def
      split: option.splits)

lemma review_sound: "item_sound (accessReviewEvidence p t ar)"
  by (simp add: accessReviewEvidence_def accessReviewScoreAndSummary_def item_sound_def)

lemma group_sound: "item_sound (groupMembershipEvidence p t gm)"
  by (simp add: groupMembershipEvidence_def item_sound_def severity_of_scores)

lemma policy_sound: "item_sound (conditionalAccessEvidence p t cap)"
  by (simp add: conditionalAccessEvidence_def conditionalAccessScoreAndSeverity_def item_sound_def)

lemma syslog_sound: "item_sound (systemLogEvidence p t sl)"
  by (simp add: systemLogEvidence_def systemLogScore_def item_sound_def)

lemmas items_sound = mfa_sound provisioning_sound review_sound group_sound policy_sound syslog_sound

definition user_items :: "IAMUser \<Rightarrow> nat" where
  "user_items u = (if iu_MFAEnrolled u then max 1 (length (iu_MFAFactors u)) else 1) + 1"

lemma mfa_items: "length (mfaEvidenceFromUser t u) + 1 = user_items u"
  by (cases "iu_MFAFactors u") (auto simp: mfaEvidenceFromUser_def user_items_def)

lemma snapshot_items:
  "length (MapSnapshotToEvidence s) = sum_list (map user_items (sn_Users s)) +
     length (sn_AccessReviews s) + length (sn_GroupMemberships s) +
     length (sn_ConditionalPolicies s) + length (sn_SystemLogs s)"
  using mfa_items
  by (simp add: MapSnapshotToEvidence_def Let_def length_concat comp_def)

lemma snapshot_sound: "list_all item_sound (MapSnapshotToEvidence s)"
  using items_sound by (auto simp: MapSnapshotToEvidence_def Let_def list_all_iff)

text \<open>
  What identifies an item's record: its kind, the subject and the reference to the record. \<open>record_keys\<close>
  lists them for the records of a snapshot, user by user and then section by section.
\<close>

definition item_key :: "EvidenceItem \<Rightarrow> IamEvidenceType \<times> string \<times> string" where
  "item_key e = (ei_EvidenceType e, ei_SubjectID e, ei_RawRef e)"

fun user_keys :: "IAMUser list \<Rightarrow> (IamEvidenceType \<times> string \<times> string) list" where
  "user_keys [] = []"
| "user_keys (u # us) =
     (if iu_MFAEnrolled u \<and> iu_MFAFactors u \<noteq> []
      then map (\<lambda>f. (EvidenceTypeMFAEnrollment, iu_ExternalID u, mf_ID f)) (iu_MFAFactors u)
      else [(EvidenceTypeMFAEnrollment, iu_ExternalID u, iu_ID u)]) @
     (EvidenceTypeUserProvisioning, iu_ExternalID u, iu_ID u) # user_keys us"

definition record_keys :: "IAMSnapshot \<Rightarrow> (IamEvidenceType \<times> string \<times> string) list" where
  "record_keys s = user_keys (sn_Users s) @
     map (\<lambda>r. (EvidenceTypeAccessReview, ar_ResourceID r, ar_ID r)) (sn_AccessReviews s) @
     map (\<lambda>g. (EvidenceTypeGroupMembership, gm_GroupID g, gm_GroupID g)) (sn_GroupMemberships s) @
     map (\<lambda>p. (EvidenceTypeConditionalAccess, ca_ID p, ca_ID p)) (sn_ConditionalPolicies s) @
     map (\<lambda>l. (EvidenceTypeSystemLog, sl_ActorID l, sl_EventID l)) (sn_SystemLogs s)"

lemma user_items_keys:
  "map item_key (concat (map (\<lambda>u. mfaEvidenceFromUser t u @ [provisioningEvidenceFromUser t u]) us)) =
   user_keys us"
  by (induction us) (auto simp: mfaEvidenceFromUser_def provisioningEvidenceFromUser_def item_key_def Let_def)

lemma snapshot_keys: "map item_key (MapSnapshotToEvidence s) = record_keys s"
proof -
  have "map item_key (map (accessReviewEvidence p t) xs) =
      map (\<lambda>r. (EvidenceTypeAccessReview, ar_ResourceID r, ar_ID r)) xs" for p t xs
    by (simp add: accessReviewEvidence_def item_key_def case_prod_unfold)
  moreover have "map item_key (map (groupMembershipEvidence p t) xs) =
      map (\<lambda>g. (EvidenceTypeGroupMembership, gm_GroupID g, gm_GroupID g)) xs" for p t xs
    by (simp add: groupMembershipEvidence_def item_key_def)
  moreover have "map item_key (map (conditionalAccessEvidence p t) xs) =
      map (\<lambda>c. (EvidenceTypeConditionalAccess, ca_ID c, ca_ID c)) xs" for p t xs
    by (simp add: conditionalAccessEvidence_def item_key_def case_prod_unfold)
  moreover have "map item_key (map (systemLogEvidence p t) xs) =
      map (\<lambda>l. (EvidenceTypeSystemLog, sl_ActorID l, sl_EventID l)) xs" for p t xs
    by (simp add: systemLogEvidence_def item_key_def)
  ultimately show ?thesis
    by (simp only: MapSnapshotToEvidence_def Let_def map_append user_items_keys record_keys_def)
qed

lemma snapshot_collected: "list_all (\<lambda>e. ei_CollectedAt e = sn_CollectedAt s) (MapSnapshotToEvidence s)"
  by (auto simp: MapSnapshotToEvidence_def Let_def list_all_iff mfaEvidenceFromUser_def
      provisioningEvidenceFromUser_def accessReviewEvidence_def groupMembershipEvidence_def
      conditionalAccessEvidence_def systemLogEvidence_def case_prod_unfold split: if_splits)

text \<open>
  C18. Every record of a snapshot becomes evidence, in the order of the records and nothing else:
  a user one item per enrolled factor (or one, of critical severity and score 0, when there is none)
  and one on the account, every review, group, policy and log event one each; every item names its
  record's subject and id and has the time of the snapshot. Every score lies between 0 and 1, and the
  severity is the label the score stands for, but for conditional access policies and log events:
  a disabled policy scores 0.1, which is critical, and is labelled high, and a log event of severity
  ERROR is labelled high although a success scores 0.9, which is info.
\<close>

theorem iam_evidence_complete:
  "map item_key (MapSnapshotToEvidence s) = record_keys s \<and>
   list_all (\<lambda>e. ei_CollectedAt e = sn_CollectedAt s) (MapSnapshotToEvidence s) \<and>
   list_all item_sound (MapSnapshotToEvidence s) \<and>
   mfaEvidenceFromUser t (u\<lparr> iu_MFAFactors := [] \<rparr>) = mfaEvidenceFromUser t (u\<lparr> iu_MFAEnrolled := False \<rparr>) \<and>
   map (\<lambda>e. (ei_Severity e, ei_QualityScore e)) (mfaEvidenceFromUser t (u\<lparr> iu_MFAEnrolled := False \<rparr>)) =
     [(''critical'', 0)] \<and>
   conditionalAccessScoreAndSeverity ''disabled'' = (rnd (1/10), ''high'') \<and>
   severityFromScore (rnd (1/10)) = ''critical'' \<and>
   ei_Severity (systemLogEvidence p t (l\<lparr> sl_Severity := ''ERROR'', sl_Outcome := ''SUCCESS'' \<rparr>)) = ''high'' \<and>
   severityFromScore (ei_QualityScore
     (systemLogEvidence p t (l\<lparr> sl_Severity := ''ERROR'', sl_Outcome := ''SUCCESS'' \<rparr>))) = ''info''"
  by (intro conjI) (simp_all add: snapshot_keys snapshot_collected snapshot_sound mfaEvidenceFromUser_def
      severity_of_scores conditionalAccessScoreAndSeverity_def systemLogEvidence_def systemLogScore_def
      oktaSeverityToAIAuditor_def)

end
