(* ===== verification/IamScheduler.thy ===== *)
theory IamScheduler
  imports IamEvidence "HOL-Library.AList"
begin

text \<open>
  The IAM registry, the sync scheduler and the IAM endpoints
  (services/integration/internal/iam/connector.go, iam/scheduler.go, handler/iam_handler.go), with
  the circuit breaker every registered connector is wrapped in (cmd/api/main.go). What a provider
  answers is an argument of the operations that call it, as are the clock readings and the order in
  which Go walks a map.

  Go slices share their backing array. The evidence of a sync is such an array, kept by the
  scheduler and handed to every reader, so the model has a store of arrays, and a slice is an address
  with a length; all slices here start at the beginning of their array and never grow past it.
\<close>

section \<open>State\<close>

datatype slice = NilSlice | Slice nat nat

record SyncResult =
  sr_Provider :: string
  sr_Snapshot :: "IAMSnapshot option"
  sr_Evidence :: slice
  sr_Error :: "string call_error option"
  sr_SyncedAt :: gotime

type_synonym IAMRegistry = "(string \<times> IAMCircuitBreaker) list"

record iam_state =
  is_registry :: IAMRegistry
  is_results :: "string \<rightharpoonup> SyncResult"
  is_store :: "EvidenceItem list list"

fun slice_list :: "EvidenceItem list list \<Rightarrow> slice \<Rightarrow> EvidenceItem list" where
  "slice_list store NilSlice = []"
| "slice_list store (Slice a n) = take n (store ! a)"

fun slice_len :: "slice \<Rightarrow> nat" where
  "slice_len NilSlice = 0"
| "slice_len (Slice a n) = n"

text \<open>Appending to a nil slice: no array is made when there is nothing to append.\<close>

definition new_slice :: "EvidenceItem list \<Rightarrow> EvidenceItem list list \<Rightarrow> slice \<times> EvidenceItem list list" where
  "new_slice items store =
     (if items = [] then (NilSlice, store) else (Slice (length store) (length items), store @ [items]))"

section \<open>The registry\<close>

definition iam_Register :: "string \<Rightarrow> IAMCircuitBreaker \<Rightarrow> IAMRegistry \<Rightarrow> IAMRegistry" where
  "iam_Register name c reg = AList.update name c reg"

definition iam_Get :: "string \<Rightarrow> IAMRegistry \<Rightarrow> IAMCircuitBreaker option" where
  "iam_Get name reg = map_of reg name"

definition iam_List :: "nat list \<Rightarrow> IAMRegistry \<Rightarrow> string list" where
  "iam_List order reg = shuffle order (map fst reg)"

section \<open>The scheduler\<close>

definition iam_NewScheduler :: "IAMRegistry \<Rightarrow> iam_state" where
  "iam_NewScheduler reg = \<lparr> is_registry = reg, is_results = Map.empty, is_store = [] \<rparr>"

definition iam_LastResult :: "string \<Rightarrow> iam_state \<Rightarrow> SyncResult option" where
  "iam_LastResult name s = is_results s name"

text \<open>
  One sync cycle: the breaker is asked at \<open>t1\<close>, \<open>inner\<close> is what the provider's adapter returns, the
  breaker records it at \<open>t2\<close> and the result is stored with the time \<open>now\<close>.
\<close>

record sync_run =
  sy_t1 :: gotime
  sy_t2 :: gotime
  sy_now :: gotime
  sy_inner :: "IAMSnapshot option \<times> string option"

definition conn_Sync :: "string \<Rightarrow> sync_run \<Rightarrow> IAMCircuitBreaker \<Rightarrow> iam_state \<Rightarrow>
    (IAMSnapshot option \<times> string call_error option) \<times> iam_state" where
  "conn_Sync name r cb s =
     (case icb_Sync (sy_t1 r) (sy_t2 r) (sy_inner r) cb of (ans, cb1) \<Rightarrow>
        (ans, s\<lparr> is_registry := AList.update name cb1 (is_registry s) \<rparr>))"

definition iam_sync :: "string \<Rightarrow> sync_run \<Rightarrow> iam_state \<Rightarrow> iam_state" where
  "iam_sync name r s =
     (case iam_Get name (is_registry s) of
        None \<Rightarrow> s
      | Some cb \<Rightarrow>
          (case conn_Sync name r cb s of ((snap, err), s1) \<Rightarrow>
             (case (if err = None then snap else None) of
                None \<Rightarrow> s1\<lparr> is_results := (is_results s1)(name \<mapsto>
                    \<lparr> sr_Provider = name, sr_Snapshot = None, sr_Evidence = NilSlice,
                      sr_Error = err, sr_SyncedAt = sy_now r \<rparr>) \<rparr>
              | Some sn \<Rightarrow>
                  (case new_slice (MapSnapshotToEvidence sn) (is_store s1) of (ev, store) \<Rightarrow>
                     s1\<lparr> is_store := store, is_results := (is_results s1)(name \<mapsto>
                       \<lparr> sr_Provider = name, sr_Snapshot = Some sn, sr_Evidence = ev,
                         sr_Error = None, sr_SyncedAt = sy_now r \<rparr>) \<rparr>))))"

text \<open>
  A connector's loop: one sync at once and one at every tick until the context is done. When a
  tick and the cancellation are both ready, either may be taken.
\<close>

datatype loop_event = LoopTick sync_run | LoopDone

fun iam_ticks :: "string \<Rightarrow> loop_event list \<Rightarrow> iam_state \<Rightarrow> iam_state" where
  "iam_ticks name [] s = s"
| "iam_ticks name (LoopDone # evs) s = s"
| "iam_ticks name (LoopTick r # evs) s = iam_ticks name evs (iam_sync name r s)"

definition iam_runLoop :: "string \<Rightarrow> sync_run \<Rightarrow> loop_event list \<Rightarrow> iam_state \<Rightarrow> iam_state" where
  "iam_runLoop name r evs s = iam_ticks name evs (iam_sync name r s)"

section \<open>The endpoints\<close>

record iam_status =
  st_Name :: string
  st_LastSyncAt :: "gotime option"
  st_EvidenceCount :: nat
  st_SyncError :: string

datatype iam_body =
    IamConnectors "iam_status list" nat
  | IamHealth HealthStatus
  | IamNotFound string "string list"
  | IamPending
  | IamError string string
  | IamEvidenceBody string gotime "EvidenceItem list" nat
  | IamSynced string gotime nat nat IAMSnapshot
  | IamPanic

type_synonym iam_response = "int \<times> iam_body"

fun call_error_text :: "string call_error \<Rightarrow> string" where
  "call_error_text ErrCircuitOpen = ''circuit breaker is open''"
| "call_error_text (InnerError e) = e"

definition iam_status_of :: "iam_state \<Rightarrow> string \<Rightarrow> iam_status" where
  "iam_status_of s n =
     (case is_results s n of
        None \<Rightarrow> \<lparr> st_Name = n, st_LastSyncAt = None, st_EvidenceCount = 0, st_SyncError = [] \<rparr>
      | Some r \<Rightarrow> \<lparr> st_Name = n, st_LastSyncAt = Some (sr_SyncedAt r),
          st_EvidenceCount = slice_len (sr_Evidence r),
          st_SyncError = (case sr_Error r of None \<Rightarrow> [] | Some e \<Rightarrow> call_error_text e) \<rparr>)"

definition ListIAMConnectors :: "nat list \<Rightarrow> iam_state \<Rightarrow> iam_response" where
  "ListIAMConnectors order s =
     (let out = map (iam_status_of s) (iam_List order (is_registry s))
      in (200, IamConnectors out (length out)))"

definition iam_not_found :: "nat list \<Rightarrow> string \<Rightarrow> iam_state \<Rightarrow> iam_response" where
  "iam_not_found order name s = (404, IamNotFound name (iam_List order (is_registry s)))"

definition IAMConnectorHealth ::
  "nat list \<Rightarrow> string \<Rightarrow> gotime \<Rightarrow> HealthStatus \<Rightarrow> iam_state \<Rightarrow> iam_response \<times> iam_state" where
  "IAMConnectorHealth order name now status s =
     (case iam_Get name (is_registry s) of
        None \<Rightarrow> (iam_not_found order name s, s)
      | Some cb \<Rightarrow>
          (case icb_Health now status cb of (st, cb1) \<Rightarrow>
             ((if hs_Healthy st then 200 else 503, IamHealth st),
              s\<lparr> is_registry := AList.update name cb1 (is_registry s) \<rparr>)))"

definition sync_failure :: "string call_error \<Rightarrow> iam_response" where
  "sync_failure e =
     (case e of
        ErrCircuitOpen \<Rightarrow> (503, IamError ''CIRCUIT_OPEN''
          ''IAM connector circuit breaker is open; upstream is unavailable'')
      | InnerError m \<Rightarrow> (502, IamError ''SYNC_ERROR'' m))"

text \<open>
  \<open>filtered := evidence[:0]\<close> and the loop that appends to it: \<open>filtered\<close> has the array of
  \<open>evidence\<close>, so the \<open>w\<close>-th append writes cell \<open>w\<close> of the array the loop is reading (cell \<open>i\<close> next,
  \<open>k\<close> cells to go).
\<close>

fun filter_in_place ::
  "(EvidenceItem \<Rightarrow> bool) \<Rightarrow> nat \<Rightarrow> nat \<Rightarrow> nat \<Rightarrow> EvidenceItem list \<Rightarrow> EvidenceItem list \<times> nat" where
  "filter_in_place P i 0 w arr = (arr, w)"
| "filter_in_place P i (Suc k) w arr =
     (let e = arr ! i
      in if P e then filter_in_place P (Suc i) k (Suc w) (arr[w := e])
         else filter_in_place P (Suc i) k w arr)"

fun filter_slice :: "(EvidenceItem \<Rightarrow> bool) \<Rightarrow> slice \<Rightarrow> EvidenceItem list list \<Rightarrow>
    EvidenceItem list \<times> EvidenceItem list list" where
  "filter_slice P NilSlice store = ([], store)"
| "filter_slice P (Slice a n) store =
     (case filter_in_place P 0 n 0 (store ! a) of (arr, w) \<Rightarrow> (take w arr, store[a := arr]))"

definition GetEvidence ::
  "nat list \<Rightarrow> string \<Rightarrow> string \<Rightarrow> iam_state \<Rightarrow> iam_response \<times> iam_state" where
  "GetEvidence order name type s =
     (case iam_Get name (is_registry s) of
        None \<Rightarrow> (iam_not_found order name s, s)
      | Some cb \<Rightarrow>
          (case iam_LastResult name s of
             None \<Rightarrow> ((202, IamPending), s)
           | Some result \<Rightarrow>
               (case sr_Error result of
                  Some e \<Rightarrow> (sync_failure e, s)
                | None \<Rightarrow>
                    (case (if type \<noteq> []
                           then filter_slice (\<lambda>e. IamEvidenceType_text (ei_EvidenceType e) = type)
                                  (sr_Evidence result) (is_store s)
                           else (slice_list (is_store s) (sr_Evidence result), is_store s)) of
                       (evidence, store) \<Rightarrow>
                         ((200, IamEvidenceBody name (sr_SyncedAt result) evidence (length evidence)),
                          s\<lparr> is_store := store \<rparr>)))))"

definition TriggerSync ::
  "nat list \<Rightarrow> string \<Rightarrow> sync_run \<Rightarrow> iam_state \<Rightarrow> iam_response \<times> iam_state" where
  "TriggerSync order name r s =
     (case iam_Get name (is_registry s) of
        None \<Rightarrow> (iam_not_found order name s, s)
      | Some cb \<Rightarrow>
          (case conn_Sync name r cb s of ((snap, err), s1) \<Rightarrow>
             (case err of
                Some e \<Rightarrow> (sync_failure e, s1)
              | None \<Rightarrow>
                  (case snap of
                     None \<Rightarrow> ((500, IamPanic), s1)
                   | Some sn \<Rightarrow>
                       ((200, IamSynced name (sn_CollectedAt sn) (length (sn_Users sn))
                          (length (MapSnapshotToEvidence sn)) sn), s1)))))"

section \<open>Events\<close>

datatype iam_event =
    EvSync string sync_run
  | EvList "nat list"
  | EvHealth "nat list" string gotime HealthStatus
  | EvEvidence "nat list" string string
  | EvTrigger "nat list" string sync_run

fun iam_step :: "iam_state \<Rightarrow> iam_event \<Rightarrow> iam_response option \<times> iam_state" where
  "iam_step s (EvSync name r) = (None, iam_sync name r s)"
| "iam_step s (EvList order) = (Some (ListIAMConnectors order s), s)"
| "iam_step s (EvHealth order name now st) = map_prod Some id (IAMConnectorHealth order name now st s)"
| "iam_step s (EvEvidence order name type) = map_prod Some id (GetEvidence order name type s)"
| "iam_step s (EvTrigger order name r) = map_prod Some id (TriggerSync order name r s)"

definition iam_run :: "iam_event list \<Rightarrow> iam_state \<Rightarrow> iam_state" where
  "iam_run evs s = foldl (\<lambda>s e. snd (iam_step s e)) s evs"

text \<open>A connector's loop is a run of syncs, one more than the ticks taken before the end.\<close>

fun ticks_taken :: "loop_event list \<Rightarrow> sync_run list" where
  "ticks_taken [] = []"
| "ticks_taken (LoopDone # evs) = []"
| "ticks_taken (LoopTick r # evs) = r # ticks_taken evs"

lemma iam_ticks_run: "iam_ticks name evs s = iam_run (map (EvSync name) (ticks_taken evs)) s"
  unfolding iam_run_def by (induction name evs s rule: iam_ticks.induct) simp_all

lemma iam_runLoop_run:
  "iam_runLoop name r evs s = iam_run (map (EvSync name) (r # ticks_taken evs)) s"
  by (simp add: iam_runLoop_def iam_ticks_run iam_run_def)

section \<open>Filtering in place\<close>

lemma filter_in_place_eq:
  "w \<le> i \<Longrightarrow> i + k \<le> length arr \<Longrightarrow>
   filter_in_place P i k w arr =
     (let fs = filter P (take k (drop i arr))
      in (take w arr @ fs @ drop (w + length fs) arr, w + length fs))"
proof (induction k arbitrary: i w arr)
  case (Suc k)
  let ?e = "arr ! i"
  have i: "i < length arr" and w: "w < length arr" using Suc.prems by auto
  have rest: "drop i arr = ?e # drop (Suc i) arr" using i by (simp add: Cons_nth_drop_Suc)
  show ?case
  proof (cases "P ?e")
    case True
    have same: "drop (Suc i) (arr[w := ?e]) = drop (Suc i) arr"
      using Suc.prems by (simp add: drop_update_cancel)
    have pre: "take (Suc w) (arr[w := ?e]) = take w arr @ [?e]"
      using w by (simp add: take_Suc_conv_app_nth)
    have post: "drop (Suc w + m) (arr[w := ?e]) = drop (Suc w + m) arr" for m
      by (simp add: drop_update_cancel)
    show ?thesis
      using Suc.IH [of "Suc w" "Suc i" "arr[w := ?e]"] Suc.prems True
      by (simp add: Let_def rest same pre post [simplified])
  next
    case False
    then show ?thesis using Suc.IH [of w "Suc i" arr] Suc.prems by (simp add: Let_def rest)
  qed
qed (simp add: Let_def)

definition shift_down :: "(EvidenceItem \<Rightarrow> bool) \<Rightarrow> EvidenceItem list \<Rightarrow> EvidenceItem list" where
  "shift_down P xs = filter P xs @ drop (length (filter P xs)) xs"

lemma shift_down_length [simp]: "length (shift_down P xs) = length xs"
  by (simp add: shift_down_def)

lemma shift_down_set: "set (shift_down P xs) \<subseteq> set xs"
  by (auto simp: shift_down_def dest: in_set_dropD)

text \<open>The array is left as it was exactly when the items kept were already its first ones.\<close>

lemma shift_down_same: "shift_down P xs = xs \<longleftrightarrow> filter P xs = take (length (filter P xs)) xs"
  unfolding shift_down_def by (metis append_eq_conv_conj append_take_drop_id)

lemma filter_slice_eq:
  "length (store ! a) = n \<Longrightarrow>
   filter_slice P (Slice a n) store =
     (filter P (store ! a), store[a := shift_down P (store ! a)])"
  by (simp add: filter_in_place_eq Let_def shift_down_def)

section \<open>The invariant\<close>

text \<open>
  \<open>result_ok\<close>: a stored result carries its connector's name; it has evidence only when the sync
  succeeded with a snapshot, and then as many items as the snapshot gives, each of them one the
  snapshot gives. Two connectors never share an array.
\<close>

definition result_ok :: "EvidenceItem list list \<Rightarrow> string \<Rightarrow> SyncResult \<Rightarrow> bool" where
  "result_ok store n r \<longleftrightarrow> sr_Provider r = n \<and>
     (case sr_Snapshot r of
        None \<Rightarrow> sr_Evidence r = NilSlice
      | Some sn \<Rightarrow> sr_Error r = None \<and>
          (case sr_Evidence r of
             NilSlice \<Rightarrow> MapSnapshotToEvidence sn = []
           | Slice a k \<Rightarrow> a < length store \<and> k = length (store ! a) \<and>
               k = length (MapSnapshotToEvidence sn) \<and>
               set (store ! a) \<subseteq> set (MapSnapshotToEvidence sn)))"

definition iam_inv :: "iam_state \<Rightarrow> bool" where
  "iam_inv s \<longleftrightarrow>
     (\<forall>n r. is_results s n = Some r \<longrightarrow>
        n \<in> fst ` set (is_registry s) \<and> result_ok (is_store s) n r) \<and>
     (\<forall>n r n' r' a k k'. is_results s n = Some r \<longrightarrow> is_results s n' = Some r' \<longrightarrow>
        sr_Evidence r = Slice a k \<longrightarrow> sr_Evidence r' = Slice a k' \<longrightarrow> n = n')"

lemma iam_invI:
  assumes "\<And>n r. is_results s n = Some r \<Longrightarrow> n \<in> fst ` set (is_registry s) \<and> result_ok (is_store s) n r"
    and "\<And>n r n' r' a k k'. is_results s n = Some r \<Longrightarrow> is_results s n' = Some r' \<Longrightarrow>
      sr_Evidence r = Slice a k \<Longrightarrow> sr_Evidence r' = Slice a k' \<Longrightarrow> n = n'"
  shows "iam_inv s"
  unfolding iam_inv_def using assms by (intro conjI allI impI) metis+

lemma iam_inv_new: "iam_inv (iam_NewScheduler reg)"
  by (simp add: iam_inv_def iam_NewScheduler_def)

lemma iam_inv_registry:
  "iam_inv s \<Longrightarrow> iam_inv (s\<lparr> is_registry := AList.update n c (is_registry s) \<rparr>)"
  by (auto simp: iam_inv_def dom_update)

lemma result_ok_append: "result_ok store n r \<Longrightarrow> result_ok (store @ ys) n r"
  by (auto simp: result_ok_def nth_append split: option.splits slice.splits)

lemma shift_cell:
  "length (store[a := shift_down P (store ! a)] ! b) = length (store ! b)"
  "set (store[a := shift_down P (store ! a)] ! b) \<subseteq> set (store ! b)"
proof -
  have "store[a := shift_down P (store ! a)] ! b = shift_down P (store ! b) \<or>
      store[a := shift_down P (store ! a)] ! b = store ! b"
    by (cases "a = b"; cases "a < length store") (simp_all add: list_update_beyond)
  then show "length (store[a := shift_down P (store ! a)] ! b) = length (store ! b)"
      "set (store[a := shift_down P (store ! a)] ! b) \<subseteq> set (store ! b)"
    using shift_down_set [of P "store ! b"] by auto
qed

lemma result_ok_shift:
  assumes ok: "result_ok store n r"
  shows "result_ok (store[a := shift_down P (store ! a)]) n r"
proof (cases "sr_Snapshot r")
  case (Some sn)
  show ?thesis
  proof (cases "sr_Evidence r")
    case (Slice b k)
    then show ?thesis
      using ok Some shift_cell(1) [of store a P b] subset_trans [OF shift_cell(2) [of store a P b]]
      by (simp add: result_ok_def)
  qed (use ok Some in \<open>simp add: result_ok_def\<close>)
qed (use ok in \<open>simp add: result_ok_def\<close>)

lemma result_ok_fresh:
  "new_slice (MapSnapshotToEvidence sn) store = (ev, store') \<Longrightarrow>
   result_ok store' n \<lparr> sr_Provider = n, sr_Snapshot = Some sn, sr_Evidence = ev, sr_Error = None,
     sr_SyncedAt = t \<rparr>"
  by (auto simp: new_slice_def result_ok_def split: if_splits)

lemma result_ok_slice:
  "result_ok store n r \<Longrightarrow> sr_Evidence r = Slice a k \<Longrightarrow> a < length store \<and> length (store ! a) = k"
  by (simp add: result_ok_def split: option.splits)

lemma iam_inv_slice:
  "iam_inv s \<Longrightarrow> is_results s n = Some r \<Longrightarrow> sr_Evidence r = Slice a k \<Longrightarrow>
   a < length (is_store s) \<and> length (is_store s ! a) = k"
  unfolding iam_inv_def using result_ok_slice by blast

lemma iam_inv_apart:
  "iam_inv s \<Longrightarrow> is_results s n = Some r \<Longrightarrow> is_results s n' = Some r' \<Longrightarrow>
   sr_Evidence r = Slice a k \<Longrightarrow> sr_Evidence r' = Slice a k' \<Longrightarrow> n = n'"
  by (simp add: iam_inv_def)

lemma iam_inv_store:
  "iam_inv s \<Longrightarrow> iam_inv (s\<lparr> is_store := (is_store s)[a := shift_down P (is_store s ! a)] \<rparr>)"
  by (simp add: iam_inv_def result_ok_shift)

text \<open>Storing a result: its array is new, or it has none.\<close>

lemma iam_inv_result:
  assumes inv: "iam_inv s" and n: "n \<in> fst ` set (is_registry s)"
    and ok: "result_ok (is_store s @ ys) n r"
    and new: "\<And>a k. sr_Evidence r = Slice a k \<Longrightarrow> length (is_store s) \<le> a"
  shows "iam_inv (s\<lparr> is_store := is_store s @ ys, is_results := (is_results s)(n \<mapsto> r) \<rparr>)"
proof -
  have apart: "n' = n"
    if "is_results s n' = Some r'" "sr_Evidence r' = Slice a k" "sr_Evidence r = Slice a k'" for n' r' a k k'
    using iam_inv_slice [OF inv that(1,2)] new [OF that(3)] by simp
  have apart': "n = n'"
    if "is_results s n' = Some r'" "sr_Evidence r' = Slice a k" "sr_Evidence r = Slice a k'" for n' r' a k k'
    using apart [OF that] by simp
  have all: "m \<in> fst ` set (is_registry s) \<and> result_ok (is_store s @ ys) m q"
    if "((is_results s)(n \<mapsto> r)) m = Some q" for m q
    using that inv n ok by (cases "m = n") (simp_all add: iam_inv_def result_ok_append)
  have same: "m = m'"
    if "((is_results s)(n \<mapsto> r)) m = Some q" "((is_results s)(n \<mapsto> r)) m' = Some q'"
      "sr_Evidence q = Slice a k" "sr_Evidence q' = Slice a k'" for m m' q q' a k k'
  proof (cases "m = n"; cases "m' = n")
    assume "m \<noteq> n" "m' \<noteq> n"
    then have "is_results s m = Some q" "is_results s m' = Some q'" using that(1,2) by simp_all
    then show ?thesis using iam_inv_apart [OF inv _ _ that(3,4)] by simp
  next
    assume "m = n" "m' \<noteq> n"
    then show ?thesis using apart' [of m' q' a k' k] that by simp
  next
    assume "m \<noteq> n" "m' = n"
    then show ?thesis using apart [of m q a k k'] that by simp
  qed simp
  show ?thesis
  proof (rule iam_invI, goal_cases)
    case (1 m q)
    then have "((is_results s)(n \<mapsto> r)) m = Some q" by (simp del: fun_upd_apply)
    from all [OF this] show ?case by simp
  next
    case (2 m q m' q' a k k')
    then have "((is_results s)(n \<mapsto> r)) m = Some q" "((is_results s)(n \<mapsto> r)) m' = Some q'"
      by (simp_all del: fun_upd_apply)
    from same [OF this 2(3,4)] show ?case .
  qed
qed

lemma conn_Sync_cases:
  obtains snap err cb1 where
    "conn_Sync name r cb s = ((snap, err), s\<lparr> is_registry := AList.update name cb1 (is_registry s) \<rparr>)"
  by (cases "icb_Sync (sy_t1 r) (sy_t2 r) (sy_inner r) cb") (auto simp: conn_Sync_def)

lemma iam_inv_sync:
  assumes inv: "iam_inv s"
  shows "iam_inv (iam_sync name r s)"
proof (cases "iam_Get name (is_registry s)")
  case (Some cb)
  note got = Some
  obtain snap err cb1 where c: "conn_Sync name r cb s =
      ((snap, err), s\<lparr> is_registry := AList.update name cb1 (is_registry s) \<rparr>)"
    by (rule conn_Sync_cases)
  let ?s1 = "s\<lparr> is_registry := AList.update name cb1 (is_registry s) \<rparr>"
  have inv1: "iam_inv ?s1" using inv by (rule iam_inv_registry)
  have n: "name \<in> fst ` set (is_registry ?s1)" by (simp add: dom_update)
  show ?thesis
  proof (cases "if err = None then snap else None")
    case None
    then show ?thesis
      using iam_inv_result [OF inv1 n, of "[]" "\<lparr> sr_Provider = name, sr_Snapshot = None,
          sr_Evidence = NilSlice, sr_Error = err, sr_SyncedAt = sy_now r \<rparr>"]
        got c
      by (simp add: iam_sync_def result_ok_def)
  next
    case (Some sn)
    note sn = Some
    obtain ev store where new: "new_slice (MapSnapshotToEvidence sn) (is_store s) = (ev, store)"
      by (cases "new_slice (MapSnapshotToEvidence sn) (is_store s)")
    then obtain ys where ys: "store = is_store s @ ys"
      and fresh: "\<And>a k. ev = Slice a k \<Longrightarrow> length (is_store s) \<le> a"
      by (auto simp: new_slice_def split: if_splits)
    have "iam_inv (?s1\<lparr> is_store := is_store ?s1 @ ys, is_results := (is_results ?s1)(name \<mapsto>
        \<lparr> sr_Provider = name, sr_Snapshot = Some sn, sr_Evidence = ev, sr_Error = None,
          sr_SyncedAt = sy_now r \<rparr>) \<rparr>)"
      by (rule iam_inv_result [OF inv1 n])
        (use result_ok_fresh [OF new, of name "sy_now r"] fresh in \<open>simp_all add: ys\<close>)
    then show ?thesis using got sn c new ys by (simp add: iam_sync_def)
  qed
qed (simp add: iam_sync_def inv)

lemma iam_inv_get:
  assumes inv: "iam_inv s"
  shows "iam_inv (snd (GetEvidence order name type s))"
proof -
  have filtered: "iam_inv (s\<lparr> is_store := store \<rparr>)"
    if r: "is_results s name = Some r"
      and f: "filter_slice P (sr_Evidence r) (is_store s) = (es, store)" for P r es store
  proof (cases "sr_Evidence r")
    case (Slice a k)
    then show ?thesis
      using iam_inv_slice [OF inv r Slice] iam_inv_store [OF inv, of a P] f
        filter_slice_eq [of "is_store s" a k P] by auto
  qed (use f inv in auto)
  then show ?thesis
    using inv by (auto simp: GetEvidence_def iam_LastResult_def split: option.splits prod.splits)
qed

lemma iam_inv_trigger:
  assumes inv: "iam_inv s"
  shows "iam_inv (snd (TriggerSync order name r s))"
proof (cases "iam_Get name (is_registry s)")
  case (Some cb)
  obtain snap err cb1 where c: "conn_Sync name r cb s =
      ((snap, err), s\<lparr> is_registry := AList.update name cb1 (is_registry s) \<rparr>)"
    by (rule conn_Sync_cases)
  show ?thesis using iam_inv_registry [OF inv, of name cb1] Some c
    by (simp add: TriggerSync_def split: option.splits)
qed (simp add: TriggerSync_def inv)

lemma iam_inv_health: "iam_inv s \<Longrightarrow> iam_inv (snd (IAMConnectorHealth order name now st s))"
  by (simp add: IAMConnectorHealth_def iam_inv_registry split: option.splits prod.splits)

lemma iam_inv_step: "iam_inv s \<Longrightarrow> iam_inv (snd (iam_step s e))"
  by (cases e) (simp_all add: iam_inv_sync iam_inv_get iam_inv_trigger iam_inv_health)

lemma iam_inv_run: "iam_inv s \<Longrightarrow> iam_inv (iam_run evs s)"
  unfolding iam_run_def by (induction evs arbitrary: s) (simp_all add: iam_inv_step)

section \<open>What readers see\<close>

lemma reachable_inv: "iam_inv (iam_run evs (iam_NewScheduler reg))"
  by (rule iam_inv_run [OF iam_inv_new])

lemma stored_items:
  assumes "iam_inv s" "is_results s n = Some r"
  shows "n \<in> fst ` set (is_registry s)" "sr_Provider r = n"
    "sr_Snapshot r = None \<Longrightarrow> slice_list (is_store s) (sr_Evidence r) = []"
    "sr_Snapshot r = Some sn \<Longrightarrow> sr_Error r = None \<and>
       length (slice_list (is_store s) (sr_Evidence r)) = length (MapSnapshotToEvidence sn) \<and>
       set (slice_list (is_store s) (sr_Evidence r)) \<subseteq> set (MapSnapshotToEvidence sn)"
proof -
  have ok: "n \<in> fst ` set (is_registry s)" "result_ok (is_store s) n r"
    using assms by (simp_all add: iam_inv_def)
  show "n \<in> fst ` set (is_registry s)" "sr_Provider r = n" using ok by (simp_all add: result_ok_def)
  show "slice_list (is_store s) (sr_Evidence r) = []" if "sr_Snapshot r = None"
    using ok(2) that by (simp add: result_ok_def)
  show "sr_Error r = None \<and>
       length (slice_list (is_store s) (sr_Evidence r)) = length (MapSnapshotToEvidence sn) \<and>
       set (slice_list (is_store s) (sr_Evidence r)) \<subseteq> set (MapSnapshotToEvidence sn)"
    if "sr_Snapshot r = Some sn"
    using ok(2) that by (cases "sr_Evidence r") (simp_all add: result_ok_def)
qed

lemma registered_Get: "n \<in> fst ` set reg \<Longrightarrow> \<exists>cb. iam_Get n reg = Some cb"
  by (cases "map_of reg n") (auto simp: iam_Get_def map_of_eq_None_iff)

lemma GetEvidence_ok:
  assumes inv: "iam_inv s" and r: "is_results s n = Some r" and ok: "sr_Error r = None"
  defines "xs \<equiv> slice_list (is_store s) (sr_Evidence r)"
  shows "GetEvidence order n [] s = ((200, IamEvidenceBody n (sr_SyncedAt r) xs (length xs)), s)"
    "type \<noteq> [] \<Longrightarrow> P = (\<lambda>e. IamEvidenceType_text (ei_EvidenceType e) = type) \<Longrightarrow>
     \<exists>store. GetEvidence order n type s =
       ((200, IamEvidenceBody n (sr_SyncedAt r) (filter P xs) (length (filter P xs))),
        s\<lparr> is_store := store \<rparr>) \<and>
       slice_list store (sr_Evidence r) = shift_down P xs \<and>
       (\<forall>m q. m \<noteq> n \<longrightarrow> is_results s m = Some q \<longrightarrow>
          slice_list store (sr_Evidence q) = slice_list (is_store s) (sr_Evidence q))"
proof -
  obtain cb where cb: "iam_Get n (is_registry s) = Some cb"
    using registered_Get stored_items(1) [OF inv r] by blast
  then show "GetEvidence order n [] s =
      ((200, IamEvidenceBody n (sr_SyncedAt r) xs (length xs)), s)"
    using r ok by (simp add: GetEvidence_def iam_LastResult_def xs_def)
  assume type: "type \<noteq> []" and P: "P = (\<lambda>e. IamEvidenceType_text (ei_EvidenceType e) = type)"
  let ?body = "\<lambda>es. (200, IamEvidenceBody n (sr_SyncedAt r) es (length es))"
  have get: "GetEvidence order n type s =
      (case filter_slice P (sr_Evidence r) (is_store s) of
         (es, store) \<Rightarrow> (?body es, s\<lparr> is_store := store \<rparr>))"
    using cb r ok type by (simp add: GetEvidence_def iam_LastResult_def P)
  show "\<exists>store. GetEvidence order n type s = (?body (filter P xs), s\<lparr> is_store := store \<rparr>) \<and>
       slice_list store (sr_Evidence r) = shift_down P xs \<and>
       (\<forall>m q. m \<noteq> n \<longrightarrow> is_results s m = Some q \<longrightarrow>
          slice_list store (sr_Evidence q) = slice_list (is_store s) (sr_Evidence q))"
  proof (cases "sr_Evidence r")
    case NilSlice
    then show ?thesis using get
      by (intro exI [of _ "is_store s"]) (simp add: xs_def shift_down_def)
  next
    case (Slice a k)
    have a: "a < length (is_store s)" "length (is_store s ! a) = k"
      using iam_inv_slice [OF inv r Slice] by simp_all
    have xs: "xs = is_store s ! a" using a by (simp add: xs_def Slice)
    let ?store = "(is_store s)[a := shift_down P xs]"
    have f: "filter_slice P (sr_Evidence r) (is_store s) = (filter P xs, ?store)"
      using filter_slice_eq [of "is_store s" a k P] a by (simp add: Slice xs)
    have same: "slice_list ?store (sr_Evidence q) = slice_list (is_store s) (sr_Evidence q)"
      if "m \<noteq> n" "is_results s m = Some q" for m q
    proof (cases "sr_Evidence q")
      case (Slice b j)
      then have "b \<noteq> a" using iam_inv_apart [OF inv that(2) r Slice] that(1) \<open>sr_Evidence r = Slice a k\<close> by blast
      then show ?thesis by (simp add: Slice)
    qed simp
    have "slice_list ?store (sr_Evidence r) = shift_down P xs" using a by (simp add: Slice xs)
    then show ?thesis using get f same by (intro exI [of _ ?store]) simp
  qed
qed

text \<open>
  C19. However syncs and requests interleave, what the scheduler keeps for a connector is its own
  last sync's outcome: a failed or empty sync leaves no evidence, not even the evidence of an
  earlier one, and after a successful sync there are as many items as the snapshot gives, every
  one of them an item the snapshot gives, in an array that no other connector's result refers to.
\<close>

theorem iam_stored_evidence_derived:
  assumes "s = iam_run evs (iam_NewScheduler reg)" "is_results s n = Some r"
  shows "n \<in> fst ` set (is_registry s) \<and> sr_Provider r = n \<and>
    (sr_Error r \<noteq> None \<or> sr_Snapshot r = None \<longrightarrow> slice_list (is_store s) (sr_Evidence r) = []) \<and>
    (\<forall>sn. sr_Snapshot r = Some sn \<longrightarrow>
       length (slice_list (is_store s) (sr_Evidence r)) = length (MapSnapshotToEvidence sn) \<and>
       set (slice_list (is_store s) (sr_Evidence r)) \<subseteq> set (MapSnapshotToEvidence sn)) \<and>
    (\<forall>m q a k k'. is_results s m = Some q \<and> m \<noteq> n \<and> sr_Evidence r = Slice a k \<longrightarrow>
       sr_Evidence q \<noteq> Slice a k')"
proof -
  have inv: "iam_inv s" using reachable_inv assms(1) by simp
  then have "is_results s m = Some q \<and> m \<noteq> n \<and> sr_Evidence r = Slice a k \<Longrightarrow> sr_Evidence q \<noteq> Slice a k'"
    for m q a k k'
    using assms(2) unfolding iam_inv_def by metis
  then show ?thesis
    using stored_items [OF inv assms(2)] by (cases "sr_Snapshot r") auto
qed

text \<open>
  C20. Reading evidence of one type damages the evidence kept for that connector. The reader gets
  the items of that type, but the filter writes them to the front of the array the scheduler
  keeps, over whatever was there: every later reader gets as many items as before, those of the
  type twice and the overwritten ones not at all. Nothing changes exactly when the items of the
  type came first. Other connectors' evidence is not touched.
\<close>

theorem iam_filtered_read_overwrites:
  fixes order order' :: "nat list"
  assumes s: "s = iam_run evs (iam_NewScheduler reg)"
    and r: "is_results s n = Some r" "sr_Error r = None" and type: "type \<noteq> []"
  defines "xs \<equiv> slice_list (is_store s) (sr_Evidence r)"
    and "P \<equiv> \<lambda>e. IamEvidenceType_text (ei_EvidenceType e) = type"
    and "s' \<equiv> snd (GetEvidence order n type s)"
  shows "fst (GetEvidence order n type s) =
      (200, IamEvidenceBody n (sr_SyncedAt r) (filter P xs) (length (filter P xs))) \<and>
    fst (GetEvidence order' n [] s) = (200, IamEvidenceBody n (sr_SyncedAt r) xs (length xs)) \<and>
    fst (GetEvidence order' n [] s') =
      (200, IamEvidenceBody n (sr_SyncedAt r)
         (filter P xs @ drop (length (filter P xs)) xs) (length xs)) \<and>
    (fst (GetEvidence order' n [] s') = fst (GetEvidence order' n [] s) \<longleftrightarrow>
      filter P xs = take (length (filter P xs)) xs) \<and>
    (\<forall>m. m \<noteq> n \<longrightarrow> fst (GetEvidence order' m [] s') = fst (GetEvidence order' m [] s))"
proof (intro conjI allI impI)
  have inv: "iam_inv s" using reachable_inv s by simp
  have inv': "iam_inv s'" unfolding s'_def by (rule iam_inv_get [OF inv])
  obtain store where got: "GetEvidence order n type s =
      ((200, IamEvidenceBody n (sr_SyncedAt r) (filter P xs) (length (filter P xs))), s\<lparr> is_store := store \<rparr>)"
    and mine: "slice_list store (sr_Evidence r) = shift_down P xs"
    and others: "\<And>m q. m \<noteq> n \<Longrightarrow> is_results s m = Some q \<Longrightarrow>
      slice_list store (sr_Evidence q) = slice_list (is_store s) (sr_Evidence q)"
    using GetEvidence_ok(2) [OF inv r type, of P order] unfolding xs_def P_def by blast
  have s': "s' = s\<lparr> is_store := store \<rparr>" by (simp add: s'_def got)
  have r': "is_results s' n = Some r" using r s' by simp
  show "fst (GetEvidence order n type s) =
      (200, IamEvidenceBody n (sr_SyncedAt r) (filter P xs) (length (filter P xs)))"
    by (simp add: got)
  show before: "fst (GetEvidence order' n [] s) = (200, IamEvidenceBody n (sr_SyncedAt r) xs (length xs))"
    using GetEvidence_ok(1) [OF inv r] by (simp add: xs_def)
  have after: "fst (GetEvidence order' n [] s') =
      (200, IamEvidenceBody n (sr_SyncedAt r) (shift_down P xs) (length (shift_down P xs)))"
    using GetEvidence_ok(1) [OF inv' r' r(2)] mine s' by simp
  then show "fst (GetEvidence order' n [] s') =
      (200, IamEvidenceBody n (sr_SyncedAt r)
         (filter P xs @ drop (length (filter P xs)) xs) (length xs))"
    by (simp only: shift_down_length) (simp only: shift_down_def)
  show "fst (GetEvidence order' n [] s') = fst (GetEvidence order' n [] s) \<longleftrightarrow>
      filter P xs = take (length (filter P xs)) xs"
    unfolding before after by (simp add: shift_down_same)
  show "fst (GetEvidence order' m [] s') = fst (GetEvidence order' m [] s)" if "m \<noteq> n" for m
    using others [OF that] by (simp add: GetEvidence_def iam_not_found_def iam_LastResult_def s'
        split: option.splits)
qed

section \<open>A lost item\<close>

text \<open>
  A provider with one user without a second factor and one group: after a reader asked for the
  groups, the item that said the user has no second factor is gone.
\<close>

definition demo_user :: IAMUser where
  "demo_user = \<lparr> iu_ID = ''u1'', iu_ExternalID = ''x1'', iu_Email = ''a@b'', iu_DisplayName = ''A'',
     iu_Status = ''active'', iu_CreatedAt = 0, iu_LastLoginAt = None, iu_MFAEnrolled = False,
     iu_MFAFactors = [], iu_Groups = [], iu_AppAssignments = [], iu_Provider = ''okta'' \<rparr>"

definition demo_group :: GroupMembership where
  "demo_group = \<lparr> gm_GroupID = ''g1'', gm_GroupName = ''Admins'', gm_Description = [], gm_MemberIDs = [''x1''] \<rparr>"

definition demo_snapshot :: IAMSnapshot where
  "demo_snapshot = \<lparr> sn_Provider = ''okta'', sn_CollectedAt = 0, sn_Users = [demo_user],
     sn_AccessReviews = [], sn_GroupMemberships = [demo_group], sn_ConditionalPolicies = [],
     sn_SystemLogs = [] \<rparr>"

definition demo_registry :: IAMRegistry where
  "demo_registry = iam_Register ''okta'' (NewIAMCircuitBreaker cb_DefaultConfig) []"

definition demo_run :: sync_run where
  "demo_run = \<lparr> sy_t1 = 1, sy_t2 = 2, sy_now = 3, sy_inner = (Some demo_snapshot, None) \<rparr>"

definition demo_state :: iam_state where
  "demo_state = iam_run [EvSync ''okta'' demo_run] (iam_NewScheduler demo_registry)"

definition demo_result :: SyncResult where
  "demo_result = \<lparr> sr_Provider = ''okta'', sr_Snapshot = Some demo_snapshot, sr_Evidence = Slice 0 3,
     sr_Error = None, sr_SyncedAt = 3 \<rparr>"

lemma demo_evidence: "MapSnapshotToEvidence demo_snapshot =
    mfaEvidenceFromUser 0 demo_user @
      [provisioningEvidenceFromUser 0 demo_user, groupMembershipEvidence ''okta'' 0 demo_group]"
  by (simp add: MapSnapshotToEvidence_def demo_snapshot_def Let_def)

lemma demo_length: "length (MapSnapshotToEvidence demo_snapshot) = 3"
  by (simp add: demo_evidence mfaEvidenceFromUser_def demo_user_def)

lemma demo_state_eq:
  "is_results demo_state ''okta'' = Some demo_result"
  "is_store demo_state = [MapSnapshotToEvidence demo_snapshot]"
proof -
  have "MapSnapshotToEvidence demo_snapshot \<noteq> []" using demo_length by auto
  then show "is_results demo_state ''okta'' = Some demo_result"
    "is_store demo_state = [MapSnapshotToEvidence demo_snapshot]"
    by (simp_all add: demo_state_def iam_run_def iam_NewScheduler_def demo_registry_def iam_sync_def
        iam_Register_def iam_Get_def conn_Sync_def icb_Sync_def icb_maybeHalfOpen_def Let_def
        NewIAMCircuitBreaker_def demo_run_def new_slice_def demo_result_def demo_length)
qed

lemma demo_types:
  "map (\<lambda>e. IamEvidenceType_text (ei_EvidenceType e)) (MapSnapshotToEvidence demo_snapshot) =
     [''mfa_enrollment'', ''user_provisioning'', ''group_membership'']"
  by (simp add: demo_evidence mfaEvidenceFromUser_def provisioningEvidenceFromUser_def
      groupMembershipEvidence_def demo_user_def Let_def)

theorem iam_stored_evidence_derived_witness:
  "length (slice_list (is_store demo_state) (sr_Evidence demo_result)) =
     length (MapSnapshotToEvidence demo_snapshot)"
  using iam_stored_evidence_derived [OF demo_state_def demo_state_eq(1)]
  by (simp add: demo_result_def)

theorem iam_filtered_read_overwrites_witness:
  "fst (GetEvidence [] ''okta'' [] (snd (GetEvidence [] ''okta'' ''group_membership'' demo_state))) \<noteq>
   fst (GetEvidence [] ''okta'' [] demo_state)"
proof -
  let ?P = "\<lambda>e. IamEvidenceType_text (ei_EvidenceType e) = ''group_membership''"
  obtain a b c where abc: "MapSnapshotToEvidence demo_snapshot = [a, b, c]"
    "\<not> ?P a" "\<not> ?P b" "?P c"
    using demo_types by (auto simp: map_eq_Cons_conv)
  have "filter ?P [a, b, c] \<noteq> take (length (filter ?P [a, b, c])) [a, b, c]"
    using abc by auto
  then show ?thesis
    using iam_filtered_read_overwrites
      [OF demo_state_def demo_state_eq(1), of "''group_membership''" "[]" "[]",
       THEN conjunct2, THEN conjunct2, THEN conjunct2, THEN conjunct1]
    by (simp add: demo_state_eq(2) demo_result_def abc(1))
qed

end
