(* ===== verification/IntegrationHttp.thy ===== *)
theory IntegrationHttp
  imports GoText IntegrationBreaker "HOL-Library.AList"
begin

text \<open>
  What the adapters of the integration service share: the types of
  services/integration/internal/connector/connector.go with the registry of connectors, and the way
  every adapter calls its provider over HTTP. The network is a parameter: a function from a request
  and a state of the outside world to an answer and the next state, so that several calls, and
  calls that create something, can be told apart. A request carries the timeout its context was given.
  \<open>json.Unmarshal\<close> into a response type is a parameter too.
\<close>

section \<open>Calls to a provider\<close>

record out_request =
  or_Method :: string
  or_URL :: string
  or_Headers :: "(string \<times> string) list"
  or_Body :: string
  or_Deadline :: "duration option"

text \<open>
  The request cannot be built, the exchange fails, or a response arrives: its status, what was
  read of its body, and the error of the reading if there was one.
\<close>

datatype http_answer =
    BuildError string
  | DoError string
  | Answer int string "string option"

type_synonym 'w net = "out_request \<Rightarrow> 'w \<Rightarrow> http_answer \<times> 'w"

type_synonym 'r unmarshal = "string \<Rightarrow> string + 'r"

text \<open>The texts an adapter puts before the error of each step.\<close>

record fetch_texts =
  ft_Build :: string
  ft_Do :: string
  ft_Read :: string
  ft_Status :: string
  ft_Parse :: string

definition prefix_texts :: "string \<Rightarrow> fetch_texts" where
  "prefix_texts p = \<lparr> ft_Build = p @ ''build request: '', ft_Do = p @ ''request: '',
     ft_Read = p @ ''read body: '', ft_Status = p, ft_Parse = p @ ''parse response: '' \<rparr>"

definition kind_texts :: "string \<Rightarrow> string \<Rightarrow> fetch_texts" where
  "kind_texts p k = \<lparr> ft_Build = p @ ''build '' @ k @ ''request: '', ft_Do = p @ k @ ''request: '',
     ft_Read = p @ ''read '' @ k @ ''body: '', ft_Status = p,
     ft_Parse = p @ ''parse '' @ k @ ''response: '' \<rparr>"

definition plain_texts :: fetch_texts where
  "plain_texts = \<lparr> ft_Build = [], ft_Do = [], ft_Read = [], ft_Status = [], ft_Parse = [] \<rparr>"

definition fetch_json :: "fetch_texts \<Rightarrow> 'r unmarshal \<Rightarrow> http_answer \<Rightarrow> string + 'r" where
  "fetch_json t dec ans =
     (case ans of
        BuildError e \<Rightarrow> Inl (ft_Build t @ e)
      | DoError e \<Rightarrow> Inl (ft_Do t @ e)
      | Answer status body err \<Rightarrow>
          (case err of
             Some e \<Rightarrow> Inl (ft_Read t @ e)
           | None \<Rightarrow>
               if status \<noteq> 200 then Inl (ft_Status t @ ''HTTP '' @ int_text status @ '': '' @ body)
               else (case dec body of Inl e \<Rightarrow> Inl (ft_Parse t @ e) | Inr r \<Rightarrow> Inr r)))"

definition get_request :: "duration option \<Rightarrow> string \<Rightarrow> (string \<times> string) list \<Rightarrow> out_request" where
  "get_request ctx url headers = \<lparr> or_Method = ''GET'', or_URL = url, or_Headers = headers,
     or_Body = [], or_Deadline = ctx \<rparr>"

definition bearer_header :: "string \<Rightarrow> string \<times> string" where
  "bearer_header token = (''Authorization'', ''Bearer '' @ token)"

text \<open>\<open>base64.StdEncoding\<close>, which \<open>Request.SetBasicAuth\<close> uses: the other alphabet, with padding.\<close>

definition base64_std :: "string \<Rightarrow> string" where
  "base64_std s =
     (let e = map (\<lambda>c. if c = CHR ''-'' then CHR ''+'' else if c = CHR ''_'' then CHR ''/'' else c)
                (b64_encode (bytes s))
      in e @ replicate ((4 - length e mod 4) mod 4) (CHR ''=''))"

definition basic_auth :: "string \<Rightarrow> string \<Rightarrow> string \<times> string" where
  "basic_auth user password = (''Authorization'', ''Basic '' @ base64_std (user @ '':'' @ password))"

definition accept_json :: "string \<times> string" where
  "accept_json = (''Accept'', ''application/json'')"

definition content_json :: "string \<times> string" where
  "content_json = (''Content-Type'', ''application/json'')"

text \<open>The health check of every adapter: reachable means an answer below 500.\<close>

definition mock_health :: "string \<Rightarrow> gotime \<Rightarrow> HealthStatus" where
  "mock_health name now = \<lparr> hs_Healthy = True, hs_Connector = name, hs_LastChecked = now,
     hs_Message = ''mock mode: healthy'' \<rparr>"

definition probe_health :: "string \<Rightarrow> gotime \<Rightarrow> http_answer \<Rightarrow> HealthStatus" where
  "probe_health name now ans =
     (case ans of
        BuildError e \<Rightarrow> \<lparr> hs_Healthy = False, hs_Connector = name, hs_LastChecked = now,
          hs_Message = ''failed to build request: '' @ e \<rparr>
      | DoError e \<Rightarrow> \<lparr> hs_Healthy = False, hs_Connector = name, hs_LastChecked = now,
          hs_Message = ''connectivity error: '' @ e \<rparr>
      | Answer status _ _ \<Rightarrow> \<lparr> hs_Healthy = status < 500, hs_Connector = name,
          hs_LastChecked = now, hs_Message = ''HTTP '' @ int_text status \<rparr>)"

lemma fetch_json_ok:
  "fetch_json t dec ans = Inr r \<longleftrightarrow> (\<exists>body. ans = Answer 200 body None \<and> dec body = Inr r)"
  by (auto simp: fetch_json_def split: http_answer.splits option.splits sum.splits if_splits)

lemma map_sum_Inr: "map_sum f g x = Inr y \<longleftrightarrow> (\<exists>z. x = Inr z \<and> y = g z)"
  by (cases x) auto

text \<open>A time that does not parse is Go's zero time.\<close>

definition parse_or_zero :: "(string \<Rightarrow> gotime option) \<Rightarrow> string \<Rightarrow> gotime" where
  "parse_or_zero parse s = (case parse s of None \<Rightarrow> zero_time | Some t \<Rightarrow> t)"

definition minute :: duration where
  "minute = 60 * second"

section \<open>Logs, queries and the registry\<close>

record LogEntry =
  le_Timestamp :: gotime
  le_Source :: string
  le_Severity :: string
  le_EventID :: string
  le_Title :: string
  le_Description :: string
  le_RawData :: "string \<rightharpoonup> string"

record QueryOptions =
  qo_StartTime :: "gotime option"
  qo_EndTime :: "gotime option"
  qo_Limit :: int
  qo_Query :: string

definition no_options :: QueryOptions where
  "no_options = \<lparr> qo_StartTime = None, qo_EndTime = None, qo_Limit = 0, qo_Query = [] \<rparr>"

text \<open>The name a connector gives is the key; registering a second one under it replaces the first.\<close>

type_synonym 'c conn_registry = "(string \<times> 'c) list"

definition conn_Register :: "string \<Rightarrow> 'c \<Rightarrow> 'c conn_registry \<Rightarrow> 'c conn_registry" where
  "conn_Register name c reg = AList.update name c reg"

definition conn_Get :: "string \<Rightarrow> 'c conn_registry \<Rightarrow> 'c option" where
  "conn_Get name reg = map_of reg name"

definition conn_List :: "nat list \<Rightarrow> 'c conn_registry \<Rightarrow> string list" where
  "conn_List order reg = shuffle order (map fst reg)"

lemma conn_Get_Register [simp]:
  "conn_Get n (conn_Register m c reg) = (if n = m then Some c else conn_Get n reg)"
  by (simp add: conn_Get_def conn_Register_def update_conv')

lemma conn_Get_Nil [simp]: "conn_Get n [] = None"
  by (simp add: conn_Get_def)

lemma conn_List_set: "n \<in> set (conn_List order reg) \<longleftrightarrow> conn_Get n reg \<noteq> None"
  by (simp add: conn_List_def conn_Get_def shuffle_set map_of_eq_None_iff)

section \<open>Numbers in identifiers\<close>

text \<open>\<open>%04d\<close> and \<open>%08x\<close> of a number that is not negative.\<close>

definition pad0 :: "nat \<Rightarrow> string \<Rightarrow> string" where
  "pad0 w s = replicate (w - length s) (CHR ''0'') @ s"

definition hex_digit :: "nat \<Rightarrow> char" where
  "hex_digit n = ''0123456789abcdef'' ! (n mod 16)"

fun hex_digits :: "nat \<Rightarrow> string" where
  "hex_digits n = (if n < 16 then [hex_digit n] else hex_digits (n div 16) @ [hex_digit n])"

declare hex_digits.simps [simp del]

lemma hex_digit_inj: "m < 16 \<Longrightarrow> n < 16 \<Longrightarrow> hex_digit m = hex_digit n \<Longrightarrow> m = n"
proof -
  have "\<forall>m\<in>set [0..<16]. \<forall>n\<in>set [0..<16]. hex_digit m = hex_digit n \<longrightarrow> m = n" by code_simp
  then show "m < 16 \<Longrightarrow> n < 16 \<Longrightarrow> hex_digit m = hex_digit n \<Longrightarrow> m = n" by simp
qed

text \<open>Different numbers have different digits, and padding does not confuse them.\<close>

lemma hex_digits_ne [simp]: "hex_digits n \<noteq> []" "[] \<noteq> hex_digits n"
  by (subst hex_digits.simps; simp)+

lemma hex_digits_front: "0 < n \<Longrightarrow> hd (hex_digits n) \<noteq> CHR ''0''"
proof (induction n rule: hex_digits.induct)
  case (1 n)
  show ?case
  proof (cases "n < 16")
    case True
    have "\<forall>n\<in>set [1..<16]. hex_digit n \<noteq> CHR ''0''" by code_simp
    then show ?thesis using True 1(2) by (subst hex_digits.simps) simp
  next
    case False
    then show ?thesis using 1(1) by (subst hex_digits.simps) (simp add: hd_append)
  qed
qed

lemma hex_digits_inj: "hex_digits m = hex_digits n \<Longrightarrow> m = n"
proof (induction m arbitrary: n rule: hex_digits.induct)
  case (1 m)
  have eq: "(if m < 16 then [hex_digit m] else hex_digits (m div 16) @ [hex_digit m]) =
      (if n < 16 then [hex_digit n] else hex_digits (n div 16) @ [hex_digit n])"
    using 1(2) hex_digits.simps [of m] hex_digits.simps [of n] by simp
  have last: "hex_digit m = hex_digit n" using eq by (simp split: if_splits)
  have mods: "m mod 16 = n mod 16"
    using hex_digit_inj [of "m mod 16" "n mod 16"] last by (simp add: hex_digit_def)
  show ?case
  proof (cases "m < 16")
    case True
    then have "n < 16" using eq hex_digits_ne by (auto split: if_splits)
    then show ?thesis using mods True by simp
  next
    case False
    then have n: "\<not> n < 16" using eq hex_digits_ne by (auto split: if_splits)
    then have "hex_digits (m div 16) = hex_digits (n div 16)" using eq False by simp
    then have "m div 16 = n div 16" using 1(1) False by blast
    then show ?thesis using mods by (metis div_mult_mod_eq)
  qed
qed

lemma pad0_hex_inj:
  assumes "0 < m" "0 < n" "pad0 w (hex_digits m) = pad0 w (hex_digits n)"
  shows "m = n"
proof -
  have strip: "dropWhile (\<lambda>c. c = CHR ''0'') (pad0 w (hex_digits k)) = hex_digits k" if "0 < k" for k
  proof (cases "hex_digits k")
    case (Cons c cs)
    then have "c \<noteq> CHR ''0''" using hex_digits_front [OF that] by simp
    then show ?thesis by (simp add: pad0_def Cons dropWhile_append)
  qed simp
  show ?thesis using assms strip hex_digits_inj by metis
qed

end
