(* ===== verification/IamAdapters.thy ===== *)
theory IamAdapters
  imports IamScheduler IntegrationHttp
begin

text \<open>
  The identity provider adapters (services/integration/internal/adapters/okta.go, entraid.go): the
  live sync of each, the snapshot each makes up in mock mode, and the two connectors
  cmd/api/main.go registers behind their breakers. Decoding a response and parsing a time are
  parameters.
\<close>

section \<open>Okta\<close>

record OktaConfig =
  okc_OrgURL :: string
  okc_APIToken :: string
  okc_MockMode :: bool

definition okta_orgBase :: "OktaConfig \<Rightarrow> string" where
  "okta_orgBase cfg = (if okc_OrgURL cfg \<noteq> [] then okc_OrgURL cfg else ''https://your-org.okta.com'')"

definition okta_auth :: "OktaConfig \<Rightarrow> string \<times> string" where
  "okta_auth cfg = (''Authorization'', ''SSWS '' @ okc_APIToken cfg)"

definition oktaStatusToNormal :: "string \<Rightarrow> string" where
  "oktaStatusToNormal status =
     (if status = ''ACTIVE'' then UserStatusActive
      else if status \<in> {''INACTIVE'', ''RECOVERY'', ''LOCKED_OUT''} then UserStatusInactive
      else if status = ''SUSPENDED'' then UserStatusSuspended
      else if status = ''DEPROVISIONED'' then UserStatusDeprovisioned
      else UserStatusInactive)"

record okta_user =
  ou_ID :: string
  ou_Status :: string
  ou_Login :: string
  ou_Email :: string
  ou_FirstName :: string
  ou_LastName :: string
  ou_Created :: string
  ou_LastLogin :: string

text \<open>What the literal leaves out is Go's zero value: not enrolled, no factors, groups or apps.\<close>

definition okta_iam_user :: "(string \<Rightarrow> gotime option) \<Rightarrow> okta_user \<Rightarrow> IAMUser" where
  "okta_iam_user parse u =
     \<lparr> iu_ID = ''okta-'' @ ou_ID u, iu_ExternalID = ou_ID u, iu_Email = ou_Email u,
       iu_DisplayName = ou_FirstName u @ '' '' @ ou_LastName u,
       iu_Status = oktaStatusToNormal (ou_Status u), iu_CreatedAt = parse_or_zero parse (ou_Created u),
       iu_LastLoginAt = (if ou_LastLogin u = [] then None else parse (ou_LastLogin u)),
       iu_MFAEnrolled = False, iu_MFAFactors = [], iu_Groups = [], iu_AppAssignments = [],
       iu_Provider = ''okta'' \<rparr>"

definition okta_fetchUsers ::
  "'w net \<Rightarrow> okta_user list unmarshal \<Rightarrow> (string \<Rightarrow> gotime option) \<Rightarrow> duration option \<Rightarrow> OktaConfig \<Rightarrow> 'w \<Rightarrow>
   (string + IAMUser list) \<times> 'w" where
  "okta_fetchUsers net dec parse ctx cfg w =
     (let url = okta_orgBase cfg @ ''/api/v1/users?limit=200&filter=status+eq+'' @ [CHR 0x22] @ ''ACTIVE'' @
            [CHR 0x22]
      in case net (get_request ctx url [okta_auth cfg, accept_json]) w of
           (ans, w1) \<Rightarrow> (map_sum id (map (okta_iam_user parse)) (fetch_json plain_texts dec ans), w1))"

record okta_event =
  oe_UUID :: string
  oe_Published :: string
  oe_EventType :: string
  oe_Severity :: string
  oe_ActorID :: string
  oe_AlternateID :: string
  oe_Target :: "(string \<times> string) list"
  oe_Result :: string

definition okta_log :: "(string \<Rightarrow> gotime option) \<Rightarrow> okta_event \<Rightarrow> SystemLogEvent" where
  "okta_log parse e =
     (case (case oe_Target e of [] \<Rightarrow> ([], []) | t # _ \<Rightarrow> t) of (targetID, targetType) \<Rightarrow>
        \<lparr> sl_EventID = oe_UUID e, sl_PublishedAt = parse_or_zero parse (oe_Published e),
          sl_EventType = oe_EventType e, sl_Severity = oe_Severity e, sl_ActorID = oe_ActorID e,
          sl_ActorEmail = oe_AlternateID e, sl_TargetID = targetID, sl_TargetType = targetType,
          sl_Outcome = oe_Result e \<rparr>)"

definition okta_fetchSystemLogs ::
  "'w net \<Rightarrow> okta_event list unmarshal \<Rightarrow> (string \<Rightarrow> gotime option) \<Rightarrow> duration option \<Rightarrow> OktaConfig \<Rightarrow> 'w \<Rightarrow>
   (string + SystemLogEvent list) \<times> 'w" where
  "okta_fetchSystemLogs net dec parse ctx cfg w =
     (case net (get_request ctx (okta_orgBase cfg @ ''/api/v1/logs?limit=100&sortOrder=DESCENDING'')
                 [okta_auth cfg, accept_json]) w of
        (ans, w1) \<Rightarrow> (map_sum id (map (okta_log parse)) (fetch_json plain_texts dec ans), w1))"

record iam_lib =
  il_okta_users :: "okta_user list unmarshal"
  il_okta_logs :: "okta_event list unmarshal"
  il_time :: "string \<Rightarrow> gotime option"

definition okta_fetchFromAPI ::
  "'x iam_lib_scheme \<Rightarrow> 'w net \<Rightarrow> gotime \<Rightarrow> duration option \<Rightarrow> OktaConfig \<Rightarrow> 'w \<Rightarrow> (string + IAMSnapshot) \<times> 'w" where
  "okta_fetchFromAPI L net now ctx cfg w =
     (case okta_fetchUsers net (il_okta_users L) (il_time L) ctx cfg w of
        (Inl e, w1) \<Rightarrow> (Inl (''okta: fetch users: '' @ e), w1)
      | (Inr users, w1) \<Rightarrow>
          (case okta_fetchSystemLogs net (il_okta_logs L) (il_time L) ctx cfg w1 of
             (Inl e, w2) \<Rightarrow> (Inl (''okta: fetch system logs: '' @ e), w2)
           | (Inr logs, w2) \<Rightarrow>
               (Inr \<lparr> sn_Provider = ''okta'', sn_CollectedAt = now, sn_Users = users,
                  sn_AccessReviews = [], sn_GroupMemberships = [], sn_ConditionalPolicies = [],
                  sn_SystemLogs = logs \<rparr>, w2)))"

definition okta_mock_users :: "gotime \<Rightarrow> IAMUser list" where
  "okta_mock_users now = [
     \<lparr> iu_ID = ''okta-user-001'', iu_ExternalID = ''okta-001-eve'', iu_Email = ''eve@example.com'',
       iu_DisplayName = ''Eve Martinez'', iu_Status = UserStatusActive, iu_CreatedAt = now - days 200,
       iu_LastLoginAt = Some (now - days 1), iu_MFAEnrolled = True,
       iu_MFAFactors = [\<lparr> mf_ID = ''okta-factor-001'', mf_Type = ''push'', mf_Status = ''active'', mf_Provider = ''okta'' \<rparr>,
         \<lparr> mf_ID = ''okta-factor-002'', mf_Type = ''totp'', mf_Status = ''active'', mf_Provider = ''okta'' \<rparr>],
       iu_Groups = [''developers'', ''all-users''],
       iu_AppAssignments = [\<lparr> aa_AppID = ''okta-app-001'', aa_AppName = ''Slack'', aa_Status = ''active'' \<rparr>,
         \<lparr> aa_AppID = ''okta-app-002'', aa_AppName = ''Jira'', aa_Status = ''active'' \<rparr>],
       iu_Provider = ''okta'' \<rparr>,
     \<lparr> iu_ID = ''okta-user-002'', iu_ExternalID = ''okta-002-frank'', iu_Email = ''frank@example.com'',
       iu_DisplayName = ''Frank Wilson'', iu_Status = UserStatusActive, iu_CreatedAt = now - days 100,
       iu_LastLoginAt = Some (now - days 45), iu_MFAEnrolled = True,
       iu_MFAFactors = [\<lparr> mf_ID = ''okta-factor-003'', mf_Type = ''sms'', mf_Status = ''active'', mf_Provider = ''okta'' \<rparr>],
       iu_Groups = [''all-users''],
       iu_AppAssignments = [\<lparr> aa_AppID = ''okta-app-001'', aa_AppName = ''Slack'', aa_Status = ''active'' \<rparr>],
       iu_Provider = ''okta'' \<rparr>,
     \<lparr> iu_ID = ''okta-user-003'', iu_ExternalID = ''okta-003-grace'', iu_Email = ''grace@example.com'',
       iu_DisplayName = ''Grace Lee'', iu_Status = UserStatusSuspended, iu_CreatedAt = now - days 600,
       iu_LastLoginAt = Some (now - days 45), iu_MFAEnrolled = False,
       iu_MFAFactors = [],
       iu_Groups = [''all-users''],
       iu_AppAssignments = [\<lparr> aa_AppID = ''okta-app-003'', aa_AppName = ''AWS SSO'', aa_Status = ''active'' \<rparr>],
       iu_Provider = ''okta'' \<rparr>,
     \<lparr> iu_ID = ''okta-user-004'', iu_ExternalID = ''okta-004-henry'', iu_Email = ''henry@example.com'',
       iu_DisplayName = ''Henry Brown'', iu_Status = UserStatusActive, iu_CreatedAt = now - days 14,
       iu_LastLoginAt = None, iu_MFAEnrolled = False,
       iu_MFAFactors = [],
       iu_Groups = [''all-users''],
       iu_AppAssignments = [\<lparr> aa_AppID = ''okta-app-001'', aa_AppName = ''Slack'', aa_Status = ''active'' \<rparr>],
       iu_Provider = ''okta'' \<rparr>]"

definition okta_mock_logs :: "gotime \<Rightarrow> SystemLogEvent list" where
  "okta_mock_logs now = [
     \<lparr> sl_EventID = ''okta-log-001'', sl_PublishedAt = now - 1 * 3600 * second, sl_EventType = ''user.authentication.auth_via_mfa'',
       sl_Severity = ''INFO'', sl_ActorID = ''okta-001-eve'', sl_ActorEmail = ''eve@example.com'',
       sl_TargetID = ''okta-app-001'', sl_TargetType = ''AppInstance'', sl_Outcome = ''SUCCESS'' \<rparr>,
     \<lparr> sl_EventID = ''okta-log-002'', sl_PublishedAt = now - 2 * 3600 * second, sl_EventType = ''user.session.start'',
       sl_Severity = ''INFO'', sl_ActorID = ''okta-002-frank'', sl_ActorEmail = ''frank@example.com'',
       sl_TargetID = [], sl_TargetType = [], sl_Outcome = ''SUCCESS'' \<rparr>,
     \<lparr> sl_EventID = ''okta-log-003'', sl_PublishedAt = now - 3 * 3600 * second, sl_EventType = ''user.authentication.sso'',
       sl_Severity = ''WARN'', sl_ActorID = ''okta-003-grace'', sl_ActorEmail = ''grace@example.com'',
       sl_TargetID = ''okta-app-003'', sl_TargetType = ''AppInstance'', sl_Outcome = ''FAILURE'' \<rparr>,
     \<lparr> sl_EventID = ''okta-log-004'', sl_PublishedAt = now - 4 * 3600 * second, sl_EventType = ''user.account.lock'',
       sl_Severity = ''ERROR'', sl_ActorID = ''system'', sl_ActorEmail = ''system'',
       sl_TargetID = ''okta-003-grace'', sl_TargetType = ''User'', sl_Outcome = ''SUCCESS'' \<rparr>,
     \<lparr> sl_EventID = ''okta-log-005'', sl_PublishedAt = now - 5 * 3600 * second, sl_EventType = ''policy.evaluate_sign_on'',
       sl_Severity = ''INFO'', sl_ActorID = ''okta-001-eve'', sl_ActorEmail = ''eve@example.com'',
       sl_TargetID = ''okta-app-002'', sl_TargetType = ''AppInstance'', sl_Outcome = ''ALLOW'' \<rparr>]"

definition okta_mockSnapshot :: "gotime \<Rightarrow> IAMSnapshot" where
  "okta_mockSnapshot now = \<lparr> sn_Provider = ''okta'', sn_CollectedAt = now,
     sn_Users = okta_mock_users now, sn_AccessReviews = [], sn_GroupMemberships = [],
     sn_ConditionalPolicies = [], sn_SystemLogs = okta_mock_logs now \<rparr>"

definition okta_Sync ::
  "'x iam_lib_scheme \<Rightarrow> 'w net \<Rightarrow> gotime \<Rightarrow> duration option \<Rightarrow> OktaConfig \<Rightarrow> 'w \<Rightarrow> (string + IAMSnapshot) \<times> 'w" where
  "okta_Sync L net now ctx cfg w =
     (if okc_MockMode cfg then (Inr (okta_mockSnapshot now), w) else okta_fetchFromAPI L net now ctx cfg w)"

definition okta_Health ::
  "'w net \<Rightarrow> gotime \<Rightarrow> duration option \<Rightarrow> OktaConfig \<Rightarrow> 'w \<Rightarrow> HealthStatus \<times> 'w" where
  "okta_Health net now ctx cfg w =
     (if okc_MockMode cfg then (mock_health ''okta'' now, w)
      else case net (get_request ctx (okta_orgBase cfg @ ''/api/v1/org'') [okta_auth cfg]) w of
             (ans, w1) \<Rightarrow> (probe_health ''okta'' now ans, w1))"

section \<open>Entra ID\<close>

record EntraIDConfig =
  enc_TenantID :: string
  enc_ClientID :: string
  enc_ClientSecret :: string
  enc_BaseURL :: string
  enc_MockMode :: bool

definition entra_graphBase :: "EntraIDConfig \<Rightarrow> string" where
  "entra_graphBase cfg = (if enc_BaseURL cfg \<noteq> [] then enc_BaseURL cfg else ''https://graph.microsoft.com'')"

definition entra_get :: "duration option \<Rightarrow> EntraIDConfig \<Rightarrow> string \<Rightarrow> out_request" where
  "entra_get ctx cfg path = get_request ctx (entra_graphBase cfg @ path) [accept_json]"

record entra_user =
  eu_ID :: string
  eu_DisplayName :: string
  eu_Mail :: string
  eu_AccountEnabled :: bool
  eu_CreatedDateTime :: string

definition entra_iam_user :: "(string \<Rightarrow> gotime option) \<Rightarrow> entra_user \<Rightarrow> IAMUser" where
  "entra_iam_user parse u =
     \<lparr> iu_ID = ''entraid-'' @ eu_ID u, iu_ExternalID = eu_ID u, iu_Email = eu_Mail u,
       iu_DisplayName = eu_DisplayName u,
       iu_Status = (if eu_AccountEnabled u then UserStatusActive else UserStatusInactive),
       iu_CreatedAt = parse_or_zero parse (eu_CreatedDateTime u), iu_LastLoginAt = None,
       iu_MFAEnrolled = False, iu_MFAFactors = [], iu_Groups = [], iu_AppAssignments = [],
       iu_Provider = ''entraid'' \<rparr>"

definition entra_fetchUsers ::
  "'w net \<Rightarrow> entra_user list unmarshal \<Rightarrow> (string \<Rightarrow> gotime option) \<Rightarrow> duration option \<Rightarrow> EntraIDConfig \<Rightarrow> 'w \<Rightarrow>
   (string + IAMUser list) \<times> 'w" where
  "entra_fetchUsers net dec parse ctx cfg w =
     (case net (entra_get ctx cfg ''/v1.0/users?$select=id,displayName,mail,accountEnabled,createdDateTime'') w of
        (ans, w1) \<Rightarrow> (map_sum id (map (entra_iam_user parse)) (fetch_json plain_texts dec ans), w1))"

text \<open>The response is closed unread, whatever its status.\<close>

definition entra_fetchAccessReviews ::
  "'w net \<Rightarrow> duration option \<Rightarrow> EntraIDConfig \<Rightarrow> 'w \<Rightarrow> (string + AccessReview list) \<times> 'w" where
  "entra_fetchAccessReviews net ctx cfg w =
     (case net (entra_get ctx cfg ''/v1.0/identityGovernance/accessReviews/definitions?$top=50'') w of
        (ans, w1) \<Rightarrow>
          ((case ans of BuildError e \<Rightarrow> Inl e | DoError e \<Rightarrow> Inl e | Answer status body err \<Rightarrow> Inr []), w1))"

definition entra_group :: "string \<times> string \<times> string \<Rightarrow> GroupMembership" where
  "entra_group = (\<lambda>(n, name, description).
     \<lparr> gm_GroupID = n, gm_GroupName = name, gm_Description = description, gm_MemberIDs = [] \<rparr>)"

definition entra_fetchGroups ::
  "'w net \<Rightarrow> (string \<times> string \<times> string) list unmarshal \<Rightarrow> duration option \<Rightarrow> EntraIDConfig \<Rightarrow> 'w \<Rightarrow>
   (string + GroupMembership list) \<times> 'w" where
  "entra_fetchGroups net dec ctx cfg w =
     (case net (entra_get ctx cfg ''/v1.0/groups?$select=id,displayName,description&$top=100'') w of
        (ans, w1) \<Rightarrow> (map_sum id (map entra_group) (fetch_json plain_texts dec ans), w1))"

record entra_policy =
  ep_policy_ID :: string
  ep_policy_DisplayName :: string
  ep_policy_State :: string
  ep_policy_BuiltInControls :: "string list"

definition entra_cap :: "entra_policy \<Rightarrow> ConditionalAccessPolicy" where
  "entra_cap p = \<lparr> ca_ID = ep_policy_ID p, ca_DisplayName = ep_policy_DisplayName p,
     ca_State = ep_policy_State p, ca_GrantControls = ep_policy_BuiltInControls p, ca_Metadata = Map.empty \<rparr>"

definition entra_fetchConditionalAccessPolicies ::
  "'w net \<Rightarrow> entra_policy list unmarshal \<Rightarrow> duration option \<Rightarrow> EntraIDConfig \<Rightarrow> 'w \<Rightarrow>
   (string + ConditionalAccessPolicy list) \<times> 'w" where
  "entra_fetchConditionalAccessPolicies net dec ctx cfg w =
     (case net (entra_get ctx cfg ''/v1.0/identity/conditionalAccess/policies'') w of
        (ans, w1) \<Rightarrow> (map_sum id (map entra_cap) (fetch_json plain_texts dec ans), w1))"

record entra_lib = iam_lib +
  il_entra_users :: "entra_user list unmarshal"
  il_entra_groups :: "(string \<times> string \<times> string) list unmarshal"
  il_entra_policies :: "entra_policy list unmarshal"

definition entra_fetchFromAPI ::
  "entra_lib \<Rightarrow> 'w net \<Rightarrow> gotime \<Rightarrow> duration option \<Rightarrow> EntraIDConfig \<Rightarrow> 'w \<Rightarrow> (string + IAMSnapshot) \<times> 'w" where
  "entra_fetchFromAPI L net now ctx cfg w =
     (case entra_fetchUsers net (il_entra_users L) (il_time L) ctx cfg w of
        (Inl e, w1) \<Rightarrow> (Inl (''entraid: fetch users: '' @ e), w1)
      | (Inr users, w1) \<Rightarrow>
     (case entra_fetchAccessReviews net ctx cfg w1 of
        (Inl e, w2) \<Rightarrow> (Inl (''entraid: fetch access reviews: '' @ e), w2)
      | (Inr reviews, w2) \<Rightarrow>
     (case entra_fetchGroups net (il_entra_groups L) ctx cfg w2 of
        (Inl e, w3) \<Rightarrow> (Inl (''entraid: fetch groups: '' @ e), w3)
      | (Inr groups, w3) \<Rightarrow>
     (case entra_fetchConditionalAccessPolicies net (il_entra_policies L) ctx cfg w3 of
        (Inl e, w4) \<Rightarrow> (Inl (''entraid: fetch conditional access policies: '' @ e), w4)
      | (Inr policies, w4) \<Rightarrow>
          (Inr \<lparr> sn_Provider = ''entraid'', sn_CollectedAt = now, sn_Users = users,
             sn_AccessReviews = reviews, sn_GroupMemberships = groups,
             sn_ConditionalPolicies = policies, sn_SystemLogs = [] \<rparr>, w4)))))"

definition entra_mock_users :: "gotime \<Rightarrow> IAMUser list" where
  "entra_mock_users now = [
     \<lparr> iu_ID = ''entraid-user-001'', iu_ExternalID = ''aad-001-alice'', iu_Email = ''alice@example.com'',
       iu_DisplayName = ''Alice Johnson'', iu_Status = UserStatusActive, iu_CreatedAt = now - days 365,
       iu_LastLoginAt = Some (now - days 7), iu_MFAEnrolled = True,
       iu_MFAFactors = [\<lparr> mf_ID = ''aad-factor-001'', mf_Type = ''fido2'', mf_Status = ''active'', mf_Provider = ''entraid'' \<rparr>,
         \<lparr> mf_ID = ''aad-factor-002'', mf_Type = ''totp'', mf_Status = ''active'', mf_Provider = ''entraid'' \<rparr>],
       iu_Groups = [''Engineering'', ''Admins''],
       iu_AppAssignments = [],
       iu_Provider = ''entraid'' \<rparr>,
     \<lparr> iu_ID = ''entraid-user-002'', iu_ExternalID = ''aad-002-bob'', iu_Email = ''bob@example.com'',
       iu_DisplayName = ''Bob Smith'', iu_Status = UserStatusActive, iu_CreatedAt = now - days 180,
       iu_LastLoginAt = Some (now - days 7), iu_MFAEnrolled = True,
       iu_MFAFactors = [\<lparr> mf_ID = ''aad-factor-003'', mf_Type = ''sms'', mf_Status = ''active'', mf_Provider = ''entraid'' \<rparr>],
       iu_Groups = [''Engineering''],
       iu_AppAssignments = [],
       iu_Provider = ''entraid'' \<rparr>,
     \<lparr> iu_ID = ''entraid-user-003'', iu_ExternalID = ''aad-003-charlie'', iu_Email = ''charlie@example.com'',
       iu_DisplayName = ''Charlie Brown'', iu_Status = UserStatusInactive, iu_CreatedAt = now - days 500,
       iu_LastLoginAt = Some (now - days 400), iu_MFAEnrolled = False,
       iu_MFAFactors = [],
       iu_Groups = [],
       iu_AppAssignments = [\<lparr> aa_AppID = ''app-001'', aa_AppName = ''GitHub Enterprise'', aa_Status = ''active'' \<rparr>],
       iu_Provider = ''entraid'' \<rparr>,
     \<lparr> iu_ID = ''entraid-user-004'', iu_ExternalID = ''aad-004-diana'', iu_Email = ''diana@example.com'',
       iu_DisplayName = ''Diana Prince'', iu_Status = UserStatusActive, iu_CreatedAt = now - days 30,
       iu_LastLoginAt = None, iu_MFAEnrolled = False,
       iu_MFAFactors = [],
       iu_Groups = [],
       iu_AppAssignments = [],
       iu_Provider = ''entraid'' \<rparr>]"

definition entra_mock_reviews :: "gotime \<Rightarrow> AccessReview list" where
  "entra_mock_reviews now = [
     \<lparr> ar_ID = ''review-001'', ar_ReviewerID = ''aad-001-alice'', ar_ResourceID = ''app-001'', ar_Decision = ''deny'',
       ar_Justification = ''User no longer needs access'', ar_CompletedAt = now - 48 * 3600 * second \<rparr>,
     \<lparr> ar_ID = ''review-002'', ar_ReviewerID = ''aad-001-alice'', ar_ResourceID = ''app-002'', ar_Decision = ''approve'',
       ar_Justification = [], ar_CompletedAt = now - 24 * 3600 * second \<rparr>]"

definition entra_mock_groups :: "GroupMembership list" where
  "entra_mock_groups = [
     \<lparr> gm_GroupID = ''grp-001'', gm_GroupName = ''Engineering'', gm_Description = ''Engineering team'',
       gm_MemberIDs = [''aad-001-alice'', ''aad-002-bob''] \<rparr>,
     \<lparr> gm_GroupID = ''grp-002'', gm_GroupName = ''Admins'', gm_Description = ''Platform administrators'',
       gm_MemberIDs = [''aad-001-alice''] \<rparr>,
     \<lparr> gm_GroupID = ''grp-003'', gm_GroupName = ''Finance'', gm_Description = ''Finance department'',
       gm_MemberIDs = [] \<rparr>]"

definition entra_mock_policies :: "ConditionalAccessPolicy list" where
  "entra_mock_policies = [
     \<lparr> ca_ID = ''cap-001'', ca_DisplayName = ''Require MFA for All Users'', ca_State = ''enabled'',
       ca_GrantControls = [''mfa''], ca_Metadata = Map.empty \<rparr>,
     \<lparr> ca_ID = ''cap-002'', ca_DisplayName = ''Block Legacy Authentication'', ca_State = ''enabled'',
       ca_GrantControls = [''block''], ca_Metadata = Map.empty \<rparr>,
     \<lparr> ca_ID = ''cap-003'', ca_DisplayName = ''Require Compliant Device for Admins'', ca_State = ''enabledForReportingButNotEnforced'',
       ca_GrantControls = [''compliantDevice'', ''mfa''], ca_Metadata = Map.empty \<rparr>]"

definition entra_mockSnapshot :: "gotime \<Rightarrow> IAMSnapshot" where
  "entra_mockSnapshot now = \<lparr> sn_Provider = ''entraid'', sn_CollectedAt = now,
     sn_Users = entra_mock_users now, sn_AccessReviews = entra_mock_reviews now,
     sn_GroupMemberships = entra_mock_groups, sn_ConditionalPolicies = entra_mock_policies,
     sn_SystemLogs = [] \<rparr>"

definition entra_Sync ::
  "entra_lib \<Rightarrow> 'w net \<Rightarrow> gotime \<Rightarrow> duration option \<Rightarrow> EntraIDConfig \<Rightarrow> 'w \<Rightarrow> (string + IAMSnapshot) \<times> 'w" where
  "entra_Sync L net now ctx cfg w =
     (if enc_MockMode cfg then (Inr (entra_mockSnapshot now), w) else entra_fetchFromAPI L net now ctx cfg w)"

definition entra_Health ::
  "'w net \<Rightarrow> gotime \<Rightarrow> duration option \<Rightarrow> EntraIDConfig \<Rightarrow> 'w \<Rightarrow> HealthStatus \<times> 'w" where
  "entra_Health net now ctx cfg w =
     (if enc_MockMode cfg then (mock_health ''entraid'' now, w)
      else case net (get_request ctx (entra_graphBase cfg @ ''/v1.0/organization'') []) w of
             (ans, w1) \<Rightarrow> (probe_health ''entraid'' now ans, w1))"

section \<open>The registered connectors\<close>

datatype iam_adapter = EntraConn EntraIDConfig | OktaConn OktaConfig

definition iam_adapters :: "(string \<Rightarrow> string) \<Rightarrow> (string \<times> iam_adapter) list" where
  "iam_adapters getenv =
     (let mock = getenv ''MOCK_MODE'' \<noteq> ''false''
      in [(''entraid'', EntraConn \<lparr> enc_TenantID = getenv ''AZURE_TENANT_ID'',
             enc_ClientID = getenv ''AZURE_CLIENT_ID'', enc_ClientSecret = getenv ''AZURE_CLIENT_SECRET'',
             enc_BaseURL = [], enc_MockMode = mock \<rparr>),
          (''okta'', OktaConn \<lparr> okc_OrgURL = getenv ''OKTA_ORG_URL'',
             okc_APIToken = getenv ''OKTA_API_TOKEN'', okc_MockMode = mock \<rparr>)])"

definition iam_main :: "(string \<Rightarrow> string) \<Rightarrow> IAMRegistry" where
  "iam_main getenv = foldl (\<lambda>reg (name, a). iam_Register name (NewIAMCircuitBreaker cb_DefaultConfig) reg) []
     (iam_adapters getenv)"

definition iam_adapter_Sync ::
  "entra_lib \<Rightarrow> 'w net \<Rightarrow> gotime \<Rightarrow> duration option \<Rightarrow> iam_adapter \<Rightarrow> 'w \<Rightarrow> (string + IAMSnapshot) \<times> 'w" where
  "iam_adapter_Sync L net now ctx a w =
     (case a of EntraConn cfg \<Rightarrow> entra_Sync L net now ctx cfg w | OktaConn cfg \<Rightarrow> okta_Sync L net now ctx cfg w)"

fun iam_live :: "iam_adapter \<Rightarrow> bool" where
  "iam_live (EntraConn cfg) \<longleftrightarrow> \<not> enc_MockMode cfg"
| "iam_live (OktaConn cfg) \<longleftrightarrow> \<not> okc_MockMode cfg"


section \<open>What a live sync cannot see\<close>

text \<open>A user of whom the adapter knows no factor.\<close>

lemma unenrolled_items:
  "\<not> iu_MFAEnrolled u \<Longrightarrow>
   map (\<lambda>i. (ei_SubjectID i, ei_Severity i, ei_QualityScore i)) (mfaEvidenceFromUser t u) =
     [(iu_ExternalID u, ''critical'', 0)]"
  by (simp add: mfaEvidenceFromUser_def severity_of_scores)

lemma mfa_types: "list_all (\<lambda>i. ei_EvidenceType i = EvidenceTypeMFAEnrollment) (mfaEvidenceFromUser t u)"
  by (simp add: mfaEvidenceFromUser_def Let_def list_all_iff)

lemma other_types:
  "ei_EvidenceType (provisioningEvidenceFromUser t u) = EvidenceTypeUserProvisioning"
  "ei_EvidenceType (accessReviewEvidence p t ar) = EvidenceTypeAccessReview"
  "ei_EvidenceType (groupMembershipEvidence p t gm) = EvidenceTypeGroupMembership"
  "ei_EvidenceType (conditionalAccessEvidence p t cap) = EvidenceTypeConditionalAccess"
  "ei_EvidenceType (systemLogEvidence p t sl) = EvidenceTypeSystemLog"
  by (simp_all add: provisioningEvidenceFromUser_def accessReviewEvidence_def groupMembershipEvidence_def
      conditionalAccessEvidence_def systemLogEvidence_def Let_def split: prod.splits)

lemma snapshot_mfa_items:
  "filter (\<lambda>i. ei_EvidenceType i = EvidenceTypeMFAEnrollment) (MapSnapshotToEvidence sn) =
   concat (map (mfaEvidenceFromUser (sn_CollectedAt sn)) (sn_Users sn))"
proof -
  have user: "filter (\<lambda>i. ei_EvidenceType i = EvidenceTypeMFAEnrollment)
      (mfaEvidenceFromUser t u) = mfaEvidenceFromUser t u" for t u
    using mfa_types [of t u] by (simp add: list_all_iff filter_id_conv)
  show ?thesis
    by (simp add: MapSnapshotToEvidence_def Let_def filter_concat comp_def user
        other_types filter_map)
qed

lemma live_users:
  assumes "iam_live a" "iam_adapter_Sync L net now ctx a w = (Inr sn, w')"
  shows "list_all (\<lambda>u. \<not> iu_MFAEnrolled u) (sn_Users sn)" "sn_AccessReviews sn = []"
    "(\<exists>cfg. a = EntraConn cfg) \<Longrightarrow>
       list_all (\<lambda>u. iu_LastLoginAt u = None \<and> iu_AppAssignments u = []) (sn_Users sn)"
    "list_all (\<lambda>g. gm_MemberIDs g = []) (sn_GroupMemberships sn)"
  using assms
  by (cases a; auto simp: iam_adapter_Sync_def okta_Sync_def okta_fetchFromAPI_def okta_fetchUsers_def
      okta_iam_user_def entra_Sync_def entra_fetchFromAPI_def entra_fetchUsers_def
      entra_fetchAccessReviews_def entra_fetchGroups_def entra_iam_user_def entra_group_def
      map_sum_Inr list_all_iff Let_def split: prod.splits sum.splits http_answer.splits)+

text \<open>
  C21. The evidence of a live sync says the same of everybody. Neither adapter asks for
  authentication factors, so every user gets exactly one item on them, of critical severity and
  score 0, that says there are none; there is never an item on an access review; a group's item
  counts no members; and as Entra ID is not asked for logins either, every Entra user's
  provisioning item is of high severity.
\<close>

theorem iam_live_evidence_blind:
  assumes "iam_live a" "iam_adapter_Sync L net now ctx a w = (Inr sn, w')"
  shows "map (\<lambda>i. (ei_SubjectID i, ei_Severity i, ei_QualityScore i))
      (filter (\<lambda>i. ei_EvidenceType i = EvidenceTypeMFAEnrollment) (MapSnapshotToEvidence sn)) =
      map (\<lambda>u. (iu_ExternalID u, ''critical'', 0)) (sn_Users sn) \<and>
    list_all (\<lambda>i. ei_EvidenceType i \<noteq> EvidenceTypeAccessReview) (MapSnapshotToEvidence sn) \<and>
    list_all (\<lambda>g. gm_MemberIDs g = []) (sn_GroupMemberships sn) \<and>
    ((\<exists>cfg. a = EntraConn cfg) \<longrightarrow> list_all (\<lambda>i. ei_EvidenceType i = EvidenceTypeUserProvisioning \<longrightarrow>
      ei_Severity i = ''high'') (MapSnapshotToEvidence sn))"
proof (intro conjI impI)
  note live = live_users [OF assms]
  have "map (\<lambda>i. (ei_SubjectID i, ei_Severity i, ei_QualityScore i))
      (concat (map (mfaEvidenceFromUser t) us)) = map (\<lambda>u. (iu_ExternalID u, ''critical'', 0)) us"
    if "list_all (\<lambda>u. \<not> iu_MFAEnrolled u) us" for us t
    using that by (induction us) (simp_all add: unenrolled_items)
  then show "map (\<lambda>i. (ei_SubjectID i, ei_Severity i, ei_QualityScore i))
      (filter (\<lambda>i. ei_EvidenceType i = EvidenceTypeMFAEnrollment) (MapSnapshotToEvidence sn)) =
      map (\<lambda>u. (iu_ExternalID u, ''critical'', 0)) (sn_Users sn)"
    unfolding snapshot_mfa_items using live(1) by blast
  have types: "ei_EvidenceType i = EvidenceTypeMFAEnrollment" if "i \<in> set (mfaEvidenceFromUser t u)" for i t u
    using mfa_types [of t u] that by (simp add: list_all_iff)
  show "list_all (\<lambda>i. ei_EvidenceType i \<noteq> EvidenceTypeAccessReview) (MapSnapshotToEvidence sn)"
    using live(2) by (auto simp: MapSnapshotToEvidence_def Let_def list_all_iff other_types dest: types)
  show "list_all (\<lambda>g. gm_MemberIDs g = []) (sn_GroupMemberships sn)" by (rule live(4))
  assume entra: "\<exists>cfg. a = EntraConn cfg"
  have "severityFromScore (rnd (2/5)) = ''high''" by code_simp
  then have "ei_Severity (provisioningEvidenceFromUser t u) = ''high''" if "u \<in> set (sn_Users sn)" for u t
    using live(3) [OF entra] that
    by (auto simp: list_all_iff provisioningEvidenceFromUser_def userProvisioningScore_def Let_def
        severity_of_scores)
  then show "list_all (\<lambda>i. ei_EvidenceType i = EvidenceTypeUserProvisioning \<longrightarrow>
      ei_Severity i = ''high'') (MapSnapshotToEvidence sn)"
    by (auto simp: MapSnapshotToEvidence_def Let_def list_all_iff other_types dest: types)
qed

text \<open>A live Entra sync with one user.\<close>

definition demo_entra_lib :: entra_lib where
  "demo_entra_lib = \<lparr> il_okta_users = (\<lambda>s. Inr []), il_okta_logs = (\<lambda>s. Inr []), il_time = (\<lambda>s. None),
     il_entra_users = (\<lambda>s. Inr [\<lparr> eu_ID = ''u1'', eu_DisplayName = ''A'', eu_Mail = ''a@b'',
       eu_AccountEnabled = True, eu_CreatedDateTime = [] \<rparr>]),
     il_entra_groups = (\<lambda>s. Inr []), il_entra_policies = (\<lambda>s. Inr []) \<rparr>"

definition demo_iam_net :: "nat net" where
  "demo_iam_net q w = (Answer 200 [] None, w + 1)"

definition demo_entra :: iam_adapter where
  "demo_entra = EntraConn \<lparr> enc_TenantID = [], enc_ClientID = [], enc_ClientSecret = [], enc_BaseURL = [],
     enc_MockMode = False \<rparr>"

theorem iam_live_evidence_blind_witness:
  "\<exists>sn. iam_adapter_Sync demo_entra_lib demo_iam_net 0 None demo_entra 0 = (Inr sn, 4) \<and>
     map iu_ExternalID (sn_Users sn) = [''u1''] \<and>
     map (\<lambda>i. (ei_SubjectID i, ei_Severity i, ei_QualityScore i))
       (filter (\<lambda>i. ei_EvidenceType i = EvidenceTypeMFAEnrollment) (MapSnapshotToEvidence sn)) =
       map (\<lambda>u. (iu_ExternalID u, ''critical'', 0)) (sn_Users sn)"
proof -
  have live: "iam_live demo_entra" by (simp add: demo_entra_def)
  let ?cfg = "\<lparr> enc_TenantID = [], enc_ClientID = [], enc_ClientSecret = [], enc_BaseURL = [],
     enc_MockMode = False \<rparr> :: EntraIDConfig" and ?L = demo_entra_lib
  have users: "\<exists>us. entra_fetchUsers demo_iam_net (il_entra_users ?L) (il_time ?L) None ?cfg 0 = (Inr us, 1) \<and>
      map iu_ExternalID us = [''u1'']"
    by (simp add: entra_fetchUsers_def demo_iam_net_def fetch_json_def demo_entra_lib_def entra_iam_user_def)
  have rest: "entra_fetchAccessReviews demo_iam_net None ?cfg 1 = (Inr [], 2)"
    "entra_fetchGroups demo_iam_net (il_entra_groups ?L) None ?cfg 2 = (Inr [], 3)"
    "entra_fetchConditionalAccessPolicies demo_iam_net (il_entra_policies ?L) None ?cfg 3 = (Inr [], 4)"
    by (simp_all add: entra_fetchAccessReviews_def entra_fetchGroups_def
        entra_fetchConditionalAccessPolicies_def demo_iam_net_def fetch_json_def demo_entra_lib_def)
  from users obtain us where us: "entra_fetchUsers demo_iam_net (il_entra_users ?L) (il_time ?L) None ?cfg 0 = (Inr us, 1)"
    "map iu_ExternalID us = [''u1'']" by (elim exE conjE)
  have sync: "iam_adapter_Sync ?L demo_iam_net 0 None demo_entra 0 = entra_fetchFromAPI ?L demo_iam_net 0 None ?cfg 0"
    by (simp only: iam_adapter_Sync_def demo_entra_def entra_Sync_def iam_adapter.case
        EntraIDConfig.select_convs if_False)
  have "\<exists>sn. iam_adapter_Sync ?L demo_iam_net 0 None demo_entra 0 = (Inr sn, 4) \<and>
      map iu_ExternalID (sn_Users sn) = [''u1'']"
    unfolding sync entra_fetchFromAPI_def us(1) rest sum.case prod.case using us(2)
    by simp
  then obtain sn where sn: "iam_adapter_Sync demo_entra_lib demo_iam_net 0 None demo_entra 0 = (Inr sn, 4)"
    "map iu_ExternalID (sn_Users sn) = [''u1'']" by (elim exE conjE)
  from sn iam_live_evidence_blind [OF live sn(1), THEN conjunct1] show ?thesis by (intro exI conjI)
qed

end
