(* ===== verification/SiemAdapters.thy ===== *)
theory SiemAdapters
  imports IntegrationHttp
begin

text \<open>
  The Splunk and Sentinel adapters (services/integration/internal/adapters/splunk.go, sentinel.go):
  a saved search's history and the rows of a Log Analytics query become log entries; in mock mode
  the entries are made up.
\<close>

section \<open>Splunk\<close>

record SplunkConfig =
  spc_BaseURL :: string
  spc_Token :: string
  spc_SavedSearch :: string
  spc_MockMode :: bool

definition effectiveLimit :: "QueryOptions \<Rightarrow> int" where
  "effectiveLimit opts = (if 0 < qo_Limit opts \<and> qo_Limit opts \<le> 100 then qo_Limit opts else 10)"

text \<open>An entry of the response: its \<open>name\<close> and \<open>content.eventCount\<close>.\<close>

record splunk_entry =
  spe_Name :: string
  spe_EventCount :: int

definition splunk_log :: "gotime \<Rightarrow> splunk_entry \<Rightarrow> LogEntry" where
  "splunk_log now e = \<lparr> le_Timestamp = now, le_Source = ''splunk'', le_Severity = ''info'',
     le_EventID = spe_Name e, le_Title = ''Splunk saved search: '' @ spe_Name e,
     le_Description = ''eventCount='' @ int_text (spe_EventCount e), le_RawData = Map.empty \<rparr>"

definition splunk_fetchFromAPI ::
  "'w net \<Rightarrow> splunk_entry list unmarshal \<Rightarrow> gotime \<Rightarrow> duration option \<Rightarrow> SplunkConfig \<Rightarrow> QueryOptions \<Rightarrow> 'w \<Rightarrow>
   (string + LogEntry list) \<times> 'w" where
  "splunk_fetchFromAPI net dec now ctx cfg opts w =
     (let savedSearch = (if spc_SavedSearch cfg = [] then ''NIS2 Security Events'' else spc_SavedSearch cfg);
          url = spc_BaseURL cfg @ ''/servicesNS/nobody/search/saved/searches/'' @ savedSearch @
            ''/history?output_mode=json&count='' @ int_text (effectiveLimit opts)
      in (case net (get_request ctx url [bearer_header (spc_Token cfg), content_json]) w of (ans, w1) \<Rightarrow>
            (case fetch_json (prefix_texts ''splunk: '') dec ans of
               Inl e \<Rightarrow> (Inl e, w1)
             | Inr entries \<Rightarrow> (Inr (map (splunk_log now) entries), w1))))"

definition splunk_severities :: "string list" where
  "splunk_severities = [''critical'', ''high'', ''medium'', ''low'']"

definition splunk_mockLogs :: "gotime \<Rightarrow> SplunkConfig \<Rightarrow> QueryOptions \<Rightarrow> LogEntry list" where
  "splunk_mockLogs now cfg opts =
     map (\<lambda>i. \<lparr> le_Timestamp = now - int i * 5 * minute, le_Source = ''splunk'',
          le_Severity = splunk_severities ! (i mod length splunk_severities),
          le_EventID = ''SPLUNK-MOCK-'' @ pad0 4 (dec_digits (i + 1)),
          le_Title = ''Mock Splunk Event #'' @ dec_digits (i + 1),
          le_Description = ''Synthetic security event #'' @ dec_digits (i + 1) @
            '' from Splunk saved search '' @ [CHR 0x27] @ spc_SavedSearch cfg @ [CHR 0x27],
          le_RawData = [''host'' \<mapsto> ''splunk-indexer-01'', ''source'' \<mapsto> ''WinEventLog:Security''] \<rparr>)
       [0..<nat (effectiveLimit opts)]"

definition splunk_FetchLogs ::
  "'w net \<Rightarrow> splunk_entry list unmarshal \<Rightarrow> gotime \<Rightarrow> duration option \<Rightarrow> SplunkConfig \<Rightarrow> QueryOptions \<Rightarrow> 'w \<Rightarrow>
   (string + LogEntry list) \<times> 'w" where
  "splunk_FetchLogs net dec now ctx cfg opts w =
     (if spc_MockMode cfg then (Inr (splunk_mockLogs now cfg opts), w)
      else splunk_fetchFromAPI net dec now ctx cfg opts w)"

definition splunk_Health ::
  "'w net \<Rightarrow> gotime \<Rightarrow> duration option \<Rightarrow> SplunkConfig \<Rightarrow> 'w \<Rightarrow> HealthStatus \<times> 'w" where
  "splunk_Health net now ctx cfg w =
     (if spc_MockMode cfg then (mock_health ''splunk'' now, w)
      else case net (get_request ctx (spc_BaseURL cfg @ ''/services/server/info?output_mode=json'')
                 [bearer_header (spc_Token cfg)]) w of
             (ans, w1) \<Rightarrow> (probe_health ''splunk'' now ans, w1))"

section \<open>Sentinel\<close>

record SentinelConfig =
  sec_WorkspaceID :: string
  sec_TenantID :: string
  sec_ClientID :: string
  sec_ClientSecret :: string
  sec_BaseURL :: string
  sec_MockMode :: bool

definition sentinel_apiBase :: "SentinelConfig \<Rightarrow> string" where
  "sentinel_apiBase cfg =
     (if sec_BaseURL cfg \<noteq> [] then sec_BaseURL cfg else ''https://api.loganalytics.io'')"

text \<open>
  A row of a result table is a list of JSON values, of which the first is the time and the second
  the title.
\<close>

definition sentinel_log :: "(string \<Rightarrow> gotime option) \<Rightarrow> gotime \<Rightarrow> json list \<Rightarrow> LogEntry" where
  "sentinel_log parse now row =
     \<lparr> le_Timestamp = (case row of JStr ts # _ \<Rightarrow> parse_or_zero parse ts | _ \<Rightarrow> now),
       le_Source = ''sentinel'', le_Severity = ''unknown'', le_EventID = [],
       le_Title = (case row of _ # JStr title # _ \<Rightarrow> title | _ \<Rightarrow> []),
       le_Description = [], le_RawData = Map.empty \<rparr>"

definition sentinel_fetchFromAPI ::
  "'w net \<Rightarrow> json list list list unmarshal \<Rightarrow> (string \<Rightarrow> gotime option) \<Rightarrow> gotime \<Rightarrow> duration option \<Rightarrow>
   SentinelConfig \<Rightarrow> QueryOptions \<Rightarrow> 'w \<Rightarrow> (string + LogEntry list) \<times> 'w" where
  "sentinel_fetchFromAPI net dec parse now ctx cfg opts w =
     (let query = (if qo_Query opts = [] then ''SecurityAlert | order by TimeGenerated desc | limit 50''
            else qo_Query opts);
          url = sentinel_apiBase cfg @ ''/v1/workspaces/'' @ sec_WorkspaceID cfg @ ''/query?query='' @ query
      in (case net (get_request ctx url [content_json]) w of (ans, w1) \<Rightarrow>
            (case fetch_json (prefix_texts ''sentinel: '') dec ans of
               Inl e \<Rightarrow> (Inl e, w1)
             | Inr tables \<Rightarrow> (Inr (map (sentinel_log parse now) (concat tables)), w1))))"

definition sentinel_severities :: "string list" where
  "sentinel_severities = [''High'', ''Medium'', ''Low'', ''Informational'']"

definition sentinel_mockLogs :: "gotime \<Rightarrow> SentinelConfig \<Rightarrow> QueryOptions \<Rightarrow> LogEntry list" where
  "sentinel_mockLogs now cfg opts =
     (let limit = (if qo_Limit opts \<le> 0 \<or> 50 < qo_Limit opts then 10 else qo_Limit opts)
      in map (\<lambda>i. \<lparr> le_Timestamp = now - int i * minute, le_Source = ''sentinel'',
            le_Severity = sentinel_severities ! (i mod length sentinel_severities),
            le_EventID = ''SENTINEL-MOCK-'' @ pad0 4 (dec_digits (i + 1)),
            le_Title = ''Mock Sentinel Alert #'' @ dec_digits (i + 1),
            le_Description = ''Synthetic NIS2 Article 21 finding #'' @ dec_digits (i + 1) @
              '' from Azure Sentinel mock'',
            le_RawData = [''WorkspaceID'' \<mapsto> sec_WorkspaceID cfg, ''Source'' \<mapsto> ''AzureActivity''] \<rparr>)
         [0..<nat limit])"

definition sentinel_FetchLogs ::
  "'w net \<Rightarrow> json list list list unmarshal \<Rightarrow> (string \<Rightarrow> gotime option) \<Rightarrow> gotime \<Rightarrow> duration option \<Rightarrow>
   SentinelConfig \<Rightarrow> QueryOptions \<Rightarrow> 'w \<Rightarrow> (string + LogEntry list) \<times> 'w" where
  "sentinel_FetchLogs net dec parse now ctx cfg opts w =
     (if sec_MockMode cfg then (Inr (sentinel_mockLogs now cfg opts), w)
      else sentinel_fetchFromAPI net dec parse now ctx cfg opts w)"

definition sentinel_Health ::
  "'w net \<Rightarrow> gotime \<Rightarrow> duration option \<Rightarrow> SentinelConfig \<Rightarrow> 'w \<Rightarrow> HealthStatus \<times> 'w" where
  "sentinel_Health net now ctx cfg w =
     (if sec_MockMode cfg then (mock_health ''sentinel'' now, w)
      else case net (get_request ctx (sentinel_apiBase cfg @ ''/subscriptions/healthcheck'') []) w of
             (ans, w1) \<Rightarrow> (probe_health ''sentinel'' now ans, w1))"

end
