(* ===== verification/AsffNormalizer.thy ===== *)
theory AsffNormalizer
  imports EvidenceScorer IntegrationHttp
begin

text \<open>
  Findings in the AWS Security Finding Format and the evidence items made of them
  (services/integration/internal/adapters/asff_normalizer.go). Labels, statuses and states come from
  AWS and stay strings. The quality scorer repeats the evidence service's (\<open>EvidenceScorer\<close>) for
  findings; its weights, clamp and rounding are proved to be the same functions.
\<close>

section \<open>Findings\<close>

definition ASFFSeverityCritical :: string where "ASFFSeverityCritical = ''CRITICAL''"

definition ASFFSeverityHigh :: string where "ASFFSeverityHigh = ''HIGH''"

definition ASFFSeverityMedium :: string where "ASFFSeverityMedium = ''MEDIUM''"

definition ASFFSeverityLow :: string where "ASFFSeverityLow = ''LOW''"

definition ASFFSeverityInformational :: string where
  "ASFFSeverityInformational = ''INFORMATIONAL''"

definition ASFFCompliancePassed :: string where "ASFFCompliancePassed = ''PASSED''"

definition ASFFComplianceFailed :: string where "ASFFComplianceFailed = ''FAILED''"

definition ASFFComplianceWarning :: string where "ASFFComplianceWarning = ''WARNING''"

definition ASFFComplianceNotAvailable :: string where
  "ASFFComplianceNotAvailable = ''NOT_AVAILABLE''"

definition ASFFWorkflowNew :: string where "ASFFWorkflowNew = ''NEW''"

definition ASFFRecordActive :: string where "ASFFRecordActive = ''ACTIVE''"

definition ASFFRecordArchived :: string where "ASFFRecordArchived = ''ARCHIVED''"

lemmas asff_compliance_defs = ASFFCompliancePassed_def ASFFComplianceFailed_def
  ASFFComplianceWarning_def ASFFComplianceNotAvailable_def

lemmas asff_severity_defs = ASFFSeverityCritical_def ASFFSeverityHigh_def ASFFSeverityMedium_def
  ASFFSeverityLow_def ASFFSeverityInformational_def

record ASFFSeverity =
  as_Label :: string
  as_Normalized :: int
  as_Original :: string

record ASFFResource =
  af_Type :: string
  af_ID :: string
  af_Region :: string
  af_Partition :: string
  af_Details :: gomap

record ASFFCompliance =
  co_Status :: string
  co_RelatedRequirements :: "string list"
  co_SecurityControlID :: string
  co_AssociatedStandards :: "string list"

record ASFFNote =
  nt_Text :: string
  nt_UpdatedBy :: string
  nt_UpdatedAt :: string

record ASFFGeneratorDetails =
  gd_Name :: string
  gd_Description :: string
  gd_Tags :: "string list"

text \<open>The \<open>Remediation\<close> object holds one object of a text and a URL.\<close>

record ASFFinding =
  fi_SchemaVersion :: string
  fi_ID :: string
  fi_ProductArn :: string
  fi_ProductName :: string
  fi_CompanyName :: string
  fi_GeneratorID :: string
  fi_GeneratorDetails :: "ASFFGeneratorDetails option"
  fi_AwsAccountID :: string
  fi_Region :: string
  fi_Types :: "string list"
  fi_FirstObservedAt :: gotime
  fi_LastObservedAt :: gotime
  fi_CreatedAt :: gotime
  fi_UpdatedAt :: gotime
  fi_Severity :: ASFFSeverity
  fi_Title :: string
  fi_Description :: string
  fi_RemediationText :: string
  fi_RemediationURL :: string
  fi_SourceURL :: string
  fi_Resources :: "ASFFResource list"
  fi_Compliance :: "ASFFCompliance option"
  fi_WorkflowStatus :: string
  fi_RecordState :: string
  fi_Note :: "ASFFNote option"
  fi_FindingProviderFields :: gomap

section \<open>Evidence items\<close>

datatype AIAuditorRiskLevel = RiskLevelCritical | RiskLevelHigh | RiskLevelMedium | RiskLevelLow
  | RiskLevelInformational

record ResourceRef =
  rr_Type :: string
  rr_ID :: string
  rr_Region :: string

record QualityScoreBreakdown =
  qb_CompletenessScore :: float64
  qb_CurrencyScore :: float64
  qb_SourceReliability :: float64
  qb_CorroborationScore :: float64
  qb_RelevanceScore :: float64
  qb_AggregateScore :: float64
  qb_Deficiencies :: "string list"

record AuditEvidenceItem =
  ai_SourceFindingID :: string
  ai_SourceConnector :: string
  ai_SourceProductName :: string
  ai_NormalizedAt :: gotime
  ai_Title :: string
  ai_Description :: string
  ai_ContentFormat :: string
  ai_SourceType :: string
  ai_SourceRef :: string
  ai_CollectedAt :: gotime
  ai_Tier :: int
  ai_RiskLevel :: AIAuditorRiskLevel
  ai_ASFFSeverity :: ASFFSeverity
  ai_ComplianceStatus :: string
  ai_RelatedControls :: "string list"
  ai_ComplianceStandards :: "string list"
  ai_AWSAccountID :: string
  ai_Region :: string
  ai_AffectedResources :: "ResourceRef list"
  ai_QualityScore :: QualityScoreBreakdown
  ai_RemediationText :: string
  ai_RemediationURL :: string
  ai_WorkflowStatus :: string
  ai_RecordState :: string
  ai_Tags :: "string list"

definition EvidenceTierL6Telemetry :: int where "EvidenceTierL6Telemetry = 6"

section \<open>Severities, resources and standards\<close>

definition MapASFFSeverity :: "string \<Rightarrow> AIAuditorRiskLevel" where
  "MapASFFSeverity label =
     (if label = ASFFSeverityCritical then RiskLevelCritical
      else if label = ASFFSeverityHigh then RiskLevelHigh
      else if label = ASFFSeverityMedium then RiskLevelMedium
      else if label = ASFFSeverityLow then RiskLevelLow
      else RiskLevelInformational)"

definition MapNormalizedSeverity :: "int \<Rightarrow> AIAuditorRiskLevel" where
  "MapNormalizedSeverity score =
     (if 90 \<le> score then RiskLevelCritical else if 70 \<le> score then RiskLevelHigh
      else if 40 \<le> score then RiskLevelMedium else if 1 \<le> score then RiskLevelLow
      else RiskLevelInformational)"

definition NormalizeResourceType :: "string \<Rightarrow> string" where
  "NormalizeResourceType t =
     (if Contains t ''Ec2'' \<or> Contains t ''EC2'' then ''EC2''
      else if Contains t ''S3'' then ''S3''
      else if Contains t ''Iam'' \<or> Contains t ''IAM'' then ''IAM''
      else if Contains t ''Rds'' \<or> Contains t ''RDS'' then ''RDS''
      else if Contains t ''Lambda'' then ''Lambda''
      else if Contains t ''Kms'' \<or> Contains t ''KMS'' then ''KMS''
      else if Contains t ''CloudTrail'' then ''CloudTrail''
      else if Contains t ''Config'' then ''Config''
      else if Contains t ''GuardDuty'' then ''GuardDuty''
      else if Contains t ''SecurityGroup'' \<or> Contains t ''Vpc'' \<or> Contains t ''VPC'' then ''VPC''
      else if Contains t ''Sns'' \<or> Contains t ''SNS'' then ''SNS''
      else if Contains t ''Sqs'' \<or> Contains t ''SQS'' then ''SQS''
      else if t \<noteq> [] then t else ''Unknown'')"

definition StandardCISBenchmark :: string where
  "StandardCISBenchmark = ''CIS AWS Foundations Benchmark''"

definition StandardPCIDSS :: string where "StandardPCIDSS = ''PCI DSS''"

definition StandardSOC2 :: string where "StandardSOC2 = ''SOC 2''"

definition StandardNIST80053 :: string where "StandardNIST80053 = ''NIST SP 800-53''"

text \<open>\<open>strings.Split\<close> never gives an empty list.\<close>

definition friendlyStandardName :: "string \<Rightarrow> string" where
  "friendlyStandardName arn =
     (if Contains arn ''cis-aws-foundations-benchmark'' then StandardCISBenchmark
      else if Contains arn ''pci-dss'' then StandardPCIDSS
      else if Contains arn ''soc2'' \<or> Contains arn ''aws-foundational-security'' then StandardSOC2
      else if Contains arn ''nist-800-53'' then StandardNIST80053
      else last (Split (CHR ''/'') arn))"

definition normalizeResources :: "ASFFResource list \<Rightarrow> ResourceRef list" where
  "normalizeResources rs = map (\<lambda>r. \<lparr> rr_Type = NormalizeResourceType (af_Type r), rr_ID = af_ID r,
     rr_Region = af_Region r \<rparr>) rs"

definition add_new :: "string \<Rightarrow> string list \<Rightarrow> string list" where
  "add_new tag tags = (if tag \<in> set tags then tags else tags @ [tag])"

definition dashes :: "string \<Rightarrow> string" where
  "dashes s = map (\<lambda>c. if c = CHR '' '' then CHR ''-'' else c) s"

definition asff_standards :: "ASFFinding \<Rightarrow> string list" where
  "asff_standards f = (case fi_Compliance f of None \<Rightarrow> []
     | Some c \<Rightarrow> map friendlyStandardName (co_AssociatedStandards c))"

definition buildTags :: "ev_lib \<Rightarrow> ASFFinding \<Rightarrow> string list" where
  "buildTags L f =
     (let label = as_Label (fi_Severity f);
          tags = [''source:aws-security-hub'', ''content:cloud-security''] @
            (if label \<noteq> [] then [''severity:'' @ ToLower L label] else []);
          tags = foldl (\<lambda>ts r. add_new (''resource:'' @ ToLower L (NormalizeResourceType (af_Type r))) ts)
            tags (fi_Resources f);
          tags = foldl (\<lambda>ts n. add_new (''standard:'' @ ToLower L (dashes n)) ts) tags (asff_standards f)
      in tags @ (if fi_Region f \<noteq> [] then [''region:'' @ fi_Region f] else []))"

section \<open>The quality score\<close>

definition qWeightCompleteness :: float64 where "qWeightCompleteness = rnd (25/100)"

definition qWeightCurrency :: float64 where "qWeightCurrency = rnd (20/100)"

definition qWeightReliability :: float64 where "qWeightReliability = rnd (25/100)"

definition qWeightCorroboration :: float64 where "qWeightCorroboration = rnd (15/100)"

definition qWeightRelevance :: float64 where "qWeightRelevance = rnd (15/100)"

definition scoreClamp :: "float64 \<Rightarrow> float64" where
  "scoreClamp v = (if v < 0 then 0 else if 1 < v then 1 else v)"

definition scoreRound :: "float64 \<Rightarrow> float64" where
  "scoreRound v = fl_div (rnd (of_int (trunc_int (fl_mul v 10000)))) 10000"

definition scoreASFFCompleteness :: "ev_lib \<Rightarrow> ASFFinding \<Rightarrow> float64 \<times> string list" where
  "scoreASFFCompleteness L f =
     (let sd = (1, []);
          sd = penalty (TrimSpace L (fi_Title f) = []) (rnd (25/100)) ''missing title'' sd;
          sd = penalty (TrimSpace L (fi_Description f) = []) (rnd (15/100)) ''missing description'' sd;
          sd = penalty (fi_ID f = []) (rnd (20/100)) ''missing finding ID'' sd;
          sd = penalty (fi_AwsAccountID f = []) (rnd (10/100)) ''missing AWS account ID'' sd;
          sd = penalty (fi_Resources f = []) (rnd (20/100)) ''no affected resources listed'' sd;
          sd = penalty (fi_LastObservedAt f = zero_time) (rnd (10/100))
                 ''missing last-observed timestamp'' sd
      in (scoreClamp (fst sd), snd sd))"

definition scoreASFFCurrency :: "gotime \<Rightarrow> ASFFinding \<Rightarrow> float64 \<times> string list" where
  "scoreASFFCurrency now f =
     (let ref = (if fi_LastObservedAt f = zero_time then fi_UpdatedAt f else fi_LastObservedAt f)
      in if ref = zero_time
         then (rnd (20/100), [''no observation timestamp '' @ [CHR 0xE2, CHR 0x80, CHR 0x94] @
                              '' currency cannot be verified''])
         else
           (let days = fl_div (duration_Hours (time_Sub now ref)) 24
            in if days \<le> 1 then (1, [])
               else if days \<le> 7 then (rnd (95/100), [])
               else if days \<le> 30 then (rnd (90/100), [])
               else if days \<le> 90 then (rnd (75/100), [])
               else if days \<le> 180 then (rnd (55/100), [''finding not observed in 90+ days''])
               else (rnd (25/100), [''finding not observed in 180+ days; may be stale''])))"

definition scoreASFFCorroboration :: "ASFFinding \<Rightarrow> float64 \<times> string list" where
  "scoreASFFCorroboration f =
     (let score = rnd (20/100);
          score = (if fi_Compliance f \<noteq> None then fl_add score (rnd (35/100)) else score);
          score = (if fi_RemediationText f \<noteq> [] then fl_add score (rnd (25/100)) else score);
          score = (if fi_Types f \<noteq> [] then fl_add score (rnd (20/100)) else score)
      in (scoreClamp score, if score < rnd (50/100)
            then [''limited corroboration '' @ [CHR 0xE2, CHR 0x80, CHR 0x94] @
                  '' no compliance or remediation context''] else []))"

definition asff_relevantTerms :: "string list" where
  "asff_relevantTerms = [''security'', ''compliance'', ''access'', ''authentication'', ''encryption'',
     ''monitoring'', ''vulnerability'', ''incident'', ''patch'', ''firewall'',
     ''policy'', ''risk'', ''audit'', ''control'', ''backup'']"

definition scoreASFFRelevance :: "ev_lib \<Rightarrow> ASFFinding \<Rightarrow> float64 \<times> string list" where
  "scoreASFFRelevance L f =
     (let content = ToLower L (fi_Title f @ '' '' @ fi_Description f);
          hits = length (filter (Contains content) asff_relevantTerms)
      in if 5 \<le> hits then (rnd (95/100), [])
         else if 3 \<le> hits then (rnd (80/100), [])
         else if 1 \<le> hits then (rnd (60/100), [])
         else (rnd (40/100), [''no audit-relevant terms in finding title/description'']))"

definition asff_reliability :: "ASFFinding \<Rightarrow> float64" where
  "asff_reliability f =
     (case fi_Compliance f of
        None \<Rightarrow> rnd (90/100)
      | Some c \<Rightarrow> if co_Status c \<noteq> [] then scoreClamp (fl_add (rnd (90/100)) (rnd (5/100)))
                  else rnd (90/100))"

definition scoreEvidence :: "ev_lib \<Rightarrow> gotime \<Rightarrow> ASFFinding \<Rightarrow> QualityScoreBreakdown" where
  "scoreEvidence L now f =
     (let completeness = scoreASFFCompleteness L f;
          currency = scoreASFFCurrency now f;
          reliability = asff_reliability f;
          corroboration = scoreASFFCorroboration f;
          relevance = scoreASFFRelevance L f;
          aggregate = fl_add (fl_add (fl_add (fl_add
              (fl_mul qWeightCompleteness (fst completeness))
              (fl_mul qWeightCurrency (fst currency)))
              (fl_mul qWeightReliability reliability))
              (fl_mul qWeightCorroboration (fst corroboration)))
              (fl_mul qWeightRelevance (fst relevance))
      in \<lparr> qb_CompletenessScore = scoreRound (fst completeness),
           qb_CurrencyScore = scoreRound (fst currency),
           qb_SourceReliability = scoreRound reliability,
           qb_CorroborationScore = scoreRound (fst corroboration),
           qb_RelevanceScore = scoreRound (fst relevance),
           qb_AggregateScore = scoreRound aggregate,
           qb_Deficiencies = snd completeness @ snd currency @ snd corroboration @ snd relevance \<rparr>)"

section \<open>Normalising\<close>

definition NormalizeFinding :: "ev_lib \<Rightarrow> gotime \<Rightarrow> gotime \<Rightarrow> ASFFinding \<Rightarrow> AuditEvidenceItem" where
  "NormalizeFinding L now since f =
     \<lparr> ai_SourceFindingID = fi_ID f, ai_SourceConnector = ''aws-security-hub'',
       ai_SourceProductName =
         (if fi_ProductName f = [] then ''AWS Security Hub'' else fi_ProductName f),
       ai_NormalizedAt = now, ai_Title = fi_Title f, ai_Description = fi_Description f,
       ai_ContentFormat = ''json'', ai_SourceType = ''api_integration'', ai_SourceRef = fi_ID f,
       ai_CollectedAt = fi_LastObservedAt f, ai_Tier = EvidenceTierL6Telemetry,
       ai_RiskLevel = MapASFFSeverity (as_Label (fi_Severity f)), ai_ASFFSeverity = fi_Severity f,
       ai_ComplianceStatus = (case fi_Compliance f of None \<Rightarrow> [] | Some c \<Rightarrow> co_Status c),
       ai_RelatedControls = (case fi_Compliance f of None \<Rightarrow> [] | Some c \<Rightarrow> co_RelatedRequirements c),
       ai_ComplianceStandards = asff_standards f,
       ai_AWSAccountID = fi_AwsAccountID f, ai_Region = fi_Region f,
       ai_AffectedResources = normalizeResources (fi_Resources f),
       ai_QualityScore = scoreEvidence L since f,
       ai_RemediationText = fi_RemediationText f, ai_RemediationURL = fi_RemediationURL f,
       ai_WorkflowStatus = fi_WorkflowStatus f, ai_RecordState = fi_RecordState f,
       ai_Tags = buildTags L f \<rparr>"

text \<open>One pair of clock readings for every finding.\<close>

definition NormalizeFindings ::
  "ev_lib \<Rightarrow> (nat \<Rightarrow> gotime \<times> gotime) \<Rightarrow> ASFFinding list \<Rightarrow> AuditEvidenceItem list" where
  "NormalizeFindings L clock fs =
     map (\<lambda>(i, f). NormalizeFinding L (fst (clock i)) (snd (clock i)) f) (enumerate 0 fs)"

section \<open>Scores and tags\<close>

lemma asff_weights:
  "qWeightCompleteness = weightCompleteness" "qWeightCurrency = weightCurrency"
  "qWeightReliability = weightReliability" "qWeightCorroboration = weightCorroboration"
  "qWeightRelevance = weightRelevance" "scoreRound = roundScore" "scoreClamp = ev_clamp"
  by (simp_all add: qWeightCompleteness_def weightCompleteness_def qWeightCurrency_def weightCurrency_def
      qWeightReliability_def weightReliability_def qWeightCorroboration_def weightCorroboration_def
      qWeightRelevance_def weightRelevance_def fun_eq_iff scoreRound_def roundScore_def scoreClamp_def
      ev_clamp_def)

lemma unit_asff_parts:
  "unit_score (fst (scoreASFFCompleteness L f))" "unit_score (fst (scoreASFFCurrency now f))"
  "unit_score (asff_reliability f)" "unit_score (fst (scoreASFFCorroboration f))"
  "unit_score (fst (scoreASFFRelevance L f))"
proof -
  have one: "unit_score 1" by (simp add: unit_score_def)
  show "unit_score (fst (scoreASFFCompleteness L f))"
    by (simp add: scoreASFFCompleteness_def Let_def asff_weights)
  show "unit_score (fst (scoreASFFCurrency now f))"
    by (simp add: scoreASFFCurrency_def Let_def unit_rnd one)
  show "unit_score (asff_reliability f)"
    by (simp add: asff_reliability_def asff_weights unit_rnd split: option.split)
  show "unit_score (fst (scoreASFFCorroboration f))"
    by (simp add: scoreASFFCorroboration_def Let_def asff_weights)
  show "unit_score (fst (scoreASFFRelevance L f))"
    by (simp add: scoreASFFRelevance_def Let_def unit_rnd)
qed

text \<open>A weighted sum of scores of at most 1 is at most the same sum of ones, which is 1.\<close>

lemma weighted_step:
  "0 \<le> a \<Longrightarrow> a \<le> a' \<Longrightarrow> 0 \<le> w \<Longrightarrow> unit_score x \<Longrightarrow>
   0 \<le> fl_add a (fl_mul w x) \<and> fl_add a (fl_mul w x) \<le> fl_add a' (fl_mul w 1)"
proof -
  assume a: "0 \<le> a" "a \<le> a'" "0 \<le> w" "unit_score x"
  have "0 \<le> w * x" "w * x \<le> w * 1" using a by (auto simp: unit_score_def mult_left_le)
  then have "0 \<le> fl_mul w x" "fl_mul w x \<le> fl_mul w 1" by (simp_all add: fl_mul_def rnd_nonneg rnd_mono)
  then show ?thesis using a by (simp add: fl_add_def rnd_nonneg rnd_mono)
qed

lemma asff_weights_nonneg:
  "0 \<le> weightCompleteness" "0 \<le> weightCurrency" "0 \<le> weightReliability"
  "0 \<le> weightCorroboration" "0 \<le> weightRelevance"
  by (simp_all add: weightCompleteness_def weightCurrency_def weightReliability_def
      weightCorroboration_def weightRelevance_def rnd_nonneg)

lemma weights_of_ones:
  "fl_add (fl_add (fl_add (fl_add (fl_mul weightCompleteness 1) (fl_mul weightCurrency 1))
     (fl_mul weightReliability 1)) (fl_mul weightCorroboration 1)) (fl_mul weightRelevance 1) \<le> 1"
  by code_simp

lemma weighted_unit:
  assumes "unit_score a" "unit_score b" "unit_score c" "unit_score d" "unit_score e"
  shows "unit_score (fl_add (fl_add (fl_add (fl_add (fl_mul weightCompleteness a)
    (fl_mul weightCurrency b)) (fl_mul weightReliability c)) (fl_mul weightCorroboration d))
    (fl_mul weightRelevance e))"
proof -
  have "0 \<le> fl_mul weightCompleteness a \<and> fl_mul weightCompleteness a \<le> fl_mul weightCompleteness 1"
    using asff_weights_nonneg(1) assms(1) by (simp add: fl_mul_def unit_score_def rnd_nonneg rnd_mono mult_left_le)
  note s1 = this
  note s2 = weighted_step [OF s1 [THEN conjunct1] s1 [THEN conjunct2] asff_weights_nonneg(2) assms(2)]
  note s3 = weighted_step [OF s2 [THEN conjunct1] s2 [THEN conjunct2] asff_weights_nonneg(3) assms(3)]
  note s4 = weighted_step [OF s3 [THEN conjunct1] s3 [THEN conjunct2] asff_weights_nonneg(4) assms(4)]
  note s5 = weighted_step [OF s4 [THEN conjunct1] s4 [THEN conjunct2] asff_weights_nonneg(5) assms(5)]
  show ?thesis
    unfolding unit_score_def using s5 [THEN conjunct1] order_trans [OF s5 [THEN conjunct2] weights_of_ones] ..
qed

lemma scoreEvidence_unit:
  "list_all unit_score (map (\<lambda>part. part (scoreEvidence L now f))
     [qb_CompletenessScore, qb_CurrencyScore, qb_SourceReliability, qb_CorroborationScore,
      qb_RelevanceScore, qb_AggregateScore])"
  by (simp add: unit_asff_parts scoreEvidence_def Let_def asff_weights unit_roundScore weighted_unit)

lemma add_new_tags:
  "set (foldl (\<lambda>ts x. add_new (g x) ts) ts xs) = set ts \<union> g ` set xs"
  "distinct ts \<Longrightarrow> distinct (foldl (\<lambda>ts x. add_new (g x) ts) ts xs)"
  by (induction xs arbitrary: ts) (auto simp: add_new_def)

lemma buildTags_distinct: "distinct (buildTags L f)"
  by (auto simp: buildTags_def Let_def add_new_tags)

lemma old_finding_currency:
  assumes "fi_LastObservedAt f \<noteq> zero_time" "now - fi_LastObservedAt f = 20 * 24 * hour"
  shows "fst (scoreASFFCurrency now f) = rnd (90/100)"
proof -
  have t: "time_Sub now (fi_LastObservedAt f) = 1728000000000000"
    using assms(2) by (simp add: time_Sub_def sat64_def min_int64_def max_int64_def hour_def second_def)
  have "fl_div (duration_Hours 1728000000000000) 24 = 20" by code_simp
  then show ?thesis using assms(1) by (simp add: scoreASFFCurrency_def Let_def t)
qed

lemma old_evidence_currency:
  assumes "ev_CollectedAt ev \<noteq> zero_time" "now - ev_CollectedAt ev = 20 * 24 * hour"
  shows "fst (scoreCurrency now ev) = 1"
proof -
  have t: "time_Sub now (ev_CollectedAt ev) = 1728000000000000"
    using assms(2) by (simp add: time_Sub_def sat64_def min_int64_def max_int64_def hour_def second_def)
  have "fl_div (duration_Hours 1728000000000000) 24 = 20" by code_simp
  then show ?thesis using assms(1) by (simp add: scoreCurrency_def Let_def t)
qed

text \<open>
  C22. Normalising Security Hub findings gives one item per finding, with that finding's id as its
  source, the risk level of its severity label, all six quality scores between 0 and 1 and no tag
  twice. The score uses the evidence service's weights, clamp and rounding but not its thresholds:
  twenty days after the observation the currency is 0.90 here and 1.0 there.
\<close>

theorem asff_normalisation_sound:
  "map ai_SourceFindingID (NormalizeFindings L clock fs) = map fi_ID fs \<and>
   map ai_RiskLevel (NormalizeFindings L clock fs) = map (MapASFFSeverity \<circ> as_Label \<circ> fi_Severity) fs \<and>
   list_all (\<lambda>i. distinct (ai_Tags i) \<and> list_all unit_score (map (\<lambda>part. part (ai_QualityScore i))
     [qb_CompletenessScore, qb_CurrencyScore, qb_SourceReliability, qb_CorroborationScore,
      qb_RelevanceScore, qb_AggregateScore])) (NormalizeFindings L clock fs) \<and>
   fst (scoreASFFCurrency (20 * 24 * hour) (f\<lparr> fi_LastObservedAt := 0 \<rparr>)) = rnd (90/100) \<and>
   fst (scoreCurrency (20 * 24 * hour) (ev\<lparr> ev_CollectedAt := 0 \<rparr>)) = 1"
proof (intro conjI)
  have each: "map g (NormalizeFindings L clock fs) = map h fs"
    if "\<And>n s f. g (NormalizeFinding L n s f) = h f" for g :: "AuditEvidenceItem \<Rightarrow> 'x" and h
  proof -
    have "map g (NormalizeFindings L clock fs) = map (h \<circ> snd) (enumerate 0 fs)"
      by (simp add: NormalizeFindings_def that case_prod_unfold comp_def)
    then show ?thesis by (simp only: map_map [symmetric] map_snd_enumerate)
  qed
  show "map ai_SourceFindingID (NormalizeFindings L clock fs) = map fi_ID fs"
    by (rule each) (simp add: NormalizeFinding_def)
  show "map ai_RiskLevel (NormalizeFindings L clock fs) = map (MapASFFSeverity \<circ> as_Label \<circ> fi_Severity) fs"
    by (rule each) (simp add: NormalizeFinding_def)
  show "list_all (\<lambda>i. distinct (ai_Tags i) \<and> list_all unit_score (map (\<lambda>part. part (ai_QualityScore i))
     [qb_CompletenessScore, qb_CurrencyScore, qb_SourceReliability, qb_CorroborationScore,
      qb_RelevanceScore, qb_AggregateScore])) (NormalizeFindings L clock fs)"
    using scoreEvidence_unit buildTags_distinct
    by (auto simp: NormalizeFindings_def NormalizeFinding_def list_all_iff)
  show "fst (scoreASFFCurrency (20 * 24 * hour) (f\<lparr> fi_LastObservedAt := 0 \<rparr>)) = rnd (90/100)"
    by (rule old_finding_currency) (simp_all add: zero_time_def)
  show "fst (scoreCurrency (20 * 24 * hour) (ev\<lparr> ev_CollectedAt := 0 \<rparr>)) = 1"
    by (rule old_evidence_currency) (simp_all add: zero_time_def)
qed

end
