(* ===== verification/SecurityHub.thy ===== *)
theory SecurityHub
  imports AsffNormalizer MapWalk
begin

text \<open>
  The AWS Security Hub adapter (services/integration/internal/adapters/aws_security_hub.go): its
  calls, the compliance summaries and the security score made of the findings. The summaries group
  findings in Go maps, which are lists of distinct keys here, walked in an order that is an argument.
  The findings of mock mode are an argument too (\<open>HubMock\<close> holds the ones the adapter makes up).
\<close>

section \<open>Grouping in a map\<close>

text \<open>
  \<open>group_by key init upd xs\<close>: every \<open>x\<close> updates the entry of its key, made by \<open>init\<close> the first time.
\<close>

definition group_add :: "('x \<Rightarrow> 'k) \<Rightarrow> ('x \<Rightarrow> 'e) \<Rightarrow> ('x \<Rightarrow> 'e \<Rightarrow> 'e) \<Rightarrow> ('k \<times> 'e) list \<Rightarrow> 'x \<Rightarrow> ('k \<times> 'e) list" where
  "group_add key init upd m x =
     AList.update (key x) (upd x (case map_of m (key x) of None \<Rightarrow> init x | Some e \<Rightarrow> e)) m"

definition group_by :: "('x \<Rightarrow> 'k) \<Rightarrow> ('x \<Rightarrow> 'e) \<Rightarrow> ('x \<Rightarrow> 'e \<Rightarrow> 'e) \<Rightarrow> 'x list \<Rightarrow> ('k \<times> 'e) list" where
  "group_by key init upd xs = foldl (group_add key init upd) [] xs"

section \<open>Compliance summaries\<close>

record controlEntry =
  ce_title :: string
  ce_statuses :: "string list"
  ce_risk :: string
  ce_ids :: "string list"
  ce_ts :: gotime

record ComplianceControlResult =
  cr_ControlID :: string
  cr_ControlTitle :: string
  cr_Standard :: string
  cr_Status :: string
  cr_FindingCount :: nat
  cr_Findings :: "string list"
  cr_RiskLevel :: AIAuditorRiskLevel
  cr_LastChecked :: gotime

record ComplianceStandardSummary =
  su_Standard :: string
  su_TotalControls :: nat
  su_PassedControls :: nat
  su_FailedControls :: nat
  su_WarningControls :: nat
  su_Score :: float64
  su_Controls :: "ComplianceControlResult list"
  su_GeneratedAt :: gotime

fun aggregate_from :: "string \<Rightarrow> string list \<Rightarrow> string" where
  "aggregate_from result [] = result"
| "aggregate_from result (s # ss) =
     (if s = ASFFComplianceFailed then ASFFComplianceFailed
      else if s = ASFFComplianceWarning then aggregate_from ASFFComplianceWarning ss
      else if s = ASFFCompliancePassed then
        aggregate_from (if result = ASFFComplianceNotAvailable then ASFFCompliancePassed else result) ss
      else aggregate_from result ss)"

definition aggregateControlStatus :: "string list \<Rightarrow> string" where
  "aggregateControlStatus = aggregate_from ASFFComplianceNotAvailable"

text \<open>A finding of control \<open>c\<close> counts once for every standard it names.\<close>

type_synonym control_key = "string \<times> string"

definition hub_uses :: "ASFFinding list \<Rightarrow> (control_key \<times> ASFFinding) list" where
  "hub_uses findings = concat (map (\<lambda>f.
     case fi_Compliance f of
       None \<Rightarrow> []
     | Some c \<Rightarrow>
         map (\<lambda>std. ((friendlyStandardName std,
                if co_SecurityControlID c = [] then fi_GeneratorID f else co_SecurityControlID c), f))
           (co_AssociatedStandards c)) findings)"

definition finding_status :: "ASFFinding \<Rightarrow> string" where
  "finding_status f = (case fi_Compliance f of None \<Rightarrow> [] | Some c \<Rightarrow> co_Status c)"

definition control_new :: "control_key \<times> ASFFinding \<Rightarrow> controlEntry" where
  "control_new u = \<lparr> ce_title = fi_Title (snd u), ce_statuses = [],
     ce_risk = as_Label (fi_Severity (snd u)), ce_ids = [], ce_ts = fi_LastObservedAt (snd u) \<rparr>"

definition control_use :: "control_key \<times> ASFFinding \<Rightarrow> controlEntry \<Rightarrow> controlEntry" where
  "control_use u e = e\<lparr> ce_statuses := ce_statuses e @ [finding_status (snd u)],
     ce_ids := ce_ids e @ [fi_ID (snd u)],
     ce_ts := (if ce_ts e < fi_LastObservedAt (snd u) then fi_LastObservedAt (snd u) else ce_ts e) \<rparr>"

definition controlMap :: "ASFFinding list \<Rightarrow> (control_key \<times> controlEntry) list" where
  "controlMap findings = group_by fst control_new control_use (hub_uses findings)"

record stdEntry =
  se_passed :: nat
  se_failed :: nat
  se_warning :: nat
  se_controls :: "ComplianceControlResult list"

definition control_result :: "control_key \<times> controlEntry \<Rightarrow> ComplianceControlResult" where
  "control_result = (\<lambda>((std, control), e).
     \<lparr> cr_ControlID = control, cr_ControlTitle = ce_title e, cr_Standard = std,
       cr_Status = aggregateControlStatus (ce_statuses e), cr_FindingCount = length (ce_ids e),
       cr_Findings = ce_ids e, cr_RiskLevel = MapASFFSeverity (ce_risk e), cr_LastChecked = ce_ts e \<rparr>)"

definition std_new :: "control_key \<times> controlEntry \<Rightarrow> stdEntry" where
  "std_new c = \<lparr> se_passed = 0, se_failed = 0, se_warning = 0, se_controls = [] \<rparr>"

definition std_use :: "control_key \<times> controlEntry \<Rightarrow> stdEntry \<Rightarrow> stdEntry" where
  "std_use c se =
     (let r = control_result c; status = cr_Status r;
          se = (if status = ASFFCompliancePassed then se\<lparr> se_passed := se_passed se + 1 \<rparr>
                else if status = ASFFComplianceFailed then se\<lparr> se_failed := se_failed se + 1 \<rparr>
                else se\<lparr> se_warning := se_warning se + 1 \<rparr>)
      in se\<lparr> se_controls := se_controls se @ [r] \<rparr>)"

definition std_summary :: "gotime \<Rightarrow> string \<times> stdEntry \<Rightarrow> ComplianceStandardSummary" where
  "std_summary now = (\<lambda>(std, se).
     let total = se_passed se + se_failed se + se_warning se;
         score = (if 0 < total then fl_div (rnd (of_nat (se_passed se))) (rnd (of_nat total)) else 0)
     in \<lparr> su_Standard = std, su_TotalControls = total, su_PassedControls = se_passed se,
          su_FailedControls = se_failed se, su_WarningControls = se_warning se,
          su_Score = scoreRound score, su_Controls = se_controls se, su_GeneratedAt = now \<rparr>)"

definition buildComplianceSummaries ::
  "nat list \<Rightarrow> nat list \<Rightarrow> gotime \<Rightarrow> ASFFinding list \<Rightarrow> ComplianceStandardSummary list" where
  "buildComplianceSummaries order1 order2 now findings =
     map (std_summary now)
       (shuffle order2 (group_by (fst \<circ> fst) std_new std_use (shuffle order1 (controlMap findings))))"

section \<open>The security score\<close>

record SecurityScore =
  ss_AWSAccountID :: string
  ss_Region :: string
  ss_OverallScore :: float64
  ss_CriticalFindings :: nat
  ss_HighFindings :: nat
  ss_MediumFindings :: nat
  ss_LowFindings :: nat
  ss_InfoFindings :: nat
  ss_TotalFindings :: nat
  ss_ActiveStandards :: "string list"
  ss_CalculatedAt :: gotime

definition severity_weight :: "string \<Rightarrow> float64" where
  "severity_weight label =
     (if label = ASFFSeverityCritical then 10 else if label = ASFFSeverityHigh then 5
      else if label = ASFFSeverityMedium then 2 else if label = ASFFSeverityLow then 1 else 0)"

definition severity_count :: "string \<Rightarrow> SecurityScore \<Rightarrow> SecurityScore" where
  "severity_count label s =
     (if label = ASFFSeverityCritical then s\<lparr> ss_CriticalFindings := ss_CriticalFindings s + 1 \<rparr>
      else if label = ASFFSeverityHigh then s\<lparr> ss_HighFindings := ss_HighFindings s + 1 \<rparr>
      else if label = ASFFSeverityMedium then s\<lparr> ss_MediumFindings := ss_MediumFindings s + 1 \<rparr>
      else if label = ASFFSeverityLow then s\<lparr> ss_LowFindings := ss_LowFindings s + 1 \<rparr>
      else s\<lparr> ss_InfoFindings := ss_InfoFindings s + 1 \<rparr>)"

text \<open>The loop's variables: the counts, the two weights and the set of standards.\<close>

type_synonym score_loop = "SecurityScore \<times> float64 \<times> float64 \<times> string list"

definition score_finding :: "score_loop \<Rightarrow> ASFFinding \<Rightarrow> score_loop" where
  "score_finding = (\<lambda>(s, totalWeight, failedWeight, standards) f.
     if fi_RecordState f = ASFFRecordArchived then (s, totalWeight, failedWeight, standards)
     else
       (let label = as_Label (fi_Severity f); w = severity_weight label
        in (severity_count label (s\<lparr> ss_TotalFindings := ss_TotalFindings s + 1 \<rparr>),
            fl_add totalWeight w,
            if fi_Compliance f \<noteq> None \<and> finding_status f = ASFFComplianceFailed
            then fl_add failedWeight w else failedWeight,
            foldl (\<lambda>ns n. add_new n ns) standards (asff_standards f))))"

definition calculateSecurityScore ::
  "nat list \<Rightarrow> gotime \<Rightarrow> string \<Rightarrow> string \<Rightarrow> ASFFinding list \<Rightarrow> SecurityScore" where
  "calculateSecurityScore order now account region findings =
     (case foldl score_finding
        (\<lparr> ss_AWSAccountID = account, ss_Region = region, ss_OverallScore = 0,
           ss_CriticalFindings = 0, ss_HighFindings = 0, ss_MediumFindings = 0,
           ss_LowFindings = 0, ss_InfoFindings = 0, ss_TotalFindings = 0,
           ss_ActiveStandards = [], ss_CalculatedAt = now \<rparr>, 0, 0, []) findings of
        (s, totalWeight, failedWeight, standards) \<Rightarrow>
          s\<lparr> ss_OverallScore := (if 0 < totalWeight
               then scoreRound (fl_mul 100 (fl_sub 1 (fl_div failedWeight totalWeight))) else 100),
             ss_ActiveStandards := shuffle order standards \<rparr>)"

section \<open>Log entries\<close>

definition asff_raw_data :: "ASFFinding \<Rightarrow> string \<rightharpoonup> string" where
  "asff_raw_data f =
     (let raw = [''account_id'' \<mapsto> fi_AwsAccountID f, ''region'' \<mapsto> fi_Region f,
            ''generator_id'' \<mapsto> fi_GeneratorID f, ''record_state'' \<mapsto> fi_RecordState f,
            ''workflow'' \<mapsto> fi_WorkflowStatus f, ''product'' \<mapsto> fi_ProductName f,
            ''schema_version'' \<mapsto> fi_SchemaVersion f];
          raw = (case fi_Resources f of
              [] \<Rightarrow> raw
            | r # _ \<Rightarrow> raw(''resource_type'' \<mapsto> NormalizeResourceType (af_Type r),
                           ''resource_id'' \<mapsto> af_ID r))
      in (case fi_Compliance f of None \<Rightarrow> raw | Some c \<Rightarrow> raw(''compliance_status'' \<mapsto> co_Status c)))"

definition asffToLogEntries :: "ev_lib \<Rightarrow> ASFFinding list \<Rightarrow> LogEntry list" where
  "asffToLogEntries L findings =
     map (\<lambda>f. \<lparr> le_Timestamp = fi_LastObservedAt f, le_Source = ''aws-security-hub'',
       le_Severity = ToLower L (as_Label (fi_Severity f)), le_EventID = fi_ID f,
       le_Title = fi_Title f, le_Description = fi_Description f, le_RawData = asff_raw_data f \<rparr>)
     findings"

definition hubEffectiveLimit :: "QueryOptions \<Rightarrow> int" where
  "hubEffectiveLimit opts = (if 0 < qo_Limit opts \<and> qo_Limit opts \<le> 100 then qo_Limit opts else 10)"

section \<open>The adapter\<close>

record AWSSecurityHubConfig =
  awc_Region :: string
  awc_AccountID :: string
  awc_AccessKeyID :: string
  awc_SecretAccessKey :: string
  awc_SessionToken :: string
  awc_BaseURL :: string
  awc_MockMode :: bool

definition hub_apiBase :: "AWSSecurityHubConfig \<Rightarrow> string" where
  "hub_apiBase cfg = (if awc_BaseURL cfg \<noteq> [] then awc_BaseURL cfg
     else ''https://securityhub.'' @ awc_Region cfg @ ''.amazonaws.com'')"

definition signRequest :: "AWSSecurityHubConfig \<Rightarrow> (string \<times> string) list" where
  "signRequest cfg = (if awc_AccessKeyID cfg \<noteq> []
     then [(''X-Amz-Security-Token'', awc_SessionToken cfg)] else [])"

definition hub_fetchFindingsFromAPI ::
  "'w net \<Rightarrow> ASFFinding list unmarshal \<Rightarrow> duration option \<Rightarrow> AWSSecurityHubConfig \<Rightarrow> QueryOptions \<Rightarrow> 'w \<Rightarrow>
   (string + ASFFinding list) \<times> 'w" where
  "hub_fetchFindingsFromAPI net dec ctx cfg opts w =
     (let url = hub_apiBase cfg @ ''/findings?MaxResults='' @ int_text (hubEffectiveLimit opts)
      in case net (get_request ctx url (content_json # signRequest cfg)) w of
           (ans, w1) \<Rightarrow> (fetch_json (prefix_texts ''aws-security-hub: '') dec ans, w1))"

type_synonym hub_mock = "AWSSecurityHubConfig \<Rightarrow> QueryOptions \<Rightarrow> ASFFinding list"

definition FetchFindings ::
  "'w net \<Rightarrow> ASFFinding list unmarshal \<Rightarrow> hub_mock \<Rightarrow> duration option \<Rightarrow> AWSSecurityHubConfig \<Rightarrow>
   QueryOptions \<Rightarrow> 'w \<Rightarrow> (string + ASFFinding list) \<times> 'w" where
  "FetchFindings net dec mock ctx cfg opts w =
     (if awc_MockMode cfg then (Inr (mock cfg opts), w)
      else hub_fetchFindingsFromAPI net dec ctx cfg opts w)"

definition hub_FetchLogs ::
  "ev_lib \<Rightarrow> 'w net \<Rightarrow> ASFFinding list unmarshal \<Rightarrow> hub_mock \<Rightarrow> duration option \<Rightarrow> AWSSecurityHubConfig \<Rightarrow>
   QueryOptions \<Rightarrow> 'w \<Rightarrow> (string + LogEntry list) \<times> 'w" where
  "hub_FetchLogs L net dec mock ctx cfg opts w =
     (case FetchFindings net dec mock ctx cfg opts w of
        (Inl e, w1) \<Rightarrow> (Inl e, w1)
      | (Inr fs, w1) \<Rightarrow> (Inr (asffToLogEntries L fs), w1))"

definition FetchEvidenceItems ::
  "ev_lib \<Rightarrow> (nat \<Rightarrow> gotime \<times> gotime) \<Rightarrow> 'w net \<Rightarrow> ASFFinding list unmarshal \<Rightarrow> hub_mock \<Rightarrow>
   duration option \<Rightarrow> AWSSecurityHubConfig \<Rightarrow> QueryOptions \<Rightarrow> 'w \<Rightarrow> (string + AuditEvidenceItem list) \<times> 'w" where
  "FetchEvidenceItems L clock net dec mock ctx cfg opts w =
     (case FetchFindings net dec mock ctx cfg opts w of
        (Inl e, w1) \<Rightarrow> (Inl e, w1)
      | (Inr fs, w1) \<Rightarrow> (Inr (NormalizeFindings L clock fs), w1))"

definition FetchComplianceResults ::
  "nat list \<Rightarrow> nat list \<Rightarrow> gotime \<Rightarrow> 'w net \<Rightarrow> ASFFinding list unmarshal \<Rightarrow> hub_mock \<Rightarrow>
   duration option \<Rightarrow> AWSSecurityHubConfig \<Rightarrow> 'w \<Rightarrow> (string + ComplianceStandardSummary list) \<times> 'w" where
  "FetchComplianceResults order1 order2 now net dec mock ctx cfg w =
     (case FetchFindings net dec mock ctx cfg (no_options\<lparr> qo_Limit := 100 \<rparr>) w of
        (Inl e, w1) \<Rightarrow> (Inl e, w1)
      | (Inr fs, w1) \<Rightarrow> (Inr (buildComplianceSummaries order1 order2 now fs), w1))"

definition FetchSecurityScore ::
  "nat list \<Rightarrow> gotime \<Rightarrow> 'w net \<Rightarrow> ASFFinding list unmarshal \<Rightarrow> hub_mock \<Rightarrow>
   duration option \<Rightarrow> AWSSecurityHubConfig \<Rightarrow> 'w \<Rightarrow> (string + SecurityScore) \<times> 'w" where
  "FetchSecurityScore order now net dec mock ctx cfg w =
     (case FetchFindings net dec mock ctx cfg (no_options\<lparr> qo_Limit := 100 \<rparr>) w of
        (Inl e, w1) \<Rightarrow> (Inl e, w1)
      | (Inr fs, w1) \<Rightarrow>
          (Inr (calculateSecurityScore order now (awc_AccountID cfg) (awc_Region cfg) fs), w1))"

definition hub_Health ::
  "'w net \<Rightarrow> gotime \<Rightarrow> duration option \<Rightarrow> AWSSecurityHubConfig \<Rightarrow> 'w \<Rightarrow> HealthStatus \<times> 'w" where
  "hub_Health net now ctx cfg w =
     (if awc_MockMode cfg then (mock_health ''aws-security-hub'' now, w)
      else case net (get_request ctx (hub_apiBase cfg @ ''/findings?MaxResults=1'') (signRequest cfg)) w of
             (ans, w1) \<Rightarrow> (probe_health ''aws-security-hub'' now ans, w1))"

section \<open>Grouping is grouping\<close>

lemma group_by_snoc:
  "group_by key init upd (xs @ [x]) = group_add key init upd (group_by key init upd xs) x"
  by (simp add: group_by_def)

lemma group_by_get:
  "map_of (group_by key init upd xs) k =
     (case filter (\<lambda>x. key x = k) xs of
        [] \<Rightarrow> None
      | y # ys \<Rightarrow> Some (foldl (\<lambda>e x. upd x e) (init y) (y # ys)))"
proof (induction xs rule: rev_induct)
  case (snoc x xs)
  show ?case
  proof (cases "key x = k")
    case True
    then show ?thesis using snoc
      by (cases "filter (\<lambda>x. key x = k) xs")
        (simp_all add: group_by_snoc group_add_def update_conv')
  next
    case False
    then show ?thesis using snoc by (simp add: group_by_snoc group_add_def update_conv')
  qed
qed (simp add: group_by_def)

lemma group_by_keys:
  "distinct (map fst (group_by key init upd xs))"
  "fst ` set (group_by key init upd xs) = key ` set xs"
proof -
  show "distinct (map fst (group_by key init upd xs))"
    by (induction xs rule: rev_induct) (simp_all add: group_by_snoc group_add_def distinct_update group_by_def)
  show "fst ` set (group_by key init upd xs) = key ` set xs"
    by (induction xs rule: rev_induct) (auto simp: group_by_snoc group_add_def dom_update group_by_def)
qed

lemma group_by_in:
  assumes "(k, e) \<in> set (group_by key init upd xs)"
  obtains y ys where "filter (\<lambda>x. key x = k) xs = y # ys" "e = foldl (\<lambda>e x. upd x e) (init y) (y # ys)"
proof -
  have "map_of (group_by key init upd xs) k = Some e"
    by (rule map_of_is_SomeI [OF group_by_keys(1) assms])
  then show thesis using that by (auto simp: group_by_get split: list.splits)
qed

lemma shuffle_count: "length (filter P (shuffle ns xs)) = length (filter P xs)"
  by (metis mset_filter shuffle_mset size_mset)

lemma count_keys:
  "distinct (map fst m) \<Longrightarrow> length (filter P m) = card (fst ` {x \<in> set m. P x})"
proof -
  assume d: "distinct (map fst m)"
  then have "distinct (map fst (filter P m))" by (induction m) auto
  from distinct_card [OF this] show ?thesis by simp
qed

section \<open>The status of a control\<close>

definition worst_status :: "string list \<Rightarrow> string" where
  "worst_status ss =
     (if ASFFComplianceFailed \<in> set ss then ASFFComplianceFailed
      else if ASFFComplianceWarning \<in> set ss then ASFFComplianceWarning
      else if ASFFCompliancePassed \<in> set ss then ASFFCompliancePassed
      else ASFFComplianceNotAvailable)"

lemma statuses_differ [simp]:
  "ASFFComplianceWarning \<noteq> ASFFComplianceFailed" "ASFFComplianceFailed \<noteq> ASFFComplianceWarning"
  "ASFFCompliancePassed \<noteq> ASFFComplianceFailed" "ASFFComplianceFailed \<noteq> ASFFCompliancePassed"
  "ASFFComplianceNotAvailable \<noteq> ASFFComplianceFailed" "ASFFComplianceFailed \<noteq> ASFFComplianceNotAvailable"
  "ASFFCompliancePassed \<noteq> ASFFComplianceWarning" "ASFFComplianceWarning \<noteq> ASFFCompliancePassed"
  "ASFFComplianceNotAvailable \<noteq> ASFFComplianceWarning" "ASFFComplianceWarning \<noteq> ASFFComplianceNotAvailable"
  "ASFFCompliancePassed \<noteq> ASFFComplianceNotAvailable" "ASFFComplianceNotAvailable \<noteq> ASFFCompliancePassed"
  by (simp_all add: asff_compliance_defs)

lemma aggregate_from_eq:
  "result = ASFFComplianceWarning \<or> result = ASFFCompliancePassed \<or> result = ASFFComplianceNotAvailable \<Longrightarrow>
   aggregate_from result ss = worst_status (result # ss)"
proof (induction ss arbitrary: result)
  case Nil
  then show ?case by (elim disjE) (simp_all add: worst_status_def)
next
  case (Cons s ss)
  from Cons.prems show ?case
    by (elim disjE) (simp_all add: Cons.IH worst_status_def)
qed

lemma aggregateControlStatus_eq: "aggregateControlStatus ss = worst_status ss"
  unfolding aggregateControlStatus_def
  by (simp add: aggregate_from_eq worst_status_def)

definition control_statuses :: "ASFFinding list \<Rightarrow> control_key \<Rightarrow> string list" where
  "control_statuses fs k = map (finding_status \<circ> snd) (filter (\<lambda>u. fst u = k) (hub_uses fs))"

definition hub_keys :: "ASFFinding list \<Rightarrow> control_key set" where
  "hub_keys fs = fst ` set (hub_uses fs)"

lemma control_uses:
  "ce_statuses (foldl (\<lambda>e x. control_use x e) e us) = ce_statuses e @ map (finding_status \<circ> snd) us"
  "ce_ids (foldl (\<lambda>e x. control_use x e) e us) = ce_ids e @ map (fi_ID \<circ> snd) us"
  by (induction us arbitrary: e) (simp_all add: control_use_def)

lemma controlMap_entry:
  assumes "(k, e) \<in> set (controlMap fs)"
  shows "ce_statuses e = control_statuses fs k"
    "ce_ids e = map (fi_ID \<circ> snd) (filter (\<lambda>u. fst u = k) (hub_uses fs))"
proof -
  obtain y ys where f: "filter (\<lambda>u. fst u = k) (hub_uses fs) = y # ys"
    and e: "e = foldl (\<lambda>e x. control_use x e) (control_new y) (y # ys)"
    using assms unfolding controlMap_def by (rule group_by_in)
  show "ce_statuses e = control_statuses fs k"
    "ce_ids e = map (fi_ID \<circ> snd) (filter (\<lambda>u. fst u = k) (hub_uses fs))"
    unfolding e control_uses control_statuses_def f by (simp_all add: control_new_def)
qed

lemma controlMap_keys: "distinct (map fst (controlMap fs))" "fst ` set (controlMap fs) = hub_keys fs"
  unfolding controlMap_def hub_keys_def by (rule group_by_keys)+

section \<open>The counts of a standard\<close>

abbreviation status_of :: "control_key \<times> controlEntry \<Rightarrow> string" where
  "status_of c \<equiv> cr_Status (control_result c)"

lemma std_uses:
  "se_passed (foldl (\<lambda>e x. std_use x e) se cs) =
     se_passed se + length (filter (\<lambda>c. status_of c = ASFFCompliancePassed) cs)"
  "se_failed (foldl (\<lambda>e x. std_use x e) se cs) =
     se_failed se + length (filter (\<lambda>c. status_of c = ASFFComplianceFailed) cs)"
  "se_warning (foldl (\<lambda>e x. std_use x e) se cs) = se_warning se + length (filter (\<lambda>c.
     status_of c \<noteq> ASFFCompliancePassed \<and> status_of c \<noteq> ASFFComplianceFailed) cs)"
  "se_controls (foldl (\<lambda>e x. std_use x e) se cs) = se_controls se @ map control_result cs"
  by (induction cs arbitrary: se) (simp_all add: std_use_def Let_def)

lemma std_total: "length (filter P cs) + length (filter Q cs) +
    length (filter (\<lambda>c. \<not> P c \<and> \<not> Q c) cs) = length cs"
  if "\<And>c. \<not> (P c \<and> Q c)"
  using that by (induction cs) auto

lemma status_of_entry:
  "(k, e) \<in> set (controlMap fs) \<Longrightarrow> status_of (k, e) = worst_status (control_statuses fs k)"
  using controlMap_entry(1) [of k e fs]
  by (simp add: control_result_def aggregateControlStatus_eq split: prod.splits)

lemma count_controls:
  "length (filter (\<lambda>c. fst (fst c) = std \<and> P (status_of c)) (controlMap fs)) =
   card {k \<in> hub_keys fs. fst k = std \<and> P (worst_status (control_statuses fs k))}"
proof -
  have status: "status_of c = worst_status (control_statuses fs (fst c))" if "c \<in> set (controlMap fs)" for c
    using status_of_entry [of "fst c" "snd c"] that by simp
  have "fst ` {c \<in> set (controlMap fs). fst (fst c) = std \<and> P (status_of c)} =
      fst ` {c \<in> set (controlMap fs). fst (fst c) = std \<and> P (worst_status (control_statuses fs (fst c)))}"
    using status by (intro arg_cong [where f = "image fst"] Collect_cong) auto
  also have "\<dots> = {k \<in> fst ` set (controlMap fs). fst k = std \<and> P (worst_status (control_statuses fs k))}"
    by blast
  finally show ?thesis
    unfolding controlMap_keys(2) by (simp only: count_keys [OF controlMap_keys(1)])
qed

section \<open>The summaries\<close>

lemma scoreRound_eq: "scoreRound = roundScore" "scoreClamp = ev_clamp"
  by (simp_all add: fun_eq_iff scoreRound_def roundScore_def scoreClamp_def ev_clamp_def)

lemma unit_quotient: "p \<le> t \<Longrightarrow> 0 \<le> p \<Longrightarrow> 0 < t \<Longrightarrow> unit_score (fl_div p t)"
  by (simp add: fl_div_def unit_rnd)

definition reference_count :: "ASFFinding list \<Rightarrow> string \<Rightarrow> (string \<Rightarrow> bool) \<Rightarrow> nat" where
  "reference_count fs std P =
     card {k \<in> hub_keys fs. fst k = std \<and> P (worst_status (control_statuses fs k))}"

lemma summary_counts:
  assumes "s \<in> set (buildComplianceSummaries o1 o2 now fs)"
  shows "su_PassedControls s = reference_count fs (su_Standard s) (\<lambda>t. t = ASFFCompliancePassed)"
    "su_FailedControls s = reference_count fs (su_Standard s) (\<lambda>t. t = ASFFComplianceFailed)"
    "su_TotalControls s = reference_count fs (su_Standard s) (\<lambda>t. True)"
    "su_PassedControls s + su_FailedControls s + su_WarningControls s = su_TotalControls s"
    "unit_score (su_Score s)"
proof -
  let ?cm = "controlMap fs"
  obtain std se where se: "(std, se) \<in> set (group_by (fst \<circ> fst) std_new std_use (shuffle o1 ?cm))"
    and s: "s = std_summary now (std, se)"
    using assms by (auto simp: buildComplianceSummaries_def shuffle_set)
  obtain y ys where f: "filter (\<lambda>x. (fst \<circ> fst) x = std) (shuffle o1 ?cm) = y # ys"
    and e: "se = foldl (\<lambda>e x. std_use x e) (std_new y) (y # ys)"
    using se by (rule group_by_in)
  have count: "length (filter P (y # ys)) = length (filter (\<lambda>c. fst (fst c) = std \<and> P c) ?cm)" for P
    unfolding f [symmetric] by (simp add: shuffle_count conj_commute)
  have passed: "se_passed se = reference_count fs std (\<lambda>t. t = ASFFCompliancePassed)"
    and failed: "se_failed se = reference_count fs std (\<lambda>t. t = ASFFComplianceFailed)"
    and all: "length (filter (\<lambda>c. True) (y # ys)) = reference_count fs std (\<lambda>t. True)"
    using count [of "\<lambda>c. status_of c = ASFFCompliancePassed"]
      count [of "\<lambda>c. status_of c = ASFFComplianceFailed"] count [of "\<lambda>c. True"]
      count_controls [of std "\<lambda>t. t = ASFFCompliancePassed" fs]
      count_controls [of std "\<lambda>t. t = ASFFComplianceFailed" fs] count_controls [of std "\<lambda>t. True" fs]
    unfolding e std_uses reference_count_def
    by (simp_all only: std_new_def stdEntry.simps add_0)
  have apart: "\<not> (status_of c = ASFFCompliancePassed \<and> status_of c = ASFFComplianceFailed)" for c
    by auto
  have total: "se_passed se + se_failed se + se_warning se = length (y # ys)"
    unfolding e std_uses
    using std_total [of "\<lambda>c. status_of c = ASFFCompliancePassed" "\<lambda>c. status_of c = ASFFComplianceFailed" "y # ys", OF apart]
    by (simp only: std_new_def stdEntry.simps add_0)
  show "su_PassedControls s = reference_count fs (su_Standard s) (\<lambda>t. t = ASFFCompliancePassed)"
    "su_FailedControls s = reference_count fs (su_Standard s) (\<lambda>t. t = ASFFComplianceFailed)"
    "su_TotalControls s = reference_count fs (su_Standard s) (\<lambda>t. True)"
    "su_PassedControls s + su_FailedControls s + su_WarningControls s = su_TotalControls s"
    unfolding s using passed failed all total by (simp_all add: std_summary_def Let_def)
  have le: "rnd (of_nat (se_passed se)) \<le> rnd (of_nat (se_passed se + se_failed se + se_warning se))"
    by (rule rnd_mono) simp
  have pos: "0 < rnd (of_nat (Suc k))" for k
    using rnd_mono [of 1 "of_nat (Suc k)"] by simp
  have nonzero: "0 < se_passed se + se_failed se + se_warning se" using total by simp
  then obtain k where k: "se_passed se + se_failed se + se_warning se = Suc k" by (metis gr0_implies_Suc)
  have "unit_score (fl_div (rnd (of_nat (se_passed se)))
      (rnd (of_nat (se_passed se + se_failed se + se_warning se))))"
    using le unfolding k by (intro unit_quotient pos rnd_nonneg) simp_all
  then show "unit_score (su_Score s)"
    unfolding s std_summary_def Let_def prod.case ComplianceStandardSummary.simps if_P [OF nonzero]
      scoreRound_eq by (rule unit_roundScore)
qed

lemma summary_standards:
  "distinct (map su_Standard (buildComplianceSummaries o1 o2 now fs))"
  "su_Standard ` set (buildComplianceSummaries o1 o2 now fs) = fst ` hub_keys fs"
proof -
  let ?g = "group_by (fst \<circ> fst) std_new std_use (shuffle o1 (controlMap fs))"
  have names: "su_Standard \<circ> std_summary now = fst" by (auto simp: std_summary_def Let_def)
  show "distinct (map su_Standard (buildComplianceSummaries o1 o2 now fs))"
    by (simp add: buildComplianceSummaries_def names shuffle_distinct_map group_by_keys(1))
  have "su_Standard ` set (buildComplianceSummaries o1 o2 now fs) = fst ` set ?g"
    by (simp add: buildComplianceSummaries_def image_image shuffle_set names [unfolded comp_def, THEN fun_cong])
  also have "\<dots> = fst ` hub_keys fs"
    by (simp only: group_by_keys(2) shuffle_set image_comp [symmetric] controlMap_keys(2) image_image comp_apply)
  finally show "su_Standard ` set (buildComplianceSummaries o1 o2 now fs) = fst ` hub_keys fs" .
qed

lemma hub_uses_state:
  "hub_uses (map (\<lambda>f. f\<lparr> fi_RecordState := r \<rparr>) fs) =
     map (\<lambda>(k, f). (k, f\<lparr> fi_RecordState := r \<rparr>)) (hub_uses fs)"
  by (induction fs) (simp_all add: hub_uses_def split: option.splits)

lemma group_by_map:
  "group_by key init upd (map g xs) = group_by (key \<circ> g) (init \<circ> g) (upd \<circ> g) xs"
proof -
  have "group_add key init upd m (g x) = group_add (key \<circ> g) (init \<circ> g) (upd \<circ> g) m x" for m x
    by (simp add: group_add_def cong: option.case_cong)
  then show ?thesis by (simp add: group_by_def foldl_map)
qed

lemma controlMap_state: "controlMap (map (\<lambda>f. f\<lparr> fi_RecordState := r \<rparr>) fs) = controlMap fs"
proof -
  let ?g = "\<lambda>(k :: control_key, f :: ASFFinding). (k, f\<lparr> fi_RecordState := r \<rparr>)"
  have "fst \<circ> ?g = fst" "control_new \<circ> ?g = control_new" "control_use \<circ> ?g = control_use"
    by (auto simp: fun_eq_iff control_new_def control_use_def finding_status_def)
  then show ?thesis by (simp only: controlMap_def hub_uses_state group_by_map)
qed

lemma summaries_state:
  "buildComplianceSummaries o1 o2 now (map (\<lambda>f. f\<lparr> fi_RecordState := r \<rparr>) fs) =
   buildComplianceSummaries o1 o2 now fs"
  by (simp add: buildComplianceSummaries_def controlMap_state)

text \<open>
  C23. The compliance summaries are, in whatever order Go walks its two maps: one per standard that
  some finding names; in it, the number of controls of that standard, of those whose findings' worst
  status (FAILED before WARNING before PASSED) is PASSED and of those where it is FAILED, the rest
  counting as warnings; and a score between 0 and 1. Whether a finding is active or archived makes
  no difference.
\<close>

theorem compliance_summaries_reference:
  "distinct (map su_Standard (buildComplianceSummaries o1 o2 now fs)) \<and>
   su_Standard ` set (buildComplianceSummaries o1 o2 now fs) = fst ` hub_keys fs \<and>
   (\<forall>s \<in> set (buildComplianceSummaries o1 o2 now fs).
     su_TotalControls s = reference_count fs (su_Standard s) (\<lambda>t. True) \<and>
     su_PassedControls s = reference_count fs (su_Standard s) (\<lambda>t. t = ASFFCompliancePassed) \<and>
     su_FailedControls s = reference_count fs (su_Standard s) (\<lambda>t. t = ASFFComplianceFailed) \<and>
     su_PassedControls s + su_FailedControls s + su_WarningControls s = su_TotalControls s \<and>
     unit_score (su_Score s)) \<and>
   buildComplianceSummaries o1 o2 now (map (\<lambda>f. f\<lparr> fi_RecordState := r \<rparr>) fs) =
     buildComplianceSummaries o1 o2 now fs"
  using summary_standards [of o1 o2 now fs] summary_counts [of _ o1 o2 now fs]
    summaries_state [of o1 o2 now r fs]
  by simp

section \<open>Bounds of the security score\<close>

definition hundred_score :: "float64 \<Rightarrow> bool" where
  "hundred_score v \<longleftrightarrow> 0 \<le> v \<and> v \<le> 100"

lemma trunc_scaled:
  assumes "0 \<le> v" "v \<le> of_int n" "0 \<le> n" "n \<le> 100"
  shows "0 \<le> trunc_int (fl_mul v 10000)" "trunc_int (fl_mul v 10000) \<le> n * 10000"
proof -
  have m: "0 \<le> fl_mul v 10000" "fl_mul v 10000 \<le> of_int (n * 10000)"
    using rnd_nonneg [of "v * 10000"] rnd_mono [of "v * 10000" "of_int (n * 10000)"]
      rnd_int [of "n * 10000"] assms by (simp_all add: fl_mul_def)
  then show "0 \<le> trunc_int (fl_mul v 10000)" by (simp add: trunc_int_def)
  have "\<lfloor>fl_mul v 10000\<rfloor> \<le> n * 10000" using floor_mono [OF m(2)] by (simp only: floor_of_int)
  then show "trunc_int (fl_mul v 10000) \<le> n * 10000" using m(1) by (simp add: trunc_int_def)
qed

lemma hundred_scoreRound:
  assumes "hundred_score v"
  shows "hundred_score (scoreRound v)"
proof -
  have t: "0 \<le> trunc_int (fl_mul v 10000)" "trunc_int (fl_mul v 10000) \<le> 1000000"
    using trunc_scaled [of v 100] assms by (simp_all add: hundred_score_def)
  then have r: "rnd (of_int (trunc_int (fl_mul v 10000))) = of_int (trunc_int (fl_mul v 10000))"
    by (intro rnd_int) simp
  have "(of_int (trunc_int (fl_mul v 10000)) :: rat) \<le> of_int 1000000" using t(2) by (simp only: of_int_le_iff)
  then have "of_int (trunc_int (fl_mul v 10000)) / 10000 \<le> (of_int 100 :: rat)" by simp
  then show ?thesis
    using rnd_mono rnd_int [of 100] rnd_nonneg t(1)
    by (fastforce simp: hundred_score_def scoreRound_def fl_div_def r)
qed

lemma hundred_percent:
  assumes "unit_score q"
  shows "hundred_score (fl_mul 100 (fl_sub 1 q))"
proof -
  have "unit_score (fl_sub 1 q)" using assms by (simp add: fl_sub_def unit_score_def rnd_nonneg rnd_le_1)
  then have "0 \<le> 100 * fl_sub 1 q" "100 * fl_sub 1 q \<le> of_int 100" by (simp_all add: unit_score_def)
  then show ?thesis
    using rnd_mono [of "100 * fl_sub 1 q" "of_int 100"] rnd_int [of 100]
    by (simp add: hundred_score_def fl_mul_def rnd_nonneg)
qed

text \<open>The loop keeps the failed weight below the total weight, and its counts add up.\<close>

definition score_inv :: "score_loop \<Rightarrow> bool" where
  "score_inv = (\<lambda>(s, t, f, ns). 0 \<le> f \<and> f \<le> t \<and> distinct ns \<and>
     ss_CriticalFindings s + ss_HighFindings s + ss_MediumFindings s + ss_LowFindings s +
       ss_InfoFindings s = ss_TotalFindings s)"

lemma severity_weight_nonneg: "0 \<le> severity_weight l"
  by (simp add: severity_weight_def)

text \<open>A rounded value is a double: rounding it again changes nothing.\<close>

lemma rnd_idem:
  assumes "0 \<le> x"
  shows "rnd (rnd x) = rnd x"
proof (cases "x = 0")
  case False
  then have x: "0 < x" using assms by simp
  let ?u = "(2 :: rat) powi (binade x - 52)"
  have u: "0 < ?u" by simp
  have "x < 2 powi (binade x + 1)" using binade_bounds [OF x] by simp
  also have "\<dots> = 2 powi 53 * ?u" using power_int_add [of "2 :: rat" 53 "binade x - 52"] by (simp add: algebra_simps)
  also have "\<dots> = of_int (2 ^ 53) * ?u" by simp
  finally have "x / ?u \<le> of_int (2 ^ 53)" using u by (simp add: field_simps)
  then have "round_even (x / ?u) \<le> 2 ^ 53" using round_even_mono round_even_int by metis
  moreover have "0 \<le> round_even (x / ?u)" using round_even_mono [of 0 "x / ?u"] round_even_int [of 0] x by simp
  ultimately have "\<bar>round_even (x / ?u)\<bar> \<le> 2 ^ 53" by simp
  from rnd_exact [OF this, of "binade x - 52"] show ?thesis
    using x by (simp add: rnd_def rnd_pos_def pow2_powi Let_def)
qed simp

lemma score_inv_step:
  assumes "score_inv (s, t, f, ns)" "rnd t = t" "score_finding (s, t, f, ns) x = (s', t', f', ns')"
  shows "score_inv (s', t', f', ns')" "rnd t' = t'"
proof -
  have f: "0 \<le> f" "f \<le> t" using assms(1) by (simp_all add: score_inv_def)
  let ?w = "severity_weight (as_Label (fi_Severity x))"
  have up: "t \<le> fl_add t ?w" "0 \<le> fl_add f ?w" "fl_add f ?w \<le> fl_add t ?w"
    using rnd_mono [of t "t + ?w"] assms(2) f severity_weight_nonneg [of "as_Label (fi_Severity x)"]
    by (simp_all add: fl_add_def rnd_nonneg rnd_mono)
  have dist: "distinct (foldl (\<lambda>ns n. add_new n ns) zs ys)" if "distinct zs" for zs ys
    using that by (induction ys arbitrary: zs) (simp_all add: add_new_def)
  show "rnd t' = t'"
    using assms(2,3) f severity_weight_nonneg [of "as_Label (fi_Severity x)"]
    by (auto simp: score_finding_def Let_def fl_add_def rnd_idem split: if_splits)
  show "score_inv (s', t', f', ns')"
    using assms(1,3) up f dist
    by (auto simp: score_finding_def Let_def score_inv_def severity_count_def split: if_splits)
qed

lemma score_loop_inv:
  assumes "foldl score_finding (s, t, f, ns) fs = (s', t', f', ns')" "score_inv (s, t, f, ns)" "rnd t = t"
  shows "score_inv (s', t', f', ns')"
  using assms
proof (induction fs arbitrary: s t f ns)
  case (Cons x fs)
  obtain s1 t1 f1 ns1 where x: "score_finding (s, t, f, ns) x = (s1, t1, f1, ns1)"
    by (metis prod_cases4)
  have rest: "foldl score_finding (s1, t1, f1, ns1) fs = (s', t', f', ns')" using Cons.prems(1) x by simp
  show ?case
    by (rule Cons.IH [OF rest score_inv_step [OF Cons.prems(2,3) x]])
qed simp

text \<open>
  The score written down without the loop: the weights of the findings that are not archived, and of
  those among them whose compliance check failed, each summed in floating point.
\<close>

definition active :: "ASFFinding list \<Rightarrow> ASFFinding list" where
  "active fs = filter (\<lambda>f. fi_RecordState f \<noteq> ASFFRecordArchived) fs"

definition check_failed :: "ASFFinding \<Rightarrow> bool" where
  "check_failed f \<longleftrightarrow> fi_Compliance f \<noteq> None \<and> finding_status f = ASFFComplianceFailed"

definition add_weight :: "float64 \<Rightarrow> ASFFinding \<Rightarrow> float64" where
  "add_weight t f = fl_add t (severity_weight (as_Label (fi_Severity f)))"

definition reference_score :: "ASFFinding list \<Rightarrow> float64" where
  "reference_score fs =
     (let total = foldl add_weight 0 (active fs); failed = foldl add_weight 0 (filter check_failed (active fs))
      in if 0 < total then scoreRound (fl_mul 100 (fl_sub 1 (fl_div failed total))) else 100)"

definition labelled :: "string \<Rightarrow> ASFFinding list \<Rightarrow> nat" where
  "labelled label fs = length (filter (\<lambda>f. as_Label (fi_Severity f) = label) (active fs))"

lemma active_simps:
  "active [] = []"
  "active (f # fs) = (if fi_RecordState f = ASFFRecordArchived then active fs else f # active fs)"
  by (simp_all add: active_def)

lemma severity_labels_distinct:
  "distinct [ASFFSeverityCritical, ASFFSeverityHigh, ASFFSeverityMedium, ASFFSeverityLow]"
  by (simp add: ASFFSeverityCritical_def ASFFSeverityHigh_def ASFFSeverityMedium_def ASFFSeverityLow_def)

lemma severity_counts:
  "ss_TotalFindings (severity_count l s) = ss_TotalFindings s"
  "ss_CriticalFindings (severity_count l s) = ss_CriticalFindings s + (if l = ASFFSeverityCritical then 1 else 0)"
  "ss_HighFindings (severity_count l s) = ss_HighFindings s + (if l = ASFFSeverityHigh then 1 else 0)"
  "ss_MediumFindings (severity_count l s) = ss_MediumFindings s + (if l = ASFFSeverityMedium then 1 else 0)"
  "ss_LowFindings (severity_count l s) = ss_LowFindings s + (if l = ASFFSeverityLow then 1 else 0)"
  using severity_labels_distinct by (auto simp: severity_count_def)

lemma add_new_set: "set (foldl (\<lambda>ns n. add_new n ns) ns xs) = set ns \<union> set xs"
  by (induction xs arbitrary: ns) (auto simp: add_new_def)

lemma score_loop_reference:
  assumes "foldl score_finding (s, t, f, ns) fs = (s', t', f', ns')"
  shows "ss_TotalFindings s' = ss_TotalFindings s + length (active fs) \<and>
    ss_CriticalFindings s' = ss_CriticalFindings s + labelled ASFFSeverityCritical fs \<and>
    ss_HighFindings s' = ss_HighFindings s + labelled ASFFSeverityHigh fs \<and>
    ss_MediumFindings s' = ss_MediumFindings s + labelled ASFFSeverityMedium fs \<and>
    ss_LowFindings s' = ss_LowFindings s + labelled ASFFSeverityLow fs \<and>
    t' = foldl add_weight t (active fs) \<and> f' = foldl add_weight f (filter check_failed (active fs)) \<and>
    set ns' = set ns \<union> (\<Union>x \<in> set (active fs). set (asff_standards x))"
  using assms
proof (induction fs arbitrary: s t f ns)
  case Nil
  then show ?case by (simp add: active_simps labelled_def)
next
  case (Cons x fs)
  show ?case
  proof (cases "fi_RecordState x = ASFFRecordArchived")
    case True
    then have "foldl score_finding (s, t, f, ns) fs = (s', t', f', ns')"
      using Cons.prems by (simp add: score_finding_def)
    from Cons.IH [OF this] True show ?thesis by (simp add: active_simps labelled_def)
  next
    case False
    let ?l = "as_Label (fi_Severity x)"
    have "score_finding (s, t, f, ns) x =
        (severity_count ?l (s\<lparr> ss_TotalFindings := ss_TotalFindings s + 1 \<rparr>), add_weight t x,
         if check_failed x then add_weight f x else f, foldl (\<lambda>ns n. add_new n ns) ns (asff_standards x))"
      using False by (simp add: score_finding_def Let_def add_weight_def check_failed_def)
    from Cons.IH [OF Cons.prems [unfolded foldl.simps this]] False show ?thesis
      by (simp add: active_simps labelled_def severity_counts add_new_set Un_assoc)
  qed
qed

text \<open>
  C24. The security score of an account lies between 0 and 100 and is the share of weight, among the
  findings that are not archived, whose check did not fail. The total is the number of those findings,
  each severity's count the number with its label, the counts add up to the total, and the standards
  are theirs, each named once. With no failed finding the score is 100; with nothing but failed
  findings of some weight it is 0.
\<close>

theorem security_score_bounds:
  "let s = calculateSecurityScore order now account region fs
   in ss_OverallScore s = reference_score fs \<and> hundred_score (ss_OverallScore s) \<and>
     ss_TotalFindings s = length (active fs) \<and>
     ss_CriticalFindings s = labelled ASFFSeverityCritical fs \<and>
     ss_HighFindings s = labelled ASFFSeverityHigh fs \<and>
     ss_MediumFindings s = labelled ASFFSeverityMedium fs \<and>
     ss_LowFindings s = labelled ASFFSeverityLow fs \<and>
     ss_CriticalFindings s + ss_HighFindings s + ss_MediumFindings s + ss_LowFindings s +
       ss_InfoFindings s = ss_TotalFindings s \<and>
     distinct (ss_ActiveStandards s) \<and>
     set (ss_ActiveStandards s) = (\<Union>x \<in> set (active fs). set (asff_standards x)) \<and>
     (list_all (\<lambda>f. \<not> check_failed f) (active fs) \<longrightarrow> ss_OverallScore s = 100) \<and>
     (list_all check_failed (active fs) \<and> 0 < foldl add_weight 0 (active fs) \<longrightarrow> ss_OverallScore s = 0)"
proof -
  let ?z = "(\<lparr> ss_AWSAccountID = account, ss_Region = region, ss_OverallScore = 0,
           ss_CriticalFindings = 0, ss_HighFindings = 0, ss_MediumFindings = 0,
           ss_LowFindings = 0, ss_InfoFindings = 0, ss_TotalFindings = 0,
           ss_ActiveStandards = [], ss_CalculatedAt = now \<rparr>, 0, 0, []) :: score_loop"
  obtain s t f ns where r: "foldl score_finding ?z fs = (s, t, f, ns)" by (metis prod_cases4)
  have inv: "score_inv (s, t, f, ns)"
    by (rule score_loop_inv [OF r]) (simp_all add: score_inv_def)
  note ref = score_loop_reference [OF r]
  let ?score = "if 0 < t then scoreRound (fl_mul 100 (fl_sub 1 (fl_div f t))) else 100"
  have score: "calculateSecurityScore order now account region fs =
      s\<lparr> ss_OverallScore := ?score, ss_ActiveStandards := shuffle order ns \<rparr>"
    by (simp add: calculateSecurityScore_def r)
  have "hundred_score (scoreRound (fl_mul 100 (fl_sub 1 (fl_div f t))))" if "0 < t"
    using inv that by (intro hundred_scoreRound hundred_percent unit_quotient) (simp_all add: score_inv_def)
  then have hundred: "hundred_score ?score" by (simp add: hundred_score_def)
  have ends: "scoreRound (fl_mul 100 (fl_sub 1 0)) = 100" "scoreRound (fl_mul 100 (fl_sub 1 1)) = 0"
    by code_simp+
  have none: "?score = 100" if "list_all (\<lambda>f. \<not> check_failed f) (active fs)"
  proof -
    have "filter check_failed (active fs) = []" using that by (auto simp: list_all_iff filter_empty_conv)
    then have "f = 0" using ref by simp
    then show ?thesis using ends(1) by (simp add: fl_div_def)
  qed
  have every: "?score = 0" if "list_all check_failed (active fs)" "0 < foldl add_weight 0 (active fs)"
  proof -
    have "filter check_failed (active fs) = active fs" using that(1) by (auto simp: list_all_iff filter_id_conv)
    then have "f = t" "0 < t" using ref that(2) by simp_all
    then show ?thesis using ends(2) rnd_int [of 1] by (simp add: fl_div_def)
  qed
  have distinct: "distinct (shuffle order ns)"
    using inv shuffle_distinct_map [of id order ns] by (simp add: score_inv_def)
  show ?thesis
    unfolding score Let_def
    using ref hundred none every distinct inv
    by (auto simp: reference_score_def score_inv_def shuffle_set)
qed

section \<open>An example\<close>

definition hub_finding :: "string \<Rightarrow> string \<Rightarrow> string \<Rightarrow> ASFFinding" where
  "hub_finding n label status = \<lparr> fi_SchemaVersion = ''2018-10-08'', fi_ID = n, fi_ProductArn = [],
     fi_ProductName = [], fi_CompanyName = [], fi_GeneratorID = ''rule/1.1'', fi_GeneratorDetails = None,
     fi_AwsAccountID = ''123456789012'', fi_Region = ''us-east-1'', fi_Types = [],
     fi_FirstObservedAt = 0, fi_LastObservedAt = 0, fi_CreatedAt = 0, fi_UpdatedAt = 0,
     fi_Severity = \<lparr> as_Label = label, as_Normalized = 95, as_Original = [] \<rparr>, fi_Title = ''t'',
     fi_Description = ''d'', fi_RemediationText = [], fi_RemediationURL = [], fi_SourceURL = [],
     fi_Resources = [], fi_Compliance = Some \<lparr> co_Status = status, co_RelatedRequirements = [],
       co_SecurityControlID = ''IAM.1'', co_AssociatedStandards = [''standards/pci-dss/v/3.2.1''] \<rparr>,
     fi_WorkflowStatus = ASFFWorkflowNew, fi_RecordState = ASFFRecordActive, fi_Note = None,
     fi_FindingProviderFields = None \<rparr>"

definition hub_example :: "ASFFinding list" where
  "hub_example = [hub_finding ''a'' ASFFSeverityCritical ASFFCompliancePassed,
     hub_finding ''b'' ASFFSeverityHigh ASFFCompliancePassed]"

lemma hub_example_standard: "fst ` hub_keys hub_example = {StandardPCIDSS}"
proof -
  have "friendlyStandardName ''standards/pci-dss/v/3.2.1'' = StandardPCIDSS" by code_simp
  then show ?thesis by (simp add: hub_keys_def hub_uses_def hub_example_def hub_finding_def)
qed

lemma hub_example_some: "hd (buildComplianceSummaries [1] [] 0 hub_example) \<in>
    set (buildComplianceSummaries [1] [] 0 hub_example)"
proof (rule hd_in_set, rule notI)
  assume "buildComplianceSummaries [1] [] 0 hub_example = []"
  then show False using summary_standards(2) [of "[1]" "[]" 0 hub_example] hub_example_standard by simp
qed

theorem compliance_summaries_reference_witness:
  "su_PassedControls (hd (buildComplianceSummaries [1] [] 0 hub_example)) =
     reference_count hub_example StandardPCIDSS (\<lambda>t. t = ASFFCompliancePassed)"
proof -
  let ?s = "hd (buildComplianceSummaries [1] [] 0 hub_example)"
  have "su_Standard ?s \<in> fst ` hub_keys hub_example"
    using summary_standards(2) [of "[1]" "[]" 0 hub_example] hub_example_some by blast
  then show ?thesis
    using compliance_summaries_reference [of "[1]" "[]" 0 hub_example ASFFRecordActive]
      hub_example_some hub_example_standard by simp
qed

theorem security_score_bounds_witness:
  "ss_OverallScore (calculateSecurityScore [] 0 ''123456789012'' ''us-east-1'' hub_example) = 100 \<and>
   ss_TotalFindings (calculateSecurityScore [] 0 ''123456789012'' ''us-east-1'' hub_example) = 2"
proof -
  have "list_all (\<lambda>f. \<not> check_failed f) (active hub_example)" "length (active hub_example) = 2"
    by (simp_all add: active_def check_failed_def hub_example_def hub_finding_def finding_status_def
        ASFFRecordActive_def ASFFRecordArchived_def ASFFCompliancePassed_def ASFFComplianceFailed_def)
  with security_score_bounds [of "[]" 0 "''123456789012''" "''us-east-1''" hub_example] show ?thesis
    by (simp add: Let_def)
qed

end
