(* ===== verification/SiemApi.thy ===== *)
theory SiemApi
  imports SiemAdapters SecurityHub
begin

text \<open>
  The SIEM endpoints of the integration service (services/integration/internal/handler/handler.go)
  over the connectors cmd/api/main.go registers: Sentinel, Splunk and Security Hub, each behind its
  circuit breaker. Clock readings and the order of map walks are in \<open>siem_env\<close>; the network's state
  is threaded through.
\<close>

section \<open>Connectors\<close>

datatype siem_adapter =
    SentinelConn SentinelConfig
  | SplunkConn SplunkConfig
  | HubConn AWSSecurityHubConfig

text \<open>What the adapters need from the libraries, and the findings Security Hub's mock mode makes up.\<close>

record siem_lib =
  si_text :: ev_lib
  si_time :: "string \<Rightarrow> gotime option"
  si_splunk :: "splunk_entry list unmarshal"
  si_sentinel :: "json list list list unmarshal"
  si_hub :: "ASFFinding list unmarshal"
  si_mock :: hub_mock

record siem_env =
  sv_t1 :: gotime
  sv_t2 :: gotime
  sv_now :: gotime
  sv_order :: "nat list"

definition siem_FetchLogs ::
  "siem_lib \<Rightarrow> 'w net \<Rightarrow> gotime \<Rightarrow> duration option \<Rightarrow> siem_adapter \<Rightarrow> QueryOptions \<Rightarrow> 'w \<Rightarrow>
   (string + LogEntry list) \<times> 'w" where
  "siem_FetchLogs L net now ctx a opts w =
     (case a of
        SentinelConn cfg \<Rightarrow> sentinel_FetchLogs net (si_sentinel L) (si_time L) now ctx cfg opts w
      | SplunkConn cfg \<Rightarrow> splunk_FetchLogs net (si_splunk L) now ctx cfg opts w
      | HubConn cfg \<Rightarrow> hub_FetchLogs (si_text L) net (si_hub L) (si_mock L) ctx cfg opts w)"

definition siem_Health ::
  "'w net \<Rightarrow> gotime \<Rightarrow> duration option \<Rightarrow> siem_adapter \<Rightarrow> 'w \<Rightarrow> HealthStatus \<times> 'w" where
  "siem_Health net now ctx a w =
     (case a of
        SentinelConn cfg \<Rightarrow> sentinel_Health net now ctx cfg w
      | SplunkConn cfg \<Rightarrow> splunk_Health net now ctx cfg w
      | HubConn cfg \<Rightarrow> hub_Health net now ctx cfg w)"

text \<open>The connector is asked only when its breaker admits the call.\<close>

definition sum_pair :: "string + 'l list \<Rightarrow> 'l list \<times> string option" where
  "sum_pair r = (case r of Inl e \<Rightarrow> ([], Some e) | Inr xs \<Rightarrow> (xs, None))"

definition guarded_FetchLogs ::
  "siem_lib \<Rightarrow> 'w net \<Rightarrow> siem_env \<Rightarrow> duration option \<Rightarrow> QueryOptions \<Rightarrow> CircuitBreaker \<times> siem_adapter \<Rightarrow> 'w \<Rightarrow>
   (LogEntry list \<times> string call_error option) \<times> CircuitBreaker \<times> 'w" where
  "guarded_FetchLogs L net E ctx opts = (\<lambda>(cb, a) w.
     if fst (cb_admit (sv_t1 E) cb)
     then (case siem_FetchLogs L net (sv_now E) ctx a opts w of (inner, w1) \<Rightarrow>
             (case cb_FetchLogs (sv_t1 E) (sv_t2 E) (sum_pair inner) cb of (ans, cb1) \<Rightarrow> (ans, cb1, w1)))
     else (([], Some ErrCircuitOpen), snd (cb_admit (sv_t1 E) cb), w))"

section \<open>Handlers\<close>

type_synonym siem_registry = "(CircuitBreaker \<times> siem_adapter) conn_registry"

datatype siem_body =
    ConnectorList "string list" nat
  | ConnectorStatus HealthStatus
  | ConnectorNotFound string "string list"
  | ConnectorError string string
  | ConnectorLogs "LogEntry list" nat string

type_synonym siem_response = "int \<times> siem_body"

definition ListConnectors :: "siem_env \<Rightarrow> siem_registry \<Rightarrow> siem_response" where
  "ListConnectors E reg =
     (let names = conn_List (sv_order E) reg in (200, ConnectorList names (length names)))"

definition connector_not_found :: "siem_env \<Rightarrow> string \<Rightarrow> siem_registry \<Rightarrow> siem_response" where
  "connector_not_found E name reg = (404, ConnectorNotFound name (conn_List (sv_order E) reg))"

definition ConnectorHealth ::
  "'w net \<Rightarrow> siem_env \<Rightarrow> string \<Rightarrow> siem_registry \<Rightarrow> 'w \<Rightarrow> siem_response \<times> siem_registry \<times> 'w" where
  "ConnectorHealth net E name reg w =
     (case conn_Get name reg of
        None \<Rightarrow> (connector_not_found E name reg, reg, w)
      | Some (cb, a) \<Rightarrow>
          (case siem_Health net (sv_now E) None a w of (st, w1) \<Rightarrow>
             (case cb_Health (sv_t1 E) st cb of (st1, cb1) \<Rightarrow>
                ((if hs_Healthy st1 then 200 else 503, ConnectorStatus st1),
                 AList.update name (cb1, a) reg, w1))))"

text \<open>
  \<open>context.WithTimeout(ctx, 30)\<close>: a \<open>time.Duration\<close> counts nanoseconds.
\<close>

definition fetch_timeout :: duration where
  "fetch_timeout = 30"

definition logs_failure :: "string call_error \<Rightarrow> siem_response" where
  "logs_failure e =
     (case e of
        ErrCircuitOpen \<Rightarrow> (503, ConnectorError ''CIRCUIT_OPEN''
          ''connector circuit breaker is open; upstream is unavailable'')
      | InnerError m \<Rightarrow> (502, ConnectorError ''CONNECTOR_ERROR'' m))"

definition FetchLogs ::
  "siem_lib \<Rightarrow> 'w net \<Rightarrow> siem_env \<Rightarrow> string \<Rightarrow> string \<Rightarrow> siem_registry \<Rightarrow> 'w \<Rightarrow>
   siem_response \<times> siem_registry \<times> 'w" where
  "FetchLogs L net E name query reg w =
     (case conn_Get name reg of
        None \<Rightarrow> (connector_not_found E name reg, reg, w)
      | Some (cb, a) \<Rightarrow>
          (let opts = (if query \<noteq> [] then no_options\<lparr> qo_Query := query \<rparr> else no_options)
           in case guarded_FetchLogs L net E (Some fetch_timeout) opts (cb, a) w of
                ((logs, err), cb1, w1) \<Rightarrow>
                  ((case err of
                      Some e \<Rightarrow> logs_failure e
                    | None \<Rightarrow> (200, ConnectorLogs logs (length logs) name)),
                   AList.update name (cb1, a) reg, w1)))"

section \<open>Start-up\<close>

text \<open>The connectors of main.go, from the environment; an unset variable is the empty string.\<close>

definition mock_mode :: "(string \<Rightarrow> string) \<Rightarrow> bool" where
  "mock_mode getenv \<longleftrightarrow> getenv ''MOCK_MODE'' \<noteq> ''false''"

definition main_sentinel :: "(string \<Rightarrow> string) \<Rightarrow> siem_adapter" where
  "main_sentinel getenv = SentinelConn \<lparr> sec_WorkspaceID = getenv ''SENTINEL_WORKSPACE_ID'',
     sec_TenantID = getenv ''AZURE_TENANT_ID'', sec_ClientID = getenv ''AZURE_CLIENT_ID'',
     sec_ClientSecret = getenv ''AZURE_CLIENT_SECRET'', sec_BaseURL = [],
     sec_MockMode = mock_mode getenv \<rparr>"

definition main_splunk :: "(string \<Rightarrow> string) \<Rightarrow> siem_adapter" where
  "main_splunk getenv = SplunkConn \<lparr> spc_BaseURL = getenv ''SPLUNK_BASE_URL'',
     spc_Token = getenv ''SPLUNK_TOKEN'', spc_SavedSearch = getenv ''SPLUNK_SAVED_SEARCH'',
     spc_MockMode = mock_mode getenv \<rparr>"

definition main_hub :: "(string \<Rightarrow> string) \<Rightarrow> siem_adapter" where
  "main_hub getenv = HubConn \<lparr> awc_Region = getenv ''AWS_REGION'', awc_AccountID = getenv ''AWS_ACCOUNT_ID'',
     awc_AccessKeyID = getenv ''AWS_ACCESS_KEY_ID'', awc_SecretAccessKey = getenv ''AWS_SECRET_ACCESS_KEY'',
     awc_SessionToken = getenv ''AWS_SESSION_TOKEN'', awc_BaseURL = [], awc_MockMode = mock_mode getenv \<rparr>"

definition siem_main :: "(string \<Rightarrow> string) \<Rightarrow> siem_registry" where
  "siem_main getenv =
     conn_Register ''aws-security-hub'' (NewCircuitBreaker cb_DefaultConfig, main_hub getenv)
       (conn_Register ''splunk'' (NewCircuitBreaker cb_DefaultConfig, main_splunk getenv)
         (conn_Register ''sentinel'' (NewCircuitBreaker cb_DefaultConfig, main_sentinel getenv) []))"

section \<open>What the log endpoint can serve\<close>

fun is_mock :: "siem_adapter \<Rightarrow> bool" where
  "is_mock (SentinelConn cfg) = sec_MockMode cfg"
| "is_mock (SplunkConn cfg) = spc_MockMode cfg"
| "is_mock (HubConn cfg) = awc_MockMode cfg"

fun mock_logs :: "siem_lib \<Rightarrow> gotime \<Rightarrow> siem_adapter \<Rightarrow> QueryOptions \<Rightarrow> LogEntry list" where
  "mock_logs L now (SentinelConn cfg) opts = sentinel_mockLogs now cfg opts"
| "mock_logs L now (SplunkConn cfg) opts = splunk_mockLogs now cfg opts"
| "mock_logs L now (HubConn cfg) opts = asffToLogEntries (si_text L) (si_mock L cfg opts)"

text \<open>
  No exchange with a provider completes within \<open>d\<close>: \<open>net/http\<close> fails a request whose context
  ends first.
\<close>

definition slower_than :: "duration \<Rightarrow> 'w net \<Rightarrow> bool" where
  "slower_than d net \<longleftrightarrow> (\<forall>r w. (case or_Deadline r of None \<Rightarrow> False | Some t \<Rightarrow> t \<le> d) \<longrightarrow>
     (case fst (net r w) of Answer _ _ _ \<Rightarrow> False | _ \<Rightarrow> True))"

lemma mock_FetchLogs: "is_mock a \<Longrightarrow> siem_FetchLogs L net now ctx a opts w = (Inr (mock_logs L now a opts), w)"
  by (cases a) (simp_all add: siem_FetchLogs_def sentinel_FetchLogs_def splunk_FetchLogs_def
      hub_FetchLogs_def FetchFindings_def)

lemma slow_fetch_json:
  assumes "slower_than d net" "t \<le> d"
  shows "\<exists>e. fetch_json txt dec (fst (net (get_request (Some t) url hs) w)) = Inl e"
proof -
  have "case fst (net (get_request (Some t) url hs) w) of Answer _ _ _ \<Rightarrow> False | _ \<Rightarrow> True"
    using assms unfolding slower_than_def by (simp add: get_request_def)
  then show ?thesis by (simp add: fetch_json_def split: http_answer.splits)
qed

lemma live_FetchLogs:
  assumes slow: "slower_than d net" "t \<le> d" and live: "\<not> is_mock a"
  shows "\<exists>e. fst (siem_FetchLogs L net now (Some t) a opts w) = Inl e"
proof (cases a)
  case (SentinelConn cfg)
  then show ?thesis
    using live slow_fetch_json [OF slow, of "prefix_texts ''sentinel: ''" "si_sentinel L"]
    by (auto simp: siem_FetchLogs_def sentinel_FetchLogs_def sentinel_fetchFromAPI_def Let_def
        split: prod.splits sum.splits) (metis fst_conv sum.simps(4) Inl_Inr_False)+
next
  case (SplunkConn cfg)
  then show ?thesis
    using live slow_fetch_json [OF slow, of "prefix_texts ''splunk: ''" "si_splunk L"]
    by (auto simp: siem_FetchLogs_def splunk_FetchLogs_def splunk_fetchFromAPI_def Let_def
        split: prod.splits sum.splits) (metis fst_conv sum.simps(4) Inl_Inr_False)+
next
  case (HubConn cfg)
  then show ?thesis
    using live slow_fetch_json [OF slow, of "prefix_texts ''aws-security-hub: ''" "si_hub L"]
    by (auto simp: siem_FetchLogs_def hub_FetchLogs_def FetchFindings_def hub_fetchFindingsFromAPI_def
        Let_def split: prod.splits sum.splits) (metis fst_conv sum.simps(4) Inl_Inr_False)+
qed

lemma guarded_cases:
  assumes slow: "slower_than fetch_timeout net"
    and g: "guarded_FetchLogs L net E (Some fetch_timeout) opts (cb, a) w = ((logs, err), cb1, w1)"
  shows "err = None \<Longrightarrow> is_mock a \<and> logs = mock_logs L (sv_now E) a opts \<and> w1 = w"
    "\<not> is_mock a \<Longrightarrow> err \<noteq> None \<and>
       cb1 = (if fst (cb_admit (sv_t1 E) cb) then cb_record (sv_t2 E) False (snd (cb_admit (sv_t1 E) cb))
              else snd (cb_admit (sv_t1 E) cb))"
proof -
  obtain inner w2 where f: "siem_FetchLogs L net (sv_now E) (Some fetch_timeout) a opts w = (inner, w2)"
    by (cases "siem_FetchLogs L net (sv_now E) (Some fetch_timeout) a opts w")
  show "is_mock a \<and> logs = mock_logs L (sv_now E) a opts \<and> w1 = w" if "err = None"
  proof (cases "fst (cb_admit (sv_t1 E) cb)")
    case True
    then have ans: "(logs, err) = (fst (sum_pair inner), map_option InnerError (snd (sum_pair inner)))"
      and w1: "w1 = w2"
      using g f by (auto simp: guarded_FetchLogs_def cb_FetchLogs_def split: prod.splits)
    then have ok: "\<exists>xs. inner = Inr xs" using that by (cases inner) (simp_all add: sum_pair_def)
    then have "is_mock a" using live_FetchLogs [OF slow order_refl, of a L "sv_now E" opts w] f by auto
    then show ?thesis using mock_FetchLogs [of a L net "sv_now E" "Some fetch_timeout" opts w] f ans w1
      by (simp add: sum_pair_def)
  next
    case False
    then show ?thesis using g that by (simp add: guarded_FetchLogs_def)
  qed
  show "err \<noteq> None \<and> cb1 = (if fst (cb_admit (sv_t1 E) cb)
      then cb_record (sv_t2 E) False (snd (cb_admit (sv_t1 E) cb)) else snd (cb_admit (sv_t1 E) cb))"
    if live: "\<not> is_mock a"
  proof (cases "fst (cb_admit (sv_t1 E) cb)")
    case True
    obtain e where e: "inner = Inl e"
      using live_FetchLogs [OF slow order_refl live, of L "sv_now E" opts w] f by auto
    show ?thesis using g f True
      by (auto simp: guarded_FetchLogs_def cb_FetchLogs_def e sum_pair_def split: prod.splits bool.splits)
  next
    case False
    then show ?thesis using g by (auto simp: guarded_FetchLogs_def)
  qed
qed

definition logs_options :: "string \<Rightarrow> QueryOptions" where
  "logs_options query = (if query \<noteq> [] then no_options\<lparr> qo_Query := query \<rparr> else no_options)"

lemma FetchLogs_eq:
  "conn_Get name reg = Some (cb, a) \<Longrightarrow>
   guarded_FetchLogs L net E (Some fetch_timeout) (logs_options query) (cb, a) w = ((logs, err), cb1, w1) \<Longrightarrow>
   FetchLogs L net E name query reg w =
     ((case err of Some e \<Rightarrow> logs_failure e | None \<Rightarrow> (200, ConnectorLogs logs (length logs) name)),
      AList.update name (cb1, a) reg, w1)"
  by (simp add: FetchLogs_def Let_def logs_options_def split: if_splits)

lemma FetchLogs_served:
  assumes slow: "slower_than fetch_timeout net"
    and r: "FetchLogs L net E name query reg w = ((200, body), reg', w')"
  shows "\<exists>cb a opts. conn_Get name reg = Some (cb, a) \<and> is_mock a \<and> w' = w \<and>
    body = ConnectorLogs (mock_logs L (sv_now E) a opts) (length (mock_logs L (sv_now E) a opts)) name"
proof (cases "conn_Get name reg")
  case None
  then show ?thesis using r by (simp add: FetchLogs_def connector_not_found_def)
next
  case (Some p)
  obtain cb a where p: "p = (cb, a)" by (cases p)
  obtain logs err cb1 w1 where g: "guarded_FetchLogs L net E (Some fetch_timeout)
      (logs_options query) (cb, a) w = ((logs, err), cb1, w1)"
    by (metis prod.collapse)
  note f = FetchLogs_eq [OF Some [unfolded p] g]
  have "err = None"
  proof (cases err)
    case (Some e)
    then show ?thesis using r f by (cases e) (simp_all add: logs_failure_def)
  qed simp
  then have "is_mock a \<and> logs = mock_logs L (sv_now E) a (logs_options query) \<and> w1 = w"
    by (rule guarded_cases(1) [OF slow g])
  then show ?thesis using r f Some p \<open>err = None\<close> by auto
qed

section \<open>The breaker of a live connector\<close>

definition logs_run ::
  "siem_lib \<Rightarrow> 'w net \<Rightarrow> string \<Rightarrow> string \<Rightarrow> siem_env list \<Rightarrow> siem_registry \<times> 'w \<Rightarrow> siem_registry \<times> 'w" where
  "logs_run L net name query Es z = foldl (\<lambda>(reg, w) E. snd (FetchLogs L net E name query reg w)) z Es"

lemma FetchLogs_live:
  assumes slow: "slower_than fetch_timeout net" and live: "\<not> is_mock a"
    and reg: "conn_Get name reg = Some (cb, a)" and closed: "cb_state cb = StateClosed"
  shows "conn_Get name (fst (snd (FetchLogs L net E name query reg w))) =
    Some (cb_record (sv_t2 E) False cb, a)"
proof -
  obtain logs err cb1 w1 where g: "guarded_FetchLogs L net E (Some fetch_timeout)
      (logs_options query) (cb, a) w = ((logs, err), cb1, w1)"
    by (metis prod.collapse)
  have adm: "cb_admit (sv_t1 E) cb = (True, cb)"
    using closed by (simp add: cb_admit_def cb_maybeHalfOpen_def Let_def)
  have "cb1 = cb_record (sv_t2 E) False cb" using guarded_cases(2) [OF slow g live] adm by simp
  then show ?thesis
    unfolding FetchLogs_eq [OF reg g] by (simp add: conn_Get_def update_conv')
qed

lemma logs_run_fails:
  assumes slow: "slower_than fetch_timeout net" and live: "\<not> is_mock a"
  shows "conn_Get name reg = Some (cb, a) \<Longrightarrow> cb_config cb = cb_DefaultConfig \<Longrightarrow>
    cb_state cb = StateClosed \<Longrightarrow> cb_consecutiveFails cb = int k \<Longrightarrow> k + length Es = 5 \<Longrightarrow> Es \<noteq> [] \<Longrightarrow>
    \<exists>cb'. conn_Get name (fst (logs_run L net name query Es (reg, w))) = Some (cb', a) \<and>
      cb_config cb' = cb_DefaultConfig \<and> cb_state cb' = StateOpen \<and> cb_openedAt cb' = sv_t2 (last Es)"
proof (induction Es arbitrary: reg w cb k)
  case (Cons E Es)
  obtain r1 w1 where step: "snd (FetchLogs L net E name query reg w) = (r1, w1)"
    by (cases "snd (FetchLogs L net E name query reg w)")
  let ?cb = "cb_record (sv_t2 E) False cb"
  have got: "conn_Get name r1 = Some (?cb, a)"
    using FetchLogs_live [OF slow live Cons.prems(1,3), of L E query w] step by simp
  have k: "k < 5" using Cons.prems(5) by simp
  have w: "wrap64 (int k + 1) = int (k + 1)"
    using k by (subst wrap64_id) (simp_all add: min_int64_def max_int64_def)
  show ?case
  proof (cases "Es = []")
    case True
    then have "k = 4" using Cons.prems(5) by simp
    then have "cb_config ?cb = cb_DefaultConfig \<and> cb_state ?cb = StateOpen \<and> cb_openedAt ?cb = sv_t2 E"
      using Cons.prems w by (simp add: cb_record_def Let_def cb_DefaultConfig_def)
    then show ?thesis using got step True by (simp add: logs_run_def)
  next
    case False
    then have "k + 1 < 5" using Cons.prems(5) by (cases Es) simp_all
    then have "cb_config ?cb = cb_DefaultConfig" "cb_state ?cb = StateClosed"
      "cb_consecutiveFails ?cb = int (k + 1)"
      using Cons.prems w by (simp_all add: cb_record_def Let_def cb_DefaultConfig_def)
    from Cons.IH [OF got this, of w1] Cons.prems(5) False show ?thesis
      using step by (simp add: logs_run_def)
  qed
qed simp

lemma open_refuses:
  assumes "conn_Get name reg = Some (cb, a)" "cb_config cb = cb_DefaultConfig" "cb_state cb = StateOpen"
    and "sv_t1 E - cb_openedAt cb < 30 * second"
  shows "fst (FetchLogs L net E name query reg w) = logs_failure ErrCircuitOpen"
proof -
  have "time_Sub (sv_t1 E) (cb_openedAt cb) < 30 * second"
    using assms(4) by (simp add: time_Sub_def sat64_def second_def max_int64_def min_int64_def)
  then have "cb_admit (sv_t1 E) cb = (False, cb)"
    using assms by (simp add: cb_admit_def cb_maybeHalfOpen_def Let_def cb_DefaultConfig_def)
  then show ?thesis using assms(1) by (simp add: FetchLogs_def guarded_FetchLogs_def Let_def)
qed

lemma siem_main_conns:
  "conn_Get ''sentinel'' (siem_main getenv) = Some (NewCircuitBreaker cb_DefaultConfig, main_sentinel getenv)"
  "conn_Get ''splunk'' (siem_main getenv) = Some (NewCircuitBreaker cb_DefaultConfig, main_splunk getenv)"
  "conn_Get ''aws-security-hub'' (siem_main getenv) = Some (NewCircuitBreaker cb_DefaultConfig, main_hub getenv)"
  by (simp_all add: siem_main_def)

lemma siem_main_mode:
  "is_mock (main_sentinel getenv) = mock_mode getenv" "is_mock (main_splunk getenv) = mock_mode getenv"
  "is_mock (main_hub getenv) = mock_mode getenv"
  by (simp_all add: main_sentinel_def main_splunk_def main_hub_def)

lemma siem_main_opens:
  assumes slow: "slower_than fetch_timeout net"
    and conn: "conn_Get name (siem_main getenv) = Some (NewCircuitBreaker cb_DefaultConfig, a)" "\<not> is_mock a"
    and five: "length Es = 5" and soon: "sv_t1 E - sv_t2 (last Es) < 30 * second"
    and run: "logs_run L net name query Es (siem_main getenv, w) = (reg, w')"
  shows "fst (FetchLogs L net E name query reg w') = logs_failure ErrCircuitOpen"
proof -
  have "Es \<noteq> []" using five by auto
  then obtain cb where cb: "conn_Get name reg = Some (cb, a)" "cb_config cb = cb_DefaultConfig"
    "cb_state cb = StateOpen" "cb_openedAt cb = sv_t2 (last Es)"
    using logs_run_fails [OF slow conn(2,1), of 0 Es L query w] five run
    by (auto simp: NewCircuitBreaker_def)
  show ?thesis by (rule open_refuses [OF cb(1-3)]) (use soon cb(4) in simp)
qed

text \<open>
  C25. The log endpoint gives its connector 30 nanoseconds, so as long as no exchange with a provider
  completes in that time, every answer 200 holds the entries a connector in mock mode makes up,
  obtained without asking anyone. A live connector always fails, and the sixth request within its
  recovery time is refused by the open breaker. Which connectors are in mock mode is one variable:
  all of them, unless MOCK_MODE is \<open>false\<close>.
\<close>

theorem siem_logs_only_synthetic:
  assumes "slower_than 30 net"
  shows "(\<forall>E name reg body reg' w'. FetchLogs L net E name query reg w = ((200, body), reg', w') \<longrightarrow>
      (\<exists>cb a opts. conn_Get name reg = Some (cb, a) \<and> is_mock a \<and> w' = w \<and>
        body = ConnectorLogs (mock_logs L (sv_now E) a opts) (length (mock_logs L (sv_now E) a opts)) name)) \<and>
    (\<forall>name E Es reg w'. getenv ''MOCK_MODE'' = ''false'' \<and>
      name \<in> {''sentinel'', ''splunk'', ''aws-security-hub''} \<and>
      length Es = 5 \<and> sv_t1 E - sv_t2 (last Es) < 30 * second \<and>
      logs_run L net name query Es (siem_main getenv, w) = (reg, w') \<longrightarrow>
      fst (FetchLogs L net E name query reg w') = (503, ConnectorError ''CIRCUIT_OPEN''
        ''connector circuit breaker is open; upstream is unavailable'')) \<and>
    (\<forall>name cb a. getenv ''MOCK_MODE'' \<noteq> ''false'' \<and> conn_Get name (siem_main getenv) = Some (cb, a) \<longrightarrow>
      is_mock a)"
proof (intro conjI allI impI; (elim conjE)?)
  have slow: "slower_than fetch_timeout net" using assms by (simp add: fetch_timeout_def)
  show "\<exists>cb a opts. conn_Get name reg = Some (cb, a) \<and> is_mock a \<and> w' = w \<and>
      body = ConnectorLogs (mock_logs L (sv_now E) a opts) (length (mock_logs L (sv_now E) a opts)) name"
    if "FetchLogs L net E name query reg w = ((200, body), reg', w')" for E name reg body reg' w'
    using FetchLogs_served [OF slow that] .
  show "fst (FetchLogs L net E name query reg w') = (503, ConnectorError ''CIRCUIT_OPEN''
        ''connector circuit breaker is open; upstream is unavailable'')"
    if env: "getenv ''MOCK_MODE'' = ''false''" and name: "name \<in> {''sentinel'', ''splunk'', ''aws-security-hub''}"
      and rest: "length Es = 5" "sv_t1 E - sv_t2 (last Es) < 30 * second"
        "logs_run L net name query Es (siem_main getenv, w) = (reg, w')"
    for name E Es reg w'
  proof -
    obtain a where "conn_Get name (siem_main getenv) = Some (NewCircuitBreaker cb_DefaultConfig, a)"
      "\<not> is_mock a"
      using name siem_main_conns siem_main_mode env unfolding mock_mode_def by blast
    from siem_main_opens [OF slow this rest] show ?thesis by (simp add: logs_failure_def)
  qed
  show "is_mock a" if "getenv ''MOCK_MODE'' \<noteq> ''false''" "conn_Get name (siem_main getenv) = Some (cb, a)" for name cb a
    using that siem_main_mode [of getenv] by (auto simp: siem_main_def mock_mode_def split: if_splits)
qed

text \<open>A network that answers nothing in time, and five requests of a live Splunk connector.\<close>

definition demo_net :: "nat net" where
  "demo_net r w = (DoError ''context deadline exceeded'', w)"

definition demo_env :: siem_env where
  "demo_env = \<lparr> sv_t1 = 1, sv_t2 = 2, sv_now = 3, sv_order = [] \<rparr>"

definition demo_lib :: siem_lib where
  "demo_lib = \<lparr> si_text = \<lparr> Quote = id, ToLower = id, TrimSpace = id, uuid_Parse = (\<lambda>s. Inl s),
       json_Unmarshal = (\<lambda>s. Inl s), json_Marshal = (\<lambda>j. Inr []), csv_ReadAll = (\<lambda>s. Inr []) \<rparr>,
     si_time = (\<lambda>s. None), si_splunk = (\<lambda>s. Inr []), si_sentinel = (\<lambda>s. Inr []), si_hub = (\<lambda>s. Inr []),
     si_mock = (\<lambda>cfg opts. []) \<rparr>"

theorem siem_logs_only_synthetic_witness:
  "slower_than 30 demo_net \<and>
   fst (FetchLogs demo_lib demo_net demo_env ''splunk'' []
     (fst (logs_run demo_lib demo_net ''splunk'' [] (replicate 5 demo_env) (siem_main (\<lambda>v. ''false''), 0)))
     (snd (logs_run demo_lib demo_net ''splunk'' [] (replicate 5 demo_env) (siem_main (\<lambda>v. ''false''), 0)))) =
   (503, ConnectorError ''CIRCUIT_OPEN'' ''connector circuit breaker is open; upstream is unavailable'')"
proof
  show slow: "slower_than 30 demo_net" by (simp add: slower_than_def demo_net_def)
  let ?r = "logs_run demo_lib demo_net ''splunk'' [] (replicate 5 demo_env) (siem_main (\<lambda>v. ''false''), 0)"
  show "fst (FetchLogs demo_lib demo_net demo_env ''splunk'' [] (fst ?r) (snd ?r)) =
   (503, ConnectorError ''CIRCUIT_OPEN'' ''connector circuit breaker is open; upstream is unavailable'')"
    using siem_logs_only_synthetic [OF slow, where getenv = "\<lambda>v. ''false''" and w = 0 and query = "[]" and
        L = demo_lib, THEN conjunct2, THEN conjunct1, THEN spec [of _ "''splunk''"],
        THEN spec [of _ demo_env], THEN spec [of _ "replicate 5 demo_env"],
        THEN spec [of _ "fst ?r"], THEN spec [of _ "snd ?r"]]
    by (simp add: demo_env_def second_def)
qed

end
