(* ===== verification/HubMock.thy ===== *)
theory HubMock
  imports SecurityHub
begin

text \<open>
  The findings the Security Hub adapter makes up in mock mode
  (services/integration/internal/adapters/aws_security_hub.go): ten templates, repeated up to the
  limit. \<open>mockFindings now\<close> is what \<open>SecurityHub\<close> and \<open>SiemApi\<close> take as \<open>hub_mock\<close>.
\<close>

record mock_template =
  mt_title :: string
  mt_description :: string
  mt_severity :: string
  mt_normalized :: int
  mt_resType :: string
  mt_resID :: string
  mt_generatorID :: string
  mt_findings :: "string list"
  mt_compliance :: "ASFFCompliance option"

definition mockFindingTemplates :: "mock_template list" where
  "mockFindingTemplates = [
     \<lparr> mt_title = ''IAM root account MFA not enabled'',
       mt_description = ''The root account does not have MFA enabled. Enabling MFA for the root account adds an extra layer of protection for access.'',
       mt_severity = ASFFSeverityCritical, mt_normalized = 95, mt_resType = ''AwsIamUser'',
       mt_resID = ''arn:aws:iam::123456789012:root'',
       mt_generatorID = ''arn:aws:securityhub:::ruleset/cis-aws-foundations-benchmark/v/1.2.0/rule/1.1'',
       mt_findings = [''Software and Configuration Checks/AWS Security Best Practices/IAM''],
       mt_compliance = Some \<lparr> co_Status = ASFFComplianceFailed, co_RelatedRequirements = [''CIS AWS Foundations 1.1'', ''PCI DSS v3.2.1/8.3.1''],
         co_SecurityControlID = ''IAM.1'', co_AssociatedStandards = [''arn:aws:securityhub:::ruleset/cis-aws-foundations-benchmark/v/1.2.0'', ''arn:aws:securityhub:us-east-1::standards/pci-dss/v/3.2.1''] \<rparr> \<rparr>,
     \<lparr> mt_title = ''S3 bucket does not have server-side encryption enabled'',
       mt_description = ''This control checks that your S3 bucket either has Amazon S3-managed encryption enabled or uses customer-managed keys.'',
       mt_severity = ASFFSeverityHigh, mt_normalized = 70, mt_resType = ''AwsS3Bucket'',
       mt_resID = ''arn:aws:s3:::my-sensitive-data-bucket'',
       mt_generatorID = ''arn:aws:securityhub:::ruleset/cis-aws-foundations-benchmark/v/1.2.0/rule/2.7'',
       mt_findings = [''Software and Configuration Checks/AWS Security Best Practices/S3''],
       mt_compliance = Some \<lparr> co_Status = ASFFComplianceFailed, co_RelatedRequirements = [''CIS AWS Foundations 2.7'', ''PCI DSS v3.2.1/3.4'', ''SOC 2 CC6.1''],
         co_SecurityControlID = ''S3.4'', co_AssociatedStandards = [''arn:aws:securityhub:::ruleset/cis-aws-foundations-benchmark/v/1.2.0'', ''arn:aws:securityhub:us-east-1::standards/pci-dss/v/3.2.1'', ''arn:aws:securityhub:us-east-1::standards/aws-foundational-security-best-practices/v/1.0.0''] \<rparr> \<rparr>,
     \<lparr> mt_title = ''EC2 security group allows unrestricted SSH access'',
       mt_description = ''This control checks whether the EC2 security group disallows unrestricted incoming SSH traffic. Unrestricted access (0.0.0.0/0) increases the opportunity for malicious activity.'',
       mt_severity = ASFFSeverityHigh, mt_normalized = 75, mt_resType = ''AwsEc2SecurityGroup'',
       mt_resID = ''arn:aws:ec2:us-east-1:123456789012:security-group/sg-0a1b2c3d4e5f67890'',
       mt_generatorID = ''arn:aws:securityhub:::ruleset/cis-aws-foundations-benchmark/v/1.2.0/rule/4.1'',
       mt_findings = [''Software and Configuration Checks/AWS Security Best Practices/EC2''],
       mt_compliance = Some \<lparr> co_Status = ASFFComplianceFailed, co_RelatedRequirements = [''CIS AWS Foundations 4.1'', ''PCI DSS v3.2.1/1.2.1''],
         co_SecurityControlID = ''EC2.13'', co_AssociatedStandards = [''arn:aws:securityhub:::ruleset/cis-aws-foundations-benchmark/v/1.2.0'', ''arn:aws:securityhub:us-east-1::standards/pci-dss/v/3.2.1''] \<rparr> \<rparr>,
     \<lparr> mt_title = ''RDS instance is not encrypted at rest'',
       mt_description = ''This control checks whether storage encryption is enabled for your RDS DB instance. RDS DB instances should have encryption at rest enabled to protect your data.'',
       mt_severity = ASFFSeverityMedium, mt_normalized = 50, mt_resType = ''AwsRdsDbInstance'',
       mt_resID = ''arn:aws:rds:us-east-1:123456789012:db:my-prod-db'',
       mt_generatorID = ''arn:aws:securityhub:::ruleset/cis-aws-foundations-benchmark/v/1.2.0/rule/2.3'',
       mt_findings = [''Software and Configuration Checks/AWS Security Best Practices/RDS''],
       mt_compliance = Some \<lparr> co_Status = ASFFComplianceFailed, co_RelatedRequirements = [''PCI DSS v3.2.1/3.4'', ''SOC 2 CC6.1''],
         co_SecurityControlID = ''RDS.3'', co_AssociatedStandards = [''arn:aws:securityhub:us-east-1::standards/pci-dss/v/3.2.1'', ''arn:aws:securityhub:us-east-1::standards/aws-foundational-security-best-practices/v/1.0.0''] \<rparr> \<rparr>,
     \<lparr> mt_title = ''Lambda function environment variables contain secrets'',
       mt_description = ''This control checks that Lambda function environment variables do not contain AWS credentials. Storing plaintext credentials in Lambda environment variables risks credential exposure.'',
       mt_severity = ASFFSeverityHigh, mt_normalized = 70, mt_resType = ''AwsLambdaFunction'',
       mt_resID = ''arn:aws:lambda:us-east-1:123456789012:function:my-data-processor'',
       mt_generatorID = ''arn:aws:securityhub:us-east-1:123456789012:security-control/Lambda.3'',
       mt_findings = [''Software and Configuration Checks/AWS Security Best Practices/Lambda''],
       mt_compliance = Some \<lparr> co_Status = ASFFComplianceFailed, co_RelatedRequirements = [''SOC 2 CC6.7''],
         co_SecurityControlID = ''Lambda.3'', co_AssociatedStandards = [''arn:aws:securityhub:us-east-1::standards/aws-foundational-security-best-practices/v/1.0.0''] \<rparr> \<rparr>,
     \<lparr> mt_title = ''IAM password policy does not prevent password reuse'',
       mt_description = ''The IAM account password policy should prevent the reuse of the last 24 passwords to reduce the risk of compromised credentials being reused.'',
       mt_severity = ASFFSeverityMedium, mt_normalized = 40, mt_resType = ''AwsIamPasswordPolicy'',
       mt_resID = ''arn:aws:iam::123456789012:account-policy'',
       mt_generatorID = ''arn:aws:securityhub:::ruleset/cis-aws-foundations-benchmark/v/1.2.0/rule/1.10'',
       mt_findings = [''Software and Configuration Checks/AWS Security Best Practices/IAM''],
       mt_compliance = Some \<lparr> co_Status = ASFFComplianceFailed, co_RelatedRequirements = [''CIS AWS Foundations 1.10'', ''PCI DSS v3.2.1/8.2.5''],
         co_SecurityControlID = ''IAM.10'', co_AssociatedStandards = [''arn:aws:securityhub:::ruleset/cis-aws-foundations-benchmark/v/1.2.0'', ''arn:aws:securityhub:us-east-1::standards/pci-dss/v/3.2.1''] \<rparr> \<rparr>,
     \<lparr> mt_title = ''S3 bucket public read access is enabled'',
       mt_description = ''This control checks whether S3 bucket policies and ACLs allow public read access. Public read access could expose sensitive data.'',
       mt_severity = ASFFSeverityCritical, mt_normalized = 90, mt_resType = ''AwsS3Bucket'',
       mt_resID = ''arn:aws:s3:::my-public-facing-assets'',
       mt_generatorID = ''arn:aws:securityhub:::ruleset/cis-aws-foundations-benchmark/v/1.2.0/rule/2.3'',
       mt_findings = [''Software and Configuration Checks/AWS Security Best Practices/S3''],
       mt_compliance = Some \<lparr> co_Status = ASFFCompliancePassed, co_RelatedRequirements = [''CIS AWS Foundations 2.3'', ''SOC 2 CC6.1''],
         co_SecurityControlID = ''S3.2'', co_AssociatedStandards = [''arn:aws:securityhub:::ruleset/cis-aws-foundations-benchmark/v/1.2.0'', ''arn:aws:securityhub:us-east-1::standards/aws-foundational-security-best-practices/v/1.0.0''] \<rparr> \<rparr>,
     \<lparr> mt_title = ''CloudTrail is not enabled in all regions'',
       mt_description = ''AWS CloudTrail should be enabled and configured with at least one multi-Region trail to ensure that API activity is monitored across all regions.'',
       mt_severity = ASFFSeverityHigh, mt_normalized = 75, mt_resType = ''AwsCloudTrailTrail'',
       mt_resID = ''arn:aws:cloudtrail:us-east-1:123456789012:trail/management-events-trail'',
       mt_generatorID = ''arn:aws:securityhub:::ruleset/cis-aws-foundations-benchmark/v/1.2.0/rule/2.1'',
       mt_findings = [''Software and Configuration Checks/AWS Security Best Practices/CloudTrail''],
       mt_compliance = Some \<lparr> co_Status = ASFFComplianceFailed, co_RelatedRequirements = [''CIS AWS Foundations 2.1'', ''PCI DSS v3.2.1/10.1'', ''SOC 2 CC7.2''],
         co_SecurityControlID = ''CloudTrail.1'', co_AssociatedStandards = [''arn:aws:securityhub:::ruleset/cis-aws-foundations-benchmark/v/1.2.0'', ''arn:aws:securityhub:us-east-1::standards/pci-dss/v/3.2.1'', ''arn:aws:securityhub:us-east-1::standards/aws-foundational-security-best-practices/v/1.0.0''] \<rparr> \<rparr>,
     \<lparr> mt_title = ''KMS key rotation is not enabled'',
       mt_description = ''AWS KMS customer managed keys should be rotated automatically. Key rotation reduces the risk that a compromised key is used to decrypt data.'',
       mt_severity = ASFFSeverityMedium, mt_normalized = 40, mt_resType = ''AwsKmsKey'',
       mt_resID = ''arn:aws:kms:us-east-1:123456789012:key/0a1b2c3d-4e5f-6789-abcd-ef0123456789'',
       mt_generatorID = ''arn:aws:securityhub:::ruleset/cis-aws-foundations-benchmark/v/1.2.0/rule/2.8'',
       mt_findings = [''Software and Configuration Checks/AWS Security Best Practices/KMS''],
       mt_compliance = Some \<lparr> co_Status = ASFFComplianceFailed, co_RelatedRequirements = [''CIS AWS Foundations 2.8'', ''SOC 2 CC6.7''],
         co_SecurityControlID = ''KMS.4'', co_AssociatedStandards = [''arn:aws:securityhub:::ruleset/cis-aws-foundations-benchmark/v/1.2.0'', ''arn:aws:securityhub:us-east-1::standards/aws-foundational-security-best-practices/v/1.0.0''] \<rparr> \<rparr>,
     \<lparr> mt_title = ''EC2 instance is using a deprecated AMI'',
       mt_description = ''This control checks whether an EC2 instance is running a deprecated AMI. Deprecated AMIs may contain unpatched vulnerabilities.'',
       mt_severity = ASFFSeverityLow, mt_normalized = 25, mt_resType = ''AwsEc2Instance'',
       mt_resID = ''arn:aws:ec2:us-east-1:123456789012:instance/i-0a1b2c3d4e5f6789a'',
       mt_generatorID = ''arn:aws:securityhub:us-east-1:123456789012:security-control/EC2.166'',
       mt_findings = [''Software and Configuration Checks/AWS Security Best Practices/EC2''],
       mt_compliance = Some \<lparr> co_Status = ASFFComplianceWarning, co_RelatedRequirements = [''SOC 2 CC7.1''],
         co_SecurityControlID = ''EC2.166'', co_AssociatedStandards = [''arn:aws:securityhub:us-east-1::standards/aws-foundational-security-best-practices/v/1.0.0''] \<rparr> \<rparr>]"

text \<open>\<open>s[len(s)-6:]\<close>; every template's generator is longer.\<close>

definition last6 :: "string \<Rightarrow> string" where
  "last6 s = drop (length s - 6) s"

definition mock_asff :: "gotime \<Rightarrow> string \<Rightarrow> string \<Rightarrow> nat \<Rightarrow> mock_template \<Rightarrow> ASFFinding" where
  "mock_asff now region account i t =
     \<lparr> fi_SchemaVersion = ''2018-10-08'',
       fi_ID = ''arn:aws:securityhub:'' @ region @ '':'' @ account @
         '':subscription/aws-foundational-security-best-practices/v/1.0.0/'' @ last6 (mt_generatorID t) @
         ''/finding/MOCK-'' @ pad0 4 (dec_digits (i + 1)),
       fi_ProductArn = ''arn:aws:securityhub:'' @ region @ ''::product/aws/securityhub'',
       fi_ProductName = ''Security Hub'', fi_CompanyName = ''AWS'', fi_GeneratorID = mt_generatorID t,
       fi_GeneratorDetails = None, fi_AwsAccountID = account, fi_Region = region,
       fi_Types = mt_findings t, fi_FirstObservedAt = now - int (i + 7) * 24 * hour,
       fi_LastObservedAt = now - int i * hour, fi_CreatedAt = now - int (i + 7) * 24 * hour,
       fi_UpdatedAt = now - int i * hour,
       fi_Severity = \<lparr> as_Label = mt_severity t, as_Normalized = mt_normalized t, as_Original = [] \<rparr>,
       fi_Title = mt_title t, fi_Description = mt_description t,
       fi_RemediationText = ''Follow AWS Security Hub guidance for control '' @ last6 (mt_generatorID t),
       fi_RemediationURL =
         ''https://docs.aws.amazon.com/securityhub/latest/userguide/securityhub-controls-reference.html'',
       fi_SourceURL = [],
       fi_Resources = [\<lparr> af_Type = mt_resType t, af_ID = mt_resID t, af_Region = region,
         af_Partition = ''aws'', af_Details = None \<rparr>],
       fi_Compliance = mt_compliance t, fi_WorkflowStatus = ASFFWorkflowNew,
       fi_RecordState = ASFFRecordActive, fi_Note = None, fi_FindingProviderFields = None \<rparr>"

definition mockFindings :: "gotime \<Rightarrow> hub_mock" where
  "mockFindings now cfg opts =
     (let account = (if awc_AccountID cfg = [] then ''123456789012'' else awc_AccountID cfg);
          region = (if awc_Region cfg = [] then ''us-east-1'' else awc_Region cfg)
      in map (\<lambda>i. mock_asff now region account i
            (mockFindingTemplates ! (i mod length mockFindingTemplates)))
           [0..<nat (hubEffectiveLimit opts)])"

text \<open>As many findings as asked for, and the slices stay inside their strings.\<close>

lemma mockFindings_length:
  "int (length (mockFindings now cfg opts)) = hubEffectiveLimit opts"
  "list_all (\<lambda>t. 6 \<le> length (mt_generatorID t)) mockFindingTemplates"
  by (simp_all add: mockFindings_def Let_def hubEffectiveLimit_def mockFindingTemplates_def)

end
