(* ===== verification/VulnEvidence.thy ===== *)
theory VulnEvidence
  imports IntegrationHttp Float64
begin

text \<open>
  Vulnerability findings, endpoints and detections, normalised
  (services/integration/internal/vulnconnector/vuln.go), and the evidence items made of them
  (services/integration/internal/vulnconnector/evidence.go). \<open>time.Time.Format\<close> with RFC 3339 is the
  parameter \<open>fmt\<close>; a metadata value is one of the three kinds the code puts there.
\<close>

section \<open>Severities\<close>

datatype Severity = SeverityCritical | SeverityHigh | SeverityMedium | SeverityLow
  | SeverityInformational | SeverityNone

definition NormalizeCVSS3 :: "float64 \<Rightarrow> Severity" where
  "NormalizeCVSS3 score =
     (if 9 \<le> score then SeverityCritical else if 7 \<le> score then SeverityHigh
      else if 4 \<le> score then SeverityMedium else if 0 < score then SeverityLow
      else SeverityInformational)"

definition NormalizeCVSS2 :: "float64 \<Rightarrow> Severity" where
  "NormalizeCVSS2 score =
     (if 7 \<le> score then SeverityHigh else if 4 \<le> score then SeverityMedium
      else if 0 < score then SeverityLow else SeverityInformational)"

definition NormalizeSeverityLabel :: "string \<Rightarrow> Severity" where
  "NormalizeSeverityLabel label =
     (if label \<in> {''5'', ''CRITICAL'', ''Critical'', ''critical''} then SeverityCritical
      else if label \<in> {''4'', ''HIGH'', ''High'', ''high''} then SeverityHigh
      else if label \<in> {''3'', ''MEDIUM'', ''Medium'', ''medium''} then SeverityMedium
      else if label \<in> {''2'', ''LOW'', ''Low'', ''low''} then SeverityLow
      else if label \<in> {''1'', ''INFO'', ''Info'', ''info'', ''INFORMATIONAL'', ''Informational'', ''informational''}
      then SeverityInformational
      else SeverityNone)"

section \<open>Normalised records\<close>

record VulnFinding =
  vf_ID :: string
  vf_Source :: string
  vf_HostID :: string
  vf_HostIP :: string
  vf_HostName :: string
  vf_QID :: string
  vf_PluginID :: string
  vf_CVEIDs :: "string list"
  vf_CVSS2Score :: float64
  vf_CVSS3Score :: float64
  vf_Severity :: Severity
  vf_Title :: string
  vf_Description :: string
  vf_Solution :: string
  vf_RemediationStatus :: string
  vf_FirstDetected :: gotime
  vf_LastDetected :: gotime
  vf_RawData :: "string \<rightharpoonup> string"

record EndpointDevice =
  ed_ID :: string
  ed_Source :: string
  ed_Hostname :: string
  ed_IPAddresses :: "string list"
  ed_OperatingSystem :: string
  ed_AgentVersion :: string
  ed_Status :: string
  ed_LastSeen :: gotime
  ed_Tags :: "string list"
  ed_RawData :: "string \<rightharpoonup> string"

record DetectionEvent =
  de_ID :: string
  de_Source :: string
  de_Severity :: Severity
  de_Status :: string
  de_Title :: string
  de_Description :: string
  de_Tactics :: "string list"
  de_Techniques :: "string list"
  de_HostIDs :: "string list"
  de_StartTime :: gotime
  de_EndTime :: gotime
  de_RawData :: "string \<rightharpoonup> string"

section \<open>Evidence\<close>

datatype EvidenceCategory = EvidenceCategoryVulnerability | EvidenceCategoryEndpoint
  | EvidenceCategoryDetection

datatype meta = MetaText string | MetaNumber float64 | MetaList "string list"

record EvidenceItem =
  vi_ID :: string
  vi_Source :: string
  vi_Category :: EvidenceCategory
  vi_Severity :: Severity
  vi_Title :: string
  vi_Description :: string
  vi_CollectedAt :: gotime
  vi_Metadata :: "string \<rightharpoonup> meta"

text \<open>An entry that is made only when its condition holds.\<close>

definition meta_when :: "bool \<Rightarrow> string \<Rightarrow> meta \<Rightarrow> (string \<rightharpoonup> meta) \<Rightarrow> string \<rightharpoonup> meta" where
  "meta_when b k v m = (if b then m(k \<mapsto> v) else m)"

definition VulnFindingToEvidence :: "(gotime \<Rightarrow> string) \<Rightarrow> gotime \<Rightarrow> VulnFinding \<Rightarrow> EvidenceItem" where
  "VulnFindingToEvidence fmt now f =
     (let m = [''host_id'' \<mapsto> MetaText (vf_HostID f), ''host_ip'' \<mapsto> MetaText (vf_HostIP f),
            ''host_name'' \<mapsto> MetaText (vf_HostName f), ''cvss3_score'' \<mapsto> MetaNumber (vf_CVSS3Score f),
            ''cvss2_score'' \<mapsto> MetaNumber (vf_CVSS2Score f),
            ''remediation_status'' \<mapsto> MetaText (vf_RemediationStatus f),
            ''first_detected'' \<mapsto> MetaText (fmt (vf_FirstDetected f)),
            ''last_detected'' \<mapsto> MetaText (fmt (vf_LastDetected f))];
          m = meta_when (vf_CVEIDs f \<noteq> []) ''cve_ids'' (MetaList (vf_CVEIDs f)) m;
          m = meta_when (vf_QID f \<noteq> []) ''qid'' (MetaText (vf_QID f)) m;
          m = meta_when (vf_PluginID f \<noteq> []) ''plugin_id'' (MetaText (vf_PluginID f)) m;
          m = meta_when (vf_Solution f \<noteq> []) ''solution'' (MetaText (vf_Solution f)) m
      in \<lparr> vi_ID = vf_Source f @ ''/'' @ vf_ID f, vi_Source = vf_Source f,
           vi_Category = EvidenceCategoryVulnerability, vi_Severity = vf_Severity f,
           vi_Title = vf_Title f, vi_Description = vf_Description f, vi_CollectedAt = now,
           vi_Metadata = m \<rparr>)"

definition EndpointDeviceToEvidence :: "(gotime \<Rightarrow> string) \<Rightarrow> gotime \<Rightarrow> EndpointDevice \<Rightarrow> EvidenceItem" where
  "EndpointDeviceToEvidence fmt now d =
     (let m = [''hostname'' \<mapsto> MetaText (ed_Hostname d),
            ''operating_system'' \<mapsto> MetaText (ed_OperatingSystem d),
            ''agent_version'' \<mapsto> MetaText (ed_AgentVersion d), ''status'' \<mapsto> MetaText (ed_Status d),
            ''last_seen'' \<mapsto> MetaText (fmt (ed_LastSeen d))];
          m = meta_when (ed_IPAddresses d \<noteq> []) ''ip_addresses'' (MetaList (ed_IPAddresses d)) m;
          m = meta_when (ed_Tags d \<noteq> []) ''tags'' (MetaList (ed_Tags d)) m
      in \<lparr> vi_ID = ed_Source d @ ''/'' @ ed_ID d, vi_Source = ed_Source d,
           vi_Category = EvidenceCategoryEndpoint, vi_Severity = SeverityInformational,
           vi_Title = ''Endpoint: '' @ ed_Hostname d,
           vi_Description = ''Managed endpoint '' @ ed_Hostname d @ '' ('' @ ed_Source d @ '') running '' @
             ed_OperatingSystem d @ '', status: '' @ ed_Status d,
           vi_CollectedAt = now, vi_Metadata = m \<rparr>)"

definition DetectionEventToEvidence :: "(gotime \<Rightarrow> string) \<Rightarrow> gotime \<Rightarrow> DetectionEvent \<Rightarrow> EvidenceItem" where
  "DetectionEventToEvidence fmt now e =
     (let m = [''status'' \<mapsto> MetaText (de_Status e), ''start_time'' \<mapsto> MetaText (fmt (de_StartTime e)),
            ''end_time'' \<mapsto> MetaText (fmt (de_EndTime e))];
          m = meta_when (de_Tactics e \<noteq> []) ''tactics'' (MetaList (de_Tactics e)) m;
          m = meta_when (de_Techniques e \<noteq> []) ''techniques'' (MetaList (de_Techniques e)) m;
          m = meta_when (de_HostIDs e \<noteq> []) ''host_ids'' (MetaList (de_HostIDs e)) m
      in \<lparr> vi_ID = de_Source e @ ''/'' @ de_ID e, vi_Source = de_Source e,
           vi_Category = EvidenceCategoryDetection, vi_Severity = de_Severity e,
           vi_Title = de_Title e, vi_Description = de_Description e, vi_CollectedAt = now,
           vi_Metadata = m \<rparr>)"

text \<open>The bulk conversions; \<open>clock i\<close> is the time read for the \<open>i\<close>-th item.\<close>

definition VulnFindingsToEvidence ::
  "(gotime \<Rightarrow> string) \<Rightarrow> (nat \<Rightarrow> gotime) \<Rightarrow> VulnFinding list \<Rightarrow> EvidenceItem list" where
  "VulnFindingsToEvidence fmt clock fs =
     map (\<lambda>(i, f). VulnFindingToEvidence fmt (clock i) f) (enumerate 0 fs)"

definition EndpointDevicesToEvidence ::
  "(gotime \<Rightarrow> string) \<Rightarrow> (nat \<Rightarrow> gotime) \<Rightarrow> EndpointDevice list \<Rightarrow> EvidenceItem list" where
  "EndpointDevicesToEvidence fmt clock ds =
     map (\<lambda>(i, d). EndpointDeviceToEvidence fmt (clock i) d) (enumerate 0 ds)"

definition DetectionEventsToEvidence ::
  "(gotime \<Rightarrow> string) \<Rightarrow> (nat \<Rightarrow> gotime) \<Rightarrow> DetectionEvent list \<Rightarrow> EvidenceItem list" where
  "DetectionEventsToEvidence fmt clock es =
     map (\<lambda>(i, e). DetectionEventToEvidence fmt (clock i) e) (enumerate 0 es)"

section \<open>Items and their sources\<close>

lemma map_enumerate:
  "(\<And>i x. g (F (c i) x) = h x) \<Longrightarrow> map g (map (\<lambda>(i, x). F (c i) x) (enumerate n xs)) = map h xs"
  by (induction xs arbitrary: n) simp_all

lemma vuln_items:
  "map vi_ID (VulnFindingsToEvidence fmt clock fs) = map (\<lambda>f. vf_Source f @ ''/'' @ vf_ID f) fs"
  "map vi_Severity (VulnFindingsToEvidence fmt clock fs) = map vf_Severity fs"
  "map vi_Title (VulnFindingsToEvidence fmt clock fs) = map vf_Title fs"
  "list_all (\<lambda>i. vi_Category i = EvidenceCategoryVulnerability) (VulnFindingsToEvidence fmt clock fs)"
  "length (VulnFindingsToEvidence fmt clock fs) = length fs"
  unfolding VulnFindingsToEvidence_def
  by (rule map_enumerate, simp add: VulnFindingToEvidence_def Let_def)+
    (auto simp: list_all_iff VulnFindingToEvidence_def Let_def)

lemma endpoint_items:
  "map vi_ID (EndpointDevicesToEvidence fmt clock ds) = map (\<lambda>d. ed_Source d @ ''/'' @ ed_ID d) ds"
  "list_all (\<lambda>i. vi_Category i = EvidenceCategoryEndpoint \<and> vi_Severity i = SeverityInformational)
     (EndpointDevicesToEvidence fmt clock ds)"
  "length (EndpointDevicesToEvidence fmt clock ds) = length ds"
  unfolding EndpointDevicesToEvidence_def
  by (rule map_enumerate, simp add: EndpointDeviceToEvidence_def Let_def)
    (auto simp: list_all_iff EndpointDeviceToEvidence_def Let_def)

text \<open>The three scales agree on what they share: a label never disagrees with a CVSS band.\<close>

fun severity_rank :: "Severity \<Rightarrow> nat" where
  "severity_rank SeverityNone = 0"
| "severity_rank SeverityInformational = 1"
| "severity_rank SeverityLow = 2"
| "severity_rank SeverityMedium = 3"
| "severity_rank SeverityHigh = 4"
| "severity_rank SeverityCritical = 5"

lemma cvss_monotone:
  "x \<le> y \<Longrightarrow> severity_rank (NormalizeCVSS3 x) \<le> severity_rank (NormalizeCVSS3 y)"
  "x \<le> y \<Longrightarrow> severity_rank (NormalizeCVSS2 x) \<le> severity_rank (NormalizeCVSS2 y)"
  by (auto simp: NormalizeCVSS3_def NormalizeCVSS2_def)

lemma cvss_agree:
  "severity_rank (NormalizeCVSS2 x) = min 4 (severity_rank (NormalizeCVSS3 x))"
  by (simp add: NormalizeCVSS3_def NormalizeCVSS2_def)

end
