(* ===== verification/VulnAdapters.thy ===== *)
theory VulnAdapters
  imports VulnEvidence
begin

text \<open>
  The live side of the Tenable, Qualys and CrowdStrike adapters
  (services/integration/internal/adapters/tenable.go, qualys.go, crowdstrike.go): the requests, the
  response types and their normalisation. \<open>parse\<close> is \<open>time.Parse\<close> with RFC 3339.
\<close>

definition first_or_empty :: "string list \<Rightarrow> string" where
  "first_or_empty xs = (case xs of [] \<Rightarrow> [] | x # _ \<Rightarrow> x)"

section \<open>Tenable\<close>

record TenableConfig =
  tc_BaseURL :: string
  tc_AccessKey :: string
  tc_SecretKey :: string
  tc_MockMode :: bool

definition NewTenableAdapter :: "TenableConfig \<Rightarrow> TenableConfig" where
  "NewTenableAdapter cfg =
     (if tc_BaseURL cfg = [] then cfg\<lparr> tc_BaseURL := ''https://cloud.tenable.com'' \<rparr> else cfg)"

record tenable_host =
  th_Hostname :: string
  th_IPv4 :: string
  th_ID :: string

record tenable_vuln =
  tv_PluginID :: int
  tv_PluginName :: string
  tv_PluginFamily :: string
  tv_Severity :: int
  tv_Count :: int
  tv_CVSS3BaseScore :: float64
  tv_CVSS2BaseScore :: float64
  tv_VulnText :: string
  tv_Solution :: string
  tv_AffectedHosts :: "tenable_host list"
  tv_CVEs :: "string list"

record tenable_asset =
  ta_ID :: string
  ta_Hostnames :: "string list"
  ta_IPv4s :: "string list"
  ta_OS :: "string list"
  ta_LastSeen :: string
  ta_Tags :: "(string \<times> string) list"

definition tenable_setAuth :: "TenableConfig \<Rightarrow> (string \<times> string) list" where
  "tenable_setAuth cfg = [(''X-ApiKeys'', ''accessKey='' @ tc_AccessKey cfg @ '';secretKey='' @ tc_SecretKey cfg),
     content_json]"

definition tenableSeverityFromInt :: "int \<Rightarrow> Severity" where
  "tenableSeverityFromInt s =
     (if s = 4 then SeverityCritical else if s = 3 then SeverityHigh else if s = 2 then SeverityMedium
      else if s = 1 then SeverityLow else SeverityInformational)"

definition tenableEffectiveLimit :: "QueryOptions \<Rightarrow> int" where
  "tenableEffectiveLimit opts = (if 0 < qo_Limit opts \<and> qo_Limit opts \<le> 100 then qo_Limit opts else 10)"

definition tenable_finding :: "gotime \<Rightarrow> tenable_vuln \<Rightarrow> VulnFinding" where
  "tenable_finding now v =
     (let sev = (if 0 < tv_CVSS3BaseScore v then NormalizeCVSS3 (tv_CVSS3BaseScore v)
            else tenableSeverityFromInt (tv_Severity v));
          (hostID, hostIP, hostname) = (case tv_AffectedHosts v of
              [] \<Rightarrow> ([], [], [])
            | h # _ \<Rightarrow> (th_ID h, th_IPv4 h, th_Hostname h))
      in \<lparr> vf_ID = int_text (tv_PluginID v), vf_Source = ''tenable'', vf_HostID = hostID,
           vf_HostIP = hostIP, vf_HostName = hostname, vf_QID = [],
           vf_PluginID = int_text (tv_PluginID v), vf_CVEIDs = tv_CVEs v,
           vf_CVSS2Score = tv_CVSS2BaseScore v, vf_CVSS3Score = tv_CVSS3BaseScore v, vf_Severity = sev,
           vf_Title = tv_PluginName v, vf_Description = tv_VulnText v, vf_Solution = tv_Solution v,
           vf_RemediationStatus = [], vf_FirstDetected = now - 72 * 60 * minute, vf_LastDetected = now,
           vf_RawData = [''plugin_family'' \<mapsto> tv_PluginFamily v, ''count'' \<mapsto> int_text (tv_Count v)] \<rparr>)"

definition tenable_fetchVulnsFromAPI ::
  "'w net \<Rightarrow> tenable_vuln list unmarshal \<Rightarrow> gotime \<Rightarrow> duration option \<Rightarrow> TenableConfig \<Rightarrow> QueryOptions \<Rightarrow>
   'w \<Rightarrow> (string + VulnFinding list) \<times> 'w" where
  "tenable_fetchVulnsFromAPI net dec now ctx cfg opts w =
     (let url = tc_BaseURL cfg @ ''/workbenches/vulnerabilities?num_findings='' @
            int_text (tenableEffectiveLimit opts)
      in case net (get_request ctx url (tenable_setAuth cfg)) w of (ans, w1) \<Rightarrow>
           (map_sum id (map (tenable_finding now)) (fetch_json (prefix_texts ''tenable: '') dec ans), w1))"

definition tenable_device :: "(string \<Rightarrow> gotime option) \<Rightarrow> tenable_asset \<Rightarrow> EndpointDevice" where
  "tenable_device parse a =
     \<lparr> ed_ID = ta_ID a, ed_Source = ''tenable'', ed_Hostname = first_or_empty (ta_Hostnames a),
       ed_IPAddresses = ta_IPv4s a, ed_OperatingSystem = first_or_empty (ta_OS a), ed_AgentVersion = [],
       ed_Status = ''active'', ed_LastSeen = parse_or_zero parse (ta_LastSeen a),
       ed_Tags = map (\<lambda>(k, v). k @ '':'' @ v) (ta_Tags a), ed_RawData = Map.empty \<rparr>"

definition tenable_fetchAssetsFromAPI ::
  "'w net \<Rightarrow> tenable_asset list unmarshal \<Rightarrow> (string \<Rightarrow> gotime option) \<Rightarrow> duration option \<Rightarrow> TenableConfig \<Rightarrow>
   QueryOptions \<Rightarrow> 'w \<Rightarrow> (string + EndpointDevice list) \<times> 'w" where
  "tenable_fetchAssetsFromAPI net dec parse ctx cfg opts w =
     (let url = tc_BaseURL cfg @ ''/assets?limit='' @ int_text (tenableEffectiveLimit opts)
      in case net (get_request ctx url (tenable_setAuth cfg)) w of (ans, w1) \<Rightarrow>
           (map_sum id (map (tenable_device parse))
              (fetch_json (kind_texts ''tenable: '' ''asset '') dec ans), w1))"

definition tenable_Health ::
  "'w net \<Rightarrow> gotime \<Rightarrow> duration option \<Rightarrow> TenableConfig \<Rightarrow> 'w \<Rightarrow> HealthStatus \<times> 'w" where
  "tenable_Health net now ctx cfg w =
     (if tc_MockMode cfg then (mock_health ''tenable'' now, w)
      else case net (get_request ctx (tc_BaseURL cfg @ ''/session'') (tenable_setAuth cfg)) w of
             (ans, w1) \<Rightarrow> (probe_health ''tenable'' now ans, w1))"

section \<open>Qualys\<close>

record QualysConfig =
  qc_BaseURL :: string
  qc_Username :: string
  qc_Password :: string
  qc_MockMode :: bool

definition NewQualysAdapter :: "QualysConfig \<Rightarrow> QualysConfig" where
  "NewQualysAdapter cfg =
     (if qc_BaseURL cfg = [] then cfg\<lparr> qc_BaseURL := ''https://qualysapi.qualys.com'' \<rparr> else cfg)"

record qualys_detection =
  qd_QID :: string
  qd_Severity :: string
  qd_CVSS3 :: float64
  qd_CVSS2 :: float64
  qd_CVEs :: string
  qd_Title :: string
  qd_Status :: string
  qd_FirstFound :: string
  qd_LastFound :: string

record qualys_host =
  qh_IP :: string
  qh_ID :: string
  qh_DNS :: string
  qh_DetList :: "qualys_detection list"

record qualys_asset =
  qa_ID :: string
  qa_IP :: string
  qa_DNS :: string
  qa_OS :: string

definition qualysEffectiveLimit :: "QueryOptions \<Rightarrow> int" where
  "qualysEffectiveLimit opts = (if 0 < qo_Limit opts \<and> qo_Limit opts \<le> 100 then qo_Limit opts else 10)"

definition qualys_headers :: "QualysConfig \<Rightarrow> (string \<times> string) list" where
  "qualys_headers cfg =
     [basic_auth (qc_Username cfg) (qc_Password cfg), (''X-Requested-With'', ''AIAUDITOR'')]"

definition qualys_severity :: "qualys_detection \<Rightarrow> Severity" where
  "qualys_severity det =
     (let sev = NormalizeCVSS3 (qd_CVSS3 det);
          sev = (if sev = SeverityInformational \<and> 0 < qd_CVSS2 det then NormalizeCVSS2 (qd_CVSS2 det) else sev)
      in if sev = SeverityInformational then NormalizeSeverityLabel (qd_Severity det) else sev)"

definition qualys_finding :: "(string \<Rightarrow> gotime option) \<Rightarrow> qualys_host \<Rightarrow> qualys_detection \<Rightarrow> VulnFinding" where
  "qualys_finding parse host det =
     \<lparr> vf_ID = qh_ID host @ ''-'' @ qd_QID det, vf_Source = ''qualys'', vf_HostID = qh_ID host,
       vf_HostIP = qh_IP host, vf_HostName = qh_DNS host, vf_QID = qd_QID det, vf_PluginID = [],
       vf_CVEIDs = [], vf_CVSS2Score = qd_CVSS2 det, vf_CVSS3Score = qd_CVSS3 det,
       vf_Severity = qualys_severity det, vf_Title = qd_Title det, vf_Description = [],
       vf_Solution = [], vf_RemediationStatus = qd_Status det,
       vf_FirstDetected = parse_or_zero parse (qd_FirstFound det),
       vf_LastDetected = parse_or_zero parse (qd_LastFound det), vf_RawData = Map.empty \<rparr>"

definition qualys_fetchVulnsFromAPI ::
  "'w net \<Rightarrow> qualys_host list unmarshal \<Rightarrow> (string \<Rightarrow> gotime option) \<Rightarrow> duration option \<Rightarrow> QualysConfig \<Rightarrow>
   QueryOptions \<Rightarrow> 'w \<Rightarrow> (string + VulnFinding list) \<times> 'w" where
  "qualys_fetchVulnsFromAPI net dec parse ctx cfg opts w =
     (let url = qc_BaseURL cfg @
            ''/api/2.0/fo/asset/host/vm/detection/?action=list&output_format=JSON&truncation_limit='' @
            int_text (qualysEffectiveLimit opts)
      in case net (get_request ctx url (qualys_headers cfg)) w of (ans, w1) \<Rightarrow>
           (map_sum id (\<lambda>hosts. concat (map (\<lambda>h. map (qualys_finding parse h) (qh_DetList h)) hosts))
              (fetch_json (prefix_texts ''qualys: '') dec ans), w1))"

definition qualys_device :: "gotime \<Rightarrow> qualys_asset \<Rightarrow> EndpointDevice" where
  "qualys_device now h =
     \<lparr> ed_ID = qa_ID h, ed_Source = ''qualys'', ed_Hostname = qa_DNS h, ed_IPAddresses = [qa_IP h],
       ed_OperatingSystem = qa_OS h, ed_AgentVersion = [], ed_Status = ''active'', ed_LastSeen = now,
       ed_Tags = [], ed_RawData = Map.empty \<rparr>"

definition qualys_fetchHostsFromAPI ::
  "'w net \<Rightarrow> qualys_asset list unmarshal \<Rightarrow> gotime \<Rightarrow> duration option \<Rightarrow> QualysConfig \<Rightarrow> QueryOptions \<Rightarrow>
   'w \<Rightarrow> (string + EndpointDevice list) \<times> 'w" where
  "qualys_fetchHostsFromAPI net dec now ctx cfg opts w =
     (let url = qc_BaseURL cfg @ ''/api/2.0/fo/asset/host/?action=list&output_format=JSON&truncation_limit='' @
            int_text (qualysEffectiveLimit opts)
      in case net (get_request ctx url (qualys_headers cfg)) w of (ans, w1) \<Rightarrow>
           (map_sum id (map (qualys_device now)) (fetch_json (kind_texts ''qualys: '' ''host '') dec ans), w1))"

definition qualys_Health ::
  "'w net \<Rightarrow> gotime \<Rightarrow> duration option \<Rightarrow> QualysConfig \<Rightarrow> 'w \<Rightarrow> HealthStatus \<times> 'w" where
  "qualys_Health net now ctx cfg w =
     (if qc_MockMode cfg then (mock_health ''qualys'' now, w)
      else case net (get_request ctx (qc_BaseURL cfg @ ''/msp/about.php'')
                 [basic_auth (qc_Username cfg) (qc_Password cfg)]) w of
             (ans, w1) \<Rightarrow> (probe_health ''qualys'' now ans, w1))"

section \<open>CrowdStrike\<close>

record CrowdStrikeConfig =
  csc_BaseURL :: string
  csc_ClientID :: string
  csc_ClientSecret :: string
  csc_MockMode :: bool

definition NewCrowdStrikeAdapter :: "CrowdStrikeConfig \<Rightarrow> CrowdStrikeConfig" where
  "NewCrowdStrikeAdapter cfg =
     (if csc_BaseURL cfg = [] then cfg\<lparr> csc_BaseURL := ''https://api.crowdstrike.com'' \<rparr> else cfg)"

record cs_behavior =
  cb_TacticID :: string
  cb_Tactic :: string
  cb_TechniqueID :: string
  cb_Filepath :: string

record csDetection =
  csd_DetectionID :: string
  csd_Hostname :: string
  csd_DeviceID :: string
  csd_Status :: string
  csd_Severity :: string
  csd_Description :: string
  csd_Behaviors :: "cs_behavior list"
  csd_CreatedTimestamp :: string
  csd_UpdatedTimestamp :: string

record csDevice =
  csv_DeviceID :: string
  csv_Hostname :: string
  csv_LocalIP :: string
  csv_ExternalIP :: string
  csv_OSVersion :: string
  csv_AgentVersion :: string
  csv_Status :: string
  csv_LastSeen :: string
  csv_Groups :: "string list"
  csv_Tags :: "string list"

definition csEffectiveLimit :: "QueryOptions \<Rightarrow> int" where
  "csEffectiveLimit opts = (if 0 < qo_Limit opts \<and> qo_Limit opts \<le> 100 then qo_Limit opts else 10)"

definition cs_event :: "(string \<Rightarrow> gotime option) \<Rightarrow> csDetection \<Rightarrow> DetectionEvent" where
  "cs_event parse d =
     \<lparr> de_ID = csd_DetectionID d, de_Source = ''crowdstrike'',
       de_Severity = NormalizeSeverityLabel (csd_Severity d), de_Status = csd_Status d, de_Title = [],
       de_Description = csd_Description d,
       de_Tactics = filter (\<lambda>t. t \<noteq> []) (map cb_Tactic (csd_Behaviors d)),
       de_Techniques = filter (\<lambda>t. t \<noteq> []) (map cb_TechniqueID (csd_Behaviors d)),
       de_HostIDs = [csd_DeviceID d], de_StartTime = parse_or_zero parse (csd_CreatedTimestamp d),
       de_EndTime = parse_or_zero parse (csd_UpdatedTimestamp d), de_RawData = Map.empty \<rparr>"

definition csDetectionsToEvents :: "(string \<Rightarrow> gotime option) \<Rightarrow> csDetection list \<Rightarrow> DetectionEvent list" where
  "csDetectionsToEvents parse dets = map (cs_event parse) dets"

definition csDevicesToEndpoints :: "(string \<Rightarrow> gotime option) \<Rightarrow> csDevice list \<Rightarrow> EndpointDevice list" where
  "csDevicesToEndpoints parse devs =
     map (\<lambda>d. \<lparr> ed_ID = csv_DeviceID d, ed_Source = ''crowdstrike'', ed_Hostname = csv_Hostname d,
       ed_IPAddresses = (if csv_LocalIP d \<noteq> [] then [csv_LocalIP d] else []) @
         (if csv_ExternalIP d \<noteq> [] \<and> csv_ExternalIP d \<noteq> csv_LocalIP d then [csv_ExternalIP d] else []),
       ed_OperatingSystem = csv_OSVersion d, ed_AgentVersion = csv_AgentVersion d,
       ed_Status = csv_Status d, ed_LastSeen = parse_or_zero parse (csv_LastSeen d),
       ed_Tags = csv_Tags d @ csv_Groups d, ed_RawData = Map.empty \<rparr>) devs"

definition csEventsToFindings :: "DetectionEvent list \<Rightarrow> VulnFinding list" where
  "csEventsToFindings events =
     map (\<lambda>e. \<lparr> vf_ID = de_ID e, vf_Source = ''crowdstrike'', vf_HostID = first_or_empty (de_HostIDs e),
       vf_HostIP = [], vf_HostName = [], vf_QID = [], vf_PluginID = [], vf_CVEIDs = [],
       vf_CVSS2Score = 0, vf_CVSS3Score = 0, vf_Severity = de_Severity e, vf_Title = de_Title e,
       vf_Description = de_Description e, vf_Solution = [], vf_RemediationStatus = de_Status e,
       vf_FirstDetected = de_StartTime e, vf_LastDetected = de_EndTime e,
       vf_RawData = [''source'' \<mapsto> ''crowdstrike'', ''type'' \<mapsto> ''detection''] \<rparr>) events"

text \<open>
  The token: the credentials go into the form as they are, and only status 201 counts. \<open>tok\<close>
  decodes the \<open>access_token\<close>.
\<close>

definition bearerToken ::
  "'w net \<Rightarrow> string unmarshal \<Rightarrow> duration option \<Rightarrow> CrowdStrikeConfig \<Rightarrow> 'w \<Rightarrow> (string + string) \<times> 'w" where
  "bearerToken net tok ctx cfg w =
     (case net \<lparr> or_Method = ''POST'', or_URL = csc_BaseURL cfg @ ''/oauth2/token'',
                 or_Headers = [(''Content-Type'', ''application/x-www-form-urlencoded'')],
                 or_Body = ''client_id='' @ csc_ClientID cfg @ ''&client_secret='' @ csc_ClientSecret cfg,
                 or_Deadline = ctx \<rparr> w of
        (ans, w1) \<Rightarrow>
          ((case ans of
              BuildError e \<Rightarrow> Inl e
            | DoError e \<Rightarrow> Inl e
            | Answer status body (Some e) \<Rightarrow> Inl e
            | Answer status body None \<Rightarrow>
                if status \<noteq> 201 then Inl (''token request failed HTTP '' @ int_text status) else tok body), w1))"

definition cs_texts :: "string \<Rightarrow> string \<Rightarrow> string \<Rightarrow> fetch_texts" where
  "cs_texts req rd parse = \<lparr> ft_Build = ''crowdstrike: build '' @ req @ '' request: '',
     ft_Do = ''crowdstrike: '' @ req @ '' request: '', ft_Read = ''crowdstrike: read '' @ rd @ '' body: '',
     ft_Status = ''crowdstrike: '', ft_Parse = ''crowdstrike: parse '' @ parse @ '': '' \<rparr>"

record cs_lib =
  cl_token :: "string unmarshal"
  cl_ids :: "string list unmarshal"
  cl_summaries :: "csDetection list unmarshal"
  cl_devices :: "csDevice list unmarshal"
  cl_marshal_ids :: "string list \<Rightarrow> string"
  cl_time :: "string \<Rightarrow> gotime option"

definition cs_fetchDetectionsFromAPI ::
  "cs_lib \<Rightarrow> 'w net \<Rightarrow> duration option \<Rightarrow> CrowdStrikeConfig \<Rightarrow> QueryOptions \<Rightarrow> 'w \<Rightarrow>
   (string + DetectionEvent list) \<times> 'w" where
  "cs_fetchDetectionsFromAPI L net ctx cfg opts w =
     (case bearerToken net (cl_token L) ctx cfg w of
        (Inl e, w1) \<Rightarrow> (Inl (''crowdstrike: auth: '' @ e), w1)
      | (Inr token, w1) \<Rightarrow>
          (case net (get_request ctx (csc_BaseURL cfg @ ''/detects/queries/detects/v1?limit='' @
                       int_text (csEffectiveLimit opts)) [bearer_header token]) w1 of
             (ans, w2) \<Rightarrow>
               (case fetch_json (cs_texts ''query'' ''query'' ''ids'') (cl_ids L) ans of
                  Inl e \<Rightarrow> (Inl e, w2)
                | Inr ids \<Rightarrow>
                    if ids = [] then (Inr [], w2)
                    else
                      (case net \<lparr> or_Method = ''POST'',
                                  or_URL = csc_BaseURL cfg @ ''/detects/entities/summaries/GET/v1'',
                                  or_Headers = [bearer_header token, content_json],
                                  or_Body = cl_marshal_ids L ids, or_Deadline = ctx \<rparr> w2 of
                         (ans2, w3) \<Rightarrow>
                           (map_sum id (csDetectionsToEvents (cl_time L))
                              (fetch_json (cs_texts ''summary'' ''summary'' ''summaries'')
                                 (cl_summaries L) ans2), w3)))))"

definition cs_fetchDetectionsAsFindings ::
  "cs_lib \<Rightarrow> 'w net \<Rightarrow> duration option \<Rightarrow> CrowdStrikeConfig \<Rightarrow> QueryOptions \<Rightarrow> 'w \<Rightarrow>
   (string + VulnFinding list) \<times> 'w" where
  "cs_fetchDetectionsAsFindings L net ctx cfg opts w =
     map_prod (map_sum id csEventsToFindings) id (cs_fetchDetectionsFromAPI L net ctx cfg opts w)"

fun join_with :: "string \<Rightarrow> string list \<Rightarrow> string" where
  "join_with sep [] = []"
| "join_with sep [s] = s"
| "join_with sep (s # t # ss) = s @ sep @ join_with sep (t # ss)"

definition cs_fetchDevicesFromAPI ::
  "cs_lib \<Rightarrow> 'w net \<Rightarrow> duration option \<Rightarrow> CrowdStrikeConfig \<Rightarrow> QueryOptions \<Rightarrow> 'w \<Rightarrow>
   (string + EndpointDevice list) \<times> 'w" where
  "cs_fetchDevicesFromAPI L net ctx cfg opts w =
     (case bearerToken net (cl_token L) ctx cfg w of
        (Inl e, w1) \<Rightarrow> (Inl (''crowdstrike: auth: '' @ e), w1)
      | (Inr token, w1) \<Rightarrow>
          (case net (get_request ctx (csc_BaseURL cfg @ ''/devices/queries/devices/v1?limit='' @
                       int_text (csEffectiveLimit opts)) [bearer_header token]) w1 of
             (ans, w2) \<Rightarrow>
               (case fetch_json (cs_texts ''device query'' ''device ids'' ''device ids'') (cl_ids L) ans of
                  Inl e \<Rightarrow> (Inl e, w2)
                | Inr ids \<Rightarrow>
                    if ids = [] then (Inr [], w2)
                    else
                      (case net (get_request ctx (csc_BaseURL cfg @ ''/devices/entities/devices/v2?ids='' @
                                   join_with ''&ids='' ids) [bearer_header token]) w2 of
                         (ans2, w3) \<Rightarrow>
                           (map_sum id (csDevicesToEndpoints (cl_time L))
                              (fetch_json (cs_texts ''device detail'' ''device detail'' ''device details'')
                                 (cl_devices L) ans2), w3)))))"

definition cs_Health ::
  "'w net \<Rightarrow> gotime \<Rightarrow> duration option \<Rightarrow> CrowdStrikeConfig \<Rightarrow> 'w \<Rightarrow> HealthStatus \<times> 'w" where
  "cs_Health net now ctx cfg w =
     (if csc_MockMode cfg then (mock_health ''crowdstrike'' now, w)
      else case net ((get_request ctx (csc_BaseURL cfg @ ''/oauth2/token'') [])\<lparr> or_Method := ''HEAD'' \<rparr>) w of
             (ans, w1) \<Rightarrow> (probe_health ''crowdstrike'' now ans, w1))"

end
