(* ===== verification/VulnMocks.thy ===== *)
theory VulnMocks
  imports VulnAdapters
begin

text \<open>
  The mock mode of the vulnerability adapters (services/integration/internal/adapters/tenable.go,
  qualys.go, crowdstrike.go): the tables the code has, and the findings and devices made of them.
  \<open>now\<close> is the one clock reading of a call.
\<close>

section \<open>Tenable\<close>

definition tenable_plugins ::
  "(int \<times> string \<times> string \<times> float64 \<times> float64 \<times> string list \<times> string) list" where
  "tenable_plugins = [
     (112526, ''Apache Log4j Unsupported Version'', ''Web Servers'', rnd (98/10), rnd (93/10), [''CVE-2021-44228''],
      ''Upgrade Apache Log4j to a supported version.''),
     (156032, ''OpenSSL Multiple Vulnerabilities'', ''General'', rnd (91/10), rnd (88/10), [''CVE-2023-0286'', ''CVE-2023-0215''],
      ''Upgrade OpenSSL to 3.0.8 or later.''),
     (19506, ''Nessus Scan Information'', ''Settings'', 0, 0, [],
      ''N/A''),
     (11213, ''HTTP TRACE Method Enabled'', ''Web Servers'', rnd (58/10), rnd (43/10), [],
      ''Disable HTTP TRACE method in web server configuration.''),
     (42873, ''SSL Medium Strength Cipher Suites (SWEET32)'', ''General'', rnd (53/10), rnd (43/10), [''CVE-2016-2183''],
      ''Reconfigure SSL/TLS to avoid medium strength cipher suites.''),
     (65821, ''SMB Signing Not Required'', ''Windows'', rnd (53/10), 5, [],
      ''Enable mandatory SMB signing on Windows hosts.''),
     (57610, ''Microsoft Windows Remote Desktop Protocol (RDP) Use-After-Free'', ''Windows'', rnd (88/10), rnd (83/10), [''CVE-2012-0002''],
      ''Apply Microsoft security update MS12-020.''),
     (71049, ''SSH Server CBC Mode Ciphers Enabled'', ''General'', rnd (53/10), rnd (43/10), [],
      ''Disable CBC mode ciphers in SSH server configuration.''),
     (93360, ''Apache Struts RCE (CVE-2017-5638)'', ''CGI abuses'', rnd (98/10), 10, [''CVE-2017-5638''],
      ''Upgrade Apache Struts to 2.3.32 or 2.5.10.1.''),
     (31705, ''Insecure Windows Service Permissions'', ''Windows'', rnd (67/10), rnd (65/10), [],
      ''Review and restrict Windows service permissions.'')]"

definition tenable_hosts :: "(string \<times> string \<times> string) list" where
  "tenable_hosts = [
     (''tn-host-001'', ''192.168.10.5'', ''server-prod-01.example.com''),
     (''tn-host-002'', ''192.168.10.6'', ''server-prod-02.example.com''),
     (''tn-host-003'', ''192.168.20.10'', ''workstation-finance-01.example.com'')]"

definition tenable_mockVulnerabilities :: "gotime \<Rightarrow> QueryOptions \<Rightarrow> VulnFinding list" where
  "tenable_mockVulnerabilities now opts =
     map (\<lambda>i. case tenable_plugins ! (i mod length tenable_plugins) of
          (pid, name, family, cvss3, cvss2, cves, fix) \<Rightarrow>
         case tenable_hosts ! (i mod length tenable_hosts) of (hid, ip, hostname) \<Rightarrow>
           \<lparr> vf_ID = int_text pid @ ''-'' @ hid @ ''-MOCK'', vf_Source = ''tenable'', vf_HostID = hid,
             vf_HostIP = ip, vf_HostName = hostname, vf_QID = [], vf_PluginID = int_text pid,
             vf_CVEIDs = cves, vf_CVSS2Score = cvss2, vf_CVSS3Score = cvss3,
             vf_Severity = (if 0 < cvss3 then NormalizeCVSS3 cvss3 else tenableSeverityFromInt 0),
             vf_Title = name,
             vf_Description = ''Tenable plugin '' @ int_text pid @ '' ('' @ family @ ''): '' @ name @
               '' detected on '' @ hostname,
             vf_Solution = fix, vf_RemediationStatus = [],
             vf_FirstDetected = now - (int i + 3) * 24 * 60 * minute,
             vf_LastDetected = now - int i * 60 * minute,
             vf_RawData = [''plugin_family'' \<mapsto> family, ''scanner'' \<mapsto> ''tenable-io''] \<rparr>)
       [0..<min (nat (tenableEffectiveLimit opts)) (length tenable_plugins * length tenable_hosts)]"

definition tenable_assets :: "gotime \<Rightarrow> EndpointDevice list" where
  "tenable_assets now = [
     \<lparr> ed_ID = ''tn-host-001'', ed_Source = ''tenable'', ed_Hostname = ''server-prod-01.example.com'',
       ed_IPAddresses = [''192.168.10.5''], ed_OperatingSystem = ''Linux Kernel 5.15'',
       ed_AgentVersion = [], ed_Status = ''active'', ed_LastSeen = now - 15 * minute,
       ed_Tags = [''env:production'', ''role:web''], ed_RawData = Map.empty \<rparr>,
     \<lparr> ed_ID = ''tn-host-002'', ed_Source = ''tenable'', ed_Hostname = ''server-prod-02.example.com'',
       ed_IPAddresses = [''192.168.10.6''], ed_OperatingSystem = ''Linux Kernel 5.15'',
       ed_AgentVersion = [], ed_Status = ''active'', ed_LastSeen = now - 8 * minute,
       ed_Tags = [''env:production'', ''role:api''], ed_RawData = Map.empty \<rparr>,
     \<lparr> ed_ID = ''tn-host-003'', ed_Source = ''tenable'', ed_Hostname = ''workstation-finance-01.example.com'',
       ed_IPAddresses = [''192.168.20.10''], ed_OperatingSystem = ''Windows 11 Enterprise'',
       ed_AgentVersion = [], ed_Status = ''active'', ed_LastSeen = now - 30 * minute,
       ed_Tags = [''env:corporate'', ''dept:finance''], ed_RawData = Map.empty \<rparr>,
     \<lparr> ed_ID = ''tn-host-004'', ed_Source = ''tenable'', ed_Hostname = ''scan-target-dmz-01.example.com'',
       ed_IPAddresses = [''10.50.0.25''], ed_OperatingSystem = ''CentOS 7'',
       ed_AgentVersion = [], ed_Status = ''stale'', ed_LastSeen = now - 72 * 60 * minute,
       ed_Tags = [''env:dmz'', ''legacy:true''], ed_RawData = Map.empty \<rparr>]"

definition tenable_mockEndpoints :: "gotime \<Rightarrow> QueryOptions \<Rightarrow> EndpointDevice list" where
  "tenable_mockEndpoints now opts = take (nat (tenableEffectiveLimit opts)) (tenable_assets now)"

definition tenable_FetchVulnerabilities ::
  "'w net \<Rightarrow> tenable_vuln list unmarshal \<Rightarrow> gotime \<Rightarrow> duration option \<Rightarrow> TenableConfig \<Rightarrow> QueryOptions \<Rightarrow>
   'w \<Rightarrow> (string + VulnFinding list) \<times> 'w" where
  "tenable_FetchVulnerabilities net dec now ctx cfg opts w =
     (if tc_MockMode cfg then (Inr (tenable_mockVulnerabilities now opts), w)
      else tenable_fetchVulnsFromAPI net dec now ctx cfg opts w)"

definition tenable_FetchEndpoints ::
  "'w net \<Rightarrow> tenable_asset list unmarshal \<Rightarrow> (string \<Rightarrow> gotime option) \<Rightarrow> gotime \<Rightarrow> duration option \<Rightarrow>
   TenableConfig \<Rightarrow> QueryOptions \<Rightarrow> 'w \<Rightarrow> (string + EndpointDevice list) \<times> 'w" where
  "tenable_FetchEndpoints net dec parse now ctx cfg opts w =
     (if tc_MockMode cfg then (Inr (tenable_mockEndpoints now opts), w)
      else tenable_fetchAssetsFromAPI net dec parse ctx cfg opts w)"

section \<open>Qualys\<close>

definition qualys_defs ::
  "(string \<times> string \<times> float64 \<times> float64 \<times> string list \<times> string \<times> string) list" where
  "qualys_defs = [
     (''12345'', ''OpenSSL Buffer Overflow (CVE-2024-0001)'', rnd (98/10), rnd (93/10), [''CVE-2024-0001''],
      ''Upgrade OpenSSL to 3.2.1'', ''New''),
     (''12346'', ''Apache Log4j Remote Code Execution (CVE-2021-44228)'', 10, rnd (98/10), [''CVE-2021-44228''],
      ''Upgrade Log4j to 2.17.1'', ''Active''),
     (''23456'', ''SSH Weak Cipher Negotiation'', rnd (53/10), rnd (43/10), [],
      ''Disable weak ciphers in sshd_config'', ''Active''),
     (''34567'', ''Windows SMB EternalBlue (MS17-010)'', rnd (81/10), rnd (78/10), [''CVE-2017-0144''],
      ''Apply KB4012212 security update'', ''Active''),
     (''45678'', ''TLS 1.0 Protocol Enabled'', 4, rnd (37/10), [],
      ''Disable TLS 1.0 in server config'', ''Fixed''),
     (''56789'', ''PHP Remote File Inclusion'', rnd (75/10), 7, [''CVE-2023-1234''],
      ''Upgrade PHP to 8.2'', ''New''),
     (''67890'', ''MySQL Unauthenticated Remote Access'', rnd (91/10), rnd (85/10), [''CVE-2023-5678''],
      ''Restrict MySQL bind address'', ''Active''),
     (''78901'', ''Sudo Privilege Escalation (CVE-2021-3156)'', rnd (78/10), rnd (72/10), [''CVE-2021-3156''],
      ''Upgrade sudo to 1.9.5p2'', ''Fixed''),
     (''89012'', ''DNS Amplification Vulnerability'', 5, rnd (43/10), [],
      ''Enable response rate limiting on DNS'', ''New''),
     (''90123'', ''Insecure HTTP Cookie (No Secure Flag)'', rnd (37/10), rnd (26/10), [],
      ''Set Secure flag on session cookies'', ''Active'')]"

definition qualys_hosts :: "(string \<times> string \<times> string) list" where
  "qualys_hosts = [
     (''HOST-001'', ''10.0.1.10'', ''web-01.internal.example.com''),
     (''HOST-002'', ''10.0.1.11'', ''db-01.internal.example.com''),
     (''HOST-003'', ''10.0.2.20'', ''app-01.internal.example.com'')]"

definition qualys_mockVulnerabilities :: "gotime \<Rightarrow> QueryOptions \<Rightarrow> VulnFinding list" where
  "qualys_mockVulnerabilities now opts =
     map (\<lambda>i. case qualys_defs ! (i mod length qualys_defs) of
          (qid, title, cvss3, cvss2, cves, fix, status) \<Rightarrow>
         case qualys_hosts ! (i mod length qualys_hosts) of (hid, ip, dns) \<Rightarrow>
           \<lparr> vf_ID = hid @ ''-'' @ qid @ ''-MOCK'', vf_Source = ''qualys'', vf_HostID = hid,
             vf_HostIP = ip, vf_HostName = dns, vf_QID = qid, vf_PluginID = [], vf_CVEIDs = cves,
             vf_CVSS2Score = cvss2, vf_CVSS3Score = cvss3, vf_Severity = NormalizeCVSS3 cvss3,
             vf_Title = title, vf_Description = ''Mock Qualys finding: '' @ title @ '' on host '' @ dns,
             vf_Solution = fix, vf_RemediationStatus = status,
             vf_FirstDetected = now - (int i + 7) * 24 * 60 * minute,
             vf_LastDetected = now - int i * 60 * minute,
             vf_RawData = [''scanner'' \<mapsto> ''qualys-vmdr'', ''qid'' \<mapsto> qid] \<rparr>)
       [0..<min (nat (qualysEffectiveLimit opts)) (length qualys_defs * length qualys_hosts)]"

definition qualys_assets :: "gotime \<Rightarrow> EndpointDevice list" where
  "qualys_assets now = [
     \<lparr> ed_ID = ''HOST-001'', ed_Source = ''qualys'', ed_Hostname = ''web-01.internal.example.com'',
       ed_IPAddresses = [''10.0.1.10''], ed_OperatingSystem = ''Ubuntu 22.04 LTS'',
       ed_AgentVersion = ''3.1.6.0'', ed_Status = ''active'', ed_LastSeen = now - 5 * minute,
       ed_Tags = [''web'', ''production''], ed_RawData = Map.empty \<rparr>,
     \<lparr> ed_ID = ''HOST-002'', ed_Source = ''qualys'', ed_Hostname = ''db-01.internal.example.com'',
       ed_IPAddresses = [''10.0.1.11''], ed_OperatingSystem = ''Ubuntu 20.04 LTS'',
       ed_AgentVersion = ''3.1.6.0'', ed_Status = ''active'', ed_LastSeen = now - 3 * minute,
       ed_Tags = [''database'', ''production''], ed_RawData = Map.empty \<rparr>,
     \<lparr> ed_ID = ''HOST-003'', ed_Source = ''qualys'', ed_Hostname = ''app-01.internal.example.com'',
       ed_IPAddresses = [''10.0.2.20''], ed_OperatingSystem = ''Windows Server 2022'',
       ed_AgentVersion = ''3.0.9.0'', ed_Status = ''active'', ed_LastSeen = now - 10 * minute,
       ed_Tags = [''app'', ''staging''], ed_RawData = Map.empty \<rparr>,
     \<lparr> ed_ID = ''HOST-004'', ed_Source = ''qualys'', ed_Hostname = ''vpn-gw.example.com'',
       ed_IPAddresses = [''203.0.113.5''], ed_OperatingSystem = ''pfSense 2.7'',
       ed_AgentVersion = ''3.1.2.0'', ed_Status = ''active'', ed_LastSeen = now - 2 * minute,
       ed_Tags = [''network'', ''gateway''], ed_RawData = Map.empty \<rparr>]"

definition qualys_mockEndpoints :: "gotime \<Rightarrow> QueryOptions \<Rightarrow> EndpointDevice list" where
  "qualys_mockEndpoints now opts = take (nat (qualysEffectiveLimit opts)) (qualys_assets now)"

definition qualys_FetchVulnerabilities ::
  "'w net \<Rightarrow> qualys_host list unmarshal \<Rightarrow> (string \<Rightarrow> gotime option) \<Rightarrow> gotime \<Rightarrow> duration option \<Rightarrow>
   QualysConfig \<Rightarrow> QueryOptions \<Rightarrow> 'w \<Rightarrow> (string + VulnFinding list) \<times> 'w" where
  "qualys_FetchVulnerabilities net dec parse now ctx cfg opts w =
     (if qc_MockMode cfg then (Inr (qualys_mockVulnerabilities now opts), w)
      else qualys_fetchVulnsFromAPI net dec parse ctx cfg opts w)"

definition qualys_FetchEndpoints ::
  "'w net \<Rightarrow> qualys_asset list unmarshal \<Rightarrow> gotime \<Rightarrow> duration option \<Rightarrow> QualysConfig \<Rightarrow> QueryOptions \<Rightarrow>
   'w \<Rightarrow> (string + EndpointDevice list) \<times> 'w" where
  "qualys_FetchEndpoints net dec now ctx cfg opts w =
     (if qc_MockMode cfg then (Inr (qualys_mockEndpoints now opts), w)
      else qualys_fetchHostsFromAPI net dec now ctx cfg opts w)"

section \<open>CrowdStrike\<close>

definition cs_defs ::
  "(string \<times> Severity \<times> string \<times> string \<times> string \<times> string list \<times> string list \<times> string list) list" where
  "cs_defs = [
     (''ldt:aaa001'', SeverityCritical, ''new'', ''Ransomware Execution Detected'',
      ''Falcon detected active ransomware execution on endpoint. File encryption behavior observed.'',
      [''Impact''], [''T1486''], [''cs-dev-001'']),
     (''ldt:aaa002'', SeverityHigh, ''in_progress'', ''Credential Dumping via LSASS'',
      ''Process attempting to read LSASS memory for credential harvesting.'',
      [''Credential Access''], [''T1003.001''], [''cs-dev-002'']),
     (''ldt:aaa003'', SeverityHigh, ''new'', ''Lateral Movement via Pass-the-Hash'',
      ''Hash-based authentication detected across multiple hosts.'',
      [''Lateral Movement''], [''T1550.002''], [''cs-dev-001'', ''cs-dev-003'']),
     (''ldt:aaa004'', SeverityMedium, ''closed'', ''Suspicious PowerShell Execution'',
      ''PowerShell invoked with encoded command from unusual parent process.'',
      [''Execution''], [''T1059.001''], [''cs-dev-004'']),
     (''ldt:aaa005'', SeverityMedium, ''in_progress'', ''C2 Beacon Traffic Detected'',
      ''Periodic outbound connections to known C2 infrastructure.'',
      [''Command and Control''], [''T1071.001''], [''cs-dev-002'']),
     (''ldt:aaa006'', SeverityLow, ''closed'', ''Scheduled Task Created for Persistence'',
      ''A new Windows Scheduled Task was registered for persistence by a user-space process.'',
      [''Persistence''], [''T1053.005''], [''cs-dev-003'']),
     (''ldt:aaa007'', SeverityCritical, ''new'', ''Zero-Day Exploit Attempt Blocked'',
      ''Exploit prevention blocked an attempt to exploit a zero-day vulnerability in a browser component.'',
      [''Initial Access''], [''T1189''], [''cs-dev-005'']),
     (''ldt:aaa008'', SeverityHigh, ''new'', ''Data Exfiltration via Cloud Storage'',
      ''Large volume of files transferred to external cloud storage endpoint.'',
      [''Exfiltration''], [''T1567.002''], [''cs-dev-001''])]"

definition cs_mockDetections :: "gotime \<Rightarrow> QueryOptions \<Rightarrow> DetectionEvent list" where
  "cs_mockDetections now opts =
     map (\<lambda>i. case cs_defs ! i of (did, severity, status, title, desc, tactics, techniques, hosts) \<Rightarrow>
           \<lparr> de_ID = did, de_Source = ''crowdstrike'', de_Severity = severity, de_Status = status,
             de_Title = title, de_Description = desc, de_Tactics = tactics, de_Techniques = techniques,
             de_HostIDs = hosts, de_StartTime = now - (int i + 1) * 2 * 60 * minute,
             de_EndTime = now - int i * 60 * minute,
             de_RawData = [''platform'' \<mapsto> ''crowdstrike-falcon'', ''product'' \<mapsto> ''Falcon Prevent''] \<rparr>)
       [0..<min (nat (csEffectiveLimit opts)) (length cs_defs)]"

definition cs_mockDetectionsAsFindings :: "gotime \<Rightarrow> QueryOptions \<Rightarrow> VulnFinding list" where
  "cs_mockDetectionsAsFindings now opts = csEventsToFindings (cs_mockDetections now opts)"

definition cs_devices :: "gotime \<Rightarrow> EndpointDevice list" where
  "cs_devices now = [
     \<lparr> ed_ID = ''cs-dev-001'', ed_Source = ''crowdstrike'', ed_Hostname = ''laptop-exec-ceo.example.com'',
       ed_IPAddresses = [''10.100.0.50''], ed_OperatingSystem = ''Windows 11 Enterprise 23H2'',
       ed_AgentVersion = ''7.14.17202.0'', ed_Status = ''online'', ed_LastSeen = now - 1 * minute,
       ed_Tags = [''group:executive'', ''tier:1''], ed_RawData = Map.empty \<rparr>,
     \<lparr> ed_ID = ''cs-dev-002'', ed_Source = ''crowdstrike'', ed_Hostname = ''server-dc-01.example.com'',
       ed_IPAddresses = [''10.0.0.5''], ed_OperatingSystem = ''Windows Server 2022 Datacenter'',
       ed_AgentVersion = ''7.14.17202.0'', ed_Status = ''online'', ed_LastSeen = now - 2 * minute,
       ed_Tags = [''group:servers'', ''role:domain-controller''], ed_RawData = Map.empty \<rparr>,
     \<lparr> ed_ID = ''cs-dev-003'', ed_Source = ''crowdstrike'', ed_Hostname = ''workstation-dev-01.example.com'',
       ed_IPAddresses = [''10.100.1.20''], ed_OperatingSystem = ''macOS 14.4 Sonoma'',
       ed_AgentVersion = ''7.12.16605.0'', ed_Status = ''online'', ed_LastSeen = now - 5 * minute,
       ed_Tags = [''group:engineering'', ''os:macos''], ed_RawData = Map.empty \<rparr>,
     \<lparr> ed_ID = ''cs-dev-004'', ed_Source = ''crowdstrike'', ed_Hostname = ''server-web-prod-02.example.com'',
       ed_IPAddresses = [''10.0.10.15''], ed_OperatingSystem = ''Amazon Linux 2023'',
       ed_AgentVersion = ''7.14.17202.0'', ed_Status = ''reduced-functionality'', ed_LastSeen = now - 20 * minute,
       ed_Tags = [''group:servers'', ''role:web'', ''env:production''], ed_RawData = Map.empty \<rparr>,
     \<lparr> ed_ID = ''cs-dev-005'', ed_Source = ''crowdstrike'', ed_Hostname = ''laptop-finance-02.example.com'',
       ed_IPAddresses = [''10.100.2.33''], ed_OperatingSystem = ''Windows 10 Enterprise 22H2'',
       ed_AgentVersion = ''7.11.16303.0'', ed_Status = ''contained'', ed_LastSeen = now - 45 * minute,
       ed_Tags = [''group:finance'', ''isolated:true''], ed_RawData = Map.empty \<rparr>]"

definition cs_mockEndpoints :: "gotime \<Rightarrow> QueryOptions \<Rightarrow> EndpointDevice list" where
  "cs_mockEndpoints now opts = take (nat (csEffectiveLimit opts)) (cs_devices now)"

definition cs_FetchVulnerabilities ::
  "cs_lib \<Rightarrow> 'w net \<Rightarrow> gotime \<Rightarrow> duration option \<Rightarrow> CrowdStrikeConfig \<Rightarrow> QueryOptions \<Rightarrow> 'w \<Rightarrow>
   (string + VulnFinding list) \<times> 'w" where
  "cs_FetchVulnerabilities L net now ctx cfg opts w =
     (if csc_MockMode cfg then (Inr (cs_mockDetectionsAsFindings now opts), w)
      else cs_fetchDetectionsAsFindings L net ctx cfg opts w)"

definition cs_FetchEndpoints ::
  "cs_lib \<Rightarrow> 'w net \<Rightarrow> gotime \<Rightarrow> duration option \<Rightarrow> CrowdStrikeConfig \<Rightarrow> QueryOptions \<Rightarrow> 'w \<Rightarrow>
   (string + EndpointDevice list) \<times> 'w" where
  "cs_FetchEndpoints L net now ctx cfg opts w =
     (if csc_MockMode cfg then (Inr (cs_mockEndpoints now opts), w)
      else cs_fetchDevicesFromAPI L net ctx cfg opts w)"

definition cs_FetchDetections ::
  "cs_lib \<Rightarrow> 'w net \<Rightarrow> gotime \<Rightarrow> duration option \<Rightarrow> CrowdStrikeConfig \<Rightarrow> QueryOptions \<Rightarrow> 'w \<Rightarrow>
   (string + DetectionEvent list) \<times> 'w" where
  "cs_FetchDetections L net now ctx cfg opts w =
     (if csc_MockMode cfg then (Inr (cs_mockDetections now opts), w)
      else cs_fetchDetectionsFromAPI L net ctx cfg opts w)"

end
