(* ===== verification/VulnApi.thy ===== *)
theory VulnApi
  imports VulnMocks
begin

text \<open>
  The vulnerability endpoints of the integration service
  (services/integration/internal/handler/handler.go) over the three connectors cmd/api/main.go
  registers, and what the evidence they serve says.
\<close>

section \<open>Connectors\<close>

datatype vuln_adapter = QualysConn QualysConfig | TenableConn TenableConfig
  | CrowdStrikeConn CrowdStrikeConfig

record vuln_lib =
  vl_tenable_vulns :: "tenable_vuln list unmarshal"
  vl_tenable_assets :: "tenable_asset list unmarshal"
  vl_qualys_vulns :: "qualys_host list unmarshal"
  vl_qualys_hosts :: "qualys_asset list unmarshal"
  vl_cs :: cs_lib
  vl_parse :: "string \<Rightarrow> gotime option"
  vl_format :: "gotime \<Rightarrow> string"

definition vuln_FetchVulnerabilities ::
  "vuln_lib \<Rightarrow> 'w net \<Rightarrow> gotime \<Rightarrow> duration option \<Rightarrow> vuln_adapter \<Rightarrow> QueryOptions \<Rightarrow> 'w \<Rightarrow>
   (string + VulnFinding list) \<times> 'w" where
  "vuln_FetchVulnerabilities L net now ctx a opts w =
     (case a of
        QualysConn cfg \<Rightarrow> qualys_FetchVulnerabilities net (vl_qualys_vulns L) (vl_parse L) now ctx cfg opts w
      | TenableConn cfg \<Rightarrow> tenable_FetchVulnerabilities net (vl_tenable_vulns L) now ctx cfg opts w
      | CrowdStrikeConn cfg \<Rightarrow> cs_FetchVulnerabilities (vl_cs L) net now ctx cfg opts w)"

definition vuln_FetchEndpoints ::
  "vuln_lib \<Rightarrow> 'w net \<Rightarrow> gotime \<Rightarrow> duration option \<Rightarrow> vuln_adapter \<Rightarrow> QueryOptions \<Rightarrow> 'w \<Rightarrow>
   (string + EndpointDevice list) \<times> 'w" where
  "vuln_FetchEndpoints L net now ctx a opts w =
     (case a of
        QualysConn cfg \<Rightarrow> qualys_FetchEndpoints net (vl_qualys_hosts L) now ctx cfg opts w
      | TenableConn cfg \<Rightarrow>
          tenable_FetchEndpoints net (vl_tenable_assets L) (vl_parse L) now ctx cfg opts w
      | CrowdStrikeConn cfg \<Rightarrow> cs_FetchEndpoints (vl_cs L) net now ctx cfg opts w)"

definition vuln_Health ::
  "'w net \<Rightarrow> gotime \<Rightarrow> duration option \<Rightarrow> vuln_adapter \<Rightarrow> 'w \<Rightarrow> HealthStatus \<times> 'w" where
  "vuln_Health net now ctx a w =
     (case a of
        QualysConn cfg \<Rightarrow> qualys_Health net now ctx cfg w
      | TenableConn cfg \<Rightarrow> tenable_Health net now ctx cfg w
      | CrowdStrikeConn cfg \<Rightarrow> cs_Health net now ctx cfg w)"

type_synonym vuln_registry = "vuln_adapter conn_registry"

definition vuln_Register :: "string \<Rightarrow> vuln_adapter \<Rightarrow> vuln_registry \<Rightarrow> vuln_registry" where
  "vuln_Register name c reg = AList.update name c reg"

definition vuln_Get :: "string \<Rightarrow> vuln_registry \<Rightarrow> vuln_adapter option" where
  "vuln_Get name reg = map_of reg name"

definition vuln_List :: "nat list \<Rightarrow> vuln_registry \<Rightarrow> string list" where
  "vuln_List order reg = shuffle order (map fst reg)"

definition vuln_main :: "(string \<Rightarrow> string) \<Rightarrow> vuln_registry" where
  "vuln_main getenv =
     (let mock = getenv ''MOCK_MODE'' \<noteq> ''false''
      in vuln_Register ''crowdstrike'' (CrowdStrikeConn (NewCrowdStrikeAdapter
           \<lparr> csc_BaseURL = getenv ''CROWDSTRIKE_BASE_URL'', csc_ClientID = getenv ''CROWDSTRIKE_CLIENT_ID'',
             csc_ClientSecret = getenv ''CROWDSTRIKE_CLIENT_SECRET'', csc_MockMode = mock \<rparr>))
         (vuln_Register ''tenable'' (TenableConn (NewTenableAdapter
           \<lparr> tc_BaseURL = getenv ''TENABLE_BASE_URL'', tc_AccessKey = getenv ''TENABLE_ACCESS_KEY'',
             tc_SecretKey = getenv ''TENABLE_SECRET_KEY'', tc_MockMode = mock \<rparr>))
         (vuln_Register ''qualys'' (QualysConn (NewQualysAdapter
           \<lparr> qc_BaseURL = getenv ''QUALYS_BASE_URL'', qc_Username = getenv ''QUALYS_USERNAME'',
             qc_Password = getenv ''QUALYS_PASSWORD'', qc_MockMode = mock \<rparr>)) [])))"

section \<open>Handlers\<close>

text \<open>\<open>ve_clock1\<close> and \<open>ve_clock2\<close>: the times read for the items of the two kinds.\<close>

record vuln_env =
  ve_now :: gotime
  ve_now2 :: gotime
  ve_clock1 :: "nat \<Rightarrow> gotime"
  ve_clock2 :: "nat \<Rightarrow> gotime"
  ve_order :: "nat list"

datatype vuln_body =
    VulnNames "string list" nat
  | VulnStatus HealthStatus
  | VulnNotFound string "string list"
  | VulnError string string
  | Vulnerabilities "VulnFinding list" nat string
  | Endpoints "EndpointDevice list" nat string
  | VulnEvidenceList "EvidenceItem list" nat string

type_synonym vuln_response = "int \<times> vuln_body"

definition vuln_timeout :: "duration option" where
  "vuln_timeout = Some (30 * second)"

definition ListVulnConnectors :: "vuln_env \<Rightarrow> vuln_registry \<Rightarrow> vuln_response" where
  "ListVulnConnectors E reg =
     (let names = vuln_List (ve_order E) reg in (200, VulnNames names (length names)))"

definition resolveVulnConnector ::
  "vuln_env \<Rightarrow> string \<Rightarrow> vuln_registry \<Rightarrow> 'w \<Rightarrow> (vuln_adapter \<Rightarrow> vuln_response \<times> 'w) \<Rightarrow> vuln_response \<times> 'w" where
  "resolveVulnConnector E name reg w k =
     (case vuln_Get name reg of
        None \<Rightarrow> ((404, VulnNotFound name (vuln_List (ve_order E) reg)), w)
      | Some a \<Rightarrow> k a)"

definition connector_failed :: "string \<Rightarrow> vuln_response" where
  "connector_failed e = (502, VulnError ''CONNECTOR_ERROR'' e)"

definition VulnConnectorHealth ::
  "'w net \<Rightarrow> vuln_env \<Rightarrow> string \<Rightarrow> vuln_registry \<Rightarrow> 'w \<Rightarrow> vuln_response \<times> 'w" where
  "VulnConnectorHealth net E name reg w =
     resolveVulnConnector E name reg w (\<lambda>a.
       case vuln_Health net (ve_now E) None a w of
         (st, w1) \<Rightarrow> ((if hs_Healthy st then 200 else 503, VulnStatus st), w1))"

definition FetchVulnerabilities ::
  "vuln_lib \<Rightarrow> 'w net \<Rightarrow> vuln_env \<Rightarrow> string \<Rightarrow> vuln_registry \<Rightarrow> 'w \<Rightarrow> vuln_response \<times> 'w" where
  "FetchVulnerabilities L net E name reg w =
     resolveVulnConnector E name reg w (\<lambda>a.
       case vuln_FetchVulnerabilities L net (ve_now E) vuln_timeout a no_options w of
         (Inl e, w1) \<Rightarrow> (connector_failed e, w1)
       | (Inr fs, w1) \<Rightarrow> ((200, Vulnerabilities fs (length fs) name), w1))"

definition FetchEndpoints ::
  "vuln_lib \<Rightarrow> 'w net \<Rightarrow> vuln_env \<Rightarrow> string \<Rightarrow> vuln_registry \<Rightarrow> 'w \<Rightarrow> vuln_response \<times> 'w" where
  "FetchEndpoints L net E name reg w =
     resolveVulnConnector E name reg w (\<lambda>a.
       case vuln_FetchEndpoints L net (ve_now E) vuln_timeout a no_options w of
         (Inl e, w1) \<Rightarrow> (connector_failed e, w1)
       | (Inr ds, w1) \<Rightarrow> ((200, Endpoints ds (length ds) name), w1))"

definition FetchEvidence ::
  "vuln_lib \<Rightarrow> 'w net \<Rightarrow> vuln_env \<Rightarrow> string \<Rightarrow> vuln_registry \<Rightarrow> 'w \<Rightarrow> vuln_response \<times> 'w" where
  "FetchEvidence L net E name reg w =
     resolveVulnConnector E name reg w (\<lambda>a.
       case vuln_FetchVulnerabilities L net (ve_now E) vuln_timeout a no_options w of
         (Inl e, w1) \<Rightarrow> (connector_failed e, w1)
       | (Inr fs, w1) \<Rightarrow>
           (case vuln_FetchEndpoints L net (ve_now2 E) vuln_timeout a no_options w1 of
              (Inl e, w2) \<Rightarrow> (connector_failed e, w2)
            | (Inr ds, w2) \<Rightarrow>
                (let evidence = VulnFindingsToEvidence (vl_format L) (ve_clock1 E) fs @
                       EndpointDevicesToEvidence (vl_format L) (ve_clock2 E) ds
                 in ((200, VulnEvidenceList evidence (length evidence) name), w2))))"

section \<open>What the evidence says\<close>

lemma FetchEvidence_served:
  assumes "FetchEvidence L net E name reg w = ((200, VulnEvidenceList items n name'), w')"
  obtains a fs ds w1 where "vuln_Get name reg = Some a"
    "vuln_FetchVulnerabilities L net (ve_now E) vuln_timeout a no_options w = (Inr fs, w1)"
    "vuln_FetchEndpoints L net (ve_now2 E) vuln_timeout a no_options w1 = (Inr ds, w')"
    "items = VulnFindingsToEvidence (vl_format L) (ve_clock1 E) fs @
       EndpointDevicesToEvidence (vl_format L) (ve_clock2 E) ds"
    "n = length fs + length ds" "name' = name"
  using assms
  by (auto simp: FetchEvidence_def resolveVulnConnector_def connector_failed_def Let_def
      vuln_items(5) endpoint_items(3) split: option.splits prod.splits sum.splits)

lemma evidence_status:
  "FetchEvidence L net E name reg w = ((st, VulnEvidenceList items n name'), w') \<Longrightarrow> st = 200"
  by (auto simp: FetchEvidence_def resolveVulnConnector_def connector_failed_def Let_def
      split: option.splits prod.splits sum.splits)

text \<open>Three things a live provider tells that no evidence shows.\<close>

lemma tenable_first_host:
  "tenable_finding now (v\<lparr> tv_AffectedHosts := h # hs \<rparr>) = tenable_finding now (v\<lparr> tv_AffectedHosts := [h] \<rparr>)"
  by (simp add: tenable_finding_def Let_def)

lemma qualys_no_cves: "qualys_finding parse h (d\<lparr> qd_CVEs := cves \<rparr>) = qualys_finding parse h d"
  by (simp add: qualys_finding_def qualys_severity_def Let_def)

lemma cs_untitled: "list_all (\<lambda>f. vf_Title f = [] \<and> vf_HostName f = [] \<and> vf_HostIP f = [])
    (csEventsToFindings (csDetectionsToEvents parse ds))"
  by (auto simp: csEventsToFindings_def csDetectionsToEvents_def cs_event_def list_all_iff)

lemma cs_behaviours_lost:
  "csEventsToFindings (csDetectionsToEvents parse (map (\<lambda>d. d\<lparr> csd_Behaviors := bs d \<rparr>) ds)) =
   csEventsToFindings (csDetectionsToEvents parse ds)"
  by (simp add: csEventsToFindings_def csDetectionsToEvents_def cs_event_def)

lemma cs_detections:
  "cs_fetchDetectionsFromAPI L net ctx cfg opts w = (Inr es, w') \<Longrightarrow>
   \<exists>ds. es = csDetectionsToEvents (cl_time L) ds"
  unfolding cs_fetchDetectionsFromAPI_def
  by (auto simp: map_sum_Inr csDetectionsToEvents_def split: prod.splits sum.splits if_splits)

lemma cs_live_findings:
  assumes live: "\<not> csc_MockMode cfg"
    and got: "cs_FetchVulnerabilities L net now ctx cfg opts w = (Inr fs, w')"
  shows "list_all (\<lambda>f. vf_Title f = []) fs"
proof -
  obtain es where "cs_fetchDetectionsFromAPI L net ctx cfg opts w = (Inr es, w')" "fs = csEventsToFindings es"
    using live got
    by (cases "cs_fetchDetectionsFromAPI L net ctx cfg opts w")
      (auto simp: cs_FetchVulnerabilities_def cs_fetchDetectionsAsFindings_def map_sum_Inr)
  then show ?thesis using cs_detections cs_untitled [of "cl_time L"] by (fastforce simp: list_all_iff)
qed

lemma items_split:
  "map vi_ID (VulnFindingsToEvidence fmt c1 fs @ EndpointDevicesToEvidence fmt c2 ds) =
     map (\<lambda>f. vf_Source f @ ''/'' @ vf_ID f) fs @ map (\<lambda>d. ed_Source d @ ''/'' @ ed_ID d) ds"
  "map vi_Severity (VulnFindingsToEvidence fmt c1 fs @ EndpointDevicesToEvidence fmt c2 ds) =
     map vf_Severity fs @ replicate (length ds) SeverityInformational"
  "filter (\<lambda>i. vi_Category i = EvidenceCategoryVulnerability)
     (VulnFindingsToEvidence fmt c1 fs @ EndpointDevicesToEvidence fmt c2 ds) = VulnFindingsToEvidence fmt c1 fs"
  "list_all (\<lambda>i. vi_Category i \<noteq> EvidenceCategoryDetection)
     (VulnFindingsToEvidence fmt c1 fs @ EndpointDevicesToEvidence fmt c2 ds)"
proof -
  note v = vuln_items [of fmt c1 fs] and e = endpoint_items [of fmt c2 ds]
  show "map vi_ID (VulnFindingsToEvidence fmt c1 fs @ EndpointDevicesToEvidence fmt c2 ds) =
     map (\<lambda>f. vf_Source f @ ''/'' @ vf_ID f) fs @ map (\<lambda>d. ed_Source d @ ''/'' @ ed_ID d) ds"
    by (simp only: map_append v(1) e(1))
  have "map vi_Severity (EndpointDevicesToEvidence fmt c2 ds) = replicate (length ds) SeverityInformational"
    using e(2,3) by (intro replicate_eqI) (auto simp: list_all_iff)
  then show "map vi_Severity (VulnFindingsToEvidence fmt c1 fs @ EndpointDevicesToEvidence fmt c2 ds) =
     map vf_Severity fs @ replicate (length ds) SeverityInformational"
    by (simp only: map_append v(2))
  have "filter (\<lambda>i. vi_Category i = EvidenceCategoryVulnerability) (VulnFindingsToEvidence fmt c1 fs) =
      VulnFindingsToEvidence fmt c1 fs"
    using v(4) by (intro filter_True) (auto simp: list_all_iff)
  moreover have "filter (\<lambda>i. vi_Category i = EvidenceCategoryVulnerability) (EndpointDevicesToEvidence fmt c2 ds) = []"
    using e(2) by (intro filter_False) (auto simp: list_all_iff)
  ultimately show "filter (\<lambda>i. vi_Category i = EvidenceCategoryVulnerability)
     (VulnFindingsToEvidence fmt c1 fs @ EndpointDevicesToEvidence fmt c2 ds) = VulnFindingsToEvidence fmt c1 fs"
    by simp
  show "list_all (\<lambda>i. vi_Category i \<noteq> EvidenceCategoryDetection)
     (VulnFindingsToEvidence fmt c1 fs @ EndpointDevicesToEvidence fmt c2 ds)"
    using v(4) e(2) by (auto simp: list_all_iff)
qed

text \<open>
  C26. The evidence endpoint serves all or nothing. Evidence is only served with status 200, and then
  there is one item per finding and one per endpoint of the same connector, in that order, each named
  by its source and id, the findings' with their severity and the endpoints' as informational, and the
  count is right; no item is ever a detection, not even CrowdStrike's. If the findings cannot be
  fetched the answer is 502 with that error, and the endpoints are not asked for; if the endpoints
  cannot be fetched it is 502 with theirs, and the findings are dropped.
\<close>

theorem vuln_evidence_all_or_nothing:
  "(\<forall>st items n name' w'. FetchEvidence L net E name reg w = ((st, VulnEvidenceList items n name'), w') \<longrightarrow>
     st = 200 \<and> (\<exists>a fs ds w1. vuln_Get name reg = Some a \<and> name' = name \<and> n = length items \<and>
       vuln_FetchVulnerabilities L net (ve_now E) vuln_timeout a no_options w = (Inr fs, w1) \<and>
       vuln_FetchEndpoints L net (ve_now2 E) vuln_timeout a no_options w1 = (Inr ds, w') \<and>
       map vi_ID items =
         map (\<lambda>f. vf_Source f @ ''/'' @ vf_ID f) fs @ map (\<lambda>d. ed_Source d @ ''/'' @ ed_ID d) ds \<and>
       map vi_Severity items = map vf_Severity fs @ replicate (length ds) SeverityInformational \<and>
       list_all (\<lambda>i. vi_Category i \<noteq> EvidenceCategoryDetection) items)) \<and>
   (\<forall>a e w1. vuln_Get name reg = Some a \<and>
     vuln_FetchVulnerabilities L net (ve_now E) vuln_timeout a no_options w = (Inl e, w1) \<longrightarrow>
     FetchEvidence L net E name reg w = ((502, VulnError ''CONNECTOR_ERROR'' e), w1)) \<and>
   (\<forall>a fs w1 e w2. vuln_Get name reg = Some a \<and>
     vuln_FetchVulnerabilities L net (ve_now E) vuln_timeout a no_options w = (Inr fs, w1) \<and>
     vuln_FetchEndpoints L net (ve_now2 E) vuln_timeout a no_options w1 = (Inl e, w2) \<longrightarrow>
     FetchEvidence L net E name reg w = ((502, VulnError ''CONNECTOR_ERROR'' e), w2))"
proof (rule conjI, intro allI impI)
  fix st items n name' w'
  assume served: "FetchEvidence L net E name reg w = ((st, VulnEvidenceList items n name'), w')"
  then have st: "st = 200" by (rule evidence_status)
  from served [unfolded st] show "st = 200 \<and> (\<exists>a fs ds w1. vuln_Get name reg = Some a \<and> name' = name \<and> n = length items \<and>
       vuln_FetchVulnerabilities L net (ve_now E) vuln_timeout a no_options w = (Inr fs, w1) \<and>
       vuln_FetchEndpoints L net (ve_now2 E) vuln_timeout a no_options w1 = (Inr ds, w') \<and>
       map vi_ID items =
         map (\<lambda>f. vf_Source f @ ''/'' @ vf_ID f) fs @ map (\<lambda>d. ed_Source d @ ''/'' @ ed_ID d) ds \<and>
       map vi_Severity items = map vf_Severity fs @ replicate (length ds) SeverityInformational \<and>
       list_all (\<lambda>i. vi_Category i \<noteq> EvidenceCategoryDetection) items)"
  proof (rule FetchEvidence_served)
    fix a fs ds w1
    assume a: "vuln_Get name reg = Some a"
      "vuln_FetchVulnerabilities L net (ve_now E) vuln_timeout a no_options w = (Inr fs, w1)"
      "vuln_FetchEndpoints L net (ve_now2 E) vuln_timeout a no_options w1 = (Inr ds, w')"
      "n = length fs + length ds" "name' = name"
      and i: "items = VulnFindingsToEvidence (vl_format L) (ve_clock1 E) fs @
        EndpointDevicesToEvidence (vl_format L) (ve_clock2 E) ds"
    show ?thesis
      using a st items_split [of "vl_format L" "ve_clock1 E" fs "ve_clock2 E" ds]
      unfolding i by (auto simp: vuln_items(5) endpoint_items(3) simp del: list_all_append)
  qed
qed (auto simp: FetchEvidence_def resolveVulnConnector_def connector_failed_def)

text \<open>
  What a live provider reports and no evidence shows. Tenable: every host a vulnerability
  affects but the first. Qualys: the CVE list. CrowdStrike: whatever the detection did (its
  behaviours, hence tactics and techniques); and every item of a detection is served without a
  title.
\<close>

theorem vuln_evidence_omits:
  "tenable_finding now (v\<lparr> tv_AffectedHosts := h # hs \<rparr>) = tenable_finding now (v\<lparr> tv_AffectedHosts := [h] \<rparr>) \<and>
   qualys_finding parse host (d\<lparr> qd_CVEs := cves \<rparr>) = qualys_finding parse host d \<and>
   csEventsToFindings (csDetectionsToEvents parse (map (\<lambda>d. d\<lparr> csd_Behaviors := bs d \<rparr>) dets)) =
     csEventsToFindings (csDetectionsToEvents parse dets) \<and>
   (vuln_Get name reg = Some (CrowdStrikeConn cfg) \<and> \<not> csc_MockMode cfg \<and>
     FetchEvidence L net E name reg w = ((200, VulnEvidenceList items n name'), w') \<longrightarrow>
     list_all (\<lambda>i. vi_Category i = EvidenceCategoryVulnerability \<longrightarrow> vi_Title i = []) items)"
proof (intro conjI impI; (elim conjE)?)
  show "tenable_finding now (v\<lparr> tv_AffectedHosts := h # hs \<rparr>) =
      tenable_finding now (v\<lparr> tv_AffectedHosts := [h] \<rparr>)"
    by (rule tenable_first_host)
  show "qualys_finding parse host (d\<lparr> qd_CVEs := cves \<rparr>) = qualys_finding parse host d"
    by (rule qualys_no_cves)
  show "csEventsToFindings (csDetectionsToEvents parse (map (\<lambda>d. d\<lparr> csd_Behaviors := bs d \<rparr>) dets)) =
     csEventsToFindings (csDetectionsToEvents parse dets)"
    by (rule cs_behaviours_lost)
  assume conn: "vuln_Get name reg = Some (CrowdStrikeConn cfg)" and live: "\<not> csc_MockMode cfg"
    and "FetchEvidence L net E name reg w = ((200, VulnEvidenceList items n name'), w')"
  then obtain fs ds w1 where got: "vuln_FetchVulnerabilities L net (ve_now E) vuln_timeout
      (CrowdStrikeConn cfg) no_options w = (Inr fs, w1)"
    and items: "items = VulnFindingsToEvidence (vl_format L) (ve_clock1 E) fs @
       EndpointDevicesToEvidence (vl_format L) (ve_clock2 E) ds"
    by (elim FetchEvidence_served) simp
  have "list_all (\<lambda>f. vf_Title f = []) fs"
    using got by (intro cs_live_findings [OF live]) (simp add: vuln_FetchVulnerabilities_def)
  then have "set (map vi_Title (VulnFindingsToEvidence (vl_format L) (ve_clock1 E) fs)) \<subseteq> {[]}"
    unfolding vuln_items(3) by (auto simp: list_all_iff)
  moreover have "set (filter (\<lambda>i. vi_Category i = EvidenceCategoryVulnerability) items) =
      set (VulnFindingsToEvidence (vl_format L) (ve_clock1 E) fs)"
    unfolding items items_split(3) ..
  ultimately show "list_all (\<lambda>i. vi_Category i = EvidenceCategoryVulnerability \<longrightarrow> vi_Title i = []) items"
    by (auto simp: list_all_iff)
qed

section \<open>Examples\<close>

definition demo_detection :: csDetection where
  "demo_detection = \<lparr> csd_DetectionID = ''ldt:1'', csd_Hostname = ''h'', csd_DeviceID = ''d1'', csd_Status = ''new'',
     csd_Severity = ''High'', csd_Description = ''x'',
     csd_Behaviors = [\<lparr> cb_TacticID = [], cb_Tactic = ''Impact'', cb_TechniqueID = ''T1486'', cb_Filepath = [] \<rparr>],
     csd_CreatedTimestamp = [], csd_UpdatedTimestamp = [] \<rparr>"

definition demo_vuln_lib :: vuln_lib where
  "demo_vuln_lib = \<lparr> vl_tenable_vulns = (\<lambda>s. Inr []), vl_tenable_assets = (\<lambda>s. Inr []),
     vl_qualys_vulns = (\<lambda>s. Inr []), vl_qualys_hosts = (\<lambda>s. Inr []),
     vl_cs = \<lparr> cl_token = (\<lambda>s. Inr ''t''), cl_ids = (\<lambda>s. Inr [''ldt:1'']),
       cl_summaries = (\<lambda>s. Inr [demo_detection]), cl_devices = (\<lambda>s. Inr []),
       cl_marshal_ids = concat, cl_time = (\<lambda>s. None) \<rparr>,
     vl_parse = (\<lambda>s. None), vl_format = (\<lambda>t. []) \<rparr>"

text \<open>A provider that answers every third call, the token's, with 201 and the others with 200.\<close>

definition demo_vuln_net :: "nat net" where
  "demo_vuln_net r w = (Answer (if w mod 3 = 0 then 201 else 200) [] None, w + 1)"

definition demo_vuln_env :: vuln_env where
  "demo_vuln_env = \<lparr> ve_now = 0, ve_now2 = 0, ve_clock1 = int, ve_clock2 = int, ve_order = [] \<rparr>"

definition demo_live :: "string \<Rightarrow> string" where
  "demo_live v = ''false''"

lemma demo_live_conn:
  "\<exists>cfg. vuln_Get ''crowdstrike'' (vuln_main demo_live) = Some (CrowdStrikeConn cfg) \<and> \<not> csc_MockMode cfg"
  by (simp add: vuln_main_def vuln_Get_def vuln_Register_def Let_def demo_live_def
      NewCrowdStrikeAdapter_def update_conv')

lemma demo_live_served:
  "\<exists>items n w. FetchEvidence demo_vuln_lib demo_vuln_net demo_vuln_env ''crowdstrike'' (vuln_main demo_live) 0 =
     ((200, VulnEvidenceList items n ''crowdstrike''), w)"
proof -
  obtain cfg where cfg: "vuln_Get ''crowdstrike'' (vuln_main demo_live) = Some (CrowdStrikeConn cfg)"
    "\<not> csc_MockMode cfg"
    using demo_live_conn by blast
  have f: "\<exists>fs. vuln_FetchVulnerabilities demo_vuln_lib demo_vuln_net t vuln_timeout (CrowdStrikeConn cfg)
      no_options 0 = (Inr fs, 3)" for t
    using cfg(2)
    by (simp add: vuln_FetchVulnerabilities_def cs_FetchVulnerabilities_def cs_fetchDetectionsAsFindings_def
        cs_fetchDetectionsFromAPI_def bearerToken_def demo_vuln_net_def demo_vuln_lib_def fetch_json_def)
  have d: "\<exists>ds. vuln_FetchEndpoints demo_vuln_lib demo_vuln_net t vuln_timeout (CrowdStrikeConn cfg)
      no_options 3 = (Inr ds, 6)" for t
    using cfg(2)
    by (simp add: vuln_FetchEndpoints_def cs_FetchEndpoints_def
        cs_fetchDevicesFromAPI_def bearerToken_def demo_vuln_net_def demo_vuln_lib_def fetch_json_def)
  show ?thesis using cfg f [of "ve_now demo_vuln_env"] d [of "ve_now2 demo_vuln_env"]
    by (auto simp: FetchEvidence_def resolveVulnConnector_def Let_def)
qed

theorem vuln_evidence_all_or_nothing_witness:
  "\<exists>items n w. FetchEvidence demo_vuln_lib demo_vuln_net demo_vuln_env ''crowdstrike'' (vuln_main demo_live) 0 =
     ((200, VulnEvidenceList items n ''crowdstrike''), w) \<and> n = length items"
proof -
  obtain items n w where f: "FetchEvidence demo_vuln_lib demo_vuln_net demo_vuln_env ''crowdstrike''
      (vuln_main demo_live) 0 = ((200, VulnEvidenceList items n ''crowdstrike''), w)"
    using demo_live_served by blast
  from vuln_evidence_all_or_nothing [THEN conjunct1, rule_format, OF f]
  have "n = length items" by blast
  with f show ?thesis by (intro exI conjI)
qed

theorem vuln_evidence_omits_witness:
  "\<exists>items n w. FetchEvidence demo_vuln_lib demo_vuln_net demo_vuln_env ''crowdstrike'' (vuln_main demo_live) 0 =
     ((200, VulnEvidenceList items n ''crowdstrike''), w) \<and>
     list_all (\<lambda>i. vi_Category i = EvidenceCategoryVulnerability \<longrightarrow> vi_Title i = []) items"
proof -
  obtain items n w where f: "FetchEvidence demo_vuln_lib demo_vuln_net demo_vuln_env ''crowdstrike''
      (vuln_main demo_live) 0 = ((200, VulnEvidenceList items n ''crowdstrike''), w)"
    using demo_live_served by blast
  obtain cfg where cfg: "vuln_Get ''crowdstrike'' (vuln_main demo_live) = Some (CrowdStrikeConn cfg)"
    "\<not> csc_MockMode cfg"
    using demo_live_conn by blast
  show ?thesis using f vuln_evidence_omits [THEN conjunct2, THEN conjunct2, THEN conjunct2, rule_format,
        OF conjI [OF cfg(1) conjI [OF cfg(2) f]]]
    by (intro exI conjI)
qed

end
