(* ===== verification/ServiceNow.thy ===== *)
theory ServiceNow
  imports IntegrationHttp
begin

text \<open>
  The export of findings to ServiceNow (services/integration/internal/grc/connector.go,
  adapters/servicenow.go) and the GRC endpoints (handler/handler.go) over the one connector
  cmd/api/main.go registers. A finding's severity comes from the request and stays a string.
  Marshalling a payload, decoding the new record's \<open>sys_id\<close> and printing a date are parameters.
\<close>

section \<open>Findings and records\<close>

definition GrcSeverityCritical :: string where "GrcSeverityCritical = ''critical''"

definition GrcSeverityHigh :: string where "GrcSeverityHigh = ''high''"

definition GrcSeverityMedium :: string where "GrcSeverityMedium = ''medium''"

definition GrcSeverityLow :: string where "GrcSeverityLow = ''low''"

record Finding =
  gf_ID :: string
  gf_Ref :: string
  gf_Title :: string
  gf_Description :: string
  gf_Severity :: string
  gf_Recommendation :: string
  gf_ControlRef :: string
  gf_AssetRef :: string
  gf_DetectedAt :: gotime

record GRCItem =
  gi_SysID :: string
  gi_Name :: string
  gi_Description :: string
  gi_State :: string
  gi_Category :: string
  gi_Priority :: string
  gi_SourceRef :: string
  gi_ControlRef :: string
  gi_CreatedAt :: gotime

record RiskEntry =
  re_SysID :: string
  re_Name :: string
  re_Description :: string
  re_RiskScore :: int
  re_Category :: string
  re_Treatment :: string
  re_Owner :: string
  re_CMDBCI :: string
  re_SourceRef :: string
  re_CreatedAt :: gotime

record RemediationTask =
  rk_SysID :: string
  rk_Name :: string
  rk_Description :: string
  rk_State :: string
  rk_Priority :: string
  rk_AssignedTo :: string
  rk_DueDate :: gotime
  rk_GRCItemRef :: string
  rk_SourceRef :: string

record ExportResult =
  er_Connector :: string
  er_GRCItems :: "GRCItem list"
  er_RiskEntries :: "RiskEntry list"
  er_RemediationTasks :: "RemediationTask list"
  er_TotalFindings :: nat
  er_ExportedAt :: gotime

definition severityToSNPriority :: "string \<Rightarrow> string" where
  "severityToSNPriority s =
     (if s = GrcSeverityCritical then ''1'' else if s = GrcSeverityHigh then ''2''
      else if s = GrcSeverityMedium then ''3'' else if s = GrcSeverityLow then ''4'' else ''5'')"

definition severityToRiskScore :: "string \<Rightarrow> int" where
  "severityToRiskScore s =
     (if s = GrcSeverityCritical then 90 else if s = GrcSeverityHigh then 70
      else if s = GrcSeverityMedium then 50 else if s = GrcSeverityLow then 25 else 10)"

definition dueDateForSeverity :: "string \<Rightarrow> duration" where
  "dueDateForSeverity s =
     (if s = GrcSeverityCritical then 7 else if s = GrcSeverityHigh then 30
      else if s = GrcSeverityMedium then 90 else 180) * (24 * 3600 * second)"

definition resolveCMDBCI :: "string \<Rightarrow> string" where
  "resolveCMDBCI assetRef = (if assetRef \<noteq> [] then assetRef else ''aiauditor_default_ci'')"

text \<open>Who gets a risk entry, and who a task.\<close>

definition needs_risk :: "Finding \<Rightarrow> bool" where
  "needs_risk f \<longleftrightarrow> gf_Severity f = GrcSeverityCritical \<or> gf_Severity f = GrcSeverityHigh"

definition needs_task :: "Finding \<Rightarrow> bool" where
  "needs_task f \<longleftrightarrow> gf_Recommendation f \<noteq> []"

definition grc_item :: "string \<Rightarrow> gotime \<Rightarrow> Finding \<Rightarrow> GRCItem" where
  "grc_item sysID now f = \<lparr> gi_SysID = sysID, gi_Name = ''[AIAUDITOR] '' @ gf_Title f,
     gi_Description = gf_Description f, gi_State = ''open'', gi_Category = ''compliance'',
     gi_Priority = severityToSNPriority (gf_Severity f), gi_SourceRef = gf_ID f,
     gi_ControlRef = gf_ControlRef f, gi_CreatedAt = now \<rparr>"

definition risk_entry :: "string \<Rightarrow> string \<Rightarrow> gotime \<Rightarrow> Finding \<Rightarrow> RiskEntry" where
  "risk_entry sysID owner now f = \<lparr> re_SysID = sysID, re_Name = ''[AIAUDITOR Risk] '' @ gf_Title f,
     re_Description = gf_Description f, re_RiskScore = severityToRiskScore (gf_Severity f),
     re_Category = ''information_security'', re_Treatment = ''mitigate'', re_Owner = owner,
     re_CMDBCI = resolveCMDBCI (gf_AssetRef f), re_SourceRef = gf_ID f, re_CreatedAt = now \<rparr>"

definition remediation_task :: "string \<Rightarrow> string \<Rightarrow> gotime \<Rightarrow> Finding \<Rightarrow> RemediationTask" where
  "remediation_task sysID itemID due f = \<lparr> rk_SysID = sysID,
     rk_Name = ''[AIAUDITOR Remediation] '' @ gf_Title f, rk_Description = gf_Recommendation f,
     rk_State = ''open'', rk_Priority = severityToSNPriority (gf_Severity f),
     rk_AssignedTo = ''aiauditor_integration'', rk_DueDate = due, rk_GRCItemRef = itemID,
     rk_SourceRef = gf_ID f \<rparr>"

section \<open>The live export\<close>

record ServiceNowConfig =
  snc_BaseURL :: string
  snc_Username :: string
  snc_Password :: string
  snc_MockMode :: bool

record sn_lib =
  sn_marshal :: "(string \<times> json) list \<Rightarrow> string"
  sn_sysid :: "string unmarshal"
  sn_RFC3339 :: "gotime \<Rightarrow> string"

definition sn_post :: "sn_lib \<Rightarrow> duration option \<Rightarrow> ServiceNowConfig \<Rightarrow> string \<Rightarrow> (string \<times> json) list \<Rightarrow> out_request" where
  "sn_post L ctx cfg table payload =
     \<lparr> or_Method = ''POST'', or_URL = snc_BaseURL cfg @ ''/api/now/table/'' @ table,
       or_Headers = [basic_auth (snc_Username cfg) (snc_Password cfg), content_json, accept_json],
       or_Body = sn_marshal L payload, or_Deadline = ctx \<rparr>"

text \<open>A record counts as created on status 201 only; a body that cannot be read is an empty one.\<close>

definition sn_created :: "sn_lib \<Rightarrow> http_answer \<Rightarrow> string + string" where
  "sn_created L ans =
     (case ans of
        BuildError e \<Rightarrow> Inl e
      | DoError e \<Rightarrow> Inl e
      | Answer status body _ \<Rightarrow>
          if status \<noteq> 201 then Inl (''HTTP '' @ int_text status @ '': '' @ body) else sn_sysid L body)"

definition item_payload :: "Finding \<Rightarrow> (string \<times> json) list" where
  "item_payload f = [(''name'', JStr (''[AIAUDITOR] '' @ gf_Title f)),
     (''description'', JStr (gf_Description f)), (''state'', JStr ''open''),
     (''category'', JStr ''compliance''), (''priority'', JStr (severityToSNPriority (gf_Severity f))),
     (''u_source_ref'', JStr (gf_ID f)), (''u_control_ref'', JStr (gf_ControlRef f))]"

definition createGRCItem ::
  "sn_lib \<Rightarrow> 'w net \<Rightarrow> duration option \<Rightarrow> ServiceNowConfig \<Rightarrow> gotime \<Rightarrow> Finding \<Rightarrow> 'w \<Rightarrow> (string + GRCItem) \<times> 'w" where
  "createGRCItem L net ctx cfg now f w =
     (case net (sn_post L ctx cfg ''sn_grc_item'' (item_payload f)) w of
        (ans, w1) \<Rightarrow> (map_sum id (\<lambda>sysID. grc_item sysID now f) (sn_created L ans), w1))"

definition risk_payload :: "Finding \<Rightarrow> (string \<times> json) list" where
  "risk_payload f = [(''name'', JStr (''[AIAUDITOR Risk] '' @ gf_Title f)),
     (''description'', JStr (gf_Description f)),
     (''risk_score'', JNum (int_text (severityToRiskScore (gf_Severity f)))),
     (''category'', JStr ''information_security''), (''treatment'', JStr ''mitigate''),
     (''cmdb_ci'', JStr (resolveCMDBCI (gf_AssetRef f))), (''u_source_ref'', JStr (gf_ID f))]"

definition createRiskEntry ::
  "sn_lib \<Rightarrow> 'w net \<Rightarrow> duration option \<Rightarrow> ServiceNowConfig \<Rightarrow> gotime \<Rightarrow> Finding \<Rightarrow> string \<Rightarrow> 'w \<Rightarrow>
   (string + RiskEntry) \<times> 'w" where
  "createRiskEntry L net ctx cfg now f grcItemSysID w =
     (case net (sn_post L ctx cfg ''sn_grc_risk'' (risk_payload f)) w of
        (ans, w1) \<Rightarrow> (map_sum id (\<lambda>sysID. risk_entry sysID [] now f) (sn_created L ans), w1))"

definition task_payload :: "sn_lib \<Rightarrow> gotime \<Rightarrow> string \<Rightarrow> Finding \<Rightarrow> (string \<times> json) list" where
  "task_payload L due itemID f = [(''name'', JStr (''[AIAUDITOR Remediation] '' @ gf_Title f)),
     (''description'', JStr (gf_Recommendation f)), (''state'', JStr ''open''),
     (''priority'', JStr (severityToSNPriority (gf_Severity f))),
     (''assigned_to'', JStr ''aiauditor_integration''), (''due_date'', JStr (sn_RFC3339 L due)),
     (''u_grc_item_ref'', JStr itemID), (''u_source_ref'', JStr (gf_ID f))]"

definition createRemediationTask ::
  "sn_lib \<Rightarrow> 'w net \<Rightarrow> duration option \<Rightarrow> ServiceNowConfig \<Rightarrow> gotime \<Rightarrow> Finding \<Rightarrow> string \<Rightarrow> 'w \<Rightarrow>
   (string + RemediationTask) \<times> 'w" where
  "createRemediationTask L net ctx cfg now f grcItemSysID w =
     (let dueDate = now + dueDateForSeverity (gf_Severity f)
      in case net (sn_post L ctx cfg ''sn_grc_task'' (task_payload L dueDate grcItemSysID f)) w of
           (ans, w1) \<Rightarrow>
             (map_sum id (\<lambda>sysID. remediation_task sysID grcItemSysID dueDate f) (sn_created L ans), w1))"

text \<open>The clock's readings for a finding: item created, risk created, task begun.\<close>

type_synonym sn_times = "gotime \<times> gotime \<times> gotime"

definition create_failed :: "string \<Rightarrow> Finding \<Rightarrow> string \<Rightarrow> string" where
  "create_failed kind f e = ''servicenow: create '' @ kind @ '' for '' @ gf_ID f @ '': '' @ e"

definition export_risk ::
  "sn_lib \<Rightarrow> 'w net \<Rightarrow> duration option \<Rightarrow> ServiceNowConfig \<Rightarrow> gotime \<Rightarrow> Finding \<Rightarrow> string \<Rightarrow>
   ExportResult \<Rightarrow> 'w \<Rightarrow> (string + ExportResult) \<times> 'w" where
  "export_risk L net ctx cfg t f itemID result w =
     (if needs_risk f
      then (case createRiskEntry L net ctx cfg t f itemID w of
              (Inl e, w1) \<Rightarrow> (Inl (create_failed ''risk entry'' f e), w1)
            | (Inr risk, w1) \<Rightarrow> (Inr (result\<lparr> er_RiskEntries := er_RiskEntries result @ [risk] \<rparr>), w1))
      else (Inr result, w))"

definition export_task ::
  "sn_lib \<Rightarrow> 'w net \<Rightarrow> duration option \<Rightarrow> ServiceNowConfig \<Rightarrow> gotime \<Rightarrow> Finding \<Rightarrow> string \<Rightarrow>
   ExportResult \<Rightarrow> 'w \<Rightarrow> (string + ExportResult) \<times> 'w" where
  "export_task L net ctx cfg t f itemID result w =
     (if needs_task f
      then (case createRemediationTask L net ctx cfg t f itemID w of
              (Inl e, w1) \<Rightarrow> (Inl (create_failed ''remediation task'' f e), w1)
            | (Inr task, w1) \<Rightarrow>
                (Inr (result\<lparr> er_RemediationTasks := er_RemediationTasks result @ [task] \<rparr>), w1))
      else (Inr result, w))"

definition export_finding ::
  "sn_lib \<Rightarrow> 'w net \<Rightarrow> duration option \<Rightarrow> ServiceNowConfig \<Rightarrow> sn_times \<Rightarrow> Finding \<Rightarrow>
   ExportResult \<Rightarrow> 'w \<Rightarrow> (string + ExportResult) \<times> 'w" where
  "export_finding L net ctx cfg = (\<lambda>(t1, t2, t3) f result w.
     case createGRCItem L net ctx cfg t1 f w of
       (Inl e, w1) \<Rightarrow> (Inl (create_failed ''grc item'' f e), w1)
     | (Inr item, w1) \<Rightarrow>
         (case export_risk L net ctx cfg t2 f (gi_SysID item)
                 (result\<lparr> er_GRCItems := er_GRCItems result @ [item] \<rparr>) w1 of
            (Inl e, w2) \<Rightarrow> (Inl e, w2)
          | (Inr result1, w2) \<Rightarrow> export_task L net ctx cfg t3 f (gi_SysID item) result1 w2))"

fun export_loop ::
  "sn_lib \<Rightarrow> 'w net \<Rightarrow> duration option \<Rightarrow> ServiceNowConfig \<Rightarrow> (nat \<Rightarrow> sn_times) \<Rightarrow> nat \<Rightarrow> Finding list \<Rightarrow>
   ExportResult \<Rightarrow> 'w \<Rightarrow> (string + ExportResult) \<times> 'w" where
  "export_loop L net ctx cfg clock i [] result w = (Inr result, w)"
| "export_loop L net ctx cfg clock i (f # fs) result w =
     (case export_finding L net ctx cfg (clock i) f result w of
        (Inl e, w1) \<Rightarrow> (Inl e, w1)
      | (Inr result1, w1) \<Rightarrow> export_loop L net ctx cfg clock (Suc i) fs result1 w1)"

definition new_export :: "gotime \<Rightarrow> ExportResult" where
  "new_export now = \<lparr> er_Connector = ''servicenow'', er_GRCItems = [], er_RiskEntries = [],
     er_RemediationTasks = [], er_TotalFindings = 0, er_ExportedAt = now \<rparr>"

definition liveExport ::
  "sn_lib \<Rightarrow> 'w net \<Rightarrow> duration option \<Rightarrow> ServiceNowConfig \<Rightarrow> gotime \<Rightarrow> (nat \<Rightarrow> sn_times) \<Rightarrow> Finding list \<Rightarrow>
   'w \<Rightarrow> (string + ExportResult) \<times> 'w" where
  "liveExport L net ctx cfg now clock findings w =
     (case export_loop L net ctx cfg clock 0 findings (new_export now) w of
        (Inl e, w1) \<Rightarrow> (Inl e, w1)
      | (Inr result, w1) \<Rightarrow> (Inr (result\<lparr> er_TotalFindings := length findings \<rparr>), w1))"

section \<open>The made-up export\<close>

definition mock_sysid :: "nat \<Rightarrow> string" where
  "mock_sysid i = ''mock'' @ pad0 8 (hex_digits (i + 1))"

definition mock_finding :: "sn_times \<Rightarrow> nat \<Rightarrow> Finding \<Rightarrow> ExportResult \<Rightarrow> ExportResult" where
  "mock_finding = (\<lambda>(t1, t2, t3) i f result.
     let sysIDBase = mock_sysid i;
         item = grc_item (''grc'' @ sysIDBase) t1 f;
         result = result\<lparr> er_GRCItems := er_GRCItems result @ [item] \<rparr>;
         result = (if needs_risk f
           then result\<lparr> er_RiskEntries := er_RiskEntries result @
                  [risk_entry (''risk'' @ sysIDBase) ''aiauditor_integration'' t2 f] \<rparr>
           else result)
     in if needs_task f
        then result\<lparr> er_RemediationTasks := er_RemediationTasks result @
               [remediation_task (''task'' @ sysIDBase) (gi_SysID item)
                  (t3 + dueDateForSeverity (gf_Severity f)) f] \<rparr>
        else result)"

fun mock_loop :: "(nat \<Rightarrow> sn_times) \<Rightarrow> nat \<Rightarrow> Finding list \<Rightarrow> ExportResult \<Rightarrow> ExportResult" where
  "mock_loop clock i [] result = result"
| "mock_loop clock i (f # fs) result =
     mock_loop clock (Suc i) fs (mock_finding (clock i) i f result)"

definition mockExport :: "gotime \<Rightarrow> (nat \<Rightarrow> sn_times) \<Rightarrow> Finding list \<Rightarrow> ExportResult" where
  "mockExport now clock findings =
     (mock_loop clock 0 findings (new_export now))\<lparr> er_TotalFindings := length findings \<rparr>"

definition ExportFindings ::
  "sn_lib \<Rightarrow> 'w net \<Rightarrow> duration option \<Rightarrow> ServiceNowConfig \<Rightarrow> gotime \<Rightarrow> (nat \<Rightarrow> sn_times) \<Rightarrow> Finding list \<Rightarrow>
   'w \<Rightarrow> (string + ExportResult) \<times> 'w" where
  "ExportFindings L net ctx cfg now clock findings w =
     (if snc_MockMode cfg then (Inr (mockExport now clock findings), w)
      else liveExport L net ctx cfg now clock findings w)"

definition sn_Health ::
  "'w net \<Rightarrow> gotime \<Rightarrow> duration option \<Rightarrow> ServiceNowConfig \<Rightarrow> 'w \<Rightarrow> HealthStatus \<times> 'w" where
  "sn_Health net now ctx cfg w =
     (if snc_MockMode cfg then (mock_health ''servicenow'' now, w)
      else case net (get_request ctx (snc_BaseURL cfg @ ''/api/now/table/sys_properties?sysparm_limit=1'')
                 [basic_auth (snc_Username cfg) (snc_Password cfg), accept_json]) w of
             (ans, w1) \<Rightarrow> (probe_health ''servicenow'' now ans, w1))"

section \<open>What an export contains\<close>

text \<open>
  \<open>faithful fs items risks tasks\<close>: one item per finding, one risk entry per critical or high
  finding, one task per finding with a recommendation, in the findings' order, each with its
  finding's id, priority or risk score, and each task pointing to its finding's item.
\<close>

definition faithful :: "Finding list \<Rightarrow> GRCItem list \<Rightarrow> RiskEntry list \<Rightarrow> RemediationTask list \<Rightarrow> bool" where
  "faithful fs items risks tasks \<longleftrightarrow>
     map (\<lambda>i. (gi_SourceRef i, gi_Priority i)) items =
       map (\<lambda>f. (gf_ID f, severityToSNPriority (gf_Severity f))) fs \<and>
     map (\<lambda>r. (re_SourceRef r, re_RiskScore r)) risks =
       map (\<lambda>f. (gf_ID f, severityToRiskScore (gf_Severity f))) (filter needs_risk fs) \<and>
     map (\<lambda>t. (rk_SourceRef t, rk_GRCItemRef t)) tasks =
       map (\<lambda>(f, i). (gf_ID f, gi_SysID i)) (filter (needs_task \<circ> fst) (zip fs items))"

lemma faithful_Nil: "faithful [] [] [] []"
  by (simp add: faithful_def)

lemma faithful_append:
  assumes "faithful fs1 is1 rs1 ts1" "faithful fs2 is2 rs2 ts2"
  shows "faithful (fs1 @ fs2) (is1 @ is2) (rs1 @ rs2) (ts1 @ ts2)"
proof -
  have "length is1 = length fs1"
    using assms(1) by (metis (no_types, lifting) faithful_def length_map)
  then show ?thesis using assms by (simp add: faithful_def)
qed

definition export_adds :: "Finding list \<Rightarrow> ExportResult \<Rightarrow> ExportResult \<Rightarrow> bool" where
  "export_adds fs res res' \<longleftrightarrow> (\<exists>items risks tasks. faithful fs items risks tasks \<and>
     er_GRCItems res' = er_GRCItems res @ items \<and> er_RiskEntries res' = er_RiskEntries res @ risks \<and>
     er_RemediationTasks res' = er_RemediationTasks res @ tasks)"

lemma export_adds_Nil: "export_adds [] res res"
  unfolding export_adds_def using faithful_Nil by (intro exI [of _ "[]"]) simp

lemma export_adds_trans:
  assumes "export_adds fs1 res res1" "export_adds fs2 res1 res2"
  shows "export_adds (fs1 @ fs2) res res2"
proof -
  from assms obtain is1 rs1 ts1 is2 rs2 ts2 where
    "faithful fs1 is1 rs1 ts1" "er_GRCItems res1 = er_GRCItems res @ is1"
    "er_RiskEntries res1 = er_RiskEntries res @ rs1" "er_RemediationTasks res1 = er_RemediationTasks res @ ts1"
    "faithful fs2 is2 rs2 ts2" "er_GRCItems res2 = er_GRCItems res1 @ is2"
    "er_RiskEntries res2 = er_RiskEntries res1 @ rs2" "er_RemediationTasks res2 = er_RemediationTasks res1 @ ts2"
    unfolding export_adds_def by blast
  then show ?thesis
    unfolding export_adds_def
    by (intro exI [of _ "is1 @ is2"] exI [of _ "rs1 @ rs2"] exI [of _ "ts1 @ ts2"])
      (simp add: faithful_append)
qed

lemma faithful_one:
  "faithful [f] [grc_item i t1 f] (if needs_risk f then [risk_entry k owner t2 f] else [])
     (if needs_task f then [remediation_task n i due f] else [])"
  by (simp add: faithful_def grc_item_def risk_entry_def remediation_task_def)

lemma mock_finding_adds: "export_adds [f] res (mock_finding ts i f res)"
  unfolding export_adds_def
  by (intro exI conjI, rule faithful_one [of f "''grc'' @ mock_sysid i" "fst ts" "''risk'' @ mock_sysid i"
        "''aiauditor_integration''" "fst (snd ts)" "''task'' @ mock_sysid i"
        "snd (snd ts) + dueDateForSeverity (gf_Severity f)"])
    (simp_all add: mock_finding_def Let_def case_prod_unfold grc_item_def)

lemma mock_loop_adds: "export_adds fs res (mock_loop clock i fs res)"
proof (induction fs arbitrary: i res)
  case (Cons f fs)
  show ?case using export_adds_trans [OF mock_finding_adds Cons.IH] by simp
qed (simp add: export_adds_Nil)

lemma export_finding_adds:
  assumes "export_finding L net ctx cfg ts f res w = (Inr res', w')"
  shows "export_adds [f] res res'"
proof -
  obtain t1 t2 t3 where ts: "ts = (t1, t2, t3)" by (cases ts)
  from assms obtain i k n where
    "er_GRCItems res' = er_GRCItems res @ [grc_item i t1 f]"
    "er_RiskEntries res' = er_RiskEntries res @ (if needs_risk f then [risk_entry k [] t2 f] else [])"
    "er_RemediationTasks res' = er_RemediationTasks res @
       (if needs_task f then [remediation_task n i (t3 + dueDateForSeverity (gf_Severity f)) f] else [])"
    by (auto simp: ts export_finding_def createGRCItem_def export_risk_def createRiskEntry_def
        export_task_def createRemediationTask_def Let_def map_sum_Inr grc_item_def
        split: prod.splits sum.splits if_splits)
  then show ?thesis unfolding export_adds_def using faithful_one by blast
qed

lemma export_loop_adds:
  "export_loop L net ctx cfg clock i fs res w = (Inr res', w') \<Longrightarrow> export_adds fs res res'"
proof (induction fs arbitrary: i res w)
  case (Cons f fs)
  then obtain res1 w1 where one: "export_finding L net ctx cfg (clock i) f res w = (Inr res1, w1)"
    and rest: "export_loop L net ctx cfg clock (Suc i) fs res1 w1 = (Inr res', w')"
    by (auto split: prod.splits sum.splits)
  show ?case using export_adds_trans [OF export_finding_adds [OF one] Cons.IH [OF rest]] by simp
qed (simp add: export_adds_Nil)

text \<open>An export that returns a result is faithful, in either mode.\<close>

lemma new_export_faithful:
  "export_adds fs (new_export now) res \<Longrightarrow>
   faithful fs (er_GRCItems res) (er_RiskEntries res) (er_RemediationTasks res)"
  by (auto simp: export_adds_def new_export_def)

lemma ExportFindings_faithful:
  assumes "ExportFindings L net ctx cfg now clock fs w = (Inr res, w')"
  shows "faithful fs (er_GRCItems res) (er_RiskEntries res) (er_RemediationTasks res)"
    "er_TotalFindings res = length fs"
proof -
  from assms obtain res1 where "export_adds fs (new_export now) res1"
    "res = res1\<lparr> er_TotalFindings := length fs \<rparr>"
    using mock_loop_adds [of fs "new_export now" clock 0]
    by (auto simp: ExportFindings_def mockExport_def liveExport_def
        split: if_splits prod.splits sum.splits dest: export_loop_adds)
  with new_export_faithful show "faithful fs (er_GRCItems res) (er_RiskEntries res) (er_RemediationTasks res)"
    "er_TotalFindings res = length fs" by fastforce+
qed


section \<open>Made-up records have different ids\<close>

lemma mock_loop_ids:
  "map gi_SysID (er_GRCItems (mock_loop clock i fs res)) = map gi_SysID (er_GRCItems res) @
     map (\<lambda>(k, f). ''grc'' @ mock_sysid k) (enumerate i fs)"
  "map re_SysID (er_RiskEntries (mock_loop clock i fs res)) = map re_SysID (er_RiskEntries res) @
     map (\<lambda>(k, f). ''risk'' @ mock_sysid k) (filter (needs_risk \<circ> snd) (enumerate i fs))"
  "map rk_SysID (er_RemediationTasks (mock_loop clock i fs res)) = map rk_SysID (er_RemediationTasks res) @
     map (\<lambda>(k, f). ''task'' @ mock_sysid k) (filter (needs_task \<circ> snd) (enumerate i fs))"
  by (induction clock i fs res rule: mock_loop.induct)
    (simp_all add: mock_finding_def Let_def case_prod_unfold grc_item_def risk_entry_def
      remediation_task_def)

lemma mock_sysid_inj: "mock_sysid i = mock_sysid j \<longleftrightarrow> i = j"
  using pad0_hex_inj [of "i + 1" "j + 1" 8] by (auto simp: mock_sysid_def)

lemma mock_ids_distinct:
  assumes "\<And>k. g k = p @ mock_sysid k"
  shows "distinct (map (\<lambda>(k, f). g k) (filter P (enumerate i fs)))"
proof -
  have "distinct (map fst (filter P (enumerate i fs)))"
    by (rule distinct_map_filter) (simp add: map_fst_enumerate)
  moreover have "inj g" using assms mock_sysid_inj by (intro injI) simp
  ultimately have "distinct (map g (map fst (filter P (enumerate i fs))))"
    by (subst distinct_map) (auto intro: inj_on_subset)
  then show ?thesis by (simp add: case_prod_unfold comp_def)
qed

lemma mockExport_ids:
  "distinct (map gi_SysID (er_GRCItems (mockExport now clock fs)))"
  "distinct (map re_SysID (er_RiskEntries (mockExport now clock fs)))"
  "distinct (map rk_SysID (er_RemediationTasks (mockExport now clock fs)))"
  using mock_ids_distinct [of "\<lambda>k. ''grc'' @ mock_sysid k" "''grc''" "\<lambda>x. True" 0 fs]
    mock_ids_distinct [of "\<lambda>k. ''risk'' @ mock_sysid k" "''risk''" "needs_risk \<circ> snd" 0 fs]
    mock_ids_distinct [of "\<lambda>k. ''task'' @ mock_sysid k" "''task''" "needs_task \<circ> snd" 0 fs]
  by (simp_all add: mockExport_def mock_loop_ids new_export_def)

section \<open>What a failed export leaves behind\<close>

text \<open>
  \<open>recorded net\<close> is the network together with the list of all requests sent and their answers.
  \<open>item_records\<close> are the bodies of the items among the requests that ServiceNow accepted with 201,
  that is of the items it created; \<open>posts_only\<close>: nothing but POSTs was sent, so nothing was changed
  or deleted.
\<close>

fun accepted :: "http_answer \<Rightarrow> bool" where
  "accepted (Answer status body err) \<longleftrightarrow> status = 201"
| "accepted ans \<longleftrightarrow> False"

type_synonym transcript = "(out_request \<times> http_answer) list"

definition recorded :: "'w net \<Rightarrow> ('w \<times> transcript) net" where
  "recorded net q = (\<lambda>(w, log). case net q w of (ans, w1) \<Rightarrow> (ans, (w1, log @ [(q, ans)])))"

definition item_records :: "ServiceNowConfig \<Rightarrow> transcript \<Rightarrow> string list" where
  "item_records cfg log = map (or_Body \<circ> fst)
     (filter (\<lambda>(q, ans). accepted ans \<and> or_URL q = snc_BaseURL cfg @ ''/api/now/table/sn_grc_item'') log)"

definition posts_only :: "transcript \<Rightarrow> bool" where
  "posts_only log \<longleftrightarrow> list_all (\<lambda>(q, ans). or_Method q = ''POST'') log"

definition item_body :: "sn_lib \<Rightarrow> Finding \<Rightarrow> string" where
  "item_body L f = sn_marshal L (item_payload f)"

lemma item_records_append [simp]: "item_records cfg (l1 @ l2) = item_records cfg l1 @ item_records cfg l2"
  by (simp add: item_records_def)

lemma posts_only_append [simp]: "posts_only (l1 @ l2) \<longleftrightarrow> posts_only l1 \<and> posts_only l2"
  by (simp add: posts_only_def)

lemma transcript_Nil [simp]: "item_records cfg [] = []" "posts_only []"
  by (simp_all add: item_records_def posts_only_def)

lemma created_accepted: "sn_created L ans = Inr i \<Longrightarrow> accepted ans"
  by (cases ans) (auto simp: sn_created_def split: if_splits)

text \<open>What each step adds to the transcript, and the error it ends in.\<close>

lemma item_recorded:
  assumes "createGRCItem L (recorded net) ctx cfg t f (w, log) = (r, (w', log'))"
  shows "\<exists>new. log' = log @ new \<and> posts_only new \<and>
    (item_records cfg new = [item_body L f] \<or> (\<exists>e. r = Inl e) \<and> item_records cfg new = [])"
proof -
  let ?q = "sn_post L ctx cfg ''sn_grc_item'' (item_payload f)"
  obtain ans w1 where net: "net ?q w = (ans, w1)" by (cases "net ?q w")
  have log': "log' = log @ [(?q, ans)]"
    and r: "r = map_sum id (\<lambda>i. grc_item i t f) (sn_created L ans)"
    using assms by (simp_all add: createGRCItem_def recorded_def net)
  have "\<exists>e. sn_created L ans = Inl e" if "\<not> accepted ans"
    using created_accepted that by (cases "sn_created L ans") auto
  then show ?thesis
    by (intro exI [of _ "[(?q, ans)]"])
      (auto simp: log' r item_records_def posts_only_def sn_post_def item_body_def)
qed

lemma risk_recorded:
  assumes "export_risk L (recorded net) ctx cfg t f i res (w, log) = (r, (w', log'))"
  shows "\<exists>new. log' = log @ new \<and> posts_only new \<and> item_records cfg new = [] \<and>
    (\<forall>e. r = Inl e \<longrightarrow> (\<exists>m. e = create_failed ''risk entry'' f m))"
  using assms
  by (auto simp: export_risk_def createRiskEntry_def recorded_def item_records_def posts_only_def sn_post_def
      split: if_splits prod.splits sum.splits)

lemma task_recorded:
  assumes "export_task L (recorded net) ctx cfg t f i res (w, log) = (r, (w', log'))"
  shows "\<exists>new. log' = log @ new \<and> posts_only new \<and> item_records cfg new = [] \<and>
    (\<forall>e. r = Inl e \<longrightarrow> (\<exists>m. e = create_failed ''remediation task'' f m))"
  using assms
  by (auto simp: export_task_def createRemediationTask_def recorded_def item_records_def posts_only_def sn_post_def
      Let_def split: if_splits prod.splits sum.splits)

definition leaves :: "sn_lib \<Rightarrow> ServiceNowConfig \<Rightarrow> Finding \<Rightarrow> string \<Rightarrow> transcript \<Rightarrow> bool" where
  "leaves L cfg f e new \<longleftrightarrow> (\<exists>kind m. e = create_failed kind f m \<and>
     (item_records cfg new = [item_body L f] \<or> kind = ''grc item'' \<and> item_records cfg new = []))"

lemma finding_recorded:
  assumes "export_finding L (recorded net) ctx cfg ts f res (w, log) = (r, (w', log'))"
  shows "\<exists>new. log' = log @ new \<and> posts_only new \<and>
    (case r of Inr res' \<Rightarrow> item_records cfg new = [item_body L f] | Inl e \<Rightarrow> leaves L cfg f e new)"
proof -
  obtain t1 t2 t3 where ts: "ts = (t1, t2, t3)" by (cases ts)
  obtain x w1 log1 where item: "createGRCItem L (recorded net) ctx cfg t1 f (w, log) = (x, (w1, log1))"
    by (metis prod.collapse)
  from item_recorded [OF item] obtain n1 where n1: "log1 = log @ n1" "posts_only n1"
    "item_records cfg n1 = [item_body L f] \<or> (\<exists>e. x = Inl e) \<and> item_records cfg n1 = []" by blast
  show ?thesis
  proof (cases x)
    case (Inl e)
    then have "r = Inl (create_failed ''grc item'' f e)" "log' = log1"
      using assms item by (auto simp: ts export_finding_def)
    then show ?thesis using n1 by (intro exI [of _ n1]) (auto simp: leaves_def)
  next
    case (Inr it)
    let ?res = "res\<lparr> er_GRCItems := er_GRCItems res @ [it] \<rparr>"
    obtain y w2 log2 where risk: "export_risk L (recorded net) ctx cfg t2 f (gi_SysID it) ?res (w1, log1) = (y, (w2, log2))"
      by (metis prod.collapse)
    from risk_recorded [OF risk] obtain n2 where n2: "log2 = log1 @ n2" "posts_only n2" "item_records cfg n2 = []"
      "\<forall>e. y = Inl e \<longrightarrow> (\<exists>m. e = create_failed ''risk entry'' f m)" by blast
    show ?thesis
    proof (cases y)
      case (Inl e)
      then have "r = Inl e" "log' = log2" using assms item risk Inr by (auto simp: ts export_finding_def)
      then show ?thesis using n1 n2 Inl Inr by (intro exI [of _ "n1 @ n2"]) (auto simp: leaves_def)
    next
      case (Inr res1)
      then have task: "export_task L (recorded net) ctx cfg t3 f (gi_SysID it) res1 (w2, log2) = (r, (w', log'))"
        using assms item risk \<open>x = Inr it\<close> by (simp add: ts export_finding_def)
      from task_recorded [OF task] obtain n3 where n3: "log' = log2 @ n3" "posts_only n3" "item_records cfg n3 = []"
        "\<forall>e. r = Inl e \<longrightarrow> (\<exists>m. e = create_failed ''remediation task'' f m)" by blast
      then show ?thesis using n1 n2 \<open>x = Inr it\<close>
        by (intro exI [of _ "n1 @ n2 @ n3"]) (auto simp: leaves_def split: sum.split)
    qed
  qed
qed

text \<open>
  The export of all findings: if it fails, at the first finding whose export fails, the findings
  before it having been exported.
\<close>

lemma loop_recorded:
  assumes "export_loop L (recorded net) ctx cfg clock i fs res (w, log) = (r, (w', log'))"
  shows "\<exists>new. log' = log @ new \<and> posts_only new \<and>
    (case r of
       Inr res' \<Rightarrow> item_records cfg new = map (item_body L) fs
     | Inl e \<Rightarrow> (\<exists>fs1 f fs2 res1 s1 n1 n2. fs = fs1 @ f # fs2 \<and> new = n1 @ n2 \<and>
         export_loop L (recorded net) ctx cfg clock i fs1 res (w, log) = (Inr res1, s1) \<and>
         item_records cfg n1 = map (item_body L) fs1 \<and> leaves L cfg f e n2))"
  using assms
proof (induction fs arbitrary: i res w log)
  case (Cons f fs)
  obtain x w1 log1 where one: "export_finding L (recorded net) ctx cfg (clock i) f res (w, log) = (x, (w1, log1))"
    by (metis prod.collapse)
  from finding_recorded [OF one] obtain n where n: "log1 = log @ n" "posts_only n"
    "case x of Inr res' \<Rightarrow> item_records cfg n = [item_body L f] | Inl e \<Rightarrow> leaves L cfg f e n" by blast
  show ?case
  proof (cases x)
    case (Inl e)
    then have "r = Inl e" "log' = log1" using Cons.prems one by auto
    moreover have "\<exists>fs1 h fs2 res1 s1 n1 n2. f # fs = fs1 @ h # fs2 \<and> n = n1 @ n2 \<and>
         export_loop L (recorded net) ctx cfg clock i fs1 res (w, log) = (Inr res1, s1) \<and>
         item_records cfg n1 = map (item_body L) fs1 \<and> leaves L cfg h e n2"
      using n(3) Inl
      by (intro exI [of _ "[]"] exI [of _ f] exI [of _ fs] exI [of _ res] exI [of _ "(w, log)"]
          exI [of _ n]) simp
    ultimately show ?thesis using n(1,2) by (intro exI [of _ n]) simp
  next
    case (Inr res1)
    then have rest: "export_loop L (recorded net) ctx cfg clock (Suc i) fs res1 (w1, log1) = (r, (w', log'))"
      using Cons.prems one by simp
    from Cons.IH [OF rest] obtain m where m: "log' = log1 @ m" "posts_only m"
      and c: "case r of
       Inr res' \<Rightarrow> item_records cfg m = map (item_body L) fs
     | Inl e \<Rightarrow> (\<exists>fs1 g fs2 res2 s1 n1 n2. fs = fs1 @ g # fs2 \<and> m = n1 @ n2 \<and>
         export_loop L (recorded net) ctx cfg clock (Suc i) fs1 res1 (w1, log1) = (Inr res2, s1) \<and>
         item_records cfg n1 = map (item_body L) fs1 \<and> leaves L cfg g e n2)" by blast
    show ?thesis
    proof (cases r)
      case (Inl e)
      with c obtain fs1 g fs2 res2 s1 n1 n2 where d: "fs = fs1 @ g # fs2" "m = n1 @ n2"
        "export_loop L (recorded net) ctx cfg clock (Suc i) fs1 res1 (w1, log1) = (Inr res2, s1)"
        "item_records cfg n1 = map (item_body L) fs1" "leaves L cfg g e n2" by auto
      have "export_loop L (recorded net) ctx cfg clock i (f # fs1) res (w, log) = (Inr res2, s1)"
        using one d(3) Inr by simp
      moreover have "item_records cfg (n @ n1) = map (item_body L) (f # fs1)" using n(3) Inr d(4) by simp
      ultimately have "\<exists>fs1 h fs2 res1 s1 n1 n2. f # fs = fs1 @ h # fs2 \<and> n @ m = n1 @ n2 \<and>
         export_loop L (recorded net) ctx cfg clock i fs1 res (w, log) = (Inr res1, s1) \<and>
         item_records cfg n1 = map (item_body L) fs1 \<and> leaves L cfg h e n2"
        using d(1,2,5)
        by (intro exI [of _ "f # fs1"] exI [of _ g] exI [of _ fs2] exI [of _ res2] exI [of _ s1]
            exI [of _ "n @ n1"] exI [of _ n2]) simp
      then show ?thesis using n m Inl by (intro exI [of _ "n @ m"]) simp
    next
      case (Inr res')
      then show ?thesis using n m c \<open>x = Inr res1\<close> by (intro exI [of _ "n @ m"]) simp
    qed
  qed
qed auto

lemma liveExport_recorded:
  assumes "liveExport L (recorded net) ctx cfg now clock fs (w, log) = (r, (w', log'))"
  shows "\<exists>new. log' = log @ new \<and> posts_only new \<and>
    (case r of
       Inr res' \<Rightarrow> item_records cfg new = map (item_body L) fs
     | Inl e \<Rightarrow> (\<exists>fs1 f fs2 res1 s1 n1 n2. fs = fs1 @ f # fs2 \<and> new = n1 @ n2 \<and>
         liveExport L (recorded net) ctx cfg now clock fs1 (w, log) = (Inr res1, s1) \<and>
         item_records cfg n1 = map (item_body L) fs1 \<and> leaves L cfg f e n2))"
proof -
  obtain x w1 log1 where loop: "export_loop L (recorded net) ctx cfg clock 0 fs (new_export now) (w, log) = (x, (w1, log1))"
    by (metis prod.collapse)
  have ends: "w1 = w'" "log1 = log'" "(\<exists>e. x = Inl e \<and> r = Inl e) \<or> (\<exists>a b. x = Inr a \<and> r = Inr b)"
    using assms loop by (auto simp: liveExport_def split: sum.splits)
  from loop_recorded [OF loop] obtain new where new: "log' = log @ new" "posts_only new"
    "case x of
       Inr res' \<Rightarrow> item_records cfg new = map (item_body L) fs
     | Inl e \<Rightarrow> (\<exists>fs1 f fs2 res1 s1 n1 n2. fs = fs1 @ f # fs2 \<and> new = n1 @ n2 \<and>
         export_loop L (recorded net) ctx cfg clock 0 fs1 (new_export now) (w, log) = (Inr res1, s1) \<and>
         item_records cfg n1 = map (item_body L) fs1 \<and> leaves L cfg f e n2)" using ends(2) by blast
  show ?thesis using ends(3)
  proof
    assume "\<exists>a b. x = Inr a \<and> r = Inr b"
    with new show ?thesis by (intro exI [of _ new]) auto
  next
    assume "\<exists>e. x = Inl e \<and> r = Inl e"
    then obtain e where e: "x = Inl e" "r = Inl e" by blast
    with new(3) obtain fs1 f fs2 res1 s1 n1 n2 where d: "fs = fs1 @ f # fs2" "new = n1 @ n2"
      "export_loop L (recorded net) ctx cfg clock 0 fs1 (new_export now) (w, log) = (Inr res1, s1)"
      "item_records cfg n1 = map (item_body L) fs1" "leaves L cfg f e n2" by auto
    then have "liveExport L (recorded net) ctx cfg now clock fs1 (w, log) =
        (Inr (res1\<lparr> er_TotalFindings := length fs1 \<rparr>), s1)" by (simp add: liveExport_def)
    then have "\<exists>fs1 f fs2 res1 s1 n1 n2. fs = fs1 @ f # fs2 \<and> new = n1 @ n2 \<and>
         liveExport L (recorded net) ctx cfg now clock fs1 (w, log) = (Inr res1, s1) \<and>
         item_records cfg n1 = map (item_body L) fs1 \<and> leaves L cfg f e n2"
      using d(1,2,4,5) by blast
    with new(1,2) e(2) show ?thesis by (intro exI [of _ new]) (simp only: sum.case simp_thms)
  qed
qed

end
