(* ===== verification/GrcApi.thy ===== *)
theory GrcApi
  imports ServiceNow
begin

text \<open>
  The GRC endpoints of the integration service (services/integration/internal/grc/connector.go,
  handler/handler.go) over the one connector cmd/api/main.go registers, and what an export leaves
  behind when it fails.
\<close>

section \<open>Registry and handlers\<close>

type_synonym grc_registry = "ServiceNowConfig conn_registry"

definition grc_Register :: "string \<Rightarrow> ServiceNowConfig \<Rightarrow> grc_registry \<Rightarrow> grc_registry" where
  "grc_Register name c reg = AList.update name c reg"

definition grc_Get :: "string \<Rightarrow> grc_registry \<Rightarrow> ServiceNowConfig option" where
  "grc_Get name reg = map_of reg name"

definition grc_List :: "nat list \<Rightarrow> grc_registry \<Rightarrow> string list" where
  "grc_List order reg = shuffle order (map fst reg)"

definition grc_main :: "(string \<Rightarrow> string) \<Rightarrow> grc_registry" where
  "grc_main getenv = grc_Register ''servicenow''
     \<lparr> snc_BaseURL = getenv ''SERVICENOW_BASE_URL'', snc_Username = getenv ''SERVICENOW_USERNAME'',
       snc_Password = getenv ''SERVICENOW_PASSWORD'', snc_MockMode = getenv ''MOCK_MODE'' \<noteq> ''false'' \<rparr> []"

record grc_env =
  ge_now :: gotime
  ge_clock :: "nat \<Rightarrow> sn_times"
  ge_order :: "nat list"

text \<open>\<open>GrcSilent\<close>: the handler returns without writing an answer.\<close>

datatype grc_body =
    GrcSilent
  | GrcNames "string list" nat
  | GrcStatus HealthStatus
  | GrcNotFound string "string list"
  | GrcError string string
  | GrcExported string ExportResult

type_synonym grc_response = "int \<times> grc_body"

definition ListGRCConnectors :: "grc_env \<Rightarrow> grc_registry \<Rightarrow> grc_response" where
  "ListGRCConnectors E reg =
     (let names = grc_List (ge_order E) reg in (200, GrcNames names (length names)))"

definition resolveGRCConnector :: "grc_env \<Rightarrow> string \<Rightarrow> grc_registry \<Rightarrow> grc_response + ServiceNowConfig" where
  "resolveGRCConnector E name reg =
     (if name = [] then Inl (200, GrcSilent)
      else (case grc_Get name reg of
              None \<Rightarrow> Inl (404, GrcNotFound (''grc connector not registered: '' @ name)
                (grc_List (ge_order E) reg))
            | Some c \<Rightarrow> Inr c))"

definition GRCConnectorHealth ::
  "'w net \<Rightarrow> grc_env \<Rightarrow> string \<Rightarrow> grc_registry \<Rightarrow> 'w \<Rightarrow> grc_response \<times> 'w" where
  "GRCConnectorHealth net E name reg w =
     (case resolveGRCConnector E name reg of
        Inl r \<Rightarrow> (r, w)
      | Inr c \<Rightarrow>
          (case sn_Health net (ge_now E) None c w of
             (st, w1) \<Rightarrow> ((if hs_Healthy st then 200 else 503, GrcStatus st), w1)))"

text \<open>
  The export's route has no \<open>:connector\<close> segment, so \<open>resolveGRCConnector\<close> is asked for the empty
  name and says nothing. The request's context has no deadline of its own.
\<close>

definition ExportToServiceNow ::
  "sn_lib \<Rightarrow> 'w net \<Rightarrow> grc_env \<Rightarrow> string \<Rightarrow> string + Finding list \<Rightarrow> grc_registry \<Rightarrow> 'w \<Rightarrow> grc_response \<times> 'w" where
  "ExportToServiceNow L net E engagementID body reg w =
     (if engagementID = [] then ((400, GrcError ''INVALID_REQUEST'' ''engagement id is required''), w)
      else
        (case (case resolveGRCConnector E [] reg of Inr c \<Rightarrow> Some c | Inl r \<Rightarrow> grc_Get ''servicenow'' reg) of
           None \<Rightarrow> ((404, GrcNotFound ''servicenow grc connector not registered''
             (grc_List (ge_order E) reg)), w)
         | Some c \<Rightarrow>
             (case body of
                Inl e \<Rightarrow> ((400, GrcError ''INVALID_REQUEST'' e), w)
              | Inr findings \<Rightarrow>
                  (case ExportFindings L net None c (ge_now E) (ge_clock E) findings w of
                     (Inl e, w1) \<Rightarrow> ((502, GrcError ''EXPORT_ERROR'' e), w1)
                   | (Inr result, w1) \<Rightarrow> ((200, GrcExported engagementID result), w1)))))"

section \<open>Exports that succeed, and exports that do not\<close>

lemma export_answers:
  assumes "ExportToServiceNow L net E eng body reg w = ((status, b), w')"
  shows "status = 200 \<Longrightarrow> \<exists>cfg fs res. grc_Get ''servicenow'' reg = Some cfg \<and> body = Inr fs \<and>
      b = GrcExported eng res \<and> ExportFindings L net None cfg (ge_now E) (ge_clock E) fs w = (Inr res, w')"
    "status = 502 \<Longrightarrow> \<exists>cfg fs e. grc_Get ''servicenow'' reg = Some cfg \<and> body = Inr fs \<and>
      b = GrcError ''EXPORT_ERROR'' e \<and>
      ExportFindings L net None cfg (ge_now E) (ge_clock E) fs w = (Inl e, w')"
  using assms
  by (auto simp: ExportToServiceNow_def resolveGRCConnector_def
      split: if_splits option.splits sum.splits prod.splits)

lemma mock_quiet:
  "snc_MockMode cfg \<Longrightarrow> ExportFindings L net ctx cfg now clock fs w = (Inr (mockExport now clock fs), w)"
  by (simp add: ExportFindings_def)

text \<open>
  C27. An export answered with 200 has one item per finding, one risk entry per critical or high
  finding and one task per finding with a recommendation, in the findings' order, each with its
  finding's id and its priority or risk score, and every task refers to its own finding's item; the
  total is right. In mock mode the export always succeeds, calls nobody, and gives every record of
  a kind an id of its own. The engagement is only echoed: the records do not depend on it.
\<close>

theorem servicenow_export_complete:
  "(\<forall>b w'. ExportToServiceNow L net E eng (Inr fs) reg w = ((200, b), w') \<longrightarrow>
     (\<exists>res. b = GrcExported eng res \<and> er_TotalFindings res = length fs \<and>
        faithful fs (er_GRCItems res) (er_RiskEntries res) (er_RemediationTasks res) \<and>
        (eng' \<noteq> [] \<longrightarrow>
          ExportToServiceNow L net E eng' (Inr fs) reg w = ((200, GrcExported eng' res), w')))) \<and>
   (\<forall>cfg. grc_Get ''servicenow'' reg = Some cfg \<and> snc_MockMode cfg \<and> eng \<noteq> [] \<longrightarrow>
     (\<exists>res. ExportToServiceNow L net E eng (Inr fs) reg w = ((200, GrcExported eng res), w) \<and>
        distinct (map gi_SysID (er_GRCItems res)) \<and> distinct (map re_SysID (er_RiskEntries res)) \<and>
        distinct (map rk_SysID (er_RemediationTasks res))))"
proof (intro conjI allI impI; (elim conjE)?)
  fix b w'
  assume "ExportToServiceNow L net E eng (Inr fs) reg w = ((200, b), w')"
  from export_answers(1) [OF this] obtain cfg res where
    cfg: "grc_Get ''servicenow'' reg = Some cfg" "b = GrcExported eng res"
    and ok: "ExportFindings L net None cfg (ge_now E) (ge_clock E) fs w = (Inr res, w')"
    by auto
  from cfg(1) ok have "eng' \<noteq> [] \<longrightarrow>
      ExportToServiceNow L net E eng' (Inr fs) reg w = ((200, GrcExported eng' res), w')"
    by (simp add: ExportToServiceNow_def resolveGRCConnector_def)
  with cfg(2) ExportFindings_faithful [OF ok]
  show "\<exists>res. b = GrcExported eng res \<and> er_TotalFindings res = length fs \<and>
        faithful fs (er_GRCItems res) (er_RiskEntries res) (er_RemediationTasks res) \<and>
        (eng' \<noteq> [] \<longrightarrow>
          ExportToServiceNow L net E eng' (Inr fs) reg w = ((200, GrcExported eng' res), w'))"
    by blast
next
  fix cfg
  assume "grc_Get ''servicenow'' reg = Some cfg" "snc_MockMode cfg" "eng \<noteq> []"
  then have "ExportToServiceNow L net E eng (Inr fs) reg w =
      ((200, GrcExported eng (mockExport (ge_now E) (ge_clock E) fs)), w)"
    by (simp add: ExportToServiceNow_def resolveGRCConnector_def mock_quiet)
  with mockExport_ids show "\<exists>res. ExportToServiceNow L net E eng (Inr fs) reg w = ((200, GrcExported eng res), w) \<and>
        distinct (map gi_SysID (er_GRCItems res)) \<and> distinct (map re_SysID (er_RiskEntries res)) \<and>
        distinct (map rk_SysID (er_RemediationTasks res))"
    by blast
qed

text \<open>
  C28. A failed live export cannot be repeated safely. Its answer is an error text alone, which names
  the finding it failed at; exporting the findings before that one would have succeeded. In ServiceNow
  the items of all those findings have been created, and that of the finding itself, unless it was the
  item that could not be created (and perhaps even then). The service sends nothing but record-creating
  POSTs, so it withdraws none of them; and when the same request is sent again and answered 200, the
  repeat has created an item for every finding once more, again with POSTs alone, so each of those
  findings has two.
\<close>

theorem servicenow_retry_duplicates:
  assumes conn: "grc_Get ''servicenow'' reg = Some cfg" "\<not> snc_MockMode cfg"
    and first: "ExportToServiceNow L (recorded net) E eng (Inr fs) reg (w, []) = ((502, b), (w1, log1))"
  shows "\<exists>kind m fs1 f fs2 res1 s1. b = GrcError ''EXPORT_ERROR'' (create_failed kind f m) \<and>
    fs = fs1 @ f # fs2 \<and>
    ExportToServiceNow L (recorded net) E eng (Inr fs1) reg (w, []) = ((200, GrcExported eng res1), s1) \<and>
    (item_records cfg log1 = map (item_body L) (fs1 @ [f]) \<or>
     kind = ''grc item'' \<and> item_records cfg log1 = map (item_body L) fs1) \<and>
    posts_only log1 \<and>
    (\<forall>E' b' w2 log2.
       ExportToServiceNow L (recorded net) E' eng (Inr fs) reg (w1, log1) = ((200, b'), (w2, log2)) \<longrightarrow>
       posts_only log2 \<and>
       item_records cfg log2 = item_records cfg log1 @ map (item_body L) (fs1 @ f # fs2))"
proof -
  from export_answers(2) [OF first] conn obtain e where e: "b = GrcError ''EXPORT_ERROR'' e"
    and run1: "liveExport L (recorded net) None cfg (ge_now E) (ge_clock E) fs (w, []) = (Inl e, (w1, log1))"
    by (auto simp: ExportFindings_def)
  from liveExport_recorded [OF run1] obtain fs1 f fs2 res1 s1 n1 n2 where
    d: "fs = fs1 @ f # fs2" "log1 = n1 @ n2" "posts_only log1"
      "liveExport L (recorded net) None cfg (ge_now E) (ge_clock E) fs1 (w, []) = (Inr res1, s1)"
      "item_records cfg n1 = map (item_body L) fs1" "leaves L cfg f e n2" by auto
  from d(6) obtain kind m where k: "e = create_failed kind f m"
    "item_records cfg n2 = [item_body L f] \<or> kind = ''grc item'' \<and> item_records cfg n2 = []"
    unfolding leaves_def by blast
  have "eng \<noteq> []" using first by (auto simp: ExportToServiceNow_def)
  then have before: "ExportToServiceNow L (recorded net) E eng (Inr fs1) reg (w, []) =
      ((200, GrcExported eng res1), s1)"
    using conn d(4) by (simp add: ExportToServiceNow_def resolveGRCConnector_def ExportFindings_def)
  have again: "posts_only log2 \<and> item_records cfg log2 = item_records cfg log1 @ map (item_body L) fs"
    if run2: "ExportToServiceNow L (recorded net) E' eng (Inr fs) reg (w1, log1) = ((200, b'), (w2, log2))"
    for E' b' w2 log2
  proof -
    from export_answers(1) [OF run2] conn obtain res where
      "liveExport L (recorded net) None cfg (ge_now E') (ge_clock E') fs (w1, log1) = (Inr res, (w2, log2))"
      by (auto simp: ExportFindings_def)
    from liveExport_recorded [OF this] d(3) show ?thesis by auto
  qed
  have "item_records cfg log1 = map (item_body L) (fs1 @ [f]) \<or>
     kind = ''grc item'' \<and> item_records cfg log1 = map (item_body L) fs1"
    using k(2) d(2,5) by auto
  with e k(1) d(1,3) before again show ?thesis
    by (intro exI [of _ kind] exI [of _ m] exI [of _ fs1] exI [of _ f] exI [of _ fs2] exI [of _ res1]
        exI [of _ s1]) simp
qed

section \<open>Examples\<close>

text \<open>
  ServiceNow is down for the second call. The two findings have a low severity and no recommendation,
  so each needs one record.
\<close>

definition demo_sn_lib :: sn_lib where
  "demo_sn_lib = \<lparr> sn_marshal = (\<lambda>p. concat (map fst p)), sn_sysid = (\<lambda>s. Inr ''id''), sn_RFC3339 = (\<lambda>t. []) \<rparr>"

definition demo_sn_net :: "nat net" where
  "demo_sn_net q w = (if w = 1 then DoError ''connection refused'' else Answer 201 [] None, w + 1)"

definition demo_grc_env :: grc_env where
  "demo_grc_env = \<lparr> ge_now = 0, ge_clock = (\<lambda>i. (0, 0, 0)), ge_order = [] \<rparr>"

definition demo_finding :: "string \<Rightarrow> Finding" where
  "demo_finding n = \<lparr> gf_ID = n, gf_Ref = [], gf_Title = ''t'', gf_Description = ''d'',
     gf_Severity = GrcSeverityLow, gf_Recommendation = [], gf_ControlRef = [], gf_AssetRef = [],
     gf_DetectedAt = 0 \<rparr>"

definition demo_findings :: "Finding list" where
  "demo_findings = [demo_finding ''f1'', demo_finding ''f2'']"

definition demo_grc_cfg :: "bool \<Rightarrow> ServiceNowConfig" where
  "demo_grc_cfg mock = \<lparr> snc_BaseURL = [], snc_Username = [], snc_Password = [], snc_MockMode = mock \<rparr>"

definition demo_grc :: "bool \<Rightarrow> grc_registry" where
  "demo_grc mock = [(''servicenow'', demo_grc_cfg mock)]"

theorem servicenow_export_complete_witness:
  "\<exists>res. ExportToServiceNow demo_sn_lib demo_sn_net demo_grc_env ''e1'' (Inr demo_findings) (demo_grc True) 0 =
      ((200, GrcExported ''e1'' res), 0) \<and> distinct (map gi_SysID (er_GRCItems res))"
proof -
  have "grc_Get ''servicenow'' (demo_grc True) = Some (demo_grc_cfg True)" "snc_MockMode (demo_grc_cfg True)"
    by (simp_all add: grc_Get_def demo_grc_def demo_grc_cfg_def)
  then show ?thesis
    using servicenow_export_complete [of demo_sn_lib demo_sn_net demo_grc_env "''e1''" demo_findings
        "demo_grc True" 0 "[]", THEN conjunct2]
    by auto
qed

lemma demo_grc_live: "grc_Get ''servicenow'' (demo_grc False) = Some (demo_grc_cfg False)"
  "\<not> snc_MockMode (demo_grc_cfg False)"
  by (simp_all add: grc_Get_def demo_grc_def demo_grc_cfg_def)

lemmas demo_grc_eval = ExportToServiceNow_def resolveGRCConnector_def demo_grc_live(1) ExportFindings_def
  liveExport_def demo_grc_cfg_def demo_findings_def export_finding_def createGRCItem_def recorded_def
  demo_sn_net_def demo_sn_lib_def demo_grc_env_def sn_created_def grc_item_def export_risk_def
  export_task_def needs_risk_def needs_task_def demo_finding_def GrcSeverityLow_def
  GrcSeverityCritical_def GrcSeverityHigh_def

lemma demo_first: "\<exists>b log. ExportToServiceNow demo_sn_lib (recorded demo_sn_net) demo_grc_env ''e1''
    (Inr demo_findings) (demo_grc False) (0, []) = ((502, b), (2, log)) \<and>
    length (item_records (demo_grc_cfg False) log) = 1"
  by (simp add: demo_grc_eval item_records_def sn_post_def)

lemma demo_again: "\<exists>b log'. ExportToServiceNow demo_sn_lib (recorded demo_sn_net) demo_grc_env ''e1''
    (Inr demo_findings) (demo_grc False) (2, log) = ((200, b), (4, log'))"
  by (simp add: demo_grc_eval)

text \<open>Two findings, and three items: the first one's was created twice.\<close>

theorem servicenow_retry_duplicates_witness:
  "\<exists>b b' log log'. ExportToServiceNow demo_sn_lib (recorded demo_sn_net) demo_grc_env ''e1''
      (Inr demo_findings) (demo_grc False) (0, []) = ((502, b), (2, log)) \<and>
    ExportToServiceNow demo_sn_lib (recorded demo_sn_net) demo_grc_env ''e1''
      (Inr demo_findings) (demo_grc False) (2, log) = ((200, b'), (4, log')) \<and>
    length demo_findings = 2 \<and> length (item_records (demo_grc_cfg False) log') = 3 \<and> posts_only log'"
proof -
  obtain b log where one: "ExportToServiceNow demo_sn_lib (recorded demo_sn_net) demo_grc_env ''e1''
      (Inr demo_findings) (demo_grc False) (0, []) = ((502, b), (2, log))"
    and len: "length (item_records (demo_grc_cfg False) log) = 1"
    using demo_first by blast
  obtain b' log' where two: "ExportToServiceNow demo_sn_lib (recorded demo_sn_net) demo_grc_env ''e1''
      (Inr demo_findings) (demo_grc False) (2, log) = ((200, b'), (4, log'))"
    using demo_again by blast
  from servicenow_retry_duplicates [OF demo_grc_live one] two obtain fs1 f fs2 where
    "demo_findings = fs1 @ f # fs2" "posts_only log'"
    "item_records (demo_grc_cfg False) log' =
       item_records (demo_grc_cfg False) log @ map (item_body demo_sn_lib) (fs1 @ f # fs2)"
    by blast
  moreover from this(3) len \<open>demo_findings = fs1 @ f # fs2\<close>
  have "length (item_records (demo_grc_cfg False) log') = 1 + length demo_findings" by simp
  moreover have "length demo_findings = 2" by (simp add: demo_findings_def)
  ultimately show ?thesis using one two by auto
qed

end
