(* ===== verification/Spec2Isabelle.thy ===== *)
theory Spec2Isabelle
  imports ApprovalService EngagementService PlanningService AuditTrail Gateway Pagination
    SdkBreaker IntegrationBreaker WebhooksRetry WebhookApi ControlSystem EvidenceSystem
    SdkRetry SdkBucket SdkAuth IdentityAccess IamAdapters SiemApi HubMock VulnApi
    GrcApi
begin

text \<open>
  A model of the Go services of \<open>obvious\<close>, an internal-audit platform, and of the theorems that
  make their core logic correct. All paths below are relative to \<open>src/\<close>.

  \<^bold>\<open>The program.\<close> Requests enter through the API gateway (\<open>services/gateway\<close>), which limits their
  rate, authenticates the bearer token, checks a permission and forwards them to one of the
  services. The services modelled here are approval workflows (\<open>services/approval\<close>),
  engagements (\<open>services/engagement\<close>) and audit planning (\<open>services/planning\<close>), which each keep an
  in-memory store scoped by organisation, and the audit trail (\<open>services/audit-trail\<close>), which
  keeps a hash chain per organisation in one append-only PostgreSQL table. Two services deliver
  events to subscribers' URLs from queues in PostgreSQL: \<open>services/webhooks\<close>, and the older
  \<open>services/webhook\<close>. The control framework (\<open>services/control-framework\<close>) keeps the frameworks,
  their controls and the state of each control's assessment, in PostgreSQL or in memory. The
  identity service (\<open>services/identity\<close>) registers users, logs them in and keeps organisations and
  roles. The evidence service (\<open>services/evidence\<close>) ingests evidence, classifies it, scores it and says whether a
  control has enough of it. The permission matrix
  exists twice, in the identity service (\<open>services/identity/pkg/rbac\<close>) and in the gateway. The
  integration service (\<open>services/integration\<close>) fetches logs, findings, vulnerabilities and identity
  records from the products of other vendors, makes evidence of them, and exports findings to
  ServiceNow; it and the Connector SDK protect calls to external systems with circuit
  breakers (\<open>services/integration/internal/connector\<close>, \<open>.../iam\<close>, \<open>sdk/connector/circuit\<close>).

  \<^bold>\<open>The theories, in the order they build on each other.\<close>

  \<^item> \<open>Prelude\<close>: the types all models share. A UUID is a \<open>128 word\<close>, a \<open>time.Time\<close> an instant in
    nanoseconds, a Go \<open>int\<close> or \<open>int64\<close> an \<open>int\<close> with the wrap-around written out (\<open>wrap64\<close>) where the
    code adds or multiplies, \<open>time.Sub\<close> saturating as in Go; an HTTP answer is a \<open>response\<close>; a
    decoded body is \<open>Inl\<close> the decoder's message or \<open>Inr\<close> the request.
  \<^item> \<open>OrgStore\<close>: the contract of a map of records scoped by organisation (locales \<open>org_store\<close> and
    \<open>org_store_create\<close>): what \<open>Get\<close>, \<open>Update\<close> and \<open>Create\<close> promise, and what follows for clients
    that load, modify and save. It is interpreted on all six stores of the three services.
  \<^item> \<open>ApprovalDomain\<close> (\<open>internal/domain/workflow.go\<close>): the workflow record, the table of
    approvers, the five transitions, and the abstract machine \<open>wf_edge\<close> they refine.
    \<open>ApprovalService\<close> (\<open>internal/store/store.go\<close>, \<open>internal/handler/handler.go\<close>): the store and
    the handlers, run one request at a time (\<open>served\<close>) and with loads and saves interleaved
    (\<open>conc_step\<close>).
  \<^item> \<open>EngagementDomain\<close>, \<open>EngagementService\<close>: the engagement lifecycle, its store and handlers.
  \<^item> \<open>PlanningDomain\<close>, \<open>PlanningService\<close>: strategic and annual plans, assurance maps, resource
    calendars, their four stores and the 22 handlers.
  \<^item> \<open>GoText\<close>: the standard library functions on strings that the other models call
    (\<open>strconv.Atoi\<close>, URL-safe base64, \<open>strings.SplitN\<close>, \<open>EqualFold\<close>, \<open>TrimPrefix\<close>).
  \<^item> \<open>HashChain\<close> (\<open>internal/hashchain\<close>, \<open>internal/model\<close>), \<open>AuditTrail\<close> (\<open>internal/store\<close>,
    \<open>internal/handler\<close>): the chained hash, its verification, the table and the handlers.
    \<open>AppendEvent\<close> is split into the half that reads the chain head (\<open>append_prepare\<close>) and the half
    that inserts (\<open>append_finish\<close>), so that two requests can be interleaved between them.
  \<^item> \<open>Rbac\<close>: both permission matrices. \<open>GatewayAuth\<close> (\<open>internal/middleware/auth.go\<close>): key cache,
    token verification, the two middlewares; the locale \<open>token_verifier\<close> is the interface
    \<open>Verifier\<close>, interpreted on both implementations. \<open>RateLimit\<close> (\<open>ratelimit.go\<close>): the Lua script
    and the middleware. \<open>Gateway\<close> (\<open>internal/proxy/router.go\<close>): mounts, proxy and the whole chain.
    \<open>Pagination\<close> (\<open>internal/pagination\<close> and the demonstration endpoint).
  \<^item> \<open>WebhooksStore\<close> (\<open>services/webhooks/internal/model\<close>, \<open>signer\<close>, \<open>store\<close>), \<open>WebhooksDelivery\<close>
    (\<open>delivery\<close>), \<open>WebhooksHandler\<close> (\<open>handler\<close>): the two tables as lists of rows, with their
    statements; the worker, whose attempts run concurrently, each with a snapshot of its delivery;
    the handlers. \<open>WebhooksSystem\<close> puts them together as the step relation \<open>wh_step\<close>;
    \<open>WebhooksRetry\<close> counts what is sent for a delivery in its orderly runs.
  \<^item> \<open>WebhookQueue\<close> (\<open>services/webhook/internal/domain\<close>, \<open>signer\<close>, \<open>store\<close>), \<open>WebhookWorker\<close>
    (\<open>worker\<close>): the worker's \<open>Queue\<close> interface is the locale \<open>delivery_queue\<close>, interpreted on the
    PostgreSQL store. \<open>WebhookApi\<close> (\<open>handler\<close>): the handlers and the step relation \<open>q_step\<close>.
  \<^item> \<open>ControlDomain\<close> (\<open>services/control-framework/internal/domain\<close>): the types and the table of
    assessment moves. \<open>ControlRepo\<close>: the \<open>Repository\<close> interface as a record of operations, and the
    in-memory one; \<open>ControlPostgres\<close>: the one on PostgreSQL. \<open>ControlService\<close> (\<open>service\<close>, \<open>handlers\<close>,
    \<open>middleware\<close>, \<open>cmd/api/main.go\<close>): \<open>AssessControl\<close> is split at its check, \<open>assess_begin\<close> and
    \<open>assess_finish\<close>, so that requests can be interleaved. \<open>ControlAssessments\<close>: the laws of a
    repository's assessments are the locale \<open>assessment_repo\<close>, interpreted on both repositories.
    \<open>ControlSystem\<close> holds the properties.
  \<^item> \<open>Float64\<close>: IEEE double arithmetic as exact rationals rounded after each operation.
    \<open>EvidenceModel\<close> (\<open>services/evidence/internal/models\<close>, \<open>classifier\<close>), \<open>EvidenceScorer\<close> (\<open>scorer\<close>,
    \<open>sufficiency\<close>), \<open>EvidenceService\<close> (\<open>ingester\<close>, \<open>repository\<close>, \<open>handler\<close>), \<open>EvidenceRecords\<close> (what
    the critical sections of its requests, \<open>ev_step\<close>, leave in the three maps, each an
    interpretation of the locale \<open>record_map\<close>) and \<open>EvidenceSystem\<close> with the properties.
  \<^item> \<open>Breaker\<close>: the states, an abstract breaker \<open>abs_call\<close> and the locale \<open>breaker\<close> of those that
    simulate it; \<open>SdkBreaker\<close> and \<open>IntegrationBreaker\<close>: the three concrete ones, each an
    interpretation.
  \<^item> \<open>SdkRetry\<close> (\<open>sdk/connector/retry\<close>): the backoff and both retry loops. \<open>SdkBucket\<close>
    (\<open>ratelimit/token_bucket.go\<close>): the token bucket, each locked method one step at one reading of
    the clock. \<open>SdkAuth\<close> (\<open>registry.go\<close>, \<open>auth/auth.go\<close>): the registry, the API key and the cached
    OAuth 2.0 token.
  \<^item> \<open>PasswordHash\<close> (\<open>services/identity/pkg/crypto\<close>), \<open>IdentityModel\<close> (\<open>internal/models\<close>, \<open>pkg/jwt\<close>,
    \<open>internal/service/session.go\<close>), \<open>IdentityRepo\<close> (\<open>internal/repository\<close>): passwords, tokens, sessions
    in Redis and the four tables. \<open>IdentityApi\<close> (\<open>internal/middleware\<close>, \<open>internal/handlers\<close>,
    \<open>cmd/api/main.go\<close>): middleware, handlers and routes; \<open>Refresh\<close> is split at its look-up.
    \<open>IdentityTables\<close>: what every statement leaves of the tables. \<open>IdentitySystem\<close>: requests as
    interleaved statements (\<open>id_statement\<close>), sessions; \<open>IdentityAccess\<close>: who gets in and whose rows a
    request can touch. \<open>IdentityExample\<close>: concrete parameters for the witnesses.
  \<^item> \<open>IntegrationHttp\<close> (\<open>services/integration/internal/connector\<close>): log entries, the registry, and a
    call to a provider: the network is a function from a request and a state of the outside world to
    an answer and the next state. \<open>IamEvidence\<close> (\<open>internal/iam/connector.go\<close>, \<open>evidence.go\<close>),
    \<open>IamScheduler\<close> (\<open>iam/scheduler.go\<close>, \<open>handler/iam_handler.go\<close>): identity records, their evidence,
    the scheduler and its endpoints, with a store of the arrays that slices share. \<open>IamAdapters\<close>
    (\<open>adapters/okta.go\<close>, \<open>entraid.go\<close>). \<open>SiemAdapters\<close> (\<open>splunk.go\<close>, \<open>sentinel.go\<close>), \<open>AsffNormalizer\<close>
    (\<open>asff_normalizer.go\<close>), \<open>SecurityHub\<close> and \<open>HubMock\<close> (\<open>aws_security_hub.go\<close>), \<open>SiemApi\<close>
    (\<open>handler/handler.go\<close>, \<open>cmd/api/main.go\<close>): logs behind circuit breakers, compliance, the security
    score. \<open>VulnEvidence\<close> (\<open>internal/vulnconnector\<close>), \<open>VulnAdapters\<close> and \<open>VulnMocks\<close> (\<open>tenable.go\<close>,
    \<open>qualys.go\<close>, \<open>crowdstrike.go\<close>), \<open>VulnApi\<close>: vulnerabilities and endpoints. \<open>ServiceNow\<close>
    (\<open>internal/grc\<close>, \<open>servicenow.go\<close>), \<open>GrcApi\<close>: the export. \<open>MapWalk\<close>: the order of a map walk loses
    no entry.

  \<^bold>\<open>What the theorems show.\<close> Each property is numbered where it is stated. Approvals: histories are
  runs of the machine, no approval without submission and an allowed role, tenants are isolated,
  locked workflows are final when requests come one at a time, and how interleaved requests lose a
  lock. Audit trail: verified chains are tamper-evident (two chains with one head hold the same texts,
  or two given texts collide), verification is exact, appends are append-only and linked, and two
  defects: appended events do not verify, and concurrent appends fork the chain. Webhooks: the
  lifecycle of a delivery under any interleaving, who is sent what and how it is signed, how often
  when attempts do not overlap and the database keeps up, isolation, and the defects found: a
  delivery log open to every
  organisation, NULL columns that stop all deliveries, a queue that can be blocked, a delivered
  event sent again, and an older worker that never sends. Controls: assessments follow the machine
  with either repository when requests come one at a time, interleaved ones break it, the wired
  routes refuse every request that needs an organisation, and updates cross tenants. Evidence: all
  records are well formed under any interleaving, the classifier takes the best rule, a batch is
  its items, scores are never refreshed, how far the verdict of sufficiency can be from the exact
  one, and that at the threshold it depends on the order of a map. Gateway: it forwards only what is
  authenticated and authorised, the limiter is a sliding window over different members, the two matrices agree and
  separate duties, and where the wiring falls short of its intent. Plans and engagements:
  lifecycles and isolation. Breakers: invariants, trip and recovery, and that all three agree for
  sequential callers. SDK: the retry loop ends and its backoff follows the documented schedule until
  it overflows, the token bucket keeps its rate with any number of callers and lets a waiting one
  through if no other takes its token, the registry is a map, and the OAuth client never sends an expired token. Identity: the tables stay sound under any interleaving, the rows of
  organisations are kept apart (not their list, nor sessions at logout), passwords verify, a refresh
  token is used once when requests come one at a time and Redis deletes; and the defects: a failed
  deletion that is ignored, open registration under any persona, a refresh token that authenticates, one exchanged
  twice by overlapping requests, and tokens that outlive a deactivation. Integration: every record
  yields its evidence and every finding its exported records, normalised scores stay in their range,
  compliance summaries agree with a count over the findings whatever the order of the maps, an
  evidence request is all or nothing, stored evidence comes from the last sync; and the defects: a
  filtered read that overwrites stored evidence, a log endpoint that gives its providers 30
  nanoseconds, a live sync that finds everybody without authentication factors, and an export that
  cannot be repeated after a failure. Smaller ones: cursors, utilisation, the key cache, the assurance matrix,
  audit queries.

  \<^bold>\<open>Parameters.\<close> What is not in the repository is an argument of the definitions: \<open>uuid.Parse\<close>
  and \<open>time.Parse\<close>; the JWT library (\<open>jwt_checker\<close>); the chi router (record \<open>chi\<close>); Redis's
  sorted sets (record \<open>zset_ops\<close>, with their documented laws \<open>zset_ok\<close>, expiry included); JSON, SHA-256, UUID and
  time formatting (record \<open>codec\<close>, with \<open>plain_strings\<close>: JSON writes a string of letters and
  underscores as it is, in quotes, and \<open>digest_ok\<close>: a digest is not empty and holds no brace; nothing
  is assumed of collisions, the theorems name the texts that would collide); what PostgreSQL keeps of a
  value (record \<open>pg\<close>); the webhook services' JSON, digests and texts (\<open>wh_codec\<close>, \<open>hmac\<close>), what
  pgx does to a NULL (\<open>pgx\<close>), the control framework's database (\<open>cf_pg\<close>), the evidence service's
  Unicode, UUID, JSON and CSV routines (\<open>ev_lib\<close>), column defaults (\<open>q_defaults\<close>), the retry loop's
  context, random numbers and \<open>math.Pow\<close> (\<open>retry_env\<close>), the HTTP routines of the SDK's
  authentication (\<open>auth_lib\<close>), the identity service's signing, UUID texts, JSON and
  \<open>argon2.IDKey\<close> (\<open>id_lib\<close>), its Redis (\<open>redis_ops\<close>) and what surrounds a request (\<open>id_env\<close>), the HTTP client, whose answer is
  an argument of the attempt or, in the integration service, comes from the network (\<open>net\<close>), and the
  decoding of each provider's responses and the parsing of times (\<open>siem_lib\<close>, \<open>vuln_lib\<close>, \<open>entra_lib\<close>,
  \<open>sn_lib\<close>). Fresh UUIDs, the clock, the order in which a Go map is walked and the
  failures of the database are arguments too. Each hypothesis on a parameter has a witness with a
  concrete function.

  \<^bold>\<open>Bounds.\<close> No definition uses fuel. A few theorems ask that a counter stays below \<open>2 ^ 63\<close>,
  which is the width of the Go integer; the counters themselves wrap in the model.

  \<^bold>\<open>Not modelled.\<close> JSON encoding and HTTP transport, logging, configuration and process start-up;
  mutexes, except that each locked section is one step; pointer aliasing inside the request and
  record types (the stores copy, see \<open>copyWorkflow\<close>); the tickers that start the delivery workers; the
  range, the infinities and NaN of floating point, which no value of the evidence service comes
  near, and fused multiply-add, which Go's compiler does not use on amd64. Starting and
  cancelling the sync loops of the integration service is not modelled either, nor that its requests
  can race on the memory of a slice: each handler is one step. The search and reporting services,
  which drive external libraries, are left aside.
\<close>

end
